(* ===== verification/Rust_Prelude.thy ===== *)
theory Rust_Prelude
  imports Main
    "HOL-Library.Word"
    "HOL-Library.Sublist"
    "HOL-Library.List_Lexorder"
    "HOL-Library.Char_ord"
begin

section \<open>The Rust standard library as the components use it\<close>

text \<open>
  A Rust \<open>str\<close> is its list of UTF-8 bytes: \<open>string\<close>, a list of 8-bit \<open>char\<close>s, so
  that \<open>length\<close> is \<open>str::len\<close> and byte offsets are list positions.  Every pattern the
  program searches for is ASCII, and no byte of a multi-byte UTF-8 sequence is an ASCII byte,
  so a test on a \<open>char\<close> of the source is the same test on the byte at its position.  The
  order on strings is the byte-wise lexicographic one, which is \<open>Ord for str\<close>.
  This theory holds the string functions (search, split, trim, ASCII classes), the fixed-width
  integers and the collection of rewrite rules that the components share.
\<close>

named_theorems rust_str \<open>rewrite rules for the string functions\<close>

subsection \<open>Fixed-width integers\<close>

type_synonym u8 = "8 word"
type_synonym u16 = "16 word"
type_synonym u32 = "32 word"
type_synonym u64 = "64 word"
type_synonym i32 = "32 word"

definition u32_try_from :: "nat \<Rightarrow> u32 option" where
  "u32_try_from n = (if n < 2 ^ 32 then Some (of_nat n) else None)"

text \<open>\<open>u32::try_from(n).unwrap_or_default()\<close>.\<close>

definition u32_or_default :: "nat \<Rightarrow> u32" where
  "u32_or_default n = (case u32_try_from n of None \<Rightarrow> 0 | Some w \<Rightarrow> w)"

definition checked_add :: "'n::len word \<Rightarrow> 'n word \<Rightarrow> 'n word option" where
  "checked_add a b = (if unat a + unat b < 2 ^ LENGTH('n) then Some (a + b) else None)"

definition checked_mul :: "'n::len word \<Rightarrow> 'n word \<Rightarrow> 'n word option" where
  "checked_mul a b = (if unat a * unat b < 2 ^ LENGTH('n) then Some (a * b) else None)"

definition saturating_add :: "'n::len word \<Rightarrow> 'n word \<Rightarrow> 'n word" where
  "saturating_add a b = of_nat (min (unat a + unat b) (2 ^ LENGTH('n) - 1))"

lemma unat_checked_add: "checked_add a b = Some c \<Longrightarrow> unat c = unat a + unat b"
  by (auto simp: checked_add_def unat_word_ariths split: if_splits)

lemma unat_checked_mul: "checked_mul a b = Some c \<Longrightarrow> unat c = unat a * unat b"
  by (auto simp: checked_mul_def unat_word_ariths split: if_splits)

lemma unat_saturating_add:
  fixes a b :: "'n::len word"
  shows "unat (saturating_add a b) = min (unat a + unat b) (2 ^ LENGTH('n) - 1)"
proof -
  have "min (unat a + unat b) (2 ^ LENGTH('n) - 1) < (2::nat) ^ LENGTH('n)"
    by (rule le_less_trans [OF min.cobounded2]) simp
  then show ?thesis by (simp add: saturating_add_def unat_of_nat)
qed

lemma unat_u32_try_from: "u32_try_from n = Some w \<Longrightarrow> unat w = n"
  by (auto simp: u32_try_from_def unat_of_nat split: if_splits)

subsection \<open>Bytes\<close>

definition byte :: "char \<Rightarrow> nat" where
  "byte c = of_char c"

definition is_ascii_digit :: "char \<Rightarrow> bool" where
  "is_ascii_digit c \<longleftrightarrow> 48 \<le> byte c \<and> byte c \<le> 57"

definition is_ascii_uppercase :: "char \<Rightarrow> bool" where
  "is_ascii_uppercase c \<longleftrightarrow> 65 \<le> byte c \<and> byte c \<le> 90"

definition is_ascii_lowercase :: "char \<Rightarrow> bool" where
  "is_ascii_lowercase c \<longleftrightarrow> 97 \<le> byte c \<and> byte c \<le> 122"

definition is_ascii_alphabetic :: "char \<Rightarrow> bool" where
  "is_ascii_alphabetic c \<longleftrightarrow> is_ascii_uppercase c \<or> is_ascii_lowercase c"

definition is_ascii_alphanumeric :: "char \<Rightarrow> bool" where
  "is_ascii_alphanumeric c \<longleftrightarrow> is_ascii_alphabetic c \<or> is_ascii_digit c"

definition to_ascii_lowercase :: "string \<Rightarrow> string" where
  "to_ascii_lowercase s = map (\<lambda>c. if is_ascii_uppercase c then char_of (byte c + 32) else c) s"

text \<open>A UTF-8 continuation byte; a byte offset is a char boundary when no continuation byte
  stands there.\<close>

definition is_continuation :: "char \<Rightarrow> bool" where
  "is_continuation c \<longleftrightarrow> 128 \<le> byte c \<and> byte c < 192"

definition is_char_boundary :: "string \<Rightarrow> nat \<Rightarrow> bool" where
  "is_char_boundary s i \<longleftrightarrow> i = length s \<or> (i < length s \<and> (i = 0 \<or> \<not> is_continuation (s ! i)))"

lemmas ascii_class_defs =
  byte_def is_ascii_digit_def is_ascii_uppercase_def is_ascii_lowercase_def
  is_ascii_alphabetic_def is_ascii_alphanumeric_def

lemma length_to_ascii_lowercase [simp]: "length (to_ascii_lowercase s) = length s"
  by (simp add: to_ascii_lowercase_def)

subsection \<open>Searching and splitting\<close>

text \<open>\<open>str::starts_with\<close> is \<open>prefix p s\<close>, \<open>str::ends_with\<close> is \<open>suffix p s\<close> (argument
  order of the library constants: the pattern first).\<close>

definition strip_prefix :: "string \<Rightarrow> string \<Rightarrow> string option" where
  "strip_prefix p s = (if prefix p s then Some (drop (length p) s) else None)"

definition strip_suffix :: "string \<Rightarrow> string \<Rightarrow> string option" where
  "strip_suffix p s = (if suffix p s then Some (take (length s - length p) s) else None)"

fun str_find :: "string \<Rightarrow> string \<Rightarrow> nat option" where
  "str_find p [] = (if p = [] then Some 0 else None)"
| "str_find p (c # s) = (if prefix p (c # s) then Some 0 else map_option Suc (str_find p s))"

definition str_contains :: "string \<Rightarrow> string \<Rightarrow> bool" where
  "str_contains p s \<longleftrightarrow> str_find p s \<noteq> None"

fun str_rfind :: "string \<Rightarrow> string \<Rightarrow> nat option" where
  "str_rfind p [] = (if p = [] then Some 0 else None)"
| "str_rfind p (c # s) =
     (case str_rfind p s of
        Some i \<Rightarrow> Some (Suc i)
      | None \<Rightarrow> if prefix p (c # s) then Some 0 else None)"

definition split_once :: "string \<Rightarrow> string \<Rightarrow> (string \<times> string) option" where
  "split_once p s =
     (case str_find p s of
        None \<Rightarrow> None
      | Some i \<Rightarrow> Some (take i s, drop (i + length p) s))"

text \<open>\<open>str::split(c)\<close> for a one-byte separator: always at least one piece.\<close>

fun split_char :: "char \<Rightarrow> string \<Rightarrow> string list" where
  "split_char d [] = [[]]"
| "split_char d (c # s) =
     (if c = d then [] # split_char d s
      else (case split_char d s of
              [] \<Rightarrow> [[c]]
            | p # ps \<Rightarrow> (c # p) # ps))"

fun join :: "string \<Rightarrow> string list \<Rightarrow> string" where
  "join sep [] = []"
| "join sep [x] = x"
| "join sep (x # y # xs) = x @ sep @ join sep (y # xs)"

lemma strip_prefix_Some: "strip_prefix p s = Some r \<longleftrightarrow> s = p @ r"
  by (auto simp: strip_prefix_def prefix_def)

lemma strip_suffix_Some: "strip_suffix p s = Some r \<longleftrightarrow> s = r @ p"
  by (auto simp: strip_suffix_def suffix_def)

lemma str_find_Some_prefix: "str_find p s = Some i \<Longrightarrow> i \<le> length s \<and> prefix p (drop i s)"
  by (induction s arbitrary: i) (auto split: if_splits)

lemma str_find_least: "str_find p s = Some i \<Longrightarrow> j < i \<Longrightarrow> \<not> prefix p (drop j s)"
proof (induction s arbitrary: i j)
  case Nil
  then show ?case by (simp split: if_splits)
next
  case (Cons c s)
  then show ?case by (cases j) (auto split: if_splits)
qed

lemma str_find_None: "str_find p s = None \<longleftrightarrow> (\<forall>j \<le> length s. \<not> prefix p (drop j s))"
proof (induction s)
  case Nil
  then show ?case by simp
next
  case (Cons c s)
  have "(\<forall>j \<le> length (c # s). \<not> prefix p (drop j (c # s))) \<longleftrightarrow>
        \<not> prefix p (c # s) \<and> (\<forall>j \<le> length s. \<not> prefix p (drop j s))"
    by (metis drop0 drop_Suc_Cons le_SucE le0 length_Cons not_less_eq_eq old.nat.exhaust)
  with Cons show ?case by auto
qed

lemma str_find_bound: "str_find p s = Some i \<Longrightarrow> i + length p \<le> length s"
  using str_find_Some_prefix [of p s i] prefix_length_le [of p "drop i s"] by auto

lemma split_once_Some: "split_once p s = Some (a, b) \<Longrightarrow> s = a @ p @ b"
proof -
  assume "split_once p s = Some (a, b)"
  then obtain i where i: "str_find p s = Some i" and ab: "a = take i s" "b = drop (i + length p) s"
    by (auto simp: split_once_def split: option.splits)
  from str_find_Some_prefix [OF i] obtain r where r: "drop i s = p @ r"
    by (auto simp: prefix_def)
  then have "drop (i + length p) s = r"
    by (metis add.commute append_eq_conv_conj drop_drop)
  with r ab show ?thesis by (metis append_take_drop_id)
qed

lemma split_char_not_Nil [simp]: "split_char d s \<noteq> []"
  by (induction s) (auto split: list.splits)

lemma split_char_no_sep: "p \<in> set (split_char d s) \<Longrightarrow> d \<notin> set p"
proof (induction s arbitrary: p)
  case Nil
  then show ?case by simp
next
  case (Cons c s)
  show ?case
  proof (cases "split_char d s")
    case Nil
    then show ?thesis by simp
  next
    case (Cons q qs)
    with Cons.IH Cons.prems show ?thesis by (auto split: if_splits)
  qed
qed

lemma join_split_char: "join [d] (split_char d s) = s"
proof (induction s)
  case Nil
  then show ?case by simp
next
  case (Cons c s)
  show ?case
  proof (cases "split_char d s")
    case Nil
    then show ?thesis by simp
  next
    case (Cons p ps)
    with Cons.IH show ?thesis by (cases ps) auto
  qed
qed

subsection \<open>Trimming\<close>

text \<open>
  The UTF-8 encodings of the characters of \<open>char::is_whitespace\<close> (Unicode
  \<open>White_Space\<close>).  A trim removes encodings from an end as long as there is one; UTF-8 is
  self-synchronising, so this is the trim over decoded characters.
\<close>

definition whitespace_codes :: "nat list list" where
  "whitespace_codes =
     [[9], [10], [11], [12], [13], [32],
      [194, 133], [194, 160],
      [225, 154, 128],
      [226, 128, 128], [226, 128, 129], [226, 128, 130], [226, 128, 131], [226, 128, 132],
      [226, 128, 133], [226, 128, 134], [226, 128, 135], [226, 128, 136], [226, 128, 137],
      [226, 128, 138], [226, 128, 168], [226, 128, 169], [226, 128, 175],
      [226, 129, 159], [227, 128, 128]]"

definition is_ws :: "string \<Rightarrow> bool" where
  "is_ws s \<longleftrightarrow> map byte s \<in> set whitespace_codes"

definition ws_front :: "string \<Rightarrow> nat" where
  "ws_front s =
     (if is_ws (take 1 s) then 1
      else if is_ws (take 2 s) then 2
      else if is_ws (take 3 s) then 3 else 0)"

definition ws_back :: "string \<Rightarrow> nat" where
  "ws_back s =
     (if is_ws (drop (length s - 1) s) then 1
      else if is_ws (drop (length s - 2) s) then 2
      else if is_ws (drop (length s - 3) s) then 3 else 0)"

lemma is_ws_Nil [simp]: "\<not> is_ws []"
  by (simp add: is_ws_def whitespace_codes_def)

lemma ws_front_Nil [simp]: "ws_front [] = 0"
  by (simp add: ws_front_def)

lemma ws_back_Nil [simp]: "ws_back [] = 0"
  by (simp add: ws_back_def)

function trim_start :: "string \<Rightarrow> string" where
  "trim_start s = (if ws_front s = 0 then s else trim_start (drop (ws_front s) s))"
  by pat_completeness auto
termination
proof (relation "measure length", goal_cases)
  case (2 s)
  then have "s \<noteq> []" by auto
  with 2 show ?case by simp
qed simp

declare trim_start.simps [simp del]

function trim_end :: "string \<Rightarrow> string" where
  "trim_end s = (if ws_back s = 0 then s else trim_end (take (length s - ws_back s) s))"
  by pat_completeness auto
termination
proof (relation "measure length", goal_cases)
  case (2 s)
  then have "s \<noteq> []" by auto
  with 2 show ?case by simp
qed simp

declare trim_end.simps [simp del]

definition trim :: "string \<Rightarrow> string" where
  "trim s = trim_end (trim_start s)"

lemma trim_start_suffix: "suffix (trim_start s) s"
proof (induction s rule: trim_start.induct)
  case (1 s)
  show ?case
  proof (cases "ws_front s = 0")
    case True
    then show ?thesis by (simp add: trim_start.simps [of s])
  next
    case False
    from suffix_drop 1 [OF False] have "suffix (trim_start (drop (ws_front s) s)) s"
      by (meson suffix_order.trans)
    with False show ?thesis by (simp add: trim_start.simps [of s])
  qed
qed

lemma trim_end_prefix: "prefix (trim_end s) s"
proof (induction s rule: trim_end.induct)
  case (1 s)
  show ?case
  proof (cases "ws_back s = 0")
    case True
    then show ?thesis by (simp add: trim_end.simps [of s])
  next
    case False
    from take_is_prefix 1 [OF False] have "prefix (trim_end (take (length s - ws_back s) s)) s"
      by (meson prefix_order.trans)
    with False show ?thesis by (simp add: trim_end.simps [of s])
  qed
qed

lemma length_trim_le: "length (trim s) \<le> length s"
  using prefix_length_le [OF trim_end_prefix] suffix_length_le [OF trim_start_suffix]
  unfolding trim_def by (meson order_trans)

lemma trim_end_stop: "ws_back (trim_end s) = 0"
proof (induction s rule: trim_end.induct)
  case (1 s)
  show ?case
  proof (cases "ws_back s = 0")
    case True
    then show ?thesis by (simp add: trim_end.simps [of s])
  next
    case False
    then show ?thesis using 1 [OF False] by (simp add: trim_end.simps [of s])
  qed
qed

lemma trim_start_stop: "ws_front (trim_start s) = 0"
proof (induction s rule: trim_start.induct)
  case (1 s)
  show ?case
  proof (cases "ws_front s = 0")
    case True
    then show ?thesis by (simp add: trim_start.simps [of s])
  next
    case False
    then show ?thesis using 1 [OF False] by (simp add: trim_start.simps [of s])
  qed
qed

lemma trim_Nil [simp]: "trim [] = []"
  by (simp add: trim_def trim_start.simps [of "[]"] trim_end.simps [of "[]"])

lemma trim_end_id: "ws_back s = 0 \<Longrightarrow> trim_end s = s"
  by (simp add: trim_end.simps [of s])

lemma trim_start_id: "ws_front s = 0 \<Longrightarrow> trim_start s = s"
  by (simp add: trim_start.simps [of s])

definition trim_end_char :: "char \<Rightarrow> string \<Rightarrow> string" where
  "trim_end_char d s = rev (dropWhile (\<lambda>c. c = d) (rev s))"

definition trim_start_char :: "char \<Rightarrow> string \<Rightarrow> string" where
  "trim_start_char d s = dropWhile (\<lambda>c. c = d) s"

lemma trim_end_char_prefix: "prefix (trim_end_char d s) s"
proof -
  have "suffix (dropWhile (\<lambda>c. c = d) (rev s)) (rev s)"
    by (rule suffix_dropWhile)
  then show ?thesis
    unfolding trim_end_char_def by (simp add: suffix_to_prefix)
qed

lemmas [rust_str] =
  strip_prefix_def strip_suffix_def split_once_def str_contains_def trim_def
  ws_front_def ws_back_def is_ws_def whitespace_codes_def byte_def

subsection \<open>Sequence helpers\<close>

text \<open>\<open>retain\<close> with a \<open>HashSet\<close> of the keys already seen: the first element of each key.\<close>

fun retain_first :: "('a \<Rightarrow> 'k) \<Rightarrow> 'k set \<Rightarrow> 'a list \<Rightarrow> 'a list" where
  "retain_first key seen [] = []"
| "retain_first key seen (x # xs) =
     (if key x \<in> seen then retain_first key seen xs
      else x # retain_first key (insert (key x) seen) xs)"

lemma retain_first_keys:
  "key ` set (retain_first key seen xs) = key ` set xs - seen"
  by (induction xs arbitrary: seen) auto

lemma retain_first_distinct: "distinct (map key (retain_first key seen xs))"
proof (induction xs arbitrary: seen)
  case Nil
  then show ?case by simp
next
  case (Cons x xs)
  have "key x \<notin> key ` set (retain_first key (insert (key x) seen) xs)"
    by (simp add: retain_first_keys)
  with Cons show ?case by simp
qed

lemma retain_first_subseq: "subseq (retain_first key seen xs) xs"
  by (induction xs arbitrary: seen) auto

lemma retain_first_set: "set (retain_first key seen xs) \<subseteq> set xs"
  by (induction xs arbitrary: seen) auto

lemma retain_first_id:
  "distinct (map key xs) \<Longrightarrow> key ` set xs \<inter> seen = {} \<Longrightarrow> retain_first key seen xs = xs"
  by (induction xs arbitrary: seen) auto

text \<open>\<open>Iterator::find_map\<close>.\<close>

fun find_map :: "('a \<Rightarrow> 'b option) \<Rightarrow> 'a list \<Rightarrow> 'b option" where
  "find_map f [] = None"
| "find_map f (x # xs) = (case f x of Some y \<Rightarrow> Some y | None \<Rightarrow> find_map f xs)"

lemma find_map_Some: "find_map f xs = Some y \<Longrightarrow> \<exists>x \<in> set xs. f x = Some y"
  by (induction xs) (auto split: option.splits)

lemma find_map_None: "find_map f xs = None \<longleftrightarrow> (\<forall>x \<in> set xs. f x = None)"
  by (induction xs) (auto split: option.splits)

text \<open>\<open>Iterator::position\<close>.\<close>

fun index_of :: "('a \<Rightarrow> bool) \<Rightarrow> 'a list \<Rightarrow> nat option" where
  "index_of p [] = None"
| "index_of p (x # xs) = (if p x then Some 0 else map_option Suc (index_of p xs))"

lemma index_of_Some: "index_of p xs = Some i \<Longrightarrow> i < length xs \<and> p (xs ! i)"
  by (induction xs arbitrary: i) (auto split: if_splits)

lemma index_of_None: "index_of p xs = None \<longleftrightarrow> (\<forall>x \<in> set xs. \<not> p x)"
  by (induction xs) auto

text \<open>\<open>Option::or_else\<close>.\<close>

definition or_else :: "'a option \<Rightarrow> 'a option \<Rightarrow> 'a option" where
  "or_else a b = (case a of Some x \<Rightarrow> Some x | None \<Rightarrow> b)"

lemma or_else_simps [simp]: "or_else (Some x) b = Some x" "or_else None b = b"
  by (simp_all add: or_else_def)

definition unwrap_or :: "'a \<Rightarrow> 'a option \<Rightarrow> 'a" where
  "unwrap_or d x = (case x of Some y \<Rightarrow> y | None \<Rightarrow> d)"

lemma unwrap_or_simps [simp]: "unwrap_or d (Some x) = x" "unwrap_or d None = d"
  by (simp_all add: unwrap_or_def)

end
