(* ===== verification/Constraint_Catalog.thy ===== *)
theory Constraint_Catalog
  imports Rust_Prelude
begin

section \<open>Documentation links of the constraint catalog\<close>

text \<open>
  The part of \<open>src/anchor/constraint_catalog/mod.rs\<close> that turns a constraint key into
  the page that documents it: \<open>normalized_documentation_key\<close>, the match of
  \<open>documentation_url_for_key\<close> (its literal arms as a table, its guarded arms after them in
  source order) and the fragment table.  An arm that returns at once is \<open>Inl url\<close>, an arm
  that selects a fragment is \<open>Inr fragment\<close>.
\<close>

definition ACCOUNT_CONSTRAINT_DOCS :: string where
  "ACCOUNT_CONSTRAINT_DOCS = ''https://www.anchor-lang.com/docs/references/account-constraints''"

definition ACCOUNT_SPACE_DOCS :: string where
  "ACCOUNT_SPACE_DOCS = ''https://www.anchor-lang.com/docs/references/space''"

text \<open>\<open>key(label)\<close>: the label without its trailing \<open> =\<close>.\<close>

definition constraint_key :: "string \<Rightarrow> string" where
  "constraint_key label = unwrap_or label (strip_suffix '' ='' label)"

definition is_constraint_key :: "string \<Rightarrow> bool" where
  "is_constraint_key value =
     (case value of [] \<Rightarrow> False | c # _ \<Rightarrow> is_ascii_lowercase c)"

definition mutability_implying_keys :: "string list" where
  "mutability_implying_keys =
     [''mut'', ''init'', ''init_if_needed'', ''realloc'', ''close'', ''zero'',
      ''realloc::payer'', ''realloc::zero'']"

definition normalized_documentation_key :: "string \<Rightarrow> string" where
  "normalized_documentation_key key =
     unwrap_or (trim_end_char (CHR '','') (trim key))
       (strip_suffix '' ='' (trim_end_char (CHR '','') (trim key)))"

definition account_constraint_docs_with_fragment :: "string \<Rightarrow> string" where
  "account_constraint_docs_with_fragment fragment =
     (if fragment = ''#accountaddress--expr'' then
        ''https://www.anchor-lang.com/docs/references/account-constraints#accountaddress--expr''
      else if fragment = ''#accountassociated_token'' then
        ''https://www.anchor-lang.com/docs/references/account-constraints#accountassociated_token''
      else if fragment = ''#accountclose--target'' then
        ''https://www.anchor-lang.com/docs/references/account-constraints#accountclose--target''
      else if fragment = ''#accountconstraint--expr'' then
        ''https://www.anchor-lang.com/docs/references/account-constraints#accountconstraint--expr''
      else if fragment = ''#accountexecutable'' then
        ''https://www.anchor-lang.com/docs/references/account-constraints#accountexecutable''
      else if fragment = ''#accountextensionsclose_authority'' then
        ''https://www.anchor-lang.com/docs/references/account-constraints#accountextensionsclose_authority''
      else if fragment = ''#accountextensionsgroup_member_pointer'' then
        ''https://www.anchor-lang.com/docs/references/account-constraints#accountextensionsgroup_member_pointer''
      else if fragment = ''#accountextensionsgroup_pointer'' then
        ''https://www.anchor-lang.com/docs/references/account-constraints#accountextensionsgroup_pointer''
      else if fragment = ''#accountextensionsmetadata_pointer'' then
        ''https://www.anchor-lang.com/docs/references/account-constraints#accountextensionsmetadata_pointer''
      else if fragment = ''#accountextensionspermanent_delegate'' then
        ''https://www.anchor-lang.com/docs/references/account-constraints#accountextensionspermanent_delegate''
      else if fragment = ''#accountextensionstransfer_hook'' then
        ''https://www.anchor-lang.com/docs/references/account-constraints#accountextensionstransfer_hook''
      else if fragment = ''#accounthas_one--target'' then
        ''https://www.anchor-lang.com/docs/references/account-constraints#accounthas_one--target''
      else if fragment = ''#accountinit'' then
        ''https://www.anchor-lang.com/docs/references/account-constraints#accountinit''
      else if fragment = ''#accountinit_if_needed'' then
        ''https://www.anchor-lang.com/docs/references/account-constraints#accountinit_if_needed''
      else if fragment = ''#accountmint'' then
        ''https://www.anchor-lang.com/docs/references/account-constraints#accountmint''
      else if fragment = ''#accountmut'' then
        ''https://www.anchor-lang.com/docs/references/account-constraints#accountmut''
      else if fragment = ''#accountowner--expr'' then
        ''https://www.anchor-lang.com/docs/references/account-constraints#accountowner--expr''
      else if fragment = ''#accountrealloc'' then
        ''https://www.anchor-lang.com/docs/references/account-constraints#accountrealloc''
      else if fragment = ''#accountseeds-bump'' then
        ''https://www.anchor-lang.com/docs/references/account-constraints#accountseeds-bump''
      else if fragment = ''#accountsigner'' then
        ''https://www.anchor-lang.com/docs/references/account-constraints#accountsigner''
      else if fragment = ''#accounttoken'' then
        ''https://www.anchor-lang.com/docs/references/account-constraints#accounttoken''
      else if fragment = ''#accounttoken_program--expr'' then
        ''https://www.anchor-lang.com/docs/references/account-constraints#accounttoken_program--expr''
      else if fragment = ''#accountzero'' then
        ''https://www.anchor-lang.com/docs/references/account-constraints#accountzero''
      else if fragment = ''#token-extensions-constraints'' then
        ''https://www.anchor-lang.com/docs/references/account-constraints#token-extensions-constraints''
      else ACCOUNT_CONSTRAINT_DOCS)"

definition literal_documentation_arms :: "(string \<times> (string + string)) list" where
  "literal_documentation_arms =
     [(''address'', Inr ''#accountaddress--expr''),
      (''bump'', Inr ''#accountseeds-bump''),
      (''seeds'', Inr ''#accountseeds-bump''),
      (''seeds::program'', Inr ''#accountseeds-bump''),
      (''close'', Inr ''#accountclose--target''),
      (''constraint'', Inr ''#accountconstraint--expr''),
      (''dup'', Inl ACCOUNT_CONSTRAINT_DOCS),
      (''executable'', Inr ''#accountexecutable''),
      (''extensions::close_authority::authority'', Inr ''#accountextensionsclose_authority''),
      (''extensions::group_member_pointer::authority'', Inr ''#accountextensionsgroup_member_pointer''),
      (''extensions::group_member_pointer::member_address'', Inr ''#accountextensionsgroup_member_pointer''),
      (''extensions::group_pointer::authority'', Inr ''#accountextensionsgroup_pointer''),
      (''extensions::group_pointer::group_address'', Inr ''#accountextensionsgroup_pointer''),
      (''extensions::metadata_pointer::authority'', Inr ''#accountextensionsmetadata_pointer''),
      (''extensions::metadata_pointer::metadata_address'', Inr ''#accountextensionsmetadata_pointer''),
      (''extensions::permanent_delegate::delegate'', Inr ''#accountextensionspermanent_delegate''),
      (''extensions::transfer_hook::authority'', Inr ''#accountextensionstransfer_hook''),
      (''extensions::transfer_hook::program_id'', Inr ''#accountextensionstransfer_hook''),
      (''has_one'', Inr ''#accounthas_one--target''),
      (''init'', Inr ''#accountinit''),
      (''payer'', Inr ''#accountinit''),
      (''init_if_needed'', Inr ''#accountinit_if_needed''),
      (''mut'', Inr ''#accountmut''),
      (''owner'', Inr ''#accountowner--expr''),
      (''realloc'', Inr ''#accountrealloc''),
      (''realloc::payer'', Inr ''#accountrealloc''),
      (''realloc::zero'', Inr ''#accountrealloc''),
      (''signer'', Inr ''#accountsigner''),
      (''space'', Inl ACCOUNT_SPACE_DOCS),
      (''zero'', Inr ''#accountzero'')]"

definition documentation_url_for_key :: "string \<Rightarrow> string option" where
  "documentation_url_for_key raw =
     (let key = normalized_documentation_key raw in
      case map_of literal_documentation_arms key of
        Some (Inl url) \<Rightarrow> Some url
      | Some (Inr fragment) \<Rightarrow> Some (account_constraint_docs_with_fragment fragment)
      | None \<Rightarrow>
          if suffix ''::token_program'' key then
            Some (account_constraint_docs_with_fragment ''#accounttoken_program--expr'')
          else if prefix ''associated_token::'' key then
            Some (account_constraint_docs_with_fragment ''#accountassociated_token'')
          else if prefix ''extensions::'' key then
            Some (account_constraint_docs_with_fragment ''#token-extensions-constraints'')
          else if prefix ''mint::'' key then
            Some (account_constraint_docs_with_fragment ''#accountmint'')
          else if prefix ''token::'' key then
            Some (account_constraint_docs_with_fragment ''#accounttoken'')
          else if key = ''rent_exempt'' then
            Some ''https://docs.rs/anchor-derive-accounts/1.0.2/anchor_derive_accounts/derive.Accounts.html#normal-constraints''
          else None)"

text \<open>Every fragment that an arm selects has its own row in the fragment table: the page that a
  link opens is the page of that fragment, never the fallback.\<close>

definition fragment_has_page :: "string \<Rightarrow> bool" where
  "fragment_has_page fragment \<longleftrightarrow>
     account_constraint_docs_with_fragment fragment = ACCOUNT_CONSTRAINT_DOCS @ fragment"

lemma literal_arms_have_pages:
  "list_all (\<lambda>(k, arm). case arm of Inl url \<Rightarrow> True | Inr fragment \<Rightarrow> fragment_has_page fragment)
     literal_documentation_arms"
  by (simp add: literal_documentation_arms_def fragment_has_page_def
        account_constraint_docs_with_fragment_def ACCOUNT_CONSTRAINT_DOCS_def)

lemma guarded_arms_have_pages:
  "list_all fragment_has_page
     [''#accounttoken_program--expr'', ''#accountassociated_token'',
      ''#token-extensions-constraints'', ''#accountmint'', ''#accounttoken'']"
  by (simp add: fragment_has_page_def account_constraint_docs_with_fragment_def
        ACCOUNT_CONSTRAINT_DOCS_def)

end
