(* ===== verification/Json_Value.thy ===== *)
theory Json_Value
  imports Rust_Prelude
begin

section \<open>JSON values\<close>

text \<open>
  \<open>serde_json::Value\<close>, the type of diagnostic payloads, client settings and code-action
  responses.  An object is an association list with distinct keys in insertion order (the lock
  file builds \<open>serde_json\<close> with \<open>indexmap\<close>): a new key goes to the end, an
  existing one keeps its place, and \<open>remove\<close> moves the last entry into the gap.  A
  floating-point number is its printed text: no component computes with one.
\<close>

datatype json =
    JNull
  | JBool bool
  | JInt int
  | JFloat string
  | JString string
  | JArray "json list"
  | JObject "(string \<times> json) list"

type_synonym json_map = "(string \<times> json) list"

fun as_bool :: "json \<Rightarrow> bool option" where
  "as_bool (JBool b) = Some b"
| "as_bool _ = None"

fun as_str :: "json \<Rightarrow> string option" where
  "as_str (JString s) = Some s"
| "as_str _ = None"

fun as_array :: "json \<Rightarrow> json list option" where
  "as_array (JArray xs) = Some xs"
| "as_array _ = None"

fun as_object :: "json \<Rightarrow> json_map option" where
  "as_object (JObject m) = Some m"
| "as_object _ = None"

text \<open>\<open>Value::get(key)\<close>: \<open>None\<close> on everything but an object.\<close>

fun json_get :: "string \<Rightarrow> json \<Rightarrow> json option" where
  "json_get k (JObject m) = map_of m k"
| "json_get k _ = None"

fun jm_insert :: "string \<Rightarrow> json \<Rightarrow> json_map \<Rightarrow> json_map" where
  "jm_insert k v [] = [(k, v)]"
| "jm_insert k v ((j, w) # m) = (if j = k then (k, v) # m else (j, w) # jm_insert k v m)"

text \<open>\<open>entry(k).or_insert(v)\<close>.\<close>

definition jm_or_insert :: "string \<Rightarrow> json \<Rightarrow> json_map \<Rightarrow> json_map" where
  "jm_or_insert k v m = (case map_of m k of None \<Rightarrow> m @ [(k, v)] | Some _ \<Rightarrow> m)"

text \<open>\<open>Map::remove\<close>, a swap-remove: the entry taken out and the map that is left.\<close>

fun jm_swap_remove :: "string \<Rightarrow> json_map \<Rightarrow> json_map" where
  "jm_swap_remove k [] = []"
| "jm_swap_remove k ((j, w) # m) =
     (if j = k then (if m = [] then [] else last m # butlast m)
      else (j, w) # jm_swap_remove k m)"

definition jm_remove :: "string \<Rightarrow> json_map \<Rightarrow> (json \<times> json_map) option" where
  "jm_remove k m = map_option (\<lambda>v. (v, jm_swap_remove k m)) (map_of m k)"

definition jm_wf :: "json_map \<Rightarrow> bool" where
  "jm_wf m \<longleftrightarrow> distinct (map fst m)"

lemma map_of_jm_insert: "map_of (jm_insert k v m) = (map_of m)(k \<mapsto> v)"
  by (induction k v m rule: jm_insert.induct) auto

lemma map_of_jm_or_insert:
  "map_of (jm_or_insert k v m) =
     (case map_of m k of None \<Rightarrow> (map_of m)(k \<mapsto> v) | Some _ \<Rightarrow> map_of m)"
  by (auto simp: jm_or_insert_def map_add_def fun_eq_iff split: option.splits)

lemma jm_insert_keys: "fst ` set (jm_insert k v m) = insert k (fst ` set m)"
  by (induction k v m rule: jm_insert.induct) auto

lemma jm_wf_insert: "jm_wf m \<Longrightarrow> jm_wf (jm_insert k v m)"
proof (induction k v m rule: jm_insert.induct)
  case (2 k v j w m)
  have "j \<notin> fst ` set (jm_insert k v m)" if "j \<noteq> k" "j \<notin> fst ` set m"
    using that by (simp add: jm_insert_keys)
  with 2 show ?case by (auto simp: jm_wf_def)
qed (simp add: jm_wf_def)

lemma jm_swap_remove_set:
  "jm_wf m \<Longrightarrow> set (jm_swap_remove k m) = {kv \<in> set m. fst kv \<noteq> k}"
proof (induction k m rule: jm_swap_remove.induct)
  case (2 k j w m)
  have "set (last m # butlast m) = set m" if "m \<noteq> []"
    using append_butlast_last_id [OF that] by (metis insert_is_Un list.simps(15) set_append sup_commute set_simps(1) Un_insert_right sup_bot.right_neutral)
  with 2 show ?case by (auto simp: jm_wf_def image_iff)
qed simp

text \<open>\<open>Option::as_ref().and_then(|data| data.get(key)).and_then(Value::as_str)\<close>, the access the
  diagnostics pipeline makes on an optional payload.\<close>

definition data_str :: "string \<Rightarrow> json option \<Rightarrow> string option" where
  "data_str k data = Option.bind data (\<lambda>d. Option.bind (json_get k d) as_str)"

definition data_bool :: "string \<Rightarrow> json option \<Rightarrow> bool option" where
  "data_bool k data = Option.bind data (\<lambda>d. Option.bind (json_get k d) as_bool)"

lemma as_str_Some [simp]: "as_str v = Some s \<longleftrightarrow> v = JString s"
  by (cases v) auto

lemma as_bool_Some [simp]: "as_bool v = Some b \<longleftrightarrow> v = JBool b"
  by (cases v) auto

lemma data_str_None [simp]: "data_str k None = None"
  by (simp add: data_str_def)

lemma data_bool_None [simp]: "data_bool k None = None"
  by (simp add: data_bool_def)

end
