(* ===== verification/Lsp_Types.thy ===== *)
theory Lsp_Types
  imports Json_Value
begin

section \<open>Positions, ranges and diagnostics\<close>

text \<open>
  The \<open>lsp_types\<close> records that every component passes around.  Positions are pairs of
  \<open>u32\<close>; the order on positions is the lexicographic one that \<open>position_le\<close> and
  \<open>contains_position\<close> spell out.
\<close>

record position =
  pos_line :: u32
  pos_character :: u32

record range =
  range_start :: position
  range_end :: position

datatype severity = ERROR | WARNING | INFORMATION | HINT

datatype number_or_string = Number i32 | String string

record location =
  loc_uri :: string
  loc_range :: range

record related_information =
  rel_location :: location
  rel_message :: string

record diagnostic =
  d_range :: range
  d_severity :: "severity option"
  d_code :: "number_or_string option"
  d_code_description :: "string option"
  d_source :: "string option"
  d_message :: string
  d_related :: "related_information list option"
  d_tags :: "i32 list option"
  d_data :: "json option"

text \<open>\<open>diagnostic_code\<close> of the arbitration and suppression modules: only string codes.\<close>

fun string_code :: "number_or_string option \<Rightarrow> string option" where
  "string_code (Some (String s)) = Some s"
| "string_code _ = None"

definition diagnostic_code :: "diagnostic \<Rightarrow> string option" where
  "diagnostic_code d = string_code (d_code d)"

definition position_le :: "position \<Rightarrow> position \<Rightarrow> bool" where
  "position_le left right \<longleftrightarrow>
     pos_line left < pos_line right \<or>
     (pos_line left = pos_line right \<and> pos_character left \<le> pos_character right)"

definition ranges_touch :: "range \<Rightarrow> range \<Rightarrow> bool" where
  "ranges_touch left right \<longleftrightarrow>
     position_le (range_start left) (range_end right) \<and>
     position_le (range_start right) (range_end left)"

definition contains_position :: "range \<Rightarrow> position \<Rightarrow> bool" where
  "contains_position r p \<longleftrightarrow>
     (pos_line p > pos_line (range_start r) \<or>
      (pos_line p = pos_line (range_start r) \<and>
       pos_character p \<ge> pos_character (range_start r))) \<and>
     (pos_line p < pos_line (range_end r) \<or>
      (pos_line p = pos_line (range_end r) \<and>
       pos_character p \<le> pos_character (range_end r)))"

lemma position_le_refl [simp]: "position_le p p"
  by (simp add: position_le_def)

lemma position_le_trans: "position_le p q \<Longrightarrow> position_le q r \<Longrightarrow> position_le p r"
  by (auto simp: position_le_def)

lemma position_le_total: "position_le p q \<or> position_le q p"
  by (auto simp: position_le_def)

lemma position_le_antisym: "position_le p q \<Longrightarrow> position_le q p \<Longrightarrow> p = q"
  by (auto simp: position_le_def)

lemma contains_position_iff:
  "contains_position r p \<longleftrightarrow> position_le (range_start r) p \<and> position_le p (range_end r)"
  by (auto simp: contains_position_def position_le_def)

lemma ranges_touch_sym: "ranges_touch a b \<longleftrightarrow> ranges_touch b a"
  by (auto simp: ranges_touch_def)

text \<open>On well-formed ranges, touching is having a position in common.\<close>

lemma ranges_touch_iff:
  assumes "position_le (range_start a) (range_end a)" "position_le (range_start b) (range_end b)"
  shows "ranges_touch a b \<longleftrightarrow> (\<exists>p. contains_position a p \<and> contains_position b p)"
proof
  assume t: "ranges_touch a b"
  show "\<exists>p. contains_position a p \<and> contains_position b p"
  proof (cases "position_le (range_start a) (range_start b)")
    case True
    with t assms show ?thesis by (auto simp: contains_position_iff ranges_touch_def)
  next
    case False
    with position_le_total have "position_le (range_start b) (range_start a)" by blast
    with t assms show ?thesis
      by (intro exI [of _ "range_start a"]) (simp add: contains_position_iff ranges_touch_def)
  qed
next
  assume "\<exists>p. contains_position a p \<and> contains_position b p"
  then show "ranges_touch a b"
    by (auto simp: contains_position_iff ranges_touch_def intro: position_le_trans)
qed

end
