(* ===== verification/Diagnostic_Registry.thy ===== *)
theory Diagnostic_Registry
  imports Constraint_Catalog Lsp_Types
begin

section \<open>The diagnostic registry\<close>

text \<open>
  \<open>src/lsp/diagnostics/registry.rs\<close>: the enumeration of diagnostic kinds and the tables that
  give each kind its wire code, topic, rule, confidence, provability, truth source, default
  severity and documentation page.  \<open>Url::parse\<close> belongs to the \<open>url\<close> crate and is
  the parameter \<open>parse\<close> of the functions that build a link.
\<close>

definition ANCHOR_CONTEXT_ACCOUNTS_CODE :: string where
  "ANCHOR_CONTEXT_ACCOUNTS_CODE = ''anchor-context-accounts''"

definition ANCHOR_INIT_CONSTRAINTS_CODE :: string where
  "ANCHOR_INIT_CONSTRAINTS_CODE = ''anchor-init-constraints''"

definition ANCHOR_MISSING_INIT_CONSTRAINT_CODE :: string where
  "ANCHOR_MISSING_INIT_CONSTRAINT_CODE = ''anchor-missing-init-constraint''"

definition ANCHOR_MISSING_ACCOUNT_REFERENCE_CODE :: string where
  "ANCHOR_MISSING_ACCOUNT_REFERENCE_CODE = ''anchor-missing-account-reference''"

definition ANCHOR_MISSING_INSTRUCTION_ARGUMENT_CODE :: string where
  "ANCHOR_MISSING_INSTRUCTION_ARGUMENT_CODE = ''anchor-missing-instruction-argument''"

definition ANCHOR_CONSTRAINT_EXPRESSION_CODE :: string where
  "ANCHOR_CONSTRAINT_EXPRESSION_CODE = ''anchor-constraint-expression''"

definition ANCHOR_CONSTRAINT_SHAPE_CODE :: string where
  "ANCHOR_CONSTRAINT_SHAPE_CODE = ''anchor-constraint-shape''"

definition ANCHOR_ACCOUNT_USAGE_CODE :: string where
  "ANCHOR_ACCOUNT_USAGE_CODE = ''anchor-account-usage''"

definition ANCHOR_CHECK_CFG_CODE :: string where
  "ANCHOR_CHECK_CFG_CODE = ''anchor-check-cfg''"

definition ANCHOR_PROJECT_ID_CODE :: string where
  "ANCHOR_PROJECT_ID_CODE = ''anchor-project-id''"

definition ANCHOR_SBF_ARTIFACT_CODE :: string where
  "ANCHOR_SBF_ARTIFACT_CODE = ''anchor-sbf-artifact''"

definition ANCHOR_PROGRAM_KEYPAIR_CODE :: string where
  "ANCHOR_PROGRAM_KEYPAIR_CODE = ''anchor-program-keypair''"

definition ANCHOR_IDL_ARTIFACT_CODE :: string where
  "ANCHOR_IDL_ARTIFACT_CODE = ''anchor-idl-artifact''"

definition ANCHOR_TYPES_ARTIFACT_CODE :: string where
  "ANCHOR_TYPES_ARTIFACT_CODE = ''anchor-types-artifact''"

definition SOLANA_IDL_ARTIFACT_CODE :: string where
  "SOLANA_IDL_ARTIFACT_CODE = ''solana-idl-artifact''"

definition SOLANA_PROGRAM_METADATA_CODE :: string where
  "SOLANA_PROGRAM_METADATA_CODE = ''solana-program-metadata''"

definition SOLANA_TEST_HARNESS_CODE :: string where
  "SOLANA_TEST_HARNESS_CODE = ''solana-test-harness''"

definition SOLANA_SURFPOOL_WORKSPACE_CODE :: string where
  "SOLANA_SURFPOOL_WORKSPACE_CODE = ''solana-surfpool-workspace''"

definition ANCHOR_SPL_TOKEN_INTERFACE_CODE :: string where
  "ANCHOR_SPL_TOKEN_INTERFACE_CODE = ''anchor-spl-token-interface''"

definition ANCHOR_SYN_CODE :: string where
  "ANCHOR_SYN_CODE = ''anchor-syn''"

definition ANCHOR_SECURITY_SIGNER_CODE :: string where
  "ANCHOR_SECURITY_SIGNER_CODE = ''anchor-security-signer''"

definition ANCHOR_SECURITY_CPI_PROGRAM_CODE :: string where
  "ANCHOR_SECURITY_CPI_PROGRAM_CODE = ''anchor-security-cpi-program''"

definition ANCHOR_SECURITY_SYSVAR_CODE :: string where
  "ANCHOR_SECURITY_SYSVAR_CODE = ''anchor-security-sysvar''"

definition ANCHOR_SECURITY_UNCHECKED_ACCOUNT_CODE :: string where
  "ANCHOR_SECURITY_UNCHECKED_ACCOUNT_CODE = ''anchor-security-unchecked-account''"

definition ANCHOR_SECURITY_STATIC_PDA_CODE :: string where
  "ANCHOR_SECURITY_STATIC_PDA_CODE = ''anchor-security-static-pda''"

definition ANCHOR_SECURITY_OWNER_CHECK_CODE :: string where
  "ANCHOR_SECURITY_OWNER_CHECK_CODE = ''anchor-security-owner-check''"

definition ANCHOR_SECURITY_TYPE_COSPLAY_CODE :: string where
  "ANCHOR_SECURITY_TYPE_COSPLAY_CODE = ''anchor-security-type-cosplay''"

definition SOLANA_CODE_QUALITY_CODE :: string where
  "SOLANA_CODE_QUALITY_CODE = ''solana-code-quality''"

definition ANCHOR_PDA_SEED_RESOLUTION_CODE :: string where
  "ANCHOR_PDA_SEED_RESOLUTION_CODE = ''anchor-pda-seed-resolution''"

definition INIT_PLACEHOLDERS_QUICKFIX :: string where
  "INIT_PLACEHOLDERS_QUICKFIX = ''init-placeholders''"

definition REPLACE_CONSTRAINT_EXPRESSION_MEMBER_QUICKFIX :: string where
  "REPLACE_CONSTRAINT_EXPRESSION_MEMBER_QUICKFIX = ''replace-constraint-expression-member''"

definition REPLACE_CONSTRAINT_EXPRESSION_IDENTIFIER_QUICKFIX :: string where
  "REPLACE_CONSTRAINT_EXPRESSION_IDENTIFIER_QUICKFIX = ''replace-constraint-expression-identifier''"

definition SOURCE :: string where
  "SOURCE = ''seagrass''"

lemmas registry_consts =
  ANCHOR_CONTEXT_ACCOUNTS_CODE_def ANCHOR_INIT_CONSTRAINTS_CODE_def 
  ANCHOR_MISSING_INIT_CONSTRAINT_CODE_def ANCHOR_MISSING_ACCOUNT_REFERENCE_CODE_def 
  ANCHOR_MISSING_INSTRUCTION_ARGUMENT_CODE_def ANCHOR_CONSTRAINT_EXPRESSION_CODE_def 
  ANCHOR_CONSTRAINT_SHAPE_CODE_def ANCHOR_ACCOUNT_USAGE_CODE_def 
  ANCHOR_CHECK_CFG_CODE_def ANCHOR_PROJECT_ID_CODE_def 
  ANCHOR_SBF_ARTIFACT_CODE_def ANCHOR_PROGRAM_KEYPAIR_CODE_def 
  ANCHOR_IDL_ARTIFACT_CODE_def ANCHOR_TYPES_ARTIFACT_CODE_def 
  SOLANA_IDL_ARTIFACT_CODE_def SOLANA_PROGRAM_METADATA_CODE_def 
  SOLANA_TEST_HARNESS_CODE_def SOLANA_SURFPOOL_WORKSPACE_CODE_def 
  ANCHOR_SPL_TOKEN_INTERFACE_CODE_def ANCHOR_SYN_CODE_def 
  ANCHOR_SECURITY_SIGNER_CODE_def ANCHOR_SECURITY_CPI_PROGRAM_CODE_def 
  ANCHOR_SECURITY_SYSVAR_CODE_def ANCHOR_SECURITY_UNCHECKED_ACCOUNT_CODE_def 
  ANCHOR_SECURITY_STATIC_PDA_CODE_def ANCHOR_SECURITY_OWNER_CHECK_CODE_def 
  ANCHOR_SECURITY_TYPE_COSPLAY_CODE_def SOLANA_CODE_QUALITY_CODE_def 
  ANCHOR_PDA_SEED_RESOLUTION_CODE_def INIT_PLACEHOLDERS_QUICKFIX_def 
  REPLACE_CONSTRAINT_EXPRESSION_MEMBER_QUICKFIX_def REPLACE_CONSTRAINT_EXPRESSION_IDENTIFIER_QUICKFIX_def 
  SOURCE_def

datatype provability = Syntactic | WholeProgram | Heuristic | Speculative

datatype truth_source =
    SingleFileSyntax | PinnedCatalog | Compound | ToolchainOracle | NoTruthSource

fun truth_source_as_str :: "truth_source \<Rightarrow> string" where
  "truth_source_as_str SingleFileSyntax = ''single-file-syntax''"
| "truth_source_as_str PinnedCatalog = ''pinned-catalog''"
| "truth_source_as_str Compound = ''compound''"
| "truth_source_as_str ToolchainOracle = ''toolchain-oracle''"
| "truth_source_as_str NoTruthSource = ''none''"

datatype kind =
    AnchorSyn
  | AnchorInitConstraints
  | AnchorMissingInitConstraint
  | AnchorContextAccounts
  | AnchorMissingAccountReference
  | AnchorMissingInstructionArgument
  | AnchorConstraintExpression
  | AnchorConstraintShape
  | AnchorAccountUsage
  | AnchorCheckCfg
  | AnchorProjectId
  | AnchorSbfArtifact
  | AnchorProgramKeypair
  | AnchorIdlArtifact
  | AnchorTypesArtifact
  | SolanaIdlArtifact
  | SolanaProgramMetadata
  | SolanaTestHarness
  | SolanaSurfpoolWorkspace
  | AnchorSplTokenInterface
  | SecuritySigner
  | SecurityCpiProgram
  | SecuritySysvar
  | SecurityUncheckedAccount
  | SecurityStaticPda
  | SecurityOwnerCheck
  | SecurityTypeCosplay
  | SolanaCodeQuality
  | PdaSeedResolution

definition all_kinds :: "kind list" where
  "all_kinds =
     [AnchorSyn,
      AnchorInitConstraints,
      AnchorMissingInitConstraint,
      AnchorContextAccounts,
      AnchorMissingAccountReference,
      AnchorMissingInstructionArgument,
      AnchorConstraintExpression,
      AnchorConstraintShape,
      AnchorAccountUsage,
      AnchorCheckCfg,
      AnchorProjectId,
      AnchorSbfArtifact,
      AnchorProgramKeypair,
      AnchorIdlArtifact,
      AnchorTypesArtifact,
      SolanaIdlArtifact,
      SolanaProgramMetadata,
      SolanaTestHarness,
      SolanaSurfpoolWorkspace,
      AnchorSplTokenInterface,
      SecuritySigner,
      SecurityCpiProgram,
      SecuritySysvar,
      SecurityUncheckedAccount,
      SecurityStaticPda,
      SecurityOwnerCheck,
      SecurityTypeCosplay,
      SolanaCodeQuality,
      PdaSeedResolution]"

primrec kind_provability :: "kind \<Rightarrow> provability" where
  "kind_provability AnchorSyn = Syntactic"
| "kind_provability AnchorConstraintShape = Syntactic"
| "kind_provability AnchorInitConstraints = Syntactic"
| "kind_provability AnchorContextAccounts = WholeProgram"
| "kind_provability AnchorMissingAccountReference = WholeProgram"
| "kind_provability AnchorMissingInstructionArgument = WholeProgram"
| "kind_provability AnchorMissingInitConstraint = WholeProgram"
| "kind_provability AnchorConstraintExpression = WholeProgram"
| "kind_provability AnchorAccountUsage = WholeProgram"
| "kind_provability AnchorProjectId = WholeProgram"
| "kind_provability AnchorCheckCfg = Heuristic"
| "kind_provability AnchorSbfArtifact = Heuristic"
| "kind_provability AnchorProgramKeypair = Heuristic"
| "kind_provability AnchorIdlArtifact = Heuristic"
| "kind_provability AnchorTypesArtifact = Heuristic"
| "kind_provability SolanaIdlArtifact = Heuristic"
| "kind_provability SolanaProgramMetadata = Heuristic"
| "kind_provability SolanaTestHarness = Heuristic"
| "kind_provability SolanaSurfpoolWorkspace = Heuristic"
| "kind_provability AnchorSplTokenInterface = Heuristic"
| "kind_provability SecuritySigner = Heuristic"
| "kind_provability SecurityCpiProgram = Heuristic"
| "kind_provability SecuritySysvar = Heuristic"
| "kind_provability SecurityUncheckedAccount = Heuristic"
| "kind_provability SecurityOwnerCheck = Heuristic"
| "kind_provability SecurityTypeCosplay = Heuristic"
| "kind_provability SolanaCodeQuality = Heuristic"
| "kind_provability PdaSeedResolution = Heuristic"
| "kind_provability SecurityStaticPda = Speculative"

primrec kind_truth_source :: "kind \<Rightarrow> truth_source" where
  "kind_truth_source AnchorSyn = SingleFileSyntax"
| "kind_truth_source AnchorConstraintShape = SingleFileSyntax"
| "kind_truth_source AnchorInitConstraints = SingleFileSyntax"
| "kind_truth_source AnchorContextAccounts = SingleFileSyntax"
| "kind_truth_source AnchorMissingAccountReference = SingleFileSyntax"
| "kind_truth_source AnchorMissingInstructionArgument = SingleFileSyntax"
| "kind_truth_source AnchorConstraintExpression = SingleFileSyntax"
| "kind_truth_source AnchorAccountUsage = SingleFileSyntax"
| "kind_truth_source SecuritySigner = SingleFileSyntax"
| "kind_truth_source SecurityCpiProgram = SingleFileSyntax"
| "kind_truth_source SecurityUncheckedAccount = SingleFileSyntax"
| "kind_truth_source SecurityOwnerCheck = SingleFileSyntax"
| "kind_truth_source SecurityTypeCosplay = SingleFileSyntax"
| "kind_truth_source SolanaCodeQuality = SingleFileSyntax"
| "kind_truth_source PdaSeedResolution = SingleFileSyntax"
| "kind_truth_source AnchorSplTokenInterface = PinnedCatalog"
| "kind_truth_source SecuritySysvar = PinnedCatalog"
| "kind_truth_source AnchorMissingInitConstraint = Compound"
| "kind_truth_source AnchorCheckCfg = ToolchainOracle"
| "kind_truth_source AnchorSbfArtifact = ToolchainOracle"
| "kind_truth_source AnchorProgramKeypair = ToolchainOracle"
| "kind_truth_source AnchorIdlArtifact = ToolchainOracle"
| "kind_truth_source AnchorTypesArtifact = ToolchainOracle"
| "kind_truth_source SolanaIdlArtifact = ToolchainOracle"
| "kind_truth_source SolanaProgramMetadata = ToolchainOracle"
| "kind_truth_source SolanaTestHarness = ToolchainOracle"
| "kind_truth_source SolanaSurfpoolWorkspace = ToolchainOracle"
| "kind_truth_source AnchorProjectId = ToolchainOracle"
| "kind_truth_source SecurityStaticPda = NoTruthSource"

primrec kind_code :: "kind \<Rightarrow> string" where
  "kind_code AnchorSyn = ANCHOR_SYN_CODE"
| "kind_code AnchorInitConstraints = ANCHOR_INIT_CONSTRAINTS_CODE"
| "kind_code AnchorMissingInitConstraint = ANCHOR_MISSING_INIT_CONSTRAINT_CODE"
| "kind_code AnchorContextAccounts = ANCHOR_CONTEXT_ACCOUNTS_CODE"
| "kind_code AnchorMissingAccountReference = ANCHOR_MISSING_ACCOUNT_REFERENCE_CODE"
| "kind_code AnchorMissingInstructionArgument = ANCHOR_MISSING_INSTRUCTION_ARGUMENT_CODE"
| "kind_code AnchorConstraintExpression = ANCHOR_CONSTRAINT_EXPRESSION_CODE"
| "kind_code AnchorConstraintShape = ANCHOR_CONSTRAINT_SHAPE_CODE"
| "kind_code AnchorAccountUsage = ANCHOR_ACCOUNT_USAGE_CODE"
| "kind_code AnchorCheckCfg = ANCHOR_CHECK_CFG_CODE"
| "kind_code AnchorProjectId = ANCHOR_PROJECT_ID_CODE"
| "kind_code AnchorSbfArtifact = ANCHOR_SBF_ARTIFACT_CODE"
| "kind_code AnchorProgramKeypair = ANCHOR_PROGRAM_KEYPAIR_CODE"
| "kind_code AnchorIdlArtifact = ANCHOR_IDL_ARTIFACT_CODE"
| "kind_code AnchorTypesArtifact = ANCHOR_TYPES_ARTIFACT_CODE"
| "kind_code SolanaIdlArtifact = SOLANA_IDL_ARTIFACT_CODE"
| "kind_code SolanaProgramMetadata = SOLANA_PROGRAM_METADATA_CODE"
| "kind_code SolanaTestHarness = SOLANA_TEST_HARNESS_CODE"
| "kind_code SolanaSurfpoolWorkspace = SOLANA_SURFPOOL_WORKSPACE_CODE"
| "kind_code AnchorSplTokenInterface = ANCHOR_SPL_TOKEN_INTERFACE_CODE"
| "kind_code SecuritySigner = ANCHOR_SECURITY_SIGNER_CODE"
| "kind_code SecurityCpiProgram = ANCHOR_SECURITY_CPI_PROGRAM_CODE"
| "kind_code SecuritySysvar = ANCHOR_SECURITY_SYSVAR_CODE"
| "kind_code SecurityUncheckedAccount = ANCHOR_SECURITY_UNCHECKED_ACCOUNT_CODE"
| "kind_code SecurityStaticPda = ANCHOR_SECURITY_STATIC_PDA_CODE"
| "kind_code SecurityOwnerCheck = ANCHOR_SECURITY_OWNER_CHECK_CODE"
| "kind_code SecurityTypeCosplay = ANCHOR_SECURITY_TYPE_COSPLAY_CODE"
| "kind_code SolanaCodeQuality = SOLANA_CODE_QUALITY_CODE"
| "kind_code PdaSeedResolution = ANCHOR_PDA_SEED_RESOLUTION_CODE"

primrec docs_url_text :: "kind \<Rightarrow> string" where
  "docs_url_text AnchorSyn = ''https://www.anchor-lang.com/docs''"
| "docs_url_text AnchorInitConstraints = ''https://www.anchor-lang.com/docs/references/account-constraints#accountinit''"
| "docs_url_text AnchorMissingInitConstraint = ''https://www.anchor-lang.com/docs/references/account-constraints#accountinit''"
| "docs_url_text AnchorContextAccounts = ''https://www.anchor-lang.com/docs/basics/program-structure#instruction-context''"
| "docs_url_text AnchorMissingAccountReference = ''https://www.anchor-lang.com/docs/references/account-constraints''"
| "docs_url_text AnchorMissingInstructionArgument = ''https://www.anchor-lang.com/docs/references/account-constraints''"
| "docs_url_text AnchorConstraintExpression = ''https://www.anchor-lang.com/docs/references/account-constraints#accountconstraint''"
| "docs_url_text AnchorConstraintShape = ''https://www.anchor-lang.com/docs/references/account-constraints''"
| "docs_url_text AnchorAccountUsage = ''https://www.anchor-lang.com/docs/references/account-constraints#accountmut''"
| "docs_url_text AnchorCheckCfg = ''https://doc.rust-lang.org/nightly/rustc/check-cfg/cargo-specifics.html''"
| "docs_url_text AnchorProjectId = ''https://www.anchor-lang.com/docs/basics/program-structure#declare_id-macro''"
| "docs_url_text AnchorSbfArtifact = ''https://solana.com/docs/core/programs/program-execution''"
| "docs_url_text AnchorProgramKeypair = ''https://www.anchor-lang.com/docs/references/cli#build''"
| "docs_url_text AnchorIdlArtifact = ''https://www.anchor-lang.com/docs/basics/idl''"
| "docs_url_text AnchorTypesArtifact = ''https://www.anchor-lang.com/docs/references/cli#build''"
| "docs_url_text SolanaIdlArtifact = ''https://solana.com/developers/guides/advanced/idls''"
| "docs_url_text SolanaProgramMetadata = ''https://github.com/solana-program/program-metadata''"
| "docs_url_text SolanaTestHarness = ''https://solana.com/docs/programs/testing''"
| "docs_url_text SolanaSurfpoolWorkspace = ''https://docs.surfpool.run/toolchain/cli''"
| "docs_url_text AnchorSplTokenInterface = ''https://www.anchor-lang.com/docs/references/account-constraints#accounttoken''"
| "docs_url_text SecuritySigner = ''https://github.com/coral-xyz/sealevel-attacks/tree/master/programs/0-signer-authorization''"
| "docs_url_text SecurityCpiProgram = ''https://github.com/coral-xyz/sealevel-attacks/tree/master/programs/5-arbitrary-cpi''"
| "docs_url_text SecuritySysvar = ''https://github.com/coral-xyz/sealevel-attacks/tree/master/programs/10-sysvar-address-checking''"
| "docs_url_text SecurityOwnerCheck = ''https://github.com/coral-xyz/sealevel-attacks/tree/master/programs/2-owner-checks''"
| "docs_url_text SecurityTypeCosplay = ''https://github.com/coral-xyz/sealevel-attacks/tree/master/programs/3-type-cosplay''"
| "docs_url_text SecurityUncheckedAccount = ''https://learn.blueshift.gg/en/courses/program-security/introduction''"
| "docs_url_text SecurityStaticPda = ''https://solana.com/developers/courses/program-security/pda-sharing''"
| "docs_url_text SolanaCodeQuality = ''https://solana.com/developers/courses/program-security''"
| "docs_url_text PdaSeedResolution = ''https://www.anchor-lang.com/docs/references/account-constraints#accountseeds-bump''"

primrec kind_rule :: "kind \<Rightarrow> string option" where
  "kind_rule AnchorSyn = None"
| "kind_rule AnchorInitConstraints = None"
| "kind_rule AnchorMissingInitConstraint = None"
| "kind_rule AnchorContextAccounts = None"
| "kind_rule AnchorMissingAccountReference = None"
| "kind_rule AnchorMissingInstructionArgument = None"
| "kind_rule AnchorConstraintExpression = None"
| "kind_rule AnchorConstraintShape = None"
| "kind_rule AnchorAccountUsage = None"
| "kind_rule AnchorCheckCfg = None"
| "kind_rule AnchorProjectId = None"
| "kind_rule AnchorSbfArtifact = None"
| "kind_rule AnchorProgramKeypair = None"
| "kind_rule AnchorIdlArtifact = None"
| "kind_rule AnchorTypesArtifact = None"
| "kind_rule SolanaIdlArtifact = Some ''solana/idl-ecosystem''"
| "kind_rule SolanaProgramMetadata = Some ''solana/program-metadata''"
| "kind_rule SolanaTestHarness = Some ''solana/test-harness''"
| "kind_rule SolanaSurfpoolWorkspace = Some ''surfpool/localnet-workspace''"
| "kind_rule AnchorSplTokenInterface = Some ''anchor/spl-token-interface''"
| "kind_rule SecuritySigner = Some ''sealevel-attacks/signer-authorization''"
| "kind_rule SecurityCpiProgram = Some ''sealevel-attacks/arbitrary-cpi''"
| "kind_rule SecuritySysvar = Some ''sealevel-attacks/sysvar-address-checking''"
| "kind_rule SecurityOwnerCheck = Some ''sealevel-attacks/owner-checks''"
| "kind_rule SecurityTypeCosplay = Some ''sealevel-attacks/type-cosplay''"
| "kind_rule SecurityUncheckedAccount = Some ''anchor/unchecked-account-validation''"
| "kind_rule SecurityStaticPda = Some ''solana/pda-sharing''"
| "kind_rule SolanaCodeQuality = Some ''solana/program-code-quality''"
| "kind_rule PdaSeedResolution = Some ''anchor/pda-seed-resolution''"

primrec kind_confidence :: "kind \<Rightarrow> string" where
  "kind_confidence AnchorSyn = ''authoritative''"
| "kind_confidence AnchorInitConstraints = ''authoritative''"
| "kind_confidence AnchorMissingInitConstraint = ''authoritative''"
| "kind_confidence AnchorContextAccounts = ''authoritative''"
| "kind_confidence AnchorMissingAccountReference = ''authoritative''"
| "kind_confidence AnchorMissingInstructionArgument = ''authoritative''"
| "kind_confidence AnchorConstraintExpression = ''authoritative''"
| "kind_confidence AnchorConstraintShape = ''authoritative''"
| "kind_confidence AnchorAccountUsage = ''authoritative''"
| "kind_confidence AnchorCheckCfg = ''authoritative''"
| "kind_confidence AnchorProjectId = ''authoritative''"
| "kind_confidence AnchorSbfArtifact = ''authoritative''"
| "kind_confidence AnchorProgramKeypair = ''authoritative''"
| "kind_confidence AnchorIdlArtifact = ''authoritative''"
| "kind_confidence AnchorTypesArtifact = ''authoritative''"
| "kind_confidence SolanaIdlArtifact = ''derived''"
| "kind_confidence SolanaProgramMetadata = ''derived''"
| "kind_confidence SolanaTestHarness = ''derived''"
| "kind_confidence SolanaSurfpoolWorkspace = ''derived''"
| "kind_confidence AnchorSplTokenInterface = ''derived''"
| "kind_confidence SecuritySigner = ''authoritative''"
| "kind_confidence SecuritySysvar = ''authoritative''"
| "kind_confidence SecurityCpiProgram = ''authoritative''"
| "kind_confidence SecurityOwnerCheck = ''heuristic''"
| "kind_confidence SecurityTypeCosplay = ''heuristic''"
| "kind_confidence SecurityUncheckedAccount = ''heuristic''"
| "kind_confidence SecurityStaticPda = ''heuristic''"
| "kind_confidence SolanaCodeQuality = ''heuristic''"
| "kind_confidence PdaSeedResolution = ''derived''"

primrec kind_topic :: "kind \<Rightarrow> string" where
  "kind_topic AnchorSyn = ''seagrass/anchor.syntax''"
| "kind_topic AnchorInitConstraints = ''seagrass/anchor.init.constraints''"
| "kind_topic AnchorMissingInitConstraint = ''seagrass/anchor.init.missing-companion''"
| "kind_topic AnchorContextAccounts = ''seagrass/anchor.context.accounts''"
| "kind_topic AnchorMissingAccountReference = ''seagrass/anchor.constraint.account-reference''"
| "kind_topic AnchorMissingInstructionArgument = ''seagrass/anchor.instruction.argument''"
| "kind_topic AnchorConstraintExpression = ''seagrass/anchor.constraint.expression''"
| "kind_topic AnchorConstraintShape = ''seagrass/anchor.constraint.shape''"
| "kind_topic AnchorAccountUsage = ''seagrass/anchor.account.usage''"
| "kind_topic AnchorCheckCfg = ''seagrass/anchor.check-cfg''"
| "kind_topic AnchorProjectId = ''seagrass/anchor.project-id''"
| "kind_topic AnchorSbfArtifact = ''seagrass/anchor.artifact.sbf''"
| "kind_topic AnchorProgramKeypair = ''seagrass/anchor.artifact.program-keypair''"
| "kind_topic AnchorIdlArtifact = ''seagrass/anchor.artifact.idl''"
| "kind_topic AnchorTypesArtifact = ''seagrass/anchor.artifact.types''"
| "kind_topic SolanaIdlArtifact = ''seagrass/solana.artifact.idl''"
| "kind_topic SolanaProgramMetadata = ''seagrass/solana.program-metadata''"
| "kind_topic SolanaTestHarness = ''seagrass/solana.test-harness''"
| "kind_topic SolanaSurfpoolWorkspace = ''seagrass/solana.surfpool-workspace''"
| "kind_topic AnchorSplTokenInterface = ''seagrass/anchor.spl-token-interface''"
| "kind_topic SecuritySigner = ''seagrass/security.signer.authorization''"
| "kind_topic SecurityCpiProgram = ''seagrass/security.cpi.program''"
| "kind_topic SecuritySysvar = ''seagrass/security.sysvar.address''"
| "kind_topic SecurityUncheckedAccount = ''seagrass/security.account.unchecked''"
| "kind_topic SecurityStaticPda = ''seagrass/security.pda.static-seed''"
| "kind_topic SecurityOwnerCheck = ''seagrass/security.owner-check''"
| "kind_topic SecurityTypeCosplay = ''seagrass/security.type-cosplay''"
| "kind_topic SolanaCodeQuality = ''seagrass/solana.code-quality''"
| "kind_topic PdaSeedResolution = ''seagrass/anchor.pda.seed-resolution''"

primrec anchor_error_names :: "kind \<Rightarrow> string list" where
  "anchor_error_names AnchorInitConstraints = [''ConstraintSpace'']"
| "anchor_error_names AnchorMissingInitConstraint = [''ConstraintSpace'']"
| "anchor_error_names AnchorMissingAccountReference = [''ConstraintHasOne'', ''ConstraintTokenMint'', ''ConstraintTokenOwner'', ''ConstraintMintMintAuthority'', ''ConstraintMintFreezeAuthority'', ''ConstraintMintDecimals'', ''ConstraintTokenTokenProgram'', ''ConstraintMintTokenProgram'', ''ConstraintAssociatedTokenTokenProgram'']"
| "anchor_error_names AnchorMissingInstructionArgument = [''ConstraintHasOne'', ''ConstraintTokenMint'', ''ConstraintTokenOwner'', ''ConstraintMintMintAuthority'', ''ConstraintMintFreezeAuthority'', ''ConstraintMintDecimals'', ''ConstraintTokenTokenProgram'', ''ConstraintMintTokenProgram'', ''ConstraintAssociatedTokenTokenProgram'']"
| "anchor_error_names AnchorConstraintShape = [''ConstraintMut'', ''ConstraintSeeds'', ''ConstraintClose'', ''ConstraintTokenMint'', ''ConstraintTokenOwner'', ''ConstraintMintMintAuthority'', ''ConstraintMintFreezeAuthority'', ''ConstraintMintDecimals'', ''ConstraintSpace'', ''ConstraintTokenTokenProgram'', ''ConstraintMintTokenProgram'', ''ConstraintAssociatedTokenTokenProgram'', ''TryingToInitPayerAsProgramAccount'']"
| "anchor_error_names AnchorConstraintExpression = []"
| "anchor_error_names AnchorAccountUsage = [''ConstraintMut'', ''AccountNotMutable'']"
| "anchor_error_names SecurityCpiProgram = [''InvalidProgramExecutable'']"
| "anchor_error_names SecurityUncheckedAccount = [''InvalidProgramExecutable'']"
| "anchor_error_names SecurityOwnerCheck = [''AccountOwnedByWrongProgram'']"
| "anchor_error_names SecuritySigner = [''AccountNotSigner'']"
| "anchor_error_names SecurityTypeCosplay = [''AccountDiscriminatorMismatch'', ''AccountDidNotDeserialize'']"
| "anchor_error_names SecuritySysvar = [''AccountSysvarMismatch'']"
| "anchor_error_names AnchorProjectId = [''DeclaredProgramIdMismatch'']"
| "anchor_error_names AnchorSyn = []"
| "anchor_error_names AnchorContextAccounts = []"
| "anchor_error_names AnchorCheckCfg = []"
| "anchor_error_names AnchorSbfArtifact = []"
| "anchor_error_names AnchorProgramKeypair = []"
| "anchor_error_names AnchorIdlArtifact = []"
| "anchor_error_names AnchorTypesArtifact = []"
| "anchor_error_names SolanaIdlArtifact = []"
| "anchor_error_names SolanaProgramMetadata = []"
| "anchor_error_names SolanaTestHarness = []"
| "anchor_error_names SolanaSurfpoolWorkspace = []"
| "anchor_error_names SolanaCodeQuality = []"
| "anchor_error_names AnchorSplTokenInterface = [''ConstraintTokenTokenProgram'', ''ConstraintMintTokenProgram'', ''ConstraintAssociatedTokenTokenProgram'']"
| "anchor_error_names SecurityStaticPda = [''ConstraintSeeds'']"
| "anchor_error_names PdaSeedResolution = [''ConstraintSeeds'']"

fun severity_of_provability :: "provability \<Rightarrow> severity" where
  "severity_of_provability Syntactic = ERROR"
| "severity_of_provability WholeProgram = WARNING"
| "severity_of_provability Heuristic = WARNING"
| "severity_of_provability Speculative = HINT"

definition default_severity :: "kind \<Rightarrow> severity" where
  "default_severity k = severity_of_provability (kind_provability k)"

subsection \<open>Documentation links\<close>

definition topic_lint_doc_slug :: "string \<Rightarrow> string option" where
  "topic_lint_doc_slug topic =
     map_option
       (\<lambda>rest. ''seagrass-'' @ map (\<lambda>c. if c = CHR ''.'' \<or> c = CHR ''/'' then CHR ''-'' else c) rest)
       (strip_prefix ''seagrass/'' topic)"

definition topic_lint_doc_url :: "(string \<Rightarrow> 'u option) \<Rightarrow> string \<Rightarrow> 'u option" where
  "topic_lint_doc_url parse topic =
     Option.bind (topic_lint_doc_slug topic) (\<lambda>slug.
       parse (''https://github.com/heyAyushh/seagrass/blob/main/docs/lints/'' @ slug @ ''.md''))"

definition diagnostic_docs_url :: "json \<Rightarrow> string option" where
  "diagnostic_docs_url data = Option.bind (json_get ''docsUrl'' data) as_str"

definition diagnostic_constraint_key :: "json \<Rightarrow> string option" where
  "diagnostic_constraint_key data =
     find_map (\<lambda>key. Option.bind (json_get key data) as_str)
       [''constraint'', ''requiredBy'', ''conflictsWith'', ''missing'', ''requiredCompanion'']"

definition docs_url :: "(string \<Rightarrow> 'u option) \<Rightarrow> kind \<Rightarrow> 'u option" where
  "docs_url parse k = parse (docs_url_text k)"

definition docs_url_for_data :: "(string \<Rightarrow> 'u option) \<Rightarrow> kind \<Rightarrow> json option \<Rightarrow> 'u option" where
  "docs_url_for_data parse k data =
     or_else (Option.bind (data_str ''topic'' data) (topic_lint_doc_url parse))
       (or_else (Option.bind (Option.bind data diagnostic_docs_url) parse)
         (or_else
           (Option.bind
             (Option.bind (Option.bind data diagnostic_constraint_key) documentation_url_for_key)
             parse)
           (docs_url parse k)))"

subsection \<open>Facts about the tables\<close>

lemma all_kinds_complete: "k \<in> set all_kinds"
  by (cases k) (simp_all add: all_kinds_def)

lemma all_kinds_distinct: "distinct all_kinds"
  by (simp add: all_kinds_def)

lemma list_all_kinds: "list_all P all_kinds \<Longrightarrow> P k"
  using all_kinds_complete by (auto simp: list_all_iff)

lemma distinct_map_kinds: "distinct (map f all_kinds) \<Longrightarrow> f j = f k \<Longrightarrow> j = k"
  by (meson all_kinds_complete distinct_map inj_onD)

lemma kind_codes_distinct: "distinct (map kind_code all_kinds)"
  by (simp add: all_kinds_def registry_consts)

lemma kind_slugs_distinct: "distinct (map (topic_lint_doc_slug \<circ> kind_topic) all_kinds)"
  by (simp add: all_kinds_def topic_lint_doc_slug_def strip_prefix_def)

lemma kind_topic_namespaced: "\<exists>rest. rest \<noteq> [] \<and> kind_topic k = ''seagrass/'' @ rest"
  by (cases k) simp_all

lemma kind_topic_slug: "\<exists>slug. topic_lint_doc_slug (kind_topic k) = Some slug"
  by (cases k) (simp_all add: topic_lint_doc_slug_def strip_prefix_def)

text \<open>Code and topic both identify a kind, and so does the documentation page derived from
  the topic: two different kinds never share a code, a topic or a lint page.\<close>

theorem kinds_identified_by_code_and_page:
  "(kind_code j = kind_code k \<longleftrightarrow> j = k) \<and>
   (kind_topic j = kind_topic k \<longleftrightarrow> j = k) \<and>
   (topic_lint_doc_slug (kind_topic j) = topic_lint_doc_slug (kind_topic k) \<longleftrightarrow> j = k)"
  using distinct_map_kinds [OF kind_codes_distinct, of j k]
    distinct_map_kinds [OF kind_slugs_distinct, of j k] by auto

text \<open>the provability ceiling.  A kind defaults to an error only when a single file proves
  it, such a kind always rests on the syntax of that file, and the kinds with no truth source are
  the speculative ones, which are exactly the hints.\<close>

theorem severity_bounded_by_provability:
  "{k. default_severity k = ERROR} = {k. kind_provability k = Syntactic} \<and>
   {k. kind_provability k = Syntactic} \<subset> {k. kind_truth_source k = SingleFileSyntax} \<and>
   {k. kind_truth_source k = NoTruthSource} = {k. kind_provability k = Speculative} \<and>
   {k. kind_provability k = Speculative} = {k. default_severity k = HINT}"
proof (intro conjI)
  show "{k. default_severity k = ERROR} = {k. kind_provability k = Syntactic}"
    by (intro Collect_cong, case_tac k) (simp_all add: default_severity_def)
  show "{k. kind_truth_source k = NoTruthSource} = {k. kind_provability k = Speculative}"
    by (intro Collect_cong, case_tac k) simp_all
  have "kind_truth_source k = SingleFileSyntax" if "kind_provability k = Syntactic" for k
    using that by (cases k) simp_all
  moreover have "AnchorContextAccounts \<in> {k. kind_truth_source k = SingleFileSyntax} - {k. kind_provability k = Syntactic}"
    by simp
  ultimately show "{k. kind_provability k = Syntactic} \<subset> {k. kind_truth_source k = SingleFileSyntax}"
    by blast
  show "{k. kind_provability k = Speculative} = {k. default_severity k = HINT}"
    by (intro Collect_cong, case_tac k) (simp_all add: default_severity_def)
qed

end
