(* ===== verification/Ordered_Map.thy ===== *)
theory Ordered_Map
  imports Rust_Prelude
begin

section \<open>Keyed stores: the map contract and the ordered map\<close>

text \<open>
  The components keep their state in maps: \<open>BTreeMap\<close> (trie children, security levels,
  name groups), \<open>DashMap\<close> (caches, epochs) and the trie itself.  The locale \<open>keyed_store\<close>
  states what a client may rely on; it is interpreted here on the sorted association list that
  models \<open>BTreeMap\<close> and in the later theories on the trie and on the query cache.
\<close>

subsection \<open>The contract\<close>

locale keyed_store =
  fixes empty :: "'m"
    and lookup :: "'m \<Rightarrow> 'k \<Rightarrow> 'v option"
    and put :: "'k \<Rightarrow> 'v \<Rightarrow> 'm \<Rightarrow> 'm"
    and remove :: "'k \<Rightarrow> 'm \<Rightarrow> 'm"
    and invar :: "'m \<Rightarrow> bool"
  assumes invar_empty: "invar empty"
    and lookup_empty: "lookup empty k = None"
    and invar_put: "invar m \<Longrightarrow> invar (put k v m)"
    and lookup_put: "invar m \<Longrightarrow> lookup (put k v m) = (lookup m)(k \<mapsto> v)"
    and invar_remove: "invar m \<Longrightarrow> invar (remove k m)"
    and lookup_remove: "invar m \<Longrightarrow> lookup (remove k m) = (lookup m)(k := None)"
begin

lemma lookup_put_same: "invar m \<Longrightarrow> lookup (put k v m) k = Some v"
  by (simp add: lookup_put)

lemma lookup_put_other: "invar m \<Longrightarrow> j \<noteq> k \<Longrightarrow> lookup (put k v m) j = lookup m j"
  by (simp add: lookup_put)

lemma lookup_put_twice: "invar m \<Longrightarrow> lookup (put k w (put k v m)) = lookup (put k w m)"
  by (simp add: lookup_put invar_put)

lemma lookup_remove_put:
  "invar m \<Longrightarrow> lookup m k = None \<Longrightarrow> lookup (remove k (put k v m)) = lookup m"
  by (auto simp: lookup_put lookup_remove invar_put)

text \<open>Loading a list of entries, the last entry of a key winning.\<close>

lemma fold_put:
  "invar m \<Longrightarrow>
     invar (fold (\<lambda>(k, v). put k v) kvs m) \<and>
     lookup (fold (\<lambda>(k, v). put k v) kvs m) = lookup m ++ map_of (rev kvs)"
proof (induction kvs arbitrary: m)
  case Nil
  then show ?case by simp
next
  case (Cons kv kvs)
  obtain k v where kv: "kv = (k, v)" by force
  with Cons.prems have "invar (put k v m)" by (simp add: invar_put)
  from Cons.IH [OF this] Cons.prems show ?case
    by (simp add: kv lookup_put map_add_upd_left map_add_assoc [symmetric])
       (auto simp: map_add_def fun_eq_iff split: option.splits)
qed

lemma lookup_load: "lookup (fold (\<lambda>(k, v). put k v) kvs empty) = map_of (rev kvs)"
proof -
  have "lookup empty = Map.empty" by (auto simp: lookup_empty)
  with fold_put [OF invar_empty, of kvs] show ?thesis by simp
qed

end

subsection \<open>\<open>BTreeMap\<close> as a sorted association list\<close>

type_synonym ('k, 'v) omap = "('k \<times> 'v) list"

fun om_insert :: "'k::linorder \<Rightarrow> 'v \<Rightarrow> ('k, 'v) omap \<Rightarrow> ('k, 'v) omap" where
  "om_insert k v [] = [(k, v)]"
| "om_insert k v ((j, w) # m) =
     (if k < j then (k, v) # (j, w) # m
      else if k = j then (k, v) # m
      else (j, w) # om_insert k v m)"

definition om_remove :: "'k \<Rightarrow> ('k, 'v) omap \<Rightarrow> ('k, 'v) omap" where
  "om_remove k m = filter (\<lambda>(j, _). j \<noteq> k) m"

definition om_wf :: "('k::linorder, 'v) omap \<Rightarrow> bool" where
  "om_wf m \<longleftrightarrow> sorted_wrt (<) (map fst m)"

text \<open>\<open>entry(k).or_insert(d)\<close> followed by an update in place.\<close>

definition om_update :: "'k::linorder \<Rightarrow> 'v \<Rightarrow> ('v \<Rightarrow> 'v) \<Rightarrow> ('k, 'v) omap \<Rightarrow> ('k, 'v) omap" where
  "om_update k d f m = om_insert k (f (unwrap_or d (map_of m k))) m"

lemma om_wf_Nil [simp]: "om_wf []"
  by (simp add: om_wf_def)

lemma om_wf_Cons [simp]: "om_wf ((k, v) # m) \<longleftrightarrow> (\<forall>j \<in> fst ` set m. k < j) \<and> om_wf m"
  by (simp add: om_wf_def)

lemma om_insert_keys: "fst ` set (om_insert k v m) = insert k (fst ` set m)"
  by (induction k v m rule: om_insert.induct) auto

lemma om_wf_insert: "om_wf m \<Longrightarrow> om_wf (om_insert k v m)"
proof (induction k v m rule: om_insert.induct)
  case (2 k v j w m)
  then show ?case by (auto simp: om_insert_keys)
qed simp

lemma map_of_om_insert: "map_of (om_insert k v m) = (map_of m)(k \<mapsto> v)"
  by (induction k v m rule: om_insert.induct) auto

lemma om_wf_remove: "om_wf m \<Longrightarrow> om_wf (om_remove k m)"
  by (induction m) (auto simp: om_remove_def)

lemma map_of_om_remove: "map_of (om_remove k m) = (map_of m)(k := None)"
  by (induction m) (auto simp: om_remove_def)

lemma om_wf_distinct: "om_wf m \<Longrightarrow> distinct (map fst m)"
  by (simp add: om_wf_def strict_sorted_iff)

lemma om_wf_mem_iff: "om_wf m \<Longrightarrow> (k, v) \<in> set m \<longleftrightarrow> map_of m k = Some v"
  by (simp add: om_wf_distinct)

lemma om_remove_absent: "map_of m k = None \<Longrightarrow> om_remove k m = m"
  by (force simp: om_remove_def map_of_eq_None_iff filter_id_conv)

interpretation btree: keyed_store "[]" map_of om_insert om_remove om_wf
  by unfold_locales
     (auto simp: om_wf_insert map_of_om_insert om_wf_remove map_of_om_remove)

text \<open>Two well-formed ordered maps with the same lookups are the same list: iteration order is
  a function of the contents, which is why the source uses \<open>BTreeMap\<close> for stable output.\<close>

lemma om_rebuild: "om_wf m \<Longrightarrow> m = map (\<lambda>k. (k, the (map_of m k))) (map fst m)"
proof (rule nth_equalityI, goal_cases)
  case (2 i)
  then have "(fst (m ! i), snd (m ! i)) \<in> set m" by simp
  with 2 show ?case by (metis length_map nth_map om_wf_mem_iff option.sel prod.collapse)
qed simp

lemma om_ext:
  assumes "om_wf m" "om_wf n" "map_of m = map_of n"
  shows "m = n"
proof -
  have "fst ` set m = fst ` set n"
    using assms(3) by (metis dom_map_of_conv_image_fst)
  then have "map fst m = map fst n"
    using assms(1,2) by (intro strict_sorted_equal) (auto simp: om_wf_def)
  with assms show ?thesis
    by (metis om_rebuild)
qed

end
