(* ===== verification/Arbitration.thy ===== *)
theory Arbitration
  imports Diagnostic_Registry Ordered_Map
begin

section \<open>Arbitration: from raw rule output to the published diagnostics\<close>

text \<open>
  \<open>src/lsp/diagnostics/arbitration.rs\<close>: the settings filter, the typing-region filter, the
  selection of the most confident diagnostic per range and topic, and the removal of duplicates.
  \<open>Url::parse\<close> (of the \<open>url\<close> crate) is the parameter \<open>parse\<close>; the program calls
  it on one constant and relies on nothing else about it.
\<close>

definition CURRENT_DOCUMENT_PLACEHOLDER_URI :: string where
  "CURRENT_DOCUMENT_PLACEHOLDER_URI = ''file:///seagrass/current-document.rs''"

datatype diagnostic_level = LvlOff | LvlWarn | LvlError | LvlHint

definition level_from_str :: "string \<Rightarrow> diagnostic_level option" where
  "level_from_str value =
     (if value = ''off'' \<or> value = ''disabled'' \<or> value = ''false'' then Some LvlOff
      else if value = ''warn'' \<or> value = ''warning'' \<or> value = ''true'' then Some LvlWarn
      else if value = ''error'' then Some LvlError
      else if value = ''hint'' then Some LvlHint
      else None)"

fun level_severity :: "diagnostic_level \<Rightarrow> severity option" where
  "level_severity LvlOff = None"
| "level_severity LvlWarn = Some WARNING"
| "level_severity LvlError = Some ERROR"
| "level_severity LvlHint = Some HINT"

record diagnostic_settings =
  security_diagnostics :: bool
  experimental_diagnostics :: bool
  artifact_diagnostics :: bool
  security_levels :: "(string, diagnostic_level) omap"
  strict_native_security :: bool
  typing_suppression :: "range option"

definition default_settings :: diagnostic_settings where
  "default_settings =
     \<lparr>security_diagnostics = True, experimental_diagnostics = True,
      artifact_diagnostics = False, security_levels = [],
      strict_native_security = True, typing_suppression = None\<rparr>"

definition is_security_code :: "string \<Rightarrow> bool" where
  "is_security_code code \<longleftrightarrow> prefix ''anchor-security-'' code \<or> code = ''solana-code-quality''"

definition is_artifact_code :: "string \<Rightarrow> bool" where
  "is_artifact_code code \<longleftrightarrow> suffix ''-artifact'' code \<or> code = ''anchor-program-keypair''"

definition config_key :: "diagnostic \<Rightarrow> string option" where
  "config_key d = data_str ''configKey'' (d_data d)"

definition apply_settings_one :: "diagnostic_settings \<Rightarrow> diagnostic \<Rightarrow> diagnostic option" where
  "apply_settings_one st d =
     (case diagnostic_code d of
        None \<Rightarrow> Some d
      | Some code \<Rightarrow>
          if \<not> security_diagnostics st \<and> is_security_code code then None
          else if \<not> artifact_diagnostics st \<and> is_artifact_code code then None
          else if \<not> experimental_diagnostics st \<and> code = ''anchor-missing-init-constraint'' then None
          else if \<not> strict_native_security st \<and> code = ''solana-code-quality'' \<and>
                  data_bool ''strictNative'' (d_data d) = Some True then None
          else
            (case Option.bind (config_key d) (map_of (security_levels st)) of
               Some level \<Rightarrow>
                 if level = LvlOff then None
                 else Some (d\<lparr>d_severity := level_severity level\<rparr>)
             | None \<Rightarrow> Some d))"

definition apply_settings :: "diagnostic_settings \<Rightarrow> diagnostic list \<Rightarrow> diagnostic list" where
  "apply_settings st ds = List.map_filter (apply_settings_one st) ds"

definition suppress_typing_region :: "range option \<Rightarrow> diagnostic list \<Rightarrow> diagnostic list" where
  "suppress_typing_region region ds =
     (case region of
        None \<Rightarrow> ds
      | Some r \<Rightarrow> filter (\<lambda>d. \<not> ranges_touch (d_range d) r) ds)"

definition dedupe_key :: "diagnostic \<Rightarrow> u32 \<times> u32 \<times> u32 \<times> u32 \<times> string \<times> string" where
  "dedupe_key d =
     (pos_line (range_start (d_range d)), pos_character (range_start (d_range d)),
      pos_line (range_end (d_range d)), pos_character (range_end (d_range d)),
      unwrap_or [] (diagnostic_code d), d_message d)"

definition dedupe :: "diagnostic list \<Rightarrow> diagnostic list" where
  "dedupe ds = retain_first dedupe_key {} ds"

subsection \<open>One diagnostic per range and topic\<close>

record topic_key =
  key_start_line :: u32
  key_start_character :: u32
  key_end_line :: u32
  key_end_character :: u32
  key_topic :: string

definition diagnostic_topic :: "diagnostic \<Rightarrow> string option" where
  "diagnostic_topic d = data_str ''topic'' (d_data d)"

definition diagnostic_topic_key :: "diagnostic \<Rightarrow> topic_key option" where
  "diagnostic_topic_key d =
     map_option
       (\<lambda>topic.
          \<lparr>key_start_line = pos_line (range_start (d_range d)),
           key_start_character = pos_character (range_start (d_range d)),
           key_end_line = pos_line (range_end (d_range d)),
           key_end_character = pos_character (range_end (d_range d)),
           key_topic = topic\<rparr>)
       (diagnostic_topic d)"

definition diagnostic_confidence :: "diagnostic \<Rightarrow> string option" where
  "diagnostic_confidence d = data_str ''confidence'' (d_data d)"

definition confidence_rank :: "diagnostic \<Rightarrow> nat" where
  "confidence_rank d =
     (case diagnostic_confidence d of
        None \<Rightarrow> 0
      | Some c \<Rightarrow>
          if c = ''authoritative'' \<or> c = ''high'' then 3
          else if c = ''derived'' \<or> c = ''medium'' then 2
          else if c = ''heuristic'' \<or> c = ''low'' then 1
          else 0)"

definition demoted_related_message :: "diagnostic \<Rightarrow> string" where
  "demoted_related_message d =
     (case diagnostic_code d of
        Some code \<Rightarrow> code @ '': '' @ d_message d
      | None \<Rightarrow> d_message d)"

definition related_key :: "related_information \<Rightarrow> string \<times> u32 \<times> u32 \<times> u32 \<times> u32 \<times> string" where
  "related_key info =
     (loc_uri (rel_location info),
      pos_line (range_start (loc_range (rel_location info))),
      pos_character (range_start (loc_range (rel_location info))),
      pos_line (range_end (loc_range (rel_location info))),
      pos_character (range_end (loc_range (rel_location info))),
      rel_message info)"

definition dedupe_related_information :: "related_information list \<Rightarrow> related_information list" where
  "dedupe_related_information related = retain_first related_key {} related"

definition demoted_info :: "string \<Rightarrow> diagnostic \<Rightarrow> related_information" where
  "demoted_info uri d =
     \<lparr>rel_location = \<lparr>loc_uri = uri, loc_range = d_range d\<rparr>,
      rel_message = demoted_related_message d\<rparr>"

definition append_related_diagnostic ::
  "(string \<Rightarrow> string option) \<Rightarrow> diagnostic \<Rightarrow> diagnostic \<Rightarrow> diagnostic" where
  "append_related_diagnostic parse survivor demoted =
     (case parse CURRENT_DOCUMENT_PLACEHOLDER_URI of
        None \<Rightarrow> survivor
      | Some uri \<Rightarrow>
          survivor\<lparr>d_related :=
            Some (dedupe_related_information
              (unwrap_or [] (d_related survivor) @ [demoted_info uri demoted] @
               unwrap_or [] (d_related demoted)))\<rparr>)"

definition select_step ::
  "(string \<Rightarrow> string option) \<Rightarrow> diagnostic \<Rightarrow> diagnostic list \<Rightarrow> diagnostic list" where
  "select_step parse d selected =
     (case diagnostic_topic_key d of
        None \<Rightarrow> selected @ [d]
      | Some k \<Rightarrow>
          (case index_of (\<lambda>e. diagnostic_topic_key e = Some k) selected of
             None \<Rightarrow> selected @ [d]
           | Some i \<Rightarrow>
               if confidence_rank d > confidence_rank (selected ! i)
               then selected[i := append_related_diagnostic parse d (selected ! i)]
               else selected[i := append_related_diagnostic parse (selected ! i) d]))"

definition prefer_highest_confidence_by_topic ::
  "(string \<Rightarrow> string option) \<Rightarrow> diagnostic list \<Rightarrow> diagnostic list" where
  "prefer_highest_confidence_by_topic parse ds = fold (select_step parse) ds []"

definition arbitrate ::
  "(string \<Rightarrow> string option) \<Rightarrow> diagnostic list \<Rightarrow> diagnostic_settings \<Rightarrow> diagnostic list" where
  "arbitrate parse ds st =
     dedupe (prefer_highest_confidence_by_topic parse
       (suppress_typing_region (typing_suppression st) (apply_settings st ds)))"

subsection \<open>Facts about the parts\<close>

lemma append_related_frame [simp]:
  "diagnostic_topic_key (append_related_diagnostic parse s d) = diagnostic_topic_key s"
  "confidence_rank (append_related_diagnostic parse s d) = confidence_rank s"
  "dedupe_key (append_related_diagnostic parse s d) = dedupe_key s"
  "diagnostic_code (append_related_diagnostic parse s d) = diagnostic_code s"
  "d_range (append_related_diagnostic parse s d) = d_range s"
  "d_message (append_related_diagnostic parse s d) = d_message s"
  by (auto simp: append_related_diagnostic_def diagnostic_topic_key_def diagnostic_topic_def
        confidence_rank_def diagnostic_confidence_def dedupe_key_def diagnostic_code_def
        split: option.splits)

lemma related_key_inj: "related_key a = related_key b \<Longrightarrow> a = b"
  by (cases a, cases b)
     (auto simp: related_key_def intro!: location.equality range.equality position.equality)

lemma set_dedupe_related: "set (dedupe_related_information xs) = set xs"
proof
  show "set (dedupe_related_information xs) \<subseteq> set xs"
    by (simp add: dedupe_related_information_def retain_first_set)
  show "set xs \<subseteq> set (dedupe_related_information xs)"
  proof
    fix x assume "x \<in> set xs"
    then have "related_key x \<in> related_key ` set (dedupe_related_information xs)"
      by (simp add: dedupe_related_information_def retain_first_keys)
    then show "x \<in> set (dedupe_related_information xs)"
      by (auto dest: related_key_inj)
  qed
qed

subsection \<open>The selection keeps everything it demotes\<close>

definition related_set :: "diagnostic \<Rightarrow> related_information set" where
  "related_set d = set (unwrap_or [] (d_related d))"

text \<open>\<open>s\<close> and \<open>d\<close> are the same diagnostic but for what was appended to \<open>s\<close>.\<close>

definition same_core :: "diagnostic \<Rightarrow> diagnostic \<Rightarrow> bool" where
  "same_core s d \<longleftrightarrow> s\<lparr>d_related := d_related d\<rparr> = d"

text \<open>The survivor \<open>s\<close> accounts for \<open>d\<close>: same range and topic, at least the confidence of
  \<open>d\<close>, and \<open>d\<close> either is \<open>s\<close> or is recorded in it, with all related information.\<close>

definition absorbs :: "string \<Rightarrow> diagnostic \<Rightarrow> diagnostic \<Rightarrow> bool" where
  "absorbs uri s d \<longleftrightarrow>
     diagnostic_topic_key s = diagnostic_topic_key d \<and>
     confidence_rank d \<le> confidence_rank s \<and>
     (same_core s d \<or> demoted_info uri d \<in> related_set s) \<and>
     related_set d \<subseteq> related_set s"

lemma same_core_refl [simp]: "same_core d d"
  by (simp add: same_core_def)

lemma same_core_info: "same_core s d \<Longrightarrow> demoted_info uri s = demoted_info uri d"
proof -
  assume "same_core s d"
  then obtain r where "d = s\<lparr>d_related := r\<rparr>" by (metis same_core_def)
  then show ?thesis
    by (simp add: demoted_info_def demoted_related_message_def diagnostic_code_def
          split: option.split)
qed

lemma same_core_append: "same_core s d \<Longrightarrow> same_core (append_related_diagnostic parse s e) d"
  by (auto simp: same_core_def append_related_diagnostic_def split: option.splits)

lemma absorbs_refl: "absorbs uri d d"
  by (simp add: absorbs_def)

lemma related_set_append:
  "parse CURRENT_DOCUMENT_PLACEHOLDER_URI = Some uri \<Longrightarrow>
     related_set (append_related_diagnostic parse s d) =
       related_set s \<union> {demoted_info uri d} \<union> related_set d"
  by (auto simp: related_set_def append_related_diagnostic_def set_dedupe_related)

lemma absorbs_append_survivor:
  "parse CURRENT_DOCUMENT_PLACEHOLDER_URI = Some uri \<Longrightarrow> absorbs uri s e \<Longrightarrow>
     absorbs uri (append_related_diagnostic parse s d) e"
  by (auto simp: absorbs_def related_set_append intro: same_core_append)

lemma absorbs_append_demoted:
  assumes "parse CURRENT_DOCUMENT_PLACEHOLDER_URI = Some uri" "absorbs uri s e"
    "diagnostic_topic_key s = diagnostic_topic_key d" "confidence_rank s \<le> confidence_rank d"
  shows "absorbs uri (append_related_diagnostic parse d s) e"
  using assms same_core_info [of s e uri]
  by (auto simp: absorbs_def related_set_append)

text \<open>The three outcomes of a step.\<close>

lemma select_step_cases:
  obtains (push) "select_step parse d sel = sel @ [d]"
      "diagnostic_topic_key d \<noteq> None \<Longrightarrow>
         \<forall>s \<in> set sel. diagnostic_topic_key s \<noteq> diagnostic_topic_key d"
  | (promote) i where "i < length sel" "diagnostic_topic_key (sel ! i) = diagnostic_topic_key d"
      "confidence_rank (sel ! i) < confidence_rank d"
      "select_step parse d sel = sel[i := append_related_diagnostic parse d (sel ! i)]"
  | (demote) i where "i < length sel" "diagnostic_topic_key (sel ! i) = diagnostic_topic_key d"
      "confidence_rank d \<le> confidence_rank (sel ! i)"
      "select_step parse d sel = sel[i := append_related_diagnostic parse (sel ! i) d]"
proof (cases "diagnostic_topic_key d")
  case None
  then show thesis by (intro push) (simp_all add: select_step_def)
next
  case (Some k)
  note k = this
  show thesis
  proof (cases "index_of (\<lambda>s. diagnostic_topic_key s = Some k) sel")
    case None
    then have "\<forall>s \<in> set sel. diagnostic_topic_key s \<noteq> Some k" by (simp add: index_of_None)
    with k None show thesis by (intro push) (simp_all add: select_step_def)
  next
    case (Some i)
    from index_of_Some [OF Some] k
    have i: "i < length sel" "diagnostic_topic_key (sel ! i) = diagnostic_topic_key d" by simp_all
    show thesis
    proof (cases "confidence_rank (sel ! i) < confidence_rank d")
      case True
      with k Some i show thesis by (intro promote [of i]) (simp_all add: select_step_def)
    next
      case False
      with k Some i show thesis by (intro demote [of i]) (simp_all add: select_step_def)
    qed
  qed
qed

lemma update_all: "\<forall>s \<in> set xs. P s \<Longrightarrow> P n \<Longrightarrow> \<forall>s \<in> set (xs[i := n]). P s"
  using set_update_subset_insert [of xs i n] by blast

lemma update_absorbs:
  assumes "i < length sel" "absorbs uri n d"
    and "\<And>s. absorbs uri (sel ! i) s \<Longrightarrow> absorbs uri n s"
    and "e = d \<or> (\<exists>s \<in> set sel. absorbs uri s e)"
  shows "\<exists>s \<in> set (sel[i := n]). absorbs uri s e"
proof (cases "e = d")
  case True
  with assms(1,2) show ?thesis by (auto simp: set_update_memI)
next
  case False
  with assms(4) obtain j where j: "j < length sel" "absorbs uri (sel ! j) e"
    by (auto simp: in_set_conv_nth)
  show ?thesis
  proof (cases "j = i")
    case True
    with assms(3) j have "absorbs uri n e" by simp
    with assms(1) show ?thesis by (auto intro: set_update_memI)
  next
    case False
    with j have "sel[i := n] ! j = sel ! j" "j < length (sel[i := n])" by simp_all
    with j show ?thesis by (metis nth_mem)
  qed
qed

lemma select_step_absorbs:
  assumes p: "parse CURRENT_DOCUMENT_PLACEHOLDER_URI = Some uri"
    and e: "e = d \<or> (\<exists>s \<in> set sel. absorbs uri s e)"
  shows "\<exists>s \<in> set (select_step parse d sel). absorbs uri s e"
proof (cases rule: select_step_cases [of parse d sel])
  case push
  with e show ?thesis by (auto simp: absorbs_refl)
next
  case (promote i)
  have "absorbs uri (append_related_diagnostic parse d (sel ! i)) d"
    using p by (simp add: absorbs_append_survivor absorbs_refl)
  moreover have "absorbs uri (append_related_diagnostic parse d (sel ! i)) s"
    if "absorbs uri (sel ! i) s" for s
    using that p promote by (simp add: absorbs_append_demoted)
  ultimately show ?thesis using promote e by (simp add: update_absorbs)
next
  case (demote i)
  have "absorbs uri (append_related_diagnostic parse (sel ! i) d) d"
    using p demote by (auto simp: absorbs_def related_set_append)
  moreover have "absorbs uri (append_related_diagnostic parse (sel ! i) d) s"
    if "absorbs uri (sel ! i) s" for s
    using that p by (simp add: absorbs_append_survivor)
  ultimately show ?thesis using demote e by (simp add: update_absorbs)
qed

lemma fold_select_absorbs:
  assumes "parse CURRENT_DOCUMENT_PLACEHOLDER_URI = Some uri"
  shows "e \<in> set ds \<or> (\<exists>s \<in> set sel. absorbs uri s e) \<Longrightarrow>
     \<exists>s \<in> set (fold (select_step parse) ds sel). absorbs uri s e"
proof (induction ds arbitrary: sel)
  case (Cons d ds)
  show ?case
    using Cons.prems select_step_absorbs [of parse uri e d sel, OF assms]
      Cons.IH [of "select_step parse d sel"]
    by auto
qed simp

text \<open>The keys of the selection stay distinct, and every survivor is one of the inputs.\<close>

definition topic_keys :: "diagnostic list \<Rightarrow> topic_key list" where
  "topic_keys ds = List.map_filter diagnostic_topic_key ds"

lemma topic_keys_simps [simp]:
  "topic_keys [] = []"
  "topic_keys (d # ds) =
     (case diagnostic_topic_key d of None \<Rightarrow> topic_keys ds | Some k \<Rightarrow> k # topic_keys ds)"
  "topic_keys (ds @ es) = topic_keys ds @ topic_keys es"
  by (induction ds) (simp_all add: topic_keys_def map_filter_simps split: option.splits)

lemma topic_keys_mem: "k \<in> set (topic_keys ds) \<longleftrightarrow> (\<exists>d \<in> set ds. diagnostic_topic_key d = Some k)"
  by (induction ds) (auto split: option.splits)

lemma topic_keys_update:
  "i < length ds \<Longrightarrow> diagnostic_topic_key n = diagnostic_topic_key (ds ! i) \<Longrightarrow>
     topic_keys (ds[i := n]) = topic_keys ds"
proof (induction ds arbitrary: i)
  case (Cons d ds)
  then show ?case by (cases i) (auto split: option.split)
qed simp

lemma select_step_keys:
  assumes "distinct (topic_keys sel)"
  shows "distinct (topic_keys (select_step parse d sel))"
proof (cases rule: select_step_cases [of parse d sel])
  case push
  with assms show ?thesis by (auto simp: topic_keys_mem split: option.split)
next
  case (promote i)
  with assms show ?thesis by (simp add: topic_keys_update)
next
  case (demote i)
  with assms show ?thesis by (simp add: topic_keys_update)
qed

lemma select_step_from_input:
  assumes sel: "\<forall>s \<in> set sel. \<exists>e \<in> E. same_core s e" and d: "d \<in> E"
  shows "\<forall>s \<in> set (select_step parse d sel). \<exists>e \<in> E. same_core s e"
proof (cases rule: select_step_cases [of parse d sel])
  case push
  have "\<exists>e \<in> E. same_core d e" using d same_core_refl by blast
  with push sel show ?thesis by simp
next
  case (promote i)
  have "\<exists>e \<in> E. same_core (append_related_diagnostic parse d (sel ! i)) e"
    using d same_core_append same_core_refl by blast
  with promote show ?thesis by (simp add: update_all [OF sel])
next
  case (demote i)
  then have "\<exists>e \<in> E. same_core (append_related_diagnostic parse (sel ! i) d) e"
    using sel same_core_append by (meson nth_mem)
  with demote show ?thesis by (simp add: update_all [OF sel])
qed

lemma fold_select_inv:
  assumes "distinct (topic_keys sel)" "\<forall>s \<in> set sel. \<exists>e \<in> E. same_core s e" "set ds \<subseteq> E"
  shows "distinct (topic_keys (fold (select_step parse) ds sel)) \<and>
     (\<forall>s \<in> set (fold (select_step parse) ds sel). \<exists>e \<in> E. same_core s e)"
  using assms
proof (induction ds arbitrary: sel)
  case (Cons d ds)
  then have "\<forall>s \<in> set (select_step parse d sel). \<exists>e \<in> E. same_core s e"
    using select_step_from_input [of sel E d] by auto
  with Cons.prems Cons.IH [of "select_step parse d sel"] select_step_keys [of sel parse d]
  show ?case by simp
qed simp

lemma distinct_topic_keys_unique:
  assumes "distinct (topic_keys ds)" "s \<in> set ds" "t \<in> set ds"
    "diagnostic_topic_key s = diagnostic_topic_key t" "diagnostic_topic_key s \<noteq> None"
  shows "s = t"
  using assms
proof (induction ds)
  case (Cons d ds)
  then show ?case by (auto simp: topic_keys_mem split: option.splits)
qed simp

lemma prefer_inv:
  "distinct (topic_keys (prefer_highest_confidence_by_topic parse ds))"
  "s \<in> set (prefer_highest_confidence_by_topic parse ds) \<Longrightarrow> \<exists>d \<in> set ds. same_core s d"
  using fold_select_inv [of "[]" "set ds" ds parse]
  by (simp_all add: prefer_highest_confidence_by_topic_def)

text \<open>C4: the selection publishes one diagnostic per range and topic, the most confident one.
  Every diagnostic of the input is accounted for by a survivor of its range and topic that ranks
  at least as high and that either is that diagnostic or carries it, and all its related
  information, as related information; and every survivor is one of the inputs.\<close>

theorem prefer_highest_confidence_sound:
  assumes "parse CURRENT_DOCUMENT_PLACEHOLDER_URI = Some uri"
  shows "(\<forall>d \<in> set ds. \<exists>s \<in> set (prefer_highest_confidence_by_topic parse ds). absorbs uri s d) \<and>
    (\<forall>s \<in> set (prefer_highest_confidence_by_topic parse ds). \<exists>d \<in> set ds. same_core s d) \<and>
    distinct (topic_keys (prefer_highest_confidence_by_topic parse ds))"
  using fold_select_absorbs [of parse uri _ ds "[]", OF assms] prefer_inv(1) [of parse ds]
    prefer_inv(2) [of _ parse ds]
  by (auto simp: prefer_highest_confidence_by_topic_def)

definition sample_diagnostic :: "string \<Rightarrow> string \<Rightarrow> diagnostic" where
  "sample_diagnostic msg confidence =
     \<lparr>d_range = \<lparr>range_start = \<lparr>pos_line = 1, pos_character = 2\<rparr>,
                 range_end = \<lparr>pos_line = 1, pos_character = 5\<rparr>\<rparr>,
      d_severity = Some WARNING, d_code = Some (String ''solana-code-quality''),
      d_code_description = None, d_source = Some ''seagrass'', d_message = msg,
      d_related = None, d_tags = None,
      d_data = Some (JObject [(''topic'', JString ''init-payer''),
                              (''confidence'', JString confidence)])\<rparr>"

theorem prefer_highest_confidence_sound_witness:
  "(\<lambda>u. Some u) CURRENT_DOCUMENT_PLACEHOLDER_URI = Some CURRENT_DOCUMENT_PLACEHOLDER_URI \<and>
   distinct (topic_keys (prefer_highest_confidence_by_topic (\<lambda>u. Some u)
     [sample_diagnostic ''near init'' ''medium'', sample_diagnostic ''missing payer'' ''high'']))"
  using prefer_highest_confidence_sound
    [of "\<lambda>u. Some u" CURRENT_DOCUMENT_PLACEHOLDER_URI
        "[sample_diagnostic ''near init'' ''medium'', sample_diagnostic ''missing payer'' ''high'']"]
  by simp

subsection \<open>The published list\<close>

lemma set_dedupe: "set (dedupe ds) \<subseteq> set ds"
  by (simp add: dedupe_def retain_first_set)

lemma dedupe_distinct: "distinct (map dedupe_key (dedupe ds))"
  by (simp add: dedupe_def retain_first_distinct)

lemma dedupe_idem: "dedupe (dedupe ds) = dedupe ds"
  using dedupe_distinct [of ds] unfolding dedupe_def by (simp add: retain_first_id)

lemma apply_settings_mem:
  "d \<in> set (apply_settings st ds) \<longleftrightarrow> (\<exists>e \<in> set ds. apply_settings_one st e = Some d)"
  by (force simp: apply_settings_def List.map_filter_def)

lemma apply_settings_one_frame:
  "apply_settings_one st e = Some d \<Longrightarrow>
     diagnostic_code d = diagnostic_code e \<and> d_range d = d_range e \<and> d_data d = d_data e \<and>
     d_message d = d_message e"
  by (auto simp: apply_settings_one_def diagnostic_code_def split: option.splits if_splits)

lemma same_core_frame:
  "same_core s d \<Longrightarrow> diagnostic_code s = diagnostic_code d \<and> d_range s = d_range d \<and>
     d_data s = d_data d \<and> d_severity s = d_severity d"
proof -
  assume "same_core s d"
  then obtain r where "d = s\<lparr>d_related := r\<rparr>" by (metis same_core_def)
  then show ?thesis by (simp add: diagnostic_code_def)
qed

text \<open>Where a published diagnostic comes from.\<close>

lemma arbitrate_source:
  assumes "s \<in> set (arbitrate parse ds st)"
  obtains e d where "e \<in> set ds" "apply_settings_one st e = Some d" "same_core s d"
    "\<And>r. typing_suppression st = Some r \<Longrightarrow> \<not> ranges_touch (d_range s) r"
proof -
  from assms have "s \<in> set (prefer_highest_confidence_by_topic parse
      (suppress_typing_region (typing_suppression st) (apply_settings st ds)))"
    using set_dedupe unfolding arbitrate_def by blast
  from prefer_inv(2) [OF this] obtain d where
    d: "d \<in> set (suppress_typing_region (typing_suppression st) (apply_settings st ds))"
    and sd: "same_core s d" by blast
  from d have "d \<in> set (apply_settings st ds)"
    and r: "typing_suppression st = Some r \<Longrightarrow> \<not> ranges_touch (d_range s) r" for r
    using same_core_frame [OF sd]
    by (auto simp: suppress_typing_region_def split: option.splits)
  then obtain e where "e \<in> set ds" "apply_settings_one st e = Some d"
    by (auto simp: apply_settings_mem)
  with sd r that show thesis by blast
qed

text \<open>C14: what the settings switch off is never published.  With a family disabled no code of
  the family appears, nothing touches the typing region, and a diagnostic whose configured level
  is set carries the severity of that level, which is never off.\<close>

theorem arbitrate_respects_settings:
  assumes "s \<in> set (arbitrate parse ds st)" and "diagnostic_code s = Some code"
  shows "(is_security_code code \<longrightarrow> security_diagnostics st) \<and>
    (is_artifact_code code \<longrightarrow> artifact_diagnostics st) \<and>
    (code = ''anchor-missing-init-constraint'' \<longrightarrow> experimental_diagnostics st) \<and>
    (code = ''solana-code-quality'' \<and> data_bool ''strictNative'' (d_data s) = Some True \<longrightarrow>
       strict_native_security st) \<and>
    (\<forall>r. typing_suppression st = Some r \<longrightarrow> \<not> ranges_touch (d_range s) r) \<and>
    (\<forall>key level. config_key s = Some key \<and> map_of (security_levels st) key = Some level \<longrightarrow>
       level \<noteq> LvlOff \<and> d_severity s = level_severity level)"
proof -
  obtain e d where e: "apply_settings_one st e = Some d" and sd: "same_core s d"
    and r: "\<And>r. typing_suppression st = Some r \<Longrightarrow> \<not> ranges_touch (d_range s) r"
    by (rule arbitrate_source [OF assms(1)]) blast
  have code: "diagnostic_code e = Some code" and data: "d_data s = d_data e"
    and sev: "d_severity s = d_severity d"
    using apply_settings_one_frame [OF e] same_core_frame [OF sd] assms(2) by simp_all
  from e code have "(is_security_code code \<longrightarrow> security_diagnostics st) \<and>
    (is_artifact_code code \<longrightarrow> artifact_diagnostics st) \<and>
    (code = ''anchor-missing-init-constraint'' \<longrightarrow> experimental_diagnostics st) \<and>
    (code = ''solana-code-quality'' \<and> data_bool ''strictNative'' (d_data e) = Some True \<longrightarrow>
       strict_native_security st) \<and>
    (\<forall>key level. config_key e = Some key \<and> map_of (security_levels st) key = Some level \<longrightarrow>
       level \<noteq> LvlOff \<and> d_severity d = level_severity level)"
    by (auto simp: apply_settings_one_def split: option.splits if_splits)
  moreover have "config_key s = config_key e" by (simp add: config_key_def data)
  ultimately show ?thesis using r by (simp only: data sev) blast
qed

theorem arbitrate_respects_settings_witness:
  "\<exists>s. s \<in> set (arbitrate Some [sample_diagnostic ''near init'' ''medium''] default_settings) \<and>
       diagnostic_code s = Some ''solana-code-quality'' \<and>
       (is_security_code ''solana-code-quality'' \<longrightarrow> security_diagnostics default_settings)"
proof -
  have m: "sample_diagnostic ''near init'' ''medium'' \<in>
      set (arbitrate Some [sample_diagnostic ''near init'' ''medium''] default_settings)"
    by (simp add: arbitrate_def apply_settings_def map_filter_simps apply_settings_one_def
          sample_diagnostic_def diagnostic_code_def default_settings_def is_artifact_code_def
          config_key_def data_str_def suppress_typing_region_def
          prefer_highest_confidence_by_topic_def select_step_def diagnostic_topic_key_def
          diagnostic_topic_def dedupe_def suffix_def)
  have c: "diagnostic_code (sample_diagnostic ''near init'' ''medium'') = Some ''solana-code-quality''"
    by (simp add: sample_diagnostic_def diagnostic_code_def)
  from arbitrate_respects_settings [OF m c] m c show ?thesis by blast
qed

text \<open>C15: no duplicates are published: no two published diagnostics agree in range, code and
  message, and no two agree in range and topic.\<close>

theorem arbitrate_no_duplicates:
  "distinct (map dedupe_key (arbitrate parse ds st)) \<and>
   distinct (topic_keys (arbitrate parse ds st))"
proof -
  have sub: "distinct (topic_keys ys)" if "distinct (topic_keys xs)" "subseq ys xs" for xs ys
    using that unfolding topic_keys_def List.map_filter_def
    by (metis subseq_filter subseq_map subseq_conv_nths distinct_nthsI)
  show ?thesis
    unfolding arbitrate_def
    by (intro conjI dedupe_distinct)
       (simp add: dedupe_def sub [OF prefer_inv(1) retain_first_subseq])
qed

text \<open>The code classes that the settings switch, over the registry: the security family is
  exactly the seven security kinds and the code-quality kind, the artifact family exactly the
  five kinds that compare build outputs.\<close>

theorem code_classes_of_kinds:
  "(is_security_code (kind_code k) \<longleftrightarrow>
      k \<in> {SecuritySigner, SecurityCpiProgram, SecuritySysvar, SecurityUncheckedAccount,
            SecurityStaticPda, SecurityOwnerCheck, SecurityTypeCosplay, SolanaCodeQuality}) \<and>
   (is_artifact_code (kind_code k) \<longleftrightarrow>
      k \<in> {AnchorSbfArtifact, AnchorProgramKeypair, AnchorIdlArtifact, AnchorTypesArtifact,
            SolanaIdlArtifact})"
  by (cases k)
     (simp_all add: is_security_code_def is_artifact_code_def registry_consts suffix_to_prefix)

end
