(* ===== verification/Anchor_Errors.thy ===== *)
theory Anchor_Errors
  imports Json_Value
begin

section \<open>The Anchor error catalog\<close>

text \<open>
  \<open>src/anchor/errors/mod.rs\<close> with the generated table
  \<open>src/anchor/generated/anchor_error_catalog_generated.rs\<close> that it includes: every Anchor
  framework error with its number, message, category and the layer that can detect it, the
  lookup by name, the coverage counts and the JSON form of an entry.
\<close>

datatype error_category =
    CatInstruction | CatEvent | CatConstraint | CatRequire | CatAccount | CatMisc | CatDeprecated

datatype error_coverage = StaticCovered | PreflightCovered | RuntimeOnly

record error_spec =
  err_name :: string
  err_code :: u32
  err_message :: string
  err_category :: error_category
  err_coverage :: error_coverage

definition mk_error ::
  "string \<Rightarrow> u32 \<Rightarrow> string \<Rightarrow> error_category \<Rightarrow> error_coverage \<Rightarrow> error_spec" where
  "mk_error n c m k v =
     \<lparr>err_name = n, err_code = c, err_message = m, err_category = k, err_coverage = v\<rparr>"

definition ERRORS :: "error_spec list" where
  "ERRORS =
     [mk_error ''InstructionMissing'' 100
        ''Instruction discriminator not provided''
        CatInstruction PreflightCovered,
      mk_error ''InstructionFallbackNotFound'' 101
        ''Fallback functions are not supported''
        CatInstruction PreflightCovered,
      mk_error ''InstructionDidNotDeserialize'' 102
        ''The program could not deserialize the given instruction''
        CatInstruction PreflightCovered,
      mk_error ''InstructionDidNotSerialize'' 103
        ''The program could not serialize the given instruction''
        CatInstruction RuntimeOnly,
      mk_error ''EventInstructionStub'' 1500
        ''The program was compiled without `event-cpi` feature''
        CatEvent StaticCovered,
      mk_error ''ConstraintMut'' 2000
        ''A mut constraint was violated''
        CatConstraint StaticCovered,
      mk_error ''ConstraintHasOne'' 2001
        ''A has one constraint was violated''
        CatConstraint StaticCovered,
      mk_error ''ConstraintSigner'' 2002
        ''A signer constraint was violated''
        CatConstraint StaticCovered,
      mk_error ''ConstraintRaw'' 2003
        ''A raw constraint was violated''
        CatConstraint StaticCovered,
      mk_error ''ConstraintOwner'' 2004
        ''An owner constraint was violated''
        CatConstraint StaticCovered,
      mk_error ''ConstraintRentExempt'' 2005
        ''A rent exemption constraint was violated''
        CatConstraint StaticCovered,
      mk_error ''ConstraintSeeds'' 2006
        ''A seeds constraint was violated''
        CatConstraint StaticCovered,
      mk_error ''ConstraintExecutable'' 2007
        ''An executable constraint was violated''
        CatConstraint StaticCovered,
      mk_error ''ConstraintState'' 2008
        ''Deprecated Error, feel free to replace with something else''
        CatConstraint StaticCovered,
      mk_error ''ConstraintAssociated'' 2009
        ''An associated constraint was violated''
        CatConstraint StaticCovered,
      mk_error ''ConstraintAssociatedInit'' 2010
        ''An associated init constraint was violated''
        CatConstraint StaticCovered,
      mk_error ''ConstraintClose'' 2011
        ''A close constraint was violated''
        CatConstraint StaticCovered,
      mk_error ''ConstraintAddress'' 2012
        ''An address constraint was violated''
        CatConstraint StaticCovered,
      mk_error ''ConstraintZero'' 2013
        ''Expected zero account discriminant''
        CatConstraint StaticCovered,
      mk_error ''ConstraintTokenMint'' 2014
        ''A token mint constraint was violated''
        CatConstraint StaticCovered,
      mk_error ''ConstraintTokenOwner'' 2015
        ''A token owner constraint was violated''
        CatConstraint StaticCovered,
      mk_error ''ConstraintMintMintAuthority'' 2016
        ''A mint mint authority constraint was violated''
        CatConstraint StaticCovered,
      mk_error ''ConstraintMintFreezeAuthority'' 2017
        ''A mint freeze authority constraint was violated''
        CatConstraint StaticCovered,
      mk_error ''ConstraintMintDecimals'' 2018
        ''A mint decimals constraint was violated''
        CatConstraint StaticCovered,
      mk_error ''ConstraintSpace'' 2019
        ''A space constraint was violated''
        CatConstraint StaticCovered,
      mk_error ''ConstraintAccountIsNone'' 2020
        ''A required account for the constraint is None''
        CatConstraint StaticCovered,
      mk_error ''ConstraintTokenTokenProgram'' 2021
        ''A token account token program constraint was violated''
        CatConstraint StaticCovered,
      mk_error ''ConstraintMintTokenProgram'' 2022
        ''A mint token program constraint was violated''
        CatConstraint StaticCovered,
      mk_error ''ConstraintAssociatedTokenTokenProgram'' 2023
        ''An associated token account token program constraint was violated''
        CatConstraint StaticCovered,
      mk_error ''ConstraintMintGroupPointerExtension'' 2024
        ''A group pointer extension constraint was violated''
        CatConstraint StaticCovered,
      mk_error ''ConstraintMintGroupPointerExtensionAuthority'' 2025
        ''A group pointer extension authority constraint was violated''
        CatConstraint StaticCovered,
      mk_error ''ConstraintMintGroupPointerExtensionGroupAddress'' 2026
        ''A group pointer extension group address constraint was violated''
        CatConstraint StaticCovered,
      mk_error ''ConstraintMintGroupMemberPointerExtension'' 2027
        ''A group member pointer extension constraint was violated''
        CatConstraint StaticCovered,
      mk_error ''ConstraintMintGroupMemberPointerExtensionAuthority'' 2028
        ''A group member pointer extension authority constraint was violated''
        CatConstraint StaticCovered,
      mk_error ''ConstraintMintGroupMemberPointerExtensionMemberAddress'' 2029
        ''A group member pointer extension group address constraint was violated''
        CatConstraint StaticCovered,
      mk_error ''ConstraintMintMetadataPointerExtension'' 2030
        ''A metadata pointer extension constraint was violated''
        CatConstraint StaticCovered,
      mk_error ''ConstraintMintMetadataPointerExtensionAuthority'' 2031
        ''A metadata pointer extension authority constraint was violated''
        CatConstraint StaticCovered,
      mk_error ''ConstraintMintMetadataPointerExtensionMetadataAddress'' 2032
        ''A metadata pointer extension metadata address constraint was violated''
        CatConstraint StaticCovered,
      mk_error ''ConstraintMintCloseAuthorityExtension'' 2033
        ''A close authority constraint was violated''
        CatConstraint StaticCovered,
      mk_error ''ConstraintMintCloseAuthorityExtensionAuthority'' 2034
        ''A close authority extension authority constraint was violated''
        CatConstraint StaticCovered,
      mk_error ''ConstraintMintPermanentDelegateExtension'' 2035
        ''A permanent delegate extension constraint was violated''
        CatConstraint StaticCovered,
      mk_error ''ConstraintMintPermanentDelegateExtensionDelegate'' 2036
        ''A permanent delegate extension delegate constraint was violated''
        CatConstraint StaticCovered,
      mk_error ''ConstraintMintTransferHookExtension'' 2037
        ''A transfer hook extension constraint was violated''
        CatConstraint StaticCovered,
      mk_error ''ConstraintMintTransferHookExtensionAuthority'' 2038
        ''A transfer hook extension authority constraint was violated''
        CatConstraint StaticCovered,
      mk_error ''ConstraintMintTransferHookExtensionProgramId'' 2039
        ''A transfer hook extension transfer hook program id constraint was violated''
        CatConstraint StaticCovered,
      mk_error ''ConstraintDuplicateMutableAccount'' 2040
        ''A duplicate mutable account constraint was violated''
        CatConstraint StaticCovered,
      mk_error ''AccountAlreadyMigrated'' 2041
        ''Account is already migrated''
        CatConstraint StaticCovered,
      mk_error ''AccountNotMigrated'' 2042
        ''Account must be migrated before exiting''
        CatConstraint StaticCovered,
      mk_error ''ConstraintMintPausableExtension'' 2043
        ''A pausable extension constraint was violated''
        CatConstraint StaticCovered,
      mk_error ''ConstraintMintPausableAuthority'' 2044
        ''A pausable extension authority constraint was violated''
        CatConstraint StaticCovered,
      mk_error ''RequireViolated'' 2500
        ''A require expression was violated''
        CatRequire RuntimeOnly,
      mk_error ''RequireEqViolated'' 2501
        ''A require_eq expression was violated''
        CatRequire RuntimeOnly,
      mk_error ''RequireKeysEqViolated'' 2502
        ''A require_keys_eq expression was violated''
        CatRequire RuntimeOnly,
      mk_error ''RequireNeqViolated'' 2503
        ''A require_neq expression was violated''
        CatRequire RuntimeOnly,
      mk_error ''RequireKeysNeqViolated'' 2504
        ''A require_keys_neq expression was violated''
        CatRequire RuntimeOnly,
      mk_error ''RequireGtViolated'' 2505
        ''A require_gt expression was violated''
        CatRequire RuntimeOnly,
      mk_error ''RequireGteViolated'' 2506
        ''A require_gte expression was violated''
        CatRequire RuntimeOnly,
      mk_error ''AccountDiscriminatorAlreadySet'' 3000
        ''The account discriminator was already set on this account''
        CatAccount PreflightCovered,
      mk_error ''AccountDiscriminatorNotFound'' 3001
        ''No discriminator was found on the account''
        CatAccount PreflightCovered,
      mk_error ''AccountDiscriminatorMismatch'' 3002
        ''Account discriminator did not match what was expected''
        CatAccount PreflightCovered,
      mk_error ''AccountDidNotDeserialize'' 3003
        ''Failed to deserialize the account''
        CatAccount PreflightCovered,
      mk_error ''AccountDidNotSerialize'' 3004
        ''Failed to serialize the account''
        CatAccount RuntimeOnly,
      mk_error ''AccountNotEnoughKeys'' 3005
        ''Not enough account keys given to the instruction''
        CatAccount PreflightCovered,
      mk_error ''AccountNotMutable'' 3006
        ''The given account is not mutable''
        CatAccount StaticCovered,
      mk_error ''AccountOwnedByWrongProgram'' 3007
        ''The given account is owned by a different program than expected''
        CatAccount PreflightCovered,
      mk_error ''InvalidProgramId'' 3008
        ''Program ID was not as expected''
        CatAccount PreflightCovered,
      mk_error ''InvalidProgramExecutable'' 3009
        ''Program account is not executable''
        CatAccount StaticCovered,
      mk_error ''AccountNotSigner'' 3010
        ''The given account did not sign''
        CatAccount StaticCovered,
      mk_error ''AccountNotSystemOwned'' 3011
        ''The given account is not owned by the system program''
        CatAccount StaticCovered,
      mk_error ''AccountNotInitialized'' 3012
        ''The program expected this account to be already initialized''
        CatAccount PreflightCovered,
      mk_error ''AccountNotProgramData'' 3013
        ''The given account is not a program data account''
        CatAccount StaticCovered,
      mk_error ''AccountNotAssociatedTokenAccount'' 3014
        ''The given account is not the associated token account''
        CatAccount StaticCovered,
      mk_error ''AccountSysvarMismatch'' 3015
        ''The given public key does not match the required sysvar''
        CatAccount StaticCovered,
      mk_error ''AccountReallocExceedsLimit'' 3016
        ''The account reallocation exceeds the MAX_PERMITTED_DATA_INCREASE limit''
        CatAccount PreflightCovered,
      mk_error ''AccountDuplicateReallocs'' 3017
        ''The account was duplicated for more than one reallocation''
        CatAccount StaticCovered,
      mk_error ''DeclaredProgramIdMismatch'' 4100
        ''The declared program id does not match the actual program id''
        CatMisc StaticCovered,
      mk_error ''TryingToInitPayerAsProgramAccount'' 4101
        ''You cannot/should not initialize the payer account as a program account''
        CatMisc StaticCovered,
      mk_error ''InvalidNumericConversion'' 4102
        ''Error during numeric conversion''
        CatMisc StaticCovered,
      mk_error ''Deprecated'' 5000
        ''The API being used is deprecated and should no longer be used''
        CatDeprecated StaticCovered]"

definition by_name :: "string \<Rightarrow> error_spec option" where
  "by_name name = find (\<lambda>spec. err_name spec = name) ERRORS"

fun coverage_name :: "error_category \<Rightarrow> string" where
  "coverage_name CatInstruction = ''instruction''"
| "coverage_name CatEvent = ''event''"
| "coverage_name CatConstraint = ''constraint''"
| "coverage_name CatRequire = ''require''"
| "coverage_name CatAccount = ''account''"
| "coverage_name CatMisc = ''misc''"
| "coverage_name CatDeprecated = ''deprecated''"

fun coverage_status :: "error_coverage \<Rightarrow> string" where
  "coverage_status StaticCovered = ''static-covered''"
| "coverage_status PreflightCovered = ''preflight-covered''"
| "coverage_status RuntimeOnly = ''runtime-only''"

definition error_json :: "error_spec \<Rightarrow> json" where
  "error_json spec =
     JObject
       [(''name'', JString (err_name spec)),
        (''code'', JInt (uint (err_code spec))),
        (''message'', JString (err_message spec)),
        (''category'', JString (coverage_name (err_category spec))),
        (''coverage'', JString (coverage_status (err_coverage spec)))]"

definition diagnostic_error_data :: "string list \<Rightarrow> json list" where
  "diagnostic_error_data names = map error_json (List.map_filter by_name names)"

text \<open>The three counters of \<open>coverage_summary\<close>, one pass over the table.\<close>

fun count_coverage :: "error_spec list \<Rightarrow> nat \<times> nat \<times> nat \<Rightarrow> nat \<times> nat \<times> nat" where
  "count_coverage [] acc = acc"
| "count_coverage (spec # specs) (s, p, r) =
     count_coverage specs
       (case err_coverage spec of
          StaticCovered \<Rightarrow> (s + 1, p, r)
        | PreflightCovered \<Rightarrow> (s, p + 1, r)
        | RuntimeOnly \<Rightarrow> (s, p, r + 1))"

definition coverage_summary :: json where
  "coverage_summary =
     (let (s, p, r) = count_coverage ERRORS (0, 0, 0) in
      JObject
        [(''total'', JInt (int (length ERRORS))),
         (''summary'',
            JObject
              [(''staticCovered'', JInt (int s)),
               (''preflightCovered'', JInt (int p)),
               (''runtimeOnly'', JInt (int r))]),
         (''errors'', JArray (map error_json ERRORS))])"

lemma count_coverage_sum:
  "(case count_coverage specs (s, p, r) of (s', p', r') \<Rightarrow> s' + p' + r') =
     s + p + r + length specs"
proof (induction specs arbitrary: s p r)
  case (Cons spec specs)
  then show ?case by (cases "err_coverage spec") simp_all
qed simp

definition error_names :: "string list" where
  "error_names = map err_name ERRORS"

lemma error_names_eq:
  "error_names =
     [''InstructionMissing'', ''InstructionFallbackNotFound'', ''InstructionDidNotDeserialize'', ''InstructionDidNotSerialize'', ''EventInstructionStub'', ''ConstraintMut'', ''ConstraintHasOne'', ''ConstraintSigner'', ''ConstraintRaw'', ''ConstraintOwner'', ''ConstraintRentExempt'', ''ConstraintSeeds'', ''ConstraintExecutable'', ''ConstraintState'', ''ConstraintAssociated'', ''ConstraintAssociatedInit'', ''ConstraintClose'', ''ConstraintAddress'', ''ConstraintZero'', ''ConstraintTokenMint'', ''ConstraintTokenOwner'', ''ConstraintMintMintAuthority'', ''ConstraintMintFreezeAuthority'', ''ConstraintMintDecimals'', ''ConstraintSpace'', ''ConstraintAccountIsNone'', ''ConstraintTokenTokenProgram'', ''ConstraintMintTokenProgram'', ''ConstraintAssociatedTokenTokenProgram'', ''ConstraintMintGroupPointerExtension'', ''ConstraintMintGroupPointerExtensionAuthority'', ''ConstraintMintGroupPointerExtensionGroupAddress'', ''ConstraintMintGroupMemberPointerExtension'', ''ConstraintMintGroupMemberPointerExtensionAuthority'', ''ConstraintMintGroupMemberPointerExtensionMemberAddress'', ''ConstraintMintMetadataPointerExtension'', ''ConstraintMintMetadataPointerExtensionAuthority'', ''ConstraintMintMetadataPointerExtensionMetadataAddress'', ''ConstraintMintCloseAuthorityExtension'', ''ConstraintMintCloseAuthorityExtensionAuthority'', ''ConstraintMintPermanentDelegateExtension'', ''ConstraintMintPermanentDelegateExtensionDelegate'', ''ConstraintMintTransferHookExtension'', ''ConstraintMintTransferHookExtensionAuthority'', ''ConstraintMintTransferHookExtensionProgramId'', ''ConstraintDuplicateMutableAccount'', ''AccountAlreadyMigrated'', ''AccountNotMigrated'', ''ConstraintMintPausableExtension'', ''ConstraintMintPausableAuthority'', ''RequireViolated'', ''RequireEqViolated'', ''RequireKeysEqViolated'', ''RequireNeqViolated'', ''RequireKeysNeqViolated'', ''RequireGtViolated'', ''RequireGteViolated'', ''AccountDiscriminatorAlreadySet'', ''AccountDiscriminatorNotFound'', ''AccountDiscriminatorMismatch'', ''AccountDidNotDeserialize'', ''AccountDidNotSerialize'', ''AccountNotEnoughKeys'', ''AccountNotMutable'', ''AccountOwnedByWrongProgram'', ''InvalidProgramId'', ''InvalidProgramExecutable'', ''AccountNotSigner'', ''AccountNotSystemOwned'', ''AccountNotInitialized'', ''AccountNotProgramData'', ''AccountNotAssociatedTokenAccount'', ''AccountSysvarMismatch'', ''AccountReallocExceedsLimit'', ''AccountDuplicateReallocs'', ''DeclaredProgramIdMismatch'', ''TryingToInitPayerAsProgramAccount'', ''InvalidNumericConversion'', ''Deprecated'']"
  by (simp add: error_names_def ERRORS_def mk_error_def)

lemma error_codes_sorted: "sorted_wrt (<) (map err_code ERRORS)"
proof -
  have "successively (<) (map err_code ERRORS)"
    by (simp add: ERRORS_def mk_error_def)
  then show ?thesis by (simp add: successively_conv_sorted_wrt)
qed

lemma find_Some_name: "find (\<lambda>spec. err_name spec = n) xs = Some e \<Longrightarrow> err_name e = n"
  by (auto simp: find_Some_iff)

lemma by_name_name: "by_name n = Some e \<Longrightarrow> err_name e = n \<and> e \<in> set ERRORS"
  unfolding by_name_def by (auto simp: find_Some_iff)

lemma by_name_defined: "(\<exists>e. by_name n = Some e) \<longleftrightarrow> n \<in> set error_names"
proof -
  have "by_name n = None \<longleftrightarrow> n \<notin> set error_names"
    by (auto simp: by_name_def error_names_def find_None_iff)
  then show ?thesis by auto
qed

end
