(* ===== verification/Preflight.thy ===== *)
theory Preflight
  imports Anchor_Errors
begin

section \<open>Preflight: runtime errors predicted from invocation evidence\<close>

text \<open>
  \<open>src/anchor/preflight.rs\<close>: the evidence records, the three collectors and
  \<open>push_error\<close>, which reports each error once and in the order of its first detection.  A
  discriminator is its eight bytes.
\<close>

definition ANCHOR_DISCRIMINATOR_BYTES :: nat where
  "ANCHOR_DISCRIMINATOR_BYTES = 8"

definition MAX_PERMITTED_ACCOUNT_DATA_INCREASE_BYTES :: nat where
  "MAX_PERMITTED_ACCOUNT_DATA_INCREASE_BYTES = 10240"

record instruction_evidence =
  ins_data_len :: "nat option"
  ins_deserializes :: "bool option"
  discriminator_matches_known_instruction :: "bool option"
  fallback_supported :: "bool option"
  expected_program_id :: "string option"
  provided_program_id :: "string option"
  expected_account_count :: "nat option"
  provided_account_count :: "nat option"

record account_evidence =
  acc_data_len :: "nat option"
  expected_discriminator :: "u8 list option"
  actual_discriminator :: "u8 list option"
  expected_owner :: "string option"
  actual_owner :: "string option"
  acc_initialized :: "bool option"
  acc_deserializes :: "bool option"
  expected_zero_discriminator_for_init :: "bool option"

record realloc_evidence =
  requested_data_increase :: nat

record invocation_evidence =
  inv_instruction :: instruction_evidence
  inv_accounts :: "account_evidence list"
  inv_reallocs :: "realloc_evidence list"

definition push_error :: "string \<Rightarrow> error_spec list \<Rightarrow> error_spec list" where
  "push_error name errors =
     (if \<exists>e \<in> set errors. err_name e = name then errors
      else (case by_name name of Some e \<Rightarrow> errors @ [e] | None \<Rightarrow> errors))"

definition push_if :: "bool \<Rightarrow> string \<Rightarrow> error_spec list \<Rightarrow> error_spec list" where
  "push_if c name errors = (if c then push_error name errors else errors)"

text \<open>\<open>if let (Some(a), Some(b)) = (x, y) { if p(a, b) ... }\<close>.\<close>

definition both :: "('a \<Rightarrow> 'b \<Rightarrow> bool) \<Rightarrow> 'a option \<Rightarrow> 'b option \<Rightarrow> bool" where
  "both p x y = (case (x, y) of (Some a, Some b) \<Rightarrow> p a b | _ \<Rightarrow> False)"

definition is_some_and :: "('a \<Rightarrow> bool) \<Rightarrow> 'a option \<Rightarrow> bool" where
  "is_some_and p x = (case x of Some a \<Rightarrow> p a | None \<Rightarrow> False)"

definition instruction_too_short :: "instruction_evidence \<Rightarrow> bool" where
  "instruction_too_short ev = is_some_and (\<lambda>len. len < ANCHOR_DISCRIMINATOR_BYTES) (ins_data_len ev)"

definition collect_instruction_errors ::
  "instruction_evidence \<Rightarrow> error_spec list \<Rightarrow> error_spec list" where
  "collect_instruction_errors ev errors =
     (if instruction_too_short ev then push_error ''InstructionMissing'' errors
      else
        push_if (both (\<lambda>expected provided. provided < expected)
            (expected_account_count ev) (provided_account_count ev)) ''AccountNotEnoughKeys''
        (push_if (both (\<noteq>) (expected_program_id ev) (provided_program_id ev)) ''InvalidProgramId''
        (push_if (ins_deserializes ev = Some False) ''InstructionDidNotDeserialize''
        (push_if (discriminator_matches_known_instruction ev = Some False \<and>
                  fallback_supported ev = Some False) ''InstructionFallbackNotFound''
          errors))))"

definition missing_discriminator :: "account_evidence \<Rightarrow> bool" where
  "missing_discriminator acc \<longleftrightarrow>
     is_some_and (\<lambda>len. len < ANCHOR_DISCRIMINATOR_BYTES) (acc_data_len acc) \<or>
     actual_discriminator acc = None"

definition account_errors :: "account_evidence \<Rightarrow> error_spec list \<Rightarrow> error_spec list" where
  "account_errors acc errors =
     push_if (acc_deserializes acc = Some False) ''AccountDidNotDeserialize''
     (push_if (both (\<noteq>) (expected_discriminator acc) (actual_discriminator acc))
        ''AccountDiscriminatorMismatch''
     (push_if (expected_discriminator acc \<noteq> None \<and> missing_discriminator acc)
        ''AccountDiscriminatorNotFound''
     (push_if (both (\<noteq>) (expected_owner acc) (actual_owner acc)) ''AccountOwnedByWrongProgram''
     (push_if (acc_initialized acc = Some False) ''AccountNotInitialized''
     (push_if (expected_zero_discriminator_for_init acc = Some True \<and>
               is_some_and (\<lambda>actual. actual \<noteq> replicate ANCHOR_DISCRIMINATOR_BYTES 0)
                 (actual_discriminator acc)) ''AccountDiscriminatorAlreadySet''
       errors)))))"

fun collect_account_errors :: "account_evidence list \<Rightarrow> error_spec list \<Rightarrow> error_spec list" where
  "collect_account_errors [] errors = errors"
| "collect_account_errors (acc # accs) errors =
     collect_account_errors accs (account_errors acc errors)"

fun collect_realloc_errors :: "realloc_evidence list \<Rightarrow> error_spec list \<Rightarrow> error_spec list" where
  "collect_realloc_errors [] errors = errors"
| "collect_realloc_errors (r # rs) errors =
     collect_realloc_errors rs
       (push_if (requested_data_increase r > MAX_PERMITTED_ACCOUNT_DATA_INCREASE_BYTES)
          ''AccountReallocExceedsLimit'' errors)"

definition detected_errors :: "invocation_evidence \<Rightarrow> error_spec list" where
  "detected_errors ev =
     collect_realloc_errors (inv_reallocs ev)
       (collect_account_errors (inv_accounts ev)
         (collect_instruction_errors (inv_instruction ev) []))"

subsection \<open>What can be reported\<close>

definition preflight_names :: "string list" where
  "preflight_names =
     [''InstructionMissing'', ''InstructionFallbackNotFound'', ''InstructionDidNotDeserialize'',
      ''AccountDiscriminatorAlreadySet'', ''AccountDiscriminatorNotFound'', ''AccountDiscriminatorMismatch'',
      ''AccountDidNotDeserialize'', ''AccountNotEnoughKeys'', ''AccountOwnedByWrongProgram'',
      ''InvalidProgramId'', ''AccountNotInitialized'', ''AccountReallocExceedsLimit'']"

lemma preflight_covered_names:
  "map err_name (filter (\<lambda>e. err_coverage e = PreflightCovered) ERRORS) = preflight_names"
  by (simp add: ERRORS_def mk_error_def preflight_names_def)

lemma preflight_names_catalogued: "set preflight_names \<subseteq> set error_names"
  using preflight_covered_names unfolding error_names_def
  by (metis filter_is_subset image_mono list.set_map)

lemma by_name_preflight: "n \<in> set preflight_names \<Longrightarrow> \<exists>e. by_name n = Some e \<and> err_name e = n"
  using preflight_names_catalogued by_name_defined [of n] by_name_name by blast

text \<open>The error names in a list, as a set: what each step adds to it.\<close>

definition names :: "error_spec list \<Rightarrow> string set" where
  "names errors = err_name ` set errors"

lemma names_push_error:
  assumes "n \<in> set preflight_names"
  shows "names (push_error n errors) = insert n (names errors)"
proof (cases "n \<in> names errors")
  case True
  then show ?thesis by (auto simp: push_error_def names_def)
next
  case False
  from by_name_preflight [OF assms] obtain e where "by_name n = Some e" "err_name e = n" by blast
  with False show ?thesis by (auto simp: push_error_def names_def image_iff)
qed

text \<open>The singleton of a name under a condition.\<close>

definition only_if :: "bool \<Rightarrow> string \<Rightarrow> string set" where
  "only_if c n = (if c then {n} else {})"

lemma names_push_if:
  "n \<in> set preflight_names \<Longrightarrow> names (push_if c n errors) = names errors \<union> only_if c n"
  by (simp add: push_if_def names_push_error only_if_def)

lemma push_error_inv:
  assumes "distinct (map err_name errors) \<and> set errors \<subseteq> set ERRORS"
  shows "distinct (map err_name (push_error n errors)) \<and> set (push_error n errors) \<subseteq> set ERRORS"
proof (cases "by_name n")
  case None
  with assms show ?thesis by (simp add: push_error_def)
next
  case (Some e)
  with by_name_name [OF Some] assms show ?thesis by (auto simp: push_error_def)
qed

lemma push_if_inv:
  "distinct (map err_name errors) \<and> set errors \<subseteq> set ERRORS \<Longrightarrow>
     distinct (map err_name (push_if c n errors)) \<and> set (push_if c n errors) \<subseteq> set ERRORS"
  unfolding push_if_def by (simp add: push_error_inv)

lemma collect_account_errors_inv:
  "distinct (map err_name errors) \<and> set errors \<subseteq> set ERRORS \<Longrightarrow>
     distinct (map err_name (collect_account_errors accs errors)) \<and>
     set (collect_account_errors accs errors) \<subseteq> set ERRORS"
  by (induction accs arbitrary: errors)
     (simp_all add: account_errors_def push_if_inv del: set_append)

lemma collect_realloc_errors_inv:
  "distinct (map err_name errors) \<and> set errors \<subseteq> set ERRORS \<Longrightarrow>
     distinct (map err_name (collect_realloc_errors rs errors)) \<and>
     set (collect_realloc_errors rs errors) \<subseteq> set ERRORS"
  by (induction rs arbitrary: errors) (simp_all add: push_if_inv)

lemma detected_errors_inv:
  "distinct (map err_name (detected_errors ev)) \<and> set (detected_errors ev) \<subseteq> set ERRORS"
  unfolding detected_errors_def collect_instruction_errors_def
  by (intro collect_realloc_errors_inv collect_account_errors_inv)
     (simp add: push_if_inv push_error_inv)

subsection \<open>The conditions as one specification\<close>

definition account_reports :: "account_evidence \<Rightarrow> string set" where
  "account_reports acc =
     only_if (expected_zero_discriminator_for_init acc = Some True \<and>
              (\<exists>d. actual_discriminator acc = Some d \<and> d \<noteq> replicate 8 0))
       ''AccountDiscriminatorAlreadySet'' \<union>
     only_if (acc_initialized acc = Some False) ''AccountNotInitialized'' \<union>
     only_if (\<exists>e a. expected_owner acc = Some e \<and> actual_owner acc = Some a \<and> e \<noteq> a)
       ''AccountOwnedByWrongProgram'' \<union>
     only_if (expected_discriminator acc \<noteq> None \<and>
              ((\<exists>len. acc_data_len acc = Some len \<and> len < 8) \<or> actual_discriminator acc = None))
       ''AccountDiscriminatorNotFound'' \<union>
     only_if (\<exists>e a. expected_discriminator acc = Some e \<and> actual_discriminator acc = Some a \<and> e \<noteq> a)
       ''AccountDiscriminatorMismatch'' \<union>
     only_if (acc_deserializes acc = Some False) ''AccountDidNotDeserialize''"

definition instruction_reports :: "instruction_evidence \<Rightarrow> string set" where
  "instruction_reports ev =
     (if \<exists>len. ins_data_len ev = Some len \<and> len < 8 then {''InstructionMissing''}
      else
        only_if (discriminator_matches_known_instruction ev = Some False \<and>
                 fallback_supported ev = Some False) ''InstructionFallbackNotFound'' \<union>
        only_if (ins_deserializes ev = Some False) ''InstructionDidNotDeserialize'' \<union>
        only_if (\<exists>e p. expected_program_id ev = Some e \<and> provided_program_id ev = Some p \<and> e \<noteq> p)
          ''InvalidProgramId'' \<union>
        only_if (\<exists>e p. expected_account_count ev = Some e \<and>
                        provided_account_count ev = Some p \<and> p < e) ''AccountNotEnoughKeys'')"

lemma both_iff: "both p x y \<longleftrightarrow> (\<exists>a b. x = Some a \<and> y = Some b \<and> p a b)"
  by (auto simp: both_def split: option.splits)

lemma is_some_and_iff: "is_some_and p x \<longleftrightarrow> (\<exists>a. x = Some a \<and> p a)"
  by (auto simp: is_some_and_def split: option.splits)

lemma names_account_errors: "names (account_errors acc errors) = names errors \<union> account_reports acc"
  unfolding account_errors_def account_reports_def
  by (simp add: names_push_if preflight_names_def both_iff is_some_and_iff missing_discriminator_def
        ANCHOR_DISCRIMINATOR_BYTES_def Un_assoc del: not_None_eq Un_insert_right Un_insert_left)

lemma names_collect_account_errors:
  "names (collect_account_errors accs errors) = names errors \<union> (\<Union>acc \<in> set accs. account_reports acc)"
  by (induction accs arbitrary: errors) (auto simp: names_account_errors)

lemma names_collect_realloc_errors:
  "names (collect_realloc_errors rs errors) =
     names errors \<union> only_if (\<exists>r \<in> set rs. requested_data_increase r > 10240)
                        ''AccountReallocExceedsLimit''"
  by (induction rs arbitrary: errors)
     (auto simp: names_push_if preflight_names_def MAX_PERMITTED_ACCOUNT_DATA_INCREASE_BYTES_def
        only_if_def)

lemma instruction_too_short_iff:
  "instruction_too_short ev \<longleftrightarrow> (\<exists>len. ins_data_len ev = Some len \<and> len < 8)"
  by (simp add: instruction_too_short_def is_some_and_iff ANCHOR_DISCRIMINATOR_BYTES_def)

lemma names_collect_instruction_errors:
  "names (collect_instruction_errors ev errors) = names errors \<union> instruction_reports ev"
proof (cases "instruction_too_short ev")
  case True
  then show ?thesis
    unfolding collect_instruction_errors_def instruction_reports_def
      instruction_too_short_iff [symmetric]
    by (simp add: names_push_error preflight_names_def)
next
  case False
  then show ?thesis
    unfolding collect_instruction_errors_def instruction_reports_def
      instruction_too_short_iff [symmetric]
    by (simp add: names_push_if preflight_names_def both_iff Un_ac)
qed

text \<open>C16: preflight reports exactly the errors whose condition the evidence meets, over the
  instruction, all accounts and all reallocations, and reports each of them once.\<close>

theorem detected_errors_exact:
  "err_name ` set (detected_errors ev) =
     instruction_reports (inv_instruction ev) \<union>
     (\<Union>acc \<in> set (inv_accounts ev). account_reports acc) \<union>
     only_if (\<exists>r \<in> set (inv_reallocs ev). requested_data_increase r > 10240)
       ''AccountReallocExceedsLimit'' \<and>
   distinct (map err_name (detected_errors ev))"
proof -
  have "names (detected_errors ev) =
     instruction_reports (inv_instruction ev) \<union>
     (\<Union>acc \<in> set (inv_accounts ev). account_reports acc) \<union>
     only_if (\<exists>r \<in> set (inv_reallocs ev). requested_data_increase r > 10240)
       ''AccountReallocExceedsLimit''"
    by (simp add: detected_errors_def names_collect_realloc_errors names_collect_account_errors
          names_collect_instruction_errors) (simp add: names_def)
  then show ?thesis by (simp add: names_def detected_errors_inv)
qed

end
