(* ===== verification/Hash_Map.thy ===== *)
theory Hash_Map
  imports Ordered_Map
begin

section \<open>Hash maps and groups of entries\<close>

text \<open>
  A \<open>HashMap\<close> is an association list with distinct keys.  Its order stands for the iteration
  order, which Rust leaves unspecified: what the code computes from \<open>values()\<close> is stated for
  every order.  On top of it the theory models the pattern of the workspace index,
  \<open>HashMap<Name, Vec<Entry>>\<close>: pushing with \<open>entry(name).or_default().push(e)\<close>, pruning
  entries and the groups left empty, and sorting each group.
\<close>

subsection \<open>\<open>HashMap\<close>\<close>

type_synonym ('k, 'v) hmap = "('k \<times> 'v) list"

text \<open>\<open>insert\<close>, and \<open>entry(k).or_insert(d)\<close> followed by an update in place.\<close>

fun hm_put :: "'k \<Rightarrow> 'v \<Rightarrow> ('k, 'v) hmap \<Rightarrow> ('k, 'v) hmap" where
  "hm_put k v [] = [(k, v)]"
| "hm_put k v ((j, w) # m) = (if j = k then (j, v) # m else (j, w) # hm_put k v m)"

definition hm_update :: "'k \<Rightarrow> 'v \<Rightarrow> ('v \<Rightarrow> 'v) \<Rightarrow> ('k, 'v) hmap \<Rightarrow> ('k, 'v) hmap" where
  "hm_update k d f m = hm_put k (f (unwrap_or d (map_of m k))) m"

definition hm_remove :: "'k \<Rightarrow> ('k, 'v) hmap \<Rightarrow> ('k, 'v) hmap" where
  "hm_remove k m = filter (\<lambda>e. fst e \<noteq> k) m"

definition hm_wf :: "('k, 'v) hmap \<Rightarrow> bool" where
  "hm_wf m \<longleftrightarrow> distinct (map fst m)"

lemma hm_wf_Nil [simp]: "hm_wf []"
  by (simp add: hm_wf_def)

lemma hm_put_keys: "set (map fst (hm_put k v m)) = insert k (set (map fst m))"
  by (induction k v m rule: hm_put.induct) auto

lemma hm_wf_put: "hm_wf m \<Longrightarrow> hm_wf (hm_put k v m)"
  unfolding hm_wf_def
  by (induction k v m rule: hm_put.induct) (auto simp: hm_put_keys simp del: set_map)

lemma map_of_hm_put: "map_of (hm_put k v m) = (map_of m)(k \<mapsto> v)"
  by (induction k v m rule: hm_put.induct) auto

lemma hm_wf_remove: "hm_wf m \<Longrightarrow> hm_wf (hm_remove k m)"
  by (simp add: hm_wf_def hm_remove_def distinct_map_filter)

lemma map_of_hm_remove: "map_of (hm_remove k m) = (map_of m)(k := None)"
  by (induction m) (auto simp: hm_remove_def)

lemma hm_wf_mem_iff: "hm_wf m \<Longrightarrow> (k, v) \<in> set m \<longleftrightarrow> map_of m k = Some v"
  by (simp add: hm_wf_def)

interpretation hash: keyed_store "[]" map_of hm_put hm_remove hm_wf
  by unfold_locales
     (simp_all add: hm_wf_put map_of_hm_put hm_wf_remove map_of_hm_remove)

lemma hm_wf_update: "hm_wf m \<Longrightarrow> hm_wf (hm_update k d f m)"
  by (simp add: hm_update_def hash.invar_put)

lemma map_of_hm_update:
  "map_of (hm_update k d f m) = (map_of m)(k \<mapsto> f (unwrap_or d (map_of m k)))"
  by (simp add: hm_update_def map_of_hm_put)

subsection \<open>Groups\<close>

type_synonym ('k, 'e) groups = "('k, 'e list) hmap"

text \<open>\<open>get(k).into_iter().flatten()\<close>: the group of a key, empty when there is none.\<close>

definition group_of :: "('k, 'e) groups \<Rightarrow> 'k \<Rightarrow> 'e list" where
  "group_of g k = unwrap_or [] (map_of g k)"

definition group_push :: "'k \<Rightarrow> 'e \<Rightarrow> ('k, 'e) groups \<Rightarrow> ('k, 'e) groups" where
  "group_push k e g = hm_update k [] (\<lambda>es. es @ [e]) g"

definition group_retain :: "('e \<Rightarrow> bool) \<Rightarrow> ('k, 'e) groups \<Rightarrow> ('k, 'e) groups" where
  "group_retain p g = filter (\<lambda>kv. snd kv \<noteq> []) (map (\<lambda>(k, es). (k, filter p es)) g)"

text \<open>\<open>values_mut().for_each(|entries| entries.sort_by_key(f))\<close>, a stable sort.\<close>

definition group_sort :: "('e \<Rightarrow> 'o::linorder) \<Rightarrow> ('k, 'e) groups \<Rightarrow> ('k, 'e) groups" where
  "group_sort f g = map (\<lambda>(k, es). (k, sort_key f es)) g"

definition group_values :: "('k, 'e) groups \<Rightarrow> 'e list" where
  "group_values g = concat (map snd g)"

definition groups_wf :: "('k, 'e) groups \<Rightarrow> bool" where
  "groups_wf g \<longleftrightarrow> hm_wf g \<and> list_all (\<lambda>kv. snd kv \<noteq> []) g"

lemma groups_wf_Nil [simp]: "groups_wf []"
  by (simp add: groups_wf_def)

lemma group_of_Nil [simp]: "group_of [] k = []"
  by (simp add: group_of_def)

lemma group_of_push:
  "group_of (group_push k e g) j = (if j = k then group_of g k @ [e] else group_of g j)"
  by (simp add: group_of_def group_push_def map_of_hm_update)

lemma map_of_map_values: "map_of (map (\<lambda>(k, v). (k, f v)) m) k = map_option f (map_of m k)"
  by (induction m) auto

lemma group_of_sort: "group_of (group_sort f g) k = sort_key f (group_of g k)"
  by (cases "map_of g k") (simp_all add: group_of_def group_sort_def map_of_map_values)

lemma map_of_filter_nonempty:
  "hm_wf g \<Longrightarrow> unwrap_or [] (map_of (filter (\<lambda>kv. snd kv \<noteq> []) g) k) = unwrap_or [] (map_of g k)"
proof (induction g)
  case (Cons kv g)
  obtain j es where kv: "kv = (j, es)" by force
  with Cons.prems have "map_of g j = None" "hm_wf g"
    by (auto simp: hm_wf_def map_of_eq_None_iff)
  with Cons.IH kv show ?case by (cases "es = []"; cases "j = k") auto
qed simp

lemma hm_wf_map_values: "hm_wf (map (\<lambda>(k, v). (k, f v)) m) \<longleftrightarrow> hm_wf m"
  by (simp add: hm_wf_def comp_def case_prod_unfold)

lemma group_of_retain: "hm_wf g \<Longrightarrow> group_of (group_retain p g) k = filter p (group_of g k)"
proof -
  assume "hm_wf g"
  then have "hm_wf (map (\<lambda>(k, es). (k, filter p es)) g)" by (simp add: hm_wf_map_values)
  from map_of_filter_nonempty [OF this, of k] show ?thesis
    by (cases "map_of g k") (simp_all add: group_of_def group_retain_def map_of_map_values)
qed

lemma hm_put_nonempty: "list_all (\<lambda>kv. snd kv \<noteq> []) g \<Longrightarrow> es \<noteq> [] \<Longrightarrow>
    list_all (\<lambda>kv. snd kv \<noteq> []) (hm_put k es g)"
  by (induction k es g rule: hm_put.induct) auto

lemma groups_wf_push: "groups_wf g \<Longrightarrow> groups_wf (group_push k e g)"
  by (simp add: groups_wf_def group_push_def hm_wf_update hm_update_def hm_wf_put hm_put_nonempty)

lemma sort_key_Nil_iff: "sort_key f xs = [] \<longleftrightarrow> xs = []"
  using length_sort [of f xs] by (metis length_0_conv)

lemma groups_wf_sort: "groups_wf g \<Longrightarrow> groups_wf (group_sort f g)"
  by (force simp: groups_wf_def group_sort_def hm_wf_map_values list_all_iff sort_key_Nil_iff)

lemma groups_wf_retain: "groups_wf g \<Longrightarrow> groups_wf (group_retain p g)"
proof -
  assume "groups_wf g"
  then have "hm_wf (map (\<lambda>(k, es). (k, filter p es)) g)"
    by (simp add: groups_wf_def hm_wf_map_values)
  then have "hm_wf (group_retain p g)"
    by (simp add: hm_wf_def group_retain_def distinct_map_filter)
  then show ?thesis by (simp add: groups_wf_def group_retain_def list_all_iff)
qed

lemma group_values_iff:
  "hm_wf g \<Longrightarrow> e \<in> set (group_values g) \<longleftrightarrow> (\<exists>k. e \<in> set (group_of g k))"
proof -
  assume wf: "hm_wf g"
  have "e \<in> set (group_values g) \<longleftrightarrow> (\<exists>k es. (k, es) \<in> set g \<and> e \<in> set es)"
    by (force simp: group_values_def)
  also have "\<dots> \<longleftrightarrow> (\<exists>k. e \<in> set (group_of g k))"
  proof -
    have "e \<in> set (group_of g k) \<longleftrightarrow> (\<exists>es. map_of g k = Some es \<and> e \<in> set es)" for k
      by (cases "map_of g k") (simp_all add: group_of_def)
    then show ?thesis by (simp add: hm_wf_mem_iff [OF wf])
  qed
  finally show ?thesis .
qed

text \<open>Pushing a list of entries under their keys.\<close>

lemma group_of_fold_push:
  "group_of (fold (\<lambda>x. group_push (key x) (entry x)) xs g) k =
     group_of g k @ map entry (filter (\<lambda>x. key x = k) xs)"
  by (induction xs arbitrary: g) (auto simp: group_of_push)

lemma groups_wf_fold_push:
  "groups_wf g \<Longrightarrow> groups_wf (fold (\<lambda>x. group_push (key x) (entry x)) xs g)"
  by (induction xs arbitrary: g) (auto simp: groups_wf_push)

lemma groups_wf_hm: "groups_wf g \<Longrightarrow> hm_wf g"
  by (simp add: groups_wf_def)

lemmas group_of_simps = group_of_push group_of_sort group_of_retain group_of_fold_push
lemmas groups_wf_intros = groups_wf_push groups_wf_sort groups_wf_retain groups_wf_fold_push

text \<open>Stable sorting by a boolean key: the entries with key \<open>False\<close> first.\<close>

lemma sort_key_bool:
  "sort_key f xs = filter (\<lambda>x. \<not> f x) xs @ filter f xs" for f :: "'a \<Rightarrow> bool"
proof (induction xs)
  case (Cons x xs)
  have "insort_key f x (ys @ zs) = (if f x then ys @ x # zs else x # ys @ zs)"
    if "\<forall>y \<in> set ys. \<not> f y" "\<forall>z \<in> set zs. f z" for ys zs
    using that by (induction ys) (auto, cases zs, auto)
  with Cons show ?case by simp
qed simp

end
