(* ===== verification/Document_Types.thy ===== *)
theory Document_Types
  imports Lsp_Types Hash_Map
begin

section \<open>What a parsed document offers\<close>

text \<open>
  The symbol tables of a parsed document: \<open>src/core/document/types.rs\<close>, the \<open>AnchorSymbols\<close>
  of \<open>src/core/document/mod.rs\<close> with its queries, the error-code enums and the associated
  values.  Parsing itself is the work of the syn and tree-sitter crates; these records are what
  it leaves for the index and the diagnostics.  \<open>SymbolRange\<close> is recursive and so a datatype
  with selectors, every other struct is a record.
\<close>

record named_range =
  nr_name :: string
  nr_range :: range

datatype pda_seeds = SeedList "string list" | SeedExpr string

datatype pda_bump = Canonical | Explicit string | MissingBump

record pda_constraint =
  pda_is_init :: bool
  pda_seeds :: pda_seeds
  pda_bump :: pda_bump
  pda_program_seed :: "string option"

record account_constraint =
  ac_text :: string
  ac_range :: range
  ac_pda :: "pda_constraint option"

record instruction_attribute_argument =
  iaa_name :: string
  iaa_range :: range
  iaa_type_name :: "string option"

datatype symbol_range = SymbolRange
  (sr_name: string)
  (sr_range: range)
  (sr_selection_range: range)
  (sr_fields: "symbol_range list")
  (sr_variants: "symbol_range list")
  (sr_type_name: "string option")
  (sr_type_range: "range option")
  (sr_type_signature: "string option")
  (sr_generic_type_names: "string list")
  (sr_generic_type_ranges: "named_range list")
  (sr_is_optional: bool)
  (sr_max_len_args: "string list")
  (sr_account_constraints: "account_constraint list")
  (sr_pda_constraint: "pda_constraint option")
  (sr_instruction_arguments: "instruction_attribute_argument list")
  (sr_derive_attribute_range: "range option")
  (sr_derive_accounts_range: "range option")
  (sr_derive_init_space_range: "range option")
  (sr_is_zero_copy: bool)

record context_reference =
  cr_name :: string
  cr_range :: range

record instruction_argument =
  ia_name :: string
  ia_range :: range
  ia_type_name :: "string option"
  ia_type_signature :: "string option"

record function_call =
  fc_name :: string
  fc_range :: range

record account_usage =
  au_name :: string
  au_range :: range
  au_mutable :: bool

record account_data_field_usage =
  adfu_account :: string
  adfu_source_account :: string
  adfu_field :: string
  adfu_range :: range
  adfu_mutable :: bool

record account_path_usage =
  apu_segments :: "named_range list"
  apu_mutable :: bool

datatype account_key_operand = Account string | StaticProgramId

record account_key_comparison =
  akc_left :: account_key_operand
  akc_right :: account_key_operand

record instruction_symbol =
  is_name :: string
  is_range :: range
  is_selection_range :: range
  is_context :: "context_reference option"
  is_arguments :: "instruction_argument list"
  is_function_calls :: "function_call list"
  is_account_usages :: "account_usage list"
  is_account_data_field_usages :: "account_data_field_usage list"
  is_account_path_usages :: "account_path_usage list"
  is_cpi_program_usages :: "account_usage list"
  is_signer_usages :: "account_usage list"
  is_signer_checks :: "account_usage list"
  is_account_key_comparisons :: "account_key_comparison list"
  is_token_account_unpack_usages :: "account_usage list"

record declared_program_id =
  dpi_value :: string
  dpi_range :: range

datatype associated_value_kind = AvConstant | AvFunction | AvMethod

record associated_value_range =
  avr_name :: string
  avr_range :: range
  avr_kind :: associated_value_kind
  avr_type_display :: "string option"

record error_code_enum =
  ece_name :: string
  ece_variants :: "string list"

record anchor_symbols =
  all_structs :: "(string, symbol_range) hmap"
  enums :: "(string, symbol_range) hmap"
  accounts_structs :: "(string, symbol_range) hmap"
  account_data_structs :: "(string, symbol_range) hmap"
  constants :: "named_range list"
  imported_names :: "named_range list"
  import_origins :: "(string, string) hmap"
  has_glob_import :: bool
  has_local_glob_import :: bool
  import_aliases :: "(string, string) hmap"
  value_items :: "named_range list"
  associated_value_items :: "(string, associated_value_range list) hmap"
  derived_init_space_types :: "string set"
  instructions :: "instruction_symbol list"
  free_functions :: "instruction_symbol list"
  context_references :: "context_reference list"
  declared_program_id :: "declared_program_id option"
  error_codes :: "error_code_enum list"

definition knows_type :: "anchor_symbols \<Rightarrow> string \<Rightarrow> bool" where
  "knows_type s name \<longleftrightarrow>
     map_of (all_structs s) name \<noteq> None \<or>
     list_ex (\<lambda>r. cr_name r = name) (context_references s)"

definition callable_functions :: "anchor_symbols \<Rightarrow> instruction_symbol list" where
  "callable_functions s = instructions s @ free_functions s"

definition resolve_type_alias :: "anchor_symbols \<Rightarrow> string \<Rightarrow> string" where
  "resolve_type_alias s type_name = unwrap_or type_name (map_of (import_aliases s) type_name)"

definition INIT_SPACE_ASSOCIATED_CONST :: string where
  "INIT_SPACE_ASSOCIATED_CONST = ''INIT_SPACE''"

definition type_has_associated_value :: "anchor_symbols \<Rightarrow> string \<Rightarrow> string \<Rightarrow> bool" where
  "type_has_associated_value s type_name value_name \<longleftrightarrow>
     list_ex (\<lambda>i. avr_name i = value_name)
       (unwrap_or [] (map_of (associated_value_items s) type_name)) \<or>
     (value_name = INIT_SPACE_ASSOCIATED_CONST \<and> type_name \<in> derived_init_space_types s)"

end
