(* ===== verification/Prefix_Trie.thy ===== *)
theory Prefix_Trie
  imports Ordered_Map
begin

section \<open>The generic trie\<close>

text \<open>
  Models \<open>src/core/collections/trie.rs\<close>: the node type, the map operations, the two prefix
  queries and the collision search.  A \<open>BTreeMap\<close> of children is the sorted association list
  of \<open>Ordered_Map\<close>; a key is the list of its symbols.  The invariant \<open>node_wf\<close> says that
  children are sorted and that no child is a stale branch; under it a trie is a canonical
  representation of the finite map it stores, and the queries are characterised by that map.
  The theory interprets \<open>keyed_store\<close> and its extension \<open>prefix_store\<close> on the trie.
\<close>

subsection \<open>Data and operations\<close>

datatype ('s, 'v) trie_node =
  TrieNode (node_value: "'v option") (children: "('s \<times> ('s, 'v) trie_node) list")

text \<open>\<open>TrieNode::default()\<close>, also \<open>Trie::new()\<close>.\<close>

definition default_node :: "('s, 'v) trie_node" where
  "default_node = TrieNode None []"

record ('s, 'v) trie =
  root :: "('s, 'v) trie_node"

definition trie_new :: "('s, 'v) trie" where
  "trie_new = \<lparr>root = default_node\<rparr>"

fun insert_at :: "'s::linorder list \<Rightarrow> 'v \<Rightarrow> ('s, 'v) trie_node \<Rightarrow> ('s, 'v) trie_node" where
  "insert_at [] v (TrieNode w cs) = TrieNode (Some v) cs"
| "insert_at (s # key) v (TrieNode w cs) =
     TrieNode w (om_update s default_node (insert_at key v) cs)"

definition trie_insert :: "'s::linorder list \<Rightarrow> 'v \<Rightarrow> ('s, 'v) trie \<Rightarrow> ('s, 'v) trie" where
  "trie_insert key v t = t\<lparr>root := insert_at key v (root t)\<rparr>"

text \<open>\<open>remove_from_node\<close> returns the value it took and the node it leaves; a child left
  without value and children is removed from its parent.\<close>

fun is_bare :: "('s, 'v) trie_node \<Rightarrow> bool" where
  "is_bare (TrieNode w cs) \<longleftrightarrow> w = None \<and> cs = []"

fun remove_from_node ::
  "'s::linorder list \<Rightarrow> ('s, 'v) trie_node \<Rightarrow> 'v option \<times> ('s, 'v) trie_node" where
  "remove_from_node [] (TrieNode w cs) = (w, TrieNode None cs)"
| "remove_from_node (s # rest) (TrieNode w cs) =
     (case map_of cs s of
        None \<Rightarrow> (None, TrieNode w cs)
      | Some child \<Rightarrow>
          (let (removed, child') = remove_from_node rest child in
           if is_bare child' then (removed, TrieNode w (om_remove s cs))
           else (removed, TrieNode w (om_insert s child' cs))))"

definition trie_remove :: "'s::linorder list \<Rightarrow> ('s, 'v) trie \<Rightarrow> 'v option \<times> ('s, 'v) trie" where
  "trie_remove key t =
     (let (removed, n) = remove_from_node key (root t) in (removed, t\<lparr>root := n\<rparr>))"

fun get_from :: "'s list \<Rightarrow> ('s, 'v) trie_node \<Rightarrow> 'v option" where
  "get_from [] n = node_value n"
| "get_from (s # key) n =
     (case map_of (children n) s of None \<Rightarrow> None | Some c \<Rightarrow> get_from key c)"

definition trie_get :: "('s, 'v) trie \<Rightarrow> 's list \<Rightarrow> 'v option" where
  "trie_get t key = get_from key (root t)"

fun collect_subtree :: "('s, 'v) trie_node \<Rightarrow> 's list \<Rightarrow> ('s list \<times> 'v) list" where
  "collect_subtree (TrieNode w cs) key =
     (case w of Some v \<Rightarrow> [(key, v)] | None \<Rightarrow> []) @
     concat (map (\<lambda>e. collect_subtree (snd e) (key @ [fst e])) cs)"

fun descend :: "'s list \<Rightarrow> ('s, 'v) trie_node \<Rightarrow> ('s, 'v) trie_node option" where
  "descend [] n = Some n"
| "descend (s # p) n =
     (case map_of (children n) s of None \<Rightarrow> None | Some c \<Rightarrow> descend p c)"

definition collect_with_prefix :: "('s, 'v) trie \<Rightarrow> 's list \<Rightarrow> ('s list \<times> 'v) list" where
  "collect_with_prefix t p =
     (case descend p (root t) of None \<Rightarrow> [] | Some n \<Rightarrow> collect_subtree n p)"

fun longest_loop ::
  "'s list \<Rightarrow> ('s, 'v) trie_node \<Rightarrow> nat \<Rightarrow> (nat \<times> 'v) option \<Rightarrow> (nat \<times> 'v) option" where
  "longest_loop [] n depth best = best"
| "longest_loop (s # key) n depth best =
     (case map_of (children n) s of
        None \<Rightarrow> best
      | Some c \<Rightarrow>
          longest_loop key c (depth + 1)
            (case node_value c of Some v \<Rightarrow> Some (depth + 1, v) | None \<Rightarrow> best))"

definition longest_prefix_of :: "('s, 'v) trie \<Rightarrow> 's list \<Rightarrow> (nat \<times> 'v) option" where
  "longest_prefix_of t key =
     longest_loop key (root t) 0 (map_option (\<lambda>v. (0, v)) (node_value (root t)))"

fun emit_descendant_values ::
  "('s, 'v) trie_node \<Rightarrow> 's list \<Rightarrow> 's list \<Rightarrow> ('s list \<times> 's list) list" where
  "emit_descendant_values (TrieNode w cs) descendant_key ancestor_key =
     (if w \<noteq> None then [(ancestor_key, descendant_key)] else []) @
     concat (map (\<lambda>e. emit_descendant_values (snd e) (descendant_key @ [fst e]) ancestor_key) cs)"

definition collect_longer_keys ::
  "('s, 'v) trie_node \<Rightarrow> 's list \<Rightarrow> ('s list \<times> 's list) list" where
  "collect_longer_keys n ancestor_key =
     concat (map (\<lambda>(s, c). emit_descendant_values c (ancestor_key @ [s]) ancestor_key) (children n))"

fun find_collisions :: "('s, 'v) trie_node \<Rightarrow> 's list \<Rightarrow> ('s list \<times> 's list) list" where
  "find_collisions (TrieNode w cs) key =
     (if w \<noteq> None \<and> key \<noteq> [] then collect_longer_keys (TrieNode w cs) key else []) @
     concat (map (\<lambda>e. find_collisions (snd e) (key @ [fst e])) cs)"

definition prefix_collisions :: "('s, 'v) trie \<Rightarrow> ('s list \<times> 's list) list" where
  "prefix_collisions t = find_collisions (root t) []"

subsection \<open>The invariant\<close>

text \<open>Children are sorted, and below the root no branch is stale.\<close>

fun node_wf :: "('s::linorder, 'v) trie_node \<Rightarrow> bool" where
  "node_wf (TrieNode w cs) \<longleftrightarrow>
     om_wf cs \<and> list_all (\<lambda>e. \<not> is_bare (snd e) \<and> node_wf (snd e)) cs"

definition trie_wf :: "('s::linorder, 'v) trie \<Rightarrow> bool" where
  "trie_wf t \<longleftrightarrow> node_wf (root t)"

lemma node_wf_default [simp]: "node_wf default_node"
  by (simp add: default_node_def)

lemma is_bare_iff: "is_bare n \<longleftrightarrow> n = default_node"
  by (cases n) (simp add: default_node_def)

lemma node_wf_child:
  "node_wf (TrieNode w cs) \<Longrightarrow> map_of cs s = Some c \<Longrightarrow> node_wf c \<and> c \<noteq> default_node"
  by (auto simp: list_all_iff is_bare_iff dest!: map_of_SomeD)

lemma insert_at_not_bare [simp]: "insert_at key v n \<noteq> default_node"
  by (cases "(key, v, n)" rule: insert_at.cases)
     (auto simp: default_node_def om_update_def
       dest!: arg_cong [where f = "\<lambda>m. fst ` set m"] simp: om_insert_keys)

lemma om_insert_values: "snd ` set (om_insert k v m) \<subseteq> insert v (snd ` set m)"
  by (induction k v m rule: om_insert.induct) auto

lemma list_all_om_insert:
  "list_all (\<lambda>e. P (snd e)) m \<Longrightarrow> P v \<Longrightarrow> list_all (\<lambda>e. P (snd e)) (om_insert k v m)"
  using om_insert_values [of k v m] by (fastforce simp: list_all_iff)

lemma node_wf_insert: "node_wf n \<Longrightarrow> node_wf (insert_at key v n)"
proof (induction key v n rule: insert_at.induct)
  case (2 s key v w cs)
  have "node_wf (unwrap_or default_node (map_of cs s))"
    using node_wf_child [OF "2.prems", of s] by (cases "map_of cs s") auto
  from "2.IH" [OF this] have "node_wf (insert_at key v (unwrap_or default_node (map_of cs s)))" .
  with "2.prems" show ?case
    by (auto simp: om_update_def om_wf_insert is_bare_iff intro!: list_all_om_insert
      [where P = "\<lambda>c. \<not> is_bare c \<and> node_wf c", simplified is_bare_iff])
qed simp

lemma node_wf_remove: "node_wf n \<Longrightarrow> node_wf (snd (remove_from_node key n))"
proof (induction key n rule: remove_from_node.induct)
  case (2 s rest w cs)
  show ?case
  proof (cases "map_of cs s")
    case None
    with "2.prems" show ?thesis by simp
  next
    case (Some c)
    obtain r c' where r: "remove_from_node rest c = (r, c')" by force
    have "node_wf c'" using "2.IH" [OF Some] node_wf_child [OF "2.prems" Some] r by simp
    with "2.prems" have "c' \<noteq> default_node \<Longrightarrow>
        list_all (\<lambda>e. snd e \<noteq> default_node \<and> node_wf (snd e)) (om_insert s c' cs)"
      by (intro list_all_om_insert [where P = "\<lambda>c. c \<noteq> default_node \<and> node_wf c"])
         (simp_all add: is_bare_iff)
    moreover have "list_all (\<lambda>e. snd e \<noteq> default_node \<and> node_wf (snd e)) (om_remove s cs)"
      using "2.prems" by (auto simp: om_remove_def list_all_iff is_bare_iff)
    ultimately show ?thesis
      using "2.prems" Some r
      by (auto simp: is_bare_iff om_wf_insert om_wf_remove)
  qed
qed simp

lemma node_wf_descend: "node_wf n \<Longrightarrow> descend p n = Some m \<Longrightarrow> node_wf m"
proof (induction p n rule: descend.induct)
  case (2 s p n)
  then obtain c where c: "map_of (children n) s = Some c" "descend p c = Some m"
    by (auto split: option.splits)
  with "2.prems" node_wf_child [of "node_value n" "children n" s c] have "node_wf c" by simp
  with "2.IH" c show ?case by simp
qed simp

subsection \<open>The trie as a finite map\<close>

lemma get_from_default [simp]: "get_from key default_node = None"
  by (cases key) (simp_all add: default_node_def)

lemma get_insert_at:
  "get_from k (insert_at key v n) = (if k = key then Some v else get_from k n)"
proof (induction key v n arbitrary: k rule: insert_at.induct)
  case (1 v w cs)
  then show ?case by (cases k) auto
next
  case (2 s key v w cs)
  then show ?case
    by (cases k) (auto simp: om_update_def map_of_om_insert split: option.split)
qed

lemma get_remove:
  "node_wf n \<Longrightarrow>
     get_from k (snd (remove_from_node key n)) = (if k = key then None else get_from k n)"
proof (induction key n arbitrary: k rule: remove_from_node.induct)
  case (1 w cs)
  then show ?case by (cases k) auto
next
  case (2 s rest w cs)
  show ?case
  proof (cases "map_of cs s")
    case None
    then show ?thesis by (cases k) auto
  next
    case (Some c)
    obtain r c' where r: "remove_from_node rest c = (r, c')" by force
    have *: "get_from k' c' = (if k' = rest then None else get_from k' c)" for k'
      using "2.IH" [OF Some, of k'] node_wf_child [OF "2.prems" Some] r by simp
    show ?thesis
    proof (cases "c' = default_node")
      case True
      with * have "k' \<noteq> rest \<Longrightarrow> get_from k' c = None" for k'
        by (metis get_from_default)
      with True Some r show ?thesis
        by (cases k) (auto simp: is_bare_iff map_of_om_remove)
    next
      case False
      with * Some r show ?thesis
        by (cases k) (auto simp: is_bare_iff map_of_om_insert)
    qed
  qed
qed

lemma remove_returns: "fst (remove_from_node key n) = get_from key n"
proof (induction key n rule: remove_from_node.induct)
  case (2 s rest w cs)
  then show ?case by (auto split: option.splits prod.splits)
qed simp

lemma get_descend:
  "get_from (p @ k) n = (case descend p n of None \<Rightarrow> None | Some m \<Rightarrow> get_from k m)"
  by (induction p n rule: descend.induct) (auto split: option.split)

lemma snd_trie_remove: "snd (trie_remove k t) = t\<lparr>root := snd (remove_from_node k (root t))\<rparr>"
  by (simp add: trie_remove_def split_beta)

interpretation trie_map: keyed_store trie_new trie_get trie_insert "\<lambda>k t. snd (trie_remove k t)" trie_wf
  by unfold_locales
     (simp_all add: trie_new_def trie_get_def trie_insert_def snd_trie_remove trie_wf_def
       node_wf_insert node_wf_remove get_insert_at get_remove fun_eq_iff)

lemma trie_node_induct [case_names TrieNode]:
  assumes "\<And>w cs. (\<And>s c. (s, c) \<in> set cs \<Longrightarrow> P c) \<Longrightarrow> P (TrieNode w cs)"
  shows "P n"
proof (induction n rule: measure_induct_rule [of size])
  case (less n)
  obtain w cs where n: "n = TrieNode w cs" by (cases n)
  have "P c" if "(s, c) \<in> set cs" for s c
    using less [of c] size_list_estimation' [OF that, of "size c" "size_prod (\<lambda>_. 0) size"]
    by (simp add: n)
  with assms n show ?case by simp
qed

lemma stored_below: "node_wf n \<Longrightarrow> n \<noteq> default_node \<Longrightarrow> \<exists>k v. get_from k n = Some v"
proof (induction n rule: trie_node_induct)
  case (TrieNode w cs)
  show ?case
  proof (cases w)
    case (Some v)
    then have "get_from [] (TrieNode w cs) = Some v" by simp
    then show ?thesis by blast
  next
    case None
    with TrieNode.prems obtain s c cs' where cs: "cs = (s, c) # cs'"
      by (cases cs) (auto simp: default_node_def)
    with TrieNode.prems have "node_wf c" "c \<noteq> default_node" by (auto simp: is_bare_iff)
    with TrieNode.IH [of s c] cs obtain k v where "get_from k c = Some v" by auto
    then have "get_from (s # k) (TrieNode w cs) = Some v" by (simp add: cs)
    then show ?thesis by blast
  qed
qed

lemma node_ext: "node_wf n \<Longrightarrow> node_wf m \<Longrightarrow> (\<And>k. get_from k n = get_from k m) \<Longrightarrow> n = m"
proof (induction n arbitrary: m rule: trie_node_induct)
  case (TrieNode w cs)
  obtain w' ds where m: "m = TrieNode w' ds" by (cases m)
  have w: "w = w'" using TrieNode.prems(3) [of "[]"] m by simp
  have sub: "(case map_of cs s of None \<Rightarrow> None | Some c \<Rightarrow> get_from k c) =
             (case map_of ds s of None \<Rightarrow> None | Some c \<Rightarrow> get_from k c)" for s k
    using TrieNode.prems(3) [of "s # k"] m by simp
  have "map_of cs s = map_of ds s" for s
  proof (cases "map_of cs s")
    case None
    with sub [of _ s] stored_below node_wf_child [of w' ds s] TrieNode.prems(2) m show ?thesis
      by (cases "map_of ds s") fastforce+
  next
    case (Some c)
    then have c: "node_wf c" "c \<noteq> default_node" using node_wf_child TrieNode.prems(1) by blast+
    with stored_below obtain k v where "get_from k c = Some v" by blast
    with sub [of k s] Some obtain d where d: "map_of ds s = Some d"
      by (cases "map_of ds s") auto
    then have "node_wf d" using node_wf_child TrieNode.prems(2) m by blast
    moreover have "get_from k c = get_from k d" for k using sub [of k s] Some d by simp
    ultimately have "c = d" using TrieNode.IH map_of_SomeD [OF Some] c(1) by blast
    with Some d show ?thesis by simp
  qed
  with TrieNode.prems m have "cs = ds" by (intro om_ext) (auto simp: fun_eq_iff)
  with w m show ?case by simp
qed

lemma trie_ext: "trie_wf t \<Longrightarrow> trie_wf u \<Longrightarrow> trie_get t = trie_get u \<Longrightarrow> t = u"
  using node_ext [of "root t" "root u"]
  by (cases t; cases u) (auto simp: trie_wf_def trie_get_def fun_eq_iff)

subsection \<open>Collecting a subtree\<close>

lemma sorted_wrt_concat:
  "(\<And>x. x \<in> set xs \<Longrightarrow> sorted_wrt R (f x)) \<Longrightarrow>
   sorted_wrt (\<lambda>x y. \<forall>a \<in> set (f x). \<forall>b \<in> set (f y). R a b) xs \<Longrightarrow>
   sorted_wrt R (concat (map f xs))"
  by (induction xs) (auto simp: sorted_wrt_append)

lemma sorted_wrt_irrefl_distinct: "sorted_wrt R xs \<Longrightarrow> (\<And>x. \<not> R x x) \<Longrightarrow> distinct xs"
  by (induction xs) auto

lemma append_less_iff: "p @ a < p @ b \<longleftrightarrow> a < (b :: 's::linorder list)"
  by (induction p) auto

lemma append_le_iff: "p @ a \<le> p @ b \<longleftrightarrow> a \<le> (b :: 's::linorder list)"
  by (induction p) auto

lemma less_append_self: "p < p @ x # (b :: 's::linorder list)"
  using append_less_iff [of p "[]" "x # b"] by simp

lemma collect_subtree_iff:
  "node_wf n \<Longrightarrow>
     (k, v) \<in> set (collect_subtree n key) \<longleftrightarrow> (\<exists>k'. k = key @ k' \<and> get_from k' n = Some v)"
proof (induction n arbitrary: key rule: trie_node_induct)
  case (TrieNode w cs)
  have IH: "(k, v) \<in> set (collect_subtree c (key @ [s])) \<longleftrightarrow>
            (\<exists>k'. k = key @ s # k' \<and> get_from k' c = Some v)" if "(s, c) \<in> set cs" for s c
  proof -
    have "node_wf c" using TrieNode.prems that by (auto simp: list_all_iff)
    from TrieNode.IH [OF that this, of "key @ [s]"] show ?thesis by simp
  qed
  have wf: "om_wf cs" using TrieNode.prems by simp
  show ?case (is "?l \<longleftrightarrow> (\<exists>k'. ?r k')")
  proof
    assume ?l
    then consider "k = key" "w = Some v"
      | s c where "(s, c) \<in> set cs" "(k, v) \<in> set (collect_subtree c (key @ [s]))"
      by (auto split: option.splits)
    then show "\<exists>k'. ?r k'"
    proof cases
      case 1
      then have "?r []" by simp
      then show ?thesis by blast
    next
      case 2
      with IH obtain k' where "k = key @ s # k'" "get_from k' c = Some v" by blast
      with 2 wf have "?r (s # k')" by (simp add: om_wf_mem_iff)
      then show ?thesis by blast
    qed
  next
    assume "\<exists>k'. ?r k'"
    then obtain k' where k': "?r k'" by blast
    show ?l
    proof (cases k')
      case Nil
      with k' show ?thesis by simp
    next
      case (Cons s k'')
      with k' obtain c where c: "map_of cs s = Some c" "get_from k'' c = Some v"
        by (auto split: option.splits)
      then have mem: "(s, c) \<in> set cs" by (simp add: map_of_SomeD)
      with IH [OF mem] c Cons k' have "(k, v) \<in> set (collect_subtree c (key @ [s]))" by blast
      with mem show ?thesis by force
    qed
  qed
qed

lemma collect_subtree_keys:
  "node_wf n \<Longrightarrow> k \<in> fst ` set (collect_subtree n key) \<Longrightarrow> \<exists>k'. k = key @ k'"
  by (force simp: collect_subtree_iff)

lemma om_wf_sorted_wrt: "om_wf cs \<Longrightarrow> sorted_wrt (\<lambda>x y. fst x < fst y) cs"
  by (simp add: om_wf_def sorted_wrt_map)

lemma collect_subtree_sorted:
  "node_wf n \<Longrightarrow> sorted_wrt (\<lambda>x y. fst x < fst y) (collect_subtree n (key :: 's::linorder list))"
proof (induction n arbitrary: key rule: trie_node_induct)
  case (TrieNode w cs)
  have wf: "node_wf (snd e)" if "e \<in> set cs" for e
    using TrieNode.prems that by (auto simp: list_all_iff)
  have ks: "\<exists>k'. fst x = key @ fst e # k'"
    if "e \<in> set cs" "x \<in> set (collect_subtree (snd e) (key @ [fst e]))" for e x
    using collect_subtree_keys [OF wf [OF that(1)], of "fst x" "key @ [fst e]"] that by auto
  have 1: "sorted_wrt (\<lambda>x y. fst x < fst y) (collect_subtree (snd e) (key @ [fst e]))"
    if "e \<in> set cs" for e
    using TrieNode.IH [of "fst e" "snd e"] wf that by simp
  have "sorted_wrt (\<lambda>x y. fst x < fst y) cs" using TrieNode.prems by (simp add: om_wf_sorted_wrt)
  then have "sorted_wrt (\<lambda>x y. \<forall>a \<in> set (collect_subtree (snd x) (key @ [fst x])).
       \<forall>b \<in> set (collect_subtree (snd y) (key @ [fst y])). fst a < fst b) cs"
    by (rule sorted_wrt_mono_rel [rotated]) (fastforce dest!: ks simp: append_less_iff)
  from sorted_wrt_concat [OF 1 this] ks show ?case
    by (fastforce simp: sorted_wrt_append less_append_self split: option.split)
qed

subsection \<open>The longest stored prefix\<close>

lemma longest_loop_none:
  "(\<And>i. i < length key \<Longrightarrow> get_from (take (Suc i) key) n = None) \<Longrightarrow>
     longest_loop key n d best = best"
proof (induction key n d best rule: longest_loop.induct)
  case (2 s key n d best)
  show ?case
  proof (cases "map_of (children n) s")
    case (Some c)
    have "node_value c = None" using "2.prems" [of 0] Some by simp
    moreover have "get_from (take (Suc i) key) c = None" if "i < length key" for i
      using "2.prems" [of "Suc i"] Some that by simp
    ultimately show ?thesis using "2.IH" [OF Some] Some by simp
  qed simp
qed simp

lemma longest_loop_some:
  "i < length key \<Longrightarrow> get_from (take (Suc i) key) n = Some v \<Longrightarrow>
     (\<And>j. i < j \<Longrightarrow> j < length key \<Longrightarrow> get_from (take (Suc j) key) n = None) \<Longrightarrow>
     longest_loop key n d best = Some (d + Suc i, v)"
proof (induction key n d best arbitrary: i rule: longest_loop.induct)
  case (2 s key n d best)
  from "2.prems"(2) obtain c where c: "map_of (children n) s = Some c"
    by (auto split: option.splits)
  have rest: "get_from (take (Suc j) key) c = None" if "i < Suc j" "j < length key" for j
    using "2.prems"(3) [of "Suc j"] c that by simp
  show ?case
  proof (cases i)
    case 0
    then have "node_value c = Some v" using "2.prems"(2) c by simp
    with c 0 rest show ?thesis by (simp add: longest_loop_none)
  next
    case (Suc i')
    have "longest_loop key c (d + 1)
        (case node_value c of Some v \<Rightarrow> Some (d + 1, v) | None \<Rightarrow> best) = Some (d + 1 + Suc i', v)"
      using "2.prems" c rest Suc by (intro "2.IH" [OF c]) simp_all
    with c Suc show ?thesis by simp
  qed
qed simp

definition stored_depths :: "('s, 'v) trie \<Rightarrow> 's list \<Rightarrow> nat set" where
  "stored_depths t key = {i. i \<le> length key \<and> trie_get t (take i key) \<noteq> None}"

lemma finite_stored_depths [simp]: "finite (stored_depths t key)"
  by (simp add: stored_depths_def)

lemma longest_prefix_of_Max:
  assumes "stored_depths t key \<noteq> {}"
  shows "longest_prefix_of t key =
     Some (Max (stored_depths t key), the (trie_get t (take (Max (stored_depths t key)) key)))"
proof -
  let ?m = "Max (stored_depths t key)"
  have "?m \<in> stored_depths t key" using assms by (simp add: Max_in)
  then have m: "?m \<le> length key" and v: "get_from (take ?m key) (root t) \<noteq> None"
    by (auto simp: stored_depths_def trie_get_def)
  have above: "get_from (take (Suc j) key) (root t) = None" if "?m < Suc j" "j < length key" for j
  proof (rule ccontr)
    assume "get_from (take (Suc j) key) (root t) \<noteq> None"
    with that have "Suc j \<in> stored_depths t key" by (simp add: stored_depths_def trie_get_def)
    from Max_ge [OF finite_stored_depths this] that show False by linarith
  qed
  show ?thesis
  proof (cases ?m)
    case 0
    then show ?thesis using v above
      by (auto simp: longest_prefix_of_def trie_get_def longest_loop_none)
  next
    case (Suc i)
    with v obtain x where "get_from (take (Suc i) key) (root t) = Some x" by auto
    with Suc m above show ?thesis
      by (auto simp: longest_prefix_of_def trie_get_def longest_loop_some [of i])
  qed
qed

lemma longest_prefix_of_none: "stored_depths t key = {} \<Longrightarrow> longest_prefix_of t key = None"
proof -
  assume "stored_depths t key = {}"
  then have *: "i \<le> length key \<Longrightarrow> get_from (take i key) (root t) = None" for i
    by (auto simp: stored_depths_def trie_get_def)
  from * [of 0] have "node_value (root t) = None" by simp
  moreover have "i < length key \<Longrightarrow> get_from (take (Suc i) key) (root t) = None" for i
    using * [of "Suc i"] by simp
  ultimately show ?thesis by (simp add: longest_prefix_of_def longest_loop_none)
qed

subsection \<open>Collisions\<close>

lemma emit_eq_collect:
  "emit_descendant_values n dk ak = map (\<lambda>e. (ak, fst e)) (collect_subtree n dk)"
proof (induction n arbitrary: dk rule: trie_node_induct)
  case (TrieNode w cs)
  have "map (\<lambda>e. emit_descendant_values (snd e) (dk @ [fst e]) ak) cs =
        map (\<lambda>e. map (\<lambda>e. (ak, fst e)) (collect_subtree (snd e) (dk @ [fst e]))) cs"
    using TrieNode.IH by (auto intro!: map_cong)
  then show ?case
    by (simp only: emit_descendant_values.simps collect_subtree.simps map_append map_concat
        map_map comp_def) (simp split: option.split)
qed

lemma collect_longer_keys_iff:
  "node_wf n \<Longrightarrow>
     (a, b) \<in> set (collect_longer_keys n key) \<longleftrightarrow>
     a = key \<and> (\<exists>k'. k' \<noteq> [] \<and> b = key @ k' \<and> get_from k' n \<noteq> None)"
proof -
  assume wf: "node_wf n"
  obtain w cs where n: "n = TrieNode w cs" by (cases n)
  have "(a, b) \<in> set (collect_longer_keys n key) \<longleftrightarrow>
        a = key \<and> (\<exists>v. (b, v) \<in> set (collect_subtree (TrieNode None cs) key))"
    by (auto simp: n collect_longer_keys_def emit_eq_collect split_beta) (force+)
  also have "\<dots> \<longleftrightarrow> a = key \<and> (\<exists>v k'. b = key @ k' \<and> get_from k' (TrieNode None cs) = Some v)"
    using wf by (subst collect_subtree_iff) (auto simp: n)
  also have "\<dots> \<longleftrightarrow> a = key \<and> (\<exists>k'. k' \<noteq> [] \<and> b = key @ k' \<and> get_from k' n \<noteq> None)"
  proof -
    have "get_from k' (TrieNode None cs) = (if k' = [] then None else get_from k' n)" for k'
      by (cases k') (simp_all add: n)
    then show ?thesis by auto
  qed
  finally show ?thesis .
qed

lemma find_collisions_iff:
  "node_wf n \<Longrightarrow>
     (a, b) \<in> set (find_collisions n key) \<longleftrightarrow>
     (\<exists>a' b'. a = key @ a' \<and> b = key @ b' \<and> a \<noteq> [] \<and> strict_prefix a' b' \<and>
        get_from a' n \<noteq> None \<and> get_from b' n \<noteq> None)"
proof (induction n arbitrary: key rule: trie_node_induct)
  case (TrieNode w cs)
  let ?n = "TrieNode w cs"
  let ?P = "\<lambda>a' b'. a = key @ a' \<and> b = key @ b' \<and> a \<noteq> [] \<and> strict_prefix a' b' \<and>
        get_from a' ?n \<noteq> None \<and> get_from b' ?n \<noteq> None"
  have IH: "(a, b) \<in> set (find_collisions c (key @ [s])) \<longleftrightarrow>
      (\<exists>a' b'. a = key @ s # a' \<and> b = key @ s # b' \<and> strict_prefix a' b' \<and>
        get_from a' c \<noteq> None \<and> get_from b' c \<noteq> None)" if "(s, c) \<in> set cs" for s c
  proof -
    have "node_wf c" using TrieNode.prems that by (auto simp: list_all_iff)
    from TrieNode.IH [OF that this, of "key @ [s]"] show ?thesis by auto
  qed
  have wf: "om_wf cs" using TrieNode.prems by simp
  have mem: "(s, c) \<in> set cs \<longleftrightarrow> map_of cs s = Some c" for s c using wf by (rule om_wf_mem_iff)
  have "(a, b) \<in> set (find_collisions ?n key) \<longleftrightarrow>
      (w \<noteq> None \<and> key \<noteq> [] \<and> a = key \<and> (\<exists>k'. k' \<noteq> [] \<and> b = key @ k' \<and> get_from k' ?n \<noteq> None)) \<or>
      (\<exists>s c. (s, c) \<in> set cs \<and> (a, b) \<in> set (find_collisions c (key @ [s])))"
    by (simp add: collect_longer_keys_iff [OF TrieNode.prems, of a b key] Bex_def split_paired_Ex)
  also have "(w \<noteq> None \<and> key \<noteq> [] \<and> a = key \<and>
        (\<exists>k'. k' \<noteq> [] \<and> b = key @ k' \<and> get_from k' ?n \<noteq> None)) \<longleftrightarrow> (\<exists>b'. ?P [] b')"
    by (auto simp: strict_prefix_def)
  also have "(\<exists>s c. (s, c) \<in> set cs \<and> (a, b) \<in> set (find_collisions c (key @ [s]))) \<longleftrightarrow>
      (\<exists>s c. map_of cs s = Some c \<and> (\<exists>a' b'. a = key @ s # a' \<and> b = key @ s # b' \<and>
        strict_prefix a' b' \<and> get_from a' c \<noteq> None \<and> get_from b' c \<noteq> None))"
    by (intro ex_cong1 conj_cong) (simp_all only: mem IH)
  also have "\<dots> \<longleftrightarrow> (\<exists>s a' b'. ?P (s # a') (s # b'))"
  proof -
    have "get_from (s # k) ?n \<noteq> None \<longleftrightarrow> (\<exists>c. map_of cs s = Some c \<and> get_from k c \<noteq> None)" for s k
      by (simp split: option.split)
    moreover have "strict_prefix (s # a') (s # b') \<longleftrightarrow> strict_prefix a' b'" for s a' b'
      by (simp add: strict_prefix_def)
    ultimately show ?thesis by (simp only:) (rule iffI; elim exE conjE; fastforce)
  qed
  also have "(\<exists>b'. ?P [] b') \<or> (\<exists>s a' b'. ?P (s # a') (s # b')) \<longleftrightarrow> (\<exists>a' b'. ?P a' b')"
  proof (intro iffI; (elim exE disjE)?)
    fix a' b'
    assume P: "?P a' b'"
    show "(\<exists>b'. ?P [] b') \<or> (\<exists>s a' b'. ?P (s # a') (s # b'))"
    proof (cases a')
      case Nil
      with P show ?thesis by (rule_tac disjI1, rule_tac exI [of _ b']) (unfold Nil)
    next
      case (Cons s a'')
      moreover from P Cons obtain b'' where "b' = s # b''"
        by (cases b') (auto simp: strict_prefix_def)
      ultimately show ?thesis using P by blast
    qed
  qed (intro exI, assumption)+
  finally show ?case .
qed

lemma find_collisions_sorted:
  "node_wf n \<Longrightarrow> sorted_wrt (\<lambda>x y. fst x < fst y \<or> fst x = fst y \<and> snd x < snd y)
     (find_collisions n (key :: 's::linorder list))"
  (is "_ \<Longrightarrow> sorted_wrt ?R _")
proof (induction n arbitrary: key rule: trie_node_induct)
  case (TrieNode w cs)
  have wf: "node_wf (snd e)" if "e \<in> set cs" for e
    using TrieNode.prems that by (auto simp: list_all_iff)
  have ks: "\<exists>k'. fst x = key @ fst e # k'"
    if "e \<in> set cs" "x \<in> set (find_collisions (snd e) (key @ [fst e]))" for e x
    using find_collisions_iff [OF wf [OF that(1)], of "fst x" "snd x" "key @ [fst e]"] that by auto
  have sub: "sorted_wrt ?R (find_collisions (snd e) (key @ [fst e]))" if "e \<in> set cs" for e
    using TrieNode.IH [of "fst e" "snd e"] wf that by simp
  have "sorted_wrt (\<lambda>x y. fst x < fst y) cs" using TrieNode.prems by (simp add: om_wf_sorted_wrt)
  then have "sorted_wrt (\<lambda>x y. \<forall>a \<in> set (find_collisions (snd x) (key @ [fst x])).
       \<forall>b \<in> set (find_collisions (snd y) (key @ [fst y])). ?R a b) cs"
    by (rule sorted_wrt_mono_rel [rotated]) (fastforce dest!: ks simp: append_less_iff)
  from sorted_wrt_concat [OF sub this] have below:
    "sorted_wrt ?R (concat (map (\<lambda>e. find_collisions (snd e) (key @ [fst e])) cs))" .
  have "collect_longer_keys (TrieNode w cs) key =
        map (\<lambda>e. (key, fst e)) (collect_subtree (TrieNode None cs) key)"
    by (simp add: collect_longer_keys_def emit_eq_collect map_concat comp_def case_prod_unfold)
  moreover have "sorted_wrt (\<lambda>x y. fst x < fst y) (collect_subtree (TrieNode None cs) key)"
    using TrieNode.prems by (intro collect_subtree_sorted) simp
  ultimately have "sorted_wrt ?R (collect_longer_keys (TrieNode w cs) key)"
    by (simp add: sorted_wrt_map)
  moreover have "?R x y" if "x \<in> set (collect_longer_keys (TrieNode w cs) key)"
      "y \<in> set (concat (map (\<lambda>e. find_collisions (snd e) (key @ [fst e])) cs))" for x y
    using that collect_longer_keys_iff [OF TrieNode.prems, of "fst x" "snd x" key]
    by (fastforce dest!: ks simp: less_append_self)
  ultimately show ?case using below by (simp add: sorted_wrt_append del: set_concat)
qed

subsection \<open>The contract of a prefix index\<close>

text \<open>What the completion index and the module-path resolver rely on: a keyed store whose keys
  are lists, with an exact subtree query and a longest-prefix query.\<close>

locale prefix_store = keyed_store empty lookup put remove invar
  for empty :: "'m"
    and lookup :: "'m \<Rightarrow> 's list \<Rightarrow> 'v option"
    and put :: "'s list \<Rightarrow> 'v \<Rightarrow> 'm \<Rightarrow> 'm"
    and remove :: "'s list \<Rightarrow> 'm \<Rightarrow> 'm"
    and invar :: "'m \<Rightarrow> bool" +
  fixes collect :: "'m \<Rightarrow> 's list \<Rightarrow> ('s list \<times> 'v) list"
    and longest :: "'m \<Rightarrow> 's list \<Rightarrow> (nat \<times> 'v) option"
  assumes collect_set: "invar m \<Longrightarrow> set (collect m p) = {(k, v). lookup m k = Some v \<and> prefix p k}"
    and longest_hit: "longest m key = Some (d, v) \<Longrightarrow>
      d \<le> length key \<and> lookup m (take d key) = Some v \<and>
      (\<forall>i. d < i \<and> i \<le> length key \<longrightarrow> lookup m (take i key) = None)"
    and longest_miss: "longest m key = None \<Longrightarrow> i \<le> length key \<Longrightarrow> lookup m (take i key) = None"
begin

lemma collect_empty: "collect empty p = []"
  using collect_set [OF invar_empty, of p] by (simp add: lookup_empty)

lemma collect_put:
  "invar m \<Longrightarrow> lookup m k = None \<Longrightarrow>
     set (collect (put k v m) p) = (if prefix p k then {(k, v)} else {}) \<union> set (collect m p)"
  by (auto simp: collect_set invar_put lookup_put split: if_splits)

lemma longest_exact: "lookup m key = Some v \<Longrightarrow> longest m key = Some (length key, v)"
proof -
  assume hit: "lookup m key = Some v"
  show ?thesis
  proof (cases "longest m key")
    case None
    from longest_miss [OF None, of "length key"] hit show ?thesis by simp
  next
    case (Some r)
    obtain d w where r: "r = (d, w)" by force
    from longest_hit [OF Some [unfolded r]] hit have "d = length key"
      by (metis le_neq_implies_less option.distinct(1) order_refl take_all)
    with longest_hit [OF Some [unfolded r]] hit Some r show ?thesis by simp
  qed
qed

lemma longest_mono_put:
  "invar m \<Longrightarrow> longest m key = Some (d, v) \<Longrightarrow>
     \<exists>d' w. longest (put k u m) key = Some (d', w) \<and> d \<le> d'"
proof -
  assume inv: "invar m" and hit: "longest m key = Some (d, v)"
  then have d: "d \<le> length key" "lookup (put k u m) (take d key) \<noteq> None"
    using longest_hit [OF hit] by (auto simp: lookup_put)
  then obtain d' w where l: "longest (put k u m) key = Some (d', w)"
    using longest_miss by (metis option.exhaust prod.exhaust)
  from longest_hit [OF l] d have "d \<le> d'" by (meson not_le)
  with l show ?thesis by blast
qed

end

lemma collect_with_prefix_set:
  "trie_wf t \<Longrightarrow> set (collect_with_prefix t p) = {(k, v). trie_get t k = Some v \<and> prefix p k}"
proof -
  assume wf: "trie_wf t"
  show ?thesis
  proof (cases "descend p (root t)")
    case None
    then show ?thesis
      by (auto simp: collect_with_prefix_def trie_get_def prefix_def get_descend)
  next
    case (Some n)
    with wf have "node_wf n" using node_wf_descend by (auto simp: trie_wf_def)
    with Some show ?thesis
      by (auto simp: collect_with_prefix_def trie_get_def prefix_def get_descend collect_subtree_iff)
  qed
qed

interpretation trie_index: prefix_store trie_new trie_get trie_insert
  "\<lambda>k t. snd (trie_remove k t)" trie_wf collect_with_prefix longest_prefix_of
proof unfold_locales
  fix t :: "('s::linorder, 'v) trie" and key d v i
  let ?D = "stored_depths t key"
  show "d \<le> length key \<and> trie_get t (take d key) = Some v \<and>
      (\<forall>i. d < i \<and> i \<le> length key \<longrightarrow> trie_get t (take i key) = None)"
    if l: "longest_prefix_of t key = Some (d, v)"
  proof -
    have ne: "?D \<noteq> {}" using longest_prefix_of_none [of t key] l by force
    from longest_prefix_of_Max [OF ne] l
    have d: "d = Max ?D" and v: "v = the (trie_get t (take d key))" by simp_all
    have "d \<in> ?D" using ne by (simp add: d)
    moreover have "i \<notin> ?D" if "d < i" for i
      using Max_ge [OF finite_stored_depths, of i t key] that d by linarith
    ultimately show ?thesis using v by (auto simp: stored_depths_def)
  qed
  show "trie_get t (take i key) = None" if "longest_prefix_of t key = None" "i \<le> length key"
  proof (rule ccontr)
    assume "trie_get t (take i key) \<noteq> None"
    with that have "?D \<noteq> {}" by (auto simp: stored_depths_def)
    from longest_prefix_of_Max [OF this] that show False by simp
  qed
qed (rule collect_with_prefix_set)

subsection \<open>Properties\<close>

text \<open>C7: removing what was inserted at a fresh key returns the value and leaves the very same
  trie, so no stale branch stays behind after an entry is deleted or moved.\<close>

theorem trie_remove_restores:
  assumes "trie_wf t" and "trie_get t key = None"
  shows "trie_remove key (trie_insert key v t) = (Some v, t)"
proof -
  have wf: "trie_wf (trie_insert key v t)" using assms by (simp add: trie_map.invar_put)
  have "snd (trie_remove key (trie_insert key v t)) = t"
    using assms wf trie_map.lookup_remove_put trie_map.invar_remove by (intro trie_ext) auto
  moreover have "fst (trie_remove key (trie_insert key v t)) = Some v"
    by (simp add: trie_remove_def trie_insert_def split_beta remove_returns get_insert_at)
  ultimately show ?thesis by (simp add: prod_eq_iff)
qed

lemma trie_remove_restores_witness:
  "trie_remove ''ab'' (trie_insert ''ab'' (1::nat) (trie_insert ''a'' 0 trie_new)) =
     (Some 1, trie_insert ''a'' 0 trie_new)"
  by (rule trie_remove_restores)
     (simp_all add: trie_map.invar_put trie_map.invar_empty trie_map.lookup_put trie_map.lookup_empty)

text \<open>A prefix query returns exactly the stored entries under the prefix, each once and in
  lexicographic order of their keys.\<close>

theorem collect_with_prefix_exact:
  assumes "trie_wf (t :: ('s::linorder, 'v) trie)"
  shows "set (collect_with_prefix t p) = {(k, v). trie_get t k = Some v \<and> prefix p k} \<and>
         sorted_wrt (<) (map fst (collect_with_prefix t p))"
proof
  show "set (collect_with_prefix t p) = {(k, v). trie_get t k = Some v \<and> prefix p k}"
    using assms by (rule collect_with_prefix_set)
  show "sorted_wrt (<) (map fst (collect_with_prefix t p))"
    using assms collect_subtree_sorted node_wf_descend
    by (fastforce simp: collect_with_prefix_def sorted_wrt_map trie_wf_def split: option.split)
qed

lemma collect_with_prefix_exact_witness:
  "set (collect_with_prefix (trie_insert ''ab'' (1::nat) trie_new) ''a'') =
     {(k, v). trie_get (trie_insert ''ab'' 1 trie_new) k = Some v \<and> prefix ''a'' k}"
  using collect_with_prefix_exact [of "trie_insert ''ab'' (1::nat) trie_new" "''a''"]
  by (simp add: trie_map.invar_put trie_map.invar_empty)

text \<open>The longest-prefix query returns the greatest depth at which a prefix of the key is
  stored, with the value stored there, and nothing exactly when no prefix is stored.\<close>

theorem longest_prefix_of_maximal:
  "longest_prefix_of t key =
     (let D = {i. i \<le> length key \<and> trie_get t (take i key) \<noteq> None} in
      if D = {} then None else Some (Max D, the (trie_get t (take (Max D) key))))"
  using longest_prefix_of_Max [of t key] longest_prefix_of_none [of t key]
  by (auto simp: stored_depths_def Let_def)

text \<open>The collision search reports exactly the pairs of stored keys of which the first is a
  non-empty proper prefix of the second, each once and ordered by the shorter key.  An entry
  at the empty key, a proper prefix of every other, is never reported.\<close>

theorem prefix_collisions_exact:
  assumes "trie_wf (t :: ('s::linorder, 'v) trie)"
  shows "set (prefix_collisions t) =
           {(a, b). a \<noteq> [] \<and> strict_prefix a b \<and> trie_get t a \<noteq> None \<and> trie_get t b \<noteq> None} \<and>
         distinct (prefix_collisions t) \<and> sorted (map fst (prefix_collisions t))"
proof (intro conjI)
  have wf: "node_wf (root t)" using assms by (simp add: trie_wf_def)
  show "set (prefix_collisions t) =
      {(a, b). a \<noteq> [] \<and> strict_prefix a b \<and> trie_get t a \<noteq> None \<and> trie_get t b \<noteq> None}"
    using find_collisions_iff [OF wf, where key = "[]"]
    by (auto simp: prefix_collisions_def trie_get_def)
  note sorted = find_collisions_sorted [OF wf, of "[]", folded prefix_collisions_def]
  show "distinct (prefix_collisions t)"
    using sorted by (rule sorted_wrt_irrefl_distinct) auto
  show "sorted (map fst (prefix_collisions t))"
    unfolding sorted_wrt_map by (rule sorted_wrt_mono_rel [OF _ sorted]) auto
qed

lemma prefix_collisions_exact_witness:
  "(''a'', ''ab'') \<in> set (prefix_collisions (trie_insert ''ab'' (1::nat) (trie_insert ''a'' 0 trie_new)))"
proof -
  let ?t = "trie_insert ''ab'' (1::nat) (trie_insert ''a'' 0 trie_new)"
  have wf: "trie_wf ?t" by (simp add: trie_map.invar_put trie_map.invar_empty)
  have "trie_get ?t ''a'' \<noteq> None" "trie_get ?t ''ab'' \<noteq> None"
    by (simp_all add: trie_map.invar_put trie_map.invar_empty trie_map.lookup_put)
  then show ?thesis
    unfolding conjunct1 [OF prefix_collisions_exact [OF wf]] by (simp add: strict_prefix_def)
qed

end
