(* ===== verification/Module_Paths.thy ===== *)
theory Module_Paths
  imports Prefix_Trie
begin

section \<open>Module paths of source files\<close>

text \<open>
  Models \<open>src/core/workspace/module_paths.rs\<close>: from the path segments of a file URL to the
  \<open>crate::...\<close> path of the module the file holds.  A URL is an abstract value; splitting it
  into path segments is the work of the \<open>url\<close> crate and a parameter \<open>path_segments\<close> of the
  definitions.  \<open>Path::file_stem\<close> is modelled for a single component.
\<close>

type_synonym url = string

definition CRATE_ROOT_SEGMENT :: string where "CRATE_ROOT_SEGMENT = ''crate''"
definition MOD_RS_STEM :: string where "MOD_RS_STEM = ''mod''"
definition LIB_RS_STEM :: string where "LIB_RS_STEM = ''lib''"
definition SRC_DIR :: string where "SRC_DIR = ''src''"

text \<open>A non-ASCII character has only bytes above 127, so the test over bytes is the test over
  characters.\<close>

definition is_valid_module_name :: "string \<Rightarrow> bool" where
  "is_valid_module_name name =
     (case name of
        [] \<Rightarrow> False
      | c # cs \<Rightarrow> (is_ascii_alphabetic c \<or> c = CHR ''_'') \<and>
                 list_all (\<lambda>c. is_ascii_alphanumeric c \<or> c = CHR ''_'') cs)"

text \<open>\<open>Path::new(name).file_stem()\<close> for a non-empty component without separator: the part
  before the last dot, the whole name when there is no dot or only a leading one.\<close>

definition file_stem :: "string \<Rightarrow> string option" where
  "file_stem name =
     (if name = ''.'' \<or> name = ''..'' then None
      else (case str_rfind ''.'' name of
              None \<Rightarrow> Some name
            | Some 0 \<Rightarrow> Some name
            | Some i \<Rightarrow> Some (take i name)))"

fun rposition :: "('a \<Rightarrow> bool) \<Rightarrow> 'a list \<Rightarrow> nat option" where
  "rposition p [] = None"
| "rposition p (x # xs) =
     (case rposition p xs of Some i \<Rightarrow> Some (Suc i) | None \<Rightarrow> if p x then Some 0 else None)"

definition is_root_stem :: "string \<Rightarrow> bool" where
  "is_root_stem stem \<longleftrightarrow> stem = LIB_RS_STEM \<or> stem = MOD_RS_STEM \<or> stem = ''main''"

text \<open>The loop over the components after \<open>src\<close>; the last one is the file.\<close>

fun module_loop :: "string list \<Rightarrow> string list \<Rightarrow> string list option" where
  "module_loop [] segments = Some segments"
| "module_loop [name] segments =
     (case file_stem name of
        None \<Rightarrow> None
      | Some stem \<Rightarrow>
          if is_root_stem stem then Some segments
          else if \<not> is_valid_module_name stem then None
          else Some (segments @ [stem]))"
| "module_loop (name # next # rest) segments =
     (if \<not> is_valid_module_name name then None
      else module_loop (next # rest) (segments @ [name]))"

definition module_path_segments :: "(url \<Rightarrow> string list option) \<Rightarrow> url \<Rightarrow> string list option" where
  "module_path_segments path_segments uri =
     (case path_segments uri of
        None \<Rightarrow> None
      | Some raw \<Rightarrow>
          (let all = filter (\<lambda>s. s \<noteq> []) raw in
           case rposition (\<lambda>s. s = SRC_DIR) all of
             None \<Rightarrow> None
           | Some i \<Rightarrow>
               (let components = drop (i + 1) all in
                if components = [] then None
                else module_loop components [CRATE_ROOT_SEGMENT])))"

subsection \<open>Lemmas\<close>

lemma rposition_None: "rposition p xs = None \<longleftrightarrow> (\<forall>x \<in> set xs. \<not> p x)"
  by (induction xs) (auto split: option.splits)

lemma rposition_Some:
  "rposition p xs = Some i \<longleftrightarrow> i < length xs \<and> p (xs ! i) \<and> (\<forall>x \<in> set (drop (Suc i) xs). \<not> p x)"
proof (induction xs arbitrary: i)
  case (Cons x xs)
  show ?case
  proof (cases "rposition p xs")
    case None
    then have "\<forall>x \<in> set xs. \<not> p x" by (simp add: rposition_None)
    with None show ?thesis by (cases i) (auto dest: nth_mem)
  next
    case (Some j)
    then have "\<exists>x \<in> set xs. p x" using rposition_None [of p xs] by auto
    show ?thesis
    proof (cases i)
      case 0
      have "rposition p (x # xs) = Some (Suc j)" by (simp add: Some)
      with 0 \<open>\<exists>x \<in> set xs. p x\<close> show ?thesis by simp
    next
      case (Suc n)
      have "rposition p (x # xs) = Some (Suc n) \<longleftrightarrow> rposition p xs = Some n" by (simp add: Some)
      with Suc Cons.IH [of n] show ?thesis by simp
    qed
  qed
qed simp

lemma rposition_split:
  "(\<exists>i. rposition (\<lambda>x. x = a) xs = Some i \<and> ys = drop (i + 1) xs) \<longleftrightarrow>
   (\<exists>pre. xs = pre @ a # ys \<and> a \<notin> set ys)"
proof
  assume "\<exists>i. rposition (\<lambda>x. x = a) xs = Some i \<and> ys = drop (i + 1) xs"
  then obtain i where i: "i < length xs" "xs ! i = a" "a \<notin> set (drop (Suc i) xs)" "ys = drop (i + 1) xs"
    by (auto simp: rposition_Some)
  then have "xs = take i xs @ a # ys" using id_take_nth_drop [OF i(1)] by simp
  with i show "\<exists>pre. xs = pre @ a # ys \<and> a \<notin> set ys" by auto
next
  assume "\<exists>pre. xs = pre @ a # ys \<and> a \<notin> set ys"
  then obtain pre where "xs = pre @ a # ys" "a \<notin> set ys" by blast
  then have "rposition (\<lambda>x. x = a) xs = Some (length pre)" "ys = drop (length pre + 1) xs"
    by (auto simp: rposition_Some)
  then show "\<exists>i. rposition (\<lambda>x. x = a) xs = Some i \<and> ys = drop (i + 1) xs" by blast
qed

lemma module_loop_snoc:
  "module_loop (dirs @ [name]) segments =
     (if list_all is_valid_module_name dirs
      then map_option (\<lambda>s. segments @ dirs @ drop (length segments) s)
             (module_loop [name] segments)
      else None)"
proof (induction dirs arbitrary: segments)
  case Nil
  then show ?case by (auto split: option.split)
next
  case (Cons d dirs)
  have "module_loop ((d # dirs) @ [name]) segments =
      (if is_valid_module_name d then module_loop (dirs @ [name]) (segments @ [d]) else None)"
    by (cases dirs) simp_all
  with Cons.IH [of "segments @ [d]"] show ?case by (auto split: option.split)
qed

subsection \<open>Properties\<close>

text \<open>C17: a file has a module path exactly when its URL has a \<open>src\<close> component, every directory
  between the last one and the file is an identifier, and so is the stem of the file unless it
  is a root file (\<open>lib\<close>, \<open>mod\<close>, \<open>main\<close>); the path is \<open>crate\<close>, the directories and the stem of a
  file that is not a root.\<close>

theorem module_path_segments_exact:
  "module_path_segments path_segments uri = Some segs \<longleftrightarrow>
   (\<exists>raw pre dirs name stem.
      path_segments uri = Some raw \<and>
      filter (\<lambda>s. s \<noteq> []) raw = pre @ SRC_DIR # dirs @ [name] \<and>
      SRC_DIR \<notin> set (dirs @ [name]) \<and>
      list_all is_valid_module_name dirs \<and>
      file_stem name = Some stem \<and>
      (is_root_stem stem \<or> is_valid_module_name stem) \<and>
      segs = CRATE_ROOT_SEGMENT # dirs @ (if is_root_stem stem then [] else [stem]))"
proof -
  let ?all = "\<lambda>raw. filter (\<lambda>s. s \<noteq> []) raw"
  have "module_path_segments path_segments uri = Some segs \<longleftrightarrow>
      (\<exists>raw components. path_segments uri = Some raw \<and>
         (\<exists>i. rposition (\<lambda>s. s = SRC_DIR) (?all raw) = Some i \<and> components = drop (i + 1) (?all raw)) \<and>
         components \<noteq> [] \<and> module_loop components [CRATE_ROOT_SEGMENT] = Some segs)"
    by (auto simp: module_path_segments_def Let_def split: option.splits if_splits)
  also have "\<dots> \<longleftrightarrow> (\<exists>raw components pre. path_segments uri = Some raw \<and>
         ?all raw = pre @ SRC_DIR # components \<and> SRC_DIR \<notin> set components \<and>
         components \<noteq> [] \<and> module_loop components [CRATE_ROOT_SEGMENT] = Some segs)"
    unfolding rposition_split by blast
  also have "\<dots> \<longleftrightarrow> (\<exists>raw pre dirs name. path_segments uri = Some raw \<and>
         ?all raw = pre @ SRC_DIR # dirs @ [name] \<and> SRC_DIR \<notin> set (dirs @ [name]) \<and>
         module_loop (dirs @ [name]) [CRATE_ROOT_SEGMENT] = Some segs)"
    by (metis append_is_Nil_conv list.distinct(1) rev_exhaust)
  also have "\<dots> \<longleftrightarrow> (\<exists>raw pre dirs name stem.
      path_segments uri = Some raw \<and> ?all raw = pre @ SRC_DIR # dirs @ [name] \<and>
      SRC_DIR \<notin> set (dirs @ [name]) \<and> list_all is_valid_module_name dirs \<and>
      file_stem name = Some stem \<and> (is_root_stem stem \<or> is_valid_module_name stem) \<and>
      segs = CRATE_ROOT_SEGMENT # dirs @ (if is_root_stem stem then [] else [stem]))"
    (is "?L \<longleftrightarrow> ?R")
  proof -
    have "module_loop (dirs @ [name]) [CRATE_ROOT_SEGMENT] = Some segs \<longleftrightarrow>
        (\<exists>stem. list_all is_valid_module_name dirs \<and> file_stem name = Some stem \<and>
           (is_root_stem stem \<or> is_valid_module_name stem) \<and>
           segs = CRATE_ROOT_SEGMENT # dirs @ (if is_root_stem stem then [] else [stem]))" for dirs name
      unfolding module_loop_snoc by (auto split: option.splits if_splits)
    then show ?thesis by simp
  qed
  finally show ?thesis .
qed

end
