(* ===== verification/Call_Graph.thy ===== *)
theory Call_Graph
  imports Hash_Map
begin

section \<open>The workspace call graph\<close>

text \<open>
  Models \<open>src/core/workspace/call_graph.rs\<close>: the graph built from the indexed functions and
  the bounded breadth-first search behind \<open>reachable_from\<close> and
  \<open>unambiguous_reachable_from\<close>.  The queue is a list of names with their depth, the set of
  reached names a set.  The search is total (each step reaches a new name or shortens the
  queue); its result is characterised by the paths of the callee relation.
\<close>

subsection \<open>Data and construction\<close>

definition MAX_REACHABILITY_DEPTH :: nat where
  "MAX_REACHABILITY_DEPTH = 8"

record call_graph =
  edges :: "(string, string list) hmap"
  definition_counts :: "(string, nat) hmap"

record reachability =
  reached_names :: "string set"
  truncated :: bool

datatype ambiguity_policy = AllowAmbiguous | RequireUnambiguous

text \<open>The part of an indexed function that the graph reads: its name and its calls.\<close>

type_synonym call_site = "string \<times> string list"

definition push_new :: "string list \<Rightarrow> string list \<Rightarrow> string list" where
  "push_new calls callees = fold (\<lambda>call cs. if call \<in> set cs then cs else cs @ [call]) calls callees"

definition build_step :: "call_site \<Rightarrow> call_graph \<Rightarrow> call_graph" where
  "build_step f g =
     g\<lparr>definition_counts := hm_update (fst f) 0 Suc (definition_counts g),
       edges := hm_update (fst f) [] (push_new (snd f)) (edges g)\<rparr>"

definition call_graph_build :: "call_site list \<Rightarrow> call_graph" where
  "call_graph_build fs =
     (let g = fold build_step fs \<lparr>edges = [], definition_counts = []\<rparr> in
      g\<lparr>edges := map (\<lambda>(k, cs). (k, sort cs)) (edges g)\<rparr>)"

definition is_unambiguous :: "call_graph \<Rightarrow> string \<Rightarrow> bool" where
  "is_unambiguous g name \<longleftrightarrow> map_of (definition_counts g) name = Some 1"

definition callees_of :: "call_graph \<Rightarrow> string \<Rightarrow> string list" where
  "callees_of g name = unwrap_or [] (map_of (edges g) name)"

subsection \<open>The search\<close>

definition skipped :: "call_graph \<Rightarrow> ambiguity_policy \<Rightarrow> string \<Rightarrow> bool" where
  "skipped g policy name \<longleftrightarrow> policy = RequireUnambiguous \<and> \<not> is_unambiguous g name"

definition edge_targets :: "call_graph \<Rightarrow> string set" where
  "edge_targets g = \<Union> (set ` snd ` set (edges g))"

text \<open>Names that may still be reached: those in the queue and the targets of edges.\<close>

definition unreached :: "call_graph \<Rightarrow> (string \<times> nat) list \<Rightarrow> reachability \<Rightarrow> string set" where
  "unreached g pending r = (fst ` set pending \<union> edge_targets g) - reached_names r"

lemma finite_edge_targets [simp]: "finite (edge_targets g)"
  by (simp add: edge_targets_def)

lemma edge_targets_subset: "map_of (edges g) n = Some cs \<Longrightarrow> set cs \<subseteq> edge_targets g"
  by (force simp: edge_targets_def dest: map_of_SomeD)

lemma card_unreached_insert:
  "name \<notin> reached_names r \<Longrightarrow> fst ` set pending' \<subseteq> fst ` set pending \<union> edge_targets g \<Longrightarrow>
   name \<in> reached_names r' \<Longrightarrow> reached_names r \<subseteq> reached_names r' \<Longrightarrow>
     card (unreached g pending' r') < card (unreached g ((name, depth) # pending) r)"
  by (rule psubset_card_mono; unfold unreached_def) (simp, auto)

lemma card_unreached_mono: "card (unreached g pending r) \<le> card (unreached g (p # pending) r)"
  by (rule card_mono; unfold unreached_def) (simp, auto)

function reach_loop ::
  "call_graph \<Rightarrow> ambiguity_policy \<Rightarrow> (string \<times> nat) list \<Rightarrow> reachability \<Rightarrow> reachability" where
  "reach_loop g policy [] r = r"
| "reach_loop g policy ((name, depth) # pending) r =
     (if skipped g policy name then reach_loop g policy pending r
      else if name \<in> reached_names r then reach_loop g policy pending r
      else
        (let r' = r\<lparr>reached_names := insert name (reached_names r)\<rparr> in
         case map_of (edges g) name of
           None \<Rightarrow> reach_loop g policy pending r'
         | Some callees \<Rightarrow>
             if depth \<ge> MAX_REACHABILITY_DEPTH then
               reach_loop g policy pending (r'\<lparr>truncated := truncated r \<or> callees \<noteq> []\<rparr>)
             else
               reach_loop g policy (pending @ map (\<lambda>c. (c, depth + 1)) callees) r'))"
  by pat_completeness auto

termination
proof (relation "measures [\<lambda>(g, policy, pending, r). card (unreached g pending r),
                           \<lambda>(g, policy, pending, r). length pending]", goal_cases)
  case (2 g policy name depth pending r)
  then show ?case using card_unreached_mono [of g pending r "(name, depth)"] by auto
next
  case (3 g policy name depth pending r)
  then show ?case using card_unreached_mono [of g pending r "(name, depth)"] by auto
qed (use edge_targets_subset in
    \<open>force intro!: card_unreached_insert simp: image_Un image_image\<close>)+

definition reachable_from_with_policy ::
  "call_graph \<Rightarrow> string \<Rightarrow> ambiguity_policy \<Rightarrow> reachability" where
  "reachable_from_with_policy g from policy =
     reach_loop g policy (map (\<lambda>c. (c, 1)) (callees_of g from))
       \<lparr>reached_names = {}, truncated = False\<rparr>"

definition reachable_from :: "call_graph \<Rightarrow> string \<Rightarrow> reachability" where
  "reachable_from g from = reachable_from_with_policy g from AllowAmbiguous"

definition unambiguous_reachable_from :: "call_graph \<Rightarrow> string \<Rightarrow> reachability" where
  "unambiguous_reachable_from g from = reachable_from_with_policy g from RequireUnambiguous"

subsection \<open>Exactness of the search\<close>

text \<open>The step relation of the search: a call whose target the policy accepts.\<close>

definition call_step :: "call_graph \<Rightarrow> ambiguity_policy \<Rightarrow> (string \<times> string) set" where
  "call_step g policy = {(a, b). b \<in> set (callees_of g a) \<and> \<not> skipped g policy b}"

text \<open>
  The invariant of the loop.  The ghost function \<open>\<delta>\<close> gives the depth at which a name was
  reached; the queue is sorted by depth and spans at most two levels, so that every name is
  reached first at its least depth.
\<close>

definition covered :: "(string \<Rightarrow> nat) \<Rightarrow> (string \<times> nat) list \<Rightarrow> reachability \<Rightarrow> string \<Rightarrow> nat \<Rightarrow> bool" where
  "covered \<delta> pending r c k \<longleftrightarrow>
     c \<in> reached_names r \<and> \<delta> c \<le> k \<or> (\<exists>d \<le> k. (c, d) \<in> set pending)"

definition queue_ok :: "call_graph \<Rightarrow> ambiguity_policy \<Rightarrow> string \<Rightarrow> (string \<times> nat) list \<Rightarrow> bool" where
  "queue_ok g policy from pending \<longleftrightarrow>
     sorted (map snd pending) \<and>
     (\<forall>p \<in> set pending. snd p \<le> snd (hd pending) + 1) \<and>
     (\<forall>(n, d) \<in> set pending. 1 \<le> d \<and> d \<le> MAX_REACHABILITY_DEPTH \<and>
        (\<exists>a. (from, a) \<in> call_step g policy ^^ (d - 1) \<and> n \<in> set (callees_of g a)))"

definition reached_ok ::
  "call_graph \<Rightarrow> ambiguity_policy \<Rightarrow> string \<Rightarrow> (string \<Rightarrow> nat) \<Rightarrow> (string \<times> nat) list \<Rightarrow> reachability \<Rightarrow> bool" where
  "reached_ok g policy from \<delta> pending r \<longleftrightarrow>
     (\<forall>m \<in> reached_names r. 1 \<le> \<delta> m \<and> \<delta> m \<le> MAX_REACHABILITY_DEPTH \<and>
        (from, m) \<in> call_step g policy ^^ \<delta> m \<and> (\<forall>p \<in> set pending. \<delta> m \<le> snd p)) \<and>
     (truncated r \<longleftrightarrow> (\<exists>m \<in> reached_names r. \<delta> m = MAX_REACHABILITY_DEPTH \<and> callees_of g m \<noteq> []))"

definition closed_ok ::
  "call_graph \<Rightarrow> ambiguity_policy \<Rightarrow> string \<Rightarrow> (string \<Rightarrow> nat) \<Rightarrow> (string \<times> nat) list \<Rightarrow> reachability \<Rightarrow> bool" where
  "closed_ok g policy from \<delta> pending r \<longleftrightarrow>
     (\<forall>c. (from, c) \<in> call_step g policy \<longrightarrow> covered \<delta> pending r c 1) \<and>
     (\<forall>m \<in> reached_names r. \<delta> m < MAX_REACHABILITY_DEPTH \<longrightarrow>
        (\<forall>c. (m, c) \<in> call_step g policy \<longrightarrow> covered \<delta> pending r c (\<delta> m + 1)))"

lemma covered_drop:
  "covered \<delta> ((n, d) # pending) r c k \<Longrightarrow> c \<noteq> n \<or> (n \<in> reached_names r \<and> \<delta> n \<le> d) \<Longrightarrow>
     covered \<delta> pending r c k"
  by (auto simp: covered_def)

lemma closed_drop:
  "closed_ok g policy from \<delta> ((n, d) # pending) r \<Longrightarrow>
     skipped g policy n \<or> (n \<in> reached_names r \<and> \<delta> n \<le> d) \<Longrightarrow> closed_ok g policy from \<delta> pending r"
proof -
  assume closed: "closed_ok g policy from \<delta> ((n, d) # pending) r"
    and n: "skipped g policy n \<or> (n \<in> reached_names r \<and> \<delta> n \<le> d)"
  have "covered \<delta> pending r c k"
    if "covered \<delta> ((n, d) # pending) r c k" "(m, c) \<in> call_step g policy" for m c k
    using covered_drop [OF that(1)] n that(2) by (auto simp: call_step_def)
  with closed show ?thesis unfolding closed_ok_def by blast
qed

lemma queue_drop: "queue_ok g policy from (p # pending) \<Longrightarrow> queue_ok g policy from pending"
  by (cases pending) (auto simp: queue_ok_def)

lemma reached_drop:
  "reached_ok g policy from \<delta> (p # pending) r \<Longrightarrow> reached_ok g policy from \<delta> pending r"
  by (auto simp: reached_ok_def)

lemma queue_head_path:
  assumes "queue_ok g policy from ((n, d) # pending)" "\<not> skipped g policy n"
  shows "(from, n) \<in> call_step g policy ^^ d \<and> 1 \<le> d \<and> d \<le> MAX_REACHABILITY_DEPTH"
proof -
  from assms(1) obtain a where a: "(from, a) \<in> call_step g policy ^^ (d - 1)"
      "n \<in> set (callees_of g a)" and d: "1 \<le> d" "d \<le> MAX_REACHABILITY_DEPTH"
    by (auto simp: queue_ok_def)
  from a(2) assms(2) have "(a, n) \<in> call_step g policy" by (simp add: call_step_def)
  with a(1) have "(from, n) \<in> call_step g policy ^^ Suc (d - 1)" by (rule relpow_Suc_I)
  with d show ?thesis by simp
qed

lemma sorted_map_const: "sorted (map (\<lambda>_. k :: nat) xs)"
  by (induction xs) auto

lemma queue_extend:
  assumes "queue_ok g policy from ((n, d) # pending)" "\<not> skipped g policy n" "d < MAX_REACHABILITY_DEPTH"
    and "map_of (edges g) n = Some cs"
  shows "queue_ok g policy from (pending @ map (\<lambda>c. (c, d + 1)) cs)"
proof -
  have le: "snd p \<le> d + 1" "d \<le> snd p" if "p \<in> set pending" for p
    using assms(1) that by (auto simp: queue_ok_def)
  have "sorted (map snd (pending @ map (\<lambda>c. (c, d + 1)) cs))"
  proof -
    show ?thesis using assms(1) le
      by (auto simp: queue_ok_def sorted_append comp_def sorted_map_const)
  qed
  moreover have "snd p \<le> snd (hd (pending @ map (\<lambda>c. (c, d + 1)) cs)) + 1"
    if "p \<in> set (pending @ map (\<lambda>c. (c, d + 1)) cs)" for p
  proof -
    let ?q = "pending @ map (\<lambda>c. (c, d + 1)) cs"
    have bound: "d \<le> snd q \<and> snd q \<le> d + 1" if "q \<in> set ?q" for q
      by (cases q rule: prod.exhaust) (use that le in auto)
    from that have "hd ?q \<in> set ?q" by (intro list.set_sel) auto
    with bound [OF that] bound [of "hd ?q"] show ?thesis by linarith
  qed
  moreover have "1 \<le> snd p \<and> snd p \<le> MAX_REACHABILITY_DEPTH \<and>
      (\<exists>a. (from, a) \<in> call_step g policy ^^ (snd p - 1) \<and> fst p \<in> set (callees_of g a))"
    if "p \<in> set (pending @ map (\<lambda>c. (c, d + 1)) cs)" for p
  proof (cases "p \<in> set pending")
    case True
    with assms(1) show ?thesis unfolding queue_ok_def case_prod_beta by simp
  next
    case False
    with that have "fst p \<in> set (callees_of g n)" "snd p = d + 1"
      using assms(4) by (auto simp: callees_of_def)
    with assms(3) queue_head_path [OF assms(1,2)] show ?thesis by auto
  qed
  ultimately show ?thesis unfolding queue_ok_def case_prod_beta by blast
qed

lemma visit_reached:
  assumes "queue_ok g policy from ((n, d) # pending)"
    and "reached_ok g policy from \<delta> ((n, d) # pending) r"
    and "n \<notin> reached_names r" and "\<not> skipped g policy n"
    and "\<forall>p \<in> set pending'. d \<le> snd p"
    and "reached_names r' = insert n (reached_names r)"
    and "truncated r' \<longleftrightarrow> truncated r \<or> d = MAX_REACHABILITY_DEPTH \<and> callees_of g n \<noteq> []"
  shows "reached_ok g policy from (\<delta>(n := d)) pending' r'"
proof -
  note path = queue_head_path [OF assms(1,4)]
  have "1 \<le> (\<delta>(n := d)) m \<and> (\<delta>(n := d)) m \<le> MAX_REACHABILITY_DEPTH \<and>
      (from, m) \<in> call_step g policy ^^ (\<delta>(n := d)) m \<and> (\<forall>p \<in> set pending'. (\<delta>(n := d)) m \<le> snd p)"
    if "m \<in> reached_names r'" for m
  proof (cases "m = n")
    case True
    with path assms(5) show ?thesis by simp
  next
    case False
    with that assms(6) have "m \<in> reached_names r" by simp
    with assms(2) have m: "1 \<le> \<delta> m" "\<delta> m \<le> MAX_REACHABILITY_DEPTH"
        "(from, m) \<in> call_step g policy ^^ \<delta> m" "\<delta> m \<le> d"
      unfolding reached_ok_def by simp_all
    with assms(5) have "\<forall>p \<in> set pending'. \<delta> m \<le> snd p" by (meson le_trans)
    with m False show ?thesis by simp
  qed
  moreover have "truncated r' \<longleftrightarrow>
      (\<exists>m \<in> reached_names r'. (\<delta>(n := d)) m = MAX_REACHABILITY_DEPTH \<and> callees_of g m \<noteq> [])"
  proof -
    have "truncated r \<longleftrightarrow> (\<exists>m \<in> reached_names r. \<delta> m = MAX_REACHABILITY_DEPTH \<and> callees_of g m \<noteq> [])"
      using assms(2) unfolding reached_ok_def by blast
    with assms(3,6,7) show ?thesis by auto
  qed
  ultimately show ?thesis unfolding reached_ok_def by blast
qed

lemma visit_closed:
  assumes "closed_ok g policy from \<delta> ((n, d) # pending) r"
    and "n \<notin> reached_names r"
    and "set pending \<subseteq> set pending'"
    and "reached_names r' = insert n (reached_names r)"
    and "d < MAX_REACHABILITY_DEPTH \<Longrightarrow> \<forall>c \<in> set (callees_of g n). (c, d + 1) \<in> set pending'"
  shows "closed_ok g policy from (\<delta>(n := d)) pending' r'"
proof -
  have *: "covered (\<delta>(n := d)) pending' r' c k" if "covered \<delta> ((n, d) # pending) r c k" for c k
    using that assms(2-4) by (auto simp: covered_def)
  have "covered (\<delta>(n := d)) pending' r' c (d + 1)"
    if "d < MAX_REACHABILITY_DEPTH" "(n, c) \<in> call_step g policy" for c
    using assms(5) that by (auto simp: covered_def call_step_def)
  with * assms(1,2,4) show ?thesis unfolding closed_ok_def by auto
qed

lemma reach_loop_inv:
  "queue_ok g policy from pending \<Longrightarrow> reached_ok g policy from \<delta> pending r \<Longrightarrow>
   closed_ok g policy from \<delta> pending r \<Longrightarrow>
     \<exists>\<delta>'. reached_ok g policy from \<delta>' [] (reach_loop g policy pending r) \<and>
          closed_ok g policy from \<delta>' [] (reach_loop g policy pending r)"
proof (induction g policy pending r arbitrary: \<delta> rule: reach_loop.induct)
  case (1 g policy r)
  then show ?case by auto
next
  case (2 g policy n d pending r)
  note queue = "2.prems"(1) and reached = "2.prems"(2) and closed = "2.prems"(3)
  show ?case
  proof (cases "skipped g policy n \<or> n \<in> reached_names r")
    case True
    moreover have "\<delta> n \<le> d" if "n \<in> reached_names r"
      using reached that by (auto simp: reached_ok_def)
    ultimately have "closed_ok g policy from \<delta> pending r"
      by (intro closed_drop [OF closed]) auto
    with True "2.IH"(1,2) queue_drop [OF queue] reached_drop [OF reached] show ?thesis
      by (cases "skipped g policy n") simp_all
  next
    case False
    then have n: "\<not> skipped g policy n" "n \<notin> reached_names r" by simp_all
    let ?r = "r\<lparr>reached_names := insert n (reached_names r)\<rparr>"
    have ge: "\<forall>p \<in> set pending. d \<le> snd p" and dmax: "d \<le> MAX_REACHABILITY_DEPTH"
      using queue by (auto simp: queue_ok_def)
    show ?thesis
    proof (cases "map_of (edges g) n")
      case None
      then have "callees_of g n = []" by (simp add: callees_of_def)
      then have "reached_ok g policy from (\<delta>(n := d)) pending ?r"
          "closed_ok g policy from (\<delta>(n := d)) pending ?r"
        using visit_reached [OF queue reached n(2,1) ge, of ?r]
          visit_closed [OF closed n(2), of pending ?r] by simp_all
      with "2.IH"(3) [OF n refl None] queue_drop [OF queue] None n show ?thesis by simp
    next
      case (Some cs)
      then have cs: "callees_of g n = cs" by (simp add: callees_of_def)
      show ?thesis
      proof (cases "d \<ge> MAX_REACHABILITY_DEPTH")
        case True
        let ?r' = "?r\<lparr>truncated := truncated r \<or> cs \<noteq> []\<rparr>"
        have "reached_ok g policy from (\<delta>(n := d)) pending ?r'"
            "closed_ok g policy from (\<delta>(n := d)) pending ?r'"
          using visit_reached [OF queue reached n(2,1) ge, of ?r']
            visit_closed [OF closed n(2), of pending ?r'] True dmax cs by simp_all
        with "2.IH"(4) [OF n refl Some True] queue_drop [OF queue] Some n True show ?thesis by simp
      next
        case False
        let ?p = "pending @ map (\<lambda>c. (c, d + 1)) cs"
        have "\<forall>q \<in> set ?p. d \<le> snd q" using ge by auto
        then have "reached_ok g policy from (\<delta>(n := d)) ?p ?r"
            "closed_ok g policy from (\<delta>(n := d)) ?p ?r"
          using visit_reached [OF queue reached n(2,1), of ?p ?r]
            visit_closed [OF closed n(2), of ?p ?r] False cs by simp_all
        moreover have "queue_ok g policy from ?p"
          using queue_extend [OF queue n(1) _ Some] False by simp
        ultimately show ?thesis using "2.IH"(5) [OF n refl Some False] Some n False by simp
      qed
    qed
  qed
qed

lemma closed_reaches:
  assumes "closed_ok g policy from \<delta> [] r"
  shows "(from, n) \<in> call_step g policy ^^ Suc i \<Longrightarrow> i < MAX_REACHABILITY_DEPTH \<Longrightarrow>
     n \<in> reached_names r \<and> \<delta> n \<le> Suc i"
proof (induction i arbitrary: n)
  case 0
  then show ?case using assms by (auto simp: closed_ok_def covered_def)
next
  case (Suc i)
  from Suc.prems(1) obtain m where m: "(from, m) \<in> call_step g policy ^^ Suc i"
    and step: "(m, n) \<in> call_step g policy"
    by (auto elim: relpow_Suc_E)
  with Suc have im: "m \<in> reached_names r" "\<delta> m \<le> Suc i" by auto
  with Suc.prems(2) have "\<delta> m < MAX_REACHABILITY_DEPTH" by simp
  with im step assms have "n \<in> reached_names r \<and> \<delta> n \<le> \<delta> m + 1"
    by (auto simp: closed_ok_def covered_def)
  with im show ?case by simp
qed

lemma reachable_inv:
  "\<exists>\<delta>. reached_ok g policy from \<delta> [] (reachable_from_with_policy g from policy) \<and>
       closed_ok g policy from \<delta> [] (reachable_from_with_policy g from policy)"
  unfolding reachable_from_with_policy_def
proof (rule reach_loop_inv)
  let ?p = "map (\<lambda>c. (c, 1::nat)) (callees_of g from)"
  let ?r = "\<lparr>reached_names = {}, truncated = False\<rparr>"
  have "sorted (map snd ?p)" by (simp add: comp_def sorted_map_const)
  moreover have "snd (hd ?p) = 1" if "?p \<noteq> []" using that by (cases "callees_of g from") auto
  ultimately show "queue_ok g policy from ?p"
    by (fastforce simp: queue_ok_def MAX_REACHABILITY_DEPTH_def)
  show "reached_ok g policy from \<delta> ?p ?r" for \<delta> by (simp add: reached_ok_def)
  show "closed_ok g policy from \<delta> ?p ?r" for \<delta>
    by (auto simp: closed_ok_def covered_def call_step_def)
qed

subsection \<open>The built graph\<close>

lemma set_push_new: "set (push_new calls callees) = set callees \<union> set calls"
  unfolding push_new_def by (induction calls arbitrary: callees) auto

lemma distinct_push_new: "distinct callees \<Longrightarrow> distinct (push_new calls callees)"
  unfolding push_new_def by (induction calls arbitrary: callees) auto

lemma build_steps:
  "set (unwrap_or [] (map_of (edges (fold build_step fs g)) a)) =
     set (unwrap_or [] (map_of (edges g) a)) \<union> \<Union> (set ` snd ` {f \<in> set fs. fst f = a}) \<and>
   (distinct (unwrap_or [] (map_of (edges g) a)) \<longrightarrow>
     distinct (unwrap_or [] (map_of (edges (fold build_step fs g)) a))) \<and>
   unwrap_or 0 (map_of (definition_counts (fold build_step fs g)) a) =
     unwrap_or 0 (map_of (definition_counts g) a) + length (filter (\<lambda>f. fst f = a) fs)"
proof (induction fs arbitrary: g)
  case (Cons f fs)
  have "unwrap_or [] (map_of (edges (build_step f g)) a) =
      (if fst f = a then push_new (snd f) (unwrap_or [] (map_of (edges g) a))
       else unwrap_or [] (map_of (edges g) a))"
    "unwrap_or 0 (map_of (definition_counts (build_step f g)) a) =
      unwrap_or 0 (map_of (definition_counts g) a) + (if fst f = a then 1 else 0)"
    by (simp_all add: build_step_def map_of_hm_update)
  with Cons.IH [of "build_step f g"] show ?case
    by (auto simp: set_push_new distinct_push_new)
qed simp

lemma callees_of_build:
  "callees_of (call_graph_build fs) a = sorted_list_of_set (\<Union> (set ` snd ` {f \<in> set fs. fst f = a}))"
proof -
  let ?g = "fold build_step fs \<lparr>edges = [], definition_counts = []\<rparr>"
  let ?cs = "unwrap_or [] (map_of (edges ?g) a)"
  have "callees_of (call_graph_build fs) a = sort ?cs"
    by (cases "map_of (edges ?g) a")
       (simp_all add: callees_of_def call_graph_build_def Let_def map_of_map_values)
  moreover have cs: "set ?cs = \<Union> (set ` snd ` {f \<in> set fs. fst f = a})" "distinct ?cs"
    using build_steps [of fs "\<lparr>edges = [], definition_counts = []\<rparr>" a] by simp_all
  have "sort ?cs = sorted_list_of_set (set ?cs)"
    by (simp add: sorted_list_of_set_sort_remdups distinct_remdups_id cs(2))
  ultimately show ?thesis by (simp only: cs(1))
qed

lemma is_unambiguous_build:
  "is_unambiguous (call_graph_build fs) a \<longleftrightarrow> length (filter (\<lambda>f. fst f = a) fs) = 1"
proof -
  let ?g = "fold build_step fs \<lparr>edges = [], definition_counts = []\<rparr>"
  have "unwrap_or 0 (map_of (definition_counts ?g) a) = length (filter (\<lambda>f. fst f = a) fs)"
    using build_steps [of fs "\<lparr>edges = [], definition_counts = []\<rparr>" a] by simp
  then show ?thesis
    by (cases "map_of (definition_counts ?g) a")
       (auto simp: is_unambiguous_def call_graph_build_def Let_def)
qed

subsection \<open>The levels of the search\<close>

lemma reachable_levels:
  "let r = reachable_from_with_policy g start policy;
       level = (\<lambda>i. (call_step g policy ^^ i) `` {start}) in
   reached_names r = (\<Union>i \<in> {1..MAX_REACHABILITY_DEPTH}. level i) \<and>
   truncated r = ((level MAX_REACHABILITY_DEPTH - (\<Union>i \<in> {1..<MAX_REACHABILITY_DEPTH}. level i))
                    \<inter> {n. callees_of g n \<noteq> []} \<noteq> {})"
proof -
  define r where "r = reachable_from_with_policy g start policy"
  define level where "level = (\<lambda>i. (call_step g policy ^^ i) `` {start})"
  obtain \<delta> where ok: "reached_ok g policy start \<delta> [] r" and closed: "closed_ok g policy start \<delta> [] r"
    unfolding r_def using reachable_inv by blast
  have reach: "n \<in> reached_names r \<and> \<delta> n \<le> i" if "n \<in> level i" "1 \<le> i" "i \<le> MAX_REACHABILITY_DEPTH" for n i
    using closed_reaches [OF closed, of n "i - 1"] that by (simp add: level_def)
  have depth: "n \<in> level (\<delta> n)" "1 \<le> \<delta> n" "\<delta> n \<le> MAX_REACHABILITY_DEPTH" if "n \<in> reached_names r" for n
    using ok that by (auto simp: reached_ok_def level_def)
  have max: "1 \<le> MAX_REACHABILITY_DEPTH" by (simp add: MAX_REACHABILITY_DEPTH_def)
  have names: "reached_names r = (\<Union>i \<in> {1..MAX_REACHABILITY_DEPTH}. level i)"
    using reach depth by fastforce
  have "n \<in> reached_names r \<and> \<delta> n = MAX_REACHABILITY_DEPTH \<longleftrightarrow>
      n \<in> level MAX_REACHABILITY_DEPTH - (\<Union>i \<in> {1..<MAX_REACHABILITY_DEPTH}. level i)" (is "?l \<longleftrightarrow> ?r") for n
  proof
    assume l: ?l
    have "n \<notin> level i" if "i \<in> {1..<MAX_REACHABILITY_DEPTH}" for i
      using reach [of n i] that l by auto
    moreover have "n \<in> level MAX_REACHABILITY_DEPTH" using depth(1) [of n] l by simp
    ultimately show ?r by blast
  next
    assume r: ?r
    then have n: "n \<in> reached_names r" using reach max by auto
    have "\<delta> n \<notin> {1..<MAX_REACHABILITY_DEPTH}" using r depth(1) [OF n] by blast
    with depth [OF n] n show ?l by simp
  qed
  with ok names have "reached_names r = (\<Union>i \<in> {1..MAX_REACHABILITY_DEPTH}. level i) \<and>
    truncated r = ((level MAX_REACHABILITY_DEPTH - (\<Union>i \<in> {1..<MAX_REACHABILITY_DEPTH}. level i))
                    \<inter> {n. callees_of g n \<noteq> []} \<noteq> {})"
    unfolding reached_ok_def by blast
  then show ?thesis unfolding Let_def r_def level_def .
qed

subsection \<open>Properties\<close>

text \<open>The graph depends on the set of indexed calls and the number of definitions only,
  never on the order in which the hash map yields them: callees are the sorted list of the
  calls of all functions of the name, and a name is unambiguous when one function has it.\<close>

theorem call_graph_build_exact:
  "callees_of (call_graph_build fs) a = sorted_list_of_set (\<Union> (set ` snd ` {f \<in> set fs. fst f = a})) \<and>
   is_unambiguous (call_graph_build fs) a = (length (filter (\<lambda>f. fst f = a) fs) = 1)"
  by (simp add: callees_of_build is_unambiguous_build)

text \<open>C8: the search reaches exactly the names at the end of a chain of one to eight accepted
  calls, and reports truncation exactly when a name first reached at depth eight calls
  something.\<close>

theorem reachable_exact:
  "let r = reachable_from_with_policy g start policy;
       level = (\<lambda>i. (call_step g policy ^^ i) `` {start}) in
   reached_names r = (\<Union>i \<in> {1..MAX_REACHABILITY_DEPTH}. level i) \<and>
   truncated r = ((level MAX_REACHABILITY_DEPTH - (\<Union>i \<in> {1..<MAX_REACHABILITY_DEPTH}. level i))
                    \<inter> {n. callees_of g n \<noteq> []} \<noteq> {})"
  by (rule reachable_levels)

text \<open>A search that does not report truncation reached everything that any chain of
  accepted calls reaches.\<close>

theorem reachable_complete:
  "truncated (reachable_from_with_policy g start policy) \<or>
   reached_names (reachable_from_with_policy g start policy) = (call_step g policy)\<^sup>+ `` {start}"
proof (cases "truncated (reachable_from_with_policy g start policy)")
  case False
  let ?r = "reachable_from_with_policy g start policy"
  obtain \<delta> where ok: "reached_ok g policy start \<delta> [] ?r" and closed: "closed_ok g policy start \<delta> [] ?r"
    using reachable_inv by blast
  have "n \<in> reached_names ?r" if "(start, n) \<in> (call_step g policy)\<^sup>+" for n
    using that
  proof (induction rule: trancl_induct)
    case (base n)
    with closed show ?case by (auto simp: closed_ok_def covered_def)
  next
    case (step m n)
    then have "callees_of g m \<noteq> []" by (auto simp: call_step_def)
    with ok False step.IH have "\<delta> m < MAX_REACHABILITY_DEPTH"
      unfolding reached_ok_def by (meson le_neq_implies_less)
    with closed step show ?case unfolding closed_ok_def covered_def by fastforce
  qed
  moreover have "(start, n) \<in> (call_step g policy)\<^sup>+" if "n \<in> reached_names ?r" for n
  proof -
    from ok that have "1 \<le> \<delta> n" "(start, n) \<in> call_step g policy ^^ \<delta> n"
      unfolding reached_ok_def by auto
    then show ?thesis unfolding trancl_power by (intro exI [of _ "\<delta> n"]) simp
  qed
  ultimately show ?thesis by blast
qed simp

end
