(* ===== verification/Workspace_Index.thy ===== *)
theory Workspace_Index
  imports Document_Types Module_Paths Call_Graph
begin

section \<open>The workspace index\<close>

text \<open>
  Models \<open>src/core/workspace/mod.rs\<close>, \<open>entries.rs\<close>, \<open>sorting.rs\<close>,
  \<open>qualified_paths.rs\<close>, \<open>function_returns.rs\<close>, \<open>associated_values.rs\<close>,
  \<open>type_names.rs\<close> and the entry types of \<open>indexing.rs\<close>: the state of the index, the
  operations that add, replace and remove a document, and its queries.  Splitting a URL into
  path segments is the parameter \<open>path_segments\<close>.  Reading files and walking directories stay
  outside: an update arrives as the record the indexer builds from a parsed document.
\<close>

subsection \<open>Entries\<close>

text \<open>The LSP symbol kinds, by the numbers of the protocol.\<close>

type_synonym symbol_kind = nat

definition KIND_METHOD :: symbol_kind where "KIND_METHOD = 6"
definition KIND_FIELD :: symbol_kind where "KIND_FIELD = 8"
definition KIND_FUNCTION :: symbol_kind where "KIND_FUNCTION = 12"
definition KIND_VARIABLE :: symbol_kind where "KIND_VARIABLE = 13"
definition KIND_CONSTANT :: symbol_kind where "KIND_CONSTANT = 14"
definition KIND_STRUCT :: symbol_kind where "KIND_STRUCT = 23"

lemmas symbol_kind_defs = KIND_METHOD_def KIND_FIELD_def KIND_FUNCTION_def KIND_VARIABLE_def
  KIND_CONSTANT_def KIND_STRUCT_def

definition ACCOUNT_DATA_CONTAINER :: string where
  "ACCOUNT_DATA_CONTAINER = ''#[account]''"

record indexed_symbol =
  sym_name :: string
  sym_kind :: symbol_kind
  sym_selection_range :: range
  sym_container_name :: "string option"
  sym_type_display :: "string option"

record indexed_reference =
  ref_name :: string
  ref_kind :: symbol_kind
  ref_range :: range
  ref_container_name :: "string option"

record indexed_symbol_entry =
  se_name :: string
  se_kind :: symbol_kind
  se_container_name :: "string option"
  se_type_display :: "string option"
  se_location :: location
  se_is_open :: bool

record indexed_reference_entry =
  re_kind :: symbol_kind
  re_container_name :: "string option"
  re_location :: location
  re_is_open :: bool

record bridge_symbol =
  bs_name :: string
  bs_kind :: symbol_kind
  bs_location :: location
  bs_container_name :: "string option"
  bs_type_display :: "string option"

record indexed_function_argument =
  ifa_name :: string
  ifa_range :: range
  ifa_type_name :: "string option"

record indexed_function =
  if_name :: string
  if_context_name :: "string option"
  if_return_type_display :: "string option"
  if_selection_range :: range
  if_is_program_instruction :: bool
  if_calls :: "string list"
  if_cpi_program_usages :: "account_usage list"
  if_signer_usages :: "account_usage list"
  if_signer_checks :: "account_usage list"
  if_account_key_comparisons :: "account_key_comparison list"
  if_arguments :: "indexed_function_argument list"

record indexed_function_entry =
  fe_uri :: url
  fe_is_open :: bool
  fe_name :: string
  fe_context_name :: "string option"
  fe_return_type_display :: "string option"
  fe_location :: location
  fe_is_program_instruction :: bool
  fe_calls :: "string list"
  fe_cpi_program_usages :: "account_usage list"
  fe_signer_usages :: "account_usage list"
  fe_signer_checks :: "account_usage list"
  fe_account_key_comparisons :: "account_key_comparison list"
  fe_arguments :: "indexed_function_argument list"

record workspace_account_field =
  waf_name :: string
  waf_type_name :: "string option"
  waf_type_signature :: "string option"
  waf_generic_type_names :: "string list"
  waf_is_optional :: bool
  waf_account_constraints :: "account_constraint list"

record workspace_accounts_struct =
  was_name :: string
  was_fields :: "workspace_account_field list"
  was_instruction_arguments :: "instruction_attribute_argument list"

record indexed_accounts_struct =
  ias_uri :: url
  ias_is_open :: bool
  ias_accounts :: workspace_accounts_struct

record workspace_account_data_struct =
  wad_uri :: url
  wad_is_open :: bool
  wad_symbol :: symbol_range

definition symbol_entry_from_symbol :: "url \<Rightarrow> bool \<Rightarrow> indexed_symbol \<Rightarrow> indexed_symbol_entry" where
  "symbol_entry_from_symbol uri is_open s =
     \<lparr>se_name = sym_name s, se_kind = sym_kind s, se_container_name = sym_container_name s,
      se_type_display = sym_type_display s,
      se_location = \<lparr>loc_uri = uri, loc_range = sym_selection_range s\<rparr>, se_is_open = is_open\<rparr>"

definition symbol_entry_from_bridge :: "bridge_symbol \<Rightarrow> indexed_symbol_entry" where
  "symbol_entry_from_bridge s =
     \<lparr>se_name = bs_name s, se_kind = bs_kind s, se_container_name = bs_container_name s,
      se_type_display = bs_type_display s, se_location = bs_location s, se_is_open = False\<rparr>"

definition reference_entry_from_reference ::
  "url \<Rightarrow> bool \<Rightarrow> indexed_reference \<Rightarrow> indexed_reference_entry" where
  "reference_entry_from_reference uri is_open r =
     \<lparr>re_kind = ref_kind r, re_container_name = ref_container_name r,
      re_location = \<lparr>loc_uri = uri, loc_range = ref_range r\<rparr>, re_is_open = is_open\<rparr>"

definition function_entry_from_function ::
  "url \<Rightarrow> bool \<Rightarrow> indexed_function \<Rightarrow> indexed_function_entry" where
  "function_entry_from_function uri is_open f =
     \<lparr>fe_uri = uri, fe_is_open = is_open, fe_name = if_name f,
      fe_context_name = if_context_name f, fe_return_type_display = if_return_type_display f,
      fe_location = \<lparr>loc_uri = uri, loc_range = if_selection_range f\<rparr>,
      fe_is_program_instruction = if_is_program_instruction f, fe_calls = if_calls f,
      fe_cpi_program_usages = if_cpi_program_usages f, fe_signer_usages = if_signer_usages f,
      fe_signer_checks = if_signer_checks f,
      fe_account_key_comparisons = if_account_key_comparisons f,
      fe_arguments = if_arguments f\<rparr>"

subsection \<open>State and updates\<close>

record workspace_index =
  documents :: "url set"
  symbols_by_name :: "(string, indexed_symbol_entry) groups"
  references_by_name :: "(string, indexed_reference_entry) groups"
  functions_by_name :: "(string, indexed_function_entry) groups"
  functions_by_context :: "(string, indexed_function_entry) groups"
  call_graph_of :: call_graph
  accounts_by_name :: "(string, indexed_accounts_struct) groups"
  account_data_by_name :: "(string, workspace_account_data_struct) groups"
  module_path_trie :: "(string, url) trie"

definition empty_index :: workspace_index where
  "empty_index =
     \<lparr>documents = {}, symbols_by_name = [], references_by_name = [], functions_by_name = [],
      functions_by_context = [], call_graph_of = \<lparr>edges = [], definition_counts = []\<rparr>,
      accounts_by_name = [], account_data_by_name = [], module_path_trie = trie_new\<rparr>"

record workspace_document_update =
  up_uri :: url
  up_is_open :: bool
  up_symbols :: "indexed_symbol list"
  up_references :: "indexed_reference list"
  up_functions :: "indexed_function list"
  up_accounts_structs :: "indexed_accounts_struct list"
  up_account_data_structs :: "workspace_account_data_struct list"

definition sort_open_entries_first :: "workspace_index \<Rightarrow> workspace_index" where
  "sort_open_entries_first ix =
     ix\<lparr>symbols_by_name := group_sort (\<lambda>e. \<not> se_is_open e) (symbols_by_name ix),
        references_by_name := group_sort (\<lambda>e. \<not> re_is_open e) (references_by_name ix),
        functions_by_context := group_sort (\<lambda>e. \<not> fe_is_open e) (functions_by_context ix),
        functions_by_name := group_sort (\<lambda>e. \<not> fe_is_open e) (functions_by_name ix),
        accounts_by_name := group_sort (\<lambda>e. \<not> ias_is_open e) (accounts_by_name ix),
        account_data_by_name := group_sort (\<lambda>e. \<not> wad_is_open e) (account_data_by_name ix)\<rparr>"

definition function_call_site :: "indexed_function_entry \<Rightarrow> call_site" where
  "function_call_site f = (fe_name f, fe_calls f)"

definition rebuild_call_graph :: "workspace_index \<Rightarrow> workspace_index" where
  "rebuild_call_graph ix =
     ix\<lparr>call_graph_of :=
          call_graph_build (map function_call_site (group_values (functions_by_name ix)))\<rparr>"

definition record_module_path_for_root ::
  "(url \<Rightarrow> string list option) \<Rightarrow> url \<Rightarrow> workspace_index \<Rightarrow> workspace_index" where
  "record_module_path_for_root path_segments uri ix =
     (case module_path_segments path_segments uri of
        Some segments \<Rightarrow> ix\<lparr>module_path_trie := trie_insert segments uri (module_path_trie ix)\<rparr>
      | None \<Rightarrow> ix)"

definition remove_module_path_for_root ::
  "(url \<Rightarrow> string list option) \<Rightarrow> url \<Rightarrow> workspace_index \<Rightarrow> workspace_index" where
  "remove_module_path_for_root path_segments uri ix =
     (case module_path_segments path_segments uri of
        Some segments \<Rightarrow> ix\<lparr>module_path_trie := snd (trie_remove segments (module_path_trie ix))\<rparr>
      | None \<Rightarrow> ix)"

definition remove_index_entries_for_uri ::
  "(url \<Rightarrow> string list option) \<Rightarrow> url \<Rightarrow> workspace_index \<Rightarrow> workspace_index" where
  "remove_index_entries_for_uri path_segments uri ix =
     (let ix1 = remove_module_path_for_root path_segments uri (ix\<lparr>documents := documents ix - {uri}\<rparr>) in
      rebuild_call_graph
        (ix1\<lparr>symbols_by_name := group_retain (\<lambda>e. loc_uri (se_location e) \<noteq> uri) (symbols_by_name ix1),
             references_by_name :=
               group_retain (\<lambda>e. loc_uri (re_location e) \<noteq> uri) (references_by_name ix1),
             functions_by_name := group_retain (\<lambda>e. fe_uri e \<noteq> uri) (functions_by_name ix1),
             functions_by_context := group_retain (\<lambda>e. fe_uri e \<noteq> uri) (functions_by_context ix1),
             accounts_by_name := group_retain (\<lambda>e. ias_uri e \<noteq> uri) (accounts_by_name ix1),
             account_data_by_name :=
               group_retain (\<lambda>e. wad_uri e \<noteq> uri) (account_data_by_name ix1)\<rparr>))"

definition push_by_context ::
  "indexed_function_entry \<Rightarrow> (string, indexed_function_entry) groups \<Rightarrow> (string, indexed_function_entry) groups" where
  "push_by_context e g =
     (case fe_context_name e of None \<Rightarrow> g | Some c \<Rightarrow> group_push c e g)"

definition index_document_parts :: "workspace_document_update \<Rightarrow> workspace_index \<Rightarrow> workspace_index" where
  "index_document_parts u ix =
     (let uri = up_uri u; is_open = up_is_open u;
          entries = map (function_entry_from_function uri is_open) (up_functions u) in
      rebuild_call_graph (sort_open_entries_first
        (ix\<lparr>symbols_by_name :=
              fold (\<lambda>s. group_push (sym_name s) (symbol_entry_from_symbol uri is_open s))
                (up_symbols u) (symbols_by_name ix),
            references_by_name :=
              fold (\<lambda>r. group_push (ref_name r) (reference_entry_from_reference uri is_open r))
                (up_references u) (references_by_name ix),
            functions_by_name :=
              fold (\<lambda>e. group_push (fe_name e) e) entries (functions_by_name ix),
            functions_by_context := fold push_by_context entries (functions_by_context ix),
            accounts_by_name :=
              fold (\<lambda>a. group_push (was_name (ias_accounts a)) a)
                (up_accounts_structs u) (accounts_by_name ix),
            account_data_by_name :=
              fold (\<lambda>a. group_push (sr_name (wad_symbol a)) a)
                (up_account_data_structs u) (account_data_by_name ix)\<rparr>)))"

definition insert_indexed_document ::
  "(url \<Rightarrow> string list option) \<Rightarrow> workspace_document_update \<Rightarrow> workspace_index \<Rightarrow> workspace_index" where
  "insert_indexed_document path_segments u ix =
     (let uri = up_uri u;
          ix1 = remove_index_entries_for_uri path_segments uri ix;
          ix2 = record_module_path_for_root path_segments uri ix1;
          ix3 = index_document_parts u ix2 in
      ix3\<lparr>documents := insert uri (documents ix3)\<rparr>)"

definition insert_bridge_symbols :: "bridge_symbol list \<Rightarrow> workspace_index \<Rightarrow> workspace_index" where
  "insert_bridge_symbols symbols ix =
     sort_open_entries_first
       (ix\<lparr>symbols_by_name :=
             fold (\<lambda>s. group_push (bs_name s) (symbol_entry_from_bridge s)) symbols
               (symbols_by_name ix)\<rparr>)"

text \<open>The build folds the closed files, then the open documents, then the bridge symbols.\<close>

definition build_index ::
  "(url \<Rightarrow> string list option) \<Rightarrow> workspace_document_update list \<Rightarrow> bridge_symbol list \<Rightarrow> workspace_index" where
  "build_index path_segments updates bridge =
     insert_bridge_symbols bridge (fold (insert_indexed_document path_segments) updates empty_index)"

subsection \<open>What the operations do to each lookup\<close>

text \<open>A group of the index is well-formed and lists the entries of open documents first.\<close>

definition group_ok :: "('e \<Rightarrow> bool) \<Rightarrow> (string, 'e) groups \<Rightarrow> bool" where
  "group_ok is_open g \<longleftrightarrow>
     groups_wf g \<and> (\<forall>k. sorted (map (\<lambda>e. \<not> is_open e) (group_of g k)))"

lemma group_ok_Nil [simp]: "group_ok is_open []"
  by (simp add: group_ok_def)

lemma group_ok_wf: "group_ok is_open g \<Longrightarrow> groups_wf g"
  by (simp add: group_ok_def)

lemma group_ok_retain: "group_ok is_open g \<Longrightarrow> group_ok is_open (group_retain p g)"
  by (auto simp: group_ok_def groups_wf_retain group_of_retain groups_wf_hm sorted_filter)

lemma group_ok_sort: "groups_wf g \<Longrightarrow> group_ok is_open (group_sort (\<lambda>e. \<not> is_open e) g)"
  by (simp add: group_ok_def groups_wf_sort group_of_sort)

lemma group_ok_sort_id:
  "group_ok is_open g \<Longrightarrow> sort_key (\<lambda>e. \<not> is_open e) (group_of g k) = group_of g k"
  by (simp add: group_ok_def sort_key_id_if_sorted)

lemma group_of_fold_context:
  "group_of (fold push_by_context es g) c =
     group_of g c @ filter (\<lambda>e. fe_context_name e = Some c) es"
proof (induction es arbitrary: g)
  case (Cons e es)
  then show ?case
    by (cases "fe_context_name e") (auto simp: push_by_context_def group_of_push)
qed simp

lemma groups_wf_fold_context: "groups_wf g \<Longrightarrow> groups_wf (fold push_by_context es g)"
  by (induction es arbitrary: g) (auto simp: push_by_context_def groups_wf_push split: option.split)

text \<open>The invariant of the index: every group is in order, a function is filed under its name,
  the call graph is that of the functions, and the trie has no stale branch.\<close>

definition index_wf :: "workspace_index \<Rightarrow> bool" where
  "index_wf ix \<longleftrightarrow>
     group_ok se_is_open (symbols_by_name ix) \<and> group_ok re_is_open (references_by_name ix) \<and>
     group_ok fe_is_open (functions_by_name ix) \<and> group_ok fe_is_open (functions_by_context ix) \<and>
     group_ok ias_is_open (accounts_by_name ix) \<and> group_ok wad_is_open (account_data_by_name ix) \<and>
     (\<forall>k. \<forall>e \<in> set (group_of (functions_by_name ix) k). fe_name e = k) \<and>
     call_graph_of ix =
       call_graph_build (map function_call_site (group_values (functions_by_name ix))) \<and>
     trie_wf (module_path_trie ix)"

lemmas index_op_defs =
  sort_open_entries_first_def rebuild_call_graph_def record_module_path_for_root_def
  remove_module_path_for_root_def remove_index_entries_for_uri_def index_document_parts_def
  insert_indexed_document_def insert_bridge_symbols_def

lemma index_wf_empty: "index_wf empty_index"
  by (simp add: index_wf_def empty_index_def trie_map.invar_empty call_graph_build_def group_values_def)

lemma remove_selectors:
  "documents (remove_index_entries_for_uri ps uri ix) = documents ix - {uri}"
  "symbols_by_name (remove_index_entries_for_uri ps uri ix) =
     group_retain (\<lambda>e. loc_uri (se_location e) \<noteq> uri) (symbols_by_name ix)"
  "references_by_name (remove_index_entries_for_uri ps uri ix) =
     group_retain (\<lambda>e. loc_uri (re_location e) \<noteq> uri) (references_by_name ix)"
  "functions_by_name (remove_index_entries_for_uri ps uri ix) =
     group_retain (\<lambda>e. fe_uri e \<noteq> uri) (functions_by_name ix)"
  "functions_by_context (remove_index_entries_for_uri ps uri ix) =
     group_retain (\<lambda>e. fe_uri e \<noteq> uri) (functions_by_context ix)"
  "accounts_by_name (remove_index_entries_for_uri ps uri ix) =
     group_retain (\<lambda>e. ias_uri e \<noteq> uri) (accounts_by_name ix)"
  "account_data_by_name (remove_index_entries_for_uri ps uri ix) =
     group_retain (\<lambda>e. wad_uri e \<noteq> uri) (account_data_by_name ix)"
  "module_path_trie (remove_index_entries_for_uri ps uri ix) =
     (case module_path_segments ps uri of
        Some k \<Rightarrow> snd (trie_remove k (module_path_trie ix)) | None \<Rightarrow> module_path_trie ix)"
  "call_graph_of (remove_index_entries_for_uri ps uri ix) =
     call_graph_build (map function_call_site
       (group_values (functions_by_name (remove_index_entries_for_uri ps uri ix))))"
  by (simp_all add: index_op_defs Let_def split: option.split)

lemma insert_selectors:
  "documents (insert_indexed_document ps u ix) = insert (up_uri u) (documents ix)"
  "symbols_by_name (insert_indexed_document ps u ix) =
     group_sort (\<lambda>e. \<not> se_is_open e)
       (fold (\<lambda>s. group_push (sym_name s) (symbol_entry_from_symbol (up_uri u) (up_is_open u) s))
         (up_symbols u) (symbols_by_name (remove_index_entries_for_uri ps (up_uri u) ix)))"
  "references_by_name (insert_indexed_document ps u ix) =
     group_sort (\<lambda>e. \<not> re_is_open e)
       (fold (\<lambda>r. group_push (ref_name r) (reference_entry_from_reference (up_uri u) (up_is_open u) r))
         (up_references u) (references_by_name (remove_index_entries_for_uri ps (up_uri u) ix)))"
  "functions_by_name (insert_indexed_document ps u ix) =
     group_sort (\<lambda>e. \<not> fe_is_open e)
       (fold (\<lambda>e. group_push (fe_name e) e)
         (map (function_entry_from_function (up_uri u) (up_is_open u)) (up_functions u))
         (functions_by_name (remove_index_entries_for_uri ps (up_uri u) ix)))"
  "functions_by_context (insert_indexed_document ps u ix) =
     group_sort (\<lambda>e. \<not> fe_is_open e)
       (fold push_by_context
         (map (function_entry_from_function (up_uri u) (up_is_open u)) (up_functions u))
         (functions_by_context (remove_index_entries_for_uri ps (up_uri u) ix)))"
  "accounts_by_name (insert_indexed_document ps u ix) =
     group_sort (\<lambda>e. \<not> ias_is_open e)
       (fold (\<lambda>a. group_push (was_name (ias_accounts a)) a) (up_accounts_structs u)
         (accounts_by_name (remove_index_entries_for_uri ps (up_uri u) ix)))"
  "account_data_by_name (insert_indexed_document ps u ix) =
     group_sort (\<lambda>e. \<not> wad_is_open e)
       (fold (\<lambda>a. group_push (sr_name (wad_symbol a)) a) (up_account_data_structs u)
         (account_data_by_name (remove_index_entries_for_uri ps (up_uri u) ix)))"
  "module_path_trie (insert_indexed_document ps u ix) =
     (case module_path_segments ps (up_uri u) of
        Some k \<Rightarrow> trie_insert k (up_uri u) (snd (trie_remove k (module_path_trie ix)))
      | None \<Rightarrow> module_path_trie ix)"
  "call_graph_of (insert_indexed_document ps u ix) =
     call_graph_build (map function_call_site
       (group_values (functions_by_name (insert_indexed_document ps u ix))))"
  by (simp_all add: index_op_defs Let_def split: option.split)

lemma remove_lookups:
  assumes "index_wf ix"
  shows
    "group_of (symbols_by_name (remove_index_entries_for_uri ps uri ix)) n =
       filter (\<lambda>e. loc_uri (se_location e) \<noteq> uri) (group_of (symbols_by_name ix) n)"
    "group_of (references_by_name (remove_index_entries_for_uri ps uri ix)) n =
       filter (\<lambda>e. loc_uri (re_location e) \<noteq> uri) (group_of (references_by_name ix) n)"
    "group_of (functions_by_name (remove_index_entries_for_uri ps uri ix)) n =
       filter (\<lambda>e. fe_uri e \<noteq> uri) (group_of (functions_by_name ix) n)"
    "group_of (functions_by_context (remove_index_entries_for_uri ps uri ix)) n =
       filter (\<lambda>e. fe_uri e \<noteq> uri) (group_of (functions_by_context ix) n)"
    "group_of (accounts_by_name (remove_index_entries_for_uri ps uri ix)) n =
       filter (\<lambda>e. ias_uri e \<noteq> uri) (group_of (accounts_by_name ix) n)"
    "group_of (account_data_by_name (remove_index_entries_for_uri ps uri ix)) n =
       filter (\<lambda>e. wad_uri e \<noteq> uri) (group_of (account_data_by_name ix) n)"
  using assms
  by (simp_all add: remove_selectors group_of_retain index_wf_def group_ok_def groups_wf_hm)

lemma insert_lookups:
  assumes "index_wf ix"
  shows
    "group_of (symbols_by_name (insert_indexed_document ps u ix)) n =
       sort_key (\<lambda>e. \<not> se_is_open e)
         (filter (\<lambda>e. loc_uri (se_location e) \<noteq> up_uri u) (group_of (symbols_by_name ix) n) @
          map (symbol_entry_from_symbol (up_uri u) (up_is_open u))
            (filter (\<lambda>s. sym_name s = n) (up_symbols u)))"
    "group_of (references_by_name (insert_indexed_document ps u ix)) n =
       sort_key (\<lambda>e. \<not> re_is_open e)
         (filter (\<lambda>e. loc_uri (re_location e) \<noteq> up_uri u) (group_of (references_by_name ix) n) @
          map (reference_entry_from_reference (up_uri u) (up_is_open u))
            (filter (\<lambda>r. ref_name r = n) (up_references u)))"
    "group_of (functions_by_name (insert_indexed_document ps u ix)) n =
       sort_key (\<lambda>e. \<not> fe_is_open e)
         (filter (\<lambda>e. fe_uri e \<noteq> up_uri u) (group_of (functions_by_name ix) n) @
          filter (\<lambda>e. fe_name e = n)
            (map (function_entry_from_function (up_uri u) (up_is_open u)) (up_functions u)))"
    "group_of (functions_by_context (insert_indexed_document ps u ix)) n =
       sort_key (\<lambda>e. \<not> fe_is_open e)
         (filter (\<lambda>e. fe_uri e \<noteq> up_uri u) (group_of (functions_by_context ix) n) @
          filter (\<lambda>e. fe_context_name e = Some n)
            (map (function_entry_from_function (up_uri u) (up_is_open u)) (up_functions u)))"
    "group_of (accounts_by_name (insert_indexed_document ps u ix)) n =
       sort_key (\<lambda>e. \<not> ias_is_open e)
         (filter (\<lambda>e. ias_uri e \<noteq> up_uri u) (group_of (accounts_by_name ix) n) @
          filter (\<lambda>a. was_name (ias_accounts a) = n) (up_accounts_structs u))"
    "group_of (account_data_by_name (insert_indexed_document ps u ix)) n =
       sort_key (\<lambda>e. \<not> wad_is_open e)
         (filter (\<lambda>e. wad_uri e \<noteq> up_uri u) (group_of (account_data_by_name ix) n) @
          filter (\<lambda>a. sr_name (wad_symbol a) = n) (up_account_data_structs u))"
  by (simp_all only: insert_selectors group_of_sort group_of_fold_push group_of_fold_context
      remove_lookups [OF assms] list.map_ident)

subsection \<open>Preservation of the invariant\<close>

lemma remove_wf: "index_wf ix \<Longrightarrow> index_wf (remove_index_entries_for_uri ps uri ix)"
  unfolding index_wf_def
  by (auto simp: remove_selectors group_ok_retain group_of_retain group_ok_def groups_wf_hm
      trie_map.invar_remove groups_wf_retain sorted_filter split: option.split)

lemma insert_wf:
  assumes "index_wf ix"
  shows "index_wf (insert_indexed_document ps u ix)"
proof -
  note rwf = remove_wf [OF assms, of ps "up_uri u"]
  then have groups:
    "groups_wf (symbols_by_name (remove_index_entries_for_uri ps (up_uri u) ix))"
    "groups_wf (references_by_name (remove_index_entries_for_uri ps (up_uri u) ix))"
    "groups_wf (functions_by_name (remove_index_entries_for_uri ps (up_uri u) ix))"
    "groups_wf (functions_by_context (remove_index_entries_for_uri ps (up_uri u) ix))"
    "groups_wf (accounts_by_name (remove_index_entries_for_uri ps (up_uri u) ix))"
    "groups_wf (account_data_by_name (remove_index_entries_for_uri ps (up_uri u) ix))"
    unfolding index_wf_def group_ok_def by blast+
  have filed: "fe_name e = n" if "e \<in> set (group_of (functions_by_name (insert_indexed_document ps u ix)) n)" for e n
    using that assms unfolding insert_lookups [OF assms] by (auto simp: index_wf_def)
  have trie: "trie_wf (module_path_trie (insert_indexed_document ps u ix))"
    using assms
    by (auto simp: insert_selectors index_wf_def trie_map.invar_put trie_map.invar_remove split: option.split)
  from groups have
    "group_ok se_is_open (symbols_by_name (insert_indexed_document ps u ix))"
    "group_ok re_is_open (references_by_name (insert_indexed_document ps u ix))"
    "group_ok fe_is_open (functions_by_name (insert_indexed_document ps u ix))"
    "group_ok fe_is_open (functions_by_context (insert_indexed_document ps u ix))"
    "group_ok ias_is_open (accounts_by_name (insert_indexed_document ps u ix))"
    "group_ok wad_is_open (account_data_by_name (insert_indexed_document ps u ix))"
    by (simp_all only: insert_selectors group_ok_sort groups_wf_fold_push groups_wf_fold_context)
  with filed trie insert_selectors(9) show ?thesis unfolding index_wf_def by blast
qed

lemma bridge_selectors:
  "symbols_by_name (insert_bridge_symbols bs ix) =
     group_sort (\<lambda>e. \<not> se_is_open e)
       (fold (\<lambda>s. group_push (bs_name s) (symbol_entry_from_bridge s)) bs (symbols_by_name ix))"
  "references_by_name (insert_bridge_symbols bs ix) =
     group_sort (\<lambda>e. \<not> re_is_open e) (references_by_name ix)"
  "functions_by_name (insert_bridge_symbols bs ix) =
     group_sort (\<lambda>e. \<not> fe_is_open e) (functions_by_name ix)"
  "functions_by_context (insert_bridge_symbols bs ix) =
     group_sort (\<lambda>e. \<not> fe_is_open e) (functions_by_context ix)"
  "accounts_by_name (insert_bridge_symbols bs ix) =
     group_sort (\<lambda>e. \<not> ias_is_open e) (accounts_by_name ix)"
  "account_data_by_name (insert_bridge_symbols bs ix) =
     group_sort (\<lambda>e. \<not> wad_is_open e) (account_data_by_name ix)"
  "documents (insert_bridge_symbols bs ix) = documents ix"
  "call_graph_of (insert_bridge_symbols bs ix) = call_graph_of ix"
  "module_path_trie (insert_bridge_symbols bs ix) = module_path_trie ix"
  by (simp_all add: index_op_defs)

lemma group_sort_id: "group_ok is_open g \<Longrightarrow> group_sort (\<lambda>e. \<not> is_open e) g = g"
proof -
  assume ok: "group_ok is_open g"
  have "sort_key (\<lambda>e. \<not> is_open e) es = es" if "(k, es) \<in> set g" for k es
  proof -
    have "group_of g k = es"
      using ok that by (simp add: group_of_def group_ok_def groups_wf_def hm_wf_mem_iff)
    with group_ok_sort_id [OF ok, of k] show ?thesis by simp
  qed
  then show ?thesis unfolding group_sort_def by (intro map_idI) auto
qed

lemma bridge_wf: "index_wf ix \<Longrightarrow> index_wf (insert_bridge_symbols bs ix)"
  unfolding index_wf_def bridge_selectors
  by (simp add: group_sort_id) (blast intro: group_ok_sort groups_wf_fold_push group_ok_wf)

text \<open>The reachable states of the index: the operations in any order from the empty index.\<close>

inductive index_reachable :: "(url \<Rightarrow> string list option) \<Rightarrow> workspace_index \<Rightarrow> bool"
  for ps :: "url \<Rightarrow> string list option" where
  reach_empty: "index_reachable ps empty_index"
| reach_insert: "index_reachable ps ix \<Longrightarrow> index_reachable ps (insert_indexed_document ps u ix)"
| reach_remove: "index_reachable ps ix \<Longrightarrow> index_reachable ps (remove_index_entries_for_uri ps uri ix)"
| reach_bridge: "index_reachable ps ix \<Longrightarrow> index_reachable ps (insert_bridge_symbols bs ix)"

lemma index_reachable_wf: "index_reachable ps ix \<Longrightarrow> index_wf ix"
  by (induction rule: index_reachable.induct)
     (simp_all add: index_wf_empty insert_wf remove_wf bridge_wf)

subsection \<open>The call graph follows the functions\<close>

lemma filter_name_values:
  "hm_wf g \<Longrightarrow> (\<And>k e. e \<in> set (group_of g k) \<Longrightarrow> name e = k) \<Longrightarrow>
     filter (\<lambda>e. name e = a) (group_values g) = group_of g a"
proof (induction g)
  case Nil
  then show ?case by (simp add: group_values_def)
next
  case (Cons kv g)
  obtain k es where kv: "kv = (k, es)" by force
  from Cons.prems(1) kv have k: "map_of g k = None" "hm_wf g"
    by (auto simp: hm_wf_def map_of_eq_None_iff)
  have "name e = j" if "e \<in> set (group_of g j)" for e j
    using Cons.prems(2) [of e j] that kv k(1) by (cases "j = k") (auto simp: group_of_def)
  with Cons.IH k have IH: "filter (\<lambda>e. name e = a) (group_values g) = group_of g a" by blast
  have es: "name e = k" if "e \<in> set es" for e
    using Cons.prems(2) [of e k] that kv by (simp add: group_of_def)
  have "filter (\<lambda>e. name e = a) es = (if k = a then es else [])"
    using es by (auto simp: filter_id_conv filter_empty_conv)
  with IH k(1) kv show ?case by (auto simp: group_values_def group_of_def)
qed

lemma call_graph_lookups:
  assumes "index_wf ix"
  shows "callees_of (call_graph_of ix) a =
           sorted_list_of_set (\<Union> (set ` fe_calls ` set (group_of (functions_by_name ix) a)))"
    and "is_unambiguous (call_graph_of ix) a \<longleftrightarrow> length (group_of (functions_by_name ix) a) = 1"
proof -
  let ?vs = "group_values (functions_by_name ix)"
  have g: "call_graph_of ix = call_graph_build (map function_call_site ?vs)"
    and wf: "hm_wf (functions_by_name ix)"
    and filed: "\<And>k e. e \<in> set (group_of (functions_by_name ix) k) \<Longrightarrow> fe_name e = k"
    using assms by (auto simp: index_wf_def group_ok_def groups_wf_hm)
  have named: "filter (\<lambda>e. fe_name e = a) ?vs = group_of (functions_by_name ix) a"
    using filter_name_values [OF wf filed] .
  have "set ` snd ` {f \<in> set (map function_call_site ?vs). fst f = a} =
        set ` fe_calls ` set (filter (\<lambda>e. fe_name e = a) ?vs)"
    by (force simp: function_call_site_def)
  then show "callees_of (call_graph_of ix) a =
      sorted_list_of_set (\<Union> (set ` fe_calls ` set (group_of (functions_by_name ix) a)))"
    unfolding g callees_of_build named by (rule arg_cong)
  have "filter (\<lambda>f. fst f = a) (map function_call_site ?vs) =
        map function_call_site (filter (\<lambda>e. fe_name e = a) ?vs)"
    by (simp add: filter_map comp_def function_call_site_def)
  then show "is_unambiguous (call_graph_of ix) a \<longleftrightarrow> length (group_of (functions_by_name ix) a) = 1"
    by (simp add: g is_unambiguous_build named)
qed

subsection \<open>Observable equality\<close>

text \<open>Two states are equal for every query: same documents, same lookups, same trie.  The order
  in which the hash maps hold their keys is not observable.\<close>

definition index_equiv :: "workspace_index \<Rightarrow> workspace_index \<Rightarrow> bool" where
  "index_equiv ix iy \<longleftrightarrow>
     documents ix = documents iy \<and>
     group_of (symbols_by_name ix) = group_of (symbols_by_name iy) \<and>
     group_of (references_by_name ix) = group_of (references_by_name iy) \<and>
     group_of (functions_by_name ix) = group_of (functions_by_name iy) \<and>
     group_of (functions_by_context ix) = group_of (functions_by_context iy) \<and>
     group_of (accounts_by_name ix) = group_of (accounts_by_name iy) \<and>
     group_of (account_data_by_name ix) = group_of (account_data_by_name iy) \<and>
     callees_of (call_graph_of ix) = callees_of (call_graph_of iy) \<and>
     is_unambiguous (call_graph_of ix) = is_unambiguous (call_graph_of iy) \<and>
     module_path_trie ix = module_path_trie iy"

lemma index_equivI:
  assumes "index_wf ix" "index_wf iy" "documents ix = documents iy"
    "\<And>n. group_of (symbols_by_name ix) n = group_of (symbols_by_name iy) n"
    "\<And>n. group_of (references_by_name ix) n = group_of (references_by_name iy) n"
    "\<And>n. group_of (functions_by_name ix) n = group_of (functions_by_name iy) n"
    "\<And>n. group_of (functions_by_context ix) n = group_of (functions_by_context iy) n"
    "\<And>n. group_of (accounts_by_name ix) n = group_of (accounts_by_name iy) n"
    "\<And>n. group_of (account_data_by_name ix) n = group_of (account_data_by_name iy) n"
    "module_path_trie ix = module_path_trie iy"
  shows "index_equiv ix iy"
  using assms call_graph_lookups [OF assms(1)] call_graph_lookups [OF assms(2)]
  by (simp add: index_equiv_def fun_eq_iff)

text \<open>An update carries the entries of its own file only.\<close>

definition update_ok :: "workspace_document_update \<Rightarrow> bool" where
  "update_ok u \<longleftrightarrow>
     list_all (\<lambda>a. ias_uri a = up_uri u) (up_accounts_structs u) \<and>
     list_all (\<lambda>a. wad_uri a = up_uri u) (up_account_data_structs u)"

lemma filter_resort:
  "sorted (map f xs) \<Longrightarrow> (\<And>y. y \<in> set ys \<Longrightarrow> \<not> p y) \<Longrightarrow>
     filter p (sort_key f (filter p xs @ ys)) = filter p xs"
  by (simp add: filter_sort sort_key_id_if_sorted sorted_filter filter_empty_conv)

lemma remove_insert_lookups:
  fixes ps :: "url \<Rightarrow> string list option"
  assumes "index_wf ix" "update_ok u" "up_uri u = uri"
  defines "iy \<equiv> insert_indexed_document ps u ix"
  shows
    "filter (\<lambda>e. loc_uri (se_location e) \<noteq> uri) (group_of (symbols_by_name iy) n) =
       filter (\<lambda>e. loc_uri (se_location e) \<noteq> uri) (group_of (symbols_by_name ix) n)"
    "filter (\<lambda>e. loc_uri (re_location e) \<noteq> uri) (group_of (references_by_name iy) n) =
       filter (\<lambda>e. loc_uri (re_location e) \<noteq> uri) (group_of (references_by_name ix) n)"
    "filter (\<lambda>e. fe_uri e \<noteq> uri) (group_of (functions_by_name iy) n) =
       filter (\<lambda>e. fe_uri e \<noteq> uri) (group_of (functions_by_name ix) n)"
    "filter (\<lambda>e. fe_uri e \<noteq> uri) (group_of (functions_by_context iy) n) =
       filter (\<lambda>e. fe_uri e \<noteq> uri) (group_of (functions_by_context ix) n)"
    "filter (\<lambda>e. ias_uri e \<noteq> uri) (group_of (accounts_by_name iy) n) =
       filter (\<lambda>e. ias_uri e \<noteq> uri) (group_of (accounts_by_name ix) n)"
    "filter (\<lambda>e. wad_uri e \<noteq> uri) (group_of (account_data_by_name iy) n) =
       filter (\<lambda>e. wad_uri e \<noteq> uri) (group_of (account_data_by_name ix) n)"
  unfolding iy_def insert_lookups [OF assms(1)] assms(3)
  using assms(1,2)
  by (auto intro!: filter_resort simp: index_wf_def group_ok_def update_ok_def list_all_iff assms(3)
      symbol_entry_from_symbol_def reference_entry_from_reference_def function_entry_from_function_def)

lemma remove_insert_trie:
  assumes "index_wf ix" "up_uri u = uri" "module_path_segments ps uri = Some k"
  shows "snd (trie_remove k (module_path_trie (insert_indexed_document ps u ix))) =
         snd (trie_remove k (module_path_trie ix))"
proof -
  have wf: "trie_wf (module_path_trie ix)" using assms(1) by (simp add: index_wf_def)
  then show ?thesis
    using assms(2,3)
    by (intro trie_ext)
       (simp_all add: insert_selectors trie_map.invar_put trie_map.invar_remove
         trie_map.lookup_put trie_map.lookup_remove fun_upd_idem)
qed

lemma remove_insert_equiv:
  assumes "index_wf ix" "update_ok u" "up_uri u = uri"
  shows "index_equiv (remove_index_entries_for_uri ps uri (insert_indexed_document ps u ix))
           (remove_index_entries_for_uri ps uri ix)"
proof (rule index_equivI)
  show "index_wf (remove_index_entries_for_uri ps uri (insert_indexed_document ps u ix))"
    "index_wf (remove_index_entries_for_uri ps uri ix)"
    using assms(1) by (simp_all add: remove_wf insert_wf)
  show "documents (remove_index_entries_for_uri ps uri (insert_indexed_document ps u ix)) =
        documents (remove_index_entries_for_uri ps uri ix)"
    using assms(3) by (auto simp: remove_selectors insert_selectors)
  show "module_path_trie (remove_index_entries_for_uri ps uri (insert_indexed_document ps u ix)) =
        module_path_trie (remove_index_entries_for_uri ps uri ix)"
    using remove_insert_trie [OF assms(1,3)] assms(3)
    by (auto simp: remove_selectors insert_selectors split: option.split)
qed (simp_all only: remove_lookups [OF insert_wf [OF assms(1)]] remove_lookups [OF assms(1)]
    remove_insert_lookups [OF assms])

lemma insert_insert_equiv:
  assumes "index_wf ix" "update_ok u" "up_uri u = up_uri v"
  shows "index_equiv (insert_indexed_document ps v (insert_indexed_document ps u ix))
           (insert_indexed_document ps v ix)"
proof (rule index_equivI)
  show "index_wf (insert_indexed_document ps v (insert_indexed_document ps u ix))"
    "index_wf (insert_indexed_document ps v ix)"
    using assms(1) by (simp_all add: insert_wf)
  show "documents (insert_indexed_document ps v (insert_indexed_document ps u ix)) =
        documents (insert_indexed_document ps v ix)"
    using assms(3) by (simp add: insert_selectors)
  show "module_path_trie (insert_indexed_document ps v (insert_indexed_document ps u ix)) =
        module_path_trie (insert_indexed_document ps v ix)"
    using remove_insert_trie [OF assms(1,3), of ps] assms(3)
      insert_selectors(8) [of ps v "insert_indexed_document ps u ix"] insert_selectors(8) [of ps v ix]
      insert_selectors(8) [of ps u ix]
    by (auto split: option.split)
qed (simp_all only: insert_lookups [OF insert_wf [OF assms(1)]] insert_lookups [OF assms(1), of _ v]
    remove_insert_lookups [OF assms])

subsection \<open>A small index for the witnesses\<close>

definition sample_range :: range where
  "sample_range = \<lparr>range_start = \<lparr>pos_line = 0, pos_character = 0\<rparr>,
                   range_end = \<lparr>pos_line = 0, pos_character = 1\<rparr>\<rparr>"

definition sample_segments :: "url \<Rightarrow> string list option" where
  "sample_segments uri = Some [uri, ''src'', ''lib.rs'']"

definition sample_symbol :: "string \<Rightarrow> indexed_symbol" where
  "sample_symbol name =
     \<lparr>sym_name = name, sym_kind = KIND_STRUCT, sym_selection_range = sample_range,
      sym_container_name = None, sym_type_display = None\<rparr>"

definition sample_update :: "url \<Rightarrow> string \<Rightarrow> workspace_document_update" where
  "sample_update uri name =
     \<lparr>up_uri = uri, up_is_open = True, up_symbols = [sample_symbol name], up_references = [],
      up_functions = [], up_accounts_structs = [], up_account_data_structs = []\<rparr>"

lemma sample_update_ok [simp]: "update_ok (sample_update uri name)"
  by (simp add: update_ok_def sample_update_def)

lemma sample_update_uri [simp]: "up_uri (sample_update uri name) = uri"
  by (simp add: sample_update_def)

subsection \<open>Properties\<close>

text \<open>C13: in every reachable state the entries of open documents come first under every name,
  functions are filed under their name, and the call graph is that of the indexed functions.\<close>

theorem index_invariant:
  assumes "index_reachable ps ix"
  shows "sorted (map (\<lambda>e. \<not> se_is_open e) (group_of (symbols_by_name ix) n)) \<and>
         sorted (map (\<lambda>e. \<not> re_is_open e) (group_of (references_by_name ix) n)) \<and>
         sorted (map (\<lambda>e. \<not> fe_is_open e) (group_of (functions_by_name ix) n)) \<and>
         sorted (map (\<lambda>e. \<not> ias_is_open e) (group_of (accounts_by_name ix) n)) \<and>
         sorted (map (\<lambda>e. \<not> wad_is_open e) (group_of (account_data_by_name ix) n)) \<and>
         fe_name ` set (group_of (functions_by_name ix) n) \<subseteq> {n} \<and>
         callees_of (call_graph_of ix) n =
           sorted_list_of_set (\<Union> (set ` fe_calls ` set (group_of (functions_by_name ix) n))) \<and>
         is_unambiguous (call_graph_of ix) n = (length (group_of (functions_by_name ix) n) = 1)"
proof -
  have "index_wf ix" using assms by (rule index_reachable_wf)
  with call_graph_lookups [OF this, of n] show ?thesis
    by (auto simp: index_wf_def group_ok_def)
qed

lemma index_invariant_witness:
  "fe_name ` set (group_of (functions_by_name
     (insert_indexed_document sample_segments (sample_update ''a'' ''Vault'') empty_index)) ''f'') \<subseteq> {''f''}"
  using index_invariant [OF reach_insert [OF reach_empty], of sample_segments "sample_update ''a'' ''Vault''" "''f''"]
  by blast



text \<open>Only the latest version of a document counts: indexing a version on top of another is
  not distinguishable from indexing it alone.\<close>

theorem latest_version_counts:
  assumes "index_reachable ps ix" "update_ok u" "up_uri u = up_uri v"
  shows "index_equiv (insert_indexed_document ps v (insert_indexed_document ps u ix))
           (insert_indexed_document ps v ix)"
  using index_reachable_wf [OF assms(1)] assms(2,3) by (rule insert_insert_equiv)

lemma latest_version_counts_witness:
  "index_equiv
     (insert_indexed_document sample_segments (sample_update ''a'' ''Vault'')
       (insert_indexed_document sample_segments (sample_update ''a'' ''Escrow'') empty_index))
     (insert_indexed_document sample_segments (sample_update ''a'' ''Vault'') empty_index)"
  by (rule latest_version_counts) (simp_all add: reach_empty)

text \<open>C12: removing a document undoes its indexing completely: no query can tell whether the
  removed document had been indexed.\<close>

theorem remove_document_undoes_insert:
  assumes "index_reachable ps ix" "update_ok u" "up_uri u = uri"
  shows "index_equiv (remove_index_entries_for_uri ps uri (insert_indexed_document ps u ix))
           (remove_index_entries_for_uri ps uri ix)"
  using index_reachable_wf [OF assms(1)] assms(2,3) by (rule remove_insert_equiv)

lemma remove_document_undoes_insert_witness:
  "index_equiv
     (remove_index_entries_for_uri sample_segments ''a''
       (insert_indexed_document sample_segments (sample_update ''a'' ''Escrow'') empty_index))
     (remove_index_entries_for_uri sample_segments ''a'' empty_index)"
  by (rule remove_document_undoes_insert) (simp_all add: reach_empty)

end
