(* ===== verification/Workspace_Queries.thy ===== *)
theory Workspace_Queries
  imports Workspace_Index "HOL-Library.Product_Lexorder" "HOL-Library.Multiset"
begin

section \<open>Queries of the workspace index\<close>

text \<open>
  Models the queries of \<open>src/core/workspace/mod.rs\<close> and its submodules over the state of
  \<open>Workspace_Index\<close>: symbol and reference locations, account structs and field paths,
  instructions of a context, reachability through the call graph, associated values, and the
  resolution of qualified paths.  Results that Rust returns as a \<open>HashSet\<close> are sets.
\<close>

subsection \<open>Symbols and references\<close>

definition indexed_file_count :: "workspace_index \<Rightarrow> nat" where
  "indexed_file_count ix = card (documents ix)"

definition symbol_locations :: "workspace_index \<Rightarrow> string \<Rightarrow> location list" where
  "symbol_locations ix name = map se_location (group_of (symbols_by_name ix) name)"

definition symbol_locations_with_kinds ::
  "workspace_index \<Rightarrow> string \<Rightarrow> symbol_kind list \<Rightarrow> location list" where
  "symbol_locations_with_kinds ix name kinds =
     map se_location (filter (\<lambda>e. se_kind e \<in> set kinds) (group_of (symbols_by_name ix) name))"

definition symbol_entries_in_container ::
  "workspace_index \<Rightarrow> string \<Rightarrow> symbol_kind list \<Rightarrow> string \<Rightarrow> indexed_symbol_entry list" where
  "symbol_entries_in_container ix name kinds container =
     filter (\<lambda>e. se_kind e \<in> set kinds \<and> se_container_name e = Some container)
       (group_of (symbols_by_name ix) name)"

definition symbol_locations_in_container ::
  "workspace_index \<Rightarrow> string \<Rightarrow> symbol_kind list \<Rightarrow> string \<Rightarrow> location list" where
  "symbol_locations_in_container ix name kinds container =
     map se_location (symbol_entries_in_container ix name kinds container)"

record workspace_field_info =
  wfi_location :: location
  wfi_type_display :: "string option"

definition field_info_in_container ::
  "workspace_index \<Rightarrow> string \<Rightarrow> string \<Rightarrow> workspace_field_info option" where
  "field_info_in_container ix name container =
     (case symbol_entries_in_container ix name [KIND_FIELD] container of
        [] \<Rightarrow> None
      | e # _ \<Rightarrow> Some \<lparr>wfi_location = se_location e, wfi_type_display = se_type_display e\<rparr>)"

definition accounts_struct :: "workspace_index \<Rightarrow> string \<Rightarrow> workspace_accounts_struct option" where
  "accounts_struct ix name =
     (case group_of (accounts_by_name ix) name of [] \<Rightarrow> None | e # _ \<Rightarrow> Some (ias_accounts e))"

definition account_data_struct ::
  "workspace_index \<Rightarrow> string \<Rightarrow> workspace_account_data_struct option" where
  "account_data_struct ix name =
     (case group_of (account_data_by_name ix) name of [] \<Rightarrow> None | e # _ \<Rightarrow> Some e)"

record workspace_resolved_field =
  wrf_container_name :: string
  wrf_field_name :: string
  wrf_field_info :: workspace_field_info

text \<open>\<open>resolve_account_field_path\<close>: follow the segments through nested accounts structs up to
  the requested index.\<close>

definition next_container :: "workspace_index \<Rightarrow> string \<Rightarrow> string \<Rightarrow> string option" where
  "next_container ix container segment =
     Option.bind (accounts_struct ix container) (\<lambda>a.
       Option.bind (find (\<lambda>f. waf_name f = segment) (was_fields a)) (\<lambda>f.
         Option.bind (waf_type_name f) (\<lambda>next.
           map_option (\<lambda>_. next) (accounts_struct ix next))))"

fun resolve_segments ::
  "workspace_index \<Rightarrow> string \<Rightarrow> string list \<Rightarrow> nat \<Rightarrow> workspace_resolved_field option" where
  "resolve_segments ix container [] i = None"
| "resolve_segments ix container (segment # rest) i =
     (case field_info_in_container ix segment container of
        None \<Rightarrow> None
      | Some info \<Rightarrow>
          (case i of
             0 \<Rightarrow> Some \<lparr>wrf_container_name = container, wrf_field_name = segment, wrf_field_info = info\<rparr>
           | Suc j \<Rightarrow>
               (case next_container ix container segment of
                  None \<Rightarrow> None
                | Some next \<Rightarrow> resolve_segments ix next rest j)))"

definition resolve_account_field_path ::
  "workspace_index \<Rightarrow> string \<Rightarrow> string list \<Rightarrow> nat \<Rightarrow> workspace_resolved_field option" where
  "resolve_account_field_path ix context_name segments segment_index =
     resolve_segments ix context_name segments segment_index"

definition references_with_kinds ::
  "workspace_index \<Rightarrow> string \<Rightarrow> symbol_kind list \<Rightarrow> location list" where
  "references_with_kinds ix name kinds =
     map re_location (filter (\<lambda>e. re_kind e \<in> set kinds) (group_of (references_by_name ix) name))"

definition references_in_container ::
  "workspace_index \<Rightarrow> string \<Rightarrow> symbol_kind list \<Rightarrow> string \<Rightarrow> location list" where
  "references_in_container ix name kinds container =
     map re_location
       (filter (\<lambda>e. re_kind e \<in> set kinds \<and> re_container_name e = Some container)
         (group_of (references_by_name ix) name))"

definition anchor_type_references :: "workspace_index \<Rightarrow> string \<Rightarrow> location list" where
  "anchor_type_references ix name =
     (if symbol_locations_with_kinds ix name [KIND_STRUCT] = [] then []
      else references_with_kinds ix name [KIND_STRUCT])"

definition function_references :: "workspace_index \<Rightarrow> string \<Rightarrow> location list" where
  "function_references ix name =
     (if symbol_locations_with_kinds ix name [KIND_FUNCTION] = [] then []
      else references_with_kinds ix name [KIND_FUNCTION])"

definition function_return_type_displays :: "workspace_index \<Rightarrow> string \<Rightarrow> string list" where
  "function_return_type_displays ix name =
     List.map_filter fe_return_type_display (group_of (functions_by_name ix) name)"

subsection \<open>Fields and names\<close>

text \<open>\<open>dedup\<close> and \<open>dedup_by\<close> drop an element equal to the one kept before it.\<close>

fun dedup_by :: "('a \<Rightarrow> 'a \<Rightarrow> bool) \<Rightarrow> 'a list \<Rightarrow> 'a list" where
  "dedup_by same (x # y # xs) =
     (if same y x then dedup_by same (x # xs) else x # dedup_by same (y # xs))"
| "dedup_by same xs = xs"

definition fields_of_container :: "workspace_index \<Rightarrow> string \<Rightarrow> indexed_symbol_entry list" where
  "fields_of_container ix container =
     filter (\<lambda>e. se_kind e = KIND_FIELD \<and> se_container_name e = Some container)
       (group_values (symbols_by_name ix))"

definition field_names_in_container :: "workspace_index \<Rightarrow> string \<Rightarrow> string list" where
  "field_names_in_container ix container =
     dedup_by (=) (sort (map se_name (fields_of_container ix container)))"

definition is_account_struct_entry :: "indexed_symbol_entry \<Rightarrow> bool" where
  "is_account_struct_entry e \<longleftrightarrow>
     se_kind e = KIND_STRUCT \<and> se_container_name e = Some ACCOUNT_DATA_CONTAINER"

definition has_unambiguous_account_context :: "workspace_index \<Rightarrow> string \<Rightarrow> bool" where
  "has_unambiguous_account_context ix container \<longleftrightarrow>
     length (take 2 (filter is_account_struct_entry (group_of (symbols_by_name ix) container))) \<le> 1"

text \<open>\<open>primary_type_name\<close>: the leading identifier characters of the trimmed type; a byte outside
  ASCII ends the name.\<close>

definition is_type_name_char :: "char \<Rightarrow> bool" where
  "is_type_name_char c \<longleftrightarrow> c = CHR ''_'' \<or> is_ascii_alphanumeric c"

definition primary_type_name :: "string \<Rightarrow> string option" where
  "primary_type_name type_display =
     (let name = takeWhile is_type_name_char (trim type_display) in
      if name \<noteq> [] then Some name else None)"

record workspace_context_field =
  wcf_name :: string
  wcf_type_name :: "string option"
  wcf_type_display :: "string option"

definition context_field_of_entry :: "indexed_symbol_entry \<Rightarrow> workspace_context_field" where
  "context_field_of_entry e =
     \<lparr>wcf_name = se_name e,
      wcf_type_name = Option.bind (se_type_display e) primary_type_name,
      wcf_type_display = se_type_display e\<rparr>"

definition account_context_fields :: "workspace_index \<Rightarrow> string \<Rightarrow> workspace_context_field list" where
  "account_context_fields ix container =
     (if \<not> has_unambiguous_account_context ix container then []
      else dedup_by (\<lambda>l r. wcf_name l = wcf_name r)
             (sort_key wcf_name (map context_field_of_entry (fields_of_container ix container))))"

definition accounts_struct_names :: "workspace_index \<Rightarrow> string list" where
  "accounts_struct_names ix = sort (map fst (accounts_by_name ix))"

definition account_data_struct_names :: "workspace_index \<Rightarrow> string list" where
  "account_data_struct_names ix =
     sort (map fst (filter (\<lambda>(_, es). list_ex is_account_struct_entry es) (symbols_by_name ix)))"

record workspace_associated_value =
  wav_name :: string
  wav_kind :: symbol_kind
  wav_type_display :: "string option"

definition symbol_kind_rank :: "symbol_kind \<Rightarrow> nat" where
  "symbol_kind_rank kind =
     (if kind = KIND_CONSTANT then 0 else if kind = KIND_METHOD then 1
      else if kind = KIND_FUNCTION then 2 else 3)"

definition associated_values_in_container ::
  "workspace_index \<Rightarrow> string \<Rightarrow> workspace_associated_value list" where
  "associated_values_in_container ix container =
     dedup_by (\<lambda>l r. wav_name l = wav_name r \<and> wav_kind l = wav_kind r)
       (sort_key (\<lambda>v. (wav_name v, symbol_kind_rank (wav_kind v)))
         (map (\<lambda>e. \<lparr>wav_name = se_name e, wav_kind = se_kind e, wav_type_display = se_type_display e\<rparr>)
           (filter (\<lambda>e. se_kind e \<in> {KIND_CONSTANT, KIND_METHOD, KIND_FUNCTION} \<and>
                        se_container_name e = Some container)
             (group_values (symbols_by_name ix)))))"

subsection \<open>Instructions of a context and reachability\<close>

definition context_instructions :: "workspace_index \<Rightarrow> string \<Rightarrow> indexed_function_entry list" where
  "context_instructions ix context_name =
     filter fe_is_program_instruction (group_of (functions_by_context ix) context_name)"

definition implementation_locations_for_context :: "workspace_index \<Rightarrow> string \<Rightarrow> location list" where
  "implementation_locations_for_context ix context_name =
     map fe_location (context_instructions ix context_name)"

record workspace_instruction_summary =
  wis_name :: string
  wis_location :: location
  wis_is_open :: bool

definition program_instructions_for_context ::
  "workspace_index \<Rightarrow> string \<Rightarrow> workspace_instruction_summary list" where
  "program_instructions_for_context ix context_name =
     map (\<lambda>f. \<lparr>wis_name = fe_name f, wis_location = fe_location f, wis_is_open = fe_is_open f\<rparr>)
       (context_instructions ix context_name)"

definition has_program_instruction_for_context :: "workspace_index \<Rightarrow> string \<Rightarrow> bool" where
  "has_program_instruction_for_context ix context_name \<longleftrightarrow>
     list_ex fe_is_program_instruction (group_of (functions_by_context ix) context_name)"

definition reachable_function_names_for_context ::
  "workspace_index \<Rightarrow> string \<Rightarrow> string set option" where
  "reachable_function_names_for_context ix context_name =
     (let instructions = context_instructions ix context_name;
          own = set (map fe_name instructions) in
      if own = {} then None
      else Some (fold (\<lambda>f names. names \<union> reached_names (reachable_from (call_graph_of ix) (fe_name f)))
                   instructions own))"

definition reachable_account_usage_names_for_context ::
  "workspace_index \<Rightarrow> string \<Rightarrow> (indexed_function_entry \<Rightarrow> account_usage list) \<Rightarrow> string set option" where
  "reachable_account_usage_names_for_context ix context_name usages =
     map_option
       (\<lambda>reachable. set (map au_name (concat (map usages
          (filter (\<lambda>f. fe_name f \<in> reachable) (group_of (functions_by_context ix) context_name))))))
       (reachable_function_names_for_context ix context_name)"

definition reachable_cpi_program_usage_names_for_context where
  "reachable_cpi_program_usage_names_for_context ix context_name =
     reachable_account_usage_names_for_context ix context_name fe_cpi_program_usages"

definition reachable_signer_usage_names_for_context where
  "reachable_signer_usage_names_for_context ix context_name =
     reachable_account_usage_names_for_context ix context_name fe_signer_usages"

definition reachable_signer_check_names_for_context where
  "reachable_signer_check_names_for_context ix context_name =
     reachable_account_usage_names_for_context ix context_name fe_signer_checks"

text \<open>The entries of a set of names, sorted by name, file and start.  A list of the names stands
  for the iteration order of the hash set; equal keys keep that order.\<close>

definition function_entry_key :: "indexed_function_entry \<Rightarrow> string \<times> string \<times> u32 \<times> u32" where
  "function_entry_key e =
     (fe_name e, fe_uri e, pos_line (range_start (loc_range (fe_location e))),
      pos_character (range_start (loc_range (fe_location e))))"

definition function_entries_for_reachable_names ::
  "workspace_index \<Rightarrow> string list \<Rightarrow> indexed_function_entry list" where
  "function_entries_for_reachable_names ix names =
     sort_key function_entry_key (concat (map (group_of (functions_by_name ix)) names))"

definition reachable_entries ::
  "workspace_index \<Rightarrow> ambiguity_policy \<Rightarrow> string \<Rightarrow> indexed_function_entry list \<times> bool" where
  "reachable_entries ix policy start =
     (let r = reachable_from_with_policy (call_graph_of ix) start policy in
      (function_entries_for_reachable_names ix (sorted_list_of_set (reached_names r)), truncated r))"

definition reachable_function_entries ::
  "workspace_index \<Rightarrow> string \<Rightarrow> indexed_function_entry list \<times> bool" where
  "reachable_function_entries ix start = reachable_entries ix AllowAmbiguous start"

definition unambiguous_reachable_function_entries ::
  "workspace_index \<Rightarrow> string \<Rightarrow> indexed_function_entry list \<times> bool" where
  "unambiguous_reachable_function_entries ix start = reachable_entries ix RequireUnambiguous start"

definition same_function_entry :: "indexed_function_entry \<Rightarrow> indexed_function_entry \<Rightarrow> bool" where
  "same_function_entry a b \<longleftrightarrow>
     fe_name a = fe_name b \<and> fe_uri a = fe_uri b \<and>
     loc_range (fe_location a) = loc_range (fe_location b)"

definition push_unique_function_entry ::
  "indexed_function_entry \<Rightarrow> indexed_function_entry list \<Rightarrow> indexed_function_entry list" where
  "push_unique_function_entry entry entries =
     (if list_ex (\<lambda>existing. same_function_entry existing entry) entries then entries
      else entries @ [entry])"

definition reachable_function_entries_for_context_with_filter ::
  "workspace_index \<Rightarrow> string \<Rightarrow> ambiguity_policy \<Rightarrow> (indexed_function_entry \<Rightarrow> bool) \<Rightarrow>
     (indexed_function_entry list \<times> bool) option" where
  "reachable_function_entries_for_context_with_filter ix context_name policy include =
     (let instructions = context_instructions ix context_name in
      if instructions = [] then None
      else Some (fold
        (\<lambda>instruction (entries, trunc).
           (let (found, was_truncated) = reachable_entries ix policy (fe_name instruction) in
            (fold push_unique_function_entry (filter include found) entries,
             trunc \<or> was_truncated)))
        instructions (instructions, False)))"

definition in_context :: "string \<Rightarrow> indexed_function_entry \<Rightarrow> bool" where
  "in_context context_name e \<longleftrightarrow> fe_context_name e = Some context_name"

definition reachable_function_entries_for_context where
  "reachable_function_entries_for_context ix context_name =
     reachable_function_entries_for_context_with_filter ix context_name AllowAmbiguous
       (in_context context_name)"

definition reachable_function_entries_for_context_matching where
  "reachable_function_entries_for_context_matching ix context_name include =
     reachable_function_entries_for_context_with_filter ix context_name AllowAmbiguous include"

definition unambiguous_reachable_function_entries_for_context where
  "unambiguous_reachable_function_entries_for_context ix context_name =
     reachable_function_entries_for_context_with_filter ix context_name RequireUnambiguous
       (in_context context_name)"

subsection \<open>Instruction arguments\<close>

definition instruction_argument_names_match :: "string \<Rightarrow> string \<Rightarrow> bool" where
  "instruction_argument_names_match left right \<longleftrightarrow>
     left = right \<or> trim_start_char (CHR ''_'') left = trim_start_char (CHR ''_'') right"

definition instruction_argument_names_for_context :: "workspace_index \<Rightarrow> string \<Rightarrow> string set" where
  "instruction_argument_names_for_context ix context_name =
     set (map ifa_name (concat (map fe_arguments (context_instructions ix context_name))))"

definition instruction_argument_type_for_context ::
  "workspace_index \<Rightarrow> string \<Rightarrow> string \<Rightarrow> string option" where
  "instruction_argument_type_for_context ix context_name argument_name =
     Option.bind
       (find (\<lambda>a. instruction_argument_names_match (ifa_name a) argument_name)
         (concat (map fe_arguments (context_instructions ix context_name))))
       ifa_type_name"

definition push_unique_location :: "location \<Rightarrow> location list \<Rightarrow> location list" where
  "push_unique_location l ls =
     (if list_ex (\<lambda>e. loc_uri e = loc_uri l \<and> loc_range e = loc_range l) ls then ls else ls @ [l])"

subsection \<open>Qualified paths\<close>

definition symbol_exists_at_qualified_path :: "workspace_index \<Rightarrow> string list \<Rightarrow> bool" where
  "symbol_exists_at_qualified_path ix segments =
     (if length segments < 2 then False
      else
        (let symbol_name = last segments; module_prefix = butlast segments in
         case longest_prefix_of (module_path_trie ix) module_prefix of
           None \<Rightarrow> False
         | Some (depth, file_uri) \<Rightarrow>
             if depth < length module_prefix then False
             else list_ex (\<lambda>e. loc_uri (se_location e) = file_uri)
                    (group_of (symbols_by_name ix) symbol_name)))"

subsection \<open>Lemmas on qualified paths\<close>

text \<open>The trie maps a module path to an indexed document that has this module path.\<close>

definition trie_ok :: "(url \<Rightarrow> string list option) \<Rightarrow> workspace_index \<Rightarrow> bool" where
  "trie_ok ps ix \<longleftrightarrow>
     (\<forall>k uri. trie_get (module_path_trie ix) k = Some uri \<longrightarrow>
        uri \<in> documents ix \<and> module_path_segments ps uri = Some k)"

lemma index_reachable_trie_ok: "index_reachable ps ix \<Longrightarrow> trie_ok ps ix"
proof (induction rule: index_reachable.induct)
  case reach_empty
  then show ?case by (simp add: trie_ok_def empty_index_def trie_map.lookup_empty)
next
  case (reach_insert ix u)
  have "trie_wf (module_path_trie ix)"
    using index_reachable_wf [OF reach_insert.hyps] by (simp add: index_wf_def)
  with reach_insert.IH show ?case
    by (auto simp: trie_ok_def insert_selectors trie_map.lookup_put trie_map.lookup_remove
        trie_map.invar_remove split: option.splits if_splits)
next
  case (reach_remove ix uri)
  have "trie_wf (module_path_trie ix)"
    using index_reachable_wf [OF reach_remove.hyps] by (simp add: index_wf_def)
  with reach_remove.IH show ?case
    by (auto simp: trie_ok_def remove_selectors trie_map.lookup_remove split: option.splits if_splits)
next
  case (reach_bridge ix bs)
  then show ?case by (simp add: trie_ok_def bridge_selectors)
qed

lemma module_path_nonempty: "module_path_segments ps uri = Some k \<Longrightarrow> k \<noteq> []"
proof -
  have "module_loop cs segs = Some k \<Longrightarrow> segs \<noteq> [] \<Longrightarrow> k \<noteq> []" for cs segs
    by (induction cs segs rule: module_loop.induct) (auto split: option.splits if_splits)
  then show "module_path_segments ps uri = Some k \<Longrightarrow> k \<noteq> []"
    by (auto simp: module_path_segments_def Let_def split: option.splits if_splits)
qed

lemma symbol_exists_iff:
  "symbol_exists_at_qualified_path ix (k @ [x]) \<longleftrightarrow>
     k \<noteq> [] \<and> (\<exists>uri. trie_get (module_path_trie ix) k = Some uri \<and>
                 uri \<in> (\<lambda>e. loc_uri (se_location e)) ` set (group_of (symbols_by_name ix) x))"
proof (cases "trie_get (module_path_trie ix) k")
  case None
  have "depth < length k" if "longest_prefix_of (module_path_trie ix) k = Some (depth, uri)" for depth uri
    using trie_index.longest_hit [OF that] None by (cases "depth = length k") auto
  with None show ?thesis
    by (auto simp: symbol_exists_at_qualified_path_def split: option.split)
next
  case (Some uri)
  from trie_index.longest_exact [OF Some] Some show ?thesis
    by (auto simp: symbol_exists_at_qualified_path_def list_ex_iff Suc_le_eq not_less_eq_eq)
qed

lemma entry_uri: "loc_uri (se_location (symbol_entry_from_symbol uri is_open s)) = uri"
  by (simp add: symbol_entry_from_symbol_def)

subsection \<open>Lemmas on reachable entries\<close>

lemma fold_union: "fold (\<lambda>f names. names \<union> g f) fs s = s \<union> \<Union> (g ` set fs)"
  by (induction fs arbitrary: s) auto

lemma reached_names_levels:
  "reached_names (reachable_from g start) =
     (\<Union>i \<in> {1..MAX_REACHABILITY_DEPTH}. (call_step g AllowAmbiguous ^^ i) `` {start})"
  using reachable_levels [of g start AllowAmbiguous] by (simp add: reachable_from_def Let_def)

text \<open>A stable sort whose key determines the group of an entry forgets the order of the groups.\<close>

lemma filter_concat_groups:
  assumes "distinct ks" "\<And>k e. e \<in> set (g k) \<Longrightarrow> key e = c \<Longrightarrow> k = k0"
  shows "filter (\<lambda>e. key e = c) (concat (map g ks)) =
     (if k0 \<in> set ks then filter (\<lambda>e. key e = c) (g k0) else [])"
  using assms(1)
proof (induction ks)
  case (Cons k ks)
  have "filter (\<lambda>e. key e = c) (g k) = []" if "k \<noteq> k0"
    using assms(2) that by (force simp: filter_empty_conv)
  with Cons show ?case by (cases "k = k0") auto
qed simp

lemma sort_key_concat_order:
  assumes "distinct ks" "distinct ks'" "set ks = set ks'"
    and "\<And>k e. e \<in> set (g k) \<Longrightarrow> grp (key e) = k"
  shows "sort_key key (concat (map g ks)) = sort_key key (concat (map g ks'))"
proof (rule properties_for_sort_key)
  let ?A = "concat (map g ks)" and ?B = "concat (map g ks')"
  have "mset ks = mset ks'" using assms(1-3) by (simp add: set_eq_iff_mset_eq_distinct)
  moreover have "mset (concat (map g ls)) = sum_mset (image_mset (\<lambda>k. mset (g k)) (mset ls))" for ls
    by (induction ls) simp_all
  ultimately have "mset ?A = mset ?B" by simp
  then show "mset (sort_key key ?B) = mset ?A" by simp
  show "sorted (map key (sort_key key ?B))" by simp
  fix e
  have "filter (\<lambda>x. key x = key e) ?A = filter (\<lambda>x. key x = key e) ?B"
  proof -
    have own: "k = grp (key e)" if "x \<in> set (g k)" "key x = key e" for k x
      using assms(4) [OF that(1)] that(2) by simp
    show ?thesis
      using filter_concat_groups [where key = key and c = "key e" and g = g, OF assms(1) own]
        filter_concat_groups [where key = key and c = "key e" and g = g, OF assms(2) own] assms(3)
      by simp
  qed
  then show "filter (\<lambda>x. key e = key x) (sort_key key ?B) = filter (\<lambda>x. key e = key x) ?A"
    by (simp add: eq_commute [of "key e"] sort_key_stable)
qed

lemma entries_order_irrelevant:
  assumes "index_wf ix" "distinct ns" "distinct ns'" "set ns = set ns'"
  shows "function_entries_for_reachable_names ix ns = function_entries_for_reachable_names ix ns'"
  unfolding function_entries_for_reachable_names_def
  using assms(1) by (intro sort_key_concat_order [where grp = fst] assms(2-4))
    (auto simp: function_entry_key_def index_wf_def)

lemma set_push_unique:
  "set (push_unique_function_entry e es) \<subseteq> insert e (set es)"
  "set es \<subseteq> set (push_unique_function_entry e es)"
  "\<exists>e' \<in> set (push_unique_function_entry e es). same_function_entry e' e"
  by (auto simp: push_unique_function_entry_def list_ex_iff same_function_entry_def)

lemma set_fold_push_unique:
  "set (fold push_unique_function_entry xs es) \<subseteq> set es \<union> set xs \<and>
   set es \<subseteq> set (fold push_unique_function_entry xs es) \<and>
   (\<forall>x \<in> set xs. \<exists>e' \<in> set (fold push_unique_function_entry xs es). same_function_entry e' x)"
proof (induction xs arbitrary: es)
  case (Cons x xs)
  from Cons.IH [of "push_unique_function_entry x es"] set_push_unique [where e = x and es = es]
  show ?case by (simp, blast)
qed simp

subsection \<open>Properties\<close>

text \<open>A qualified path that resolves names a symbol of an indexed document whose module path
  is exactly the prefix of the path.\<close>

theorem qualified_path_sound:
  assumes "index_reachable ps ix"
  shows "{p. symbol_exists_at_qualified_path ix p} \<subseteq>
         {k @ [x] | k x. \<exists>uri \<in> documents ix. module_path_segments ps uri = Some k \<and>
            uri \<in> set (map loc_uri (symbol_locations ix x))}"
proof
  fix p
  assume "p \<in> {p. symbol_exists_at_qualified_path ix p}"
  moreover from this have "p \<noteq> []" by (auto simp: symbol_exists_at_qualified_path_def)
  then obtain k x where p: "p = k @ [x]" by (metis rev_exhaust)
  ultimately obtain uri where "trie_get (module_path_trie ix) k = Some uri"
      "uri \<in> (\<lambda>e. loc_uri (se_location e)) ` set (group_of (symbols_by_name ix) x)"
    by (auto simp: symbol_exists_iff)
  with index_reachable_trie_ok [OF assms] p
  show "p \<in> {k @ [x] | k x. \<exists>uri \<in> documents ix. module_path_segments ps uri = Some k \<and>
            uri \<in> set (map loc_uri (symbol_locations ix x))}"
    by (auto simp: trie_ok_def symbol_locations_def)
qed

lemma qualified_path_sound_witness:
  "{p. symbol_exists_at_qualified_path
        (insert_indexed_document sample_segments (sample_update ''a'' ''Vault'') empty_index) p} \<subseteq>
   {k @ [x] | k x. \<exists>uri \<in> documents
        (insert_indexed_document sample_segments (sample_update ''a'' ''Vault'') empty_index).
      module_path_segments sample_segments uri = Some k \<and>
      uri \<in> set (map loc_uri (symbol_locations
        (insert_indexed_document sample_segments (sample_update ''a'' ''Vault'') empty_index) x))}"
  by (rule qualified_path_sound [OF reach_insert [OF reach_empty]])

text \<open>A document that was just indexed resolves through its module path: the qualified path
  resolves exactly for the symbols the document declares.\<close>

theorem qualified_path_of_indexed_document:
  assumes "index_reachable ps ix" and "module_path_segments ps (up_uri u) = Some k"
  shows "symbol_exists_at_qualified_path (insert_indexed_document ps u ix) (k @ [x]) =
         (x \<in> set (map sym_name (up_symbols u)))"
proof -
  note wf = index_reachable_wf [OF assms(1)]
  then have "trie_get (module_path_trie (insert_indexed_document ps u ix)) k = Some (up_uri u)"
    using assms(2)
    by (simp add: insert_selectors trie_map.lookup_put trie_map.invar_remove index_wf_def)
  then show ?thesis
    using module_path_nonempty [OF assms(2)]
    by (auto simp: symbol_exists_iff insert_lookups [OF wf] entry_uri image_Un image_image)
qed

lemma module_path_sample: "module_path_segments sample_segments ''a'' = Some [CRATE_ROOT_SEGMENT]"
  "module_path_segments sample_segments ''b'' = Some [CRATE_ROOT_SEGMENT]"
  by (simp_all add: module_path_segments_def sample_segments_def SRC_DIR_def Let_def file_stem_def
      is_root_stem_def LIB_RS_STEM_def MOD_RS_STEM_def)

lemma qualified_path_of_indexed_document_witness:
  "symbol_exists_at_qualified_path
     (insert_indexed_document sample_segments (sample_update ''a'' ''Vault'') empty_index)
     ([CRATE_ROOT_SEGMENT] @ [''Vault''])"
  using qualified_path_of_indexed_document
    [OF reach_empty, of sample_segments "sample_update ''a'' ''Vault''" "[CRATE_ROOT_SEGMENT]" "''Vault''"]
    module_path_sample
  by (simp add: sample_update_def sample_symbol_def)

text \<open>two indexed files with the same module path share one entry of the trie.  When the
  second one is removed, the first stays indexed with all its symbols, and no qualified path
  through its module resolves any more.\<close>

theorem removed_namesake_hides_module:
  assumes "index_reachable ps ix" and "up_uri u \<noteq> up_uri v"
    and "module_path_segments ps (up_uri u) = Some k"
    and "module_path_segments ps (up_uri v) = Some k"
    and "s \<in> set (up_symbols u)"
  defines "iy \<equiv> remove_index_entries_for_uri ps (up_uri v)
                  (insert_indexed_document ps v (insert_indexed_document ps u ix))"
  shows "up_uri u \<in> documents iy \<and>
         up_uri u \<in> set (map loc_uri (symbol_locations iy (sym_name s))) \<and>
         \<not> symbol_exists_at_qualified_path iy (k @ [sym_name s])"
proof (intro conjI)
  note wf = index_reachable_wf [OF assms(1)]
  have wfu: "index_wf (insert_indexed_document ps u ix)"
    and wfv: "index_wf (insert_indexed_document ps v (insert_indexed_document ps u ix))"
    using wf by (simp_all add: insert_wf)
  show "up_uri u \<in> documents iy"
    using assms(2) by (simp add: iy_def remove_selectors insert_selectors)
  show "up_uri u \<in> set (map loc_uri (symbol_locations iy (sym_name s)))"
    using assms(2,5)
    by (force simp: iy_def symbol_locations_def remove_lookups [OF wfv] insert_lookups [OF wfu]
        insert_lookups [OF wf] symbol_entry_from_symbol_def)
  have "trie_get (module_path_trie iy) k = None"
    using wfv assms(4) unfolding iy_def
    by (simp add: remove_selectors(8) trie_map.lookup_remove index_wf_def)
  then show "\<not> symbol_exists_at_qualified_path iy (k @ [sym_name s])"
    by (simp add: symbol_exists_iff)
qed

lemma removed_namesake_hides_module_witness:
  "\<not> symbol_exists_at_qualified_path
      (remove_index_entries_for_uri sample_segments ''b''
        (insert_indexed_document sample_segments (sample_update ''b'' ''Escrow'')
          (insert_indexed_document sample_segments (sample_update ''a'' ''Vault'') empty_index)))
      ([CRATE_ROOT_SEGMENT] @ [''Vault''])"
  using removed_namesake_hides_module
    [OF reach_empty, of "sample_update ''a'' ''Vault''" "sample_update ''b'' ''Escrow''" sample_segments
      "[CRATE_ROOT_SEGMENT]" "sample_symbol ''Vault''"]
    module_path_sample
  by (simp add: sample_update_def sample_symbol_def)

text \<open>The functions reachable from a context are the names of its instructions and the ends
  of all chains of one to eight calls that start at one of them; a context without an
  instruction has none.\<close>

theorem reachable_names_of_context:
  "reachable_function_names_for_context ix context_name =
     (let own = fe_name ` set (context_instructions ix context_name) in
      if own = {} then None
      else Some (own \<union> (\<Union>i \<in> {1..MAX_REACHABILITY_DEPTH}.
                   (call_step (call_graph_of ix) AllowAmbiguous ^^ i) `` own)))"
proof -
  have "(\<Union>f \<in> F. \<Union>i \<in> I. (R ^^ i) `` {fe_name f}) = (\<Union>i \<in> I. (R ^^ i) `` (fe_name ` F))"
    for F :: "indexed_function_entry set" and I and R :: "(string \<times> string) set"
    by auto
  then show ?thesis
    by (simp add: reachable_function_names_for_context_def Let_def fold_union reached_names_levels)
qed

text \<open>the entries listed for a set of reachable names do not depend on the order in which
  the hash set yields the names.\<close>

theorem reachable_entries_deterministic:
  assumes "index_reachable ps ix" "distinct ns" "distinct ns'" "set ns = set ns'"
  shows "function_entries_for_reachable_names ix ns = function_entries_for_reachable_names ix ns'"
  using index_reachable_wf [OF assms(1)] assms(2-4) by (rule entries_order_irrelevant)

lemma reachable_entries_deterministic_witness:
  "function_entries_for_reachable_names
     (insert_indexed_document sample_segments (sample_update ''a'' ''Vault'') empty_index) [''f'', ''g''] =
   function_entries_for_reachable_names
     (insert_indexed_document sample_segments (sample_update ''a'' ''Vault'') empty_index) [''g'', ''f'']"
  by (rule reachable_entries_deterministic [OF reach_insert [OF reach_empty]]) auto

end
