(* ===== verification/Utf8_Text.thy ===== *)
theory Utf8_Text
  imports Rust_Prelude
begin

section \<open>Characters and lines of a UTF-8 text\<close>

text \<open>
  A Rust \<open>str\<close> is a list of UTF-8 bytes.  This theory gives its characters (a lead byte with
  the continuation bytes after it), the characters' byte offsets, its lines as
  \<open>split_inclusive\<close> and \<open>lines\<close> cut them, and the length of a text in UTF-16 code units, the
  unit in which an LSP client counts.
\<close>

subsection \<open>Characters\<close>

function utf8_chars :: "string \<Rightarrow> string list" where
  "utf8_chars [] = []"
| "utf8_chars (c # s) = (c # takeWhile is_continuation s) # utf8_chars (dropWhile is_continuation s)"
  by pat_completeness auto
termination
  by (relation "measure length") (auto simp: length_dropWhile_le less_Suc_eq_le)

text \<open>\<open>chars().count()\<close> and the byte offset of the character with a given index, as
  \<open>char_indices().nth(i)\<close> gives it.\<close>

definition char_count :: "string \<Rightarrow> nat" where
  "char_count s = length (utf8_chars s)"

definition char_offset :: "string \<Rightarrow> nat \<Rightarrow> nat option" where
  "char_offset s i =
     (if i < char_count s then Some (length (concat (take i (utf8_chars s)))) else None)"

text \<open>One UTF-8 encoded character; a text is valid when all its characters are.  Overlong forms,
  surrogates and code points above 10FFFF are excluded by the ranges of the second byte.\<close>

definition utf8_char :: "string \<Rightarrow> bool" where
  "utf8_char c =
     (case map byte c of
        [a] \<Rightarrow> a < 128
      | [a, b] \<Rightarrow> 194 \<le> a \<and> a \<le> 223 \<and> 128 \<le> b \<and> b \<le> 191
      | [a, b, d] \<Rightarrow>
          (a = 224 \<and> 160 \<le> b \<or> 225 \<le> a \<and> a \<le> 239 \<and> 128 \<le> b) \<and>
          (if a = 237 then b \<le> 159 else b \<le> 191) \<and> 128 \<le> d \<and> d \<le> 191
      | [a, b, d, e] \<Rightarrow>
          (a = 240 \<and> 144 \<le> b \<or> 241 \<le> a \<and> a \<le> 244 \<and> 128 \<le> b) \<and>
          (if a = 244 then b \<le> 143 else b \<le> 191) \<and> 128 \<le> d \<and> d \<le> 191 \<and> 128 \<le> e \<and> e \<le> 191
      | _ \<Rightarrow> False)"

definition utf8 :: "string \<Rightarrow> bool" where
  "utf8 s \<longleftrightarrow> list_all utf8_char (utf8_chars s)"

text \<open>Characters outside the basic plane, four bytes in UTF-8, take two UTF-16 code units.\<close>

definition utf16_units :: "string \<Rightarrow> nat" where
  "utf16_units s = sum_list (map (\<lambda>c. if length c = 4 then 2 else 1) (utf8_chars s))"

lemma concat_utf8_chars [simp]: "concat (utf8_chars s) = s"
  by (induction s rule: utf8_chars.induct) auto

lemma utf8_chars_shape: "c \<in> set (utf8_chars s) \<Longrightarrow> c \<noteq> []"
  by (induction s rule: utf8_chars.induct) auto

lemma utf8_chars_Nil_iff [simp]: "utf8_chars s = [] \<longleftrightarrow> s = []"
  by (cases s) auto

text \<open>A text may be cut into characters at any place where no continuation byte stands.\<close>

definition at_boundary :: "string \<Rightarrow> bool" where
  "at_boundary s \<longleftrightarrow> s = [] \<or> \<not> is_continuation (hd s)"

lemma at_boundary_Nil [simp]: "at_boundary []"
  by (simp add: at_boundary_def)

lemma at_boundary_dropWhile: "at_boundary (dropWhile is_continuation s)"
  by (induction s) (auto simp: at_boundary_def)

lemma utf8_chars_append: "at_boundary b \<Longrightarrow> utf8_chars (a @ b) = utf8_chars a @ utf8_chars b"
proof (induction a rule: utf8_chars.induct)
  case (2 c s)
  have "takeWhile is_continuation (s @ b) = takeWhile is_continuation s \<and>
        dropWhile is_continuation (s @ b) = dropWhile is_continuation s @ b"
  proof (cases "\<exists>x \<in> set s. \<not> is_continuation x")
    case True
    then show ?thesis by (auto simp: takeWhile_append dropWhile_append)
  next
    case False
    then have "takeWhile is_continuation s = s" "dropWhile is_continuation s = []"
      by (auto simp: takeWhile_eq_all_conv)
    moreover have "takeWhile is_continuation b = []" "dropWhile is_continuation b = b"
      using "2.prems" by (cases b; simp add: at_boundary_def)+
    ultimately show ?thesis
      using False by (simp only: takeWhile_append dropWhile_append) simp
  qed
  with 2 show ?case by simp
qed simp

lemma is_char_boundary_iff:
  "at_boundary s \<Longrightarrow> is_char_boundary s i \<longleftrightarrow> i \<le> length s \<and> at_boundary (drop i s)"
  by (auto simp: is_char_boundary_def at_boundary_def hd_drop_conv_nth hd_conv_nth)

lemma at_boundary_concat_take:
  "at_boundary (drop (length (concat (take i (utf8_chars s)))) s)" if "at_boundary s"
proof -
  have "at_boundary (concat (drop i (utf8_chars s)))"
    using that
  proof (induction s arbitrary: i rule: utf8_chars.induct)
    case (2 c s)
    from "2.IH" at_boundary_dropWhile "2.prems" show ?case
      by (cases i) (simp_all add: at_boundary_def)
  qed simp
  moreover have "drop (length (concat (take i (utf8_chars s)))) s = concat (drop i (utf8_chars s))"
    by (metis append_eq_conv_conj append_take_drop_id concat_append concat_utf8_chars)
  ultimately show ?thesis by simp
qed

text \<open>The characters before a boundary are a prefix of the characters.\<close>

lemma utf8_chars_take:
  "at_boundary (drop i s) \<Longrightarrow> utf8_chars s = utf8_chars (take i s) @ utf8_chars (drop i s)"
  using utf8_chars_append [of "drop i s" "take i s"] by simp

lemma char_offset_of_boundary:
  assumes "at_boundary (drop i s)" "i \<le> length s"
  shows "length (concat (take (char_count (take i s)) (utf8_chars s))) = i"
proof -
  have "take (char_count (take i s)) (utf8_chars s) = utf8_chars (take i s)"
    using utf8_chars_take [OF assms(1)] by (simp add: char_count_def)
  then show ?thesis using assms(2) by simp
qed

lemma char_count_append: "at_boundary b \<Longrightarrow> char_count (a @ b) = char_count a + char_count b"
  by (simp add: char_count_def utf8_chars_append)

lemma utf16_append: "at_boundary b \<Longrightarrow> utf16_units (a @ b) = utf16_units a + utf16_units b"
  by (simp add: utf16_units_def utf8_chars_append)

lemma utf8_append: "at_boundary b \<Longrightarrow> utf8 (a @ b) \<longleftrightarrow> utf8 a \<and> utf8 b"
  by (simp add: utf8_def utf8_chars_append)

lemma utf8_char_hd: "utf8_char (c # s) \<Longrightarrow> \<not> is_continuation c"
  by (auto simp: utf8_char_def is_continuation_def split: list.splits)

lemma utf8_at_boundary: "utf8 s \<Longrightarrow> at_boundary s"
  by (cases s) (auto simp: utf8_def at_boundary_def dest: utf8_char_hd)

lemma utf8_chars_single: "utf8_char c \<Longrightarrow> utf8_chars c = [c]"
  by (auto simp: utf8_char_def is_continuation_def split: list.splits if_splits)

lemma utf8_chars_concat: "list_all utf8_char cs \<Longrightarrow> utf8_chars (concat cs) = cs \<and> utf8 (concat cs)"
proof (induction cs)
  case (Cons c cs)
  then have "utf8_chars (c @ concat cs) = utf8_chars c @ utf8_chars (concat cs)"
    by (intro utf8_chars_append utf8_at_boundary) simp
  with Cons show ?case by (simp add: utf8_chars_single utf8_def)
qed (simp add: utf8_def)

text \<open>ASCII texts, whose characters are their bytes.\<close>

definition ascii :: "string \<Rightarrow> bool" where
  "ascii s \<longleftrightarrow> list_all (\<lambda>c. byte c < 128) s"

lemma utf8_chars_ascii: "ascii s \<Longrightarrow> utf8_chars s = map (\<lambda>c. [c]) s"
proof (induction s)
  case (Cons c s)
  then have "s = [] \<or> \<not> is_continuation (hd s)"
    by (cases s) (auto simp: ascii_def is_continuation_def byte_def)
  then have "takeWhile is_continuation s = []" "dropWhile is_continuation s = s" by (cases s; auto)+
  with Cons show ?case by (simp add: ascii_def)
qed simp

lemma ascii_append [simp]: "ascii (a @ b) \<longleftrightarrow> ascii a \<and> ascii b"
  by (simp add: ascii_def)

lemma ascii_utf8: "ascii s \<Longrightarrow> utf8 s"
  by (simp add: utf8_def utf8_chars_ascii list_all_iff) (simp add: ascii_def list_all_iff utf8_char_def)

lemma char_count_eq_utf16:
  "list_all (\<lambda>c. length c \<noteq> 4) (utf8_chars s) \<Longrightarrow> utf16_units s = char_count s"
proof -
  have "list_all (\<lambda>c. length c \<noteq> 4) cs \<Longrightarrow>
      sum_list (map (\<lambda>c. if length c = 4 then 2 else 1) cs) = length cs" for cs :: "string list"
    by (induction cs) auto
  then show "list_all (\<lambda>c. length c \<noteq> 4) (utf8_chars s) \<Longrightarrow> utf16_units s = char_count s"
    by (simp add: utf16_units_def char_count_def)
qed

subsection \<open>Lines\<close>

definition NEWLINE :: char where "NEWLINE = CHR 0x0A"
definition CARRIAGE_RETURN :: char where "CARRIAGE_RETURN = CHR 0x0D"

text \<open>\<open>split_inclusive('\n')\<close>: every piece but the last ends with its newline.\<close>

fun split_inclusive :: "string \<Rightarrow> string list" where
  "split_inclusive [] = []"
| "split_inclusive (c # s) =
     (if c = NEWLINE then [c] # split_inclusive s
      else (case split_inclusive s of
              [] \<Rightarrow> [[c]]
            | p # ps \<Rightarrow> (c # p) # ps))"

definition strip_newline :: "string \<Rightarrow> string" where
  "strip_newline line = unwrap_or line (strip_suffix [NEWLINE] line)"

text \<open>\<open>str::lines\<close>: the line terminator is a newline with an optional carriage return.\<close>

definition strip_line_end :: "string \<Rightarrow> string" where
  "strip_line_end line =
     (case strip_suffix [NEWLINE] line of
        None \<Rightarrow> line
      | Some l \<Rightarrow> unwrap_or l (strip_suffix [CARRIAGE_RETURN] l))"

definition text_lines :: "string \<Rightarrow> string list" where
  "text_lines s = map strip_line_end (split_inclusive s)"

lemma newline_boundary [simp]: "\<not> is_continuation NEWLINE"
  by (simp add: is_continuation_def NEWLINE_def byte_def)

lemma concat_split_inclusive [simp]: "concat (split_inclusive s) = s"
proof (induction s)
  case (Cons c s)
  then show ?case by (cases "split_inclusive s") auto
qed simp

lemma split_inclusive_Nil_iff [simp]: "split_inclusive s = [] \<longleftrightarrow> s = []"
  by (cases s) (auto split: list.split)

lemma split_inclusive_no_newline:
  "NEWLINE \<notin> set l \<Longrightarrow> l \<noteq> [] \<Longrightarrow> split_inclusive l = [l]"
proof (induction l)
  case (Cons c l)
  then show ?case by (cases "l = []") auto
qed simp

lemma split_inclusive_line:
  "NEWLINE \<notin> set l \<Longrightarrow> split_inclusive (l @ NEWLINE # s) = (l @ [NEWLINE]) # split_inclusive s"
  by (induction l) auto

text \<open>The pieces of a text that is cut after a newline.\<close>

lemma split_inclusive_append:
  "a = [] \<or> last a = NEWLINE \<Longrightarrow> split_inclusive (a @ b) = split_inclusive a @ split_inclusive b"
proof (induction a)
  case (Cons c a)
  show ?case
  proof (cases "a = []")
    case True
    with Cons.prems show ?thesis by simp
  next
    case False
    with Cons have "split_inclusive (a @ b) = split_inclusive a @ split_inclusive b" by simp
    with False show ?thesis by (cases "split_inclusive a") auto
  qed
qed simp

lemma length_split_inclusive:
  "a = [] \<or> last a = NEWLINE \<Longrightarrow> length (split_inclusive a) = length (filter (\<lambda>c. c = NEWLINE) a)"
proof (induction a)
  case (Cons c a)
  show ?case
  proof (cases "a = []")
    case False
    with Cons show ?thesis by (cases "split_inclusive a") auto
  qed (use Cons.prems in auto)
qed simp

text \<open>In a valid text an ASCII byte is a character of its own, so the byte after it starts one.\<close>

lemma utf8_char_ascii: "byte c < 128 \<Longrightarrow> utf8_char (c # s) \<Longrightarrow> s = []"
  by (auto simp: utf8_char_def split: list.splits)

lemma utf8_char_newline_mem: "utf8_char c \<Longrightarrow> NEWLINE \<in> set c \<Longrightarrow> c = [NEWLINE]"
  by (auto simp: utf8_char_def NEWLINE_def byte_def split: list.splits if_splits)

lemma utf8_after_ascii:
  assumes "utf8 (a @ c # b)" "byte c < 128"
  shows "at_boundary b \<and> utf8 b \<and> utf8 a"
proof -
  have nb: "at_boundary (c # b)" using assms(2) by (simp add: at_boundary_def is_continuation_def)
  from assms(1) have ab: "utf8 a" "utf8 (c # b)" by (simp_all add: utf8_append [OF nb])
  then have "utf8_char (c # takeWhile is_continuation b)"
    and rest: "list_all utf8_char (utf8_chars (dropWhile is_continuation b))"
    by (simp_all add: utf8_def)
  then have "takeWhile is_continuation b = []" by (simp add: utf8_char_ascii [OF assms(2)])
  then have b: "dropWhile is_continuation b = b" by (cases b) (auto split: if_splits)
  with rest have "utf8 b" by (simp add: utf8_def)
  with ab show ?thesis using utf8_at_boundary by blast
qed

lemma utf8_after_newline: "utf8 (a @ NEWLINE # b) \<Longrightarrow> at_boundary b \<and> utf8 b \<and> utf8 a"
  by (erule utf8_after_ascii) (simp add: NEWLINE_def byte_def)

text \<open>The last line of a text: what follows its last newline.\<close>

lemma split_last_line:
  "\<exists>a m. s = a @ m \<and> (a = [] \<or> last a = NEWLINE) \<and> NEWLINE \<notin> set m"
proof (induction s rule: rev_induct)
  case (snoc c s)
  show ?case
  proof (cases "c = NEWLINE")
    case True
    then show ?thesis by (intro exI [of _ "s @ [c]"] exI [of _ "[]"]) simp
  next
    case False
    from snoc obtain a m where "s = a @ m" "a = [] \<or> last a = NEWLINE" "NEWLINE \<notin> set m" by blast
    with False show ?thesis by (intro exI [of _ a] exI [of _ "m @ [c]"]) auto
  qed
qed simp

lemma utf8_last_line:
  assumes "utf8 (a @ m)" "a = [] \<or> last a = NEWLINE"
  shows "at_boundary m \<and> utf8 m \<and> utf8 a"
proof (cases "a = []")
  case True
  with assms(1) show ?thesis by (simp add: utf8_at_boundary utf8_def)
next
  case False
  with assms(2) have a: "a = butlast a @ [NEWLINE]" by (metis append_butlast_last_id)
  then have "utf8 (butlast a @ NEWLINE # m)" using assms(1) by (metis append.assoc append_Cons append_Nil)
  then have m: "at_boundary m \<and> utf8 m" using utf8_after_newline by blast
  with assms(1) show ?thesis by (simp add: utf8_append)
qed

text \<open>The first line of a text with its terminator.\<close>

lemma first_piece:
  assumes "s \<noteq> []"
  shows "\<exists>rest. split_inclusive s = hd (split_inclusive s) # rest \<and>
     strip_newline (hd (split_inclusive s)) = takeWhile (\<lambda>c. c \<noteq> NEWLINE) s"
proof (cases "NEWLINE \<in> set s")
  case True
  then obtain l r where lr: "s = l @ NEWLINE # r" "NEWLINE \<notin> set l" by (meson split_list_first)
  then have "takeWhile (\<lambda>c. c \<noteq> NEWLINE) s = l"
    by (induction l arbitrary: s) auto
  with lr show ?thesis
    by (simp add: split_inclusive_line strip_newline_def strip_suffix_def suffix_def)
next
  case False
  with assms have "split_inclusive s = [s]" by (simp add: split_inclusive_no_newline)
  moreover have "\<not> suffix [NEWLINE] s" using False by (auto simp: suffix_def)
  moreover have tw: "takeWhile (\<lambda>c. c \<noteq> NEWLINE) s = s"
    using False by (auto simp: takeWhile_eq_all_conv)
  ultimately show ?thesis unfolding strip_newline_def strip_suffix_def by (simp only: tw) simp
qed

end
