(* ===== verification/Text_Positions.thy ===== *)
theory Text_Positions
  imports Utf8_Text Lsp_Types
begin

section \<open>Positions in a text\<close>

text \<open>
  Models \<open>src/runtime/range/mod.rs\<close>: from LSP positions to byte offsets, the lexical scan that
  tells comments and strings from code, and the word queries.  The character of a position
  counts Unicode characters of its line.
\<close>

subsection \<open>Byte offsets\<close>

definition byte_offset_for_character :: "string \<Rightarrow> nat \<Rightarrow> nat option" where
  "byte_offset_for_character line character =
     (if character = 0 then Some 0
      else or_else (char_offset line character)
             (if char_count line = character then Some (length line) else None))"

text \<open>The loop of \<open>offset_at\<close>: the inner option is what it returns, the outer one is \<open>None\<close>
  when it runs to its end.\<close>

fun offset_loop :: "string list \<Rightarrow> nat \<Rightarrow> nat \<Rightarrow> nat \<Rightarrow> nat \<Rightarrow> nat option option" where
  "offset_loop [] line_idx offset target_line target_character = None"
| "offset_loop (line # rest) line_idx offset target_line target_character =
     (if line_idx = target_line then
        Some (map_option (\<lambda>line_offset. offset + line_offset)
               (byte_offset_for_character (strip_newline line) target_character))
      else offset_loop rest (line_idx + 1) (offset + length line) target_line target_character)"

definition offset_at :: "string \<Rightarrow> position \<Rightarrow> nat option" where
  "offset_at text p =
     (let target_line = unat (pos_line p); target_character = unat (pos_character p) in
      case offset_loop (split_inclusive text) 0 0 target_line target_character of
        Some r \<Rightarrow> r
      | None \<Rightarrow>
          if target_line = length (text_lines text) \<and> target_character = 0
          then Some (length text) else None)"

definition byte_offset_at :: "string \<Rightarrow> position \<Rightarrow> nat option" where
  "byte_offset_at text p = offset_at text p"

definition line_at :: "string \<Rightarrow> nat \<Rightarrow> string option" where
  "line_at text n = (if n < length (text_lines text) then Some (text_lines text ! n) else None)"

definition point_at :: "string \<Rightarrow> position \<Rightarrow> (nat \<times> nat) option" where
  "point_at text p =
     Option.bind (line_at text (unat (pos_line p))) (\<lambda>line.
       map_option (\<lambda>column. (unat (pos_line p), column))
         (byte_offset_for_character line (unat (pos_character p))))"

subsection \<open>Comments and strings\<close>

datatype lexical_state = Code | LineComment | BlockComment nat | InString bool

definition byte_at :: "string \<Rightarrow> nat \<Rightarrow> char option" where
  "byte_at s i = (if i < length s then Some (s ! i) else None)"

text \<open>One turn of the loop at an index inside the text: the next state and the step width.\<close>

definition BACKSLASH :: char where "BACKSLASH = CHR 0x5C"
definition QUOTE :: char where "QUOTE = CHR 0x22"

fun lex_step :: "string \<Rightarrow> nat \<Rightarrow> lexical_state \<Rightarrow> lexical_state \<times> nat" where
  "lex_step s i Code =
     (if s ! i = CHR ''/'' \<and> byte_at s (i + 1) = Some (CHR ''/'') then (LineComment, 2)
      else if s ! i = CHR ''/'' \<and> byte_at s (i + 1) = Some (CHR ''*'') then (BlockComment 1, 2)
      else if s ! i = QUOTE then (InString False, 1)
      else (Code, 1))"
| "lex_step s i LineComment = (if s ! i = NEWLINE then (Code, 1) else (LineComment, 1))"
| "lex_step s i (BlockComment depth) =
     (if s ! i = CHR ''/'' \<and> byte_at s (i + 1) = Some (CHR ''*'') then (BlockComment (depth + 1), 2)
      else if s ! i = CHR ''*'' \<and> byte_at s (i + 1) = Some (CHR ''/'') then
        (let next_depth = depth - 1 in (if next_depth = 0 then Code else BlockComment next_depth), 2)
      else (BlockComment depth, 1))"
| "lex_step s i (InString escaped) =
     (if escaped then (InString False, 1)
      else if s ! i = BACKSLASH then (InString True, 1)
      else if s ! i = QUOTE then (Code, 1)
      else (InString False, 1))"

lemma lex_step_width: "snd (lex_step s i st) \<in> {1, 2}"
  by (cases st) (auto simp: Let_def)

function lex_loop :: "string \<Rightarrow> nat \<Rightarrow> nat \<Rightarrow> lexical_state \<Rightarrow> lexical_state" where
  "lex_loop s cursor i st =
     (if i < min cursor (length s)
      then lex_loop s cursor (i + snd (lex_step s i st)) (fst (lex_step s i st))
      else st)"
  by pat_completeness auto
termination
proof (relation "measure (\<lambda>(s, cursor, i, st). cursor - i)", goal_cases)
  case (2 s cursor i st)
  with lex_step_width [of s i st] show ?case by auto
qed simp

declare lex_loop.simps [simp del]

definition is_in_comment_or_string :: "string \<Rightarrow> position \<Rightarrow> bool" where
  "is_in_comment_or_string text p =
     (case byte_offset_at text p of
        None \<Rightarrow> False
      | Some cursor \<Rightarrow> lex_loop text cursor 0 Code \<noteq> Code)"

definition is_in_account_attribute :: "string \<Rightarrow> position \<Rightarrow> bool" where
  "is_in_account_attribute text p =
     (if is_in_comment_or_string text p then False
      else
        (case offset_at text p of
           None \<Rightarrow> False
         | Some offset \<Rightarrow>
             (let pre = take offset text in
              case str_rfind ''#[account'' pre of
                None \<Rightarrow> False
              | Some start \<Rightarrow>
                  (let after_start = drop start pre in
                   str_contains ''('' after_start \<and> \<not> str_contains '']'' after_start))))"

subsection \<open>Words\<close>

text \<open>\<open>is_ascii_identifier_char\<close> on an encoded character: a multi-byte character never is one.\<close>

definition is_ascii_identifier_char :: "string \<Rightarrow> bool" where
  "is_ascii_identifier_char ch =
     (case ch of [c] \<Rightarrow> c = CHR ''_'' \<or> is_ascii_alphanumeric c | _ \<Rightarrow> False)"

fun word_start :: "string list \<Rightarrow> nat \<Rightarrow> nat" where
  "word_start chars 0 = 0"
| "word_start chars (Suc i) =
     (if is_ascii_identifier_char (chars ! i) then word_start chars i else Suc i)"

function word_end :: "string list \<Rightarrow> nat \<Rightarrow> nat" where
  "word_end chars i =
     (if i < length chars \<and> is_ascii_identifier_char (chars ! i) then word_end chars (i + 1) else i)"
  by pat_completeness auto
termination by (relation "measure (\<lambda>(chars, i). length chars - i)") auto

declare word_end.simps [simp del]

definition make_range :: "u32 \<Rightarrow> nat \<Rightarrow> nat \<Rightarrow> range" where
  "make_range line start stop =
     \<lparr>range_start = \<lparr>pos_line = line, pos_character = u32_or_default start\<rparr>,
      range_end = \<lparr>pos_line = line, pos_character = u32_or_default stop\<rparr>\<rparr>"

definition word_range_at_position :: "string \<Rightarrow> position \<Rightarrow> range option" where
  "word_range_at_position text p =
     Option.bind (line_at text (unat (pos_line p))) (\<lambda>line.
       (let chars = utf8_chars line; character = unat (pos_character p) in
        if character > length chars then None
        else
          (let cursor = min character (length chars - 1);
               start = word_start chars cursor;
               stop = word_end chars cursor in
           if start < stop then Some (make_range (pos_line p) start stop) else None)))"

definition word_at_position :: "string \<Rightarrow> position \<Rightarrow> string option" where
  "word_at_position text p =
     Option.bind (word_range_at_position text p) (\<lambda>r.
       map_option
         (\<lambda>line. concat (take (unat (pos_character (range_end r)) - unat (pos_character (range_start r)))
                   (drop (unat (pos_character (range_start r))) (utf8_chars line))))
         (line_at text (unat (pos_line (range_start r)))))"

definition word_boundary :: "string list \<Rightarrow> nat \<Rightarrow> nat \<Rightarrow> bool" where
  "word_boundary chars start stop \<longleftrightarrow>
     (if start = 0 then True
      else start - 1 < length chars \<and> \<not> is_ascii_identifier_char (chars ! (start - 1)) \<or>
           length chars \<le> start - 1) \<and>
     (if stop < length chars then \<not> is_ascii_identifier_char (chars ! stop) else True)"

definition find_word_offsets :: "string list \<Rightarrow> string \<Rightarrow> nat list" where
  "find_word_offsets chars word =
     (let word_chars = utf8_chars word; n = length word_chars in
      if n = 0 \<or> length chars < n then []
      else filter (\<lambda>start. take n (drop start chars) = word_chars \<and>
                           word_boundary chars start (start + n))
             [0..<length chars - n + 1])"

definition matching_word_ranges :: "string \<Rightarrow> string \<Rightarrow> range list" where
  "matching_word_ranges text word =
     (if word = [] then []
      else concat (map
        (\<lambda>(line_idx, line).
           map (\<lambda>start. make_range (u32_or_default line_idx) start (start + char_count word))
             (find_word_offsets (utf8_chars line) word))
        (enumerate 0 (text_lines text))))"

text \<open>\<open>account_type_after_line\<close>: the last type argument of the next \<open>Account<...>\<close> field.\<close>

definition rsplit_once :: "string \<Rightarrow> string \<Rightarrow> (string \<times> string) option" where
  "rsplit_once p s = map_option (\<lambda>i. (take i s, drop (i + length p) s)) (str_rfind p s)"

definition account_type_after_line :: "string \<Rightarrow> nat \<Rightarrow> string option" where
  "account_type_after_line text line_number =
     Option.bind (find (\<lambda>l. str_contains ''Account<'' l) (drop (line_number + 1) (text_lines text))) (\<lambda>field_line.
     Option.bind (str_find ''Account<'' field_line) (\<lambda>start.
     (let generic = drop start field_line in
      Option.bind (str_find ''>'' generic) (\<lambda>stop.
      Option.bind (rsplit_once '','' (take stop generic)) (\<lambda>(_, last_arg).
        (let ty = trim last_arg in if ty \<noteq> [] then Some ty else None))))))"

subsection \<open>Lemmas on byte offsets\<close>

lemma offset_loop_eq:
  "offset_loop ls i off n tc =
     (if i \<le> n \<and> n - i < length ls
      then Some (map_option (\<lambda>l. off + length (concat (take (n - i) ls)) + l)
                  (byte_offset_for_character (strip_newline (ls ! (n - i))) tc))
      else None)"
proof (induction ls arbitrary: i off)
  case (Cons line rest)
  show ?case
  proof (cases "i = n")
    case False
    have "n - i = Suc (n - Suc i)" if "i < n" using that by simp
    with False Cons.IH [of "i + 1" "off + length line"] show ?thesis
      by (auto simp: add.assoc intro!: option.map_cong0)
  qed simp
qed simp

lemma offset_at_eq:
  "offset_at text p =
     (let ls = split_inclusive text; n = unat (pos_line p); c = unat (pos_character p) in
      if n < length ls then
        map_option (\<lambda>l. length (concat (take n ls)) + l)
          (byte_offset_for_character (strip_newline (ls ! n)) c)
      else if n = length ls \<and> c = 0 then Some (length text) else None)"
  by (simp add: offset_at_def offset_loop_eq Let_def text_lines_def)

lemma byte_offset_for_character_iff:
  "byte_offset_for_character line c = Some k \<longleftrightarrow>
     c \<le> char_count line \<and> k = length (concat (take c (utf8_chars line)))"
  by (auto simp: byte_offset_for_character_def char_offset_def char_count_def or_else_def split: if_splits)

lemma split_inclusive_take:
  "n \<le> length (split_inclusive s) \<Longrightarrow>
     \<exists>a b. s = a @ b \<and> split_inclusive a = take n (split_inclusive s) \<and>
       split_inclusive b = drop n (split_inclusive s) \<and> (b \<noteq> [] \<longrightarrow> a = [] \<or> last a = NEWLINE)"
proof (induction n arbitrary: s)
  case 0
  then show ?case by (intro exI [of _ "[]"] exI [of _ s]) simp
next
  case (Suc n)
  then have "s \<noteq> []" by auto
  show ?case
  proof (cases "NEWLINE \<in> set s")
    case True
    then obtain l r where lr: "s = l @ NEWLINE # r" "NEWLINE \<notin> set l" by (meson split_list_first)
    then have ls: "split_inclusive s = (l @ [NEWLINE]) # split_inclusive r"
      by (simp add: split_inclusive_line)
    with Suc.prems have "n \<le> length (split_inclusive r)" by simp
    from Suc.IH [OF this] obtain a b where ab: "r = a @ b" "split_inclusive a = take n (split_inclusive r)"
        "split_inclusive b = drop n (split_inclusive r)" "b \<noteq> [] \<longrightarrow> a = [] \<or> last a = NEWLINE"
      by blast
    have "split_inclusive (l @ NEWLINE # a) = take (Suc n) (split_inclusive s)"
      using ls ab(2) lr(2) by (simp add: split_inclusive_line)
    moreover have "b \<noteq> [] \<longrightarrow> last (l @ NEWLINE # a) = NEWLINE" using ab(4) by auto
    moreover have "split_inclusive b = drop (Suc n) (split_inclusive s)" using ls ab(3) by simp
    moreover have "s = (l @ NEWLINE # a) @ b" using lr(1) ab(1) by simp
    ultimately show ?thesis by blast
  next
    case False
    with \<open>s \<noteq> []\<close> have "split_inclusive s = [s]" by (simp add: split_inclusive_no_newline)
    then show ?thesis by (intro exI [of _ s] exI [of _ "[]"]) simp
  qed
qed

text \<open>An offset that the code computes splits the text into a beginning of whole lines, a part of
  one line with as many characters as the position says, and the rest.\<close>

lemma offset_at_split:
  assumes "utf8 text" "offset_at text p = Some k"
  shows "k \<le> length text \<and> at_boundary (drop k text)"
proof -
  let ?ls = "split_inclusive text" and ?n = "unat (pos_line p)" and ?c = "unat (pos_character p)"
  show ?thesis
  proof (cases "?n < length ?ls")
    case True
    with assms(2) obtain l where l: "byte_offset_for_character (strip_newline (?ls ! ?n)) ?c = Some l"
        and k: "k = length (concat (take ?n ?ls)) + l"
      by (auto simp: offset_at_eq Let_def)
    from split_inclusive_take [of ?n "text"] True obtain a b where ab: "text = a @ b"
        "split_inclusive a = take ?n ?ls" "split_inclusive b = drop ?n ?ls"
        "b \<noteq> [] \<longrightarrow> a = [] \<or> last a = NEWLINE"
      by auto
    have b: "b \<noteq> []" using ab(3) True by auto
    with ab(1,4) assms(1) have bb: "at_boundary b" "utf8 b" using utf8_last_line [of a b] by auto
    have hd: "?ls ! ?n = hd (split_inclusive b)" using True by (simp add: ab(3) hd_drop_conv_nth)
    have len: "length (concat (take ?n ?ls)) = length a" by (simp flip: ab(2))
    let ?m = "takeWhile (\<lambda>c. c \<noteq> NEWLINE) b" and ?r = "dropWhile (\<lambda>c. c \<noteq> NEWLINE) b"
    have m: "strip_newline (?ls ! ?n) = ?m" using first_piece [OF b] hd by auto
    have r: "at_boundary ?r" by (induction b) (auto simp: at_boundary_def)
    have lm: "l \<le> length ?m" "at_boundary (drop l ?m)"
    proof -
      from l m have l': "l = length (concat (take ?c (utf8_chars ?m)))" "?c \<le> char_count ?m"
        by (simp_all add: byte_offset_for_character_iff)
      have "at_boundary ?m" using bb(1) by (cases b) (auto simp: at_boundary_def)
      with l' show "at_boundary (drop l ?m)" by (simp add: at_boundary_concat_take)
      have "length (concat (take ?c (utf8_chars ?m))) \<le> length (concat (utf8_chars ?m))"
        by (metis append_take_drop_id concat_append length_append le_add1)
      with l' show "l \<le> length ?m" by simp
    qed
    have "drop k text = drop l ?m @ ?r"
    proof -
      have "drop k text = drop l b" unfolding k len by (simp add: ab(1))
      also have "\<dots> = drop l (?m @ ?r)" by simp
      also have "\<dots> = drop l ?m @ ?r" using lm(1) by (simp only: drop_append) simp
      finally show ?thesis .
    qed
    with lm r have "at_boundary (drop k text)"
      by (cases "drop l ?m") (simp_all add: at_boundary_def)
    moreover have "l \<le> length b"
      using lm(1) length_takeWhile_le [of "\<lambda>c. c \<noteq> NEWLINE" b] by linarith
    ultimately show ?thesis unfolding k len by (simp add: ab(1))
  next
    case False
    with assms(2) show ?thesis by (auto simp: offset_at_eq Let_def split: if_splits)
  qed
qed

end
