(* ===== verification/Text_Sync.thy ===== *)
theory Text_Sync
  imports Text_Positions "HOL-Library.Sublist"
begin

section \<open>Incremental text synchronisation\<close>

text \<open>
  Models the text functions of \<open>src/server/helpers.rs\<close>: applying the content changes of a
  client to the text of a document, and finding the range two versions of a text differ in.
  A range that cannot be applied is an error value; an index that Rust would refuse to slice at
  is \<open>None\<close>.
\<close>

subsection \<open>Content changes\<close>

record content_change =
  change_range :: "range option"
  change_text :: string

datatype change_error_reason =
  CHANGE_RANGE_OUTSIDE_DOCUMENT | CHANGE_RANGE_START_AFTER_END | CHANGE_RANGE_NON_BOUNDARY

record content_change_error =
  cce_range :: range
  cce_reason :: change_error_reason

definition replace_range :: "nat \<Rightarrow> nat \<Rightarrow> string \<Rightarrow> string \<Rightarrow> string" where
  "replace_range start stop new s = take start s @ new @ drop stop s"

definition apply_content_change :: "string \<Rightarrow> content_change \<Rightarrow> content_change_error + string" where
  "apply_content_change s change =
     (case change_range change of
        None \<Rightarrow> Inr (change_text change)
      | Some r \<Rightarrow>
          (case byte_offset_at s (range_start r) of
             None \<Rightarrow> Inl \<lparr>cce_range = r, cce_reason = CHANGE_RANGE_OUTSIDE_DOCUMENT\<rparr>
           | Some start \<Rightarrow>
               (case byte_offset_at s (range_end r) of
                  None \<Rightarrow> Inl \<lparr>cce_range = r, cce_reason = CHANGE_RANGE_OUTSIDE_DOCUMENT\<rparr>
                | Some stop \<Rightarrow>
                    if start > stop then
                      Inl \<lparr>cce_range = r, cce_reason = CHANGE_RANGE_START_AFTER_END\<rparr>
                    else if \<not> is_char_boundary s start \<or> \<not> is_char_boundary s stop then
                      Inl \<lparr>cce_range = r, cce_reason = CHANGE_RANGE_NON_BOUNDARY\<rparr>
                    else Inr (replace_range start stop (change_text change) s))))"

fun content_changes_loop ::
  "content_change list \<Rightarrow> string \<Rightarrow> range option \<Rightarrow> content_change_error + (string \<times> range option)" where
  "content_changes_loop [] s latest_range = Inr (s, latest_range)"
| "content_changes_loop (change # changes) s latest_range =
     (case apply_content_change s change of
        Inl e \<Rightarrow> Inl e
      | Inr s' \<Rightarrow> content_changes_loop changes s' (change_range change))"

definition text_after_content_changes ::
  "string option \<Rightarrow> content_change list \<Rightarrow> content_change_error + (string \<times> range option)" where
  "text_after_content_changes previous_text changes =
     content_changes_loop changes (unwrap_or [] previous_text) None"

subsection \<open>The range two texts differ in\<close>

fun prefix_loop :: "string list \<Rightarrow> string list \<Rightarrow> nat \<Rightarrow> nat" where
  "prefix_loop (l # ls) (r # rs) n = (if l \<noteq> r then n else prefix_loop ls rs (n + length l))"
| "prefix_loop _ _ n = n"

definition common_prefix_byte_len :: "string \<Rightarrow> string \<Rightarrow> nat" where
  "common_prefix_byte_len left right = prefix_loop (utf8_chars left) (utf8_chars right) 0"

definition common_suffix_byte_len :: "string \<Rightarrow> string \<Rightarrow> nat" where
  "common_suffix_byte_len left_tail right_tail =
     prefix_loop (rev (utf8_chars left_tail)) (rev (utf8_chars right_tail)) 0"

text \<open>The loop of \<open>position_at_byte_offset\<close> over the characters with their byte index; the line
  counter is a \<open>u32\<close>.\<close>

fun position_loop :: "string list \<Rightarrow> nat \<Rightarrow> nat \<Rightarrow> u32 \<Rightarrow> nat \<Rightarrow> u32 \<times> nat" where
  "position_loop [] index offset line line_start = (line, line_start)"
| "position_loop (ch # chars) index offset line line_start =
     (if index \<ge> offset then (line, line_start)
      else if ch = [NEWLINE] then
        position_loop chars (index + length ch) offset (line + 1) (index + length ch)
      else position_loop chars (index + length ch) offset line line_start)"

definition position_at_byte_offset :: "string \<Rightarrow> nat \<Rightarrow> position option" where
  "position_at_byte_offset source off =
     (let offset = min off (length source);
          (line, line_start) = position_loop (utf8_chars source) 0 offset 0 0 in
      if is_char_boundary source line_start \<and> is_char_boundary source offset \<and> line_start \<le> offset then
        Some \<lparr>pos_line = line,
              pos_character = u32_or_default (char_count (take (offset - line_start) (drop line_start source)))\<rparr>
      else None)"

definition changed_range_between_texts :: "string \<Rightarrow> string \<Rightarrow> range option option" where
  "changed_range_between_texts previous current =
     (if previous = current then Some None
      else
        (let pre = common_prefix_byte_len previous current;
             suf = common_suffix_byte_len (drop pre previous) (drop pre current);
             end_offset = length current - suf in
         Option.bind (position_at_byte_offset current pre) (\<lambda>start.
         Option.bind (position_at_byte_offset current end_offset) (\<lambda>stop.
           Some (Some \<lparr>range_start = start, range_end = stop\<rparr>)))))"

subsection \<open>Positions and offsets are inverse\<close>

lemma length_concat_nonempty: "\<forall>c \<in> set cs. c \<noteq> [] \<Longrightarrow> length cs \<le> length (concat cs)"
proof (induction cs)
  case (Cons c cs)
  then show ?case by (cases c) auto
qed simp

lemma char_count_le: "char_count s \<le> length s"
  using length_concat_nonempty [of "utf8_chars s"] utf8_chars_shape by (auto simp: char_count_def)

lemma unat_u32_or_default: "n < 2 ^ 32 \<Longrightarrow> unat (u32_or_default n) = n"
  by (simp add: u32_or_default_def u32_try_from_def unat_of_nat)

text \<open>Where the last line of a text starts.\<close>

definition last_line_start :: "string \<Rightarrow> nat" where
  "last_line_start s = length s - length (takeWhile (\<lambda>c. c \<noteq> NEWLINE) (rev s))"

lemma last_line_start_append:
  "NEWLINE \<in> set s \<Longrightarrow> last_line_start (x @ s) = length x + last_line_start s"
proof -
  assume nl: "NEWLINE \<in> set s"
  then have "takeWhile (\<lambda>c. c \<noteq> NEWLINE) (rev s @ rev x) = takeWhile (\<lambda>c. c \<noteq> NEWLINE) (rev s)"
    by (intro takeWhile_append1 [of NEWLINE]) auto
  moreover have "length (takeWhile (\<lambda>c. c \<noteq> NEWLINE) (rev s)) \<le> length s"
    using length_takeWhile_le [of _ "rev s"] by simp
  ultimately show ?thesis by (simp add: last_line_start_def)
qed

lemma last_line_start_split:
  "a = [] \<or> last a = NEWLINE \<Longrightarrow> NEWLINE \<notin> set m \<Longrightarrow> last_line_start (a @ m) = length a"
proof -
  assume a: "a = [] \<or> last a = NEWLINE" and m: "NEWLINE \<notin> set m"
  have "takeWhile (\<lambda>c. c \<noteq> NEWLINE) (rev m @ rev a) = rev m @ takeWhile (\<lambda>c. c \<noteq> NEWLINE) (rev a)"
    using m by (intro takeWhile_append2) auto
  moreover have "takeWhile (\<lambda>c. c \<noteq> NEWLINE) (rev a) = []"
    using a by (cases "rev a") (auto simp: last_rev rev_swap)
  ultimately show ?thesis by (simp add: last_line_start_def)
qed

lemma position_loop_eq:
  "list_all utf8_char P \<Longrightarrow>
     position_loop (P @ Q) index (index + length (concat P)) line ls =
     (line + of_nat (length (filter (\<lambda>c. c = NEWLINE) (concat P))),
      if NEWLINE \<in> set (concat P) then index + last_line_start (concat P) else ls)"
proof (induction P arbitrary: index line ls)
  case Nil
  then show ?case by (cases Q) auto
next
  case (Cons ch P)
  have ch: "utf8_char ch" "list_all utf8_char P" using Cons.prems by simp_all
  then have "ch \<noteq> []" by (auto simp: utf8_char_def)
  then have step: "position_loop ((ch # P) @ Q) index (index + length (concat (ch # P))) line ls =
      position_loop (P @ Q) (index + length ch) ((index + length ch) + length (concat P))
        (if ch = [NEWLINE] then line + 1 else line)
        (if ch = [NEWLINE] then index + length ch else ls)"
    by (simp add: add.assoc)
  have count: "length (filter (\<lambda>c. c = NEWLINE) ch) = (if ch = [NEWLINE] then 1 else 0)"
  proof (cases "NEWLINE \<in> set ch")
    case True
    then have "ch = [NEWLINE]" by (rule utf8_char_newline_mem [OF ch(1)])
    then show ?thesis by simp
  next
    case False
    then have "filter (\<lambda>c. c = NEWLINE) ch = []" "ch \<noteq> [NEWLINE]" by (auto simp: filter_empty_conv)
    then show ?thesis by simp
  qed
  have start: "last_line_start (ch @ concat P) =
      (if NEWLINE \<in> set (concat P) then length ch + last_line_start (concat P) else length ch)"
    if "NEWLINE \<in> set (ch @ concat P)"
  proof (cases "NEWLINE \<in> set (concat P)")
    case True
    then show ?thesis by (simp only: last_line_start_append if_True)
  next
    case False
    with that have "NEWLINE \<in> set ch" by simp
    then have "ch = [NEWLINE]" by (rule utf8_char_newline_mem [OF ch(1)])
    then have "last_line_start (ch @ concat P) = length ch"
      using False by (intro last_line_start_split) auto
    with False show ?thesis by simp
  qed
  define C where "C = concat P"
  have cc: "concat (ch # P) = ch @ C" by (simp add: C_def)
  have mem: "NEWLINE \<in> set (ch @ C) \<longleftrightarrow> ch = [NEWLINE] \<or> NEWLINE \<in> set C"
  proof
    assume "NEWLINE \<in> set (ch @ C)"
    then show "ch = [NEWLINE] \<or> NEWLINE \<in> set C"
      using utf8_char_newline_mem [OF ch(1)] by (metis Un_iff set_append)
  qed auto
  have cnt: "length (filter (\<lambda>c. c = NEWLINE) (ch @ C)) =
      (if ch = [NEWLINE] then 1 else 0) + length (filter (\<lambda>c. c = NEWLINE) C)"
    using count by simp
  note IH = Cons.IH [OF ch(2), folded C_def] and start' = start [folded C_def]
  have eq1: "line + 1 + of_nat n = line + of_nat (1 + n)" for n by simp
  show ?case
    unfolding step unfolding C_def [symmetric] unfolding IH cc mem cnt
    using start' mem by (cases "ch = [NEWLINE]") (auto simp: algebra_simps)
qed

lemma at_boundary_append: "at_boundary a \<Longrightarrow> at_boundary b \<Longrightarrow> at_boundary (a @ b)"
  by (cases a) (simp_all add: at_boundary_def)

lemma at_boundary_takeWhile: "at_boundary s \<Longrightarrow> at_boundary (takeWhile P s)"
  by (cases s) (simp_all add: at_boundary_def)

lemma byte_offset_for_prefix:
  "at_boundary r \<Longrightarrow> byte_offset_for_character (m @ r) (char_count m) = Some (length m)"
  by (simp add: byte_offset_for_character_iff char_count_append utf8_chars_append)
     (simp add: char_count_def)

text \<open>A text cut at a boundary: whole lines, the beginning of a line, the rest.\<close>

lemma boundary_cut:
  assumes "utf8 s" "k \<le> length s" "at_boundary (drop k s)"
  obtains a m where "take k s = a @ m" "a = [] \<or> last a = NEWLINE" "NEWLINE \<notin> set m"
    "at_boundary m" "utf8 a" "utf8 m" "utf8 (drop k s)"
proof -
  have "utf8 (take k s)" "utf8 (drop k s)"
    using assms utf8_append [of "drop k s" "take k s"] by simp_all
  moreover obtain a m where "take k s = a @ m" "a = [] \<or> last a = NEWLINE" "NEWLINE \<notin> set m"
    using split_last_line by blast
  ultimately show ?thesis using that utf8_last_line [of a m] by auto
qed

lemma position_at_cut:
  assumes "utf8 s" "k \<le> length s" "at_boundary (drop k s)"
    and am: "take k s = a @ m" "a = [] \<or> last a = NEWLINE" "NEWLINE \<notin> set m" "at_boundary m"
  shows "position_at_byte_offset s k =
     Some \<lparr>pos_line = of_nat (length (filter (\<lambda>c. c = NEWLINE) a)),
           pos_character = u32_or_default (char_count m)\<rparr>"
proof -
  let ?r = "drop k s"
  have s: "s = a @ m @ ?r" using am(1) by (metis append.assoc append_take_drop_id)
  have chars: "utf8_chars s = utf8_chars (take k s) @ utf8_chars ?r"
    using assms(3) by (rule utf8_chars_take)
  have valid: "list_all utf8_char (utf8_chars (take k s))"
    using assms(1) chars by (simp add: utf8_def)
  have k: "k = length (a @ m)" using am(1) assms(2) by (metis length_take min.absorb2)
  have nl: "NEWLINE \<in> set (a @ m) \<longleftrightarrow> a \<noteq> []"
    using am(2,3) last_in_set [of a] by (auto simp del: last_in_set)
  have "filter (\<lambda>c. c = NEWLINE) m = []" using am(3) by (auto simp: filter_empty_conv)
  with refl have loop: "position_loop (utf8_chars s) 0 k 0 0 =
      (of_nat (length (filter (\<lambda>c. c = NEWLINE) a)), length a)"
  proof -
    have eq: "position_loop (utf8_chars (a @ m) @ utf8_chars ?r) 0 k 0 0 =
        (0 + of_nat (length (filter (\<lambda>c. c = NEWLINE) (a @ m))),
         if NEWLINE \<in> set (a @ m) then 0 + last_line_start (a @ m) else 0)"
      using position_loop_eq [OF valid, of "utf8_chars ?r" 0 0 0]
      by (simp only: concat_utf8_chars am(1) add_0 k [symmetric])
    have "NEWLINE \<in> set (a @ m) \<Longrightarrow> last_line_start (a @ m) = length a"
      using am(2,3) by (rule last_line_start_split)
    with \<open>filter (\<lambda>c. c = NEWLINE) m = []\<close> nl show ?thesis
      unfolding chars am(1) eq by simp
  qed
  have sb: "at_boundary s" using assms(1) by (rule utf8_at_boundary)
  have d: "drop (length a) s = m @ ?r" by (subst s) simp
  have "is_char_boundary s (length a)"
    using k assms(2,3) am(4) by (simp add: is_char_boundary_iff [OF sb] d at_boundary_append)
  moreover have "is_char_boundary s k"
    using assms(2,3) by (simp add: is_char_boundary_iff [OF sb])
  moreover have "take (k - length a) (drop (length a) s) = m" unfolding d using k by simp
  ultimately show ?thesis
    using loop assms(2) k by (simp add: position_at_byte_offset_def Let_def)
qed

text \<open>A position in the line that starts after \<open>a\<close>.\<close>

lemma byte_offset_in_line:
  assumes "a = [] \<or> last a = NEWLINE" "NEWLINE \<notin> set m"
    and "length a < 2 ^ 32" "k < 2 ^ 32"
  shows "byte_offset_at (a @ m @ r)
       \<lparr>pos_line = of_nat (length (filter (\<lambda>c. c = NEWLINE) a)), pos_character = of_nat k\<rparr> =
     map_option (\<lambda>l. length a + l)
       (byte_offset_for_character (m @ takeWhile (\<lambda>c. c \<noteq> NEWLINE) r) k)"
proof -
  let ?s = "a @ m @ r" and ?n = "length (filter (\<lambda>c. c = NEWLINE) a)"
  let ?p = "\<lparr>pos_line = (of_nat ?n :: u32), pos_character = of_nat k\<rparr>"
  have "?n \<le> length a" by (rule length_filter_le)
  then have "?n < 2 ^ 32" using assms(3) by (rule le_less_trans)
  with assms(4) have n: "unat (of_nat ?n :: u32) = ?n" and c: "unat (of_nat k :: u32) = k"
    by (simp_all add: unat_of_nat)
  have at: "byte_offset_at ?s ?p =
      (if ?n < length (split_inclusive ?s) then
         map_option (\<lambda>l. length (concat (take ?n (split_inclusive ?s))) + l)
           (byte_offset_for_character (strip_newline (split_inclusive ?s ! ?n)) k)
       else if ?n = length (split_inclusive ?s) \<and> k = 0 then Some (length ?s) else None)"
    unfolding byte_offset_at_def offset_at_eq Let_def position.simps n c ..
  have pieces: "split_inclusive ?s = split_inclusive a @ split_inclusive (m @ r)"
    using assms(1) by (rule split_inclusive_append)
  have len: "length (split_inclusive a) = ?n" using assms(1) by (rule length_split_inclusive)
  show ?thesis
  proof (cases "m @ r = []")
    case True
    then show ?thesis
      unfolding at by (simp add: pieces len byte_offset_for_character_def char_offset_def char_count_def or_else_def)
  next
    case False
    have "takeWhile (\<lambda>c. c \<noteq> NEWLINE) (m @ r) = m @ takeWhile (\<lambda>c. c \<noteq> NEWLINE) r"
      using assms(2) by (intro takeWhile_append2) auto
    with first_piece [OF False] have "split_inclusive (m @ r) \<noteq> []"
      "strip_newline (split_inclusive (m @ r) ! 0) = m @ takeWhile (\<lambda>c. c \<noteq> NEWLINE) r"
      by (metis list.distinct(1), metis list.distinct(1) hd_conv_nth)
    then show ?thesis
      unfolding at by (simp add: pieces nth_append flip: len)
  qed
qed

lemma position_offset_inverse:
  assumes "utf8 s" "k \<le> length s" "at_boundary (drop k s)" "length s < 2 ^ 32"
  shows "\<exists>p. position_at_byte_offset s k = Some p \<and> byte_offset_at s p = Some k"
proof -
  from boundary_cut [OF assms(1-3)] obtain a m where
    am: "take k s = a @ m" "a = [] \<or> last a = NEWLINE" "NEWLINE \<notin> set m" "at_boundary m" by metis
  have s: "s = a @ m @ drop k s" using am(1) by (metis append.assoc append_take_drop_id)
  have k: "k = length (a @ m)" using am(1) assms(2) by (metis length_take min.absorb2)
  then have small: "length a < 2 ^ 32" "char_count m < 2 ^ 32"
    using assms(2,4) char_count_le [of m] unfolding length_append by linarith+
  then have "u32_or_default (char_count m) = of_nat (char_count m)"
    by (simp add: u32_or_default_def u32_try_from_def)
  moreover have "byte_offset_for_character (m @ takeWhile (\<lambda>c. c \<noteq> NEWLINE) (drop k s)) (char_count m) =
      Some (length m)"
    using assms(3) by (intro byte_offset_for_prefix at_boundary_takeWhile)
  ultimately show ?thesis
    using position_at_cut [OF assms(1-3) am] byte_offset_in_line [OF am(2,3) small, of "drop k s"]
    by (simp only: k [symmetric] s [symmetric] option.map length_append) (simp add: k)
qed

subsection \<open>Applying changes\<close>

lemma byte_offset_at_split:
  "utf8 s \<Longrightarrow> byte_offset_at s p = Some k \<Longrightarrow> k \<le> length s \<and> at_boundary (drop k s) \<and> is_char_boundary s k"
  using offset_at_split [of s p k] is_char_boundary_iff [OF utf8_at_boundary, of s k]
  by (simp add: byte_offset_at_def)

lemma utf8_cut:
  "utf8 s \<Longrightarrow> at_boundary (drop k s) \<Longrightarrow> utf8 (take k s) \<and> utf8 (drop k s)"
  using utf8_append [of "drop k s" "take k s"] by simp

lemma utf8_join: "utf8 a \<Longrightarrow> utf8 b \<Longrightarrow> utf8 (a @ b)"
  by (simp add: utf8_append utf8_at_boundary)

lemma apply_content_change_utf8:
  assumes "utf8 s" "utf8 (change_text c)" "apply_content_change s c = Inr s'"
  shows "utf8 s'"
proof (cases "change_range c")
  case None
  with assms show ?thesis by (simp add: apply_content_change_def)
next
  case (Some r)
  with assms(3) obtain i j where ij: "byte_offset_at s (range_start r) = Some i"
      "byte_offset_at s (range_end r) = Some j" and s': "s' = replace_range i j (change_text c) s"
    by (auto simp: apply_content_change_def split: option.splits if_splits)
  from ij have "utf8 (take i s)" "utf8 (drop j s)"
    using byte_offset_at_split [OF assms(1)] utf8_cut [OF assms(1)] by blast+
  then show ?thesis unfolding s' replace_range_def using assms(2) by (simp add: utf8_join)
qed

lemma content_changes_loop_utf8:
  "utf8 s \<Longrightarrow> list_all (\<lambda>c. utf8 (change_text c)) changes \<Longrightarrow>
     content_changes_loop changes s r = Inr (s', r') \<Longrightarrow> utf8 s'"
proof (induction changes arbitrary: s r)
  case (Cons c changes)
  then show ?case
    using apply_content_change_utf8 [of s c] by (auto split: sum.splits)
qed simp

lemma apply_at_offsets:
  assumes "utf8 a" "utf8 b" "utf8 c"
    and "byte_offset_at (a @ b @ c) p = Some (length a)"
    and "byte_offset_at (a @ b @ c) q = Some (length a + length b)"
  shows "apply_content_change (a @ b @ c) \<lparr>change_range = Some \<lparr>range_start = p, range_end = q\<rparr>, change_text = new\<rparr> =
     Inr (a @ new @ c)"
proof -
  have "utf8 (a @ b @ c)" using assms by (simp add: utf8_join)
  from byte_offset_at_split [OF this assms(4)] byte_offset_at_split [OF this assms(5)] assms(4,5)
  show ?thesis by (simp add: apply_content_change_def replace_range_def)
qed

subsection \<open>Common prefix and suffix\<close>

lemma prefix_loop_eq:
  "prefix_loop ls rs n = n + length (concat (longest_common_prefix ls rs))"
  by (induction ls rs n rule: prefix_loop.induct) auto

lemma common_split:
  fixes ls rs :: "string list"
  obtains p l r where "ls = p @ l" "rs = p @ r" "prefix_loop ls rs 0 = length (concat p)"
    "l = [] \<or> r = [] \<or> hd l \<noteq> hd r"
proof -
  let ?p = "longest_common_prefix ls rs"
  obtain l r where lr: "ls = ?p @ l" "rs = ?p @ r"
    by (metis longest_common_prefix_prefix1 longest_common_prefix_prefix2 prefixE)
  have "l = [] \<or> r = [] \<or> hd l \<noteq> hd r"
  proof (rule ccontr)
    assume "\<not> ?thesis"
    then obtain x l' r' where "l = x # l'" "r = x # r'" by (cases l; cases r) auto
    then have "prefix (?p @ [x]) ls" "prefix (?p @ [x]) rs"
      using lr by (metis append.assoc append_Cons append_Nil prefixI)+
    then have "prefix (?p @ [x]) ?p" by (rule longest_common_prefix_max_prefix)
    then show False by (simp add: prefix_def)
  qed
  with that lr show ?thesis by (simp add: prefix_loop_eq)
qed


lemma length_concat_rev: "length (concat (rev cs)) = length (concat cs)"
  by (simp add: length_concat rev_map [symmetric])

text \<open>Where two texts begin to differ and where they stop.\<close>

definition differ_at :: "string list \<Rightarrow> string list \<Rightarrow> string list \<Rightarrow> string list \<Rightarrow> bool" where
  "differ_at pre old new suf \<longleftrightarrow>
     (old = [] \<or> new = [] \<or> last old \<noteq> last new) \<and>
     (old @ suf = [] \<or> new @ suf = [] \<or> hd (old @ suf) \<noteq> hd (new @ suf))"

lemma texts_decompose:
  assumes "utf8 previous" "utf8 current"
  obtains pre old new suf where
    "utf8_chars previous = pre @ old @ suf" "utf8_chars current = pre @ new @ suf"
    "common_prefix_byte_len previous current = length (concat pre)"
    "common_suffix_byte_len (drop (length (concat pre)) previous) (drop (length (concat pre)) current) =
       length (concat suf)"
    "differ_at pre old new suf"
proof -
  obtain p l r where p: "utf8_chars previous = p @ l" "utf8_chars current = p @ r"
      "common_prefix_byte_len previous current = length (concat p)" "l = [] \<or> r = [] \<or> hd l \<noteq> hd r"
    using common_split by (metis common_prefix_byte_len_def)
  have valid: "list_all utf8_char l" "list_all utf8_char r"
    using assms p by (simp_all add: utf8_def)
  have "previous = concat p @ concat l" "current = concat p @ concat r"
    using p(1,2) by (metis concat_utf8_chars concat_append)+
  then have tails: "drop (length (concat p)) previous = concat l" "drop (length (concat p)) current = concat r"
    by simp_all
  obtain q l' r' where q: "rev l = q @ l'" "rev r = q @ r'" "prefix_loop (rev l) (rev r) 0 = length (concat q)"
      "l' = [] \<or> r' = [] \<or> hd l' \<noteq> hd r'"
    by (rule common_split)
  have lr: "l = rev l' @ rev q" "r = rev r' @ rev q"
    using q(1,2) by (metis rev_append rev_rev_ident)+
  have "differ_at p (rev l') (rev r') (rev q)"
    using p(4) q(4) lr by (simp add: differ_at_def last_rev)
  moreover have "common_suffix_byte_len (concat l) (concat r) = length (concat (rev q))"
    using q(3) valid by (simp add: common_suffix_byte_len_def utf8_chars_concat length_concat_rev)
  ultimately show ?thesis
    using that [of p "rev l'" "rev q" "rev r'"] p(1-3) lr by (simp only: tails)
qed


lemma changed_range_eq:
  assumes "utf8 previous" "utf8 current" "length current < 2 ^ 32" "previous \<noteq> current"
  obtains pre old new suf start stop where
    "utf8_chars previous = pre @ old @ suf" "utf8_chars current = pre @ new @ suf"
    "differ_at pre old new suf"
    "changed_range_between_texts previous current = Some (Some \<lparr>range_start = start, range_end = stop\<rparr>)"
    "byte_offset_at current start = Some (length (concat pre))"
    "byte_offset_at current stop = Some (length (concat pre) + length (concat new))"
proof -
  obtain pre old new suf where d:
    "utf8_chars previous = pre @ old @ suf" "utf8_chars current = pre @ new @ suf"
    "common_prefix_byte_len previous current = length (concat pre)"
    "common_suffix_byte_len (drop (length (concat pre)) previous) (drop (length (concat pre)) current) =
       length (concat suf)"
    "differ_at pre old new suf"
    using texts_decompose [OF assms(1,2)] by metis
  have cur: "current = concat pre @ concat new @ concat suf"
    using d(2) by (metis concat_utf8_chars concat_append)
  have valid: "utf8 (concat new @ concat suf)" "utf8 (concat suf)"
    using assms(2) d(2) utf8_chars_concat [of "new @ suf"] utf8_chars_concat [of suf] by (simp_all add: utf8_def)
  let ?i = "length (concat pre)" and ?j = "length (concat pre) + length (concat new)"
  have cuts: "drop ?i current = concat new @ concat suf" "drop ?j current = concat suf"
    and le: "?i \<le> length current" "?j \<le> length current" by (simp_all add: cur)
  obtain p where p: "position_at_byte_offset current ?i = Some p" "byte_offset_at current p = Some ?i"
    using position_offset_inverse [OF assms(2) le(1) _ assms(3)] utf8_at_boundary [OF valid(1)]
    unfolding cuts(1) by metis
  obtain q where q: "position_at_byte_offset current ?j = Some q" "byte_offset_at current q = Some ?j"
    using position_offset_inverse [OF assms(2) le(2) _ assms(3)] utf8_at_boundary [OF valid(2)]
    unfolding cuts(2) by metis
  have "length current - length (concat suf) = ?j" by (simp add: cur)
  then have "changed_range_between_texts previous current = Some (Some \<lparr>range_start = p, range_end = q\<rparr>)"
    using assms(4) p(1) q(1) by (simp add: changed_range_between_texts_def d(3,4) Let_def)
  with that d p q show ?thesis by blast
qed


lemma utf16_units_bounds:
  "char_count s \<le> utf16_units s \<and>
   (utf16_units s = char_count s \<longleftrightarrow> list_all (\<lambda>c. length c \<noteq> 4) (utf8_chars s))"
proof -
  have "length cs \<le> sum_list (map (\<lambda>c. if length c = 4 then 2 else 1) cs) \<and>
      (sum_list (map (\<lambda>c. if length c = 4 then 2 else 1) cs) = length cs \<longleftrightarrow> list_all (\<lambda>c. length c \<noteq> 4) cs)"
    for cs :: "string list"
    by (induction cs) auto
  then show ?thesis unfolding utf16_units_def char_count_def by blast
qed

lemma utf16_column_exact:
  assumes "at_boundary r"
  shows "byte_offset_for_character (m @ r) (utf16_units m) = Some (length m) \<longleftrightarrow>
     list_all (\<lambda>c. length c \<noteq> 4) (utf8_chars m)"
proof -
  let ?u = "utf16_units m" and ?d = "utf16_units m - char_count m"
  have u: "char_count m \<le> ?u" using utf16_units_bounds by blast
  then have "take ?u (utf8_chars (m @ r)) = utf8_chars m @ take ?d (utf8_chars r)"
    by (simp add: utf8_chars_append [OF assms] char_count_def)
  then have "length (concat (take ?u (utf8_chars (m @ r)))) = length m + length (concat (take ?d (utf8_chars r)))"
    by simp
  moreover have "concat (take ?d (utf8_chars r)) = [] \<longleftrightarrow> ?d = 0 \<or> r = []"
    using utf8_chars_shape [of _ r] by (cases "utf8_chars r"; cases ?d) auto
  ultimately have "byte_offset_for_character (m @ r) ?u = Some (length m) \<longleftrightarrow>
      ?u \<le> char_count m + char_count r \<and> (?d = 0 \<or> r = [])"
    by (auto simp: byte_offset_for_character_iff char_count_append [OF assms])
  also have "\<dots> \<longleftrightarrow> ?u = char_count m" using u by (auto simp: char_count_def)
  finally show ?thesis using utf16_units_bounds by blast
qed

subsection \<open>Properties\<close>



text \<open>Of the three errors an edit can be rejected with, a range that is not on a character boundary
  is never reported for a text that is valid UTF-8: positions are counted in characters.\<close>

theorem non_boundary_unreachable:
  assumes "utf8 s"
  shows "apply_content_change s c \<noteq> Inl \<lparr>cce_range = r, cce_reason = CHANGE_RANGE_NON_BOUNDARY\<rparr>"
  using byte_offset_at_split [OF assms]
  by (auto simp: apply_content_change_def split: option.splits if_splits)

theorem non_boundary_unreachable_witness:
  "apply_content_change (map char_of [195, 169 :: nat])
     \<lparr>change_range = Some \<lparr>range_start = \<lparr>pos_line = 0, pos_character = 1\<rparr>,
                            range_end = \<lparr>pos_line = 0, pos_character = 1\<rparr>\<rparr>, change_text = []\<rparr> \<noteq>
   Inl \<lparr>cce_range = \<lparr>range_start = \<lparr>pos_line = 0, pos_character = 1\<rparr>,
                     range_end = \<lparr>pos_line = 0, pos_character = 1\<rparr>\<rparr>, cce_reason = CHANGE_RANGE_NON_BOUNDARY\<rparr>"
  by (rule non_boundary_unreachable) code_simp

text \<open>C10: Replacing what stands between two character boundaries of a text: both have a position,
  and the edit with this range leaves what is before and after untouched.\<close>

theorem replace_between_boundaries:
  assumes "utf8 a" "utf8 b" "utf8 c" "length (a @ b @ c) < 2 ^ 32"
  shows "\<exists>p q. position_at_byte_offset (a @ b @ c) (length a) = Some p \<and>
     position_at_byte_offset (a @ b @ c) (length (a @ b)) = Some q \<and>
     apply_content_change (a @ b @ c)
       \<lparr>change_range = Some \<lparr>range_start = p, range_end = q\<rparr>, change_text = new\<rparr> = Inr (a @ new @ c)"
proof -
  have s: "utf8 (a @ b @ c)" "at_boundary (b @ c)" "at_boundary c"
    using assms(1-3) by (simp_all add: utf8_join utf8_at_boundary)
  obtain p where p: "position_at_byte_offset (a @ b @ c) (length a) = Some p"
      "byte_offset_at (a @ b @ c) p = Some (length a)"
    using position_offset_inverse [OF s(1) _ _ assms(4), of "length a"] s(2) by auto
  obtain q where q: "position_at_byte_offset (a @ b @ c) (length (a @ b)) = Some q"
      "byte_offset_at (a @ b @ c) q = Some (length a + length b)"
    using position_offset_inverse [OF s(1) _ _ assms(4), of "length (a @ b)"] s(3) by auto
  from p q apply_at_offsets [OF assms(1-3) p(2) q(2)] show ?thesis by blast
qed

theorem replace_between_boundaries_witness:
  "\<exists>p q. position_at_byte_offset ''abc'' (length ''a'') = Some p \<and>
     position_at_byte_offset ''abc'' (length ''ab'') = Some q \<and>
     apply_content_change ''abc''
       \<lparr>change_range = Some \<lparr>range_start = p, range_end = q\<rparr>, change_text = ''x''\<rparr> = Inr ''axc''"
proof -
  have "utf8 ''a''" "utf8 ''b''" "utf8 ''c''" by code_simp+
  from replace_between_boundaries [OF this, of "''x''"] show ?thesis by simp
qed

text \<open>C2: The range in which two versions of a text differ is computed without a panic, for every
  pair of texts; it is exactly the part between their longest common beginning and the longest common
  end of what follows, so that replacing it by the old characters gives back the old text.\<close>

theorem changed_range_exact:
  assumes "utf8 previous" "utf8 current" "length current < 2 ^ 32" "previous \<noteq> current"
  shows "\<exists>pre old new suf r.
     changed_range_between_texts previous current = Some (Some r) \<and>
     utf8_chars previous = pre @ old @ suf \<and> utf8_chars current = pre @ new @ suf \<and>
     differ_at pre old new suf \<and>
     apply_content_change current \<lparr>change_range = Some r, change_text = concat old\<rparr> = Inr previous"
proof -
  obtain pre old new suf start stop where d:
    "utf8_chars previous = pre @ old @ suf" "utf8_chars current = pre @ new @ suf"
    "differ_at pre old new suf"
    "changed_range_between_texts previous current = Some (Some \<lparr>range_start = start, range_end = stop\<rparr>)"
    "byte_offset_at current start = Some (length (concat pre))"
    "byte_offset_at current stop = Some (length (concat pre) + length (concat new))"
    using changed_range_eq [OF assms] by metis
  have texts: "previous = concat pre @ concat old @ concat suf" "current = concat pre @ concat new @ concat suf"
    using d(1,2) by (metis concat_utf8_chars concat_append)+
  have "utf8 (concat pre)" "utf8 (concat new)" "utf8 (concat suf)"
    using assms(2) d(2) utf8_chars_concat by (simp_all add: utf8_def)
  from apply_at_offsets [OF this, of start stop "concat old"] d texts show ?thesis by metis
qed

theorem changed_range_exact_witness:
  "\<exists>pre old new suf r.
     changed_range_between_texts ''abc'' ''axc'' = Some (Some r) \<and>
     utf8_chars ''abc'' = pre @ old @ suf \<and> utf8_chars ''axc'' = pre @ new @ suf \<and>
     differ_at pre old new suf \<and>
     apply_content_change ''axc'' \<lparr>change_range = Some r, change_text = concat old\<rparr> = Inr ''abc''"
proof (rule changed_range_exact)
  show "utf8 ''abc''" by code_simp
  show "utf8 ''axc''" by code_simp
qed simp_all

text \<open>A client that counts columns in UTF-16 code units, as the protocol prescribes when no other
  encoding is negotiated, and that points behind \<open>m\<close> in its line, is understood exactly if \<open>m\<close> has no
  character outside the basic plane.\<close>

theorem utf16_column_understood_iff:
  assumes "a = [] \<or> last a = NEWLINE" "NEWLINE \<notin> set m" "utf8 r"
    and "length a < 2 ^ 32" "utf16_units m < 2 ^ 32"
  shows "byte_offset_at (a @ m @ r)
      \<lparr>pos_line = of_nat (length (filter (\<lambda>c. c = NEWLINE) a)), pos_character = of_nat (utf16_units m)\<rparr> =
        Some (length a + length m) \<longleftrightarrow>
     list_all (\<lambda>c. length c \<noteq> 4) (utf8_chars m)"
  using byte_offset_in_line [OF assms(1,2,4,5), of r]
    utf16_column_exact [OF at_boundary_takeWhile [OF utf8_at_boundary [OF assms(3)]], of m] by simp

theorem utf16_column_understood_iff_witness:
  "byte_offset_at (map char_of [10, 240, 159, 152, 128, 98 :: nat]) \<lparr>pos_line = 1, pos_character = 2\<rparr> \<noteq> Some 5"
proof -
  let ?a = "map char_of [10 :: nat]" and ?m = "map char_of [240, 159, 152, 128 :: nat]"
    and ?r = "map char_of [98 :: nat]"
  let ?p = "\<lparr>pos_line = (of_nat (length (filter (\<lambda>c. c = NEWLINE) ?a)) :: u32),
             pos_character = of_nat (utf16_units ?m)\<rparr>"
  have nl: "last ?a = NEWLINE" "NEWLINE \<notin> set ?m" "utf8 ?r" by code_simp+
  have units: "utf16_units ?m = 2" "length (filter (\<lambda>c. c = NEWLINE) ?a) = 1" by code_simp+
  have "\<not> list_all (\<lambda>c. length c \<noteq> 4) (utf8_chars ?m)" by code_simp
  moreover have "length ?a < 2 ^ 32" "utf16_units ?m < 2 ^ 32" unfolding units by simp_all
  ultimately have "byte_offset_at (?a @ ?m @ ?r) ?p \<noteq> Some (length ?a + length ?m)"
    using utf16_column_understood_iff [OF disjI2 [OF nl(1)] nl(2,3)] by blast
  moreover have "?p = \<lparr>pos_line = 1, pos_character = 2\<rparr>" unfolding units by simp
  moreover have "?a @ ?m @ ?r = map char_of [10, 240, 159, 152, 128, 98 :: nat]"
    "length ?a + length ?m = 5" by simp_all
  ultimately show ?thesis by (simp only: not_False_eq_True)
qed

end
