(* ===== verification/Query_Cache.thy ===== *)
theory Query_Cache
  imports Workspace_Index
begin

section \<open>The query cache and the publish epoch\<close>

text \<open>
  Models \<open>src/runtime/query_cache/mod.rs\<close>, the cache of query results tagged with a document
  version, and \<open>src/server/code_action_epoch.rs\<close>, the counter of publications whose value tags
  cached code actions.  A \<open>DashMap\<close> is a finite map.  The results the cache only stores (hover
  texts, completion items, tokens, hints) are the JSON the protocol sends for them.
\<close>

subsection \<open>What a versioned cache promises\<close>

text \<open>Keys belong to a document; a lookup may evict the entry it finds outdated.\<close>

datatype ('k, 'd, 'v) cache_op =
  Insert 'k i32 'v | Lookup 'k i32 | Invalidate 'd

locale versioned_cache =
  fixes empty :: 'c
    and get :: "'k \<Rightarrow> i32 \<Rightarrow> 'c \<Rightarrow> 'v option \<times> 'c"
    and insert :: "'k \<Rightarrow> i32 \<Rightarrow> 'v \<Rightarrow> 'c \<Rightarrow> 'c"
    and invalidate :: "'d \<Rightarrow> 'c \<Rightarrow> 'c"
    and document :: "'k \<Rightarrow> 'd"
  assumes get_empty: "fst (get k v empty) = None"
    and get_insert:
      "fst (get k v (insert j w x c)) = (if j = k then if w = v then Some x else None else fst (get k v c))"
    and get_get:
      "fst (get k v (snd (get j w c))) = (if j = k \<and> w \<noteq> v \<and> fst (get k w c) = None then None else fst (get k v c))"
    and get_invalidate:
      "fst (get k v (invalidate d c)) = (if document k = d then None else fst (get k v c))"
    and get_one_version:
      "fst (get k v c) = Some x \<Longrightarrow> fst (get k w c) \<noteq> None \<longleftrightarrow> w = v"
begin

fun apply_op :: "('k, 'd, 'v) cache_op \<Rightarrow> 'c \<Rightarrow> 'c" where
  "apply_op (Insert k v x) c = insert k v x c"
| "apply_op (Lookup k v) c = snd (get k v c)"
| "apply_op (Invalidate d) c = invalidate d c"

text \<open>The operations that make an entry for \<open>k\<close> at version \<open>v\<close> unavailable.\<close>

fun drops :: "'k \<Rightarrow> i32 \<Rightarrow> ('k, 'd, 'v) cache_op \<Rightarrow> bool" where
  "drops k v (Insert j w x) \<longleftrightarrow> j = k"
| "drops k v (Lookup j w) \<longleftrightarrow> j = k \<and> w \<noteq> v"
| "drops k v (Invalidate d) \<longleftrightarrow> document k = d"

lemma get_op:
  "fst (get k v (apply_op e c)) = Some x \<longleftrightarrow>
     e = Insert k v x \<or> \<not> drops k v e \<and> fst (get k v c) = Some x"
proof (cases e)
  case (Lookup j w)
  then show ?thesis
    using get_one_version [of k v c x w] by (auto simp: get_get)
qed (auto simp: get_insert get_invalidate)

theorem hit_iff:
  "fst (get k v (fold apply_op es empty)) = Some x \<longleftrightarrow>
     (\<exists>before after. es = before @ Insert k v x # after \<and> \<not> list_ex (drops k v) after)"
proof (induction es rule: rev_induct)
  case Nil
  show ?case by (simp add: get_empty)
next
  case (snoc e es)
  have "(\<exists>before after. es @ [e] = before @ Insert k v x # after \<and> \<not> list_ex (drops k v) after) \<longleftrightarrow>
      e = Insert k v x \<or>
      \<not> drops k v e \<and> (\<exists>before after. es = before @ Insert k v x # after \<and> \<not> list_ex (drops k v) after)"
    (is "?l \<longleftrightarrow> ?r")
  proof
    assume ?l
    then obtain b a where ba: "es @ [e] = b @ Insert k v x # a" "\<not> list_ex (drops k v) a" by blast
    then show ?r by (cases a rule: rev_cases) auto
  next
    assume ?r
    then show ?l
    proof
      assume "e = Insert k v x"
      then show ?l by (intro exI [of _ es] exI [of _ "[]"]) simp
    next
      assume r: "\<not> drops k v e \<and> (\<exists>before after. es = before @ Insert k v x # after \<and> \<not> list_ex (drops k v) after)"
      then obtain b a where "es = b @ Insert k v x # a" "\<not> list_ex (drops k v) a" by blast
      with r show ?l by (intro exI [of _ b] exI [of _ "a @ [e]"]) simp
    qed
  qed
  then show ?case by (simp add: get_op snoc.IH)
qed

end

subsection \<open>Keys, values and entries\<close>

datatype query_kind =
  QDiagnostics
  | QHover position
  | QCompletion position
  | QGotoDefinition position
  | QDocumentSymbols
  | QFoldingRanges
  | QInlayHints range
  | QSemanticTokens
  | QCodeActions url

record cache_key =
  ck_uri :: url
  ck_kind :: query_kind

datatype cache_value =
  CvDiagnostics "diagnostic list"
  | CvHover "json option"
  | CvCompletion "json list option"
  | CvGotoDefinition "location option"
  | CvDocumentSymbols "json list"
  | CvFoldingRanges "json list"
  | CvInlayHints "json list"
  | CvSemanticTokens json
  | CvCodeActions "json list"

record cache_entry =
  document_version :: i32
  ce_value :: cache_value

text \<open>The words a key feeds to the hasher: the discriminant, then the fields.\<close>

fun hash_words :: "query_kind \<Rightarrow> nat \<times> u32 list \<times> string" where
  "hash_words QDiagnostics = (0, [], [])"
| "hash_words (QHover p) = (1, [pos_line p, pos_character p], [])"
| "hash_words (QCompletion p) = (2, [pos_line p, pos_character p], [])"
| "hash_words (QGotoDefinition p) = (3, [pos_line p, pos_character p], [])"
| "hash_words QDocumentSymbols = (4, [], [])"
| "hash_words QFoldingRanges = (5, [], [])"
| "hash_words (QInlayHints r) =
     (6, [pos_line (range_start r), pos_character (range_start r),
          pos_line (range_end r), pos_character (range_end r)], [])"
| "hash_words QSemanticTokens = (7, [], [])"
| "hash_words (QCodeActions uri) = (8, [], uri)"

text \<open>The hand-written hash separates exactly the keys that differ.\<close>

lemma hash_words_inject: "hash_words a = hash_words b \<longleftrightarrow> a = b"
  by (cases a; cases b) (auto simp: position.equality range.equality)

subsection \<open>The cache\<close>

type_synonym query_cache = "url \<Rightarrow> (query_kind \<Rightarrow> cache_entry option) option"

definition cache_new :: query_cache where
  "cache_new = (\<lambda>_. None)"

definition cache_get :: "cache_key \<Rightarrow> i32 \<Rightarrow> query_cache \<Rightarrow> cache_value option \<times> query_cache" where
  "cache_get key current_version cache =
     (case cache (ck_uri key) of
        None \<Rightarrow> (None, cache)
      | Some entries \<Rightarrow>
          (case entries (ck_kind key) of
             None \<Rightarrow> (None, cache)
           | Some entry \<Rightarrow>
               if document_version entry = current_version then (Some (ce_value entry), cache)
               else (None, cache(ck_uri key := Some (entries(ck_kind key := None))))))"

definition cache_insert :: "cache_key \<Rightarrow> i32 \<Rightarrow> cache_value \<Rightarrow> query_cache \<Rightarrow> query_cache" where
  "cache_insert key version v cache =
     cache(ck_uri key :=
       Some ((unwrap_or (\<lambda>_. None) (cache (ck_uri key)))
         (ck_kind key := Some \<lparr>document_version = version, ce_value = v\<rparr>)))"

definition invalidate_for_uri :: "url \<Rightarrow> query_cache \<Rightarrow> query_cache" where
  "invalidate_for_uri uri cache = cache(uri := None)"

definition cache_entry_of :: "cache_key \<Rightarrow> query_cache \<Rightarrow> cache_entry option" where
  "cache_entry_of key cache = Option.bind (cache (ck_uri key)) (\<lambda>entries. entries (ck_kind key))"

lemma cache_key_eq: "(a :: cache_key) = b \<longleftrightarrow> ck_uri a = ck_uri b \<and> ck_kind a = ck_kind b"
  by (auto intro: cache_key.equality)

lemma cache_get_result:
  "fst (cache_get key v cache) =
     (case cache_entry_of key cache of
        Some e \<Rightarrow> if document_version e = v then Some (ce_value e) else None | None \<Rightarrow> None)"
  by (auto simp: cache_get_def cache_entry_of_def split: option.splits)

lemma cache_entry_of_get:
  "cache_entry_of key (snd (cache_get j v cache)) =
     (if j = key \<and> fst (cache_get j v cache) = None then None else cache_entry_of key cache)"
  by (auto simp: cache_get_def cache_entry_of_def cache_key_eq split: option.splits)

lemma cache_entry_of_insert:
  "cache_entry_of key (cache_insert j v x cache) =
     (if j = key then Some \<lparr>document_version = v, ce_value = x\<rparr> else cache_entry_of key cache)"
  by (cases "cache (ck_uri j)") (auto simp: cache_insert_def cache_entry_of_def cache_key_eq)

lemma cache_entry_of_invalidate:
  "cache_entry_of key (invalidate_for_uri uri cache) =
     (if ck_uri key = uri then None else cache_entry_of key cache)"
  by (simp add: invalidate_for_uri_def cache_entry_of_def)

lemma cache_entry_of_new [simp]: "cache_entry_of key cache_new = None"
  by (simp add: cache_entry_of_def cache_new_def)

interpretation cache: versioned_cache cache_new cache_get cache_insert invalidate_for_uri ck_uri
  by unfold_locales
     (auto simp: cache_get_result cache_entry_of_get cache_entry_of_insert cache_entry_of_invalidate
        split: option.splits if_splits)

subsection \<open>The publish epoch\<close>

type_synonym epochs = "url \<Rightarrow> i32 option"

text \<open>\<open>fetch_add\<close> wraps around; the new value is returned.\<close>

definition bump_code_action_epoch :: "url \<Rightarrow> epochs \<Rightarrow> i32 \<times> epochs" where
  "bump_code_action_epoch uri epochs =
     (let old = unwrap_or 0 (epochs uri) in (old + 1, epochs(uri \<mapsto> old + 1)))"

definition code_action_epoch :: "url \<Rightarrow> epochs \<Rightarrow> i32" where
  "code_action_epoch uri epochs = unwrap_or 0 (epochs uri)"

definition forget_code_action_epoch :: "url \<Rightarrow> epochs \<Rightarrow> epochs" where
  "forget_code_action_epoch uri epochs = epochs(uri := None)"

lemma code_action_epoch_bump:
  "code_action_epoch u (snd (bump_code_action_epoch uri ep)) =
     (if u = uri then code_action_epoch uri ep + 1 else code_action_epoch u ep)"
  by (simp add: code_action_epoch_def bump_code_action_epoch_def Let_def)

lemma code_action_epoch_bumps:
  "code_action_epoch uri (((\<lambda>e. snd (bump_code_action_epoch uri e)) ^^ n) ep) = code_action_epoch uri ep + of_nat n"
  by (induction n) (simp_all add: code_action_epoch_bump)

subsection \<open>Properties\<close>

text \<open>C5: After any sequence of insertions, lookups and invalidations, a lookup at a version returns a
  value exactly if it was the last insertion for this key, at this very version, and since then neither
  the document was invalidated nor the key looked up at another version.\<close>

theorem query_cache_hit_iff:
  "fst (cache_get k v (fold (\<lambda>e c. case e of
          Insert j w y \<Rightarrow> cache_insert j w y c
        | Lookup j w \<Rightarrow> snd (cache_get j w c)
        | Invalidate uri \<Rightarrow> invalidate_for_uri uri c) es cache_new)) = Some x \<longleftrightarrow>
   (\<exists>before after. es = before @ Insert k v x # after \<and>
      \<not> list_ex (\<lambda>e. case e of Insert j w y \<Rightarrow> j = k | Lookup j w \<Rightarrow> j = k \<and> w \<noteq> v
                              | Invalidate uri \<Rightarrow> ck_uri k = uri) after)"
proof -
  have op: "(\<lambda>e c. case e of
          Insert j w y \<Rightarrow> cache_insert j w y c
        | Lookup j w \<Rightarrow> snd (cache_get j w c)
        | Invalidate uri \<Rightarrow> invalidate_for_uri uri c) = cache.apply_op"
    by (auto simp: fun_eq_iff split: cache_op.split)
  have drops: "(\<lambda>e. case e of Insert j w y \<Rightarrow> j = k | Lookup j w \<Rightarrow> j = k \<and> w \<noteq> v
                              | Invalidate uri \<Rightarrow> ck_uri k = uri) = cache.drops k v"
    by (auto simp: fun_eq_iff split: cache_op.split)
  show ?thesis unfolding op drops by (rule cache.hit_iff)
qed

text \<open>The epoch of a document after \<open>m\<close> publications equals the one after \<open>n\<close> exactly if the two
  counts differ by a multiple of 2 to the 32: until the counter wraps around, every publication
  outdates every code action cached before it.\<close>

theorem epochs_separate_publications:
  "code_action_epoch uri (((\<lambda>e. snd (bump_code_action_epoch uri e)) ^^ m) ep) =
   code_action_epoch uri (((\<lambda>e. snd (bump_code_action_epoch uri e)) ^^ n) ep) \<longleftrightarrow>
   m mod 2 ^ 32 = n mod 2 ^ 32"
  by (simp add: code_action_epoch_bumps word_of_nat_eq_iff take_bit_eq_mod)

end
