(* ===== verification/Server_Settings.thy ===== *)
theory Server_Settings
  imports Arbitration
begin

section \<open>Server settings\<close>

text \<open>
  Models the settings half of \<open>src/runtime/server_types/mod.rs\<close>: the keys the server recognises,
  how a client payload changes the settings, agent mode, the cold path and the diagnostics
  transport, and the settings \<open>src/server/helpers.rs\<close> derives for the diagnostics.
\<close>

subsection \<open>Keys\<close>

definition APPLIED_SETTING_KEYS :: "string list" where
  "APPLIED_SETTING_KEYS =
    [''agent.mode'',
     ''diagnostics.artifacts.enabled'',
     ''diagnostics.coldPath'',
     ''diagnostics.experimental.enabled'',
     ''diagnostics.security.accountClosing'',
     ''diagnostics.security.arbitraryCpi'',
     ''diagnostics.security.enabled'',
     ''diagnostics.security.initialization'',
     ''diagnostics.security.instructionDataBounds'',
     ''diagnostics.security.ownerChecks'',
     ''diagnostics.security.pdaSeedCollision'',
     ''diagnostics.security.signerAuthorization'',
     ''diagnostics.security.staleCpiReload'',
     ''diagnostics.security.strictNative.enabled'',
     ''diagnostics.security.typeCosplay'',
     ''diagnostics.security.writableAccounts'',
     ''editor.client'',
     ''editor.inlineValues.enabled'',
     ''feedback.url'',
     ''security.strictNative.enabled'',
     ''telemetry.completion.enabled'',
     ''telemetry.diagnostics.enabled'',
     ''trace.server'',
     ''workspaceIndex.enabled'']"

definition INITIALIZATION_SETTING_KEYS :: "string list" where
  "INITIALIZATION_SETTING_KEYS = [''diagnostics.transport'']"

definition RECOGNIZED_SETTING_KEYS :: "string list" where
  "RECOGNIZED_SETTING_KEYS =
    [''agent.mode'',
     ''diagnostics.artifacts.enabled'',
     ''diagnostics.coldPath'',
     ''diagnostics.experimental.enabled'',
     ''diagnostics.security.accountClosing'',
     ''diagnostics.security.arbitraryCpi'',
     ''diagnostics.security.enabled'',
     ''diagnostics.security.initialization'',
     ''diagnostics.security.instructionDataBounds'',
     ''diagnostics.security.ownerChecks'',
     ''diagnostics.security.pdaSeedCollision'',
     ''diagnostics.security.signerAuthorization'',
     ''diagnostics.security.staleCpiReload'',
     ''diagnostics.security.strictNative.enabled'',
     ''diagnostics.security.typeCosplay'',
     ''diagnostics.security.writableAccounts'',
     ''diagnostics.transport'',
     ''editor.client'',
     ''editor.inlineValues.enabled'',
     ''feedback.url'',
     ''security.strictNative.enabled'',
     ''telemetry.completion.enabled'',
     ''telemetry.diagnostics.enabled'',
     ''trace.server'',
     ''workspaceIndex.enabled'']"

definition SECURITY_LEVEL_SETTINGS :: "(string \<times> string) list" where
  "SECURITY_LEVEL_SETTINGS =
    [(''diagnostics.security.ownerChecks'', ''security.ownerChecks''),
     (''diagnostics.security.typeCosplay'', ''security.typeCosplay''),
     (''diagnostics.security.accountClosing'', ''security.accountClosing''),
     (''diagnostics.security.initialization'', ''security.initialization''),
     (''diagnostics.security.staleCpiReload'', ''security.staleCpiReload''),
     (''diagnostics.security.signerAuthorization'', ''security.signerAuthorization''),
     (''diagnostics.security.writableAccounts'', ''security.writableAccounts''),
     (''diagnostics.security.arbitraryCpi'', ''security.arbitraryCpi''),
     (''diagnostics.security.instructionDataBounds'', ''security.instructionDataBounds''),
     (''diagnostics.security.pdaSeedCollision'', ''security.pdaSeedCollision'')]"

subsection \<open>Settings\<close>

datatype diagnostics_cold_path = Idle | Save | Manual

fun cold_path_as_str :: "diagnostics_cold_path \<Rightarrow> string" where
  "cold_path_as_str Idle = ''idle''"
| "cold_path_as_str Save = ''save''"
| "cold_path_as_str Manual = ''manual''"

definition cold_path_from_str :: "string \<Rightarrow> diagnostics_cold_path option" where
  "cold_path_from_str value =
     (if value = ''idle'' then Some Idle
      else if value = ''save'' then Some Save
      else if value = ''manual'' then Some Manual
      else None)"

definition runs_after_open :: "diagnostics_cold_path \<Rightarrow> bool" where
  "runs_after_open p \<longleftrightarrow> p \<noteq> Manual"

definition runs_after_change :: "diagnostics_cold_path \<Rightarrow> bool" where
  "runs_after_change p \<longleftrightarrow> p = Idle"

datatype diagnostics_transport = Push | Pull

definition publishes :: "diagnostics_transport \<Rightarrow> bool" where
  "publishes t \<longleftrightarrow> t = Push"

definition advertises_pull :: "diagnostics_transport \<Rightarrow> bool" where
  "advertises_pull t \<longleftrightarrow> t = Pull"

fun transport_as_str :: "diagnostics_transport \<Rightarrow> string" where
  "transport_as_str Push = ''push''"
| "transport_as_str Pull = ''pull''"

record editor_context =
  client :: string
  inline_values :: bool
  completion_telemetry :: bool
  diagnostic_telemetry :: bool

record server_settings =
  agent_mode :: bool
  ss_security :: bool
  ss_experimental :: bool
  ss_artifact :: bool
  ss_security_levels :: "(string, diagnostic_level) omap"
  ss_strict_native :: bool
  diagnostics_cold_path :: diagnostics_cold_path
  ss_workspace_index :: bool
  trace_server :: bool
  feedback_url :: "string option"
  editor_context :: editor_context

definition default_editor_context :: editor_context where
  "default_editor_context =
     \<lparr>client = ''generic'', inline_values = True, completion_telemetry = True,
      diagnostic_telemetry = True\<rparr>"

definition default_server_settings :: server_settings where
  "default_server_settings =
     \<lparr>agent_mode = False, ss_security = True, ss_experimental = True, ss_artifact = False,
      ss_security_levels = [], ss_strict_native = True, diagnostics_cold_path = Idle,
      ss_workspace_index = True, trace_server = False, feedback_url = None,
      editor_context = default_editor_context\<rparr>"

subsection \<open>Reading a payload\<close>

text \<open>\<open>try_fold\<close> along the parts of a dotted key.\<close>

fun get_path :: "string list \<Rightarrow> json \<Rightarrow> json option" where
  "get_path [] value = Some value"
| "get_path (part # parts) value = Option.bind (json_get part value) (get_path parts)"

definition setting_value :: "json \<Rightarrow> string \<Rightarrow> json option" where
  "setting_value settings key =
     or_else (json_get key settings) (get_path (split_char (CHR ''.'') key) settings)"

definition bool_setting :: "json \<Rightarrow> string \<Rightarrow> bool option" where
  "bool_setting settings key = Option.bind (setting_value settings key) as_bool"

definition string_setting :: "json \<Rightarrow> string \<Rightarrow> string option" where
  "string_setting settings key = Option.bind (setting_value settings key) as_str"

definition non_empty_string_setting :: "json \<Rightarrow> string \<Rightarrow> string option" where
  "non_empty_string_setting settings key =
     Option.bind (string_setting settings key) (\<lambda>value.
       let trimmed = trim value in if trimmed \<noteq> [] then Some trimmed else None)"

definition agent_mode_security_levels :: "json \<Rightarrow> (string, diagnostic_level) omap" where
  "agent_mode_security_levels settings =
     fold (\<lambda>(setting, cfg) levels.
             if setting_value settings setting = None then om_insert cfg LvlWarn levels else levels)
       SECURITY_LEVEL_SETTINGS []"

definition security_levels_from :: "json \<Rightarrow> bool \<Rightarrow> (string, diagnostic_level) omap" where
  "security_levels_from settings mode =
     fold (\<lambda>(setting, cfg) levels.
             case Option.bind (string_setting settings setting) level_from_str of
               Some level \<Rightarrow> om_insert cfg level levels
             | None \<Rightarrow> levels)
       SECURITY_LEVEL_SETTINGS
       (if mode then agent_mode_security_levels settings else [])"

subsection \<open>Applying a payload\<close>

definition editor_context_apply :: "editor_context \<Rightarrow> json \<Rightarrow> editor_context" where
  "editor_context_apply ec settings =
     \<lparr>client = unwrap_or (client ec) (string_setting settings ''editor.client''),
      inline_values = unwrap_or (inline_values ec) (bool_setting settings ''editor.inlineValues.enabled''),
      completion_telemetry =
        unwrap_or (completion_telemetry ec) (bool_setting settings ''telemetry.completion.enabled''),
      diagnostic_telemetry =
        unwrap_or (diagnostic_telemetry ec) (bool_setting settings ''telemetry.diagnostics.enabled'')\<rparr>"

definition apply_agent_mode_defaults :: "server_settings \<Rightarrow> json \<Rightarrow> server_settings" where
  "apply_agent_mode_defaults s settings =
     s\<lparr>ss_security :=
         (if setting_value settings ''diagnostics.security.enabled'' = None then True else ss_security s),
       ss_experimental :=
         (if setting_value settings ''diagnostics.experimental.enabled'' = None then True
          else ss_experimental s),
       ss_strict_native :=
         (if or_else (setting_value settings ''security.strictNative.enabled'')
               (setting_value settings ''diagnostics.security.strictNative.enabled'') = None
          then True else ss_strict_native s),
       diagnostics_cold_path :=
         (if setting_value settings ''diagnostics.coldPath'' = None then Idle
          else diagnostics_cold_path s),
       trace_server :=
         (if setting_value settings ''trace.server'' = None then True else trace_server s)\<rparr>"

definition settings_payload :: "json \<Rightarrow> json" where
  "settings_payload settings = unwrap_or settings (json_get ''seagrass'' settings)"

definition settings_apply :: "server_settings \<Rightarrow> json \<Rightarrow> server_settings" where
  "settings_apply s0 settings =
     (let anchor = settings_payload settings;
          mode = unwrap_or False (bool_setting anchor ''agent.mode'');
          s1 = s0\<lparr>agent_mode := mode\<rparr>;
          s = (if mode then apply_agent_mode_defaults s1 anchor else s1) in
      s\<lparr>editor_context := editor_context_apply (editor_context s) anchor,
        ss_security := unwrap_or (ss_security s) (bool_setting anchor ''diagnostics.security.enabled''),
        ss_experimental :=
          unwrap_or (ss_experimental s) (bool_setting anchor ''diagnostics.experimental.enabled''),
        ss_artifact := unwrap_or (ss_artifact s) (bool_setting anchor ''diagnostics.artifacts.enabled''),
        ss_strict_native :=
          unwrap_or (ss_strict_native s)
            (or_else (bool_setting anchor ''security.strictNative.enabled'')
              (bool_setting anchor ''diagnostics.security.strictNative.enabled'')),
        ss_security_levels := security_levels_from anchor mode,
        diagnostics_cold_path :=
          unwrap_or (diagnostics_cold_path s)
            (Option.bind (string_setting anchor ''diagnostics.coldPath'') cold_path_from_str),
        ss_workspace_index :=
          unwrap_or (ss_workspace_index s) (bool_setting anchor ''workspaceIndex.enabled''),
        trace_server := unwrap_or (trace_server s) (bool_setting anchor ''trace.server''),
        feedback_url :=
          (if setting_value anchor ''feedback.url'' \<noteq> None
           then non_empty_string_setting anchor ''feedback.url'' else feedback_url s)\<rparr>)"

definition diagnostics_transport_from_initialize_options :: "json option \<Rightarrow> diagnostics_transport" where
  "diagnostics_transport_from_initialize_options initialization_options =
     (case initialization_options of
        None \<Rightarrow> Push
      | Some options \<Rightarrow>
          (let anchor = settings_payload options;
               transport =
                 or_else (Option.bind (json_get ''diagnostics.transport'' anchor) as_str)
                   (Option.bind (json_get ''diagnostics'' anchor) (\<lambda>diagnostics.
                    Option.bind (json_get ''transport'' diagnostics) as_str)) in
           if transport = Some ''pull'' then Pull else Push))"

subsection \<open>What the diagnostics see of the settings\<close>

definition diagnostic_settings_of :: "server_settings \<Rightarrow> diagnostic_settings" where
  "diagnostic_settings_of s =
     \<lparr>security_diagnostics = ss_security s, experimental_diagnostics = ss_experimental s,
      artifact_diagnostics = ss_artifact s, security_levels = ss_security_levels s,
      strict_native_security = ss_strict_native s, typing_suppression = None\<rparr>"

definition diagnostic_settings_with_typing_suppression ::
  "server_settings \<Rightarrow> range option \<Rightarrow> diagnostic_settings" where
  "diagnostic_settings_with_typing_suppression s region =
     (diagnostic_settings_of s)\<lparr>typing_suppression := region\<rparr>"

subsection \<open>Which payloads matter\<close>

lemma unwrap_or_twice [simp]: "unwrap_or (unwrap_or d x) x = unwrap_or d x"
  by (cases x) simp_all

text \<open>Two payloads that agree on every applied key have the same effect.\<close>

lemma setting_accessors_cong:
  assumes "setting_value j k = setting_value j' k"
  shows "bool_setting j k = bool_setting j' k" "string_setting j k = string_setting j' k"
    "non_empty_string_setting j k = non_empty_string_setting j' k"
  using assms by (simp_all add: bool_setting_def string_setting_def non_empty_string_setting_def)

lemma security_level_keys: "fst ` set SECURITY_LEVEL_SETTINGS \<subseteq> set APPLIED_SETTING_KEYS"
  by (simp add: SECURITY_LEVEL_SETTINGS_def APPLIED_SETTING_KEYS_def)

lemma security_levels_cong:
  assumes "\<And>k. k \<in> set APPLIED_SETTING_KEYS \<Longrightarrow> setting_value j k = setting_value j' k"
  shows "security_levels_from j mode = security_levels_from j' mode"
proof -
  have v: "setting_value j k = setting_value j' k" if "(k, c) \<in> set SECURITY_LEVEL_SETTINGS" for k c
    using assms security_level_keys that by force
  have "agent_mode_security_levels j = agent_mode_security_levels j'"
    unfolding agent_mode_security_levels_def
    by (intro fold_cong refl) (auto simp: fun_eq_iff dest: v)
  moreover have "fold (\<lambda>(setting, cfg) levels.
        case Option.bind (string_setting j setting) level_from_str of
          Some level \<Rightarrow> om_insert cfg level levels | None \<Rightarrow> levels) SECURITY_LEVEL_SETTINGS xs =
      fold (\<lambda>(setting, cfg) levels.
        case Option.bind (string_setting j' setting) level_from_str of
          Some level \<Rightarrow> om_insert cfg level levels | None \<Rightarrow> levels) SECURITY_LEVEL_SETTINGS xs" for xs
    by (intro fold_cong refl) (auto simp: fun_eq_iff dest: setting_accessors_cong [OF v])
  ultimately show ?thesis by (simp add: security_levels_from_def)
qed

lemma settings_apply_cong:
  assumes "\<And>k. k \<in> set APPLIED_SETTING_KEYS \<Longrightarrow>
      setting_value (settings_payload j) k = setting_value (settings_payload j') k"
  shows "settings_apply s j = settings_apply s j'"
proof -
  let ?a = "settings_payload j" and ?b = "settings_payload j'"
  have v: "list_all (\<lambda>k. setting_value ?a k = setting_value ?b k) APPLIED_SETTING_KEYS"
    using assms by (simp add: list_all_iff)
  note eqs = v [unfolded APPLIED_SETTING_KEYS_def list.pred_inject]
  have "security_levels_from ?a mode = security_levels_from ?b mode" for mode
    using assms by (rule security_levels_cong)
  with eqs show ?thesis
    unfolding settings_apply_def Let_def editor_context_apply_def apply_agent_mode_defaults_def
      bool_setting_def string_setting_def non_empty_string_setting_def
    by simp
qed

text \<open>A payload with one entry, whose value is not an object, sets this key and no other.\<close>

lemma split_char_single: "split_char d s = [p] \<Longrightarrow> s = p"
  using join_split_char [of d s] by simp

lemma get_path_leaf: "as_object v = None \<Longrightarrow> get_path ps v = (if ps = [] then Some v else None)"
  by (cases ps; cases v) simp_all

lemma setting_value_single:
  assumes "as_object v = None" "key \<noteq> k"
  shows "setting_value (JObject [(k, v)]) key = None"
proof -
  obtain p ps where ps: "split_char (CHR ''.'') key = p # ps"
    by (cases "split_char (CHR ''.'') key") simp_all
  have "p = k \<Longrightarrow> ps \<noteq> []"
    using ps split_char_single assms(2) by metis
  with assms ps show ?thesis by (auto simp: setting_value_def get_path_leaf)
qed

lemma setting_value_empty [simp]: "setting_value (JObject []) key = None"
  by (cases "split_char (CHR ''.'') key") (simp_all add: setting_value_def)

lemma security_levels_empty [simp]: "security_levels_from (JObject []) False = []"
  by (simp add: security_levels_from_def string_setting_def SECURITY_LEVEL_SETTINGS_def)

lemma settings_apply_empty: "settings_apply default_server_settings (JObject []) = default_server_settings"
  by (simp add: settings_apply_def Let_def settings_payload_def bool_setting_def string_setting_def
        editor_context_apply_def default_server_settings_def default_editor_context_def)

lemma setting_value_here [simp]: "setting_value (JObject [(k, v)]) k = Some v"
  by (simp add: setting_value_def)

lemma settings_payload_wrapped [simp]: "settings_payload (JObject [(''seagrass'', j)]) = j"
  by (simp add: settings_payload_def)

lemma settings_payload_empty: "settings_payload (JObject []) = JObject []"
  by (simp add: settings_payload_def)

lemma security_levels_single:
  assumes "as_object v = None"
  shows "security_levels_from (JObject [(k, v)]) False =
     (case map_of SECURITY_LEVEL_SETTINGS k of
        None \<Rightarrow> []
      | Some cfg \<Rightarrow>
          (case Option.bind (as_str v) level_from_str of None \<Rightarrow> [] | Some level \<Rightarrow> [(cfg, level)]))"
proof -
  have "distinct (map fst xs) \<Longrightarrow>
      fold (\<lambda>(setting, cfg) levels.
        case Option.bind (string_setting (JObject [(k, v)]) setting) level_from_str of
          Some level \<Rightarrow> om_insert cfg level levels | None \<Rightarrow> levels) xs [] =
      (case map_of xs k of
        None \<Rightarrow> []
      | Some cfg \<Rightarrow>
          (case Option.bind (as_str v) level_from_str of None \<Rightarrow> [] | Some level \<Rightarrow> [(cfg, level)]))" for xs
  proof (induction xs rule: rev_induct)
    case (snoc x xs)
    obtain setting c where x: "x = (setting, c)" by fastforce
    show ?case
    proof (cases "setting = k")
      case True
      with snoc x have "map_of xs k = None" by (force simp: map_of_eq_None_iff)
      with snoc x True show ?thesis by (simp add: string_setting_def map_add_def split: option.split)
    next
      case False
      with snoc x setting_value_single [OF assms] show ?thesis
        by (simp add: string_setting_def map_add_def split: option.split)
    qed
  qed simp
  moreover have "distinct (map fst SECURITY_LEVEL_SETTINGS)" by (simp add: SECURITY_LEVEL_SETTINGS_def)
  ultimately show ?thesis by (simp add: security_levels_from_def)
qed

text \<open>The payload changes the default settings.\<close>

definition changes_settings :: "string \<Rightarrow> json \<Rightarrow> bool" where
  "changes_settings k v \<longleftrightarrow>
     as_object v = None \<and>
     settings_apply default_server_settings (JObject [(''seagrass'', JObject [(k, v)])]) \<noteq>
     default_server_settings"

lemma changes_settings_field:
  assumes "as_object v = None"
    and "f (settings_apply default_server_settings (JObject [(''seagrass'', JObject [(k, v)])])) \<noteq>
       f default_server_settings"
  shows "changes_settings k v"
  using assms by (auto simp: changes_settings_def)

lemma agent_mode_changes: "changes_settings ''agent.mode'' (JBool True)"
  by (rule changes_settings_field [where f = agent_mode])
     (simp_all add: settings_apply_def apply_agent_mode_defaults_def bool_setting_def
        default_server_settings_def Let_def)

lemma settings_apply_leaf:
  assumes "as_object v = None" "k \<noteq> ''agent.mode''"
  shows "settings_apply s (JObject [(''seagrass'', JObject [(k, v)])]) =
     (let j = JObject [(k, v)] in
      s\<lparr>agent_mode := False, editor_context := editor_context_apply (editor_context s) j,
        ss_security := unwrap_or (ss_security s) (bool_setting j ''diagnostics.security.enabled''),
        ss_experimental := unwrap_or (ss_experimental s) (bool_setting j ''diagnostics.experimental.enabled''),
        ss_artifact := unwrap_or (ss_artifact s) (bool_setting j ''diagnostics.artifacts.enabled''),
        ss_strict_native :=
          unwrap_or (ss_strict_native s)
            (or_else (bool_setting j ''security.strictNative.enabled'')
              (bool_setting j ''diagnostics.security.strictNative.enabled'')),
        ss_security_levels := security_levels_from j False,
        diagnostics_cold_path :=
          unwrap_or (diagnostics_cold_path s)
            (Option.bind (string_setting j ''diagnostics.coldPath'') cold_path_from_str),
        ss_workspace_index := unwrap_or (ss_workspace_index s) (bool_setting j ''workspaceIndex.enabled''),
        trace_server := unwrap_or (trace_server s) (bool_setting j ''trace.server''),
        feedback_url :=
          (if setting_value j ''feedback.url'' \<noteq> None
           then non_empty_string_setting j ''feedback.url'' else feedback_url s)\<rparr>)"
proof -
  have "bool_setting (JObject [(k, v)]) ''agent.mode'' = None"
    using setting_value_single [OF assms(1), of "''agent.mode''" k] assms(2)
    by (simp add: bool_setting_def eq_commute [of k])
  then show ?thesis by (simp add: settings_apply_def Let_def)
qed

lemmas leaf_simps = settings_apply_leaf Let_def bool_setting_def string_setting_def
  non_empty_string_setting_def default_server_settings_def default_editor_context_def
  editor_context_apply_def cold_path_from_str_def security_levels_single

lemma editor_context_changes:
  assumes "as_object v = None" "k \<noteq> ''agent.mode''"
    and "editor_context_apply default_editor_context (JObject [(k, v)]) \<noteq> default_editor_context"
  shows "changes_settings k v"
  using assms
  by (intro changes_settings_field [where f = editor_context])
     (simp_all add: settings_apply_leaf Let_def default_server_settings_def)

lemma plain_settings_change:
  "changes_settings ''diagnostics.artifacts.enabled'' (JBool True)" (is ?artifacts)
  "changes_settings ''diagnostics.coldPath'' (JString ''save'')" (is ?cold)
  "changes_settings ''diagnostics.experimental.enabled'' (JBool False)" (is ?experimental)
  "changes_settings ''diagnostics.security.enabled'' (JBool False)" (is ?security)
  "changes_settings ''diagnostics.security.strictNative.enabled'' (JBool False)" (is ?native)
  "changes_settings ''security.strictNative.enabled'' (JBool False)" (is ?native')
  "changes_settings ''feedback.url'' (JString ''u'')" (is ?url)
  "changes_settings ''trace.server'' (JBool True)" (is ?trace)
  "changes_settings ''workspaceIndex.enabled'' (JBool False)" (is ?index)
proof -
  note r = changes_settings_field
  have trimmed: "trim ''u'' = ''u''" by code_simp
  show ?artifacts by (rule r [where f = ss_artifact]) (simp_all add: leaf_simps)
  show ?cold by (rule r [where f = diagnostics_cold_path]) (simp_all add: leaf_simps)
  show ?experimental by (rule r [where f = ss_experimental]) (simp_all add: leaf_simps)
  show ?security by (rule r [where f = ss_security]) (simp_all add: leaf_simps)
  show ?native
    by (rule r [where f = ss_strict_native]) (simp_all add: leaf_simps setting_value_single)
  show ?native' by (rule r [where f = ss_strict_native]) (simp_all add: leaf_simps)
  show ?url by (rule r [where f = feedback_url]) (simp_all add: leaf_simps trimmed)
  show ?trace by (rule r [where f = trace_server]) (simp_all add: leaf_simps)
  show ?index by (rule r [where f = ss_workspace_index]) (simp_all add: leaf_simps)
qed

lemma editor_settings_change:
  "changes_settings ''editor.client'' (JString ''zed'')"
  "changes_settings ''editor.inlineValues.enabled'' (JBool False)"
  "changes_settings ''telemetry.completion.enabled'' (JBool False)"
  "changes_settings ''telemetry.diagnostics.enabled'' (JBool False)"
  by (rule editor_context_changes; simp add: editor_context_apply_def default_editor_context_def
        bool_setting_def string_setting_def setting_value_single)+

lemma level_settings_change:
  "list_all (\<lambda>(k, c). changes_settings k (JString ''error'')) SECURITY_LEVEL_SETTINGS"
proof -
  have table: "distinct (map fst SECURITY_LEVEL_SETTINGS)" "''agent.mode'' \<notin> fst ` set SECURITY_LEVEL_SETTINGS"
    by (simp_all add: SECURITY_LEVEL_SETTINGS_def)
  have "changes_settings k (JString ''error'')" if kc: "(k, c) \<in> set SECURITY_LEVEL_SETTINGS" for k c
  proof (rule changes_settings_field [where f = ss_security_levels])
    have "map_of SECURITY_LEVEL_SETTINGS k = Some c" using table(1) kc by (simp add: map_of_is_SomeI)
    moreover have "k \<noteq> ''agent.mode''" using table(2) kc by force
    ultimately show "ss_security_levels (settings_apply default_server_settings
          (JObject [(''seagrass'', JObject [(k, JString ''error'')])])) \<noteq> ss_security_levels default_server_settings"
      by (simp add: settings_apply_leaf Let_def security_levels_single level_from_str_def
            default_server_settings_def)
  qed simp
  then show ?thesis by (auto simp: list_all_iff)
qed

lemma applied_settings_change: "list_all (\<lambda>k. \<exists>v. changes_settings k v) APPLIED_SETTING_KEYS"
  unfolding APPLIED_SETTING_KEYS_def list.pred_inject
  using agent_mode_changes plain_settings_change editor_settings_change
    level_settings_change [unfolded SECURITY_LEVEL_SETTINGS_def list.pred_inject prod.case]
  by - (elim conjE, intro conjI exI; (assumption | simp only: list.pred_inject))

text \<open>Applying a payload a second time changes nothing.\<close>

theorem settings_apply_idempotent: "settings_apply (settings_apply s j) j = settings_apply s j"
proof -
  have default: "unwrap_or (if c then d else unwrap_or (if c then d else x) y) y = unwrap_or (if c then d else x) y"
    for c and d x :: 'a and y
    by (cases y) simp_all
  show ?thesis
    by (simp add: settings_apply_def Let_def editor_context_apply_def apply_agent_mode_defaults_def default)
qed

text \<open>The table of applied keys is exactly the set of settings a client can change with one entry of
  a payload: each of them has a value that changes the default settings, and no value of any other key,
  unless it is an object that contains settings, has an effect.\<close>

theorem applied_setting_keys_exact:
  "k \<in> set APPLIED_SETTING_KEYS \<longleftrightarrow>
   (\<exists>v. as_object v = None \<and>
        settings_apply default_server_settings (JObject [(''seagrass'', JObject [(k, v)])]) \<noteq>
        default_server_settings)"
  (is "_ \<longleftrightarrow> (\<exists>v. ?changes v)")
proof
  assume "k \<in> set APPLIED_SETTING_KEYS"
  with applied_settings_change show "\<exists>v. ?changes v" unfolding list_all_iff changes_settings_def by blast
next
  assume "\<exists>v. ?changes v"
  then obtain v where v: "?changes v" by blast
  show "k \<in> set APPLIED_SETTING_KEYS"
  proof (rule ccontr)
    assume "k \<notin> set APPLIED_SETTING_KEYS"
    then have "settings_apply default_server_settings (JObject [(''seagrass'', JObject [(k, v)])]) =
        settings_apply default_server_settings (JObject [])"
      using v by (intro settings_apply_cong) (auto simp: settings_payload_empty intro!: setting_value_single)
    with v settings_apply_empty show False by simp
  qed
qed

end
