(* ===== verification/Debouncer.thy ===== *)
theory Debouncer
  imports Rust_Prelude
begin

section \<open>The debouncer\<close>

text \<open>
  Models \<open>src/runtime/debounce/mod.rs\<close>: a worker that owns one pending task and a timer and
  reads commands from a channel.  The channel is the list of the commands sent and not yet
  received; \<open>poll\<close> is one turn of the \<open>select!\<close> loop at a time in milliseconds.  A task that the
  worker starts is returned; the worker then waits for it, until \<open>task_done\<close>.  Commands keep
  their order; the capacity of the channel only delays a sender.
\<close>

datatype 'j command = Schedule 'j | Cancel | Flush

datatype running = ByTimer | ByFlush

record 'j worker =
  wk_queue :: "'j command list"
  wk_pending :: "'j option"
  wk_deadline :: nat
  wk_running :: "running option"

definition LONG_SLEEP :: nat where
  "LONG_SLEEP = 365 * 86400 * 1000"

definition worker_new :: "nat \<Rightarrow> 'j worker" where
  "worker_new now = \<lparr>wk_queue = [], wk_pending = None, wk_deadline = now + LONG_SLEEP, wk_running = None\<rparr>"

definition send :: "'j command \<Rightarrow> 'j worker \<Rightarrow> 'j worker" where
  "send c w = w\<lparr>wk_queue := wk_queue w @ [c]\<rparr>"

fun receive :: "nat \<Rightarrow> nat \<Rightarrow> 'j command \<Rightarrow> 'j worker \<Rightarrow> 'j worker \<times> 'j option" where
  "receive delay now (Schedule j) w = (w\<lparr>wk_pending := Some j, wk_deadline := now + delay\<rparr>, None)"
| "receive delay now Cancel w = (w\<lparr>wk_pending := None, wk_deadline := now + LONG_SLEEP\<rparr>, None)"
| "receive delay now Flush w =
     (case wk_pending w of
        Some j \<Rightarrow> (w\<lparr>wk_pending := None, wk_running := Some ByFlush\<rparr>, Some j)
      | None \<Rightarrow> (w, None))"

definition poll :: "nat \<Rightarrow> nat \<Rightarrow> 'j worker \<Rightarrow> 'j worker \<times> 'j option" where
  "poll delay now w =
     (if wk_running w \<noteq> None then (w, None)
      else if wk_deadline w \<le> now then
        (case wk_pending w of
           Some j \<Rightarrow> (w\<lparr>wk_pending := None, wk_running := Some ByTimer\<rparr>, Some j)
         | None \<Rightarrow> (w\<lparr>wk_deadline := now + LONG_SLEEP\<rparr>, None))
      else
        (case wk_queue w of
           [] \<Rightarrow> (w, None)
         | c # cs \<Rightarrow> receive delay now c (w\<lparr>wk_queue := cs\<rparr>)))"

text \<open>After a task the timer started, the timer is put off; after a flushed one it is left alone.\<close>

definition task_done :: "nat \<Rightarrow> 'j worker \<Rightarrow> 'j worker" where
  "task_done now w =
     (case wk_running w of
        None \<Rightarrow> w
      | Some ByTimer \<Rightarrow> w\<lparr>wk_running := None, wk_deadline := now + LONG_SLEEP\<rparr>
      | Some ByFlush \<Rightarrow> w\<lparr>wk_running := None\<rparr>)"

subsection \<open>Lemmas\<close>

text \<open>Turns of the loop at given times, with the tasks they start.\<close>

fun polls :: "nat \<Rightarrow> nat list \<Rightarrow> 'j worker \<Rightarrow> 'j worker \<times> 'j list" where
  "polls delay [] w = (w, [])"
| "polls delay (t # ts) w =
     (let (w', j) = poll delay t w; (w'', js) = polls delay ts w' in
      (w'', (case j of None \<Rightarrow> js | Some j \<Rightarrow> j # js)))"

lemma polls_append:
  "polls delay (ts @ us) w =
     (let (w', js) = polls delay ts w; (w'', ks) = polls delay us w' in (w'', js @ ks))"
  by (induction ts arbitrary: w) (auto simp: Let_def split: prod.splits option.splits)

lemma polls_after:
  "polls delay ts w = (w1, js) \<Longrightarrow> polls delay us w1 = (w2, ks) \<Longrightarrow>
     polls delay (ts @ us) w = (w2, js @ ks)"
  by (simp add: polls_append Let_def)

text \<open>A burst of commands without a flush, received before the timer fires, starts no task.\<close>

lemma burst_received:
  assumes "0 < delay" "wk_running w = None" "now < wk_deadline w"
    and "wk_queue w = cs @ rest" "list_all (\<lambda>c. c \<noteq> Flush) cs"
  shows "\<exists>w'. polls delay (replicate (length cs) now) w = (w', []) \<and> wk_running w' = None \<and>
     now < wk_deadline w' \<and> wk_queue w' = rest"
  using assms(2-5)
proof (induction cs arbitrary: w)
  case (Cons c cs)
  obtain w1 where w1: "poll delay now w = (w1, None)" "wk_running w1 = None" "now < wk_deadline w1"
      "wk_queue w1 = cs @ rest"
    using Cons.prems assms(1) by (cases c) (auto simp: poll_def LONG_SLEEP_def)
  with Cons.IH [of w1] Cons.prems show ?case by auto
qed simp

lemma poll_schedule:
  assumes "wk_running w = None" "now < wk_deadline w" "wk_queue w = [Schedule j]"
  shows "poll delay now w = (w\<lparr>wk_queue := [], wk_pending := Some j, wk_deadline := now + delay\<rparr>, None)"
  using assms by (simp add: poll_def)

subsection \<open>Properties\<close>

text \<open>C6: Of a burst of commands that ends with scheduling a task, the worker starts exactly this task,
  and it does so as soon as the delay has passed after the last one was received: no earlier task of the
  burst runs, and the last one is not lost.\<close>

theorem last_scheduled_task_runs:
  assumes "0 < delay" "wk_running w = None" "now < wk_deadline w"
    and "wk_queue w = cs @ [Schedule j]" "list_all (\<lambda>c. c \<noteq> Flush) cs"
    and ts: "list_all (\<lambda>t. now \<le> t \<and> t < now + delay) ts"
  shows "snd (polls delay (replicate (length cs + 1) now @ ts @ [now + delay]) w) = [j]"
proof -
  obtain w1 where w1: "polls delay (replicate (length cs) now) w = (w1, [])" "wk_running w1 = None"
      "now < wk_deadline w1" "wk_queue w1 = [Schedule j]"
    using burst_received [OF assms(1-5)] by blast
  let ?w2 = "w1\<lparr>wk_queue := [], wk_pending := Some j, wk_deadline := now + delay\<rparr>"
  have idle: "polls delay ts ?w2 = (?w2, [])"
    using ts w1(2) by (induction ts) (simp_all add: poll_def)
  obtain w3 where fire: "polls delay [now + delay] ?w2 = (w3, [j])"
    using w1(2) by (auto simp: poll_def)
  have "polls delay [now] w1 = (?w2, [])"
    using poll_schedule [OF w1(2-4)] by simp
  from polls_after [OF w1(1) this] have "polls delay (replicate (length cs + 1) now) w = (?w2, [])"
    by (simp add: replicate_append_same)
  from polls_after [OF this polls_after [OF idle fire]] show ?thesis by simp
qed

theorem last_scheduled_task_runs_witness:
  "snd (polls 700 [5, 5, 5, 100, 705] ((worker_new 0)\<lparr>wk_queue := [Schedule ''a'', Cancel, Schedule ''b'']\<rparr>)) = [''b'']"
  using last_scheduled_task_runs [of 700 "(worker_new 0)\<lparr>wk_queue := [Schedule ''a'', Cancel, Schedule ''b'']\<rparr>" 5
      "[Schedule ''a'', Cancel]" "''b''" "[100]"]
  by (simp add: worker_new_def LONG_SLEEP_def numeral_2_eq_2)

text \<open>When the timer and the channel are both ready, the timer wins: a cancellation, or a new task,
  that is already in the channel does not stop the pending task.\<close>

theorem timer_before_channel:
  "poll delay now \<lparr>wk_queue = c # cs, wk_pending = Some j, wk_deadline = d, wk_running = None\<rparr> =
     (if d \<le> now
      then (\<lparr>wk_queue = c # cs, wk_pending = None, wk_deadline = d, wk_running = Some ByTimer\<rparr>, Some j)
      else receive delay now c \<lparr>wk_queue = cs, wk_pending = Some j, wk_deadline = d, wk_running = None\<rparr>)"
  by (simp add: poll_def)

end
