(* ===== verification/Server_Backend.thy ===== *)
theory Server_Backend
  imports Query_Cache Server_Settings Text_Sync Debouncer
begin

section \<open>The backend: documents, caches and their handlers\<close>

text \<open>
  Models the state of \<open>src/server/mod.rs\<close> and the functions of
  \<open>src/server/diagnostic_pipeline.rs\<close>, \<open>src/server/backend_features.rs\<close>,
  \<open>src/server/code_actions.rs\<close> and \<open>src/server/helpers.rs\<close> that read and write it.  The fields
  that \<open>Backend\<close> holds by value are the record \<open>backend\<close>: cloning a backend copies them, since
  cloning a \<open>DashMap\<close> copies its entries.  The fields behind an \<open>Arc\<close>, and the client, are the
  record \<open>shared\<close>, which all clones see.  The analyses themselves (parsing, the rule engine, the
  feature providers) are the record \<open>analysis\<close>, an argument of the definitions: what is modelled
  here does not depend on what they compute.  Logging is left out.
\<close>

subsection \<open>State\<close>

type_synonym disk = "string \<Rightarrow> string option"

record open_document =
  od_text :: string
  od_version :: "i32 option"
  od_syntax_diagnostic :: "diagnostic option"

datatype document_update_kind = Open | Change

datatype publish_lane = LaneHot | LaneIdle | LanePull | LaneSave | LaneRepublish

fun lane_name :: "publish_lane \<Rightarrow> string" where
  "lane_name LaneHot = ''hot''"
| "lane_name _ = ''cold''"

fun lane_origin :: "publish_lane \<Rightarrow> string" where
  "lane_origin LaneHot = ''live-hot''"
| "lane_origin LaneIdle = ''idle-analysis''"
| "lane_origin LanePull = ''pull-analysis''"
| "lane_origin LaneSave = ''on-save-analysis''"
| "lane_origin LaneRepublish = ''republish-analysis''"

record completion_memo_entry =
  cm_version :: i32
  cm_signature_cache_key :: string
  cm_response :: "json list option"

record recent_typing_change =
  rt_changed_at :: nat
  rt_range :: range

record backend =
  b_documents :: "(url, open_document) hmap"
  b_document_debouncers :: "url \<Rightarrow> nat option"
  b_recent_typing_changes :: "url \<Rightarrow> recent_typing_change option"
  b_completion_memo :: "url \<Rightarrow> completion_memo_entry option"
  b_query_cache :: query_cache

record published =
  p_uri :: url
  p_diagnostics :: "diagnostic list"
  p_version :: "i32 option"

record shared =
  s_settings :: server_settings
  s_transport :: diagnostics_transport
  s_roots :: "url list"
  s_index :: workspace_index
  s_epoch :: epochs
  s_disk :: disk
  s_published :: "published list"

record analysis =
  an_parse_error :: "string \<Rightarrow> diagnostic option"
  an_update :: "url \<Rightarrow> string \<Rightarrow> workspace_document_update"
  an_path_segments :: "url \<Rightarrow> string list option"
  an_build :: "url list \<Rightarrow> disk \<Rightarrow> (url \<times> string) list \<Rightarrow> workspace_index"
  an_suppress :: "url list \<Rightarrow> disk \<Rightarrow> url \<Rightarrow> string \<Rightarrow> diagnostic list \<Rightarrow> diagnostic list"
  an_hot :: "diagnostic_settings \<Rightarrow> workspace_index \<Rightarrow> url list \<Rightarrow> disk \<Rightarrow> url \<Rightarrow> string \<Rightarrow> diagnostic list"
  an_collect :: "diagnostic_settings \<Rightarrow> workspace_index \<Rightarrow> url list \<Rightarrow> disk \<Rightarrow> url \<Rightarrow> string \<Rightarrow> diagnostic list"
  an_actions :: "string \<Rightarrow> url \<Rightarrow> diagnostic list \<Rightarrow> json list"
  an_cursor_actions :: "workspace_index \<Rightarrow> string \<Rightarrow> url \<Rightarrow> range \<Rightarrow> diagnostic list \<Rightarrow> json list"
  an_rank :: "json list \<Rightarrow> range \<Rightarrow> json list"
  an_symbols :: "string \<Rightarrow> i32 \<Rightarrow> json list"
  an_tokens_full :: "string \<Rightarrow> json"
  an_tokens_range :: "string \<Rightarrow> range \<Rightarrow> json"
  an_folding :: "string \<Rightarrow> json list"
  an_hints :: "string \<Rightarrow> range \<Rightarrow> json list"
  an_signature :: "string \<Rightarrow> position \<Rightarrow> string option"
  an_complete :: "workspace_index \<Rightarrow> string \<Rightarrow> position \<Rightarrow> json list option"

definition TYPING_DIAGNOSTIC_SUPPRESSION_MILLIS :: nat where
  "TYPING_DIAGNOSTIC_SUPPRESSION_MILLIS = 250"

definition COLD_DIAGNOSTICS_DEBOUNCE_MILLIS :: nat where
  "COLD_DIAGNOSTICS_DEBOUNCE_MILLIS = 700"

definition DEGRADED_PARSE_MESSAGE :: string where
  "DEGRADED_PARSE_MESSAGE = '' Semantic diagnostics are paused until this Rust file parses again.''"

definition open_document_new :: "string \<Rightarrow> i32 option \<Rightarrow> open_document" where
  "open_document_new s version = \<lparr>od_text = s, od_version = version, od_syntax_diagnostic = None\<rparr>"

definition with_syntax_diagnostic :: "string \<Rightarrow> i32 option \<Rightarrow> diagnostic \<Rightarrow> open_document" where
  "with_syntax_diagnostic s version d = \<lparr>od_text = s, od_version = version, od_syntax_diagnostic = Some d\<rparr>"

definition parsed_open_document_new :: "analysis \<Rightarrow> string \<Rightarrow> i32 option \<Rightarrow> open_document" where
  "parsed_open_document_new an s version =
     (case an_parse_error an s of
        None \<Rightarrow> open_document_new s version
      | Some d \<Rightarrow> with_syntax_diagnostic s version (d\<lparr>d_message := d_message d @ DEGRADED_PARSE_MESSAGE\<rparr>))"

subsection \<open>Versions and publishing\<close>

definition current_document_version :: "backend \<Rightarrow> url \<Rightarrow> i32" where
  "current_document_version b uri = unwrap_or 0 (Option.bind (map_of (b_documents b) uri) od_version)"

definition is_stale_diagnostic_publish :: "i32 \<Rightarrow> i32 option \<Rightarrow> bool" where
  "is_stale_diagnostic_publish current_version publish_version =
     (case publish_version of None \<Rightarrow> False | Some v \<Rightarrow> v <s current_version)"

definition annotate_diagnostic_lane :: "diagnostic list \<Rightarrow> publish_lane \<Rightarrow> diagnostic list" where
  "annotate_diagnostic_lane ds lane =
     map (\<lambda>d.
       let data =
             (case d_data d of
                Some (JObject m) \<Rightarrow> m
              | Some v \<Rightarrow> jm_insert ''value'' v []
              | None \<Rightarrow> []) in
       d\<lparr>d_data := Some (JObject
           (jm_insert ''diagnosticOrigin'' (JString (lane_origin lane))
             (jm_insert ''diagnosticLane'' (JString (lane_name lane)) data)))\<rparr>) ds"

definition publish_diagnostics :: "url \<Rightarrow> diagnostic list \<Rightarrow> i32 option \<Rightarrow> shared \<Rightarrow> shared" where
  "publish_diagnostics uri ds version sh =
     sh\<lparr>s_published := \<lparr>p_uri = uri, p_diagnostics = ds, p_version = version\<rparr> # s_published sh\<rparr>"

definition publish_analysis ::
  "backend \<Rightarrow> url \<Rightarrow> diagnostic list \<Rightarrow> i32 option \<Rightarrow> publish_lane \<Rightarrow> shared \<Rightarrow> shared" where
  "publish_analysis b uri ds version lane sh =
     (if \<not> publishes (s_transport sh) then sh
      else if is_stale_diagnostic_publish (current_document_version b uri) version then sh
      else
        publish_diagnostics uri (annotate_diagnostic_lane ds lane) version
          (sh\<lparr>s_epoch := snd (bump_code_action_epoch uri (s_epoch sh))\<rparr>))"

subsection \<open>Typing suppression\<close>

definition track_recent_typing_change ::
  "nat \<Rightarrow> url \<Rightarrow> string option \<Rightarrow> string \<Rightarrow> document_update_kind \<Rightarrow> range option \<Rightarrow> backend \<Rightarrow> backend" where
  "track_recent_typing_change now uri previous_text current_text kind client_change_range b =
     (if kind \<noteq> Change then b\<lparr>b_recent_typing_changes := (b_recent_typing_changes b)(uri := None)\<rparr>
      else
        (case or_else client_change_range
                (Option.bind previous_text (\<lambda>previous.
                   unwrap_or None (changed_range_between_texts previous current_text))) of
           None \<Rightarrow> b
         | Some r \<Rightarrow>
             b\<lparr>b_recent_typing_changes :=
                 (b_recent_typing_changes b)(uri \<mapsto> \<lparr>rt_changed_at = now, rt_range = r\<rparr>)\<rparr>))"

definition active_typing_suppression :: "nat \<Rightarrow> url \<Rightarrow> backend \<Rightarrow> range option \<times> backend" where
  "active_typing_suppression now uri b =
     (case b_recent_typing_changes b uri of
        None \<Rightarrow> (None, b)
      | Some change \<Rightarrow>
          if now - rt_changed_at change > TYPING_DIAGNOSTIC_SUPPRESSION_MILLIS
          then (None, b\<lparr>b_recent_typing_changes := (b_recent_typing_changes b)(uri := None)\<rparr>)
          else (Some (rt_range change), b))"

subsection \<open>Diagnostics of a document\<close>

definition syntax_diagnostics_for_document ::
  "analysis \<Rightarrow> shared \<Rightarrow> url \<Rightarrow> open_document \<Rightarrow> diagnostic list" where
  "syntax_diagnostics_for_document an sh uri open_doc =
     an_suppress an (s_roots sh) (s_disk sh) uri (od_text open_doc)
       (case od_syntax_diagnostic open_doc of None \<Rightarrow> [] | Some d \<Rightarrow> [d])"

definition hot_diagnostics_for_document ::
  "analysis \<Rightarrow> shared \<Rightarrow> workspace_index \<Rightarrow> url \<Rightarrow> open_document \<Rightarrow> range option \<Rightarrow> diagnostic list" where
  "hot_diagnostics_for_document an sh ix uri open_doc region =
     dedupe
       (syntax_diagnostics_for_document an sh uri open_doc @
        an_hot an (diagnostic_settings_with_typing_suppression (s_settings sh) region)
          ix (s_roots sh) (s_disk sh) uri (od_text open_doc))"

definition collect_diagnostics_with_typing_suppression ::
  "analysis \<Rightarrow> shared \<Rightarrow> url \<Rightarrow> string \<Rightarrow> range option \<Rightarrow> diagnostic list" where
  "collect_diagnostics_with_typing_suppression an sh uri source region =
     an_collect an (diagnostic_settings_with_typing_suppression (s_settings sh) region)
       (s_index sh) (s_roots sh) (s_disk sh) uri source"

definition collect_diagnostics_for_uri ::
  "analysis \<Rightarrow> nat \<Rightarrow> shared \<Rightarrow> url \<Rightarrow> string \<Rightarrow> backend \<Rightarrow> diagnostic list \<times> backend" where
  "collect_diagnostics_for_uri an now sh uri source b =
     (let (region, b1) = active_typing_suppression now uri b in
      (collect_diagnostics_with_typing_suppression an sh uri source region, b1))"

definition analysis_diagnostics_for_uri ::
  "analysis \<Rightarrow> nat \<Rightarrow> shared \<Rightarrow> url \<Rightarrow> open_document \<Rightarrow> backend \<Rightarrow> diagnostic list \<times> backend" where
  "analysis_diagnostics_for_uri an now sh uri open_doc b =
     (let version = current_document_version b uri;
          (region, b1) = active_typing_suppression now uri b;
          key = \<lparr>ck_uri = uri, ck_kind = QDiagnostics\<rparr>;
          (hit, cache1) =
            (if region = None then cache_get key version (b_query_cache b1) else (None, b_query_cache b1));
          b2 = b1\<lparr>b_query_cache := cache1\<rparr> in
      case hit of
        Some (CvDiagnostics ds) \<Rightarrow> (ds, b2)
      | _ \<Rightarrow>
          (let ds = dedupe (syntax_diagnostics_for_document an sh uri open_doc @
                      collect_diagnostics_with_typing_suppression an sh uri (od_text open_doc) region) in
           (ds, if region = None
                then b2\<lparr>b_query_cache := cache_insert key version (CvDiagnostics ds) cache1\<rparr>
                else b2)))"

text \<open>The blocking task works on a clone of the backend, whose changes nobody sees.\<close>

definition run_analysis_on_blocking_thread ::
  "analysis \<Rightarrow> nat \<Rightarrow> shared \<Rightarrow> backend \<Rightarrow> url \<Rightarrow> string \<Rightarrow> i32 option \<Rightarrow> open_document \<times> diagnostic list" where
  "run_analysis_on_blocking_thread an now sh b uri source version =
     (let open_doc = parsed_open_document_new an source version;
          (ds, clone) = analysis_diagnostics_for_uri an now sh uri open_doc b in
      (open_doc, ds))"

subsection \<open>Requests answered through the cache\<close>

text \<open>The common shape of the handlers: look up, compute on a miss, store.  \<open>unwrap\<close> recognises the
  variant of the cached value; a document that is not open is answered with nothing and not
  cached.\<close>

definition document_for :: "backend \<Rightarrow> url \<Rightarrow> string option" where
  "document_for b uri = map_option od_text (map_of (b_documents b) uri)"

definition cached_request ::
  "cache_key \<Rightarrow> (cache_value \<Rightarrow> 'r option) \<Rightarrow> ('r \<Rightarrow> cache_value) \<Rightarrow> (string \<Rightarrow> 'r) \<Rightarrow> backend \<Rightarrow>
     'r option \<times> backend" where
  "cached_request key unwrap wrap compute b =
     (let version = current_document_version b (ck_uri key);
          (hit, cache1) = cache_get key version (b_query_cache b);
          b1 = b\<lparr>b_query_cache := cache1\<rparr> in
      case Option.bind hit unwrap of
        Some r \<Rightarrow> (Some r, b1)
      | None \<Rightarrow>
          (case document_for b1 (ck_uri key) of
             None \<Rightarrow> (None, b1)
           | Some source \<Rightarrow>
               (let r = compute source in
                (Some r, b1\<lparr>b_query_cache := cache_insert key version (wrap r) cache1\<rparr>))))"

fun as_semantic_tokens :: "cache_value \<Rightarrow> json option" where
  "as_semantic_tokens (CvSemanticTokens t) = Some t"
| "as_semantic_tokens _ = None"

fun as_folding_ranges :: "cache_value \<Rightarrow> json list option" where
  "as_folding_ranges (CvFoldingRanges rs) = Some rs"
| "as_folding_ranges _ = None"

fun as_inlay_hints :: "cache_value \<Rightarrow> json list option" where
  "as_inlay_hints (CvInlayHints hs) = Some hs"
| "as_inlay_hints _ = None"

fun as_document_symbols :: "cache_value \<Rightarrow> json list option" where
  "as_document_symbols (CvDocumentSymbols ss) = Some ss"
| "as_document_symbols _ = None"

fun as_code_actions :: "cache_value \<Rightarrow> json list option" where
  "as_code_actions (CvCodeActions xs) = Some xs"
| "as_code_actions _ = None"

fun as_completion :: "cache_value \<Rightarrow> json list option option" where
  "as_completion (CvCompletion r) = Some r"
| "as_completion _ = None"

definition semantic_tokens_full :: "analysis \<Rightarrow> url \<Rightarrow> backend \<Rightarrow> json option \<times> backend" where
  "semantic_tokens_full an uri =
     cached_request \<lparr>ck_uri = uri, ck_kind = QSemanticTokens\<rparr> as_semantic_tokens CvSemanticTokens
       (an_tokens_full an)"

definition semantic_tokens_range :: "analysis \<Rightarrow> url \<Rightarrow> range \<Rightarrow> backend \<Rightarrow> json option \<times> backend" where
  "semantic_tokens_range an uri r =
     cached_request \<lparr>ck_uri = uri, ck_kind = QSemanticTokens\<rparr> as_semantic_tokens CvSemanticTokens
       (\<lambda>source. an_tokens_range an source r)"

definition folding_range :: "analysis \<Rightarrow> url \<Rightarrow> backend \<Rightarrow> json list option \<times> backend" where
  "folding_range an uri =
     cached_request \<lparr>ck_uri = uri, ck_kind = QFoldingRanges\<rparr> as_folding_ranges CvFoldingRanges
       (an_folding an)"

definition inlay_hint :: "analysis \<Rightarrow> url \<Rightarrow> range \<Rightarrow> backend \<Rightarrow> json list option \<times> backend" where
  "inlay_hint an uri r =
     cached_request \<lparr>ck_uri = uri, ck_kind = QInlayHints r\<rparr> as_inlay_hints CvInlayHints
       (\<lambda>source. an_hints an source r)"

definition document_symbol_impl :: "analysis \<Rightarrow> url \<Rightarrow> backend \<Rightarrow> json list option \<times> backend" where
  "document_symbol_impl an uri b =
     cached_request \<lparr>ck_uri = uri, ck_kind = QDocumentSymbols\<rparr> as_document_symbols CvDocumentSymbols
       (\<lambda>source. an_symbols an source (current_document_version b uri)) b"

definition completion_impl ::
  "analysis \<Rightarrow> shared \<Rightarrow> url \<Rightarrow> position \<Rightarrow> backend \<Rightarrow> json list option \<times> backend" where
  "completion_impl an sh uri p b =
     (let version = current_document_version b uri;
          key = \<lparr>ck_uri = uri, ck_kind = QCompletion p\<rparr>;
          (hit, cache1) = cache_get key version (b_query_cache b);
          store = (\<lambda>r bb. bb\<lparr>b_query_cache := cache_insert key version (CvCompletion r) cache1\<rparr>);
          b1 = b\<lparr>b_query_cache := cache1\<rparr> in
      case Option.bind hit as_completion of
        Some r \<Rightarrow> (r, b1)
      | None \<Rightarrow>
          (case document_for b1 uri of
             None \<Rightarrow> (None, store None b1)
           | Some source \<Rightarrow>
               (case an_signature an source p of
                  None \<Rightarrow> (None, store None b1)
                | Some signature \<Rightarrow>
                    (let fresh =
                       (let r = an_complete an (s_index sh) source p in
                        (r, store r
                          (b1\<lparr>b_completion_memo := (b_completion_memo b1)(uri \<mapsto>
                              \<lparr>cm_version = version, cm_signature_cache_key = signature, cm_response = r\<rparr>)\<rparr>))) in
                     case b_completion_memo b1 uri of
                       Some memo \<Rightarrow>
                         if cm_version memo = version \<and> cm_signature_cache_key memo = signature
                         then (cm_response memo, store (cm_response memo) b1)
                         else fresh
                     | None \<Rightarrow> fresh))))"

subsection \<open>Code actions\<close>

definition code_action_diagnostics ::
  "analysis \<Rightarrow> nat \<Rightarrow> shared \<Rightarrow> url \<Rightarrow> string \<Rightarrow> range \<Rightarrow> diagnostic list \<Rightarrow> bool \<Rightarrow> backend \<Rightarrow>
     diagnostic list \<times> backend" where
  "code_action_diagnostics an now sh uri source r client_diagnostics include_all b =
     (let (ds, b1) = collect_diagnostics_for_uri an now sh uri source b in
      (dedupe (client_diagnostics @ filter (\<lambda>d. include_all \<or> ranges_touch (d_range d) r) ds), b1))"

definition cursor_independent_code_actions ::
  "analysis \<Rightarrow> shared \<Rightarrow> url \<Rightarrow> string \<Rightarrow> diagnostic list \<Rightarrow> bool \<Rightarrow> backend \<Rightarrow> json list \<times> backend" where
  "cursor_independent_code_actions an sh uri source ds has_context_diagnostics b =
     (if has_context_diagnostics then (an_actions an source uri ds, b)
      else
        (let epoch = code_action_epoch uri (s_epoch sh);
             key = \<lparr>ck_uri = uri, ck_kind = QCodeActions uri\<rparr>;
             (hit, cache1) = cache_get key epoch (b_query_cache b);
             b1 = b\<lparr>b_query_cache := cache1\<rparr> in
         case Option.bind hit as_code_actions of
           Some cached \<Rightarrow> (cached, b1)
         | None \<Rightarrow>
             (let built = an_actions an source uri ds in
              (built, b1\<lparr>b_query_cache := cache_insert key epoch (CvCodeActions built) cache1\<rparr>))))"

record code_action_params =
  cap_uri :: url
  cap_range :: range
  cap_diagnostics :: "diagnostic list"
  cap_only :: "string list option"

definition wants_source_action :: "code_action_params \<Rightarrow> bool" where
  "wants_source_action ps =
     (case cap_only ps of None \<Rightarrow> False | Some kinds \<Rightarrow> list_ex (prefix ''source'') kinds)"

definition code_action_impl ::
  "analysis \<Rightarrow> nat \<Rightarrow> shared \<Rightarrow> code_action_params \<Rightarrow> backend \<Rightarrow> json list option \<times> backend" where
  "code_action_impl an now sh ps b =
     (case document_for b (cap_uri ps) of
        None \<Rightarrow> (None, b)
      | Some source \<Rightarrow>
          (let uri = cap_uri ps; r = cap_range ps;
               (ds, b1) = code_action_diagnostics an now sh uri source r (cap_diagnostics ps)
                            (wants_source_action ps) b;
               (actions, b2) = cursor_independent_code_actions an sh uri source ds
                            (cap_diagnostics ps \<noteq> []) b1;
               ranked = an_rank an (actions @ an_cursor_actions an (s_index sh) source uri r ds) r in
           (if ranked \<noteq> [] then Some ranked else None, b2)))"

end
