(* ===== verification/Server_Sessions.thy ===== *)
theory Server_Sessions
  imports Server_Backend
begin

section \<open>Sessions: handlers, background work and their interleaving\<close>

text \<open>
  The document handlers of \<open>src/server/mod.rs\<close> and \<open>src/server/diagnostic_pipeline.rs\<close>
  as transitions of one state.  A handler is cut where it awaits: what remains to be done then is
  a \<open>task\<close>, with the values computed so far, and the server may run any other handler before it
  resumes the task.  Time, the turns of the debouncer workers and the order in which tasks are
  resumed are events like the messages of the client, so that a list of events is one execution
  and all lists are all interleavings.
\<close>

record cold_job =
  job_backend :: backend
  job_uri :: url
  job_text :: string
  job_version :: "i32 option"

datatype task =
  HotTask url string "i32 option" document_update_kind open_document "diagnostic list"
    workspace_document_update
  | AfterHotTask url string "i32 option" document_update_kind
  | SaveTask url open_document "diagnostic list"
  | IdleTask nat backend url open_document "diagnostic list"
  | CloseTask url workspace_index
  | RefreshTask workspace_index
  | RepublishTask "(url \<times> open_document) list"

record world =
  w_now :: nat
  w_main :: backend
  w_shared :: shared
  w_workers :: "nat \<Rightarrow> cold_job worker"
  w_next_worker :: nat
  w_tasks :: "task list"

definition spawn :: "task \<Rightarrow> world \<Rightarrow> world" where
  "spawn t w = w\<lparr>w_tasks := w_tasks w @ [t]\<rparr>"

subsection \<open>Debouncers of documents\<close>

definition send_to :: "nat \<Rightarrow> cold_job command \<Rightarrow> world \<Rightarrow> world" where
  "send_to i c w = w\<lparr>w_workers := (w_workers w)(i := send c (w_workers w i))\<rparr>"

definition debouncer_for_uri :: "url \<Rightarrow> world \<Rightarrow> nat \<times> world" where
  "debouncer_for_uri uri w =
     (case b_document_debouncers (w_main w) uri of
        Some i \<Rightarrow> (i, w)
      | None \<Rightarrow>
          (let i = w_next_worker w in
           (i, w\<lparr>w_workers := (w_workers w)(i := worker_new (w_now w)), w_next_worker := i + 1,
                 w_main := (w_main w)\<lparr>b_document_debouncers :=
                   (b_document_debouncers (w_main w))(uri \<mapsto> i)\<rparr>\<rparr>)))"

definition cancel_scheduled_analysis :: "url \<Rightarrow> world \<Rightarrow> world" where
  "cancel_scheduled_analysis uri w =
     (case b_document_debouncers (w_main w) uri of None \<Rightarrow> w | Some i \<Rightarrow> send_to i Cancel w)"

text \<open>The scheduled closure owns a clone of the backend, taken here.\<close>

definition schedule_full_analysis_and_publish :: "url \<Rightarrow> string \<Rightarrow> i32 option \<Rightarrow> world \<Rightarrow> world" where
  "schedule_full_analysis_and_publish uri source version w =
     (let clone = w_main w; (i, w1) = debouncer_for_uri uri w in
      send_to i (Schedule \<lparr>job_backend = clone, job_uri = uri, job_text = source, job_version = version\<rparr>) w1)"

definition should_schedule_cold_diagnostics :: "shared \<Rightarrow> document_update_kind \<Rightarrow> bool" where
  "should_schedule_cold_diagnostics sh kind =
     (case kind of
        Open \<Rightarrow> runs_after_open (diagnostics_cold_path (s_settings sh))
      | Change \<Rightarrow> runs_after_change (diagnostics_cold_path (s_settings sh)))"

subsection \<open>Updates of a document\<close>

definition parse_index_and_publish_hot ::
  "analysis \<Rightarrow> url \<Rightarrow> string \<Rightarrow> i32 option \<Rightarrow> document_update_kind \<Rightarrow> world \<Rightarrow> world" where
  "parse_index_and_publish_hot an uri source version kind w =
     (let sh = w_shared w;
          (region, b) = active_typing_suppression (w_now w) uri (w_main w);
          open_doc = parsed_open_document_new an source version;
          update = an_update an uri source;
          hot_index =
            (if ss_workspace_index (s_settings sh)
             then insert_indexed_document (an_path_segments an) update (s_index sh) else s_index sh);
          ds = hot_diagnostics_for_document an sh hot_index uri open_doc region in
      spawn (HotTask uri source version kind open_doc ds update) (w\<lparr>w_main := b\<rparr>))"

definition handle_document_update ::
  "analysis \<Rightarrow> url \<Rightarrow> string \<Rightarrow> i32 option \<Rightarrow> document_update_kind \<Rightarrow> range option \<Rightarrow> world \<Rightarrow> world" where
  "handle_document_update an uri source version kind client_change_range w =
     (let b = w_main w;
          previous_text = document_for b uri;
          b1 = track_recent_typing_change (w_now w) uri previous_text source kind client_change_range b;
          b2 = b1\<lparr>b_documents := hm_put uri (open_document_new source version) (b_documents b1),
                  b_query_cache := invalidate_for_uri uri (b_query_cache b1),
                  b_completion_memo := (b_completion_memo b1)(uri := None)\<rparr> in
      parse_index_and_publish_hot an uri source version kind (w\<lparr>w_main := b2\<rparr>))"

text \<open>After the blocking task: the result is dropped if a newer version is open; the rest of
  \<open>handle_document_update\<close> follows in any case.\<close>

definition finish_hot ::
  "analysis \<Rightarrow> url \<Rightarrow> open_document \<Rightarrow> diagnostic list \<Rightarrow> workspace_document_update \<Rightarrow> world \<Rightarrow> world" where
  "finish_hot an uri open_doc ds update w =
     (if is_stale_diagnostic_publish (current_document_version (w_main w) uri) (od_version open_doc) then w
      else
        (let sh = w_shared w;
             sh1 = (if ss_workspace_index (s_settings sh)
                    then sh\<lparr>s_index := insert_indexed_document (an_path_segments an) update (s_index sh)\<rparr>
                    else sh);
             b = (w_main w)\<lparr>b_documents := hm_put uri open_doc (b_documents (w_main w))\<rparr> in
         w\<lparr>w_main := b, w_shared := publish_analysis b uri ds (od_version open_doc) LaneHot sh1\<rparr>))"

definition finish_update ::
  "url \<Rightarrow> string \<Rightarrow> i32 option \<Rightarrow> document_update_kind \<Rightarrow> world \<Rightarrow> world" where
  "finish_update uri source version kind w =
     (if should_schedule_cold_diagnostics (w_shared w) kind
      then schedule_full_analysis_and_publish uri source version w
      else cancel_scheduled_analysis uri w)"

definition handle_invalid_incremental_change :: "url \<Rightarrow> i32 \<Rightarrow> world \<Rightarrow> world" where
  "handle_invalid_incremental_change uri version w =
     (let w1 = cancel_scheduled_analysis uri w;
          b = w_main w1; sh = w_shared w1;
          b1 = b\<lparr>b_document_debouncers := (b_document_debouncers b)(uri := None),
                 b_documents := hm_remove uri (b_documents b),
                 b_recent_typing_changes := (b_recent_typing_changes b)(uri := None),
                 b_completion_memo := (b_completion_memo b)(uri := None),
                 b_query_cache := invalidate_for_uri uri (b_query_cache b)\<rparr>;
          sh1 = sh\<lparr>s_epoch := forget_code_action_epoch uri (s_epoch sh)\<rparr> in
      w1\<lparr>w_main := b1,
         w_shared := (if publishes (s_transport sh1) then publish_diagnostics uri [] (Some version) sh1 else sh1)\<rparr>)"

definition did_open :: "analysis \<Rightarrow> url \<Rightarrow> string \<Rightarrow> i32 \<Rightarrow> world \<Rightarrow> world" where
  "did_open an uri source version w = handle_document_update an uri source (Some version) Open None w"

definition did_change :: "analysis \<Rightarrow> url \<Rightarrow> i32 \<Rightarrow> content_change list \<Rightarrow> world \<Rightarrow> world" where
  "did_change an uri version changes w =
     (if changes = [] then w
      else
        (case text_after_content_changes (document_for (w_main w) uri) changes of
           Inr (source, changed_range) \<Rightarrow>
             handle_document_update an uri source (Some version) Change changed_range w
         | Inl e \<Rightarrow> handle_invalid_incremental_change uri version w))"

subsection \<open>Saving, closing and workspace events\<close>

definition did_save :: "analysis \<Rightarrow> url \<Rightarrow> string option \<Rightarrow> world \<Rightarrow> world" where
  "did_save an uri saved w =
     (case or_else saved (document_for (w_main w) uri) of
        None \<Rightarrow> w
      | Some source \<Rightarrow>
          (let version = current_document_version (w_main w) uri;
               w1 = cancel_scheduled_analysis uri w;
               (open_doc, ds) = run_analysis_on_blocking_thread an (w_now w1) (w_shared w1) (w_main w1)
                   uri source (Some version) in
           spawn (SaveTask uri open_doc ds) w1))"

text \<open>The end of \<open>run_full_analysis_and_publish\<close>, on the backend the analysis was started from.\<close>

definition finish_full ::
  "url \<Rightarrow> open_document \<Rightarrow> diagnostic list \<Rightarrow> publish_lane \<Rightarrow> backend \<Rightarrow> shared \<Rightarrow> backend \<times> shared" where
  "finish_full uri open_doc ds lane b sh =
     (if is_stale_diagnostic_publish (current_document_version b uri) (od_version open_doc) then (b, sh)
      else
        (let b1 = b\<lparr>b_documents := hm_put uri open_doc (b_documents b)\<rparr> in
         (b1, publish_analysis b1 uri ds (od_version open_doc) lane sh)))"

text \<open>The index a refresh builds from the files below the roots and the open documents.\<close>

definition refreshed_index :: "analysis \<Rightarrow> world \<Rightarrow> workspace_index" where
  "refreshed_index an w =
     (if ss_workspace_index (s_settings (w_shared w))
      then an_build an (s_roots (w_shared w)) (s_disk (w_shared w))
             (map (\<lambda>(u, d). (u, od_text d)) (b_documents (w_main w)))
      else empty_index)"

definition did_close :: "analysis \<Rightarrow> url \<Rightarrow> world \<Rightarrow> world" where
  "did_close an uri w =
     (let w1 = cancel_scheduled_analysis uri w;
          b = w_main w1; sh = w_shared w1;
          b1 = b\<lparr>b_document_debouncers := (b_document_debouncers b)(uri := None),
                 b_documents := hm_remove uri (b_documents b),
                 b_recent_typing_changes := (b_recent_typing_changes b)(uri := None),
                 b_completion_memo := (b_completion_memo b)(uri := None)\<rparr>;
          w2 = w1\<lparr>w_main := b1,
                  w_shared := sh\<lparr>s_epoch := forget_code_action_epoch uri (s_epoch sh)\<rparr>\<rparr> in
      spawn (CloseTask uri (refreshed_index an w2)) w2)"

definition finish_close :: "url \<Rightarrow> workspace_index \<Rightarrow> shared \<Rightarrow> shared" where
  "finish_close uri ix sh =
     (let sh1 = sh\<lparr>s_index := ix\<rparr> in
      if publishes (s_transport sh1) then publish_diagnostics uri [] None sh1 else sh1)"

definition did_change_configuration :: "analysis \<Rightarrow> json \<Rightarrow> world \<Rightarrow> world" where
  "did_change_configuration an payload w =
     (let sh = w_shared w;
          w1 = w\<lparr>w_shared := sh\<lparr>s_settings := settings_apply (s_settings sh) payload\<rparr>\<rparr> in
      spawn (RefreshTask (refreshed_index an w1)) w1)"

definition did_change_workspace_folders :: "analysis \<Rightarrow> url list \<Rightarrow> url list \<Rightarrow> world \<Rightarrow> world" where
  "did_change_workspace_folders an removed added w =
     (let sh = w_shared w;
          w1 = w\<lparr>w_shared := sh\<lparr>s_roots := filter (\<lambda>r. r \<notin> set removed) (s_roots sh) @ added\<rparr>\<rparr> in
      spawn (RefreshTask (refreshed_index an w1)) w1)"

text \<open>One document of \<open>republish_open_documents\<close>: analysed on the backend itself, then published.\<close>

definition republish_document :: "analysis \<Rightarrow> url \<Rightarrow> open_document \<Rightarrow> world \<Rightarrow> world" where
  "republish_document an uri open_doc w =
     (let (ds, b) = analysis_diagnostics_for_uri an (w_now w) (w_shared w) uri open_doc (w_main w) in
      w\<lparr>w_main := b, w_shared := publish_analysis b uri ds (od_version open_doc) LaneRepublish (w_shared w)\<rparr>)"

subsection \<open>Events\<close>

fun resume :: "analysis \<Rightarrow> task \<Rightarrow> world \<Rightarrow> world" where
  "resume an (HotTask uri source version kind open_doc ds update) w =
     spawn (AfterHotTask uri source version kind) (finish_hot an uri open_doc ds update w)"
| "resume an (AfterHotTask uri source version kind) w = finish_update uri source version kind w"
| "resume an (SaveTask uri open_doc ds) w =
     (let (b, sh) = finish_full uri open_doc ds LaneSave (w_main w) (w_shared w) in
      w\<lparr>w_main := b, w_shared := sh\<rparr>)"
| "resume an (IdleTask i clone uri open_doc ds) w =
     w\<lparr>w_shared := snd (finish_full uri open_doc ds LaneIdle clone (w_shared w)),
       w_workers := (w_workers w)(i := task_done (w_now w) (w_workers w i))\<rparr>"
| "resume an (CloseTask uri ix) w = w\<lparr>w_shared := finish_close uri ix (w_shared w)\<rparr>"
| "resume an (RefreshTask ix) w =
     spawn (RepublishTask (b_documents (w_main w))) (w\<lparr>w_shared := (w_shared w)\<lparr>s_index := ix\<rparr>\<rparr>)"
| "resume an (RepublishTask []) w = w"
| "resume an (RepublishTask ((uri, open_doc) # docs)) w =
     spawn (RepublishTask docs) (republish_document an uri open_doc w)"

text \<open>A turn of worker \<open>i\<close>; a task it starts first analyses the document on a clone.\<close>

definition poll_worker :: "analysis \<Rightarrow> nat \<Rightarrow> world \<Rightarrow> world" where
  "poll_worker an i w =
     (let (wk, started) = poll COLD_DIAGNOSTICS_DEBOUNCE_MILLIS (w_now w) (w_workers w i);
          w1 = w\<lparr>w_workers := (w_workers w)(i := wk)\<rparr> in
      case started of
        None \<Rightarrow> w1
      | Some job \<Rightarrow>
          (let (open_doc, ds) = run_analysis_on_blocking_thread an (w_now w) (w_shared w)
                 (job_backend job) (job_uri job) (job_text job) (job_version job) in
           spawn (IdleTask i (job_backend job) (job_uri job) open_doc ds) w1))"

datatype event =
  EvOpen url string i32
  | EvChange url i32 "content_change list"
  | EvSave url "string option"
  | EvClose url
  | EvConfiguration json
  | EvFolders "url list" "url list"
  | EvCodeAction code_action_params
  | EvFolding url
  | EvHints url range
  | EvSymbols url
  | EvTokensFull url
  | EvTokensRange url range
  | EvCompletion url position
  | EvDisk string "string option"
  | EvTick nat
  | EvPoll nat
  | EvResume nat

definition on_main :: "(backend \<Rightarrow> 'r \<times> backend) \<Rightarrow> world \<Rightarrow> world" where
  "on_main f w = w\<lparr>w_main := snd (f (w_main w))\<rparr>"

fun step :: "analysis \<Rightarrow> event \<Rightarrow> world \<Rightarrow> world" where
  "step an (EvOpen uri source version) w = did_open an uri source version w"
| "step an (EvChange uri version changes) w = did_change an uri version changes w"
| "step an (EvSave uri saved) w = did_save an uri saved w"
| "step an (EvClose uri) w = did_close an uri w"
| "step an (EvConfiguration payload) w = did_change_configuration an payload w"
| "step an (EvFolders removed added) w = did_change_workspace_folders an removed added w"
| "step an (EvCodeAction ps) w = on_main (code_action_impl an (w_now w) (w_shared w) ps) w"
| "step an (EvFolding uri) w = on_main (folding_range an uri) w"
| "step an (EvHints uri r) w = on_main (inlay_hint an uri r) w"
| "step an (EvSymbols uri) w = on_main (document_symbol_impl an uri) w"
| "step an (EvTokensFull uri) w = on_main (semantic_tokens_full an uri) w"
| "step an (EvTokensRange uri r) w = on_main (semantic_tokens_range an uri r) w"
| "step an (EvCompletion uri p) w = on_main (completion_impl an (w_shared w) uri p) w"
| "step an (EvDisk path content) w =
     w\<lparr>w_shared := (w_shared w)\<lparr>s_disk := (s_disk (w_shared w))(path := content)\<rparr>\<rparr>"
| "step an (EvTick n) w = w\<lparr>w_now := w_now w + n\<rparr>"
| "step an (EvPoll i) w = poll_worker an i w"
| "step an (EvResume n) w =
     (if n < length (w_tasks w)
      then resume an (w_tasks w ! n) (w\<lparr>w_tasks := take n (w_tasks w) @ drop (n + 1) (w_tasks w)\<rparr>)
      else w)"

definition run :: "analysis \<Rightarrow> event list \<Rightarrow> world \<Rightarrow> world" where
  "run an es w = fold (step an) es w"

definition initial_backend :: backend where
  "initial_backend =
     \<lparr>b_documents = [], b_document_debouncers = (\<lambda>_. None), b_recent_typing_changes = (\<lambda>_. None),
      b_completion_memo = (\<lambda>_. None), b_query_cache = cache_new\<rparr>"

definition initial_world :: "disk \<Rightarrow> diagnostics_transport \<Rightarrow> world" where
  "initial_world disk transport =
     \<lparr>w_now = 0, w_main = initial_backend,
      w_shared = \<lparr>s_settings = default_server_settings, s_transport = transport, s_roots = [],
                  s_index = empty_index, s_epoch = (\<lambda>_. None), s_disk = disk, s_published = []\<rparr>,
      w_workers = (\<lambda>_. worker_new 0), w_next_worker = 0, w_tasks = []\<rparr>"


subsection \<open>Executing a session\<close>

text \<open>Tracking and expiring typing changes touches one field.\<close>

definition tracked ::
  "nat \<Rightarrow> url \<Rightarrow> string option \<Rightarrow> string \<Rightarrow> document_update_kind \<Rightarrow> range option \<Rightarrow>
     (url \<Rightarrow> recent_typing_change option) \<Rightarrow> url \<Rightarrow> recent_typing_change option" where
  "tracked now uri previous source kind r m =
     b_recent_typing_changes
       (track_recent_typing_change now uri previous source kind r (initial_backend\<lparr>b_recent_typing_changes := m\<rparr>))"

lemma track_eq:
  "track_recent_typing_change now uri previous source kind r b =
     b\<lparr>b_recent_typing_changes := tracked now uri previous source kind r (b_recent_typing_changes b)\<rparr>"
  by (simp add: track_recent_typing_change_def tracked_def split: option.split)

lemma tracked_open [simp]: "tracked now uri previous source Open r m = m(uri := None)"
  by (simp add: tracked_def track_recent_typing_change_def)

definition expired ::
  "nat \<Rightarrow> url \<Rightarrow> (url \<Rightarrow> recent_typing_change option) \<Rightarrow>
     range option \<times> (url \<Rightarrow> recent_typing_change option)" where
  "expired now uri m =
     (let (region, b) = active_typing_suppression now uri (initial_backend\<lparr>b_recent_typing_changes := m\<rparr>) in
      (region, b_recent_typing_changes b))"

lemma active_eq:
  "active_typing_suppression now uri b =
     (fst (expired now uri (b_recent_typing_changes b)),
      b\<lparr>b_recent_typing_changes := snd (expired now uri (b_recent_typing_changes b))\<rparr>)"
  by (simp add: active_typing_suppression_def expired_def split: option.split)

lemma expired_none [simp]: "m uri = None \<Longrightarrow> expired now uri m = (None, m)"
  by (simp add: expired_def active_typing_suppression_def)

lemmas session_defs =
  run_def did_open_def did_change_def did_close_def did_change_configuration_def handle_document_update_def
  parse_index_and_publish_hot_def track_eq active_eq
  finish_hot_def finish_update_def finish_full_def finish_close_def
  current_document_version_def is_stale_diagnostic_publish_def publish_analysis_def publish_diagnostics_def
  should_schedule_cold_diagnostics_def runs_after_open_def runs_after_change_def publishes_def
  schedule_full_analysis_and_publish_def debouncer_for_uri_def cancel_scheduled_analysis_def
  send_to_def send_def spawn_def poll_worker_def poll_def task_done_def worker_new_def
  initial_world_def initial_backend_def default_server_settings_def open_document_new_def
  hm_remove_def document_for_def run_analysis_on_blocking_thread_def Let_def

lemma od_parsed [simp]:
  "od_version (parsed_open_document_new an s v) = v" "od_text (parsed_open_document_new an s v) = s"
  by (simp_all add: parsed_open_document_new_def open_document_new_def with_syntax_diagnostic_def
        split: option.split)

lemma version_order [simp]: "\<not> (5 :: i32) <s 1" "\<not> (1 :: i32) <s 1" "\<not> (2 :: i32) <s 2" "\<not> (2 :: i32) <s 1"
  "\<not> (1 :: i32) <s 0"
  by code_simp+

text \<open>Away from typing, the diagnostics of a document are looked up, or computed and stored.\<close>

lemma analysis_quiet:
  assumes "b_recent_typing_changes b uri = None"
  shows "analysis_diagnostics_for_uri an now sh uri open_doc b =
     (let key = \<lparr>ck_uri = uri, ck_kind = QDiagnostics\<rparr>; version = current_document_version b uri;
          e = cache_get key version (b_query_cache b) in
      case fst e of
        Some (CvDiagnostics ds) \<Rightarrow> (ds, b\<lparr>b_query_cache := snd e\<rparr>)
      | _ \<Rightarrow>
          (let ds = dedupe (syntax_diagnostics_for_document an sh uri open_doc @
                      collect_diagnostics_with_typing_suppression an sh uri (od_text open_doc) None) in
           (ds, b\<lparr>b_query_cache := cache_insert key version (CvDiagnostics ds) (snd e)\<rparr>)))"
  using assms
  by (simp add: analysis_diagnostics_for_uri_def active_typing_suppression_def Let_def case_prod_unfold
        split: option.split cache_value.split)

lemma analysis_stored:
  assumes "b_recent_typing_changes b uri = None"
  shows "fst (analysis_diagnostics_for_uri an' now' sh' uri open_doc'
       (snd (analysis_diagnostics_for_uri an now sh uri open_doc b))) =
     fst (analysis_diagnostics_for_uri an now sh uri open_doc b)"
proof -
  let ?k = "\<lparr>ck_uri = uri, ck_kind = QDiagnostics\<rparr>" and ?v = "current_document_version b uri"
  let ?e = "cache_get ?k ?v (b_query_cache b)" and ?r = "analysis_diagnostics_for_uri an now sh uri open_doc b"
  have hit: "b_recent_typing_changes (snd ?r) uri = None"
    "current_document_version (snd ?r) uri = ?v"
    "fst (cache_get ?k ?v (b_query_cache (snd ?r))) = Some (CvDiagnostics (fst ?r))"
    using assms
    by (auto simp: analysis_quiet Let_def current_document_version_def cache.get_insert cache.get_get
          split: option.split cache_value.split)
  then show ?thesis by (simp add: analysis_quiet [OF hit(1)] Let_def)
qed

text \<open>A second request with the same key gets the answer of the first.\<close>

lemma cached_request_repeat:
  assumes "\<And>r. unwrap (wrap r) = Some r"
  shows "fst (cached_request key unwrap wrap compute' (snd (cached_request key unwrap wrap compute b))) =
     fst (cached_request key unwrap wrap compute b)"
  using assms
  by (simp add: cached_request_def current_document_version_def document_for_def Let_def case_prod_unfold
        cache.get_insert cache.get_get split: option.split)

subsection \<open>Properties\<close>

text \<open>An analysis that is still running when its document is closed and opened again puts the old text
  back: the version of the new document is lower, so the result does not count as stale.  Whatever the
  texts, the server then holds the text of the first session, and what it publishes is about it.\<close>

theorem reopened_document_overwritten:
  "let w = run an [EvOpen uri old_text 5, EvClose uri, EvOpen uri new_text 1, EvResume 0] (initial_world disk Push) in
   document_for (w_main w) uri = Some old_text \<and>
   map p_version (s_published (w_shared w)) = [Some 5]"
  by (simp add: session_defs)

text \<open>The idle analysis runs on a clone of the backend, so that its own check for staleness does not see
  a newer version: after the diagnostics of version 2 it still publishes those of version 1.\<close>

theorem idle_analysis_publishes_stale:
  "let w = run an [EvOpen uri old_text 1, EvResume 0, EvResume 0, EvPoll 0, EvTick 700, EvPoll 0,
                   EvChange uri 2 [\<lparr>change_range = None, change_text = new_text\<rparr>], EvResume 1, EvResume 0]
             (initial_world disk Push) in
   current_document_version (w_main w) uri = 2 \<and> document_for (w_main w) uri = Some new_text \<and>
   map p_version (s_published (w_shared w)) = [Some 1, Some 2, Some 1]"
  by (simp add: session_defs COLD_DIAGNOSTICS_DEBOUNCE_MILLIS_def LONG_SLEEP_def case_prod_unfold
      text_after_content_changes_def apply_content_change_def)

text \<open>Once a document has been analysed for a republication, it is not analysed again at this version:
  whatever the settings, the workspace index or the manifests have become in the meantime, the cached
  diagnostics are the ones that are published.\<close>

theorem republished_diagnostics_ignore_changes:
  "let b = backend\<lparr>b_recent_typing_changes := (\<lambda>_. None)\<rparr>;
       (ds, b1) = analysis_diagnostics_for_uri an now sh uri open_doc b in
   fst (analysis_diagnostics_for_uri an now' sh' uri open_doc b1) = ds"
  using analysis_stored [of "backend\<lparr>b_recent_typing_changes := (\<lambda>_. None)\<rparr>" uri]
  by (auto simp: Let_def case_prod_unfold)

text \<open>Tokens of a range are cached as the tokens of the whole document: after a request for a range,
  the requests for the document and for any other range get the tokens of the first one.\<close>

theorem range_tokens_answer_all_requests:
  "let (tokens, b1) = semantic_tokens_range an uri r b in
   fst (semantic_tokens_full an uri b1) = tokens \<and> fst (semantic_tokens_range an uri r' b1) = tokens"
  by (simp add: semantic_tokens_full_def semantic_tokens_range_def cached_request_repeat case_prod_unfold)

text \<open>The code actions cached for a publication are those of the first request, built from the
  diagnostics that touch its range: a later request at another range, with other diagnostics, is given
  the same ones.\<close>

theorem cached_code_actions_ignore_range:
  "let (acts, b1) = cursor_independent_code_actions an sh uri source diagnostics_there False b in
   fst (cursor_independent_code_actions an sh uri source diagnostics_here False b1) = acts"
  by (simp add: cursor_independent_code_actions_def Let_def case_prod_unfold cache.get_insert cache.get_get
        split: option.split)

end
