(* ===== verification/Session_Refinement.thy ===== *)
theory Session_Refinement
  imports Server_Sessions
begin

section \<open>Well-behaved sessions show the client's documents\<close>

text \<open>
  The contract of text synchronisation: the abstract state is the text and the version of every
  document the client has open.  \<open>session\<close> is the step relation of the server under a client that
  numbers the versions of a document upwards, sends edits of its own text, saves what it has open
  and closes a document only when no analysis of it is in flight.  Under it the server holds the
  client's texts in every interleaving, and answers from its cache are computed from them.
\<close>

type_synonym client = "url \<Rightarrow> (string \<times> i32) option"

definition newer :: "client \<Rightarrow> url \<Rightarrow> i32 \<Rightarrow> bool" where
  "newer c uri v \<longleftrightarrow> (case c uri of None \<Rightarrow> True | Some (_, v0) \<Rightarrow> v0 <s v)"

fun in_flight :: "url \<Rightarrow> task \<Rightarrow> bool" where
  "in_flight uri (HotTask u _ _ _ _ _ _) \<longleftrightarrow> u = uri"
| "in_flight uri (SaveTask u _ _) \<longleftrightarrow> u = uri"
| "in_flight uri _ \<longleftrightarrow> False"

fun is_document_event :: "event \<Rightarrow> bool" where
  "is_document_event (EvOpen _ _ _) \<longleftrightarrow> True"
| "is_document_event (EvChange _ _ _) \<longleftrightarrow> True"
| "is_document_event (EvSave _ _) \<longleftrightarrow> True"
| "is_document_event (EvClose _) \<longleftrightarrow> True"
| "is_document_event _ \<longleftrightarrow> False"

inductive session :: "analysis \<Rightarrow> client \<Rightarrow> world \<Rightarrow> bool" for an where
  start: "session an (\<lambda>_. None) (initial_world disk transport)"
| opened: "session an c w \<Longrightarrow> newer c uri v \<Longrightarrow> session an (c(uri \<mapsto> (source, v))) (step an (EvOpen uri source v) w)"
| changed: "session an c w \<Longrightarrow> c uri = Some (source, v0) \<Longrightarrow> v0 <s v \<Longrightarrow> changes \<noteq> [] \<Longrightarrow>
    text_after_content_changes (Some source) changes = Inr (source', r) \<Longrightarrow>
    session an (c(uri \<mapsto> (source', v))) (step an (EvChange uri v changes) w)"
| saved: "session an c w \<Longrightarrow> saved \<in> {None, map_option fst (c uri)} \<Longrightarrow>
    session an c (step an (EvSave uri saved) w)"
| closed: "session an c w \<Longrightarrow> list_all (\<lambda>t. \<not> in_flight uri t) (w_tasks w) \<Longrightarrow>
    session an (c(uri := None)) (step an (EvClose uri) w)"
| other: "session an c w \<Longrightarrow> \<not> is_document_event e \<Longrightarrow> session an c (step an e w)"

subsection \<open>The simulation relation\<close>

definition doc_current :: "client \<Rightarrow> url \<Rightarrow> open_document \<Rightarrow> bool" where
  "doc_current c uri d \<longleftrightarrow>
     (\<exists>t v v'. c uri = Some (t, v) \<and> od_version d = Some v' \<and> (v' <s v \<or> v' = v \<and> od_text d = t))"

fun task_ok :: "client \<Rightarrow> task \<Rightarrow> bool" where
  "task_ok c (HotTask u _ _ _ d _ _) \<longleftrightarrow> doc_current c u d"
| "task_ok c (SaveTask u d _) \<longleftrightarrow> doc_current c u d"
| "task_ok c _ \<longleftrightarrow> True"

definition documents_match :: "client \<Rightarrow> (url, open_document) hmap \<Rightarrow> bool" where
  "documents_match c docs \<longleftrightarrow>
     (\<forall>uri. map_option (\<lambda>d. (od_text d, od_version d)) (map_of docs uri) =
            map_option (\<lambda>(t, v). (t, Some v)) (c uri))"

definition entry_ok :: "analysis \<Rightarrow> string \<Rightarrow> i32 \<Rightarrow> query_kind \<Rightarrow> cache_value \<Rightarrow> bool" where
  "entry_ok an t v kind x \<longleftrightarrow>
     (case kind of
        QFoldingRanges \<Rightarrow> x = CvFoldingRanges (an_folding an t)
      | QInlayHints r \<Rightarrow> x = CvInlayHints (an_hints an t r)
      | QDocumentSymbols \<Rightarrow> x = CvDocumentSymbols (an_symbols an t v)
      | _ \<Rightarrow> True)"

definition cache_fresh :: "analysis \<Rightarrow> client \<Rightarrow> query_cache \<Rightarrow> bool" where
  "cache_fresh an c cache \<longleftrightarrow>
     (\<forall>key t v e. c (ck_uri key) = Some (t, v) \<longrightarrow> cache_entry_of key cache = Some e \<longrightarrow>
        document_version e = v \<longrightarrow> entry_ok an t v (ck_kind key) (ce_value e))"

definition simulates :: "analysis \<Rightarrow> client \<Rightarrow> world \<Rightarrow> bool" where
  "simulates an c w \<longleftrightarrow>
     documents_match c (b_documents (w_main w)) \<and> list_all (task_ok c) (w_tasks w) \<and>
     cache_fresh an c (b_query_cache (w_main w))"

lemma entry_ok_other [simp]:
  "entry_ok an t v QDiagnostics x" "entry_ok an t v (QCompletion p) x" "entry_ok an t v (QHover p) x"
  "entry_ok an t v QSemanticTokens x" "entry_ok an t v (QCodeActions u) x"
  by (simp_all add: entry_ok_def)

lemma cache_fresh_get: "cache_fresh an c cache \<Longrightarrow> cache_fresh an c (snd (cache_get k v cache))"
  by (auto simp: cache_fresh_def cache_entry_of_get split: if_splits)

lemma cache_fresh_insert:
  "cache_fresh an c cache \<Longrightarrow> (\<And>t. c (ck_uri k) = Some (t, v) \<Longrightarrow> entry_ok an t v (ck_kind k) x) \<Longrightarrow>
     cache_fresh an c (cache_insert k v x cache)"
  by (auto simp: cache_fresh_def cache_entry_of_insert split: if_splits)

lemma cache_fresh_update:
  "cache_fresh an c cache \<Longrightarrow> cache_fresh an (c(uri := y)) (invalidate_for_uri uri cache)"
  by (auto simp: cache_fresh_def cache_entry_of_invalidate split: if_splits)

lemma cache_fresh_close: "cache_fresh an c cache \<Longrightarrow> cache_fresh an (c(uri := None)) cache"
  by (auto simp: cache_fresh_def split: if_splits)

lemma documents_match_put:
  "documents_match c docs \<Longrightarrow> od_text d = t \<Longrightarrow> od_version d = Some v \<Longrightarrow>
     documents_match (c(uri \<mapsto> (t, v))) (hm_put uri d docs)"
  by (simp add: documents_match_def map_of_hm_put)

lemma documents_match_remove:
  "documents_match c docs \<Longrightarrow> documents_match (c(uri := None)) (hm_remove uri docs)"
  by (simp add: documents_match_def map_of_hm_remove)

lemma documents_matchD:
  assumes "documents_match c (b_documents b)" "c uri = Some (t, v)"
  shows "document_for b uri = Some t" "current_document_version b uri = v"
    "\<exists>d. map_of (b_documents b) uri = Some d \<and> od_text d = t \<and> od_version d = Some v"
proof -
  from assms have "map_option (\<lambda>d. (od_text d, od_version d)) (map_of (b_documents b) uri) = Some (t, Some v)"
    by (simp add: documents_match_def)
  then show "document_for b uri = Some t" "current_document_version b uri = v"
    "\<exists>d. map_of (b_documents b) uri = Some d \<and> od_text d = t \<and> od_version d = Some v"
    by (auto simp: document_for_def current_document_version_def)
qed

lemma documents_match_none:
  "documents_match c (b_documents b) \<Longrightarrow> c uri = None \<Longrightarrow> document_for b uri = None"
  by (auto simp: documents_match_def document_for_def dest: spec [of _ uri])

lemma version_less_irrefl [simp]: "\<not> (v :: i32) <s v"
  by (simp add: word_sless_alt)

lemma version_less_trans: "(a :: i32) <s b \<Longrightarrow> b <s d \<Longrightarrow> a <s d"
  by (simp add: word_sless_alt)

lemma version_less_asym: "(a :: i32) <s b \<Longrightarrow> \<not> b <s a"
  by (simp add: word_sless_alt)

lemma task_ok_newer:
  "task_ok c t \<Longrightarrow> newer c uri v \<Longrightarrow> task_ok (c(uri \<mapsto> (source, v))) t"
  by (cases t) (auto simp: doc_current_def newer_def intro: version_less_trans split: if_splits)

lemma task_ok_close: "task_ok c t \<Longrightarrow> \<not> in_flight uri t \<Longrightarrow> task_ok (c(uri := None)) t"
  by (cases t) (auto simp: doc_current_def)

text \<open>A result that is not stale is the document the client has open.\<close>

lemma not_stale:
  assumes "documents_match c (b_documents b)" "doc_current c uri d"
    and "\<not> is_stale_diagnostic_publish (current_document_version b uri) (od_version d)"
  shows "documents_match c (hm_put uri d (b_documents b))"
proof -
  obtain t v v' where v: "c uri = Some (t, v)" "od_version d = Some v'" "v' <s v \<or> v' = v \<and> od_text d = t"
    using assms(2) by (auto simp: doc_current_def)
  with assms(1,3) have "v' = v" "od_text d = t"
    by (auto simp: is_stale_diagnostic_publish_def documents_matchD)
  with documents_match_put [OF assms(1), of d t v uri] v show ?thesis by (simp add: fun_upd_idem)
qed

subsection \<open>What the operations leave alone\<close>

lemma suppression_frame [simp]:
  "b_documents (snd (active_typing_suppression now uri b)) = b_documents b"
  "b_query_cache (snd (active_typing_suppression now uri b)) = b_query_cache b"
  by (simp_all add: active_eq)

lemma analysis_frame:
  "b_documents (snd (analysis_diagnostics_for_uri an now sh uri d b)) = b_documents b"
  "cache_fresh an c (b_query_cache b) \<Longrightarrow>
     cache_fresh an c (b_query_cache (snd (analysis_diagnostics_for_uri an now sh uri d b)))"
  by (simp_all add: analysis_diagnostics_for_uri_def Let_def case_prod_unfold cache_fresh_get cache_fresh_insert
        split: option.split cache_value.split)

lemma completion_frame:
  "b_documents (snd (completion_impl an sh uri p b)) = b_documents b"
  "cache_fresh an c (b_query_cache b) \<Longrightarrow>
     cache_fresh an c (b_query_cache (snd (completion_impl an sh uri p b)))"
  by (simp_all add: completion_impl_def Let_def case_prod_unfold cache_fresh_get cache_fresh_insert
        split: option.split)

lemma code_action_frame:
  "b_documents (snd (code_action_impl an now sh ps b)) = b_documents b"
  "cache_fresh an c (b_query_cache b) \<Longrightarrow>
     cache_fresh an c (b_query_cache (snd (code_action_impl an now sh ps b)))"
  by (simp_all add: code_action_impl_def code_action_diagnostics_def collect_diagnostics_for_uri_def
        cursor_independent_code_actions_def Let_def case_prod_unfold cache_fresh_get cache_fresh_insert
        split: option.split)

lemma cached_request_frame:
  "b_documents (snd (cached_request key unwrap wrap compute b)) = b_documents b"
  by (simp add: cached_request_def Let_def case_prod_unfold split: option.split)

lemma cached_request_fresh:
  assumes "documents_match c (b_documents b)" "cache_fresh an c (b_query_cache b)"
    and "\<And>t v. c (ck_uri key) = Some (t, v) \<Longrightarrow> entry_ok an t v (ck_kind key) (wrap (compute t))"
  shows "cache_fresh an c (b_query_cache (snd (cached_request key unwrap wrap compute b)))"
proof -
  let ?cache = "snd (cache_get key (current_document_version b (ck_uri key)) (b_query_cache b))"
  have fresh: "cache_fresh an c ?cache" using assms(2) by (rule cache_fresh_get)
  have "cache_fresh an c (cache_insert key (current_document_version b (ck_uri key)) (wrap (compute s)) ?cache)"
    if s: "document_for b (ck_uri key) = Some s" for s
  proof (rule cache_fresh_insert [OF fresh])
    fix t
    assume t: "c (ck_uri key) = Some (t, current_document_version b (ck_uri key))"
    with documents_matchD(1) [OF assms(1) t] s assms(3)
    show "entry_ok an t (current_document_version b (ck_uri key)) (ck_kind key) (wrap (compute s))" by simp
  qed
  with fresh show ?thesis
    by (simp add: cached_request_def document_for_def Let_def case_prod_unfold split: option.split)
qed

text \<open>A request for an open document is answered from its text.\<close>

lemma cached_request_answer:
  assumes "documents_match c (b_documents b)" "cache_fresh an c (b_query_cache b)" "c (ck_uri key) = Some (t, v)"
    and "\<And>x. entry_ok an t v (ck_kind key) x \<Longrightarrow> x = wrap (compute t)" "\<And>r. unwrap (wrap r) = Some r"
  shows "fst (cached_request key unwrap wrap compute b) = Some (compute t)"
proof -
  note open_doc = documents_matchD [OF assms(1,3)]
  show ?thesis
  proof (cases "fst (cache_get key v (b_query_cache b))")
    case None
    with open_doc(2,3) show ?thesis
      by (auto simp: cached_request_def document_for_def Let_def case_prod_unfold)
  next
    case (Some x)
    then have "entry_ok an t v (ck_kind key) x"
      using assms(2,3) by (auto simp: cache_get_result cache_fresh_def split: option.splits if_splits)
    then have "x = wrap (compute t)" by (rule assms(4))
    with Some open_doc assms(5) show ?thesis
      by (simp add: cached_request_def Let_def case_prod_unfold)
  qed
qed

subsection \<open>Every step preserves the simulation\<close>

lemma worker_frame [simp]:
  "w_main (send_to i x w) = w_main w" "w_tasks (send_to i x w) = w_tasks w"
  "w_main (cancel_scheduled_analysis uri w) = w_main w" "w_tasks (cancel_scheduled_analysis uri w) = w_tasks w"
  "w_main (spawn t w) = w_main w" "w_tasks (spawn t w) = w_tasks w @ [t]"
  by (simp_all add: send_to_def cancel_scheduled_analysis_def spawn_def split: option.split)

lemma schedule_frame:
  "b_documents (w_main (schedule_full_analysis_and_publish uri s v w)) = b_documents (w_main w)"
  "b_query_cache (w_main (schedule_full_analysis_and_publish uri s v w)) = b_query_cache (w_main w)"
  "w_tasks (schedule_full_analysis_and_publish uri s v w) = w_tasks w"
  by (simp_all add: schedule_full_analysis_and_publish_def debouncer_for_uri_def Let_def split: option.split)

lemma simulates_frame:
  "b_documents (w_main w') = b_documents (w_main w) \<Longrightarrow> b_query_cache (w_main w') = b_query_cache (w_main w) \<Longrightarrow>
     w_tasks w' = w_tasks w \<Longrightarrow> simulates an c w' \<longleftrightarrow> simulates an c w"
  by (simp add: simulates_def)

lemma simulates_spawn: "simulates an c w \<Longrightarrow> task_ok c t \<Longrightarrow> simulates an c (spawn t w)"
  by (simp add: simulates_def)

lemma update_simulates:
  assumes "simulates an c w" "newer c uri v"
  shows "simulates an (c(uri \<mapsto> (source, v))) (handle_document_update an uri source (Some v) kind r w)"
proof -
  from assms(1) have docs: "documents_match c (b_documents (w_main w))"
    and tasks: "list_all (task_ok c) (w_tasks w)" and cache: "cache_fresh an c (b_query_cache (w_main w))"
    by (simp_all add: simulates_def)
  have "documents_match (c(uri \<mapsto> (source, v))) (hm_put uri (open_document_new source (Some v)) (b_documents (w_main w)))"
    using docs by (rule documents_match_put) (simp_all add: open_document_new_def)
  moreover have "list_all (task_ok (c(uri \<mapsto> (source, v)))) (w_tasks w)"
    using tasks task_ok_newer [OF _ assms(2)] by (auto simp: list_all_iff)
  moreover have "doc_current (c(uri \<mapsto> (source, v))) uri (parsed_open_document_new an source (Some v))"
    by (simp add: doc_current_def)
  ultimately show ?thesis
    using cache_fresh_update [OF cache]
    by (simp add: handle_document_update_def parse_index_and_publish_hot_def track_eq active_eq Let_def simulates_def)
qed

lemma finish_hot_simulates:
  assumes "simulates an c w" "doc_current c uri d"
  shows "simulates an c (finish_hot an uri d ds up w)"
  using assms not_stale [of c "w_main w" uri d]
  by (simp add: simulates_def finish_hot_def Let_def)

lemma finish_full_simulates:
  assumes "simulates an c w" "doc_current c uri d"
  shows "simulates an c (w\<lparr>w_main := fst (finish_full uri d ds lane (w_main w) sh), w_shared := sh'\<rparr>)"
  using assms not_stale [of c "w_main w" uri d]
  by (simp add: simulates_def finish_full_def Let_def)

lemma resume_simulates:
  assumes "simulates an c w" "task_ok c t"
  shows "simulates an c (resume an t w)"
proof (cases t)
  case (HotTask uri source version kind d ds up)
  with assms finish_hot_simulates [of an c w uri d ds up] show ?thesis by (simp add: simulates_spawn)
next
  case (AfterHotTask uri source version kind)
  with assms show ?thesis by (simp add: finish_update_def simulates_def schedule_frame)
next
  case (SaveTask uri d ds)
  with assms finish_full_simulates [OF assms(1), of uri d] show ?thesis
    by (simp add: case_prod_unfold Let_def)
next
  case (RepublishTask docs)
  with assms show ?thesis
    by (cases docs) (auto simp: simulates_def republish_document_def Let_def case_prod_unfold analysis_frame)
qed (use assms in \<open>simp_all add: simulates_def\<close>)

lemma request_simulates:
  assumes "simulates an c w"
    and "\<And>t v. c (ck_uri key) = Some (t, v) \<Longrightarrow> entry_ok an t v (ck_kind key) (wrap (compute t))"
  shows "simulates an c (on_main (cached_request key unwrap wrap compute) w)"
  using assms cached_request_fresh [of c "w_main w" an key wrap compute]
  by (simp add: simulates_def on_main_def cached_request_frame)

lemma quiet_step_simulates:
  assumes "simulates an c w" "\<not> is_document_event e"
  shows "simulates an c (step an e w)"
proof (cases e)
  case (EvCodeAction ps)
  with assms show ?thesis by (simp add: simulates_def on_main_def code_action_frame)
next
  case (EvCompletion uri p)
  with assms show ?thesis by (simp add: simulates_def on_main_def completion_frame)
next
  case (EvFolding uri)
  with assms show ?thesis by (simp add: folding_range_def) (rule request_simulates; simp add: entry_ok_def)
next
  case (EvHints uri r)
  with assms show ?thesis by (simp add: inlay_hint_def) (rule request_simulates; simp add: entry_ok_def)
next
  case (EvSymbols uri)
  with assms have docs: "documents_match c (b_documents (w_main w))" by (simp add: simulates_def)
  have "simulates an c (on_main (cached_request \<lparr>ck_uri = uri, ck_kind = QDocumentSymbols\<rparr>
      as_document_symbols CvDocumentSymbols
      (\<lambda>source. an_symbols an source (current_document_version (w_main w) uri))) w)"
    using assms(1) by (rule request_simulates) (auto simp: entry_ok_def documents_matchD(2) [OF docs])
  with EvSymbols show ?thesis by (simp add: on_main_def document_symbol_impl_def)
next
  case (EvTokensFull uri)
  with assms show ?thesis by (simp add: semantic_tokens_full_def) (rule request_simulates; simp)
next
  case (EvTokensRange uri r)
  with assms show ?thesis by (simp add: semantic_tokens_range_def) (rule request_simulates; simp)
next
  case (EvPoll i)
  with assms show ?thesis
    by (simp add: simulates_def poll_worker_def Let_def case_prod_unfold spawn_def split: option.split)
next
  case (EvResume n)
  have "simulates an c (w\<lparr>w_tasks := take n (w_tasks w) @ drop (n + 1) (w_tasks w)\<rparr>)"
    using assms(1) by (auto simp: simulates_def list_all_iff dest: in_set_takeD in_set_dropD)
  then have "simulates an c (resume an (w_tasks w ! n)
      (w\<lparr>w_tasks := take n (w_tasks w) @ drop (n + 1) (w_tasks w)\<rparr>))" if "n < length (w_tasks w)"
    using assms(1) that by (intro resume_simulates) (simp_all add: simulates_def list_all_length)
  with EvResume assms(1) show ?thesis by simp
qed (use assms in \<open>simp_all add: simulates_def did_change_configuration_def did_change_workspace_folders_def Let_def spawn_def\<close>)

lemma session_simulates: "session an c w \<Longrightarrow> simulates an c w"
proof (induction rule: session.induct)
  case (start disk transport)
  show ?case
    by (simp add: simulates_def initial_world_def initial_backend_def documents_match_def cache_fresh_def)
next
  case (opened c w uri v source)
  from update_simulates [OF opened.IH opened.hyps(2)] show ?case by (simp only: step.simps did_open_def)
next
  case (changed c w uri source v0 v changes source' r)
  then have docs: "documents_match c (b_documents (w_main w))" by (simp add: simulates_def)
  from changed.hyps have "newer c uri v" by (simp add: newer_def)
  from update_simulates [OF changed.IH this, of source' Change r] show ?case
    using changed.hyps documents_matchD(1) [OF docs changed.hyps(2)]
    by (simp only: step.simps did_change_def sum.case prod.case if_False)
next
  case (saved c w saved uri)
  then have docs: "documents_match c (b_documents (w_main w))" by (simp add: simulates_def)
  show ?case
  proof (cases "c uri")
    case None
    with saved documents_match_none [OF docs None] show ?thesis by (auto simp: did_save_def)
  next
    case (Some tv)
    obtain t v where tv: "c uri = Some (t, v)" using Some by (cases tv) simp
    with saved documents_matchD [OF docs tv]
    have "or_else saved (document_for (w_main w) uri) = Some t" "current_document_version (w_main w) uri = v"
      by auto
    moreover have "doc_current c uri (parsed_open_document_new an t (Some v))"
      using tv by (simp add: doc_current_def)
    ultimately show ?thesis
      using saved.IH
      by (simp add: did_save_def run_analysis_on_blocking_thread_def Let_def case_prod_unfold simulates_def)
  qed
next
  case (closed c w uri)
  then have "list_all (task_ok (c(uri := None))) (w_tasks w)"
    by (auto simp: simulates_def list_all_iff task_ok_close)
  with closed documents_match_remove [of c "b_documents (w_main w)" uri]
    cache_fresh_close [of an c "b_query_cache (w_main w)" uri]
  show ?case by (simp add: did_close_def Let_def simulates_def fun_upd_def)
next
  case (other c w e)
  then show ?case by (simp add: quiet_step_simulates)
qed

subsection \<open>Properties\<close>





end
