(* ===== verification/Decimal_Text.thy ===== *)
theory Decimal_Text
  imports Rust_Prelude
begin

section \<open>Numbers and their decimal text\<close>

text \<open>\<open>Display\<close> and \<open>FromStr\<close> of the unsigned integers, and that parsing undoes printing.\<close>

fun show_nat :: "nat \<Rightarrow> string" where
  "show_nat n = (if n < 10 then [char_of (48 + n)] else show_nat (n div 10) @ [char_of (48 + n mod 10)])"

declare show_nat.simps [simp del]

definition digit_value :: "char \<Rightarrow> nat option" where
  "digit_value c = (if is_ascii_digit c then Some (byte c - 48) else None)"

fun digits_value :: "nat \<Rightarrow> string \<Rightarrow> nat option" where
  "digits_value acc [] = Some acc"
| "digits_value acc (c # s) =
     (case digit_value c of None \<Rightarrow> None | Some d \<Rightarrow> digits_value (10 * acc + d) s)"

text \<open>\<open>str::parse::<u64>\<close>: an optional plus sign and at least one digit, without overflow.\<close>

definition parse_u64_digits :: "string \<Rightarrow> u64 option" where
  "parse_u64_digits s =
     (let digits = (case s of CHR ''+'' # t \<Rightarrow> t | _ \<Rightarrow> s) in
      if digits = [] then None
      else
        (case digits_value 0 digits of
           None \<Rightarrow> None
         | Some n \<Rightarrow> if n < 2 ^ 64 then Some (of_nat n) else None))"

definition show_u64 :: "u64 \<Rightarrow> string" where
  "show_u64 n = show_nat (unat n)"

lemma byte_digit: "n < 10 \<Longrightarrow> digit_value (char_of (48 + n)) = Some n"
  by (simp add: digit_value_def is_ascii_digit_def byte_def)

lemma digits_value_append:
  "digits_value acc (s @ t) = Option.bind (digits_value acc s) (\<lambda>n. digits_value n t)"
  by (induction s arbitrary: acc) (auto split: option.split)

lemma digits_value_show: "digits_value 0 (show_nat n) = Some n"
proof (induction n rule: show_nat.induct)
  case (1 n)
  show ?case
  proof (cases "n < 10")
    case True
    then show ?thesis by (simp add: show_nat.simps [of n] byte_digit)
  next
    case False
    then show ?thesis using 1 by (simp add: show_nat.simps [of n] digits_value_append byte_digit)
  qed
qed

lemma show_nat_digits: "list_all is_ascii_digit (show_nat n) \<and> show_nat n \<noteq> []"
proof (induction n rule: show_nat.induct)
  case (1 n)
  then show ?case by (cases "n < 10") (simp_all add: show_nat.simps [of n] is_ascii_digit_def byte_def)
qed

lemma parse_show_u64: "parse_u64_digits (show_u64 n) = Some n"
proof -
  obtain c t where s: "show_nat (unat n) = c # t" "is_ascii_digit c"
    using show_nat_digits [of "unat n"] by (cases "show_nat (unat n)") auto
  then have "(case c # t of CHR ''+'' # u \<Rightarrow> u | _ \<Rightarrow> c # t) = c # t"
    by (cases "c = CHR ''+''") (auto simp: is_ascii_digit_def byte_def split: char.splits bool.splits)
  moreover have "digits_value 0 (c # t) = Some (unat n)" using digits_value_show [of "unat n"] s by simp
  moreover have "unat n < 2 ^ LENGTH(64)" by (rule unsigned_less)
  ultimately show ?thesis using s(1) by (simp add: parse_u64_digits_def show_u64_def Let_def del: digits_value.simps)
qed

end
