(* ===== verification/Account_Space.thy ===== *)
theory Account_Space
  imports Workspace_Queries Decimal_Text
begin

section \<open>Account data sizes\<close>

text \<open>
  Models \<open>src/anchor/space.rs\<close>, the estimate of the serialized size of an account: exact, a
  formula with symbolic lengths, or unknown with a reason.  The parser of types (\<open>syn\<close>) is the
  parameter \<open>parse\<close>; a parsed type is the datatype \<open>rust_type\<close>, in which the length of an array
  is its value, when it is a \<open>u64\<close> literal, and its tokens without white space.  The resolver
  recurses through named types; \<open>fuel\<close> bounds the depth of this recursion and a result \<open>None\<close>
  is a recursion that is deeper.
\<close>

subsection \<open>Estimates\<close>

definition BOOL_BYTES :: u64 where "BOOL_BYTES = 1"
definition U8_BYTES :: u64 where "U8_BYTES = 1"
definition U16_BYTES :: u64 where "U16_BYTES = 2"
definition U32_BYTES :: u64 where "U32_BYTES = 4"
definition U64_BYTES :: u64 where "U64_BYTES = 8"
definition U128_BYTES :: u64 where "U128_BYTES = 16"
definition PUBKEY_BYTES :: u64 where "PUBKEY_BYTES = 32"
definition BORSH_LENGTH_PREFIX_BYTES :: u64 where "BORSH_LENGTH_PREFIX_BYTES = 4"
definition OPTION_TAG_BYTES :: u64 where "OPTION_TAG_BYTES = 1"
definition ENUM_TAG_BYTES :: u64 where "ENUM_TAG_BYTES = 1"

lemmas byte_defs = BOOL_BYTES_def U8_BYTES_def U16_BYTES_def U32_BYTES_def U64_BYTES_def U128_BYTES_def
  PUBKEY_BYTES_def BORSH_LENGTH_PREFIX_BYTES_def OPTION_TAG_BYTES_def ENUM_TAG_BYTES_def

datatype unknown_reason = RecursiveType | ZeroCopyLayout | UnresolvableType | UnsupportedType | SpaceOverflow

record symbolic_part =
  part_field :: string
  part_expr :: string

datatype space_estimate = Exact u64 | Formula u64 "symbolic_part list" | Unknown unknown_reason

record field_space_report =
  fsr_field :: string
  fsr_type_display :: string
  fsr_estimate :: space_estimate

record account_space_report =
  asr_estimate :: space_estimate
  asr_fields :: "field_space_report list"

fun exact_bytes :: "space_estimate \<Rightarrow> u64 option" where
  "exact_bytes (Exact bytes) = Some bytes"
| "exact_bytes _ = None"

fun is_known :: "space_estimate \<Rightarrow> bool" where
  "is_known (Unknown _) \<longleftrightarrow> False"
| "is_known _ \<longleftrightarrow> True"

subsection \<open>Lengths written as numbers\<close>

definition trim_parens :: "string \<Rightarrow> string" where
  "trim_parens s =
     (let p = (\<lambda>c. c = CHR ''('' \<or> c = CHR '')'') in rev (dropWhile p (rev (dropWhile p s))))"

definition parse_u64 :: "string \<Rightarrow> u64 option" where
  "parse_u64 s = parse_u64_digits (trim_parens s)"

subsection \<open>Arithmetic of estimates\<close>

definition primitive_bytes :: "string \<Rightarrow> u64 option" where
  "primitive_bytes t =
     (if t = ''bool'' then Some BOOL_BYTES
      else if t = ''u8'' \<or> t = ''i8'' then Some U8_BYTES
      else if t = ''u16'' \<or> t = ''i16'' then Some U16_BYTES
      else if t = ''u32'' \<or> t = ''i32'' \<or> t = ''f32'' then Some U32_BYTES
      else if t = ''u64'' \<or> t = ''i64'' \<or> t = ''f64'' then Some U64_BYTES
      else if t = ''u128'' \<or> t = ''i128'' then Some U128_BYTES
      else if t = ''Pubkey'' then Some PUBKEY_BYTES
      else None)"

fun add_estimates :: "space_estimate \<Rightarrow> space_estimate \<Rightarrow> space_estimate" where
  "add_estimates (Unknown reason) _ = Unknown reason"
| "add_estimates _ (Unknown reason) = Unknown reason"
| "add_estimates (Exact l) (Exact r) =
     (case checked_add l r of Some n \<Rightarrow> Exact n | None \<Rightarrow> Unknown SpaceOverflow)"
| "add_estimates (Exact l) (Formula fixed symbolic) =
     (case checked_add l fixed of Some n \<Rightarrow> Formula n symbolic | None \<Rightarrow> Unknown SpaceOverflow)"
| "add_estimates (Formula fixed symbolic) (Exact l) =
     (case checked_add l fixed of Some n \<Rightarrow> Formula n symbolic | None \<Rightarrow> Unknown SpaceOverflow)"
| "add_estimates (Formula lf ls) (Formula rf rs) =
     (case checked_add lf rf of Some n \<Rightarrow> Formula n (ls @ rs) | None \<Rightarrow> Unknown SpaceOverflow)"

definition try_add_estimates :: "space_estimate \<Rightarrow> space_estimate \<Rightarrow> space_estimate option" where
  "try_add_estimates l r = (case add_estimates l r of Unknown _ \<Rightarrow> None | estimate \<Rightarrow> Some estimate)"

fun multiply_estimate :: "space_estimate \<Rightarrow> u64 \<Rightarrow> string \<Rightarrow> space_estimate" where
  "multiply_estimate (Exact bytes) factor field =
     (case checked_mul bytes factor of Some n \<Rightarrow> Exact n | None \<Rightarrow> Unknown SpaceOverflow)"
| "multiply_estimate (Formula fixed symbolic) factor field =
     (case checked_mul fixed factor of
        Some n \<Rightarrow>
          Formula n (map (\<lambda>p. \<lparr>part_field = field,
                             part_expr = show_u64 factor @ '' * ('' @ part_expr p @ '')''\<rparr>) symbolic)
      | None \<Rightarrow> Unknown SpaceOverflow)"
| "multiply_estimate (Unknown reason) factor field = Unknown reason"

definition formula_expr :: "u64 \<Rightarrow> symbolic_part list \<Rightarrow> string" where
  "formula_expr fixed symbolic =
     join '' + '' ((if fixed > 0 \<or> symbolic = [] then [show_u64 fixed] else []) @ map part_expr symbolic)"

fun estimate_expr :: "space_estimate \<Rightarrow> string option" where
  "estimate_expr (Exact bytes) = Some (show_u64 bytes)"
| "estimate_expr (Formula fixed symbolic) = Some (formula_expr fixed symbolic)"
| "estimate_expr (Unknown _) = None"

text \<open>A repetition with a symbolic length, of an array and of a vector.\<close>

fun symbolic_payload :: "string \<Rightarrow> string \<Rightarrow> space_estimate \<Rightarrow> space_estimate" where
  "symbolic_payload field len (Exact bytes) =
     Formula 0 [\<lparr>part_field = field, part_expr = len @ '' * '' @ show_u64 bytes\<rparr>]"
| "symbolic_payload field len (Formula fixed symbolic) =
     Formula 0 [\<lparr>part_field = field, part_expr = len @ '' * ('' @ formula_expr fixed symbolic @ '')''\<rparr>]"
| "symbolic_payload field len (Unknown reason) = Unknown reason"

definition field_space :: "string \<Rightarrow> string list \<Rightarrow> space_estimate" where
  "field_space type_name generics =
     (case primitive_bytes type_name of
        Some bytes \<Rightarrow> Exact bytes
      | None \<Rightarrow>
          if type_name = ''Option'' \<and> length generics = 1 then
            Formula OPTION_TAG_BYTES
              [\<lparr>part_field = generics ! 0, part_expr = ''size of `'' @ generics ! 0 @ ''`''\<rparr>]
          else if type_name = ''String'' then
            Formula BORSH_LENGTH_PREFIX_BYTES [\<lparr>part_field = type_name, part_expr = ''max_len''\<rparr>]
          else Unknown UnresolvableType)"

definition string_space :: "string \<Rightarrow> string list \<Rightarrow> space_estimate \<times> string list" where
  "string_space field args =
     (case args of
        len # rest \<Rightarrow>
          (case parse_u64 len of
             Some n \<Rightarrow> (Exact (saturating_add BORSH_LENGTH_PREFIX_BYTES n), rest)
           | None \<Rightarrow> (Formula BORSH_LENGTH_PREFIX_BYTES [\<lparr>part_field = field, part_expr = len\<rparr>], rest))
      | [] \<Rightarrow> (Formula BORSH_LENGTH_PREFIX_BYTES [\<lparr>part_field = field, part_expr = ''max_len''\<rparr>], []))"

subsection \<open>Types\<close>

datatype rust_type =
  TyArray rust_type "u64 option" string
  | TyPath string "generic_argument list option"
  | TyTuple "rust_type list"
  | TyOther
and generic_argument = GenericType rust_type | GenericOther

fun first_type_argument :: "generic_argument list option \<Rightarrow> rust_type option" where
  "first_type_argument None = None"
| "first_type_argument (Some []) = None"
| "first_type_argument (Some (GenericType t # args)) = Some t"
| "first_type_argument (Some (GenericOther # args)) = first_type_argument (Some args)"

lemma first_type_argument_mem: "first_type_argument (Some args) = Some t \<Longrightarrow> GenericType t \<in> set args"
  by (induction "Some args" arbitrary: args rule: first_type_argument.induct) auto

lemma size_first_type_argument:
  "first_type_argument args = Some t \<Longrightarrow> size t < size (TyPath name args)"
proof (cases args)
  case (Some as)
  assume "first_type_argument args = Some t"
  with Some have "GenericType t \<in> set as" by (simp add: first_type_argument_mem)
  then have "size (GenericType t) \<le> size_list size as" by (rule size_list_estimation') simp
  with Some show ?thesis by simp
qed simp

text \<open>The size of a type, given the size of the types it names; the remaining \<open>max_len\<close> arguments
  are passed on.  Named types are resolved by \<open>named\<close>, whose \<open>None\<close> is the end of the fuel.\<close>

function (sequential)
  type_space :: "(string \<Rightarrow> space_estimate option) \<Rightarrow> rust_type \<Rightarrow> string \<Rightarrow> string list \<Rightarrow>
     (space_estimate \<times> string list) option"
and tuple_space :: "(string \<Rightarrow> space_estimate option) \<Rightarrow> rust_type list \<Rightarrow> space_estimate \<Rightarrow> string \<Rightarrow>
     string list \<Rightarrow> (space_estimate \<times> string list) option" where
  "type_space named (TyArray elem literal tokens) field args =
     Option.bind (type_space named elem field args) (\<lambda>(estimate, args1).
       Some (case literal of
               Some n \<Rightarrow> multiply_estimate estimate n field
             | None \<Rightarrow> symbolic_payload field tokens estimate, args1))"
| "type_space named (TyPath type_name generics) field args =
     (case primitive_bytes type_name of
        Some bytes \<Rightarrow> Some (Exact bytes, args)
      | None \<Rightarrow>
          if type_name = ''String'' then Some (string_space field args)
          else if type_name = ''Option'' then
            (case first_type_argument generics of
               None \<Rightarrow> Some (Unknown UnsupportedType, args)
             | Some inner \<Rightarrow>
                 Option.bind (type_space named inner field args) (\<lambda>(estimate, args1).
                   Some (add_estimates (Exact OPTION_TAG_BYTES) estimate, args1)))
          else if type_name = ''Vec'' then
            (case first_type_argument generics of
               None \<Rightarrow> Some (Unknown UnsupportedType, args)
             | Some inner \<Rightarrow>
                 Option.bind (type_space named inner field (tl args)) (\<lambda>(item, args1).
                   let payload =
                         (case args of
                            len # _ \<Rightarrow>
                              (case parse_u64 len of
                                 Some n \<Rightarrow> multiply_estimate item n field
                               | None \<Rightarrow> symbolic_payload field len item)
                          | [] \<Rightarrow> symbolic_payload field ''max_len'' item) in
                   Some (add_estimates (Exact BORSH_LENGTH_PREFIX_BYTES) payload, args1)))
          else map_option (\<lambda>estimate. (estimate, args)) (named type_name))"
| "type_space named (TyTuple elems) field args = tuple_space named elems (Exact 0) field args"
| "type_space named TyOther field args = Some (Unknown UnsupportedType, args)"
| "tuple_space named [] acc field args = Some (acc, args)"
| "tuple_space named (elem # elems) acc field args =
     Option.bind (type_space named elem field args) (\<lambda>(estimate, args1).
       case try_add_estimates acc estimate of
         None \<Rightarrow> Some (Unknown UnsupportedType, args1)
       | Some acc1 \<Rightarrow> tuple_space named elems acc1 field args1)"
  by pat_completeness auto
termination
  by (relation "measure (case_sum (\<lambda>(_, t, _, _). size t) (\<lambda>(_, ts, _, _, _). size_list size ts))")
     (auto dest: size_first_type_argument)

declare type_space.simps [simp del] tuple_space.simps [simp del]

subsection \<open>The resolver\<close>

record space_context =
  sc_document :: "anchor_symbols option"
  sc_workspace :: "workspace_index option"

definition local_struct :: "space_context \<Rightarrow> string \<Rightarrow> symbol_range option" where
  "local_struct ctx t = Option.bind (sc_document ctx) (\<lambda>d. map_of (all_structs d) t)"

definition local_enum :: "space_context \<Rightarrow> string \<Rightarrow> symbol_range option" where
  "local_enum ctx t = Option.bind (sc_document ctx) (\<lambda>d. map_of (enums d) t)"

definition workspace_struct :: "space_context \<Rightarrow> string \<Rightarrow> symbol_range option" where
  "workspace_struct ctx t =
     Option.bind (sc_workspace ctx) (\<lambda>ix. map_option wad_symbol (account_data_struct ix t))"

definition field_type_display :: "symbol_range \<Rightarrow> string" where
  "field_type_display field =
     unwrap_or ''unknown''
       (or_else (sr_type_signature field)
         (map_option
           (\<lambda>t. if sr_generic_type_names field = [] then t
                else t @ ''<'' @ join '', '' (sr_generic_type_names field) @ ''>'')
           (sr_type_name field)))"

definition field_symbol_space ::
  "(string \<Rightarrow> rust_type option) \<Rightarrow> (string \<Rightarrow> space_estimate option) \<Rightarrow> symbol_range \<Rightarrow>
     space_estimate option" where
  "field_symbol_space parse named field =
     (case sr_type_signature field of
        None \<Rightarrow>
          Some (case sr_type_name field of
                  Some t \<Rightarrow> field_space t (sr_generic_type_names field)
                | None \<Rightarrow> Unknown UnsupportedType)
      | Some type_signature \<Rightarrow>
          (case parse type_signature of
             None \<Rightarrow> Some (Unknown UnsupportedType)
           | Some ty \<Rightarrow> map_option fst (type_space named ty (sr_name field) (sr_max_len_args field))))"

fun fields_report ::
  "(string \<Rightarrow> rust_type option) \<Rightarrow> (string \<Rightarrow> space_estimate option) \<Rightarrow> symbol_range list \<Rightarrow>
     space_estimate \<Rightarrow> field_space_report list \<Rightarrow> account_space_report option" where
  "fields_report parse named [] so_far reports = Some \<lparr>asr_estimate = so_far, asr_fields = reports\<rparr>"
| "fields_report parse named (field # rest) so_far reports =
     Option.bind (field_symbol_space parse named field) (\<lambda>estimate.
       if \<not> is_known estimate then Some \<lparr>asr_estimate = estimate, asr_fields = reports\<rparr>
       else
         fields_report parse named rest (add_estimates so_far estimate)
           (reports @ [\<lparr>fsr_field = sr_name field, fsr_type_display = field_type_display field,
                        fsr_estimate = estimate\<rparr>]))"

definition account_report ::
  "(string \<Rightarrow> rust_type option) \<Rightarrow> (string set \<Rightarrow> string \<Rightarrow> space_estimate option) \<Rightarrow> string set \<Rightarrow>
     symbol_range \<Rightarrow> account_space_report option" where
  "account_report parse named visited strukt =
     (if sr_is_zero_copy strukt then Some \<lparr>asr_estimate = Unknown ZeroCopyLayout, asr_fields = []\<rparr>
      else if sr_name strukt \<in> visited then Some \<lparr>asr_estimate = Unknown RecursiveType, asr_fields = []\<rparr>
      else fields_report parse (named (insert (sr_name strukt) visited)) (sr_fields strukt) (Exact 0) [])"

text \<open>The fold over the fields of a variant; \<open>Some None\<close> is its \<open>Err\<close>.\<close>

fun variant_space ::
  "(string \<Rightarrow> rust_type option) \<Rightarrow> (string \<Rightarrow> space_estimate option) \<Rightarrow> symbol_range list \<Rightarrow>
     space_estimate \<Rightarrow> space_estimate option option" where
  "variant_space parse named [] so_far = Some (Some so_far)"
| "variant_space parse named (field # rest) so_far =
     Option.bind (field_symbol_space parse named field) (\<lambda>estimate.
       case try_add_estimates so_far estimate of
         None \<Rightarrow> Some None
       | Some so_far1 \<Rightarrow> variant_space parse named rest so_far1)"

fun enum_space ::
  "(string \<Rightarrow> rust_type option) \<Rightarrow> (string \<Rightarrow> space_estimate option) \<Rightarrow> symbol_range list \<Rightarrow> u64 \<Rightarrow>
     space_estimate option" where
  "enum_space parse named [] max_variant = Some (Exact (saturating_add ENUM_TAG_BYTES max_variant))"
| "enum_space parse named (variant # variants) max_variant =
     Option.bind (variant_space parse named (sr_fields variant) (Exact 0)) (\<lambda>estimate.
       case Option.bind estimate exact_bytes of
         None \<Rightarrow> Some (Unknown UnsupportedType)
       | Some bytes \<Rightarrow> enum_space parse named variants (max max_variant bytes))"

fun named_type_space ::
  "(string \<Rightarrow> rust_type option) \<Rightarrow> space_context \<Rightarrow> nat \<Rightarrow> string set \<Rightarrow> string \<Rightarrow> space_estimate option" where
  "named_type_space parse ctx 0 visited type_name = None"
| "named_type_space parse ctx (Suc fuel) visited type_name =
     (if type_name \<in> visited then Some (Unknown RecursiveType)
      else
        (case local_struct ctx type_name of
           Some strukt \<Rightarrow>
             map_option asr_estimate (account_report parse (named_type_space parse ctx fuel) visited strukt)
         | None \<Rightarrow>
             (case local_enum ctx type_name of
                Some enm \<Rightarrow> enum_space parse (named_type_space parse ctx fuel visited) (sr_variants enm) 0
              | None \<Rightarrow>
                  (case workspace_struct ctx type_name of
                     Some strukt \<Rightarrow>
                       map_option asr_estimate
                         (account_report parse (named_type_space parse ctx fuel) visited strukt)
                   | None \<Rightarrow> Some (Unknown UnresolvableType)))))"

definition account_space_report ::
  "(string \<Rightarrow> rust_type option) \<Rightarrow> space_context \<Rightarrow> nat \<Rightarrow> symbol_range \<Rightarrow> account_space_report option" where
  "account_space_report parse ctx fuel strukt =
     account_report parse (named_type_space parse ctx fuel) {} strukt"

definition account_space ::
  "(string \<Rightarrow> rust_type option) \<Rightarrow> workspace_index option \<Rightarrow> nat \<Rightarrow> symbol_range \<Rightarrow> space_estimate option" where
  "account_space parse workspace fuel strukt =
     map_option asr_estimate
       (account_space_report parse \<lparr>sc_document = None, sc_workspace = workspace\<rparr> fuel strukt)"

definition account_space_with_document ::
  "(string \<Rightarrow> rust_type option) \<Rightarrow> anchor_symbols \<Rightarrow> workspace_index option \<Rightarrow> nat \<Rightarrow> symbol_range \<Rightarrow>
     space_estimate option" where
  "account_space_with_document parse document workspace fuel strukt =
     map_option asr_estimate
       (account_space_report parse \<lparr>sc_document = Some document, sc_workspace = workspace\<rparr> fuel strukt)"

subsection \<open>The serialized size of a type\<close>

text \<open>The layout rules of the serialization, over unbounded numbers: \<open>type_size t args n args'\<close> says
  that a value of \<open>t\<close> with the given maximal lengths takes \<open>n\<close> bytes.\<close>

definition resolve :: "space_context \<Rightarrow> string \<Rightarrow> symbol_range option" where
  "resolve ctx t =
     (case local_struct ctx t of
        Some s \<Rightarrow> Some s
      | None \<Rightarrow> if local_enum ctx t = None then workspace_struct ctx t else None)"

inductive
  type_size :: "(string \<Rightarrow> rust_type option) \<Rightarrow> space_context \<Rightarrow> rust_type \<Rightarrow> string list \<Rightarrow> nat \<Rightarrow> string list \<Rightarrow> bool"
and tuple_size :: "(string \<Rightarrow> rust_type option) \<Rightarrow> space_context \<Rightarrow> rust_type list \<Rightarrow> string list \<Rightarrow> nat \<Rightarrow> string list \<Rightarrow> bool"
and named_size :: "(string \<Rightarrow> rust_type option) \<Rightarrow> space_context \<Rightarrow> string \<Rightarrow> nat \<Rightarrow> bool"
and field_size :: "(string \<Rightarrow> rust_type option) \<Rightarrow> space_context \<Rightarrow> symbol_range \<Rightarrow> nat \<Rightarrow> bool"
and fields_size :: "(string \<Rightarrow> rust_type option) \<Rightarrow> space_context \<Rightarrow> symbol_range list \<Rightarrow> nat \<Rightarrow> bool"
and variants_size :: "(string \<Rightarrow> rust_type option) \<Rightarrow> space_context \<Rightarrow> symbol_range list \<Rightarrow> nat \<Rightarrow> bool"
for parse ctx where
  primitive: "primitive_bytes t = Some b \<Longrightarrow> type_size parse ctx (TyPath t g) args (unat b) args"
| string_of: "parse_u64 len = Some n \<Longrightarrow> type_size parse ctx (TyPath ''String'' g) (len # args) (4 + unat n) args"
| array_of: "type_size parse ctx t args n args' \<Longrightarrow> type_size parse ctx (TyArray t (Some k) tokens) args (n * unat k) args'"
| option_of: "first_type_argument g = Some t \<Longrightarrow> type_size parse ctx t args n args' \<Longrightarrow>
    type_size parse ctx (TyPath ''Option'' g) args (1 + n) args'"
| vec_of: "first_type_argument g = Some t \<Longrightarrow> parse_u64 len = Some k \<Longrightarrow> type_size parse ctx t args n args' \<Longrightarrow>
    type_size parse ctx (TyPath ''Vec'' g) (len # args) (4 + n * unat k) args'"
| tuple_of: "tuple_size parse ctx ts args n args' \<Longrightarrow> type_size parse ctx (TyTuple ts) args n args'"
| named_of: "primitive_bytes t = None \<Longrightarrow> t \<notin> {''String'', ''Option'', ''Vec''} \<Longrightarrow> named_size parse ctx t n \<Longrightarrow>
    type_size parse ctx (TyPath t g) args n args"
| tuple_nil: "tuple_size parse ctx [] args 0 args"
| tuple_cons: "type_size parse ctx t args n args' \<Longrightarrow> tuple_size parse ctx ts args' m args'' \<Longrightarrow>
    tuple_size parse ctx (t # ts) args (n + m) args''"
| struct_size: "resolve ctx t = Some s \<Longrightarrow> \<not> sr_is_zero_copy s \<Longrightarrow> fields_size parse ctx (sr_fields s) n \<Longrightarrow>
    named_size parse ctx t n"
| enum_size: "local_struct ctx t = None \<Longrightarrow> local_enum ctx t = Some e \<Longrightarrow>
    variants_size parse ctx (sr_variants e) n \<Longrightarrow> named_size parse ctx t (1 + n)"
| typed_field: "sr_type_signature f = Some sig \<Longrightarrow> parse sig = Some t \<Longrightarrow>
    type_size parse ctx t (sr_max_len_args f) n args \<Longrightarrow> field_size parse ctx f n"
| plain_field: "sr_type_signature f = None \<Longrightarrow> sr_type_name f = Some t \<Longrightarrow> primitive_bytes t = Some b \<Longrightarrow>
    field_size parse ctx f (unat b)"
| fields_nil: "fields_size parse ctx [] 0"
| fields_cons: "field_size parse ctx f n \<Longrightarrow> fields_size parse ctx fs m \<Longrightarrow> fields_size parse ctx (f # fs) (n + m)"
| variants_nil: "variants_size parse ctx [] 0"
| variants_cons: "fields_size parse ctx (sr_fields v) n \<Longrightarrow> variants_size parse ctx vs m \<Longrightarrow>
    variants_size parse ctx (v # vs) (max n m)"

subsection \<open>Exact estimates\<close>

text \<open>An exact estimate is the true size as long as that fits; beyond it sticks to the largest \<open>u64\<close>.\<close>

definition capped :: "u64 \<Rightarrow> nat \<Rightarrow> bool" where
  "capped b n \<longleftrightarrow> unat b = min n (2 ^ 64 - 1)"

lemma u64_bound: "unat (b :: u64) \<le> 2 ^ 64 - 1"
proof -
  have "unat b < 2 ^ LENGTH(64)" by (rule unsigned_less)
  then show ?thesis by simp
qed

lemma capped_unat [simp]: "capped b (unat b)"
  using u64_bound [of b] by (simp add: capped_def)

lemma capped_zero [simp]: "capped 0 0"
  by (simp add: capped_def)

lemma capped_add: "capped a m \<Longrightarrow> capped b n \<Longrightarrow> checked_add a b = Some c \<Longrightarrow> capped c (m + n)"
  using unat_checked_add [of a b c] u64_bound [of c]
  by (auto simp: capped_def min_def split: if_splits)

lemma capped_mul:
  assumes "capped a m" "checked_mul a k = Some c"
  shows "capped c (m * unat k)"
proof -
  have c: "unat c = unat a * unat k" using assms(2) by (rule unat_checked_mul)
  show ?thesis
  proof (cases "m \<le> 2 ^ 64 - 1")
    case True
    with assms(1) c u64_bound [of c] show ?thesis by (simp add: capped_def)
  next
    case False
    with assms(1) have a: "unat a = 2 ^ 64 - 1" by (simp add: capped_def)
    with c u64_bound [of c] have "unat k \<le> 1" by (cases "unat k") auto
    then have "unat k = 0 \<or> unat k = 1" by linarith
    with a c False show ?thesis by (auto simp: capped_def)
  qed
qed

lemma capped_saturating: "capped b n \<Longrightarrow> capped (saturating_add a b) (unat a + n)"
  using u64_bound [of a] by (auto simp: capped_def unat_saturating_add min_def)

lemma capped_max: "capped a m \<Longrightarrow> capped b n \<Longrightarrow> capped (max a b) (max m n)"
  by (auto simp: capped_def max_def word_le_nat_alt)

lemma add_estimates_Exact:
  "add_estimates l r = Exact c \<longleftrightarrow> (\<exists>a b. l = Exact a \<and> r = Exact b \<and> checked_add a b = Some c)"
  by (cases "(l, r)" rule: add_estimates.cases) (auto split: option.splits)

lemma try_add_Exact:
  "try_add_estimates l r = Some (Exact c) \<longleftrightarrow> (\<exists>a b. l = Exact a \<and> r = Exact b \<and> checked_add a b = Some c)"
  using add_estimates_Exact [of l r c] by (auto simp: try_add_estimates_def split: space_estimate.splits)

lemma multiply_estimate_Exact:
  "multiply_estimate e k f = Exact c \<longleftrightarrow> (\<exists>a. e = Exact a \<and> checked_mul a k = Some c)"
  by (cases e) (auto split: option.splits)

lemma symbolic_payload_not_exact [simp]: "symbolic_payload f len e \<noteq> Exact c"
  by (cases e) auto

definition sound_names ::
  "(string \<Rightarrow> rust_type option) \<Rightarrow> space_context \<Rightarrow> (string \<Rightarrow> space_estimate option) \<Rightarrow> bool" where
  "sound_names parse ctx named \<longleftrightarrow>
     (\<forall>t b. named t = Some (Exact b) \<longrightarrow> (\<exists>n. named_size parse ctx t n \<and> capped b n))"

lemma type_space_sound:
  assumes "sound_names parse ctx named"
  shows "type_space named ty f args = Some (Exact b, args') \<Longrightarrow>
      \<exists>n. type_size parse ctx ty args n args' \<and> capped b n"
    and "tuple_space named tys acc f args = Some (Exact b, args') \<Longrightarrow>
      \<exists>a n. acc = Exact a \<and> tuple_size parse ctx tys args n args' \<and> (\<forall>m. capped a m \<longrightarrow> capped b (m + n))"
  using assms
proof (induction named ty f args and named tys acc f args arbitrary: b args' and b args'
    rule: type_space_tuple_space.induct)
  case (1 named elem literal tokens field args)
  then obtain e where e: "type_space named elem field args = Some (e, args')"
      "(case literal of Some n \<Rightarrow> multiply_estimate e n field | None \<Rightarrow> symbolic_payload field tokens e) = Exact b"
    by (auto simp: type_space.simps bind_eq_Some_conv)
  then obtain k a where ka: "literal = Some k" "e = Exact a" "checked_mul a k = Some b"
    by (auto simp: multiply_estimate_Exact split: option.splits)
  with 1 e obtain n where "type_size parse ctx elem args n args'" "capped a n" by blast
  with ka show ?case by (blast intro: array_of capped_mul)
next
  case (2 named t generics field args)
  consider (prim) p where "primitive_bytes t = Some p"
    | (str) "primitive_bytes t = None" "t = ''String''"
    | (opt) "primitive_bytes t = None" "t = ''Option''"
    | (vec) "primitive_bytes t = None" "t = ''Vec''"
    | (named) "primitive_bytes t = None" "t \<notin> {''String'', ''Option'', ''Vec''}"
    by (cases "primitive_bytes t") blast+
  then show ?case
  proof cases
    case prim
    with 2 have "p = b" "args' = args" by (simp_all add: type_space.simps)
    with prim show ?thesis using primitive [of t b parse ctx generics args] by auto
  next
    case str
    with 2 obtain len n where "args = len # args'" "parse_u64 len = Some n"
        "b = saturating_add BORSH_LENGTH_PREFIX_BYTES n"
      by (auto simp: type_space.simps string_space_def split: list.splits option.splits)
    with str show ?thesis
      using string_of [of len n parse ctx generics args']
        capped_saturating [OF capped_unat, of BORSH_LENGTH_PREFIX_BYTES n]
      by (auto simp: byte_defs)
  next
    case opt
    with 2 obtain inner e where e: "first_type_argument generics = Some inner"
        "type_space named inner field args = Some (e, args')" "add_estimates (Exact OPTION_TAG_BYTES) e = Exact b"
      by (auto simp: type_space.simps bind_eq_Some_conv split: option.splits)
    then obtain a where a: "e = Exact a" "checked_add OPTION_TAG_BYTES a = Some b"
      by (auto simp: add_estimates_Exact simp del: add_estimates.simps)
    with 2 opt e have "\<exists>n. type_size parse ctx inner args n args' \<and> capped a n" by simp
    then obtain n where n: "type_size parse ctx inner args n args'" "capped a n" by blast
    have "capped b (1 + n)" using capped_add [OF capped_unat n(2) a(2)] by (simp add: byte_defs)
    with opt e n show ?thesis by (blast intro: option_of)
  next
    case vec
    with 2 obtain inner item where e: "first_type_argument generics = Some inner"
        "type_space named inner field (tl args) = Some (item, args')"
        "add_estimates (Exact BORSH_LENGTH_PREFIX_BYTES)
           (case args of
              len # _ \<Rightarrow> (case parse_u64 len of Some n \<Rightarrow> multiply_estimate item n field
                                            | None \<Rightarrow> symbolic_payload field len item)
            | [] \<Rightarrow> symbolic_payload field ''max_len'' item) = Exact b"
      by (auto simp: type_space.simps bind_eq_Some_conv Let_def split: option.splits)
    then obtain len rest k a c where a: "args = len # rest" "parse_u64 len = Some k" "item = Exact a"
        "checked_mul a k = Some c" "checked_add BORSH_LENGTH_PREFIX_BYTES c = Some b"
      by (auto simp: add_estimates_Exact multiply_estimate_Exact simp del: add_estimates.simps
            split: list.splits option.splits)
    with 2 vec e have "\<exists>n. type_size parse ctx inner rest n args' \<and> capped a n" by simp
    then obtain n where n: "type_size parse ctx inner rest n args'" "capped a n" by blast
    have "capped b (4 + n * unat k)"
      using capped_add [OF capped_unat capped_mul [OF n(2) a(4)] a(5)] by (simp add: byte_defs)
    with vec e a n show ?thesis by (blast intro: vec_of)
  next
    case named
    with 2 have "named t = Some (Exact b)" "args' = args" by (auto simp: type_space.simps)
    with "2.prems"(2) obtain n where "named_size parse ctx t n" "capped b n" by (auto simp: sound_names_def)
    with \<open>args' = args\<close> named show ?thesis using named_of [of t parse ctx n generics args] by auto
  qed
next
  case (3 named elems field args)
  from "3.prems"(1) have "tuple_space named elems (Exact 0) field args = Some (Exact b, args')"
    by (simp add: type_space.simps)
  from "3.IH" [OF this "3.prems"(2)] obtain n where
    "tuple_size parse ctx elems args n args'" "\<forall>m. capped 0 m \<longrightarrow> capped b (m + n)" by blast
  then have "tuple_size parse ctx elems args n args'" "capped b (0 + n)"
    using capped_zero by blast+
  then show ?case by (auto intro: tuple_of)
next
  case (4 named field args)
  then show ?case by (simp add: type_space.simps)
next
  case (5 named acc field args)
  then show ?case by (auto simp: tuple_space.simps intro: tuple_nil)
next
  case (6 named elem elems acc field args)
  then obtain e args1 acc1 where e: "type_space named elem field args = Some (e, args1)"
      "try_add_estimates acc e = Some acc1" "tuple_space named elems acc1 field args1 = Some (Exact b, args')"
    by (auto simp: tuple_space.simps bind_eq_Some_conv split: option.splits)
  with 6 obtain c m where c: "acc1 = Exact c" "tuple_size parse ctx elems args1 m args'"
      "\<forall>k. capped c k \<longrightarrow> capped b (k + m)" by blast
  from e(2) obtain a x where x: "acc = Exact a" "e = Exact x" "checked_add a x = Some c"
    unfolding c(1) try_add_Exact by blast
  from "6.IH"(1) [OF e(1) [unfolded x(2)] "6.prems"(2)]
  obtain n where n: "type_size parse ctx elem args n args1" "capped x n" by blast
  have "capped a k \<Longrightarrow> capped b (k + (n + m))" for k
    using capped_add [OF _ n(2) x(3)] c(3) by (metis add.assoc)
  with x n c show ?case by (blast intro: tuple_cons)
qed

lemma field_space_Exact: "field_space t generics = Exact b \<longleftrightarrow> primitive_bytes t = Some b"
  by (auto simp: field_space_def split: option.splits)

lemma field_symbol_space_sound:
  assumes "sound_names parse ctx named" "field_symbol_space parse named f = Some (Exact b)"
  shows "\<exists>n. field_size parse ctx f n \<and> capped b n"
proof (cases "sr_type_signature f")
  case None
  with assms(2) obtain t where "sr_type_name f = Some t" "primitive_bytes t = Some b"
    by (auto simp: field_symbol_space_def field_space_Exact split: option.splits)
  with None show ?thesis by (blast intro: plain_field capped_unat)
next
  case (Some sig)
  with assms(2) obtain ty args where ty: "parse sig = Some ty"
      "type_space named ty (sr_name f) (sr_max_len_args f) = Some (Exact b, args)"
    by (auto simp: field_symbol_space_def split: option.splits)
  with type_space_sound(1) [OF assms(1)] Some show ?thesis by (blast intro: typed_field)
qed

lemma fields_report_sound:
  assumes "sound_names parse ctx named"
  shows "fields_report parse named fs acc reports = Some r \<Longrightarrow> asr_estimate r = Exact b \<Longrightarrow>
     \<exists>a n. acc = Exact a \<and> fields_size parse ctx fs n \<and> (\<forall>m. capped a m \<longrightarrow> capped b (m + n))"
proof (induction fs arbitrary: acc reports)
  case Nil
  then have "acc = Exact b" by auto
  moreover have "fields_size parse ctx [] 0" by (rule fields_nil)
  ultimately show ?case by (intro exI [of _ b] exI [of _ 0]) simp
next
  case (Cons f fs)
  from Cons.prems obtain e where e: "field_symbol_space parse named f = Some e"
    by (auto simp: bind_eq_Some_conv)
  with Cons.prems have known: "is_known e" by (cases e) auto
  with e Cons.prems obtain reports' where
    "fields_report parse named fs (add_estimates acc e) reports' = Some r" by auto
  with Cons.IH Cons.prems(2) obtain c n where c: "add_estimates acc e = Exact c" "fields_size parse ctx fs n"
      "\<forall>m. capped c m \<longrightarrow> capped b (m + n)" by blast
  from c(1) obtain a x where x: "acc = Exact a" "e = Exact x" "checked_add a x = Some c"
    unfolding add_estimates_Exact by blast
  with field_symbol_space_sound [OF assms] e obtain k where k: "field_size parse ctx f k" "capped x k" by blast
  have "capped a m \<Longrightarrow> capped b (m + (k + n))" for m
    using capped_add [OF _ k(2) x(3)] c(3) by (metis add.assoc)
  with x c k show ?case by (blast intro: fields_cons)
qed

lemma account_report_sound:
  assumes "\<And>v. sound_names parse ctx (named v)" "account_report parse named visited s = Some r"
    and "asr_estimate r = Exact b"
  shows "\<not> sr_is_zero_copy s \<and> (\<exists>n. fields_size parse ctx (sr_fields s) n \<and> capped b n)"
proof -
  from assms(2,3) have "\<not> sr_is_zero_copy s"
    and r: "fields_report parse (named (insert (sr_name s) visited)) (sr_fields s) (Exact 0) [] = Some r"
    by (auto simp: account_report_def split: if_splits)
  moreover obtain n where n: "fields_size parse ctx (sr_fields s) n" "\<forall>m. capped 0 m \<longrightarrow> capped b (m + n)"
    using fields_report_sound [OF assms(1) r assms(3)] by auto
  moreover have "capped b (0 + n)" using n(2) capped_zero by blast
  ultimately show ?thesis by auto
qed

lemma variant_space_sound:
  assumes "sound_names parse ctx named"
  shows "variant_space parse named fs acc = Some (Some (Exact b)) \<Longrightarrow>
     \<exists>a n. acc = Exact a \<and> fields_size parse ctx fs n \<and> (\<forall>m. capped a m \<longrightarrow> capped b (m + n))"
proof (induction fs arbitrary: acc)
  case Nil
  then have "acc = Exact b" by auto
  moreover have "fields_size parse ctx [] 0" by (rule fields_nil)
  ultimately show ?case by (intro exI [of _ b] exI [of _ 0]) simp
next
  case (Cons f fs)
  then obtain e acc1 where e: "field_symbol_space parse named f = Some e" "try_add_estimates acc e = Some acc1"
      "variant_space parse named fs acc1 = Some (Some (Exact b))"
    by (auto simp: bind_eq_Some_conv split: option.splits)
  with Cons.IH obtain c n where c: "acc1 = Exact c" "fields_size parse ctx fs n"
      "\<forall>m. capped c m \<longrightarrow> capped b (m + n)" by blast
  from e(2) obtain a x where x: "acc = Exact a" "e = Exact x" "checked_add a x = Some c"
    unfolding c(1) try_add_Exact by blast
  with field_symbol_space_sound [OF assms] e obtain k where k: "field_size parse ctx f k" "capped x k" by blast
  have "capped a m \<Longrightarrow> capped b (m + (k + n))" for m
    using capped_add [OF _ k(2) x(3)] c(3) by (metis add.assoc)
  with x c k show ?case by (blast intro: fields_cons)
qed

lemma exact_bytes_Some: "exact_bytes e = Some b \<longleftrightarrow> e = Exact b"
  by (cases e) auto

lemma enum_space_sound:
  assumes "sound_names parse ctx named"
  shows "enum_space parse named vs m = Some (Exact b) \<Longrightarrow> capped m k \<Longrightarrow>
     \<exists>n. variants_size parse ctx vs n \<and> capped b (1 + max k n)"
proof (induction vs arbitrary: m k)
  case Nil
  then show ?case
    using capped_saturating [of m k ENUM_TAG_BYTES] by (auto simp: byte_defs intro: variants_nil)
next
  case (Cons v vs)
  then obtain x where x: "variant_space parse named (sr_fields v) (Exact 0) = Some (Some (Exact x))"
      "enum_space parse named vs (max m x) = Some (Exact b)"
    by (auto simp: bind_eq_Some_conv exact_bytes_Some split: option.splits)
  then obtain n where "fields_size parse ctx (sr_fields v) n" "\<forall>m. capped 0 m \<longrightarrow> capped x (m + n)"
    using variant_space_sound [OF assms] by blast
  then have n: "fields_size parse ctx (sr_fields v) n" "capped x (0 + n)"
    using capped_zero by blast+
  with Cons.IH [OF x(2) capped_max [OF Cons.prems(2)]] obtain j where
    "variants_size parse ctx vs j" "capped b (1 + max (max k n) j)" by auto
  with n show ?case by (auto intro!: exI [of _ "max n j"] variants_cons simp: max.assoc)
qed

lemma named_sound: "sound_names parse ctx (named_type_space parse ctx fuel visited)"
proof (induction fuel arbitrary: visited)
  case 0
  show ?case by (simp add: sound_names_def)
next
  case (Suc fuel)
  have report: "\<exists>n. named_size parse ctx t n \<and> capped b n"
    if "account_report parse (named_type_space parse ctx fuel) visited s = Some r" "asr_estimate r = Exact b"
      "resolve ctx t = Some s" for s r b t
    using account_report_sound [OF Suc that(1,2)] that(3) by (blast intro: struct_size)
  have enum: "\<exists>n. named_size parse ctx t n \<and> capped b n"
    if "enum_space parse (named_type_space parse ctx fuel visited) (sr_variants e) 0 = Some (Exact b)"
      "local_struct ctx t = None" "local_enum ctx t = Some e" for e b t
    using enum_space_sound [OF Suc that(1) capped_zero] that(2,3) by (auto intro: enum_size)
  show ?case
    unfolding sound_names_def
  proof (intro allI impI)
    fix t b
    assume "named_type_space parse ctx (Suc fuel) visited t = Some (Exact b)"
    then show "\<exists>n. named_size parse ctx t n \<and> capped b n"
      by (auto simp: resolve_def split: if_splits option.splits dest!: report enum)
  qed
qed

subsection \<open>Termination\<close>

text \<open>The type names a type mentions, and those of a field.\<close>

fun type_names :: "rust_type \<Rightarrow> string set" and generic_names :: "generic_argument \<Rightarrow> string set" where
  "type_names (TyArray t _ _) = type_names t"
| "type_names (TyPath t None) = {t}"
| "type_names (TyPath t (Some args)) = insert t (\<Union>a \<in> set args. generic_names a)"
| "type_names (TyTuple ts) = (\<Union>t \<in> set ts. type_names t)"
| "type_names TyOther = {}"
| "generic_names (GenericType t) = type_names t"
| "generic_names GenericOther = {}"

definition field_names :: "(string \<Rightarrow> rust_type option) \<Rightarrow> symbol_range \<Rightarrow> string set" where
  "field_names parse f =
     (case Option.bind (sr_type_signature f) parse of None \<Rightarrow> {} | Some t \<Rightarrow> type_names t)"

lemma first_type_argument_names:
  "first_type_argument g = Some t \<Longrightarrow> type_names t \<subseteq> type_names (TyPath n g)"
  by (cases g) (auto dest: first_type_argument_mem)

lemma type_space_total:
  "\<forall>n \<in> type_names ty. named n \<noteq> None \<Longrightarrow> type_space named ty f args \<noteq> None"
  "\<forall>t \<in> set tys. \<forall>n \<in> type_names t. named n \<noteq> None \<Longrightarrow> tuple_space named tys acc f args \<noteq> None"
proof (induction named ty f args and named tys acc f args rule: type_space_tuple_space.induct)
  case (1 named elem literal tokens field args)
  then show ?case by (auto simp: type_space.simps)
next
  case (2 named t generics field args)
  have inner: "\<forall>n \<in> type_names i. named n \<noteq> None" if "first_type_argument generics = Some i" for i
    using first_type_argument_names [OF that] "2.prems" by blast
  have t: "named t \<noteq> None" using "2.prems" by (cases generics) auto
  show ?case
    using "2.IH"(1) [OF _ _ _ _ inner] "2.IH"(2) [OF _ _ _ _ _ inner] t
    by (auto simp: type_space.simps Let_def split: option.split)
next
  case (3 named elems field args)
  then show ?case by (simp add: type_space.simps)
next
  case (4 named field args)
  then show ?case by (simp add: type_space.simps)
next
  case (5 named acc field args)
  then show ?case by (simp add: tuple_space.simps)
next
  case (6 named elem elems acc field args)
  then obtain e args1 where e: "type_space named elem field args = Some (e, args1)" by auto
  with 6 show ?case by (auto simp: tuple_space.simps split: option.split)
qed

lemma field_symbol_space_total:
  "\<forall>n \<in> field_names parse f. named n \<noteq> None \<Longrightarrow> field_symbol_space parse named f \<noteq> None"
  using type_space_total(1)
  by (auto simp: field_symbol_space_def field_names_def simp del: not_None_eq split: option.splits)

lemma fields_report_total:
  "\<forall>f \<in> set fs. \<forall>n \<in> field_names parse f. named n \<noteq> None \<Longrightarrow>
     fields_report parse named fs acc reports \<noteq> None"
proof (induction fs arbitrary: acc reports)
  case (Cons f fs)
  then have "field_symbol_space parse named f \<noteq> None" by (intro field_symbol_space_total) simp
  with Cons show ?case by auto
qed simp

lemma variant_space_total:
  "\<forall>f \<in> set fs. \<forall>n \<in> field_names parse f. named n \<noteq> None \<Longrightarrow> variant_space parse named fs acc \<noteq> None"
proof (induction fs arbitrary: acc)
  case (Cons f fs)
  then have "field_symbol_space parse named f \<noteq> None" by (intro field_symbol_space_total) simp
  with Cons show ?case by (auto split: option.split)
qed simp

lemma enum_space_total:
  "\<forall>v \<in> set vs. \<forall>f \<in> set (sr_fields v). \<forall>n \<in> field_names parse f. named n \<noteq> None \<Longrightarrow>
     enum_space parse named vs m \<noteq> None"
proof (induction vs arbitrary: m)
  case (Cons v vs)
  then have "variant_space parse named (sr_fields v) (Exact 0) \<noteq> None" by (intro variant_space_total) simp
  with Cons show ?case by (auto split: option.split)
qed simp

lemma account_report_total:
  "\<forall>f \<in> set (sr_fields s). \<forall>n \<in> field_names parse f. sr_name s \<notin> visited \<longrightarrow>
       named (insert (sr_name s) visited) n \<noteq> None \<Longrightarrow>
     account_report parse named visited s \<noteq> None"
  using fields_report_total [of "sr_fields s" parse "named (insert (sr_name s) visited)"]
  by (auto simp: account_report_def simp del: not_None_eq)

text \<open>The names that stand for a structure, and the conditions under which the recursion ends: a symbol
  is filed under its own name, and enums that mention each other without a structure in between can
  be ranked.\<close>

definition struct_names :: "space_context \<Rightarrow> string set" where
  "struct_names ctx = {t. resolve ctx t \<noteq> None}"

definition is_enum :: "space_context \<Rightarrow> string \<Rightarrow> bool" where
  "is_enum ctx t \<longleftrightarrow> local_struct ctx t = None \<and> local_enum ctx t \<noteq> None"

definition enums_ranked :: "(string \<Rightarrow> rust_type option) \<Rightarrow> space_context \<Rightarrow> (string \<Rightarrow> nat) \<Rightarrow> bool" where
  "enums_ranked parse ctx rank \<longleftrightarrow>
     (\<forall>t e v f n. is_enum ctx t \<longrightarrow> local_enum ctx t = Some e \<longrightarrow> v \<in> set (sr_variants e) \<longrightarrow>
        f \<in> set (sr_fields v) \<longrightarrow> n \<in> field_names parse f \<longrightarrow> is_enum ctx n \<longrightarrow> rank n < rank t)"

definition filed_by_name :: "space_context \<Rightarrow> bool" where
  "filed_by_name ctx \<longleftrightarrow> (\<forall>t s. resolve ctx t = Some s \<longrightarrow> sr_name s = t)"

lemma group_of_dom: "group_of g k \<noteq> [] \<Longrightarrow> k \<in> dom (map_of g)"
  by (cases "map_of g k") (auto simp: group_of_def)

lemma workspace_struct_dom:
  "workspace_struct ctx t = Some s \<Longrightarrow> \<exists>ix. sc_workspace ctx = Some ix \<and> t \<in> dom (map_of (account_data_by_name ix))"
  unfolding workspace_struct_def account_data_struct_def
  by (cases "sc_workspace ctx") (auto split: list.splits intro!: group_of_dom [unfolded dom_def, simplified])

lemma finite_struct_names: "finite (struct_names ctx)"
proof -
  let ?docs = "case sc_document ctx of None \<Rightarrow> {} | Some d \<Rightarrow> dom (map_of (all_structs d))"
  let ?ws = "case sc_workspace ctx of None \<Rightarrow> {} | Some ix \<Rightarrow> dom (map_of (account_data_by_name ix))"
  have "t \<in> ?docs \<union> ?ws" if "resolve ctx t = Some s" for t s
    using that workspace_struct_dom [of ctx t s]
    by (auto simp: resolve_def local_struct_def bind_eq_Some_conv split: option.splits if_splits)
  then have "struct_names ctx \<subseteq> ?docs \<union> ?ws" by (auto simp: struct_names_def)
  moreover have "finite (?docs \<union> ?ws)" by (auto simp: finite_dom_map_of split: option.split)
  ultimately show ?thesis by (rule finite_subset)
qed

definition depth_bound :: "space_context \<Rightarrow> nat \<Rightarrow> (string \<Rightarrow> nat) \<Rightarrow> string set \<Rightarrow> string \<Rightarrow> nat" where
  "depth_bound ctx R rank visited t =
     card (struct_names ctx - visited) * (R + 2) + (if is_enum ctx t then rank t + 1 else 0)"

lemma named_total:
  assumes "enums_ranked parse ctx rank" "filed_by_name ctx" "\<And>t. rank t \<le> R"
  shows "depth_bound ctx R rank visited t < fuel \<Longrightarrow> named_type_space parse ctx fuel visited t \<noteq> None"
proof (induction fuel arbitrary: visited t)
  case 0
  then show ?case by simp
next
  case (Suc fuel)
  have struct: "account_report parse (named_type_space parse ctx fuel) visited s \<noteq> None"
    if s: "resolve ctx t = Some s" "t \<notin> visited" for s
  proof (rule account_report_total, intro ballI impI Suc.IH)
    fix f n
    have name: "sr_name s = t" using assms(2) s(1) by (simp add: filed_by_name_def)
    have "struct_names ctx - insert t visited = (struct_names ctx - visited) - {t}" by blast
    moreover have "t \<in> struct_names ctx - visited" using s by (simp add: struct_names_def)
    ultimately have "card (struct_names ctx - visited) = Suc (card (struct_names ctx - insert t visited))"
      using finite_struct_names [of ctx] by (metis card.remove finite_Diff)
    then have "depth_bound ctx R rank (insert t visited) n < depth_bound ctx R rank visited t"
      using assms(3) [of n] by (auto simp: depth_bound_def)
    with Suc.prems name show "depth_bound ctx R rank (insert (sr_name s) visited) n < fuel" by simp
  qed
  have enum: "enum_space parse (named_type_space parse ctx fuel visited) (sr_variants e) 0 \<noteq> None"
    if e: "local_struct ctx t = None" "local_enum ctx t = Some e" for e
  proof (rule enum_space_total, intro ballI Suc.IH)
    fix v f n
    assume "v \<in> set (sr_variants e)" "f \<in> set (sr_fields v)" "n \<in> field_names parse f"
    with e assms(1) have "is_enum ctx t" "is_enum ctx n \<Longrightarrow> rank n < rank t"
      by (auto simp: enums_ranked_def is_enum_def)
    then have "depth_bound ctx R rank visited n < depth_bound ctx R rank visited t"
      by (auto simp: depth_bound_def)
    with Suc.prems show "depth_bound ctx R rank visited n < fuel" by simp
  qed
  from struct enum show ?case
    by (auto simp: resolve_def simp del: not_None_eq split: option.splits)
qed

subsection \<open>Sizes are unique\<close>

inductive_cases type_size_arrayE: "type_size parse ctx (TyArray t k tokens) args n args'"
inductive_cases type_size_pathE: "type_size parse ctx (TyPath t g) args n args'"
inductive_cases type_size_tupleE: "type_size parse ctx (TyTuple ts) args n args'"
inductive_cases tuple_size_NilE: "tuple_size parse ctx [] args n args'"
inductive_cases tuple_size_ConsE: "tuple_size parse ctx (t # ts) args n args'"
inductive_cases named_sizeE: "named_size parse ctx t n"
inductive_cases field_sizeE: "field_size parse ctx f n"
inductive_cases fields_size_NilE: "fields_size parse ctx [] n"
inductive_cases fields_size_ConsE: "fields_size parse ctx (f # fs) n"
inductive_cases variants_size_NilE: "variants_size parse ctx [] n"
inductive_cases variants_size_ConsE: "variants_size parse ctx (v # vs) n"

lemma primitive_names: "primitive_bytes t = Some b \<Longrightarrow> t \<notin> {''String'', ''Option'', ''Vec''}"
  by (auto simp: primitive_bytes_def split: if_splits)

lemma container_not_primitive [simp]:
  "primitive_bytes ''String'' = None" "primitive_bytes ''Option'' = None" "primitive_bytes ''Vec'' = None"
  by (simp_all add: primitive_bytes_def)

lemma size_unique:
  "type_size parse ctx ty args n args' \<Longrightarrow> type_size parse ctx ty args m args'' \<Longrightarrow> n = m \<and> args' = args''"
  "tuple_size parse ctx tys args n args' \<Longrightarrow> tuple_size parse ctx tys args m args'' \<Longrightarrow> n = m \<and> args' = args''"
  "named_size parse ctx t n \<Longrightarrow> named_size parse ctx t m \<Longrightarrow> n = m"
  "field_size parse ctx f n \<Longrightarrow> field_size parse ctx f m \<Longrightarrow> n = m"
  "fields_size parse ctx fs n \<Longrightarrow> fields_size parse ctx fs m \<Longrightarrow> n = m"
  "variants_size parse ctx vs n \<Longrightarrow> variants_size parse ctx vs m \<Longrightarrow> n = m"
proof (induction arbitrary: m args'' and m args'' and m and m and m and m
    rule: type_size_tuple_size_named_size_field_size_fields_size_variants_size.inducts)
  case (primitive t b g args)
  then show ?case using primitive_names [of t b] by (auto elim: type_size_pathE)
next
  case (string_of len n g args)
  from string_of.prems show ?case by (rule type_size_pathE) (use string_of.hyps in auto)
next
  case (array_of t args n args' k tokens)
  from array_of.prems show ?case by (rule type_size_arrayE) (use array_of.IH in blast)
next
  case (option_of g t args n args')
  from option_of.prems obtain k where "m = 1 + k" "type_size parse ctx t args k args''"
    using option_of.hyps(1) by (auto elim!: type_size_pathE)
  with option_of.IH show ?case by simp
next
  case (vec_of g t len k args n args')
  from vec_of.prems vec_of.hyps(1,2) show ?case by (auto elim!: type_size_pathE dest: vec_of.IH(2))
next
  case (tuple_of ts args n args')
  from tuple_of.prems show ?case by (rule type_size_tupleE) (use tuple_of.IH in blast)
next
  case (named_of t n g args)
  from named_of.prems have "named_size parse ctx t m" "args'' = args"
    using named_of.hyps(1,2) by (auto elim!: type_size_pathE)
  with named_of.IH show ?case by simp
next
  case (tuple_nil args)
  then show ?case by (auto elim: tuple_size_NilE)
next
  case (tuple_cons t args n args' ts m1 args1)
  from tuple_cons.prems show ?case by (rule tuple_size_ConsE) (use tuple_cons.IH in \<open>metis\<close>)
next
  case (struct_size t s n)
  from struct_size.prems struct_size.IH(1) show ?case
    by (auto elim!: named_sizeE dest: struct_size.IH(3) simp: resolve_def split: option.splits)
next
  case (enum_size t e n)
  from enum_size.prems enum_size.IH(1,2) show ?case
    by (auto elim!: named_sizeE dest: enum_size.IH(4) simp: resolve_def)
next
  case (typed_field f sig t n args)
  from typed_field.prems typed_field.hyps typed_field.IH(1) show ?case
    by (auto elim!: field_sizeE dest: typed_field.IH(3))
next
  case (plain_field f t b)
  from plain_field.prems plain_field.hyps show ?case by (auto elim!: field_sizeE)
next
  case fields_nil
  then show ?case by (auto elim: fields_size_NilE)
next
  case (fields_cons f n fs m1)
  from fields_cons.prems show ?case by (rule fields_size_ConsE) (use fields_cons(2,4) in blast)
next
  case variants_nil
  then show ?case by (auto elim: variants_size_NilE)
next
  case (variants_cons v n vs m1)
  from variants_cons.prems show ?case by (rule variants_size_ConsE) (use variants_cons(2,4) in blast)
qed

lemma depth_start:
  assumes "\<And>t. rank t \<le> R"
  shows "depth_bound ctx R rank visited t < (card (struct_names ctx) + 1) * (R + 2)"
proof -
  have "card (struct_names ctx - visited) \<le> card (struct_names ctx)"
    by (intro card_mono finite_struct_names) auto
  then have "card (struct_names ctx - visited) * (R + 2) \<le> card (struct_names ctx) * (R + 2)"
    by (rule mult_le_mono1)
  with assms [of t] show ?thesis by (simp add: depth_bound_def)
qed

subsection \<open>Examples\<close>

definition space_symbol :: "string \<Rightarrow> symbol_range list \<Rightarrow> symbol_range list \<Rightarrow> string option \<Rightarrow> string list \<Rightarrow> symbol_range" where
  "space_symbol name fs variants type_signature max_lens =
     SymbolRange name sample_range sample_range fs variants None None type_signature [] [] False max_lens
       [] None [] None None None False"

definition space_document :: "symbol_range list \<Rightarrow> symbol_range list \<Rightarrow> anchor_symbols" where
  "space_document structs enms =
     \<lparr>all_structs = map (\<lambda>s. (sr_name s, s)) structs, enums = map (\<lambda>s. (sr_name s, s)) enms,
      accounts_structs = [], account_data_structs = [], constants = [], imported_names = [],
      import_origins = [], has_glob_import = False, has_local_glob_import = False, import_aliases = [],
      value_items = [], associated_value_items = [], derived_init_space_types = {}, instructions = [],
      free_functions = [], context_references = [], declared_program_id = None, error_codes = []\<rparr>"

definition sample_parse :: "string \<Rightarrow> rust_type option" where
  "sample_parse s =
     (if s = ''[u64; 4]'' then Some (TyArray (TyPath ''u64'' None) (Some 4) ''4'')
      else if s = ''Vec<Tree>'' then Some (TyPath ''Vec'' (Some [GenericType (TyPath ''Tree'' None)]))
      else Some (TyPath s None))"

definition vault_symbol :: symbol_range where
  "vault_symbol = space_symbol ''Vault''
     [space_symbol ''owner'' [] [] (Some ''Pubkey'') [], space_symbol ''label'' [] [] (Some ''String'') [''20''],
      space_symbol ''slots'' [] [] (Some ''[u64; 4]'') []] [] None []"

definition tree_symbol :: symbol_range where
  "tree_symbol = space_symbol ''Tree'' []
     [space_symbol ''Node'' [space_symbol ''children'' [] [] (Some ''Vec<Tree>'') []] [] None []] None []"

definition forest_symbol :: symbol_range where
  "forest_symbol = space_symbol ''Forest'' [space_symbol ''root'' [] [] (Some ''Tree'') []] [] None []"

definition vault_context :: space_context where
  "vault_context = \<lparr>sc_document = Some (space_document [vault_symbol] []), sc_workspace = None\<rparr>"

definition forest_context :: space_context where
  "forest_context = \<lparr>sc_document = Some (space_document [forest_symbol] [tree_symbol]), sc_workspace = None\<rparr>"

lemmas sample_space_defs = space_symbol_def space_document_def sample_parse_def vault_symbol_def tree_symbol_def
  forest_symbol_def vault_context_def forest_context_def

lemma parse_twenty: "parse_u64 ''20'' = Some 20"
  by (simp add: parse_u64_def parse_u64_digits_def trim_parens_def digit_value_def is_ascii_digit_def
        byte_def Let_def)

lemma vault_report:
  "map_option asr_estimate (account_space_report sample_parse vault_context (Suc fuel) vault_symbol) = Some (Exact 88)"
  by (simp add: account_space_report_def account_report_def sample_space_defs field_symbol_space_def
        type_space.simps primitive_bytes_def byte_defs string_space_def parse_twenty
        checked_add_def checked_mul_def saturating_add_def)

subsection \<open>Properties\<close>



text \<open>The estimate is found at a depth that grows with the number of structures and the longest chain
  of enums, when no enum refers to itself except through a structure.\<close>

theorem space_report_total:
  assumes "enums_ranked parse ctx rank" "filed_by_name ctx" "\<forall>t. rank t \<le> R"
    and "(card (struct_names ctx) + 1) * (R + 2) \<le> fuel"
  shows "account_space_report parse ctx fuel s \<noteq> None"
proof -
  have "named_type_space parse ctx fuel {sr_name s} t \<noteq> None" for t
    by (rule named_total [OF assms(1,2) spec [OF assms(3)]],
        rule less_le_trans [OF depth_start [OF spec [OF assms(3)]] assms(4)])
  then show ?thesis by (auto simp: account_space_report_def intro!: account_report_total simp del: not_None_eq)
qed

lemma vault_ranked: "enums_ranked sample_parse vault_context (\<lambda>_. 0)" "filed_by_name vault_context"
  by (auto simp: enums_ranked_def is_enum_def filed_by_name_def resolve_def local_enum_def local_struct_def
        workspace_struct_def vault_context_def space_document_def split: if_splits option.splits)

lemma vault_names: "card (struct_names vault_context) \<le> 1"
proof -
  have "struct_names vault_context \<subseteq> {sr_name vault_symbol}"
    by (auto simp: struct_names_def resolve_def local_enum_def local_struct_def
        workspace_struct_def vault_context_def space_document_def split: if_splits option.splits)
  then have "card (struct_names vault_context) \<le> card {sr_name vault_symbol}" by (intro card_mono) auto
  then show ?thesis by simp
qed

theorem space_report_total_witness: "account_space_report sample_parse vault_context 4 vault_symbol \<noteq> None"
  using space_report_total [OF vault_ranked, of 0 4 vault_symbol] vault_names by simp

lemma forest_diverges: "named_type_space sample_parse forest_context fuel visited ''Tree'' = None" if "''Tree'' \<notin> visited"
proof (induction fuel)
  case (Suc fuel)
  with that show ?case
    by (simp add: sample_space_defs local_struct_def local_enum_def field_symbol_space_def type_space.simps primitive_bytes_def)
qed simp

text \<open>For an account that holds an enum which refers to itself, there is no depth at which the recursion
  ends: the name of an enum is not among those it is checked against.\<close>

theorem recursive_enum_diverges: "account_space_report sample_parse forest_context fuel forest_symbol = None"
proof -
  have "named_type_space sample_parse forest_context fuel {sr_name forest_symbol} ''Tree'' = None"
    by (rule forest_diverges) (simp add: sample_space_defs)
  then show ?thesis
    by (simp add: account_space_report_def account_report_def forest_symbol_def space_symbol_def
          field_symbol_space_def sample_parse_def type_space.simps primitive_bytes_def)
qed

end
