(* ===== verification/Constraint_Table.thy ===== *)
theory Constraint_Table
  imports Constraint_Catalog
begin

section \<open>The catalog of account constraints\<close>

text \<open>
  The types of \<open>src/anchor/constraint_catalog/mod.rs\<close> and its generated table
  \<open>src/anchor/generated/constraint_catalog_generated.rs\<close>, one definition per entry, in the
  order of the table.  A label that ends in \<open> =\<close> takes a value.
\<close>

datatype constraint_value_kind =
    NoValue
  | AnyExpression
  | AccountReference
  | SignerReference
  | ProgramReference
  | InstructionArgument
  | Keyword
  | Boolean
  | Space
  | Seeds

datatype constraint_family = Core | Pda | TokenAccount | AssociatedTokenAccount | Mint | MintExtension | Realloc

datatype constraint_parser_rule_kind = Duplicate | Ordering | Conflict | TypeRequirement

record constraint_parser_rule =
  pr_kind :: constraint_parser_rule_kind
  pr_message :: string
  pr_source_method :: string

record constraint_spec =
  spec_label :: string
  spec_detail :: string
  spec_value_kind :: constraint_value_kind
  spec_family :: constraint_family
  required_companions :: "string list"
  conflicts_with :: "string list"
  parser_rules :: "constraint_parser_rule list"
  implies_mutability :: bool
  is_init_like :: bool
  allowed_keyword_values :: "string list"

definition rule_of :: "constraint_parser_rule_kind \<Rightarrow> string \<Rightarrow> string \<Rightarrow> constraint_parser_rule" where
  "rule_of kind message source_method =
     \<lparr>pr_kind = kind, pr_message = message, pr_source_method = source_method\<rparr>"

definition address_spec :: constraint_spec where
  "address_spec =
     \<lparr>spec_label = ''address ='',
      spec_detail = ''Anchor expression constraint.'',
      spec_value_kind = AnyExpression, spec_family = Core,
      required_companions = [],
      conflicts_with = [],
      parser_rules =
        [rule_of Duplicate ''address already provided'' ''add_address''],
      implies_mutability = False, is_init_like = False,
      allowed_keyword_values = []\<rparr>"

definition associated_token_authority_spec :: constraint_spec where
  "associated_token_authority_spec =
     \<lparr>spec_label = ''associated_token::authority ='',
      spec_detail = ''Authority account for this token constraint.'',
      spec_value_kind = SignerReference, spec_family = AssociatedTokenAccount,
      required_companions = [''associated_token::mint'', ''TokenAccount''],
      conflicts_with = [],
      parser_rules =
        [rule_of Duplicate ''associated token authority already provided'' ''add_associated_token_authority'',
         rule_of Duplicate ''token authority already provided'' ''add_associated_token_authority''],
      implies_mutability = False, is_init_like = False,
      allowed_keyword_values = []\<rparr>"

definition associated_token_mint_spec :: constraint_spec where
  "associated_token_mint_spec =
     \<lparr>spec_label = ''associated_token::mint ='',
      spec_detail = ''Anchor account reference constraint.'',
      spec_value_kind = AccountReference, spec_family = AssociatedTokenAccount,
      required_companions = [''associated_token::authority'', ''TokenAccount''],
      conflicts_with = [],
      parser_rules =
        [rule_of Duplicate ''associated token mint already provided'' ''add_associated_token_mint'',
         rule_of Duplicate ''token mint already provided'' ''add_associated_token_mint''],
      implies_mutability = False, is_init_like = False,
      allowed_keyword_values = []\<rparr>"

definition associated_token_token_program_spec :: constraint_spec where
  "associated_token_token_program_spec =
     \<lparr>spec_label = ''associated_token::token_program ='',
      spec_detail = ''Token program account or program id.'',
      spec_value_kind = ProgramReference, spec_family = AssociatedTokenAccount,
      required_companions = [''associated_token::mint'', ''associated_token::authority''],
      conflicts_with = [],
      parser_rules =
        [rule_of Duplicate ''associated token token_program already provided'' ''add_associated_token_token_program''],
      implies_mutability = False, is_init_like = False,
      allowed_keyword_values = []\<rparr>"

definition bump_flag_spec :: constraint_spec where
  "bump_flag_spec =
     \<lparr>spec_label = ''bump'',
      spec_detail = ''PDA bump seed.'',
      spec_value_kind = NoValue, spec_family = Pda,
      required_companions = [''seeds''],
      conflicts_with = [],
      parser_rules =
        [],
      implies_mutability = False, is_init_like = False,
      allowed_keyword_values = []\<rparr>"

definition bump_spec :: constraint_spec where
  "bump_spec =
     \<lparr>spec_label = ''bump ='',
      spec_detail = ''PDA bump seed.'',
      spec_value_kind = InstructionArgument, spec_family = Pda,
      required_companions = [''seeds''],
      conflicts_with = [],
      parser_rules =
        [],
      implies_mutability = False, is_init_like = False,
      allowed_keyword_values = []\<rparr>"

definition close_spec :: constraint_spec where
  "close_spec =
     \<lparr>spec_label = ''close ='',
      spec_detail = ''Anchor account reference constraint.'',
      spec_value_kind = AccountReference, spec_family = Core,
      required_companions = [''mut''],
      conflicts_with = [],
      parser_rules =
        [rule_of Duplicate ''close already provided'' ''add_close'',
         rule_of Ordering ''mut must be provided before close'' ''add_close'',
         rule_of TypeRequirement ''close must be on an Account, LazyAccount or AccountLoader'' ''add_close''],
      implies_mutability = True, is_init_like = False,
      allowed_keyword_values = []\<rparr>"

definition raw_constraint_spec :: constraint_spec where
  "raw_constraint_spec =
     \<lparr>spec_label = ''constraint ='',
      spec_detail = ''Anchor expression constraint.'',
      spec_value_kind = AnyExpression, spec_family = Core,
      required_companions = [],
      conflicts_with = [],
      parser_rules =
        [],
      implies_mutability = False, is_init_like = False,
      allowed_keyword_values = []\<rparr>"

definition dup_spec :: constraint_spec where
  "dup_spec =
     \<lparr>spec_label = ''dup'',
      spec_detail = ''Anchor account constraint.'',
      spec_value_kind = NoValue, spec_family = Core,
      required_companions = [],
      conflicts_with = [],
      parser_rules =
        [rule_of Duplicate ''dup already provided'' ''add_dup''],
      implies_mutability = False, is_init_like = False,
      allowed_keyword_values = []\<rparr>"

definition executable_spec :: constraint_spec where
  "executable_spec =
     \<lparr>spec_label = ''executable'',
      spec_detail = ''Anchor account constraint.'',
      spec_value_kind = NoValue, spec_family = Core,
      required_companions = [],
      conflicts_with = [],
      parser_rules =
        [],
      implies_mutability = False, is_init_like = False,
      allowed_keyword_values = []\<rparr>"

definition extensions_close_authority_authority_spec :: constraint_spec where
  "extensions_close_authority_authority_spec =
     \<lparr>spec_label = ''extensions::close_authority::authority ='',
      spec_detail = ''Anchor Token-2022 extension constraint.'',
      spec_value_kind = SignerReference, spec_family = MintExtension,
      required_companions = [],
      conflicts_with = [],
      parser_rules =
        [rule_of Duplicate ''extension close authority already provided'' ''add_extension_close_authority''],
      implies_mutability = False, is_init_like = False,
      allowed_keyword_values = []\<rparr>"

definition extensions_group_member_pointer_authority_spec :: constraint_spec where
  "extensions_group_member_pointer_authority_spec =
     \<lparr>spec_label = ''extensions::group_member_pointer::authority ='',
      spec_detail = ''Anchor Token-2022 extension constraint.'',
      spec_value_kind = SignerReference, spec_family = MintExtension,
      required_companions = [],
      conflicts_with = [],
      parser_rules =
        [],
      implies_mutability = False, is_init_like = False,
      allowed_keyword_values = []\<rparr>"

definition extensions_group_member_pointer_member_address_spec :: constraint_spec where
  "extensions_group_member_pointer_member_address_spec =
     \<lparr>spec_label = ''extensions::group_member_pointer::member_address ='',
      spec_detail = ''Anchor Token-2022 extension constraint.'',
      spec_value_kind = AccountReference, spec_family = MintExtension,
      required_companions = [],
      conflicts_with = [],
      parser_rules =
        [],
      implies_mutability = False, is_init_like = False,
      allowed_keyword_values = []\<rparr>"

definition extensions_group_pointer_authority_spec :: constraint_spec where
  "extensions_group_pointer_authority_spec =
     \<lparr>spec_label = ''extensions::group_pointer::authority ='',
      spec_detail = ''Anchor Token-2022 extension constraint.'',
      spec_value_kind = SignerReference, spec_family = MintExtension,
      required_companions = [],
      conflicts_with = [],
      parser_rules =
        [],
      implies_mutability = False, is_init_like = False,
      allowed_keyword_values = []\<rparr>"

definition extensions_group_pointer_group_address_spec :: constraint_spec where
  "extensions_group_pointer_group_address_spec =
     \<lparr>spec_label = ''extensions::group_pointer::group_address ='',
      spec_detail = ''Anchor Token-2022 extension constraint.'',
      spec_value_kind = AccountReference, spec_family = MintExtension,
      required_companions = [],
      conflicts_with = [],
      parser_rules =
        [],
      implies_mutability = False, is_init_like = False,
      allowed_keyword_values = []\<rparr>"

definition extensions_metadata_pointer_authority_spec :: constraint_spec where
  "extensions_metadata_pointer_authority_spec =
     \<lparr>spec_label = ''extensions::metadata_pointer::authority ='',
      spec_detail = ''Anchor Token-2022 extension constraint.'',
      spec_value_kind = SignerReference, spec_family = MintExtension,
      required_companions = [],
      conflicts_with = [],
      parser_rules =
        [],
      implies_mutability = False, is_init_like = False,
      allowed_keyword_values = []\<rparr>"

definition extensions_metadata_pointer_metadata_address_spec :: constraint_spec where
  "extensions_metadata_pointer_metadata_address_spec =
     \<lparr>spec_label = ''extensions::metadata_pointer::metadata_address ='',
      spec_detail = ''Anchor Token-2022 extension constraint.'',
      spec_value_kind = AccountReference, spec_family = MintExtension,
      required_companions = [],
      conflicts_with = [],
      parser_rules =
        [],
      implies_mutability = False, is_init_like = False,
      allowed_keyword_values = []\<rparr>"

definition extensions_pausable_authority_spec :: constraint_spec where
  "extensions_pausable_authority_spec =
     \<lparr>spec_label = ''extensions::pausable::authority ='',
      spec_detail = ''Anchor Token-2022 extension constraint.'',
      spec_value_kind = SignerReference, spec_family = MintExtension,
      required_companions = [],
      conflicts_with = [],
      parser_rules =
        [rule_of Duplicate ''extension pausable authority already provided'' ''add_extension_pausable_authority''],
      implies_mutability = False, is_init_like = False,
      allowed_keyword_values = []\<rparr>"

definition extensions_permanent_delegate_delegate_spec :: constraint_spec where
  "extensions_permanent_delegate_delegate_spec =
     \<lparr>spec_label = ''extensions::permanent_delegate::delegate ='',
      spec_detail = ''Anchor Token-2022 extension constraint.'',
      spec_value_kind = SignerReference, spec_family = MintExtension,
      required_companions = [],
      conflicts_with = [],
      parser_rules =
        [rule_of Duplicate ''extension permanent delegate already provided'' ''add_extension_permanent_delegate''],
      implies_mutability = False, is_init_like = False,
      allowed_keyword_values = []\<rparr>"

definition extensions_transfer_hook_authority_spec :: constraint_spec where
  "extensions_transfer_hook_authority_spec =
     \<lparr>spec_label = ''extensions::transfer_hook::authority ='',
      spec_detail = ''Anchor Token-2022 extension constraint.'',
      spec_value_kind = SignerReference, spec_family = MintExtension,
      required_companions = [],
      conflicts_with = [],
      parser_rules =
        [rule_of Duplicate ''extension transfer hook authority already provided'' ''add_extension_authority''],
      implies_mutability = False, is_init_like = False,
      allowed_keyword_values = []\<rparr>"

definition extensions_transfer_hook_program_id_spec :: constraint_spec where
  "extensions_transfer_hook_program_id_spec =
     \<lparr>spec_label = ''extensions::transfer_hook::program_id ='',
      spec_detail = ''Anchor Token-2022 extension constraint.'',
      spec_value_kind = ProgramReference, spec_family = MintExtension,
      required_companions = [],
      conflicts_with = [],
      parser_rules =
        [rule_of Duplicate ''extension transfer hook program id already provided'' ''add_extension_transfer_hook_program_id''],
      implies_mutability = False, is_init_like = False,
      allowed_keyword_values = []\<rparr>"

definition has_one_spec :: constraint_spec where
  "has_one_spec =
     \<lparr>spec_label = ''has_one ='',
      spec_detail = ''Anchor account reference constraint.'',
      spec_value_kind = AccountReference, spec_family = Core,
      required_companions = [],
      conflicts_with = [],
      parser_rules =
        [rule_of Duplicate ''has_one target already provided'' ''add_has_one''],
      implies_mutability = False, is_init_like = False,
      allowed_keyword_values = []\<rparr>"

definition init_spec :: constraint_spec where
  "init_spec =
     \<lparr>spec_label = ''init'',
      spec_detail = ''Create and initialize an account.'',
      spec_value_kind = NoValue, spec_family = Core,
      required_companions = [''payer'', ''space'', ''system_program''],
      conflicts_with = [''seeds::program''],
      parser_rules =
        [rule_of Duplicate ''init already provided'' ''add_init'',
         rule_of Duplicate ''zeroed already provided'' ''add_init'',
         rule_of Ordering ''init must be provided before associated token account token program'' ''add_init'',
         rule_of Ordering ''init must be provided before associated token authority'' ''add_init'',
         rule_of Ordering ''init must be provided before associated token mint'' ''add_init'',
         rule_of Ordering ''init must be provided before mint authority'' ''add_init'',
         rule_of Ordering ''init must be provided before mint decimals'' ''add_init'',
         rule_of Ordering ''init must be provided before mint freeze authority'' ''add_init'',
         rule_of Ordering ''init must be provided before mint token program'' ''add_init'',
         rule_of Ordering ''init must be provided before token account token program'' ''add_init'',
         rule_of Ordering ''init must be provided before token authority'' ''add_init'',
         rule_of Ordering ''init must be provided before token mint'' ''add_init''],
      implies_mutability = True, is_init_like = True,
      allowed_keyword_values = []\<rparr>"

definition init_if_needed_spec :: constraint_spec where
  "init_if_needed_spec =
     \<lparr>spec_label = ''init_if_needed'',
      spec_detail = ''Create the account if needed, otherwise validate the existing account.'',
      spec_value_kind = NoValue, spec_family = Core,
      required_companions = [''payer'', ''space'', ''system_program''],
      conflicts_with = [],
      parser_rules =
        [],
      implies_mutability = True, is_init_like = True,
      allowed_keyword_values = []\<rparr>"

definition mint_authority_spec :: constraint_spec where
  "mint_authority_spec =
     \<lparr>spec_label = ''mint::authority ='',
      spec_detail = ''Authority account for this token constraint.'',
      spec_value_kind = SignerReference, spec_family = Mint,
      required_companions = [''Mint''],
      conflicts_with = [],
      parser_rules =
        [rule_of Duplicate ''mint authority already provided'' ''add_mint_authority''],
      implies_mutability = False, is_init_like = False,
      allowed_keyword_values = []\<rparr>"

definition mint_decimals_spec :: constraint_spec where
  "mint_decimals_spec =
     \<lparr>spec_label = ''mint::decimals ='',
      spec_detail = ''Token mint decimals value.'',
      spec_value_kind = InstructionArgument, spec_family = Mint,
      required_companions = [''Mint''],
      conflicts_with = [],
      parser_rules =
        [rule_of Duplicate ''mint decimals already provided'' ''add_mint_decimals''],
      implies_mutability = False, is_init_like = False,
      allowed_keyword_values = []\<rparr>"

definition mint_freeze_authority_spec :: constraint_spec where
  "mint_freeze_authority_spec =
     \<lparr>spec_label = ''mint::freeze_authority ='',
      spec_detail = ''Anchor signer or authority account constraint.'',
      spec_value_kind = SignerReference, spec_family = Mint,
      required_companions = [],
      conflicts_with = [],
      parser_rules =
        [rule_of Duplicate ''mint freeze_authority already provided'' ''add_mint_freeze_authority''],
      implies_mutability = False, is_init_like = False,
      allowed_keyword_values = []\<rparr>"

definition mint_token_program_spec :: constraint_spec where
  "mint_token_program_spec =
     \<lparr>spec_label = ''mint::token_program ='',
      spec_detail = ''Token program account or program id.'',
      spec_value_kind = ProgramReference, spec_family = Mint,
      required_companions = [],
      conflicts_with = [],
      parser_rules =
        [rule_of Duplicate ''mint token_program already provided'' ''add_mint_token_program''],
      implies_mutability = False, is_init_like = False,
      allowed_keyword_values = []\<rparr>"

definition mut_spec :: constraint_spec where
  "mut_spec =
     \<lparr>spec_label = ''mut'',
      spec_detail = ''Anchor account constraint.'',
      spec_value_kind = NoValue, spec_family = Core,
      required_companions = [],
      conflicts_with = [''zero''],
      parser_rules =
        [rule_of Duplicate ''mut already provided'' ''add_mut''],
      implies_mutability = True, is_init_like = False,
      allowed_keyword_values = []\<rparr>"

definition owner_spec :: constraint_spec where
  "owner_spec =
     \<lparr>spec_label = ''owner ='',
      spec_detail = ''Anchor expression constraint.'',
      spec_value_kind = AnyExpression, spec_family = Core,
      required_companions = [],
      conflicts_with = [],
      parser_rules =
        [rule_of Duplicate ''owner already provided'' ''add_owner''],
      implies_mutability = False, is_init_like = False,
      allowed_keyword_values = []\<rparr>"

definition payer_spec :: constraint_spec where
  "payer_spec =
     \<lparr>spec_label = ''payer ='',
      spec_detail = ''Account that pays for account creation or allocation.'',
      spec_value_kind = SignerReference, spec_family = Core,
      required_companions = [],
      conflicts_with = [],
      parser_rules =
        [rule_of Duplicate ''payer already provided'' ''add_payer'',
         rule_of Ordering ''init must be provided before payer'' ''add_payer''],
      implies_mutability = False, is_init_like = False,
      allowed_keyword_values = []\<rparr>"

definition realloc_spec :: constraint_spec where
  "realloc_spec =
     \<lparr>spec_label = ''realloc ='',
      spec_detail = ''New byte space for account reallocation.'',
      spec_value_kind = Space, spec_family = Realloc,
      required_companions = [''mut'', ''realloc::payer'', ''realloc::zero''],
      conflicts_with = [],
      parser_rules =
        [],
      implies_mutability = True, is_init_like = False,
      allowed_keyword_values = []\<rparr>"

definition realloc_payer_spec :: constraint_spec where
  "realloc_payer_spec =
     \<lparr>spec_label = ''realloc::payer ='',
      spec_detail = ''Account that pays additional rent for reallocation.'',
      spec_value_kind = SignerReference, spec_family = Realloc,
      required_companions = [],
      conflicts_with = [],
      parser_rules =
        [rule_of Duplicate ''realloc::payer already provided'' ''add_realloc_payer'',
         rule_of Ordering ''realloc must be provided before realloc::payer'' ''add_realloc_payer''],
      implies_mutability = True, is_init_like = False,
      allowed_keyword_values = []\<rparr>"

definition realloc_zero_spec :: constraint_spec where
  "realloc_zero_spec =
     \<lparr>spec_label = ''realloc::zero ='',
      spec_detail = ''Whether newly allocated account bytes are zeroed.'',
      spec_value_kind = Boolean, spec_family = Realloc,
      required_companions = [],
      conflicts_with = [],
      parser_rules =
        [rule_of Duplicate ''realloc::zero already provided'' ''add_realloc_zero'',
         rule_of Ordering ''realloc must be provided before realloc::zero'' ''add_realloc_zero''],
      implies_mutability = True, is_init_like = False,
      allowed_keyword_values = []\<rparr>"

definition rent_exempt_spec :: constraint_spec where
  "rent_exempt_spec =
     \<lparr>spec_label = ''rent_exempt ='',
      spec_detail = ''Rent exemption mode: `skip` or `enforce`.'',
      spec_value_kind = Keyword, spec_family = Core,
      required_companions = [],
      conflicts_with = [],
      parser_rules =
        [rule_of Duplicate ''rent already provided'' ''add_rent_exempt''],
      implies_mutability = False, is_init_like = False,
      allowed_keyword_values = [''skip'', ''enforce'']\<rparr>"

definition seeds_spec :: constraint_spec where
  "seeds_spec =
     \<lparr>spec_label = ''seeds ='',
      spec_detail = ''PDA seed expression list.'',
      spec_value_kind = Seeds, spec_family = Pda,
      required_companions = [''bump''],
      conflicts_with = [],
      parser_rules =
        [],
      implies_mutability = False, is_init_like = False,
      allowed_keyword_values = []\<rparr>"

definition seeds_program_spec :: constraint_spec where
  "seeds_program_spec =
     \<lparr>spec_label = ''seeds::program ='',
      spec_detail = ''Program id used to derive PDA seeds.'',
      spec_value_kind = ProgramReference, spec_family = Pda,
      required_companions = [''seeds''],
      conflicts_with = [''init''],
      parser_rules =
        [rule_of Duplicate ''seeds::program already provided'' ''add_program_seed'',
         rule_of Ordering ''seeds must be provided before seeds::program'' ''add_program_seed'',
         rule_of Conflict ''seeds::program cannot be used with init'' ''add_program_seed'',
         rule_of Conflict ''seeds::program cannot be used with init_if_needed'' ''add_program_seed''],
      implies_mutability = False, is_init_like = False,
      allowed_keyword_values = []\<rparr>"

definition signer_spec :: constraint_spec where
  "signer_spec =
     \<lparr>spec_label = ''signer'',
      spec_detail = ''Anchor account constraint.'',
      spec_value_kind = NoValue, spec_family = Core,
      required_companions = [],
      conflicts_with = [],
      parser_rules =
        [rule_of Duplicate ''signer already provided'' ''add_signer''],
      implies_mutability = False, is_init_like = False,
      allowed_keyword_values = []\<rparr>"

definition space_spec :: constraint_spec where
  "space_spec =
     \<lparr>spec_label = ''space ='',
      spec_detail = ''Byte space to allocate for an initialized account.'',
      spec_value_kind = Space, spec_family = Core,
      required_companions = [],
      conflicts_with = [],
      parser_rules =
        [rule_of Duplicate ''space already provided'' ''add_space'',
         rule_of Ordering ''init must be provided before space'' ''add_space''],
      implies_mutability = False, is_init_like = False,
      allowed_keyword_values = []\<rparr>"

definition token_authority_spec :: constraint_spec where
  "token_authority_spec =
     \<lparr>spec_label = ''token::authority ='',
      spec_detail = ''Authority account for this token constraint.'',
      spec_value_kind = SignerReference, spec_family = TokenAccount,
      required_companions = [''TokenAccount''],
      conflicts_with = [],
      parser_rules =
        [rule_of Duplicate ''token authority already provided'' ''add_token_authority''],
      implies_mutability = False, is_init_like = False,
      allowed_keyword_values = []\<rparr>"

definition token_mint_spec :: constraint_spec where
  "token_mint_spec =
     \<lparr>spec_label = ''token::mint ='',
      spec_detail = ''Anchor account reference constraint.'',
      spec_value_kind = AccountReference, spec_family = TokenAccount,
      required_companions = [''TokenAccount''],
      conflicts_with = [],
      parser_rules =
        [rule_of Duplicate ''associated token mint already provided'' ''add_token_mint'',
         rule_of Duplicate ''token mint already provided'' ''add_token_mint''],
      implies_mutability = False, is_init_like = False,
      allowed_keyword_values = []\<rparr>"

definition token_token_program_spec :: constraint_spec where
  "token_token_program_spec =
     \<lparr>spec_label = ''token::token_program ='',
      spec_detail = ''Token program account or program id.'',
      spec_value_kind = ProgramReference, spec_family = TokenAccount,
      required_companions = [],
      conflicts_with = [],
      parser_rules =
        [rule_of Duplicate ''token token_program already provided'' ''add_token_token_program''],
      implies_mutability = False, is_init_like = False,
      allowed_keyword_values = []\<rparr>"

definition zero_spec :: constraint_spec where
  "zero_spec =
     \<lparr>spec_label = ''zero'',
      spec_detail = ''Anchor account constraint.'',
      spec_value_kind = NoValue, spec_family = Core,
      required_companions = [],
      conflicts_with = [''mut''],
      parser_rules =
        [rule_of Duplicate ''init already provided'' ''add_zeroed'',
         rule_of Duplicate ''zeroed already provided'' ''add_zeroed'',
         rule_of TypeRequirement ''`zero` constraint requires the type to implement the `Discriminator` trait'' ''add_zeroed''],
      implies_mutability = True, is_init_like = False,
      allowed_keyword_values = []\<rparr>"

definition CONSTRAINTS :: "constraint_spec list" where
  "CONSTRAINTS =
    [address_spec, associated_token_authority_spec, associated_token_mint_spec,
     associated_token_token_program_spec, bump_flag_spec, bump_spec, close_spec, raw_constraint_spec,
     dup_spec, executable_spec, extensions_close_authority_authority_spec,
     extensions_group_member_pointer_authority_spec,
     extensions_group_member_pointer_member_address_spec,
     extensions_group_pointer_authority_spec, extensions_group_pointer_group_address_spec,
     extensions_metadata_pointer_authority_spec,
     extensions_metadata_pointer_metadata_address_spec, extensions_pausable_authority_spec,
     extensions_permanent_delegate_delegate_spec, extensions_transfer_hook_authority_spec,
     extensions_transfer_hook_program_id_spec, has_one_spec, init_spec, init_if_needed_spec,
     mint_authority_spec, mint_decimals_spec, mint_freeze_authority_spec,
     mint_token_program_spec, mut_spec, owner_spec, payer_spec, realloc_spec, realloc_payer_spec,
     realloc_zero_spec, rent_exempt_spec, seeds_spec, seeds_program_spec, signer_spec,
     space_spec, token_authority_spec, token_mint_spec, token_token_program_spec, zero_spec]"

lemmas spec_defs =
  address_spec_def associated_token_authority_spec_def associated_token_mint_spec_def
  associated_token_token_program_spec_def bump_flag_spec_def bump_spec_def close_spec_def
  raw_constraint_spec_def dup_spec_def executable_spec_def
  extensions_close_authority_authority_spec_def
  extensions_group_member_pointer_authority_spec_def
  extensions_group_member_pointer_member_address_spec_def
  extensions_group_pointer_authority_spec_def extensions_group_pointer_group_address_spec_def
  extensions_metadata_pointer_authority_spec_def
  extensions_metadata_pointer_metadata_address_spec_def extensions_pausable_authority_spec_def
  extensions_permanent_delegate_delegate_spec_def extensions_transfer_hook_authority_spec_def
  extensions_transfer_hook_program_id_spec_def has_one_spec_def init_spec_def
  init_if_needed_spec_def mint_authority_spec_def mint_decimals_spec_def
  mint_freeze_authority_spec_def mint_token_program_spec_def mut_spec_def owner_spec_def
  payer_spec_def realloc_spec_def realloc_payer_spec_def realloc_zero_spec_def
  rent_exempt_spec_def seeds_spec_def seeds_program_spec_def signer_spec_def space_spec_def
  token_authority_spec_def token_mint_spec_def token_token_program_spec_def zero_spec_def

text \<open>\<open>constraint_keys_generated.rs\<close>.\<close>

definition MUTABILITY_IMPLYING_KEYS :: "string list" where
  "MUTABILITY_IMPLYING_KEYS =
     [''close'', ''init'', ''init_if_needed'', ''mut'', ''realloc'', ''realloc::payer'', ''realloc::zero'', ''zero'']"

definition INIT_LIKE_KEYS :: "string list" where
  "INIT_LIKE_KEYS = [''init'', ''init_if_needed'']"

end
