(* ===== verification/Constraint_Rules.thy ===== *)
theory Constraint_Rules
  imports Constraint_Table Json_Value Decimal_Text "HOL-Library.Multiset"
begin

section \<open>Queries on the constraint catalog\<close>

text \<open>
  The functions of \<open>src/anchor/constraint_catalog/mod.rs\<close> on the table: lookup by key and by
  label, the rule a parser message belongs to, the companions of a constraint, its documentation
  and the support matrix.  Iterators are lists; a slice of static strings is its list.
\<close>

subsection \<open>Lookups\<close>

text \<open>\<open>label.strip_suffix(" =")\<close>.\<close>

definition assignment_key :: "string \<Rightarrow> string option" where
  "assignment_key label = strip_suffix '' ='' label"

definition by_key :: "string \<Rightarrow> constraint_spec option" where
  "by_key key =
     find (\<lambda>spec. spec_label spec = key \<or> assignment_key (spec_label spec) = Some key) CONSTRAINTS"

definition by_key_with_assignment :: "string \<Rightarrow> bool \<Rightarrow> constraint_spec option" where
  "by_key_with_assignment key has_assignment =
     (if has_assignment then or_else (find (\<lambda>spec. spec_label spec = key @ '' ='') CONSTRAINTS) (by_key key)
      else or_else (find (\<lambda>spec. spec_label spec = key) CONSTRAINTS) (by_key key))"

definition value_kind_for_key :: "string \<Rightarrow> constraint_value_kind option" where
  "value_kind_for_key key = map_option spec_value_kind (by_key_with_assignment key True)"

definition parser_rule_for_message :: "string \<Rightarrow> (constraint_spec \<times> constraint_parser_rule) option" where
  "parser_rule_for_message message =
     find_map (\<lambda>spec.
         map_option (Pair spec)
           (find (\<lambda>rule. pr_message rule = message \<or> str_contains (pr_message rule) message)
             (parser_rules spec)))
       CONSTRAINTS"

definition family_keys :: "constraint_family \<Rightarrow> string list" where
  "family_keys family =
     map (\<lambda>spec. constraint_key (spec_label spec)) (filter (\<lambda>spec. spec_family spec = family) CONSTRAINTS)"

definition constraint_key_companions :: "constraint_spec \<Rightarrow> string list" where
  "constraint_key_companions spec = filter is_constraint_key (required_companions spec)"

definition requires_companion :: "string \<Rightarrow> string \<Rightarrow> bool" where
  "requires_companion for_key companion =
     unwrap_or False
       (map_option
         (\<lambda>spec. list_ex (\<lambda>c. constraint_key c = constraint_key companion) (required_companions spec))
         (by_key for_key))"

definition is_reference_kind :: "constraint_value_kind \<Rightarrow> bool" where
  "is_reference_kind kind \<longleftrightarrow> kind \<in> {AccountReference, SignerReference, ProgramReference}"

definition account_reference_specs :: "(string \<times> constraint_value_kind) list" where
  "account_reference_specs =
     List.map_filter
       (\<lambda>spec.
         if is_reference_kind (spec_value_kind spec) then
           map_option (\<lambda>key. (key, spec_value_kind spec)) (assignment_key (spec_label spec))
         else None)
       CONSTRAINTS"

definition instruction_argument_keys :: "string list" where
  "instruction_argument_keys =
     List.map_filter
       (\<lambda>spec. if spec_value_kind spec = InstructionArgument then assignment_key (spec_label spec) else None)
       CONSTRAINTS"

definition expression_value_keys :: "string list" where
  "expression_value_keys =
     List.map_filter
       (\<lambda>spec. if spec_value_kind spec = AnyExpression then assignment_key (spec_label spec) else None)
       CONSTRAINTS"

subsection \<open>Names\<close>

fun family_name :: "constraint_family \<Rightarrow> string" where
  "family_name Core = ''core''"
| "family_name Pda = ''pda''"
| "family_name TokenAccount = ''token-account''"
| "family_name AssociatedTokenAccount = ''associated-token-account''"
| "family_name Mint = ''mint''"
| "family_name MintExtension = ''mint-extension''"
| "family_name Realloc = ''realloc''"

fun value_kind_name :: "constraint_value_kind \<Rightarrow> string" where
  "value_kind_name NoValue = ''none''"
| "value_kind_name AnyExpression = ''any-expression''"
| "value_kind_name AccountReference = ''account-reference''"
| "value_kind_name SignerReference = ''signer-reference''"
| "value_kind_name ProgramReference = ''program-reference''"
| "value_kind_name InstructionArgument = ''instruction-argument''"
| "value_kind_name Keyword = ''keyword''"
| "value_kind_name Boolean = ''boolean''"
| "value_kind_name Space = ''space''"
| "value_kind_name Seeds = ''seeds''"

fun parser_rule_kind_name :: "constraint_parser_rule_kind \<Rightarrow> string" where
  "parser_rule_kind_name Duplicate = ''duplicate''"
| "parser_rule_kind_name Ordering = ''ordering''"
| "parser_rule_kind_name Conflict = ''conflict''"
| "parser_rule_kind_name TypeRequirement = ''type-requirement''"

subsection \<open>Support matrix\<close>

definition editor_features :: "constraint_spec \<Rightarrow> string list" where
  "editor_features spec =
     [''completion'', ''completionResolve'', ''hover'', ''signatureHelp''] @
     (if is_reference_kind (spec_value_kind spec) \<or>
         spec_value_kind spec \<in> {InstructionArgument, Keyword, Space}
      then [''contextualValueCompletion''] else [])"

definition code_actions :: "constraint_spec \<Rightarrow> string list" where
  "code_actions spec =
     (let key = constraint_key (spec_label spec);
          actions =
            (if key = ''init'' then [''addMissingInitConstraints'']
             else if key = ''has_one'' then [''replaceHasOneTarget'']
             else if key = ''mut'' then [''addMutConstraint'']
             else if key = ''payer'' then [''replaceMissingAccountReference'']
             else if key = ''space'' then [''addMissingInitConstraints'']
             else if key = ''realloc'' \<or> key = ''close'' then [''addMutConstraint'']
             else []) in
      if is_reference_kind (spec_value_kind spec) \<and> ''replaceMissingAccountReference'' \<notin> set actions
      then actions @ [''replaceMissingAccountReference''] else actions)"

fun value_kind_checks :: "constraint_value_kind \<Rightarrow> string list" where
  "value_kind_checks AccountReference = [''accountReferenceResolution'']"
| "value_kind_checks SignerReference = [''accountReferenceResolution'']"
| "value_kind_checks ProgramReference = [''accountReferenceResolution'']"
| "value_kind_checks InstructionArgument = [''instructionArgumentResolution'']"
| "value_kind_checks Keyword = [''keywordValueValidation'']"
| "value_kind_checks _ = []"

fun family_checks :: "constraint_family \<Rightarrow> string list" where
  "family_checks TokenAccount = [''tokenAccountTypeShape'']"
| "family_checks AssociatedTokenAccount = [''tokenAccountTypeShape'']"
| "family_checks Mint = [''mintTypeShape'']"
| "family_checks MintExtension = [''mintTypeShape'']"
| "family_checks Pda = [''pdaShape'']"
| "family_checks Realloc = [''reallocShape'']"
| "family_checks Core = []"

definition semantic_checks :: "constraint_spec \<Rightarrow> string list" where
  "semantic_checks spec =
     (if required_companions spec \<noteq> [] then [''companionConstraintShape''] else []) @
     (if conflicts_with spec \<noteq> [] then [''conflictingConstraintShape''] else []) @
     (if parser_rules spec \<noteq> [] then [''anchorParserRules''] else []) @
     value_kind_checks (spec_value_kind spec) @
     family_checks (spec_family spec) @
     (if constraint_key (spec_label spec) = ''has_one'' then [''accountDataFieldResolution''] else [])"

definition support_gaps :: "constraint_spec \<Rightarrow> string list \<Rightarrow> string list \<Rightarrow> string list" where
  "support_gaps spec checks actions =
     (if checks = [] then [''noSemanticDiagnosticsYet''] else []) @
     (if actions = [] \<and> (checks \<noteq> [] \<or> is_reference_kind (spec_value_kind spec)) then [''noQuickFixYet''] else []) @
     (if spec_value_kind spec = AnyExpression then [''expressionSemanticsNotEvaluated''] else []) @
     (if spec_family spec = MintExtension then [''token2022ExtensionSpecificRulesNeedExpansion''] else []) @
     (if constraint_key (spec_label spec) \<in> {''owner'', ''address'', ''executable''}
      then [''runtimeValueValidationLimited''] else [])"

definition support_depth :: "string list \<Rightarrow> string list \<Rightarrow> string list \<Rightarrow> string" where
  "support_depth checks actions gaps =
     (if gaps = [] \<and> checks \<noteq> [] \<and> actions \<noteq> [] then ''rich''
      else if checks \<noteq> [] \<and> actions \<noteq> [] then ''actionable''
      else if checks \<noteq> [] then ''semantic''
      else ''surface'')"

definition json_strings :: "string list \<Rightarrow> json" where
  "json_strings xs = JArray (map JString xs)"

definition parser_rule_json :: "constraint_parser_rule \<Rightarrow> json" where
  "parser_rule_json rule =
     JObject [(''kind'', JString (parser_rule_kind_name (pr_kind rule))),
              (''message'', JString (pr_message rule)),
              (''sourceMethod'', JString (pr_source_method rule))]"

definition constraint_support :: "constraint_spec \<Rightarrow> json" where
  "constraint_support spec =
     (let features = editor_features spec;
          checks = semantic_checks spec;
          actions = code_actions spec;
          gaps = support_gaps spec checks actions in
      JObject [(''label'', JString (spec_label spec)),
               (''key'', JString (constraint_key (spec_label spec))),
               (''family'', JString (family_name (spec_family spec))),
               (''valueKind'', JString (value_kind_name (spec_value_kind spec))),
               (''detail'', JString (spec_detail spec)),
               (''requiredCompanions'', json_strings (required_companions spec)),
               (''conflictsWith'', json_strings (conflicts_with spec)),
               (''parserRules'', JArray (map parser_rule_json (parser_rules spec))),
               (''supportDepth'', JString (support_depth checks actions gaps)),
               (''editorFeatures'', json_strings features),
               (''semanticChecks'', json_strings checks),
               (''codeActions'', json_strings actions),
               (''gaps'', json_strings gaps)])"

definition support_matrix :: "json list" where
  "support_matrix = map constraint_support CONSTRAINTS"

subsection \<open>Documentation\<close>

text \<open>\<open>Debug\<close> of the enumerations.\<close>

fun debug_family :: "constraint_family \<Rightarrow> string" where
  "debug_family Core = ''Core''"
| "debug_family Pda = ''Pda''"
| "debug_family TokenAccount = ''TokenAccount''"
| "debug_family AssociatedTokenAccount = ''AssociatedTokenAccount''"
| "debug_family Mint = ''Mint''"
| "debug_family MintExtension = ''MintExtension''"
| "debug_family Realloc = ''Realloc''"

fun debug_value_kind :: "constraint_value_kind \<Rightarrow> string" where
  "debug_value_kind NoValue = ''None''"
| "debug_value_kind AnyExpression = ''AnyExpression''"
| "debug_value_kind AccountReference = ''AccountReference''"
| "debug_value_kind SignerReference = ''SignerReference''"
| "debug_value_kind ProgramReference = ''ProgramReference''"
| "debug_value_kind InstructionArgument = ''InstructionArgument''"
| "debug_value_kind Keyword = ''Keyword''"
| "debug_value_kind Boolean = ''Boolean''"
| "debug_value_kind Space = ''Space''"
| "debug_value_kind Seeds = ''Seeds''"

fun debug_parser_rule_kind :: "constraint_parser_rule_kind \<Rightarrow> string" where
  "debug_parser_rule_kind Duplicate = ''Duplicate''"
| "debug_parser_rule_kind Ordering = ''Ordering''"
| "debug_parser_rule_kind Conflict = ''Conflict''"
| "debug_parser_rule_kind TypeRequirement = ''TypeRequirement''"

definition newline :: string where
  "newline = [CHR 0x0A]"

definition code_list :: "string list \<Rightarrow> string" where
  "code_list xs = join '', '' (map (\<lambda>x. ''`'' @ x @ ''`'') xs)"

definition markdown_doc :: "constraint_spec \<Rightarrow> string" where
  "markdown_doc spec =
     (let blank = newline @ newline in
      ''`'' @ constraint_key (spec_label spec) @ ''`'' @ blank @ spec_detail spec @
      blank @ ''Family: `'' @ debug_family (spec_family spec) @ ''`'' @
      blank @ ''Value: `'' @ debug_value_kind (spec_value_kind spec) @ ''`'' @
      (if required_companions spec = [] then []
       else blank @ ''Requires: '' @ code_list (required_companions spec)) @
      (if conflicts_with spec = [] then []
       else blank @ ''Conflicts with: '' @ code_list (conflicts_with spec)) @
      (if parser_rules spec = [] then []
       else
         blank @ ''Anchor parser rules:'' @
         concat (map (\<lambda>rule. newline @ ''- `'' @ debug_parser_rule_kind (pr_kind rule) @ ''` from `'' @
             pr_source_method rule @ ''`: '' @ pr_message rule)
           (take 6 (parser_rules spec))) @
         (if length (parser_rules spec) > 6
          then newline @ ''- ...'' @ show_nat (length (parser_rules spec) - 6) @ '' more parser rule(s)''
          else [])))"

subsection \<open>Properties\<close>

lemma labels_distinct: "distinct (map spec_label CONSTRAINTS)"
  by (simp add: CONSTRAINTS_def spec_defs)

lemma find_label:
  "find (\<lambda>spec. spec_label spec = l) CONSTRAINTS = Some spec \<longleftrightarrow> spec \<in> set CONSTRAINTS \<and> spec_label spec = l"
proof -
  have "find (\<lambda>spec. spec_label spec = l) xs = Some spec \<longleftrightarrow> spec \<in> set xs \<and> spec_label spec = l"
    if "distinct (map spec_label xs)" for xs
    using that by (induction xs) auto
  from this [OF labels_distinct] show ?thesis .
qed

lemma by_key_label:
  "by_key key = find (\<lambda>spec. spec_label spec = key \<or> spec_label spec = key @ '' ='') CONSTRAINTS"
  by (simp add: by_key_def assignment_key_def strip_suffix_Some)

lemma find_either:
  "or_else (find p xs) (find (\<lambda>x. p x \<or> q x) xs) = or_else (find p xs) (find q xs)"
  "or_else (find q xs) (find (\<lambda>x. p x \<or> q x) xs) = or_else (find q xs) (find p xs)"
  by (induction xs) (auto simp: or_else_def split: option.splits)

text \<open>a lookup prefers the entry that takes a value when the key is assigned, and the flag when it is
  not, and falls back to the other form.\<close>

theorem catalog_lookup_exact:
  "by_key_with_assignment key has_assignment = Some spec \<longleftrightarrow>
     (let preferred = (if has_assignment then key @ '' ='' else key);
          other = (if has_assignment then key else key @ '' ='') in
      spec \<in> set CONSTRAINTS \<and>
      (spec_label spec = preferred \<or>
       spec_label spec = other \<and> preferred \<notin> spec_label ` set CONSTRAINTS))"
proof -
  have lookup: "or_else (find (\<lambda>s. spec_label s = l) CONSTRAINTS) (find (\<lambda>s. spec_label s = m) CONSTRAINTS) = Some spec \<longleftrightarrow>
      spec \<in> set CONSTRAINTS \<and> (spec_label spec = l \<or> spec_label spec = m \<and> l \<notin> spec_label ` set CONSTRAINTS)" for l m
  proof (cases "find (\<lambda>s. spec_label s = l) CONSTRAINTS")
    case None
    then have "l \<notin> spec_label ` set CONSTRAINTS" by (auto simp: find_None_iff)
    with None show ?thesis by (auto simp: find_label)
  next
    case (Some s)
    then have "s \<in> set CONSTRAINTS" "spec_label s = l" by (simp_all add: find_label)
    moreover have "find (\<lambda>s. spec_label s = l) CONSTRAINTS = Some spec \<longleftrightarrow> spec \<in> set CONSTRAINTS \<and> spec_label spec = l"
      by (rule find_label)
    ultimately show ?thesis using Some by auto
  qed
  show ?thesis
    unfolding by_key_with_assignment_def by_key_label Let_def
    by (cases has_assignment) (simp_all only: if_True if_False find_either lookup)
qed

lemma suffix_rev: "suffix xs ys \<longleftrightarrow> prefix (rev xs) (rev ys)"
  by (rule suffix_to_prefix)

text \<open>The keys that make an account mutable, listed by hand, are those of the generated catalog.\<close>

lemma mutability_tables:
  "mset mutability_implying_keys = mset MUTABILITY_IMPLYING_KEYS"
  "map (\<lambda>spec. constraint_key (spec_label spec)) (filter implies_mutability CONSTRAINTS) = MUTABILITY_IMPLYING_KEYS"
  by (simp_all add: CONSTRAINTS_def spec_defs constraint_key_def strip_suffix_def suffix_rev
        mutability_implying_keys_def MUTABILITY_IMPLYING_KEYS_def)

definition reported_as :: "string \<Rightarrow> (string \<times> string) option" where
  "reported_as message =
     map_option (\<lambda>(spec, rule). (spec_label spec, pr_message rule)) (parser_rule_for_message message)"

lemma reported_init: "reported_as ''zeroed already provided'' = Some (''init'', ''zeroed already provided'')"
  by (simp add: reported_as_def parser_rule_for_message_def CONSTRAINTS_def spec_defs rule_of_def str_contains_def)

lemma reported_payer: "reported_as ''realloc::payer already provided'' = Some (''payer ='', ''payer already provided'')"
  by (simp add: reported_as_def parser_rule_for_message_def CONSTRAINTS_def spec_defs rule_of_def str_contains_def)

lemma reported_authority:
  "reported_as ''token authority already provided'' =
     Some (''associated_token::authority ='', ''token authority already provided'')"
  by (simp add: reported_as_def parser_rule_for_message_def CONSTRAINTS_def spec_defs rule_of_def str_contains_def)

text \<open>Three messages of the parser are attributed to another constraint, or to another rule, than the
  one that the catalog lists them for.\<close>

theorem parser_rules_misattributed:
  "map (\<lambda>(spec, rule). (spec_label spec, reported_as (pr_message rule)))
     [(zero_spec, parser_rules zero_spec ! 1), (realloc_payer_spec, parser_rules realloc_payer_spec ! 0),
      (token_authority_spec, parser_rules token_authority_spec ! 0)] =
   [(''zero'', Some (''init'', ''zeroed already provided'')),
    (''realloc::payer ='', Some (''payer ='', ''payer already provided'')),
    (''token::authority ='', Some (''associated_token::authority ='', ''token authority already provided''))]"
  by (simp add: zero_spec_def realloc_payer_spec_def token_authority_spec_def rule_of_def
        reported_init reported_payer reported_authority)

end
