(* ===== verification/Identifiers.thy ===== *)
theory Identifiers
  imports Rust_Prelude
begin

section \<open>ASCII identifiers\<close>

text \<open>
  \<open>src/core/syntax/identifiers.rs\<close>.  A byte of a multi-byte character is in no ASCII class, so the
  tests on characters are tests on bytes.
\<close>

definition ident_start :: "char \<Rightarrow> bool" where
  "ident_start c \<longleftrightarrow> c = CHR ''_'' \<or> is_ascii_alphabetic c"

definition ident_char :: "char \<Rightarrow> bool" where
  "ident_char c \<longleftrightarrow> c = CHR ''_'' \<or> is_ascii_alphanumeric c"

definition is_ascii_identifier :: "string \<Rightarrow> bool" where
  "is_ascii_identifier s = (case s of [] \<Rightarrow> False | c # t \<Rightarrow> ident_start c \<and> list_all ident_char t)"

definition is_ascii_identifier_prefix :: "string \<Rightarrow> bool" where
  "is_ascii_identifier_prefix s = list_all ident_char s"

definition is_ascii_type_identifier :: "string \<Rightarrow> bool" where
  "is_ascii_type_identifier s =
     (case s of [] \<Rightarrow> False | c # t \<Rightarrow> (c = CHR ''_'' \<or> is_ascii_uppercase c) \<and> list_all ident_char t)"

text \<open>\<open>str::split(separator)\<close> for a separator that is not empty.\<close>

function split_str :: "string \<Rightarrow> string \<Rightarrow> string list" where
  "split_str sep s =
     (case str_find sep s of
        None \<Rightarrow> [s]
      | Some i \<Rightarrow> if sep = [] then [s] else take i s # split_str sep (drop (i + length sep) s))"
  by pat_completeness auto
termination
proof (relation "measure (\<lambda>(sep, s). length s)", goal_cases)
  case (2 sep s i)
  then show ?case using str_find_bound [of sep s i] by (cases sep) auto
qed simp

declare split_str.simps [simp del]

definition is_ascii_identifier_path :: "string \<Rightarrow> string \<Rightarrow> bool" where
  "is_ascii_identifier_path value separator \<longleftrightarrow>
     value \<noteq> [] \<and> list_all is_ascii_identifier (split_str separator value)"

definition is_ascii_type_path :: "string \<Rightarrow> string \<Rightarrow> bool" where
  "is_ascii_type_path value separator \<longleftrightarrow>
     value \<noteq> [] \<and> list_all is_ascii_type_identifier (split_str separator value)"

lemma ident_start_char: "ident_start c \<Longrightarrow> ident_char c"
  by (auto simp: ident_start_def ident_char_def is_ascii_alphanumeric_def)

lemma is_ascii_identifier_chars: "is_ascii_identifier s \<Longrightarrow> s \<noteq> [] \<and> list_all ident_char s"
  by (cases s) (auto simp: is_ascii_identifier_def dest: ident_start_char)

end
