(* ===== verification/Constraint_Text.thy ===== *)
theory Constraint_Text
  imports Identifiers
begin

section \<open>The text of account constraints\<close>

text \<open>
  \<open>src/anchor/constraint_text/mod.rs\<close>: searches for the keys of an account attribute in its text,
  and the scanner that splits the text at its top level.  Every character the code tests for is
  ASCII, so the scans are over bytes.  The searches are for keys that are not empty; a search
  position stays inside the text.
\<close>

subsection \<open>Keys\<close>

definition key_boundary :: "string \<Rightarrow> nat \<Rightarrow> bool" where
  "key_boundary text i \<longleftrightarrow>
     i = 0 \<or> \<not> (ident_char (text ! (i - 1)) \<or> text ! (i - 1) = CHR '':'')"

text \<open>The loop over the occurrences of \<open>key\<close> that the searches share: the first occurrence from
  \<open>start\<close> on that is accepted, the next search starting one byte after a refused one.\<close>

function first_occurrence :: "(nat \<Rightarrow> bool) \<Rightarrow> string \<Rightarrow> string \<Rightarrow> nat \<Rightarrow> nat option" where
  "first_occurrence accept text key start =
     (case str_find key (drop start text) of
        None \<Rightarrow> None
      | Some relative \<Rightarrow>
          (let i = start + relative in
           if accept i then Some i
           else if i < length text then first_occurrence accept text key (i + 1) else None))"
  by pat_completeness auto
termination by (relation "measure (\<lambda>(accept, text, key, start). length text - start)") auto

declare first_occurrence.simps [simp del]

definition has_flag :: "string \<Rightarrow> string \<Rightarrow> bool" where
  "has_flag text key \<longleftrightarrow>
     first_occurrence
       (\<lambda>i. key_boundary text i \<and>
         (case drop (i + length key) text of [] \<Rightarrow> True | c # _ \<Rightarrow> c = CHR '','' \<or> c = CHR '')''))
       text key 0 \<noteq> None"

definition key_assignment_start :: "string \<Rightarrow> string \<Rightarrow> nat option" where
  "key_assignment_start text key =
     first_occurrence
       (\<lambda>i. key_boundary text i \<and> prefix ''='' (trim_start (drop (i + length key) text))) text key 0"

definition has_key :: "string \<Rightarrow> string \<Rightarrow> bool" where
  "has_key text key \<longleftrightarrow> key_assignment_start text key \<noteq> None"

definition has_flag_or_key :: "string \<Rightarrow> string \<Rightarrow> bool" where
  "has_flag_or_key text key \<longleftrightarrow> has_flag text key \<or> has_key text key"

definition value_after_key :: "string \<Rightarrow> string \<Rightarrow> string option" where
  "value_after_key text key =
     Option.bind (key_assignment_start text key) (\<lambda>i.
       let rest = drop (i + length key) text in
       map_option (\<lambda>eq. trim_start (drop (eq + 1) rest)) (str_find ''='' rest))"

definition bracket_value :: "string \<Rightarrow> string \<Rightarrow> string option" where
  "bracket_value text key =
     Option.bind (first_occurrence (key_boundary text) text key 0) (\<lambda>i.
     Option.bind (strip_prefix ''='' (trim_start (drop (i + length key) text))) (\<lambda>after_equals.
     Option.bind (strip_prefix ''['' (trim_start after_equals)) (\<lambda>after_bracket.
       map_option (\<lambda>stop. take stop after_bracket) (str_find '']'' after_bracket))))"

subsection \<open>The top level of a text\<close>

record scan_state =
  depth :: nat
  literal :: "char option"
  escaped :: bool

definition scan_init :: scan_state where
  "scan_init = \<lparr>depth = 0, literal = None, escaped = False\<rparr>"

definition observe_literal :: "char \<Rightarrow> char \<Rightarrow> scan_state \<Rightarrow> scan_state" where
  "observe_literal c delimiter st =
     (if escaped st then st\<lparr>escaped := False\<rparr>
      else if c = CHR 0x5C then st\<lparr>escaped := True\<rparr>
      else if c = delimiter then st\<lparr>literal := None\<rparr>
      else st)"

definition observe :: "char \<Rightarrow> scan_state \<Rightarrow> scan_state" where
  "observe c st =
     (case literal st of
        Some delimiter \<Rightarrow> observe_literal c delimiter st
      | None \<Rightarrow>
          if c = CHR 0x22 \<or> c = CHR 0x27 then st\<lparr>literal := Some c\<rparr>
          else if c \<in> {CHR ''('', CHR ''['', CHR ''{''} then st\<lparr>depth := depth st + 1\<rparr>
          else if c \<in> {CHR '')'', CHR '']'', CHR ''}''} then st\<lparr>depth := depth st - 1\<rparr>
          else st)"

definition is_top_level :: "scan_state \<Rightarrow> bool" where
  "is_top_level st \<longleftrightarrow> depth st = 0 \<and> literal st = None"

definition push_trimmed_part :: "string \<Rightarrow> string list \<Rightarrow> string list" where
  "push_trimmed_part part parts = (if trim part = [] then parts else parts @ [trim part])"

text \<open>The scan of \<open>split_top_level\<close>: \<open>part\<close> is the text from \<open>start\<close> to the current index.\<close>

fun split_loop :: "scan_state \<Rightarrow> string \<Rightarrow> string list \<Rightarrow> string \<Rightarrow> string list" where
  "split_loop st part parts [] = push_trimmed_part part parts"
| "split_loop st part parts (c # s) =
     (let st1 = observe c st in
      if c = CHR '','' \<and> is_top_level st1 then split_loop st1 [] (push_trimmed_part part parts) s
      else split_loop st1 (part @ [c]) parts s)"

definition split_top_level :: "string \<Rightarrow> string list" where
  "split_top_level s = split_loop scan_init [] [] s"

definition account_constraint_contents :: "string \<Rightarrow> string" where
  "account_constraint_contents text =
     (let trimmed = trim text in
      unwrap_or trimmed (Option.bind (strip_prefix ''account('' trimmed) (strip_suffix '')'')))"

definition is_assignment_equals :: "string \<Rightarrow> nat \<Rightarrow> bool" where
  "is_assignment_equals text i \<longleftrightarrow>
     \<not> (i > 0 \<and> text ! (i - 1) \<in> {CHR ''!'', CHR ''<'', CHR ''>'', CHR ''=''}) \<and>
     \<not> prefix ''='' (drop (i + 1) text)"

fun equals_loop :: "scan_state \<Rightarrow> string \<Rightarrow> nat \<Rightarrow> string \<Rightarrow> nat option" where
  "equals_loop st text i [] = None"
| "equals_loop st text i (c # s) =
     (let st1 = observe c st in
      if c = CHR ''='' \<and> is_top_level st1 \<and> is_assignment_equals text i then Some i
      else equals_loop st1 text (i + 1) s)"

definition top_level_assignment_equals :: "string \<Rightarrow> nat option" where
  "top_level_assignment_equals text = equals_loop scan_init text 0 text"

definition split_top_level_assignment :: "string \<Rightarrow> (string \<times> string) option" where
  "split_top_level_assignment text =
     Option.bind (top_level_assignment_equals text) (\<lambda>i.
       let key = trim (take i text); val = trim (drop (i + 1) text) in
       if key \<noteq> [] \<and> val \<noteq> [] then Some (key, val) else None)"

definition top_level_assignments :: "string \<Rightarrow> (string \<times> string) list" where
  "top_level_assignments text =
     List.map_filter split_top_level_assignment (split_top_level (account_constraint_contents text))"

fun value_len_loop :: "scan_state \<Rightarrow> nat \<Rightarrow> string \<Rightarrow> nat" where
  "value_len_loop st i [] = i"
| "value_len_loop st i (c # s) =
     (if is_top_level st \<and> (c = CHR '')'' \<or> c = CHR '','') then i
      else value_len_loop (observe c st) (i + 1) s)"

definition top_level_value_len :: "string \<Rightarrow> nat" where
  "top_level_value_len s = value_len_loop scan_init 0 s"

text \<open>\<open>values_after_key\<close>; the length of what \<open>trim_start\<close> drops is a difference of lengths, as in the
  code.  The next search starts behind the value, or behind the key.\<close>

function values_loop :: "string \<Rightarrow> string \<Rightarrow> nat \<Rightarrow> string list" where
  "values_loop text key start =
     (case str_find key (drop start text) of
        None \<Rightarrow> []
      | Some relative \<Rightarrow>
          (let key_start = start + relative;
               after_key = key_start + length key;
               rest = drop after_key text in
           if key = [] \<or> length text \<le> key_start then []
           else if \<not> key_boundary text key_start then values_loop text key (key_start + 1)
           else if \<not> prefix ''='' (trim_start rest) then values_loop text key after_key
           else
             (let value_start = after_key + (length rest - length (trim_start rest)) + 1;
                  after_equals = drop value_start text;
                  val = trim_start after_equals;
                  value_start1 = value_start + (length after_equals - length val);
                  value_end = value_start1 + top_level_value_len val;
                  trimmed = trim (take (value_end - value_start1) (drop value_start1 text)) in
              (if trimmed = [] then [] else [trimmed]) @ values_loop text key (max value_end after_key))))"
  by pat_completeness auto
termination
proof (relation "measure (\<lambda>(text, key, start). length text - start)", goal_cases)
  case (3 s key start r i after)
  then have "start < after" "start < length s" by (cases key; simp)+
  then show ?case by simp
next
  case (4 s key start r i after rest a b c d e)
  have "start < after" using 4(2,3,5) by (cases key) simp_all
  moreover have "start < length s" using 4(2,5) by simp
  ultimately have "start < max e after" "start < length s" by (simp_all add: less_max_iff_disj)
  then show ?case by (simp add: diff_less_mono2)
qed auto

declare values_loop.simps [simp del]

definition values_after_key :: "string \<Rightarrow> string \<Rightarrow> string list" where
  "values_after_key text key = values_loop text key 0"

subsection \<open>Searches\<close>

lemma first_occurrence_missing:
  "str_find key (drop start s) = None \<Longrightarrow> first_occurrence accept s key start = None"
  by (simp add: first_occurrence.simps)

lemma first_occurrence_found:
  "str_find key (drop start s) = Some r \<Longrightarrow>
     first_occurrence accept s key start =
       (if accept (start + r) then Some (start + r)
        else if start + r < length s then first_occurrence accept s key (start + r + 1) else None)"
  by (simp add: first_occurrence.simps [of accept s key start] Let_def)

lemma first_occurrence_Some:
  "first_occurrence accept s key start = Some i \<Longrightarrow> start \<le> i \<and> accept i \<and> prefix key (drop i s) \<and> (start \<le> length s \<longrightarrow> i \<le> length s)"
proof (induction accept s key start rule: first_occurrence.induct)
  case (1 accept s key start)
  show ?case
  proof (cases "str_find key (drop start s)")
    case None
    with 1(2) show ?thesis by (simp add: first_occurrence_missing)
  next
    case (Some r)
    have found: "prefix key (drop (start + r) s)" "start \<le> length s \<longrightarrow> start + r \<le> length s"
      using str_find_Some_prefix [OF Some] by (auto simp: add.commute)
    show ?thesis
    proof (cases "accept (start + r)")
      case True
      with 1(2) Some found show ?thesis by (auto simp: first_occurrence_found)
    next
      case False
      with 1(2) Some have "start + r < length s" "first_occurrence accept s key (start + r + 1) = Some i"
        by (auto simp: first_occurrence_found split: if_splits)
      with 1(1) [OF Some refl False] show ?thesis by auto
    qed
  qed
qed

lemma first_occurrence_None:
  "first_occurrence accept s key start = None \<Longrightarrow> start \<le> i \<Longrightarrow> i \<le> length s \<Longrightarrow>
     prefix key (drop i s) \<Longrightarrow> \<not> accept i"
proof (induction accept s key start rule: first_occurrence.induct)
  case (1 accept s key start)
  have at: "drop (i - start) (drop start s) = drop i s" using 1(3) by simp
  show ?case
  proof (cases "str_find key (drop start s)")
    case None
    then have "\<not> prefix key (drop (i - start) (drop start s))" using 1(4) by (simp add: str_find_None)
    with at 1(5) show ?thesis by simp
  next
    case (Some r)
    have least: "start + r \<le> i"
    proof (rule ccontr)
      assume "\<not> start + r \<le> i"
      then have "i - start < r" using 1(3) by simp
      from str_find_least [OF Some this] at 1(5) show False by simp
    qed
    from 1(2) Some have refused: "\<not> accept (start + r)"
      and rest: "start + r < length s \<Longrightarrow> first_occurrence accept s key (start + r + 1) = None"
      by (auto simp: first_occurrence_found split: if_splits)
    show ?thesis
    proof (cases "start + r = i")
      case True
      with refused show ?thesis by simp
    next
      case False
      with least 1(4) have "start + r + 1 \<le> i" "start + r < length s" by simp_all
      with rest show ?thesis using 1(1) [OF Some refl refused] 1(4,5) by simp
    qed
  qed
qed

lemma first_occurrence_iff:
  "first_occurrence accept s key 0 \<noteq> None \<longleftrightarrow> (\<exists>i \<le> length s. prefix key (drop i s) \<and> accept i)"
  using first_occurrence_Some [of accept s key 0] first_occurrence_None [of accept s key 0]
  by (cases "first_occurrence accept s key 0") auto

subsection \<open>Scans\<close>

definition visible :: "char \<Rightarrow> bool" where
  "visible c \<longleftrightarrow> 32 < byte c \<and> byte c < 128"

text \<open>A text that starts and ends with a visible character is not changed by a trim.\<close>

definition solid :: "string \<Rightarrow> bool" where
  "solid s \<longleftrightarrow> s \<noteq> [] \<and> visible (hd s) \<and> visible (last s)"

lemma visible_not_ws_front: "visible c \<Longrightarrow> ws_front (c # s) = 0"
  by (cases s rule: remdups_adj.cases)
     (auto simp: ws_front_def is_ws_def whitespace_codes_def visible_def take_Cons' numeral_eq_Suc)

lemma ws_last:
  assumes "is_ws s"
  shows "\<not> visible (last s)"
proof -
  have "s \<noteq> []" using assms by auto
  then have "byte (last s) = last (map byte s)" by (simp add: last_map)
  with assms show ?thesis by (auto simp: is_ws_def whitespace_codes_def visible_def)
qed

lemma visible_not_ws_back: "s \<noteq> [] \<Longrightarrow> visible (last s) \<Longrightarrow> ws_back s = 0"
  using ws_last [of "drop (length s - 1) s"] ws_last [of "drop (length s - 2) s"] ws_last [of "drop (length s - 3) s"]
  by (auto simp: ws_back_def last_drop)

lemma trim_solid: "solid s \<Longrightarrow> trim s = s"
  by (cases s) (auto simp: trim_def solid_def visible_not_ws_front visible_not_ws_back trim_start_id trim_end_id)

lemma scan_no_comma:
  "\<forall>i < length p. p ! i = CHR '','' \<longrightarrow> \<not> is_top_level (fold observe (take (Suc i) p) st) \<Longrightarrow>
     split_loop st part parts (p @ rest) = split_loop (fold observe p st) (part @ p) parts rest"
proof (induction p arbitrary: st part)
  case (Cons c p)
  have "\<not> (c = CHR '','' \<and> is_top_level (observe c st))"
    using Cons.prems [rule_format, of 0] by auto
  moreover have "\<forall>i < length p. p ! i = CHR '','' \<longrightarrow> \<not> is_top_level (fold observe (take (Suc i) p) (observe c st))"
    using Cons.prems [rule_format, of "Suc _"] by auto
  ultimately show ?case using Cons.IH [of "observe c st" "part @ [c]"] by (auto simp: Let_def)
qed simp

definition list_item :: "string \<Rightarrow> bool" where
  "list_item p \<longleftrightarrow> solid p \<and> fold observe p scan_init = scan_init \<and>
     (\<forall>i < length p. p ! i = CHR '','' \<longrightarrow> \<not> is_top_level (fold observe (take (Suc i) p) scan_init))"

lemma observe_comma [simp]: "observe CHR '','' scan_init = scan_init" "is_top_level scan_init"
  by (simp_all add: observe_def scan_init_def is_top_level_def)

lemma split_loop_item:
  "list_item p \<Longrightarrow> split_loop scan_init [] parts (p @ rest) = split_loop scan_init p parts rest"
  by (simp add: list_item_def scan_no_comma)

lemma push_item: "list_item p \<Longrightarrow> push_trimmed_part p parts = parts @ [p]"
  by (simp add: list_item_def push_trimmed_part_def trim_solid) (auto simp: solid_def)

lemma split_join_items:
  "list_all list_item ps \<Longrightarrow> split_loop scan_init [] parts (join '','' ps) = parts @ ps"
proof (induction ps arbitrary: parts rule: induct_list012)
  case 1
  then show ?case by (simp add: push_trimmed_part_def)
next
  case (2 p)
  then show ?case using split_loop_item [of p parts "[]"] by (simp add: push_item)
next
  case (3 p q ps)
  then show ?case by (simp add: split_loop_item push_item)
qed

subsection \<open>Items\<close>

text \<open>What an account attribute lists: flags, and keys with a value.\<close>

datatype constraint_item = FlagItem string | AssignItem string string

fun render :: "constraint_item \<Rightarrow> string" where
  "render (FlagItem k) = k"
| "render (AssignItem k v) = k @ ''='' @ v"

fun assigned :: "constraint_item \<Rightarrow> (string \<times> string) option" where
  "assigned (FlagItem k) = None"
| "assigned (AssignItem k v) = Some (k, v)"

definition key_char :: "char \<Rightarrow> bool" where
  "key_char c \<longleftrightarrow> ident_char c \<or> c = CHR '':''"

definition is_key :: "string \<Rightarrow> bool" where
  "is_key k \<longleftrightarrow> k \<noteq> [] \<and> list_all key_char k"

fun item_ok :: "constraint_item \<Rightarrow> bool" where
  "item_ok (FlagItem k) \<longleftrightarrow> is_key k"
| "item_ok (AssignItem k v) \<longleftrightarrow> is_key k \<and> list_item v \<and> \<not> prefix ''='' v"

definition account_text :: "constraint_item list \<Rightarrow> string" where
  "account_text items = ''account('' @ join '','' (map render items) @ '')''"

lemma key_char_plain:
  assumes "key_char c"
  shows "visible c" "c \<notin> set ''=,!<>()[]{}''" "c \<noteq> CHR 0x22" "c \<noteq> CHR 0x27" "observe c scan_init = scan_init"
proof -
  have "byte c \<in> {48..58} \<union> {65..90} \<union> {95} \<union> {97..122}"
    using assms by (auto simp: key_char_def ident_char_def is_ascii_alphanumeric_def is_ascii_alphabetic_def
        is_ascii_digit_def is_ascii_uppercase_def is_ascii_lowercase_def byte_def)
  then show "visible c" "c \<notin> set ''=,!<>()[]{}''" "c \<noteq> CHR 0x22" "c \<noteq> CHR 0x27"
    by (auto simp: visible_def byte_def)
  then show "observe c scan_init = scan_init" by (auto simp: observe_def scan_init_def)
qed

lemma scan_key: "list_all key_char k \<Longrightarrow> fold observe k scan_init = scan_init"
  by (induction k) (simp_all add: key_char_plain)

lemma no_comma_in_key: "list_all key_char k \<Longrightarrow> i < length k \<Longrightarrow> k ! i \<noteq> CHR '',''"
  using key_char_plain(2) by (fastforce simp: list_all_length)

lemma solid_key: "is_key k \<Longrightarrow> solid k"
  by (auto simp: is_key_def solid_def list_all_iff key_char_plain(1))

lemma equals_visible: "visible CHR ''=''" "observe CHR ''='' scan_init = scan_init"
  by (simp_all add: visible_def byte_def observe_def scan_init_def)

lemma list_item_render: "item_ok item \<Longrightarrow> list_item (render item)"
proof (cases item)
  case (FlagItem k)
  moreover assume "item_ok item"
  ultimately show ?thesis
    by (simp add: list_item_def solid_key is_key_def scan_key no_comma_in_key)
next
  case (AssignItem k v)
  moreover assume "item_ok item"
  ultimately have k: "is_key k" and v: "list_item v" by simp_all
  have scan: "fold observe (k @ [CHR ''='']) scan_init = scan_init"
    using k by (simp add: is_key_def scan_key equals_visible)
  have "solid (k @ ''='' @ v)"
    using solid_key [OF k] v by (auto simp: solid_def list_item_def)
  moreover have "fold observe (k @ ''='' @ v) scan_init = scan_init"
    using scan v by (simp add: list_item_def)
  moreover have "\<not> is_top_level (fold observe (take (Suc i) (k @ ''='' @ v)) scan_init)"
    if i: "i < length (k @ ''='' @ v)" "(k @ ''='' @ v) ! i = CHR '',''" for i
  proof -
    have "length k < i"
      using i k no_comma_in_key [of k i] by (cases i "length k" rule: linorder_cases) (auto simp: is_key_def nth_append)
    then obtain j where j: "i = length k + Suc j" using less_iff_Suc_add by auto
    then have "take (Suc i) (k @ ''='' @ v) = (k @ [CHR ''='']) @ take (Suc j) v" by simp
    moreover from i j have "j < length v" "v ! j = CHR '',''" by (simp_all add: nth_append)
    ultimately show ?thesis using scan v by (simp add: list_item_def)
  qed
  ultimately show ?thesis using AssignItem by (simp add: list_item_def)
qed

lemma equals_loop_key:
  "list_all key_char k \<Longrightarrow> equals_loop scan_init s i (k @ rest) = equals_loop scan_init s (i + length k) rest"
proof (induction k arbitrary: i)
  case (Cons c k)
  then have "c \<noteq> CHR ''=''" using key_char_plain(2) [of c] by auto
  with Cons key_char_plain(5) [of c] show ?case by simp
qed simp

lemma assignment_of_item: "item_ok item \<Longrightarrow> split_top_level_assignment (render item) = assigned item"
proof (cases item)
  case (FlagItem k)
  moreover assume "item_ok item"
  ultimately show ?thesis using equals_loop_key [of k k 0 "[]"]
    by (simp add: split_top_level_assignment_def top_level_assignment_equals_def is_key_def)
next
  case (AssignItem k v)
  moreover assume "item_ok item"
  ultimately have ok: "is_key k" "solid v" "\<not> prefix ''='' v" by (simp_all add: list_item_def)
  have "key_char (last k)" using ok(1) by (auto simp: is_key_def list_all_iff)
  then have "k ! (length k - 1) \<notin> set ''=,!<>()[]{}''"
    using ok(1) key_char_plain(2) [of "last k"] by (simp add: is_key_def last_conv_nth)
  moreover have "length k - 1 < length k" using ok(1) by (cases k) (simp_all add: is_key_def)
  ultimately have "is_assignment_equals (k @ ''='' @ v) (length k)"
    using ok by (simp add: is_assignment_equals_def nth_append)
  then have "top_level_assignment_equals (k @ ''='' @ v) = Some (length k)"
    using ok(1) equals_loop_key [of k "k @ ''='' @ v" 0 "''='' @ v"]
    by (simp add: top_level_assignment_equals_def is_key_def equals_visible)
  moreover have "trim k = k" "trim v = v" using ok solid_key by (simp_all add: trim_solid)
  ultimately show ?thesis using AssignItem ok by (auto simp: split_top_level_assignment_def is_key_def solid_def)
qed

lemma map_filter_map: "List.map_filter f (map g xs) = List.map_filter (f \<circ> g) xs"
  by (induction xs) (simp_all add: List.map_filter_simps split: option.split)

lemma account_contents: "account_constraint_contents (account_text items) = join '','' (map render items)"
proof -
  have "solid (account_text items)" by (simp add: solid_def account_text_def visible_def byte_def)
  then show ?thesis
    by (simp add: account_constraint_contents_def trim_solid)
       (simp add: account_text_def strip_prefix_def strip_suffix_def suffix_def)
qed

subsection \<open>Properties\<close>



text \<open>A key counts as assigned exactly if it occurs somewhere, at the start of a word, with an equals
  sign behind it, which may be the first sign of a comparison inside the value of another key.\<close>

theorem has_key_exact:
  "has_key s key \<longleftrightarrow>
     (\<exists>i \<le> length s. prefix key (drop i s) \<and> key_boundary s i \<and>
        prefix ''='' (trim_start (drop (i + length key) s)))"
  using first_occurrence_iff [of _ s key] by (simp add: has_key_def key_assignment_start_def)

lemma comparison_counts_as_key: "has_key ''account(init,constraint=payer==admin)'' ''payer''"
  by code_simp

text \<open>The value in brackets ends at the first closing bracket, not at the matching one.\<close>

lemma bracket_value_first_close: "bracket_value ''seeds=[keys[0],b]'' ''seeds'' = Some ''keys[0''"
  by code_simp

end
