(* ===== verification/Constraint_Ranges.thy ===== *)
theory Constraint_Ranges
  imports Constraint_Table Constraint_Text Text_Positions
begin

section \<open>Where the keys of an account attribute stand\<close>

text \<open>
  \<open>src/anchor/constraint_ranges/mod.rs\<close>: the ranges of the constraint keys in an attribute, longest
  keys first on every line so that \<open>mint\<close> is not found inside \<open>token::mint\<close>.  Columns are byte
  offsets into the line.
\<close>

record constraint_key_range =
  ckr_key :: string
  ckr_range :: range

definition constraint_keys_by_specificity :: "string list" where
  "constraint_keys_by_specificity =
     sort_key (\<lambda>k. - int (length k)) (map (\<lambda>spec. constraint_key (spec_label spec)) CONSTRAINTS)"

definition boundary_char :: "char \<Rightarrow> bool" where
  "boundary_char c \<longleftrightarrow> \<not> (is_ascii_alphanumeric c \<or> c = CHR ''_'' \<or> c = CHR '':'')"

definition has_key_boundaries :: "string \<Rightarrow> nat \<Rightarrow> nat \<Rightarrow> bool" where
  "has_key_boundaries line start stop \<longleftrightarrow>
     (start = 0 \<or> boundary_char (line ! (start - 1))) \<and>
     (stop \<ge> length line \<or> boundary_char (line ! stop))"

definition key_range :: "nat \<Rightarrow> nat \<Rightarrow> nat \<Rightarrow> range" where
  "key_range line start stop =
     \<lparr>range_start = \<lparr>pos_line = of_nat line, pos_character = u32_or_default start\<rparr>,
      range_end = \<lparr>pos_line = of_nat line, pos_character = u32_or_default stop\<rparr>\<rparr>"

text \<open>The occurrences of a key on a line, each search starting behind the last occurrence.\<close>

function key_offsets :: "string \<Rightarrow> string \<Rightarrow> nat \<Rightarrow> nat list" where
  "key_offsets line key search_start =
     (case str_find key (drop search_start line) of
        None \<Rightarrow> []
      | Some relative \<Rightarrow>
          (let start = search_start + relative; stop = start + length key in
           if key = [] \<or> length line \<le> start then []
           else (if has_key_boundaries line start stop then [start] else []) @ key_offsets line key stop))"
  by pat_completeness auto
termination
proof (relation "measure (\<lambda>(line, key, start). length line - start)", goal_cases)
  case (2 line key search_start r start stop)
  then have "search_start < stop" "search_start < length line" by (cases key; simp)+
  then show ?case by simp
qed auto

declare key_offsets.simps [simp del]

definition key_ranges_on_line :: "string \<Rightarrow> nat \<Rightarrow> string \<Rightarrow> range list" where
  "key_ranges_on_line line n key = map (\<lambda>i. key_range n i (i + length key)) (key_offsets line key 0)"

definition same_line_overlap :: "range \<Rightarrow> range \<Rightarrow> bool" where
  "same_line_overlap existing candidate \<longleftrightarrow>
     pos_line (range_start existing) = pos_line (range_start candidate) \<and>
     pos_character (range_start candidate) < pos_character (range_end existing) \<and>
     pos_character (range_start existing) < pos_character (range_end candidate)"

definition overlaps_existing :: "constraint_key_range list \<Rightarrow> range \<Rightarrow> bool" where
  "overlaps_existing existing candidate \<longleftrightarrow> list_ex (\<lambda>e. same_line_overlap (ckr_range e) candidate) existing"

definition line_candidates :: "string \<Rightarrow> nat \<Rightarrow> constraint_key_range list" where
  "line_candidates source n =
     (case line_at source n of
        None \<Rightarrow> []
      | Some line \<Rightarrow>
          concat (map (\<lambda>key. map (\<lambda>r. \<lparr>ckr_key = key, ckr_range = r\<rparr>) (key_ranges_on_line line n key))
            constraint_keys_by_specificity))"

definition keep_key_range ::
  "range \<Rightarrow> constraint_key_range \<Rightarrow> constraint_key_range list \<Rightarrow> constraint_key_range list" where
  "keep_key_range attribute_range c ranges =
     (if contains_position attribute_range (range_start (ckr_range c)) \<and>
         contains_position attribute_range (range_end (ckr_range c)) \<and>
         \<not> overlaps_existing ranges (ckr_range c)
      then ranges @ [c] else ranges)"

definition constraint_key_ranges :: "string \<Rightarrow> range \<Rightarrow> constraint_key_range list" where
  "constraint_key_ranges source attribute_range =
     fold (keep_key_range attribute_range)
       (concat (map (line_candidates source)
         [unat (pos_line (range_start attribute_range)) ..< unat (pos_line (range_end attribute_range)) + 1])) []"

text \<open>\<open>expression_range_in_constraint\<close>: the first occurrence of an expression inside the constraint; an
  offset that is no \<open>u32\<close> ends the search without a result.\<close>

datatype search_result = Found range | NotOnLine | OutOfColumns

function expression_on_line :: "range \<Rightarrow> nat \<Rightarrow> string \<Rightarrow> string \<Rightarrow> nat \<Rightarrow> search_result" where
  "expression_on_line constraint_range n line expression search_start =
     (case str_find expression (drop search_start line) of
        None \<Rightarrow> NotOnLine
      | Some relative \<Rightarrow>
          (let start = search_start + relative; stop = start + length expression in
           if expression = [] \<or> length line \<le> start then NotOnLine
           else
             (case (u32_try_from start, u32_try_from stop) of
                (Some start_character, Some end_character) \<Rightarrow>
                  if n = unat (pos_line (range_start constraint_range)) \<and>
                     start_character < pos_character (range_start constraint_range)
                  then expression_on_line constraint_range n line expression stop
                  else if n = unat (pos_line (range_end constraint_range)) \<and>
                     end_character > pos_character (range_end constraint_range)
                  then expression_on_line constraint_range n line expression stop
                  else Found \<lparr>range_start = \<lparr>pos_line = of_nat n, pos_character = start_character\<rparr>,
                              range_end = \<lparr>pos_line = of_nat n, pos_character = end_character\<rparr>\<rparr>
              | _ \<Rightarrow> OutOfColumns)))"
  by pat_completeness auto
termination
proof (relation "measure (\<lambda>(r, n, line, expression, start). length line - start)", goal_cases)
  case (2 r n line expression search_start i start stop)
  then have "search_start < stop" "search_start < length line" by (cases expression; simp)+
  then show ?case by simp
next
  case (3 r n line expression search_start i start stop)
  then have "search_start < stop" "search_start < length line" by (cases expression; simp)+
  then show ?case by simp
qed auto

declare expression_on_line.simps [simp del]

fun expression_on_lines :: "string \<Rightarrow> range \<Rightarrow> string \<Rightarrow> nat list \<Rightarrow> range option" where
  "expression_on_lines source constraint_range expression [] = None"
| "expression_on_lines source constraint_range expression (n # ns) =
     (case line_at source n of
        None \<Rightarrow> expression_on_lines source constraint_range expression ns
      | Some line \<Rightarrow>
          (case expression_on_line constraint_range n line expression 0 of
             Found r \<Rightarrow> Some r
           | OutOfColumns \<Rightarrow> None
           | NotOnLine \<Rightarrow> expression_on_lines source constraint_range expression ns))"

definition expression_range_in_constraint :: "string \<Rightarrow> range \<Rightarrow> string \<Rightarrow> range option" where
  "expression_range_in_constraint source constraint_range expression =
     (if expression = [] then None
      else expression_on_lines source constraint_range expression
        [unat (pos_line (range_start constraint_range)) ..< unat (pos_line (range_end constraint_range)) + 1])"

subsection \<open>Occurrences\<close>

definition bounded_at :: "string \<Rightarrow> string \<Rightarrow> nat \<Rightarrow> bool" where
  "bounded_at line key i \<longleftrightarrow> prefix key (drop i line) \<and> has_key_boundaries line i (i + length key)"

lemma boundary_char_iff: "boundary_char c \<longleftrightarrow> \<not> key_char c"
  by (auto simp: boundary_char_def key_char_def ident_char_def)

lemma prefix_drop_nth: "prefix key (drop i line) \<Longrightarrow> j < length key \<Longrightarrow> line ! (i + j) = key ! j"
proof -
  assume "prefix key (drop i line)" and j: "j < length key"
  then obtain r where r: "drop i line = key @ r" by (auto simp: prefix_def)
  with j have "i \<le> length line" by (cases "i \<le> length line") auto
  then have "line ! (i + j) = drop i line ! j" by simp
  with r j show ?thesis by (simp add: nth_append)
qed

lemma not_bounded_inside:
  assumes "is_key key" "prefix key (drop i line)" "i < j" "j < i + length key"
  shows "\<not> bounded_at line key j"
proof -
  have "line ! (j - 1) = key ! (j - 1 - i)"
    using prefix_drop_nth [OF assms(2), of "j - 1 - i"] assms(3,4) by simp
  moreover have "key_char (key ! (j - 1 - i))"
    using assms by (simp add: is_key_def list_all_length)
  ultimately show ?thesis
    using assms(3) by (simp add: bounded_at_def has_key_boundaries_def boundary_char_iff)
qed

lemma key_offsets_exact:
  "is_key key \<Longrightarrow> set (key_offsets line key start) = {i. start \<le> i \<and> i < length line \<and> bounded_at line key i}"
proof (induction line key start rule: key_offsets.induct)
  case (1 line key start)
  then have ne: "key \<noteq> []" by (simp add: is_key_def)
  show ?case
  proof (cases "str_find key (drop start line)")
    case None
    have "\<not> prefix key (drop i line)" if "start \<le> i" "i < length line" for i
      using None that by (auto simp: str_find_None dest!: spec [of _ "i - start"])
    with None show ?thesis by (auto simp: key_offsets.simps [of line key start] bounded_at_def)
  next
    case (Some r)
    have at: "prefix key (drop (start + r) line)"
      using str_find_Some_prefix [OF Some] by (simp add: add.commute)
    have inside: "start + r < length line"
    proof (rule ccontr)
      assume "\<not> start + r < length line"
      with at ne show False by simp
    qed
    have least: "start + r \<le> i" if "start \<le> i" "bounded_at line key i" for i
    proof (rule ccontr)
      assume "\<not> start + r \<le> i"
      then have "i - start < r" using that(1) by simp
      from str_find_least [OF Some this] that show False by (simp add: bounded_at_def)
    qed
    have step: "set (key_offsets line key start) =
        (if has_key_boundaries line (start + r) (start + r + length key) then {start + r} else {}) \<union>
        {i. start + r + length key \<le> i \<and> i < length line \<and> bounded_at line key i}"
      using 1(1) [OF Some refl refl _ 1(2)] Some ne inside
      by (simp add: key_offsets.simps [of line key start] Let_def add.assoc)
    show ?thesis
    proof (intro set_eqI iffI)
      fix i
      assume "i \<in> set (key_offsets line key start)"
      with step at inside show "i \<in> {i. start \<le> i \<and> i < length line \<and> bounded_at line key i}"
        by (auto simp: bounded_at_def split: if_splits)
    next
      fix i
      assume "i \<in> {i. start \<le> i \<and> i < length line \<and> bounded_at line key i}"
      then have i: "start \<le> i" "i < length line" "bounded_at line key i" by simp_all
      with least have "start + r \<le> i" by blast
      then consider "i = start + r" | "start + r < i" "i < start + r + length key" | "start + r + length key \<le> i"
        by linarith
      then show "i \<in> set (key_offsets line key start)"
      proof cases
        case 1
        with i(3) step show ?thesis by (simp add: bounded_at_def)
      next
        case 2
        with not_bounded_inside [OF 1(2) at] i(3) show ?thesis by blast
      next
        case 3
        with i step show ?thesis by simp
      qed
    qed
  qed
qed

subsection \<open>The longest key wins\<close>

definition kept :: "range \<Rightarrow> constraint_key_range list \<Rightarrow> constraint_key_range list" where
  "kept attr cs = fold (keep_key_range attr) cs []"

definition inside_attribute :: "range \<Rightarrow> range \<Rightarrow> bool" where
  "inside_attribute attr r \<longleftrightarrow> contains_position attr (range_start r) \<and> contains_position attr (range_end r)"

lemma kept_snoc: "kept attr (cs @ [c]) = keep_key_range attr c (kept attr cs)"
  by (simp add: kept_def)

lemma kept_Nil [simp]: "kept attr [] = []"
  by (simp add: kept_def)

lemma kept_subset: "set (kept attr cs) \<subseteq> {c \<in> set cs. inside_attribute attr (ckr_range c)}"
  by (induction cs rule: rev_induct) (auto simp: kept_snoc keep_key_range_def inside_attribute_def)

lemma kept_mono: "set (kept attr cs) \<subseteq> set (kept attr (cs @ ds))"
proof (induction ds rule: rev_induct)
  case (snoc d ds)
  then show ?case using kept_snoc [of attr "cs @ ds" d] by (auto simp: keep_key_range_def)
qed simp

lemma kept_disjoint: "sorted_wrt (\<lambda>a b. \<not> same_line_overlap (ckr_range a) (ckr_range b)) (kept attr cs)"
  by (induction cs rule: rev_induct)
     (auto simp: kept_snoc keep_key_range_def sorted_wrt_append overlaps_existing_def list_ex_iff)

lemma kept_covers:
  assumes "inside_attribute attr (ckr_range c)"
  shows "c \<in> set (kept attr (cs @ c # ds)) \<or>
    (\<exists>e \<in> set (kept attr (cs @ c # ds)). e \<in> set cs \<and> same_line_overlap (ckr_range e) (ckr_range c))"
proof (cases "overlaps_existing (kept attr cs) (ckr_range c)")
  case True
  then obtain e where "e \<in> set (kept attr cs)" "same_line_overlap (ckr_range e) (ckr_range c)"
    by (auto simp: overlaps_existing_def list_ex_iff)
  with kept_mono [of attr cs "c # ds"] kept_subset [of attr cs] show ?thesis by blast
next
  case False
  with assms have "c \<in> set (kept attr (cs @ [c]))"
    by (simp add: kept_snoc keep_key_range_def inside_attribute_def)
  with kept_mono [of attr "cs @ [c]" ds] show ?thesis by auto
qed

text \<open>Candidates come line by line, on a line the longest keys first.\<close>

definition longer_first :: "constraint_key_range \<Rightarrow> constraint_key_range \<Rightarrow> bool" where
  "longer_first a b \<longleftrightarrow>
     (pos_line (range_start (ckr_range a)) = pos_line (range_start (ckr_range b)) \<longrightarrow>
      length (ckr_key b) \<le> length (ckr_key a))"

lemma keys_sorted: "sorted_wrt (\<lambda>a b. length b \<le> length a) constraint_keys_by_specificity"
proof -
  have "sorted (map (\<lambda>k. - int (length k)) constraint_keys_by_specificity)"
    unfolding constraint_keys_by_specificity_def by (rule sorted_sort_key)
  then show ?thesis by (simp add: sorted_map sorted_wrt_iff_nth_less)
qed

lemma sorted_wrt_concat_map:
  assumes "sorted_wrt R xs" "\<And>x. x \<in> set xs \<Longrightarrow> sorted_wrt P (f x)"
    and "\<And>x y a b. R x y \<Longrightarrow> x \<in> set xs \<Longrightarrow> y \<in> set xs \<Longrightarrow> a \<in> set (f x) \<Longrightarrow> b \<in> set (f y) \<Longrightarrow> P a b"
  shows "sorted_wrt P (concat (map f xs))"
  using assms
proof (induction xs)
  case (Cons x xs)
  then have "sorted_wrt P (concat (map f xs))" by simp
  with Cons.prems show ?case by (fastforce simp: sorted_wrt_append)
qed simp

lemma sorted_wrt_trivial: "(\<And>a b. a \<in> set xs \<Longrightarrow> b \<in> set xs \<Longrightarrow> P a b) \<Longrightarrow> sorted_wrt P xs"
  by (induction xs) auto

lemma line_candidates_sorted: "sorted_wrt longer_first (line_candidates source n)"
proof (cases "line_at source n")
  case (Some line)
  show ?thesis
    unfolding line_candidates_def Some option.case
    by (rule sorted_wrt_concat_map [OF keys_sorted]; (rule sorted_wrt_trivial)?) (auto simp: longer_first_def)
qed (simp add: line_candidates_def)

lemma line_candidates_line:
  "c \<in> set (line_candidates source n) \<Longrightarrow> pos_line (range_start (ckr_range c)) = of_nat n"
  by (auto simp: line_candidates_def key_ranges_on_line_def key_range_def split: option.splits)

lemma candidates_sorted:
  assumes "b < 2 ^ 32"
  shows "sorted_wrt longer_first (concat (map (line_candidates source) [a ..< b + 1]))"
proof (rule sorted_wrt_concat_map [where R = "(<)"])
  fix x y c d
  assume xy: "x < y" "x \<in> set [a ..< b + 1]" "y \<in> set [a ..< b + 1]"
    and "c \<in> set (line_candidates source x)" "d \<in> set (line_candidates source y)"
  then have lines: "pos_line (range_start (ckr_range c)) = of_nat x" "pos_line (range_start (ckr_range d)) = of_nat y"
    by (simp_all add: line_candidates_line)
  have "(of_nat x :: u32) \<noteq> of_nat y"
  proof
    assume "(of_nat x :: u32) = of_nat y"
    then have "unat (of_nat x :: u32) = unat (of_nat y :: u32)" by simp
    moreover have "x < 2 ^ 32" "y < 2 ^ 32" using xy assms by auto
    ultimately show False using xy(1) by (simp add: unat_of_nat)
  qed
  with lines show "longer_first c d" by (simp add: longer_first_def)
qed (use sorted_wrt_upt in \<open>simp_all add: line_candidates_sorted del: upt_Suc\<close>)

lemma unat_u32: "unat (n :: u32) < 2 ^ 32"
proof -
  have "unat n < 2 ^ LENGTH(32)" by (rule unsigned_less)
  then show ?thesis by simp
qed

definition catalog_keys :: "string set" where
  "catalog_keys = (\<lambda>spec. constraint_key (spec_label spec)) ` set CONSTRAINTS"

lemma catalog_keys_are_keys: "list_all (\<lambda>spec. is_key (constraint_key (spec_label spec))) CONSTRAINTS"
  by (simp add: CONSTRAINTS_def spec_defs constraint_key_def strip_suffix_def suffix_to_prefix is_key_def key_char_def
        ident_char_def ascii_class_defs)

lemma set_keys_by_specificity: "set constraint_keys_by_specificity = catalog_keys"
  by (simp add: constraint_keys_by_specificity_def catalog_keys_def)

lemma line_candidates_exact:
  assumes "line_at source n = Some line"
  shows "c \<in> set (line_candidates source n) \<longleftrightarrow>
    (\<exists>i. ckr_key c \<in> catalog_keys \<and> i < length line \<and> bounded_at line (ckr_key c) i \<and>
       c = \<lparr>ckr_key = ckr_key c, ckr_range = key_range n i (i + length (ckr_key c))\<rparr>)"
proof -
  have "set (key_offsets line k 0) = {i. i < length line \<and> bounded_at line k i}" if "k \<in> catalog_keys" for k
    using key_offsets_exact [of k line 0] that catalog_keys_are_keys by (auto simp: catalog_keys_def list_all_iff)
  with assms show ?thesis
    by (cases c) (auto simp: line_candidates_def set_keys_by_specificity key_ranges_on_line_def)
qed

text \<open>A key stands on a line of the attribute, as a word and inside the attribute.\<close>

definition occurs :: "string \<Rightarrow> range \<Rightarrow> constraint_key_range \<Rightarrow> bool" where
  "occurs source attr c \<longleftrightarrow>
     inside_attribute attr (ckr_range c) \<and> ckr_key c \<in> catalog_keys \<and>
     (\<exists>n line i. unat (pos_line (range_start attr)) \<le> n \<and> n \<le> unat (pos_line (range_end attr)) \<and>
        line_at source n = Some line \<and> i < length line \<and> bounded_at line (ckr_key c) i \<and>
        ckr_range c = key_range n i (i + length (ckr_key c)))"

lemma candidate_iff:
  "c \<in> set (concat (map (line_candidates source)
       [unat (pos_line (range_start attr)) ..< unat (pos_line (range_end attr)) + 1])) \<and>
     inside_attribute attr (ckr_range c) \<longleftrightarrow> occurs source attr c"
proof -
  have line: "c \<in> set (line_candidates source n) \<longleftrightarrow>
      ckr_key c \<in> catalog_keys \<and> (\<exists>line i. line_at source n = Some line \<and> i < length line \<and>
        bounded_at line (ckr_key c) i \<and> ckr_range c = key_range n i (i + length (ckr_key c)))" for n
    using line_candidates_exact [of source n _ c]
    by (cases "line_at source n"; cases c) (auto simp: line_candidates_def)
  have "c \<in> set (concat (map (line_candidates source) [a ..< b + 1])) \<longleftrightarrow>
      (\<exists>n. a \<le> n \<and> n \<le> b \<and> c \<in> set (line_candidates source n))" for a b
    by (auto simp: less_Suc_eq_le simp del: upt_Suc)
  then show ?thesis unfolding line occurs_def by blast
qed

text \<open>the keys found in an attribute are occurrences of catalog keys as whole words, no two of them
  overlap, and every occurrence is found unless it overlaps with one found for a key that is at least
  as long.\<close>

theorem constraint_key_ranges_exact:
  "set (constraint_key_ranges source attr) \<subseteq> {c. occurs source attr c} \<and>
   sorted_wrt (\<lambda>a b. \<not> same_line_overlap (ckr_range a) (ckr_range b)) (constraint_key_ranges source attr) \<and>
   {c. occurs source attr c} \<subseteq>
     {c. \<exists>e \<in> set (constraint_key_ranges source attr).
           length (ckr_key c) \<le> length (ckr_key e) \<and>
           (e = c \<or> same_line_overlap (ckr_range e) (ckr_range c))}"
proof (intro conjI subsetI CollectI)
  let ?cs = "concat (map (line_candidates source)
       [unat (pos_line (range_start attr)) ..< unat (pos_line (range_end attr)) + 1])"
  have found: "constraint_key_ranges source attr = kept attr ?cs"
    by (simp add: constraint_key_ranges_def kept_def)
  show "occurs source attr c" if "c \<in> set (constraint_key_ranges source attr)" for c
    using that kept_subset [of attr ?cs] candidate_iff [of c source attr] unfolding found by blast
  show "sorted_wrt (\<lambda>a b. \<not> same_line_overlap (ckr_range a) (ckr_range b)) (constraint_key_ranges source attr)"
    unfolding found by (rule kept_disjoint)
  fix c
  assume "c \<in> {c. occurs source attr c}"
  then have c: "c \<in> set ?cs" "inside_attribute attr (ckr_range c)"
    using candidate_iff [of c source attr] by blast+
  from split_list [OF c(1)] obtain xs ys where split: "?cs = xs @ c # ys" by blast
  have sorted: "sorted_wrt longer_first (xs @ c # ys)"
    using candidates_sorted [OF unat_u32] unfolding split [symmetric] .
  from kept_covers [OF c(2), of xs ys]
  show "\<exists>e \<in> set (constraint_key_ranges source attr).
      length (ckr_key c) \<le> length (ckr_key e) \<and> (e = c \<or> same_line_overlap (ckr_range e) (ckr_range c))"
  proof
    assume "c \<in> set (kept attr (xs @ c # ys))"
    then show ?thesis unfolding found split by blast
  next
    assume "\<exists>e \<in> set (kept attr (xs @ c # ys)). e \<in> set xs \<and> same_line_overlap (ckr_range e) (ckr_range c)"
    then obtain e where e: "e \<in> set (kept attr (xs @ c # ys))" "e \<in> set xs"
        "same_line_overlap (ckr_range e) (ckr_range c)" by blast
    with sorted have "longer_first e c" by (simp add: sorted_wrt_append)
    with e(3) have "length (ckr_key c) \<le> length (ckr_key e)"
      by (simp add: longer_first_def same_line_overlap_def)
    with e show ?thesis unfolding found split by blast
  qed
qed

end
