(* ===== verification/Attribute_Cursor.thy ===== *)
theory Attribute_Cursor
  imports Document_Types Text_Positions Constraint_Text
begin

section \<open>The cursor inside an account attribute\<close>

text \<open>
  \<open>src/core/document/account_attribute.rs\<close> and the query that uses it: what stands between
  \<open>#[account(\<close> and the cursor, read as text because the attribute is often incomplete while it is
  typed.  The delimiters are ASCII, so that a scan over characters is a scan over bytes.  The
  record \<open>parsed_document\<close> is a document as its readers see it; what the tree-sitter and syn trees
  deliver (the outline, the attribute around a position, the attributes of the file, whether a
  top-level module has the attribute \<open>program\<close>) are fields.
\<close>

definition ACCOUNT_ATTRIBUTE_OPEN :: string where "ACCOUNT_ATTRIBUTE_OPEN = ''#[account(''"
definition ACCOUNT_ATTRIBUTE_CALL :: string where "ACCOUNT_ATTRIBUTE_CALL = ''account(''"

datatype attribute_slot = SlotKey | SlotValue

record attribute_cursor =
  cur_range :: range
  cur_field_name :: "string option"
  cur_slot :: attribute_slot
  cur_prefix :: string
  cur_constraint_key :: "string option"
  cur_in_seed_array :: bool

datatype document_symbol = DocumentSymbol
  (ds_name: string)
  (ds_detail: "string option")
  (ds_range: range)
  (ds_selection_range: range)
  (ds_children: "document_symbol list option")

record parsed_document =
  pd_source :: string
  pd_symbols :: anchor_symbols
  pd_outline :: "document_symbol list"
  pd_attribute_at :: "position \<Rightarrow> range option"
  pd_attributes :: "range list"
  pd_program_module :: bool

subsection \<open>Searches from the end\<close>

text \<open>\<open>rfind\<close> with a predicate on ASCII characters, and \<open>min_by_key\<close>, which takes the first of the
  least elements.\<close>

fun last_index :: "(char \<Rightarrow> bool) \<Rightarrow> string \<Rightarrow> nat option" where
  "last_index p [] = None"
| "last_index p (c # s) =
     (case last_index p s of
        Some i \<Rightarrow> Some (Suc i)
      | None \<Rightarrow> if p c then Some 0 else None)"

definition min_by_key :: "('a \<Rightarrow> 'k::linorder) \<Rightarrow> 'a list \<Rightarrow> 'a option" where
  "min_by_key f xs = (if xs = [] then None else Some (arg_min_list f xs))"

lemma last_index_None: "last_index p s = None \<longleftrightarrow> (\<forall>c \<in> set s. \<not> p c)"
  by (induction s) (auto split: option.splits)

lemma last_index_less: "last_index p s = Some i \<Longrightarrow> i < length s"
  by (induction s arbitrary: i) (auto split: option.splits if_splits)

lemma last_index_append:
  "last_index p (s @ t) =
     (case last_index p t of Some i \<Rightarrow> Some (length s + i) | None \<Rightarrow> last_index p s)"
  by (induction s) (auto split: option.split)

lemma last_index_skip: "\<forall>c \<in> set t. \<not> p c \<Longrightarrow> last_index p (s @ t) = last_index p s"
  by (simp add: last_index_append last_index_None [THEN iffD2])

lemma last_index_last: "p c \<Longrightarrow> \<forall>d \<in> set t. \<not> p d \<Longrightarrow> last_index p (s @ c # t) = Some (length s)"
  by (simp add: last_index_append last_index_None [THEN iffD2])

subsection \<open>Reading what stands before the cursor\<close>

definition has_unclosed_bracket :: "string \<Rightarrow> bool" where
  "has_unclosed_bracket s \<longleftrightarrow>
     fold (\<lambda>c n. if c = CHR ''['' then n + 1 else if c = CHR '']'' then n - 1 else n)
       s (0::nat) > 0"

definition is_constraint_key_text :: "string \<Rightarrow> bool" where
  "is_constraint_key_text s \<longleftrightarrow>
     s \<noteq> [] \<and> list_all (\<lambda>c. is_ascii_alphanumeric c \<or> c = CHR ''_'' \<or> c = CHR '':'') s"

text \<open>The scan for the end of the attribute: parenthesis depth, open quote, escape.\<close>

fun closed_loop :: "nat \<Rightarrow> char option \<Rightarrow> bool \<Rightarrow> string \<Rightarrow> bool" where
  "closed_loop n quote esc [] = False"
| "closed_loop n (Some q) esc (c # s) =
     (if esc then closed_loop n (Some q) False s
      else if c = CHR 0x5C then closed_loop n (Some q) True s
      else if c = q then closed_loop n None esc s
      else closed_loop n (Some q) esc s)"
| "closed_loop n None esc (c # s) =
     (if c = CHR 0x22 \<or> c = CHR 0x27 then closed_loop n (Some c) esc s
      else if c = CHR ''('' then closed_loop (n + 1) None esc s
      else if c = CHR '')'' then closed_loop (n - 1) None esc s
      else if c = CHR '']'' \<and> n = 0 then True
      else closed_loop n None esc s)"

definition account_attribute_closed_before_cursor :: "string \<Rightarrow> bool" where
  "account_attribute_closed_before_cursor inner = closed_loop 1 None False inner"

definition value_open_after_assignment :: "string \<Rightarrow> bool" where
  "value_open_after_assignment inner =
     (case last_index (\<lambda>c. c = CHR ''='') inner of
        None \<Rightarrow> False
      | Some i \<Rightarrow> has_unclosed_bracket (drop (i + 1) inner))"

definition slot_delimiter :: "attribute_slot \<Rightarrow> char \<Rightarrow> bool" where
  "slot_delimiter slot c =
     (case slot of
        SlotKey \<Rightarrow> c \<in> {CHR '','', CHR ''(''}
      | SlotValue \<Rightarrow> c \<in> {CHR '','', CHR ''('', CHR ''['', CHR ''=''})"

definition account_attribute_slot :: "string \<Rightarrow> attribute_slot" where
  "account_attribute_slot inner =
     (case last_index (slot_delimiter SlotValue) inner of
        None \<Rightarrow> SlotKey
      | Some i \<Rightarrow>
          if inner ! i \<in> {CHR ''='', CHR ''[''} \<or>
             inner ! i = CHR '','' \<and> value_open_after_assignment inner
          then SlotValue else SlotKey)"

definition account_attribute_slot_prefix :: "string \<Rightarrow> attribute_slot \<Rightarrow> string" where
  "account_attribute_slot_prefix inner slot =
     (let tail_start = (case last_index (slot_delimiter slot) inner of Some i \<Rightarrow> i + 1 | None \<Rightarrow> 0)
      in takeWhile (\<lambda>c. is_ascii_alphanumeric c \<or> c = CHR ''_'' \<or> c = CHR '':'')
           (trim_start (drop tail_start inner)))"

definition key_before :: "string \<Rightarrow> string" where
  "key_before before =
     (let key_start = (case last_index (\<lambda>c. c \<in> {CHR '','', CHR ''('', CHR ''[''}) before of
                         Some i \<Rightarrow> i + 1 | None \<Rightarrow> 0)
      in trim (drop key_start before))"

function assigned_loop :: "string \<Rightarrow> nat \<Rightarrow> string option" where
  "assigned_loop inner search_end =
     (case last_index (\<lambda>c. c = CHR ''='') (take search_end inner) of
        None \<Rightarrow> None
      | Some assignment \<Rightarrow>
          (let key = key_before (trim_end (take assignment inner)) in
           if is_constraint_key_text key then Some key else assigned_loop inner assignment))"
  by pat_completeness auto
termination
  by (relation "measure snd") (auto dest: last_index_less)

declare assigned_loop.simps [simp del]

definition assigned_constraint_key :: "string \<Rightarrow> string option" where
  "assigned_constraint_key inner = assigned_loop inner (length inner)"

definition account_attribute_inner_start :: "string \<Rightarrow> nat \<Rightarrow> nat option" where
  "account_attribute_inner_start attribute_prefix attribute_start =
     or_else
       (map_option (\<lambda>opening. attribute_start + opening + length ACCOUNT_ATTRIBUTE_OPEN)
         (str_find ACCOUNT_ATTRIBUTE_OPEN attribute_prefix))
       (map_option (\<lambda>opening. attribute_start + opening + length ACCOUNT_ATTRIBUTE_CALL)
         (str_find ACCOUNT_ATTRIBUTE_CALL attribute_prefix))"

text \<open>The loop of \<open>position_at_byte_offset\<close> up to the offset: the line and where it starts.\<close>

fun line_of_offset :: "nat \<Rightarrow> u32 \<Rightarrow> nat \<Rightarrow> string \<Rightarrow> u32 \<times> nat" where
  "line_of_offset i line start [] = (line, start)"
| "line_of_offset i line start (c # s) =
     (if c = NEWLINE then line_of_offset (i + 1) (line + 1) (i + 1) s
      else line_of_offset (i + 1) line start s)"

definition attribute_position_at_byte_offset :: "string \<Rightarrow> nat \<Rightarrow> position" where
  "attribute_position_at_byte_offset source offset =
     (let before = take offset source; (line, start) = line_of_offset 0 0 0 before in
      \<lparr>pos_line = line, pos_character = u32_or_default (char_count (drop start before))\<rparr>)"

subsection \<open>The cursor\<close>

definition from_attribute_start :: "string \<Rightarrow> nat \<Rightarrow> position \<Rightarrow> attribute_cursor option" where
  "from_attribute_start source attribute_start p =
     Option.bind (byte_offset_at source p) (\<lambda>cursor.
       if cursor < attribute_start then None
       else
         Option.bind (account_attribute_inner_start
             (take (cursor - attribute_start) (drop attribute_start source)) attribute_start) (\<lambda>start.
           let inside = take (cursor - start) (drop start source) in
           if account_attribute_closed_before_cursor inside then None
           else
             (let key = assigned_constraint_key inside; slot = account_attribute_slot inside in
              Some \<lparr>cur_range = \<lparr>range_start = attribute_position_at_byte_offset source attribute_start, range_end = p\<rparr>,
                    cur_field_name = None,
                    cur_slot = slot,
                    cur_prefix = account_attribute_slot_prefix inside slot,
                    cur_constraint_key = key,
                    cur_in_seed_array = (key = Some ''seeds'' \<and> value_open_after_assignment inside)\<rparr>)))"

definition from_source :: "string \<Rightarrow> position \<Rightarrow> attribute_cursor option" where
  "from_source source p =
     (if is_in_comment_or_string source p then None
      else
        Option.bind (byte_offset_at source p) (\<lambda>cursor.
        Option.bind (str_rfind ACCOUNT_ATTRIBUTE_OPEN (take cursor source)) (\<lambda>attribute_start.
          from_attribute_start source attribute_start p)))"

definition from_attribute_range :: "string \<Rightarrow> range \<Rightarrow> position \<Rightarrow> attribute_cursor option" where
  "from_attribute_range source r p =
     (if is_in_comment_or_string source p then None
      else
        Option.bind (byte_offset_at source (range_start r)) (\<lambda>attribute_start.
          from_attribute_start source attribute_start p))"

subsection \<open>The field an attribute belongs to\<close>

definition contains_line :: "range \<Rightarrow> u32 \<Rightarrow> bool" where
  "contains_line r line \<longleftrightarrow> pos_line (range_start r) \<le> line \<and> line \<le> pos_line (range_end r)"

definition declared_field_name :: "string \<Rightarrow> string option" where
  "declared_field_name line =
     (let trimmed = trim_start line in
      if trimmed = [] \<or> prefix ''#['' trimmed \<or> prefix ''//'' trimmed then None
      else
        Option.bind (split_once '':'' (unwrap_or trimmed (strip_prefix ''pub '' trimmed))) (\<lambda>(name, _).
          let name = trim name in
          if name \<noteq> [] \<and> list_all (\<lambda>c. is_ascii_alphanumeric c \<or> c = CHR ''_'') name
          then Some name else None))"

definition account_attribute_field_name_from_text :: "string \<Rightarrow> u32 \<Rightarrow> string option" where
  "account_attribute_field_name_from_text source attribute_line =
     find_map declared_field_name (drop (unat attribute_line + 1) (text_lines source))"

definition account_attribute_field_name_from_symbols :: "parsed_document \<Rightarrow> u32 \<Rightarrow> string option" where
  "account_attribute_field_name_from_symbols doc attribute_line =
     map_option ds_name
       (min_by_key (\<lambda>field. pos_line (range_start (ds_selection_range field)))
         (filter (\<lambda>field. pos_line (range_start (ds_selection_range field)) > attribute_line)
           (concat (map (\<lambda>symbol. unwrap_or [] (ds_children symbol))
             (filter (\<lambda>symbol. contains_line (ds_range symbol) attribute_line)
               (filter (\<lambda>symbol. ds_detail symbol = Some ''#[derive(Accounts)]'') (pd_outline doc)))))))"

definition account_attribute_field_name :: "parsed_document \<Rightarrow> u32 \<Rightarrow> string option" where
  "account_attribute_field_name doc attribute_line =
     or_else
       (map_option sr_name
         (min_by_key (\<lambda>field. pos_line (range_start (sr_selection_range field)))
           (filter (\<lambda>field. pos_line (range_start (sr_selection_range field)) > attribute_line)
             (concat (map sr_fields
               (filter (\<lambda>accounts. contains_line (sr_range accounts) attribute_line)
                 (map snd (accounts_structs (pd_symbols doc)))))))))
       (or_else (account_attribute_field_name_from_symbols doc attribute_line)
         (account_attribute_field_name_from_text (pd_source doc) attribute_line))"

definition account_attribute_cursor :: "parsed_document \<Rightarrow> position \<Rightarrow> attribute_cursor option" where
  "account_attribute_cursor doc p =
     map_option (\<lambda>cursor. cursor\<lparr>cur_field_name := account_attribute_field_name doc (pos_line p)\<rparr>)
       (or_else
         (Option.bind (pd_attribute_at doc p) (\<lambda>r. from_attribute_range (pd_source doc) r p))
         (from_source (pd_source doc) p))"

subsection \<open>What is typed is recognised\<close>

definition word_char :: "char \<Rightarrow> bool" where
  "word_char c \<longleftrightarrow> is_ascii_alphanumeric c \<or> c = CHR ''_'' \<or> c = CHR '':''"

lemma word_char_visible: "word_char c \<Longrightarrow> visible c"
  by (auto simp: word_char_def visible_def is_ascii_alphanumeric_def is_ascii_alphabetic_def is_ascii_digit_def
        is_ascii_uppercase_def is_ascii_lowercase_def byte_def)

lemma word_char_no_delimiter:
  "word_char c \<Longrightarrow> c \<notin> {CHR '','', CHR ''('', CHR ''['', CHR ''='', CHR '' '', CHR ''#''}"
  by (auto simp: word_char_def is_ascii_alphanumeric_def is_ascii_alphabetic_def is_ascii_digit_def
        is_ascii_uppercase_def is_ascii_lowercase_def byte_def)

lemma ws_front_space: "ws_front (CHR '' '' # s) = 1"
  by (simp add: ws_front_def is_ws_def whitespace_codes_def byte_def)

lemma ws_back_space: "ws_back (s @ '' '') = 1"
  by (simp add: ws_back_def is_ws_def whitespace_codes_def byte_def)

lemma trim_start_space: "trim_start (CHR '' '' # s) = trim_start s"
  using ws_front_space [of s] by (simp add: trim_start.simps [of "CHR '' '' # s"])

lemma trim_end_space: "trim_end (s @ '' '') = trim_end s"
  using ws_back_space [of s] by (simp add: trim_end.simps [of "s @ '' ''"])

lemma trim_start_word: "list_all word_char s \<Longrightarrow> trim_start s = s"
  by (cases s) (auto simp: visible_not_ws_front word_char_visible intro: trim_start_id)

lemma word_solid: "list_all word_char s \<Longrightarrow> s \<noteq> [] \<Longrightarrow> solid s"
  by (auto simp: solid_def list_all_iff word_char_visible)

lemma is_constraint_key_text_iff: "is_constraint_key_text s \<longleftrightarrow> s \<noteq> [] \<and> list_all word_char s"
  unfolding is_constraint_key_text_def word_char_def ..

definition starts_item :: "string \<Rightarrow> bool" where
  "starts_item head \<longleftrightarrow> head = [] \<or> suffix '', '' head"

lemma key_before_item:
  assumes "starts_item head" "list_all word_char key" "key \<noteq> []"
  shows "key_before (head @ key) = key"
proof -
  let ?p = "\<lambda>c. c \<in> {CHR '','', CHR ''('', CHR ''[''}"
  have w: "\<forall>c \<in> set key. \<not> ?p c" using assms(2) word_char_no_delimiter by (fastforce simp: list_all_iff)
  have t: "trim key = key" using assms(2,3) by (simp add: word_solid trim_solid)
  show ?thesis
  proof (cases "head = []")
    case True
    have "last_index ?p key = None" using w by (simp only: last_index_None)
    with True t show ?thesis by (simp add: key_before_def)
  next
    case False
    with assms(1) obtain h where h: "head = h @ '', ''" by (auto simp: starts_item_def suffix_def)
    have "last_index ?p (h @ CHR '','' # CHR '' '' # key) = Some (length h)"
      using w by (intro last_index_last) auto
    moreover have "trim (CHR '' '' # key) = key" using t by (simp add: trim_def trim_start_space)
    ultimately show ?thesis by (simp add: key_before_def h)
  qed
qed

lemma assigned_loop_found:
  "last_index (\<lambda>c. c = CHR ''='') (take n inner) = Some a \<Longrightarrow>
     is_constraint_key_text (key_before (trim_end (take a inner))) \<Longrightarrow>
     assigned_loop inner n = Some (key_before (trim_end (take a inner)))"
  by (simp add: assigned_loop.simps [of inner n] Let_def)

lemma assigned_key_item:
  assumes "starts_item head" "is_constraint_key_text key" "list_all word_char partial"
  shows "assigned_constraint_key (head @ key @ '' = '' @ partial) = Some key"
proof -
  let ?inner = "head @ key @ '' = '' @ partial"
  have k: "key \<noteq> []" "list_all word_char key" using assms(2) by (simp_all add: is_constraint_key_text_iff)
  have "last_index (\<lambda>c. c = CHR ''='') ((head @ key @ '' '') @ CHR ''='' # (CHR '' '' # partial)) =
      Some (length (head @ key @ '' ''))"
    using assms(3) word_char_no_delimiter by (intro last_index_last) (fastforce simp: list_all_iff)+
  then have i: "last_index (\<lambda>c. c = CHR ''='') (take (length ?inner) ?inner) = Some (length (head @ key @ '' ''))"
    by simp
  have "solid key" using k by (simp add: word_solid)
  then have "trim_end (head @ key) = head @ key"
    by (intro trim_end_id visible_not_ws_back) (auto simp: solid_def)
  then have "trim_end (take (length (head @ key @ '' '')) ?inner) = head @ key"
    using trim_end_space [of "head @ key"] by simp
  then have "key_before (trim_end (take (length (head @ key @ '' '')) ?inner)) = key"
    using assms(1) k by (simp add: key_before_item)
  with assigned_loop_found [OF i] assms(2) show ?thesis by (simp add: assigned_constraint_key_def)
qed

lemma last_assignment:
  assumes "list_all word_char partial"
  shows "last_index (slot_delimiter SlotValue) (head @ key @ '' = '' @ partial) = Some (length (head @ key) + 1)"
proof -
  have "last_index (slot_delimiter SlotValue) ((head @ key @ '' '') @ CHR ''='' # (CHR '' '' # partial)) =
      Some (length (head @ key @ '' ''))"
    using assms word_char_no_delimiter
    by (intro last_index_last; fastforce simp: slot_delimiter_def list_all_iff)
  then show ?thesis by simp
qed

lemma slot_item:
  assumes "list_all word_char partial"
  shows "account_attribute_slot (head @ key @ '' = '' @ partial) = SlotValue"
  using last_assignment [OF assms, of head key] by (simp add: account_attribute_slot_def nth_append)

lemma takeWhile_word: "list_all word_char s \<Longrightarrow>
    takeWhile (\<lambda>c. is_ascii_alphanumeric c \<or> c = CHR ''_'' \<or> c = CHR '':'') s = s"
  by (simp add: list_all_iff word_char_def takeWhile_eq_all_conv)

lemma prefix_item:
  assumes "list_all word_char partial"
  shows "account_attribute_slot_prefix (head @ key @ '' = '' @ partial) SlotValue = partial"
  using last_assignment [OF assms, of head key] assms
  by (simp add: account_attribute_slot_prefix_def trim_start_space trim_start_word takeWhile_word)

lemma str_rfind_absent: "c \<notin> set s \<Longrightarrow> str_rfind (c # p) s = None"
  by (induction s) auto

lemma str_rfind_marker:
  "c \<notin> set p \<Longrightarrow> c \<notin> set t \<Longrightarrow> str_rfind (c # p) (s @ (c # p) @ t) = Some (length s)"
  by (induction s) (simp_all add: str_rfind_absent)

lemma str_find_prefix [simp]: "str_find p (p @ s) = Some 0"
  by (cases p; cases s) auto

lemma from_attribute_start_open:
  assumes source: "source = pre @ ACCOUNT_ATTRIBUTE_OPEN @ inside @ rest"
    and cursor: "byte_offset_at source p = Some (length (pre @ ACCOUNT_ATTRIBUTE_OPEN @ inside))"
    and opened: "\<not> account_attribute_closed_before_cursor inside"
  shows "from_attribute_start source (length pre) p =
     Some \<lparr>cur_range = \<lparr>range_start = attribute_position_at_byte_offset source (length pre), range_end = p\<rparr>,
       cur_field_name = None,
       cur_slot = account_attribute_slot inside,
       cur_prefix = account_attribute_slot_prefix inside (account_attribute_slot inside),
       cur_constraint_key = assigned_constraint_key inside,
       cur_in_seed_array = (assigned_constraint_key inside = Some ''seeds'' \<and> value_open_after_assignment inside)\<rparr>"
proof -
  let ?n = "length pre + length ACCOUNT_ATTRIBUTE_OPEN"
  have "take (length ACCOUNT_ATTRIBUTE_OPEN + length inside) (drop (length pre) source) = ACCOUNT_ATTRIBUTE_OPEN @ inside"
    "take (length inside) (drop ?n source) = inside"
    by (simp_all add: source)
  then show ?thesis
    using cursor opened
    by (simp add: from_attribute_start_def account_attribute_inner_start_def or_else_def Let_def)
qed

text \<open>When a value is being typed behind a key, as in \<open>#[account(init, payer = au\<close>, the cursor
  is recognised as standing in the value of that key, and what was typed is the prefix.\<close>

theorem typed_value_recognised:
  assumes "source = pre @ ACCOUNT_ATTRIBUTE_OPEN @ (head @ key @ '' = '' @ partial) @ rest"
    and "byte_offset_at source p = Some (length (pre @ ACCOUNT_ATTRIBUTE_OPEN @ (head @ key @ '' = '' @ partial)))"
    and "\<not> is_in_comment_or_string source p"
    and "CHR ''#'' \<notin> set head" "\<not> account_attribute_closed_before_cursor (head @ key @ '' = '' @ partial)"
    and "starts_item head" "is_constraint_key_text key" "list_all word_char partial"
  shows "map_option (\<lambda>c. (cur_slot c, cur_constraint_key c, cur_prefix c)) (from_source source p) =
     Some (SlotValue, Some key, partial)"
proof -
  let ?inside = "head @ key @ '' = '' @ partial"
  let ?cursor = "length (pre @ ACCOUNT_ATTRIBUTE_OPEN @ ?inside)"
  have "CHR ''#'' \<notin> set key" "CHR ''#'' \<notin> set partial"
    using assms(7,8) word_char_no_delimiter by (auto simp: is_constraint_key_text_iff list_all_iff)
  then have "str_rfind ACCOUNT_ATTRIBUTE_OPEN (pre @ ACCOUNT_ATTRIBUTE_OPEN @ ?inside) = Some (length pre)"
    using assms(4) str_rfind_marker [of "CHR ''#''" "''[account(''" ?inside pre]
    by (simp add: ACCOUNT_ATTRIBUTE_OPEN_def)
  moreover have "take ?cursor source = pre @ ACCOUNT_ATTRIBUTE_OPEN @ ?inside"
    using append_eq_conv_conj [of "pre @ ACCOUNT_ATTRIBUTE_OPEN @ ?inside" rest source] assms(1) by simp
  ultimately have "from_source source p = from_attribute_start source (length pre) p"
    using assms(2,3) by (simp add: from_source_def)
  then show ?thesis
    using from_attribute_start_open [OF assms(1,2,5)] slot_item [OF assms(8), of head key]
      prefix_item [OF assms(8), of head key] assigned_key_item [OF assms(6-8)]
    by simp
qed

definition typed_source :: string where
  "typed_source = ''#[account(init, payer = au)]''"

lemma typed_value_recognised_witness:
  "map_option (\<lambda>c. (cur_slot c, cur_constraint_key c, cur_prefix c))
     (from_source typed_source \<lparr>pos_line = 0, pos_character = 26\<rparr>) = Some (SlotValue, Some ''payer'', ''au'')"
proof (rule typed_value_recognised [where pre = "[]" and head = "''init, ''" and rest = "'')]''"])
  show "typed_source = [] @ ACCOUNT_ATTRIBUTE_OPEN @ (''init, '' @ ''payer'' @ '' = '' @ ''au'') @ '')]''"
    by (simp add: typed_source_def ACCOUNT_ATTRIBUTE_OPEN_def)
  show "byte_offset_at typed_source \<lparr>pos_line = 0, pos_character = 26\<rparr> =
      Some (length ([] @ ACCOUNT_ATTRIBUTE_OPEN @ (''init, '' @ ''payer'' @ '' = '' @ ''au'')))"
    by code_simp
  show "\<not> is_in_comment_or_string typed_source \<lparr>pos_line = 0, pos_character = 26\<rparr>"
    by code_simp
  show "\<not> account_attribute_closed_before_cursor (''init, '' @ ''payer'' @ '' = '' @ ''au'')"
    by code_simp
  show "starts_item ''init, ''" by (simp add: starts_item_def suffix_to_prefix)
  show "is_constraint_key_text ''payer''" by code_simp
  show "list_all word_char ''au''" by code_simp
qed simp

end
