(* ===== verification/Diagnostic_Build.thy ===== *)
theory Diagnostic_Build
  imports Arbitration Anchor_Errors Constraint_Rules Constraint_Ranges Attribute_Cursor
    "HOL-Library.Product_Lexorder"
begin

section \<open>Building and enriching diagnostics\<close>

text \<open>
  \<open>src/lsp/diagnostics/mod.rs\<close>: the diagnostic of a parser error, the payload every diagnostic gets,
  the related information that is added before publication, and the binding of the placeholder URI.
  \<open>parse\<close> is \<open>Url::parse\<close>, \<open>unresolved\<close> the lookup of an identifier in the scope around a parser
  error (\<open>handler_scope\<close>); a \<open>syn::Error\<close> is its text and the range of its span.
\<close>

record syn_error =
  se_message :: string
  se_range :: range

subsection \<open>Texts of parser errors\<close>

definition INIT_PAYER_REQUIRED_MESSAGE :: string where
  "INIT_PAYER_REQUIRED_MESSAGE = ''payer must be provided''"

definition INIT_SPACE_REQUIRED_MESSAGE :: string where
  "INIT_SPACE_REQUIRED_MESSAGE = ''space must be provided''"

definition EXPECTED_SEMICOLON_PARSE_MESSAGE :: string where
  "EXPECTED_SEMICOLON_PARSE_MESSAGE = ''unexpected token, expected `;`''"

definition STATEMENT_TERMINATOR_CHARS :: string where
  "STATEMENT_TERMINATOR_CHARS = '';{},([''"

definition MAX_PREVIOUS_UNTERMINATED_STATEMENT_SCAN_LINES :: u32 where
  "MAX_PREVIOUS_UNTERMINATED_STATEMENT_SCAN_LINES = 3"

definition ATTRIBUTE_CLOSE_LINE_PREFIX :: string where
  "ATTRIBUTE_CLOSE_LINE_PREFIX = '')]''"

definition ANCHOR_INIT_PAYER_TOPIC :: string where
  "ANCHOR_INIT_PAYER_TOPIC = ''seagrass/anchor.init.missing-payer''"

definition ANCHOR_INIT_SPACE_TOPIC :: string where
  "ANCHOR_INIT_SPACE_TOPIC = ''seagrass/anchor.init.missing-space''"

definition parser_message_has :: "string \<Rightarrow> string \<Rightarrow> bool" where
  "parser_message_has parser_message expected \<longleftrightarrow> str_contains expected parser_message"

definition init_constraint_topic :: "string \<Rightarrow> string" where
  "init_constraint_topic parser_message =
     (if parser_message_has parser_message INIT_PAYER_REQUIRED_MESSAGE then ANCHOR_INIT_PAYER_TOPIC
      else if parser_message_has parser_message INIT_SPACE_REQUIRED_MESSAGE then ANCHOR_INIT_SPACE_TOPIC
      else ''seagrass/anchor.init.constraints'')"

definition init_constraint_message :: "string \<Rightarrow> string" where
  "init_constraint_message parser_message =
     (if parser_message_has parser_message INIT_PAYER_REQUIRED_MESSAGE then
        ''Anchor `init` constraint is missing `payer = ...`; add the account that funds initialization.''
      else if parser_message_has parser_message INIT_SPACE_REQUIRED_MESSAGE then
        ''Anchor `init` constraint is missing `space = ...`; add discriminator plus account data size.''
      else parser_message)"

text \<open>\<open>str::replace\<close> with a pattern that is not empty, and \<open>split_whitespace\<close>.\<close>

function str_replace :: "string \<Rightarrow> string \<Rightarrow> string \<Rightarrow> string" where
  "str_replace p r [] = []"
| "str_replace p r (c # s) =
     (if p \<noteq> [] \<and> prefix p (c # s) then r @ str_replace p r (drop (length p) (c # s))
      else c # str_replace p r s)"
  by pat_completeness auto
termination
  by (relation "measure (\<lambda>(p, r, s). length s)") (auto simp: neq_Nil_conv)

fun word_length :: "string \<Rightarrow> nat" where
  "word_length [] = 0"
| "word_length (c # s) = (if ws_front (c # s) \<noteq> 0 then 0 else Suc (word_length s))"

function split_whitespace :: "string \<Rightarrow> string list" where
  "split_whitespace s =
     (let t = trim_start s in
      if t = [] then [] else take (word_length t) t # split_whitespace (drop (word_length t) t))"
  by pat_completeness auto
termination
proof (relation "measure length", goal_cases)
  case (2 s t)
  have "ws_front t = 0" using 2 trim_start_stop [of s] by simp
  then have "word_length t \<noteq> 0" using 2(2) by (cases t) auto
  moreover have "length t \<le> length s" using 2 suffix_length_le [OF trim_start_suffix] by simp
  moreover have "0 < length t" using 2(2) by simp
  ultimately have "length (drop (word_length t) t) < length s"
    using diff_less [of "word_length t" "length t"] by (simp only: length_drop)
  then show ?case by simp
qed simp

declare split_whitespace.simps [simp del]

definition trim_backticks :: "string \<Rightarrow> string" where
  "trim_backticks s = trim_end_char CHR 0x60 (trim_start_char CHR 0x60 s)"

definition normalized_constraint_phrase :: "string \<Rightarrow> string" where
  "normalized_constraint_phrase phrase =
     to_ascii_lowercase
       (join '' ''
         (filter (\<lambda>part. part \<noteq> ''account'')
           (split_whitespace (str_replace ''_'' '' '' (str_replace ''::'' '' '' (trim_backticks (trim phrase)))))))"

definition parser_rule_phrase_label :: "string \<Rightarrow> string" where
  "parser_rule_phrase_label phrase =
     unwrap_or (trim_backticks (trim phrase))
       (find_map
         (\<lambda>spec.
           let key = constraint_key (spec_label spec) in
           if normalized_constraint_phrase key = normalized_constraint_phrase phrase then Some key else None)
         CONSTRAINTS)"

definition parser_rule_diagnostic_message ::
  "constraint_spec \<Rightarrow> constraint_parser_rule \<Rightarrow> string \<Rightarrow> string" where
  "parser_rule_diagnostic_message spec rule parser_message =
     (let key = constraint_key (spec_label spec) in
      case pr_kind rule of
        Duplicate \<Rightarrow>
          ''Anchor account constraint `'' @ key @ ''` is duplicated; remove the duplicate `'' @ key @ ''`.''
      | Ordering \<Rightarrow>
          (case split_once '' must be provided before '' (pr_message rule) of
             Some (required, before) \<Rightarrow>
               ''Anchor account constraints are out of order; place `'' @ parser_rule_phrase_label required @
               ''` before `'' @ parser_rule_phrase_label before @ ''`.''
           | None \<Rightarrow> ''Anchor account constraint `'' @ key @ ''` is out of order.'')
      | Conflict \<Rightarrow>
          (case split_once '' cannot be used with '' (pr_message rule) of
             Some (left, right) \<Rightarrow>
               ''Anchor account constraints conflict; remove `'' @ parser_rule_phrase_label left @
               ''` or `'' @ parser_rule_phrase_label right @ ''`.''
           | None \<Rightarrow> ''Anchor account constraint `'' @ key @ ''` conflicts with another constraint.'')
      | TypeRequirement \<Rightarrow>
          (if str_contains ''close must be on'' (pr_message rule) then
             ''`close` only works on `Account`, `LazyAccount`, or `AccountLoader` fields.''
           else if str_contains ''Discriminator'' (pr_message rule) then
             ''`zero` requires an account type that implements `Discriminator`; remove `zero` or use a compatible account type.''
           else
             ''Anchor account constraint `'' @ key @ ''` is on an unsupported account type: '' @ parser_message @ ''.''))"

subsection \<open>The statement before a parser error\<close>

definition line_is_unterminated_statement_candidate :: "string \<Rightarrow> bool" where
  "line_is_unterminated_statement_candidate line \<longleftrightarrow>
     (let trimmed = trim line in
      trimmed \<noteq> [] \<and> \<not> prefix ''//'' trimmed \<and> \<not> prefix ''#['' trimmed \<and>
      \<not> prefix ATTRIBUTE_CLOSE_LINE_PREFIX trimmed \<and> last trimmed \<notin> set STATEMENT_TERMINATOR_CHARS)"

definition saturating_sub :: "u32 \<Rightarrow> u32 \<Rightarrow> u32" where
  "saturating_sub a b = (if a < b then 0 else a - b)"

definition statement_range :: "nat \<Rightarrow> string \<Rightarrow> range option" where
  "statement_range n line =
     Option.bind (index_of (\<lambda>c. \<not> is_ws c) (utf8_chars line)) (\<lambda>start_character.
     Option.bind (u32_try_from start_character) (\<lambda>start.
     Option.bind (u32_try_from (char_count (trim_end line))) (\<lambda>stop.
       Some \<lparr>range_start = \<lparr>pos_line = of_nat n, pos_character = start\<rparr>,
             range_end = \<lparr>pos_line = of_nat n, pos_character = stop\<rparr>\<rparr>)))"

definition previous_unterminated_statement_range :: "string \<Rightarrow> u32 \<Rightarrow> range option" where
  "previous_unterminated_statement_range source error_line =
     (let earliest_line = saturating_sub error_line MAX_PREVIOUS_UNTERMINATED_STATEMENT_SCAN_LINES in
      Option.bind
        (find (\<lambda>n. case line_at source n of
                     None \<Rightarrow> False
                   | Some line \<Rightarrow> line_is_unterminated_statement_candidate line)
          (rev [unat earliest_line ..< unat error_line])) (\<lambda>n.
      Option.bind (line_at source n) (statement_range n)))"

definition parse_error_range_in_source :: "syn_error \<Rightarrow> string \<Rightarrow> string \<Rightarrow> range option" where
  "parse_error_range_in_source err source parser_message =
     (if \<not> parser_message_has parser_message EXPECTED_SEMICOLON_PARSE_MESSAGE then None
      else previous_unterminated_statement_range source (pos_line (range_start (se_range err))))"

subsection \<open>Diagnostics and their payload\<close>

text \<open>The payload of a diagnostic: the entries it was made with, then the defaults of its kind.\<close>

definition diagnostic_data :: "kind \<Rightarrow> json option \<Rightarrow> json option" where
  "diagnostic_data k data =
     (let complete = (\<lambda>obj.
        let obj = (case kind_rule k of Some rule \<Rightarrow> jm_or_insert ''rule'' (JString rule) obj | None \<Rightarrow> obj);
            obj = jm_or_insert ''confidence'' (JString (kind_confidence k)) obj;
            obj = jm_or_insert ''applicability'' (JString ''Unspecified'') obj;
            obj = jm_or_insert ''topic'' (JString (kind_topic k)) obj;
            obj = jm_or_insert ''truthSource'' (JString (truth_source_as_str (kind_truth_source k))) obj;
            anchor_errors = diagnostic_error_data (anchor_error_names k);
            obj = (if anchor_errors \<noteq> [] then jm_insert ''anchorErrors'' (JArray anchor_errors) obj else obj)
        in if obj \<noteq> [] then Some (JObject obj) else None)
      in case data of
           Some (JObject obj) \<Rightarrow> complete obj
         | Some v \<Rightarrow> Some v
         | None \<Rightarrow> complete [])"

definition diagnostic_from_range_with_related ::
  "(string \<Rightarrow> string option) \<Rightarrow> range \<Rightarrow> kind \<Rightarrow> string \<Rightarrow> json option \<Rightarrow>
     related_information list option \<Rightarrow> diagnostic" where
  "diagnostic_from_range_with_related parse r k message data related =
     \<lparr>d_range = r, d_severity = Some (default_severity k), d_code = Some (String (kind_code k)),
      d_code_description = docs_url_for_data parse k data, d_source = Some SOURCE, d_message = message,
      d_related = related, d_tags = None, d_data = diagnostic_data k data\<rparr>"

definition diagnostic_from_range ::
  "(string \<Rightarrow> string option) \<Rightarrow> range \<Rightarrow> kind \<Rightarrow> string \<Rightarrow> json option \<Rightarrow> diagnostic" where
  "diagnostic_from_range parse r k message data =
     diagnostic_from_range_with_related parse r k message data None"

definition diagnostic_from_syn_error_with_range ::
  "(string \<Rightarrow> string option) \<Rightarrow> syn_error \<Rightarrow> range option \<Rightarrow> diagnostic" where
  "diagnostic_from_syn_error_with_range parse err r =
     (let parser_message = se_message err;
          is_init_constraint =
            parser_message_has parser_message INIT_PAYER_REQUIRED_MESSAGE \<or>
            parser_message_has parser_message INIT_SPACE_REQUIRED_MESSAGE;
          parser_rule = (if is_init_constraint then None else parser_rule_for_message parser_message);
          k = (if is_init_constraint then AnchorInitConstraints
               else if parser_rule \<noteq> None then AnchorConstraintShape else AnchorSyn);
          data =
            (if is_init_constraint then
               Some (JObject [(''quickfix'', JString INIT_PLACEHOLDERS_QUICKFIX),
                 (''parserMessage'', JString parser_message),
                 (''topic'', JString (init_constraint_topic parser_message))])
             else
               map_option (\<lambda>(spec, rule).
                 JObject [(''constraint'', JString (constraint_key (spec_label spec))),
                   (''constraintLabel'', JString (spec_label spec)),
                   (''parserRule'', JObject [(''kind'', JString (parser_rule_kind_name (pr_kind rule))),
                      (''message'', JString (pr_message rule)),
                      (''sourceMethod'', JString (pr_source_method rule))]),
                   (''generatedFrom'', JString ''lang/syn/src/parser/accounts/constraints.rs'')]) parser_rule);
          message =
            (if is_init_constraint then init_constraint_message parser_message
             else case parser_rule of
                    Some (spec, rule) \<Rightarrow> parser_rule_diagnostic_message spec rule parser_message
                  | None \<Rightarrow> parser_message)
      in diagnostic_from_range parse (unwrap_or (se_range err) r) k message data)"

definition diagnostic_from_syn_error :: "(string \<Rightarrow> string option) \<Rightarrow> syn_error \<Rightarrow> diagnostic" where
  "diagnostic_from_syn_error parse err = diagnostic_from_syn_error_with_range parse err None"

definition diagnostic_from_parse_error_with_source ::
  "(string \<Rightarrow> string option) \<Rightarrow> (string \<Rightarrow> range \<Rightarrow> diagnostic option) \<Rightarrow> syn_error \<Rightarrow> string \<Rightarrow> diagnostic" where
  "diagnostic_from_parse_error_with_source parse unresolved err source =
     (let r = unwrap_or (se_range err) (parse_error_range_in_source err source (se_message err)) in
      unwrap_or (diagnostic_from_syn_error_with_range parse err (Some r)) (unresolved source r))"

subsection \<open>What a payload contains\<close>

definition payload_default :: "kind \<Rightarrow> string \<Rightarrow> json option" where
  "payload_default k key =
     (if key = ''rule'' then map_option JString (kind_rule k)
      else if key = ''confidence'' then Some (JString (kind_confidence k))
      else if key = ''applicability'' then Some (JString ''Unspecified'')
      else if key = ''topic'' then Some (JString (kind_topic k))
      else if key = ''truthSource'' then Some (JString (truth_source_as_str (kind_truth_source k)))
      else None)"

lemma jm_or_insert_get: "map_of (jm_or_insert k v m) j = or_else (map_of m j) (if j = k then Some v else None)"
  by (auto simp: map_of_jm_or_insert or_else_def split: option.split)

lemma jm_or_insert_not_Nil [simp]: "jm_or_insert k v m \<noteq> []"
  by (auto simp: jm_or_insert_def split: option.split)

lemma jm_insert_not_Nil [simp]: "jm_insert k v m \<noteq> []"
  by (induction k v m rule: jm_insert.induct) auto

lemma rule_entry_get:
  "map_of (case kind_rule k of None \<Rightarrow> m | Some rule \<Rightarrow> jm_or_insert ''rule'' (JString rule) m) j =
     or_else (map_of m j) (if j = ''rule'' then map_option JString (kind_rule k) else None)"
  by (auto simp: jm_or_insert_get or_else_def split: option.split)

lemma payload_lookup:
  "Option.bind
     (d_data (diagnostic_from_range_with_related parse r k message (map_option JObject given) related)) (json_get key) =
   (if key = ''anchorErrors'' \<and> diagnostic_error_data (anchor_error_names k) \<noteq> []
    then Some (JArray (diagnostic_error_data (anchor_error_names k)))
    else or_else (map_of (unwrap_or [] given) key) (payload_default k key))"
proof -
  define base where "base = unwrap_or [] given"
  define filled where "filled =
     jm_or_insert ''truthSource'' (JString (truth_source_as_str (kind_truth_source k)))
      (jm_or_insert ''topic'' (JString (kind_topic k))
       (jm_or_insert ''applicability'' (JString ''Unspecified'')
        (jm_or_insert ''confidence'' (JString (kind_confidence k))
         (case kind_rule k of None \<Rightarrow> base | Some rule \<Rightarrow> jm_or_insert ''rule'' (JString rule) base))))"
  have get: "map_of filled key = or_else (map_of base key) (payload_default k key)"
    by (auto simp: filled_def jm_or_insert_get rule_entry_get payload_default_def or_else_def split: option.split)
  have "diagnostic_data k (map_option JObject given) =
     Some (JObject (if diagnostic_error_data (anchor_error_names k) \<noteq> []
        then jm_insert ''anchorErrors'' (JArray (diagnostic_error_data (anchor_error_names k))) filled else filled))"
  proof (cases given)
    case None
    then have base: "base = []" by (simp add: base_def)
    show ?thesis unfolding diagnostic_data_def filled_def Let_def base by (simp add: None)
  next
    case (Some obj)
    then have base: "base = obj" by (simp add: base_def)
    show ?thesis unfolding diagnostic_data_def filled_def Let_def base by (simp add: Some)
  qed
  then show ?thesis
    by (simp add: diagnostic_from_range_with_related_def map_of_jm_insert get base_def)
qed

text \<open>Every diagnostic carries the entries it was made with, the defaults of its kind for the
  keys it was made without, and the Anchor errors of its kind, which no entry can override.\<close>

theorem payload_exact:
  "Option.bind
     (d_data (diagnostic_from_range_with_related parse r k message (map_option JObject given) related)) (json_get key) =
   (if key = ''anchorErrors'' \<and> diagnostic_error_data (anchor_error_names k) \<noteq> []
    then Some (JArray (diagnostic_error_data (anchor_error_names k)))
    else or_else (map_of (unwrap_or [] given) key) (payload_default k key))"
  by (rule payload_lookup)

subsection \<open>The statement that lacks its semicolon\<close>

definition candidate_at :: "string \<Rightarrow> nat \<Rightarrow> bool" where
  "candidate_at source n \<longleftrightarrow>
     (\<exists>line. line_at source n = Some line \<and> line_is_unterminated_statement_candidate line)"

lemma candidate_at_case:
  "(case line_at source n of None \<Rightarrow> False | Some line \<Rightarrow> line_is_unterminated_statement_candidate line) \<longleftrightarrow>
     candidate_at source n"
  by (auto simp: candidate_at_def split: option.split)

lemma find_rev_upt: "find p (rev [a ..< b]) = Some n \<longleftrightarrow> a \<le> n \<and> n < b \<and> p n \<and> \<not> (\<exists>j. n < j \<and> j < b \<and> p j)"
proof (induction b)
  case (Suc b)
  show ?case
  proof (cases "a \<le> b")
    case True
    then show ?thesis using Suc by (auto simp: less_Suc_eq)
  qed auto
qed simp

lemma unat_saturating_sub: "unat (saturating_sub a b) = unat a - unat b"
  by (simp add: saturating_sub_def unat_sub word_less_nat_alt not_less word_le_nat_alt)

text \<open>The range blamed for a missing semicolon is that of the nearest candidate line among the three
  lines above the error.\<close>

theorem nearest_unterminated_statement:
  "previous_unterminated_statement_range source error_line = Some r \<longleftrightarrow>
     (\<exists>n line. n < unat error_line \<and> unat error_line \<le> n + 3 \<and> line_at source n = Some line \<and>
        candidate_at source n \<and> \<not> (\<exists>j. n < j \<and> j < unat error_line \<and> candidate_at source j) \<and>
        statement_range n line = Some r)"
proof -
  have three: "unat (3 :: u32) = 3" by simp
  show ?thesis
    by (auto simp: previous_unterminated_statement_range_def Let_def candidate_at_case find_rev_upt
        unat_saturating_sub MAX_PREVIOUS_UNTERMINATED_STATEMENT_SCAN_LINES_def three bind_eq_Some_conv le_diff_conv)
qed

end
