(* ===== verification/Related_Information.thy ===== *)
theory Related_Information
  imports Diagnostic_Build
begin

section \<open>Related information\<close>

text \<open>
  The second half of \<open>src/lsp/diagnostics/mod.rs\<close>: what is added to the related information of a
  diagnostic before it is published, from its payload and from the document, and the binding of
  the placeholder URI to the document's.
\<close>

definition same_related_information :: "related_information \<Rightarrow> related_information \<Rightarrow> bool" where
  "same_related_information left right \<longleftrightarrow>
     rel_message left = rel_message right \<and>
     loc_uri (rel_location left) = loc_uri (rel_location right) \<and>
     loc_range (rel_location left) = loc_range (rel_location right)"

definition push_unique :: "related_information \<Rightarrow> related_information list \<Rightarrow> related_information list" where
  "push_unique info existing =
     (if list_ex (\<lambda>e. same_related_information e info) existing then existing else existing @ [info])"

definition append_unique_related_information ::
  "related_information list \<Rightarrow> related_information list \<Rightarrow> related_information list" where
  "append_unique_related_information existing incoming = fold push_unique incoming existing"

definition unique_related_information :: "related_information list \<Rightarrow> related_information list" where
  "unique_related_information incoming = append_unique_related_information [] incoming"

definition current_document_related_information ::
  "(string \<Rightarrow> string option) \<Rightarrow> range \<Rightarrow> string \<Rightarrow> related_information option" where
  "current_document_related_information parse r message =
     map_option (\<lambda>uri. \<lparr>rel_location = \<lparr>loc_uri = uri, loc_range = r\<rparr>, rel_message = message\<rparr>)
       (parse CURRENT_DOCUMENT_PLACEHOLDER_URI)"

subsection \<open>The document's URI\<close>

definition bind_info :: "string \<Rightarrow> related_information \<Rightarrow> related_information" where
  "bind_info uri info =
     (if loc_uri (rel_location info) = CURRENT_DOCUMENT_PLACEHOLDER_URI
      then info\<lparr>rel_location := (rel_location info)\<lparr>loc_uri := uri\<rparr>\<rparr> else info)"

definition bind_current_document_related_uri :: "string \<Rightarrow> diagnostic list \<Rightarrow> diagnostic list" where
  "bind_current_document_related_uri uri ds =
     map (\<lambda>d. d\<lparr>d_related := map_option (map (bind_info uri)) (d_related d)\<rparr>) ds"

subsection \<open>Information from the payload\<close>

definition confidence_reason :: "string \<Rightarrow> string option" where
  "confidence_reason confidence =
     (if confidence = ''authoritative'' then
        Some ''Why authoritative: parsed Anchor or Solana semantic evidence directly identifies this finding.''
      else if confidence = ''derived'' then
        Some ''Why derived: Seagrass resolved the finding through local semantic inference, such as account or handler type flow.''
      else if confidence = ''heuristic'' then
        Some ''Why heuristic: Seagrass used conservative pattern evidence; review the local code path before broad fixes.''
      else None)"

definition quickfix_previews :: "(string \<times> string) list" where
  "quickfix_previews =
     [(''add-mut-constraint'', ''add an Anchor `mut` constraint''),
      (''add-missing-constraint'', ''add the missing Anchor account constraint''),
      (''add-instruction-argument'', ''add the missing instruction argument''),
      (''replace-instruction-argument'', ''replace the mistyped instruction argument''),
      (''remove-instruction-argument'', ''remove the extra instruction argument''),
      (''replace-account-type'', ''replace the account field type''),
      (''replace-invalid-sysvar'', ''replace the invalid sysvar account type''),
      (''program-field-type'', ''replace the program field with the typed program account''),
      (''system-program-type'', ''replace the field with the System program account type''),
      (''replace-has-one-target'', ''replace the `has_one` target with an in-scope field''),
      (''replace-keyword-value'', ''replace the invalid constraint keyword value''),
      (''remove-conflicting-constraints'', ''remove the conflicting Anchor constraint''),
      (''remove-handler-field-call'', ''remove the method-call suffix from the account data field''),
      (''use-checked-data-access'', ''replace native instruction byte access with checked access''),
      (''add-static-pda-domain-seed'', ''add a static domain seed to the PDA''),
      (''prefer-anchor-close'', ''use Anchor close semantics instead of manual lamport draining''),
      (''reject-reinit'', ''guard against reinitializing account data''),
      (''insert-reload-after-cpi'', ''reload account data after CPI before reading it''),
      (''add-signer-check'', ''add a signer validation check''),
      (''add-writable-check'', ''add a writable account validation check''),
      (''add-program-id-check'', ''add a program id validation check''),
      (''add-owner-check'', ''add an owner validation check''),
      (''add-discriminator-check'', ''add an account discriminator validation check'')]"

definition quickfix_preview :: "string \<Rightarrow> string" where
  "quickfix_preview quickfix =
     ''Fix preview: '' @
     unwrap_or ''open the lightbulb for the available Seagrass edit'' (map_of quickfix_previews quickfix) @ ''.''"

definition diagnostic_metadata_summary ::
  "string option \<Rightarrow> string option \<Rightarrow> string option \<Rightarrow> string option \<Rightarrow> string option" where
  "diagnostic_metadata_summary confidence topic applicability quickfix =
     map_option
       (\<lambda>message.
          message @
          (case applicability of Some a \<Rightarrow> ''; applicability: '' @ a | None \<Rightarrow> []) @
          (case quickfix of Some q \<Rightarrow> ''; quickfix: '' @ q | None \<Rightarrow> []))
       (case (confidence, topic) of
          (Some c, Some t) \<Rightarrow> Some (''Seagrass confidence: '' @ c @ ''; topic: '' @ t)
        | (Some c, None) \<Rightarrow> Some (''Seagrass confidence: '' @ c)
        | (None, Some t) \<Rightarrow> Some (''Seagrass topic: '' @ t)
        | (None, None) \<Rightarrow> None)"

definition optional_info ::
  "(string \<Rightarrow> string option) \<Rightarrow> range \<Rightarrow> string option \<Rightarrow> related_information list" where
  "optional_info parse r message =
     (case Option.bind message (current_document_related_information parse r) of
        Some info \<Rightarrow> [info] | None \<Rightarrow> [])"

definition diagnostic_metadata_related_information ::
  "(string \<Rightarrow> string option) \<Rightarrow> diagnostic \<Rightarrow> related_information list" where
  "diagnostic_metadata_related_information parse d =
     (let confidence = data_str ''confidence'' (d_data d); topic = data_str ''topic'' (d_data d);
          applicability = data_str ''applicability'' (d_data d); quickfix = data_str ''quickfix'' (d_data d) in
      optional_info parse (d_range d) (diagnostic_metadata_summary confidence topic applicability quickfix) @
      optional_info parse (d_range d) (Option.bind confidence confidence_reason) @
      optional_info parse (d_range d) (map_option quickfix_preview quickfix))"

definition insert_front :: "related_information \<Rightarrow> related_information list \<Rightarrow> related_information list" where
  "insert_front info related =
     (if list_ex (\<lambda>e. same_related_information e info) related then related else info # related)"

definition enrich_confidence ::
  "(string \<Rightarrow> string option) \<Rightarrow> diagnostic \<Rightarrow> diagnostic" where
  "enrich_confidence parse d =
     (if list_ex (\<lambda>info. prefix ''Seagrass confidence:'' (rel_message info)) (unwrap_or [] (d_related d)) then d
      else
        (let infos = diagnostic_metadata_related_information parse d in
         if infos = [] then d
         else d\<lparr>d_related := Some (fold insert_front (rev infos) (unwrap_or [] (d_related d)))\<rparr>))"

definition enrich_confidence_related_information ::
  "(string \<Rightarrow> string option) \<Rightarrow> diagnostic list \<Rightarrow> diagnostic list" where
  "enrich_confidence_related_information parse ds = map (enrich_confidence parse) ds"

subsection \<open>Information from the document\<close>

definition RELATED_ACCOUNT_DATA_KEYS :: "string list" where
  "RELATED_ACCOUNT_DATA_KEYS =
     [''account'', ''field'', ''missing'', ''peer'', ''requiredByAccount'', ''usedByAccount'']"

definition RELATED_CONTEXT_DATA_KEYS :: "string list" where
  "RELATED_CONTEXT_DATA_KEYS = [''accountsStruct'', ''context'']"

definition RELATED_CONSTRAINT_DATA_KEYS :: "string list" where
  "RELATED_CONSTRAINT_DATA_KEYS = [''constraint'', ''missing'', ''requiredBy'', ''conflictsWith'']"

definition account_field_by_name :: "parsed_document \<Rightarrow> string \<Rightarrow> symbol_range option" where
  "account_field_by_name doc field_name =
     find (\<lambda>field. sr_name field = field_name)
       (concat (map sr_fields (map snd (accounts_structs (pd_symbols doc)))))"

definition accounts_struct_by_name :: "parsed_document \<Rightarrow> string \<Rightarrow> symbol_range option" where
  "accounts_struct_by_name doc name = map_of (accounts_structs (pd_symbols doc)) name"

definition has_semantic_related_data :: "diagnostic \<Rightarrow> bool" where
  "has_semantic_related_data d \<longleftrightarrow>
     list_ex (\<lambda>key. data_str key (d_data d) \<noteq> None)
       (RELATED_CONSTRAINT_DATA_KEYS @ RELATED_ACCOUNT_DATA_KEYS @ RELATED_CONTEXT_DATA_KEYS)"

definition init_missing_companion :: "diagnostic \<Rightarrow> string option" where
  "init_missing_companion d =
     Option.bind (data_str ''topic'' (d_data d)) (\<lambda>topic.
       if topic = ANCHOR_INIT_PAYER_TOPIC then Some ''payer''
       else if topic = ANCHOR_INIT_SPACE_TOPIC then Some ''space'' else None)"

definition is_init_companion_diagnostic :: "diagnostic \<Rightarrow> bool" where
  "is_init_companion_diagnostic d \<longleftrightarrow>
     (case data_str ''topic'' (d_data d) of
        None \<Rightarrow> False
      | Some topic \<Rightarrow> topic = ANCHOR_INIT_PAYER_TOPIC \<or> topic = ANCHOR_INIT_SPACE_TOPIC)"

definition init_key_of :: "parsed_document \<Rightarrow> attribute_cursor \<Rightarrow> range \<Rightarrow> string \<times> range" where
  "init_key_of doc cursor fallback =
     unwrap_or (''init'', fallback)
       (map_option (\<lambda>r. (ckr_key r, ckr_range r))
         (find (\<lambda>r. ckr_key r \<in> set INIT_LIKE_KEYS) (constraint_key_ranges (pd_source doc) (cur_range cursor))))"

definition init_companion_related_information ::
  "(string \<Rightarrow> string option) \<Rightarrow> parsed_document \<Rightarrow> diagnostic \<Rightarrow> related_information list option" where
  "init_companion_related_information parse doc d =
     Option.bind (init_missing_companion d) (\<lambda>missing.
     Option.bind (account_attribute_cursor doc (range_end (d_range d))) (\<lambda>cursor.
       let (init_key, init_key_range) = init_key_of doc cursor (d_range d) in
     Option.bind (Option.bind (cur_field_name cursor) (account_field_by_name doc)) (\<lambda>field.
     Option.bind (current_document_related_information parse init_key_range
       (''`'' @ init_key @ ''` requires this companion `'' @ missing @ '' = ...`.'')) (\<lambda>first.
     Option.bind (current_document_related_information parse (sr_selection_range field)
       (''`'' @ sr_name field @ ''` is the account being initialized.'')) (\<lambda>second.
     Option.bind (current_document_related_information parse (cur_range cursor)
       (''Add the missing companion `'' @ missing @ '' = ...` inside this account attribute.'')) (\<lambda>third.
       Some [first, second, third]))))))"

definition ranges_overlap :: "range \<Rightarrow> range \<Rightarrow> bool" where
  "ranges_overlap left right \<longleftrightarrow>
     contains_position left (range_start right) \<or> contains_position left (range_end right) \<or>
     contains_position right (range_start left) \<or> contains_position right (range_end left)"

definition document_constraint_ranges :: "parsed_document \<Rightarrow> constraint_key_range list" where
  "document_constraint_ranges doc =
     concat (map (constraint_key_ranges (pd_source doc)) (pd_attributes doc))"

definition matching_constraint_key_range ::
  "constraint_key_range list \<Rightarrow> range \<Rightarrow> string \<Rightarrow> range option" where
  "matching_constraint_key_range ranges diagnostic_range constraint =
     map_option ckr_range
       (min_by_key
         (\<lambda>r. (\<not> ranges_overlap (ckr_range r) diagnostic_range,
               pos_line (range_start (ckr_range r)), pos_character (range_start (ckr_range r))))
         (filter (\<lambda>r. ckr_key r = constraint) ranges))"

definition constraint_related_information ::
  "(string \<Rightarrow> string option) \<Rightarrow> constraint_key_range list \<Rightarrow> diagnostic \<Rightarrow> string \<Rightarrow> related_information option" where
  "constraint_related_information parse ranges d constraint =
     Option.bind (matching_constraint_key_range ranges (d_range d) constraint) (\<lambda>r.
       current_document_related_information parse r (''`'' @ constraint @ ''` constraint declaration.''))"

definition account_related_information ::
  "(string \<Rightarrow> string option) \<Rightarrow> parsed_document \<Rightarrow> string \<Rightarrow> related_information option" where
  "account_related_information parse doc account =
     Option.bind (account_field_by_name doc account) (\<lambda>field.
       current_document_related_information parse (sr_selection_range field)
         (''Account field declaration for `'' @ sr_name field @ ''`.''))"

definition context_related_information ::
  "(string \<Rightarrow> string option) \<Rightarrow> parsed_document \<Rightarrow> string \<Rightarrow> related_information option" where
  "context_related_information parse doc name =
     Option.bind (accounts_struct_by_name doc name) (\<lambda>accounts.
       current_document_related_information parse (sr_selection_range accounts)
         (''Accounts context declaration for `'' @ sr_name accounts @ ''`.''))"

definition for_data_keys ::
  "diagnostic \<Rightarrow> string list \<Rightarrow> (string \<Rightarrow> related_information option) \<Rightarrow> related_information list" where
  "for_data_keys d ks info = List.map_filter (\<lambda>key. Option.bind (data_str key (d_data d)) info) ks"

definition semantic_related_information ::
  "(string \<Rightarrow> string option) \<Rightarrow> parsed_document \<Rightarrow> diagnostic \<Rightarrow> related_information list" where
  "semantic_related_information parse doc d =
     unique_related_information
       (for_data_keys d RELATED_CONSTRAINT_DATA_KEYS
          (constraint_related_information parse (document_constraint_ranges doc) d) @
        for_data_keys d RELATED_ACCOUNT_DATA_KEYS (account_related_information parse doc) @
        for_data_keys d RELATED_CONTEXT_DATA_KEYS (context_related_information parse doc))"

definition enrich_current_document ::
  "(string \<Rightarrow> string option) \<Rightarrow> parsed_document \<Rightarrow> diagnostic \<Rightarrow> diagnostic" where
  "enrich_current_document parse doc d =
     (let infos =
        (if is_init_companion_diagnostic d
         then unwrap_or [] (init_companion_related_information parse doc d) else []) @
        (if has_semantic_related_data d then semantic_related_information parse doc d else [])
      in if infos = [] then d
         else d\<lparr>d_related := Some (append_unique_related_information (unwrap_or [] (d_related d)) infos)\<rparr>)"

definition enrich_current_document_related_information ::
  "(string \<Rightarrow> string option) \<Rightarrow> parsed_document \<Rightarrow> diagnostic list \<Rightarrow> diagnostic list" where
  "enrich_current_document_related_information parse doc ds = map (enrich_current_document parse doc) ds"

subsection \<open>What the enrichments do\<close>

lemma same_related_iff [simp]: "same_related_information a b \<longleftrightarrow> a = b"
  by (cases a, cases b) (auto simp: same_related_information_def intro!: location.equality)

lemma list_ex_eq [simp]: "list_ex (\<lambda>e. e = x) xs \<longleftrightarrow> x \<in> set xs"
  by (auto simp: list_ex_iff)

lemma set_append_unique: "set (append_unique_related_information xs ys) = set xs \<union> set ys"
  unfolding append_unique_related_information_def
  by (induction ys arbitrary: xs) (auto simp: push_unique_def)

lemma distinct_append_unique: "distinct xs \<Longrightarrow> distinct (append_unique_related_information xs ys)"
  unfolding append_unique_related_information_def
  by (induction ys arbitrary: xs) (auto simp: push_unique_def)

lemma fold_insert_front:
  "distinct xs \<Longrightarrow> fold insert_front (rev xs) old = filter (\<lambda>x. x \<notin> set old) xs @ old"
  by (induction xs) (auto simp: insert_front_def)

lemma optional_info_messages:
  "info \<in> set (optional_info parse r message) \<Longrightarrow> message = Some (rel_message info)"
  by (cases message; cases "parse CURRENT_DOCUMENT_PLACEHOLDER_URI")
     (auto simp: optional_info_def current_document_related_information_def)

lemma optional_info_distinct: "distinct (optional_info parse r message)"
  by (auto simp: optional_info_def split: option.split)

lemma summary_first: "diagnostic_metadata_summary c t a q = Some m \<Longrightarrow> hd m = CHR ''S''"
  by (auto simp: diagnostic_metadata_summary_def split: option.splits)

lemma reason_first: "confidence_reason c = Some m \<Longrightarrow> hd m = CHR ''W''"
  by (auto simp: confidence_reason_def split: if_splits)

lemma preview_first: "quickfix_preview q = m \<Longrightarrow> hd m = CHR ''F''"
  by (auto simp: quickfix_preview_def)

lemma metadata_infos_distinct: "distinct (diagnostic_metadata_related_information parse d)"
  by (auto simp: diagnostic_metadata_related_information_def Let_def optional_info_distinct bind_eq_Some_conv
        dest!: optional_info_messages summary_first reason_first preview_first)

definition carries_confidence :: "diagnostic \<Rightarrow> bool" where
  "carries_confidence d \<longleftrightarrow>
     list_ex (\<lambda>info. prefix ''Seagrass confidence:'' (rel_message info)) (unwrap_or [] (d_related d))"

lemma enrich_confidence_eq:
  "enrich_confidence parse d =
     (let infos = diagnostic_metadata_related_information parse d; old = unwrap_or [] (d_related d) in
      if carries_confidence d \<or> infos = [] then d
      else d\<lparr>d_related := Some (filter (\<lambda>x. x \<notin> set old) infos @ old)\<rparr>)"
  by (simp add: enrich_confidence_def carries_confidence_def Let_def fold_insert_front metadata_infos_distinct)

lemma metadata_infos_frame:
  "diagnostic_metadata_related_information parse (d\<lparr>d_related := r\<rparr>) = diagnostic_metadata_related_information parse d"
  by (simp add: diagnostic_metadata_related_information_def)

lemma enrich_confidence_idem: "enrich_confidence parse (enrich_confidence parse d) = enrich_confidence parse d"
proof -
  let ?infos = "diagnostic_metadata_related_information parse d" and ?old = "unwrap_or [] (d_related d)"
  have "filter (\<lambda>x. x \<notin> set (filter (\<lambda>x. x \<notin> set ?old) ?infos @ ?old)) ?infos = []"
    by (auto simp: filter_empty_conv)
  then show ?thesis
    by (simp add: enrich_confidence_eq [of parse] metadata_infos_frame Let_def)
qed

lemma enrich_confidence_core: "same_core (enrich_confidence parse d) d"
  by (simp add: enrich_confidence_eq same_core_def Let_def)

lemma enrich_current_document_core: "same_core (enrich_current_document parse doc d) d"
  by (simp add: enrich_current_document_def same_core_def Let_def)

lemma bind_core: "same_core (d\<lparr>d_related := r\<rparr>) d"
  by (simp add: same_core_def)

text \<open>The enrichment from the payload can be repeated: it adds nothing to what it has enriched.\<close>

theorem confidence_enrichment_idempotent:
  "enrich_confidence_related_information parse (enrich_confidence_related_information parse ds) =
     enrich_confidence_related_information parse ds"
  by (simp add: enrich_confidence_related_information_def enrich_confidence_idem)

lemma bind_info_uri:
  "uri \<noteq> CURRENT_DOCUMENT_PLACEHOLDER_URI \<Longrightarrow>
     loc_uri (rel_location (bind_info uri info)) \<noteq> CURRENT_DOCUMENT_PLACEHOLDER_URI"
  by (simp add: bind_info_def)

lemma related_set_bind:
  "related_set (d\<lparr>d_related := map_option (map (bind_info uri)) (d_related d)\<rparr>) = bind_info uri ` related_set d"
  by (cases "d_related d") (simp_all add: related_set_def)

end
