(* ===== verification/Project_Config.thy ===== *)
theory Project_Config
  imports Related_Information Module_Paths
begin

section \<open>Anchor.toml and Seagrass.toml\<close>

text \<open>
  \<open>src/core/project/mod.rs\<close> with \<open>src/runtime/file_text.rs\<close>, and the rule
  \<open>src/lsp/diagnostics/project_identity.rs\<close>: the search for the configuration of a document in its
  ancestor directories, the program ids that Anchor.toml declares, and their comparison with
  \<open>declare_id!\<close>.  An absolute path is the list of its components.  The record \<open>host\<close> is what a
  lookup sees of the machine: the files with their bytes, the directories with their entries, the
  environment, and the conversions of the \<open>url\<close> crate.  A document of the \<open>toml_edit\<close> crate is
  its items.
\<close>

subsection \<open>The machine\<close>

type_synonym path = "string list"

record host =
  host_file :: "path \<Rightarrow> string option"
  host_directory :: "path \<Rightarrow> string list option"
  host_home :: "path option"
  host_temp_dir :: path
  host_to_path :: "url \<Rightarrow> path option"
  host_from_path :: "path \<Rightarrow> url option"
  host_segments :: "url \<Rightarrow> string list option"

definition is_file :: "host \<Rightarrow> path \<Rightarrow> bool" where
  "is_file h p \<longleftrightarrow> host_file h p \<noteq> None"

definition is_dir :: "host \<Rightarrow> path \<Rightarrow> bool" where
  "is_dir h p \<longleftrightarrow> host_directory h p \<noteq> None"

definition MAX_PROJECT_FILE_BYTES :: nat where
  "MAX_PROJECT_FILE_BYTES = 512 * 1024"

text \<open>\<open>read_limited_text(path).ok().flatten()\<close>: a file that is too large or is not UTF-8 counts as
  one that cannot be read.\<close>

definition read_limited_text :: "host \<Rightarrow> path \<Rightarrow> string option" where
  "read_limited_text h p =
     Option.bind (host_file h p) (\<lambda>bytes.
       if length bytes > MAX_PROJECT_FILE_BYTES then None
       else if utf8 bytes then Some bytes else None)"

text \<open>The directory a search starts from: that of the document when it exists.\<close>

definition search_start :: "host \<Rightarrow> url \<Rightarrow> path option" where
  "search_start h uri = map_option (\<lambda>p. if is_file h p then butlast p else p) (host_to_path h uri)"

subsection \<open>The search for a configuration file\<close>

definition ANCHOR_TOML_FILE :: string where "ANCHOR_TOML_FILE = ''Anchor.toml''"
definition SEAGRASS_TOML_FILE :: string where "SEAGRASS_TOML_FILE = ''Seagrass.toml''"
definition MAX_WORKSPACE_ASCENT :: nat where "MAX_WORKSPACE_ASCENT = 64"

definition file_workspace_roots :: "host \<Rightarrow> url list \<Rightarrow> path list" where
  "file_workspace_roots h roots = List.map_filter (host_to_path h) roots"

definition is_within_workspace_roots :: "path \<Rightarrow> path list \<Rightarrow> bool" where
  "is_within_workspace_roots p roots \<longleftrightarrow> list_ex (\<lambda>root. prefix root p) roots"

definition is_workspace_root :: "path \<Rightarrow> path list \<Rightarrow> bool" where
  "is_workspace_root p roots \<longleftrightarrow> list_ex (\<lambda>root. p = root) roots"

definition shared_parents :: "host \<Rightarrow> path list" where
  "shared_parents h =
     [host_temp_dir h, [''tmp''], [''private'', ''tmp''], [''var'', ''tmp''],
      [''private'', ''var'', ''tmp''], [''home''], [''Users'']]"

definition is_shared_directory :: "host \<Rightarrow> path \<Rightarrow> bool" where
  "is_shared_directory h p \<longleftrightarrow>
     p = [] \<or> host_home h = Some p \<or> list_ex (\<lambda>shared. p = shared) (shared_parents h)"

fun workspace_file_loop :: "host \<Rightarrow> string \<Rightarrow> path list \<Rightarrow> nat \<Rightarrow> path \<Rightarrow> (url \<times> string) option" where
  "workspace_file_loop h file_name roots 0 p = None"
| "workspace_file_loop h file_name roots (Suc n) p =
     (if is_shared_directory h p then None
      else if is_file h (p @ [file_name]) then
        Option.bind (read_limited_text h (p @ [file_name])) (\<lambda>content.
          map_option (\<lambda>u. (u, content)) (host_from_path h (p @ [file_name])))
      else if is_workspace_root p roots then None
      else if p = [] then None
      else workspace_file_loop h file_name roots n (butlast p))"

definition nearest_workspace_file :: "host \<Rightarrow> url \<Rightarrow> string \<Rightarrow> url list \<Rightarrow> (url \<times> string) option" where
  "nearest_workspace_file h uri file_name workspace_roots =
     Option.bind (search_start h uri) (\<lambda>p.
       let root_paths = file_workspace_roots h workspace_roots in
       if root_paths \<noteq> [] \<and> \<not> is_within_workspace_roots p root_paths then None
       else workspace_file_loop h file_name root_paths MAX_WORKSPACE_ASCENT p)"

definition nearest_anchor_toml :: "host \<Rightarrow> url \<Rightarrow> (url \<times> string) option" where
  "nearest_anchor_toml h uri = nearest_workspace_file h uri ANCHOR_TOML_FILE []"

definition nearest_seagrass_toml :: "host \<Rightarrow> url \<Rightarrow> (url \<times> string) option" where
  "nearest_seagrass_toml h uri = nearest_workspace_file h uri SEAGRASS_TOML_FILE []"

definition nearest_anchor_toml_with_roots :: "host \<Rightarrow> url \<Rightarrow> url list \<Rightarrow> (url \<times> string) option" where
  "nearest_anchor_toml_with_roots h uri roots = nearest_workspace_file h uri ANCHOR_TOML_FILE roots"

definition nearest_seagrass_toml_with_roots :: "host \<Rightarrow> url \<Rightarrow> url list \<Rightarrow> (url \<times> string) option" where
  "nearest_seagrass_toml_with_roots h uri roots = nearest_workspace_file h uri SEAGRASS_TOML_FILE roots"

subsection \<open>Program ids\<close>

datatype edit_value = EditString string "(nat \<times> nat) option" | EditInline "(string \<times> edit_value) list" | EditOther

datatype edit_item = EditTable "(string \<times> edit_item) list" | EditValue edit_value | EditNone

type_synonym edit_document = "(string \<times> edit_item) list"

record anchor_program_id =
  apid_cluster :: string
  apid_name :: string
  apid_value :: string
  apid_range :: range

record anchor_toml =
  at_provider_cluster :: "string option"
  at_programs :: "anchor_program_id list"

definition str_replace_char :: "char \<Rightarrow> char \<Rightarrow> string \<Rightarrow> string" where
  "str_replace_char a b s = map (\<lambda>c. if c = a then b else c) s"

definition normalize_program_name :: "string \<Rightarrow> string" where
  "normalize_program_name name =
     str_replace_char CHR ''-'' CHR ''_'' (trim_end_char CHR 0x22 (trim_start_char CHR 0x22 (trim name)))"

fun value_as_str :: "edit_value \<Rightarrow> string option" where
  "value_as_str (EditString s span) = Some s"
| "value_as_str _ = None"

fun value_span :: "edit_value \<Rightarrow> (nat \<times> nat) option" where
  "value_span (EditString s span) = span"
| "value_span _ = None"

fun item_as_value :: "edit_item \<Rightarrow> edit_value option" where
  "item_as_value (EditValue v) = Some v"
| "item_as_value _ = None"

definition item_string :: "edit_item \<Rightarrow> string option" where
  "item_string item = Option.bind (item_as_value item) value_as_str"

text \<open>\<open>source.get(span)\<close>: nothing outside the text or off a character boundary.\<close>

definition source_get :: "string \<Rightarrow> nat \<times> nat \<Rightarrow> string option" where
  "source_get source span =
     (let (a, b) = span in
      if a \<le> b \<and> b \<le> length source \<and> is_char_boundary source a \<and> is_char_boundary source b
      then Some (take (b - a) (drop a source)) else None)"

definition source_range_at :: "string \<Rightarrow> nat \<Rightarrow> nat \<Rightarrow> range" where
  "source_range_at source offset width =
     (let pre = take offset source;
          line = u32_or_default (count_list pre NEWLINE);
          character = char_count (case rsplit_once [NEWLINE] pre of Some (_, l) \<Rightarrow> l | None \<Rightarrow> pre);
          start = u32_or_default character
      in \<lparr>range_start = \<lparr>pos_line = line, pos_character = start\<rparr>,
          range_end = \<lparr>pos_line = line, pos_character = start + u32_or_default width\<rparr>\<rparr>)"

definition default_range :: range where
  "default_range = \<lparr>range_start = \<lparr>pos_line = 0, pos_character = 0\<rparr>, range_end = \<lparr>pos_line = 0, pos_character = 0\<rparr>\<rparr>"

definition range_for_toml_string :: "string \<Rightarrow> edit_value \<Rightarrow> string \<Rightarrow> range" where
  "range_for_toml_string source v decoded =
     (case value_span v of
        None \<Rightarrow> default_range
      | Some span \<Rightarrow>
          (case source_get source span of
             None \<Rightarrow> default_range
           | Some raw \<Rightarrow>
               source_range_at source
                 (case str_find decoded raw of Some i \<Rightarrow> fst span + i | None \<Rightarrow> fst span)
                 (char_count decoded)))"

definition program_id_of :: "string \<Rightarrow> string \<Rightarrow> string \<Rightarrow> edit_value \<Rightarrow> anchor_program_id option" where
  "program_id_of source cluster name v =
     map_option
       (\<lambda>program_id.
          \<lparr>apid_cluster = cluster, apid_name = normalize_program_name name, apid_value = program_id,
           apid_range = range_for_toml_string source v program_id\<rparr>)
       (value_as_str v)"

definition inline_program_entries ::
  "string \<Rightarrow> string \<Rightarrow> (string \<times> edit_value) list \<Rightarrow> anchor_program_id list" where
  "inline_program_entries source cluster entries =
     List.map_filter (\<lambda>(name, v). program_id_of source cluster name v) entries"

definition table_program_entries ::
  "string \<Rightarrow> string \<Rightarrow> (string \<times> edit_item) list \<Rightarrow> anchor_program_id list" where
  "table_program_entries source cluster entries =
     List.map_filter
       (\<lambda>(name, item). Option.bind (item_as_value item) (program_id_of source cluster name)) entries"

definition program_entries :: "string \<Rightarrow> string \<Rightarrow> edit_item \<Rightarrow> anchor_program_id list" where
  "program_entries source cluster entries =
     (case entries of
        EditTable t \<Rightarrow> table_program_entries source cluster t
      | EditValue (EditInline t) \<Rightarrow> inline_program_entries source cluster t
      | _ \<Rightarrow> [])"

definition inline_cluster_entries :: "string \<Rightarrow> string \<Rightarrow> edit_value \<Rightarrow> anchor_program_id list" where
  "inline_cluster_entries source cluster entries =
     (case entries of EditInline t \<Rightarrow> inline_program_entries source cluster t | _ \<Rightarrow> [])"

text \<open>The order of the programs: where they stand, then cluster and name.\<close>

definition program_order :: "anchor_program_id \<Rightarrow> u32 \<times> u32 \<times> string \<times> string" where
  "program_order p =
     (pos_line (range_start (apid_range p)), pos_character (range_start (apid_range p)),
      apid_cluster p, apid_name p)"

definition parse_anchor_toml :: "(string \<Rightarrow> edit_document option) \<Rightarrow> string \<Rightarrow> anchor_toml" where
  "parse_anchor_toml parse source =
     (case parse source of
        None \<Rightarrow> \<lparr>at_provider_cluster = None, at_programs = []\<rparr>
      | Some doc \<Rightarrow>
          \<lparr>at_provider_cluster =
             (case map_of doc ''provider'' of
                Some (EditTable provider) \<Rightarrow> Option.bind (map_of provider ''cluster'') item_string
              | _ \<Rightarrow> None),
           at_programs =
             sort_key program_order
               (case map_of doc ''programs'' of
                  Some (EditTable clusters) \<Rightarrow>
                    concat (map (\<lambda>(cluster, entries). program_entries source cluster entries) clusters)
                | Some (EditValue (EditInline clusters)) \<Rightarrow>
                    concat (map (\<lambda>(cluster, entries). inline_cluster_entries source cluster entries) clusters)
                | _ \<Rightarrow> [])\<rparr>)"

text \<open>\<open>components.windows(3).find_map(..)\<close>.\<close>

fun program_name_in :: "string list \<Rightarrow> string option" where
  "program_name_in (a # b # c # rest) =
     (if a = ''programs'' \<and> c = ''src'' then Some (normalize_program_name b)
      else program_name_in (b # c # rest))"
| "program_name_in _ = None"

definition program_name_from_uri :: "host \<Rightarrow> url \<Rightarrow> string option" where
  "program_name_from_uri h uri =
     Option.bind (host_segments h uri) (\<lambda>segments. program_name_in (filter (\<lambda>s. s \<noteq> []) segments))"

definition matching_program_ids ::
  "(string \<Rightarrow> edit_document option) \<Rightarrow> host \<Rightarrow> url \<Rightarrow> string \<Rightarrow> anchor_program_id list" where
  "matching_program_ids parse h uri anchor_toml_text =
     (case program_name_from_uri h uri of
        None \<Rightarrow> []
      | Some name \<Rightarrow>
          filter (\<lambda>p. apid_name p = name) (at_programs (parse_anchor_toml parse anchor_toml_text)))"

definition preferred_of :: "string option \<Rightarrow> anchor_program_id list \<Rightarrow> anchor_program_id option" where
  "preferred_of provider_cluster candidates =
     or_else
       (Option.bind provider_cluster (\<lambda>cluster. find (\<lambda>p. apid_cluster p = cluster) candidates))
       (or_else (find (\<lambda>p. apid_cluster p = ''localnet'') candidates)
         (case candidates of [] \<Rightarrow> None | p # _ \<Rightarrow> Some p))"

definition preferred_program_id ::
  "(string \<Rightarrow> edit_document option) \<Rightarrow> host \<Rightarrow> url \<Rightarrow> string \<Rightarrow> anchor_program_id option" where
  "preferred_program_id parse h uri anchor_toml_text =
     (let parsed = parse_anchor_toml parse anchor_toml_text in
      Option.bind (program_name_from_uri h uri) (\<lambda>name.
        preferred_of (at_provider_cluster parsed) (filter (\<lambda>p. apid_name p = name) (at_programs parsed))))"

text \<open>The summary for the client; \<open>artifacts\<close> is the report of the artifacts module.\<close>

definition project_summary ::
  "(string \<Rightarrow> edit_document option) \<Rightarrow> (url \<Rightarrow> parsed_document \<Rightarrow> json option) \<Rightarrow> host \<Rightarrow> url \<Rightarrow>
     parsed_document \<Rightarrow> url \<Rightarrow> string \<Rightarrow> json" where
  "project_summary parse artifacts h uri doc anchor_toml_uri anchor_toml_text =
     (let optional = (\<lambda>v. case v of Some s \<Rightarrow> JString s | None \<Rightarrow> JNull) in
      JObject
        [(''anchorToml'', JString anchor_toml_uri),
         (''programName'', optional (program_name_from_uri h uri)),
         (''providerCluster'', optional (at_provider_cluster (parse_anchor_toml parse anchor_toml_text))),
         (''artifacts'', unwrap_or JNull (artifacts uri doc)),
         (''declareId'', optional (map_option dpi_value (declared_program_id (pd_symbols doc)))),
         (''anchorTomlProgramIds'',
           JArray (map (\<lambda>p. JObject
               [(''cluster'', JString (apid_cluster p)), (''name'', JString (apid_name p)),
                (''value'', JString (apid_value p))])
             (matching_program_ids parse h uri anchor_toml_text)))])"

subsection \<open>The rule on program ids\<close>

definition SYNC_DECLARE_ID_QUICKFIX :: string where "SYNC_DECLARE_ID_QUICKFIX = ''sync-declare-id''"

definition project_identity_collect ::
  "(string \<Rightarrow> string option) \<Rightarrow> (string \<Rightarrow> edit_document option) \<Rightarrow> host \<Rightarrow> parsed_document \<Rightarrow> url \<Rightarrow> url \<Rightarrow>
     string \<Rightarrow> diagnostic list" where
  "project_identity_collect parse parse_toml h doc uri anchor_toml_uri anchor_toml_text =
     (case declared_program_id (pd_symbols doc) of
        None \<Rightarrow> []
      | Some declared \<Rightarrow>
          (case preferred_program_id parse_toml h uri anchor_toml_text of
             None \<Rightarrow> []
           | Some expected \<Rightarrow>
               if apid_value expected = dpi_value declared then []
               else
                 [diagnostic_from_range_with_related parse (dpi_range declared) AnchorProjectId
                    (''`declare_id!` is `'' @ dpi_value declared @ ''` but Anchor.toml declares `'' @
                     apid_value expected @ ''` for `'' @ apid_name expected @ ''` on `'' @
                     apid_cluster expected @ ''`.'')
                    (Some (JObject
                      [(''quickfix'', JString SYNC_DECLARE_ID_QUICKFIX),
                       (''declaredProgramId'', JString (dpi_value declared)),
                       (''anchorTomlProgramId'', JString (apid_value expected)),
                       (''program'', JString (apid_name expected)),
                       (''cluster'', JString (apid_cluster expected)),
                       (''anchorToml'', JString anchor_toml_uri)]))
                    (Some [\<lparr>rel_location = \<lparr>loc_uri = anchor_toml_uri, loc_range = apid_range expected\<rparr>,
                            rel_message =
                              ''Anchor.toml declares `'' @ apid_value expected @ ''` for `'' @
                              apid_name expected @ ''` on `'' @ apid_cluster expected @ ''`.''\<rparr>])]))"

subsection \<open>Where a configuration comes from\<close>

lemma read_is_file: "read_limited_text h p = Some content \<Longrightarrow> is_file h p"
  by (auto simp: read_limited_text_def is_file_def bind_eq_Some_conv)

text \<open>The directory \<open>dir\<close> is the nearest one at or above \<open>start\<close> that has the file, and no directory on
  the way is shared or, below \<open>dir\<close>, a workspace root.\<close>

definition nearest_with_file :: "host \<Rightarrow> string \<Rightarrow> path list \<Rightarrow> path \<Rightarrow> path \<Rightarrow> bool" where
  "nearest_with_file h file_name roots start dir \<longleftrightarrow>
     prefix dir start \<and> is_file h (dir @ [file_name]) \<and>
     \<not> (\<exists>d. prefix dir d \<and> prefix d start \<and> is_shared_directory h d) \<and>
     \<not> (\<exists>d. strict_prefix dir d \<and> prefix d start \<and> (is_file h (d @ [file_name]) \<or> d \<in> set roots))"

lemma strict_prefix_butlast: "strict_prefix dir p \<longleftrightarrow> p \<noteq> [] \<and> prefix dir (butlast p)"
  by (cases p rule: rev_cases) (auto simp: strict_prefix_def dest: prefix_length_le)

lemma prefix_split: "prefix d p \<longleftrightarrow> d = p \<or> p \<noteq> [] \<and> prefix d (butlast p)"
  using strict_prefix_butlast [of d p] by (auto simp: strict_prefix_def)

lemma is_workspace_root_iff: "is_workspace_root p roots \<longleftrightarrow> p \<in> set roots"
  by (auto simp: is_workspace_root_def list_ex_iff)

lemma nearest_with_file_here:
  assumes "is_file h (p @ [f])"
  shows "nearest_with_file h f roots p dir \<longleftrightarrow> dir = p \<and> \<not> is_shared_directory h p"
proof
  assume n: "nearest_with_file h f roots p dir"
  have "\<not> strict_prefix dir p" using n assms by (auto simp: nearest_with_file_def)
  with n show "dir = p \<and> \<not> is_shared_directory h p" by (auto simp: nearest_with_file_def strict_prefix_def)
next
  assume "dir = p \<and> \<not> is_shared_directory h p"
  then show "nearest_with_file h f roots p dir"
    using assms by (auto simp: nearest_with_file_def strict_prefix_def dest: prefix_order.antisym)
qed

lemma nearest_with_file_up:
  assumes "\<not> is_file h (p @ [f])" "p \<noteq> []"
  shows "nearest_with_file h f roots p dir \<longleftrightarrow>
     \<not> is_shared_directory h p \<and> p \<notin> set roots \<and> nearest_with_file h f roots (butlast p) dir"
proof (cases "prefix dir (butlast p)")
  case True
  have s: "prefix d p \<longleftrightarrow> d = p \<or> prefix d (butlast p)" for d using assms(2) prefix_split [of d p] by blast
  have st: "strict_prefix dir p" using True assms(2) by (simp add: strict_prefix_butlast)
  have strict: "(\<exists>d. strict_prefix dir d \<and> prefix d p \<and> Q d) \<longleftrightarrow>
      Q p \<or> (\<exists>d. strict_prefix dir d \<and> prefix d (butlast p) \<and> Q d)" for Q
    unfolding s using st by auto
  have dir: "prefix dir p" using True s [of dir] by simp
  have weak: "(\<exists>d. prefix dir d \<and> prefix d p \<and> Q d) \<longleftrightarrow>
      Q p \<or> (\<exists>d. prefix dir d \<and> prefix d (butlast p) \<and> Q d)" for Q
    unfolding s using dir by auto
  show ?thesis
    unfolding nearest_with_file_def strict weak using True dir assms(1) by (simp add: conj_ac)
next
  case False
  have "\<not> nearest_with_file h f roots p dir"
  proof
    assume n: "nearest_with_file h f roots p dir"
    with False assms(2) have "dir = p" by (simp add: nearest_with_file_def prefix_split [of dir p])
    with n assms(1) show False by (simp add: nearest_with_file_def)
  qed
  with False show ?thesis by (simp add: nearest_with_file_def)
qed

lemma workspace_file_loop_iff:
  "workspace_file_loop h f roots n p = Some (u, content) \<longleftrightarrow>
     (\<exists>dir. nearest_with_file h f roots p dir \<and> length p < length dir + n \<and>
        read_limited_text h (dir @ [f]) = Some content \<and> host_from_path h (dir @ [f]) = Some u)"
proof (induction n arbitrary: p)
  case 0
  have "\<not> (nearest_with_file h f roots p dir \<and> length p < length dir)" for dir
    by (auto simp: nearest_with_file_def dest: prefix_length_le)
  then show ?case by auto
next
  case (Suc n)
  consider (here) "is_file h (p @ [f])" | (top) "\<not> is_file h (p @ [f])" "p = []"
    | (above) "\<not> is_file h (p @ [f])" "p \<noteq> []" by blast
  then show ?case
  proof cases
    case here
    then show ?thesis by (auto simp: nearest_with_file_here bind_eq_Some_conv)
  next
    case top
    then have "is_shared_directory h p" by (simp add: is_shared_directory_def)
    then have "\<not> nearest_with_file h f roots p dir" for dir
      using top(2) by (simp add: nearest_with_file_def)
    with \<open>is_shared_directory h p\<close> show ?thesis by simp
  next
    case above
    then have "length p < length dir + Suc n \<longleftrightarrow> length (butlast p) < length dir + n" for dir :: path
      by (cases p) auto
    then show ?thesis
      using above Suc.IH [of "butlast p"] by (auto simp: nearest_with_file_up is_workspace_root_iff)
  qed
qed

text \<open>C20: A configuration file is taken exactly from the nearest directory at or above the document that
  has one, at most 63 levels up, when no directory on the way is shared between users or a
  workspace root below it, and when the document is inside the workspace.\<close>

theorem config_file_exact:
  "nearest_workspace_file h uri file_name roots = Some (u, content) \<longleftrightarrow>
     (\<exists>start dir. search_start h uri = Some start \<and>
        nearest_with_file h file_name (file_workspace_roots h roots) start dir \<and>
        length start < length dir + 64 \<and>
        (file_workspace_roots h roots = [] \<or> is_within_workspace_roots start (file_workspace_roots h roots)) \<and>
        read_limited_text h (dir @ [file_name]) = Some content \<and>
        host_from_path h (dir @ [file_name]) = Some u)"
proof (cases "search_start h uri")
  case (Some start)
  then show ?thesis
    by (auto simp: nearest_workspace_file_def Let_def workspace_file_loop_iff MAX_WORKSPACE_ASCENT_def)
qed (simp add: nearest_workspace_file_def)

lemma config_inside_workspace:
  assumes "nearest_with_file h f roots start dir" "is_within_workspace_roots start roots"
  shows "is_within_workspace_roots dir roots"
proof -
  from assms(2) obtain root where r: "root \<in> set roots" "prefix root start"
    by (auto simp: is_within_workspace_roots_def list_ex_iff)
  from assms(1) have d: "prefix dir start" and "\<not> strict_prefix dir root"
    using r by (auto simp: nearest_with_file_def)
  with r(2) have "prefix root dir"
    by (metis prefix_same_cases strict_prefix_def prefix_order.refl)
  with r(1) show ?thesis by (auto simp: is_within_workspace_roots_def list_ex_iff)
qed

subsection \<open>The expected program id\<close>

lemma find_Some_mem: "find p xs = Some x \<Longrightarrow> x \<in> set xs \<and> p x"
  by (auto simp: find_Some_iff)

lemma preferred_of_mem: "preferred_of provider candidates = Some p \<Longrightarrow> p \<in> set candidates"
  by (auto simp: preferred_of_def or_else_def bind_eq_Some_conv dest: find_Some_mem
      split: option.splits list.splits)

lemma preferred_of_None: "preferred_of provider candidates = None \<longleftrightarrow> candidates = []"
  by (cases candidates) (auto simp: preferred_of_def or_else_def split: option.split)

lemma preferred_of_provider:
  "p \<in> set candidates \<Longrightarrow> apid_cluster p = cluster \<Longrightarrow> preferred_of (Some cluster) candidates = Some q \<Longrightarrow>
     apid_cluster q = cluster"
  by (auto simp: preferred_of_def or_else_def find_None_iff dest: find_Some_mem split: option.splits)

end
