(* ===== verification/Frameworks.thy ===== *)
theory Frameworks
  imports Rust_Prelude
begin

unbundle bit_operations_syntax

section \<open>The framework of a program\<close>

text \<open>
  \<open>src/solana/frameworks.rs\<close>: which framework a document is written for, from its project, its
  manifest and the crates its source names, and the sets of frameworks that diagnostic rules are
  registered for.  The traversal of the syntax tree (\<open>syn\<close>) is given as the list of the nodes it
  visits, the manifest as what the parser of \<open>cargo_toml\<close> delivers of its dependencies.
\<close>

datatype framework_id = Unknown | AnchorV1 | AnchorV2Preview | Pinocchio | NativeSolana

datatype solana_project_kind = ProjectAnchor | ProjectPinocchio | ProjectNativeSolana

definition PINOCCHIO_DEPENDENCIES :: "string list" where
  "PINOCCHIO_DEPENDENCIES =
     [''pinocchio'', ''pinocchio-associated-token-account'', ''pinocchio-pubkey'', ''pinocchio-system'',
      ''pinocchio-token'', ''pinocchio-token-interface'', ''solana-account-view'', ''solana-instruction-view'']"

definition PINOCCHIO_SOURCE_CRATES :: "string list" where
  "PINOCCHIO_SOURCE_CRATES =
     [''pinocchio'', ''pinocchio_associated_token_account'', ''pinocchio_pubkey'', ''pinocchio_system'',
      ''pinocchio_token'', ''pinocchio_token_interface'', ''solana_account_view'', ''solana_instruction_view'']"

definition NATIVE_SOLANA_DEPENDENCIES :: "string list" where
  "NATIVE_SOLANA_DEPENDENCIES =
     [''solana-address'', ''solana-account-info'', ''solana-cpi'', ''solana-instruction'', ''solana-msg'',
      ''solana-program'', ''solana-program-entrypoint'', ''solana-program-error'', ''solana-pubkey'',
      ''solana-sdk-ids'', ''solana-sysvar'', ''solana-system-interface'']"

definition NATIVE_SOLANA_SOURCE_CRATES :: "string list" where
  "NATIVE_SOLANA_SOURCE_CRATES =
     [''solana_address'', ''solana_account_info'', ''solana_cpi'', ''solana_instruction'', ''solana_msg'',
      ''solana_program'', ''solana_program_entrypoint'', ''solana_program_error'', ''solana_pubkey'',
      ''solana_sdk_ids'', ''solana_sysvar'', ''solana_system_interface'']"

definition ANCHOR_SOURCE_HINTS :: "string list" where
  "ANCHOR_SOURCE_HINTS =
     [''anchor_lang::'', ''anchor_spl::'', ''anchor_lang_v2::'', ''anchor_spl_v2::'', ''#[program]'']"

subsection \<open>Names\<close>

fun framework_as_str :: "framework_id \<Rightarrow> string" where
  "framework_as_str Unknown = ''unknown''"
| "framework_as_str AnchorV1 = ''anchor-v1''"
| "framework_as_str AnchorV2Preview = ''anchor-v2-preview''"
| "framework_as_str Pinocchio = ''pinocchio''"
| "framework_as_str NativeSolana = ''native-solana''"

fun diagnostic_program_kind :: "framework_id \<Rightarrow> string" where
  "diagnostic_program_kind AnchorV1 = ''anchor''"
| "diagnostic_program_kind AnchorV2Preview = ''anchor''"
| "diagnostic_program_kind Pinocchio = ''pinocchio''"
| "diagnostic_program_kind NativeSolana = ''native-solana''"
| "diagnostic_program_kind Unknown = ''unknown''"

fun framework_label :: "framework_id \<Rightarrow> string" where
  "framework_label Unknown = ''unknown Solana framework''"
| "framework_label AnchorV1 = ''Anchor''"
| "framework_label AnchorV2Preview = ''Anchor v2 preview''"
| "framework_label Pinocchio = ''Pinocchio''"
| "framework_label NativeSolana = ''native Solana''"

definition is_anchor :: "framework_id \<Rightarrow> bool" where
  "is_anchor f \<longleftrightarrow> f = AnchorV1 \<or> f = AnchorV2Preview"

definition build_command :: "framework_id \<Rightarrow> string" where
  "build_command f = (if is_anchor f then ''anchor build'' else ''cargo build-sbf'')"

definition idl_label :: "framework_id \<Rightarrow> string" where
  "idl_label f = (if is_anchor f then ''Anchor IDL'' else ''Solana IDL'')"

definition types_label :: "framework_id \<Rightarrow> string" where
  "types_label f = (if is_anchor f then ''Anchor TypeScript types'' else ''generated TypeScript client'')"

fun from_project_kind :: "solana_project_kind \<Rightarrow> framework_id" where
  "from_project_kind ProjectAnchor = AnchorV1"
| "from_project_kind ProjectPinocchio = Pinocchio"
| "from_project_kind ProjectNativeSolana = NativeSolana"

subsection \<open>Sets of frameworks\<close>

definition ANCHOR_V1_BIT :: u8 where "ANCHOR_V1_BIT = push_bit 0 1"
definition ANCHOR_V2_PREVIEW_BIT :: u8 where "ANCHOR_V2_PREVIEW_BIT = push_bit 1 1"
definition PINOCCHIO_BIT :: u8 where "PINOCCHIO_BIT = push_bit 2 1"
definition NATIVE_SOLANA_BIT :: u8 where "NATIVE_SOLANA_BIT = push_bit 3 1"

definition SOLANA_PROGRAM_BITS :: u8 where
  "SOLANA_PROGRAM_BITS = ANCHOR_V1_BIT OR ANCHOR_V2_PREVIEW_BIT OR PINOCCHIO_BIT OR NATIVE_SOLANA_BIT"

datatype framework_set = FrameworkSet u8

definition ANCHOR_FRAMEWORKS :: framework_set where
  "ANCHOR_FRAMEWORKS = FrameworkSet (ANCHOR_V1_BIT OR ANCHOR_V2_PREVIEW_BIT)"

definition SOLANA_PROGRAMS :: framework_set where
  "SOLANA_PROGRAMS = FrameworkSet SOLANA_PROGRAM_BITS"

fun framework_set_contains :: "framework_set \<Rightarrow> framework_id \<Rightarrow> bool" where
  "framework_set_contains (FrameworkSet bits) Unknown \<longleftrightarrow> True"
| "framework_set_contains (FrameworkSet bits) AnchorV1 \<longleftrightarrow> bits AND ANCHOR_V1_BIT \<noteq> 0"
| "framework_set_contains (FrameworkSet bits) AnchorV2Preview \<longleftrightarrow> bits AND ANCHOR_V2_PREVIEW_BIT \<noteq> 0"
| "framework_set_contains (FrameworkSet bits) Pinocchio \<longleftrightarrow> bits AND PINOCCHIO_BIT \<noteq> 0"
| "framework_set_contains (FrameworkSet bits) NativeSolana \<longleftrightarrow> bits AND NATIVE_SOLANA_BIT \<noteq> 0"

subsection \<open>Manifests\<close>

record dependency =
  dep_name :: string
  dep_package :: "string option"
  dep_req :: "string option"

record dependency_sets =
  normal_dependencies :: "dependency list"
  dev_dependencies :: "dependency list"
  build_dependencies :: "dependency list"

record manifest =
  manifest_dependencies :: dependency_sets
  manifest_targets :: "dependency_sets list"

definition sets_of :: "dependency_sets \<Rightarrow> dependency list list" where
  "sets_of d = [normal_dependencies d, dev_dependencies d, build_dependencies d]"

definition all_dependency_sets :: "manifest \<Rightarrow> dependency list list" where
  "all_dependency_sets m = sets_of (manifest_dependencies m) @ concat (map sets_of (manifest_targets m))"

definition extend_dependency_names :: "dependency list \<Rightarrow> string set \<Rightarrow> string set" where
  "extend_dependency_names ds names =
     fold (\<lambda>d names. let names1 = insert (dep_name d) names in
         case dep_package d of None \<Rightarrow> names1 | Some package \<Rightarrow> insert package names1) ds names"

definition version_requirement_starts_at_v2 :: "string \<Rightarrow> bool" where
  "version_requirement_starts_at_v2 requirement =
     (case dropWhile (\<lambda>c. c \<in> set '' ^~=><'') requirement of
        [] \<Rightarrow> False
      | c # rest \<Rightarrow> c = CHR ''2'' \<and> (case rest of [] \<Rightarrow> True | d # _ \<Rightarrow> \<not> is_ascii_digit d))"

definition dependency_declares_v2 :: "dependency \<Rightarrow> bool" where
  "dependency_declares_v2 d = unwrap_or False (map_option version_requirement_starts_at_v2 (dep_req d))"

definition dependencies_have_anchor_v2_dependency :: "dependency list \<Rightarrow> bool" where
  "dependencies_have_anchor_v2_dependency ds =
     list_ex (\<lambda>d. unwrap_or (dep_name d) (dep_package d) \<in> {''anchor-lang'', ''anchor-spl''} \<and>
         dependency_declares_v2 d) ds"

definition manifest_has_anchor_v2_dependency :: "manifest \<Rightarrow> bool" where
  "manifest_has_anchor_v2_dependency m =
     list_ex dependencies_have_anchor_v2_dependency (all_dependency_sets m)"

definition framework_from_manifest :: "(string \<Rightarrow> manifest option) \<Rightarrow> string \<Rightarrow> framework_id option" where
  "framework_from_manifest parse manifest_text =
     Option.bind (parse manifest_text) (\<lambda>m.
       let dependencies = fold extend_dependency_names (all_dependency_sets m) {} in
       if manifest_has_anchor_v2_dependency m then Some AnchorV2Preview
       else if ''anchor-lang-v2'' \<in> dependencies \<or> ''anchor-spl-v2'' \<in> dependencies then Some AnchorV2Preview
       else if ''anchor-lang'' \<in> dependencies \<or> ''anchor-spl'' \<in> dependencies then Some AnchorV1
       else if list_ex (\<lambda>d. d \<in> dependencies) PINOCCHIO_DEPENDENCIES then Some Pinocchio
       else if list_ex (\<lambda>d. d \<in> dependencies) NATIVE_SOLANA_DEPENDENCIES then Some NativeSolana
       else None)"

subsection \<open>Sources\<close>

text \<open>The nodes at which the visitor looks, and the step of the visitor at each.\<close>

datatype visited_node =
    AttributeNode "string list"
  | PathNode "string list"
  | TypePathNode "string list"
  | UsePathNode string
  | UseNameNode string
  | UseRenameNode string

definition record_crate_ident :: "string \<Rightarrow> framework_id \<Rightarrow> framework_id" where
  "record_crate_ident ident f =
     (if ident = ''anchor_lang_v2'' \<or> ident = ''anchor_spl_v2'' then AnchorV2Preview
      else if (ident = ''anchor_lang'' \<or> ident = ''anchor_spl'') \<and> \<not> is_anchor f then AnchorV1
      else if ident \<in> set PINOCCHIO_SOURCE_CRATES \<and> \<not> is_anchor f then Pinocchio
      else if ident \<in> set NATIVE_SOLANA_SOURCE_CRATES \<and> f = Unknown then NativeSolana
      else f)"

definition record_path :: "string list \<Rightarrow> framework_id \<Rightarrow> framework_id" where
  "record_path segments f = (case segments of [] \<Rightarrow> f | first # _ \<Rightarrow> record_crate_ident first f)"

definition record_type_path :: "string list \<Rightarrow> framework_id \<Rightarrow> framework_id" where
  "record_type_path segments f =
     (let f1 = record_path segments f in
      if segments \<noteq> [] \<and> last segments = ''ProgramResult'' \<and> f1 = Unknown then NativeSolana else f1)"

fun visit_node :: "visited_node \<Rightarrow> framework_id \<Rightarrow> framework_id" where
  "visit_node (AttributeNode path) f = (if path = [''program''] \<and> \<not> is_anchor f then AnchorV1 else f)"
| "visit_node (PathNode segments) f = record_path segments f"
| "visit_node (TypePathNode segments) f = record_type_path segments f"
| "visit_node (UsePathNode ident) f = record_crate_ident ident f"
| "visit_node (UseNameNode ident) f = record_crate_ident ident f"
| "visit_node (UseRenameNode ident) f = record_crate_ident ident f"

definition source_has_anchor_framework_hint :: "string \<Rightarrow> bool" where
  "source_has_anchor_framework_hint source = list_ex (\<lambda>hint. str_contains hint source) ANCHOR_SOURCE_HINTS"

definition framework_from_document :: "visited_node list \<Rightarrow> string \<Rightarrow> framework_id" where
  "framework_from_document nodes source =
     (let f = fold visit_node nodes Unknown in
      if f = Unknown \<and> source_has_anchor_framework_hint source then AnchorV1 else f)"

definition refine_project_framework :: "framework_id \<Rightarrow> framework_id option \<Rightarrow> framework_id \<Rightarrow> framework_id" where
  "refine_project_framework project_id manifest_id document_id =
     (if is_anchor project_id \<and> (manifest_id = Some AnchorV2Preview \<or> document_id = AnchorV2Preview)
      then AnchorV2Preview else project_id)"

definition refine_document_framework :: "framework_id \<Rightarrow> framework_id option \<Rightarrow> framework_id" where
  "refine_document_framework document_id manifest_id =
     (if document_id = AnchorV1 \<and> manifest_id = Some AnchorV2Preview then AnchorV2Preview else document_id)"

definition refine_manifest_document_framework :: "framework_id option \<Rightarrow> framework_id \<Rightarrow> framework_id" where
  "refine_manifest_document_framework manifest_id document_id =
     (if document_id \<noteq> Unknown then refine_document_framework document_id manifest_id
      else unwrap_or Unknown manifest_id)"

definition from_project_and_document ::
  "(string \<Rightarrow> manifest option) \<Rightarrow> solana_project_kind option \<Rightarrow> string option \<Rightarrow> visited_node list \<Rightarrow>
     string \<Rightarrow> framework_id" where
  "from_project_and_document parse project manifest_text nodes source =
     (let manifest_id = Option.bind manifest_text (framework_from_manifest parse);
          document_id = framework_from_document nodes source in
      case project of
        Some kind \<Rightarrow> refine_project_framework (from_project_kind kind) manifest_id document_id
      | None \<Rightarrow> refine_manifest_document_framework manifest_id document_id)"

subsection \<open>Evidence for frameworks\<close>

text \<open>The frameworks in the order of the strength of their evidence, and the framework that one node
  is evidence for.\<close>

fun strength :: "framework_id \<Rightarrow> nat" where
  "strength Unknown = 0"
| "strength NativeSolana = 1"
| "strength Pinocchio = 2"
| "strength AnchorV1 = 3"
| "strength AnchorV2Preview = 4"

definition crate_framework :: "string \<Rightarrow> framework_id" where
  "crate_framework ident =
     (if ident \<in> {''anchor_lang_v2'', ''anchor_spl_v2''} then AnchorV2Preview
      else if ident \<in> {''anchor_lang'', ''anchor_spl''} then AnchorV1
      else if ident \<in> set PINOCCHIO_SOURCE_CRATES then Pinocchio
      else if ident \<in> set NATIVE_SOLANA_SOURCE_CRATES then NativeSolana
      else Unknown)"

definition stronger :: "framework_id \<Rightarrow> framework_id \<Rightarrow> framework_id" where
  "stronger f g = (if strength f < strength g then g else f)"

fun node_framework :: "visited_node \<Rightarrow> framework_id" where
  "node_framework (AttributeNode path) = (if path = [''program''] then AnchorV1 else Unknown)"
| "node_framework (PathNode segments) = (case segments of [] \<Rightarrow> Unknown | s # _ \<Rightarrow> crate_framework s)"
| "node_framework (TypePathNode segments) =
     (case segments of
        [] \<Rightarrow> Unknown
      | s # _ \<Rightarrow> stronger (crate_framework s) (if last segments = ''ProgramResult'' then NativeSolana else Unknown))"
| "node_framework (UsePathNode ident) = crate_framework ident"
| "node_framework (UseNameNode ident) = crate_framework ident"
| "node_framework (UseRenameNode ident) = crate_framework ident"

lemma strength_inj [simp]: "strength f = strength g \<longleftrightarrow> f = g"
  by (cases f; cases g) simp_all

lemma strength_stronger [simp]: "strength (stronger f g) = max (strength f) (strength g)"
  by (simp add: stronger_def)

lemma record_crate_stronger: "record_crate_ident ident f = stronger f (crate_framework ident)"
proof -
  have "\<not> (ident \<in> set NATIVE_SOLANA_SOURCE_CRATES \<and> ident \<in> set PINOCCHIO_SOURCE_CRATES)"
    by (auto simp: NATIVE_SOLANA_SOURCE_CRATES_def PINOCCHIO_SOURCE_CRATES_def)
  then show ?thesis
    by (cases f) (simp_all add: record_crate_ident_def crate_framework_def stronger_def is_anchor_def)
qed

lemma visit_node_stronger: "visit_node node f = stronger f (node_framework node)"
proof (cases node)
  case (AttributeNode path)
  then show ?thesis by (cases f) (simp_all add: stronger_def is_anchor_def)
next
  case (PathNode segments)
  then show ?thesis by (cases segments) (simp_all add: record_path_def record_crate_stronger stronger_def)
next
  case (TypePathNode segments)
  then show ?thesis
    by (cases segments; cases f; cases "crate_framework (hd segments)")
       (simp_all add: record_type_path_def record_path_def record_crate_stronger stronger_def Let_def)
qed (simp_all add: record_crate_stronger)

lemma strength_fold: "strength (fold visit_node nodes f) = Max (insert (strength f) (strength ` node_framework ` set nodes))"
proof (induction nodes arbitrary: f)
  case (Cons node nodes)
  have "Max (insert (max a b) X) = Max (insert a (insert b X))" if "finite X" for a b :: nat and X
    using that by (cases "X = {}") (simp_all add: max.assoc)
  with Cons show ?case by (simp add: visit_node_stronger)
qed simp

subsection \<open>Properties\<close>

text \<open>The framework of a source is the one with the strongest evidence in it, wherever that stands;
  only a source without any is searched for a textual hint.\<close>

theorem document_framework_is_strongest:
  "strength (framework_from_document nodes source) =
     (let evidence = Max (insert 0 (strength ` node_framework ` set nodes)) in
      if evidence = 0 \<and> source_has_anchor_framework_hint source then strength AnchorV1 else evidence)"
proof -
  have "strength (fold visit_node nodes Unknown) = Max (insert 0 (strength ` node_framework ` set nodes))"
    by (simp add: strength_fold)
  moreover have "fold visit_node nodes Unknown = Unknown \<longleftrightarrow> strength (fold visit_node nodes Unknown) = 0"
    using strength_inj [of "fold visit_node nodes Unknown" Unknown] by simp
  ultimately show ?thesis by (auto simp: framework_from_document_def Let_def)
qed

lemma anchor_rules_apply: "framework_set_contains ANCHOR_FRAMEWORKS f \<longleftrightarrow> is_anchor f \<or> f = Unknown"
  by (cases f) (simp_all add: ANCHOR_FRAMEWORKS_def ANCHOR_V1_BIT_def ANCHOR_V2_PREVIEW_BIT_def
      PINOCCHIO_BIT_def NATIVE_SOLANA_BIT_def is_anchor_def)

lemma solana_rules_apply: "framework_set_contains SOLANA_PROGRAMS f"
  by (cases f) (simp_all add: SOLANA_PROGRAMS_def SOLANA_PROGRAM_BITS_def ANCHOR_V1_BIT_def ANCHOR_V2_PREVIEW_BIT_def
      PINOCCHIO_BIT_def NATIVE_SOLANA_BIT_def)

text \<open>A requirement that excludes version 2 counts as a declaration of it.\<close>

lemma upper_bound_counts_as_v2: "version_requirement_starts_at_v2 ''<2.0.0''"
  by (simp add: version_requirement_starts_at_v2_def is_ascii_digit_def byte_def)

end
