(* ===== verification/Solana_Project.thy ===== *)
theory Solana_Project
  imports Project_Config Frameworks
begin

section \<open>Solana programs on disk\<close>

text \<open>
  \<open>src/solana/project/mod.rs\<close>: the manifests around a document, the kind of program a manifest and a
  source declare, and the programs below the workspace roots.  \<open>parse\<close> is \<open>Manifest::from_str\<close> of the
  \<open>cargo_toml\<close> crate; its dependency tables are those of theory Frameworks, extended by the package
  name, the library target and whether there is a workspace section.  \<open>parse_document\<close> is the parser
  of Rust sources.
\<close>

definition MAX_MANIFEST_DEPTH :: nat where "MAX_MANIFEST_DEPTH = 5"
definition ANCHOR_LANG_DEPENDENCY :: string where "ANCHOR_LANG_DEPENDENCY = ''anchor-lang''"
definition CARGO_TOML_FILE :: string where "CARGO_TOML_FILE = ''Cargo.toml''"

definition PROJECT_PINOCCHIO_DEPENDENCIES :: "string list" where
  "PROJECT_PINOCCHIO_DEPENDENCIES =
     [''pinocchio'', ''pinocchio-associated-token-account'', ''pinocchio-pubkey'', ''pinocchio-system'',
      ''pinocchio-token'', ''pinocchio-token-interface'', ''solana-account-view'', ''solana-instruction-view'']"

definition PINOCCHIO_SOURCE_HINTS :: "string list" where
  "PINOCCHIO_SOURCE_HINTS =
     [''pinocchio::'', ''pinocchio_'', ''solana_account_view::'', ''solana_instruction_view::'']"

definition PROJECT_NATIVE_DEPENDENCIES :: "string list" where
  "PROJECT_NATIVE_DEPENDENCIES =
     [''solana-program'', ''solana-account-info'', ''solana-program-entrypoint'', ''solana-cpi'', ''solana-pubkey'']"

fun project_kind_as_str :: "solana_project_kind \<Rightarrow> string" where
  "project_kind_as_str ProjectAnchor = ''anchor''"
| "project_kind_as_str ProjectPinocchio = ''pinocchio''"
| "project_kind_as_str ProjectNativeSolana = ''native''"

text \<open>The derived order: that of the declaration.\<close>

fun project_kind_rank :: "solana_project_kind \<Rightarrow> nat" where
  "project_kind_rank ProjectAnchor = 0"
| "project_kind_rank ProjectPinocchio = 1"
| "project_kind_rank ProjectNativeSolana = 2"

record solana_program =
  sp_kind :: solana_project_kind
  sp_root :: path
  sp_source_root :: "path option"
  sp_name :: string
  sp_id :: "string option"
  sp_cluster :: "string option"
  sp_metadata_uri :: url
  sp_metadata_range :: range

definition id_display :: "solana_program \<Rightarrow> string" where
  "id_display p = unwrap_or ''unknown'' (sp_id p)"

definition cluster_display :: "solana_program \<Rightarrow> string" where
  "cluster_display p = unwrap_or ''unknown'' (sp_cluster p)"

subsection \<open>Dependencies\<close>

record cargo_manifest_deps =
  dep_names :: "string set"
  import_roots :: "string \<Rightarrow> string option"

definition no_deps :: cargo_manifest_deps where
  "no_deps = \<lparr>dep_names = {}, import_roots = (\<lambda>_. None)\<rparr>"

definition normalize_dependency_name :: "string \<Rightarrow> string" where
  "normalize_dependency_name name = str_replace_char CHR ''_'' CHR ''-'' name"

definition contains_crate :: "cargo_manifest_deps \<Rightarrow> string \<Rightarrow> bool" where
  "contains_crate deps crate_name \<longleftrightarrow>
     (\<exists>name \<in> dep_names deps. normalize_dependency_name name = normalize_dependency_name crate_name)"

definition import_root_matches_crate :: "cargo_manifest_deps \<Rightarrow> string \<Rightarrow> string \<Rightarrow> bool" where
  "import_root_matches_crate deps import_root crate_name \<longleftrightarrow>
     import_roots deps (normalize_dependency_name import_root) = Some (normalize_dependency_name crate_name)"

definition insert_dependency :: "string \<Rightarrow> string option \<Rightarrow> cargo_manifest_deps \<Rightarrow> cargo_manifest_deps" where
  "insert_dependency import_root package_name deps =
     (let package = unwrap_or import_root package_name in
      \<lparr>dep_names = insert package (insert import_root (dep_names deps)),
       import_roots = (import_roots deps)(normalize_dependency_name import_root \<mapsto> normalize_dependency_name package)\<rparr>)"

definition extend_manifest_deps :: "dependency list \<Rightarrow> cargo_manifest_deps \<Rightarrow> cargo_manifest_deps" where
  "extend_manifest_deps ds deps = fold (\<lambda>d. insert_dependency (dep_name d) (dep_package d)) ds deps"

definition extend_all_dependency_names :: "'a manifest_scheme \<Rightarrow> cargo_manifest_deps \<Rightarrow> cargo_manifest_deps" where
  "extend_all_dependency_names m deps =
     fold extend_manifest_deps
       (sets_of (manifest_dependencies m) @ concat (map sets_of (manifest_targets m))) deps"

record cargo_manifest_file = manifest +
  cmf_package_name :: "string option"
  cmf_lib :: "(string option \<times> string list) option"
  cmf_workspace :: bool

type_synonym manifest_parser = "string \<Rightarrow> cargo_manifest_file option"

definition parse_manifest_deps :: "manifest_parser \<Rightarrow> string \<Rightarrow> cargo_manifest_deps" where
  "parse_manifest_deps parse content =
     unwrap_or no_deps (map_option (\<lambda>m. extend_all_dependency_names m no_deps) (parse content))"

record cargo_manifest =
  cm_name :: "string option"
  cm_lib_name :: "string option"
  cm_lib_crate_types :: "string list"
  cm_dependencies :: cargo_manifest_deps

definition parse_cargo_manifest :: "manifest_parser \<Rightarrow> string \<Rightarrow> cargo_manifest option" where
  "parse_cargo_manifest parse content =
     map_option
       (\<lambda>m. \<lparr>cm_name = cmf_package_name m,
            cm_lib_name = Option.bind (cmf_lib m) fst,
            cm_lib_crate_types = unwrap_or [] (map_option snd (cmf_lib m)),
            cm_dependencies = extend_all_dependency_names m no_deps\<rparr>)
       (parse content)"

subsection \<open>The kind of a program\<close>

definition manifest_is_program_library :: "cargo_manifest \<Rightarrow> bool" where
  "manifest_is_program_library m \<longleftrightarrow> list_ex (\<lambda>t. t = ''cdylib'') (cm_lib_crate_types m)"

definition manifest_or_source_declares_anchor :: "cargo_manifest \<Rightarrow> parsed_document \<Rightarrow> bool" where
  "manifest_or_source_declares_anchor m doc \<longleftrightarrow>
     contains_crate (cm_dependencies m) ANCHOR_LANG_DEPENDENCY \<or> pd_program_module doc"

definition classify_program :: "cargo_manifest \<Rightarrow> string \<Rightarrow> solana_project_kind option" where
  "classify_program m source_text =
     (if \<not> manifest_is_program_library m then None
      else if (\<exists>d \<in> dep_names (cm_dependencies m). d \<in> set PROJECT_PINOCCHIO_DEPENDENCIES) \<or>
          list_ex (\<lambda>hint. str_contains hint source_text) PINOCCHIO_SOURCE_HINTS
        then Some ProjectPinocchio
      else
        (let has_native_dependency =
               (\<exists>d \<in> dep_names (cm_dependencies m). d \<in> set PROJECT_NATIVE_DEPENDENCIES);
             has_native_entrypoint =
               str_contains ''entrypoint!'' source_text \<or> str_contains ''process_instruction'' source_text \<or>
               str_contains ''declare_id!'' source_text
         in if has_native_dependency \<and> has_native_entrypoint \<or>
               str_contains ''solana_program::entrypoint'' source_text
            then Some ProjectNativeSolana else None))"

definition classify_manifest_text :: "manifest_parser \<Rightarrow> string \<Rightarrow> string \<Rightarrow> solana_project_kind option" where
  "classify_manifest_text parse content source_text =
     Option.bind (parse_cargo_manifest parse content) (\<lambda>m. classify_program m source_text)"

subsection \<open>Manifests around a document\<close>

function manifest_path_loop :: "host \<Rightarrow> path \<Rightarrow> path option" where
  "manifest_path_loop h p =
     (if is_file h (p @ [CARGO_TOML_FILE]) then Some (p @ [CARGO_TOML_FILE])
      else if p = [] then None else manifest_path_loop h (butlast p))"
  by pat_completeness auto
termination
  by (relation "measure (length \<circ> snd)") auto

declare manifest_path_loop.simps [simp del]

definition nearest_manifest_path :: "host \<Rightarrow> url \<Rightarrow> path option" where
  "nearest_manifest_path h uri = Option.bind (search_start h uri) (manifest_path_loop h)"

definition nearest_manifest :: "host \<Rightarrow> url \<Rightarrow> (url \<times> string) option" where
  "nearest_manifest h uri =
     Option.bind (nearest_manifest_path h uri) (\<lambda>p.
     Option.bind (read_limited_text h p) (\<lambda>content.
       map_option (\<lambda>u. (u, content)) (host_from_path h p)))"

definition declares_workspace :: "manifest_parser \<Rightarrow> string \<Rightarrow> bool" where
  "declares_workspace parse content \<longleftrightarrow> (case parse content of None \<Rightarrow> False | Some m \<Rightarrow> cmf_workspace m)"

function workspace_manifest_loop :: "manifest_parser \<Rightarrow> host \<Rightarrow> path \<Rightarrow> (url \<times> string) option" where
  "workspace_manifest_loop parse h p =
     (case (if is_file h (p @ [CARGO_TOML_FILE]) then read_limited_text h (p @ [CARGO_TOML_FILE]) else None) of
        Some content \<Rightarrow>
          if declares_workspace parse content then
            map_option (\<lambda>u. (u, content)) (host_from_path h (p @ [CARGO_TOML_FILE]))
          else if p = [] then None else workspace_manifest_loop parse h (butlast p)
      | None \<Rightarrow> if p = [] then None else workspace_manifest_loop parse h (butlast p))"
  by pat_completeness auto
termination
  by (relation "measure (length \<circ> snd \<circ> snd)") auto

declare workspace_manifest_loop.simps [simp del]

definition nearest_workspace_manifest :: "manifest_parser \<Rightarrow> host \<Rightarrow> url \<Rightarrow> (url \<times> string) option" where
  "nearest_workspace_manifest parse h uri =
     Option.bind (search_start h uri) (workspace_manifest_loop parse h)"

function cargo_build_root :: "manifest_parser \<Rightarrow> host \<Rightarrow> path \<Rightarrow> path option" where
  "cargo_build_root parse h p =
     (if is_file h (p @ [CARGO_TOML_FILE]) \<and>
         (case read_limited_text h (p @ [CARGO_TOML_FILE]) of
            None \<Rightarrow> False | Some content \<Rightarrow> declares_workspace parse content)
      then Some p
      else if p = [] then None else cargo_build_root parse h (butlast p))"
  by pat_completeness auto
termination
  by (relation "measure (length \<circ> snd \<circ> snd)") auto

declare cargo_build_root.simps [simp del]

subsection \<open>Files below a root\<close>

definition should_skip_dir :: "path \<Rightarrow> bool" where
  "should_skip_dir p \<longleftrightarrow> p \<noteq> [] \<and> last p \<in> {''.git'', ''node_modules'', ''target'', ''.anchor''}"

definition child_directories :: "host \<Rightarrow> path \<Rightarrow> path list" where
  "child_directories h base =
     sort (filter (\<lambda>p. is_dir h p \<and> \<not> should_skip_dir p)
       (map (\<lambda>entry. base @ [entry]) (unwrap_or [] (host_directory h base))))"

text \<open>The fuel is the number of levels left, \<open>max_depth + 1 - depth\<close>.\<close>

fun collect_files_named :: "host \<Rightarrow> string \<Rightarrow> nat \<Rightarrow> path \<Rightarrow> path list" where
  "collect_files_named h name 0 base = []"
| "collect_files_named h name (Suc n) base =
     (if is_file h (base @ [name]) then [base @ [name]] else []) @
     concat (map (collect_files_named h name n) (child_directories h base))"

definition files_named :: "host \<Rightarrow> string \<Rightarrow> path \<Rightarrow> path list" where
  "files_named h name base = remdups_adj (sort (collect_files_named h name (MAX_MANIFEST_DEPTH + 1) base))"

definition cargo_manifest_paths :: "host \<Rightarrow> path \<Rightarrow> path list" where
  "cargo_manifest_paths h base = files_named h CARGO_TOML_FILE base"

definition anchor_toml_paths :: "host \<Rightarrow> path \<Rightarrow> path list" where
  "anchor_toml_paths h base = files_named h ANCHOR_TOML_FILE base"

definition program_source_root :: "host \<Rightarrow> path \<Rightarrow> string \<Rightarrow> path option" where
  "program_source_root h base program_name =
     (let programs = base @ [''programs'']; direct = programs @ [program_name, ''src''] in
      if is_dir h direct then Some direct
      else
        Option.bind (host_directory h programs) (\<lambda>entries.
          find_map
            (\<lambda>entry.
              if normalize_program_name entry = program_name \<and> is_dir h (programs @ [entry, ''src''])
              then Some (programs @ [entry, ''src'']) else None)
            entries))"

definition read_package_source :: "host \<Rightarrow> path \<Rightarrow> string option" where
  "read_package_source h source_root = read_limited_text h (source_root @ [''lib.rs''])"

subsection \<open>Detection\<close>

definition existing_source_root :: "host \<Rightarrow> path \<Rightarrow> path option" where
  "existing_source_root h package_root =
     (if is_dir h (package_root @ [''src'']) then Some (package_root @ [''src'']) else None)"

definition declared_id :: "parsed_document \<Rightarrow> string option" where
  "declared_id doc = map_option dpi_value (declared_program_id (pd_symbols doc))"

definition raw_program_name :: "cargo_manifest \<Rightarrow> string option" where
  "raw_program_name m = or_else (cm_lib_name m) (cm_name m)"

definition detect_manifest_program ::
  "manifest_parser \<Rightarrow> (string \<Rightarrow> parsed_document option) \<Rightarrow> host \<Rightarrow> path \<Rightarrow> parsed_document option \<Rightarrow>
     solana_program option" where
  "detect_manifest_program parse parse_document h p doc =
     Option.bind (read_limited_text h p) (\<lambda>content.
     Option.bind (parse_cargo_manifest parse content) (\<lambda>m.
     if p = [] then None
     else
       (let package_root = butlast p;
            base = unwrap_or package_root (cargo_build_root parse h package_root);
            source_root = existing_source_root h package_root;
            source_text = unwrap_or []
              (or_else (map_option pd_source doc) (Option.bind source_root (read_package_source h)));
            id = or_else (Option.bind doc declared_id) (Option.bind (parse_document source_text) declared_id)
        in
        Option.bind (classify_program m source_text) (\<lambda>k.
        Option.bind (raw_program_name m) (\<lambda>raw_name.
        Option.bind (host_from_path h p) (\<lambda>metadata_uri.
          Some \<lparr>sp_kind = k, sp_root = base, sp_source_root = source_root,
                sp_name = normalize_program_name raw_name, sp_id = id, sp_cluster = None,
                sp_metadata_uri = metadata_uri, sp_metadata_range = default_range\<rparr>))))))"

definition detect_cargo_for_document ::
  "manifest_parser \<Rightarrow> (string \<Rightarrow> parsed_document option) \<Rightarrow> host \<Rightarrow> url \<Rightarrow> parsed_document \<Rightarrow> solana_program option" where
  "detect_cargo_for_document parse parse_document h uri doc =
     Option.bind (nearest_manifest_path h uri) (\<lambda>p.
       detect_manifest_program parse parse_document h p (Some doc))"

definition detect_anchor_from_manifest ::
  "manifest_parser \<Rightarrow> host \<Rightarrow> url \<Rightarrow> parsed_document \<Rightarrow> url \<Rightarrow> path \<Rightarrow> solana_program option" where
  "detect_anchor_from_manifest parse h uri doc anchor_toml_uri base =
     Option.bind (nearest_manifest_path h uri) (\<lambda>p.
     Option.bind (read_limited_text h p) (\<lambda>content.
     Option.bind (parse_cargo_manifest parse content) (\<lambda>m.
       if \<not> manifest_is_program_library m \<or> \<not> manifest_or_source_declares_anchor m doc then None
       else if p = [] then None
       else
         Option.bind (raw_program_name m) (\<lambda>raw_name.
           Some \<lparr>sp_kind = ProjectAnchor, sp_root = base,
                 sp_source_root = existing_source_root h (butlast p),
                 sp_name = normalize_program_name raw_name, sp_id = declared_id doc, sp_cluster = None,
                 sp_metadata_uri = anchor_toml_uri, sp_metadata_range = default_range\<rparr>))))"

definition detect_anchor_for_document ::
  "manifest_parser \<Rightarrow> (string \<Rightarrow> edit_document option) \<Rightarrow> host \<Rightarrow> url \<Rightarrow> parsed_document \<Rightarrow> solana_program option" where
  "detect_anchor_for_document parse parse_toml h uri doc =
     Option.bind (nearest_anchor_toml h uri) (\<lambda>(anchor_toml_uri, anchor_toml_text).
     Option.bind (host_to_path h anchor_toml_uri) (\<lambda>p.
     if p = [] then None
     else
       (let base = butlast p in
        case preferred_program_id parse_toml h uri anchor_toml_text of
          None \<Rightarrow> detect_anchor_from_manifest parse h uri doc anchor_toml_uri base
        | Some program \<Rightarrow>
            Some \<lparr>sp_kind = ProjectAnchor, sp_root = base,
                  sp_source_root = program_source_root h base (apid_name program),
                  sp_name = apid_name program,
                  sp_id = or_else (declared_id doc) (Some (apid_value program)),
                  sp_cluster = Some (apid_cluster program),
                  sp_metadata_uri = anchor_toml_uri, sp_metadata_range = apid_range program\<rparr>)))"

definition detect_for_document ::
  "manifest_parser \<Rightarrow> (string \<Rightarrow> edit_document option) \<Rightarrow> (string \<Rightarrow> parsed_document option) \<Rightarrow> host \<Rightarrow> url \<Rightarrow>
     parsed_document \<Rightarrow> solana_program option" where
  "detect_for_document parse parse_toml parse_document h uri doc =
     or_else (detect_anchor_for_document parse parse_toml h uri doc)
       (detect_cargo_for_document parse parse_document h uri doc)"

definition anchor_toml_programs ::
  "(string \<Rightarrow> edit_document option) \<Rightarrow> host \<Rightarrow> path \<Rightarrow> solana_program list" where
  "anchor_toml_programs parse_toml h p =
     (case (host_from_path h p, read_limited_text h p) of
        (Some uri, Some content) \<Rightarrow>
          if p = [] then []
          else
            map (\<lambda>program.
                \<lparr>sp_kind = ProjectAnchor, sp_root = butlast p,
                 sp_source_root = program_source_root h (butlast p) (apid_name program),
                 sp_name = apid_name program, sp_id = Some (apid_value program),
                 sp_cluster = Some (apid_cluster program), sp_metadata_uri = uri,
                 sp_metadata_range = apid_range program\<rparr>)
              (at_programs (parse_anchor_toml parse_toml content))
      | _ \<Rightarrow> [])"

definition detect_anchor_programs ::
  "(string \<Rightarrow> edit_document option) \<Rightarrow> host \<Rightarrow> path \<Rightarrow> solana_program list" where
  "detect_anchor_programs parse_toml h base =
     concat (map (anchor_toml_programs parse_toml h) (anchor_toml_paths h base))"

definition root_programs ::
  "manifest_parser \<Rightarrow> (string \<Rightarrow> edit_document option) \<Rightarrow> (string \<Rightarrow> parsed_document option) \<Rightarrow> host \<Rightarrow> url \<Rightarrow>
     solana_program list" where
  "root_programs parse parse_toml parse_document h base =
     (case host_to_path h base of
        None \<Rightarrow> []
      | Some root_path \<Rightarrow>
          detect_anchor_programs parse_toml h root_path @
          List.map_filter (\<lambda>p. detect_manifest_program parse parse_document h p None)
            (cargo_manifest_paths h root_path))"

definition program_key :: "solana_program \<Rightarrow> path \<times> string \<times> nat" where
  "program_key p = (sp_root p, sp_name p, project_kind_rank (sp_kind p))"

text \<open>\<open>dedup_by\<close>: of neighbours with the same key the first one stays.\<close>

fun dedup_by_key :: "('a \<Rightarrow> 'k) \<Rightarrow> 'a list \<Rightarrow> 'a list" where
  "dedup_by_key f (x # y # xs) =
     (if f x = f y then dedup_by_key f (x # xs) else x # dedup_by_key f (y # xs))"
| "dedup_by_key f xs = xs"

definition detect_for_roots ::
  "manifest_parser \<Rightarrow> (string \<Rightarrow> edit_document option) \<Rightarrow> (string \<Rightarrow> parsed_document option) \<Rightarrow> host \<Rightarrow> url list \<Rightarrow>
     solana_program list" where
  "detect_for_roots parse parse_toml parse_document h roots =
     dedup_by_key program_key
       (sort_key program_key (concat (map (root_programs parse parse_toml parse_document h) roots)))"

subsection \<open>Which manifest is nearest\<close>

definition closest_manifest :: "host \<Rightarrow> path \<Rightarrow> path \<Rightarrow> bool" where
  "closest_manifest h start dir \<longleftrightarrow>
     prefix dir start \<and> is_file h (dir @ [CARGO_TOML_FILE]) \<and>
     \<not> (\<exists>d. strict_prefix dir d \<and> prefix d start \<and> is_file h (d @ [CARGO_TOML_FILE]))"

lemma closest_manifest_here:
  "is_file h (p @ [CARGO_TOML_FILE]) \<Longrightarrow> closest_manifest h p dir \<longleftrightarrow> dir = p"
  by (auto simp: closest_manifest_def strict_prefix_def dest: prefix_order.antisym)

lemma closest_manifest_up:
  assumes "\<not> is_file h (p @ [CARGO_TOML_FILE])" "p \<noteq> []"
  shows "closest_manifest h p dir \<longleftrightarrow> closest_manifest h (butlast p) dir"
proof -
  have s: "prefix d p \<longleftrightarrow> d = p \<or> prefix d (butlast p)" for d using assms(2) prefix_split [of d p] by blast
  show ?thesis
  proof (cases "dir = p")
    case True
    have "length (butlast p) < length p" using assms(2) by (cases p) auto
    then have "\<not> prefix p (butlast p)" using prefix_length_le [of p "butlast p"] by auto
    with True assms(1) show ?thesis by (simp add: closest_manifest_def)
  next
    case False
    have "(\<exists>d. strict_prefix dir d \<and> prefix d p \<and> is_file h (d @ [CARGO_TOML_FILE])) \<longleftrightarrow>
        (\<exists>d. strict_prefix dir d \<and> prefix d (butlast p) \<and> is_file h (d @ [CARGO_TOML_FILE]))"
      unfolding s using assms(1) by auto
    with False show ?thesis unfolding closest_manifest_def s [of dir] by simp
  qed
qed

lemma manifest_path_loop_iff:
  "manifest_path_loop h p = Some q \<longleftrightarrow> (\<exists>dir. closest_manifest h p dir \<and> q = dir @ [CARGO_TOML_FILE])"
proof (induction h p rule: manifest_path_loop.induct)
  case (1 h p)
  show ?case
  proof (cases "is_file h (p @ [CARGO_TOML_FILE])")
    case True
    then show ?thesis by (auto simp: manifest_path_loop.simps [of h p] closest_manifest_here)
  next
    case no: False
    show ?thesis
    proof (cases "p = []")
      case True
      with no show ?thesis using manifest_path_loop.simps [of h p] by (auto simp: closest_manifest_def)
    next
      case False
      with no 1 show ?thesis by (simp add: manifest_path_loop.simps [of h p] closest_manifest_up)
    qed
  qed
qed

text \<open>The manifest of a document is that of the nearest directory with a Cargo.toml, wherever it is.\<close>

theorem nearest_manifest_exact:
  "nearest_manifest h uri = Some (u, content) \<longleftrightarrow>
     (\<exists>start dir. search_start h uri = Some start \<and> closest_manifest h start dir \<and>
        read_limited_text h (dir @ [CARGO_TOML_FILE]) = Some content \<and>
        host_from_path h (dir @ [CARGO_TOML_FILE]) = Some u)"
  by (auto simp: nearest_manifest_def nearest_manifest_path_def bind_eq_Some_conv manifest_path_loop_iff)

text \<open>A host on which another user has left a Cargo.toml and an Anchor.toml in the directory for
  temporary files: the first applies to the documents below it, the second does not.\<close>

definition planted_host :: host where
  "planted_host =
     \<lparr>host_file = (\<lambda>p. if p = [''tmp'', ''Cargo.toml''] \<or> p = [''tmp'', ''Anchor.toml''] \<or>
          p = [''tmp'', ''job'', ''lib.rs''] then Some [] else None),
      host_directory = (\<lambda>p. None), host_home = None, host_temp_dir = [''tmp''],
      host_to_path = (\<lambda>u. Some [''tmp'', ''job'', ''lib.rs'']), host_from_path = (\<lambda>p. Some (last p)),
      host_segments = (\<lambda>u. None)\<rparr>"

lemma shared_manifest_applies:
  "nearest_manifest planted_host uri = Some (''Cargo.toml'', []) \<and> nearest_anchor_toml planted_host uri = None"
proof -
  have "nearest_manifest planted_host uri = Some (''Cargo.toml'', [])"
    by (simp add: nearest_manifest_def nearest_manifest_path_def search_start_def planted_host_def is_file_def
        manifest_path_loop.simps CARGO_TOML_FILE_def read_limited_text_def utf8_def)
  moreover have "nearest_anchor_toml planted_host uri = None"
    by (simp add: nearest_anchor_toml_def nearest_workspace_file_def search_start_def planted_host_def is_file_def
        ANCHOR_TOML_FILE_def file_workspace_roots_def map_filter_simps MAX_WORKSPACE_ASCENT_def
        is_shared_directory_def shared_parents_def numeral_eq_Suc is_workspace_root_def)
  ultimately show ?thesis by blast
qed

subsection \<open>Dependencies of a manifest\<close>

definition all_dependencies :: "'a manifest_scheme \<Rightarrow> dependency list" where
  "all_dependencies m = concat (sets_of (manifest_dependencies m) @ concat (map sets_of (manifest_targets m)))"

definition package_of :: "dependency \<Rightarrow> string" where
  "package_of d = unwrap_or (dep_name d) (dep_package d)"

lemma extend_all_concat:
  "extend_all_dependency_names m deps = extend_manifest_deps (all_dependencies m) deps"
proof -
  have "fold extend_manifest_deps xss deps = extend_manifest_deps (concat xss) deps" for xss
    by (induction xss arbitrary: deps) (simp_all add: extend_manifest_deps_def)
  then show ?thesis by (simp only: extend_all_dependency_names_def all_dependencies_def)
qed

lemma extend_names: "dep_names (extend_manifest_deps ds deps) = dep_names deps \<union> dep_name ` set ds \<union> package_of ` set ds"
  unfolding extend_manifest_deps_def
  by (induction ds arbitrary: deps) (auto simp: insert_dependency_def Let_def package_of_def)

lemma extend_roots:
  "import_roots (extend_manifest_deps ds deps) r =
     (case find (\<lambda>d. normalize_dependency_name (dep_name d) = r) (rev ds) of
        Some d \<Rightarrow> Some (normalize_dependency_name (package_of d))
      | None \<Rightarrow> import_roots deps r)"
  unfolding extend_manifest_deps_def
  by (induction ds rule: rev_induct) (auto simp: insert_dependency_def Let_def package_of_def split: option.split)

text \<open>An import root stands for a crate exactly if the last dependency of the manifest that is
  spelled like the root, underscores and hyphens apart, is that crate.\<close>

theorem import_roots_exact:
  "import_root_matches_crate (extend_all_dependency_names m no_deps) import_root crate_name \<longleftrightarrow>
     (\<exists>d. find (\<lambda>d. normalize_dependency_name (dep_name d) = normalize_dependency_name import_root)
            (rev (all_dependencies m)) = Some d \<and>
          normalize_dependency_name (package_of d) = normalize_dependency_name crate_name)"
  by (auto simp: import_root_matches_crate_def extend_all_concat extend_roots no_deps_def split: option.split)

subsection \<open>Programs\<close>

text \<open>An Anchor program that also depends on \<open>solana-program\<close> has every mark of a native program.\<close>

lemma anchor_program_classified_native:
  "classify_program \<lparr>cm_name = Some ''vault'', cm_lib_name = None, cm_lib_crate_types = [''cdylib''],
       cm_dependencies = extend_manifest_deps
         [\<lparr>dep_name = ''anchor-lang'', dep_package = None, dep_req = None\<rparr>,
          \<lparr>dep_name = ''solana-program'', dep_package = None, dep_req = None\<rparr>] no_deps\<rparr>
     ''declare_id!(); #[program] mod vault {}'' = Some ProjectNativeSolana"
  by (simp add: classify_program_def manifest_is_program_library_def extend_names no_deps_def package_of_def
      PROJECT_PINOCCHIO_DEPENDENCIES_def PROJECT_NATIVE_DEPENDENCIES_def PINOCCHIO_SOURCE_HINTS_def str_contains_def)

fun walkable :: "host \<Rightarrow> path \<Rightarrow> string list \<Rightarrow> bool" where
  "walkable h base [] \<longleftrightarrow> True"
| "walkable h base (d # ds) \<longleftrightarrow>
     d \<in> set (unwrap_or [] (host_directory h base)) \<and> is_dir h (base @ [d]) \<and>
     d \<notin> {''.git'', ''node_modules'', ''target'', ''.anchor''} \<and> walkable h (base @ [d]) ds"

lemma child_directories_iff:
  "p \<in> set (child_directories h base) \<longleftrightarrow> (\<exists>d. p = base @ [d] \<and> walkable h base [d])"
  by (auto simp: child_directories_def should_skip_dir_def)

lemma collect_files_iff:
  "p \<in> set (collect_files_named h name n base) \<longleftrightarrow>
     (\<exists>dirs. p = base @ dirs @ [name] \<and> length dirs < n \<and> walkable h base dirs \<and> is_file h p)"
proof (induction n arbitrary: base)
  case (Suc n)
  have "(\<exists>dirs. p = base @ dirs @ [name] \<and> length dirs < Suc n \<and> walkable h base dirs \<and> is_file h p) \<longleftrightarrow>
      p = base @ [name] \<and> is_file h p \<or>
      (\<exists>d ds. p = base @ d # ds @ [name] \<and> length ds < n \<and> walkable h base (d # ds) \<and> is_file h p)"
    (is "?all \<longleftrightarrow> ?here \<or> ?below")
  proof
    assume ?all
    then obtain dirs where d: "p = base @ dirs @ [name]" "length dirs < Suc n" "walkable h base dirs" "is_file h p"
      by blast
    then show "?here \<or> ?below" by (cases dirs) auto
  next
    assume "?here \<or> ?below"
    then show ?all
    proof
      assume ?here
      then show ?all by (intro exI [of _ "[]"]) auto
    next
      assume ?below
      then obtain d ds where "p = base @ d # ds @ [name]" "length ds < n" "walkable h base (d # ds)" "is_file h p"
        by blast
      then show ?all by (intro exI [of _ "d # ds"]) simp
    qed
  qed
  then show ?case by (auto simp: Suc.IH child_directories_iff)
qed simp

text \<open>The manifests below a root are exactly the files of that name at most five levels down that are
  reached without entering a directory of build outputs, packages or version control.\<close>

theorem files_named_exact:
  "p \<in> set (files_named h name base) \<longleftrightarrow>
     (\<exists>dirs. p = base @ dirs @ [name] \<and> length dirs \<le> 5 \<and> walkable h base dirs \<and> is_file h p)"
  by (simp add: files_named_def collect_files_iff MAX_MANIFEST_DEPTH_def less_Suc_eq_le [of _ 5, simplified])

lemma dedup_by_key_keys: "f ` set (dedup_by_key f xs) = f ` set xs"
  by (induction f xs rule: dedup_by_key.induct) auto

lemma dedup_by_key_subset: "set (dedup_by_key f xs) \<subseteq> set xs"
  by (induction f xs rule: dedup_by_key.induct) auto

lemma dedup_by_key_sorted:
  fixes f :: "'a \<Rightarrow> 'k::linorder"
  shows "sorted (map f xs) \<Longrightarrow> sorted_wrt (<) (map f (dedup_by_key f xs))"
proof (induction f xs rule: dedup_by_key.induct)
  case (1 f x y xs)
  show ?case
  proof (cases "f x = f y")
    case True
    with 1 show ?thesis by simp
  next
    case False
    with 1 have "sorted_wrt (<) (map f (dedup_by_key f (y # xs)))" by simp
    moreover have "f x < k" if "k \<in> f ` set (dedup_by_key f (y # xs))" for k
    proof -
      from that obtain z where "z \<in> set (y # xs)" "k = f z" by (auto simp: dedup_by_key_keys)
      moreover have "f x \<le> f y" "\<forall>z \<in> set (y # xs). f y \<le> f z" using 1(3) by auto
      ultimately have "f x \<le> f y" "f y \<le> k" by auto
      with False show ?thesis by auto
    qed
    ultimately show ?thesis using False by auto
  qed
qed auto

text \<open>C21: The programs below the workspace roots are listed once per root directory, name and kind, in
  this order, and none is lost.\<close>

theorem detected_programs_exact:
  "sorted_wrt (<) (map program_key (detect_for_roots parse parse_toml parse_document h roots)) \<and>
   program_key ` set (detect_for_roots parse parse_toml parse_document h roots) =
     program_key ` (\<Union>base \<in> set roots. set (root_programs parse parse_toml parse_document h base))"
  by (simp add: detect_for_roots_def dedup_by_key_sorted dedup_by_key_keys)

end
