(* ===== verification/Capability_Registry.thy ===== *)
theory Capability_Registry
  imports Solana_Project
begin

section \<open>Sysvars and the crates that provide them\<close>

text \<open>
  \<open>src/solana/runtime_catalog.rs\<close> and \<open>src/solana/capability_registry.rs\<close>: the sysvar accounts of the
  runtime, and what an imported name stands for, given where it was imported from and the
  dependencies of the manifest.  The key of a sysvar is its string decoded by the
  \<open>solana_program\<close> crate, an argument of \<open>account_id\<close>.
\<close>

record sysvar_spec =
  sv_name :: string
  sv_type_ident :: string
  sv_account_id_str :: string
  sv_is_deprecated :: bool

definition account_id :: "(string \<Rightarrow> 'k) \<Rightarrow> sysvar_spec \<Rightarrow> 'k" where
  "account_id from_str_const spec = from_str_const (sv_account_id_str spec)"

definition mk_sysvar :: "string \<Rightarrow> string \<Rightarrow> string \<Rightarrow> bool \<Rightarrow> sysvar_spec" where
  "mk_sysvar name ident key deprecated =
     \<lparr>sv_name = name, sv_type_ident = ident, sv_account_id_str = key, sv_is_deprecated = deprecated\<rparr>"

definition SYSVARS :: "sysvar_spec list" where
  "SYSVARS =
     [mk_sysvar ''clock'' ''Clock'' ''SysvarC1ock11111111111111111111111111111111'' False,
      mk_sysvar ''epoch_rewards'' ''EpochRewards'' ''SysvarEpochRewards1111111111111111111111111'' False,
      mk_sysvar ''epoch_schedule'' ''EpochSchedule'' ''SysvarEpochSchedu1e111111111111111111111111'' False,
      mk_sysvar ''instructions'' ''Instructions'' ''Sysvar1nstructions1111111111111111111111111'' False,
      mk_sysvar ''last_restart_slot'' ''LastRestartSlot'' ''SysvarLastRestartS1ot1111111111111111111111'' False,
      mk_sysvar ''rent'' ''Rent'' ''SysvarRent111111111111111111111111111111111'' False,
      mk_sysvar ''slot_hashes'' ''SlotHashes'' ''SysvarS1otHashes111111111111111111111111111'' False,
      mk_sysvar ''stake_history'' ''StakeHistory'' ''SysvarStakeHistory1111111111111111111111111'' False,
      mk_sysvar ''fees'' ''Fees'' ''SysvarFees111111111111111111111111111111111'' True,
      mk_sysvar ''recent_blockhashes'' ''RecentBlockhashes'' ''SysvarRecentB1ockHashes11111111111111111111'' True]"

definition sysvar_by_name :: "string \<Rightarrow> sysvar_spec option" where
  "sysvar_by_name name = find (\<lambda>s. sv_name s = name) SYSVARS"

definition sysvar_by_type_ident :: "string \<Rightarrow> sysvar_spec option" where
  "sysvar_by_type_ident ident = find (\<lambda>s. sv_type_ident s = ident) SYSVARS"

definition CLOCK_FIELDS :: "string list" where
  "CLOCK_FIELDS =
     [''slot'', ''epoch_start_timestamp'', ''epoch'', ''leader_schedule_epoch'', ''unix_timestamp'']"

definition RENT_FIELDS :: "string list" where
  "RENT_FIELDS = [''lamports_per_byte_year'', ''exemption_threshold'', ''burn_percent'']"

subsection \<open>Concepts\<close>

datatype concept =
    SysvarClock | SysvarEpochRewards | SysvarEpochSchedule | SysvarInstructions | SysvarLastRestartSlot
  | SysvarRent | SysvarSlotHashes | SysvarStakeHistory | SysvarFees | SysvarRecentBlockhashes | AccountInfo

fun concept_sysvar_name :: "concept \<Rightarrow> string option" where
  "concept_sysvar_name SysvarClock = Some ''clock''"
| "concept_sysvar_name SysvarEpochRewards = Some ''epoch_rewards''"
| "concept_sysvar_name SysvarEpochSchedule = Some ''epoch_schedule''"
| "concept_sysvar_name SysvarInstructions = Some ''instructions''"
| "concept_sysvar_name SysvarLastRestartSlot = Some ''last_restart_slot''"
| "concept_sysvar_name SysvarRent = Some ''rent''"
| "concept_sysvar_name SysvarSlotHashes = Some ''slot_hashes''"
| "concept_sysvar_name SysvarStakeHistory = Some ''stake_history''"
| "concept_sysvar_name SysvarFees = Some ''fees''"
| "concept_sysvar_name SysvarRecentBlockhashes = Some ''recent_blockhashes''"
| "concept_sysvar_name AccountInfo = None"

definition is_sysvar :: "concept \<Rightarrow> bool" where
  "is_sysvar c \<longleftrightarrow> concept_sysvar_name c \<noteq> None"

definition catalog_sysvar :: "concept \<Rightarrow> sysvar_spec option" where
  "catalog_sysvar c = Option.bind (concept_sysvar_name c) sysvar_by_name"

record crate_capability =
  cap_crate_name :: string
  cap_min_version :: string
  cap_provides :: "(concept \<times> string) list"

definition ANCHOR_LANG_PROVIDES :: "(concept \<times> string) list" where
  "ANCHOR_LANG_PROVIDES =
     [(AccountInfo, ''AccountInfo''), (SysvarClock, ''Clock''), (SysvarEpochSchedule, ''EpochSchedule''),
      (SysvarInstructions, ''Instructions''), (SysvarRent, ''Rent''), (SysvarSlotHashes, ''SlotHashes''),
      (SysvarStakeHistory, ''StakeHistory'')]"

definition PINOCCHIO_PROVIDES :: "(concept \<times> string) list" where
  "PINOCCHIO_PROVIDES =
     [(AccountInfo, ''AccountInfo''), (SysvarClock, ''Clock''), (SysvarFees, ''Fees''),
      (SysvarInstructions, ''Instructions''), (SysvarRent, ''Rent''), (SysvarSlotHashes, ''SlotHashes'')]"

definition SOLANA_CLOCK_PROVIDES :: "(concept \<times> string) list" where
  "SOLANA_CLOCK_PROVIDES = [(SysvarClock, ''Clock'')]"

definition SOLANA_PROGRAM_PROVIDES :: "(concept \<times> string) list" where
  "SOLANA_PROGRAM_PROVIDES =
     [(AccountInfo, ''AccountInfo''), (SysvarClock, ''Clock''), (SysvarEpochRewards, ''EpochRewards''),
      (SysvarEpochSchedule, ''EpochSchedule''), (SysvarInstructions, ''Instructions''),
      (SysvarLastRestartSlot, ''LastRestartSlot''), (SysvarRent, ''Rent''), (SysvarSlotHashes, ''SlotHashes''),
      (SysvarStakeHistory, ''StakeHistory''), (SysvarFees, ''Fees''),
      (SysvarRecentBlockhashes, ''RecentBlockhashes'')]"

definition SOLANA_RENT_PROVIDES :: "(concept \<times> string) list" where
  "SOLANA_RENT_PROVIDES = [(SysvarRent, ''Rent'')]"

definition SOLANA_SYSVAR_PROVIDES :: "(concept \<times> string) list" where
  "SOLANA_SYSVAR_PROVIDES =
     [(SysvarClock, ''Clock''), (SysvarEpochRewards, ''EpochRewards''),
      (SysvarEpochSchedule, ''EpochSchedule''), (SysvarLastRestartSlot, ''LastRestartSlot''),
      (SysvarRent, ''Rent''), (SysvarSlotHashes, ''SlotHashes''), (SysvarStakeHistory, ''StakeHistory''),
      (SysvarFees, ''Fees''), (SysvarRecentBlockhashes, ''RecentBlockhashes'')]"

definition mk_capability :: "string \<Rightarrow> string \<Rightarrow> (concept \<times> string) list \<Rightarrow> crate_capability" where
  "mk_capability name version provides =
     \<lparr>cap_crate_name = name, cap_min_version = version, cap_provides = provides\<rparr>"

definition CAPABILITY_REGISTRY :: "crate_capability list" where
  "CAPABILITY_REGISTRY =
     [mk_capability ''anchor-lang'' ''0.29'' ANCHOR_LANG_PROVIDES,
      mk_capability ''pinocchio'' ''0.1'' PINOCCHIO_PROVIDES,
      mk_capability ''solana-clock'' ''0.1'' SOLANA_CLOCK_PROVIDES,
      mk_capability ''solana-program'' ''1.0'' SOLANA_PROGRAM_PROVIDES,
      mk_capability ''solana-rent'' ''0.1'' SOLANA_RENT_PROVIDES,
      mk_capability ''solana-sysvar'' ''2.2'' SOLANA_SYSVAR_PROVIDES]"

definition provided_concept :: "crate_capability \<Rightarrow> string \<Rightarrow> concept option" where
  "provided_concept capability exported_ident =
     find_map (\<lambda>(c, type_ident). if type_ident = exported_ident then Some c else None) (cap_provides capability)"

definition resolve_concept_with_aliases ::
  "string \<Rightarrow> (string, string) hmap \<Rightarrow> (string, string) hmap \<Rightarrow> cargo_manifest_deps \<Rightarrow> concept option" where
  "resolve_concept_with_aliases ident origins aliases declared_deps =
     Option.bind (map_of origins ident) (\<lambda>origin.
       let exported_ident = unwrap_or ident (map_of aliases ident) in
       find_map
         (\<lambda>capability.
           if \<not> import_root_matches_crate declared_deps origin (cap_crate_name capability) then None
           else provided_concept capability exported_ident)
         CAPABILITY_REGISTRY)"

definition resolve_concept :: "string \<Rightarrow> (string, string) hmap \<Rightarrow> cargo_manifest_deps \<Rightarrow> concept option" where
  "resolve_concept ident origins declared_deps = resolve_concept_with_aliases ident origins [] declared_deps"

subsection \<open>What a name stands for\<close>

lemmas provides_defs =
  ANCHOR_LANG_PROVIDES_def PINOCCHIO_PROVIDES_def SOLANA_CLOCK_PROVIDES_def SOLANA_PROGRAM_PROVIDES_def
  SOLANA_RENT_PROVIDES_def SOLANA_SYSVAR_PROVIDES_def

lemma registry_crates_distinct:
  "distinct (map (\<lambda>cap. normalize_dependency_name (cap_crate_name cap)) CAPABILITY_REGISTRY)"
  by (simp add: CAPABILITY_REGISTRY_def mk_capability_def normalize_dependency_name_def str_replace_char_def)

lemma provides_distinct: "cap \<in> set CAPABILITY_REGISTRY \<Longrightarrow> distinct (map snd (cap_provides cap))"
  by (auto simp: CAPABILITY_REGISTRY_def mk_capability_def provides_defs)

lemma find_map_pair:
  "distinct (map snd xs) \<Longrightarrow>
     find_map (\<lambda>(c, ident). if ident = x then Some c else None) xs = Some c \<longleftrightarrow> (c, x) \<in> set xs"
  by (induction xs) (auto simp: image_iff split: if_splits)

lemma provided_concept_iff:
  "cap \<in> set CAPABILITY_REGISTRY \<Longrightarrow>
     provided_concept cap x = Some c \<longleftrightarrow> (c, x) \<in> set (cap_provides cap)"
  unfolding provided_concept_def by (rule find_map_pair [OF provides_distinct])

text \<open>A search for the only element with a key.\<close>

lemma find_map_unique:
  assumes "distinct (map key xs)" "\<And>x y. p x \<Longrightarrow> p y \<Longrightarrow> key x = key y"
  shows "find_map (\<lambda>x. if \<not> p x then None else g x) xs = Some c \<longleftrightarrow> (\<exists>x \<in> set xs. p x \<and> g x = Some c)"
  using assms(1)
proof (induction xs)
  case (Cons x xs)
  show ?case
  proof (cases "p x")
    case True
    have others: "\<forall>y \<in> set xs. \<not> p y"
      using assms(2) [OF True] Cons.prems by auto
    then have "find_map (\<lambda>x. if \<not> p x then None else g x) xs = None"
      by (simp add: find_map_None)
    with True others show ?thesis by (auto split: option.split)
  next
    case False
    with Cons show ?thesis by simp
  qed
qed simp

text \<open>A name stands for a concept exactly if the root of its import stands for a registered crate in
  the manifest and that crate exports the concept under the name before its renaming.\<close>

theorem resolve_concept_exact:
  "resolve_concept_with_aliases ident origins aliases deps = Some c \<longleftrightarrow>
     (\<exists>origin cap. map_of origins ident = Some origin \<and> cap \<in> set CAPABILITY_REGISTRY \<and>
        import_root_matches_crate deps origin (cap_crate_name cap) \<and>
        (c, unwrap_or ident (map_of aliases ident)) \<in> set (cap_provides cap))"
proof -
  have "normalize_dependency_name (cap_crate_name a) = normalize_dependency_name (cap_crate_name b)"
    if "import_root_matches_crate deps origin (cap_crate_name a)" "import_root_matches_crate deps origin (cap_crate_name b)"
    for origin a b
    using that by (simp add: import_root_matches_crate_def)
  note unique = find_map_unique [OF registry_crates_distinct this]
  show ?thesis
    by (auto simp: resolve_concept_with_aliases_def Let_def bind_eq_Some_conv unique provided_concept_iff)
qed

text \<open>The two tables agree: every sysvar a crate provides is in the catalog under the same type name.\<close>

lemma registry_matches_catalog:
  "\<forall>cap \<in> set CAPABILITY_REGISTRY. \<forall>(c, ident) \<in> set (cap_provides cap).
     is_sysvar c \<longrightarrow> map_option sv_type_ident (catalog_sysvar c) = Some ident"
  by (simp add: CAPABILITY_REGISTRY_def mk_capability_def provides_defs is_sysvar_def catalog_sysvar_def
      sysvar_by_name_def SYSVARS_def mk_sysvar_def)

end
