(* ===== verification/Suppression.thy ===== *)
theory Suppression
  imports Text_Positions Lsp_Types
begin

section \<open>Suppressing diagnostics\<close>

text \<open>
  \<open>src/lsp/diagnostics/suppression.rs\<close>: the patterns of a document's comments and attributes and of
  the configuration files, and the diagnostics they keep from being published.  The parsers of the
  configuration files (\<open>toml\<close>) are parameters; the syntax tree is given as the list of the
  nodes with attributes that the visitor is called for.
\<close>

definition LINE_ALLOW_MARKER :: string where "LINE_ALLOW_MARKER = ''seagrass-allow:''"
definition FILE_ALLOW_MARKER :: string where "FILE_ALLOW_MARKER = ''seagrass-allow-file:''"
definition FILE_IGNORE_MARKER :: string where "FILE_IGNORE_MARKER = ''seagrass-ignore-file''"
definition LINE_IGNORE_MARKER :: string where "LINE_IGNORE_MARKER = ''seagrass-ignore''"
definition ANY_SUPPRESSION_PATTERN :: string where "ANY_SUPPRESSION_PATTERN = ''*''"
definition NEXT_LINE_OFFSET :: u32 where "NEXT_LINE_OFFSET = 1"
definition PACKAGE_SUPPRESS_PATH :: "string list" where
  "PACKAGE_SUPPRESS_PATH = [''package'', ''metadata'', ''seagrass'', ''suppress'']"
definition WORKSPACE_SUPPRESS_PATH :: "string list" where
  "WORKSPACE_SUPPRESS_PATH = [''workspace'', ''metadata'', ''seagrass'', ''suppress'']"

subsection \<open>Configuration files\<close>

datatype toml = TomlBool bool | TomlTable "(string \<times> toml) list" | TomlOther

record suppression_config =
  seagrass_toml :: "string option"
  manifest_text :: "string option"
  workspace_manifest_text :: "string option"

record config_parsers =
  parse_allowed :: "string \<Rightarrow> string list option"
  parse_toml :: "string \<Rightarrow> toml option"

fun toml_get :: "string \<Rightarrow> toml \<Rightarrow> toml option" where
  "toml_get key (TomlTable t) = map_of t key"
| "toml_get key _ = None"

fun toml_as_bool :: "toml \<Rightarrow> bool option" where
  "toml_as_bool (TomlBool b) = Some b"
| "toml_as_bool _ = None"

definition toml_bool_at_path :: "toml \<Rightarrow> string list \<Rightarrow> bool" where
  "toml_bool_at_path v path =
     unwrap_or False
       (Option.bind (fold (\<lambda>key current. Option.bind current (toml_get key)) path (Some v)) toml_as_bool)"

definition normalized_config_pattern :: "string \<Rightarrow> string option" where
  "normalized_config_pattern pattern = (if trim pattern = [] then None else Some (trim pattern))"

definition workspace_allow_patterns :: "config_parsers \<Rightarrow> string option \<Rightarrow> string list" where
  "workspace_allow_patterns ps config =
     (case Option.bind config (parse_allowed ps) of
        None \<Rightarrow> []
      | Some allow \<Rightarrow> List.map_filter normalized_config_pattern allow)"

definition cargo_manifest_suppresses_all :: "config_parsers \<Rightarrow> string option \<Rightarrow> bool" where
  "cargo_manifest_suppresses_all ps manifest =
     (case Option.bind manifest (parse_toml ps) of
        None \<Rightarrow> False
      | Some v \<Rightarrow> toml_bool_at_path v PACKAGE_SUPPRESS_PATH \<or> toml_bool_at_path v WORKSPACE_SUPPRESS_PATH)"

subsection \<open>Comments\<close>

definition is_pattern_char :: "char \<Rightarrow> bool" where
  "is_pattern_char c \<longleftrightarrow> c \<in> set ''/.-_'' \<or> is_ascii_alphanumeric c"

fun pattern_loop :: "string list \<Rightarrow> string \<Rightarrow> string \<Rightarrow> string list" where
  "pattern_loop patterns current [] = (if current = [] then patterns else patterns @ [current])"
| "pattern_loop patterns current (c # s) =
     (if is_pattern_char c then pattern_loop patterns (current @ [c]) s
      else if current = [] then pattern_loop patterns [] s
      else pattern_loop (patterns @ [current]) [] s)"

definition suppression_patterns :: "string \<Rightarrow> string list" where
  "suppression_patterns s = pattern_loop [] [] s"

definition comment_patterns :: "string \<Rightarrow> string \<Rightarrow> string list option" where
  "comment_patterns comment marker =
     map_option (\<lambda>(_, rest). suppression_patterns (trim rest)) (split_once marker comment)"

definition comment_has_marker :: "string \<Rightarrow> string \<Rightarrow> bool" where
  "comment_has_marker comment marker = str_contains marker comment"

definition is_header_line :: "string \<Rightarrow> bool" where
  "is_header_line line =
     (let trimmed = trim_start line in
      trimmed = [] \<or> prefix ''//'' trimmed \<or> prefix ''/*'' trimmed \<or> prefix ''*'' trimmed \<or>
      prefix ''*/'' trimmed \<or> prefix ''#!['' trimmed)"

definition is_leading_file_comment :: "string \<Rightarrow> u32 \<Rightarrow> bool" where
  "is_leading_file_comment source line_number =
     list_all is_header_line (take (unat line_number) (split_char NEWLINE source))"

fun delimiter_loop :: "nat list \<Rightarrow> nat option \<Rightarrow> nat \<Rightarrow> string \<Rightarrow> nat list" where
  "delimiter_loop offsets previous_slash offset [] = offsets"
| "delimiter_loop offsets previous_slash offset (c # s) =
     (if c = CHR ''/'' then
        delimiter_loop (case previous_slash of Some start \<Rightarrow> offsets @ [start] | None \<Rightarrow> offsets)
          (Some offset) (offset + 1) s
      else delimiter_loop offsets None (offset + 1) s)"

definition line_comment_delimiter_offsets :: "string \<Rightarrow> nat list" where
  "line_comment_delimiter_offsets line = delimiter_loop [] None 0 line"

definition line_comment :: "string \<Rightarrow> string \<Rightarrow> u32 \<Rightarrow> string option" where
  "line_comment source line line_number =
     find_map (\<lambda>offset.
         Option.bind (u32_try_from (char_count (take offset line))) (\<lambda>character.
           if is_in_comment_or_string source \<lparr>pos_line = line_number, pos_character = character\<rparr> then None
           else Some (drop (offset + 2) line)))
       (line_comment_delimiter_offsets line)"

subsection \<open>Attributes\<close>

record syn_attribute =
  attr_path :: "string list"
  attr_tokens :: string

datatype item_kind =
    ItemConst | ItemEnum | ItemFn | ItemImpl | ItemMod | ItemStruct | ItemTrait | ItemType | ItemUnion | ItemOther

datatype assoc_kind = AssocConst | AssocFn | AssocType | AssocMacro | AssocOther

datatype foreign_kind = ForeignFn | ForeignStatic | ForeignType | ForeignMacro | ForeignOther

datatype attributed_node =
    ItemNode item_kind "syn_attribute list" range
  | ImplItemNode assoc_kind "syn_attribute list" range
  | TraitItemNode assoc_kind "syn_attribute list" range
  | ForeignItemNode foreign_kind "syn_attribute list" range
  | ExprBlockNode "syn_attribute list" range
  | LocalNode "syn_attribute list" range

definition item_attrs :: "item_kind \<Rightarrow> syn_attribute list \<Rightarrow> syn_attribute list" where
  "item_attrs kind attrs = (if kind = ItemOther then [] else attrs)"

definition assoc_item_attrs :: "assoc_kind \<Rightarrow> syn_attribute list \<Rightarrow> syn_attribute list" where
  "assoc_item_attrs kind attrs = (if kind = AssocOther then [] else attrs)"

definition foreign_item_attrs :: "foreign_kind \<Rightarrow> syn_attribute list \<Rightarrow> syn_attribute list" where
  "foreign_item_attrs kind attrs = (if kind = ForeignOther then [] else attrs)"

fun node_attrs :: "attributed_node \<Rightarrow> syn_attribute list \<times> range" where
  "node_attrs (ItemNode kind attrs r) = (item_attrs kind attrs, r)"
| "node_attrs (ImplItemNode kind attrs r) = (assoc_item_attrs kind attrs, r)"
| "node_attrs (TraitItemNode kind attrs r) = (assoc_item_attrs kind attrs, r)"
| "node_attrs (ForeignItemNode kind attrs r) = (foreign_item_attrs kind attrs, r)"
| "node_attrs (ExprBlockNode attrs r) = (attrs, r)"
| "node_attrs (LocalNode attrs r) = (attrs, r)"

record range_suppression =
  sup_range :: range
  sup_patterns :: "string list"

definition collect_attrs :: "attributed_node \<Rightarrow> range_suppression list" where
  "collect_attrs node =
     (let (attrs, r) = node_attrs node;
          patterns = concat (map (\<lambda>a. suppression_patterns (attr_tokens a))
            (filter (\<lambda>a. attr_path a = [''seagrass'']) attrs)) in
      if patterns = [] then [] else [\<lparr>sup_range = r, sup_patterns = patterns\<rparr>])"

subsection \<open>The index\<close>

record suppression_index =
  file_patterns :: "string list"
  line_patterns :: "u32 \<Rightarrow> string list"
  range_patterns :: "range_suppression list"

definition empty_index :: suppression_index where
  "empty_index = \<lparr>file_patterns = [], line_patterns = (\<lambda>_. []), range_patterns = []\<rparr>"

definition collect_workspace_suppressions ::
  "config_parsers \<Rightarrow> suppression_config \<Rightarrow> suppression_index \<Rightarrow> suppression_index" where
  "collect_workspace_suppressions ps config ix =
     (let ix1 = ix\<lparr>file_patterns := file_patterns ix @ workspace_allow_patterns ps (seagrass_toml config)\<rparr> in
      if cargo_manifest_suppresses_all ps (manifest_text config) \<or>
         cargo_manifest_suppresses_all ps (workspace_manifest_text config)
      then ix1\<lparr>file_patterns := file_patterns ix1 @ [ANY_SUPPRESSION_PATTERN]\<rparr> else ix1)"

definition extend_line :: "u32 \<Rightarrow> string list \<Rightarrow> suppression_index \<Rightarrow> suppression_index" where
  "extend_line n patterns ix =
     ix\<lparr>line_patterns := (line_patterns ix)(n := line_patterns ix n @ patterns)\<rparr>"

definition collect_comment :: "string \<Rightarrow> u32 \<Rightarrow> string \<Rightarrow> suppression_index \<Rightarrow> suppression_index" where
  "collect_comment source line_number comment ix =
     (let ix1 = (case comment_patterns comment FILE_ALLOW_MARKER of
                   Some patterns \<Rightarrow> ix\<lparr>file_patterns := file_patterns ix @ patterns\<rparr>
                 | None \<Rightarrow> ix);
          ix2 = (if comment_has_marker comment FILE_IGNORE_MARKER \<and> is_leading_file_comment source line_number
                 then ix1\<lparr>file_patterns := file_patterns ix1 @ [ANY_SUPPRESSION_PATTERN]\<rparr> else ix1);
          ix3 = (case comment_patterns comment LINE_ALLOW_MARKER of
                   Some patterns \<Rightarrow>
                     extend_line (line_number + NEXT_LINE_OFFSET) patterns (extend_line line_number patterns ix2)
                 | None \<Rightarrow> ix2) in
      if comment_has_marker comment LINE_IGNORE_MARKER \<and> \<not> comment_has_marker comment FILE_IGNORE_MARKER
      then extend_line (line_number + NEXT_LINE_OFFSET) [ANY_SUPPRESSION_PATTERN]
             (extend_line line_number [ANY_SUPPRESSION_PATTERN] ix3)
      else ix3)"

definition collect_line :: "string \<Rightarrow> nat \<times> string \<Rightarrow> suppression_index \<Rightarrow> suppression_index" where
  "collect_line source = (\<lambda>(index, line) ix.
     case u32_try_from index of
       None \<Rightarrow> ix
     | Some line_number \<Rightarrow>
         (case line_comment source line line_number of
            None \<Rightarrow> ix
          | Some comment \<Rightarrow> collect_comment source line_number comment ix))"

definition collect_comment_suppressions :: "string \<Rightarrow> suppression_index \<Rightarrow> suppression_index" where
  "collect_comment_suppressions source ix =
     fold (collect_line source) (enumerate 0 (split_char NEWLINE source)) ix"

definition collect_attribute_suppressions :: "attributed_node list \<Rightarrow> suppression_index \<Rightarrow> suppression_index" where
  "collect_attribute_suppressions nodes ix =
     ix\<lparr>range_patterns := range_patterns ix @ concat (map collect_attrs nodes)\<rparr>"

definition suppression_index_of ::
  "config_parsers \<Rightarrow> string \<Rightarrow> attributed_node list \<Rightarrow> suppression_config \<Rightarrow> suppression_index" where
  "suppression_index_of ps source nodes config =
     collect_attribute_suppressions nodes
       (collect_comment_suppressions source (collect_workspace_suppressions ps config empty_index))"

subsection \<open>Matching\<close>

definition code_rule_matches :: "string \<Rightarrow> string option \<Rightarrow> string option \<Rightarrow> bool" where
  "code_rule_matches pattern code rule =
     (case (code, rule) of
        (Some c, Some r) \<Rightarrow> Option.bind (strip_prefix c pattern) (strip_prefix ''.'') = Some r
      | _ \<Rightarrow> False)"

definition suppression_matches :: "string \<Rightarrow> string option \<Rightarrow> string option \<Rightarrow> string option \<Rightarrow> bool" where
  "suppression_matches pattern topic rule code \<longleftrightarrow>
     pattern = ANY_SUPPRESSION_PATTERN \<or>
     (case topic of None \<Rightarrow> False | Some t \<Rightarrow> t = pattern \<or> suffix (''.'' @ pattern) t) \<or>
     (case rule of None \<Rightarrow> False | Some r \<Rightarrow> r = pattern \<or> suffix (''/'' @ pattern) r) \<or>
     (case code of None \<Rightarrow> False | Some c \<Rightarrow> c = pattern) \<or>
     code_rule_matches pattern code rule"

definition pattern_matches :: "diagnostic \<Rightarrow> string \<Rightarrow> bool" where
  "pattern_matches d pattern =
     suppression_matches pattern (data_str ''topic'' (d_data d)) (data_str ''rule'' (d_data d)) (diagnostic_code d)"

definition suppresses :: "suppression_index \<Rightarrow> diagnostic \<Rightarrow> bool" where
  "suppresses ix d \<longleftrightarrow>
     list_ex (pattern_matches d) (file_patterns ix) \<or>
     list_ex (pattern_matches d) (line_patterns ix (pos_line (range_start (d_range d)))) \<or>
     list_ex (\<lambda>s. contains_position (sup_range s) (range_start (d_range d)) \<and>
         list_ex (pattern_matches d) (sup_patterns s)) (range_patterns ix)"

definition suppression_filter ::
  "config_parsers \<Rightarrow> string \<Rightarrow> attributed_node list \<Rightarrow> suppression_config \<Rightarrow> diagnostic list \<Rightarrow> diagnostic list" where
  "suppression_filter ps source nodes config ds =
     filter (\<lambda>d. \<not> suppresses (suppression_index_of ps source nodes config) d) ds"

subsection \<open>What a comment reaches\<close>

text \<open>The patterns a comment has for lines, and those of the comment that starts on a line.\<close>

definition own_patterns :: "string \<Rightarrow> string list" where
  "own_patterns comment =
     unwrap_or [] (comment_patterns comment LINE_ALLOW_MARKER) @
     (if comment_has_marker comment LINE_IGNORE_MARKER \<and> \<not> comment_has_marker comment FILE_IGNORE_MARKER
      then [ANY_SUPPRESSION_PATTERN] else [])"

definition patterns_on :: "string \<Rightarrow> nat \<Rightarrow> string list" where
  "patterns_on source n =
     (let lines = split_char NEWLINE source in
      if n < length lines
      then (case line_comment source (lines ! n) (of_nat n) of None \<Rightarrow> [] | Some c \<Rightarrow> own_patterns c)
      else [])"

lemma collect_comment_lines:
  "line_patterns (collect_comment source n comment ix) =
     (\<lambda>l. line_patterns ix l @ (if l = n \<or> l = n + 1 then own_patterns comment else []))"
proof -
  have "n \<noteq> n + 1" by simp
  then show ?thesis
    by (auto simp: collect_comment_def own_patterns_def extend_line_def NEXT_LINE_OFFSET_def Let_def fun_eq_iff
          split: option.split)
qed

definition reaching :: "(nat \<Rightarrow> string list) \<Rightarrow> nat \<Rightarrow> u32 \<Rightarrow> string list" where
  "reaching on k l =
     (if l \<noteq> 0 \<and> unat l - 1 < k then on (unat l - 1) else []) @ (if unat l < k then on (unat l) else [])"

lemma reaching_Suc:
  assumes "k < 2 ^ 32 - 1"
  shows "reaching on (Suc k) l =
    reaching on k l @ (if l = of_nat k \<or> l = of_nat k + 1 then on k else [])"
proof -
  have "unat (of_nat k :: u32) = k" "unat (of_nat k + 1 :: u32) = k + 1"
    using assms by (simp_all add: unat_of_nat unat_word_ariths)
  then have "l = of_nat k \<longleftrightarrow> unat l = k" "l = of_nat k + 1 \<longleftrightarrow> unat l = k + 1" by (metis word_unat_eq_iff)+
  moreover have "l = 0 \<longleftrightarrow> unat l = 0" by (simp add: unat_eq_0)
  ultimately show ?thesis by (auto simp: reaching_def less_Suc_eq)
qed

lemma collect_lines:
  assumes "length lines < 2 ^ 32"
  shows "line_patterns (fold (collect_line source) (enumerate 0 lines) ix) =
    (\<lambda>l. line_patterns ix l @
       reaching (\<lambda>n. case line_comment source (lines ! n) (of_nat n) of None \<Rightarrow> [] | Some c \<Rightarrow> own_patterns c)
         (length lines) l)"
  using assms
proof (induction lines rule: rev_induct)
  case Nil
  then show ?case by (simp add: reaching_def)
next
  case (snoc line lines)
  let ?on = "\<lambda>xs n. case line_comment source (xs ! n) (of_nat n) of None \<Rightarrow> [] | Some c \<Rightarrow> own_patterns c"
  have prefix: "reaching (?on (lines @ [line])) (length lines) = reaching (?on lines) (length lines)"
    by (auto simp: reaching_def nth_append fun_eq_iff)
  have n: "u32_try_from (length lines) = Some (of_nat (length lines))"
    using snoc.prems by (simp add: u32_try_from_def)
  show ?case
    using snoc reaching_Suc [of "length lines" "?on (lines @ [line])"]
    by (auto simp: enumerate_append_eq collect_line_def n collect_comment_lines prefix fun_eq_iff split: option.split)
qed

lemma line_patterns_index:
  assumes "length (split_char NEWLINE source) < 2 ^ 32"
  shows "line_patterns (suppression_index_of ps source nodes config) l =
    (if l = 0 then [] else patterns_on source (unat l - 1)) @ patterns_on source (unat l)"
  using collect_lines [OF assms, of source]
  by (auto simp: suppression_index_of_def collect_attribute_suppressions_def collect_comment_suppressions_def
        collect_workspace_suppressions_def empty_index_def reaching_def patterns_on_def Let_def)

lemma pattern_loop_append:
  "list_all is_pattern_char p \<Longrightarrow> pattern_loop ps cur (p @ rest) = pattern_loop ps (cur @ p) rest"
  by (induction p arbitrary: cur) auto

lemma pattern_loop_join:
  "list_all (\<lambda>p. p \<noteq> [] \<and> list_all is_pattern_char p) ps \<Longrightarrow> pattern_loop acc [] (join '', '' ps) = acc @ ps"
proof (induction ps arbitrary: acc rule: induct_list012)
  case (2 p)
  then show ?case using pattern_loop_append [of p acc "[]" "[]"] by simp
next
  case (3 p q ps)
  have "\<not> is_pattern_char CHR '',''" "\<not> is_pattern_char CHR '' ''"
    by (simp_all add: is_pattern_char_def ascii_class_defs)
  with 3 show ?case by (simp add: pattern_loop_append)
qed simp

subsection \<open>Properties\<close>

text \<open>The patterns that hold on a line are those of the comments that start on the line before and on
  the line itself, in this order, and no others.\<close>

theorem line_patterns_exact:
  assumes "length (split_char NEWLINE source) < 2 ^ 32"
  shows "line_patterns (suppression_index_of ps source nodes config) l =
    (if l = 0 then [] else patterns_on source (unat l - 1)) @ patterns_on source (unat l)"
  using assms by (rule line_patterns_index)

definition sample_source :: string where
  "sample_source = ''a // seagrass-allow: x'' @ [NEWLINE] @ ''b''"

lemma sample_lines: "split_char NEWLINE sample_source = [''a // seagrass-allow: x'', ''b'']"
  by (simp add: sample_source_def NEWLINE_def)

lemma sample_offsets: "line_comment_delimiter_offsets ''a // seagrass-allow: x'' = [2]" "line_comment_delimiter_offsets ''b'' = []"
  by (simp_all add: line_comment_delimiter_offsets_def)

lemma sample_offset: "byte_offset_for_character (strip_newline (''a // seagrass-allow: x'' @ [NEWLINE])) 2 = Some 2"
  by code_simp

lemma sample_code: "\<not> is_in_comment_or_string sample_source \<lparr>pos_line = 0, pos_character = 2\<rparr>"
proof -
  have "split_inclusive sample_source = [''a // seagrass-allow: x'' @ [NEWLINE], ''b'']"
    by (simp add: sample_source_def NEWLINE_def)
  then have "byte_offset_at sample_source \<lparr>pos_line = 0, pos_character = 2\<rparr> = Some 2"
    using sample_offset by (simp add: byte_offset_at_def offset_at_def)
  moreover have "lex_loop sample_source 2 0 Code = Code"
    by (simp add: sample_source_def lex_loop.simps byte_at_def QUOTE_def)
  ultimately show ?thesis by (simp add: is_in_comment_or_string_def)
qed

lemma sample_count: "char_count ''a '' = 2"
  by (simp add: char_count_def is_continuation_def byte_def)

lemma sample_own: "own_patterns '' seagrass-allow: x'' = [''x'']"
  by code_simp

lemma sample_comment: "patterns_on sample_source 0 = [''x'']" "patterns_on sample_source (Suc 0) = []"
  using sample_code
  by (simp_all add: patterns_on_def sample_lines line_comment_def sample_offsets sample_count sample_own u32_try_from_def)

theorem line_patterns_exact_witness:
  "\<forall>ps nodes config. line_patterns (suppression_index_of ps sample_source nodes config) 1 = [''x'']"
proof (intro allI)
  fix ps nodes config
  have "length (split_char NEWLINE sample_source) < 2 ^ 32" by (simp add: sample_source_def NEWLINE_def)
  from line_patterns_exact [OF this, of ps nodes config 1]
  show "line_patterns (suppression_index_of ps sample_source nodes config) 1 = [''x'']" by (simp add: sample_comment)
qed

lemma code_rule_matches_iff:
  "code_rule_matches pattern code rule \<longleftrightarrow> (\<exists>c r. code = Some c \<and> rule = Some r \<and> pattern = c @ ''.'' @ r)"
  by (cases code; cases rule) (auto simp: code_rule_matches_def bind_eq_Some_conv strip_prefix_Some)

text \<open>A pattern matches a diagnostic exactly if it is the wildcard, the code, the code and the rule with
  a dot between them, or a full trailing component of the topic or of the rule.\<close>

theorem suppression_matches_exact:
  "suppression_matches pattern topic rule code \<longleftrightarrow>
     pattern = ''*'' \<or> code = Some pattern \<or>
     (\<exists>c r. code = Some c \<and> rule = Some r \<and> pattern = c @ ''.'' @ r) \<or>
     topic = Some pattern \<or> (\<exists>q. topic = Some (q @ ''.'' @ pattern)) \<or>
     rule = Some pattern \<or> (\<exists>q. rule = Some (q @ ''/'' @ pattern))"
proof -
  have last: "(case x of None \<Rightarrow> False | Some t \<Rightarrow> t = pattern \<or> suffix (sep @ pattern) t) \<longleftrightarrow>
      x = Some pattern \<or> (\<exists>q. x = Some (q @ sep @ pattern))" for x sep
    by (cases x) (auto simp: suffix_def)
  have code: "(case code of None \<Rightarrow> False | Some c \<Rightarrow> c = pattern) \<longleftrightarrow> code = Some pattern"
    by (cases code) auto
  show ?thesis
    unfolding suppression_matches_def ANY_SUPPRESSION_PATTERN_def code_rule_matches_iff last code by blast
qed

text \<open>Behind the character literal of a quote the scanner believes to be inside a string: the comment
  there is not seen.\<close>

definition quoted_source :: string where
  "quoted_source = [CHR 0x27, CHR 0x22, CHR 0x27] @ '' // seagrass-allow: x''"

lemma quote_literal_is_string: "lex_loop quoted_source 4 0 Code = InString False"
  by (simp add: quoted_source_def lex_loop.simps byte_at_def QUOTE_def BACKSLASH_def)

end
