(* ===== verification/Evidence.thy ===== *)
theory Evidence
  imports Document_Types Call_Graph Constraint_Rules Constraint_Text Identifiers Text_Positions
begin

section \<open>Evidence on accounts\<close>

text \<open>
  Models \<open>src/core/evidence/mod.rs\<close> and \<open>composites.rs\<close>: what a document says of an accounts
  struct.  The instructions that use the struct are found by name, with the helper functions of
  the same context that they call within eight steps; each field is joined with its constraints
  and its uses, each constraint with the accounts, arguments and seeds it names.  References into
  the document are copies, a \<open>HashSet\<close> of names is a set.
\<close>

subsection \<open>Instructions that reach an accounts struct\<close>

definition has_context :: "string \<Rightarrow> instruction_symbol \<Rightarrow> bool" where
  "has_context accounts_name f \<longleftrightarrow>
     (case is_context f of None \<Rightarrow> False | Some context \<Rightarrow> cr_name context = accounts_name)"

definition helper_named :: "instruction_symbol list \<Rightarrow> string \<Rightarrow> instruction_symbol option" where
  "helper_named helpers name = find (\<lambda>helper. is_name helper = name) helpers"

definition calls_at :: "nat \<Rightarrow> instruction_symbol \<Rightarrow> (string \<times> nat) list" where
  "calls_at d f = map (\<lambda>call. (fc_name call, d)) (is_function_calls f)"

lemma helper_named_Some: "helper_named helpers name = Some h \<Longrightarrow> h \<in> set helpers \<and> is_name h = name"
  by (auto simp: helper_named_def find_Some_iff)

lemma unseen_shrinks:
  "helper_named helpers name = Some h \<Longrightarrow> is_name h \<notin> seen \<Longrightarrow>
     card (is_name ` set helpers - insert (is_name h) seen) < card (is_name ` set helpers - seen)"
  by (rule psubset_card_mono) (auto dest!: helper_named_Some)

text \<open>The loop over \<open>pending\<close>; \<open>reachable\<close> is the list collected so far.\<close>

function helper_loop ::
  "instruction_symbol list \<Rightarrow> (string \<times> nat) list \<Rightarrow> string set \<Rightarrow> instruction_symbol list
     \<Rightarrow> instruction_symbol list" where
  "helper_loop helpers [] seen_names reachable = reachable"
| "helper_loop helpers ((name, d) # pending) seen_names reachable =
     (case helper_named helpers name of
       None \<Rightarrow> helper_loop helpers pending seen_names reachable
     | Some helper \<Rightarrow>
         if is_name helper \<in> seen_names then helper_loop helpers pending seen_names reachable
         else
           (let seen_names' = insert (is_name helper) seen_names;
                reachable' = reachable @ [helper] in
            if d \<ge> MAX_REACHABILITY_DEPTH then helper_loop helpers pending seen_names' reachable'
            else helper_loop helpers (pending @ calls_at (d + 1) helper) seen_names' reachable'))"
  by pat_completeness auto

termination
  by (relation "measures [\<lambda>(helpers, pending, seen, reachable). card (is_name ` set helpers - seen),
                          \<lambda>(helpers, pending, seen, reachable). length pending]")
     (auto dest: unseen_shrinks)

definition helpers_of :: "anchor_symbols \<Rightarrow> string \<Rightarrow> instruction_symbol list" where
  "helpers_of symbols accounts_name = filter (has_context accounts_name) (free_functions symbols)"

definition program_instructions :: "anchor_symbols \<Rightarrow> string \<Rightarrow> instruction_symbol list" where
  "program_instructions symbols accounts_name = filter (has_context accounts_name) (instructions symbols)"

definition reachable_instructions_for_accounts ::
  "anchor_symbols \<Rightarrow> symbol_range \<Rightarrow> string set option \<Rightarrow> instruction_symbol list" where
  "reachable_instructions_for_accounts symbols accounts workspace_reachable_functions =
     (let program_instructions = program_instructions symbols (sr_name accounts);
          helpers = helpers_of symbols (sr_name accounts) in
      case workspace_reachable_functions of
        Some reachable_names \<Rightarrow>
          program_instructions @ filter (\<lambda>f. is_name f \<in> reachable_names) helpers
      | None \<Rightarrow>
          if program_instructions = [] then helpers
          else helper_loop helpers (concat (map (calls_at 1) program_instructions))
                 (is_name ` set program_instructions) program_instructions)"

subsection \<open>Constraints\<close>

record constraint_reference =
  cref_key :: string
  cref_name :: string
  cref_value_kind :: constraint_value_kind

record constraint_argument_reference =
  carg_key :: string
  carg_name :: string

definition constraint_has_key :: "account_constraint \<Rightarrow> string \<Rightarrow> bool" where
  "constraint_has_key constraint key = has_key (ac_text constraint) key"

definition constraint_has_flag_or_key :: "account_constraint \<Rightarrow> string \<Rightarrow> bool" where
  "constraint_has_flag_or_key constraint key = has_flag_or_key (ac_text constraint) key"

definition has_init_like_constraint :: "account_constraint \<Rightarrow> bool" where
  "has_init_like_constraint constraint \<longleftrightarrow>
     list_ex (\<lambda>spec. is_init_like spec \<and>
         constraint_has_flag_or_key constraint (constraint_key (spec_label spec))) CONSTRAINTS"

definition init_constraint_key :: "account_constraint \<Rightarrow> string option" where
  "init_constraint_key constraint =
     find (constraint_has_flag_or_key constraint)
       (map (\<lambda>spec. constraint_key (spec_label spec)) (filter is_init_like CONSTRAINTS))"

definition constraint_implies_mutability :: "account_constraint \<Rightarrow> bool" where
  "constraint_implies_mutability constraint \<longleftrightarrow>
     list_ex (\<lambda>spec. implies_mutability spec \<and>
         constraint_has_flag_or_key constraint (constraint_key (spec_label spec))) CONSTRAINTS"

text \<open>\<open>is_account_identifier\<close> is the identifier of \<open>crate::syntax\<close>.\<close>

definition is_account_identifier :: "string \<Rightarrow> bool" where
  "is_account_identifier s \<longleftrightarrow> (case s of [] \<Rightarrow> False | c # cs \<Rightarrow> ident_start c \<and> list_all ident_char cs)"

definition leading_identifier :: "string \<Rightarrow> (string \<times> string) option" where
  "leading_identifier v =
     (let identifier = takeWhile ident_char v in
      if \<not> is_account_identifier identifier then None
      else Some (identifier, dropWhile ident_char v))"

definition starts_with_any :: "string list \<Rightarrow> string \<Rightarrow> bool" where
  "starts_with_any starts s = list_ex (\<lambda>p. prefix p s) starts"

definition account_reference_after_key :: "account_constraint \<Rightarrow> string \<Rightarrow> string option" where
  "account_reference_after_key constraint key =
     Option.bind (value_after_key (ac_text constraint) key) (\<lambda>v.
     Option.bind (leading_identifier v) (\<lambda>(identifier, rest).
       let rest = trim_start rest in
       if prefix ''::'' rest \<or> prefix ''('' rest then None
       else if rest = [] \<or> starts_with_any ['','', '')'', '']'', ''.''] rest then Some identifier
       else None))"

definition simple_identifier_after_key :: "account_constraint \<Rightarrow> string \<Rightarrow> string option" where
  "simple_identifier_after_key constraint key =
     Option.bind (value_after_key (ac_text constraint) key) (\<lambda>v.
     Option.bind (leading_identifier v) (\<lambda>(identifier, rest).
       let rest = trim_start rest in
       if rest = [] \<or> starts_with_any ['','', '')'', '']''] rest then Some identifier else None))"

definition account_references :: "account_constraint \<Rightarrow> constraint_reference list" where
  "account_references constraint =
     List.map_filter
       (\<lambda>(key, kind).
         map_option (\<lambda>name. \<lparr>cref_key = key, cref_name = name, cref_value_kind = kind\<rparr>)
           (account_reference_after_key constraint key))
       account_reference_specs"

definition instruction_argument_references :: "account_constraint \<Rightarrow> constraint_argument_reference list" where
  "instruction_argument_references constraint =
     List.map_filter
       (\<lambda>key. map_option (\<lambda>name. \<lparr>carg_key = key, carg_name = name\<rparr>)
          (simple_identifier_after_key constraint key))
       instruction_argument_keys"

subsection \<open>Fields\<close>

record field_usage_evidence =
  fue_instruction :: string
  fue_range :: range
  fue_mutable :: bool

record field_evidence =
  fe_field :: symbol_range
  fe_constraints :: "account_constraint list"
  used_by_instructions :: "field_usage_evidence list"
  used_as_cpi_programs :: "field_usage_evidence list"

definition account_usages_of :: "string \<Rightarrow> string \<Rightarrow> account_usage list \<Rightarrow> field_usage_evidence list" where
  "account_usages_of instruction name usages =
     map (\<lambda>u. \<lparr>fue_instruction = instruction, fue_range = au_range u, fue_mutable = au_mutable u\<rparr>)
       (filter (\<lambda>u. au_name u = name) usages)"

definition data_field_usages_of ::
  "string \<Rightarrow> string \<Rightarrow> account_data_field_usage list \<Rightarrow> field_usage_evidence list" where
  "data_field_usages_of instruction name usages =
     map (\<lambda>u. \<lparr>fue_instruction = instruction, fue_range = adfu_range u, fue_mutable = adfu_mutable u\<rparr>)
       (filter (\<lambda>u. adfu_account u = name) usages)"

definition field_evidence_new :: "symbol_range \<Rightarrow> instruction_symbol list \<Rightarrow> field_evidence" where
  "field_evidence_new field symbols =
     \<lparr>fe_field = field,
      fe_constraints = sr_account_constraints field,
      used_by_instructions =
        concat (map (\<lambda>i.
          account_usages_of (is_name i) (sr_name field) (is_account_usages i) @
          data_field_usages_of (is_name i) (sr_name field) (is_account_data_field_usages i)) symbols),
      used_as_cpi_programs =
        concat (map (\<lambda>i. account_usages_of (is_name i) (sr_name field) (is_cpi_program_usages i))
          symbols)\<rparr>"

definition field_type_name :: "field_evidence \<Rightarrow> string option" where
  "field_type_name field = sr_type_name (fe_field field)"

definition has_generic_type :: "field_evidence \<Rightarrow> string \<Rightarrow> bool" where
  "has_generic_type field name \<longleftrightarrow> list_ex (\<lambda>generic. generic = name) (sr_generic_type_names (fe_field field))"

definition has_any_constraint :: "field_evidence \<Rightarrow> string list \<Rightarrow> bool" where
  "has_any_constraint field keys \<longleftrightarrow>
     list_ex (\<lambda>constraint. list_ex (\<lambda>key.
         constraint_has_flag_or_key constraint key \<or> constraint_has_key constraint key) keys)
       (fe_constraints field)"

definition has_init_constraint :: "field_evidence \<Rightarrow> bool" where
  "has_init_constraint field \<longleftrightarrow> list_ex has_init_like_constraint (fe_constraints field)"

definition is_unchecked_account :: "field_evidence \<Rightarrow> bool" where
  "is_unchecked_account field \<longleftrightarrow>
     field_type_name field = Some ''AccountInfo'' \<or> field_type_name field = Some ''UncheckedAccount''"

subsection \<open>Account sets\<close>

record account_set_evidence =
  ase_accounts :: symbol_range
  ase_fields :: "field_evidence list"
  ase_instructions :: "instruction_symbol list"
  account_names :: "string set"
  instruction_argument_names :: "string set"

text \<open>The accounts of the composites: fields of structs that a field has as its type.\<close>

definition composite_account_names :: "anchor_symbols \<Rightarrow> symbol_range \<Rightarrow> string set" where
  "composite_account_names symbols accounts =
     sr_name ` set (concat (map sr_fields
       (List.map_filter (\<lambda>field. Option.bind (sr_type_name field) (map_of (accounts_structs symbols)))
          (sr_fields accounts))))"

definition account_set_evidence_new ::
  "anchor_symbols \<Rightarrow> symbol_range \<Rightarrow> string set option \<Rightarrow> account_set_evidence" where
  "account_set_evidence_new symbols accounts workspace_reachable_functions =
     (let instructions =
            reachable_instructions_for_accounts symbols accounts workspace_reachable_functions in
      \<lparr>ase_accounts = accounts,
       ase_fields = map (\<lambda>field. field_evidence_new field instructions) (sr_fields accounts),
       ase_instructions = instructions,
       account_names = sr_name ` set (sr_fields accounts) \<union> composite_account_names symbols accounts,
       instruction_argument_names =
         ia_name ` set (concat (map is_arguments instructions)) \<union>
         iaa_name ` set (sr_instruction_arguments accounts)\<rparr>)"

definition evidence_graph ::
  "anchor_symbols \<Rightarrow> (string \<Rightarrow> string set option) \<Rightarrow> account_set_evidence list" where
  "evidence_graph symbols reachable_functions =
     map (\<lambda>(_, accounts).
         account_set_evidence_new symbols accounts (reachable_functions (sr_name accounts)))
       (accounts_structs symbols)"

definition evidence_from_document :: "anchor_symbols \<Rightarrow> account_set_evidence list" where
  "evidence_from_document symbols = evidence_graph symbols (\<lambda>_. None)"

definition has_account :: "account_set_evidence \<Rightarrow> string \<Rightarrow> bool" where
  "has_account accounts name \<longleftrightarrow> name \<in> account_names accounts"

definition has_instruction_argument :: "account_set_evidence \<Rightarrow> string \<Rightarrow> bool" where
  "has_instruction_argument accounts name \<longleftrightarrow> name \<in> instruction_argument_names accounts"

text \<open>Argument names match when they are equal but for leading underscores.\<close>

definition argument_matches :: "string \<Rightarrow> string \<Rightarrow> bool" where
  "argument_matches name argument \<longleftrightarrow>
     argument = name \<or> trim_start_char CHR ''_'' argument = trim_start_char CHR ''_'' name"

definition instruction_argument_type :: "account_set_evidence \<Rightarrow> string \<Rightarrow> string option" where
  "instruction_argument_type accounts name =
     or_else
       (Option.bind
         (find (\<lambda>a. argument_matches name (ia_name a)) (concat (map is_arguments (ase_instructions accounts))))
         ia_type_name)
       (Option.bind
         (find (\<lambda>a. argument_matches name (iaa_name a)) (sr_instruction_arguments (ase_accounts accounts)))
         iaa_type_name)"

definition instruction_argument_location :: "account_set_evidence \<Rightarrow> string \<Rightarrow> (string \<times> range) option" where
  "instruction_argument_location accounts name =
     find_map (\<lambda>i.
         map_option (\<lambda>a. (is_name i, ia_range a))
           (find (\<lambda>a. argument_matches name (ia_name a)) (is_arguments i)))
       (ase_instructions accounts)"

definition has_instruction_mapping :: "account_set_evidence \<Rightarrow> bool" where
  "has_instruction_mapping accounts \<longleftrightarrow> ase_instructions accounts \<noteq> []"

record unknown_account_usage_evidence =
  uau_instruction :: string
  uau_account :: string
  uau_range :: range

definition unknown_account_usages :: "account_set_evidence \<Rightarrow> unknown_account_usage_evidence list" where
  "unknown_account_usages accounts =
     concat (map (\<lambda>i.
         map (\<lambda>u. \<lparr>uau_instruction = is_name i, uau_account = au_name u, uau_range = au_range u\<rparr>)
           (filter (\<lambda>u. \<not> has_account accounts (au_name u)) (is_account_usages i)))
       (ase_instructions accounts))"

definition is_init_like_name :: "string \<Rightarrow> bool" where
  "is_init_like_name name \<longleftrightarrow>
     name \<in> {''Init'', ''Initialize'', ''Create'', ''CreateAccount'', ''New''} \<or>
     starts_with_any [''Init'', ''Initialize'', ''Create'', ''init'', ''initialize'', ''create''] name"

definition init_like_instruction :: "account_set_evidence \<Rightarrow> instruction_symbol option option" where
  "init_like_instruction accounts =
     map_option Some (find (\<lambda>i. is_init_like_name (is_name i)) (ase_instructions accounts))"

definition has_payer_candidate :: "account_set_evidence \<Rightarrow> bool" where
  "has_payer_candidate accounts \<longleftrightarrow>
     list_ex (\<lambda>field. field_type_name field = Some ''Signer'' \<or>
         list_ex (\<lambda>constraint. constraint_has_flag_or_key constraint ''signer'') (fe_constraints field))
       (ase_fields accounts)"

definition system_program_field :: "account_set_evidence \<Rightarrow> field_evidence option" where
  "system_program_field accounts = find (\<lambda>field. sr_name (fe_field field) = ''system_program'') (ase_fields accounts)"

definition has_system_program :: "account_set_evidence \<Rightarrow> bool" where
  "has_system_program accounts \<longleftrightarrow>
     (case system_program_field accounts of
       None \<Rightarrow> False
     | Some field \<Rightarrow> field_type_name field = Some ''Program'' \<and> has_generic_type field ''System'')"

subsection \<open>Seeds\<close>

datatype seed_expression_kind = StaticBytes | AccountKey | ArgumentSeed | SeedExpression

record seed_expression_evidence =
  see_expression :: string
  see_kind :: seed_expression_kind

definition pda_seed_values :: "pda_constraint \<Rightarrow> string list option" where
  "pda_seed_values pda = (case pda_seeds pda of SeedList seeds \<Rightarrow> Some seeds | SeedExpr _ \<Rightarrow> None)"

definition pda_seed_expression :: "pda_constraint \<Rightarrow> string option" where
  "pda_seed_expression pda =
     (case pda_seeds pda of
       SeedList seeds \<Rightarrow> Some (''['' @ join '', '' seeds @ '']'')
     | SeedExpr expr \<Rightarrow> Some expr)"

definition is_static_seed :: "string \<Rightarrow> bool" where
  "is_static_seed seed \<longleftrightarrow> prefix [CHR ''b'', QUOTE] seed \<or> prefix [CHR ''b'', CHR 0x27] seed"

text \<open>\<open>ConstraintEvidence::seeds_are_static_only\<close> and the method of fields.\<close>

definition pda_seeds_static :: "pda_constraint \<Rightarrow> bool" where
  "pda_seeds_static pda \<longleftrightarrow>
     (case pda_seed_values pda of None \<Rightarrow> False | Some seeds \<Rightarrow> seeds \<noteq> [] \<and> list_all is_static_seed seeds)"

definition constraint_seeds_static :: "account_constraint \<Rightarrow> bool" where
  "constraint_seeds_static constraint \<longleftrightarrow>
     (case ac_pda constraint of
       Some pda \<Rightarrow> pda_seeds_static pda
     | None \<Rightarrow>
         case bracket_value (ac_text constraint) ''seeds'' of
           None \<Rightarrow> False
         | Some seed_list \<Rightarrow>
             let seeds = split_top_level seed_list in seeds \<noteq> [] \<and> list_all is_static_seed seeds)"

definition field_seeds_static :: "field_evidence \<Rightarrow> bool" where
  "field_seeds_static field \<longleftrightarrow>
     (case sr_pda_constraint (fe_field field) of
       Some pda \<Rightarrow> pda_seeds_static pda
     | None \<Rightarrow> list_ex constraint_seeds_static (fe_constraints field))"

definition account_seed_path_root :: "string \<Rightarrow> string option" where
  "account_seed_path_root rest =
     find_map (\<lambda>suf. map_option (trim_start_char CHR ''.'') (strip_suffix suf rest))
       [''.key().as_ref()'', ''.key().as_ref'', ''.as_ref()'']"

definition is_account_seed_path :: "string \<Rightarrow> bool" where
  "is_account_seed_path rest \<longleftrightarrow>
     (case account_seed_path_root rest of
       None \<Rightarrow> False
     | Some path \<Rightarrow> path = [] \<or> list_all is_account_identifier (split_char CHR ''.'' path))"

definition classify_seed_expression :: "string \<Rightarrow> account_set_evidence \<Rightarrow> seed_expression_kind" where
  "classify_seed_expression seed0 accounts =
     (let seed = trim seed0 in
      if is_static_seed seed then StaticBytes
      else
        case leading_identifier seed of
          None \<Rightarrow> SeedExpression
        | Some (identifier, rest0) \<Rightarrow>
            let rest = trim_start rest0 in
            if has_account accounts identifier \<and> is_account_seed_path rest then AccountKey
            else if has_instruction_argument accounts identifier \<and>
                starts_with_any [''.as_ref()'', ''.as_bytes()'', ''.to_le_bytes().as_ref()''] rest
            then ArgumentSeed
            else SeedExpression)"

definition classified_seed :: "account_set_evidence \<Rightarrow> string \<Rightarrow> seed_expression_evidence" where
  "classified_seed accounts seed =
     \<lparr>see_expression = seed, see_kind = classify_seed_expression seed accounts\<rparr>"

definition pda_seed_expressions :: "pda_constraint \<Rightarrow> account_set_evidence \<Rightarrow> seed_expression_evidence list" where
  "pda_seed_expressions pda accounts =
     (case pda_seed_values pda of
       Some seeds \<Rightarrow> map (classified_seed accounts) seeds
     | None \<Rightarrow> [\<lparr>see_expression = unwrap_or [] (pda_seed_expression pda), see_kind = SeedExpression\<rparr>])"

definition constraint_seed_expressions ::
  "account_constraint \<Rightarrow> account_set_evidence \<Rightarrow> seed_expression_evidence list" where
  "constraint_seed_expressions constraint accounts =
     (case ac_pda constraint of
       Some pda \<Rightarrow> pda_seed_expressions pda accounts
     | None \<Rightarrow>
         case bracket_value (ac_text constraint) ''seeds'' of
           None \<Rightarrow> []
         | Some seed_list \<Rightarrow> map (classified_seed accounts) (split_top_level seed_list))"

definition field_seed_expressions ::
  "field_evidence \<Rightarrow> account_set_evidence \<Rightarrow> account_constraint \<Rightarrow> seed_expression_evidence list" where
  "field_seed_expressions field accounts constraint =
     (case sr_pda_constraint (fe_field field) of
       Some pda \<Rightarrow> pda_seed_expressions pda accounts
     | None \<Rightarrow> constraint_seed_expressions constraint accounts)"

subsection \<open>Ranges of values\<close>

text \<open>The characters of a line that are no whitespace, each with its index.\<close>

definition solid_chars :: "string \<Rightarrow> (string \<times> nat) list" where
  "solid_chars line =
     filter (\<lambda>(c, _). \<not> is_ws c) (zip (utf8_chars line) [0..<length (utf8_chars line)])"

record normalized_line =
  nl_text :: string
  nl_positions :: "nat list"

definition normalized_line :: "string \<Rightarrow> normalized_line" where
  "normalized_line line =
     \<lparr>nl_text = concat (map fst (solid_chars line)), nl_positions = map snd (solid_chars line)\<rparr>"

definition nth_opt :: "'a list \<Rightarrow> nat \<Rightarrow> 'a option" where
  "nth_opt xs i = (if i < length xs then Some (xs ! i) else None)"

text \<open>The index found is one of bytes, the positions are indexed by characters.\<close>

definition value_range_on_line :: "string \<Rightarrow> u32 \<Rightarrow> string \<Rightarrow> string \<Rightarrow> range option" where
  "value_range_on_line source line_number key v =
     Option.bind (line_at source (unat line_number)) (\<lambda>line.
       let normalized = normalized_line line in
       Option.bind (str_find (key @ ''='' @ v) (nl_text normalized)) (\<lambda>found.
         let start = found + length key + 1;
             end = start + char_count v in
         Option.bind (nth_opt (nl_positions normalized) start) (\<lambda>first.
         Option.bind (u32_try_from first) (\<lambda>start_character.
         Option.bind (u32_try_from (unwrap_or (char_count line) (nth_opt (nl_positions normalized) end)))
           (\<lambda>end_character.
             Some \<lparr>range_start = \<lparr>pos_line = line_number, pos_character = start_character\<rparr>,
                   range_end = \<lparr>pos_line = line_number, pos_character = end_character\<rparr>\<rparr>)))))"

definition value_range :: "account_constraint \<Rightarrow> string \<Rightarrow> string \<Rightarrow> string \<Rightarrow> range option" where
  "value_range constraint source key v =
     find_map (\<lambda>line_number. value_range_on_line source (of_nat line_number) key v)
       [unat (pos_line (range_start (ac_range constraint)))..<
        Suc (unat (pos_line (range_end (ac_range constraint))))]"

subsection \<open>The search for helpers\<close>

text \<open>
  The helpers that \<open>k + 1\<close> calls reach.  A name counts when it is the name of a helper and not
  of an instruction of the struct; of helpers with the same name only the first is looked at.
\<close>

definition new_helper :: "instruction_symbol list \<Rightarrow> instruction_symbol list \<Rightarrow> string \<Rightarrow> bool" where
  "new_helper own helpers n \<longleftrightarrow> helper_named helpers n \<noteq> None \<and> n \<notin> is_name ` set own"

definition called_names :: "instruction_symbol \<Rightarrow> string set" where
  "called_names f = fc_name ` set (is_function_calls f)"

primrec helper_level :: "instruction_symbol list \<Rightarrow> instruction_symbol list \<Rightarrow> nat \<Rightarrow> string set" where
  "helper_level own helpers 0 = {n. new_helper own helpers n \<and> (\<exists>f. f \<in> set own \<and> n \<in> called_names f)}"
| "helper_level own helpers (Suc k) =
     {n. new_helper own helpers n \<and>
         (\<exists>m f. m \<in> helper_level own helpers k \<and> helper_named helpers m = Some f \<and> n \<in> called_names f)}"

text \<open>
  The loop is the bounded search of the workspace graph, run on a graph of the document: a fresh
  start calls what the instructions call, and the names that count are the unambiguous ones.
\<close>

definition document_graph :: "string \<Rightarrow> instruction_symbol list \<Rightarrow> instruction_symbol list \<Rightarrow> call_graph" where
  "document_graph start own helpers =
     \<lparr>edges = (start, concat (map (\<lambda>f. map fc_name (is_function_calls f)) own)) #
        map (\<lambda>f. (is_name f, map fc_name (is_function_calls f))) helpers,
      definition_counts =
        map (\<lambda>f. (is_name f, 1)) (filter (\<lambda>f. is_name f \<notin> is_name ` set own) helpers)\<rparr>"

lemma map_of_helpers:
  "map_of (map (\<lambda>f. (is_name f, g f)) helpers) n = map_option g (helper_named helpers n)"
  by (induction helpers) (auto simp: helper_named_def)

lemma helper_named_filter:
  "helper_named (filter (\<lambda>f. is_name f \<notin> I) helpers) n = (if n \<in> I then None else helper_named helpers n)"
  by (induction helpers) (auto simp: helper_named_def)

lemma document_skipped:
  "skipped (document_graph start own helpers) RequireUnambiguous n \<longleftrightarrow> \<not> new_helper own helpers n"
  by (auto simp: skipped_def is_unambiguous_def document_graph_def map_of_helpers helper_named_filter
      new_helper_def)

lemma document_callees:
  "n \<noteq> start \<Longrightarrow> map_of (edges (document_graph start own helpers)) n =
     map_option (\<lambda>f. map fc_name (is_function_calls f)) (helper_named helpers n)"
  by (simp add: document_graph_def map_of_helpers)

lemma document_callees_start:
  "callees_of (document_graph start own helpers) start =
     concat (map (\<lambda>f. map fc_name (is_function_calls f)) own)"
  by (simp add: callees_of_def document_graph_def)

lemma helper_loop_reach:
  assumes "start \<notin> is_name ` set helpers" "seen = is_name ` set own \<union> reached_names r"
  shows "\<exists>hs. helper_loop helpers pending seen acc = acc @ hs \<and> distinct (map is_name hs) \<and>
      is_name ` set hs \<inter> seen = {} \<and> (\<forall>h \<in> set hs. helper_named helpers (is_name h) = Some h) \<and>
      reached_names (reach_loop (document_graph start own helpers) RequireUnambiguous pending r) =
        reached_names r \<union> is_name ` set hs"
  using assms
proof (induction helpers pending seen acc arbitrary: r rule: helper_loop.induct)
  case (1 helpers seen acc)
  then show ?case by simp
next
  case (2 helpers name d pending seen acc)
  let ?g = "document_graph start own helpers"
  show ?case
  proof (cases "helper_named helpers name")
    case None
    then have "skipped ?g RequireUnambiguous name" by (simp add: document_skipped new_helper_def)
    with None 2 show ?thesis by simp
  next
    case (Some h)
    then have h: "h \<in> set helpers" "is_name h = name" by (auto dest: helper_named_Some)
    show ?thesis
    proof (cases "name \<in> seen")
      case True
      with h "2.prems"(2) have "skipped ?g RequireUnambiguous name \<or> name \<in> reached_names r"
        by (auto simp: document_skipped new_helper_def)
      with Some True h 2 show ?thesis by auto
    next
      case False
      let ?r = "r\<lparr>reached_names := insert name (reached_names r)\<rparr>"
      let ?r' = "?r\<lparr>truncated := truncated r \<or> is_function_calls h \<noteq> []\<rparr>"
      let ?stop = "d \<ge> MAX_REACHABILITY_DEPTH"
      have not_skipped: "\<not> skipped ?g RequireUnambiguous name" "name \<notin> reached_names r"
        using False Some "2.prems"(2) by (auto simp: document_skipped new_helper_def)
      have "name \<noteq> start" using h "2.prems"(1) by auto
      then have edges: "map_of (edges ?g) name = Some (map fc_name (is_function_calls h))"
        using Some by (simp add: document_callees)
      have loop: "reached_names (reach_loop ?g RequireUnambiguous ((name, d) # pending) r) =
          reached_names (if ?stop then reach_loop ?g RequireUnambiguous pending ?r'
            else reach_loop ?g RequireUnambiguous (pending @ calls_at (d + 1) h) ?r)"
        using not_skipped edges by (simp add: Let_def calls_at_def comp_def)
      have helper: "helper_loop helpers ((name, d) # pending) seen acc =
          (if ?stop then helper_loop helpers pending (insert name seen) (acc @ [h])
           else helper_loop helpers (pending @ calls_at (d + 1) h) (insert name seen) (acc @ [h]))"
        using Some False h by (simp add: Let_def)
      have seen: "insert name seen = is_name ` set own \<union> reached_names ?r"
        "insert name seen = is_name ` set own \<union> reached_names ?r'" using "2.prems"(2) by auto
      obtain hs where hs: "helper_loop helpers ((name, d) # pending) seen acc = (acc @ [h]) @ hs"
          "distinct (map is_name hs)" "is_name ` set hs \<inter> insert name seen = {}"
          "\<forall>h \<in> set hs. helper_named helpers (is_name h) = Some h"
          "reached_names (reach_loop ?g RequireUnambiguous ((name, d) # pending) r) =
             insert name (reached_names r) \<union> is_name ` set hs"
      proof (cases ?stop)
        case True
        have "is_name h \<notin> seen" using h False by simp
        from "2.IH"(3) [OF Some this refl refl True "2.prems"(1), of ?r'] h seen(2) that True
        show ?thesis unfolding loop helper by auto
      next
        case stop: False
        have "is_name h \<notin> seen" using h False by simp
        from "2.IH"(4) [OF Some this refl refl stop "2.prems"(1), of ?r] h seen(1) that stop
        show ?thesis unfolding loop helper by auto
      qed
      show ?thesis
        using hs h Some False by (intro exI [of _ "h # hs"]) auto
    qed
  qed
qed

lemma document_steps:
  assumes "start \<notin> is_name ` set helpers"
  shows "(call_step (document_graph start own helpers) RequireUnambiguous ^^ Suc k) `` {start} =
     helper_level own helpers k"
proof (induction k)
  case 0
  show ?case
    by (auto simp: call_step_def document_skipped document_callees_start called_names_def)
next
  case (Suc k)
  let ?R = "call_step (document_graph start own helpers) RequireUnambiguous"
  have "(?R ^^ Suc (Suc k)) `` {start} = ?R `` (helper_level own helpers k)"
    unfolding Suc.IH [symmetric] by (auto simp only: relpow.simps relcomp_Image)
  also have "\<dots> = helper_level own helpers (Suc k)"
  proof -
    have named: "m \<noteq> start \<and> (\<exists>f. helper_named helpers m = Some f)" if "m \<in> helper_level own helpers k" for m
    proof -
      from that have "new_helper own helpers m" by (cases k) auto
      with assms show ?thesis by (auto simp: new_helper_def dest: helper_named_Some)
    qed
    have "n \<in> ?R `` {m} \<longleftrightarrow>
        new_helper own helpers n \<and> (\<exists>f. helper_named helpers m = Some f \<and> n \<in> called_names f)"
      if "m \<in> helper_level own helpers k" for m n
      using named [OF that]
      by (auto simp: call_step_def document_skipped callees_of_def document_callees called_names_def)
    then show ?thesis by auto
  qed
  finally show ?case .
qed

lemma levels_shift: "(\<Union>i \<in> {1..n::nat}. f i) = (\<Union>k \<in> {..<n}. f (Suc k))"
  by (simp only: image_Suc_lessThan [symmetric] image_image SUP_image comp_def)

lemma helper_loop_levels:
  assumes "init = concat (map (calls_at 1) own)" "own' = is_name ` set own"
  shows "\<exists>hs. helper_loop helpers init own' own = own @ hs \<and> distinct (map is_name hs) \<and>
     (\<forall>h \<in> set hs. helper_named helpers (is_name h) = Some h) \<and>
     is_name ` set hs = (\<Union>k \<in> {..<MAX_REACHABILITY_DEPTH}. helper_level own helpers k)"
proof -
  obtain start :: string where start: "start \<notin> is_name ` set helpers"
    using ex_new_if_finite [of "is_name ` set helpers"] infinite_UNIV_listI by blast
  let ?g = "document_graph start own helpers"
  let ?r = "\<lparr>reached_names = {}, truncated = False\<rparr>"
  obtain hs where hs: "helper_loop helpers init own' own = own @ hs" "distinct (map is_name hs)"
      "\<forall>h \<in> set hs. helper_named helpers (is_name h) = Some h"
      "reached_names (reach_loop ?g RequireUnambiguous init ?r) = is_name ` set hs"
    using helper_loop_reach [OF start, of own' own ?r init own] assms by auto
  have "init = map (\<lambda>c. (c, 1)) (callees_of ?g start)"
    by (simp add: assms document_callees_start map_concat calls_at_def [abs_def] comp_def)
  then have "is_name ` set hs = reached_names (reachable_from_with_policy ?g start RequireUnambiguous)"
    using hs(4) by (simp add: reachable_from_with_policy_def)
  also have "\<dots> = (\<Union>k \<in> {..<MAX_REACHABILITY_DEPTH}. helper_level own helpers k)"
    using reachable_levels [of ?g start RequireUnambiguous]
    unfolding Let_def levels_shift document_steps [OF start] by simp
  finally show ?thesis using hs by blast
qed


subsection \<open>The range of a value\<close>

text \<open>The characters of a range of a line that are no whitespace.\<close>

definition solid_text :: "string list \<Rightarrow> string" where
  "solid_text chars = concat (filter (\<lambda>c. \<not> is_ws c) chars)"

definition chars_of_range :: "string \<Rightarrow> range \<Rightarrow> string list" where
  "chars_of_range line r =
     take (unat (pos_character (range_end r)) - unat (pos_character (range_start r)))
       (drop (unat (pos_character (range_start r))) (utf8_chars line))"

lemma filter_zip_fst:
  "length is = length xs \<Longrightarrow> map fst (filter (\<lambda>(c, _). p c) (zip xs is)) = filter p xs"
  by (induction "is" xs rule: list_induct2) auto

text \<open>Cutting a list at the index of its i-th marked element keeps the first i marked ones.\<close>

lemma filter_take_index:
  "i < length (filter (\<lambda>(c, _). p c) (zip xs [k..<k + length xs])) \<Longrightarrow>
     filter p (take (snd (filter (\<lambda>(c, _). p c) (zip xs [k..<k + length xs]) ! i) - k) xs) =
       take i (filter p xs) \<and>
     k \<le> snd (filter (\<lambda>(c, _). p c) (zip xs [k..<k + length xs]) ! i)"
proof (induction xs arbitrary: k i)
  case (Cons x xs)
  have upt: "[k..<k + length (x # xs)] = k # [Suc k..<Suc k + length xs]"
    by (simp add: upt_conv_Cons del: upt_Suc)
  let ?f = "filter (\<lambda>(c, _). p c) (zip xs [Suc k..<Suc k + length xs])"
  show ?case
  proof (cases "p x")
    case True
    show ?thesis
    proof (cases i)
      case 0
      with True show ?thesis unfolding upt by simp
    next
      case (Suc j)
      with Cons.prems True have "j < length ?f" unfolding upt by simp
      from Cons.IH [OF this] have IH: "filter p (take (snd (?f ! j) - Suc k) xs) = take j (filter p xs)"
        "Suc k \<le> snd (?f ! j)" by auto
      then have "snd (?f ! j) - k = Suc (snd (?f ! j) - Suc k)" by simp
      with IH True Suc show ?thesis unfolding upt by simp
    qed
  next
    case False
    with Cons.prems have "i < length ?f" unfolding upt by simp
    from Cons.IH [OF this] have IH: "filter p (take (snd (?f ! i) - Suc k) xs) = take i (filter p xs)"
      "Suc k \<le> snd (?f ! i)" by auto
    then have "snd (?f ! i) - k = Suc (snd (?f ! i) - Suc k)" by simp
    with IH False show ?thesis unfolding upt by simp
  qed
qed simp

lemma nl_positions_cut:
  assumes "nth_opt (nl_positions (normalized_line line)) i = Some j"
  shows "filter (\<lambda>c. \<not> is_ws c) (take j (utf8_chars line)) =
    take i (filter (\<lambda>c. \<not> is_ws c) (utf8_chars line))"
proof -
  let ?f = "filter (\<lambda>(c, _). \<not> is_ws c) (zip (utf8_chars line) [0..<0 + length (utf8_chars line)])"
  from assms have "i < length ?f" "j = snd (?f ! i)"
    by (auto simp: nth_opt_def normalized_line_def solid_chars_def split: if_splits)
  with filter_take_index [of i "\<lambda>c. \<not> is_ws c" "utf8_chars line" 0] show ?thesis by simp
qed

lemma nl_positions_end:
  assumes "nth_opt (nl_positions (normalized_line line)) i = None"
  shows "take i (filter (\<lambda>c. \<not> is_ws c) (utf8_chars line)) = filter (\<lambda>c. \<not> is_ws c) (utf8_chars line)"
proof -
  have "map fst (solid_chars line) = filter (\<lambda>c. \<not> is_ws c) (utf8_chars line)"
    by (simp add: solid_chars_def filter_zip_fst)
  then have "length (nl_positions (normalized_line line)) = length (filter (\<lambda>c. \<not> is_ws c) (utf8_chars line))"
    by (metis length_map normalized_line_def normalized_line.select_convs(2))
  with assms show ?thesis by (auto simp: nth_opt_def split: if_splits)
qed

lemma nl_text_ascii:
  assumes "ascii line"
  shows "filter (\<lambda>c. \<not> is_ws c) (utf8_chars line) = map (\<lambda>c. [c]) (nl_text (normalized_line line))"
proof -
  have "concat (map (\<lambda>c. [c]) xs) = xs" for xs :: string by (induction xs) auto
  then have "nl_text (normalized_line line) = filter (\<lambda>c. \<not> is_ws [c]) line"
    by (simp add: normalized_line_def solid_chars_def filter_zip_fst utf8_chars_ascii [OF assms]
        filter_map comp_def)
  then show ?thesis by (simp add: utf8_chars_ascii [OF assms] filter_map comp_def)
qed

lemma concat_singletons [simp]: "concat (map (\<lambda>c. [c]) s) = s"
  by (induction s) auto

text \<open>On a line of ASCII characters the range found for a value is right: without
  whitespace, its characters are the value, and the characters before it end with the key and
  an equals sign.\<close>

theorem value_range_covers_value:
  assumes "line_at source (unat ln) = Some line" "ascii line" "ascii v"
    and "value_range_on_line source ln key v = Some r"
  shows "solid_text (chars_of_range line r) = v \<and>
    suffix (key @ ''='')
      (solid_text (take (unat (pos_character (range_start r))) (utf8_chars line)))"
proof -
  let ?nl = "normalized_line line"
  let ?solid = "\<lambda>c. \<not> is_ws c"
  let ?chars = "utf8_chars line"
  have count: "char_count v = length v" by (simp add: char_count_def utf8_chars_ascii assms(3))
  obtain found s where find: "str_find (key @ ''='' @ v) (nl_text ?nl) = Some found"
      and s: "nth_opt (nl_positions ?nl) (found + length key + 1) = Some s"
      and rs: "unat (pos_character (range_start r)) = s"
      and re: "unat (pos_character (range_end r)) =
        unwrap_or (char_count line) (nth_opt (nl_positions ?nl) (found + length key + 1 + length v))"
    using assms(1,4) by (auto simp: value_range_on_line_def Let_def bind_eq_Some_conv count
        dest!: unat_u32_try_from)
  let ?start = "found + length key + 1"
  let ?e = "unat (pos_character (range_end r))"
  have prefix_s: "filter ?solid (take s ?chars) = map (\<lambda>c. [c]) (take ?start (nl_text ?nl))"
    using nl_positions_cut [OF s] by (simp add: nl_text_ascii assms(2) take_map)
  have prefix_e: "filter ?solid (take ?e ?chars) = map (\<lambda>c. [c]) (take (?start + length v) (nl_text ?nl))"
  proof (cases "nth_opt (nl_positions ?nl) (?start + length v)")
    case None
    with re have "?e = length ?chars" by (simp add: char_count_def)
    with nl_positions_end [OF None] show ?thesis by (simp add: nl_text_ascii assms(2) take_map)
  next
    case (Some e)
    with re nl_positions_cut [OF Some] show ?thesis by (simp add: nl_text_ascii assms(2) take_map)
  qed
  from find obtain pre post where parts: "nl_text ?nl = pre @ (key @ ''='' @ v) @ post" "length pre = found"
    using str_find_Some_prefix [OF find] by (metis append_take_drop_id length_take min.absorb2 prefixE)
  have "solid_text (chars_of_range line r) = v"
  proof (cases "s \<le> ?e")
    case True
    then have "take ?e ?chars = take s ?chars @ chars_of_range line r"
      unfolding chars_of_range_def rs by (metis le_add_diff_inverse take_add)
    with prefix_s prefix_e have "map (\<lambda>c. [c]) (take (?start + length v) (nl_text ?nl)) =
        map (\<lambda>c. [c]) (take ?start (nl_text ?nl)) @ filter ?solid (chars_of_range line r)"
      by simp
    moreover have "take (?start + length v) (nl_text ?nl) = take ?start (nl_text ?nl) @ v"
      using parts by simp
    ultimately have "filter ?solid (chars_of_range line r) = map (\<lambda>c. [c]) v" by simp
    then show ?thesis unfolding solid_text_def by simp
  next
    case False
    then have "length (filter ?solid (take ?e ?chars)) \<le> length (filter ?solid (take s ?chars))"
      by (metis filter_append le_add_diff_inverse length_append le_add1 nat_le_linear take_add)
    with prefix_s prefix_e parts have "v = []" by simp
    with False show ?thesis by (simp add: solid_text_def chars_of_range_def rs)
  qed
  moreover have "solid_text (take s ?chars) = pre @ key @ ''=''"
    unfolding solid_text_def prefix_s concat_singletons parts(1) using parts(2) by simp
  ultimately show ?thesis unfolding rs by (auto simp: suffix_def)
qed

lemma value_range_ends:
  assumes "line_at source (unat ln) = Some line"
    and "str_find (key @ ''='' @ v) (nl_text (normalized_line line)) = Some found"
    and "nth_opt (nl_positions (normalized_line line)) (found + length key + 1) = Some s"
    and "nth_opt (nl_positions (normalized_line line)) (found + length key + 1 + char_count v) = Some e"
    and "u32_try_from s = Some s'" and "u32_try_from e = Some e'"
  shows "value_range_on_line source ln key v =
    Some \<lparr>range_start = \<lparr>pos_line = ln, pos_character = s'\<rparr>, range_end = \<lparr>pos_line = ln, pos_character = e'\<rparr>\<rparr>"
  using assms by (simp add: value_range_on_line_def Let_def)

theorem value_range_covers_value_witness:
  "solid_text (chars_of_range ''k = 8 + 1''
     \<lparr>range_start = \<lparr>pos_line = 0, pos_character = 4\<rparr>, range_end = \<lparr>pos_line = 0, pos_character = 8\<rparr>\<rparr>) = ''8+'' \<and>
   suffix (''k'' @ ''='') (solid_text (take (unat (4 :: u32)) (utf8_chars ''k = 8 + 1'')))"
proof -
  have line: "line_at ''k = 8 + 1'' (unat (0 :: u32)) = Some ''k = 8 + 1''"
    and ascii: "ascii ''k = 8 + 1''" "ascii ''8+''"
    by code_simp+
  have "normalized_line ''k = 8 + 1'' = \<lparr>nl_text = ''k=8+1'', nl_positions = [0, 2, 4, 6, 8]\<rparr>"
    "char_count ''8+'' = 2"
    by code_simp+
  then have "value_range_on_line ''k = 8 + 1'' 0 ''k'' ''8+'' =
     Some \<lparr>range_start = \<lparr>pos_line = 0, pos_character = 4\<rparr>, range_end = \<lparr>pos_line = 0, pos_character = 8\<rparr>\<rparr>"
    by (intro value_range_ends [OF line, where found = 0 and s = 4 and e = 8])
       (simp_all add: nth_opt_def u32_try_from_def)
  from value_range_covers_value [OF line ascii this] show ?thesis by simp
qed

text \<open>
  The index of a byte is used as one of characters: after a character of two bytes the range is
  one to the right.  And the search knows no boundary of keys: it finds the payer of a
  reallocation for the payer.
\<close>

definition accented_line :: string where
  "accented_line = [CHR 0xC3, CHR 0xA9] @ ''k=u,s''"

lemma value_range_shifted:
  "value_range_on_line accented_line 0 ''k'' ''u'' =
     Some \<lparr>range_start = \<lparr>pos_line = 0, pos_character = 4\<rparr>, range_end = \<lparr>pos_line = 0, pos_character = 5\<rparr>\<rparr> \<and>
   utf8_chars accented_line ! 4 = '',''"
proof -
  have line: "line_at accented_line (unat (0 :: u32)) = Some accented_line" by code_simp
  have "normalized_line accented_line = \<lparr>nl_text = accented_line, nl_positions = [0, 1, 2, 3, 4, 5]\<rparr>"
    "char_count ''u'' = 1" and nth: "utf8_chars accented_line ! 4 = '',''"
    by code_simp+
  then have "value_range_on_line accented_line 0 ''k'' ''u'' =
     Some \<lparr>range_start = \<lparr>pos_line = 0, pos_character = 4\<rparr>, range_end = \<lparr>pos_line = 0, pos_character = 5\<rparr>\<rparr>"
    by (intro value_range_ends [OF line, where found = 2 and s = 4 and e = 5])
       (simp_all add: nth_opt_def u32_try_from_def accented_line_def)
  with nth show ?thesis by simp
qed

lemma value_range_of_other_key:
  "value_range_on_line ''r::p=u,p=u'' 0 ''p'' ''u'' =
     Some \<lparr>range_start = \<lparr>pos_line = 0, pos_character = 5\<rparr>, range_end = \<lparr>pos_line = 0, pos_character = 6\<rparr>\<rparr>"
proof -
  have line: "line_at ''r::p=u,p=u'' (unat (0 :: u32)) = Some ''r::p=u,p=u''" by code_simp
  have "normalized_line ''r::p=u,p=u'' = \<lparr>nl_text = ''r::p=u,p=u'', nl_positions = [0, 1, 2, 3, 4, 5, 6, 7, 8, 9]\<rparr>"
    "char_count ''u'' = 1"
    by code_simp+
  then show ?thesis
    by (intro value_range_ends [OF line, where found = 3 and s = 5 and e = 6])
       (simp_all add: nth_opt_def u32_try_from_def)
qed

subsection \<open>Uses of accounts\<close>

text \<open>Every use of an account by an instruction that reaches the struct is an entry of the field
  with that name, or is unknown, or has a name that only a composite brings in.\<close>

lemma usages_accounted:
  assumes "A = account_set_evidence_new symbols accounts reachable" "i \<in> set (ase_instructions A)"
    and "u \<in> set (is_account_usages i)"
  shows "(\<exists>f \<in> set (ase_fields A). sr_name (fe_field f) = au_name u \<and>
      \<lparr>fue_instruction = is_name i, fue_range = au_range u, fue_mutable = au_mutable u\<rparr>
        \<in> set (used_by_instructions f)) \<or>
    \<lparr>uau_instruction = is_name i, uau_account = au_name u, uau_range = au_range u\<rparr>
        \<in> set (unknown_account_usages A) \<or>
    au_name u \<in> composite_account_names symbols accounts"
proof (cases "au_name u \<in> account_names A")
  case False
  with assms(2,3) show ?thesis by (auto simp: unknown_account_usages_def has_account_def)
next
  case True
  let ?i = "reachable_instructions_for_accounts symbols accounts reachable"
  have names: "account_names A = sr_name ` set (sr_fields accounts) \<union> composite_account_names symbols accounts"
    and i: "i \<in> set ?i" and fields: "ase_fields A = map (\<lambda>f. field_evidence_new f ?i) (sr_fields accounts)"
    using assms(1,2) by (simp_all add: account_set_evidence_new_def Let_def)
  show ?thesis
  proof (cases "au_name u \<in> composite_account_names symbols accounts")
    case False
    with True names obtain f where f: "f \<in> set (sr_fields accounts)" "sr_name f = au_name u" by auto
    let ?e = "\<lparr>fue_instruction = is_name i, fue_range = au_range u, fue_mutable = au_mutable u\<rparr>"
    have "?e \<in> set (account_usages_of (is_name i) (sr_name f) (is_account_usages i))"
      using assms(3) f(2) by (auto simp: account_usages_of_def)
    with i have "?e \<in> set (used_by_instructions (field_evidence_new f ?i))"
      by (auto simp: field_evidence_new_def)
    with f fields show ?thesis by (auto simp: field_evidence_new_def)
  qed simp
qed

end
