(* ===== verification/Shape_Support.thy ===== *)
theory Shape_Support
  imports Evidence Diagnostic_Build
begin

section \<open>Reporting on accounts\<close>

text \<open>
  Helpers of the rules on accounts structs: \<open>src/lsp/diagnostics/constraint_shape/support.rs\<close> and
  the forms in which the rules build their messages, payloads and ranges.  \<open>parse\<close> is
  \<open>Url::parse\<close>; the placeholder it is applied to here is a constant that it accepts.
\<close>

definition quoted :: "string \<Rightarrow> string" where
  "quoted s = ''`'' @ s @ ''`''"

text \<open>\<open>diagnostic_from_range\<close> with the kind of the shape rules and an object as payload.\<close>

definition shape ::
  "(string \<Rightarrow> string option) \<Rightarrow> range \<Rightarrow> string \<Rightarrow> (string \<times> json) list \<Rightarrow> diagnostic" where
  "shape parse r message payload =
     diagnostic_from_range parse r AnchorConstraintShape message (Some (JObject payload))"

definition shape_with_related ::
  "(string \<Rightarrow> string option) \<Rightarrow> range \<Rightarrow> string \<Rightarrow> (string \<times> json) list \<Rightarrow> related_information list
     \<Rightarrow> diagnostic" where
  "shape_with_related parse r message payload related =
     diagnostic_from_range_with_related parse r AnchorConstraintShape message (Some (JObject payload))
       (Some related)"

text \<open>\<open>extend\<close> with an option.\<close>

definition option_list :: "'a option \<Rightarrow> 'a list" where
  "option_list x = (case x of None \<Rightarrow> [] | Some y \<Rightarrow> [y])"

lemma in_option_list [simp]: "y \<in> set (option_list x) \<longleftrightarrow> x = Some y"
  by (auto simp: option_list_def split: option.split)

definition field_name :: "field_evidence \<Rightarrow> string" where
  "field_name field = sr_name (fe_field field)"

definition type_range_or_selection :: "field_evidence \<Rightarrow> range" where
  "type_range_or_selection field =
     unwrap_or (sr_selection_range (fe_field field)) (sr_type_range (fe_field field))"

definition field_called :: "account_set_evidence \<Rightarrow> string \<Rightarrow> field_evidence option" where
  "field_called accounts name = find (\<lambda>field. field_name field = name) (ase_fields accounts)"

definition lifecycle_init_key :: "account_constraint \<Rightarrow> string" where
  "lifecycle_init_key constraint = unwrap_or ''init'' (init_constraint_key constraint)"

text \<open>\<open>mod.rs\<close> of the shape rules has the placeholder of the arbitration.\<close>

definition placeholder_information ::
  "(string \<Rightarrow> string option) \<Rightarrow> range \<Rightarrow> string \<Rightarrow> related_information" where
  "placeholder_information parse r message =
     \<lparr>rel_location = \<lparr>loc_uri = the (parse CURRENT_DOCUMENT_PLACEHOLDER_URI), loc_range = r\<rparr>,
      rel_message = message\<rparr>"

definition key_range_of_constraint :: "string \<Rightarrow> account_constraint \<Rightarrow> string \<Rightarrow> range option" where
  "key_range_of_constraint source constraint key =
     find_map (\<lambda>r. if ckr_key r = key then Some (ckr_range r) else None)
       (constraint_key_ranges source (ac_range constraint))"

definition field_information ::
  "(string \<Rightarrow> string option) \<Rightarrow> field_evidence \<Rightarrow> string \<Rightarrow> related_information" where
  "field_information parse field message =
     placeholder_information parse (sr_selection_range (fe_field field)) message"

definition constraint_key_information ::
  "(string \<Rightarrow> string option) \<Rightarrow> string \<Rightarrow> account_constraint \<Rightarrow> string \<Rightarrow> string \<Rightarrow> related_information" where
  "constraint_key_information parse source constraint key message =
     placeholder_information parse
       (unwrap_or (ac_range constraint) (key_range_of_constraint source constraint key)) message"

subsection \<open>What a report says\<close>

text \<open>The value of a key in the payload of a diagnostic.\<close>

definition payload_value :: "diagnostic \<Rightarrow> string \<Rightarrow> json option" where
  "payload_value d key = Option.bind (d_data d) (json_get key)"

lemma shape_payload:
  "map_of payload key = Some v \<Longrightarrow> key \<noteq> ''anchorErrors'' \<Longrightarrow> payload_value (shape parse r message payload) key = Some v"
  using payload_lookup [of parse r AnchorConstraintShape message "Some payload" None key]
  by (simp add: payload_value_def shape_def diagnostic_from_range_def)

lemma shape_related_payload:
  "map_of payload key = Some v \<Longrightarrow> key \<noteq> ''anchorErrors'' \<Longrightarrow>
     payload_value (shape_with_related parse r message payload related) key = Some v"
  using payload_lookup [of parse r AnchorConstraintShape message "Some payload" "Some related" key]
  by (simp add: payload_value_def shape_with_related_def)

lemma shape_range [simp]:
  "d_range (shape parse r message payload) = r"
  "d_range (shape_with_related parse r message payload related) = r"
  by (simp_all add: shape_def shape_with_related_def diagnostic_from_range_def
      diagnostic_from_range_with_related_def)

end
