(* ===== verification/Init_Rules.thy ===== *)
theory Init_Rules
  imports Shape_Support
begin

section \<open>Rules on initialisation, reallocation and closing\<close>

text \<open>
  Models \<open>src/lsp/diagnostics/constraint_shape/init_lifecycle.rs\<close>, one definition per function,
  and \<open>src/lsp/diagnostics/initialization.rs\<close>, the rule on fields of instructions that look like
  initialisers.
\<close>

subsection \<open>Types and conflicts\<close>

definition init_payer_self_diagnostic ::
  "(string \<Rightarrow> string option) \<Rightarrow> field_evidence \<Rightarrow> account_constraint \<Rightarrow> diagnostic option" where
  "init_payer_self_diagnostic parse field constraint =
     (if \<not> has_init_like_constraint constraint then None
      else if \<not> list_ex (\<lambda>reference. cref_key reference = ''payer'' \<and> cref_name reference = field_name field)
                 (account_references constraint) then None
      else Some (shape parse (ac_range constraint)
        (quoted (field_name field) @ '' uses itself as `payer`; Anchor cannot initialize the payer account as the program account being created.'')
        [(''account'', JString (field_name field)),
         (''constraint'', JString (lifecycle_init_key constraint)),
         (''anchorError'', JString ''TryingToInitPayerAsProgramAccount'')]))"

definition init_system_account_diagnostic ::
  "(string \<Rightarrow> string option) \<Rightarrow> field_evidence \<Rightarrow> account_constraint \<Rightarrow> diagnostic option" where
  "init_system_account_diagnostic parse field constraint =
     (if \<not> has_init_like_constraint constraint \<or> field_type_name field \<noteq> Some ''SystemAccount'' then None
      else let init_key = lifecycle_init_key constraint in
        Some (shape parse (type_range_or_selection field)
          (quoted (field_name field) @ '' uses `'' @ init_key @ ''` on `SystemAccount`; Anchor `SystemAccount` represents an existing system-owned account and cannot be initialized.'')
          [(''account'', JString (field_name field)),
           (''constraint'', JString init_key),
           (''quickfix'', JString ''remove-conflicting-constraints''),
           (''remove'', JArray [JString init_key, JString ''payer'', JString ''space''])]))"

definition supports_data_resize_or_close :: "field_evidence \<Rightarrow> bool" where
  "supports_data_resize_or_close field \<longleftrightarrow>
     field_type_name field \<in> {Some ''Account'', Some ''LazyAccount'', Some ''AccountLoader''}"

definition realloc_type_diagnostic ::
  "(string \<Rightarrow> string option) \<Rightarrow> field_evidence \<Rightarrow> account_constraint \<Rightarrow> diagnostic option" where
  "realloc_type_diagnostic parse field constraint =
     (if \<not> constraint_has_key constraint ''realloc'' \<or> supports_data_resize_or_close field then None
      else Some (shape parse (type_range_or_selection field)
        (quoted (field_name field) @ '' uses `realloc` on `'' @ unwrap_or ''unknown'' (field_type_name field) @
         ''`; Anchor only allows `realloc` on `Account`, `LazyAccount`, or `AccountLoader` fields.'')
        [(''account'', JString (field_name field)),
         (''constraint'', JString ''realloc''),
         (''quickfix'', JString ''remove-conflicting-constraints''),
         (''remove'', JArray [JString ''realloc'', JString ''realloc::payer'', JString ''realloc::zero''])]))"

definition close_type_diagnostic ::
  "(string \<Rightarrow> string option) \<Rightarrow> field_evidence \<Rightarrow> account_constraint \<Rightarrow> diagnostic option" where
  "close_type_diagnostic parse field constraint =
     (if \<not> constraint_has_key constraint ''close'' \<or> supports_data_resize_or_close field then None
      else Some (shape parse (type_range_or_selection field)
        (quoted (field_name field) @ '' uses `close` on `'' @ unwrap_or ''unknown'' (field_type_name field) @
         ''`; Anchor only allows `close` on `Account`, `LazyAccount`, or `AccountLoader` fields.'')
        [(''account'', JString (field_name field)),
         (''constraint'', JString ''close''),
         (''quickfix'', JString ''remove-conflicting-constraints''),
         (''remove'', JArray [JString ''close''])]))"

definition zero_mut_conflict_diagnostic ::
  "(string \<Rightarrow> string option) \<Rightarrow> field_evidence \<Rightarrow> account_constraint \<Rightarrow> diagnostic option" where
  "zero_mut_conflict_diagnostic parse field constraint =
     (if \<not> constraint_has_flag_or_key constraint ''zero'' \<or> \<not> constraint_has_flag_or_key constraint ''mut'' then None
      else Some (shape parse (ac_range constraint)
        (quoted (field_name field) @ '' combines `zero` with `mut`; Anchor `zero` already implies mutability.'')
        [(''account'', JString (field_name field)),
         (''constraint'', JString ''zero''),
         (''conflictsWith'', JString ''mut''),
         (''quickfix'', JString ''remove-conflicting-constraints''),
         (''remove'', JArray [JString ''mut'']),
         (''parserRule'', JObject
            [(''kind'', JString ''conflict''),
             (''message'', JString ''mut cannot be provided with zeroed''),
             (''sourceMethod'', JString ''build'')])]))"

subsection \<open>Payers\<close>

definition reference_uses_member_path :: "account_constraint \<Rightarrow> string \<Rightarrow> string \<Rightarrow> bool" where
  "reference_uses_member_path constraint key name \<longleftrightarrow>
     list_ex (\<lambda>v. case strip_prefix name (trim_start v) of
         None \<Rightarrow> False
       | Some rest \<Rightarrow> prefix ''.'' (trim_start rest))
       (values_after_key (ac_text constraint) key)"

text \<open>The report on one payer reference that names another field.\<close>

definition payer_diagnostic ::
  "(string \<Rightarrow> string option) \<Rightarrow> account_set_evidence \<Rightarrow> field_evidence \<Rightarrow> account_constraint
     \<Rightarrow> constraint_reference \<Rightarrow> diagnostic option" where
  "payer_diagnostic parse accounts field constraint reference =
     (if reference_uses_member_path constraint (cref_key reference) (cref_name reference) then None
      else Option.bind (field_called accounts (cref_name reference)) (\<lambda>payer.
        if \<not> sr_is_optional (fe_field field) \<and> sr_is_optional (fe_field payer) then
          Some (shape parse (sr_selection_range (fe_field payer))
            (quoted (field_name payer) @ '' pays for required `'' @ field_name field @ ''` via `'' @ cref_key reference @
             ''` but is optional; Anchor requires the payer account to be required.'')
            [(''account'', JString (field_name payer)),
             (''constraint'', JString (cref_key reference)),
             (''requiredByAccount'', JString (field_name field))])
        else if has_any_constraint payer [''mut'', ''zero''] then None
        else Some (shape parse (sr_selection_range (fe_field payer))
            (quoted (field_name payer) @ '' pays for `'' @ field_name field @ ''` via `'' @ cref_key reference @
             ''` but is missing `#[account(mut)]`; Anchor moves lamports through payer accounts.'')
            [(''account'', JString (field_name payer)),
             (''constraint'', JString (cref_key reference)),
             (''missing'', JString ''mut''),
             (''quickfix'', JString ''add-mut-constraint''),
             (''usedByAccount'', JString (field_name field))])))"

definition payer_mutability_diagnostics ::
  "(string \<Rightarrow> string option) \<Rightarrow> account_set_evidence \<Rightarrow> field_evidence \<Rightarrow> account_constraint
     \<Rightarrow> diagnostic list" where
  "payer_mutability_diagnostics parse accounts field constraint =
     List.map_filter (payer_diagnostic parse accounts field constraint)
       (filter (\<lambda>reference. cref_key reference \<in> {''payer'', ''realloc::payer''} \<and>
           cref_name reference \<noteq> field_name field)
         (account_references constraint))"

subsection \<open>The system program\<close>

definition system_program_range :: "field_evidence \<Rightarrow> range" where
  "system_program_range field =
     (case sr_type_range (fe_field field) of
       None \<Rightarrow> sr_selection_range (fe_field field)
     | Some type_range \<Rightarrow>
         \<lparr>range_start = range_start type_range,
          range_end =
            (if sr_generic_type_ranges (fe_field field) = [] then range_end type_range
             else let e = range_end (nr_range (last (sr_generic_type_ranges (fe_field field)))) in
               \<lparr>pos_line = pos_line e, pos_character = saturating_add (pos_character e) 1\<rparr>)\<rparr>)"

definition required_system_program_diagnostic ::
  "(string \<Rightarrow> string option) \<Rightarrow> account_set_evidence \<Rightarrow> field_evidence \<Rightarrow> account_constraint
     \<Rightarrow> string \<Rightarrow> bool \<Rightarrow> diagnostic option" where
  "required_system_program_diagnostic parse accounts field constraint required_by requires_required_field =
     (case system_program_field accounts of
       Some system_program \<Rightarrow>
         if field_type_name system_program = Some ''Program'' \<and> has_generic_type system_program ''System'' then
           if \<not> requires_required_field \<or> \<not> sr_is_optional (fe_field system_program) then None
           else Some (shape parse (sr_selection_range (fe_field system_program))
             (''`system_program` is optional but `'' @ field_name field @
              ''` is required; Anchor requires system program accounts for required `'' @ required_by @
              ''` constraints to be required.'')
             [(''account'', JString (field_name field)),
              (''accountsStruct'', JString (sr_name (ase_accounts accounts))),
              (''constraint'', JString required_by),
              (''field'', JString ''system_program'')])
         else Some (shape parse (system_program_range system_program)
           (''`system_program` must be typed `Program<'info, System>` because `'' @
            field_name field @ ''` uses `'' @ required_by @ ''`.'')
           [(''account'', JString (field_name field)),
            (''accountsStruct'', JString (sr_name (ase_accounts accounts))),
            (''constraint'', JString required_by),
            (''quickfix'', JString ''system-program-type''),
            (''expected'', JString (''Program<'info, System>''))])
     | None \<Rightarrow>
         Some (shape parse (ac_range constraint)
           (quoted (field_name field) @ '' uses `'' @ required_by @ ''` but `'' @ sr_name (ase_accounts accounts) @
            ''` has no `Program<'info, System>` field named `system_program`.'')
           [(''account'', JString (field_name field)),
            (''accountsStruct'', JString (sr_name (ase_accounts accounts))),
            (''constraint'', JString required_by),
            (''missing'', JString ''system_program'')]))"

definition init_system_program_diagnostic ::
  "(string \<Rightarrow> string option) \<Rightarrow> account_set_evidence \<Rightarrow> field_evidence \<Rightarrow> account_constraint
     \<Rightarrow> diagnostic option" where
  "init_system_program_diagnostic parse accounts field constraint =
     (if \<not> has_init_like_constraint constraint then None
      else required_system_program_diagnostic parse accounts field constraint (lifecycle_init_key constraint)
             (\<not> sr_is_optional (fe_field field)))"

subsection \<open>Companions of \<open>realloc\<close> and \<open>close\<close>\<close>

definition realloc_companion_diagnostic ::
  "(string \<Rightarrow> string option) \<Rightarrow> field_evidence \<Rightarrow> account_constraint \<Rightarrow> string \<Rightarrow> diagnostic" where
  "realloc_companion_diagnostic parse field constraint companion =
     shape parse (ac_range constraint)
       (if companion = ''mut''
        then quoted (field_name field) @ '' uses `realloc` but is not marked `mut`; realloc changes account data.''
        else quoted (field_name field) @ '' uses `realloc` but is missing `'' @ companion @ '' = ...`.'')
       [(''account'', JString (field_name field)),
        (''constraint'', JString ''realloc''),
        (''missing'', JString companion)]"

definition realloc_diagnostics ::
  "(string \<Rightarrow> string option) \<Rightarrow> account_set_evidence \<Rightarrow> field_evidence \<Rightarrow> account_constraint
     \<Rightarrow> diagnostic list" where
  "realloc_diagnostics parse accounts field constraint =
     (if \<not> constraint_has_key constraint ''realloc'' then []
      else
        case by_key ''realloc'' of
          None \<Rightarrow> []
        | Some spec \<Rightarrow>
            map (realloc_companion_diagnostic parse field constraint)
              (filter (\<lambda>companion. \<not> constraint_has_flag_or_key constraint companion)
                (required_companions spec)) @
            option_list (required_system_program_diagnostic parse accounts field constraint ''realloc''
              (\<not> sr_is_optional (fe_field field))))"

definition close_diagnostics ::
  "(string \<Rightarrow> string option) \<Rightarrow> field_evidence \<Rightarrow> account_constraint \<Rightarrow> diagnostic option" where
  "close_diagnostics parse field constraint =
     (if \<not> constraint_has_key constraint ''close'' \<or> constraint_has_flag_or_key constraint ''mut'' \<or>
         constraint_has_flag_or_key constraint ''zero'' then None
      else if \<not> requires_companion ''close'' ''mut'' then None
      else Some (shape parse (ac_range constraint)
        (quoted (field_name field) @ '' uses `close` but is not marked `mut`; closing drains lamports and resets data.'')
        [(''account'', JString (field_name field)),
         (''constraint'', JString ''close''),
         (''missing'', JString ''mut'')]))"

definition lifecycle_diagnostics ::
  "(string \<Rightarrow> string option) \<Rightarrow> account_set_evidence \<Rightarrow> field_evidence \<Rightarrow> account_constraint
     \<Rightarrow> diagnostic list" where
  "lifecycle_diagnostics parse accounts field constraint =
     option_list (zero_mut_conflict_diagnostic parse field constraint) @
     option_list (init_system_account_diagnostic parse field constraint) @
     option_list (realloc_type_diagnostic parse field constraint) @
     option_list (close_type_diagnostic parse field constraint) @
     realloc_diagnostics parse accounts field constraint @
     option_list (close_diagnostics parse field constraint) @
     option_list (init_system_program_diagnostic parse accounts field constraint) @
     option_list (init_payer_self_diagnostic parse field constraint) @
     payer_mutability_diagnostics parse accounts field constraint"

subsection \<open>Missing initialisation\<close>

text \<open>The names of the fields that the instruction writes.\<close>

definition mutably_used_accounts :: "account_set_evidence \<Rightarrow> instruction_symbol option \<Rightarrow> string list" where
  "mutably_used_accounts accounts i =
     (case i of
       None \<Rightarrow> []
     | Some f \<Rightarrow>
         map field_name
           (filter (\<lambda>field. list_ex (\<lambda>usage. fue_instruction usage = is_name f \<and> fue_mutable usage)
               (used_by_instructions field)) (ase_fields accounts)))"

definition missing_init_constraints ::
  "(string \<Rightarrow> string option) \<Rightarrow> account_set_evidence \<Rightarrow> instruction_symbol option \<Rightarrow> diagnostic list" where
  "missing_init_constraints parse accounts i =
     (let mutable_names = mutably_used_accounts accounts i;
          struct_name = sr_name (ase_accounts accounts) in
      map (\<lambda>field.
          let account_type = (if sr_generic_type_names (fe_field field) = [] then ''AccountType''
                else last (sr_generic_type_names (fe_field field))) in
          diagnostic_from_range_with_related parse (sr_selection_range (fe_field field))
            AnchorMissingInitConstraint
            (quoted (field_name field) @ '' is in `'' @ struct_name @
             ''` but is missing `#[account(init, payer = ..., space = 8 + '' @ account_type @ ''::INIT_SPACE)]`.'')
            (Some (JObject [(''account'', JString (field_name field)),
               (''accountType'', JString account_type),
               (''accountsStruct'', JString struct_name)]))
            (map_option (\<lambda>f.
                [placeholder_information parse (is_selection_range f)
                   (quoted (is_name f) @ '' uses `Context<'' @ struct_name @ ''>`.'')]) i))
        (filter (\<lambda>field. field_type_name field = Some ''Account'' \<and> \<not> has_init_constraint field \<and>
            (mutable_names = [] \<or> field_name field \<in> set mutable_names))
          (ase_fields accounts)))"

definition initialization_diagnostics ::
  "(string \<Rightarrow> string option) \<Rightarrow> anchor_symbols \<Rightarrow> diagnostic list" where
  "initialization_diagnostics parse symbols =
     concat (map (\<lambda>accounts.
         case init_like_instruction accounts of
           None \<Rightarrow> []
         | Some i \<Rightarrow>
             if has_payer_candidate accounts \<and> has_system_program accounts
             then missing_init_constraints parse accounts i else [])
       (evidence_from_document symbols))"

end
