(* ===== verification/Token_Rules.thy ===== *)
theory Token_Rules
  imports Shape_Support
begin

section \<open>Rules on mints and token accounts\<close>

text \<open>
  Models \<open>src/lsp/diagnostics/constraint_shape/token.rs\<close>, one definition per function.
\<close>

definition TOKEN_PROGRAM_EXPECTED_TYPE :: string where
  "TOKEN_PROGRAM_EXPECTED_TYPE = ''Program<'info, Token>, Program<'info, Token2022>, Program<'info, TokenInterface>, or Interface<'info, TokenInterface>''"

definition DEFAULT_TOKEN_PROGRAM_QUICKFIX_TYPE :: string where
  "DEFAULT_TOKEN_PROGRAM_QUICKFIX_TYPE = ''Program<'info, Token>''"

definition INTERFACE_TOKEN_PROGRAM_QUICKFIX_TYPE :: string where
  "INTERFACE_TOKEN_PROGRAM_QUICKFIX_TYPE = ''Interface<'info, TokenInterface>''"

definition token_program_quickfix_type :: "field_evidence \<Rightarrow> string" where
  "token_program_quickfix_type field =
     (if field_type_name field = Some ''InterfaceAccount'' then INTERFACE_TOKEN_PROGRAM_QUICKFIX_TYPE
      else DEFAULT_TOKEN_PROGRAM_QUICKFIX_TYPE)"

definition uses_associated_token :: "account_constraint \<Rightarrow> bool" where
  "uses_associated_token constraint \<longleftrightarrow>
     constraint_has_key constraint ''associated_token::mint'' \<or>
     constraint_has_key constraint ''associated_token::authority'' \<or>
     constraint_has_key constraint ''associated_token::token_program''"

definition missing_key_diagnostic ::
  "(string \<Rightarrow> string option) \<Rightarrow> field_evidence \<Rightarrow> account_constraint \<Rightarrow> string \<Rightarrow> string \<Rightarrow> diagnostic" where
  "missing_key_diagnostic parse field constraint what missing =
     shape parse (ac_range constraint)
       (quoted (field_name field) @ '' initializes a token '' @ what @ '' but is missing `'' @ missing @ '' = ...`.'')
       [(''account'', JString (field_name field)),
        (''constraint'', JString (lifecycle_init_key constraint)),
        (''missing'', JString missing)]"

definition mint_init_diagnostics ::
  "(string \<Rightarrow> string option) \<Rightarrow> field_evidence \<Rightarrow> account_constraint \<Rightarrow> diagnostic list" where
  "mint_init_diagnostics parse field constraint =
     (if \<not> has_init_like_constraint constraint \<or> \<not> has_generic_type field ''Mint'' then []
      else map (missing_key_diagnostic parse field constraint ''mint'')
             (filter (\<lambda>missing. \<not> constraint_has_key constraint missing)
               [''mint::decimals'', ''mint::authority'']))"

definition initializes_spl_account_with_anchor_space :: "account_constraint \<Rightarrow> bool" where
  "initializes_spl_account_with_anchor_space constraint \<longleftrightarrow>
     constraint_has_key constraint ''token::mint'' \<or>
     constraint_has_key constraint ''token::authority'' \<or>
     constraint_has_key constraint ''associated_token::authority'' \<or>
     constraint_has_key constraint ''mint::authority''"

definition spl_init_space_diagnostic ::
  "(string \<Rightarrow> string option) \<Rightarrow> field_evidence \<Rightarrow> account_constraint \<Rightarrow> diagnostic option" where
  "spl_init_space_diagnostic parse field constraint =
     (if \<not> has_init_like_constraint constraint \<or> \<not> constraint_has_key constraint ''space'' \<or>
         \<not> initializes_spl_account_with_anchor_space constraint then None
      else Some (shape parse (ac_range constraint)
        (quoted (field_name field) @ '' uses `'' @ lifecycle_init_key constraint @ ''` with SPL token initialization constraints; Anchor derives SPL account space from the token program, so `space` is not required.'')
        [(''account'', JString (field_name field)),
         (''constraint'', JString ''space''),
         (''requiredBy'', JString (lifecycle_init_key constraint)),
         (''quickfix'', JString ''remove-conflicting-constraints''),
         (''remove'', JArray [JString ''space'']),
         (''parserRule'', JObject
            [(''kind'', JString ''parser''),
             (''message'', JString ''space is not required for initializing an spl account''),
             (''sourceMethod'', JString ''build'')])]))"

definition token_account_init_diagnostics ::
  "(string \<Rightarrow> string option) \<Rightarrow> field_evidence \<Rightarrow> account_constraint \<Rightarrow> diagnostic list" where
  "token_account_init_diagnostics parse field constraint =
     (if \<not> has_init_like_constraint constraint \<or> \<not> has_generic_type field ''TokenAccount'' then []
      else if uses_associated_token constraint then []
      else map (missing_key_diagnostic parse field constraint ''account'')
             (filter (\<lambda>missing. \<not> constraint_has_key constraint missing)
               [''token::mint'', ''token::authority'']))"

text \<open>The name of the account that the first reference of one of the keys names.\<close>

definition reference_of_keys :: "account_constraint \<Rightarrow> string set \<Rightarrow> constraint_reference option" where
  "reference_of_keys constraint keys = find (\<lambda>reference. cref_key reference \<in> keys) (account_references constraint)"

definition token_program_for_token_data ::
  "account_set_evidence \<Rightarrow> account_constraint \<Rightarrow> field_evidence option" where
  "token_program_for_token_data accounts constraint =
     field_called accounts
       (unwrap_or ''token_program''
         (map_option cref_name
           (reference_of_keys constraint {''token::token_program'', ''associated_token::token_program''})))"

definition token_data_uses_extension_program :: "account_set_evidence \<Rightarrow> account_constraint \<Rightarrow> bool" where
  "token_data_uses_extension_program accounts constraint \<longleftrightarrow>
     (case token_program_for_token_data accounts constraint of
       None \<Rightarrow> False
     | Some program \<Rightarrow> has_generic_type program ''Token2022'' \<or> has_generic_type program ''TokenInterface'')"

definition token_interface_mint_reference_diagnostic ::
  "(string \<Rightarrow> string option) \<Rightarrow> account_set_evidence \<Rightarrow> field_evidence \<Rightarrow> account_constraint
     \<Rightarrow> diagnostic option" where
  "token_interface_mint_reference_diagnostic parse accounts field constraint =
     (if field_type_name field \<noteq> Some ''InterfaceAccount'' \<or> \<not> has_generic_type field ''TokenAccount'' then None
      else
        Option.bind (reference_of_keys constraint {''token::mint'', ''associated_token::mint''}) (\<lambda>reference.
        Option.bind (field_called accounts (cref_name reference)) (\<lambda>mint.
          if field_type_name mint = Some ''InterfaceAccount'' \<and> has_generic_type mint ''Mint'' then None
          else if \<not> token_data_uses_extension_program accounts constraint then None
          else if \<not> has_generic_type mint ''Mint'' then None
          else Some (shape parse (type_range_or_selection mint)
            (quoted (field_name field) @ '' uses `'' @ cref_key reference @
             ''` with InterfaceAccount token data, but `'' @ field_name mint @ ''` is not `InterfaceAccount<'info, Mint>`.'')
            [(''account'', JString (field_name mint)),
             (''constraint'', JString (cref_key reference)),
             (''requiredBy'', JString (field_name field)),
             (''quickfix'', JString ''replace-account-type''),
             (''expected'', JString ''InterfaceAccount<'info, Mint>'')]))))"

definition is_token_program_field :: "field_evidence \<Rightarrow> bool" where
  "is_token_program_field program \<longleftrightarrow>
     (field_type_name program = Some ''Program'' \<or> field_type_name program = Some ''Interface'') \<and>
     (has_generic_type program ''Token'' \<or> has_generic_type program ''Token2022'' \<or>
      has_generic_type program ''TokenInterface'')"

definition required_token_program_diagnostic ::
  "(string \<Rightarrow> string option) \<Rightarrow> account_set_evidence \<Rightarrow> field_evidence \<Rightarrow> account_constraint
     \<Rightarrow> string \<Rightarrow> diagnostic option" where
  "required_token_program_diagnostic parse accounts field constraint program_name =
     (case field_called accounts program_name of
       Some program \<Rightarrow>
         if is_token_program_field program then
           if sr_is_optional (fe_field field) \<or> \<not> sr_is_optional (fe_field program) then None
           else Some (shape parse (sr_selection_range (fe_field program))
             (quoted program_name @ '' is optional but `'' @ field_name field @ ''` is required; Anchor requires token program accounts for required init constraints to be required.'')
             [(''account'', JString (field_name field)),
              (''field'', JString program_name),
              (''accountsStruct'', JString (sr_name (ase_accounts accounts))),
              (''constraint'', JString ''init'')])
         else Some (shape parse (type_range_or_selection program)
           (quoted program_name @ '' must be an Anchor token program account because `'' @ field_name field @ ''` initializes a token or mint account.'')
           [(''account'', JString (field_name field)),
            (''field'', JString program_name),
            (''accountsStruct'', JString (sr_name (ase_accounts accounts))),
            (''constraint'', JString ''init''),
            (''quickfix'', JString ''program-field-type''),
            (''expected'', JString TOKEN_PROGRAM_EXPECTED_TYPE),
            (''quickfixType'', JString (token_program_quickfix_type field))])
     | None \<Rightarrow>
         Some (shape parse (ac_range constraint)
           (quoted (field_name field) @ '' initializes a token or mint account but `'' @ sr_name (ase_accounts accounts) @ ''` has no `'' @ program_name @ ''` account.'')
           [(''account'', JString (field_name field)),
            (''accountsStruct'', JString (sr_name (ase_accounts accounts))),
            (''constraint'', JString ''init''),
            (''missing'', JString program_name),
            (''expected'', JString TOKEN_PROGRAM_EXPECTED_TYPE),
            (''quickfixType'', JString (token_program_quickfix_type field))]))"

definition required_associated_token_program_diagnostic ::
  "(string \<Rightarrow> string option) \<Rightarrow> account_set_evidence \<Rightarrow> field_evidence \<Rightarrow> account_constraint
     \<Rightarrow> diagnostic option" where
  "required_associated_token_program_diagnostic parse accounts field constraint =
     (case field_called accounts ''associated_token_program'' of
       Some program \<Rightarrow>
         if field_type_name program = Some ''Program'' \<and> has_generic_type program ''AssociatedToken'' then
           if sr_is_optional (fe_field field) \<or> \<not> sr_is_optional (fe_field program) then None
           else Some (shape parse (sr_selection_range (fe_field program))
             (''`associated_token_program` is optional but `'' @ field_name field @ ''` is required; Anchor requires associated token program accounts for required init constraints to be required.'')
             [(''account'', JString (field_name field)),
              (''field'', JString ''associated_token_program''),
              (''accountsStruct'', JString (sr_name (ase_accounts accounts))),
              (''constraint'', JString ''associated_token'')])
         else Some (shape parse (type_range_or_selection program)
           (''`associated_token_program` must be typed `Program<'info, AssociatedToken>` because `'' @ field_name field @ ''` initializes an associated token account.'')
           [(''account'', JString (field_name field)),
            (''field'', JString ''associated_token_program''),
            (''accountsStruct'', JString (sr_name (ase_accounts accounts))),
            (''constraint'', JString ''associated_token''),
            (''quickfix'', JString ''program-field-type''),
            (''expected'', JString ''Program<'info, AssociatedToken>'')])
     | None \<Rightarrow>
         Some (shape parse (ac_range constraint)
           (quoted (field_name field) @ '' initializes an associated token account but `'' @ sr_name (ase_accounts accounts) @ ''` has no `associated_token_program` account.'')
           [(''account'', JString (field_name field)),
            (''accountsStruct'', JString (sr_name (ase_accounts accounts))),
            (''constraint'', JString ''associated_token''),
            (''missing'', JString ''associated_token_program''),
            (''expected'', JString ''Program<'info, AssociatedToken>'')]))"

definition token_program_init_diagnostics ::
  "(string \<Rightarrow> string option) \<Rightarrow> account_set_evidence \<Rightarrow> field_evidence \<Rightarrow> account_constraint
     \<Rightarrow> diagnostic list" where
  "token_program_init_diagnostics parse accounts field constraint =
     (if \<not> has_init_like_constraint constraint then []
      else
        (if has_generic_type field ''TokenAccount'' \<or> has_generic_type field ''Mint'' then
           option_list (required_token_program_diagnostic parse accounts field constraint
             (unwrap_or ''token_program''
               (map_option cref_name
                 (reference_of_keys constraint
                   {''token::token_program'', ''associated_token::token_program'', ''mint::token_program''}))))
         else []) @
        (if uses_associated_token constraint then
           option_list (required_associated_token_program_diagnostic parse accounts field constraint)
         else []))"

definition token_diagnostics ::
  "(string \<Rightarrow> string option) \<Rightarrow> account_set_evidence \<Rightarrow> field_evidence \<Rightarrow> account_constraint
     \<Rightarrow> diagnostic list" where
  "token_diagnostics parse accounts field constraint =
     option_list (spl_init_space_diagnostic parse field constraint) @
     mint_init_diagnostics parse field constraint @
     token_account_init_diagnostics parse field constraint @
     option_list (token_interface_mint_reference_diagnostic parse accounts field constraint) @
     token_program_init_diagnostics parse accounts field constraint"

end
