(* ===== verification/Pda_Rules.thy ===== *)
theory Pda_Rules
  imports Shape_Support
begin

section \<open>Rules on program derived addresses\<close>

text \<open>
  Models \<open>src/lsp/diagnostics/constraint_shape/pda.rs\<close> and \<open>src/lsp/diagnostics/pda.rs\<close>, one
  definition per function.  A seed is parsed by the syn crate: \<open>parse_seed\<close> stands for
  \<open>syn::parse_str\<close>, and \<open>seed_expr\<close> has the forms of an expression that the code tells apart.
\<close>

subsection \<open>Seeds and bumps\<close>

definition init_with_foreign_seeds_program_diagnostic ::
  "(string \<Rightarrow> string option) \<Rightarrow> field_evidence \<Rightarrow> account_constraint \<Rightarrow> diagnostic option" where
  "init_with_foreign_seeds_program_diagnostic parse field constraint =
     (if \<not> has_init_like_constraint constraint \<or> \<not> constraint_has_key constraint ''seeds::program'' then None
      else Some (shape parse (ac_range constraint)
        (quoted (field_name field) @ '' uses `'' @ lifecycle_init_key constraint @ ''` with `seeds::program`; Anchor can only create PDAs signed by the current program.'')
        [(''account'', JString (field_name field)),
         (''constraint'', JString ''seeds::program''),
         (''anchorError'', JString ''ConstraintSeeds''),
         (''conflictsWith'', JString (lifecycle_init_key constraint))]))"

definition seeds_without_bump ::
  "(string \<Rightarrow> string option) \<Rightarrow> string \<Rightarrow> field_evidence \<Rightarrow> account_constraint \<Rightarrow> diagnostic" where
  "seeds_without_bump parse source field constraint =
     shape_with_related parse (ac_range constraint)
       (quoted (field_name field) @ '' uses PDA seeds without `bump`; add `bump` so Anchor validates the canonical PDA bump.'')
       [(''account'', JString (field_name field)), (''constraint'', JString ''seeds'')]
       [constraint_key_information parse source constraint ''seeds''
          ''`seeds` makes this account a PDA and requires a companion `bump`.'',
        field_information parse field
          (quoted (field_name field) @ '' is the PDA account field using these seeds.'')]"

definition bump_without_seeds ::
  "(string \<Rightarrow> string option) \<Rightarrow> string \<Rightarrow> field_evidence \<Rightarrow> account_constraint \<Rightarrow> diagnostic" where
  "bump_without_seeds parse source field constraint =
     shape_with_related parse (ac_range constraint)
       (quoted (field_name field) @ '' uses `bump` without `seeds`; add `seeds = [...]` or remove the bump constraint.'')
       [(''account'', JString (field_name field)), (''constraint'', JString ''bump'')]
       [constraint_key_information parse source constraint ''bump''
          ''`bump` only validates a PDA when paired with `seeds = [...]`.'',
        field_information parse field
          (quoted (field_name field) @ '' is the account field carrying the standalone bump.'')]"

definition seed_bump_pair_diagnostics ::
  "(string \<Rightarrow> string option) \<Rightarrow> string \<Rightarrow> field_evidence \<Rightarrow> account_constraint \<Rightarrow> diagnostic option" where
  "seed_bump_pair_diagnostics parse source field constraint =
     (let has_seeds = constraint_has_key constraint ''seeds'';
          has_bump = constraint_has_flag_or_key constraint ''bump'' in
      if has_seeds \<and> \<not> has_bump \<and> requires_companion ''seeds'' ''bump''
      then Some (seeds_without_bump parse source field constraint)
      else if \<not> has_seeds \<and> has_bump \<and> requires_companion ''bump'' ''seeds''
      then Some (bump_without_seeds parse source field constraint)
      else None)"

definition seeds_program_diagnostic ::
  "(string \<Rightarrow> string option) \<Rightarrow> field_evidence \<Rightarrow> account_constraint \<Rightarrow> diagnostic option" where
  "seeds_program_diagnostic parse field constraint =
     (if \<not> constraint_has_key constraint ''seeds::program'' \<or> constraint_has_key constraint ''seeds'' then None
      else Some (shape parse (ac_range constraint)
        (quoted (field_name field) @ '' uses `seeds::program` but is missing `seeds = [...]`.'')
        [(''account'', JString (field_name field)),
         (''constraint'', JString ''seeds::program''),
         (''missing'', JString ''seeds'')]))"

definition associated_token_seeds_conflict_diagnostic ::
  "(string \<Rightarrow> string option) \<Rightarrow> field_evidence \<Rightarrow> account_constraint \<Rightarrow> diagnostic option" where
  "associated_token_seeds_conflict_diagnostic parse field constraint =
     (let uses_associated_token =
            constraint_has_key constraint ''associated_token::mint'' \<or>
            constraint_has_key constraint ''associated_token::authority'' \<or>
            constraint_has_key constraint ''associated_token::token_program'' in
      if \<not> uses_associated_token \<or> \<not> constraint_has_key constraint ''seeds'' then None
      else Some (shape parse (ac_range constraint)
        (quoted (field_name field) @ '' combines `associated_token::*` with `seeds`; Anchor associated token accounts are derived by the associated token program, not custom PDA seeds.'')
        [(''account'', JString (field_name field)),
         (''constraint'', JString ''associated_token''),
         (''conflictsWith'', JString ''seeds''),
         (''quickfix'', JString ''remove-conflicting-constraints''),
         (''remove'', JArray [JString ''seeds'', JString ''bump'', JString ''seeds::program''])]))"

definition pda_constraint_diagnostics ::
  "(string \<Rightarrow> string option) \<Rightarrow> string \<Rightarrow> field_evidence \<Rightarrow> account_constraint \<Rightarrow> diagnostic list" where
  "pda_constraint_diagnostics parse source field constraint =
     option_list (seed_bump_pair_diagnostics parse source field constraint) @
     option_list (seeds_program_diagnostic parse field constraint) @
     option_list (associated_token_seeds_conflict_diagnostic parse field constraint) @
     option_list (init_with_foreign_seeds_program_diagnostic parse field constraint)"

subsection \<open>Static seeds\<close>

definition ADD_SCOPED_PDA_SEED_QUICKFIX :: string where
  "ADD_SCOPED_PDA_SEED_QUICKFIX = ''add-scoped-pda-seed''"

definition seedable_account_field :: "field_evidence \<Rightarrow> bool" where
  "seedable_account_field field \<longleftrightarrow>
     field_type_name field \<notin> Some ` {''Program'', ''Interface'', ''Sysvar'', ''SystemAccount''}"

definition static_pda_scoped_seed :: "account_set_evidence \<Rightarrow> field_evidence \<Rightarrow> string option" where
  "static_pda_scoped_seed accounts field =
     (let others = filter (\<lambda>candidate. field_name candidate \<noteq> field_name field) (ase_fields accounts) in
      map_option (\<lambda>candidate. field_name candidate @ ''.key().as_ref()'')
        (or_else (find (\<lambda>candidate. field_type_name candidate = Some ''Signer'') others)
          (find seedable_account_field others)))"

definition static_pda_seed_data :: "string \<Rightarrow> string option \<Rightarrow> json" where
  "static_pda_seed_data account scoped_seed =
     JObject ([(''account'', JString account), (''constraint'', JString ''seeds'')] @
       (case scoped_seed of
         None \<Rightarrow> []
       | Some seed \<Rightarrow>
           [(''quickfix'', JString ADD_SCOPED_PDA_SEED_QUICKFIX), (''scopedSeed'', JString seed)]))"

definition seeds_constraint :: "field_evidence \<Rightarrow> account_constraint option" where
  "seeds_constraint field = find (\<lambda>constraint. constraint_has_key constraint ''seeds'') (fe_constraints field)"

definition static_pda_seed_diagnostic ::
  "(string \<Rightarrow> string option) \<Rightarrow> account_set_evidence \<Rightarrow> field_evidence \<Rightarrow> diagnostic option" where
  "static_pda_seed_diagnostic parse accounts field =
     Option.bind (seeds_constraint field) (\<lambda>constraint.
       if \<not> constraint_has_flag_or_key constraint ''bump'' \<or> \<not> field_seeds_static field then None
       else Some (diagnostic_from_range parse (ac_range constraint) SecurityStaticPda
         (quoted (field_name field) @ '' derives a PDA from only static seeds; add an account or instruction seed if this state should be scoped.'')
         (Some (static_pda_seed_data (field_name field) (static_pda_scoped_seed accounts field)))))"

subsection \<open>Number and length of seeds\<close>

definition seeds_range :: "field_evidence \<Rightarrow> range" where
  "seeds_range field =
     unwrap_or (sr_selection_range (fe_field field)) (map_option ac_range (seeds_constraint field))"

definition pda_seed_count_diagnostic ::
  "(string \<Rightarrow> string option) \<Rightarrow> field_evidence \<Rightarrow> diagnostic option" where
  "pda_seed_count_diagnostic parse field =
     Option.bind (sr_pda_constraint (fe_field field)) (\<lambda>pda.
     Option.bind (pda_seed_values pda) (\<lambda>seeds.
       if length seeds \<le> 16 then None
       else Some (shape parse (seeds_range field)
         (quoted (field_name field) @ '' derives a PDA with '' @ show_nat (length seeds) @ '' seeds; Solana allows at most 16 seeds.'')
         [(''account'', JString (field_name field)),
          (''constraint'', JString ''seeds''),
          (''anchorError'', JString ''ConstraintSeeds''),
          (''seedCount'', JInt (int (length seeds))),
          (''maxSeeds'', JInt 16)])))"

datatype seed_expr =
  ByteStrLit string
| StrLit string
| OtherLit
| MethodCall string seed_expr
| Reference seed_expr
| Paren seed_expr
| OtherExpr

fun static_seed_byte_len_from_expr :: "seed_expr \<Rightarrow> nat option" where
  "static_seed_byte_len_from_expr (ByteStrLit bytes) = Some (length bytes)"
| "static_seed_byte_len_from_expr (StrLit s) = Some (length s)"
| "static_seed_byte_len_from_expr (MethodCall name receiver) =
     (if name = ''as_ref'' \<or> name = ''as_bytes'' then static_seed_byte_len_from_expr receiver else None)"
| "static_seed_byte_len_from_expr (Reference e) = static_seed_byte_len_from_expr e"
| "static_seed_byte_len_from_expr (Paren e) = static_seed_byte_len_from_expr e"
| "static_seed_byte_len_from_expr _ = None"

definition static_seed_byte_len :: "(string \<Rightarrow> seed_expr option) \<Rightarrow> string \<Rightarrow> nat option" where
  "static_seed_byte_len parse_seed seed = Option.bind (parse_seed seed) static_seed_byte_len_from_expr"

definition pda_seed_length_diagnostics ::
  "(string \<Rightarrow> string option) \<Rightarrow> (string \<Rightarrow> seed_expr option) \<Rightarrow> field_evidence \<Rightarrow> diagnostic list" where
  "pda_seed_length_diagnostics parse parse_seed field =
     (case Option.bind (sr_pda_constraint (fe_field field)) pda_seed_values of
       None \<Rightarrow> []
     | Some seeds \<Rightarrow>
         List.map_filter (\<lambda>seed.
           Option.bind (static_seed_byte_len parse_seed seed) (\<lambda>byte_len.
             if byte_len > 32 then
               Some (shape parse (seeds_range field)
                 (quoted (field_name field) @ '' derives a PDA with seed `'' @ seed @ ''` that is '' @ show_nat byte_len @ '' bytes; Solana allows at most 32 bytes per seed.'')
                 [(''account'', JString (field_name field)),
                  (''constraint'', JString ''seeds''),
                  (''anchorError'', JString ''ConstraintSeeds''),
                  (''seed'', JString seed),
                  (''seedLength'', JInt (int byte_len)),
                  (''maxSeedLength'', JInt 32)])
             else None)) seeds)"

definition pda_field_diagnostics ::
  "(string \<Rightarrow> string option) \<Rightarrow> (string \<Rightarrow> seed_expr option) \<Rightarrow> account_set_evidence \<Rightarrow> field_evidence
     \<Rightarrow> diagnostic list" where
  "pda_field_diagnostics parse parse_seed accounts field =
     option_list (static_pda_seed_diagnostic parse accounts field) @
     option_list (pda_seed_count_diagnostic parse field) @
     pda_seed_length_diagnostics parse parse_seed field"

subsection \<open>Seeds in the interface description\<close>

definition seed_related_information ::
  "(string \<Rightarrow> string option) \<Rightarrow> string \<Rightarrow> account_constraint \<Rightarrow> seed_expression_evidence
     \<Rightarrow> related_information option" where
  "seed_related_information parse source constraint seed =
     map_option (\<lambda>r. placeholder_information parse r
         (if see_kind seed = SeedExpression
          then ''IDL-invisible seed `'' @ see_expression seed @ ''` is not representable here.''
          else ''IDL-visible seed `'' @ see_expression seed @ ''` remains in the generated IDL.''))
       (expression_range_in_constraint source (ac_range constraint) (see_expression seed))"

definition related_seed_information ::
  "(string \<Rightarrow> string option) \<Rightarrow> string \<Rightarrow> account_constraint \<Rightarrow> seed_expression_evidence list
     \<Rightarrow> related_information list option" where
  "related_seed_information parse source constraint seeds =
     (let related = List.map_filter (seed_related_information parse source constraint) seeds in
      if related = [] then None else Some related)"

definition invisible_seed_diagnostic ::
  "(string \<Rightarrow> string option) \<Rightarrow> string \<Rightarrow> field_evidence \<Rightarrow> account_constraint \<Rightarrow> seed_expression_evidence
     \<Rightarrow> diagnostic" where
  "invisible_seed_diagnostic parse source field constraint seed =
     diagnostic_from_range_with_related parse (ac_range constraint) PdaSeedResolution
       (quoted (field_name field) @ '' PDA seed `'' @ see_expression seed @ ''` cannot be represented in the IDL. Anchor's IDL generator only supports static bytes, account keys or fields, and instruction arguments. Function calls and complex expressions are not serializable.'')
       (Some (JObject
         [(''account'', JString (field_name field)),
          (''constraint'', JString ''seeds''),
          (''seed'', JString (see_expression seed)),
          (''seedKind'', JString ''expression''),
          (''idlVisible'', JBool False)]))
       (map_option (\<lambda>info. [info]) (seed_related_information parse source constraint seed))"

definition seed_diagnostics ::
  "(string \<Rightarrow> string option) \<Rightarrow> string \<Rightarrow> field_evidence \<Rightarrow> account_constraint \<Rightarrow> seed_expression_evidence list
     \<Rightarrow> diagnostic list" where
  "seed_diagnostics parse source field constraint seeds =
     map (invisible_seed_diagnostic parse source field constraint)
       (filter (\<lambda>seed. see_kind seed = SeedExpression) seeds)"

definition expressions_json :: "(seed_expression_evidence \<Rightarrow> bool) \<Rightarrow> seed_expression_evidence list \<Rightarrow> json" where
  "expressions_json p seeds = JArray (map (\<lambda>s. JString (see_expression s)) (filter p seeds))"

definition mixed_seeds_diagnostic ::
  "(string \<Rightarrow> string option) \<Rightarrow> string \<Rightarrow> field_evidence \<Rightarrow> account_constraint \<Rightarrow> seed_expression_evidence list
     \<Rightarrow> diagnostic option" where
  "mixed_seeds_diagnostic parse source field constraint seeds =
     (let has_idl_dropped = list_ex (\<lambda>s. see_kind s = SeedExpression) seeds;
          has_representable = list_ex (\<lambda>s. see_kind s \<noteq> SeedExpression) seeds in
      if has_idl_dropped \<and> has_representable then
        Some (diagnostic_from_range_with_related parse (ac_range constraint) PdaSeedResolution
          (quoted (field_name field) @ '' derives a PDA with mixed IDL-visible and IDL-invisible seeds. Anchor clients cannot fully derive this PDA from IDL alone; add manual derivation logic for the complex expressions.'')
          (Some (JObject
            [(''account'', JString (field_name field)),
             (''constraint'', JString ''seeds''),
             (''idlVisibleSeeds'', expressions_json (\<lambda>s. see_kind s \<noteq> SeedExpression) seeds),
             (''idlInvisibleSeeds'', expressions_json (\<lambda>s. see_kind s = SeedExpression) seeds)]))
          (related_seed_information parse source constraint seeds))
      else None)"

definition seed_resolution_of_constraint ::
  "(string \<Rightarrow> string option) \<Rightarrow> string \<Rightarrow> account_set_evidence \<Rightarrow> field_evidence \<Rightarrow> account_constraint
     \<Rightarrow> diagnostic list" where
  "seed_resolution_of_constraint parse source accounts field constraint =
     (if \<not> constraint_has_key constraint ''seeds'' then []
      else let seeds = field_seed_expressions field accounts constraint in
        seed_diagnostics parse source field constraint seeds @
        option_list (mixed_seeds_diagnostic parse source field constraint seeds))"

definition seed_resolution_diagnostics ::
  "(string \<Rightarrow> string option) \<Rightarrow> string \<Rightarrow> anchor_symbols \<Rightarrow> diagnostic list" where
  "seed_resolution_diagnostics parse source symbols =
     concat (map (\<lambda>accounts.
         concat (map (\<lambda>field.
             concat (map (seed_resolution_of_constraint parse source accounts field) (fe_constraints field)))
           (ase_fields accounts)))
       (evidence_from_document symbols))"

end
