(* ===== verification/Account_Semantics.thy ===== *)
theory Account_Semantics
  imports Evidence
begin

section \<open>What kind of account a field holds\<close>

text \<open>
  Models \<open>src/anchor/account_semantics/mod.rs\<close>: the kind of account that a field declares, the
  families of constraints that a kind allows, and the inner type that constraints and references
  in other fields lead to expect.  The two functions on syn's fields only collect the texts of
  attributes and are left out.  Slicing a string between two bytes of a character is a panic: the
  functions that can reach it return \<open>None\<close> then.
\<close>

subsection \<open>Kinds of accounts\<close>

datatype account_type_evidence = ConstraintEvidence | AccountReferenceEvidence | TokenAccountPropertyEvidence

record expected_inner_type =
  eit_generic :: string
  eit_evidence :: account_type_evidence

datatype resolved_account_type =
  RMint | RTokenAccount | RProgram | RSigner | RSystemAccount | RSysvar | RUncheckedAccount
| RDataStruct | RComposite | RUnknown

definition MINT_MEMBERS :: "string list" where
  "MINT_MEMBERS = [''decimals'', ''freeze_authority'', ''is_initialized'', ''mint_authority'', ''supply'']"

definition TOKEN_ACCOUNT_MEMBERS :: "string list" where
  "TOKEN_ACCOUNT_MEMBERS =
     [''amount'', ''close_authority'', ''delegate'', ''delegated_amount'', ''is_native'', ''mint'',
      ''owner'', ''state'']"

fun account_type_display_name :: "resolved_account_type \<Rightarrow> string" where
  "account_type_display_name RMint = ''Mint''"
| "account_type_display_name RTokenAccount = ''TokenAccount''"
| "account_type_display_name RProgram = ''Program''"
| "account_type_display_name RSigner = ''Signer''"
| "account_type_display_name RSystemAccount = ''SystemAccount''"
| "account_type_display_name RSysvar = ''Sysvar''"
| "account_type_display_name RUncheckedAccount = ''UncheckedAccount''"
| "account_type_display_name RDataStruct = ''account data''"
| "account_type_display_name RComposite = ''composite account''"
| "account_type_display_name RUnknown = ''account''"

fun allows_constraint_family :: "resolved_account_type \<Rightarrow> constraint_family \<Rightarrow> bool" where
  "allows_constraint_family RMint family \<longleftrightarrow> family \<in> {Core, Pda, Mint, MintExtension, Realloc}"
| "allows_constraint_family RTokenAccount family \<longleftrightarrow>
     family \<in> {Core, Pda, TokenAccount, AssociatedTokenAccount, Realloc}"
| "allows_constraint_family RUnknown family \<longleftrightarrow> True"
| "allows_constraint_family _ family \<longleftrightarrow> family \<in> {Core, Pda, Realloc}"

definition resolved_account_member_names :: "resolved_account_type \<Rightarrow> string list" where
  "resolved_account_member_names account_type =
     (if account_type = RMint then MINT_MEMBERS
      else if account_type = RTokenAccount then TOKEN_ACCOUNT_MEMBERS else [])"

definition DATA_WRAPPERS :: "string set" where
  "DATA_WRAPPERS = {''Account'', ''InterfaceAccount'', ''LazyAccount'', ''AccountLoader''}"

definition resolve_field_type_parts ::
  "symbol_range \<Rightarrow> string option \<Rightarrow> string option \<Rightarrow> resolved_account_type" where
  "resolve_field_type_parts field type_name inner =
     (case type_name of
       None \<Rightarrow> RUnknown
     | Some t \<Rightarrow>
         if t \<in> DATA_WRAPPERS \<and> inner = Some ''Mint'' then RMint
         else if t \<in> DATA_WRAPPERS \<and> inner = Some ''TokenAccount'' then RTokenAccount
         else if t \<in> {''Program'', ''Interface''} then RProgram
         else if t = ''Signer'' then RSigner
         else if t = ''SystemAccount'' then RSystemAccount
         else if t = ''Sysvar'' then RSysvar
         else if t \<in> {''AccountInfo'', ''UncheckedAccount''} then RUncheckedAccount
         else if t \<in> DATA_WRAPPERS \<and> inner \<noteq> None then RDataStruct
         else if inner = None \<and> sr_generic_type_names field = [] then RComposite
         else RUnknown)"

text \<open>\<open>last()\<close> of a slice.\<close>

definition last_opt :: "'a list \<Rightarrow> 'a option" where
  "last_opt xs = (if xs = [] then None else Some (last xs))"

definition resolve_declared_type :: "anchor_symbols \<Rightarrow> symbol_range \<Rightarrow> resolved_account_type" where
  "resolve_declared_type symbols field =
     resolve_field_type_parts field (sr_type_name field)
       (map_option (resolve_type_alias symbols) (last_opt (sr_generic_type_names field)))"

subsection \<open>Expected types from the constraints of the field\<close>

definition text_uses_any_family :: "string \<Rightarrow> constraint_family set \<Rightarrow> bool" where
  "text_uses_any_family text families \<longleftrightarrow>
     list_ex (\<lambda>spec. spec_family spec \<in> families \<and> has_flag_or_key text (constraint_key (spec_label spec)))
       CONSTRAINTS"

definition expected_account_inner_type :: "string \<Rightarrow> string list \<Rightarrow> expected_inner_type option" where
  "expected_account_inner_type container constraint_texts =
     (if container \<notin> {''Account'', ''InterfaceAccount''} then None
      else if list_ex (\<lambda>text. text_uses_any_family text {TokenAccount, AssociatedTokenAccount}) constraint_texts
      then Some \<lparr>eit_generic = ''TokenAccount'', eit_evidence = ConstraintEvidence\<rparr>
      else if list_ex (\<lambda>text. text_uses_any_family text {Mint, MintExtension}) constraint_texts
      then Some \<lparr>eit_generic = ''Mint'', eit_evidence = ConstraintEvidence\<rparr>
      else None)"

definition expected_inner_type_for_field :: "symbol_range \<Rightarrow> expected_inner_type option" where
  "expected_inner_type_for_field field =
     Option.bind (sr_type_name field) (\<lambda>container.
       expected_account_inner_type container (map ac_text (sr_account_constraints field)))"

subsection \<open>Values in constraint texts\<close>

text \<open>The length of the value at the front of a text: the loop of \<open>take_constraint_value\<close>.\<close>

fun value_extent :: "nat \<Rightarrow> string \<Rightarrow> nat" where
  "value_extent n [] = 0"
| "value_extent n (c # cs) =
     (if c \<in> {CHR ''('', CHR ''['', CHR ''{''} then Suc (value_extent (Suc n) cs)
      else if c = CHR '')'' \<and> n = 0 then 0
      else if c \<in> {CHR '')'', CHR '']'', CHR ''}''} then Suc (value_extent (n - 1) cs)
      else if c = CHR '','' \<and> n = 0 then 0
      else Suc (value_extent n cs))"

definition take_constraint_value :: "string \<Rightarrow> string option" where
  "take_constraint_value v =
     (let trimmed = trim (take (value_extent 0 v) v) in if trimmed = [] then None else Some trimmed)"

definition constraint_value :: "string \<Rightarrow> string \<Rightarrow> string option" where
  "constraint_value text key = Option.bind (value_after_key text key) take_constraint_value"

definition simple_identifier :: "string \<Rightarrow> string option" where
  "simple_identifier v = (if list_all ident_char v then Some v else None)"

definition normalize_token_text :: "string \<Rightarrow> string" where
  "normalize_token_text text = concat (filter (\<lambda>c. \<not> is_ws c) (utf8_chars text))"

definition account_reference_values :: "string list \<Rightarrow> string \<Rightarrow> string list" where
  "account_reference_values constraint_texts key =
     List.map_filter simple_identifier (List.map_filter (\<lambda>text. constraint_value text key) constraint_texts)"

type_synonym field_constraints = "(string \<times> string list) list"

definition address_aliases :: "field_constraints \<Rightarrow> (string, string) hmap" where
  "address_aliases fcs =
     fold (\<lambda>(field_name, constraints). fold (\<lambda>constraint aliases.
         case constraint_value constraint ''address'' of
           Some expression \<Rightarrow> hm_put expression field_name aliases
         | None \<Rightarrow> aliases) constraints) fcs []"

definition MINT_EQ :: string where
  "MINT_EQ = ''.mint==''"

text \<open>The loop over \<open>search_start\<close>, on the rest of the text.\<close>

function mint_comparisons :: "string \<Rightarrow> string list" where
  "mint_comparisons text =
     (case str_find MINT_EQ text of
       None \<Rightarrow> []
     | Some relative \<Rightarrow>
         let rest = drop (relative + length MINT_EQ) text in
         (case take_constraint_value rest of Some v \<Rightarrow> [v] | None \<Rightarrow> []) @ mint_comparisons rest)"
  by pat_completeness auto

termination
  by (relation "measure length") (auto dest!: str_find_bound simp: MINT_EQ_def)

declare mint_comparisons.simps [simp del]

definition mint_reference_expressions :: "field_constraints \<Rightarrow> string list" where
  "mint_reference_expressions fcs = concat (map (\<lambda>(_, constraints). concat (map mint_comparisons constraints)) fcs)"

definition field_name_for_expression :: "string \<Rightarrow> (string, string) hmap \<Rightarrow> string option" where
  "field_name_for_expression expression aliases = or_else (map_of aliases expression) (simple_identifier expression)"

subsection \<open>Properties of token accounts\<close>

definition path_start_ok :: "string \<Rightarrow> nat \<Rightarrow> bool" where
  "path_start_ok text i \<longleftrightarrow> i = 0 \<or> (\<not> ident_char (text ! (i - 1)) \<and> text ! (i - 1) \<noteq> CHR '':'')"

definition path_end_ok :: "string \<Rightarrow> nat \<Rightarrow> bool" where
  "path_end_ok text i \<longleftrightarrow> i \<ge> length text \<or> \<not> ident_char (text ! i)"

text \<open>The loop over \<open>search_start\<close>; the needle contains a dot, so a match starts inside the text.\<close>

function path_access_loop :: "string \<Rightarrow> string \<Rightarrow> nat \<Rightarrow> bool option" where
  "path_access_loop text needle search_start =
     (if \<not> is_char_boundary text search_start then None
      else
        case str_find needle (drop search_start text) of
          None \<Rightarrow> Some False
        | Some relative \<Rightarrow>
            let start = search_start + relative in
            if path_start_ok text start \<and> path_end_ok text (start + length needle) then Some True
            else if start < length text then path_access_loop text needle (start + 1)
            else Some False)"
  by pat_completeness auto

termination
  by (relation "measure (\<lambda>(text, needle, start). length text - start)") auto

declare path_access_loop.simps [simp del]

definition path_needle :: "string \<Rightarrow> string \<Rightarrow> string" where
  "path_needle field_name property = field_name @ ''.'' @ property"

definition has_path_property_access :: "string \<Rightarrow> string \<Rightarrow> string \<Rightarrow> bool option" where
  "has_path_property_access text field_name property =
     path_access_loop text (path_needle field_name property) 0"

definition TOKEN_ACCOUNT_PROPERTIES :: "string list" where
  "TOKEN_ACCOUNT_PROPERTIES =
     [''amount'', ''owner'', ''delegate'', ''state'', ''is_native'', ''delegated_amount'', ''close_authority'']"

text \<open>\<open>any\<close> and \<open>filter\<close> with a test that may panic.\<close>

fun any_opt :: "('a \<Rightarrow> bool option) \<Rightarrow> 'a list \<Rightarrow> bool option" where
  "any_opt p [] = Some False"
| "any_opt p (x # xs) = Option.bind (p x) (\<lambda>b. if b then Some True else any_opt p xs)"

fun filter_opt :: "('a \<Rightarrow> bool option) \<Rightarrow> 'a list \<Rightarrow> 'a list option" where
  "filter_opt p [] = Some []"
| "filter_opt p (x # xs) =
     Option.bind (p x) (\<lambda>b. map_option (\<lambda>ys. if b then x # ys else ys) (filter_opt p xs))"

definition names_token_property :: "field_constraints \<Rightarrow> string \<Rightarrow> bool option" where
  "names_token_property fcs field_name =
     any_opt (\<lambda>(_, constraints).
         any_opt (\<lambda>constraint.
             any_opt (has_path_property_access constraint field_name) TOKEN_ACCOUNT_PROPERTIES)
           constraints) fcs"

definition token_account_property_references :: "field_constraints \<Rightarrow> string list option" where
  "token_account_property_references fcs = filter_opt (names_token_property fcs) (map fst fcs)"

subsection \<open>Expected types of all fields\<close>

definition expect_reference :: "string \<Rightarrow> expected_inner_type" where
  "expect_reference generic = \<lparr>eit_generic = generic, eit_evidence = AccountReferenceEvidence\<rparr>"

definition expect_property :: expected_inner_type where
  "expect_property = \<lparr>eit_generic = ''TokenAccount'', eit_evidence = TokenAccountPropertyEvidence\<rparr>"

type_synonym expected_types = "(string, expected_inner_type) hmap"

text \<open>The body of the first loop, for one field.\<close>

definition expect_from_keys :: "string \<times> string list \<Rightarrow> expected_types \<Rightarrow> expected_types" where
  "expect_from_keys fc expected =
     fold (\<lambda>key m.
         if list_ex (\<lambda>reference. reference = fst fc) (account_reference_values (snd fc) key)
         then hm_put (fst fc) (expect_reference ''TokenAccount'') m else m)
       [''token::authority'', ''associated_token::authority'']
       (fold (\<lambda>key. fold (\<lambda>reference. hm_put reference (expect_reference ''Mint''))
               (account_reference_values (snd fc) key))
         [''token::mint'', ''associated_token::mint''] expected)"

definition expect_from_comparisons :: "field_constraints \<Rightarrow> expected_types \<Rightarrow> expected_types" where
  "expect_from_comparisons fcs expected =
     fold (\<lambda>expression m.
         case field_name_for_expression expression (address_aliases fcs) of
           Some field_name \<Rightarrow> hm_put field_name (expect_reference ''Mint'') m
         | None \<Rightarrow> m) (mint_reference_expressions fcs) expected"

definition hm_or_insert :: "'k \<Rightarrow> 'v \<Rightarrow> ('k, 'v) hmap \<Rightarrow> ('k, 'v) hmap" where
  "hm_or_insert k v m = (case map_of m k of None \<Rightarrow> hm_put k v m | Some _ \<Rightarrow> m)"

definition expected_types_from_constraints :: "field_constraints \<Rightarrow> expected_types option" where
  "expected_types_from_constraints field_constraints =
     (let fcs = map (\<lambda>(field, constraints). (field, map normalize_token_text constraints)) field_constraints;
          expected = expect_from_comparisons fcs (fold expect_from_keys fcs []) in
      map_option (\<lambda>names. fold (\<lambda>name. hm_or_insert name expect_property) names expected)
        (token_account_property_references fcs))"

definition document_field_constraints :: "symbol_range \<Rightarrow> field_constraints" where
  "document_field_constraints accounts =
     map (\<lambda>field. (sr_name field,
         map (\<lambda>c. normalize_token_text (ac_text c)) (sr_account_constraints field)))
       (sr_fields accounts)"

definition expected_types_of_accounts :: "symbol_range \<Rightarrow> expected_types option" where
  "expected_types_of_accounts accounts = expected_types_from_constraints (document_field_constraints accounts)"

definition expected_type_of_field :: "symbol_range \<Rightarrow> symbol_range \<Rightarrow> expected_inner_type option option" where
  "expected_type_of_field accounts field =
     map_option (\<lambda>m. map_of m (sr_name field)) (expected_types_of_accounts accounts)"

definition declared_or_expected_account_inner_type ::
  "symbol_range \<Rightarrow> symbol_range \<Rightarrow> string option option" where
  "declared_or_expected_account_inner_type accounts field =
     (let declared = last_opt (sr_generic_type_names field) in
      map_option (\<lambda>expected.
          case (declared, expected) of
            (Some generic, Some e) \<Rightarrow>
              if eit_evidence e = TokenAccountPropertyEvidence \<and> generic \<noteq> [] then Some generic
              else Some (eit_generic e)
          | (None, Some e) \<Rightarrow> Some (eit_generic e)
          | (d, None) \<Rightarrow> d)
        (expected_type_of_field accounts field))"

definition field_has_inner_type :: "symbol_range \<Rightarrow> symbol_range \<Rightarrow> string \<Rightarrow> bool option" where
  "field_has_inner_type accounts field generic =
     map_option (\<lambda>inner. inner = Some generic) (declared_or_expected_account_inner_type accounts field)"

definition resolve_field_account_type :: "symbol_range \<Rightarrow> symbol_range \<Rightarrow> resolved_account_type option" where
  "resolve_field_account_type accounts field =
     map_option (resolve_field_type_parts field (sr_type_name field))
       (declared_or_expected_account_inner_type accounts field)"

subsection \<open>The search for a path is exact\<close>

definition starts_ascii :: "string \<Rightarrow> bool" where
  "starts_ascii s \<longleftrightarrow> (case s of [] \<Rightarrow> True | c # _ \<Rightarrow> byte c < 128)"

definition path_occurs :: "string \<Rightarrow> string \<Rightarrow> bool" where
  "path_occurs text needle \<longleftrightarrow>
     (\<exists>i \<le> length text. prefix needle (drop i text) \<and> path_start_ok text i \<and>
        path_end_ok text (i + length needle))"

lemma boundary_after_ascii:
  assumes "utf8 text" "i < length text" "byte (text ! i) < 128"
  shows "is_char_boundary text (i + 1)"
proof -
  have "text = take i text @ text ! i # drop (i + 1) text" using id_take_nth_drop [OF assms(2)] by simp
  with assms(1,3) have "at_boundary (drop (i + 1) text)" by (metis utf8_after_ascii)
  with assms(2) show ?thesis
    by (simp add: is_char_boundary_iff [OF utf8_at_boundary [OF assms(1)]])
qed

lemma path_needle_hd:
  "starts_ascii field_name \<Longrightarrow> \<exists>c cs. path_needle field_name property = c # cs \<and> byte c < 128"
  by (cases field_name) (auto simp: path_needle_def starts_ascii_def byte_def)

lemma path_access_loop_exact:
  assumes "utf8 s" "needle = c # cs" "byte c < 128" "is_char_boundary s start"
  shows "path_access_loop s needle start =
    Some (\<exists>i \<le> length s. start \<le> i \<and> prefix needle (drop i s) \<and> path_start_ok s i \<and>
        path_end_ok s (i + length needle))"
  using assms
proof (induction s needle start rule: path_access_loop.induct)
  case (1 s needle start)
  let ?ok = "\<lambda>i. path_start_ok s i \<and> path_end_ok s (i + length needle)"
  show ?case
  proof (cases "str_find needle (drop start s)")
    case None
    have "\<not> prefix needle (drop i s)" if "start \<le> i" "i \<le> length s" for i
    proof -
      from that obtain j where j: "i = start + j" by (metis le_add_diff_inverse)
      with None that show ?thesis by (auto simp: str_find_None add.commute)
    qed
    with None 1(5) show ?thesis by (subst path_access_loop.simps) auto
  next
    case (Some rel)
    let ?i = "start + rel"
    from str_find_bound [OF Some] 1(3) have i: "?i < length s" by auto
    have here: "prefix needle (drop ?i s)" using str_find_Some_prefix [OF Some] by (simp add: add.commute)
    have least: "\<not> prefix needle (drop k s)" if "start \<le> k" "k < ?i" for k
    proof -
      from that obtain j where j: "k = start + j" by (metis le_add_diff_inverse)
      with str_find_least [OF Some, of j] that show ?thesis by (simp add: add.commute)
    qed
    show ?thesis
    proof (cases "?ok ?i")
      case True
      then have "\<exists>k \<le> length s. start \<le> k \<and> prefix needle (drop k s) \<and> path_start_ok s k \<and>
          path_end_ok s (k + length needle)"
        using here i by (intro exI [of _ ?i]) simp
      with Some True 1(5) show ?thesis by (subst path_access_loop.simps) (simp add: Let_def)
    next
      case False
      from here 1(3) obtain r where "drop ?i s = c # r" by (auto simp: prefix_def)
      then have "s ! ?i = c" by (rule nth_via_drop)
      then have "is_char_boundary s (?i + 1)" using boundary_after_ascii [OF 1(2) i] 1(4) by simp
      from "1.IH" [OF _ Some refl False i 1(2,3,4) this] 1(5)
      have "path_access_loop s needle (?i + 1) =
          Some (\<exists>k \<le> length s. ?i + 1 \<le> k \<and> prefix needle (drop k s) \<and> ?ok k)" by simp
      moreover have "(\<exists>k \<le> length s. start \<le> k \<and> prefix needle (drop k s) \<and> ?ok k) \<longleftrightarrow>
          (\<exists>k \<le> length s. ?i + 1 \<le> k \<and> prefix needle (drop k s) \<and> ?ok k)"
      proof (intro iffI)
        assume "\<exists>k \<le> length s. start \<le> k \<and> prefix needle (drop k s) \<and> ?ok k"
        then obtain k where k: "k \<le> length s" "start \<le> k" "prefix needle (drop k s)" "?ok k" by blast
        with least [of k] False have "?i + 1 \<le> k" by (cases k ?i rule: linorder_cases) auto
        with k show "\<exists>k \<le> length s. ?i + 1 \<le> k \<and> prefix needle (drop k s) \<and> ?ok k" by blast
      next
        assume "\<exists>k \<le> length s. ?i + 1 \<le> k \<and> prefix needle (drop k s) \<and> ?ok k"
        then obtain k where k: "k \<le> length s" "?i + 1 \<le> k" "prefix needle (drop k s)" "?ok k" by blast
        then have "start \<le> k" by simp
        with k show "\<exists>k \<le> length s. start \<le> k \<and> prefix needle (drop k s) \<and> ?ok k" by blast
      qed
      moreover have "path_access_loop s needle start = path_access_loop s needle (?i + 1)"
        using Some False i 1(5) by (subst path_access_loop.simps) (auto simp: Let_def)
      ultimately show ?thesis by simp
    qed
  qed
qed

lemma path_access_exact:
  assumes "utf8 text" "starts_ascii field_name"
  shows "has_path_property_access text field_name property =
    Some (path_occurs text (path_needle field_name property))"
proof -
  obtain c cs where "path_needle field_name property = c # cs" "byte c < 128"
    using path_needle_hd [OF assms(2)] by blast
  moreover have "is_char_boundary text 0" by (simp add: is_char_boundary_def)
  ultimately show ?thesis
    unfolding has_path_property_access_def path_occurs_def using assms(1)
    by (simp add: path_access_loop_exact)
qed

text \<open>A Rust identifier may start with any letter: then the search can panic.\<close>

lemma path_access_panics:
  "has_path_property_access (''x'' @ [CHR 0xC3, CHR 0xA9] @ ''.state==1'') [CHR 0xC3, CHR 0xA9] ''state'' = None"
  by code_simp

subsection \<open>The expected types are total and exact\<close>

lemma utf8_normalize: "utf8 text \<Longrightarrow> utf8 (normalize_token_text text)"
  unfolding normalize_token_text_def utf8_def
  using utf8_chars_concat by (auto simp: list_all_iff utf8_def)

lemma any_opt_total:
  "(\<And>x. x \<in> set xs \<Longrightarrow> p x = Some (q x)) \<Longrightarrow> any_opt p xs = Some (list_ex q xs)"
  by (induction xs) auto

lemma filter_opt_total:
  "(\<And>x. x \<in> set xs \<Longrightarrow> p x = Some (q x)) \<Longrightarrow> filter_opt p xs = Some (filter q xs)"
  by (induction xs) auto

definition fields_valid :: "field_constraints \<Rightarrow> bool" where
  "fields_valid fcs \<longleftrightarrow> list_all (\<lambda>fc. starts_ascii (fst fc) \<and> list_all utf8 (snd fc)) fcs"

definition property_occurs :: "field_constraints \<Rightarrow> string \<Rightarrow> bool" where
  "property_occurs fcs name \<longleftrightarrow>
     (\<exists>fc \<in> set fcs. \<exists>text \<in> set (snd fc). \<exists>property \<in> set TOKEN_ACCOUNT_PROPERTIES.
        path_occurs text (path_needle name property))"

lemma names_token_property_exact:
  assumes "fields_valid fcs" "starts_ascii name"
  shows "names_token_property fcs name = Some (property_occurs fcs name)"
proof -
  have access: "any_opt (has_path_property_access t name) TOKEN_ACCOUNT_PROPERTIES =
      Some (list_ex (\<lambda>property. path_occurs t (path_needle name property)) TOKEN_ACCOUNT_PROPERTIES)"
    if "utf8 t" for t
    by (rule any_opt_total) (simp add: path_access_exact that assms(2))
  have "any_opt (\<lambda>t. any_opt (has_path_property_access t name) TOKEN_ACCOUNT_PROPERTIES) (snd fc) =
      Some (list_ex (\<lambda>t. list_ex (\<lambda>property. path_occurs t (path_needle name property))
        TOKEN_ACCOUNT_PROPERTIES) (snd fc))" if "fc \<in> set fcs" for fc
    using assms(1) that by (intro any_opt_total access) (auto simp: fields_valid_def list_all_iff)
  then have "names_token_property fcs name =
      Some (list_ex (\<lambda>fc. list_ex (\<lambda>t. list_ex (\<lambda>property. path_occurs t (path_needle name property))
        TOKEN_ACCOUNT_PROPERTIES) (snd fc)) fcs)"
    unfolding names_token_property_def case_prod_beta by (rule any_opt_total)
  then show ?thesis by (simp add: property_occurs_def list_ex_iff)
qed

lemma token_property_references_exact:
  assumes "fields_valid fcs"
  shows "token_account_property_references fcs = Some (filter (property_occurs fcs) (map fst fcs))"
  unfolding token_account_property_references_def
  using assms by (intro filter_opt_total names_token_property_exact) (auto simp: fields_valid_def list_all_iff)

lemma map_of_or_insert: "map_of (hm_or_insert k v m) = (map_of m)(k := or_else (map_of m k) (Some v))"
  by (auto simp: hm_or_insert_def map_of_hm_put split: option.split)

lemma map_of_fold_or_insert:
  "map_of (fold (\<lambda>k. hm_or_insert k v) ks m) f =
     or_else (map_of m f) (if f \<in> set ks then Some v else None)"
  by (induction ks arbitrary: m) (auto simp: map_of_or_insert or_else_def split: option.splits)

definition normalized_fields :: "field_constraints \<Rightarrow> field_constraints" where
  "normalized_fields field_constraints =
     map (\<lambda>(field, constraints). (field, map normalize_token_text constraints)) field_constraints"

lemma normalized_valid: "fields_valid fcs \<Longrightarrow> fields_valid (normalized_fields fcs)"
  by (auto simp: fields_valid_def normalized_fields_def list_all_iff utf8_normalize)

definition referenced_types :: "field_constraints \<Rightarrow> expected_types" where
  "referenced_types fcs = expect_from_comparisons fcs (fold expect_from_keys fcs [])"

text \<open>C23: When every field name starts with an ASCII character, the expected types are computed
  without a panic: a field has the type that a reference gives it, and without one it is expected
  to be a token account exactly if some constraint reads a property of token accounts from it.\<close>

theorem expected_types_exact:
  assumes "fields_valid field_constraints"
  shows "\<exists>types. expected_types_from_constraints field_constraints = Some types \<and>
    (\<forall>f. map_of types f =
       (let fcs = normalized_fields field_constraints in
        or_else (map_of (referenced_types fcs) f)
          (if f \<in> fst ` set fcs \<and> property_occurs fcs f then Some expect_property else None)))"
proof -
  let ?fcs = "normalized_fields field_constraints"
  have "expected_types_from_constraints field_constraints =
      Some (fold (\<lambda>name. hm_or_insert name expect_property) (filter (property_occurs ?fcs) (map fst ?fcs))
        (referenced_types ?fcs))"
    unfolding expected_types_from_constraints_def Let_def normalized_fields_def [symmetric]
      referenced_types_def [symmetric]
    by (simp add: token_property_references_exact [OF normalized_valid [OF assms]])
  then show ?thesis by (auto simp: map_of_fold_or_insert Let_def conj_commute)
qed

theorem expected_types_exact_witness:
  "\<exists>types. expected_types_from_constraints [(''vault'', [''account(has_one=x)'']), (''x'', [''account(constraint=vault.amount>0)''])]
    = Some types \<and> map_of types ''vault'' = Some expect_property"
proof -
  let ?in = "[(''vault'', [''account(has_one=x)'']), (''x'', [''account(constraint=vault.amount>0)''])]"
  have "fields_valid ?in" by code_simp
  from expected_types_exact [OF this] obtain types where
    "expected_types_from_constraints ?in = Some types" by blast
  moreover have "map_option (\<lambda>types. map_of types ''vault'') (expected_types_from_constraints ?in) =
      Some (Some expect_property)" by code_simp
  ultimately show ?thesis by simp
qed

end
