(* ===== verification/Shape_Rules.thy ===== *)
theory Shape_Rules
  imports Init_Rules Token_Rules Pda_Rules Account_Semantics Workspace_Queries
begin

section \<open>The shape of constraints\<close>

text \<open>
  Models \<open>src/lsp/diagnostics/constraint_shape\<close>: the generic rules of \<open>catalog.rs\<close> and
  \<open>applicability.rs\<close>, \<open>has_one.rs\<close>, \<open>program_account.rs\<close> and the composition in \<open>mod.rs\<close>.
  The closest keyword that \<open>keyword_value_diagnostics\<close> computes is not used there and left out.
\<close>

subsection \<open>Companions and keywords of the catalog\<close>

definition HANDLED_ELSEWHERE :: "(string \<times> string) list" where
  "HANDLED_ELSEWHERE =
     [(''init'', ''payer''), (''init'', ''space''), (''init'', ''system_program''),
      (''init_if_needed'', ''payer''), (''init_if_needed'', ''space''), (''init_if_needed'', ''system_program''),
      (''realloc'', ''mut''), (''realloc'', ''realloc::payer''), (''realloc'', ''realloc::zero''),
      (''close'', ''mut''), (''seeds'', ''bump''), (''bump'', ''seeds''), (''seeds::program'', ''seeds'')]"

definition companion_is_handled_elsewhere :: "string \<Rightarrow> string \<Rightarrow> bool" where
  "companion_is_handled_elsewhere key missing \<longleftrightarrow> (key, missing) \<in> set HANDLED_ELSEWHERE"

definition companion_diagnostic ::
  "(string \<Rightarrow> string option) \<Rightarrow> field_evidence \<Rightarrow> account_constraint \<Rightarrow> string \<Rightarrow> string \<Rightarrow> diagnostic" where
  "companion_diagnostic parse field constraint key missing =
     shape parse (ac_range constraint)
       (quoted (field_name field) @ '' uses `'' @ key @ ''` but is missing `'' @ missing @ '' = ...`.'')
       [(''account'', JString (field_name field)),
        (''constraint'', JString key),
        (''requiredBy'', JString key),
        (''missing'', JString missing)]"

definition companions_of_spec ::
  "(string \<Rightarrow> string option) \<Rightarrow> field_evidence \<Rightarrow> account_constraint \<Rightarrow> constraint_spec \<Rightarrow> diagnostic list" where
  "companions_of_spec parse field constraint spec =
     (let key = constraint_key (spec_label spec) in
      if \<not> constraint_has_flag_or_key constraint key then []
      else map (companion_diagnostic parse field constraint key)
        (filter (\<lambda>missing. \<not> (constraint_has_flag_or_key constraint missing \<or>
            companion_is_handled_elsewhere key missing))
          (constraint_key_companions spec)))"

definition catalog_companion_diagnostics ::
  "(string \<Rightarrow> string option) \<Rightarrow> field_evidence \<Rightarrow> account_constraint \<Rightarrow> diagnostic list" where
  "catalog_companion_diagnostics parse field constraint =
     concat (map (companions_of_spec parse field constraint) CONSTRAINTS)"

definition keyword_value_of_spec ::
  "(string \<Rightarrow> string option) \<Rightarrow> string \<Rightarrow> field_evidence \<Rightarrow> account_constraint \<Rightarrow> constraint_spec
     \<Rightarrow> diagnostic option" where
  "keyword_value_of_spec parse source field constraint spec =
     (if spec_value_kind spec \<noteq> Keyword \<or> allowed_keyword_values spec = [] then None
      else let key = constraint_key (spec_label spec) in
        case simple_identifier_after_key constraint key of
          None \<Rightarrow> None
        | Some v \<Rightarrow>
            if v \<in> set (allowed_keyword_values spec) then None
            else let formatted = join '' or '' (map quoted (allowed_keyword_values spec)) in
              Some (shape parse (unwrap_or (ac_range constraint) (value_range constraint source key v))
                (quoted (field_name field) @ '' uses `'' @ key @ '' = '' @ v @ ''`; Anchor only accepts '' @ formatted @ ''.'')
                [(''account'', JString (field_name field)),
                 (''constraint'', JString key),
                 (''value'', JString v),
                 (''candidates'', JArray (map JString (allowed_keyword_values spec))),
                 (''quickfix'', JString ''replace-keyword-value''),
                 (''parserRule'', JObject
                    [(''kind'', JString ''parser''),
                     (''message'', JString (key @ '' must be either '' @ formatted)),
                     (''sourceMethod'', JString ''parse_token'')])]))"

definition keyword_value_diagnostics ::
  "(string \<Rightarrow> string option) \<Rightarrow> string \<Rightarrow> field_evidence \<Rightarrow> account_constraint \<Rightarrow> diagnostic list" where
  "keyword_value_diagnostics parse source field constraint =
     List.map_filter (keyword_value_of_spec parse source field constraint) CONSTRAINTS"

definition catalog_diagnostics ::
  "(string \<Rightarrow> string option) \<Rightarrow> string \<Rightarrow> field_evidence \<Rightarrow> account_constraint \<Rightarrow> diagnostic list" where
  "catalog_diagnostics parse source field constraint =
     catalog_companion_diagnostics parse field constraint @
     keyword_value_diagnostics parse source field constraint"

subsection \<open>Families and account types\<close>

datatype expected_account_kind = ExpectMint | ExpectTokenAccount

fun expected_account_kind_of :: "constraint_family \<Rightarrow> expected_account_kind option" where
  "expected_account_kind_of Mint = Some ExpectMint"
| "expected_account_kind_of MintExtension = Some ExpectMint"
| "expected_account_kind_of TokenAccount = Some ExpectTokenAccount"
| "expected_account_kind_of AssociatedTokenAccount = Some ExpectTokenAccount"
| "expected_account_kind_of _ = None"

definition expected_account_wrapper :: "field_evidence \<Rightarrow> expected_account_kind \<Rightarrow> string" where
  "expected_account_wrapper field expected =
     (let generic = (case expected of ExpectMint \<Rightarrow> ''Mint'' | ExpectTokenAccount \<Rightarrow> ''TokenAccount'') in
      if field_type_name field = Some ''InterfaceAccount'' then ''InterfaceAccount<'info, '' @ generic @ ''>''
      else ''Account<'info, '' @ generic @ ''>'')"

fun family_description :: "constraint_family \<Rightarrow> string" where
  "family_description Mint = ''mint''"
| "family_description MintExtension = ''Token-2022 mint extension''"
| "family_description TokenAccount = ''token account''"
| "family_description AssociatedTokenAccount = ''associated token account''"
| "family_description _ = ''account''"

fun family_slug :: "constraint_family \<Rightarrow> string" where
  "family_slug Core = ''core''"
| "family_slug Pda = ''pda''"
| "family_slug TokenAccount = ''token-account''"
| "family_slug AssociatedTokenAccount = ''associated-token-account''"
| "family_slug Mint = ''mint''"
| "family_slug MintExtension = ''mint-extension''"
| "family_slug Realloc = ''realloc''"

definition applicability_diagnostic ::
  "(string \<Rightarrow> string option) \<Rightarrow> field_evidence \<Rightarrow> constraint_spec \<Rightarrow> expected_account_kind \<Rightarrow> diagnostic" where
  "applicability_diagnostic parse field spec expected =
     (let key = constraint_key (spec_label spec) in
      shape parse (type_range_or_selection field)
        (quoted (field_name field) @ '' uses `'' @ key @ ''` but '' @ family_description (spec_family spec) @
         '' constraints require `'' @ expected_account_wrapper field expected @ ''`.'')
        [(''account'', JString (field_name field)),
         (''constraint'', JString key),
         (''quickfix'', JString ''replace-account-type''),
         (''expected'', JString (expected_account_wrapper field expected)),
         (''family'', JString (family_slug (spec_family spec))),
         (''reason'', JString ''constraint-family-applicability'')])"

text \<open>The loop over the catalog with the list of kinds reported so far.\<close>

fun applicability_loop ::
  "(string \<Rightarrow> string option) \<Rightarrow> resolved_account_type \<Rightarrow> field_evidence \<Rightarrow> account_constraint
     \<Rightarrow> constraint_spec list \<Rightarrow> expected_account_kind list \<Rightarrow> diagnostic list" where
  "applicability_loop parse declared field constraint [] reported = []"
| "applicability_loop parse declared field constraint (spec # specs) reported =
     (if \<not> constraint_has_flag_or_key constraint (constraint_key (spec_label spec)) \<or>
         allows_constraint_family declared (spec_family spec)
      then applicability_loop parse declared field constraint specs reported
      else
        case expected_account_kind_of (spec_family spec) of
          None \<Rightarrow> applicability_loop parse declared field constraint specs reported
        | Some expected \<Rightarrow>
            if expected \<in> set reported then applicability_loop parse declared field constraint specs reported
            else applicability_diagnostic parse field spec expected #
              applicability_loop parse declared field constraint specs (reported @ [expected]))"

definition applicability_diagnostics ::
  "(string \<Rightarrow> string option) \<Rightarrow> anchor_symbols \<Rightarrow> field_evidence \<Rightarrow> account_constraint \<Rightarrow> diagnostic list" where
  "applicability_diagnostics parse symbols field constraint =
     (let declared = resolve_declared_type symbols (fe_field field) in
      if declared = RUnknown then []
      else applicability_loop parse declared field constraint CONSTRAINTS [])"

subsection \<open>\<open>has_one\<close>\<close>

record account_data_fields =
  adf_names :: "string list"
  adf_related :: "related_information list"

definition candidate_message :: "string \<Rightarrow> string \<Rightarrow> string" where
  "candidate_message struct_name name =
     quoted struct_name @ '' declares candidate field '' @ quoted name @ ''.''"

definition account_data_fields_of ::
  "(string \<Rightarrow> string option) \<Rightarrow> anchor_symbols \<Rightarrow> workspace_index option \<Rightarrow> string
     \<Rightarrow> account_data_fields option" where
  "account_data_fields_of parse symbols workspace struct_name =
     (case map_of (account_data_structs symbols) struct_name of
       Some data_struct \<Rightarrow>
         Some \<lparr>adf_names = map sr_name (sr_fields data_struct),
               adf_related = map (\<lambda>f. placeholder_information parse (sr_selection_range f)
                   (candidate_message struct_name (sr_name f))) (sr_fields data_struct)\<rparr>
     | None \<Rightarrow>
         Option.bind workspace (\<lambda>ix.
           let names = field_names_in_container ix struct_name in
           if names = [] then None
           else Some \<lparr>adf_names = names,
             adf_related = concat (map (\<lambda>name.
                 map (\<lambda>l. \<lparr>rel_location = l, rel_message = candidate_message struct_name name\<rparr>)
                   (symbol_locations_in_container ix name [KIND_FIELD] struct_name)) names)\<rparr>))"

definition has_one_diagnostic ::
  "(string \<Rightarrow> string option) \<Rightarrow> parsed_document \<Rightarrow> workspace_index option \<Rightarrow> field_evidence
     \<Rightarrow> account_constraint \<Rightarrow> diagnostic option" where
  "has_one_diagnostic parse document workspace field constraint =
     Option.bind (find (\<lambda>reference. cref_key reference = ''has_one'') (account_references constraint)) (\<lambda>reference.
     Option.bind (last_opt (sr_generic_type_names (fe_field field))) (\<lambda>struct_name.
     Option.bind (account_data_fields_of parse (pd_symbols document) workspace struct_name) (\<lambda>data.
       if list_ex (\<lambda>candidate. candidate = cref_name reference) (adf_names data) then None
       else Some (shape_with_related parse
         (unwrap_or (ac_range constraint)
           (value_range constraint (pd_source document) (cref_key reference) (cref_name reference)))
         (quoted (field_name field) @ '' uses `has_one = '' @ cref_name reference @ ''` but `'' @ struct_name @
          ''` has no `'' @ cref_name reference @ ''` field.'')
         [(''account'', JString (field_name field)),
          (''accountType'', JString struct_name),
          (''constraint'', JString ''has_one''),
          (''anchorError'', JString ''ConstraintHasOne''),
          (''missingDataField'', JString (cref_name reference)),
          (''candidates'', JArray (map JString (adf_names data))),
          (''quickfix'', JString ''replace-has-one-target'')]
         (placeholder_information parse (sr_selection_range (fe_field field))
            (quoted (field_name field) @ '' is typed as `'' @ struct_name @ ''`, so `has_one` checks fields on `'' @ struct_name @ ''`.'') #
          adf_related data)))))"

subsection \<open>Program accounts\<close>

definition account_used_as_program :: "anchor_symbols \<Rightarrow> symbol_range \<Rightarrow> symbol_range \<Rightarrow> bool" where
  "account_used_as_program symbols accounts field \<longleftrightarrow>
     list_ex (\<lambda>i. list_ex (\<lambda>usage. au_name usage = sr_name field) (is_cpi_program_usages i))
       (filter (has_context (sr_name accounts)) (callable_functions symbols))"

definition program_account_diagnostic ::
  "(string \<Rightarrow> string option) \<Rightarrow> anchor_symbols \<Rightarrow> account_set_evidence \<Rightarrow> field_evidence \<Rightarrow> diagnostic option" where
  "program_account_diagnostic parse symbols accounts field =
     (if \<not> is_unchecked_account field \<or>
         \<not> account_used_as_program symbols (ase_accounts accounts) (fe_field field) \<or>
         has_any_constraint field [''address'', ''owner'', ''executable'', ''constraint''] then None
      else Some (diagnostic_from_range parse (type_range_or_selection field) SecurityUncheckedAccount
        (quoted (field_name field) @ '' is an unchecked program account; use `Program<'info, _>` or constrain its executable/address/owner.'')
        (Some (JObject
          [(''account'', JString (field_name field)),
           (''expected'', JString ''Program<'info, _>''),
           (''missing'', JString ''executable''),
           (''quickfix'', JString ''add-missing-constraint'')]))))"

subsection \<open>All shape rules\<close>

definition constraint_diagnostics ::
  "(string \<Rightarrow> string option) \<Rightarrow> parsed_document \<Rightarrow> workspace_index option \<Rightarrow> account_set_evidence
     \<Rightarrow> field_evidence \<Rightarrow> account_constraint \<Rightarrow> diagnostic list" where
  "constraint_diagnostics parse document workspace accounts field constraint =
     pda_constraint_diagnostics parse (pd_source document) field constraint @
     lifecycle_diagnostics parse accounts field constraint @
     catalog_diagnostics parse (pd_source document) field constraint @
     applicability_diagnostics parse (pd_symbols document) field constraint @
     token_diagnostics parse accounts field constraint @
     option_list (has_one_diagnostic parse document workspace field constraint)"

definition field_diagnostics ::
  "(string \<Rightarrow> string option) \<Rightarrow> (string \<Rightarrow> seed_expr option) \<Rightarrow> parsed_document \<Rightarrow> workspace_index option
     \<Rightarrow> account_set_evidence \<Rightarrow> field_evidence \<Rightarrow> diagnostic list" where
  "field_diagnostics parse parse_seed document workspace accounts field =
     concat (map (constraint_diagnostics parse document workspace accounts field) (fe_constraints field)) @
     option_list (program_account_diagnostic parse (pd_symbols document) accounts field) @
     pda_field_diagnostics parse parse_seed accounts field"

definition shape_diagnostics ::
  "(string \<Rightarrow> string option) \<Rightarrow> (string \<Rightarrow> seed_expr option) \<Rightarrow> parsed_document \<Rightarrow> workspace_index option
     \<Rightarrow> diagnostic list" where
  "shape_diagnostics parse parse_seed document workspace =
     concat (map (\<lambda>accounts.
         concat (map (field_diagnostics parse parse_seed document workspace accounts) (ase_fields accounts)))
       (evidence_from_document (pd_symbols document)))"

subsection \<open>Companions are reported once by some rule\<close>

lemma catalog_companions:
  "concat (map (\<lambda>spec. map (Pair (constraint_key (spec_label spec))) (constraint_key_companions spec)) CONSTRAINTS) =
    [(''associated_token::authority'', ''associated_token::mint''),
     (''associated_token::mint'', ''associated_token::authority''),
     (''associated_token::token_program'', ''associated_token::mint''),
     (''associated_token::token_program'', ''associated_token::authority''),
     (''bump'', ''seeds''), (''bump'', ''seeds''), (''close'', ''mut''),
     (''init'', ''payer''), (''init'', ''space''), (''init'', ''system_program''),
     (''init_if_needed'', ''payer''), (''init_if_needed'', ''space''), (''init_if_needed'', ''system_program''),
     (''realloc'', ''mut''), (''realloc'', ''realloc::payer''), (''realloc'', ''realloc::zero''),
     (''seeds'', ''bump''), (''seeds::program'', ''seeds'')]"
  by code_simp

lemma realloc_companions:
  "Option.bind (by_key ''realloc'') (\<lambda>spec. Some (required_companions spec)) =
     Some [''mut'', ''realloc::payer'', ''realloc::zero'']"
  "requires_companion ''seeds'' ''bump''" "requires_companion ''bump'' ''seeds''" "requires_companion ''close'' ''mut''"
  by code_simp+

definition reports_on :: "diagnostic \<Rightarrow> account_constraint \<Rightarrow> string \<Rightarrow> bool" where
  "reports_on d constraint key \<longleftrightarrow>
     d_range d = ac_range constraint \<and> payload_value d ''constraint'' = Some (JString key)"

lemma reports_shape:
  "map_of payload ''constraint'' = Some (JString key) \<Longrightarrow> reports_on (shape parse (ac_range constraint) message payload) constraint key"
  "map_of payload ''constraint'' = Some (JString key) \<Longrightarrow>
     reports_on (shape_with_related parse (ac_range constraint) message payload related) constraint key"
  by (simp_all add: reports_on_def shape_payload shape_related_payload)

lemma has_key_or_flag: "constraint_has_key constraint key \<Longrightarrow> constraint_has_flag_or_key constraint key"
  by (simp add: constraint_has_key_def constraint_has_flag_or_key_def has_flag_or_key_def)

lemma companion_reported:
  assumes "spec \<in> set CONSTRAINTS" "constraint_has_flag_or_key constraint (constraint_key (spec_label spec))"
    and "companion \<in> set (constraint_key_companions spec)" "\<not> constraint_has_flag_or_key constraint companion"
    and "\<not> companion_is_handled_elsewhere (constraint_key (spec_label spec)) companion"
  shows "\<exists>d \<in> set (catalog_diagnostics parse source field constraint).
    reports_on d constraint (constraint_key (spec_label spec))"
proof
  let ?d = "companion_diagnostic parse field constraint (constraint_key (spec_label spec)) companion"
  have "?d \<in> set (companions_of_spec parse field constraint spec)"
    using assms(2-5) by (simp add: companions_of_spec_def Let_def)
  with assms(1) show "?d \<in> set (catalog_diagnostics parse source field constraint)"
    by (auto simp: catalog_diagnostics_def catalog_companion_diagnostics_def)
  show "reports_on ?d constraint (constraint_key (spec_label spec))"
    unfolding companion_diagnostic_def by (rule reports_shape) simp
qed

lemma realloc_companion_reported:
  assumes "constraint_has_key constraint ''realloc''" "\<not> constraint_has_flag_or_key constraint companion"
    and "companion \<in> {''mut'', ''realloc::payer'', ''realloc::zero''}"
  shows "\<exists>d \<in> set (lifecycle_diagnostics parse accounts field constraint). reports_on d constraint ''realloc''"
proof
  obtain spec where spec: "by_key ''realloc'' = Some spec"
      "required_companions spec = [''mut'', ''realloc::payer'', ''realloc::zero'']"
    using realloc_companions(1) by (cases "by_key ''realloc''") auto
  let ?d = "realloc_companion_diagnostic parse field constraint companion"
  show "?d \<in> set (lifecycle_diagnostics parse accounts field constraint)"
    using assms spec by (auto simp: lifecycle_diagnostics_def realloc_diagnostics_def)
  show "reports_on ?d constraint ''realloc''"
    unfolding realloc_companion_diagnostic_def by (rule reports_shape) simp
qed

lemma close_companion_reported:
  assumes "constraint_has_key constraint ''close''" "\<not> constraint_has_flag_or_key constraint ''mut''"
    and "\<not> constraint_has_flag_or_key constraint ''zero''"
  shows "\<exists>d \<in> set (lifecycle_diagnostics parse accounts field constraint). reports_on d constraint ''close''"
proof -
  obtain d where d: "close_diagnostics parse field constraint = Some d" "reports_on d constraint ''close''"
    using assms realloc_companions(4) by (simp add: close_diagnostics_def reports_shape)
  then have "d \<in> set (lifecycle_diagnostics parse accounts field constraint)"
    by (simp add: lifecycle_diagnostics_def)
  with d(2) show ?thesis ..
qed

lemma seeds_companion_reported:
  assumes "(key, companion) \<in> {(''seeds'', ''bump''), (''bump'', ''seeds''), (''seeds::program'', ''seeds'')}"
    and "constraint_has_key constraint key \<or> key = ''bump'' \<and> constraint_has_flag_or_key constraint key"
    and "\<not> constraint_has_flag_or_key constraint companion"
  shows "\<exists>d \<in> set (pda_constraint_diagnostics parse source field constraint). reports_on d constraint key"
proof -
  have no_key: "\<not> constraint_has_key constraint companion" using assms(3) has_key_or_flag by blast
  consider "key = ''seeds''" "companion = ''bump''" | "key = ''bump''" "companion = ''seeds''"
    | "key = ''seeds::program''" "companion = ''seeds''" using assms(1) by auto
  then show ?thesis
  proof cases
    case 1
    with assms no_key have "seed_bump_pair_diagnostics parse source field constraint =
        Some (seeds_without_bump parse source field constraint)"
      by (simp add: seed_bump_pair_diagnostics_def realloc_companions(2))
    moreover have "reports_on (seeds_without_bump parse source field constraint) constraint key"
      unfolding seeds_without_bump_def 1 by (rule reports_shape) simp
    ultimately show ?thesis by (auto simp: pda_constraint_diagnostics_def)
  next
    case 2
    with assms no_key has_key_or_flag have "seed_bump_pair_diagnostics parse source field constraint =
        Some (bump_without_seeds parse source field constraint)"
      by (auto simp: seed_bump_pair_diagnostics_def realloc_companions(3))
    moreover have "reports_on (bump_without_seeds parse source field constraint) constraint key"
      unfolding bump_without_seeds_def 2 by (rule reports_shape) simp
    ultimately show ?thesis by (auto simp: pda_constraint_diagnostics_def)
  next
    case 3
    with assms no_key obtain d where "seeds_program_diagnostic parse field constraint = Some d"
        "reports_on d constraint key"
      by (auto simp: seeds_program_diagnostic_def reports_shape)
    then show ?thesis by (auto simp: pda_constraint_diagnostics_def)
  qed
qed

definition left_to_rule :: "string \<Rightarrow> string \<Rightarrow> bool" where
  "left_to_rule key companion \<longleftrightarrow>
     key = ''close'' \<and> companion = ''mut'' \<or>
     key = ''realloc'' \<and> companion \<in> {''mut'', ''realloc::payer'', ''realloc::zero''} \<or>
     (key, companion) \<in> {(''seeds'', ''bump''), (''bump'', ''seeds''), (''seeds::program'', ''seeds'')}"

lemma catalog_pairs:
  "list_all (\<lambda>(key, companion). companion \<in> set [''payer'', ''space'', ''system_program''] \<or>
      \<not> companion_is_handled_elsewhere key companion \<or> left_to_rule key companion)
    (concat (map (\<lambda>spec. map (Pair (constraint_key (spec_label spec))) (constraint_key_companions spec)) CONSTRAINTS))"
  unfolding catalog_companions by code_simp

lemma companion_pairs:
  assumes "spec \<in> set CONSTRAINTS" "companion \<in> set (constraint_key_companions spec)"
    and "companion \<notin> {''payer'', ''space'', ''system_program''}"
  shows "\<not> companion_is_handled_elsewhere (constraint_key (spec_label spec)) companion \<or>
    left_to_rule (constraint_key (spec_label spec)) companion"
proof -
  have "(constraint_key (spec_label spec), companion) \<in>
      set (concat (map (\<lambda>spec. map (Pair (constraint_key (spec_label spec))) (constraint_key_companions spec)) CONSTRAINTS))"
    using assms(1,2) by auto
  with catalog_pairs have "companion \<in> set [''payer'', ''space'', ''system_program''] \<or>
      \<not> companion_is_handled_elsewhere (constraint_key (spec_label spec)) companion \<or>
      left_to_rule (constraint_key (spec_label spec)) companion"
    unfolding list_all_iff by blast
  with assms(3) show ?thesis unfolding set_simps by blast
qed


definition example_range :: range where
  "example_range = \<lparr>range_start = \<lparr>pos_line = 0, pos_character = 0\<rparr>, range_end = \<lparr>pos_line = 0, pos_character = 9\<rparr>\<rparr>"

definition example_constraint :: account_constraint where
  "example_constraint = \<lparr>ac_text = ''account(close=a)'', ac_range = example_range, ac_pda = None\<rparr>"

definition example_field :: field_evidence where
  "example_field =
     \<lparr>fe_field = SymbolRange ''vault'' example_range example_range [] [] (Some ''Account'') None None [''Vault''] []
        False [] [example_constraint] None [] None None None False,
      fe_constraints = [example_constraint], used_by_instructions = [], used_as_cpi_programs = []\<rparr>"


subsection \<open>Applicability\<close>

definition kind_violated :: "resolved_account_type \<Rightarrow> account_constraint \<Rightarrow> constraint_spec \<Rightarrow> expected_account_kind \<Rightarrow> bool" where
  "kind_violated declared constraint spec kind \<longleftrightarrow>
     constraint_has_flag_or_key constraint (constraint_key (spec_label spec)) \<and>
     \<not> allows_constraint_family declared (spec_family spec) \<and>
     expected_account_kind_of (spec_family spec) = Some kind"

lemma applicability_loop_exact:
  "\<exists>ps. applicability_loop parse declared field constraint specs reported =
      map (\<lambda>(spec, kind). applicability_diagnostic parse field spec kind) ps \<and>
    distinct (map snd ps) \<and> (\<forall>(spec, kind) \<in> set ps. kind_violated declared constraint spec kind) \<and>
    snd ` set ps = {kind. kind \<notin> set reported \<and> (\<exists>spec \<in> set specs. kind_violated declared constraint spec kind)}"
proof (induction specs arbitrary: reported)
  case (Cons spec specs)
  show ?case
  proof (cases "\<exists>kind. kind_violated declared constraint spec kind \<and> kind \<notin> set reported")
    case False
    then have "applicability_loop parse declared field constraint (spec # specs) reported =
        applicability_loop parse declared field constraint specs reported"
      by (auto simp: kind_violated_def split: option.split)
    moreover have "{kind. kind \<notin> set reported \<and> (\<exists>s \<in> set (spec # specs). kind_violated declared constraint s kind)} =
        {kind. kind \<notin> set reported \<and> (\<exists>s \<in> set specs. kind_violated declared constraint s kind)}"
      using False by auto
    ultimately show ?thesis using Cons.IH [of reported] by presburger
  next
    case True
    then obtain kind where kind: "kind_violated declared constraint spec kind" "kind \<notin> set reported" by blast
    then have loop: "applicability_loop parse declared field constraint (spec # specs) reported =
        applicability_diagnostic parse field spec kind #
        applicability_loop parse declared field constraint specs (reported @ [kind])"
      by (auto simp: kind_violated_def)
    from Cons.IH [of "reported @ [kind]"] obtain ps where
        ps: "applicability_loop parse declared field constraint specs (reported @ [kind]) =
          map (\<lambda>(spec, kind). applicability_diagnostic parse field spec kind) ps"
        "distinct (map snd ps)" "\<forall>(spec, kind) \<in> set ps. kind_violated declared constraint spec kind"
        "snd ` set ps = {k. k \<notin> set (reported @ [kind]) \<and> (\<exists>spec \<in> set specs. kind_violated declared constraint spec k)}"
      by (elim exE conjE)
    have "k = kind" if "kind_violated declared constraint spec k" for k
      using that kind(1) by (simp add: kind_violated_def)
    with kind(2) kind(1) have "{k. k \<notin> set reported \<and> (\<exists>s \<in> set (spec # specs). kind_violated declared constraint s k)} =
        insert kind {k. k \<notin> set (reported @ [kind]) \<and> (\<exists>s \<in> set specs. kind_violated declared constraint s k)}"
      unfolding set_append set_simps by blast
    with ps(4) have "snd ` set ((spec, kind) # ps) =
        {k. k \<notin> set reported \<and> (\<exists>s \<in> set (spec # specs). kind_violated declared constraint s k)}"
      by simp
    moreover have "distinct (map snd ((spec, kind) # ps))" using ps(2,4) by auto
    moreover have "\<forall>(spec, kind) \<in> set ((spec, kind) # ps). kind_violated declared constraint spec kind"
      using ps(3) kind(1) by simp
    ultimately show ?thesis using loop ps(1) by (intro exI [of _ "(spec, kind) # ps"]) simp
  qed
qed simp

text \<open>On a field of known type, each kind of account that a constraint in use requires and the
  type rules out is reported once, and nothing else.\<close>

theorem applicability_exact:
  "\<exists>ps. applicability_diagnostics parse symbols field constraint =
      map (\<lambda>(spec, kind). applicability_diagnostic parse field spec kind) ps \<and>
    distinct (map snd ps) \<and>
    snd ` set ps =
      {kind. resolve_declared_type symbols (fe_field field) \<noteq> RUnknown \<and>
         (\<exists>spec. spec \<in> set CONSTRAINTS \<and>
            kind_violated (resolve_declared_type symbols (fe_field field)) constraint spec kind)}"
proof (cases "resolve_declared_type symbols (fe_field field) = RUnknown")
  case True
  then show ?thesis by (intro exI [of _ "[]"]) (simp add: applicability_diagnostics_def)
next
  case False
  let ?declared = "resolve_declared_type symbols (fe_field field)"
  obtain ps where ps: "applicability_loop parse ?declared field constraint CONSTRAINTS [] =
      map (\<lambda>(spec, kind). applicability_diagnostic parse field spec kind) ps" "distinct (map snd ps)"
    "snd ` set ps = {kind. kind \<notin> set [] \<and> (\<exists>spec \<in> set CONSTRAINTS. kind_violated ?declared constraint spec kind)}"
    using applicability_loop_exact [of parse ?declared field constraint CONSTRAINTS "[]"] by (elim exE conjE)
  have "snd ` set ps = {kind. ?declared \<noteq> RUnknown \<and>
      (\<exists>spec. spec \<in> set CONSTRAINTS \<and> kind_violated ?declared constraint spec kind)}"
    unfolding ps(3) using False by (simp only: Bex_def list.set(1) empty_iff simp_thms)
  moreover have "applicability_diagnostics parse symbols field constraint =
      applicability_loop parse ?declared field constraint CONSTRAINTS []"
    using False by (simp only: applicability_diagnostics_def Let_def if_False)
  ultimately show ?thesis using ps(1,2) by (intro exI [of _ ps]) (simp only: simp_thms)
qed

end
