(* ===== verification/Instruction_Attributes.thy ===== *)
theory Instruction_Attributes
  imports Shape_Support
begin

section \<open>Arguments of the instruction attribute\<close>

text \<open>
  Models \<open>src/lsp/diagnostics/instruction_attributes.rs\<close>: the arguments that
  \<open>#[instruction(...)]\<close> lists on an accounts struct are compared, in order, with those of the only
  handler that takes the struct.
\<close>

definition instruction_arg_names_match :: "string \<Rightarrow> string \<Rightarrow> bool" where
  "instruction_arg_names_match attribute_name handler_name \<longleftrightarrow>
     attribute_name = handler_name \<or>
     trim_start_char CHR ''_'' attribute_name = trim_start_char CHR ''_'' handler_name"

definition json_option :: "string option \<Rightarrow> json" where
  "json_option s = (case s of None \<Rightarrow> JNull | Some t \<Rightarrow> JString t)"

definition argument_report ::
  "(string \<Rightarrow> string option) \<Rightarrow> instruction_attribute_argument \<Rightarrow> string \<Rightarrow> (string \<times> json) list
     \<Rightarrow> related_information \<Rightarrow> diagnostic" where
  "argument_report parse attribute_arg message payload related =
     diagnostic_from_range_with_related parse (iaa_range attribute_arg) AnchorMissingInstructionArgument
       message (Some (JObject payload)) (Some [related])"

definition extra_argument ::
  "(string \<Rightarrow> string option) \<Rightarrow> symbol_range \<Rightarrow> instruction_symbol \<Rightarrow> instruction_attribute_argument
     \<Rightarrow> diagnostic" where
  "extra_argument parse accounts i attribute_arg =
     argument_report parse attribute_arg
       (''`#[instruction]` argument `'' @ iaa_name attribute_arg @ ''` has no matching handler argument on `'' @ is_name i @ ''`.'')
       [(''accountsStruct'', JString (sr_name accounts)),
        (''instruction'', JString (is_name i)),
        (''argument'', JString (iaa_name attribute_arg)),
        (''quickfix'', JString ''remove-instruction-argument''),
        (''reason'', JString ''extra-instruction-attribute-argument'')]
       (placeholder_information parse (is_selection_range i)
         (quoted (is_name i) @ '' only declares '' @ show_nat (length (is_arguments i)) @
          '' instruction argument(s) after `Context<'' @ sr_name accounts @ ''>`.''))"

definition misplaced_argument ::
  "(string \<Rightarrow> string option) \<Rightarrow> symbol_range \<Rightarrow> instruction_symbol \<Rightarrow> nat \<Rightarrow> instruction_attribute_argument
     \<Rightarrow> instruction_argument \<Rightarrow> diagnostic" where
  "misplaced_argument parse accounts i index attribute_arg expected_arg =
     argument_report parse attribute_arg
       (''`#[instruction]` argument `'' @ iaa_name attribute_arg @ ''` is out of order for `'' @ is_name i @
        ''`; expected `'' @ ia_name expected_arg @ ''` at position '' @ show_nat (index + 1) @ ''.'')
       [(''accountsStruct'', JString (sr_name accounts)),
        (''instruction'', JString (is_name i)),
        (''argument'', JString (iaa_name attribute_arg)),
        (''expected'', JString (ia_name expected_arg)),
        (''expectedType'', json_option (ia_type_name expected_arg)),
        (''position'', JInt (int index)),
        (''quickfix'', JString ''replace-instruction-argument''),
        (''reason'', JString ''instruction-attribute-order'')]
       (placeholder_information parse (ia_range expected_arg)
         (quoted (is_name i) @ '' expects `'' @ ia_name expected_arg @ ''` at this position.''))"

definition mistyped_argument ::
  "(string \<Rightarrow> string option) \<Rightarrow> symbol_range \<Rightarrow> instruction_symbol \<Rightarrow> instruction_attribute_argument
     \<Rightarrow> instruction_argument \<Rightarrow> diagnostic" where
  "mistyped_argument parse accounts i attribute_arg expected_arg =
     argument_report parse attribute_arg
       (''`#[instruction]` argument `'' @ iaa_name attribute_arg @ ''` has type `'' @
        unwrap_or ''_'' (iaa_type_name attribute_arg) @ ''` but `'' @ is_name i @ ''` expects `'' @
        unwrap_or ''_'' (ia_type_name expected_arg) @ ''`.'')
       [(''accountsStruct'', JString (sr_name accounts)),
        (''instruction'', JString (is_name i)),
        (''argument'', JString (iaa_name attribute_arg)),
        (''expected'', JString (ia_name expected_arg)),
        (''expectedType'', json_option (ia_type_name expected_arg)),
        (''actualType'', json_option (iaa_type_name attribute_arg)),
        (''quickfix'', JString ''replace-instruction-argument''),
        (''reason'', JString ''instruction-attribute-type'')]
       (placeholder_information parse (ia_range expected_arg)
         (quoted (is_name i) @ '' declares `'' @ ia_name expected_arg @ ''` with type `'' @
          unwrap_or ''_'' (ia_type_name expected_arg) @ ''` here.''))"

definition types_differ :: "string option \<Rightarrow> string option \<Rightarrow> bool" where
  "types_differ attribute_type expected_type \<longleftrightarrow>
     attribute_type \<noteq> None \<and> expected_type \<noteq> None \<and> attribute_type \<noteq> expected_type"

text \<open>The check of the argument at an index.\<close>

definition validate_argument ::
  "(string \<Rightarrow> string option) \<Rightarrow> symbol_range \<Rightarrow> instruction_symbol \<Rightarrow> nat \<times> instruction_attribute_argument
     \<Rightarrow> diagnostic option" where
  "validate_argument parse accounts i entry =
     (case nth_opt (is_arguments i) (fst entry) of
       None \<Rightarrow> Some (extra_argument parse accounts i (snd entry))
     | Some expected_arg \<Rightarrow>
         if \<not> instruction_arg_names_match (iaa_name (snd entry)) (ia_name expected_arg)
         then Some (misplaced_argument parse accounts i (fst entry) (snd entry) expected_arg)
         else if types_differ (iaa_type_name (snd entry)) (ia_type_name expected_arg)
         then Some (mistyped_argument parse accounts i (snd entry) expected_arg)
         else None)"

definition validate_instruction_attribute ::
  "(string \<Rightarrow> string option) \<Rightarrow> symbol_range \<Rightarrow> instruction_symbol \<Rightarrow> diagnostic list" where
  "validate_instruction_attribute parse accounts i =
     List.map_filter (validate_argument parse accounts i)
       (zip [0..<length (sr_instruction_arguments accounts)] (sr_instruction_arguments accounts))"

definition instruction_attribute_diagnostics ::
  "(string \<Rightarrow> string option) \<Rightarrow> anchor_symbols \<Rightarrow> symbol_range \<Rightarrow> diagnostic list" where
  "instruction_attribute_diagnostics parse symbols accounts =
     (case filter (has_context (sr_name accounts)) (instructions symbols) of
       [i] \<Rightarrow> validate_instruction_attribute parse accounts i
     | _ \<Rightarrow> [])"

definition instruction_attributes_collect ::
  "(string \<Rightarrow> string option) \<Rightarrow> anchor_symbols \<Rightarrow> diagnostic list" where
  "instruction_attributes_collect parse symbols =
     concat (map (instruction_attribute_diagnostics parse symbols)
       (filter (\<lambda>accounts. sr_instruction_arguments accounts \<noteq> []) (map snd (accounts_structs symbols))))"

subsection \<open>What the rule accepts\<close>

text \<open>The attribute lists a prefix of the arguments of the handler.\<close>

definition arguments_agree :: "instruction_attribute_argument \<Rightarrow> instruction_argument \<Rightarrow> bool" where
  "arguments_agree attribute_arg expected_arg \<longleftrightarrow>
     instruction_arg_names_match (iaa_name attribute_arg) (ia_name expected_arg) \<and>
     \<not> types_differ (iaa_type_name attribute_arg) (ia_type_name expected_arg)"

definition attribute_valid :: "instruction_attribute_argument list \<Rightarrow> instruction_argument list \<Rightarrow> bool" where
  "attribute_valid attribute_args args \<longleftrightarrow>
     length attribute_args \<le> length args \<and>
     list_all2 arguments_agree attribute_args (take (length attribute_args) args)"

lemma map_filter_Nil_iff: "List.map_filter f xs = [] \<longleftrightarrow> (\<forall>x \<in> set xs. f x = None)"
  by (induction xs) (auto simp: List.map_filter_simps split: option.split)

lemma enumerated_iff: "(\<forall>x \<in> set (zip [0..<length xs] xs). P x) \<longleftrightarrow> (\<forall>n < length xs. P (n, xs ! n))"
proof -
  have "set (zip [0..<length xs] xs) = (\<lambda>n. (n, xs ! n)) ` {..<length xs}"
    by (force simp: set_zip)
  then show ?thesis by auto
qed

lemma validate_argument_None:
  "validate_argument parse accounts i (n, a) = None \<longleftrightarrow>
     n < length (is_arguments i) \<and> arguments_agree a (is_arguments i ! n)"
  by (auto simp: validate_argument_def nth_opt_def arguments_agree_def)

lemma validate_Nil_iff:
  "validate_instruction_attribute parse accounts i = [] \<longleftrightarrow>
     attribute_valid (sr_instruction_arguments accounts) (is_arguments i)"
proof -
  let ?as = "sr_instruction_arguments accounts"
  have "validate_instruction_attribute parse accounts i = [] \<longleftrightarrow>
      (\<forall>n < length ?as. n < length (is_arguments i) \<and> arguments_agree (?as ! n) (is_arguments i ! n))"
    by (simp add: validate_instruction_attribute_def map_filter_Nil_iff enumerated_iff validate_argument_None)
  also have "\<dots> \<longleftrightarrow> attribute_valid ?as (is_arguments i)"
  proof -
    have "length ?as \<le> length (is_arguments i)" if "\<forall>n < length ?as. n < length (is_arguments i)"
      using that by (meson leI less_irrefl)
    then show ?thesis by (auto simp: attribute_valid_def list_all2_conv_all_nth)
  qed
  finally show ?thesis .
qed

text \<open>No diagnostic is reported exactly if every accounts struct with a unique handler lists
  a prefix of the arguments of that handler, in order, with matching names and no contradicting
  type.\<close>

theorem instruction_attributes_exact:
  "instruction_attributes_collect parse symbols = [] \<longleftrightarrow>
     list_all (\<lambda>accounts.
         case filter (has_context (sr_name accounts)) (instructions symbols) of
           [i] \<Rightarrow> attribute_valid (sr_instruction_arguments accounts) (is_arguments i)
         | _ \<Rightarrow> True)
       (map snd (accounts_structs symbols))"
proof -
  have one: "sr_instruction_arguments accounts \<noteq> [] \<and> instruction_attribute_diagnostics parse symbols accounts \<noteq> [] \<longleftrightarrow>
      \<not> (case filter (has_context (sr_name accounts)) (instructions symbols) of
           [i] \<Rightarrow> attribute_valid (sr_instruction_arguments accounts) (is_arguments i)
         | _ \<Rightarrow> True)" for accounts
  proof -
    have "sr_instruction_arguments accounts \<noteq> []"
      if "\<not> attribute_valid (sr_instruction_arguments accounts) (is_arguments i)" for i
      using that by (auto simp: attribute_valid_def)
    then show ?thesis
      by (auto simp: instruction_attribute_diagnostics_def validate_Nil_iff split: list.splits)
  qed
  have "instruction_attributes_collect parse symbols = [] \<longleftrightarrow>
      (\<forall>accounts \<in> set (map snd (accounts_structs symbols)).
         \<not> (sr_instruction_arguments accounts \<noteq> [] \<and> instruction_attribute_diagnostics parse symbols accounts \<noteq> []))"
    by (auto simp: instruction_attributes_collect_def concat_eq_Nil_conv)
  then show ?thesis unfolding one list_all_iff by simp
qed

end
