(* ===== verification/Anchor_Types.thy ===== *)
theory Anchor_Types
  imports Prefix_Trie Utf8_Text
begin

section \<open>Field types that are completed\<close>

text \<open>
  Models \<open>src/anchor/types/mod.rs\<close> and its generated table
  \<open>src/anchor/generated/anchor_field_completions_generated.rs\<close>: the field types a completion
  offers and the queries that read their labels.
\<close>

datatype field_completion_kind = AccountType | ProgramType | SysvarType | SplAccount

record anchor_field_completion =
  fcp_kind :: field_completion_kind
  fcp_label :: string
  fcp_insert_text :: string
  fcp_field_label :: string
  fcp_field_insert_text :: string
  fcp_detail :: string
  fcp_source_path :: string

definition field_completion ::
  "field_completion_kind \<Rightarrow> string \<Rightarrow> string \<Rightarrow> string \<Rightarrow> string \<Rightarrow> string \<Rightarrow> string \<Rightarrow> anchor_field_completion" where
  "field_completion kind label insert_text field_label field_insert_text detail source_path =
     \<lparr>fcp_kind = kind, fcp_label = label, fcp_insert_text = insert_text, fcp_field_label = field_label,
      fcp_field_insert_text = field_insert_text, fcp_detail = detail, fcp_source_path = source_path\<rparr>"

definition FIELD_COMPLETIONS :: "anchor_field_completion list" where
  "FIELD_COMPLETIONS =
    [field_completion AccountType
       ''Account<'info, T>''
       ''Account<'info, ${1:T}>''
       ''account: Account<'info, T>''
       ''account: Account<'info, ${1:T}>,''
       ''Anchor account container that checks ownership and deserializes data.''
       ''lang/src/lib.rs'',
     field_completion AccountType
       ''AccountInfo<'info>''
       ''AccountInfo<'info>''
       ''account_info: AccountInfo<'info>''
       ''account_info: AccountInfo<'info>,''
       ''Raw Solana account info; prefer UncheckedAccount when no checks are performed.''
       ''lang/src/lib.rs'',
     field_completion AccountType
       ''AccountLoader<'info, T>''
       ''AccountLoader<'info, ${1:T}>''
       ''account_loader: AccountLoader<'info, T>''
       ''account_loader: AccountLoader<'info, ${1:T}>,''
       ''Anchor zero-copy account loader.''
       ''lang/src/lib.rs'',
     field_completion AccountType
       ''Interface<'info, T>''
       ''Interface<'info, ${1:T}>''
       ''program: Interface<'info, T>''
       ''program: Interface<'info, ${1:T}>,''
       ''Anchor program interface account.''
       ''lang/src/lib.rs'',
     field_completion AccountType
       ''InterfaceAccount<'info, T>''
       ''InterfaceAccount<'info, ${1:T}>''
       ''account: InterfaceAccount<'info, T>''
       ''account: InterfaceAccount<'info, ${1:T}>,''
       ''Anchor account container for interface-owned account data.''
       ''lang/src/lib.rs'',
     field_completion AccountType
       ''Migration<'info, From, To>''
       ''Migration<'info, ${1:From}, ${2:To}>''
       ''migration: Migration<'info, From, To>''
       ''migration: Migration<'info, ${1:From}, ${2:To}>,''
       ''Anchor account migration container.''
       ''lang/src/lib.rs'',
     field_completion AccountType
       ''Program<'info, T>''
       ''Program<'info, ${1:T}>''
       ''program: Program<'info, T>''
       ''program: Program<'info, ${1:T}>,''
       ''Anchor executable program account.''
       ''lang/src/lib.rs'',
     field_completion AccountType
       ''Signer<'info>''
       ''Signer<'info>''
       ''signer: Signer<'info>''
       ''signer: Signer<'info>,''
       ''Anchor signer account.''
       ''lang/src/lib.rs'',
     field_completion AccountType
       ''SystemAccount<'info>''
       ''SystemAccount<'info>''
       ''system_account: SystemAccount<'info>''
       ''system_account: SystemAccount<'info>,''
       ''Anchor account owned by the system program.''
       ''lang/src/lib.rs'',
     field_completion AccountType
       ''Sysvar<'info, T>''
       ''Sysvar<'info, ${1:T}>''
       ''sysvar: Sysvar<'info, T>''
       ''sysvar: Sysvar<'info, ${1:T}>,''
       ''Anchor sysvar account.''
       ''lang/src/lib.rs'',
     field_completion AccountType
       ''UncheckedAccount<'info>''
       ''UncheckedAccount<'info>''
       ''account: UncheckedAccount<'info>''
       ''account: UncheckedAccount<'info>,''
       ''Explicit unchecked account wrapper.''
       ''lang/src/lib.rs'',
     field_completion ProgramType
       ''Program<'info, AssociatedToken>''
       ''Program<'info, AssociatedToken>''
       ''associated_token_program: Program<'info, AssociatedToken>''
       ''associated_token_program: Program<'info, AssociatedToken>,''
       ''Anchor program account for `AssociatedToken`.''
       ''spl/src/associated_token.rs'',
     field_completion ProgramType
       ''Program<'info, System>''
       ''Program<'info, System>''
       ''system_program: Program<'info, System>''
       ''system_program: Program<'info, System>,''
       ''Anchor program account for `System`.''
       ''lang/src/lib.rs'',
     field_completion ProgramType
       ''Program<'info, Token2022>''
       ''Program<'info, Token2022>''
       ''token2022_program: Program<'info, Token2022>''
       ''token2022_program: Program<'info, Token2022>,''
       ''Anchor program account for `Token2022`.''
       ''spl/src/token_2022.rs'',
     field_completion ProgramType
       ''Program<'info, Token>''
       ''Program<'info, Token>''
       ''token_program: Program<'info, Token>''
       ''token_program: Program<'info, Token>,''
       ''Anchor program account for `Token`.''
       ''spl/src/token.rs'',
     field_completion ProgramType
       ''Program<'info, TokenInterface>''
       ''Program<'info, TokenInterface>''
       ''token_interface_program: Program<'info, TokenInterface>''
       ''token_interface_program: Program<'info, TokenInterface>,''
       ''Anchor program account for `TokenInterface`.''
       ''spl/src/token_interface.rs'',
     field_completion SysvarType
       ''Sysvar<'info, Clock>''
       ''Sysvar<'info, Clock>''
       ''clock: Sysvar<'info, Clock>''
       ''clock: Sysvar<'info, Clock>,''
       ''Anchor sysvar account for `Clock`.''
       ''lang/syn/src/parser/accounts/mod.rs'',
     field_completion SysvarType
       ''Sysvar<'info, EpochSchedule>''
       ''Sysvar<'info, EpochSchedule>''
       ''epoch_schedule: Sysvar<'info, EpochSchedule>''
       ''epoch_schedule: Sysvar<'info, EpochSchedule>,''
       ''Anchor sysvar account for `EpochSchedule`.''
       ''lang/syn/src/parser/accounts/mod.rs'',
     field_completion SysvarType
       ''Sysvar<'info, Fees>''
       ''Sysvar<'info, Fees>''
       ''fees: Sysvar<'info, Fees>''
       ''fees: Sysvar<'info, Fees>,''
       ''Anchor sysvar account for `Fees`.''
       ''lang/syn/src/parser/accounts/mod.rs'',
     field_completion SysvarType
       ''Sysvar<'info, Instructions>''
       ''Sysvar<'info, Instructions>''
       ''instructions: Sysvar<'info, Instructions>''
       ''instructions: Sysvar<'info, Instructions>,''
       ''Anchor sysvar account for `Instructions`.''
       ''lang/syn/src/parser/accounts/mod.rs'',
     field_completion SysvarType
       ''Sysvar<'info, RecentBlockhashes>''
       ''Sysvar<'info, RecentBlockhashes>''
       ''recent_blockhashes: Sysvar<'info, RecentBlockhashes>''
       ''recent_blockhashes: Sysvar<'info, RecentBlockhashes>,''
       ''Anchor sysvar account for `RecentBlockhashes`.''
       ''lang/syn/src/parser/accounts/mod.rs'',
     field_completion SysvarType
       ''Sysvar<'info, Rent>''
       ''Sysvar<'info, Rent>''
       ''rent: Sysvar<'info, Rent>''
       ''rent: Sysvar<'info, Rent>,''
       ''Anchor sysvar account for `Rent`.''
       ''lang/syn/src/parser/accounts/mod.rs'',
     field_completion SysvarType
       ''Sysvar<'info, Rewards>''
       ''Sysvar<'info, Rewards>''
       ''rewards: Sysvar<'info, Rewards>''
       ''rewards: Sysvar<'info, Rewards>,''
       ''Anchor sysvar account for `Rewards`.''
       ''lang/syn/src/parser/accounts/mod.rs'',
     field_completion SysvarType
       ''Sysvar<'info, SlotHashes>''
       ''Sysvar<'info, SlotHashes>''
       ''slot_hashes: Sysvar<'info, SlotHashes>''
       ''slot_hashes: Sysvar<'info, SlotHashes>,''
       ''Anchor sysvar account for `SlotHashes`.''
       ''lang/syn/src/parser/accounts/mod.rs'',
     field_completion SysvarType
       ''Sysvar<'info, SlotHistory>''
       ''Sysvar<'info, SlotHistory>''
       ''slot_history: Sysvar<'info, SlotHistory>''
       ''slot_history: Sysvar<'info, SlotHistory>,''
       ''Anchor sysvar account for `SlotHistory`.''
       ''lang/syn/src/parser/accounts/mod.rs'',
     field_completion SysvarType
       ''Sysvar<'info, StakeHistory>''
       ''Sysvar<'info, StakeHistory>''
       ''stake_history: Sysvar<'info, StakeHistory>''
       ''stake_history: Sysvar<'info, StakeHistory>,''
       ''Anchor sysvar account for `StakeHistory`.''
       ''lang/syn/src/parser/accounts/mod.rs'',
     field_completion SplAccount
       ''Account<'info, Mint>''
       ''Account<'info, Mint>''
       ''mint: Account<'info, Mint>''
       ''mint: Account<'info, Mint>,''
       ''Anchor SPL account wrapper for `Mint`.''
       ''spl/src/token.rs'',
     field_completion SplAccount
       ''Account<'info, TokenAccount>''
       ''Account<'info, TokenAccount>''
       ''token: Account<'info, TokenAccount>''
       ''token: Account<'info, TokenAccount>,''
       ''Anchor SPL account wrapper for `TokenAccount`.''
       ''spl/src/token.rs'',
     field_completion SplAccount
       ''InterfaceAccount<'info, Mint>''
       ''InterfaceAccount<'info, Mint>''
       ''mint: InterfaceAccount<'info, Mint>''
       ''mint: InterfaceAccount<'info, Mint>,''
       ''Anchor SPL account wrapper for `Mint`.''
       ''spl/src/token_interface.rs'',
     field_completion SplAccount
       ''InterfaceAccount<'info, TokenAccount>''
       ''InterfaceAccount<'info, TokenAccount>''
       ''token: InterfaceAccount<'info, TokenAccount>''
       ''token: InterfaceAccount<'info, TokenAccount>,''
       ''Anchor SPL account wrapper for `TokenAccount`.''
       ''spl/src/token_interface.rs'']"

subsection \<open>Queries\<close>

definition completion_by_label :: "string \<Rightarrow> anchor_field_completion option" where
  "completion_by_label label = find (\<lambda>c. fcp_label c = label) FIELD_COMPLETIONS"

definition completion_field_name :: "anchor_field_completion \<Rightarrow> string option" where
  "completion_field_name completion =
     map_option (\<lambda>(name, _). trim name) (split_once '':'' (fcp_field_label completion))"

definition field_type_for_field_name :: "string \<Rightarrow> string option" where
  "field_type_for_field_name field_name =
     map_option fcp_insert_text (find (\<lambda>c. completion_field_name c = Some field_name) FIELD_COMPLETIONS)"

definition core_account_type :: "string \<Rightarrow> string option" where
  "core_account_type label =
     map_option fcp_insert_text
       (find (\<lambda>c. fcp_kind c = AccountType \<and> fcp_label c = label) FIELD_COMPLETIONS)"

definition sysvar_completion :: "string \<Rightarrow> anchor_field_completion option" where
  "sysvar_completion field_name =
     find (\<lambda>c. fcp_kind c = SysvarType \<and> completion_field_name c = Some field_name) FIELD_COMPLETIONS"

definition sysvar_type_for_field :: "string \<Rightarrow> string option" where
  "sysvar_type_for_field field_name = map_option fcp_insert_text (sysvar_completion field_name)"

definition last_generic_argument :: "string \<Rightarrow> string option" where
  "last_generic_argument label =
     Option.bind (str_rfind '','' label) (\<lambda>comma.
     Option.bind (str_rfind ''>'' label) (\<lambda>stop.
       (let start = comma + 1 in
        if start < stop then Some (trim (take (stop - start) (drop start label))) else None)))"

definition sysvar_generic_for_field :: "string \<Rightarrow> string option" where
  "sysvar_generic_for_field field_name =
     Option.bind (sysvar_completion field_name) (\<lambda>c. last_generic_argument (fcp_label c))"

definition field_type_label :: "string \<Rightarrow> string list \<Rightarrow> string option" where
  "field_type_label type_name generic_type_names =
     (if type_name \<in> {''AccountInfo'', ''Signer'', ''SystemAccount'', ''UncheckedAccount''}
      then Some (type_name @ ''<'info>'')
      else if type_name \<in> {''Account'', ''AccountLoader'', ''Interface'', ''InterfaceAccount'', ''Program'', ''Sysvar''} \<and>
              generic_type_names \<noteq> []
      then Some (type_name @ ''<'info, '' @ join '', '' generic_type_names @ ''>'')
      else if type_name = ''Migration'' \<and> length generic_type_names \<ge> 2
      then Some (''Migration<'info, '' @ generic_type_names ! 0 @ '', '' @ generic_type_names ! 1 @ ''>'')
      else None)"

definition field_type_completion :: "string \<Rightarrow> string list \<Rightarrow> anchor_field_completion option" where
  "field_type_completion type_name generic_type_names =
     Option.bind (field_type_label type_name generic_type_names) completion_by_label"

end
