(* ===== verification/Semantic_Model.thy ===== *)
theory Semantic_Model
  imports Anchor_Types Document_Types "HOL-Library.Product_Lexorder"
begin

section \<open>The semantic model\<close>

text \<open>
  The nodes and queries of \<open>crates/seagrass-framework/src/semantic\<close> and the extraction of a model from
  the symbols of a document, \<open>src/anchor/extractor\<close>.  An accounts struct refers to others by fields of
  their type; the extraction follows such references, with the names on the way as its guard
  against recursive structs.
\<close>

subsection \<open>Nodes\<close>

datatype semantic_type =
    TypeRawAccountInfo | TypeAccount | TypeUncheckedAccount | TypeInterface | TypeInterfaceAccount
  | TypeProgram | TypeSigner | TypeSystemAccount | TypeUnknown

datatype semantic_value = AccountRefValue string | ExpressionValue string | BoolValue bool | AbsentValue

record semantic_constraint =
  smc_key :: string
  smc_value :: semantic_value
  smc_range :: range

record account_field =
  af_name :: string
  af_range :: range
  af_type :: semantic_type
  af_constraints :: "semantic_constraint list"
  af_token_interface :: bool

datatype accounts_node = AccountsNode
  (an_name: string)
  (an_fields: "account_field list")
  (an_refs: "composite_ref list")
and composite_ref = CompositeRef
  (cref_field: string)
  (cref_target: string)
  (cref_resolved: "accounts_node option")

datatype pda_seed_node = LiteralSeed string | AccountSeed string | ExpressionSeed string

record pda_seed_set =
  pss_seeds :: "pda_seed_node list"
  pss_bump :: "semantic_value option"
  pss_program :: "semantic_value option"

datatype check_kind = SignerCheck | OwnerCheck | DiscriminatorCheck | KeyEqualityCheck

record semantic_check =
  chk_kind :: check_kind
  chk_subject :: "string option"
  chk_range :: range

record cpi_call =
  cpi_program :: "string option"
  cpi_range :: range

record instruction_param =
  ip_name :: string
  ip_type :: "string option"

record semantic_instruction =
  si_name :: string
  si_context :: "string option"
  si_parameters :: "instruction_param list"
  si_cpi_calls :: "cpi_call list"
  si_signer_checks :: "semantic_check list"
  si_owner_checks :: "semantic_check list"
  si_discriminator_checks :: "semantic_check list"

record semantic_error =
  se_name :: string
  se_codes :: "(string \<times> u32 option) list"

datatype extraction_confidence = MacroAnnounced | IdiomBased | PartialExtraction

record 'a populated =
  pop_inner :: 'a
  pop_fields :: u64
  pop_confidence :: extraction_confidence

record semantic_model =
  sem_program :: "declared_program_id populated option"
  sem_instructions :: "semantic_instruction populated list"
  sem_accounts :: "accounts_node populated list"
  sem_errors :: "semantic_error populated list"

subsection \<open>Flags of what was populated\<close>

definition COMPOSITE_REFS_RESOLVED :: u64 where "COMPOSITE_REFS_RESOLVED = 1"
definition SIGNER_CHECKS :: u64 where "SIGNER_CHECKS = push_bit 1 1"
definition PDA_SEEDS :: u64 where "PDA_SEEDS = push_bit 4 1"
definition CPI_CALLS :: u64 where "CPI_CALLS = push_bit 5 1"

definition flags_has :: "u64 \<Rightarrow> u64 \<Rightarrow> bool" where
  "flags_has fs flag \<longleftrightarrow> and fs flag \<noteq> 0"

definition flags_set :: "u64 \<Rightarrow> u64 \<Rightarrow> u64" where
  "flags_set flag fs = or fs flag"

definition populated_new :: "'a \<Rightarrow> extraction_confidence \<Rightarrow> 'a populated" where
  "populated_new v confidence = \<lparr>pop_inner = v, pop_fields = 0, pop_confidence = confidence\<rparr>"

definition populated_with :: "'a \<Rightarrow> extraction_confidence \<Rightarrow> u64 \<Rightarrow> 'a populated" where
  "populated_with v confidence fs = \<lparr>pop_inner = v, pop_fields = fs, pop_confidence = confidence\<rparr>"

subsection \<open>Constraints\<close>

definition ACCOUNT_REF_KEYS :: "string list" where
  "ACCOUNT_REF_KEYS =
     [''address'', ''associated_token::authority'', ''associated_token::mint'',
      ''associated_token::token_program'', ''close'', ''constraint'', ''has_one'', ''mint::authority'',
      ''mint::freeze_authority'', ''mint::token_program'', ''owner'', ''payer'', ''realloc::payer'',
      ''seeds::program'', ''token::authority'', ''token::mint'', ''token::token_program'']"

definition account_args :: "string \<Rightarrow> string option" where
  "account_args s = Option.bind (strip_prefix ''account('' s) (strip_suffix '')'')"

definition plain_ident :: "string \<Rightarrow> bool" where
  "plain_ident s \<longleftrightarrow>
     (case s of
        [] \<Rightarrow> False
      | c # cs \<Rightarrow> (c = CHR ''_'' \<or> is_ascii_alphabetic c) \<and> list_all (\<lambda>d. d = CHR ''_'' \<or> is_ascii_alphanumeric d) cs)"

definition is_path_like :: "string \<Rightarrow> bool" where
  "is_path_like v \<longleftrightarrow> list_all plain_ident (split_char CHR ''.'' v)"

text \<open>The loop of \<open>split_top_level\<close>; \<open>part\<close> is the text since the last cut.\<close>

fun split_parts :: "char \<Rightarrow> string \<Rightarrow> int \<Rightarrow> string \<Rightarrow> string list" where
  "split_parts delimiter part d [] = [part]"
| "split_parts delimiter part d (c # cs) =
     (if c \<in> {CHR ''('', CHR ''['', CHR ''{''} then split_parts delimiter (part @ [c]) (d + 1) cs
      else if c \<in> {CHR '')'', CHR '']'', CHR ''}''} then split_parts delimiter (part @ [c]) (d - 1) cs
      else if c = delimiter \<and> d = 0 then part # split_parts delimiter [] d cs
      else split_parts delimiter (part @ [c]) d cs)"

definition semantic_constraint_value :: "string \<Rightarrow> string \<Rightarrow> semantic_value" where
  "semantic_constraint_value key v =
     (if v = ''true'' then BoolValue True
      else if v = ''false'' then BoolValue False
      else if key \<in> set ACCOUNT_REF_KEYS \<and> is_path_like v then AccountRefValue v
      else ExpressionValue v)"

definition constraint_from_part :: "range \<Rightarrow> string \<Rightarrow> semantic_constraint option" where
  "constraint_from_part r part =
     (let part = trim part in
      if part = [] then None
      else
        let (key, v) = (case split_once ''='' part of
              Some (key, v) \<Rightarrow> (trim key, semantic_constraint_value (trim key) (trim v))
            | None \<Rightarrow> (part, AbsentValue)) in
        Some \<lparr>smc_key = key, smc_value = v, smc_range = r\<rparr>)"

definition constraints_from_text :: "string \<Rightarrow> range \<Rightarrow> semantic_constraint list" where
  "constraints_from_text s r =
     List.map_filter (constraint_from_part r)
       (case account_args s of None \<Rightarrow> [] | Some args \<Rightarrow> split_parts CHR '','' [] 0 args)"

definition constraints_from_account_constraints :: "account_constraint list \<Rightarrow> semantic_constraint list" where
  "constraints_from_account_constraints cs = concat (map (\<lambda>c. constraints_from_text (ac_text c) (ac_range c)) cs)"

subsection \<open>Seeds\<close>

definition byte_string_literal :: "string \<Rightarrow> string option" where
  "byte_string_literal seed =
     Option.bind (strip_prefix [CHR ''b'', CHR 0x22] seed) (strip_suffix [CHR 0x22])"

definition pda_seed_from_text :: "string \<Rightarrow> pda_seed_node" where
  "pda_seed_from_text seed =
     (case byte_string_literal seed of
        Some literal \<Rightarrow> LiteralSeed literal
      | None \<Rightarrow> if is_path_like seed then AccountSeed seed else ExpressionSeed seed)"

definition bump_value :: "pda_constraint \<Rightarrow> semantic_value option" where
  "bump_value pda =
     (case pda_bump pda of
        Canonical \<Rightarrow> Some AbsentValue
      | Explicit v \<Rightarrow> Some (ExpressionValue v)
      | MissingBump \<Rightarrow> None)"

definition pda_seed_set_of :: "symbol_range \<Rightarrow> pda_seed_set option" where
  "pda_seed_set_of field =
     map_option (\<lambda>pda.
       \<lparr>pss_seeds = (case pda_seeds pda of
            SeedList seeds \<Rightarrow> map pda_seed_from_text seeds
          | SeedExpr e \<Rightarrow> [ExpressionSeed e]),
        pss_bump = bump_value pda,
        pss_program = map_option ExpressionValue (pda_program_seed pda)\<rparr>)
       (sr_pda_constraint field)"

subsection \<open>Fields\<close>

definition semantic_type_of :: "string option \<Rightarrow> semantic_type" where
  "semantic_type_of type_name =
     (case type_name of
        None \<Rightarrow> TypeUnknown
      | Some t \<Rightarrow>
          if t = ''AccountInfo'' then TypeRawAccountInfo
          else if t = ''Account'' then TypeAccount
          else if t = ''UncheckedAccount'' then TypeUncheckedAccount
          else if t = ''Interface'' then TypeInterface
          else if t = ''InterfaceAccount'' then TypeInterfaceAccount
          else if t = ''Program'' then TypeProgram
          else if t = ''Signer'' then TypeSigner
          else if t = ''SystemAccount'' then TypeSystemAccount
          else TypeUnknown)"

definition catalog_entry_is_token_program :: "anchor_field_completion \<Rightarrow> bool" where
  "catalog_entry_is_token_program completion \<longleftrightarrow>
     fcp_source_path completion \<in>
       {''spl/src/token.rs'', ''spl/src/token_2022.rs'', ''spl/src/token_interface.rs''}"

definition program_generic :: "string \<Rightarrow> string option" where
  "program_generic label = Option.bind (strip_prefix ''Program<'info, '' label) (strip_suffix ''>'')"

definition catalog_token_program_types :: "string list" where
  "catalog_token_program_types =
     List.map_filter (\<lambda>c. program_generic (fcp_label c))
       (filter (\<lambda>c. fcp_kind c = ProgramType \<and> catalog_entry_is_token_program c) FIELD_COMPLETIONS)"

definition token_interface_candidate :: "symbol_range \<Rightarrow> semantic_type \<Rightarrow> bool" where
  "token_interface_candidate field ty =
     (case ty of
        TypeInterface \<Rightarrow> True
      | TypeInterfaceAccount \<Rightarrow> True
      | TypeProgram \<Rightarrow> list_ex (\<lambda>generic. generic \<in> set catalog_token_program_types) (sr_generic_type_names field)
      | _ \<Rightarrow> False)"

definition extract_account_field :: "symbol_range \<Rightarrow> account_field" where
  "extract_account_field field =
     (let ty = semantic_type_of (sr_type_name field) in
      \<lparr>af_name = sr_name field, af_range = sr_selection_range field, af_type = ty,
       af_constraints = constraints_from_account_constraints (sr_account_constraints field),
       af_token_interface = token_interface_candidate field ty\<rparr>)"

subsection \<open>Accounts structs\<close>

definition composite_target :: "string set \<Rightarrow> symbol_range \<Rightarrow> string option" where
  "composite_target all_account_names field =
     Option.bind (sr_type_name field) (\<lambda>t.
       if semantic_type_of (Some t) \<noteq> TypeUnknown then None
       else if t \<in> all_account_names then Some t else None)"

definition composite_fields :: "string set \<Rightarrow> symbol_range \<Rightarrow> (string \<times> string) list" where
  "composite_fields all_account_names symbol =
     List.map_filter (\<lambda>field. map_option (\<lambda>t. (sr_name field, t)) (composite_target all_account_names field))
       (sr_fields symbol)"

definition struct_flags :: "symbol_range \<Rightarrow> composite_ref list \<Rightarrow> u64" where
  "struct_flags symbol refs =
     (let fs = (if list_all (\<lambda>r. cref_resolved r \<noteq> None) refs then flags_set COMPOSITE_REFS_RESOLVED 0 else 0) in
      if list_ex (\<lambda>field. sr_pda_constraint field \<noteq> None) (sr_fields symbol) then flags_set PDA_SEEDS fs else fs)"

fun mapM :: "('a \<Rightarrow> 'b option) \<Rightarrow> 'a list \<Rightarrow> 'b list option" where
  "mapM f [] = Some []"
| "mapM f (x # xs) = Option.bind (f x) (\<lambda>y. map_option ((#) y) (mapM f xs))"

text \<open>\<open>extract_accounts_struct\<close>, with fuel: \<open>None\<close> when it runs out.  The nested calls work on copies
  of the visited names.\<close>

fun extract_accounts_struct ::
  "nat \<Rightarrow> (string, symbol_range) hmap \<Rightarrow> string set \<Rightarrow> symbol_range \<Rightarrow> accounts_node populated option" where
  "extract_accounts_struct 0 table visited symbol = None"
| "extract_accounts_struct (Suc n) table visited symbol =
     (let visited = insert (sr_name symbol) visited;
          resolve = (\<lambda>(field, target).
            if target \<in> visited then Some (CompositeRef field target None)
            else
              case map_of table target of
                None \<Rightarrow> Some (CompositeRef field target None)
              | Some t \<Rightarrow>
                  map_option (\<lambda>p. CompositeRef field target (Some (pop_inner p)))
                    (extract_accounts_struct n table visited t)) in
      map_option (\<lambda>refs.
        populated_with (AccountsNode (sr_name symbol) (map extract_account_field (sr_fields symbol)) refs)
          MacroAnnounced (struct_flags symbol refs))
        (mapM resolve (composite_fields (set (map fst table)) symbol)))"

definition extract_accounts_structs :: "anchor_symbols \<Rightarrow> accounts_node populated list option" where
  "extract_accounts_structs symbols =
     (let account_symbols = sort_key fst (accounts_structs symbols) in
      mapM (\<lambda>(_, symbol). extract_accounts_struct (length account_symbols + 1) account_symbols {} symbol)
        account_symbols)"

subsection \<open>Instructions and the model\<close>

definition checks_from_usages :: "check_kind \<Rightarrow> account_usage list \<Rightarrow> semantic_check list" where
  "checks_from_usages kind usages =
     map (\<lambda>u. \<lparr>chk_kind = kind, chk_subject = Some (au_name u), chk_range = au_range u\<rparr>) usages"

definition extract_instruction :: "instruction_symbol \<Rightarrow> semantic_instruction populated" where
  "extract_instruction i =
     (let cpi_calls = map (\<lambda>u. \<lparr>cpi_program = Some (au_name u), cpi_range = au_range u\<rparr>) (is_cpi_program_usages i);
          fs = flags_set SIGNER_CHECKS 0;
          fs = (if cpi_calls \<noteq> [] then flags_set CPI_CALLS fs else fs) in
      populated_with
        \<lparr>si_name = is_name i,
         si_context = map_option cr_name (is_context i),
         si_parameters = map (\<lambda>a. \<lparr>ip_name = ia_name a, ip_type = or_else (ia_type_signature a) (ia_type_name a)\<rparr>)
           (is_arguments i),
         si_cpi_calls = cpi_calls,
         si_signer_checks = checks_from_usages SignerCheck (is_signer_checks i),
         si_owner_checks = checks_from_usages OwnerCheck [],
         si_discriminator_checks = checks_from_usages DiscriminatorCheck []\<rparr>
        MacroAnnounced fs)"

definition extract_model :: "anchor_symbols \<Rightarrow> semantic_model option" where
  "extract_model symbols =
     map_option (\<lambda>accounts.
       \<lparr>sem_program = map_option (\<lambda>declared. populated_new declared MacroAnnounced) (declared_program_id symbols),
        sem_instructions = map extract_instruction (instructions symbols),
        sem_accounts = accounts,
        sem_errors = map (\<lambda>e. populated_new
            \<lparr>se_name = ece_name e, se_codes = map (\<lambda>v. (v, None)) (ece_variants e)\<rparr> MacroAnnounced)
          (error_codes symbols)\<rparr>)
       (extract_accounts_structs symbols)"

end
