(* ===== verification/Semantic_Queries.thy ===== *)
theory Semantic_Queries
  imports Semantic_Model
begin

section \<open>Queries on the semantic model\<close>

text \<open>
  \<open>all_fields_for_struct\<close> and the signer query of \<open>crates/seagrass-framework/src/semantic\<close>, with
  the reading of extraction and queries as reachability by composite references.
\<close>

subsection \<open>All fields of a struct\<close>

definition model_struct :: "semantic_model \<Rightarrow> string \<Rightarrow> accounts_node option" where
  "model_struct model name = find (\<lambda>n. an_name n = name) (map pop_inner (sem_accounts model))"

lemma find_SomeD: "find P xs = Some x \<Longrightarrow> x \<in> set xs \<and> P x"
  by (induction xs) (auto split: if_splits)

definition unvisited :: "semantic_model \<Rightarrow> string set \<Rightarrow> nat" where
  "unvisited model visited = card (an_name ` pop_inner ` set (sem_accounts model) - visited)"

lemma unvisited_le: "unvisited model (insert n visited) \<le> unvisited model visited"
  unfolding unvisited_def by (intro card_mono) auto

lemma unvisited_less:
  assumes "model_struct model t = Some n" "an_name n \<notin> visited"
  shows "unvisited model (insert (an_name n) visited) < unvisited model visited"
proof -
  have "an_name n \<in> an_name ` pop_inner ` set (sem_accounts model)"
    using find_SomeD [OF assms(1) [unfolded model_struct_def]] by auto
  with assms(2) show ?thesis unfolding unvisited_def by (intro psubset_card_mono) auto
qed

lemma size_ref_less [termination_simp]:
  "cref_resolved r = Some n \<Longrightarrow> size_list size (an_refs n) < size r"
proof (cases r)
  case (CompositeRef f t o)
  assume "cref_resolved r = Some n"
  with CompositeRef show ?thesis by (cases n) simp
qed

text \<open>
  \<open>collect_fields\<close>, with the references still to follow as a work list: the nested calls of the code
  run to their end before the next reference, so that theirs go to the front.
\<close>

function collect_fields ::
  "semantic_model \<Rightarrow> composite_ref list \<Rightarrow> string set \<Rightarrow> account_field list \<Rightarrow> account_field list" where
  "collect_fields model [] visited acc = acc"
| "collect_fields model (r # rs) visited acc =
     (case cref_resolved r of
        Some n \<Rightarrow>
          if an_name n \<in> visited then collect_fields model rs visited acc
          else collect_fields model (an_refs n @ rs) (insert (an_name n) visited) (acc @ an_fields n)
      | None \<Rightarrow>
          (case model_struct model (cref_target r) of
             None \<Rightarrow> collect_fields model rs visited acc
           | Some n \<Rightarrow>
               if an_name n \<in> visited then collect_fields model rs visited acc
               else collect_fields model (an_refs n @ rs) (insert (an_name n) visited) (acc @ an_fields n)))"
  by pat_completeness auto

termination
proof (relation "measures [\<lambda>(model, refs, visited, acc). unvisited model visited,
    \<lambda>(model, refs, visited, acc). size_list size refs]", goal_cases)
  case (4 model r rs visited acc n)
  with unvisited_less show ?case by simp
next
  case (6 model r rs visited acc n)
  show ?case
    using unvisited_le [of model "an_name n" visited] size_ref_less [OF 6(1)]
    by (cases "unvisited model (insert (an_name n) visited) = unvisited model visited") (auto simp: size_list_append)
qed auto

definition all_fields_for_struct :: "semantic_model \<Rightarrow> string \<Rightarrow> account_field list" where
  "all_fields_for_struct model struct_name =
     (case model_struct model struct_name of
        None \<Rightarrow> []
      | Some n \<Rightarrow> collect_fields model (an_refs n) {an_name n} (an_fields n))"

subsection \<open>Missing signers\<close>

definition semantic_requires_signer :: "account_field \<Rightarrow> bool" where
  "semantic_requires_signer field \<longleftrightarrow> list_ex (\<lambda>c. smc_key c = ''requires_signer'') (af_constraints field)"

definition signer_authorization_required :: "account_field \<Rightarrow> account_field list \<Rightarrow> bool" where
  "signer_authorization_required field all_fields =
     (if af_type field \<notin> {TypeRawAccountInfo, TypeUncheckedAccount} then False
      else if list_ex semantic_requires_signer all_fields then semantic_requires_signer field
      else True)"

fun names_signer_flag :: "semantic_value \<Rightarrow> bool" where
  "names_signer_flag (AccountRefValue v) = (str_contains ''.is_signer'' v \<or> v = ''is_signer'')"
| "names_signer_flag (ExpressionValue v) = (str_contains ''.is_signer'' v \<or> v = ''is_signer'')"
| "names_signer_flag _ = False"

definition semantic_has_signer :: "account_field \<Rightarrow> bool" where
  "semantic_has_signer field \<longleftrightarrow>
     list_ex (\<lambda>c. smc_key c = ''signer'' \<or> names_signer_flag (smc_value c)) (af_constraints field)"

definition instructions_of_context :: "semantic_model \<Rightarrow> string \<Rightarrow> semantic_instruction populated list" where
  "instructions_of_context model accounts_name =
     filter (\<lambda>i. si_context (pop_inner i) = Some accounts_name) (sem_instructions model)"

definition signer_subjects :: "semantic_instruction \<Rightarrow> string set" where
  "signer_subjects i =
     set (List.map_filter chk_subject (filter (\<lambda>c. chk_kind c = SignerCheck) (si_signer_checks i)))"

definition signer_checks_for_context ::
  "semantic_model \<Rightarrow> string \<Rightarrow> (string, string set) hmap \<Rightarrow> string set option" where
  "signer_checks_for_context model accounts_name reachable_checks =
     (let is = instructions_of_context model accounts_name in
      if is = [] \<or> list_ex (\<lambda>i. \<not> flags_has (pop_fields i) SIGNER_CHECKS) is then None
      else
        Some (\<Union>i \<in> set is. signer_subjects (pop_inner i) \<union>
          unwrap_or {} (map_of reachable_checks (si_name (pop_inner i)))))"

definition signer_diagnostic :: "account_field \<Rightarrow> diagnostic" where
  "signer_diagnostic field =
     \<lparr>d_range = af_range field, d_severity = Some WARNING,
      d_code = Some (String ''anchor-security-signer''), d_code_description = None,
      d_source = Some ''seagrass'',
      d_message = CHR 0x60 # af_name field @ [CHR 0x60] @
        '' is used as an unchecked signer but no signer constraint or runtime signer check is visible.'',
      d_related = None, d_tags = None,
      d_data = Some (JObject [(''account'', JString (af_name field)), (''reason'', JString ''semantic-signer-query'')])\<rparr>"

definition missing_signer_diagnostics_with_reachability ::
  "semantic_model \<Rightarrow> (string, string set) hmap \<Rightarrow> diagnostic list" where
  "missing_signer_diagnostics_with_reachability model reachable_checks =
     concat (map (\<lambda>accounts.
       case signer_checks_for_context model (an_name (pop_inner accounts)) reachable_checks of
         None \<Rightarrow> []
       | Some runtime_checks \<Rightarrow>
           map signer_diagnostic
             (filter (\<lambda>field. af_name field \<notin> runtime_checks)
               (filter (\<lambda>field. \<not> semantic_has_signer field)
                 (filter (\<lambda>field. signer_authorization_required field (an_fields (pop_inner accounts)))
                   (an_fields (pop_inner accounts))))))
       (sem_accounts model))"

definition missing_signer_diagnostics :: "semantic_model \<Rightarrow> diagnostic list" where
  "missing_signer_diagnostics model = missing_signer_diagnostics_with_reachability model []"

subsection \<open>The extraction ends\<close>

definition table_named :: "(string, symbol_range) hmap \<Rightarrow> bool" where
  "table_named table \<longleftrightarrow> distinct (map fst table) \<and> list_all (\<lambda>(name, symbol). sr_name symbol = name) table"

lemma table_named_lookup: "table_named table \<Longrightarrow> map_of table name = Some s \<Longrightarrow> sr_name s = name"
  by (auto simp: table_named_def list_all_iff dest: map_of_SomeD)

lemma mapM_Some: "(\<And>x. x \<in> set xs \<Longrightarrow> \<exists>y. f x = Some y) \<Longrightarrow> \<exists>ys. mapM f xs = Some ys"
proof (induction xs)
  case (Cons x xs)
  then obtain y ys where "f x = Some y" "mapM f xs = Some ys" by fastforce
  then show ?case by simp
qed simp

lemma mapM_list_all2: "mapM f xs = Some ys \<Longrightarrow> list_all2 (\<lambda>x y. f x = Some y) xs ys"
  by (induction xs arbitrary: ys) (auto simp: bind_eq_Some_conv)

lemma set_map_filter_iff: "y \<in> set (List.map_filter f xs) \<longleftrightarrow> (\<exists>x \<in> set xs. f x = Some y)"
  by (induction xs) (auto simp: List.map_filter_def)

lemma mapM_members: "mapM f xs = Some ys \<Longrightarrow> list_all2 (\<lambda>x y. x \<in> set xs \<and> f x = Some y) xs ys"
  using mapM_list_all2 [of f xs ys] by (simp add: list_all2_conv_all_nth)

lemma composite_fields_table: "(field, t) \<in> set (composite_fields (set (map fst table)) s) \<Longrightarrow> map_of table t \<noteq> None"
  by (auto simp: composite_fields_def composite_target_def set_map_filter_iff map_of_eq_None_iff
      bind_eq_Some_conv split: if_splits)

lemma extract_accounts_struct_Some:
  assumes "table_named table"
  shows "sr_name symbol \<notin> visited \<Longrightarrow> map_of table (sr_name symbol) \<noteq> None \<Longrightarrow>
    card (fst ` set table - visited) < n \<Longrightarrow>
    \<exists>p. extract_accounts_struct n table visited symbol = Some p"
proof (induction n arbitrary: visited symbol)
  case (Suc n)
  let ?visited = "insert (sr_name symbol) visited"
  have "sr_name symbol \<in> fst ` set table" using Suc.prems(2) by (simp add: map_of_eq_None_iff)
  then have less: "card (fst ` set table - ?visited) < card (fst ` set table - visited)"
    using Suc.prems(1) by (intro psubset_card_mono) auto
  have "\<exists>p. extract_accounts_struct n table ?visited t = Some p"
    if "target \<notin> ?visited" "map_of table target = Some t" for target t
    using that less Suc.prems(3) table_named_lookup [OF assms that(2)] by (intro Suc.IH) auto
  then show ?case
    by (auto simp: Let_def intro!: mapM_Some split: option.splits)
qed simp

lemma sort_table_named: "table_named table \<Longrightarrow> table_named (sort_key fst table)"
  by (auto simp: table_named_def list_all_iff distinct_map)

lemma map_of_sort: "table_named table \<Longrightarrow> map_of (sort_key fst table) = map_of table"
  using sort_table_named [of table] by (simp add: map_of_inject_set table_named_def)

lemma list_all2_split: "list_all2 (\<lambda>x y. g y = f x \<and> Q y) xs ys \<Longrightarrow> map g ys = map f xs \<and> (\<forall>y \<in> set ys. Q y)"
  by (induction rule: list_all2_induct) auto

subsection \<open>What the extraction represents\<close>

definition targets :: "(string, symbol_range) hmap \<Rightarrow> symbol_range \<Rightarrow> string list" where
  "targets table s = map snd (composite_fields (set (map fst table)) s)"

definition struct_fields :: "(string, symbol_range) hmap \<Rightarrow> string \<Rightarrow> account_field list" where
  "struct_fields table name =
     (case map_of table name of None \<Rightarrow> [] | Some s \<Rightarrow> map extract_account_field (sr_fields s))"

text \<open>A node stands for the struct of its name: same fields, same references, and resolved references
  stand for their targets.\<close>

inductive represents :: "(string, symbol_range) hmap \<Rightarrow> accounts_node \<Rightarrow> bool" for table where
  "map_of table name = Some s \<Longrightarrow> map cref_target refs = targets table s \<Longrightarrow>
   (\<And>r n. r \<in> set refs \<Longrightarrow> cref_resolved r = Some n \<Longrightarrow> represents table n \<and> an_name n = cref_target r) \<Longrightarrow>
   represents table (AccountsNode name (map extract_account_field (sr_fields s)) refs)"

inductive_cases represents_cases: "represents table n"

lemma extract_represents:
  assumes "table_named table"
  shows "extract_accounts_struct n table visited symbol = Some p \<Longrightarrow>
    map_of table (sr_name symbol) = Some symbol \<Longrightarrow>
    represents table (pop_inner p) \<and> an_name (pop_inner p) = sr_name symbol"
proof (induction n arbitrary: visited symbol p)
  case (Suc n)
  let ?visited = "insert (sr_name symbol) visited" and ?fs = "composite_fields (set (map fst table)) symbol"
  let ?resolve = "\<lambda>(field, target).
    if target \<in> ?visited then Some (CompositeRef field target None)
    else case map_of table target of
        None \<Rightarrow> Some (CompositeRef field target None)
      | Some t \<Rightarrow> map_option (\<lambda>p. CompositeRef field target (Some (pop_inner p)))
          (extract_accounts_struct n table ?visited t)"
  from Suc.prems(1) obtain refs where refs: "mapM ?resolve ?fs = Some refs"
      and p: "pop_inner p = AccountsNode (sr_name symbol) (map extract_account_field (sr_fields symbol)) refs"
    by (auto simp: Let_def populated_with_def)
  have each: "cref_target r = snd ft \<and>
      (\<forall>m. cref_resolved r = Some m \<longrightarrow> represents table m \<and> an_name m = cref_target r)"
    if "?resolve ft = Some r" for ft r
  proof -
    obtain f t where ft: "ft = (f, t)" by force
    show ?thesis
    proof (cases "t \<in> ?visited \<or> map_of table t = None")
      case True
      with that ft show ?thesis by (auto split: if_splits)
    next
      case False
      then obtain s where s: "map_of table t = Some s" by blast
      with False that ft obtain q where q: "extract_accounts_struct n table ?visited s = Some q"
          "r = CompositeRef f t (Some (pop_inner q))" by auto
      have "sr_name s = t" using s by (rule table_named_lookup [OF assms])
      with Suc.IH [OF q(1)] s q(2) ft show ?thesis by simp
    qed
  qed
  have "list_all2 (\<lambda>ft r. ?resolve ft = Some r) ?fs refs" by (rule mapM_list_all2 [OF refs])
  then have "list_all2 (\<lambda>ft r. cref_target r = snd ft \<and>
      (\<forall>m. cref_resolved r = Some m \<longrightarrow> represents table m \<and> an_name m = cref_target r)) ?fs refs"
    by (rule list_all2_mono) (rule each)
  note split = list_all2_split [OF this]
  have "represents table (AccountsNode (sr_name symbol) (map extract_account_field (sr_fields symbol)) refs)"
  proof (rule represents.intros [OF Suc.prems(2)])
    show "map cref_target refs = targets table symbol" using split unfolding targets_def by blast
    show "represents table m \<and> an_name m = cref_target r" if "r \<in> set refs" "cref_resolved r = Some m" for r m
      using split that by blast
  qed
  then show ?case unfolding p by simp
qed simp

lemma represents_node:
  assumes "represents table n"
  shows "an_fields n = struct_fields table (an_name n)"
    "\<exists>s. map_of table (an_name n) = Some s \<and> map cref_target (an_refs n) = targets table s"
    "r \<in> set (an_refs n) \<Longrightarrow> cref_resolved r = Some m \<Longrightarrow> represents table m \<and> an_name m = cref_target r"
  using assms by (auto elim!: represents_cases simp: struct_fields_def)

declare extract_accounts_struct.simps [simp del]

lemma extract_model_structs:
  assumes "table_named (accounts_structs symbols)"
  obtains model where "extract_model symbols = Some model"
    "\<forall>p \<in> set (sem_accounts model). represents (accounts_structs symbols) (pop_inner p)"
    "sem_instructions model = map extract_instruction (instructions symbols)"
    "\<And>name. map_of (accounts_structs symbols) name = None \<Longrightarrow> model_struct model name = None"
    "\<And>name s. map_of (accounts_structs symbols) name = Some s \<Longrightarrow>
       \<exists>n. model_struct model name = Some n \<and> represents (accounts_structs symbols) n \<and> an_name n = name"
proof -
  let ?raw = "accounts_structs symbols" and ?table = "sort_key fst (accounts_structs symbols)"
  have named: "table_named ?table" using assms by (rule sort_table_named)
  have same: "map_of ?table = map_of ?raw" using assms by (rule map_of_sort)
  have sets: "set (map fst ?table) = set (map fst ?raw)" by simp
  have reps: "represents ?table n \<Longrightarrow> represents ?raw n" for n
    by (induction rule: represents.induct) (auto simp: targets_def same intro!: represents.intros)
  let ?run = "extract_accounts_struct (length ?table + 1) ?table {}"
  have "\<exists>p. ?run s = Some p" if "(name, s) \<in> set ?table" for name s
  proof (rule extract_accounts_struct_Some [OF named])
    have "map_of ?table name = Some s" using that named by (simp add: table_named_def)
    then show "map_of ?table (sr_name s) \<noteq> None" using table_named_lookup [OF named] by simp
    have "card (fst ` set ?table) \<le> length ?table" by (metis card_length length_map set_map)
    then show "card (fst ` set ?table - {}) < length ?table + 1" by simp
  qed simp
  then obtain ps where ps: "mapM (\<lambda>(_, s). ?run s) ?table = Some ps"
    using mapM_Some [of ?table "\<lambda>(_, s). ?run s"] by auto
  then obtain model where model: "extract_model symbols = Some model" "sem_accounts model = ps"
      and instrs: "sem_instructions model = map extract_instruction (instructions symbols)"
    by (auto simp: extract_model_def extract_accounts_structs_def Let_def)
  have each: "an_name (pop_inner p) = fst e \<and> represents ?raw (pop_inner p)"
    if "e \<in> set ?table" "(case e of (_, s) \<Rightarrow> ?run s) = Some p" for e p
  proof -
    obtain name s where e: "e = (name, s)" by force
    with that(1) named have "map_of ?table name = Some s" by (simp add: table_named_def)
    with table_named_lookup [OF named this] extract_represents [OF named, of _ "{}" s p] that(2) e reps
    show ?thesis by auto
  qed
  have "list_all2 (\<lambda>e p. e \<in> set ?table \<and> (case e of (_, s) \<Rightarrow> ?run s) = Some p) ?table ps"
    by (rule mapM_members [OF ps])
  then have "list_all2 (\<lambda>e p. an_name (pop_inner p) = fst e \<and> represents ?raw (pop_inner p)) ?table ps"
    by (rule list_all2_mono) (use each in blast)
  from list_all2_split [OF this] have ps_names: "map (\<lambda>p. an_name (pop_inner p)) ps = map fst ?table"
    and ps_reps: "\<forall>p \<in> set ps. represents ?raw (pop_inner p)" by blast+
  have dom: "(\<exists>p \<in> set ps. an_name (pop_inner p) = name) \<longleftrightarrow> map_of ?raw name \<noteq> None" for name
  proof -
    have "(\<exists>p \<in> set ps. an_name (pop_inner p) = name) \<longleftrightarrow> name \<in> set (map (\<lambda>p. an_name (pop_inner p)) ps)" by auto
    then show ?thesis unfolding ps_names sets by (simp add: map_of_eq_None_iff)
  qed
  show ?thesis
  proof (rule that [OF model(1) _ instrs])
    show "\<forall>p \<in> set (sem_accounts model). represents ?raw (pop_inner p)" using ps_reps model(2) by simp
    show "model_struct model name = None" if "map_of ?raw name = None" for name
      using dom [of name] that by (auto simp: model_struct_def model(2) find_None_iff)
    show "\<exists>n. model_struct model name = Some n \<and> represents ?raw n \<and> an_name n = name"
      if "map_of ?raw name = Some s" for name s
    proof -
      have "\<not> (\<forall>p \<in> set ps. an_name (pop_inner p) \<noteq> name)" using dom [of name] that by simp
      then have "model_struct model name \<noteq> None" by (simp add: model_struct_def model(2) find_None_iff)
      then obtain n where n: "model_struct model name = Some n" by blast
      from find_SomeD [OF n [unfolded model_struct_def]] n ps_reps show ?thesis by (auto simp: model(2))
    qed
  qed
qed

subsection \<open>Following the references\<close>

definition refers :: "(string, symbol_range) hmap \<Rightarrow> (string \<times> string) set" where
  "refers table = {(n, m). \<exists>s. map_of table n = Some s \<and> m \<in> set (targets table s)}"

definition reachable_structs :: "(string, symbol_range) hmap \<Rightarrow> string \<Rightarrow> string set" where
  "reachable_structs table name = {m. (name, m) \<in> (refers table)\<^sup>* \<and> map_of table m \<noteq> None}"

text \<open>The state of the loop: the structs visited so far, in their order, and the references left.\<close>

definition walk_ok :: "(string, symbol_range) hmap \<Rightarrow> string \<Rightarrow> string list \<Rightarrow> composite_ref list \<Rightarrow> bool" where
  "walk_ok table name ns refs \<longleftrightarrow>
     distinct ns \<and> name \<in> set ns \<and> set ns \<subseteq> reachable_structs table name \<and>
     cref_target ` set refs \<subseteq> reachable_structs table name \<and>
     (\<forall>r \<in> set refs. \<forall>n. cref_resolved r = Some n \<longrightarrow> represents table n \<and> an_name n = cref_target r) \<and>
     (\<forall>n \<in> set ns. \<forall>m. (n, m) \<in> refers table \<longrightarrow> m \<in> set ns \<or> m \<in> cref_target ` set refs)"

lemma targets_in_table: "m \<in> set (targets table s) \<Longrightarrow> map_of table m \<noteq> None"
  using composite_fields_table by (fastforce simp: targets_def)

lemma walk_done: "walk_ok table name ns [] \<Longrightarrow> set ns = reachable_structs table name"
proof -
  assume ok: "walk_ok table name ns []"
  have "m \<in> set ns" if "(name, m) \<in> (refers table)\<^sup>*" for m
    using that by (induction rule: rtrancl_induct) (use ok in \<open>auto simp: walk_ok_def\<close>)
  with ok show ?thesis by (auto simp: walk_ok_def reachable_structs_def)
qed

lemma walk_skip:
  "walk_ok table name ns (r # rs) \<Longrightarrow> cref_target r \<in> set ns \<Longrightarrow> walk_ok table name ns rs"
  by (auto simp: walk_ok_def)

lemma walk_visit:
  assumes "walk_ok table name ns (r # rs)" "represents table n" "an_name n = cref_target r" "an_name n \<notin> set ns"
  shows "walk_ok table name (ns @ [an_name n]) (an_refs n @ rs)"
proof -
  from represents_node [OF assms(2)] obtain s where s: "map_of table (an_name n) = Some s"
    "map cref_target (an_refs n) = targets table s" by blast
  have ts: "cref_target ` set (an_refs n) = set (targets table s)" using arg_cong [OF s(2), of set] by simp
  have nexts: "(an_name n, m) \<in> refers table \<longleftrightarrow> m \<in> cref_target ` set (an_refs n)" for m
    using s(1) by (simp add: refers_def ts)
  have here: "an_name n \<in> reachable_structs table name" using assms(1,3) by (simp add: walk_ok_def)
  have "cref_target ` set (an_refs n) \<subseteq> reachable_structs table name"
    using here targets_in_table [of _ table s] nexts unfolding ts
    by (auto simp: reachable_structs_def intro: rtrancl_into_rtrancl)
  moreover have "\<forall>r \<in> set (an_refs n). \<forall>m. cref_resolved r = Some m \<longrightarrow> represents table m \<and> an_name m = cref_target r"
    using represents_node(3) [OF assms(2)] by blast
  moreover have "m \<in> set (ns @ [an_name n]) \<or> m \<in> cref_target ` set (an_refs n @ rs)"
    if "k \<in> set (ns @ [an_name n])" "(k, m) \<in> refers table" for k m
  proof (cases "k = an_name n")
    case True
    with that(2) nexts show ?thesis by (simp add: image_Un)
  next
    case False
    with that assms(1) have "m \<in> set ns \<or> m \<in> cref_target ` set (r # rs)" by (auto simp: walk_ok_def)
    then show ?thesis using assms(3) by (auto simp: image_Un)
  qed
  ultimately show ?thesis
    using assms(1,4) here unfolding walk_ok_def by (simp add: image_Un) blast
qed

lemma walk_start:
  assumes "represents table n" "an_name n = name" "map_of table name = Some s"
  shows "walk_ok table name [name] (an_refs n)"
proof -
  from represents_node(2) [OF assms(1)] assms(2,3)
  have ts: "set (map cref_target (an_refs n)) = set (targets table s)" by auto
  then have "(name, m) \<in> refers table \<longleftrightarrow> m \<in> cref_target ` set (an_refs n)" for m
    using assms(3) by (simp add: refers_def)
  moreover have "name \<in> reachable_structs table name" using assms(3) by (simp add: reachable_structs_def)
  moreover have "cref_target ` set (an_refs n) \<subseteq> reachable_structs table name"
    using calculation(1) targets_in_table [of _ table s] ts by (auto simp: reachable_structs_def)
  ultimately show ?thesis using represents_node(3) [OF assms(1)] by (auto simp: walk_ok_def)
qed

definition model_of :: "(string, symbol_range) hmap \<Rightarrow> semantic_model \<Rightarrow> bool" where
  "model_of table model \<longleftrightarrow>
     (\<forall>name. map_of table name = None \<longrightarrow> model_struct model name = None) \<and>
     (\<forall>name s. map_of table name = Some s \<longrightarrow>
       (\<exists>n. model_struct model name = Some n \<and> represents table n \<and> an_name n = name))"

lemma collect_fields_walk:
  "walk_ok table name ns refs \<Longrightarrow> visited = set ns \<Longrightarrow> acc = concat (map (struct_fields table) ns) \<Longrightarrow>
    model_of table model \<Longrightarrow>
    \<exists>ms. distinct ms \<and> set ms = reachable_structs table name \<and>
      collect_fields model refs visited acc = concat (map (struct_fields table) ms)"
proof (induction model refs visited acc arbitrary: ns rule: collect_fields.induct [case_names Nil Cons])
  case (Nil model visited acc)
  have "distinct ns" using Nil.prems(1) by (simp add: walk_ok_def)
  with Nil walk_done [of table name ns] show ?case by (intro exI [of _ ns]) simp
next
  case (Cons model r rs visited acc)
  note ok = Cons.prems(1) and acc = Cons.prems(3)
  have acc_visit: "acc @ an_fields n = concat (map (struct_fields table) (ns @ [an_name n]))" if "represents table n" for n
    using represents_node(1) [OF that] acc by simp
  show ?case
  proof (cases "cref_resolved r")
    case (Some n)
    then have n: "represents table n" "an_name n = cref_target r" using ok by (auto simp: walk_ok_def)
    show ?thesis
    proof (cases "an_name n \<in> visited")
      case True
      with Cons.IH(4) [OF Some True walk_skip [OF ok]] n(2) Cons.prems(2,4) acc Some show ?thesis by simp
    next
      case False
      with Cons.IH(5) [OF Some False walk_visit [OF ok n] _ acc_visit [OF n(1)]] Cons.prems(2,4) Some show ?thesis
        by simp
    qed
  next
    case None
    have "map_of table (cref_target r) \<noteq> None" using ok by (auto simp: walk_ok_def reachable_structs_def)
    then obtain n where s: "model_struct model (cref_target r) = Some n"
        and n: "represents table n" "an_name n = cref_target r"
      using Cons.prems(4) unfolding model_of_def by blast
    show ?thesis
    proof (cases "an_name n \<in> visited")
      case True
      with Cons.IH(2) [OF None s True walk_skip [OF ok]] n(2) Cons.prems(2,4) acc None s show ?thesis by simp
    next
      case False
      with Cons.IH(3) [OF None s False walk_visit [OF ok n] _ acc_visit [OF n(1)]] Cons.prems(2,4) None s show ?thesis
        by simp
    qed
  qed
qed

lemma extracted_fields:
  assumes "table_named (accounts_structs symbols)"
  obtains model where "extract_model symbols = Some model"
    "\<And>name. \<exists>ns. distinct ns \<and> set ns = reachable_structs (accounts_structs symbols) name \<and>
       all_fields_for_struct model name = concat (map (struct_fields (accounts_structs symbols)) ns)"
proof -
  let ?table = "accounts_structs symbols"
  from extract_model_structs [OF assms] obtain model where model: "extract_model symbols = Some model"
    and ok: "model_of ?table model" unfolding model_of_def by metis
  have "\<exists>ns. distinct ns \<and> set ns = reachable_structs ?table name \<and>
      all_fields_for_struct model name = concat (map (struct_fields ?table) ns)" for name
  proof (cases "map_of ?table name")
    case None
    have "m = name" if "(name, m) \<in> (refers ?table)\<^sup>*" for m
      using that None by (induction rule: rtrancl_induct) (auto simp: refers_def)
    then have "reachable_structs ?table name = {}" using None by (auto simp: reachable_structs_def)
    with None ok show ?thesis
      by (intro exI [of _ "[]"]) (simp add: all_fields_for_struct_def model_of_def)
  next
    case (Some s)
    then obtain n where n: "model_struct model name = Some n" "represents ?table n" "an_name n = name"
      using ok unfolding model_of_def by blast
    have "walk_ok ?table name [an_name n] (an_refs n)" unfolding n(3) using n(2,3) Some by (rule walk_start)
    from collect_fields_walk [OF this _ _ ok, of "{an_name n}" "an_fields n"] represents_node(1) [OF n(2)]
    show ?thesis using n(1) by (auto simp: all_fields_for_struct_def)
  qed
  with model show ?thesis by (rule that)
qed

text \<open>C24: From every document whose structs are stored under their names a model is extracted, and the query
  for the fields of a struct lists the fields of each struct that can be reached by composite references,
  each struct once, also when the references are recursive.\<close>

theorem all_fields_exact:
  assumes "table_named (accounts_structs symbols)"
  shows "\<exists>model ns. extract_model symbols = Some model \<and> distinct ns \<and>
    set ns = reachable_structs (accounts_structs symbols) name \<and>
    all_fields_for_struct model name = concat (map (struct_fields (accounts_structs symbols)) ns)"
  by (rule extracted_fields [OF assms]) blast

subsection \<open>Missing signers, from the symbols\<close>

definition handles :: "instruction_symbol \<Rightarrow> string \<Rightarrow> bool" where
  "handles i accounts_name \<longleftrightarrow> map_option cr_name (is_context i) = Some accounts_name"

definition signer_missing :: "anchor_symbols \<Rightarrow> string \<Rightarrow> account_field \<Rightarrow> bool" where
  "signer_missing symbols name field \<longleftrightarrow>
     field \<in> set (struct_fields (accounts_structs symbols) name) \<and>
     signer_authorization_required field (struct_fields (accounts_structs symbols) name) \<and>
     \<not> semantic_has_signer field \<and>
     list_ex (\<lambda>i. handles i name) (instructions symbols) \<and>
     list_all (\<lambda>i. handles i name \<longrightarrow> af_name field \<notin> au_name ` set (is_signer_checks i)) (instructions symbols)"

lemma extract_instruction_simps:
  "si_context (pop_inner (extract_instruction i)) = map_option cr_name (is_context i)"
  "signer_subjects (pop_inner (extract_instruction i)) = au_name ` set (is_signer_checks i)"
  "flags_has (pop_fields (extract_instruction i)) SIGNER_CHECKS"
proof -
  show "si_context (pop_inner (extract_instruction i)) = map_option cr_name (is_context i)"
    by (simp add: extract_instruction_def Let_def populated_with_def)
  show "signer_subjects (pop_inner (extract_instruction i)) = au_name ` set (is_signer_checks i)"
    by (auto simp: extract_instruction_def Let_def populated_with_def signer_subjects_def checks_from_usages_def
        set_map_filter_iff image_iff)
  have "flags_has (flags_set SIGNER_CHECKS 0) SIGNER_CHECKS"
    "flags_has (flags_set CPI_CALLS (flags_set SIGNER_CHECKS 0)) SIGNER_CHECKS" by code_simp+
  then show "flags_has (pop_fields (extract_instruction i)) SIGNER_CHECKS"
    by (simp add: extract_instruction_def Let_def populated_with_def)
qed

lemma signer_checks_extracted:
  assumes "sem_instructions model = map extract_instruction is"
  shows "signer_checks_for_context model name [] =
    (if list_ex (\<lambda>i. handles i name) is
     then Some (\<Union>i \<in> {i \<in> set is. handles i name}. au_name ` set (is_signer_checks i)) else None)"
proof -
  have ctx: "instructions_of_context model name = map extract_instruction (filter (\<lambda>i. handles i name) is)"
    by (simp add: instructions_of_context_def assms filter_map comp_def extract_instruction_simps handles_def)
  show ?thesis
    by (auto simp: signer_checks_for_context_def ctx Let_def list_ex_iff filter_empty_conv extract_instruction_simps
        unwrap_or_def)
qed


text \<open>Two structs that refer to each other.\<close>

definition node_symbol :: "string \<Rightarrow> string option \<Rightarrow> symbol_range list \<Rightarrow> symbol_range" where
  "node_symbol name ty fs =
     (let r = \<lparr>range_start = \<lparr>pos_line = 0, pos_character = 0\<rparr>, range_end = \<lparr>pos_line = 0, pos_character = 0\<rparr>\<rparr> in
      SymbolRange name r r fs [] ty None None [] [] False [] [] None [] None None None False)"

definition cyclic_table :: "(string, symbol_range) hmap" where
  "cyclic_table =
     [(''A'', node_symbol ''A'' None [node_symbol ''owner'' (Some ''Signer'') [], node_symbol ''b'' (Some ''B'') []]),
      (''B'', node_symbol ''B'' None [node_symbol ''a'' (Some ''A'') []])]"

definition cyclic_symbols :: anchor_symbols where
  "cyclic_symbols =
     \<lparr>all_structs = [], enums = [], accounts_structs = cyclic_table, account_data_structs = [], constants = [],
      imported_names = [], import_origins = [], has_glob_import = False, has_local_glob_import = False,
      import_aliases = [], value_items = [], associated_value_items = [], derived_init_space_types = {},
      instructions = [], free_functions = [], context_references = [], declared_program_id = None, error_codes = []\<rparr>"

theorem all_fields_exact_witness:
  "\<exists>model ns. extract_model cyclic_symbols = Some model \<and> distinct ns \<and>
    set ns = reachable_structs cyclic_table ''A'' \<and>
    all_fields_for_struct model ''A'' = concat (map (struct_fields cyclic_table) ns)"
proof -
  have table: "accounts_structs cyclic_symbols = cyclic_table" by (simp add: cyclic_symbols_def)
  have "table_named cyclic_table" by (simp add: table_named_def cyclic_table_def node_symbol_def Let_def)
  then show ?thesis using all_fields_exact [of cyclic_symbols "''A''"] unfolding table by blast
qed

definition handler_of :: "string \<Rightarrow> instruction_symbol" where
  "handler_of context =
     (let r = \<lparr>range_start = \<lparr>pos_line = 0, pos_character = 0\<rparr>, range_end = \<lparr>pos_line = 0, pos_character = 0\<rparr>\<rparr> in
      \<lparr>is_name = ''run'', is_range = r, is_selection_range = r, is_context = Some \<lparr>cr_name = context, cr_range = r\<rparr>,
       is_arguments = [], is_function_calls = [], is_account_usages = [], is_account_data_field_usages = [],
       is_account_path_usages = [], is_cpi_program_usages = [], is_signer_usages = [], is_signer_checks = [],
       is_account_key_comparisons = [], is_token_account_unpack_usages = []\<rparr>)"

definition unchecked_symbols :: anchor_symbols where
  "unchecked_symbols =
     cyclic_symbols\<lparr>accounts_structs := [(''A'', node_symbol ''A'' None [node_symbol ''owner'' (Some ''AccountInfo'') []])],
       instructions := [handler_of ''A'']\<rparr>"


text \<open>The flag says that all composite references were resolved, but only those of the struct itself
  count: here the reference back from \<open>B\<close> to \<open>A\<close> is left open inside of \<open>A\<close>, whose flag is set.\<close>

lemma nested_reference_unresolved:
  "map_option (\<lambda>p. (flags_has (pop_fields p) COMPOSITE_REFS_RESOLVED,
       map (\<lambda>r. map_option (\<lambda>n. map cref_resolved (an_refs n)) (cref_resolved r)) (an_refs (pop_inner p))))
     (extract_accounts_struct 3 cyclic_table {} (snd (hd cyclic_table))) = Some (True, [Some [None]])"
  by code_simp

text \<open>One handler that checks a signer silences the query for every handler with the same accounts.\<close>

lemma one_check_silences_all:
  assumes "i \<in> set (sem_instructions model)" "si_context (pop_inner i) = Some accounts_name"
    and "name \<in> signer_subjects (pop_inner i)"
    and "signer_checks_for_context model accounts_name reachable_checks = Some checks"
  shows "name \<in> checks"
  using assms by (auto simp: signer_checks_for_context_def instructions_of_context_def Let_def split: if_splits)

end
