(* ===== verification/Spl_Semantics.thy ===== *)
theory Spl_Semantics
  imports Token_Rules Semantic_Queries
begin

section \<open>Rules on token programs and mints\<close>

text \<open>
  Models \<open>src/lsp/diagnostics/spl_semantics.rs\<close>: what a constraint on a token account or a mint
  demands of the types of the accounts it names.  The semantic model of the document is the one that
  \<open>extract_model\<close> gives.
\<close>

datatype token_program_kind = ProgramToken | ProgramToken2022 | ProgramInterface

definition SPL_TOKEN_PROGRAM_EXPECTED_TYPE :: string where
  "SPL_TOKEN_PROGRAM_EXPECTED_TYPE = ''Program<'info, Token>, Program<'info, Token2022>, Program<'info, TokenInterface>, or Interface<'info, TokenInterface>''"

subsection \<open>Reading constraints and fields\<close>

definition account_field_named :: "account_set_evidence \<Rightarrow> string \<Rightarrow> field_evidence option" where
  "account_field_named accounts name = find (\<lambda>field. field_name field = name) (ase_fields accounts)"

definition is_data_field :: "anchor_symbols \<Rightarrow> field_evidence \<Rightarrow> string \<Rightarrow> bool" where
  "is_data_field symbols field generic \<longleftrightarrow>
     field_type_name field \<in> {Some ''Account'', Some ''InterfaceAccount''} \<and>
     list_ex (\<lambda>name. resolve_type_alias symbols name = generic) (sr_generic_type_names (fe_field field))"

definition is_token_account_data_field :: "anchor_symbols \<Rightarrow> field_evidence \<Rightarrow> bool" where
  "is_token_account_data_field symbols field \<longleftrightarrow> is_data_field symbols field ''TokenAccount''"

definition is_mint_data_field :: "anchor_symbols \<Rightarrow> field_evidence \<Rightarrow> bool" where
  "is_mint_data_field symbols field \<longleftrightarrow> is_data_field symbols field ''Mint''"

definition token_program_kind_of :: "field_evidence \<Rightarrow> token_program_kind option" where
  "token_program_kind_of field =
     (case field_type_name field of
        None \<Rightarrow> None
      | Some t \<Rightarrow>
          if t = ''Program'' \<and> has_generic_type field ''Token'' then Some ProgramToken
          else if t = ''Program'' \<and> has_generic_type field ''Token2022'' then Some ProgramToken2022
          else if t = ''Program'' \<and> has_generic_type field ''TokenInterface'' then Some ProgramInterface
          else if t = ''Interface'' \<and> has_generic_type field ''TokenInterface'' then Some ProgramInterface
          else None)"

definition uses_token2022_extension :: "account_constraint \<Rightarrow> bool" where
  "uses_token2022_extension constraint \<longleftrightarrow>
     list_ex (constraint_has_key constraint) (family_keys MintExtension)"

definition uses_token_constraints :: "account_constraint \<Rightarrow> bool" where
  "uses_token_constraints constraint \<longleftrightarrow>
     list_ex (constraint_has_key constraint) [''token::mint'', ''token::authority'', ''token::token_program''] \<or>
     list_ex (constraint_has_key constraint)
       [''associated_token::mint'', ''associated_token::authority'', ''associated_token::token_program'']"

definition uses_mint_constraints :: "account_constraint \<Rightarrow> bool" where
  "uses_mint_constraints constraint \<longleftrightarrow>
     list_ex (constraint_has_key constraint)
       [''mint::authority'', ''mint::freeze_authority'', ''mint::decimals'', ''mint::token_program''] \<or>
     uses_token2022_extension constraint"

text \<open>The first of the keys that names an account decides, even when there is no such account.\<close>

definition effective_token_program :: "account_set_evidence \<Rightarrow> account_constraint \<Rightarrow> (string \<times> field_evidence) option" where
  "effective_token_program accounts constraint =
     map_option (\<lambda>field. (field_name field, field))
       (account_field_named accounts
         (unwrap_or ''token_program''
           (find_map (simple_identifier_after_key constraint)
             [''mint::token_program'', ''token::token_program'', ''associated_token::token_program''])))"

definition semantic_token_program_candidate :: "semantic_model \<Rightarrow> string \<Rightarrow> string \<Rightarrow> bool" where
  "semantic_token_program_candidate model accounts_struct_name name \<longleftrightarrow>
     list_ex (\<lambda>field. af_name field = name \<and> af_token_interface field \<and>
         af_type field \<in> {TypeInterface, TypeProgram})
       (all_fields_for_struct model accounts_struct_name)"

definition value_range_or_constraint :: "string \<Rightarrow> account_constraint \<Rightarrow> string \<Rightarrow> string \<Rightarrow> range" where
  "value_range_or_constraint source constraint key v =
     unwrap_or (ac_range constraint) (value_range constraint source key v)"

subsection \<open>The rules\<close>

definition spl :: "(string \<Rightarrow> string option) \<Rightarrow> range \<Rightarrow> string \<Rightarrow> json_map \<Rightarrow> diagnostic" where
  "spl parse r message data = diagnostic_from_range parse r AnchorSplTokenInterface message (Some (JObject data))"

definition type_range_of :: "field_evidence \<Rightarrow> range" where
  "type_range_of field = unwrap_or (sr_selection_range (fe_field field)) (sr_type_range (fe_field field))"

definition mint_reference_diagnostics ::
  "(string \<Rightarrow> string option) \<Rightarrow> parsed_document \<Rightarrow> account_set_evidence \<Rightarrow> field_evidence \<Rightarrow>
     account_constraint \<Rightarrow> diagnostic list" where
  "mint_reference_diagnostics parse doc accounts field constraint =
     List.map_filter (\<lambda>key.
       Option.bind (simple_identifier_after_key constraint key) (\<lambda>name.
       Option.bind (account_field_named accounts name) (\<lambda>mint_field.
         if is_mint_data_field (pd_symbols doc) mint_field then None
         else Some (spl parse (value_range_or_constraint (pd_source doc) constraint key name)
           (quoted (field_name field) @ '' references '' @ quoted name @ '' via '' @ quoted key @ '', but '' @
            quoted name @ '' is not typed as a Mint account.'')
           [(''account'', JString (field_name field)), (''reference'', JString name), (''constraint'', JString key),
            (''expected'', JString (''Account<'info, Mint> or InterfaceAccount<'info, Mint>'')),
            (''reason'', JString ''mint-reference-type'')]))))
       [''token::mint'', ''associated_token::mint'']"

definition spl_type_diagnostic ::
  "(string \<Rightarrow> string option) \<Rightarrow> field_evidence \<Rightarrow> string \<Rightarrow> string \<Rightarrow> string \<Rightarrow> diagnostic" where
  "spl_type_diagnostic parse field constraint_label expected reason =
     spl parse (type_range_of field)
       (quoted (field_name field) @ '' uses '' @ constraint_label @ '' but is not typed '' @ quoted expected @ ''.'')
       [(''account'', JString (field_name field)), (''expected'', JString expected), (''reason'', JString reason)]"

definition target_container_diagnostic ::
  "(string \<Rightarrow> string option) \<Rightarrow> parsed_document \<Rightarrow> field_evidence \<Rightarrow> account_constraint \<Rightarrow> diagnostic option" where
  "target_container_diagnostic parse doc field constraint =
     (if uses_token_constraints constraint \<and> \<not> is_token_account_data_field (pd_symbols doc) field then
        Some (spl_type_diagnostic parse field ''token account constraints''
          ''Account<'info, TokenAccount> or InterfaceAccount<'info, TokenAccount>'' ''token-target-type'')
      else if uses_mint_constraints constraint \<and> \<not> is_mint_data_field (pd_symbols doc) field then
        Some (spl_type_diagnostic parse field ''mint constraints''
          ''Account<'info, Mint> or InterfaceAccount<'info, Mint>'' ''mint-target-type'')
      else None)"

definition token_program_override_diagnostics ::
  "(string \<Rightarrow> string option) \<Rightarrow> parsed_document \<Rightarrow> semantic_model \<Rightarrow> account_set_evidence \<Rightarrow> field_evidence \<Rightarrow>
     account_constraint \<Rightarrow> diagnostic list" where
  "token_program_override_diagnostics parse doc model accounts field constraint =
     List.map_filter (\<lambda>key.
       Option.bind (simple_identifier_after_key constraint key) (\<lambda>name.
       Option.bind (account_field_named accounts name) (\<lambda>program.
         if token_program_kind_of program \<noteq> None \<or>
            semantic_token_program_candidate model (sr_name (ase_accounts accounts)) name then None
         else Some (spl parse (value_range_or_constraint (pd_source doc) constraint key name)
           (quoted key @ '' points at '' @ quoted name @ '', but '' @ quoted name @
            '' is not a compatible SPL token program account.'')
           [(''account'', JString (field_name field)), (''reference'', JString name), (''constraint'', JString key),
            (''expected'', JString SPL_TOKEN_PROGRAM_EXPECTED_TYPE), (''reason'', JString ''token-program-type'')]))))
       [''token::token_program'', ''associated_token::token_program'', ''mint::token_program'']"

definition token2022_extension_diagnostics ::
  "(string \<Rightarrow> string option) \<Rightarrow> parsed_document \<Rightarrow> account_set_evidence \<Rightarrow> field_evidence \<Rightarrow>
     account_constraint \<Rightarrow> diagnostic list" where
  "token2022_extension_diagnostics parse doc accounts field constraint =
     (if \<not> uses_token2022_extension constraint then []
      else
        case effective_token_program accounts constraint of
          None \<Rightarrow> []
        | Some (program_name, program) \<Rightarrow>
            (case token_program_kind_of program of
               None \<Rightarrow> []
             | Some kind \<Rightarrow>
                 if kind = ProgramToken then
                   [spl parse (sr_selection_range (fe_field field))
                      (quoted (field_name field) @ '' uses Token-2022 extension constraints but '' @
                       quoted program_name @ '' is `Program<'info, Token>`.'')
                      [(''account'', JString (field_name field)), (''tokenProgram'', JString program_name),
                       (''constraint'', JString ''extensions''),
                       (''expected'', JString (''Program<'info, Token2022> or Interface<'info, TokenInterface>'')),
                       (''reason'', JString ''token2022-extension-program'')]]
                 else if field_type_name field = Some ''Account'' \<and>
                     (is_mint_data_field (pd_symbols doc) field \<or> is_token_account_data_field (pd_symbols doc) field)
                 then
                   [spl parse (type_range_of field)
                      (quoted (field_name field) @ '' uses Token-2022-capable program '' @ quoted program_name @
                       '' but is wrapped in `Account`; use `InterfaceAccount` for Token-2022 data.'')
                      [(''account'', JString (field_name field)), (''tokenProgram'', JString program_name),
                       (''constraint'', JString ''extensions''),
                       (''expected'', JString (''InterfaceAccount<'info, Mint> or InterfaceAccount<'info, TokenAccount>'')),
                       (''reason'', JString ''token2022-wrapper'')]]
                 else []))"

definition mint_decimals_argument_diagnostic ::
  "(string \<Rightarrow> string option) \<Rightarrow> parsed_document \<Rightarrow> account_set_evidence \<Rightarrow> account_constraint \<Rightarrow> diagnostic option" where
  "mint_decimals_argument_diagnostic parse doc accounts constraint =
     Option.bind (simple_identifier_after_key constraint ''mint::decimals'') (\<lambda>name.
     Option.bind (instruction_argument_type accounts name) (\<lambda>type_name.
       if type_name = ''u8'' then None
       else Some (spl parse (value_range_or_constraint (pd_source doc) constraint ''mint::decimals'' name)
         (''`mint::decimals = '' @ name @ ''` resolves to '' @ quoted type_name @ '', but Anchor requires `u8`.'')
         [(''argument'', JString name), (''argumentType'', JString type_name),
          (''constraint'', JString ''mint::decimals''), (''expected'', JString ''u8''),
          (''reason'', JString ''mint-decimals-type'')])))"

definition transfer_hook_program_diagnostic ::
  "(string \<Rightarrow> string option) \<Rightarrow> parsed_document \<Rightarrow> account_set_evidence \<Rightarrow> account_constraint \<Rightarrow> diagnostic option" where
  "transfer_hook_program_diagnostic parse doc accounts constraint =
     (let key = ''extensions::transfer_hook::program_id'' in
      Option.bind (simple_identifier_after_key constraint key) (\<lambda>name.
      Option.bind (account_field_named accounts name) (\<lambda>field.
        if token_program_kind_of field \<noteq> None \<or> field_type_name field = Some ''ProgramData'' \<or>
           (is_unchecked_account field \<and> has_any_constraint field [''executable'', ''address'', ''constraint''])
        then None
        else Some (spl parse (value_range_or_constraint (pd_source doc) constraint key name)
          (quoted key @ '' points at '' @ quoted name @
           '', but transfer hooks should reference a program-like account.'')
          [(''account'', JString name), (''constraint'', JString key),
           (''expected'', JString ''Program, Interface, or executable checked account''),
           (''reason'', JString ''transfer-hook-program'')]))))"

definition spl_constraint_diagnostics ::
  "(string \<Rightarrow> string option) \<Rightarrow> parsed_document \<Rightarrow> semantic_model \<Rightarrow> account_set_evidence \<Rightarrow> field_evidence \<Rightarrow>
     account_constraint \<Rightarrow> diagnostic list" where
  "spl_constraint_diagnostics parse doc model accounts field constraint =
     mint_reference_diagnostics parse doc accounts field constraint @
     option_list (target_container_diagnostic parse doc field constraint) @
     token_program_override_diagnostics parse doc model accounts field constraint @
     token2022_extension_diagnostics parse doc accounts field constraint @
     option_list (mint_decimals_argument_diagnostic parse doc accounts constraint) @
     option_list (transfer_hook_program_diagnostic parse doc accounts constraint)"

definition spl_collect :: "(string \<Rightarrow> string option) \<Rightarrow> parsed_document \<Rightarrow> diagnostic list" where
  "spl_collect parse doc =
     (let model = the (extract_model (pd_symbols doc)) in
      concat (map (\<lambda>accounts.
        concat (map (\<lambda>field.
          concat (map (spl_constraint_diagnostics parse doc model accounts field) (fe_constraints field)))
        (ase_fields accounts)))
        (evidence_from_document (pd_symbols doc))))"

end
