(* ===== verification/Base58.thy ===== *)
theory Base58
  imports Json_Value Decimal_Text "HOL-Library.More_List"
begin

section \<open>Base 58 and program keypairs\<close>

text \<open>
  The reading of a program keypair in \<open>src/solana/program_artifacts/mod.rs\<close>: 64 bytes as a JSON array,
  whose second half is the public key, shown in base 58.  Digits are kept with the least significant
  one first and updated byte by byte.
\<close>

definition BASE58_ALPHABET :: string where
  "BASE58_ALPHABET = ''123456789ABCDEFGHJKLMNPQRSTUVWXYZabcdefghijkmnopqrstuvwxyz''"

text \<open>\<open>u8::try_from(n).unwrap_or_default()\<close>\<close>

definition u8_or_default :: "u32 \<Rightarrow> u8" where
  "u8_or_default n = (if unat n < 2 ^ 8 then ucast n else 0)"

fun carry_digits :: "u8 list \<Rightarrow> u32 \<Rightarrow> u8 list \<times> u32" where
  "carry_digits [] carry = ([], carry)"
| "carry_digits (digit # digits) carry =
     (let v = ucast digit * 256 + carry;
          (rest, carry) = carry_digits digits (v div 58) in
      (u8_or_default (v mod 58) # rest, carry))"

function push_digits :: "u32 \<Rightarrow> u8 list" where
  "push_digits carry =
     (if carry > 0 then u8_or_default (carry mod 58) # push_digits (carry div 58) else [])"
  by pat_completeness auto

termination
  by (relation "measure unat") (auto simp: word_less_nat_alt unat_div)

declare push_digits.simps [simp del]

definition base58_step :: "u8 list \<Rightarrow> u8 \<Rightarrow> u8 list" where
  "base58_step digits b = (let (digits, carry) = carry_digits digits (ucast b) in digits @ push_digits carry)"

definition base58_encode :: "u8 list \<Rightarrow> string" where
  "base58_encode bytes =
     (if bytes = [] then []
      else
        let zero_count = length (takeWhile (\<lambda>b. b = 0) bytes);
            digits = foldl base58_step [] bytes in
        replicate zero_count CHR ''1'' @ map (\<lambda>digit. BASE58_ALPHABET ! unat digit) (rev digits))"

text \<open>\<open>Value::as_u64\<close>\<close>

fun as_u64 :: "json \<Rightarrow> u64 option" where
  "as_u64 (JInt i) = (if 0 \<le> i \<and> i < 2 ^ 64 then Some (of_int i) else None)"
| "as_u64 _ = None"

text \<open>Errors are messages, as in the code; the first element in error decides.\<close>

definition keypair_byte :: "json \<Rightarrow> string + u8" where
  "keypair_byte v =
     (case as_u64 v of
        None \<Rightarrow> Inl ''keypair array contains a non-byte value''
      | Some b \<Rightarrow> if unat b < 2 ^ 8 then Inr (ucast b) else Inl ''keypair byte is outside 0..=255'')"

fun collect_results :: "('e + 'a) list \<Rightarrow> 'e + 'a list" where
  "collect_results [] = Inr []"
| "collect_results (Inl e # rs) = Inl e"
| "collect_results (Inr x # rs) = (case collect_results rs of Inl e \<Rightarrow> Inl e | Inr xs \<Rightarrow> Inr (x # xs))"

definition keypair_public_key :: "(string \<Rightarrow> string + json) \<Rightarrow> string \<Rightarrow> string + string" where
  "keypair_public_key parse_json source =
     (case parse_json source of
        Inl e \<Rightarrow> Inl e
      | Inr v \<Rightarrow>
          (case as_array v of
             None \<Rightarrow> Inl ''keypair file is not a JSON byte array''
           | Some elements \<Rightarrow>
               (case collect_results (map keypair_byte elements) of
                  Inl e \<Rightarrow> Inl e
                | Inr bytes \<Rightarrow>
                    if length bytes \<noteq> 64 then
                      Inl (''keypair has '' @ show_nat (length bytes) @ '' bytes, expected 64-byte Solana keypair'')
                    else Inr (base58_encode (drop 32 bytes)))))"

subsection \<open>Digits of a number\<close>

text \<open>Little-endian digits without trailing zeros are determined by their value.\<close>

fun digits_of :: "nat \<Rightarrow> nat \<Rightarrow> nat list" where
  "digits_of b n = (if n = 0 \<or> b \<le> 1 then [] else n mod b # digits_of b (n div b))"

declare digits_of.simps [simp del]

definition canonical :: "nat \<Rightarrow> nat list \<Rightarrow> bool" where
  "canonical b ds \<longleftrightarrow> list_all (\<lambda>d. d < b) ds \<and> (ds \<noteq> [] \<longrightarrow> last ds \<noteq> 0)"

abbreviation num :: "nat \<Rightarrow> nat list \<Rightarrow> nat" where "num b ds \<equiv> horner_sum (\<lambda>a. a) b ds"

lemma num_pos: "canonical b ds \<Longrightarrow> ds \<noteq> [] \<Longrightarrow> num b ds > 0"
proof (induction ds)
  case (Cons d ds)
  show ?case
  proof (cases "ds = []")
    case False
    with Cons.prems have "canonical b ds" by (simp add: canonical_def)
    moreover have "b > 0" using Cons.prems by (cases b) (auto simp: canonical_def)
    ultimately show ?thesis using Cons.IH False by simp
  qed (use Cons.prems in \<open>simp add: canonical_def\<close>)
qed simp

lemma digits_of_num: "b > 1 \<Longrightarrow> canonical b ds \<Longrightarrow> digits_of b (num b ds) = ds"
proof (induction ds)
  case (Cons d ds)
  then have d: "d < b" "canonical b ds" by (auto simp: canonical_def)
  have "num b (d # ds) > 0" using num_pos [OF Cons.prems(2)] by simp
  then have "digits_of b (d + b * num b ds) = (d + b * num b ds) mod b # digits_of b ((d + b * num b ds) div b)"
    using Cons.prems(1) by (subst digits_of.simps) auto
  with Cons d show ?case by simp
qed (simp add: digits_of.simps)

lemma num_append: "num b (xs @ ys) = num b xs + b ^ length xs * num b ys"
  by (simp add: horner_sum_append)

lemma num_snoc_zeros: "num b (xs @ replicate n 0) = num b xs"
  by (induction n) (auto simp: num_append horner_sum_append replicate_append_same simp flip: append_assoc)

subsection \<open>What the digits stand for\<close>

lemma u8_less: "unat (b :: u8) < 256"
  by (rule order_less_le_trans [OF unsigned_less]) simp

lemma unat_digit: "unat (u8_or_default (n mod 58)) = unat n mod 58"
proof -
  have "unat n mod 58 < 58" by simp
  then have "unat n mod 58 < 256" by linarith
  then show ?thesis by (simp add: u8_or_default_def unsigned_ucast_eq take_bit_eq_mod unat_mod)
qed

lemma carry_digits_num:
  assumes "list_all (\<lambda>d. unat d < 58) ds" "unat c < 256"
  shows "carry_digits ds c = (ds', c') \<Longrightarrow>
    list_all (\<lambda>d. unat d < 58) ds' \<and> unat c' < 256 \<and> length ds' = length ds \<and>
    num 58 (map unat ds') + 58 ^ length ds * unat c' = num 58 (map unat ds) * 256 + unat c \<and>
    (ds \<noteq> [] \<longrightarrow> last ds \<noteq> 0 \<longrightarrow> c' > 0)"
  using assms
proof (induction ds arbitrary: c ds' c')
  case (Cons d ds)
  let ?v = "ucast d * 256 + c :: u32"
  have v: "unat ?v = unat d * 256 + unat c"
    using Cons.prems(2,3) by (simp add: unat_word_ariths unsigned_ucast_eq take_bit_eq_mod)
  obtain rest c1 where rest: "carry_digits ds (?v div 58) = (rest, c1)" by force
  have less: "unat (?v div 58) < 256" using Cons.prems(2,3) by (auto simp: unat_div v intro!: less_mult_imp_div_less)
  have IH: "list_all (\<lambda>d. unat d < 58) rest \<and> unat c1 < 256 \<and> length rest = length ds \<and>
      num 58 (map unat rest) + 58 ^ length ds * unat c1 = num 58 (map unat ds) * 256 + unat (?v div 58) \<and>
      (ds \<noteq> [] \<longrightarrow> last ds \<noteq> 0 \<longrightarrow> c1 > 0)"
    using Cons.prems(2) less by (intro Cons.IH [OF rest]) simp_all
  have digit: "unat (u8_or_default (?v mod 58)) = unat ?v mod 58"
    by (rule unat_digit)
  have res: "ds' = u8_or_default (?v mod 58) # rest" "c' = c1"
    using Cons.prems(1) rest by (auto simp: Let_def)
  have "num 58 (map unat ds') + 58 ^ length (d # ds) * unat c' =
      unat ?v mod 58 + 58 * (num 58 (map unat rest) + 58 ^ length ds * unat c1)"
    by (simp add: res unat_digit algebra_simps)
  also have "\<dots> = unat ?v mod 58 + 58 * (num 58 (map unat ds) * 256 + unat ?v div 58)"
    using IH by (simp add: unat_div)
  also have "\<dots> = num 58 (map unat (d # ds)) * 256 + unat c"
    using mult_div_mod_eq [of 58 "unat ?v"] unfolding v by (simp add: algebra_simps)
  finally have sum: "num 58 (map unat ds') + 58 ^ length (d # ds) * unat c' =
      num 58 (map unat (d # ds)) * 256 + unat c" .
  have "c' > 0" if "last (d # ds) \<noteq> 0"
  proof (cases "ds = []")
    case True
    then have "unat d > 0" using that by (simp add: unat_gt_0)
    then have "unat (?v div 58) > 0" by (simp add: unat_div v div_greater_zero_iff)
    with True rest res show ?thesis by (simp add: word_greater_zero_iff unat_gt_0)
  qed (use IH that res in simp)
  with sum IH res digit show ?case by simp
qed simp

lemma push_digits_num:
  "unat c < 256 \<Longrightarrow> num 58 (map unat (push_digits c)) = unat c \<and> canonical 58 (map unat (push_digits c)) \<and>
     (c > 0 \<longrightarrow> push_digits c \<noteq> [])"
proof (induction c rule: push_digits.induct)
  case (1 c)
  show ?case
  proof (cases "c > 0")
    case True
    have digit: "unat (u8_or_default (c mod 58)) = unat c mod 58"
      by (rule unat_digit)
    have less: "unat (c div 58) < 256" using "1.prems" by (simp add: unat_div)
    from "1.IH" [OF True less] have IH: "num 58 (map unat (push_digits (c div 58))) = unat (c div 58)"
      "canonical 58 (map unat (push_digits (c div 58)))" by auto
    have "unat c mod 58 \<noteq> 0" if "push_digits (c div 58) = []"
      using that IH(1) True by (auto simp: unat_div word_greater_zero_iff unat_gt_0 div_eq_0_iff)
    with IH True digit show ?thesis
      by (auto simp: push_digits.simps [of c] canonical_def unat_div)
  next
    case False
    then have "c = 0" by (simp add: word_greater_zero_iff)
    then show ?thesis by (simp add: push_digits.simps [of 0] canonical_def)
  qed
qed


lemma carry_digits_length: "length (fst (carry_digits ds c)) = length ds"
  by (induction ds c rule: carry_digits.induct) (auto simp: Let_def split: prod.splits)

lemma last_append_nonempty: "ys \<noteq> [] \<Longrightarrow> last (xs @ ys) = last ys"
  by simp

lemma base58_step_num:
  assumes "canonical 58 (map unat ds)"
  shows "canonical 58 (map unat (base58_step ds b)) \<and>
    num 58 (map unat (base58_step ds b)) = num 58 (map unat ds) * 256 + unat b"
proof -
  have small: "list_all (\<lambda>d. unat d < 58) ds" using assms by (simp add: canonical_def list.pred_map comp_def)
  have b: "unat (ucast b :: u32) = unat b" "unat b < 256"
    using u8_less [of b] by (simp_all add: unsigned_ucast_eq take_bit_eq_mod)
  obtain ds' c where carry: "carry_digits ds (ucast b) = (ds', c)" by force
  have less: "unat (ucast b :: u32) < 256" using b by simp
  note digits = carry_digits_num [OF small less carry]
  then have push: "num 58 (map unat (push_digits c)) = unat c" "canonical 58 (map unat (push_digits c))"
    "c > 0 \<longrightarrow> push_digits c \<noteq> []" using push_digits_num [of c] by auto
  have step: "base58_step ds b = ds' @ push_digits c" using carry by (simp add: base58_step_def)
  have "num 58 (map unat (base58_step ds b)) = num 58 (map unat ds) * 256 + unat b"
    using digits push(1) b(1) by (simp add: step num_append)
  moreover have "last (map unat (base58_step ds b)) \<noteq> 0" if "base58_step ds b \<noteq> []"
  proof (cases "push_digits c = []")
    case True
    then have "ds' \<noteq> []" using that step by simp
    then have ds: "ds \<noteq> []" using digits by auto
    then have "last ds \<noteq> 0" using assms by (auto simp: canonical_def last_map)
    then show ?thesis using digits ds push(3) True by simp
  next
    case False
    then show ?thesis using push(2) by (simp add: step canonical_def)
  qed
  moreover have "list_all (\<lambda>d. d < 58) (map unat (base58_step ds b))"
    using digits push(2) by (simp add: step canonical_def list.pred_map comp_def)
  ultimately show ?thesis by (simp add: canonical_def)
qed

lemma base58_digits_num:
  "canonical 58 (map unat ds) \<Longrightarrow> canonical 58 (map unat (foldl base58_step ds bytes)) \<and>
     num 58 (map unat (foldl base58_step ds bytes)) =
       num 58 (map unat ds) * 256 ^ length bytes + num 256 (map unat (rev bytes))"
proof (induction bytes arbitrary: ds)
  case (Cons b bytes)
  with base58_step_num [OF Cons.prems, of b] show ?case by (simp add: num_append algebra_simps)
qed simp

lemma base58_digits:
  "canonical 58 (map unat (foldl base58_step [] bytes))"
  "num 58 (map unat (foldl base58_step [] bytes)) = num 256 (map unat (rev bytes))"
  using base58_digits_num [of "[]" bytes] by (simp_all add: canonical_def)

subsection \<open>Reading base 58 back\<close>

text \<open>The decoder of base 58: leading ones are zero bytes, the rest is a number.\<close>

definition alphabet_index :: "char \<Rightarrow> nat" where
  "alphabet_index c = unwrap_or 58 (index_of (\<lambda>d. d = c) BASE58_ALPHABET)"

definition base58_decode :: "string \<Rightarrow> u8 list" where
  "base58_decode s =
     (let zeros = takeWhile (\<lambda>c. c = CHR ''1'') s; rest = drop (length zeros) s in
      replicate (length zeros) 0 @
        map of_nat (rev (digits_of 256 (num 58 (map alphabet_index (rev rest))))))"

lemma alphabet_index: "list_all (\<lambda>d. alphabet_index (BASE58_ALPHABET ! d) = d) [0..<58]"
  by (simp add: alphabet_index_def BASE58_ALPHABET_def upt_conv_Cons unwrap_or_def)

lemma alphabet_index_nth [simp]: "d < 58 \<Longrightarrow> alphabet_index (BASE58_ALPHABET ! d) = d"
  using alphabet_index by (simp add: list_all_iff)

lemma alphabet_one: "d < 58 \<Longrightarrow> BASE58_ALPHABET ! d = CHR ''1'' \<longleftrightarrow> d = 0"
  using alphabet_index_nth [of d] alphabet_index_nth [of 0] by (auto simp: BASE58_ALPHABET_def)

lemma canonical_bytes: "bs = [] \<or> hd bs \<noteq> 0 \<Longrightarrow> canonical 256 (map unat (rev (bs :: u8 list)))"
  by (auto simp: canonical_def list_all_iff last_map last_rev unat_eq_0 u8_less)


lemma split_zeros: "bs = replicate (length (takeWhile P bs)) x @ dropWhile P bs" if "\<And>y. P y \<longleftrightarrow> y = x"
proof -
  have "takeWhile P bs = replicate (length (takeWhile P bs)) x"
    using that by (intro replicate_eqI) (auto dest: set_takeWhileD)
  then show ?thesis by (metis takeWhile_dropWhile_id)
qed

text \<open>C28: Decoding gives back every key: leading zero bytes are kept as leading ones, and the bytes after
  them have the digits of the same number.  In particular different keys have different texts.\<close>

theorem base58_roundtrip: "base58_decode (base58_encode bytes) = bytes"
proof -
  let ?n = "length (takeWhile (\<lambda>b. b = 0) bytes)" and ?rest = "dropWhile (\<lambda>b. b = 0) bytes"
    and ?digits = "foldl base58_step [] bytes"
  have bytes: "bytes = replicate ?n 0 @ ?rest" by (rule split_zeros) simp
  have small: "d < 58" if "d \<in> set (map unat ?digits)" for d
    using base58_digits(1) that by (auto simp: canonical_def list_all_iff)
  let ?text = "map (\<lambda>digit. BASE58_ALPHABET ! unat digit) (rev ?digits)"
  have encode: "base58_encode bytes = replicate ?n CHR ''1'' @ ?text"
    by (simp add: base58_encode_def)
  have "takeWhile (\<lambda>c. c = CHR ''1'') ?text = []"
  proof (cases "?digits = []")
    case False
    then have "unat (last ?digits) \<noteq> 0" "last ?digits \<in> set ?digits"
      using base58_digits(1) by (simp_all add: canonical_def last_map)
    then show ?thesis using small alphabet_one [of "unat (last ?digits)"] False
      by (cases ?digits rule: rev_cases) auto
  qed simp
  then have zeros: "length (takeWhile (\<lambda>c. c = CHR ''1'') (base58_encode bytes)) = ?n"
    unfolding encode by (simp add: takeWhile_append)
  have "map alphabet_index (rev ?text) = map unat ?digits"
    using small by (simp add: rev_map)
  then have "num 58 (map alphabet_index (rev ?text)) = num 256 (map unat (rev bytes))"
    using base58_digits(2) by simp
  also have "\<dots> = num 256 (map unat (rev ?rest))"
    by (subst bytes) (simp add: num_snoc_zeros)
  finally have "digits_of 256 (num 58 (map alphabet_index (rev ?text))) = map unat (rev ?rest)"
    using canonical_bytes [of ?rest] hd_dropWhile [of "\<lambda>b. b = 0" bytes] by (auto intro!: digits_of_num)
  then have "base58_decode (base58_encode bytes) = replicate ?n 0 @ ?rest"
    unfolding base58_decode_def Let_def zeros by (simp add: encode rev_map comp_def)
  with bytes show ?thesis by simp
qed

subsection \<open>The key of a keypair\<close>

lemma collect_results_map: "collect_results (map Inr xs) = Inr xs"
  by (induction xs) simp_all

lemma collect_results_Inr: "collect_results rs = Inr xs \<longleftrightarrow> rs = map Inr xs"
proof
  show "collect_results rs = Inr xs \<Longrightarrow> rs = map Inr xs"
    by (induction rs arbitrary: xs rule: collect_results.induct) (auto split: sum.splits)
qed (simp add: collect_results_map)

lemma byte_of_int: "0 \<le> i \<Longrightarrow> i < 2 ^ 64 \<Longrightarrow> unat (word_of_int i :: u64) = nat i"
  by (simp add: unsigned_of_int take_bit_eq_mod)

lemma keypair_byte_Inr: "keypair_byte v = Inr b \<longleftrightarrow> v = JInt (uint b)"
proof (cases v)
  case (JInt i)
  have uint: "0 \<le> uint b" "uint b < 256" "word_of_int (uint b) = b"
    by (simp_all add: order_less_le_trans [OF unsigned_less])
  have "uint (word_of_int i :: u8) = i" if "0 \<le> i" "i < 256"
    using that by (simp add: unsigned_of_int take_bit_eq_mod)
  moreover have "(ucast (word_of_int i :: u64) :: u8) = word_of_int i" if "0 \<le> i" "i < 256"
    using that by (simp add: word_uint_eq_iff unsigned_of_int unsigned_ucast_eq take_bit_eq_mod)
  ultimately show ?thesis using JInt uint byte_of_int [of i] u8_less [of b]
    by (auto simp: keypair_byte_def)
qed (auto simp: keypair_byte_def)

text \<open>A keypair file is accepted when it is an array of the 64 bytes, and the key is that of the last 32.\<close>

lemma keypair_public_key_exact:
  "keypair_public_key parse_json source = Inr key \<longleftrightarrow>
     (\<exists>bytes :: u8 list. parse_json source = Inr (JArray (map (\<lambda>b. JInt (uint b)) bytes)) \<and> length bytes = 64 \<and>
       key = base58_encode (drop 32 bytes))"
proof -
  have "map keypair_byte vs = map Inr bytes \<longleftrightarrow> vs = map (\<lambda>b. JInt (uint b)) bytes" for vs bytes
    by (induction vs arbitrary: bytes) (auto simp: keypair_byte_Inr Cons_eq_map_conv)
  then have collect: "collect_results (map keypair_byte vs) = Inr bytes \<longleftrightarrow> vs = map (\<lambda>b. JInt (uint b)) bytes"
    for vs bytes by (simp add: collect_results_Inr)
  have array: "as_array v = Some vs \<longleftrightarrow> v = JArray vs" for v vs by (cases v) auto
  have bytes: "collect_results (map keypair_byte (map (\<lambda>b. JInt (uint b)) bytes)) = Inr bytes" for bytes :: "u8 list"
    by (simp add: collect del: map_map)
  show ?thesis
  proof
    show "keypair_public_key parse_json source = Inr key \<Longrightarrow>
        \<exists>bytes :: u8 list. parse_json source = Inr (JArray (map (\<lambda>b. JInt (uint b)) bytes)) \<and> length bytes = 64 \<and>
          key = base58_encode (drop 32 bytes)"
      by (auto simp: keypair_public_key_def collect array split: sum.splits option.splits if_splits)
  qed (auto simp: keypair_public_key_def bytes simp del: map_map)
qed

end
