(* ===== verification/Elf_File.thy ===== *)
theory Elf_File
  imports Utf8_Text Decimal_Text
begin

section \<open>ELF files of programs\<close>

text \<open>
  The reader of program binaries: \<open>parse_elf_summary\<close> in \<open>src/solana/program_artifacts/mod.rs\<close> and
  the section table in \<open>sbf.rs\<close>.  A file is a list of bytes.  Offsets are \<open>usize\<close> on a 64-bit
  machine and wrap, as they do in a release build; a slice whose end lies before its start or past
  the file is refused.
\<close>

datatype elf_class = Elf32 | Elf64

datatype elf_endian = ElfLittle | ElfBig

record elf_summary =
  elf_class :: elf_class
  elf_endian :: elf_endian
  elf_machine :: u16
  elf_entry :: u64
  elf_section_count :: u16

definition EM_BPF :: u16 where "EM_BPF = 247"

text \<open>The \<open>?\<close> operator.\<close>

fun and_then :: "'e + 'a \<Rightarrow> ('a \<Rightarrow> 'e + 'b) \<Rightarrow> 'e + 'b" where
  "and_then (Inl e) f = Inl e"
| "and_then (Inr x) f = f x"

definition ok_or :: "'e \<Rightarrow> 'a option \<Rightarrow> 'e + 'a" where
  "ok_or e x = (case x of None \<Rightarrow> Inl e | Some y \<Rightarrow> Inr y)"

subsection \<open>Reading numbers\<close>

text \<open>\<open>bytes.get(start..end)\<close>\<close>

definition bytes_get :: "string \<Rightarrow> u64 \<Rightarrow> u64 \<Rightarrow> string option" where
  "bytes_get bytes start stop =
     (if start \<le> stop \<and> unat stop \<le> length bytes then Some (take (unat stop - unat start) (drop (unat start) bytes))
      else None)"

fun endian_value :: "elf_endian \<Rightarrow> string \<Rightarrow> nat" where
  "endian_value ElfLittle bs = horner_sum byte 256 bs"
| "endian_value ElfBig bs = horner_sum byte 256 (rev bs)"

definition read_number :: "u64 \<Rightarrow> string \<Rightarrow> u64 \<Rightarrow> elf_endian \<Rightarrow> string + nat" where
  "read_number width bytes offset endian =
     (case bytes_get bytes offset (offset + width) of
        None \<Rightarrow> Inl ''ELF header is truncated''
      | Some bs \<Rightarrow> Inr (endian_value endian bs))"

definition read_u16 :: "string \<Rightarrow> u64 \<Rightarrow> elf_endian \<Rightarrow> string + u16" where
  "read_u16 bytes offset endian = and_then (read_number 2 bytes offset endian) (\<lambda>n. Inr (of_nat n))"

definition read_u32 :: "string \<Rightarrow> u64 \<Rightarrow> elf_endian \<Rightarrow> string + u32" where
  "read_u32 bytes offset endian = and_then (read_number 4 bytes offset endian) (\<lambda>n. Inr (of_nat n))"

definition read_u64 :: "string \<Rightarrow> u64 \<Rightarrow> elf_endian \<Rightarrow> string + u64" where
  "read_u64 bytes offset endian = and_then (read_number 8 bytes offset endian) (\<lambda>n. Inr (of_nat n))"

subsection \<open>The header\<close>

definition ELF_MAGIC :: string where
  "ELF_MAGIC = [CHR 0x7F, CHR ''E'', CHR ''L'', CHR ''F'']"

definition parse_elf_summary :: "string \<Rightarrow> string + elf_summary" where
  "parse_elf_summary bytes =
     (if length bytes < 20 then Inl ''ELF header is truncated''
      else if take 4 bytes \<noteq> ELF_MAGIC then Inl ''file does not start with an ELF header''
      else
        and_then
          (if byte (bytes ! 4) = 1 then Inr Elf32
           else if byte (bytes ! 4) = 2 then Inr Elf64
           else Inl (''unsupported ELF class '' @ show_nat (byte (bytes ! 4)))) (\<lambda>class.
        and_then
          (if byte (bytes ! 5) = 1 then Inr ElfLittle
           else if byte (bytes ! 5) = 2 then Inr ElfBig
           else Inl (''unsupported ELF endianness '' @ show_nat (byte (bytes ! 5)))) (\<lambda>endian.
        if byte (bytes ! 6) \<noteq> 1 then Inl ''unsupported ELF version''
        else if length bytes < (case class of Elf32 \<Rightarrow> 52 | Elf64 \<Rightarrow> 64) then Inl ''ELF header is truncated''
        else
          and_then (read_u16 bytes 18 endian) (\<lambda>machine.
          if machine \<noteq> EM_BPF then
            Inl (''ELF machine '' @ show_nat (unat machine) @ '' is not eBPF/SBF (expected EM_BPF 247)'')
          else
            and_then
              (case class of
                 Elf32 \<Rightarrow> and_then (read_u32 bytes 24 endian) (\<lambda>n. Inr (ucast n))
               | Elf64 \<Rightarrow> read_u64 bytes 24 endian) (\<lambda>entry_point.
            and_then (case class of Elf32 \<Rightarrow> read_u16 bytes 48 endian | Elf64 \<Rightarrow> read_u16 bytes 60 endian) (\<lambda>count.
              Inr \<lparr>elf_class = class, elf_endian = endian, elf_machine = machine, elf_entry = entry_point,
                   elf_section_count = count\<rparr>))))))"

subsection \<open>The section table\<close>

record text_instruction_count =
  tic_section_bytes :: u64
  tic_instructions :: u64

definition ELF_SECTION_TYPE_STRTAB :: u32 where "ELF_SECTION_TYPE_STRTAB = 3"
definition ELF_SECTION_NAME_TEXT :: string where "ELF_SECTION_NAME_TEXT = ''.text''"
definition SBF_INSTRUCTION_BYTES :: u64 where "SBF_INSTRUCTION_BYTES = 8"
definition MAX_SBF_ARTIFACT_BYTES :: nat where "MAX_SBF_ARTIFACT_BYTES = 64 * (1024 * 1024)"

record section_table =
  st_class :: elf_class
  st_endian :: elf_endian
  st_offset :: u64
  st_entry_size :: u16
  st_entry_count :: u16
  st_string_table_index :: u16

record elf_section =
  es_name_offset :: u32
  es_type :: u32
  es_offset :: u64
  es_size :: u64

fun minimum_entry_size :: "elf_class \<Rightarrow> u16" where
  "minimum_entry_size Elf32 = 40"
| "minimum_entry_size Elf64 = 64"

definition parse_section_table :: "string \<Rightarrow> string + section_table" where
  "parse_section_table bytes =
     and_then (parse_elf_summary bytes) (\<lambda>summary.
       let class = elf_class summary; endian = elf_endian summary in
       and_then
         (case class of
            Elf32 \<Rightarrow> and_then (read_u32 bytes 32 endian) (\<lambda>n. Inr (ucast n))
          | Elf64 \<Rightarrow> read_u64 bytes 40 endian) (\<lambda>offset.
       and_then (case class of Elf32 \<Rightarrow> read_u16 bytes 46 endian | Elf64 \<Rightarrow> read_u16 bytes 58 endian) (\<lambda>entry_size.
       and_then (case class of Elf32 \<Rightarrow> read_u16 bytes 50 endian | Elf64 \<Rightarrow> read_u16 bytes 62 endian) (\<lambda>index.
         if entry_size < minimum_entry_size class then
           Inl (''ELF section header size '' @ show_nat (unat entry_size) @ '' is smaller than expected '' @
             show_nat (unat (minimum_entry_size class)))
         else
           Inr \<lparr>st_class = class, st_endian = endian, st_offset = offset, st_entry_size = entry_size,
                st_entry_count = elf_section_count summary, st_string_table_index = index\<rparr>))))"

definition table_section :: "section_table \<Rightarrow> string \<Rightarrow> u16 \<Rightarrow> string + elf_section" where
  "table_section table bytes index =
     and_then
       (ok_or ''ELF section table offset overflows usize''
         (checked_add (st_offset table) (ucast index * ucast (st_entry_size table)))) (\<lambda>offset.
     let endian = st_endian table in
     case st_class table of
       Elf32 \<Rightarrow>
         and_then (read_u32 bytes offset endian) (\<lambda>name.
         and_then (read_u32 bytes (offset + 4) endian) (\<lambda>type.
         and_then (read_u32 bytes (offset + 16) endian) (\<lambda>start.
         and_then (read_u32 bytes (offset + 20) endian) (\<lambda>size.
           Inr \<lparr>es_name_offset = name, es_type = type, es_offset = ucast start, es_size = ucast size\<rparr>))))
     | Elf64 \<Rightarrow>
         and_then (read_u32 bytes offset endian) (\<lambda>name.
         and_then (read_u32 bytes (offset + 4) endian) (\<lambda>type.
         and_then (read_u64 bytes (offset + 24) endian) (\<lambda>start.
         and_then (read_u64 bytes (offset + 32) endian) (\<lambda>size.
           Inr \<lparr>es_name_offset = name, es_type = type, es_offset = start, es_size = size\<rparr>)))))"

fun read_sections :: "section_table \<Rightarrow> string \<Rightarrow> nat list \<Rightarrow> string + elf_section list" where
  "read_sections table bytes [] = Inr []"
| "read_sections table bytes (i # is) =
     and_then (table_section table bytes (of_nat i)) (\<lambda>s.
     and_then (read_sections table bytes is) (\<lambda>ss. Inr (s # ss)))"

definition table_sections :: "section_table \<Rightarrow> string \<Rightarrow> string + elf_section list" where
  "table_sections table bytes = read_sections table bytes [0..<unat (st_entry_count table)]"

definition section_bytes :: "elf_section \<Rightarrow> string \<Rightarrow> string + string" where
  "section_bytes s bytes =
     and_then (ok_or ''ELF section range overflows usize'' (checked_add (es_offset s) (es_size s))) (\<lambda>stop.
       ok_or ''ELF section extends past end of file'' (bytes_get bytes (es_offset s) stop))"

definition string_table :: "section_table \<Rightarrow> string \<Rightarrow> string + string" where
  "string_table table bytes =
     (if st_string_table_index table \<ge> st_entry_count table then
        Inl ''ELF section string table index is outside the section table''
      else
        and_then (table_section table bytes (st_string_table_index table)) (\<lambda>s.
          if es_type s \<noteq> ELF_SECTION_TYPE_STRTAB then Inl ''ELF section string table is not a STRTAB section''
          else section_bytes s bytes))"

definition elf_section_name :: "elf_section \<Rightarrow> string \<Rightarrow> string + string" where
  "elf_section_name s shstrtab =
     (let start = unat (es_name_offset s) in
      if start > length shstrtab then Inl ''ELF section name offset is outside the string table''
      else
        case index_of (\<lambda>c. byte c = 0) (drop start shstrtab) of
          None \<Rightarrow> Inl ''ELF section name is not null-terminated''
        | Some stop \<Rightarrow>
            let name = take stop (drop start shstrtab) in
            if utf8 name then Inr name else Inl ''ELF section name is not valid UTF-8'')"

text \<open>The loop over the sections.\<close>

fun find_text :: "string \<Rightarrow> elf_section list \<Rightarrow> string + text_instruction_count" where
  "find_text shstrtab [] = Inl ''SBF artifact has no .text section''"
| "find_text shstrtab (s # ss) =
     and_then (elf_section_name s shstrtab) (\<lambda>name.
       if name = ELF_SECTION_NAME_TEXT then
         if es_size s mod SBF_INSTRUCTION_BYTES \<noteq> 0 then
           Inl (''SBF .text section is '' @ show_nat (unat (es_size s)) @ '' bytes, not aligned to '' @
             show_nat (unat SBF_INSTRUCTION_BYTES) @ '' byte instructions'')
         else Inr \<lparr>tic_section_bytes = es_size s, tic_instructions = es_size s div SBF_INSTRUCTION_BYTES\<rparr>
       else find_text shstrtab ss)"

definition parse_sbf_text_instruction_count :: "string \<Rightarrow> string + text_instruction_count" where
  "parse_sbf_text_instruction_count bytes =
     and_then (parse_elf_summary bytes) (\<lambda>_.
     and_then (parse_section_table bytes) (\<lambda>table.
     and_then (string_table table bytes) (\<lambda>shstrtab.
     and_then (table_sections table bytes) (find_text shstrtab))))"

text \<open>\<open>fs::read\<close> fails on what is no file, with the message of the system.\<close>

definition sbf_text_instruction_count :: "string + string \<Rightarrow> string + text_instruction_count" where
  "sbf_text_instruction_count file =
     and_then file (\<lambda>bytes.
       if length bytes > MAX_SBF_ARTIFACT_BYTES then
         Inl (''SBF artifact is '' @ show_nat (length bytes) @ '' bytes, above the '' @ show_nat MAX_SBF_ARTIFACT_BYTES @
           '' byte analysis limit'')
       else parse_sbf_text_instruction_count bytes)"

subsection \<open>What is read\<close>

lemma bytes_get_within:
  assumes "length bytes < 2 ^ 64"
  shows "bytes_get bytes start (start + width) =
    (if unat start + unat width \<le> length bytes then Some (take (unat width) (drop (unat start) bytes)) else None)"
proof (cases "unat start + unat width < 2 ^ 64")
  case True
  then have "unat (start + width) = unat start + unat width" by (simp add: unat_word_ariths)
  then show ?thesis by (simp add: bytes_get_def word_le_nat_alt)
next
  case False
  have "unat start < 2 ^ 64" "unat width < 2 ^ 64"
    by (rule order_less_le_trans [OF unsigned_less]; simp)+
  then have "(unat start + unat width) mod 2 ^ 64 < unat start"
    using False le_mod_geq [of "2 ^ 64" "unat start + unat width"] by (simp add: not_less)
  then have "unat (start + width) < unat start" by (simp add: unat_word_ariths)
  then show ?thesis using False assms by (auto simp: bytes_get_def word_le_nat_alt)
qed

text \<open>No read looks outside of the file, and none is refused that lies inside: the wrapped end of an
  offset near the top of the address space is below its start.\<close>

lemma read_number_exact:
  assumes "length bytes < 2 ^ 64"
  shows "read_number width bytes offset endian = Inr n \<longleftrightarrow>
    unat offset + unat width \<le> length bytes \<and>
    n = endian_value endian (take (unat width) (drop (unat offset) bytes))"
  by (auto simp: read_number_def bytes_get_within [OF assms])

lemma and_then_Inr: "and_then r f = Inr y \<longleftrightarrow> (\<exists>x. r = Inr x \<and> f x = Inr y)"
  by (cases r) auto

definition text_result :: "elf_section \<Rightarrow> text_instruction_count" where
  "text_result s = \<lparr>tic_section_bytes = es_size s, tic_instructions = es_size s div 8\<rparr>"

definition named_otherwise :: "string \<Rightarrow> elf_section \<Rightarrow> bool" where
  "named_otherwise shstrtab u \<longleftrightarrow> (\<exists>name. elf_section_name u shstrtab = Inr name \<and> name \<noteq> ''.text'')"

lemma whole_instructions: "(w :: u64) mod 8 \<noteq> 0 \<longleftrightarrow> unat w mod 8 \<noteq> 0"
proof -
  have "w mod 8 = 0 \<longleftrightarrow> unat (w mod 8) = 0" by (simp only: unat_eq_0)
  then show ?thesis by (simp only: unat_mod unat_numeral) simp
qed

lemma find_text_hit:
  "elf_section_name s shstrtab = Inr ''.text'' \<Longrightarrow>
     find_text shstrtab (s # ss) = Inr c \<longleftrightarrow> unat (es_size s) mod 8 = 0 \<and> c = text_result s"
  by (simp only: find_text.simps and_then.simps ELF_SECTION_NAME_TEXT_def SBF_INSTRUCTION_BYTES_def text_result_def
      whole_instructions) auto

lemma find_text_miss: "named_otherwise shstrtab u \<Longrightarrow> find_text shstrtab (u # ss) = find_text shstrtab ss"
  by (auto simp: named_otherwise_def ELF_SECTION_NAME_TEXT_def)

lemma find_text_skip: "list_all (named_otherwise shstrtab) us \<Longrightarrow> find_text shstrtab (us @ ss) = find_text shstrtab ss"
  by (induction us) (simp_all add: find_text_miss del: find_text.simps)

lemma find_text_first:
  "find_text shstrtab ss = Inr c \<Longrightarrow>
     \<exists>us s vs. ss = us @ s # vs \<and> list_all (named_otherwise shstrtab) us \<and> elf_section_name s shstrtab = Inr ''.text''"
proof (induction ss)
  case (Cons s ss)
  show ?case
  proof (cases "elf_section_name s shstrtab = Inr ''.text''")
    case True
    then have "s # ss = [] @ s # ss \<and> list_all (named_otherwise shstrtab) [] \<and> elf_section_name s shstrtab = Inr ''.text''"
      by simp
    then show ?thesis by blast
  next
    case False
    then have named: "named_otherwise shstrtab s"
      using Cons.prems by (auto simp: named_otherwise_def and_then_Inr)
    with Cons.prems have "find_text shstrtab ss = Inr c" by (simp only: find_text_miss)
    from Cons.IH [OF this] obtain us t vs where "ss = us @ t # vs" "list_all (named_otherwise shstrtab) us"
      "elf_section_name t shstrtab = Inr ''.text''" by blast
    then have "s # ss = (s # us) @ t # vs \<and> list_all (named_otherwise shstrtab) (s # us) \<and>
        elf_section_name t shstrtab = Inr ''.text''" using named by simp
    then show ?thesis by blast
  qed
qed simp

lemma find_text_Inr:
  "find_text shstrtab ss = Inr c \<longleftrightarrow>
     (\<exists>us s vs. ss = us @ s # vs \<and> list_all (named_otherwise shstrtab) us \<and>
       elf_section_name s shstrtab = Inr ''.text'' \<and> unat (es_size s) mod 8 = 0 \<and> c = text_result s)"
proof
  assume found: "find_text shstrtab ss = Inr c"
  from find_text_first [OF this] obtain us s vs where split: "ss = us @ s # vs"
    "list_all (named_otherwise shstrtab) us" "elf_section_name s shstrtab = Inr ''.text''" by blast
  with found have "find_text shstrtab (s # vs) = Inr c" by (simp add: find_text_skip del: find_text.simps)
  with find_text_hit [OF split(3)] split show "\<exists>us s vs. ss = us @ s # vs \<and> list_all (named_otherwise shstrtab) us \<and>
       elf_section_name s shstrtab = Inr ''.text'' \<and> unat (es_size s) mod 8 = 0 \<and> c = text_result s" by blast
next
  assume "\<exists>us s vs. ss = us @ s # vs \<and> list_all (named_otherwise shstrtab) us \<and>
       elf_section_name s shstrtab = Inr ''.text'' \<and> unat (es_size s) mod 8 = 0 \<and> c = text_result s"
  then show "find_text shstrtab ss = Inr c" by (elim exE conjE) (simp only: find_text_skip find_text_hit simp_thms)
qed

text \<open>A count is that of the first section with the name \<open>.text\<close>, all sections before it having readable
  names, and the section holds eight bytes for each instruction.\<close>

theorem text_count_exact:
  "parse_sbf_text_instruction_count bytes = Inr c \<longleftrightarrow>
     (\<exists>table shstrtab us s vs. parse_section_table bytes = Inr table \<and> string_table table bytes = Inr shstrtab \<and>
        table_sections table bytes = Inr (us @ s # vs) \<and> list_all (named_otherwise shstrtab) us \<and>
        elf_section_name s shstrtab = Inr ''.text'' \<and> unat (es_size s) mod 8 = 0 \<and> c = text_result s)"
  (is "?found \<longleftrightarrow> ?first")
proof
  assume ?found
  then show ?first
    unfolding parse_sbf_text_instruction_count_def and_then_Inr find_text_Inr
    by (elim exE conjE, hypsubst, intro exI conjI) (assumption | rule refl)+
next
  have summary: "\<exists>summary. parse_elf_summary bytes = Inr summary" if "parse_section_table bytes = Inr table" for table
    using that by (auto simp: parse_section_table_def and_then_Inr)
  assume ?first
  then obtain table shstrtab us s vs where table: "parse_section_table bytes = Inr table"
      "string_table table bytes = Inr shstrtab" "table_sections table bytes = Inr (us @ s # vs)"
    and rest: "list_all (named_otherwise shstrtab) us" "elf_section_name s shstrtab = Inr ''.text''"
      "unat (es_size s) mod 8 = 0" "c = text_result s" by (elim exE conjE)
  then have "find_text shstrtab (us @ s # vs) = Inr c" by (simp only: find_text_skip find_text_hit simp_thms)
  with table summary [OF table(1)] show ?found by (auto simp: parse_sbf_text_instruction_count_def)
qed

lemma text_result_bytes: "unat (es_size s) mod 8 = 0 \<Longrightarrow> unat (es_size s) = 8 * unat (tic_instructions (text_result s))"
  using mult_div_mod_eq [of 8 "unat (es_size s)"] by (simp add: text_result_def unat_div)

text \<open>The section is not compared with the file: here a file of 138 bytes has a text section of almost
  four gibibytes and gets a count for it.\<close>

definition beyond_file :: string where
  "beyond_file =
    [CHR 0x7F, CHR 0x45, CHR 0x4C, CHR 0x46, CHR 0x01, CHR 0x01, CHR 0x01, CHR 0x00, CHR 0x00, CHR 0x00,
     CHR 0x00, CHR 0x00, CHR 0x00, CHR 0x00, CHR 0x00, CHR 0x00, CHR 0x02, CHR 0x00, CHR 0xF7, CHR 0x00,
     CHR 0x01, CHR 0x00, CHR 0x00, CHR 0x00, CHR 0x00, CHR 0x00, CHR 0x00, CHR 0x00, CHR 0x00, CHR 0x00,
     CHR 0x00, CHR 0x00, CHR 0x34, CHR 0x00, CHR 0x00, CHR 0x00, CHR 0x00, CHR 0x00, CHR 0x00, CHR 0x00,
     CHR 0x34, CHR 0x00, CHR 0x00, CHR 0x00, CHR 0x00, CHR 0x00, CHR 0x28, CHR 0x00, CHR 0x02, CHR 0x00,
     CHR 0x00, CHR 0x00, CHR 0x05, CHR 0x00, CHR 0x00, CHR 0x00, CHR 0x03, CHR 0x00, CHR 0x00, CHR 0x00,
     CHR 0x00, CHR 0x00, CHR 0x00, CHR 0x00, CHR 0x00, CHR 0x00, CHR 0x00, CHR 0x00, CHR 0x84, CHR 0x00,
     CHR 0x00, CHR 0x00, CHR 0x06, CHR 0x00, CHR 0x00, CHR 0x00, CHR 0x00, CHR 0x00, CHR 0x00, CHR 0x00,
     CHR 0x00, CHR 0x00, CHR 0x00, CHR 0x00, CHR 0x00, CHR 0x00, CHR 0x00, CHR 0x00, CHR 0x00, CHR 0x00,
     CHR 0x00, CHR 0x00, CHR 0x00, CHR 0x00, CHR 0x00, CHR 0x00, CHR 0x01, CHR 0x00, CHR 0x00, CHR 0x00,
     CHR 0x00, CHR 0x00, CHR 0x00, CHR 0x00, CHR 0x00, CHR 0x00, CHR 0x00, CHR 0x00, CHR 0x00, CHR 0x00,
     CHR 0x00, CHR 0x00, CHR 0xF8, CHR 0xFF, CHR 0xFF, CHR 0xFF, CHR 0x00, CHR 0x00, CHR 0x00, CHR 0x00,
     CHR 0x00, CHR 0x00, CHR 0x00, CHR 0x00, CHR 0x00, CHR 0x00, CHR 0x00, CHR 0x00, CHR 0x00, CHR 0x00,
     CHR 0x00, CHR 0x00, CHR 0x2E, CHR 0x74, CHR 0x65, CHR 0x78, CHR 0x74, CHR 0x00]"

lemma beyond_file_header:
  "parse_elf_summary beyond_file =
     Inr \<lparr>elf_class = Elf32, elf_endian = ElfLittle, elf_machine = 247, elf_entry = 0, elf_section_count = 2\<rparr>"
  by (simp add: parse_elf_summary_def beyond_file_def ELF_MAGIC_def read_u16_def read_u32_def read_number_def
      bytes_get_def byte_def EM_BPF_def)

lemma beyond_file_table:
  "parse_section_table beyond_file =
     Inr \<lparr>st_class = Elf32, st_endian = ElfLittle, st_offset = 52, st_entry_size = 40, st_entry_count = 2,
          st_string_table_index = 0\<rparr>"
  by (simp add: parse_section_table_def beyond_file_header Let_def)
    (simp add: beyond_file_def read_u16_def read_u32_def read_number_def bytes_get_def byte_def)

lemma beyond_file_sections:
  "read_sections \<lparr>st_class = Elf32, st_endian = ElfLittle, st_offset = 52, st_entry_size = 40, st_entry_count = 2,
          st_string_table_index = 0\<rparr> beyond_file [0, 1] =
     Inr [\<lparr>es_name_offset = 5, es_type = 3, es_offset = 132, es_size = 6\<rparr>,
          \<lparr>es_name_offset = 0, es_type = 1, es_offset = 0, es_size = 0xFFFFFFF8\<rparr>]"
  by (simp add: table_section_def ok_or_def checked_add_def beyond_file_def read_u32_def read_number_def bytes_get_def byte_def)

lemma text_beyond_file:
  "length beyond_file = 138 \<and>
   parse_sbf_text_instruction_count beyond_file = Inr \<lparr>tic_section_bytes = 0xFFFFFFF8, tic_instructions = 0x1FFFFFFF\<rparr>"
proof
  let ?table = "\<lparr>st_class = Elf32, st_endian = ElfLittle, st_offset = 52, st_entry_size = 40, st_entry_count = 2,
    st_string_table_index = 0\<rparr>"
  have sections: "table_sections ?table beyond_file =
      Inr [\<lparr>es_name_offset = 5, es_type = 3, es_offset = 132, es_size = 6\<rparr>,
        \<lparr>es_name_offset = 0, es_type = 1, es_offset = 0, es_size = 0xFFFFFFF8\<rparr>]"
    using beyond_file_sections by (simp add: table_sections_def upt_conv_Cons)
  then have "table_section ?table beyond_file 0 = Inr \<lparr>es_name_offset = 5, es_type = 3, es_offset = 132, es_size = 6\<rparr>"
    by (auto simp: table_sections_def upt_conv_Cons and_then_Inr)
  then have names: "string_table ?table beyond_file = Inr (''.text'' @ [CHR 0x00])"
    by (simp add: string_table_def ELF_SECTION_TYPE_STRTAB_def section_bytes_def ok_or_def checked_add_def bytes_get_def)
      (simp add: beyond_file_def)
  have utf8: "utf8 ''.text''" "utf8 []" by (rule ascii_utf8, simp add: ascii_def byte_def)+
  show "parse_sbf_text_instruction_count beyond_file = Inr \<lparr>tic_section_bytes = 0xFFFFFFF8, tic_instructions = 0x1FFFFFFF\<rparr>"
    by (simp add: parse_sbf_text_instruction_count_def beyond_file_header beyond_file_table names sections)
      (simp add: elf_section_name_def byte_def utf8 ELF_SECTION_NAME_TEXT_def SBF_INSTRUCTION_BYTES_def)
qed (simp add: beyond_file_def)

end
