(* ===== verification/Program_Artifacts.thy ===== *)
theory Program_Artifacts
  imports Solana_Project Instruction_Attributes Base58 Elf_File "HOL-Library.Option_ord"
begin

section \<open>Build artifacts of a program\<close>

text \<open>
  The reports of \<open>src/solana/program_artifacts/mod.rs\<close> with \<open>idl.rs\<close> and \<open>artifact_paths.rs\<close>, and the rule
  \<open>src/lsp/diagnostics/artifacts.rs\<close>: the binary, the keypair, the IDL and the client types that a
  build leaves below \<open>target\<close>, and whether they fit the program and its sources.  Times are nanoseconds
  since 1970, \<open>modified\<close> gives that of a file; \<open>parse_json\<close> is \<open>serde_json::from_str\<close>.  A program name
  is one component of a path.
\<close>

type_synonym system_time = int

type_synonym json_parser = "string \<Rightarrow> string + json"

definition MAX_SOURCE_INPUTS :: nat where "MAX_SOURCE_INPUTS = 512"
definition MAX_SOURCE_DEPTH :: nat where "MAX_SOURCE_DEPTH = 16"

subsection \<open>Paths\<close>

definition deploy_dir :: "path \<Rightarrow> path" where "deploy_dir base = base @ [''target'', ''deploy'']"
definition idl_dir :: "path \<Rightarrow> path" where "idl_dir base = base @ [''target'', ''idl'']"
definition types_dir :: "path \<Rightarrow> path" where "types_dir base = base @ [''target'', ''types'']"

definition deploy_file :: "path \<Rightarrow> string \<Rightarrow> path" where
  "deploy_file base name = deploy_dir base @ [name @ ''.so'']"

definition keypair_file :: "path \<Rightarrow> string \<Rightarrow> path" where
  "keypair_file base name = deploy_dir base @ [name @ ''-keypair.json'']"

definition idl_file :: "path \<Rightarrow> string \<Rightarrow> path" where
  "idl_file base name = idl_dir base @ [name @ ''.json'']"

definition typescript_file :: "path \<Rightarrow> string \<Rightarrow> path" where
  "typescript_file base name = types_dir base @ [name @ ''.ts'']"

definition path_text :: "path \<Rightarrow> string" where
  "path_text p = (if p = [] then ''/'' else concat (map (\<lambda>c. CHR ''/'' # c) p))"

definition extension_of :: "string \<Rightarrow> string option" where
  "extension_of name =
     (if name = ''..'' then None
      else case str_rfind ''.'' name of
        None \<Rightarrow> None
      | Some i \<Rightarrow> if i = 0 then None else Some (drop (i + 1) name))"

definition path_extension :: "path \<Rightarrow> string option" where
  "path_extension p = (if p = [] then None else extension_of (last p))"

subsection \<open>Files\<close>

record artifact_input =
  ain_path :: path
  ain_modified :: system_time

record artifact_file = artifact_input +
  afl_byte_len :: nat

definition artifact_file_at :: "host \<Rightarrow> (path \<Rightarrow> system_time option) \<Rightarrow> path \<Rightarrow> artifact_file option" where
  "artifact_file_at h modified p =
     Option.bind (host_file h p) (\<lambda>bytes.
       map_option (\<lambda>t. \<lparr>ain_path = p, ain_modified = t, afl_byte_len = length bytes\<rparr>) (modified p))"

definition artifact_input_at :: "host \<Rightarrow> (path \<Rightarrow> system_time option) \<Rightarrow> path \<Rightarrow> artifact_input option" where
  "artifact_input_at h modified p =
     (if is_file h p then map_option (\<lambda>t. \<lparr>ain_path = p, ain_modified = t\<rparr>) (modified p) else None)"

text \<open>\<open>duration_since(UNIX_EPOCH)\<close> in milliseconds; \<open>None\<close> for a time before 1970.\<close>

definition system_time_ms :: "system_time \<Rightarrow> int option" where
  "system_time_ms t = (if 0 \<le> t then Some (t div 10 ^ 6) else None)"

subsection \<open>Source inputs\<close>

text \<open>\<open>collect_source_paths\<close>; the first argument is the number of levels that are left.\<close>

fun source_paths :: "host \<Rightarrow> nat \<Rightarrow> path \<Rightarrow> path list \<Rightarrow> path list" where
  "source_paths h 0 dir paths = paths"
| "source_paths h (Suc levels) dir paths =
     (if length paths \<ge> MAX_SOURCE_INPUTS then paths
      else
        case host_directory h dir of
          None \<Rightarrow> paths
        | Some entries \<Rightarrow>
            foldl
              (\<lambda>paths name.
                let p = dir @ [name] in
                if length paths \<ge> MAX_SOURCE_INPUTS then paths
                else if is_dir h p then if should_skip_dir p then paths else source_paths h levels p paths
                else if path_extension p = Some ''rs'' then paths @ [p]
                else paths)
              paths (sort entries))"

definition source_input_kept :: "string \<Rightarrow> artifact_input \<Rightarrow> bool" where
  "source_input_kept program_name input \<longleftrightarrow>
     (case Option.bind (if ain_path input = [] then None else Some (last (ain_path input))) file_stem of
        None \<Rightarrow> True
      | Some stem \<Rightarrow> normalize_program_name stem \<noteq> program_name) \<or>
     path_extension (ain_path input) = Some ''rs''"

definition collect_source_inputs ::
  "host \<Rightarrow> (path \<Rightarrow> system_time option) \<Rightarrow> path \<Rightarrow> string \<Rightarrow> artifact_input list" where
  "collect_source_inputs h modified source_root program_name =
     (let paths = source_paths h (Suc MAX_SOURCE_DEPTH) source_root [];
          paths = paths @
            (if source_root = [] then []
             else map (\<lambda>name. butlast source_root @ [name])
               [''Cargo.toml'', ''Xargo.toml'', ''rust-toolchain.toml'', ''rust-toolchain'']) in
      filter (source_input_kept program_name)
        (List.map_filter (artifact_input_at h modified)
          (take MAX_SOURCE_INPUTS (remdups_adj (sort paths)))))"

subsection \<open>States\<close>

datatype deploy_state = DeployMissing | DeployPresent artifact_file elf_summary | DeployInvalid artifact_file string

datatype keypair_state = KeypairMissing | KeypairPresent artifact_file string | KeypairInvalid artifact_file string

datatype idl_state =
    IdlMissing
  | IdlPresent artifact_file "string option" "string option"
  | IdlInvalid artifact_file string

datatype file_presence = FileMissing | FilePresent artifact_file

definition deploy_state_at :: "host \<Rightarrow> (path \<Rightarrow> system_time option) \<Rightarrow> path \<Rightarrow> deploy_state" where
  "deploy_state_at h modified p =
     (case artifact_file_at h modified p of
        None \<Rightarrow> DeployMissing
      | Some file \<Rightarrow>
          (case parse_elf_summary (take 64 (unwrap_or [] (host_file h p))) of
             Inl reason \<Rightarrow> DeployInvalid file reason
           | Inr elf \<Rightarrow> DeployPresent file elf))"

text \<open>\<open>read_limited_text\<close> with the reason it fails for: a file that is there and short can only fail to be UTF-8.\<close>

definition limited_text_or :: "host \<Rightarrow> string \<Rightarrow> path \<Rightarrow> string + string" where
  "limited_text_or h too_large p =
     (case read_limited_text h p of
        Some content \<Rightarrow> Inr content
      | None \<Rightarrow>
          Inl (if length (unwrap_or [] (host_file h p)) > MAX_PROJECT_FILE_BYTES then too_large
               else ''stream did not contain valid UTF-8''))"

definition idl_program_name :: "json \<Rightarrow> string option" where
  "idl_program_name v =
     Option.bind
       (or_else (or_else
          (Option.bind (json_get ''program'' v) (json_get ''name''))
          (Option.bind (json_get ''metadata'' v) (json_get ''name'')))
          (json_get ''name'' v))
       as_str"

definition idl_address :: "json \<Rightarrow> string option" where
  "idl_address v =
     Option.bind
       (or_else (or_else (or_else (or_else
          (Option.bind (json_get ''program'' v) (json_get ''publicKey''))
          (json_get ''address'' v))
          (json_get ''programId'' v))
          (Option.bind (json_get ''metadata'' v) (json_get ''address'')))
          (Option.bind (json_get ''metadata'' v) (json_get ''programId'')))
       as_str"

definition idl_state_at :: "json_parser \<Rightarrow> host \<Rightarrow> (path \<Rightarrow> system_time option) \<Rightarrow> path \<Rightarrow> idl_state" where
  "idl_state_at parse_json h modified p =
     (case artifact_file_at h modified p of
        None \<Rightarrow> IdlMissing
      | Some file \<Rightarrow>
          (case and_then (limited_text_or h ''IDL artifact exceeds project file read limit'' p) parse_json of
             Inl reason \<Rightarrow> IdlInvalid file reason
           | Inr v \<Rightarrow> IdlPresent file (idl_program_name v) (idl_address v)))"

definition keypair_state_at :: "json_parser \<Rightarrow> host \<Rightarrow> (path \<Rightarrow> system_time option) \<Rightarrow> path \<Rightarrow> keypair_state" where
  "keypair_state_at parse_json h modified p =
     (case artifact_file_at h modified p of
        None \<Rightarrow> KeypairMissing
      | Some file \<Rightarrow>
          (case and_then (limited_text_or h ''program keypair exceeds project file read limit'' p)
              (keypair_public_key parse_json) of
             Inl reason \<Rightarrow> KeypairInvalid file reason
           | Inr public_key \<Rightarrow> KeypairPresent file public_key))"

definition file_presence_at :: "host \<Rightarrow> (path \<Rightarrow> system_time option) \<Rightarrow> path \<Rightarrow> file_presence" where
  "file_presence_at h modified p =
     (case artifact_file_at h modified p of None \<Rightarrow> FileMissing | Some file \<Rightarrow> FilePresent file)"

subsection \<open>Reports\<close>

record artifact_report =
  ar_program :: solana_program
  ar_root :: path
  ar_source_root :: "path option"
  ar_source_inputs :: "artifact_input list"
  ar_deploy_path :: path
  ar_keypair_path :: path
  ar_idl_path :: path
  ar_types_path :: path
  ar_deploy :: deploy_state
  ar_keypair :: keypair_state
  ar_idl :: idl_state
  ar_typescript :: file_presence

definition report_for_program ::
  "json_parser \<Rightarrow> host \<Rightarrow> (path \<Rightarrow> system_time option) \<Rightarrow> solana_program \<Rightarrow> artifact_report" where
  "report_for_program parse_json h modified program =
     (let base = sp_root program; name = sp_name program in
      \<lparr>ar_program = program, ar_root = base, ar_source_root = sp_source_root program,
       ar_source_inputs =
         (case sp_source_root program of None \<Rightarrow> [] | Some source_root \<Rightarrow> collect_source_inputs h modified source_root name),
       ar_deploy_path = deploy_file base name, ar_keypair_path = keypair_file base name,
       ar_idl_path = idl_file base name, ar_types_path = typescript_file base name,
       ar_deploy = deploy_state_at h modified (deploy_file base name),
       ar_keypair = keypair_state_at parse_json h modified (keypair_file base name),
       ar_idl = idl_state_at parse_json h modified (idl_file base name),
       ar_typescript = file_presence_at h modified (typescript_file base name)\<rparr>)"

definition report_key :: "artifact_report \<Rightarrow> string \<times> string option \<times> path" where
  "report_key r = (sp_name (ar_program r), sp_cluster (ar_program r), ar_root r)"

definition build_surface_exists :: "host \<Rightarrow> artifact_report \<Rightarrow> bool" where
  "build_surface_exists h r \<longleftrightarrow>
     is_dir h (deploy_dir (ar_root r)) \<or> is_dir h (idl_dir (ar_root r)) \<or> is_dir h (types_dir (ar_root r)) \<or>
     ar_deploy r \<noteq> DeployMissing \<or> ar_keypair r \<noteq> KeypairMissing \<or> ar_idl r \<noteq> IdlMissing \<or>
     ar_typescript r \<noteq> FileMissing"

fun deploy_file_of :: "deploy_state \<Rightarrow> artifact_file option" where
  "deploy_file_of (DeployPresent file _) = Some file"
| "deploy_file_of (DeployInvalid file _) = Some file"
| "deploy_file_of DeployMissing = None"

fun idl_file_of :: "idl_state \<Rightarrow> artifact_file option" where
  "idl_file_of (IdlPresent file _ _) = Some file"
| "idl_file_of (IdlInvalid file _) = Some file"
| "idl_file_of IdlMissing = None"

definition inputs_newer_than :: "artifact_report \<Rightarrow> system_time \<Rightarrow> artifact_input list" where
  "inputs_newer_than r t = filter (\<lambda>input. ain_modified input > t) (ar_source_inputs r)"

definition deploy_stale_inputs :: "artifact_report \<Rightarrow> artifact_input list" where
  "deploy_stale_inputs r =
     (case ar_deploy r of DeployPresent file _ \<Rightarrow> inputs_newer_than r (ain_modified file) | _ \<Rightarrow> [])"

definition idl_stale_inputs :: "artifact_report \<Rightarrow> artifact_input list" where
  "idl_stale_inputs r =
     (case ar_idl r of IdlPresent file _ _ \<Rightarrow> inputs_newer_than r (ain_modified file) | _ \<Rightarrow> [])"

definition typescript_stale_inputs :: "artifact_report \<Rightarrow> artifact_input list" where
  "typescript_stale_inputs r =
     (case ar_typescript r of FilePresent file \<Rightarrow> inputs_newer_than r (ain_modified file) | FileMissing \<Rightarrow> [])"

definition idl_applicable :: "host \<Rightarrow> artifact_report \<Rightarrow> bool" where
  "idl_applicable h r \<longleftrightarrow>
     sp_kind (ar_program r) = ProjectAnchor \<or> ar_idl r \<noteq> IdlMissing \<or> is_dir h (idl_dir (ar_root r))"

definition typescript_applicable :: "host \<Rightarrow> artifact_report \<Rightarrow> bool" where
  "typescript_applicable h r \<longleftrightarrow>
     sp_kind (ar_program r) = ProjectAnchor \<or> ar_typescript r \<noteq> FileMissing \<or> is_dir h (types_dir (ar_root r))"

definition newest_input_modified :: "artifact_report \<Rightarrow> system_time option" where
  "newest_input_modified r =
     (if ar_source_inputs r = [] then None else Some (Max (set (map ain_modified (ar_source_inputs r)))))"

definition report_for_document ::
  "manifest_parser \<Rightarrow> (string \<Rightarrow> edit_document option) \<Rightarrow> (string \<Rightarrow> parsed_document option) \<Rightarrow> json_parser \<Rightarrow> host \<Rightarrow>
     (path \<Rightarrow> system_time option) \<Rightarrow> url \<Rightarrow> parsed_document \<Rightarrow> artifact_report option" where
  "report_for_document parse parse_toml parse_document parse_json h modified uri doc =
     map_option (report_for_program parse_json h modified) (detect_for_document parse parse_toml parse_document h uri doc)"

definition reports_for_roots ::
  "manifest_parser \<Rightarrow> (string \<Rightarrow> edit_document option) \<Rightarrow> (string \<Rightarrow> parsed_document option) \<Rightarrow> json_parser \<Rightarrow> host \<Rightarrow>
     (path \<Rightarrow> system_time option) \<Rightarrow> url list \<Rightarrow> artifact_report list" where
  "reports_for_roots parse parse_toml parse_document parse_json h modified roots =
     dedup_by_key report_key
       (sort_key report_key
         (map (report_for_program parse_json h modified) (detect_for_roots parse parse_toml parse_document h roots)))"

subsection \<open>Reports as JSON\<close>

definition json_ms :: "int option \<Rightarrow> json" where
  "json_ms t = (case t of None \<Rightarrow> JNull | Some ms \<Rightarrow> JInt ms)"

definition artifact_file_json :: "artifact_file \<Rightarrow> json" where
  "artifact_file_json file =
     JObject
       [(''path'', JString (path_text (ain_path file))), (''byteLen'', JInt (int (afl_byte_len file))),
        (''modifiedMs'', json_ms (system_time_ms (ain_modified file)))]"

definition elf_json :: "elf_summary \<Rightarrow> json" where
  "elf_json elf =
     JObject
       [(''class'', JString (case elf_class elf of Elf32 \<Rightarrow> ''ELF32'' | Elf64 \<Rightarrow> ''ELF64'')),
        (''endian'', JString (case elf_endian elf of ElfLittle \<Rightarrow> ''little'' | ElfBig \<Rightarrow> ''big'')),
        (''machine'', JInt (uint (elf_machine elf))),
        (''machineName'', JString (if elf_machine elf = EM_BPF then ''EM_BPF'' else ''unknown'')),
        (''entry'', JInt (uint (elf_entry elf))),
        (''sectionCount'', JInt (uint (elf_section_count elf)))]"

definition status_json :: "string \<Rightarrow> json_map \<Rightarrow> json" where
  "status_json status details = JObject ((''status'', JString status) # details)"

definition invalid_json :: "artifact_file \<Rightarrow> string \<Rightarrow> json" where
  "invalid_json file reason =
     status_json ''invalid'' [(''file'', artifact_file_json file), (''reason'', JString reason)]"

fun deploy_json :: "deploy_state \<Rightarrow> json" where
  "deploy_json DeployMissing = status_json ''missing'' []"
| "deploy_json (DeployPresent file elf) =
     status_json ''present'' [(''file'', artifact_file_json file), (''elf'', elf_json elf)]"
| "deploy_json (DeployInvalid file reason) = invalid_json file reason"

fun keypair_json :: "keypair_state \<Rightarrow> json" where
  "keypair_json KeypairMissing = status_json ''missing'' []"
| "keypair_json (KeypairPresent file public_key) =
     status_json ''present'' [(''file'', artifact_file_json file), (''publicKey'', JString public_key)]"
| "keypair_json (KeypairInvalid file reason) = invalid_json file reason"

fun idl_json :: "idl_state \<Rightarrow> bool \<Rightarrow> json" where
  "idl_json IdlMissing applicable = status_json (if applicable then ''missing'' else ''not-applicable'') []"
| "idl_json (IdlPresent file program_name address) applicable =
     status_json ''present''
       [(''file'', artifact_file_json file), (''programName'', json_option program_name),
        (''address'', json_option address)]"
| "idl_json (IdlInvalid file reason) applicable = invalid_json file reason"

fun presence_json :: "file_presence \<Rightarrow> bool \<Rightarrow> json" where
  "presence_json FileMissing applicable = status_json (if applicable then ''missing'' else ''not-applicable'') []"
| "presence_json (FilePresent file) applicable = status_json ''present'' [(''file'', artifact_file_json file)]"

definition input_json :: "artifact_input \<Rightarrow> json" where
  "input_json input =
     JObject
       [(''path'', JString (path_text (ain_path input))), (''modifiedMs'', json_ms (system_time_ms (ain_modified input)))]"

definition stale_inputs_json :: "artifact_input list \<Rightarrow> json" where
  "stale_inputs_json inputs = JArray (map input_json inputs)"

text \<open>\<open>to_json\<close>; \<open>ecosystem\<close> gives the report of \<open>src/solana/ecosystem\<close>.\<close>

definition report_json :: "(solana_program \<Rightarrow> json) \<Rightarrow> host \<Rightarrow> artifact_report \<Rightarrow> json" where
  "report_json ecosystem h r =
     (let program = ar_program r; kind = sp_kind program; optional_path = (\<lambda>p. json_option (map_option path_text p)) in
      JObject
        [(''program'', JObject
           [(''cluster'', json_option (sp_cluster program)), (''name'', JString (sp_name program)),
            (''id'', json_option (sp_id program)), (''programId'', json_option (sp_id program)),
            (''kind'', JString (project_kind_as_str kind)),
            (''framework'', JString (framework_label (from_project_kind kind)))]),
         (''root'', JString (path_text (ar_root r))),
         (''paths'', JObject
           [(''manifest'', optional_path (host_to_path h (sp_metadata_uri program))),
            (''sourceRoot'', optional_path (ar_source_root r)),
            (''deploy'', JString (path_text (ar_deploy_path r))),
            (''keypair'', JString (path_text (ar_keypair_path r))),
            (''idl'', if idl_applicable h r then JString (path_text (ar_idl_path r)) else JNull),
            (''typescript'', if typescript_applicable h r then JString (path_text (ar_types_path r)) else JNull)]),
         (''buildSurface'', JBool (build_surface_exists h r)),
         (''inputs'', JObject
           [(''newestModifiedMs'', json_ms (Option.bind (newest_input_modified r) system_time_ms)),
            (''files'', JArray (map input_json (ar_source_inputs r)))]),
         (''deploy'', deploy_json (ar_deploy r)),
         (''keypair'', keypair_json (ar_keypair r)),
         (''idl'', idl_json (ar_idl r) (idl_applicable h r)),
         (''typescript'', presence_json (ar_typescript r) (typescript_applicable h r)),
         (''ecosystem'', ecosystem program),
         (''stale'', JObject
           [(''deploy'', stale_inputs_json (deploy_stale_inputs r)), (''idl'', stale_inputs_json (idl_stale_inputs r)),
            (''typescript'', stale_inputs_json (typescript_stale_inputs r))])])"

end
