(* ===== verification/Artifact_Rules.thy ===== *)
theory Artifact_Rules
  imports Program_Artifacts Shape_Support
begin

section \<open>The rule on build artifacts\<close>

text \<open>
  Models \<open>src/lsp/diagnostics/artifacts.rs\<close>: the diagnostics on artifacts that are missing, broken,
  older than a source, or built for another program.
\<close>

definition diagnostic_range :: "anchor_symbols \<Rightarrow> range" where
  "diagnostic_range symbols =
     unwrap_or default_range
       (or_else (map_option dpi_range (declared_program_id symbols))
         (case instructions symbols of [] \<Rightarrow> None | i # _ \<Rightarrow> Some (is_selection_range i)))"

definition metadata_message :: "artifact_report \<Rightarrow> string" where
  "metadata_message r =
     (let program = ar_program r; label = framework_label (from_project_kind (sp_kind program)) in
      if sp_kind program = ProjectAnchor then
        ''Anchor.toml declares '' @ quoted (id_display program) @ '' for '' @ quoted (sp_name program) @ '' on '' @
          quoted (cluster_display program) @ ''.''
      else
        ''Cargo.toml identifies '' @ label @ '' program '' @ quoted (sp_name program) @
          (case sp_id program of
             Some program_id \<Rightarrow> ''; '' @ quoted ''declare_id!'' @ '' is '' @ quoted program_id @ ''.''
           | None \<Rightarrow> ''.''))"

definition artifact_related ::
  "host \<Rightarrow> artifact_report \<Rightarrow> path option \<Rightarrow> artifact_input option \<Rightarrow> related_information list" where
  "artifact_related h r artifact newer =
     \<lparr>rel_location = \<lparr>loc_uri = sp_metadata_uri (ar_program r), loc_range = sp_metadata_range (ar_program r)\<rparr>,
      rel_message = metadata_message r\<rparr> #
     option_list (map_option
       (\<lambda>uri. \<lparr>rel_location = \<lparr>loc_uri = uri, loc_range = default_range\<rparr>,
          rel_message = ''Expected local Solana build artifact.''\<rparr>)
       (Option.bind artifact (host_from_path h))) @
     option_list (map_option
       (\<lambda>uri. \<lparr>rel_location = \<lparr>loc_uri = uri, loc_range = default_range\<rparr>,
          rel_message = ''Newer source input for this artifact.''\<rparr>)
       (Option.bind newer (\<lambda>input. host_from_path h (ain_path input))))"

definition program_payload :: "artifact_report \<Rightarrow> json_map" where
  "program_payload r =
     (let program = ar_program r in
      [(''program'', JString (sp_name program)), (''cluster'', json_option (sp_cluster program)),
       (''programId'', json_option (sp_id program)),
       (''programKind'', JString (project_kind_as_str (sp_kind program))),
       (''framework'', JString (framework_label (from_project_kind (sp_kind program))))])"

definition report_build_command :: "artifact_report \<Rightarrow> string" where
  "report_build_command r = build_command (from_project_kind (sp_kind (ar_program r)))"

definition report_idl_label :: "artifact_report \<Rightarrow> string" where
  "report_idl_label r = idl_label (from_project_kind (sp_kind (ar_program r)))"

definition report_types_label :: "artifact_report \<Rightarrow> string" where
  "report_types_label r = types_label (from_project_kind (sp_kind (ar_program r)))"

definition artifact_diagnostic ::
  "(string \<Rightarrow> string option) \<Rightarrow> host \<Rightarrow> anchor_symbols \<Rightarrow> artifact_report \<Rightarrow> kind \<Rightarrow> string \<Rightarrow> string \<Rightarrow>
     path option \<Rightarrow> string option \<Rightarrow> diagnostic" where
  "artifact_diagnostic parse h symbols r k message reason artifact detail =
     diagnostic_from_range_with_related parse (diagnostic_range symbols) k message
       (Some (JObject (program_payload r @
         [(''artifact'', json_option (map_option path_text artifact)),
          (''artifactUri'', json_option (Option.bind artifact (host_from_path h))),
          (''reason'', JString reason), (''detail'', json_option detail),
          (''buildCommand'', JString (report_build_command r))])))
       (Some (artifact_related h r artifact None))"

definition stale_diagnostic ::
  "(string \<Rightarrow> string option) \<Rightarrow> host \<Rightarrow> anchor_symbols \<Rightarrow> artifact_report \<Rightarrow> kind \<Rightarrow> string \<Rightarrow> path \<Rightarrow>
     artifact_input \<Rightarrow> diagnostic" where
  "stale_diagnostic parse h symbols r k artifact_kind artifact newest =
     diagnostic_from_range_with_related parse (diagnostic_range symbols) k
       (''Local '' @ artifact_kind @ '' artifact for '' @ quoted (sp_name (ar_program r)) @ '' is older than '' @
        quoted (path_text (ain_path newest)) @ ''; generated build evidence may be stale.'')
       (Some (JObject (program_payload r @
         [(''artifact'', JString (path_text artifact)), (''artifactUri'', json_option (host_from_path h artifact)),
          (''newerInput'', JString (path_text (ain_path newest))),
          (''newerInputUri'', json_option (host_from_path h (ain_path newest))),
          (''reason'', JString ''stale''), (''buildCommand'', JString (report_build_command r))])))
       (Some (artifact_related h r (Some artifact) (Some newest)))"

text \<open>\<open>max_by_key\<close> takes the last of the greatest; a time before 1970 counts as 0.\<close>

fun max_by_key :: "('a \<Rightarrow> 'k::linorder) \<Rightarrow> 'a list \<Rightarrow> 'a option" where
  "max_by_key f [] = None"
| "max_by_key f (x # xs) =
     (case max_by_key f xs of None \<Rightarrow> Some x | Some y \<Rightarrow> if f x > f y then Some x else Some y)"

definition newest_input :: "artifact_input list \<Rightarrow> artifact_input option" where
  "newest_input inputs = max_by_key (\<lambda>input. unwrap_or 0 (system_time_ms (ain_modified input))) inputs"

definition stale_diagnostics ::
  "(string \<Rightarrow> string option) \<Rightarrow> host \<Rightarrow> anchor_symbols \<Rightarrow> artifact_report \<Rightarrow> kind \<Rightarrow> string \<Rightarrow> path \<Rightarrow>
     artifact_input list \<Rightarrow> diagnostic list" where
  "stale_diagnostics parse h symbols r k artifact_kind artifact inputs =
     option_list (map_option (stale_diagnostic parse h symbols r k artifact_kind artifact) (newest_input inputs))"

definition deploy_diagnostics ::
  "(string \<Rightarrow> string option) \<Rightarrow> host \<Rightarrow> anchor_symbols \<Rightarrow> artifact_report \<Rightarrow> diagnostic list" where
  "deploy_diagnostics parse h symbols r =
     (let name = sp_name (ar_program r) in
      case ar_deploy r of
        DeployMissing \<Rightarrow>
          [artifact_diagnostic parse h symbols r AnchorSbfArtifact
             (''No local SBPF artifact found for '' @ quoted name @ '' at '' @ quoted (path_text (ar_deploy_path r)) @
              ''; '' @ quoted (report_build_command r) @ '' normally writes the program ELF there.'')
             ''missing'' (Some (ar_deploy_path r)) None]
      | DeployInvalid _ reason \<Rightarrow>
          [artifact_diagnostic parse h symbols r AnchorSbfArtifact
             (''Local SBPF artifact for '' @ quoted name @ '' is not a valid Solana SBPF ELF: '' @ reason @ ''.'')
             ''invalid'' (Some (ar_deploy_path r)) (Some reason)]
      | DeployPresent _ _ \<Rightarrow>
          stale_diagnostics parse h symbols r AnchorSbfArtifact ''deploy'' (ar_deploy_path r) (deploy_stale_inputs r))"

definition expected_program_id :: "anchor_symbols \<Rightarrow> artifact_report \<Rightarrow> string option" where
  "expected_program_id symbols r =
     or_else (map_option dpi_value (declared_program_id symbols)) (sp_id (ar_program r))"

definition keypair_diagnostics ::
  "(string \<Rightarrow> string option) \<Rightarrow> host \<Rightarrow> anchor_symbols \<Rightarrow> artifact_report \<Rightarrow> diagnostic list" where
  "keypair_diagnostics parse h symbols r =
     (let name = sp_name (ar_program r);
          report = (\<lambda>message reason detail.
            [artifact_diagnostic parse h symbols r AnchorProgramKeypair message reason (Some (ar_keypair_path r)) detail]) in
      case ar_keypair r of
        KeypairMissing \<Rightarrow>
          if deploy_file_of (ar_deploy r) \<noteq> None then
            report (''No local program keypair found for '' @ quoted name @ '' at '' @
              quoted (path_text (ar_keypair_path r)) @
              ''; Solana build/deploy workflows normally keep the program keypair beside the SBPF artifact.'') ''missing'' None
          else []
      | KeypairInvalid _ reason \<Rightarrow>
          report (''Local program keypair for '' @ quoted name @ '' could not be read: '' @ reason @ ''.'') ''invalid'' (Some reason)
      | KeypairPresent _ public_key \<Rightarrow>
          (case expected_program_id symbols r of
             None \<Rightarrow> []
           | Some expected \<Rightarrow>
               if public_key = expected then []
               else
                 report (''Local program keypair public key '' @ quoted public_key @ '' does not match '' @
                   quoted expected @ '' for '' @ quoted name @ ''.'') ''mismatch'' None))"

definition should_expect_idl :: "host \<Rightarrow> artifact_report \<Rightarrow> bool" where
  "should_expect_idl h r \<longleftrightarrow>
     sp_kind (ar_program r) = ProjectAnchor \<and> deploy_file_of (ar_deploy r) \<noteq> None \<or> is_dir h (idl_dir (ar_root r))"

definition should_expect_typescript :: "host \<Rightarrow> artifact_report \<Rightarrow> bool" where
  "should_expect_typescript h r \<longleftrightarrow>
     sp_kind (ar_program r) = ProjectAnchor \<and> idl_file_of (ar_idl r) \<noteq> None \<or> is_dir h (types_dir (ar_root r))"

definition idl_name_mismatch :: "artifact_report \<Rightarrow> string option \<Rightarrow> string option" where
  "idl_name_mismatch r program_name =
     Option.bind program_name (\<lambda>name. if normalize_program_name name \<noteq> sp_name (ar_program r) then Some name else None)"

definition idl_address_mismatch :: "artifact_report \<Rightarrow> string option \<Rightarrow> (string \<times> string) option" where
  "idl_address_mismatch r address =
     (case (address, sp_id (ar_program r)) of
        (Some a, Some program_id) \<Rightarrow> if a \<noteq> program_id then Some (a, program_id) else None
      | _ \<Rightarrow> None)"

definition idl_diagnostics ::
  "(string \<Rightarrow> string option) \<Rightarrow> host \<Rightarrow> anchor_symbols \<Rightarrow> artifact_report \<Rightarrow> diagnostic list" where
  "idl_diagnostics parse h symbols r =
     (let name = sp_name (ar_program r); label = report_idl_label r;
          report = (\<lambda>message reason detail.
            artifact_diagnostic parse h symbols r AnchorIdlArtifact message reason (Some (ar_idl_path r)) detail) in
      case ar_idl r of
        IdlMissing \<Rightarrow>
          if should_expect_idl h r then
            [report (''No local '' @ label @ '' found for '' @ quoted name @ '' at '' @ quoted (path_text (ar_idl_path r)) @
               ''; '' @ quoted (report_build_command r) @ '' normally generates this file.'') ''missing'' None]
          else []
      | IdlInvalid _ reason \<Rightarrow>
          [report (''Local '' @ label @ '' for '' @ quoted name @ '' is not valid JSON: '' @ reason @ ''.'') ''invalid'' (Some reason)]
      | IdlPresent _ program_name address \<Rightarrow>
          option_list (map_option (\<lambda>found.
            report (''Local '' @ label @ '' name '' @ quoted found @ '' does not match program '' @ quoted name @ ''.'')
              ''mismatch'' None) (idl_name_mismatch r program_name)) @
          option_list (map_option (\<lambda>(a, program_id).
            report (''Local '' @ label @ '' address '' @ quoted a @ '' does not match program id '' @ quoted program_id @
              '' for '' @ quoted name @ ''.'') ''mismatch'' None) (idl_address_mismatch r address)) @
          stale_diagnostics parse h symbols r AnchorIdlArtifact ''idl'' (ar_idl_path r) (idl_stale_inputs r))"

definition typescript_diagnostics ::
  "(string \<Rightarrow> string option) \<Rightarrow> host \<Rightarrow> anchor_symbols \<Rightarrow> artifact_report \<Rightarrow> diagnostic list" where
  "typescript_diagnostics parse h symbols r =
     (case ar_typescript r of
        FileMissing \<Rightarrow>
          if should_expect_typescript h r then
            [artifact_diagnostic parse h symbols r AnchorTypesArtifact
               (''No '' @ report_types_label r @ '' found for '' @ quoted (sp_name (ar_program r)) @ '' at '' @
                quoted (path_text (ar_types_path r)) @ ''; '' @ quoted (report_build_command r) @
                '' normally writes client types there.'') ''missing'' (Some (ar_types_path r)) None]
          else []
      | FilePresent _ \<Rightarrow>
          stale_diagnostics parse h symbols r AnchorTypesArtifact ''typescript'' (ar_types_path r) (typescript_stale_inputs r))"

definition artifact_report_diagnostics ::
  "(string \<Rightarrow> string option) \<Rightarrow> host \<Rightarrow> anchor_symbols \<Rightarrow> artifact_report \<Rightarrow> diagnostic list" where
  "artifact_report_diagnostics parse h symbols r =
     (if build_surface_exists h r then
        deploy_diagnostics parse h symbols r @ keypair_diagnostics parse h symbols r @
        idl_diagnostics parse h symbols r @ typescript_diagnostics parse h symbols r
      else [])"

text \<open>The report of the program that was found for the document, or one that is detected here.\<close>

definition artifacts_collect ::
  "(string \<Rightarrow> string option) \<Rightarrow> manifest_parser \<Rightarrow> (string \<Rightarrow> edit_document option) \<Rightarrow>
     (string \<Rightarrow> parsed_document option) \<Rightarrow> json_parser \<Rightarrow> host \<Rightarrow> (path \<Rightarrow> system_time option) \<Rightarrow> parsed_document \<Rightarrow> url \<Rightarrow>
     solana_program option \<Rightarrow> diagnostic list" where
  "artifacts_collect parse parse_manifest parse_toml parse_document parse_json h modified doc uri program =
     (case or_else (map_option (report_for_program parse_json h modified) program)
         (report_for_document parse_manifest parse_toml parse_document parse_json h modified uri doc) of
        None \<Rightarrow> []
      | Some r \<Rightarrow> artifact_report_diagnostics parse h (pd_symbols doc) r)"

subsection \<open>When the rule is quiet\<close>

lemma option_list_empty [simp]: "option_list x = [] \<longleftrightarrow> x = None"
  by (cases x) (simp_all add: option_list_def)

lemma newest_input_None [simp]: "newest_input inputs = None \<longleftrightarrow> inputs = []"
proof -
  have "max_by_key f inputs = None \<longleftrightarrow> inputs = []" for f :: "artifact_input \<Rightarrow> int"
    by (cases inputs) (auto split: option.splits)
  then show ?thesis by (simp add: newest_input_def)
qed

definition up_to_date :: "artifact_report \<Rightarrow> artifact_file \<Rightarrow> bool" where
  "up_to_date r file \<longleftrightarrow> list_all (\<lambda>input. ain_modified input \<le> ain_modified file) (ar_source_inputs r)"

lemma inputs_newer_than_empty: "inputs_newer_than r (ain_modified file) = [] \<longleftrightarrow> up_to_date r file"
  by (auto simp: inputs_newer_than_def up_to_date_def filter_empty_conv list_all_iff not_less)

definition deploy_fits :: "artifact_report \<Rightarrow> bool" where
  "deploy_fits r \<longleftrightarrow> (case ar_deploy r of DeployPresent file _ \<Rightarrow> up_to_date r file | _ \<Rightarrow> False)"

definition keypair_fits :: "anchor_symbols \<Rightarrow> artifact_report \<Rightarrow> bool" where
  "keypair_fits symbols r \<longleftrightarrow>
     (case ar_keypair r of
        KeypairMissing \<Rightarrow> deploy_file_of (ar_deploy r) = None
      | KeypairPresent _ public_key \<Rightarrow> expected_program_id symbols r \<in> {None, Some public_key}
      | KeypairInvalid _ _ \<Rightarrow> False)"

definition idl_fits :: "host \<Rightarrow> artifact_report \<Rightarrow> bool" where
  "idl_fits h r \<longleftrightarrow>
     (case ar_idl r of
        IdlMissing \<Rightarrow> \<not> should_expect_idl h r
      | IdlPresent file program_name address \<Rightarrow>
          map_option normalize_program_name program_name \<in> {None, Some (sp_name (ar_program r))} \<and>
          (address = None \<or> sp_id (ar_program r) = None \<or> address = sp_id (ar_program r)) \<and> up_to_date r file
      | IdlInvalid _ _ \<Rightarrow> False)"

definition types_fit :: "host \<Rightarrow> artifact_report \<Rightarrow> bool" where
  "types_fit h r \<longleftrightarrow>
     (case ar_typescript r of FileMissing \<Rightarrow> \<not> should_expect_typescript h r | FilePresent file \<Rightarrow> up_to_date r file)"

lemma deploy_quiet: "deploy_diagnostics parse h symbols r = [] \<longleftrightarrow> deploy_fits r"
  by (simp add: deploy_diagnostics_def deploy_fits_def stale_diagnostics_def deploy_stale_inputs_def
      inputs_newer_than_empty split: deploy_state.split)

lemma keypair_quiet: "keypair_diagnostics parse h symbols r = [] \<longleftrightarrow> keypair_fits symbols r"
  by (auto simp: keypair_diagnostics_def keypair_fits_def Let_def split: keypair_state.split option.split)

lemma idl_name_mismatch_None:
  "idl_name_mismatch r x = None \<longleftrightarrow> map_option normalize_program_name x \<in> {None, Some (sp_name (ar_program r))}"
  by (cases x) (auto simp: idl_name_mismatch_def)

lemma idl_address_mismatch_None:
  "idl_address_mismatch r a = None \<longleftrightarrow> a = None \<or> sp_id (ar_program r) = None \<or> a = sp_id (ar_program r)"
  by (cases a; cases "sp_id (ar_program r)") (auto simp: idl_address_mismatch_def)

lemma idl_quiet: "idl_diagnostics parse h symbols r = [] \<longleftrightarrow> idl_fits h r"
  by (simp add: idl_diagnostics_def idl_fits_def stale_diagnostics_def idl_stale_inputs_def inputs_newer_than_empty
      idl_name_mismatch_None idl_address_mismatch_None Let_def split: idl_state.split)

lemma types_quiet: "typescript_diagnostics parse h symbols r = [] \<longleftrightarrow> types_fit h r"
  by (simp add: typescript_diagnostics_def types_fit_def stale_diagnostics_def typescript_stale_inputs_def
      inputs_newer_than_empty split: file_presence.split)


subsection \<open>Which sources count\<close>

lemma foldl_invariant: "P acc \<Longrightarrow> (\<And>x acc. x \<in> set xs \<Longrightarrow> P acc \<Longrightarrow> P (f acc x)) \<Longrightarrow> P (foldl f acc xs)"
  by (induction xs arbitrary: acc) auto

definition sources_below :: "path \<Rightarrow> nat \<Rightarrow> path set" where
  "sources_below dir levels =
     {p. strict_prefix dir p \<and> path_extension p = Some ''rs'' \<and> length p \<le> length dir + levels}"

lemma source_paths_sound:
  "set (source_paths h levels dir paths) \<subseteq> set paths \<union> sources_below dir levels \<and>
   length (source_paths h levels dir paths) \<le> max (length paths) MAX_SOURCE_INPUTS"
proof (induction levels arbitrary: dir paths)
  case (Suc levels)
  let ?P = "\<lambda>acc. set acc \<subseteq> set paths \<union> sources_below dir (Suc levels) \<and> length acc \<le> max (length paths) MAX_SOURCE_INPUTS"
  let ?f = "\<lambda>acc name. let p = dir @ [name] in
      if length acc \<ge> MAX_SOURCE_INPUTS then acc
      else if is_dir h p then if should_skip_dir p then acc else source_paths h levels p acc
      else if path_extension p = Some ''rs'' then acc @ [p] else acc"
  have below: "sources_below (dir @ [name]) levels \<subseteq> sources_below dir (Suc levels)" for name
    by (auto simp: sources_below_def strict_prefix_def elim!: prefixE)
  have step: "?P (?f acc name)" if P: "?P acc" for acc name
  proof -
    have "?P (source_paths h levels (dir @ [name]) acc)" if "length acc < MAX_SOURCE_INPUTS"
      using Suc.IH [of "dir @ [name]" acc] P that below [of name] by (auto simp: max_def split: if_splits)
    moreover have "dir @ [name] \<in> sources_below dir (Suc levels)" if "path_extension (dir @ [name]) = Some ''rs''"
      using that by (simp add: sources_below_def strict_prefix_def)
    ultimately show ?thesis using P by (auto simp: Let_def)
  qed
  have walked: "?P (foldl ?f paths entries)" for entries by (rule foldl_invariant [where P = ?P, OF _ step]) auto
  show ?case
  proof (cases "MAX_SOURCE_INPUTS \<le> length paths \<or> host_directory h dir = None")
    case False
    then obtain entries where "host_directory h dir = Some entries" by blast
    with False have "source_paths h (Suc levels) dir paths = foldl ?f paths (sort entries)" by simp
    then show ?thesis using walked [of "sort entries"] by (simp only:)
  qed auto
qed simp

lemma source_inputs_bound: "length (collect_source_inputs h modified source_root program_name) \<le> MAX_SOURCE_INPUTS"
proof -
  have filters: "length (List.map_filter f xs) \<le> length xs" for f and xs :: "path list"
    by (simp add: List.map_filter_def length_filter_le le_trans [OF length_filter_le])
  show ?thesis unfolding collect_source_inputs_def Let_def
    by (intro le_trans [OF length_filter_le] le_trans [OF filters]) simp
qed

end
