(* ===== verification/Diagnostic_Engine.thy ===== *)
theory Diagnostic_Engine
  imports Related_Information Solana_Project Suppression Shape_Rules Instruction_Attributes Spl_Semantics
    Artifact_Rules
begin

section \<open>The rule engine\<close>

text \<open>
  \<open>src/lsp/diagnostics/rules.rs\<close>, \<open>src/lsp/diagnostics/engine.rs\<close> and the entry points of
  \<open>src/lsp/diagnostics/mod.rs\<close>: the table of rules, the selection by phase and framework, and the
  way from the raw diagnostics to the published ones.  The record \<open>engine\<close> holds what a run depends
  on outside these files: the \<open>collect\<close> function of each rule module that is not modelled (those of
  \<open>project_identity\<close>, \<open>instruction_attributes\<close>, \<open>initialization\<close>, \<open>constraint_shape\<close>,
  \<open>spl_semantics\<close>, \<open>artifacts\<close> and \<open>pda\<close> are), the parsers, and what the syn tree of a document delivers.
\<close>

datatype diagnostic_phase = SyntaxPhase | AnchorStructure | AnchorUsage | SecurityPhase | ProjectPhase

fun phase_rank :: "diagnostic_phase \<Rightarrow> nat" where
  "phase_rank SyntaxPhase = 0"
| "phase_rank AnchorStructure = 1"
| "phase_rank AnchorUsage = 2"
| "phase_rank SecurityPhase = 3"
| "phase_rank ProjectPhase = 4"

lemma phase_rank_inj: "phase_rank p = phase_rank q \<Longrightarrow> p = q"
  by (cases p; cases q) simp_all

text \<open>The derived order on phases.\<close>

instantiation diagnostic_phase :: linorder
begin

definition less_eq_diagnostic_phase :: "diagnostic_phase \<Rightarrow> diagnostic_phase \<Rightarrow> bool" where
  "p \<le> q \<longleftrightarrow> phase_rank p \<le> phase_rank q"

definition less_diagnostic_phase :: "diagnostic_phase \<Rightarrow> diagnostic_phase \<Rightarrow> bool" where
  "p < q \<longleftrightarrow> phase_rank p < phase_rank q"

instance
  by intro_classes (auto simp: less_eq_diagnostic_phase_def less_diagnostic_phase_def intro: phase_rank_inj)

end

record diagnostic_input =
  di_document :: parsed_document
  di_uri :: "url option"
  di_index :: "workspace_index option"
  di_framework :: framework_id
  di_manifest :: "(url \<times> string) option"
  di_workspace_manifest :: "(url \<times> string) option"
  di_anchor_toml :: "(url \<times> string) option"
  di_seagrass_toml :: "(url \<times> string) option"
  di_program :: "solana_program option"
  di_settings :: diagnostic_settings

type_synonym document_rule = "parsed_document \<Rightarrow> diagnostic list"
type_synonym workspace_rule = "parsed_document \<Rightarrow> workspace_index option \<Rightarrow> diagnostic list"
type_synonym program_rule = "parsed_document \<Rightarrow> url \<Rightarrow> solana_program option \<Rightarrow> diagnostic list"

record engine =
  en_anchor_syn :: "parsed_document \<Rightarrow> workspace_index option \<Rightarrow> cargo_manifest_deps \<Rightarrow> diagnostic list"
  en_context_accounts :: workspace_rule
  en_handler_scope :: document_rule
  en_handler_members :: workspace_rule
  en_handler_struct_literals :: workspace_rule
  en_account_references :: workspace_rule
  en_constraint_expressions :: workspace_rule
  en_account_usage :: workspace_rule
  en_security :: workspace_rule
  en_code_quality :: "parsed_document \<Rightarrow> framework_id \<Rightarrow> diagnostic list"
  en_check_cfg :: "parsed_document \<Rightarrow> url \<Rightarrow> string \<Rightarrow> string option \<Rightarrow> diagnostic list"
  en_ecosystem :: program_rule
  en_parse_url :: "string \<Rightarrow> string option"
  en_parse_seed :: "string \<Rightarrow> seed_expr option"
  en_parse_manifest :: manifest_parser
  en_parse_anchor_toml :: "string \<Rightarrow> edit_document option"
  en_parse_document :: "string \<Rightarrow> parsed_document option"
  en_parse_json :: json_parser
  en_host :: host
  en_modified :: "path \<Rightarrow> system_time option"
  en_config_parsers :: config_parsers
  en_attributes :: "parsed_document \<Rightarrow> attributed_node list"
  en_visited :: "parsed_document \<Rightarrow> visited_node list"

type_synonym collector = "engine \<Rightarrow> diagnostic_input \<Rightarrow> diagnostic list"

record diagnostic_rule =
  dr_id :: string
  dr_phase :: diagnostic_phase
  dr_frameworks :: framework_set
  dr_collector :: collector

subsection \<open>The collectors of the table\<close>

definition input_manifest_deps :: "engine \<Rightarrow> diagnostic_input \<Rightarrow> cargo_manifest_deps" where
  "input_manifest_deps eng input =
     unwrap_or no_deps
       (map_option (\<lambda>(_, manifest). parse_manifest_deps (en_parse_manifest eng) manifest) (di_manifest input))"

definition collect_anchor_syn :: collector where
  "collect_anchor_syn eng input =
     en_anchor_syn eng (di_document input) (di_index input) (input_manifest_deps eng input)"

definition collect_context_accounts :: collector where
  "collect_context_accounts eng input = en_context_accounts eng (di_document input) (di_index input)"

definition collect_instruction_attributes :: collector where
  "collect_instruction_attributes eng input =
     instruction_attributes_collect (en_parse_url eng) (pd_symbols (di_document input))"

definition collect_initialization :: collector where
  "collect_initialization eng input =
     initialization_diagnostics (en_parse_url eng) (pd_symbols (di_document input))"

definition collect_account_references :: collector where
  "collect_account_references eng input = en_account_references eng (di_document input) (di_index input)"

definition collect_constraint_expressions :: collector where
  "collect_constraint_expressions eng input = en_constraint_expressions eng (di_document input) (di_index input)"

definition collect_constraint_shape :: collector where
  "collect_constraint_shape eng input =
     shape_diagnostics (en_parse_url eng) (en_parse_seed eng) (di_document input) (di_index input)"

definition collect_spl_semantics :: collector where
  "collect_spl_semantics eng input = spl_collect (en_parse_url eng) (di_document input)"

definition collect_account_usage :: collector where
  "collect_account_usage eng input = en_account_usage eng (di_document input) (di_index input)"

definition collect_handler_scope :: collector where
  "collect_handler_scope eng input = en_handler_scope eng (di_document input)"

definition collect_handler_members :: collector where
  "collect_handler_members eng input = en_handler_members eng (di_document input) (di_index input)"

definition collect_handler_struct_literals :: collector where
  "collect_handler_struct_literals eng input = en_handler_struct_literals eng (di_document input) (di_index input)"

definition collect_security :: collector where
  "collect_security eng input = en_security eng (di_document input) (di_index input)"

definition collect_pda :: collector where
  "collect_pda eng input =
     seed_resolution_diagnostics (en_parse_url eng) (pd_source (di_document input)) (pd_symbols (di_document input))"

definition collect_code_quality :: collector where
  "collect_code_quality eng input = en_code_quality eng (di_document input) (di_framework input)"

definition collect_check_cfg :: collector where
  "collect_check_cfg eng input =
     (case di_manifest input of
        None \<Rightarrow> []
      | Some (manifest_uri, manifest) \<Rightarrow>
          en_check_cfg eng (di_document input) manifest_uri manifest
            (map_option snd (di_workspace_manifest input)))"

definition collect_project_identity :: collector where
  "collect_project_identity eng input =
     (case (di_uri input, di_anchor_toml input) of
        (Some uri, Some (anchor_toml_uri, anchor_toml_text)) \<Rightarrow>
          project_identity_collect (en_parse_url eng) (en_parse_anchor_toml eng) (en_host eng)
            (di_document input) uri anchor_toml_uri anchor_toml_text
      | _ \<Rightarrow> [])"

definition collect_artifacts :: collector where
  "collect_artifacts eng input =
     (case di_uri input of
        None \<Rightarrow> []
      | Some uri \<Rightarrow>
          artifacts_collect (en_parse_url eng) (en_parse_manifest eng) (en_parse_anchor_toml eng) (en_parse_document eng)
            (en_parse_json eng) (en_host eng) (en_modified eng) (di_document input) uri (di_program input))"

definition collect_ecosystem :: collector where
  "collect_ecosystem eng input =
     (case di_uri input of None \<Rightarrow> [] | Some uri \<Rightarrow> en_ecosystem eng (di_document input) uri (di_program input))"

definition mk_rule :: "string \<Rightarrow> diagnostic_phase \<Rightarrow> framework_set \<Rightarrow> collector \<Rightarrow> diagnostic_rule" where
  "mk_rule name phase frameworks collector =
     \<lparr>dr_id = name, dr_phase = phase, dr_frameworks = frameworks, dr_collector = collector\<rparr>"

definition RULES :: "diagnostic_rule list" where
  "RULES =
     [mk_rule ''anchor-syn'' SyntaxPhase ANCHOR_FRAMEWORKS collect_anchor_syn,
      mk_rule ''context-accounts'' AnchorStructure ANCHOR_FRAMEWORKS collect_context_accounts,
      mk_rule ''instruction-attributes'' AnchorStructure ANCHOR_FRAMEWORKS collect_instruction_attributes,
      mk_rule ''initialization'' AnchorStructure ANCHOR_FRAMEWORKS collect_initialization,
      mk_rule ''handler-scope'' AnchorStructure ANCHOR_FRAMEWORKS collect_handler_scope,
      mk_rule ''handler-members'' AnchorStructure ANCHOR_FRAMEWORKS collect_handler_members,
      mk_rule ''handler-struct-literals'' AnchorStructure ANCHOR_FRAMEWORKS collect_handler_struct_literals,
      mk_rule ''account-references'' AnchorUsage ANCHOR_FRAMEWORKS collect_account_references,
      mk_rule ''constraint-expressions'' AnchorUsage ANCHOR_FRAMEWORKS collect_constraint_expressions,
      mk_rule ''constraint-shape'' AnchorUsage ANCHOR_FRAMEWORKS collect_constraint_shape,
      mk_rule ''spl-semantics'' AnchorUsage ANCHOR_FRAMEWORKS collect_spl_semantics,
      mk_rule ''account-usage'' AnchorUsage ANCHOR_FRAMEWORKS collect_account_usage,
      mk_rule ''security'' SecurityPhase ANCHOR_FRAMEWORKS collect_security,
      mk_rule ''pda'' SecurityPhase ANCHOR_FRAMEWORKS collect_pda,
      mk_rule ''code-quality'' SecurityPhase SOLANA_PROGRAMS collect_code_quality,
      mk_rule ''check-cfg'' ProjectPhase ANCHOR_FRAMEWORKS collect_check_cfg,
      mk_rule ''project-identity'' ProjectPhase ANCHOR_FRAMEWORKS collect_project_identity,
      mk_rule ''artifacts'' ProjectPhase SOLANA_PROGRAMS collect_artifacts,
      mk_rule ''ecosystem'' ProjectPhase SOLANA_PROGRAMS collect_ecosystem]"

subsection \<open>A run\<close>

definition rule_runs :: "diagnostic_phase option \<Rightarrow> framework_id \<Rightarrow> diagnostic_rule \<Rightarrow> bool" where
  "rule_runs max_phase framework r \<longleftrightarrow>
     \<not> (case max_phase of None \<Rightarrow> False | Some p \<Rightarrow> dr_phase r > p) \<and>
     framework_set_contains (dr_frameworks r) framework"

definition input_suppressions :: "diagnostic_input \<Rightarrow> suppression_config" where
  "input_suppressions input =
     \<lparr>seagrass_toml = map_option snd (di_seagrass_toml input),
      manifest_text = map_option snd (di_manifest input),
      workspace_manifest_text = map_option snd (di_workspace_manifest input)\<rparr>"

definition raw_diagnostics :: "engine \<Rightarrow> diagnostic_input \<Rightarrow> diagnostic_phase option \<Rightarrow> diagnostic list" where
  "raw_diagnostics eng input max_phase =
     concat (map (\<lambda>r. dr_collector r eng input) (filter (rule_runs max_phase (di_framework input)) RULES))"

definition collect_through_phase ::
  "engine \<Rightarrow> diagnostic_input \<Rightarrow> diagnostic_phase option \<Rightarrow> diagnostic list" where
  "collect_through_phase eng input max_phase =
     (let ds = arbitrate (en_parse_url eng) (raw_diagnostics eng input max_phase) (di_settings input);
          ds = suppression_filter (en_config_parsers eng) (pd_source (di_document input))
                 (en_attributes eng (di_document input)) (input_suppressions input) ds;
          ds = enrich_current_document_related_information (en_parse_url eng) (di_document input) ds;
          ds = enrich_confidence_related_information (en_parse_url eng) ds
      in case di_uri input of
           Some uri \<Rightarrow> bind_current_document_related_uri uri ds
         | None \<Rightarrow> ds)"

definition collect :: "engine \<Rightarrow> diagnostic_input \<Rightarrow> diagnostic list" where
  "collect eng input = collect_through_phase eng input None"

definition collect_hot :: "engine \<Rightarrow> diagnostic_input \<Rightarrow> diagnostic list" where
  "collect_hot eng input = collect_through_phase eng input (Some AnchorStructure)"

definition collect_with_workspace ::
  "engine \<Rightarrow> parsed_document \<Rightarrow> workspace_index option \<Rightarrow> diagnostic list" where
  "collect_with_workspace eng doc ix =
     collect eng
       \<lparr>di_document = doc, di_uri = None, di_index = ix,
        di_framework = framework_from_document (en_visited eng doc) (pd_source doc),
        di_manifest = None, di_workspace_manifest = None, di_anchor_toml = None, di_seagrass_toml = None,
        di_program = None, di_settings = default_settings\<rparr>"

subsection \<open>What is published\<close>

lemma same_core_trans: "same_core a b \<Longrightarrow> same_core b c \<Longrightarrow> same_core a c"
  by (cases a, cases b, cases c) (simp add: same_core_def)

lemma suppresses_core:
  assumes "same_core a b"
  shows "suppresses ix a \<longleftrightarrow> suppresses ix b"
proof -
  have "pattern_matches a = pattern_matches b"
    using same_core_frame [OF assms] by (simp add: pattern_matches_def fun_eq_iff)
  then show ?thesis using same_core_frame [OF assms] by (simp add: suppresses_def)
qed

text \<open>No related information of the diagnostic refers to the placeholder document when the document has
  a URI of its own.\<close>

definition placeholder_free :: "url option \<Rightarrow> diagnostic \<Rightarrow> bool" where
  "placeholder_free doc_uri d \<longleftrightarrow>
     \<not> (\<exists>uri info. doc_uri = Some uri \<and> uri \<noteq> CURRENT_DOCUMENT_PLACEHOLDER_URI \<and>
          info \<in> related_set d \<and> loc_uri (rel_location info) = CURRENT_DOCUMENT_PLACEHOLDER_URI)"

definition run_suppressions :: "engine \<Rightarrow> diagnostic_input \<Rightarrow> suppression_index" where
  "run_suppressions eng input =
     suppression_index_of (en_config_parsers eng) (pd_source (di_document input))
       (en_attributes eng (di_document input)) (input_suppressions input)"

lemma collect_source:
  assumes "d \<in> set (collect_through_phase eng input max_phase)"
  obtains s where "s \<in> set (arbitrate (en_parse_url eng) (raw_diagnostics eng input max_phase) (di_settings input))"
    "same_core d s" "\<not> suppresses (run_suppressions eng input) s"
    "placeholder_free (di_uri input) d"
proof -
  let ?enrich = "\<lambda>s. enrich_confidence (en_parse_url eng) (enrich_current_document (en_parse_url eng) (di_document input) s)"
  let ?bind = "\<lambda>d. case di_uri input of Some uri \<Rightarrow> d\<lparr>d_related := map_option (map (bind_info uri)) (d_related d)\<rparr> | None \<Rightarrow> d"
  have "set (collect_through_phase eng input max_phase) =
      (\<lambda>s. ?bind (?enrich s)) ` {s \<in> set (arbitrate (en_parse_url eng) (raw_diagnostics eng input max_phase) (di_settings input)).
         \<not> suppresses (run_suppressions eng input) s}"
    by (cases "di_uri input")
       (auto simp: collect_through_phase_def Let_def suppression_filter_def run_suppressions_def
         enrich_current_document_related_information_def enrich_confidence_related_information_def
         bind_current_document_related_uri_def)
  with assms obtain s where s: "d = ?bind (?enrich s)"
    "s \<in> set (arbitrate (en_parse_url eng) (raw_diagnostics eng input max_phase) (di_settings input))"
    "\<not> suppresses (run_suppressions eng input) s"
    by blast
  have "same_core (?enrich s) s"
    by (rule same_core_trans [OF enrich_confidence_core enrich_current_document_core])
  then have core: "same_core d s"
    unfolding s(1) by (cases "di_uri input") (auto intro: same_core_trans [OF bind_core])
  have "placeholder_free (di_uri input) d"
    unfolding s(1) by (auto simp: placeholder_free_def related_set_bind bind_info_uri)
  with s core that show thesis by blast
qed

lemma raw_diagnostics_iff:
  "e \<in> set (raw_diagnostics eng input max_phase) \<longleftrightarrow>
     (\<exists>r \<in> set RULES. rule_runs max_phase (di_framework input) r \<and> e \<in> set (dr_collector r eng input))"
  by (auto simp: raw_diagnostics_def)

text \<open>C18: Every published diagnostic was found by a rule that the framework and the phase enable, let
  through by the settings and differs from what the rule found in severity and related
  information only; no suppression applies to it, and it refers to no placeholder document.\<close>

theorem published_diagnostics_justified:
  "set (collect_through_phase eng input max_phase) \<subseteq>
     {d. (\<exists>r e e'. r \<in> set RULES \<and> rule_runs max_phase (di_framework input) r \<and> e \<in> set (dr_collector r eng input) \<and>
            apply_settings_one (di_settings input) e = Some e' \<and> same_core d e') \<and>
         \<not> suppresses (run_suppressions eng input) d \<and>
         placeholder_free (di_uri input) d}"
proof
  fix d assume "d \<in> set (collect_through_phase eng input max_phase)"
  then obtain s where s: "s \<in> set (arbitrate (en_parse_url eng) (raw_diagnostics eng input max_phase) (di_settings input))"
    "same_core d s" "\<not> suppresses (run_suppressions eng input) s"
    and bound: "placeholder_free (di_uri input) d"
    by (rule collect_source)
  obtain e e' where "e \<in> set (raw_diagnostics eng input max_phase)"
    "apply_settings_one (di_settings input) e = Some e'" "same_core s e'"
    by (rule arbitrate_source [OF s(1)])
  with s(2) have "\<exists>r e e'. r \<in> set RULES \<and> rule_runs max_phase (di_framework input) r \<and>
      e \<in> set (dr_collector r eng input) \<and> apply_settings_one (di_settings input) e = Some e' \<and> same_core d e'"
    using raw_diagnostics_iff same_core_trans by blast
  moreover have "\<not> suppresses (run_suppressions eng input) d" using s(2,3) suppresses_core by blast
  ultimately show "d \<in> {d. (\<exists>r e e'. r \<in> set RULES \<and> rule_runs max_phase (di_framework input) r \<and>
            e \<in> set (dr_collector r eng input) \<and>
            apply_settings_one (di_settings input) e = Some e' \<and> same_core d e') \<and>
         \<not> suppresses (run_suppressions eng input) d \<and>
         placeholder_free (di_uri input) d}"
    using bound by blast
qed

subsection \<open>Frameworks and phases\<close>

text \<open>On a program without Anchor only the three rules for all Solana programs run, whatever the phase;
  on a source without any evidence every rule does.\<close>

lemma rules_without_anchor:
  "r \<in> set RULES \<Longrightarrow> \<not> is_anchor f \<Longrightarrow> f \<noteq> Unknown \<Longrightarrow>
     rule_runs None f r \<longleftrightarrow> dr_id r \<in> {''code-quality'', ''artifacts'', ''ecosystem''}"
  by (auto simp: RULES_def mk_rule_def rule_runs_def anchor_rules_apply solana_rules_apply)

lemma rules_on_unknown: "r \<in> set RULES \<Longrightarrow> rule_runs None Unknown r"
  by (auto simp: RULES_def mk_rule_def rule_runs_def anchor_rules_apply solana_rules_apply)

lemma hot_rules:
  "map dr_id (filter (rule_runs (Some AnchorStructure) AnchorV1) RULES) =
     [''anchor-syn'', ''context-accounts'', ''instruction-attributes'', ''initialization'', ''handler-scope'',
      ''handler-members'', ''handler-struct-literals'']"
  by (simp add: RULES_def mk_rule_def rule_runs_def anchor_rules_apply solana_rules_apply is_anchor_def
      less_diagnostic_phase_def)

lemma phases_ascending: "sorted (map dr_phase RULES)"
  by (simp add: RULES_def mk_rule_def less_eq_diagnostic_phase_def)

subsection \<open>A manifest that silences its programs\<close>

lemma any_pattern_matches: "pattern_matches d ANY_SUPPRESSION_PATTERN"
  by (simp add: pattern_matches_def suppression_matches_def)

lemma suppresses_any: "ANY_SUPPRESSION_PATTERN \<in> set (file_patterns ix) \<Longrightarrow> suppresses ix d"
  using any_pattern_matches [of d] by (auto simp: suppresses_def list_ex_iff)

lemma file_patterns_extend [simp]: "file_patterns (extend_line n ps ix) = file_patterns ix"
  by (simp add: extend_line_def)

lemma file_patterns_comment: "set (file_patterns ix) \<subseteq> set (file_patterns (collect_comment source n comment ix))"
  by (auto simp: collect_comment_def Let_def split: option.splits)

lemma file_patterns_line: "set (file_patterns ix) \<subseteq> set (file_patterns (collect_line source l ix))"
  using file_patterns_comment by (auto simp: collect_line_def split: option.splits prod.splits)

lemma file_patterns_lines: "set (file_patterns ix) \<subseteq> set (file_patterns (fold (collect_line source) ls ix))"
proof (induction ls arbitrary: ix)
  case (Cons l ls)
  show ?case using file_patterns_line [of ix source l] Cons [of "collect_line source l ix"] by simp
qed simp

lemma manifest_pattern:
  assumes "cargo_manifest_suppresses_all ps (manifest_text config)"
  shows "ANY_SUPPRESSION_PATTERN \<in> set (file_patterns (suppression_index_of ps source nodes config))"
proof -
  have "ANY_SUPPRESSION_PATTERN \<in> set (file_patterns (collect_workspace_suppressions ps config Suppression.empty_index))"
    using assms by (simp add: collect_workspace_suppressions_def Let_def)
  then show ?thesis
    using file_patterns_lines
    by (auto simp: suppression_index_of_def collect_attribute_suppressions_def collect_comment_suppressions_def)
qed

text \<open>C19: A manifest with the suppression entry silences every rule for all documents that have no manifest
  nearer to them, in whatever directory it lies, also in one that the search for Anchor.toml and
  Seagrass.toml refuses because other users can write to it.\<close>

theorem nearest_manifest_silences:
  assumes "di_manifest input = nearest_manifest (en_host eng) uri"
    and "search_start (en_host eng) uri = Some start" "closest_manifest (en_host eng) start dir"
    and "read_limited_text (en_host eng) (dir @ [CARGO_TOML_FILE]) = Some content"
    and "host_from_path (en_host eng) (dir @ [CARGO_TOML_FILE]) = Some manifest_uri"
    and "cargo_manifest_suppresses_all (en_config_parsers eng) (Some content)"
  shows "collect_through_phase eng input max_phase = []"
proof -
  have "nearest_manifest (en_host eng) uri = Some (manifest_uri, content)"
    using assms(2-5) by (auto simp: nearest_manifest_exact)
  with assms(1,6) have "cargo_manifest_suppresses_all (en_config_parsers eng) (manifest_text (input_suppressions input))"
    by (simp add: input_suppressions_def)
  then have "suppresses (run_suppressions eng input) s" for s
    unfolding run_suppressions_def by (intro suppresses_any manifest_pattern)
  then have "d \<notin> set (collect_through_phase eng input max_phase)" for d
    by (metis collect_source)
  then have "set (collect_through_phase eng input max_phase) = {}" by (auto simp only: set_eq_iff empty_iff)
  then show ?thesis by simp
qed

definition silencing_toml :: toml where
  "silencing_toml =
     TomlTable [(''package'', TomlTable [(''metadata'', TomlTable [(''seagrass'',
       TomlTable [(''suppress'', TomlBool True)])])])]"

definition sample_engine :: engine where
  "sample_engine =
     \<lparr>en_anchor_syn = (\<lambda>_ _ _. []), en_context_accounts = (\<lambda>_ _. []),
      en_handler_scope = (\<lambda>_. []), en_handler_members = (\<lambda>_ _. []),
      en_handler_struct_literals = (\<lambda>_ _. []), en_account_references = (\<lambda>_ _. []),
      en_constraint_expressions = (\<lambda>_ _. []),
      en_account_usage = (\<lambda>_ _. []), en_security = (\<lambda>_ _. []),
      en_code_quality = (\<lambda>_ _. [sample_diagnostic ''unchecked arithmetic'' ''high'']),
      en_check_cfg = (\<lambda>_ _ _ _. []), en_ecosystem = (\<lambda>_ _ _. []),
      en_parse_url = Some, en_parse_seed = (\<lambda>_. None), en_parse_manifest = (\<lambda>_. None), en_parse_anchor_toml = (\<lambda>_. None),
      en_parse_document = (\<lambda>_. None), en_parse_json = (\<lambda>_. Inl []),
      en_host = planted_host, en_modified = (\<lambda>_. None),
      en_config_parsers = \<lparr>parse_allowed = (\<lambda>_. None), parse_toml = (\<lambda>_. Some silencing_toml)\<rparr>,
      en_attributes = (\<lambda>_. []), en_visited = (\<lambda>_. [])\<rparr>"

definition sample_input :: "parsed_document \<Rightarrow> diagnostic_input" where
  "sample_input doc =
     \<lparr>di_document = doc, di_uri = None, di_index = None, di_framework = Unknown,
      di_manifest = nearest_manifest planted_host ''file:///tmp/job/lib.rs'', di_workspace_manifest = None,
      di_anchor_toml = None, di_seagrass_toml = None, di_program = None, di_settings = default_settings\<rparr>"

lemma nearest_manifest_silences_witness:
  "is_shared_directory planted_host [''tmp''] \<and> (\<forall>doc. collect_through_phase sample_engine (sample_input doc) None = [])"
proof (intro conjI allI)
  show "is_shared_directory planted_host [''tmp'']"
    by (simp add: is_shared_directory_def shared_parents_def)
  fix doc
  show "collect_through_phase sample_engine (sample_input doc) None = []"
  proof (rule nearest_manifest_silences [where dir = "[''tmp'']"])
    show "di_manifest (sample_input doc) = nearest_manifest (en_host sample_engine) ''file:///tmp/job/lib.rs''"
      by (simp add: sample_input_def sample_engine_def)
    show "search_start (en_host sample_engine) ''file:///tmp/job/lib.rs'' = Some [''tmp'', ''job'']"
      by (simp add: sample_engine_def search_start_def planted_host_def is_file_def)
    have "strict_prefix [''tmp''] d \<Longrightarrow> prefix d [''tmp'', ''job''] \<Longrightarrow> d = [''tmp'', ''job'']" for d
      by (auto simp: prefix_Cons strict_prefix_def)
    then show "closest_manifest (en_host sample_engine) [''tmp'', ''job''] [''tmp'']"
      by (auto simp: closest_manifest_def sample_engine_def planted_host_def is_file_def CARGO_TOML_FILE_def)
    show "read_limited_text (en_host sample_engine) ([''tmp''] @ [CARGO_TOML_FILE]) = Some []"
      by (simp add: sample_engine_def planted_host_def CARGO_TOML_FILE_def read_limited_text_def utf8_def)
    show "host_from_path (en_host sample_engine) ([''tmp''] @ [CARGO_TOML_FILE]) = Some ''Cargo.toml''"
      by (simp add: sample_engine_def planted_host_def CARGO_TOML_FILE_def)
    show "cargo_manifest_suppresses_all (en_config_parsers sample_engine) (Some [])"
      by (simp add: sample_engine_def cargo_manifest_suppresses_all_def silencing_toml_def toml_bool_at_path_def
          PACKAGE_SUPPRESS_PATH_def)
  qed
qed

end
