(* ===== verification/Edit_Distance.thy ===== *)
theory Edit_Distance
  imports Utf8_Text
begin

section \<open>The edit distance\<close>

text \<open>
  \<open>edit_distance\<close> of \<open>src/lsp/actions/common.rs\<close>, which ranks replacements for a misspelled name:
  two rows of the table of distances between prefixes, filled character by character.  It is shown
  to be the least number of insertions, deletions and substitutions of characters that lead from
  the one string to the other.
\<close>

subsection \<open>The code\<close>

text \<open>The inner loop; \<open>j\<close> is \<open>right_idx\<close>.\<close>

fun row_loop :: "nat list \<Rightarrow> 'a \<Rightarrow> nat list \<Rightarrow> nat \<Rightarrow> 'a list \<Rightarrow> nat list" where
  "row_loop previous left_ch current j [] = current"
| "row_loop previous left_ch current j (right_ch # rs) =
     (let substitution = previous ! j + (if left_ch \<noteq> right_ch then 1 else 0);
          insertion = current ! j + 1;
          deletion = previous ! (j + 1) + 1 in
      row_loop previous left_ch (current @ [min (min substitution insertion) deletion]) (j + 1) rs)"

fun distance_loop :: "nat list \<Rightarrow> nat \<Rightarrow> 'a list \<Rightarrow> 'a list \<Rightarrow> nat list" where
  "distance_loop previous left_idx [] right_chars = previous"
| "distance_loop previous left_idx (left_ch # ls) right_chars =
     distance_loop (row_loop previous left_ch [left_idx + 1] 0 right_chars) (left_idx + 1) ls right_chars"

definition edit_distance :: "string \<Rightarrow> string \<Rightarrow> nat" where
  "edit_distance left right =
     (let right_chars = utf8_chars right in
      distance_loop [0..<length right_chars + 1] 0 (utf8_chars left) right_chars ! length right_chars)"

subsection \<open>The recursive distance\<close>

fun lev :: "'a list \<Rightarrow> 'a list \<Rightarrow> nat" where
  "lev [] ys = length ys"
| "lev (x # xs) [] = Suc (length xs)"
| "lev (x # xs) (y # ys) =
     min (min (lev xs ys + (if x \<noteq> y then 1 else 0)) (lev (x # xs) ys + 1)) (lev xs (y # ys) + 1)"

lemma lev_Nil2 [simp]: "lev xs [] = length xs"
  by (cases xs) auto

text \<open>The entry of the table for two prefixes.\<close>

definition entry :: "'a list \<Rightarrow> 'a list \<Rightarrow> nat \<Rightarrow> nat" where
  "entry ls rs j = lev (rev ls) (rev (take j rs))"

lemma entry_Suc:
  "j < length rs \<Longrightarrow> entry (ls @ [a]) rs (Suc j) =
     min (min (entry ls rs j + (if a \<noteq> rs ! j then 1 else 0)) (entry (ls @ [a]) rs j + 1))
       (entry ls rs (Suc j) + 1)"
  by (simp add: entry_def take_Suc_conv_app_nth)

lemma row_loop_entries:
  assumes "rs = drop j all" "j \<le> length all"
    and "previous = map (entry ls all) [0..<length all + 1]"
    and "current = map (entry (ls @ [a]) all) [0..<j + 1]"
  shows "row_loop previous a current j rs = map (entry (ls @ [a]) all) [0..<length all + 1]"
  using assms
proof (induction rs arbitrary: j current)
  case (Cons r rs)
  then have j: "j < length all" by (metis drop_eq_Nil list.distinct(1) not_le)
  then have r: "all ! j = r" and rs: "rs = drop (Suc j) all" using Cons.prems(1)
    by (metis Cons_nth_drop_Suc list.inject)+
  have "entry (ls @ [a]) all (Suc j) =
      min (min (previous ! j + (if a \<noteq> r then 1 else 0)) (current ! j + 1)) (previous ! (j + 1) + 1)"
    using j Cons.prems(3,4) r by (simp add: entry_Suc nth_append del: upt_Suc)
  then have "row_loop previous a current j (r # rs) =
      row_loop previous a (map (entry (ls @ [a]) all) [0..<Suc j + 1]) (Suc j) rs"
    using Cons.prems(4) by (simp add: Let_def)
  also have "\<dots> = map (entry (ls @ [a]) all) [0..<length all + 1]"
    using j rs Cons.prems(3) by (intro Cons.IH) auto
  finally show ?case .
qed simp

lemma distance_loop_entries:
  "previous = map (entry ds rs) [0..<length rs + 1] \<Longrightarrow> left_idx = length ds \<Longrightarrow>
     distance_loop previous left_idx ls rs = map (entry (ds @ ls) rs) [0..<length rs + 1]"
proof (induction ls arbitrary: ds previous left_idx)
  case (Cons a ls)
  have "row_loop previous a [left_idx + 1] 0 rs = map (entry (ds @ [a]) rs) [0..<length rs + 1]"
    using Cons.prems by (intro row_loop_entries) (simp_all add: entry_def)
  from Cons.IH [OF this] Cons.prems(2) show ?case by simp
qed simp

lemma edit_distance_lev: "edit_distance left right = lev (rev (utf8_chars left)) (rev (utf8_chars right))"
proof -
  let ?r = "utf8_chars right"
  have "[0..<length ?r + 1] = map (entry [] ?r) [0..<length ?r + 1]"
    by (rule nth_equalityI) (simp_all add: entry_def del: upt_Suc)
  from distance_loop_entries [OF this, of 0 "utf8_chars left"] show ?thesis
    by (simp add: edit_distance_def entry_def del: upt_Suc)
qed

subsection \<open>The least number of edits\<close>

inductive_set edit_step :: "('a list \<times> 'a list) set" where
  insert_char: "(us @ vs, us @ [c] @ vs) \<in> edit_step"
| delete_char: "(us @ [c] @ vs, us @ vs) \<in> edit_step"
| replace_char: "(us @ [c] @ vs, us @ [d] @ vs) \<in> edit_step"

lemma edit_step_Cons: "(xs, ys) \<in> edit_step \<Longrightarrow> (c # xs, c # ys) \<in> edit_step"
  by (erule edit_step.cases) (metis append_Cons edit_step.intros)+

lemma edit_steps_Cons: "(xs, ys) \<in> edit_step ^^ n \<Longrightarrow> (c # xs, c # ys) \<in> edit_step ^^ n"
  by (induction n arbitrary: ys) (auto intro: edit_step_Cons)

lemma edit_step_rev: "(xs, ys) \<in> edit_step \<Longrightarrow> (rev xs, rev ys) \<in> edit_step"
proof (erule edit_step.cases)
  fix us vs and c :: 'a
  assume "xs = us @ vs" "ys = us @ [c] @ vs"
  then show ?thesis using insert_char [of "rev vs" "rev us" c] by simp
next
  fix us vs and c :: 'a
  assume "xs = us @ [c] @ vs" "ys = us @ vs"
  then show ?thesis using delete_char [of "rev vs" c "rev us"] by simp
next
  fix us vs and c d :: 'a
  assume "xs = us @ [c] @ vs" "ys = us @ [d] @ vs"
  then show ?thesis using replace_char [of "rev vs" c "rev us" d] by simp
qed

lemma edit_steps_rev: "(xs, ys) \<in> edit_step ^^ n \<Longrightarrow> (rev xs, rev ys) \<in> edit_step ^^ n"
  by (induction n arbitrary: ys) (auto intro: edit_step_rev)

lemma delete_all: "(xs, []) \<in> edit_step ^^ length xs"
proof (induction xs)
  case (Cons x xs)
  have "(x # xs, xs) \<in> edit_step" using delete_char [of "[]" x xs] by simp
  with Cons show ?case by (metis length_Cons relpow_Suc_I2)
qed simp

lemma insert_all: "([], ys) \<in> edit_step ^^ length ys"
proof (induction ys)
  case (Cons y ys)
  have "(ys, y # ys) \<in> edit_step" using insert_char [of "[]" ys y] by simp
  with Cons show ?case by auto
qed simp

lemma lev_reachable: "(xs, ys) \<in> edit_step ^^ lev xs ys"
proof (induction xs ys rule: lev.induct)
  case (1 ys)
  then show ?case by (simp add: insert_all)
next
  case (2 x xs)
  then show ?case using delete_all [of "x # xs"] by simp
next
  case (3 x xs y ys)
  have subst: "(x # xs, y # ys) \<in> edit_step ^^ (lev xs ys + (if x \<noteq> y then 1 else 0))"
  proof (cases "x = y")
    case True
    then show ?thesis using edit_steps_Cons [OF "3.IH"(1)] by simp
  next
    case False
    have "(x # ys, y # ys) \<in> edit_step" using replace_char [of "[]" x ys y] by simp
    with edit_steps_Cons [OF "3.IH"(1), of x] False show ?thesis by auto
  qed
  have "(ys, y # ys) \<in> edit_step" using insert_char [of "[]" ys y] by simp
  with "3.IH"(2) have ins: "(x # xs, y # ys) \<in> edit_step ^^ (lev (x # xs) ys + 1)" by auto
  have "(x # xs, xs) \<in> edit_step" using delete_char [of "[]" x xs] by simp
  with "3.IH"(3) have del: "(x # xs, y # ys) \<in> edit_step ^^ (lev xs (y # ys) + 1)"
    by (metis Suc_eq_plus1 relpow_Suc_I2)
  show ?case unfolding lev.simps min_def using subst ins del by presburger
qed

text \<open>One edit of the first string changes the distance by at most one.\<close>

lemma min3_mono:
  "a \<le> a' + 1 \<Longrightarrow> b \<le> b' + 1 \<Longrightarrow> c \<le> c' + 1 \<Longrightarrow> min (min a b) c \<le> min (min a' b') c' + (1 :: nat)"
  by linarith

lemma lev_insert_second: "lev xs (z # zs) \<le> lev xs zs + 1"
  by (cases xs) auto

lemma lev_delete_first: "lev (x # xs) zs \<le> lev xs zs + 1"
  by (cases zs) auto

lemma lev_drop_hd: "lev xs zs \<le> lev (x # xs) zs + 1"
proof (induction zs)
  case (Cons z zs)
  have "lev xs (z # zs) \<le> lev xs zs + 1" by (rule lev_insert_second)
  with Cons have "min (min (lev xs (z # zs)) (lev xs (z # zs))) (lev xs (z # zs)) \<le> lev (x # xs) (z # zs) + 1"
    unfolding lev.simps by (intro min3_mono) simp_all
  then show ?case by simp
qed simp

lemma lev_replace_hd: "lev (c # xs) zs \<le> lev (d # xs) zs + 1"
proof (induction zs)
  case (Cons z zs)
  then show ?case unfolding lev.simps by (intro min3_mono) simp_all
qed simp

lemma lev_Cons_mono:
  assumes "\<And>zs. lev xs zs \<le> lev ys zs + 1" "length xs \<le> length ys + 1"
  shows "lev (u # xs) zs \<le> lev (u # ys) zs + 1"
proof (induction zs)
  case (Cons z zs)
  have "lev xs zs \<le> lev ys zs + 1" "lev xs (z # zs) \<le> lev ys (z # zs) + 1" by (rule assms(1))+
  with Cons show ?case unfolding lev.simps by (intro min3_mono) simp_all
qed (use assms(2) in simp)

lemma lev_append_mono:
  assumes "\<And>zs. lev xs zs \<le> lev ys zs + 1" "length xs \<le> length ys + 1"
  shows "lev (us @ xs) zs \<le> lev (us @ ys) zs + 1"
proof (induction us arbitrary: zs)
  case (Cons u us)
  show ?case
    unfolding append_Cons by (rule lev_Cons_mono [OF Cons.IH]) (use assms(2) in simp)
qed (use assms(1) in simp)

lemma lev_step: "(xs, ys) \<in> edit_step \<Longrightarrow> lev xs zs \<le> lev ys zs + 1"
proof (erule edit_step.cases)
  fix us vs and c :: 'a
  assume "xs = us @ vs" "ys = us @ [c] @ vs"
  then show ?thesis using lev_append_mono [OF lev_drop_hd, where us = us and zs = zs] by simp
next
  fix us vs and c :: 'a
  assume "xs = us @ [c] @ vs" "ys = us @ vs"
  then show ?thesis using lev_append_mono [OF lev_delete_first, where us = us and zs = zs] by simp
next
  fix us vs and c d :: 'a
  assume "xs = us @ [c] @ vs" "ys = us @ [d] @ vs"
  then show ?thesis using lev_append_mono [OF lev_replace_hd, where us = us and zs = zs] by simp
qed

lemma lev_self: "lev xs xs = 0"
  by (induction xs) auto

lemma lev_least: "(xs, ys) \<in> edit_step ^^ n \<Longrightarrow> lev xs ys \<le> n"
proof (induction n arbitrary: xs)
  case 0
  then show ?case by (simp add: lev_self)
next
  case (Suc n)
  then obtain zs where "(xs, zs) \<in> edit_step" "(zs, ys) \<in> edit_step ^^ n" by (meson relpow_Suc_D2)
  with Suc.IH lev_step [of xs zs ys] show ?case by fastforce
qed

text \<open>C32: The edit distance of two strings is the least number of insertions, deletions and
  substitutions of single characters that lead from the first to the second.\<close>

theorem edit_distance_least:
  "edit_distance left right = (LEAST n. (utf8_chars left, utf8_chars right) \<in> edit_step ^^ n)"
proof (rule Least_equality [symmetric])
  show "(utf8_chars left, utf8_chars right) \<in> edit_step ^^ edit_distance left right"
    using edit_steps_rev [OF lev_reachable [of "rev (utf8_chars left)" "rev (utf8_chars right)"]]
    by (simp add: edit_distance_lev)
  show "edit_distance left right \<le> n" if "(utf8_chars left, utf8_chars right) \<in> edit_step ^^ n" for n
    using lev_least [OF edit_steps_rev [OF that]] by (simp add: edit_distance_lev)
qed

lemma edit_distance_example: "edit_distance ''authorty'' ''authority'' = 1"
  by code_simp

end
