(* ===== verification/Action_Edits.thy ===== *)
theory Action_Edits
  imports Edit_Distance Shape_Support Text_Positions
begin

section \<open>Text edits of code actions\<close>

text \<open>
  Models the rest of \<open>src/lsp/actions/common.rs\<close>: snippet templates and the store that remembers
  them for edits (the store of the process is threaded through), distances between ranges, the
  end of a text, the edit that adds a constraint, and the candidates for a signer.
\<close>

record text_edit =
  te_range :: range
  te_new_text :: string

record snippet_edit_key =
  sk_start_line :: u32
  sk_start_character :: u32
  sk_end_line :: u32
  sk_end_character :: u32
  sk_materialized :: string

type_synonym snippet_store = "(snippet_edit_key, string) hmap"

definition POSITION_CHARACTER_STRIDE :: u64 where
  "POSITION_CHARACTER_STRIDE = 1000000"

definition SNIPPET_TEMPLATE_CACHE_LIMIT :: nat where
  "SNIPPET_TEMPLATE_CACHE_LIMIT = 1024"

subsection \<open>Snippet templates\<close>

text \<open>The state of the loop is the rest of the template.  A placeholder ends at the first brace;
  its default text is a template again.\<close>

definition take_until_placeholder_end :: "string \<Rightarrow> string" where
  "take_until_placeholder_end cs = takeWhile (\<lambda>c. c \<noteq> CHR ''}'') cs"

definition after_placeholder :: "string \<Rightarrow> string" where
  "after_placeholder cs = drop 1 (dropWhile (\<lambda>c. c \<noteq> CHR ''}'') cs)"

definition consume_digits :: "string \<Rightarrow> string" where
  "consume_digits cs = dropWhile is_ascii_digit cs"

function materialize_snippet_template :: "string \<Rightarrow> string"
  and materialize_placeholder :: "string \<Rightarrow> string" where
  "materialize_snippet_template [] = []"
| "materialize_snippet_template (c # cs) =
     (if c = BACKSLASH \<and> prefix ''$'' cs then CHR ''$'' # materialize_snippet_template (drop 1 cs)
      else if c \<noteq> CHR ''$'' then c # materialize_snippet_template cs
      else
        case cs of
          [] \<Rightarrow> ''$''
        | d # ds \<Rightarrow>
            if d = CHR ''{'' then
              materialize_placeholder (take_until_placeholder_end ds) @
              materialize_snippet_template (after_placeholder ds)
            else if is_ascii_digit d then materialize_snippet_template (consume_digits cs)
            else CHR ''$'' # materialize_snippet_template cs)"
| "materialize_placeholder placeholder =
     (let digits_len = length (takeWhile is_ascii_digit placeholder);
          v = drop digits_len placeholder in
      if digits_len = 0 then ''${'' @ placeholder @ ''}''
      else if prefix '':'' v then materialize_snippet_template (drop 1 v)
      else
        case Option.bind (strip_prefix ''|'' v) (strip_suffix ''|'') of
          Some choices \<Rightarrow> hd (split_char CHR '','' choices)
        | None \<Rightarrow> [])"
  by pat_completeness auto

termination
proof (relation "measure (\<lambda>x. case x of Inl s \<Rightarrow> 2 * length s | Inr s \<Rightarrow> 2 * length s + 1)", goal_cases)
  case (4 c cs d ds)
  have "length (takeWhile (\<lambda>c. c \<noteq> CHR ''}'') ds) \<le> length ds" by (rule length_takeWhile_le)
  with 4 show ?case by (simp add: take_until_placeholder_end_def)
next
  case (5 c cs d ds)
  have "length (dropWhile (\<lambda>c. c \<noteq> CHR ''}'') ds) \<le> length ds" by (rule length_dropWhile_le)
  with 5 show ?case by (simp add: after_placeholder_def)
next
  case (6 c cs d ds)
  have "length (dropWhile is_ascii_digit cs) \<le> length cs" by (rule length_dropWhile_le)
  with 6 show ?case by (simp add: consume_digits_def)
qed auto

declare materialize_placeholder.simps [simp del]

subsection \<open>The store of templates\<close>

definition snippet_edit_key :: "range \<Rightarrow> string \<Rightarrow> snippet_edit_key" where
  "snippet_edit_key r materialized =
     \<lparr>sk_start_line = pos_line (range_start r), sk_start_character = pos_character (range_start r),
      sk_end_line = pos_line (range_end r), sk_end_character = pos_character (range_end r),
      sk_materialized = materialized\<rparr>"

definition remember_snippet_template :: "range \<Rightarrow> string \<Rightarrow> string \<Rightarrow> snippet_store \<Rightarrow> snippet_store" where
  "remember_snippet_template r materialized template snippets =
     (if template = materialized then snippets
      else
        let snippets = (if length snippets \<ge> SNIPPET_TEMPLATE_CACHE_LIMIT then [] else snippets) in
        hm_put (snippet_edit_key r materialized) template snippets)"

definition snippet_template_for_edit :: "snippet_store \<Rightarrow> range \<Rightarrow> string \<Rightarrow> string option" where
  "snippet_template_for_edit snippets r materialized = map_of snippets (snippet_edit_key r materialized)"

definition snippet_text_edit :: "range \<Rightarrow> string \<Rightarrow> snippet_store \<Rightarrow> text_edit \<times> snippet_store" where
  "snippet_text_edit r template snippets =
     (let materialized = materialize_snippet_template template in
      (\<lparr>te_range = r, te_new_text = materialized\<rparr>,
       remember_snippet_template r materialized template snippets))"

subsection \<open>Diagnostics and ranges\<close>

definition seagrass_code :: "diagnostic \<Rightarrow> string option" where
  "seagrass_code d = (if d_source d \<noteq> Some SOURCE then None else string_code (d_code d))"

definition diagnostic_quickfix :: "diagnostic \<Rightarrow> string option" where
  "diagnostic_quickfix d = data_str ''quickfix'' (d_data d)"

definition saturating_mul :: "'n::len word \<Rightarrow> 'n word \<Rightarrow> 'n word" where
  "saturating_mul a b = (if unat a * unat b < 2 ^ LENGTH('n) then a * b else - 1)"

definition word_saturating_sub :: "'n::len word \<Rightarrow> 'n word \<Rightarrow> 'n word" where
  "word_saturating_sub a b = (if b \<le> a then a - b else 0)"

definition position_key :: "position \<Rightarrow> u64" where
  "position_key p =
     saturating_add (saturating_mul (ucast (pos_line p)) POSITION_CHARACTER_STRIDE) (ucast (pos_character p))"

definition keys_touch :: "range \<Rightarrow> range \<Rightarrow> bool" where
  "keys_touch left right \<longleftrightarrow>
     position_key (range_start left) \<le> position_key (range_end right) \<and>
     position_key (range_start right) \<le> position_key (range_end left)"

definition diagnostic_touches_range :: "diagnostic \<Rightarrow> range \<Rightarrow> bool" where
  "diagnostic_touches_range d cursor = keys_touch (d_range d) cursor"

definition is_point_range :: "range \<Rightarrow> bool" where
  "is_point_range r \<longleftrightarrow> range_start r = range_end r"

definition range_distance :: "range \<Rightarrow> range \<Rightarrow> u64" where
  "range_distance left right =
     (if keys_touch left right then 0
      else if position_key (range_end left) < position_key (range_start right)
      then word_saturating_sub (position_key (range_start right)) (position_key (range_end left))
      else word_saturating_sub (position_key (range_start left)) (position_key (range_end right)))"

subsection \<open>The end of a text\<close>

definition len_utf16 :: "string \<Rightarrow> u32" where
  "len_utf16 c = (if length c = 4 then 2 else 1)"

definition eof_step :: "string \<Rightarrow> u32 \<times> u32 \<Rightarrow> u32 \<times> u32" where
  "eof_step c p =
     (if c = [NEWLINE] then (saturating_add (fst p) 1, 0)
      else (fst p, saturating_add (snd p) (len_utf16 c)))"

definition eof_range :: "string \<Rightarrow> range" where
  "eof_range source =
     (let p = fold eof_step (utf8_chars source) (0, 0);
          position = \<lparr>pos_line = fst p, pos_character = snd p\<rparr> in
      \<lparr>range_start = position, range_end = position\<rparr>)"

subsection \<open>Templates\<close>

text \<open>The template for a text: every dollar sign is escaped.\<close>

fun escape_dollars :: "string \<Rightarrow> string" where
  "escape_dollars [] = []"
| "escape_dollars (c # cs) = (if c = CHR ''$'' then [BACKSLASH, c] else [c]) @ escape_dollars cs"

lemma escape_no_dollar: "\<not> prefix ''$'' (escape_dollars s)"
  by (cases s) (auto simp: BACKSLASH_def)

text \<open>Escaping every dollar sign of a text gives a template that stands for the text.\<close>

theorem materialize_escaped: "materialize_snippet_template (escape_dollars s) = s"
proof (induction s)
  case (Cons c s)
  show ?case
  proof (cases "c = CHR ''$''")
    case True
    with Cons show ?thesis by (simp add: BACKSLASH_def)
  next
    case False
    with Cons escape_no_dollar [of s] show ?thesis by simp
  qed
qed simp

text \<open>A placeholder inside the default text of another ends the outer one too early.\<close>

lemma nested_placeholder_broken: "materialize_snippet_template ''${1:a${2:b}}'' = ''ab}''"
  by code_simp

subsection \<open>The store\<close>

definition store_ok :: "snippet_store \<Rightarrow> bool" where
  "store_ok snippets \<longleftrightarrow> hm_wf snippets \<and> length snippets \<le> SNIPPET_TEMPLATE_CACHE_LIMIT"

lemma length_hm_put: "length (hm_put k v m) \<le> Suc (length m)"
  by (induction k v m rule: hm_put.induct) auto

lemma snippet_edit_key_eq: "snippet_edit_key r m = snippet_edit_key r' m' \<longleftrightarrow> r = r' \<and> m = m'"
  by (cases r; cases r'; cases "range_start r"; cases "range_end r"; cases "range_start r'"; cases "range_end r'")
     (auto simp: snippet_edit_key_def)

text \<open>C33: The store of templates never has more than 1,024 entries.  After an edit with
  placeholders was built, its template is found under its range and text, and every other template
  that is found was there before.\<close>

theorem snippet_store_sound:
  assumes "store_ok snippets" "snippet_text_edit r template snippets = (edit, snippets')"
  shows "store_ok snippets' \<and>
    (if template \<noteq> te_new_text edit then snippet_template_for_edit snippets' r (te_new_text edit) = Some template
     else snippets' = snippets) \<and>
    (\<forall>r' t'. snippet_template_for_edit snippets' r' t' \<noteq> None \<longrightarrow>
       (r', t') = (r, te_new_text edit) \<or>
       snippet_template_for_edit snippets' r' t' = snippet_template_for_edit snippets r' t')"
proof -
  have edit: "edit = \<lparr>te_range = r, te_new_text = materialize_snippet_template template\<rparr>"
    and store: "snippets' = remember_snippet_template r (te_new_text edit) template snippets"
    using assms(2) by (auto simp: snippet_text_edit_def Let_def)
  have "store_ok snippets'"
    using assms(1) length_hm_put [of "snippet_edit_key r (te_new_text edit)" template snippets]
    by (auto simp: store store_ok_def remember_snippet_template_def Let_def hm_wf_put SNIPPET_TEMPLATE_CACHE_LIMIT_def)
  moreover have "if template \<noteq> te_new_text edit
      then snippet_template_for_edit snippets' r (te_new_text edit) = Some template else snippets' = snippets"
    by (simp add: store remember_snippet_template_def snippet_template_for_edit_def map_of_hm_put Let_def)
  moreover have "(r', t) = (r, te_new_text edit) \<or>
      snippet_template_for_edit snippets' r' t = snippet_template_for_edit snippets r' t"
    if "snippet_template_for_edit snippets' r' t \<noteq> None" for r' t
    using that
    by (auto simp: store remember_snippet_template_def snippet_template_for_edit_def map_of_hm_put Let_def
        snippet_edit_key_eq split: if_splits)
  ultimately show ?thesis by blast
qed

definition origin_range :: range where
  "origin_range = \<lparr>range_start = \<lparr>pos_line = 0, pos_character = 0\<rparr>, range_end = \<lparr>pos_line = 0, pos_character = 0\<rparr>\<rparr>"

theorem snippet_store_sound_witness:
  "snippet_template_for_edit (snd (snippet_text_edit origin_range ''${1:T}'' [])) origin_range ''T'' = Some ''${1:T}''"
proof -
  have plain: "materialize_snippet_template ''${1:T}'' = ''T''" by code_simp
  obtain edit snippets' where edit: "snippet_text_edit origin_range ''${1:T}'' [] = (edit, snippets')" by fastforce
  have "store_ok []" by (simp add: store_ok_def)
  from snippet_store_sound [OF this edit] have "''${1:T}'' \<noteq> te_new_text edit \<longrightarrow>
      snippet_template_for_edit snippets' origin_range (te_new_text edit) = Some ''${1:T}''" by auto
  moreover have "te_new_text edit = ''T''" using edit plain by (auto simp: snippet_text_edit_def Let_def)
  ultimately show ?thesis using edit by simp
qed

text \<open>
  A plain edit leaves an older template of the same range and text in the store: the client then
  gets the placeholder for an edit that has none.  The document is no part of the key.
\<close>

lemma stale_template_found:
  "let snippets = snd (snippet_text_edit r ''${1:T}'' []) in
   let (edit, snippets') = snippet_text_edit r ''T'' snippets in
   snippet_template_for_edit snippets' r (te_new_text edit) = Some ''${1:T}''"
proof -
  have "materialize_snippet_template ''${1:T}'' = ''T''" "materialize_snippet_template ''T'' = ''T''"
    by code_simp+
  then show ?thesis
    by (simp add: snippet_text_edit_def Let_def remember_snippet_template_def snippet_template_for_edit_def
        SNIPPET_TEMPLATE_CACHE_LIMIT_def)
qed

subsection \<open>Keys of positions\<close>

lemma unat_position_key:
  "unat (position_key p) = unat (pos_line p) * 1000000 + unat (pos_character p)"
proof -
  have l: "unat (pos_line p) < 2 ^ 32" and c: "unat (pos_character p) < 2 ^ 32"
    using unsigned_less [of "pos_line p"] unsigned_less [of "pos_character p"] by simp_all
  have line: "unat (ucast (pos_line p) :: u64) = unat (pos_line p)"
    and char: "unat (ucast (pos_character p) :: u64) = unat (pos_character p)"
    using l c by (simp_all add: unsigned_ucast_eq take_bit_nat_eq_self_iff)
  have m: "unat (saturating_mul (ucast (pos_line p)) POSITION_CHARACTER_STRIDE) = unat (pos_line p) * 1000000"
    using l by (simp add: saturating_mul_def POSITION_CHARACTER_STRIDE_def line unat_word_ariths)
  show ?thesis
    using l c by (simp add: position_key_def unat_saturating_add m char)
qed

lemma stride_le:
  assumes "c < k" "d < (k :: nat)"
  shows "a * k + c \<le> b * k + d \<longleftrightarrow> a < b \<or> a = b \<and> c \<le> d"
proof (cases a b rule: linorder_cases)
  case less
  then have "Suc a * k \<le> b * k" by (intro mult_le_mono1) simp
  with less assms show ?thesis by simp
next
  case greater
  then have "Suc b * k \<le> a * k" by (intro mult_le_mono1) simp
  with greater assms show ?thesis by simp
qed simp

lemma position_key_le:
  assumes "unat (pos_character p) < 1000000" "unat (pos_character q) < 1000000"
  shows "position_key p \<le> position_key q \<longleftrightarrow> position_le p q"
proof -
  have "position_key p \<le> position_key q \<longleftrightarrow>
      unat (pos_line p) * 1000000 + unat (pos_character p) \<le> unat (pos_line q) * 1000000 + unat (pos_character q)"
    by (simp add: word_le_nat_alt unat_position_key)
  also have "\<dots> \<longleftrightarrow> unat (pos_line p) < unat (pos_line q) \<or>
      unat (pos_line p) = unat (pos_line q) \<and> unat (pos_character p) \<le> unat (pos_character q)"
    by (rule stride_le [OF assms])
  also have "\<dots> \<longleftrightarrow> position_le p q"
    by (simp add: position_le_def word_less_nat_alt word_le_nat_alt word_unat_eq_iff)
  finally show ?thesis .
qed

definition columns_below_stride :: "range \<Rightarrow> bool" where
  "columns_below_stride r \<longleftrightarrow>
     unat (pos_character (range_start r)) < 1000000 \<and> unat (pos_character (range_end r)) < 1000000"

text \<open>The test by keys is the test of the arbitration as long as columns are below the stride, and the
  distance is the number of characters between ranges of one line.\<close>

lemma keys_touch_iff:
  "columns_below_stride a \<Longrightarrow> columns_below_stride b \<Longrightarrow> keys_touch a b \<longleftrightarrow> ranges_touch a b"
  by (simp add: columns_below_stride_def keys_touch_def ranges_touch_def position_key_le)

lemma range_distance_zero_iff:
  "columns_below_stride a \<Longrightarrow> columns_below_stride b \<Longrightarrow>
     range_distance a b = 0 \<longleftrightarrow> ranges_touch a b"
proof -
  assume *: "columns_below_stride a" "columns_below_stride b"
  have pos: "word_saturating_sub x y \<noteq> 0" if "y < x" for x y :: u64
    using that by (auto simp: word_saturating_sub_def)
  have "range_distance a b \<noteq> 0" if not: "\<not> keys_touch a b"
  proof (cases "position_key (range_end a) < position_key (range_start b)")
    case True
    with not pos [OF True] show ?thesis by (simp add: range_distance_def)
  next
    case False
    with not have "position_key (range_end b) < position_key (range_start a)" by (auto simp: keys_touch_def not_le)
    from pos [OF this] not False show ?thesis by (simp add: range_distance_def)
  qed
  moreover have "range_distance a b = 0" if "keys_touch a b" using that by (simp add: range_distance_def)
  ultimately show ?thesis unfolding keys_touch_iff [OF *, symmetric] by blast
qed

subsection \<open>The end of a text is its last offset\<close>

lemma fold_eof_line:
  "list_all (\<lambda>c. c \<noteq> [NEWLINE]) cs \<Longrightarrow> unat k + (\<Sum>c \<leftarrow> cs. if length c = 4 then 2 else 1) < 2 ^ 32 \<Longrightarrow>
     fst (fold eof_step cs (l, k)) = l \<and>
     unat (snd (fold eof_step cs (l, k))) = unat k + (\<Sum>c \<leftarrow> cs. if length c = 4 then 2 else 1)"
proof (induction cs arbitrary: k)
  case (Cons c cs)
  have "unat (saturating_add k (len_utf16 c)) = unat k + (if length c = 4 then 2 else 1)"
    using Cons.prems(2) by (auto simp: unat_saturating_add len_utf16_def)
  with Cons show ?case by (simp add: eof_step_def add.assoc)
qed simp

lemma fold_eof_lines:
  "unat l + length (filter (\<lambda>c. c = [NEWLINE]) cs) < 2 ^ 32 \<Longrightarrow>
     unat (fst (fold eof_step cs (l, k))) = unat l + length (filter (\<lambda>c. c = [NEWLINE]) cs) \<and>
     (cs \<noteq> [] \<and> last cs = [NEWLINE] \<longrightarrow> snd (fold eof_step cs (l, k)) = 0)"
proof (induction cs arbitrary: l k)
  case (Cons c cs)
  show ?case
  proof (cases "c = [NEWLINE]")
    case True
    have "unat (saturating_add l 1) = unat l + 1" using Cons.prems True by (simp add: unat_saturating_add)
    with Cons.IH [of "saturating_add l 1" 0] Cons.prems True show ?thesis by (cases "cs = []") (auto simp: eof_step_def)
  next
    case False
    with Cons.IH [of l "saturating_add k (len_utf16 c)"] Cons.prems show ?thesis
      by (cases "cs = []") (auto simp: eof_step_def)
  qed
qed simp

lemma utf8_newline_chars:
  assumes "utf8 s"
  shows "NEWLINE \<notin> set s \<Longrightarrow> list_all (\<lambda>c. c \<noteq> [NEWLINE]) (utf8_chars s)"
    "s = [] \<or> last s = NEWLINE \<Longrightarrow> length (split_inclusive s) = length (filter (\<lambda>c. c = [NEWLINE]) (utf8_chars s))"
    "s \<noteq> [] \<Longrightarrow> last s = NEWLINE \<Longrightarrow> last (utf8_chars s) = [NEWLINE]"
proof -
  have nl: "c = [NEWLINE]" if "c \<in> set (utf8_chars s)" "NEWLINE \<in> set c" for c
    using that assms by (auto simp: utf8_def list_all_iff intro: utf8_char_newline_mem)
  show "list_all (\<lambda>c. c \<noteq> [NEWLINE]) (utf8_chars s)" if "NEWLINE \<notin> set s"
  proof -
    have "set c \<subseteq> set s" if "c \<in> set (utf8_chars s)" for c
      using that concat_utf8_chars [of s] by (metis UN_upper set_concat)
    with that show ?thesis by (fastforce simp: list_all_iff)
  qed
  have count: "length (filter (\<lambda>c. c = NEWLINE) (concat cs)) = length (filter (\<lambda>c. c = [NEWLINE]) cs)"
    if "\<forall>c \<in> set cs. NEWLINE \<in> set c \<longrightarrow> c = [NEWLINE]" for cs
    using that
  proof (induction cs)
    case (Cons c cs)
    then show ?case by (cases "NEWLINE \<in> set c") (auto simp: filter_empty_conv)
  qed simp
  show "length (split_inclusive s) = length (filter (\<lambda>c. c = [NEWLINE]) (utf8_chars s))"
    if "s = [] \<or> last s = NEWLINE"
    using length_split_inclusive [OF that] count [of "utf8_chars s"] nl by simp
  show "last (utf8_chars s) = [NEWLINE]" if "s \<noteq> []" "last s = NEWLINE"
  proof -
    have ne: "utf8_chars s \<noteq> []" using that(1) by simp
    then have "last (utf8_chars s) \<noteq> []" using utf8_chars_shape last_in_set by blast
    moreover have "last s = last (last (utf8_chars s))"
      using concat_utf8_chars [of s] ne calculation
      by (metis append_butlast_last_id concat.simps concat_append last_appendR append_Nil2)
    ultimately have "NEWLINE \<in> set (last (utf8_chars s))" using that(2) last_in_set by metis
    then show ?thesis using nl ne last_in_set by blast
  qed
qed

text \<open>In a text of fewer than 2 to the 32 bytes whose characters all lie in the basic plane, the
  position that \<open>eof_range\<close> computes is the offset of the end.\<close>

theorem eof_range_is_end:
  assumes "utf8 source" "length source < 2 ^ 32" "list_all (\<lambda>c. length c \<noteq> 4) (utf8_chars source)"
  shows "byte_offset_at source (range_start (eof_range source)) = Some (length source)"
proof -
  obtain a m where am: "source = a @ m" "a = [] \<or> last a = NEWLINE" "NEWLINE \<notin> set m"
    using split_last_line by blast
  have m: "at_boundary m" "utf8 m" "utf8 a" using utf8_last_line [of a m] assms(1) am by auto
  have chars: "utf8_chars source = utf8_chars a @ utf8_chars m" using am(1) m(1) by (simp add: utf8_chars_append)
  have count_le: "char_count s \<le> length s" for s
    by (induction s rule: utf8_chars.induct) (auto simp: char_count_def intro: order.trans [OF _ length_dropWhile_le])
  have bmp: "(\<Sum>c \<leftarrow> utf8_chars m. if length c = 4 then 2 else 1) = char_count m"
    using assms(3) chars char_count_eq_utf16 [of m] by (simp add: utf16_units_def)
  let ?p = "fold eof_step (utf8_chars a) (0, 0)"
  have "length (filter (\<lambda>c. c = [NEWLINE]) (utf8_chars a)) \<le> char_count a" by (simp add: char_count_def)
  then have small: "length (filter (\<lambda>c. c = [NEWLINE]) (utf8_chars a)) < 2 ^ 32"
    using count_le [of a] assms(2) am(1) by simp
  have lines: "unat (fst ?p) = length (split_inclusive a)" "snd ?p = 0"
    using fold_eof_lines [of 0 "utf8_chars a" 0] small am(2)
      utf8_newline_chars(2) [OF m(3) am(2)] utf8_newline_chars(3) [OF m(3)]
    by (cases "a = []"; simp)+
  then obtain l where p: "?p = (l, 0)" by (metis prod.collapse)
  have "unat (fst (fold eof_step (utf8_chars m) ?p)) = length (split_inclusive a) \<and>
      unat (snd (fold eof_step (utf8_chars m) ?p)) = char_count m"
    using fold_eof_line [OF utf8_newline_chars(1) [OF m(2) am(3)], of 0 l]
      count_le [of m] assms(2) am(1) lines(1) bmp by (simp add: p)
  then have pos: "unat (pos_line (range_start (eof_range source))) = length (split_inclusive a)"
      "unat (pos_character (range_start (eof_range source))) = char_count m"
    by (simp_all add: eof_range_def Let_def chars)
  have pieces: "split_inclusive source = split_inclusive a @ split_inclusive m"
    using am(1,2) by (simp add: split_inclusive_append)
  show ?thesis
  proof (cases "m = []")
    case True
    with pos pieces am(1) show ?thesis by (simp add: byte_offset_at_def offset_at_eq Let_def char_count_def)
  next
    case False
    then have last: "split_inclusive m = [m]" using am(3) by (simp add: split_inclusive_no_newline)
    have "\<not> suffix [NEWLINE] m" using am(3) by (auto simp: suffix_def)
    then have "strip_newline m = m" by (simp add: strip_newline_def strip_suffix_def)
    moreover have "byte_offset_for_character m (char_count m) = Some (length m)"
      by (simp add: byte_offset_for_character_iff char_count_def)
    ultimately show ?thesis
      using pos pieces last am(1) by (simp add: byte_offset_at_def offset_at_eq Let_def nth_append)
  qed
qed

end
