(* ===== verification/Constraint_Edits.thy ===== *)
theory Constraint_Edits
  imports Action_Edits Attribute_Cursor Text_Sync
begin

section \<open>Edits of account attributes\<close>

text \<open>
  The second half of \<open>src/lsp/actions/common.rs\<close>: the edit that adds a constraint to an attribute
  or a field, the searches for the lines of a struct, the candidate for a signer, and the searches
  for characters that are no white space.
\<close>

subsection \<open>Adding a constraint\<close>

definition point_range :: "u32 \<Rightarrow> u32 \<Rightarrow> range" where
  "point_range line character =
     \<lparr>range_start = \<lparr>pos_line = line, pos_character = character\<rparr>,
      range_end = \<lparr>pos_line = line, pos_character = character\<rparr>\<rparr>"

text \<open>The edit of a line with \<open>)]\<close> at \<open>close_idx\<close>.  The store is not touched on the early return.\<close>

definition close_edit ::
  "u32 \<Rightarrow> string \<Rightarrow> nat \<Rightarrow> string \<Rightarrow> snippet_store \<Rightarrow> text_edit option \<times> snippet_store" where
  "close_edit line_number line close_idx addition snippets =
     (let before_close = take close_idx line in
      if trim before_close = [] then
        let (edit, snippets) = snippet_text_edit (point_range line_number 0)
              (before_close @ addition @ '','' @ [NEWLINE]) snippets in
        (Some edit, snippets)
      else
        let separator = (if suffix ''('' (trim_end before_close) \<or> suffix '','' (trim_end before_close)
                         then [] else '', '') in
        case u32_try_from close_idx of
          None \<Rightarrow> (None, snippets)
        | Some character \<Rightarrow>
            let (edit, snippets) = snippet_text_edit (point_range line_number character)
                  (separator @ addition) snippets in
            (Some edit, snippets))"

fun add_constraint_loop ::
  "string \<Rightarrow> nat list \<Rightarrow> string \<Rightarrow> snippet_store \<Rightarrow> text_edit option \<times> snippet_store" where
  "add_constraint_loop source [] addition snippets = (None, snippets)"
| "add_constraint_loop source (n # ns) addition snippets =
     (case line_at source n of
        None \<Rightarrow> (None, snippets)
      | Some line \<Rightarrow>
          (case str_rfind '')]'' line of
             Some close_idx \<Rightarrow> close_edit (of_nat n) line close_idx addition snippets
           | None \<Rightarrow> add_constraint_loop source ns addition snippets))"

definition lines_of_range :: "range \<Rightarrow> nat list" where
  "lines_of_range r = [unat (pos_line (range_start r)) ..< unat (pos_line (range_end r)) + 1]"

definition add_constraint_edit ::
  "parsed_document \<Rightarrow> range \<Rightarrow> string \<Rightarrow> snippet_store \<Rightarrow> text_edit option \<times> snippet_store" where
  "add_constraint_edit doc attribute_range addition snippets =
     add_constraint_loop (pd_source doc) (lines_of_range attribute_range) addition snippets"

definition add_constraint_to_field_edit ::
  "parsed_document \<Rightarrow> symbol_range \<Rightarrow> string \<Rightarrow> snippet_store \<Rightarrow> text_edit option \<times> snippet_store" where
  "add_constraint_to_field_edit doc field addition snippets =
     (case sr_account_constraints field of
        constraint # _ \<Rightarrow> add_constraint_edit doc (ac_range constraint) addition snippets
      | [] \<Rightarrow>
          let line_number = pos_line (range_start (sr_selection_range field)) in
          case line_at (pd_source doc) (unat line_number) of
            None \<Rightarrow> (None, snippets)
          | Some line \<Rightarrow>
              let indent = concat (takeWhile is_ws (utf8_chars line));
                  (edit, snippets) = snippet_text_edit (point_range line_number 0)
                    (indent @ ''#[account('' @ addition @ '')]'' @ [NEWLINE]) snippets in
              (Some edit, snippets))"

subsection \<open>Lines of a struct\<close>

text \<open>\<open>str::split\<close> with a predicate on characters: always at least one piece.\<close>

fun split_at :: "('a \<Rightarrow> bool) \<Rightarrow> 'a list \<Rightarrow> 'a list list" where
  "split_at p [] = [[]]"
| "split_at p (c # s) =
     (if p c then [] # split_at p s
      else (case split_at p s of [] \<Rightarrow> [[c]] | w # ws \<Rightarrow> (c # w) # ws))"

definition identifier_char :: "string \<Rightarrow> bool" where
  "identifier_char ch \<longleftrightarrow> list_all (\<lambda>b. is_ascii_alphanumeric b \<or> b = CHR ''_'') ch"

definition declares_struct :: "string \<Rightarrow> string \<Rightarrow> bool" where
  "declares_struct name line \<longleftrightarrow>
     str_contains ''struct'' line \<and>
     name \<in> set (map concat (split_at (\<lambda>ch. \<not> identifier_char ch) (utf8_chars line)))"

definition struct_line :: "string \<Rightarrow> string \<Rightarrow> u32 option" where
  "struct_line source name =
     find_map (\<lambda>(idx, line). if declares_struct name line then u32_try_from idx else None)
       (enumerate 0 (text_lines source))"

definition field_indent :: "parsed_document \<Rightarrow> symbol_range \<Rightarrow> string" where
  "field_indent doc accounts =
     unwrap_or ''    ''
       (find_map (\<lambda>line.
          let trimmed = trim_start line in
          if prefix ''#[account'' trimmed \<or> (prefix ''pub '' trimmed \<and> str_contains '':'' trimmed)
          then Some (take (length line - length trimmed) line) else None)
        (List.map_filter (line_at (pd_source doc)) (lines_of_range (sr_range accounts))))"

definition account_struct_closing_line :: "parsed_document \<Rightarrow> symbol_range \<Rightarrow> u32 option" where
  "account_struct_closing_line doc accounts =
     map_option of_nat
       (find (\<lambda>n. case line_at (pd_source doc) n of None \<Rightarrow> False | Some line \<Rightarrow> prefix ''}'' (trim_start line))
         (rev (lines_of_range (sr_range accounts))))"

subsection \<open>Signers\<close>

definition has_constraint_key_boundary :: "string \<Rightarrow> nat \<Rightarrow> nat \<Rightarrow> bool" where
  "has_constraint_key_boundary s idx key_len \<longleftrightarrow>
     (idx = 0 \<or> \<not> word_char (s ! (idx - 1))) \<and>
     (idx + key_len \<ge> length s \<or> \<not> word_char (s ! (idx + key_len)))"

text \<open>The loop, which would not end for an empty key.\<close>

partial_function (option) key_search :: "string \<Rightarrow> string \<Rightarrow> nat \<Rightarrow> bool option" where
  "key_search s key search_end =
     (case str_rfind key (take search_end s) of
        None \<Rightarrow> Some False
      | Some idx \<Rightarrow>
          if has_constraint_key_boundary s idx (length key) then Some True
          else key_search s key idx)"

definition key_in_constraint :: "string \<Rightarrow> string \<Rightarrow> bool option" where
  "key_in_constraint s key = key_search s key (length s)"

text \<open>\<open>any\<close> over the constraints; \<open>None\<close> when a search does not end.\<close>

fun any_option :: "bool option list \<Rightarrow> bool option" where
  "any_option [] = Some False"
| "any_option (x # xs) = Option.bind x (\<lambda>b. if b then Some True else any_option xs)"

definition field_has_constraint_key :: "symbol_range \<Rightarrow> string \<Rightarrow> bool option" where
  "field_has_constraint_key field key =
     any_option (map (\<lambda>c. key_in_constraint (ac_text c) key) (sr_account_constraints field))"

definition is_signer :: "symbol_range \<Rightarrow> bool option" where
  "is_signer field =
     (if sr_type_name field = Some ''Signer'' then Some True else field_has_constraint_key field ''signer'')"

definition signer_score :: "symbol_range \<Rightarrow> nat \<times> u32 \<times> u32" where
  "signer_score field =
     (if sr_type_name field = Some ''Signer'' then 0 else 1,
      pos_line (range_start (sr_selection_range field)), pos_character (range_start (sr_selection_range field)))"

text \<open>\<open>is_signer\<close> always returns (lemma \<open>is_signer_total\<close> below).\<close>

definition signer_candidate :: "symbol_range list \<Rightarrow> string option" where
  "signer_candidate fs =
     map_option sr_name (min_by_key signer_score (filter (\<lambda>field. is_signer field = Some True) fs))"

subsection \<open>Small searches\<close>

definition parser_rule_kind :: "diagnostic \<Rightarrow> string option" where
  "parser_rule_kind d =
     Option.bind (Option.bind (d_data d) (json_get ''parserRule'')) (\<lambda>rule.
     Option.bind (json_get ''kind'' rule) as_str)"

definition previous_non_ws :: "string list \<Rightarrow> nat \<Rightarrow> nat option" where
  "previous_non_ws chars start =
     (if start \<le> length chars then
        find_map (\<lambda>(idx, ch). if \<not> is_ws ch then Some idx else None) (rev (enumerate 0 (take start chars)))
      else None)"

definition next_non_ws :: "string list \<Rightarrow> nat \<Rightarrow> nat option" where
  "next_non_ws chars start =
     find_map (\<lambda>(idx, ch). if \<not> is_ws ch then Some idx else None) (drop start (enumerate 0 chars))"

subsection \<open>The search for a key ends and is exact\<close>

lemma str_rfind_Some: "str_rfind p s = Some i \<Longrightarrow> i \<le> length s \<and> prefix p (drop i s)"
  by (induction s arbitrary: i) (auto split: if_splits option.splits)

lemma str_rfind_None: "str_rfind p s = None \<longleftrightarrow> (\<forall>j \<le> length s. \<not> prefix p (drop j s))"
proof (induction s)
  case (Cons c s)
  have "(\<forall>j \<le> length (c # s). \<not> prefix p (drop j (c # s))) \<longleftrightarrow>
        \<not> prefix p (c # s) \<and> (\<forall>j \<le> length s. \<not> prefix p (drop j s))"
    by (metis drop0 drop_Suc_Cons le_SucE le0 length_Cons not_less_eq_eq old.nat.exhaust)
  with Cons show ?case by (auto split: option.splits)
qed simp

lemma str_rfind_greatest: "str_rfind p s = Some i \<Longrightarrow> i < j \<Longrightarrow> j \<le> length s \<Longrightarrow> \<not> prefix p (drop j s)"
proof (induction s arbitrary: i j)
  case (Cons c s)
  then obtain j' where j: "j = Suc j'" "j' \<le> length s" by (cases j) auto
  show ?case
  proof (cases "str_rfind p s")
    case None
    with j show ?thesis by (simp add: str_rfind_None)
  next
    case (Some i')
    with Cons.prems j Cons.IH [OF Some, of j'] show ?thesis by simp
  qed
qed simp

lemma prefix_take_iff: "prefix p (take n s) \<longleftrightarrow> length p \<le> n \<and> prefix p s"
proof
  assume "prefix p (take n s)"
  then show "length p \<le> n \<and> prefix p s"
    using prefix_length_le [of p "take n s"] prefix_order.trans [OF _ take_is_prefix] by auto
next
  assume "length p \<le> n \<and> prefix p s"
  then show "prefix p (take n s)"
    using prefix_length_le [of p s] by (intro prefix_length_prefix [OF _ take_is_prefix]) auto
qed

lemma occurrence_before:
  "p \<noteq> [] \<Longrightarrow> prefix p (drop j (take e s)) \<longleftrightarrow> j + length p \<le> e \<and> prefix p (drop j s)"
  by (cases "j \<le> e") (auto simp: drop_take prefix_take_iff)

definition key_occurs :: "string \<Rightarrow> string \<Rightarrow> nat \<Rightarrow> bool" where
  "key_occurs s key i \<longleftrightarrow> prefix key (drop i s) \<and> has_constraint_key_boundary s i (length key)"

lemma key_search_exact:
  assumes "key \<noteq> []" "list_all word_char key" "e \<le> length s"
  shows "key_search s key e = Some (\<exists>i. i + length key \<le> e \<and> key_occurs s key i)"
  using assms(3)
proof (induction e rule: less_induct)
  case (less e)
  show ?case
  proof (cases "str_rfind key (take e s)")
    case None
    then have "\<not> (i + length key \<le> e \<and> prefix key (drop i s))" for i
      using occurrence_before [OF assms(1), of i e s] less.prems by (auto simp: str_rfind_None)
    with None show ?thesis by (subst key_search.simps) (auto simp: key_occurs_def)
  next
    case (Some idx)
    then have idx: "idx + length key \<le> e" "prefix key (drop idx s)"
      using str_rfind_Some [OF Some] occurrence_before [OF assms(1), of idx e s] by auto
    show ?thesis
    proof (cases "has_constraint_key_boundary s idx (length key)")
      case True
      with Some idx show ?thesis by (subst key_search.simps) (auto simp: key_occurs_def)
    next
      case False
      have "i + length key \<le> idx" if i: "i + length key \<le> e" "key_occurs s key i" for i
      proof (rule ccontr)
        assume far: "\<not> i + length key \<le> idx"
        have "\<not> idx < i"
          using str_rfind_greatest [OF Some, of i] occurrence_before [OF assms(1), of i e s] i less.prems
          by (auto simp: key_occurs_def)
        then have "i \<le> idx" by simp
        moreover have "i \<noteq> idx" using False i(2) by (auto simp: key_occurs_def)
        ultimately have d: "i + length key - idx < length key" "idx + (i + length key - idx) = i + length key"
          using far by auto
        from idx(2) have "s ! (i + length key) = key ! (i + length key - idx)"
          using d idx(1) less.prems by (metis nth_drop prefixE nth_append le_add1 le_trans)
        with d(1) assms(2) have "word_char (s ! (i + length key))" by (simp add: list_all_length)
        moreover have "i + length key < length s" using d idx(1) less.prems by linarith
        ultimately show False using i(2) by (auto simp: key_occurs_def has_constraint_key_boundary_def)
      qed
      moreover have "idx < e" using idx(1) assms(1) by (cases key) auto
      ultimately have "(\<exists>i. i + length key \<le> idx \<and> key_occurs s key i) \<longleftrightarrow>
          (\<exists>i. i + length key \<le> e \<and> key_occurs s key i)" by (meson less_imp_le order.trans)
      with \<open>idx < e\<close> show ?thesis
        using Some False less by (subst key_search.simps) simp
    qed
  qed
qed

lemma key_in_constraint_exact:
  assumes "key \<noteq> []" "list_all word_char key"
  shows "key_in_constraint s key = Some (\<exists>i. key_occurs s key i)"
proof -
  have "i + length key \<le> length s" if "key_occurs s key i" for i
    using that assms(1) prefix_length_le [of key "drop i s"] by (cases key) (auto simp: key_occurs_def)
  then show ?thesis using key_search_exact [OF assms order.refl] by (auto simp: key_in_constraint_def)
qed

lemma any_option_total:
  "(\<And>x. x \<in> set xs \<Longrightarrow> f x = Some (P x)) \<Longrightarrow> any_option (map f xs) = Some (\<exists>x \<in> set xs. P x)"
  by (induction xs) auto

text \<open>Whether a field is a signer is always decided: it is one exactly if its type is \<open>Signer\<close> or
  the word \<open>signer\<close> stands in one of its constraints.\<close>

theorem is_signer_exact:
  "is_signer field = Some (sr_type_name field = Some ''Signer'' \<or>
     (\<exists>c \<in> set (sr_account_constraints field). \<exists>i. key_occurs (ac_text c) ''signer'' i))"
proof -
  have "key_in_constraint s ''signer'' = Some (\<exists>i. key_occurs s ''signer'' i)" for s
    by (rule key_in_constraint_exact) (simp, code_simp)
  then show ?thesis
    by (simp add: is_signer_def field_has_constraint_key_def
        any_option_total [where P = "\<lambda>c. \<exists>i. key_occurs (ac_text c) ''signer'' i"])
qed

subsection \<open>Where an added constraint lands\<close>

lemma strip_line_end_prefix: "prefix (strip_line_end l) l"
  by (simp add: strip_line_end_def strip_suffix_def unwrap_or_def take_is_prefix min_def)

text \<open>The line \<open>n\<close> of a text and a column in it.\<close>

lemma line_at_split:
  assumes "line_at source n = Some line"
  obtains a terminator b where "source = a @ line @ terminator @ b" "a = [] \<or> last a = NEWLINE"
    "length (split_inclusive a) = n" "a = concat (take n (split_inclusive source))"
    "split_inclusive source ! n = line @ terminator" "n < length (split_inclusive source)"
proof -
  let ?ls = "split_inclusive source"
  have n: "n < length ?ls" and line: "line = strip_line_end (?ls ! n)"
    using assms by (auto simp: line_at_def text_lines_def split: if_splits)
  obtain terminator where t: "?ls ! n = line @ terminator"
    using strip_line_end_prefix [of "?ls ! n"] unfolding line by (elim prefixE)
  from split_inclusive_take [of n source] n obtain a b where ab: "source = a @ b"
      "split_inclusive a = take n ?ls" "split_inclusive b = drop n ?ls" "b \<noteq> [] \<longrightarrow> a = [] \<or> last a = NEWLINE"
    by auto
  have "b \<noteq> []" using ab(3) n by auto
  have "b = concat (drop n ?ls)" using concat_split_inclusive [of b] ab(3) by simp
  also have "drop n ?ls = (line @ terminator) # drop (Suc n) ?ls" using Cons_nth_drop_Suc [OF n] t by simp
  finally have "source = a @ line @ terminator @ concat (drop (Suc n) ?ls)" using ab(1) by simp
  moreover have "a = concat (take n ?ls)" using concat_split_inclusive [of a] ab(2) by simp
  ultimately show ?thesis using that ab(2,4) \<open>b \<noteq> []\<close> n t by simp
qed

lemma ascii_offset:
  assumes "ascii source" "line_at source n = Some line" "n < 2 ^ 32" "k \<le> length line" "k < 2 ^ 32"
    and "NEWLINE \<notin> set line"
  shows "byte_offset_at source \<lparr>pos_line = of_nat n, pos_character = of_nat k\<rparr> =
    Some (length (concat (take n (split_inclusive source))) + k)"
proof -
  let ?piece = "split_inclusive source ! n"
  from line_at_split [OF assms(2)] obtain a terminator b where s: "source = a @ line @ terminator @ b"
      and piece: "?piece = line @ terminator" and n: "n < length (split_inclusive source)" by metis
  have "prefix line (strip_newline ?piece)"
    using piece assms(6) by (cases terminator rule: rev_cases)
      (auto simp: strip_newline_def unwrap_or_def strip_suffix_def suffix_def dest: arg_cong [where f = last])
  then obtain r where r: "strip_newline ?piece = line @ r" by (elim prefixE)
  have "prefix (strip_newline ?piece) ?piece"
    by (simp add: strip_newline_def strip_suffix_def unwrap_or_def take_is_prefix)
  then have "ascii (line @ r)"
    using assms(1) s piece r by (auto simp: prefix_def)
  then have "byte_offset_for_character (line @ r) k = Some k"
    using assms(4) by (simp add: byte_offset_for_character_iff utf8_chars_ascii char_count_def take_map)
  then show ?thesis
    using n assms(3,5) by (simp add: byte_offset_at_def offset_at_eq Let_def r unat_of_nat)
qed

lemma line_no_newline:
  assumes "line_at source n = Some line"
  shows "NEWLINE \<notin> set line"
proof -
  have "\<forall>p \<in> set (split_inclusive s). NEWLINE \<notin> set (butlast p)" for s
    by (induction s) (auto split: list.splits)
  moreover obtain p where p: "p \<in> set (split_inclusive source)" "line = strip_line_end p"
    using assms nth_mem by (fastforce simp: line_at_def text_lines_def split: if_splits)
  ultimately have butlast: "NEWLINE \<notin> set (butlast p)" by blast
  show ?thesis
  proof (cases "suffix [NEWLINE] p")
    case True
    then obtain q where q: "p = q @ [NEWLINE]" by (auto simp: suffix_def)
    then have "line = unwrap_or q (strip_suffix [CARRIAGE_RETURN] q)"
      using p(2) by (simp add: strip_line_end_def strip_suffix_def)
    then have "prefix line q" by (simp add: strip_suffix_def unwrap_or_def take_is_prefix)
    with butlast q show ?thesis using set_mono_prefix by fastforce
  next
    case False
    then have "line = p" using p(2) by (simp add: strip_line_end_def strip_suffix_def)
    with False butlast show ?thesis by (cases p rule: rev_cases) (auto simp: suffix_def)
  qed
qed

lemma add_constraint_loop_Some:
  "add_constraint_loop source ns addition snippets = (Some edit, snippets') \<Longrightarrow>
     \<exists>n line k. n \<in> set ns \<and> line_at source n = Some line \<and> str_rfind '')]'' line = Some k \<and>
       close_edit (of_nat n) line k addition snippets = (Some edit, snippets')"
  by (induction ns) (auto split: option.splits)

lemma point_change:
  assumes "byte_offset_at source (range_start r) = Some k" "range_end r = range_start r" "is_char_boundary source k"
  shows "apply_content_change source \<lparr>change_range = Some r, change_text = t\<rparr> =
    Inr (take k source @ t @ drop k source)"
  using assms by (simp add: apply_content_change_def replace_range_def)


definition no_symbols :: anchor_symbols where
  "no_symbols =
     \<lparr>all_structs = [], enums = [], accounts_structs = [], account_data_structs = [], constants = [],
      imported_names = [], import_origins = [], has_glob_import = False, has_local_glob_import = False,
      import_aliases = [], value_items = [], associated_value_items = [], derived_init_space_types = {},
      instructions = [], free_functions = [],
      context_references = [], declared_program_id = None, error_codes = []\<rparr>"

definition source_document :: "string \<Rightarrow> parsed_document" where
  "source_document source =
     \<lparr>pd_source = source, pd_symbols = no_symbols, pd_outline = [], pd_attribute_at = (\<lambda>p. None),
      pd_attributes = [], pd_program_module = False\<rparr>"

lemma attribute_edit:
  "add_constraint_edit (source_document ''#[account(mut)]'') origin_range ''signer'' [] =
     (Some \<lparr>te_range = point_range 0 13, te_new_text = '', signer''\<rparr>, [])"
proof -
  have line: "line_at ''#[account(mut)]'' 0 = Some ''#[account(mut)]''" by code_simp
  have close: "str_rfind '')]'' ''#[account(mut)]'' = Some 13" by code_simp
  have before: "trim ''#[account(mut'' \<noteq> []" "\<not> suffix ''('' (trim_end ''#[account(mut'')"
    "\<not> suffix '','' (trim_end ''#[account(mut'')" by code_simp+
  have plain: "materialize_snippet_template '', signer'' = '', signer''" by code_simp
  show ?thesis
    by (simp add: add_constraint_edit_def source_document_def lines_of_range_def origin_range_def line close
        close_edit_def before Let_def u32_try_from_def snippet_text_edit_def plain remember_snippet_template_def)
qed


text \<open>
  Outside ASCII the byte index of \<open>)]\<close> is no column: behind a character of two bytes the constraint
  is put one column late, between the two brackets.
\<close>

definition accented_attribute :: string where
  "accented_attribute = ''#[account(x='' @ [CHR 0xC3, CHR 0xA9] @ '')]''"

lemma added_constraint_misplaced:
  "add_constraint_edit (source_document accented_attribute) origin_range ''signer'' [] =
     (Some \<lparr>te_range = point_range 0 14, te_new_text = '', signer''\<rparr>, [])"
  "apply_content_change accented_attribute
     \<lparr>change_range = Some (point_range 0 14), change_text = '', signer''\<rparr> =
   Inr (''#[account(x='' @ [CHR 0xC3, CHR 0xA9] @ '')'' @ '', signer'' @ '']'')"
proof -
  have line: "line_at accented_attribute 0 = Some accented_attribute"
    and close: "str_rfind '')]'' accented_attribute = Some 14"
    and before: "trim (take 14 accented_attribute) \<noteq> []"
      "\<not> suffix ''('' (trim_end (take 14 accented_attribute))" "\<not> suffix '','' (trim_end (take 14 accented_attribute))"
    and plain: "materialize_snippet_template '', signer'' = '', signer''" by code_simp+
  show "add_constraint_edit (source_document accented_attribute) origin_range ''signer'' [] =
     (Some \<lparr>te_range = point_range 0 14, te_new_text = '', signer''\<rparr>, [])"
    by (simp add: add_constraint_edit_def source_document_def lines_of_range_def origin_range_def line close
        close_edit_def before Let_def u32_try_from_def snippet_text_edit_def plain remember_snippet_template_def)
  have "byte_offset_at accented_attribute (range_start (point_range 0 14)) = Some 15"
    by (simp add: point_range_def byte_offset_at_def offset_at_eq Let_def) code_simp
  then have "apply_content_change accented_attribute
      \<lparr>change_range = Some (point_range 0 14), change_text = '', signer''\<rparr> =
    Inr (take 15 accented_attribute @ '', signer'' @ drop 15 accented_attribute)"
    by (rule point_change) (simp add: point_range_def, code_simp)
  then show "apply_content_change accented_attribute
      \<lparr>change_range = Some (point_range 0 14), change_text = '', signer''\<rparr> =
    Inr (''#[account(x='' @ [CHR 0xC3, CHR 0xA9] @ '')'' @ '', signer'' @ '']'')"
    by (simp add: accented_attribute_def)
qed

end
