(* ===== verification/Snippet_Edits.thy ===== *)
theory Snippet_Edits
  imports Constraint_Edits Json_Value
begin

section \<open>Snippets in code-action responses\<close>

text \<open>
  Models \<open>src/server/snippet_edits.rs\<close>: the layer around the language server that turns the edits
  of code actions back into snippet templates for clients that understand them.  A response is a
  JSON value; the store of templates is the one of \<open>Action_Edits\<close>.  How \<open>serde_json\<close> reads a range
  is the parameter \<open>parse_range\<close>.
\<close>

type_synonym range_parser = "json \<Rightarrow> range option"

definition SNIPPET_INSERT_TEXT_FORMAT :: int where
  "SNIPPET_INSERT_TEXT_FORMAT = 2"

subsection \<open>The service\<close>

definition should_emit_snippets :: "bool \<Rightarrow> bool \<Rightarrow> bool" where
  "should_emit_snippets client_supports_snippet_edits agent_mode \<longleftrightarrow>
     client_supports_snippet_edits \<and> \<not> agent_mode"

definition client_supports_snippet_text_edit :: "json option \<Rightarrow> bool" where
  "client_supports_snippet_text_edit experimental =
     unwrap_or False (data_bool ''snippetTextEdit'' experimental)"

subsection \<open>Single edits\<close>

definition text_edit_snippet_template :: "range_parser \<Rightarrow> snippet_store \<Rightarrow> json \<Rightarrow> string option" where
  "text_edit_snippet_template parse_range snippets edit =
     Option.bind (Option.bind (json_get ''range'' edit) parse_range) (\<lambda>r.
     Option.bind (Option.bind (json_get ''newText'' edit) as_str) (\<lambda>materialized.
       snippet_template_for_edit snippets r materialized))"

definition text_edit_has_snippet_template :: "range_parser \<Rightarrow> snippet_store \<Rightarrow> json \<Rightarrow> bool" where
  "text_edit_has_snippet_template parse_range snippets edit \<longleftrightarrow>
     text_edit_snippet_template parse_range snippets edit \<noteq> None"

definition rewrite_text_edit :: "range_parser \<Rightarrow> snippet_store \<Rightarrow> json \<Rightarrow> json \<times> bool" where
  "rewrite_text_edit parse_range snippets edit =
     (case text_edit_snippet_template parse_range snippets edit of
        None \<Rightarrow> (edit, False)
      | Some template \<Rightarrow>
          (case as_object edit of
             None \<Rightarrow> (edit, False)
           | Some edit_object \<Rightarrow>
               (JObject (jm_insert ''insertTextFormat'' (JInt SNIPPET_INSERT_TEXT_FORMAT)
                  (jm_insert ''newText'' (JString template) edit_object)), True)))"

subsection \<open>Edits of a document\<close>

text \<open>An assignment through \<open>get_mut\<close>, for a key that is there.\<close>

definition json_set :: "string \<Rightarrow> json \<Rightarrow> json \<Rightarrow> json" where
  "json_set key v j = (case as_object j of None \<Rightarrow> j | Some m \<Rightarrow> JObject (jm_insert key v m))"

definition rewrite_text_document_edit :: "range_parser \<Rightarrow> snippet_store \<Rightarrow> json \<Rightarrow> json \<times> bool" where
  "rewrite_text_document_edit parse_range snippets document_change =
     (if json_get ''textDocument'' document_change = None then (document_change, False)
      else
        case Option.bind (json_get ''edits'' document_change) as_array of
          None \<Rightarrow> (document_change, False)
        | Some edits \<Rightarrow>
            let rewritten = map (rewrite_text_edit parse_range snippets) edits in
            (json_set ''edits'' (JArray (map fst rewritten)) document_change, list_ex snd rewritten))"

definition changes_contain_snippet :: "range_parser \<Rightarrow> snippet_store \<Rightarrow> json \<Rightarrow> bool" where
  "changes_contain_snippet parse_range snippets changes =
     list_ex (text_edit_has_snippet_template parse_range snippets)
       (concat (List.map_filter as_array (case as_object changes of None \<Rightarrow> [] | Some m \<Rightarrow> map snd m)))"

text \<open>The loops over the changes; the flag is \<open>snippet_document_edit_used\<close>.\<close>

fun document_changes_loop :: "range_parser \<Rightarrow> snippet_store \<Rightarrow> json list \<Rightarrow> bool \<Rightarrow> json list \<times> bool" where
  "document_changes_loop parse_range snippets [] used = ([], used)"
| "document_changes_loop parse_range snippets (change # changes) used =
     (if used then (change # changes, used)
      else
        let (change, rewritten) = rewrite_text_document_edit parse_range snippets change;
            (changes, used) = document_changes_loop parse_range snippets changes rewritten in
        (change # changes, used))"

definition plain_document_change :: "string \<times> json \<Rightarrow> json" where
  "plain_document_change = (\<lambda>(uri, edits).
     JObject [(''textDocument'', JObject [(''uri'', JString uri), (''version'', JNull)]), (''edits'', edits)])"

fun changes_loop :: "range_parser \<Rightarrow> snippet_store \<Rightarrow> json_map \<Rightarrow> bool \<Rightarrow> json list \<times> bool" where
  "changes_loop parse_range snippets [] used = ([], used)"
| "changes_loop parse_range snippets (change_entry # rest) used =
     (let (change, used) =
            (if used then (plain_document_change change_entry, used)
             else rewrite_text_document_edit parse_range snippets (plain_document_change change_entry));
          (changes, used) = changes_loop parse_range snippets rest used in
      (change # changes, used))"

definition changes_to_document_changes ::
  "range_parser \<Rightarrow> snippet_store \<Rightarrow> json \<Rightarrow> bool \<Rightarrow> json list \<times> bool" where
  "changes_to_document_changes parse_range snippets changes used =
     (case as_object changes of
        None \<Rightarrow> ([], used)
      | Some m \<Rightarrow> changes_loop parse_range snippets m used)"

definition rewrite_document_changes ::
  "range_parser \<Rightarrow> snippet_store \<Rightarrow> json_map \<Rightarrow> bool \<Rightarrow> json_map \<times> bool" where
  "rewrite_document_changes parse_range snippets edit_object used =
     (case Option.bind (map_of edit_object ''documentChanges'') as_array of
        None \<Rightarrow> (edit_object, used)
      | Some document_changes \<Rightarrow>
          let (changes, used) = document_changes_loop parse_range snippets document_changes used in
          (jm_insert ''documentChanges'' (JArray changes) edit_object, used))"

subsection \<open>Actions and responses\<close>

definition rewrite_edit_object ::
  "range_parser \<Rightarrow> snippet_store \<Rightarrow> json_map \<Rightarrow> bool \<Rightarrow> json_map \<times> bool" where
  "rewrite_edit_object parse_range snippets edit_object used =
     (if map_of edit_object ''documentChanges'' \<noteq> None then
        rewrite_document_changes parse_range snippets edit_object used
      else
        case jm_remove ''changes'' edit_object of
          None \<Rightarrow> (edit_object, used)
        | Some (changes, rest) \<Rightarrow>
            if used \<or> \<not> changes_contain_snippet parse_range snippets changes then
              (jm_insert ''changes'' changes rest, used)
            else
              let (document_changes, used) = changes_to_document_changes parse_range snippets changes used in
              (jm_insert ''documentChanges'' (JArray document_changes) rest, used))"

definition rewrite_workspace_edit :: "range_parser \<Rightarrow> snippet_store \<Rightarrow> json \<Rightarrow> bool \<Rightarrow> json \<times> bool" where
  "rewrite_workspace_edit parse_range snippets edit used =
     (case as_object edit of
        None \<Rightarrow> (edit, used)
      | Some edit_object \<Rightarrow>
          let (edit_object, used) = rewrite_edit_object parse_range snippets edit_object used in
          (JObject edit_object, used))"

definition rewrite_action :: "range_parser \<Rightarrow> snippet_store \<Rightarrow> json \<Rightarrow> bool \<Rightarrow> json \<times> bool" where
  "rewrite_action parse_range snippets action used =
     (case json_get ''edit'' action of
        None \<Rightarrow> (action, used)
      | Some edit \<Rightarrow>
          let (edit, used) = rewrite_workspace_edit parse_range snippets edit used in
          (json_set ''edit'' edit action, used))"

fun rewrite_actions :: "range_parser \<Rightarrow> snippet_store \<Rightarrow> json list \<Rightarrow> bool \<Rightarrow> json list \<times> bool" where
  "rewrite_actions parse_range snippets [] used = ([], used)"
| "rewrite_actions parse_range snippets (action # actions) used =
     (let (action, used) = rewrite_action parse_range snippets action used;
          (actions, used) = rewrite_actions parse_range snippets actions used in
      (action # actions, used))"

definition rewrite_code_action_result :: "range_parser \<Rightarrow> snippet_store \<Rightarrow> json \<Rightarrow> json" where
  "rewrite_code_action_result parse_range snippets v =
     (case as_array v of
        None \<Rightarrow> v
      | Some actions \<Rightarrow> JArray (fst (rewrite_actions parse_range snippets actions False)))"

text \<open>\<open>call\<close>, on the method of the request and the successful body of the inner answer.\<close>

definition snippet_service_call ::
  "range_parser \<Rightarrow> snippet_store \<Rightarrow> bool \<Rightarrow> bool \<Rightarrow> string \<Rightarrow> json \<Rightarrow> json" where
  "snippet_service_call parse_range snippets client_supports agent_mode request_method body =
     (if request_method \<in> {''textDocument/codeAction'', ''codeAction/resolve''} \<and>
         should_emit_snippets client_supports agent_mode
      then rewrite_code_action_result parse_range snippets body
      else body)"

subsection \<open>What a client sees\<close>

definition store_faithful :: "snippet_store \<Rightarrow> bool" where
  "store_faithful snippets \<longleftrightarrow>
     list_all (\<lambda>(k, t). materialize_snippet_template t = sk_materialized k) snippets"

lemma list_all_hm_put: "list_all P m \<Longrightarrow> P (k, v) \<Longrightarrow> list_all P (hm_put k v m)"
  by (induction k v m rule: hm_put.induct) auto

lemma snippet_text_edit_faithful:
  "store_faithful snippets \<Longrightarrow> store_faithful (snd (snippet_text_edit r template snippets))"
  by (auto simp: store_faithful_def snippet_text_edit_def remember_snippet_template_def Let_def snippet_edit_key_def
      intro: list_all_hm_put)

text \<open>An edit of the result is the edit of the inner answer, or has a template for its text.\<close>

inductive edit_keeps :: "json \<Rightarrow> json \<Rightarrow> bool" where
  same: "edit_keeps e e"
| template: "map_of m ''newText'' = Some (JString (materialize_snippet_template t)) \<Longrightarrow>
    edit_keeps (JObject m)
      (JObject (jm_insert ''insertTextFormat'' (JInt SNIPPET_INSERT_TEXT_FORMAT)
        (jm_insert ''newText'' (JString t) m)))"

definition edits_keep :: "json option \<Rightarrow> json option \<Rightarrow> bool" where
  "edits_keep e e' \<longleftrightarrow>
     e' = e \<or> (\<exists>xs ys. e = Some (JArray xs) \<and> e' = Some (JArray ys) \<and> list_all2 edit_keeps xs ys)"

type_synonym document_edits = "json option \<times> json option"

definition change_view :: "json \<Rightarrow> document_edits" where
  "change_view c = (Option.bind (json_get ''textDocument'' c) (json_get ''uri''), json_get ''edits'' c)"

definition object_view :: "json_map \<Rightarrow> document_edits list" where
  "object_view m =
     (case map_of m ''documentChanges'' of
        Some d \<Rightarrow> (case as_array d of None \<Rightarrow> [] | Some cs \<Rightarrow> map change_view cs)
      | None \<Rightarrow>
          (case Option.bind (map_of m ''changes'') as_object of
             None \<Rightarrow> []
           | Some cs \<Rightarrow> map (\<lambda>(uri, edits). (Some (JString uri), Some edits)) cs))"

text \<open>The documents an action edits, each with its edits.\<close>

definition action_view :: "json \<Rightarrow> document_edits list" where
  "action_view action =
     (case Option.bind (json_get ''edit'' action) as_object of None \<Rightarrow> [] | Some m \<Rightarrow> object_view m)"

definition document_keeps :: "document_edits \<Rightarrow> document_edits \<Rightarrow> bool" where
  "document_keeps d d' \<longleftrightarrow> fst d' = fst d \<and> edits_keep (snd d) (snd d')"

definition snippet_text :: "json \<Rightarrow> bool" where
  "snippet_text e \<longleftrightarrow> json_get ''insertTextFormat'' e = Some (JInt SNIPPET_INSERT_TEXT_FORMAT)"

definition snippet_document :: "document_edits \<Rightarrow> bool" where
  "snippet_document d \<longleftrightarrow>
     (case Option.bind (snd d) as_array of None \<Rightarrow> False | Some es \<Rightarrow> list_ex snippet_text es)"

abbreviation snippet_documents :: "document_edits list \<Rightarrow> nat" where
  "snippet_documents ds \<equiv> length (filter snippet_document ds)"

text \<open>What one step of the loops does to the documents: they are kept, and when none had a snippet,
  the flag counts those that have one now.\<close>

definition step_ok :: "bool \<Rightarrow> document_edits list \<Rightarrow> document_edits list \<Rightarrow> bool \<Rightarrow> bool" where
  "step_ok used ds ds' used' \<longleftrightarrow>
     list_all2 document_keeps ds ds' \<and>
     (snippet_documents ds = 0 \<longrightarrow> of_bool used + snippet_documents ds' = (of_bool used' :: nat))"

lemma document_keeps_refl [simp]: "document_keeps d d"
  by (simp add: document_keeps_def edits_keep_def)

lemma step_ok_refl: "step_ok used ds ds used"
  by (simp add: step_ok_def list_all2_refl)

lemma step_ok_append:
  "step_ok used ds ds' used' \<Longrightarrow> step_ok used' es es' used'' \<Longrightarrow> step_ok used (ds @ es) (ds' @ es') used''"
  unfolding step_ok_def by (cases used; cases used'; cases used'') (auto intro: list_all2_appendI)

lemma as_array_Some [simp]: "as_array j = Some xs \<longleftrightarrow> j = JArray xs"
  by (cases j) auto

lemma as_object_Some [simp]: "as_object j = Some m \<longleftrightarrow> j = JObject m"
  by (cases j) auto

lemma json_get_Some: "json_get k j = Some v \<Longrightarrow> \<exists>m. j = JObject m \<and> map_of m k = Some v"
  by (cases j) auto

lemma rewrite_text_edit_keeps:
  assumes "store_faithful snippets" "rewrite_text_edit parse_range snippets e = (e', b)"
  shows "edit_keeps e e'" "\<not> snippet_text e \<Longrightarrow> snippet_text e' = b"
proof -
  show "edit_keeps e e'"
  proof (cases b)
    case True
    with assms(2) obtain m template where e: "e = JObject m"
        "e' = JObject (jm_insert ''insertTextFormat'' (JInt SNIPPET_INSERT_TEXT_FORMAT)
          (jm_insert ''newText'' (JString template) m))"
      and template: "text_edit_snippet_template parse_range snippets e = Some template"
      by (auto simp: rewrite_text_edit_def split: option.splits)
    from template obtain r inserted where "json_get ''newText'' e = Some (JString inserted)"
        "snippet_template_for_edit snippets r inserted = Some template"
      by (auto simp: text_edit_snippet_template_def bind_eq_Some_conv)
    moreover then have "materialize_snippet_template template = inserted"
      using assms(1) map_of_SomeD [of snippets "snippet_edit_key r inserted" template]
      by (auto simp: snippet_template_for_edit_def store_faithful_def list_all_iff snippet_edit_key_def)
    ultimately show ?thesis unfolding e by (intro edit_keeps.template) auto
  next
    case False
    with assms(2) show ?thesis by (auto simp: rewrite_text_edit_def split: option.splits intro: edit_keeps.same)
  qed
  show "snippet_text e' = b" if "\<not> snippet_text e"
    using assms(2) that
    by (auto simp: rewrite_text_edit_def snippet_text_def map_of_jm_insert split: option.splits)
qed

lemma rewritten_edits_keep:
  assumes "store_faithful snippets"
  shows "list_all2 edit_keeps es (map fst (map (rewrite_text_edit parse_range snippets) es))"
    "\<not> list_ex snippet_text es \<Longrightarrow>
       list_ex snippet_text (map fst (map (rewrite_text_edit parse_range snippets) es)) =
       list_ex snd (map (rewrite_text_edit parse_range snippets) es)"
  using rewrite_text_edit_keeps [OF assms, of parse_range] by (induction es) (auto, (metis prod.collapse)+)

lemma change_view_set_edits:
  "json_get ''edits'' c = Some es \<Longrightarrow> change_view (json_set ''edits'' v c) = (fst (change_view c), Some v)"
  by (auto simp: change_view_def json_set_def map_of_jm_insert dest!: json_get_Some)

lemma rewrite_text_document_edit_ok:
  assumes "store_faithful snippets" "rewrite_text_document_edit parse_range snippets c = (c', b)"
  shows "step_ok False [change_view c] [change_view c'] b"
proof (cases "json_get ''textDocument'' c = None \<or> Option.bind (json_get ''edits'' c) as_array = None")
  case True
  with assms(2) have "c' = c" "\<not> b" by (auto simp: rewrite_text_document_edit_def split: if_splits option.splits)
  then show ?thesis by (simp add: step_ok_refl)
next
  case False
  then obtain es where es: "json_get ''edits'' c = Some (JArray es)" by (auto simp: bind_eq_Some_conv)
  let ?r = "map (rewrite_text_edit parse_range snippets) es"
  from False assms(2) es have c': "c' = json_set ''edits'' (JArray (map fst ?r)) c" and b: "b = list_ex snd ?r"
    by (auto simp: rewrite_text_document_edit_def Let_def)
  obtain uri where view: "change_view c = (uri, Some (JArray es))" by (simp add: change_view_def es)
  with change_view_set_edits [OF es] c' have view': "change_view c' = (uri, Some (JArray (map fst ?r)))" by simp
  have "document_keeps (change_view c) (change_view c')"
    using rewritten_edits_keep(1) [OF assms(1)] by (auto simp: view view' document_keeps_def edits_keep_def)
  moreover have "snippet_document (change_view c') = b" if "\<not> snippet_document (change_view c)"
    using that rewritten_edits_keep(2) [OF assms(1), of es parse_range]
    unfolding b by (simp add: view view' snippet_document_def)
  ultimately show ?thesis by (auto simp: step_ok_def)
qed

lemma document_changes_loop_ok:
  assumes "store_faithful snippets"
  shows "document_changes_loop parse_range snippets cs used = (cs', used') \<Longrightarrow>
    step_ok used (map change_view cs) (map change_view cs') used'"
proof (induction cs arbitrary: used cs' used')
  case (Cons c cs)
  show ?case
  proof (cases used)
    case True
    with Cons.prems show ?thesis by (auto simp: step_ok_refl)
  next
    case False
    obtain d b where d: "rewrite_text_document_edit parse_range snippets c = (d, b)" by fastforce
    obtain ds u where ds: "document_changes_loop parse_range snippets cs b = (ds, u)" by fastforce
    from Cons.prems False d ds have "cs' = d # ds" "used' = u" by auto
    with step_ok_append [OF rewrite_text_document_edit_ok [OF assms d] Cons.IH [OF ds]] False
    show ?thesis by simp
  qed
qed (simp add: step_ok_refl)

lemma plain_change_view: "change_view (plain_document_change (uri, edits)) = (Some (JString uri), Some edits)"
  by (simp add: plain_document_change_def change_view_def)

lemma changes_loop_ok:
  assumes "store_faithful snippets"
  shows "changes_loop parse_range snippets m used = (cs, used') \<Longrightarrow>
    step_ok used (map (\<lambda>(uri, edits). (Some (JString uri), Some edits)) m) (map change_view cs) used'"
proof (induction m arbitrary: used cs used')
  case (Cons e m)
  let ?c = "plain_document_change e"
  obtain d b where d: "(if used then (?c, used) else rewrite_text_document_edit parse_range snippets ?c) = (d, b)"
    by fastforce
  obtain ds u where ds: "changes_loop parse_range snippets m b = (ds, u)" by fastforce
  from Cons.prems d ds have eq: "cs = d # ds" "used' = u" by auto
  have "step_ok used [change_view ?c] [change_view d] b"
    using d rewrite_text_document_edit_ok [OF assms, of parse_range ?c d b] step_ok_refl [of used]
    by (cases used) auto
  from step_ok_append [OF this Cons.IH [OF ds]] show ?case
    by (cases e) (simp add: eq plain_change_view)
qed (simp add: step_ok_refl)

lemma jm_swap_remove_map_of: "jm_wf m \<Longrightarrow> map_of (jm_swap_remove k m) = (map_of m)(k := None)"
proof -
  assume wf: "jm_wf m"
  have "distinct (map fst (jm_swap_remove k m))"
    using wf
  proof (induction k m rule: jm_swap_remove.induct)
    case (2 k j w m)
    have "distinct (map fst (last m # butlast m))" if "m \<noteq> []"
      using 2(2) by (cases m rule: rev_cases) (auto simp: jm_wf_def)
    moreover have "fst ` set (jm_swap_remove k m) \<subseteq> fst ` set m"
      using 2(2) jm_swap_remove_set [of m k] by (auto simp: jm_wf_def)
    ultimately show ?case using 2 by (auto simp: jm_wf_def)
  qed simp
  moreover have "distinct (map fst m)" using wf by (simp add: jm_wf_def)
  ultimately show ?thesis
    using jm_swap_remove_set [OF wf, of k]
    by (intro ext) (metis (mono_tags, lifting) fun_upd_apply map_of_eq_Some_iff mem_Collect_eq not_None_eq fst_conv)
qed

lemma rewrite_edit_object_ok:
  assumes "store_faithful snippets" "jm_wf m" "rewrite_edit_object parse_range snippets m used = (m', used')"
  shows "step_ok used (object_view m) (object_view m') used'"
proof (cases "map_of m ''documentChanges''")
  case (Some d)
  show ?thesis
  proof (cases "as_array d")
    case None
    with Some assms(3) show ?thesis by (auto simp: rewrite_edit_object_def rewrite_document_changes_def step_ok_refl)
  next
    case cs: (Some cs)
    obtain cs' u where r: "document_changes_loop parse_range snippets cs used = (cs', u)" by fastforce
    with Some cs assms(3) have "m' = jm_insert ''documentChanges'' (JArray cs') m" "used' = u"
      by (auto simp: rewrite_edit_object_def rewrite_document_changes_def)
    with document_changes_loop_ok [OF assms(1) r] Some cs show ?thesis
      by (simp add: object_view_def map_of_jm_insert)
  qed
next
  case None
  show ?thesis
  proof (cases "map_of m ''changes''")
    case no: None
    with None assms(3) show ?thesis by (simp add: rewrite_edit_object_def jm_remove_def step_ok_refl)
  next
    case (Some changes)
    let ?rest = "jm_swap_remove ''changes'' m"
    have rest: "map_of ?rest ''documentChanges'' = None"
      using None by (simp add: jm_swap_remove_map_of [OF assms(2)])
    show ?thesis
    proof (cases "used \<or> \<not> changes_contain_snippet parse_range snippets changes")
      case True
      with None Some assms(3) have "m' = jm_insert ''changes'' changes ?rest" "used' = used"
        by (auto simp: rewrite_edit_object_def jm_remove_def)
      with None Some rest show ?thesis by (simp add: object_view_def map_of_jm_insert step_ok_refl)
    next
      case False
      then obtain cs where cs: "changes = JObject cs"
        by (cases changes) (auto simp: changes_contain_snippet_def)
      obtain ds u where r: "changes_loop parse_range snippets cs used = (ds, u)" by fastforce
      with None Some False cs assms(3) have "m' = jm_insert ''documentChanges'' (JArray ds) ?rest" "used' = u"
        by (auto simp: rewrite_edit_object_def jm_remove_def changes_to_document_changes_def)
      with changes_loop_ok [OF assms(1) r] None Some cs rest show ?thesis
        by (simp add: object_view_def map_of_jm_insert)
    qed
  qed
qed

definition action_wf :: "json \<Rightarrow> bool" where
  "action_wf action \<longleftrightarrow>
     (case Option.bind (json_get ''edit'' action) as_object of None \<Rightarrow> True | Some m \<Rightarrow> jm_wf m)"

lemma rewrite_action_ok:
  assumes "store_faithful snippets" "action_wf action" "rewrite_action parse_range snippets action used = (action', used')"
  shows "step_ok used (action_view action) (action_view action') used'"
proof (cases "Option.bind (json_get ''edit'' action) as_object")
  case None
  show ?thesis
  proof (cases "json_get ''edit'' action")
    case e: (Some e)
    with None assms(3) have "action' = json_set ''edit'' e action" "used' = used"
      by (auto simp: rewrite_action_def rewrite_workspace_edit_def)
    with None e show ?thesis
      by (auto simp: action_view_def json_set_def map_of_jm_insert step_ok_refl dest!: json_get_Some)
  qed (use assms(3) in \<open>simp add: rewrite_action_def step_ok_refl\<close>)
next
  case (Some m)
  then have edit: "json_get ''edit'' action = Some (JObject m)" by (auto simp: bind_eq_Some_conv)
  obtain m' u where r: "rewrite_edit_object parse_range snippets m used = (m', u)" by fastforce
  with edit assms(3) have "action' = json_set ''edit'' (JObject m') action" "used' = u"
    by (auto simp: rewrite_action_def rewrite_workspace_edit_def)
  moreover have "jm_wf m" using assms(2) edit by (simp add: action_wf_def)
  ultimately show ?thesis
    using rewrite_edit_object_ok [OF assms(1) _ r] edit
    by (auto simp: action_view_def json_set_def map_of_jm_insert dest!: json_get_Some)
qed

lemma rewrite_actions_ok:
  assumes "store_faithful snippets"
  shows "list_all action_wf actions \<Longrightarrow> rewrite_actions parse_range snippets actions used = (actions', used') \<Longrightarrow>
    list_all2 (\<lambda>a a'. list_all2 document_keeps (action_view a) (action_view a')) actions actions' \<and>
    step_ok used (concat (map action_view actions)) (concat (map action_view actions')) used'"
proof (induction actions arbitrary: used actions' used')
  case (Cons a actions)
  obtain a' u where a: "rewrite_action parse_range snippets a used = (a', u)" by fastforce
  obtain as' u' where r: "rewrite_actions parse_range snippets actions u = (as', u')" by fastforce
  from Cons.prems(2) a r have eq: "actions' = a' # as'" "used' = u'" by auto
  have ok: "step_ok used (action_view a) (action_view a') u"
    using rewrite_action_ok [OF assms _ a] Cons.prems(1) by simp
  have rest: "list_all2 (\<lambda>a a'. list_all2 document_keeps (action_view a) (action_view a')) actions as'"
      "step_ok u (concat (map action_view actions)) (concat (map action_view as')) u'"
    using Cons.IH [OF _ r] Cons.prems(1) by simp_all
  have "list_all2 document_keeps (action_view a) (action_view a')" using ok by (simp add: step_ok_def)
  with rest(1) step_ok_append [OF ok rest(2)] show ?case by (simp add: eq)
qed (simp add: step_ok_refl)

text \<open>C38: The rewritten response has the same actions, and each action the same documents with the same
  edits, where at most one document of the whole response has edits turned into templates, and every
  template stands for the text of its edit.\<close>

theorem snippet_response_sound:
  assumes "store_faithful snippets" "list_all action_wf actions"
    and "snippet_documents (concat (map action_view actions)) = 0"
  shows "\<exists>actions'. rewrite_code_action_result parse_range snippets (JArray actions) = JArray actions' \<and>
    list_all2 (\<lambda>a a'. list_all2 document_keeps (action_view a) (action_view a')) actions actions' \<and>
    snippet_documents (concat (map action_view actions')) \<le> 1"
proof -
  obtain actions' u where r: "rewrite_actions parse_range snippets actions False = (actions', u)" by fastforce
  from rewrite_actions_ok [OF assms(1,2) r] assms(3) show ?thesis
    by (auto simp: rewrite_code_action_result_def r step_ok_def)
qed

text \<open>The premise on the store holds for every store the server builds.\<close>

definition built_store :: "(range \<times> string) list \<Rightarrow> snippet_store" where
  "built_store edits = fold (\<lambda>(r, template) snippets. snd (snippet_text_edit r template snippets)) edits []"

lemma built_store_faithful: "store_faithful (built_store edits)"
proof -
  have "store_faithful snippets \<Longrightarrow>
      store_faithful (fold (\<lambda>(r, template) snippets. snd (snippet_text_edit r template snippets)) edits snippets)"
    for snippets
    by (induction edits arbitrary: snippets) (auto simp: snippet_text_edit_faithful)
  then show ?thesis by (simp add: built_store_def store_faithful_def)
qed

text \<open>A concrete response: one action with one edit that inserts a placeholder.\<close>

definition example_action :: json where
  "example_action =
     JObject [(''title'', JString ''Add''),
       (''edit'', JObject [(''changes'', JObject [(''file:///a.rs'', JArray
          [JObject [(''range'', JNull), (''newText'', JString ''T'')]])])])]"

definition example_store :: snippet_store where
  "example_store = built_store [(origin_range, ''${1:T}'')]"

theorem snippet_response_sound_witness:
  "\<exists>actions'. rewrite_code_action_result (\<lambda>j. Some origin_range) example_store (JArray [example_action]) = JArray actions' \<and>
    list_all2 (\<lambda>a a'. list_all2 document_keeps (action_view a) (action_view a')) [example_action] actions' \<and>
    snippet_documents (concat (map action_view actions')) \<le> 1"
proof (rule snippet_response_sound)
  show "store_faithful example_store" by (simp add: example_store_def built_store_faithful)
  show "list_all action_wf [example_action]" by code_simp
  show "snippet_documents (concat (map action_view [example_action])) = 0" by code_simp
qed

lemma example_rewritten:
  "action_view (fst (rewrite_action (\<lambda>j. Some origin_range) example_store example_action False)) =
     [(Some (JString ''file:///a.rs''), Some (JArray
        [JObject [(''range'', JNull), (''newText'', JString ''${1:T}''), (''insertTextFormat'', JInt 2)]]))]"
  by code_simp

text \<open>The answer to \<open>codeAction/resolve\<close> is one action and no array: it is never rewritten, although
  the service singles that method out.\<close>

lemma resolved_action_not_rewritten:
  "snippet_service_call parse_range snippets client_supports agent_mode request_method (JObject m) = JObject m"
  by (simp add: snippet_service_call_def rewrite_code_action_result_def)

end
