(* ===== verification/Completion_Index.thy ===== *)
theory Completion_Index
  imports Anchor_Types Constraint_Rules "HOL-Library.Multiset"
begin

section \<open>Prefix indexes of the completions\<close>

text \<open>
  Models \<open>src/lsp/completions/prefix_index.rs\<close>: three tries over the fixed tables of constraints and
  field types, keyed by lowercase labels or field names, and their prefix queries.  A \<open>char\<close> of a
  key is the encoding of one character; encodings compare as the characters do.
\<close>

type_synonym char_trie = "(string, nat) trie"

definition key_chars :: "string \<Rightarrow> string list" where
  "key_chars s = utf8_chars (to_ascii_lowercase s)"

subsection \<open>Constraint keys\<close>

definition constraint_key_index :: "(string, nat) trie" where
  "constraint_key_index =
     fold (\<lambda>(index, spec). trie_insert (key_chars (spec_label spec)) index) (enumerate 0 CONSTRAINTS) trie_new"

definition specs_with_prefix :: "string \<Rightarrow> constraint_spec list" where
  "specs_with_prefix p =
     map (\<lambda>(_, index). CONSTRAINTS ! index) (collect_with_prefix constraint_key_index (key_chars p))"

subsection \<open>Field names\<close>

definition field_name_from_label :: "string \<Rightarrow> string option" where
  "field_name_from_label field_label = map_option (\<lambda>(name, _). trim name) (split_once '':'' field_label)"

definition push_index :: "nat \<times> anchor_field_completion \<Rightarrow> (string, nat list) omap \<Rightarrow> (string, nat list) omap" where
  "push_index = (\<lambda>(index, completion) groups.
     case field_name_from_label (fcp_field_label completion) of
       None \<Rightarrow> groups
     | Some name \<Rightarrow>
         let key = to_ascii_lowercase name in
         om_insert key (unwrap_or [] (map_of groups key) @ [index]) groups)"

definition field_name_groups :: "(string, nat list) omap" where
  "field_name_groups = fold push_index (enumerate 0 FIELD_COMPLETIONS) []"

definition field_name_index :: "(string, nat list) trie" where
  "field_name_index =
     fold (\<lambda>(key, indices). trie_insert (utf8_chars key) indices) field_name_groups trie_new"

definition field_names_with_prefix :: "string \<Rightarrow> anchor_field_completion list" where
  "field_names_with_prefix p =
     concat (map (\<lambda>(_, indices). map (\<lambda>i. FIELD_COMPLETIONS ! i) indices)
       (collect_with_prefix field_name_index (key_chars p)))"

subsection \<open>Field types\<close>

definition field_type_index :: "(string, nat) trie" where
  "field_type_index =
     fold (\<lambda>(index, completion). trie_insert (key_chars (fcp_label completion)) index)
       (enumerate 0 FIELD_COMPLETIONS) trie_new"

definition field_types_with_prefix :: "string \<Rightarrow> anchor_field_completion list" where
  "field_types_with_prefix p =
     map (\<lambda>(_, index). FIELD_COMPLETIONS ! index) (collect_with_prefix field_type_index (key_chars p))"

subsection \<open>A loaded trie answers as a filter and a sort\<close>

text \<open>The linear scan that the trie replaces: keep the entries whose key has the prefix, in the order
  of the keys.\<close>

definition load_trie :: "('s::linorder list \<times> 'v) list \<Rightarrow> ('s, 'v) trie" where
  "load_trie kvs = fold (\<lambda>(k, v). trie_insert k v) kvs trie_new"

lemma load_trie_collect:
  assumes "distinct (map fst kvs)"
  shows "collect_with_prefix (load_trie kvs) p = sort_key fst (filter (\<lambda>(k, v). prefix p k) kvs)"
proof (rule map_sorted_distinct_set_unique [where f = fst])
  let ?c = "collect_with_prefix (load_trie kvs) p" and ?f = "sort_key fst (filter (\<lambda>(k, v). prefix p k) kvs)"
  have "trie_wf (load_trie kvs)" "trie_get (load_trie kvs) = map_of (rev kvs)"
    using trie_map.fold_put [OF trie_map.invar_empty, of kvs] trie_map.lookup_load [of kvs]
    by (simp_all add: load_trie_def)
  with collect_with_prefix_exact [of "load_trie kvs" p] assms
  have c: "set ?c = {(k, v). (k, v) \<in> set kvs \<and> prefix p k}" "sorted_wrt (<) (map fst ?c)"
    by (auto simp: rev_map [symmetric])
  then show "set ?c = set ?f" by auto
  from c(2) show "sorted (map fst ?c)" "distinct (map fst ?c)" by (simp_all add: strict_sorted_iff)
  show "sorted (map fst ?f)" by simp
  have "distinct (map fst (filter (\<lambda>(k, v). prefix p k) kvs))" using assms by (rule distinct_map_filter)
  then show "distinct (map fst ?f)"
    by (simp add: mset_eq_imp_distinct_iff [of "map fst ?f" "map fst (filter (\<lambda>(k, v). prefix p k) kvs)"])
  have "inj_on fst (set kvs)" using assms by (simp add: distinct_map)
  moreover have "set ?c \<union> set ?f \<subseteq> set kvs" using c(1) by auto
  ultimately show "inj_on fst (set ?c \<union> set ?f)" by (rule inj_on_subset)
qed

text \<open>Keys of ASCII characters compare as strings.\<close>

lemma map_single_less: "map (\<lambda>c. [c]) s < map (\<lambda>c. [c]) (t :: string) \<longleftrightarrow> s < t"
proof (induction s arbitrary: t)
  case Nil
  then show ?case by (cases t) auto
next
  case (Cons c s)
  then show ?case by (cases t) auto
qed

lemma map_single_prefix: "prefix (map (\<lambda>c. [c]) s) (map (\<lambda>c. [c]) t) \<longleftrightarrow> prefix s (t :: string)"
  by (induction s arbitrary: t; case_tac t) auto

lemma ascii_prefix:
  assumes "ascii t"
  shows "prefix (utf8_chars s) (utf8_chars t) \<longleftrightarrow> prefix s t"
proof
  assume "prefix (utf8_chars s) (utf8_chars t)"
  then obtain r where "utf8_chars t = utf8_chars s @ r" by (elim prefixE)
  from arg_cong [OF this, of concat] show "prefix s t" by simp
next
  assume "prefix s t"
  moreover from this have "ascii s" using assms by (auto elim!: prefixE)
  ultimately show "prefix (utf8_chars s) (utf8_chars t)"
    using assms by (simp add: utf8_chars_ascii map_single_prefix)
qed

lemma ascii_lower: "ascii s \<Longrightarrow> ascii (to_ascii_lowercase s)"
  by (auto simp: ascii_def to_ascii_lowercase_def list_all_iff is_ascii_uppercase_def byte_def)

subsection \<open>The queries are linear scans\<close>

lemma enumerate_nth: "(i, x) \<in> set (enumerate 0 xs) \<longleftrightarrow> i < length xs \<and> x = xs ! i"
  by (auto simp: in_set_enumerate_eq)

lemma indexed_scan:
  fixes key :: "'a \<Rightarrow> string"
  assumes distinct: "distinct (map key xs)" and keys: "\<And>x. x \<in> set xs \<Longrightarrow> ascii (key x)"
  shows "map (\<lambda>(_, i). xs ! i)
      (collect_with_prefix (load_trie (map (\<lambda>(i, x). (utf8_chars (key x), i)) (enumerate 0 xs))) (utf8_chars q)) =
    sort_key key (filter (\<lambda>x. prefix q (key x)) xs)"
    (is "map ?nth ?c = ?r")
proof (rule map_sorted_distinct_set_unique [where f = key])
  let ?kvs = "map (\<lambda>(i, x). (utf8_chars (key x), i)) (enumerate 0 xs)"
  have inj: "utf8_chars (key x) = map (\<lambda>c. [c]) (key x)" if "x \<in> set xs" for x
    using keys [OF that] by (rule utf8_chars_ascii)
  have fsts: "map fst ?kvs = map (\<lambda>x. utf8_chars (key x)) xs"
    by (rule nth_equalityI) (simp_all add: nth_enumerate_eq)
  have "distinct (map fst ?kvs)"
    unfolding fsts using distinct by (auto simp: distinct_map inj inj_on_def)
  note c = load_trie_collect [OF this, of "utf8_chars q"]
  have mem: "(k, i) \<in> set ?c \<longleftrightarrow> i < length xs \<and> k = utf8_chars (key (xs ! i)) \<and> prefix q (key (xs ! i))" for k i
    unfolding c using keys by (auto simp: enumerate_nth ascii_prefix)
  have "sorted_wrt (\<lambda>a b. fst a < fst b) ?c"
    using collect_with_prefix_exact [of "load_trie ?kvs" "utf8_chars q"]
      trie_map.fold_put [OF trie_map.invar_empty, of ?kvs]
    by (simp add: sorted_wrt_map load_trie_def)
  then have "sorted_wrt (\<lambda>a b. key (?nth a) < key (?nth b)) ?c"
  proof (rule sorted_wrt_mono_rel [rotated])
    fix a b assume "a \<in> set ?c" "b \<in> set ?c" "fst a < fst b"
    then show "key (?nth a) < key (?nth b)"
      using mem [of "fst a" "snd a"] mem [of "fst b" "snd b"] inj by (auto simp: map_single_less split: prod.splits)
  qed
  then have "sorted_wrt (<) (map key (map ?nth ?c))" by (simp add: sorted_wrt_map)
  then show "sorted (map key (map ?nth ?c))" "distinct (map key (map ?nth ?c))"
    by (simp_all only: strict_sorted_iff)
  show "sorted (map key ?r)" by simp
  have "distinct (map key (filter (\<lambda>x. prefix q (key x)) xs))" using distinct by (rule distinct_map_filter)
  then show "distinct (map key ?r)"
    by (simp add: mset_eq_imp_distinct_iff [of "map key ?r" "map key (filter (\<lambda>x. prefix q (key x)) xs)"])
  show set_eq: "set (map ?nth ?c) = set ?r"
    using mem by (force simp: in_set_conv_nth)
  have "inj_on key (set xs)" using distinct by (simp add: distinct_map)
  moreover have "set (map ?nth ?c) \<union> set ?r \<subseteq> set xs" unfolding set_eq by auto
  ultimately show "inj_on key (set (map ?nth ?c) \<union> set ?r)" by (rule inj_on_subset)
qed

lemma load_trie_map: "load_trie (map (\<lambda>(i, x). (f x, i)) xs) = fold (\<lambda>(i, x). trie_insert (f x) i) xs trie_new"
  by (simp add: load_trie_def fold_map comp_def case_prod_beta')

lemma constraint_labels: "distinct (map (\<lambda>spec. to_ascii_lowercase (spec_label spec)) CONSTRAINTS)"
    "list_all (\<lambda>spec. ascii (spec_label spec)) CONSTRAINTS"
proof -
  have "list_all (\<lambda>spec. to_ascii_lowercase (spec_label spec) = spec_label spec) CONSTRAINTS"
    by (simp add: CONSTRAINTS_def spec_defs to_ascii_lowercase_def is_ascii_uppercase_def byte_def)
  then have "map (\<lambda>spec. to_ascii_lowercase (spec_label spec)) CONSTRAINTS = map spec_label CONSTRAINTS"
    by (auto simp: list_all_iff intro: map_cong)
  with labels_distinct show "distinct (map (\<lambda>spec. to_ascii_lowercase (spec_label spec)) CONSTRAINTS)" by (simp only:)
  show "list_all (\<lambda>spec. ascii (spec_label spec)) CONSTRAINTS"
    by (simp add: CONSTRAINTS_def spec_defs ascii_def byte_def)
qed

lemma completion_labels: "distinct (map (\<lambda>c. to_ascii_lowercase (fcp_label c)) FIELD_COMPLETIONS)"
    "list_all (\<lambda>c. ascii (fcp_label c)) FIELD_COMPLETIONS"
proof -
  have lower: "map (\<lambda>c. to_ascii_lowercase (fcp_label c)) FIELD_COMPLETIONS =
     [''account<'info, t>'',
      ''accountinfo<'info>'',
      ''accountloader<'info, t>'',
      ''interface<'info, t>'',
      ''interfaceaccount<'info, t>'',
      ''migration<'info, from, to>'',
      ''program<'info, t>'',
      ''signer<'info>'',
      ''systemaccount<'info>'',
      ''sysvar<'info, t>'',
      ''uncheckedaccount<'info>'',
      ''program<'info, associatedtoken>'',
      ''program<'info, system>'',
      ''program<'info, token2022>'',
      ''program<'info, token>'',
      ''program<'info, tokeninterface>'',
      ''sysvar<'info, clock>'',
      ''sysvar<'info, epochschedule>'',
      ''sysvar<'info, fees>'',
      ''sysvar<'info, instructions>'',
      ''sysvar<'info, recentblockhashes>'',
      ''sysvar<'info, rent>'',
      ''sysvar<'info, rewards>'',
      ''sysvar<'info, slothashes>'',
      ''sysvar<'info, slothistory>'',
      ''sysvar<'info, stakehistory>'',
      ''account<'info, mint>'',
      ''account<'info, tokenaccount>'',
      ''interfaceaccount<'info, mint>'',
      ''interfaceaccount<'info, tokenaccount>'']"
    by (simp add: FIELD_COMPLETIONS_def field_completion_def to_ascii_lowercase_def is_ascii_uppercase_def byte_def)
      (simp add: char_of_def bit_0)
  show "distinct (map (\<lambda>c. to_ascii_lowercase (fcp_label c)) FIELD_COMPLETIONS)" unfolding lower by simp
  show "list_all (\<lambda>c. ascii (fcp_label c)) FIELD_COMPLETIONS"
    by (simp add: FIELD_COMPLETIONS_def field_completion_def ascii_def byte_def)
qed

text \<open>C39: The query for constraints answers as the linear scan it replaces: every constraint whose
  label starts with what is typed, ignoring case, once, in the order of the labels.\<close>

theorem specs_with_prefix_scan:
  "specs_with_prefix p =
     sort_key (\<lambda>spec. to_ascii_lowercase (spec_label spec))
       (filter (\<lambda>spec. prefix (to_ascii_lowercase p) (to_ascii_lowercase (spec_label spec))) CONSTRAINTS)"
  using indexed_scan [OF constraint_labels(1)] constraint_labels(2)
  by (simp add: specs_with_prefix_def constraint_key_index_def key_chars_def list_all_iff ascii_lower
      flip: load_trie_map)

text \<open>The same for field types.\<close>

theorem field_types_with_prefix_scan:
  "field_types_with_prefix p =
     sort_key (\<lambda>c. to_ascii_lowercase (fcp_label c))
       (filter (\<lambda>c. prefix (to_ascii_lowercase p) (to_ascii_lowercase (fcp_label c))) FIELD_COMPLETIONS)"
  using indexed_scan [OF completion_labels(1)] completion_labels(2)
  by (simp add: field_types_with_prefix_def field_type_index_def key_chars_def list_all_iff ascii_lower
      flip: load_trie_map)

subsection \<open>Field names are grouped\<close>

definition scan_names :: "(string \<Rightarrow> bool) \<Rightarrow> nat list \<Rightarrow> nat list" where
  "scan_names Q =
     filter (\<lambda>i. case field_name_from_label (fcp_field_label (FIELD_COMPLETIONS ! i)) of
       None \<Rightarrow> False | Some name \<Rightarrow> Q (to_ascii_lowercase name))"

lemma mset_concat_cong: "mset xss = mset yss \<Longrightarrow> mset (concat xss) = mset (concat yss)"
  by (simp add: mset_concat flip: sum_mset_sum_list)

lemma om_insert_push:
  "om_wf m \<Longrightarrow>
     mset (concat (map snd (filter (\<lambda>e. Q (fst e)) (om_insert k (unwrap_or [] (map_of m k) @ [i]) m)))) =
     mset (concat (map snd (filter (\<lambda>e. Q (fst e)) m))) + (if Q k then {#i#} else {#})"
proof (induction k "unwrap_or [] (map_of m k) @ [i]" m rule: om_insert.induct)
  case (2 k j w m)
  show ?case
  proof (cases "k < j")
    case True
    with 2(2) have "map_of m k = None" by (force simp: map_of_eq_None_iff)
    with True show ?thesis by (simp add: unwrap_or_def)
  next
    case False
    with 2 show ?thesis by (auto simp: unwrap_or_def)
  qed
qed (simp add: unwrap_or_def)

lemma field_name_groups_scan:
  "om_wf field_name_groups \<and>
   mset (concat (map snd (filter (\<lambda>e. Q (fst e)) field_name_groups))) =
     mset (scan_names Q [0..<length FIELD_COMPLETIONS])"
proof -
  have "om_wf (fold push_index (map (\<lambda>i. (i, FIELD_COMPLETIONS ! i)) is) []) \<and>
      mset (concat (map snd (filter (\<lambda>e. Q (fst e)) (fold push_index (map (\<lambda>i. (i, FIELD_COMPLETIONS ! i)) is) [])))) =
      mset (scan_names Q is)" for "is"
  proof (induction "is" rule: rev_induct)
    case (snoc i "is")
    show ?case
    proof (cases "field_name_from_label (fcp_field_label (FIELD_COMPLETIONS ! i))")
      case None
      with snoc show ?thesis by (simp add: push_index_def scan_names_def)
    next
      case (Some name)
      with snoc show ?thesis by (simp add: push_index_def scan_names_def Let_def om_insert_push om_wf_insert)
    qed
  qed (simp add: scan_names_def)
  moreover have "enumerate 0 FIELD_COMPLETIONS = map (\<lambda>i. (i, FIELD_COMPLETIONS ! i)) [0..<length FIELD_COMPLETIONS]"
    by (rule nth_equalityI) (simp_all add: nth_enumerate_eq)
  ultimately show ?thesis by (simp add: field_name_groups_def)
qed

definition ascii_name :: "anchor_field_completion \<Rightarrow> bool" where
  "ascii_name c \<longleftrightarrow> (case field_name_from_label (fcp_field_label c) of None \<Rightarrow> True | Some name \<Rightarrow> ascii name)"

lemma field_names_ascii: "list_all ascii_name FIELD_COMPLETIONS"
proof -
  have "list_all (\<lambda>c. ascii (fcp_field_label c)) FIELD_COMPLETIONS"
    by (simp add: FIELD_COMPLETIONS_def field_completion_def ascii_def byte_def)
  moreover have "ascii_name c" if "ascii (fcp_field_label c)" for c
  proof (cases "split_once '':'' (fcp_field_label c)")
    case (Some ab)
    obtain a b where ab: "ab = (a, b)" by force
    from split_once_Some [OF Some [unfolded ab]] that have "ascii a" by simp
    moreover have "set (trim a) \<subseteq> set a"
      using set_mono_suffix [OF trim_start_suffix [of a]] set_mono_prefix [OF trim_end_prefix [of "trim_start a"]]
      by (auto simp: trim_def)
    ultimately show ?thesis using Some ab by (auto simp: ascii_name_def field_name_from_label_def ascii_def list_all_iff)
  qed (simp add: ascii_name_def field_name_from_label_def)
  ultimately show ?thesis by (simp add: list_all_iff)
qed

definition ascii_keys :: "(string, 'v) omap \<Rightarrow> bool" where
  "ascii_keys m \<longleftrightarrow> fst ` set m \<subseteq> {s. ascii s}"

lemma ascii_keys_insert: "ascii_keys (om_insert k v m) \<longleftrightarrow> ascii k \<and> ascii_keys m"
  unfolding ascii_keys_def om_insert_keys by simp

lemma ascii_keys_push: "ascii_name (snd p) \<Longrightarrow> ascii_keys m \<Longrightarrow> ascii_keys (push_index p m)"
  by (cases p) (simp add: push_index_def ascii_name_def Let_def ascii_keys_insert ascii_lower split: option.splits)

lemma group_keys_ascii: "ascii_keys field_name_groups"
proof -
  have "list_all (\<lambda>p. ascii_name (snd p)) ps \<Longrightarrow> ascii_keys m \<Longrightarrow> ascii_keys (fold push_index ps m)" for ps m
    by (induction ps arbitrary: m) (simp_all add: ascii_keys_push)
  moreover have "list_all (\<lambda>p. ascii_name (snd p)) (enumerate 0 FIELD_COMPLETIONS)"
    using field_names_ascii by (auto simp: list_all_iff enumerate_nth)
  moreover have "ascii_keys []" by (simp add: ascii_keys_def)
  ultimately show ?thesis unfolding field_name_groups_def by blast
qed

text \<open>The query for field names offers each field type whose field name starts with what is typed,
  ignoring case, exactly once.\<close>

theorem field_names_with_prefix_scan:
  "mset (field_names_with_prefix p) =
     mset (filter (\<lambda>c. case field_name_from_label (fcp_field_label c) of
         None \<Rightarrow> False
       | Some name \<Rightarrow> prefix (to_ascii_lowercase p) (to_ascii_lowercase name)) FIELD_COMPLETIONS)"
proof -
  let ?kvs = "map (\<lambda>(key, indices). (utf8_chars key, indices)) field_name_groups"
  let ?q = "to_ascii_lowercase p"
  note groups = field_name_groups_scan [of "\<lambda>k. prefix ?q k"]
  have index: "field_name_index = load_trie ?kvs"
    by (simp add: field_name_index_def load_trie_def fold_map comp_def case_prod_beta')
  have "distinct (map fst field_name_groups)" using groups om_wf_distinct by blast
  moreover have "inj_on utf8_chars (fst ` set field_name_groups)"
    by (rule inj_on_inverseI [where g = concat]) simp
  ultimately have "distinct (map utf8_chars (map fst field_name_groups))" by (subst distinct_map) simp
  then have "distinct (map fst ?kvs)" by (simp add: case_prod_beta' comp_def)
  note collect = load_trie_collect [OF this, of "utf8_chars ?q", folded index]
  have "mset (collect_with_prefix field_name_index (key_chars p)) =
      mset (filter (\<lambda>(k, v). prefix (utf8_chars ?q) k) ?kvs)"
    by (simp add: key_chars_def collect del: filter_map)
  also have "filter (\<lambda>(k, v). prefix (utf8_chars ?q) k) ?kvs =
      map (\<lambda>(key, indices). (utf8_chars key, indices)) (filter (\<lambda>e. prefix ?q (fst e)) field_name_groups)"
    using group_keys_ascii [unfolded ascii_keys_def]
    by (auto simp: filter_map comp_def case_prod_beta' ascii_prefix intro!: arg_cong2 [where f = map] filter_cong)
  finally have "image_mset snd (mset (collect_with_prefix field_name_index (key_chars p))) =
      image_mset snd (mset (map (\<lambda>(key, indices). (utf8_chars key, indices))
        (filter (\<lambda>e. prefix ?q (fst e)) field_name_groups)))" by (rule arg_cong)
  then have "mset (map snd (collect_with_prefix field_name_index (key_chars p))) =
      mset (map snd (filter (\<lambda>e. prefix ?q (fst e)) field_name_groups))"
    unfolding mset_map [symmetric] by (simp add: comp_def case_prod_beta' del: mset_map)
  then have "mset (concat (map snd (collect_with_prefix field_name_index (key_chars p)))) =
      mset (scan_names (\<lambda>k. prefix ?q k) [0..<length FIELD_COMPLETIONS])"
    using groups by (metis mset_concat_cong)
  from arg_cong [OF this, of "image_mset ((!) FIELD_COMPLETIONS)"]
  have "mset (map ((!) FIELD_COMPLETIONS) (concat (map snd (collect_with_prefix field_name_index (key_chars p))))) =
      mset (map ((!) FIELD_COMPLETIONS) (scan_names (\<lambda>k. prefix ?q k) [0..<length FIELD_COMPLETIONS]))"
    by (simp only: mset_map)
  moreover have "field_names_with_prefix p =
      map ((!) FIELD_COMPLETIONS) (concat (map snd (collect_with_prefix field_name_index (key_chars p))))"
    by (simp add: field_names_with_prefix_def map_concat comp_def case_prod_beta')
  moreover have nth_filter: "map ((!) FIELD_COMPLETIONS) (filter (\<lambda>i. R (FIELD_COMPLETIONS ! i)) [0..<length FIELD_COMPLETIONS]) =
      filter R FIELD_COMPLETIONS" for R
    by (simp flip: filter_map [unfolded comp_def] add: map_nth)
  ultimately show ?thesis
    by (simp only: scan_names_def nth_filter [of "\<lambda>c. case field_name_from_label (fcp_field_label c) of
        None \<Rightarrow> False | Some name \<Rightarrow> prefix ?q (to_ascii_lowercase name)"])
qed

end
