(* ===== verification/Completion_Ranking.thy ===== *)
theory Completion_Ranking
  imports Decimal_Text Json_Value
begin

section \<open>Ranking of completion items\<close>

text \<open>
  Models \<open>src/lsp/completions/ranking.rs\<close>: the relevance of a completion item for what is typed at
  the cursor, and the sort keys that carry it to the client.  Clients compare sort keys as strings;
  the order is that of the bytes.  Fields of an item that the module leaves alone are the
  extension of the record.
\<close>

subsection \<open>The cursor\<close>

text \<open>\<open>CursorContextKind\<close> of \<open>src/lsp/completions/cursor_context.rs\<close>; of the two contexts that carry
  more, the typed prefix is kept.\<close>

datatype cursor_context_kind =
    CursorAccountPath string
  | CursorContextType string
  | CursorConstraintKey string
  | CursorConstraintValue string
  | CursorInstructionAttribute string
  | CursorAccountsField string
  | CursorHandlerValue string
  | CursorHandlerMember string
  | CursorHandlerStructField string
  | CursorNotAnchor

fun cursor_prefix :: "cursor_context_kind \<Rightarrow> string option" where
  "cursor_prefix (CursorAccountPath p) = Some p"
| "cursor_prefix (CursorContextType p) = Some p"
| "cursor_prefix (CursorConstraintKey p) = Some p"
| "cursor_prefix (CursorConstraintValue p) = Some p"
| "cursor_prefix (CursorInstructionAttribute p) = Some p"
| "cursor_prefix (CursorAccountsField p) = Some p"
| "cursor_prefix (CursorHandlerValue p) = Some p"
| "cursor_prefix (CursorHandlerMember p) = Some p"
| "cursor_prefix (CursorHandlerStructField p) = Some p"
| "cursor_prefix CursorNotAnchor = None"

definition typed_prefix :: "cursor_context_kind \<Rightarrow> string option" where
  "typed_prefix kind =
     (case cursor_prefix kind of None \<Rightarrow> None | Some p \<Rightarrow> if p \<noteq> [] then Some p else None)"

subsection \<open>Relevance\<close>

record completion_item =
  ci_label :: string
  ci_insert_text :: "string option"
  ci_sort_text :: "string option"
  ci_preselect :: "bool option"
  ci_data :: "json option"

record relevance_score =
  rs_value :: nat
  rs_reason :: string

definition relevance :: "nat \<Rightarrow> string \<Rightarrow> relevance_score" where
  "relevance v reason = \<lparr>rs_value = v, rs_reason = reason\<rparr>"

definition PENDING_FIX_SCORE :: nat where "PENDING_FIX_SCORE = 0"
definition TYPE_MATCH_SCORE :: nat where "TYPE_MATCH_SCORE = 10"
definition EXACT_PREFIX_SCORE :: nat where "EXACT_PREFIX_SCORE = 15"
definition PRESELECT_SCORE :: nat where "PRESELECT_SCORE = 20"
definition PREFIX_SCORE :: nat where "PREFIX_SCORE = 30"
definition DEFAULT_SCORE :: nat where "DEFAULT_SCORE = 50"

definition item_data_bool :: "'a completion_item_scheme \<Rightarrow> string \<Rightarrow> bool" where
  "item_data_bool item key = unwrap_or False (data_bool key (ci_data item))"

definition completion_label_or_insert_text :: "'a completion_item_scheme \<Rightarrow> string list" where
  "completion_label_or_insert_text item =
     ci_label item # (case ci_insert_text item of None \<Rightarrow> [] | Some s \<Rightarrow> [s])"

text \<open>\<open>trim_end_matches\<close> removes the suffix as often as it is there.\<close>

function trim_end_matches :: "string \<Rightarrow> string \<Rightarrow> string" where
  "trim_end_matches p s =
     (if p \<noteq> [] \<and> suffix p s then trim_end_matches p (take (length s - length p) s) else s)"
  by pat_completeness auto
termination
proof (relation "measure (\<lambda>(p, s). length s)", goal_cases)
  case (2 p s)
  then have "0 < length p" "length p \<le> length s" using suffix_length_le by auto
  then have "length s - length p < length s" by linarith
  then show ?case by simp
qed simp

declare trim_end_matches.simps [simp del]

definition normalize_candidate :: "string \<Rightarrow> string" where
  "normalize_candidate v = to_ascii_lowercase (trim_end_matches '' ='' (trim_start_char CHR ''_'' v))"

definition normalized_eq :: "string \<Rightarrow> string \<Rightarrow> bool" where
  "normalized_eq candidate p \<longleftrightarrow> normalize_candidate candidate = normalize_candidate p"

definition normalized_starts :: "string \<Rightarrow> string \<Rightarrow> bool" where
  "normalized_starts candidate p \<longleftrightarrow> prefix (normalize_candidate p) (normalize_candidate candidate)"

definition some_candidate :: "(string \<Rightarrow> string \<Rightarrow> bool) \<Rightarrow> cursor_context_kind \<Rightarrow> 'a completion_item_scheme \<Rightarrow> bool" where
  "some_candidate matches kind item =
     (case typed_prefix kind of
        None \<Rightarrow> False
      | Some p \<Rightarrow> list_ex (\<lambda>candidate. matches candidate p) (completion_label_or_insert_text item))"

definition relevance_score_of :: "cursor_context_kind \<Rightarrow> 'a completion_item_scheme \<Rightarrow> relevance_score" where
  "relevance_score_of kind item =
     (if item_data_bool item ''pendingFixTarget'' then relevance PENDING_FIX_SCORE ''pending_fix''
      else if item_data_bool item ''typeMatched'' then relevance TYPE_MATCH_SCORE ''type_match''
      else if some_candidate normalized_eq kind item then relevance EXACT_PREFIX_SCORE ''exact_prefix''
      else if ci_preselect item = Some True then relevance PRESELECT_SCORE ''preselect''
      else if some_candidate normalized_starts kind item then relevance PREFIX_SCORE ''prefix''
      else relevance DEFAULT_SCORE ''default'')"

subsection \<open>Sort keys\<close>

text \<open>The format \<open>{:0w}\<close> of a number.\<close>

definition zero_padded :: "nat \<Rightarrow> nat \<Rightarrow> string" where
  "zero_padded w n = replicate (w - length (show_nat n)) CHR ''0'' @ show_nat n"

definition rank_text :: "relevance_score \<Rightarrow> string" where
  "rank_text rank = zero_padded 3 (rs_value rank) @ ''_seagrass_rank_'' @ rs_reason rank @ ''_''"

definition rank_item :: "cursor_context_kind \<Rightarrow> nat \<Rightarrow> 'a completion_item_scheme \<Rightarrow> 'a completion_item_scheme" where
  "rank_item kind index item =
     (let original_sort = unwrap_or (''999_seagrass_'' @ ci_label item) (ci_sort_text item);
          rank = relevance_score_of kind (item\<lparr>ci_sort_text := None\<rparr>);
          item = item\<lparr>ci_sort_text := Some (rank_text rank @ zero_padded 4 index @ ''_'' @ original_sort)\<rparr> in
      if rs_value rank \<le> TYPE_MATCH_SCORE then item\<lparr>ci_preselect := Some True\<rparr> else item)"

definition rank_completion_items ::
  "cursor_context_kind \<Rightarrow> 'a completion_item_scheme list \<Rightarrow> 'a completion_item_scheme list" where
  "rank_completion_items kind items = map (\<lambda>(index, item). rank_item kind index item) (enumerate 0 items)"

definition set_data_bool :: "'a completion_item_scheme \<Rightarrow> string \<Rightarrow> bool \<Rightarrow> 'a completion_item_scheme" where
  "set_data_bool item key v =
     (case unwrap_or (JObject []) (ci_data item) of
        JObject m \<Rightarrow> item\<lparr>ci_data := Some (JObject (jm_insert key (JBool v) m))\<rparr>
      | other \<Rightarrow> item\<lparr>ci_data := Some other\<rparr>)"

subsection \<open>Padded numbers compare as numbers\<close>

lemma digits_value_bounds:
  "digits_value acc s = Some x \<Longrightarrow> acc * 10 ^ length s \<le> x \<and> x < (acc + 1) * 10 ^ length s"
proof (induction s arbitrary: acc)
  case (Cons c s)
  then obtain d where d: "digit_value c = Some d" and r: "digits_value (10 * acc + d) s = Some x"
    by (auto split: option.splits)
  have "d < 10" using d by (auto simp: digit_value_def is_ascii_digit_def split: if_splits)
  have "acc * 10 ^ length (c # s) \<le> (10 * acc + d) * 10 ^ length s" by (simp add: algebra_simps)
  then have "acc * 10 ^ length (c # s) \<le> x" using Cons.IH [OF r] by linarith
  moreover have "(10 * acc + d + 1) * 10 ^ length s \<le> (10 * acc + 10) * 10 ^ length s"
    using \<open>d < 10\<close> by (intro mult_le_mono1) simp
  then have "x < (10 * acc + 10) * 10 ^ length s" using Cons.IH [OF r] by linarith
  then have "x < (acc + 1) * 10 ^ length (c # s)" by (simp add: algebra_simps)
  ultimately show ?case ..
qed simp

lemma digit_value_less:
  "digit_value c = Some a \<Longrightarrow> digit_value d = Some b \<Longrightarrow> c < d \<longleftrightarrow> a < b"
  by (auto simp: digit_value_def is_ascii_digit_def byte_def less_char_def split: if_splits)

lemma digit_value_inj:
  "digit_value c = Some a \<Longrightarrow> digit_value d = Some a \<Longrightarrow> c = d"
  using digit_value_less [of c a d a] digit_value_less [of d a c a] by auto

lemma digits_less:
  "length s = length t \<Longrightarrow> digits_value acc s = Some x \<Longrightarrow> digits_value acc t = Some y \<Longrightarrow>
     s < t \<longleftrightarrow> x < y"
proof (induction s t arbitrary: acc rule: list_induct2)
  case (Cons c s d t)
  obtain a where a: "digit_value c = Some a" "digits_value (10 * acc + a) s = Some x"
    using Cons.prems(1) by (auto split: option.splits)
  obtain b where b: "digit_value d = Some b" "digits_value (10 * acc + b) t = Some y"
    using Cons.prems(2) by (auto split: option.splits)
  note bounds = digits_value_bounds [OF a(2)] digits_value_bounds [OF b(2)]
  show ?case
  proof (cases a b rule: linorder_cases)
    case equal
    with a b digit_value_inj have "c = d" by blast
    with Cons.IH [of "10 * acc + a"] a b equal show ?thesis by simp
  next
    case less
    then have "(10 * acc + a + 1) * 10 ^ length s \<le> (10 * acc + b) * 10 ^ length t"
      unfolding Cons.hyps by (intro mult_le_mono1) simp
    with bounds have "x < y" by linarith
    moreover have "c < d" using digit_value_less [OF a(1) b(1)] less by simp
    ultimately show ?thesis by simp
  next
    case greater
    then have "(10 * acc + b + 1) * 10 ^ length t \<le> (10 * acc + a) * 10 ^ length s"
      unfolding Cons.hyps by (intro mult_le_mono1) simp
    with bounds have "\<not> x < y" by linarith
    moreover have "d < c" using digit_value_less [OF b(1) a(1)] greater by simp
    ultimately show ?thesis by auto
  qed
qed simp

lemma length_show_nat: "n < 10 ^ k \<Longrightarrow> 0 < k \<Longrightarrow> length (show_nat n) \<le> k"
proof (induction n arbitrary: k rule: show_nat.induct)
  case (1 n)
  show ?case
  proof (cases "n < 10")
    case True
    then show ?thesis using 1 by (simp add: show_nat.simps [of n])
  next
    case False
    then have k: "k = Suc (k - 1)" "0 < k - 1" using 1(2,3) by (cases k; cases "k - 1"; auto)+
    then have "n div 10 < 10 ^ (k - 1)" using 1(2) by (metis less_mult_imp_div_less mult.commute power_Suc)
    with 1(1) [OF False _ k(2)] k False show ?thesis by (simp add: show_nat.simps [of n])
  qed
qed

lemma zero_padded_value: "digits_value 0 (zero_padded w n) = Some n"
proof -
  have zero: "digit_value CHR ''0'' = Some 0" by code_simp
  have "digits_value 0 (replicate k CHR ''0'' @ s) = digits_value 0 s" for k s
    by (induction k) (simp_all add: zero)
  then show ?thesis by (simp add: zero_padded_def digits_value_show)
qed

lemma length_zero_padded: "n < 10 ^ w \<Longrightarrow> 0 < w \<Longrightarrow> length (zero_padded w n) = w"
  using length_show_nat [of n w] by (simp add: zero_padded_def)

lemma zero_padded_less:
  assumes "m < 10 ^ w" "n < 10 ^ w" "0 < w"
  shows "zero_padded w m < zero_padded w n \<longleftrightarrow> m < n"
  using digits_less [OF _ zero_padded_value zero_padded_value] assms by (simp add: length_zero_padded)

lemma fixed_width_less:
  "length a = length b \<Longrightarrow> a @ s < b @ t \<longleftrightarrow> a < b \<or> a = b \<and> s < (t :: string)"
  by (induction a b rule: list_induct2) auto

subsection \<open>Sort keys order items by relevance and place\<close>

definition is_score :: "relevance_score \<Rightarrow> bool" where
  "is_score r \<longleftrightarrow>
     r = relevance 0 ''pending_fix'' \<or> r = relevance 10 ''type_match'' \<or> r = relevance 15 ''exact_prefix'' \<or>
     r = relevance 20 ''preselect'' \<or> r = relevance 30 ''prefix'' \<or> r = relevance 50 ''default''"

lemma relevance_score_is_score: "is_score (relevance_score_of kind item)"
  by (simp add: relevance_score_of_def is_score_def PENDING_FIX_SCORE_def TYPE_MATCH_SCORE_def
      EXACT_PREFIX_SCORE_def PRESELECT_SCORE_def PREFIX_SCORE_def DEFAULT_SCORE_def)

lemma score_bound: "is_score r \<Longrightarrow> rs_value r < 10 ^ 3"
  by (auto simp: is_score_def relevance_def)

definition reason_of :: "nat \<Rightarrow> string" where
  "reason_of v =
     (if v = 0 then ''pending_fix'' else if v = 10 then ''type_match'' else if v = 15 then ''exact_prefix''
      else if v = 20 then ''preselect'' else if v = 30 then ''prefix'' else ''default'')"

lemma score_reason: "is_score r \<Longrightarrow> r = relevance (rs_value r) (reason_of (rs_value r))"
  unfolding is_score_def
  by (elim disjE) (simp_all add: relevance_def reason_of_def)

lemma score_determined: "is_score r \<Longrightarrow> is_score r' \<Longrightarrow> rs_value r = rs_value r' \<Longrightarrow> r = r'"
  using score_reason by metis

definition sort_key_of :: "relevance_score \<Rightarrow> nat \<Rightarrow> string \<Rightarrow> string" where
  "sort_key_of r index original = rank_text r @ zero_padded 4 index @ ''_'' @ original"

lemma sort_key_less:
  assumes "is_score r" "is_score r'" "i < 10 ^ 4" "j < 10 ^ 4" "i \<noteq> j"
  shows "sort_key_of r i s < sort_key_of r' j t \<longleftrightarrow> rs_value r < rs_value r' \<or> rs_value r = rs_value r' \<and> i < j"
proof (cases "rs_value r = rs_value r'")
  case True
  with assms(1,2) have "r' = r" using score_determined by metis
  moreover have "zero_padded 4 i \<noteq> zero_padded 4 j" using zero_padded_value [of 4] assms(5) by (metis option.inject)
  ultimately show ?thesis
    using zero_padded_less [of i 4 j] assms(3,4)
    by (simp add: sort_key_of_def fixed_width_less length_zero_padded)
next
  case False
  have "zero_padded 3 (rs_value r) \<noteq> zero_padded 3 (rs_value r')"
    using False zero_padded_value [of 3] by (metis option.inject)
  with False show ?thesis
    using zero_padded_less [of "rs_value r" 3 "rs_value r'"] score_bound [OF assms(1)] score_bound [OF assms(2)]
    by (simp add: sort_key_of_def rank_text_def fixed_width_less length_zero_padded)
qed

lemma rank_items_nth:
  "i < length items \<Longrightarrow> rank_completion_items kind items ! i = rank_item kind i (items ! i)"
  by (simp add: rank_completion_items_def nth_enumerate_eq)

lemma rank_item_sort_text:
  "ci_sort_text (rank_item kind i item) =
     Some (sort_key_of (relevance_score_of kind (item\<lparr>ci_sort_text := None\<rparr>)) i
       (unwrap_or (''999_seagrass_'' @ ci_label item) (ci_sort_text item)))"
  by (simp add: rank_item_def Let_def sort_key_of_def)

definition item_score :: "cursor_context_kind \<Rightarrow> 'a completion_item_scheme \<Rightarrow> nat" where
  "item_score kind item = rs_value (relevance_score_of kind (item\<lparr>ci_sort_text := None\<rparr>))"

text \<open>C40: In an answer of at most 10,000 items the sort keys order the items by relevance, and items of the
  same relevance by their place in the answer: sorting by the keys is a stable sort by relevance.\<close>

theorem sort_keys_rank:
  assumes "length items \<le> 10000" "i < length items" "j < length items" "i \<noteq> j"
  shows "the (ci_sort_text (rank_completion_items kind items ! i)) <
      the (ci_sort_text (rank_completion_items kind items ! j)) \<longleftrightarrow>
    item_score kind (items ! i) < item_score kind (items ! j) \<or>
    item_score kind (items ! i) = item_score kind (items ! j) \<and> i < j"
  using assms by (simp add: rank_items_nth rank_item_sort_text sort_key_less relevance_score_is_score item_score_def)

definition labelled :: "string \<Rightarrow> completion_item" where
  "labelled label =
     \<lparr>ci_label = label, ci_insert_text = None, ci_sort_text = None, ci_preselect = None, ci_data = None\<rparr>"

theorem sort_keys_rank_witness:
  "let ranked = rank_completion_items (CursorConstraintKey ''pa'') [labelled ''owner ='', labelled ''payer =''] in
   the (ci_sort_text (ranked ! 1)) < the (ci_sort_text (ranked ! 0))"
proof -
  have "item_score (CursorConstraintKey ''pa'') (labelled ''payer ='') <
      item_score (CursorConstraintKey ''pa'') (labelled ''owner ='')"
    by code_simp
  with sort_keys_rank [of "[labelled ''owner ='', labelled ''payer ='']" 1 0 "CursorConstraintKey ''pa''"]
  show ?thesis by simp
qed

text \<open>From the 10,001st item on the index needs five digits, and its item sorts before earlier ones.\<close>

lemma index_overflows: "sort_key_of r 10000 s < sort_key_of r 9999 t"
proof -
  have "zero_padded 4 10000 = ''10000''" "zero_padded 4 9999 = ''9999''"
    by (simp_all add: zero_padded_def show_nat.simps [of 10000] show_nat.simps [of 1000] show_nat.simps [of 100]
        show_nat.simps [of 10] show_nat.simps [of "Suc 0"] show_nat.simps [of 9999] show_nat.simps [of 999]
        show_nat.simps [of 99] show_nat.simps [of 9] char_of_def bit_0)
  then have "zero_padded 4 10000 @ ''_'' @ s < zero_padded 4 9999 @ ''_'' @ t" by (simp add: less_char_def)
  then show ?thesis by (simp add: sort_key_of_def fixed_width_less)
qed

end
