(* ===== verification/Account_Members.thy ===== *)
theory Account_Members
  imports Account_Semantics Workspace_Queries Project_Config
begin

section \<open>Members of accounts\<close>

text \<open>
  Models \<open>src/anchor/account_members.rs\<close>: what stands behind a field of an accounts struct, for
  completions and for the rules on member accesses.  A struct that the symbol tables do not know is
  looked for in the tree-sitter tree; what that tree and syn's parser of types deliver is the record
  \<open>member_syntax\<close>.  Account types are resolved by \<open>Account_Semantics\<close>, whose panic is an outer \<open>None\<close>.
\<close>

definition ACCOUNT_LOADER_TYPE :: string where "ACCOUNT_LOADER_TYPE = ''AccountLoader''"

definition ACCOUNT_LOADER_LOADED_METHODS :: "string list" where
  "ACCOUNT_LOADER_LOADED_METHODS = [''load'', ''load_mut'', ''load_init'']"

definition ACCOUNT_LOADER_LOADED_METHOD_COMPLETIONS :: "string list" where
  "ACCOUNT_LOADER_LOADED_METHOD_COMPLETIONS = [''load()?'', ''load_mut()?'', ''load_init()?'']"

datatype account_member_access = DirectAccess | LoadedAccess

datatype member_kind = FieldMember | MethodMember

record account_member =
  am_name :: string
  am_detail :: string
  am_kind :: member_kind
  am_type_name :: "string option"

record account_members =
  ams_owner :: string
  ams_members :: "account_member list"

record missing_member =
  mm_receiver_path :: string
  mm_member :: string
  mm_owner_type :: string
  mm_candidates :: "string list"

record member_syntax =
  ms_struct_fields :: "string \<Rightarrow> (string option \<times> string option) list"
  ms_inherent_methods :: "string \<Rightarrow> string list"
  ms_type_name :: "string \<Rightarrow> string option"

definition member_named :: "account_members \<Rightarrow> string \<Rightarrow> account_member option" where
  "member_named members name = find (\<lambda>m. am_name m = name) (ams_members members)"

subsection \<open>Account loaders\<close>

definition is_account_loader :: "symbol_range \<Rightarrow> bool" where
  "is_account_loader field \<longleftrightarrow> sr_type_name field = Some ACCOUNT_LOADER_TYPE"

definition is_account_loader_loaded_method :: "string \<Rightarrow> bool" where
  "is_account_loader_loaded_method name \<longleftrightarrow> name \<in> set ACCOUNT_LOADER_LOADED_METHODS"

definition account_loader_type_name :: "string \<Rightarrow> string" where
  "account_loader_type_name inner_type = ACCOUNT_LOADER_TYPE @ ''<'' @ inner_type @ ''>''"

definition account_loader_type_name_from_parts :: "string option \<Rightarrow> string list \<Rightarrow> string option" where
  "account_loader_type_name_from_parts type_name generics =
     (if type_name = Some ACCOUNT_LOADER_TYPE then
        Some (case last_opt generics of None \<Rightarrow> ACCOUNT_LOADER_TYPE | Some inner \<Rightarrow> account_loader_type_name inner)
      else None)"

definition account_loader_inner_type :: "string \<Rightarrow> string option" where
  "account_loader_inner_type type_name =
     Option.bind (strip_prefix ACCOUNT_LOADER_TYPE type_name) (\<lambda>rest.
     Option.bind (strip_prefix ''<'' rest) (strip_suffix ''>''))"

definition account_loader_field_type_name :: "symbol_range \<Rightarrow> string" where
  "account_loader_field_type_name field =
     unwrap_or ACCOUNT_LOADER_TYPE
       (account_loader_type_name_from_parts (sr_type_name field) (sr_generic_type_names field))"

definition account_loader_members :: "string \<Rightarrow> account_members" where
  "account_loader_members owner_type =
     \<lparr>ams_owner = owner_type,
      ams_members = map (\<lambda>name. \<lparr>am_name = name, am_detail = ''AccountLoader method'', am_kind = MethodMember,
        am_type_name = None\<rparr>) ACCOUNT_LOADER_LOADED_METHOD_COMPLETIONS\<rparr>"

subsection \<open>Structs\<close>

definition member_detail :: "string option \<Rightarrow> string" where
  "member_detail type_display =
     (case type_display of
        None \<Rightarrow> ''Account data field''
      | Some display \<Rightarrow> ''Account data field: '' @ [CHR 0x60] @ display @ [CHR 0x60])"

definition symbol_type_display :: "symbol_range \<Rightarrow> string option" where
  "symbol_type_display field =
     map_option (\<lambda>type_name.
       if sr_generic_type_names field = [] then type_name
       else type_name @ ''<'' @ join '', '' (sr_generic_type_names field) @ ''>'')
       (sr_type_name field)"

definition symbol_member :: "symbol_range \<Rightarrow> account_member" where
  "symbol_member field =
     \<lparr>am_name = sr_name field, am_detail = member_detail (symbol_type_display field), am_kind = FieldMember,
      am_type_name = sr_type_name field\<rparr>"

definition nonempty_members :: "string \<Rightarrow> account_member list \<Rightarrow> account_members option" where
  "nonempty_members owner members =
     (if members = [] then None else Some \<lparr>ams_owner = owner, ams_members = members\<rparr>)"

definition workspace_struct_members :: "workspace_index option \<Rightarrow> string \<Rightarrow> account_members option" where
  "workspace_struct_members index container_type =
     Option.bind index (\<lambda>ix.
       nonempty_members container_type
         (map (\<lambda>field. \<lparr>am_name = wcf_name field, am_detail = member_detail (wcf_type_display field),
             am_kind = FieldMember, am_type_name = wcf_type_name field\<rparr>)
           (account_context_fields ix container_type)))"

definition tree_sitter_struct_members :: "member_syntax \<Rightarrow> string \<Rightarrow> account_members option" where
  "tree_sitter_struct_members syntax container_type =
     nonempty_members container_type
       (List.map_filter (\<lambda>(name, type_text).
           map_option (\<lambda>name. \<lparr>am_name = name, am_detail = member_detail type_text, am_kind = FieldMember,
             am_type_name = Option.bind type_text (ms_type_name syntax)\<rparr>) name)
         (ms_struct_fields syntax container_type))"

definition struct_members ::
  "anchor_symbols \<Rightarrow> member_syntax \<Rightarrow> workspace_index option \<Rightarrow> string \<Rightarrow> account_members option" where
  "struct_members symbols syntax index container_type =
     (case map_of (all_structs symbols) container_type of
        Some container \<Rightarrow> Some \<lparr>ams_owner = container_type, ams_members = map symbol_member (sr_fields container)\<rparr>
      | None \<Rightarrow>
          or_else (tree_sitter_struct_members syntax container_type)
            (workspace_struct_members index container_type))"

definition resolved_struct_members ::
  "anchor_symbols \<Rightarrow> member_syntax \<Rightarrow> workspace_index option \<Rightarrow> string \<Rightarrow> account_members option" where
  "resolved_struct_members symbols syntax index receiver_type =
     (if receiver_type = ACCOUNT_LOADER_TYPE \<or> account_loader_inner_type receiver_type \<noteq> None then
        Some (account_loader_members receiver_type)
      else struct_members symbols syntax index receiver_type)"

subsection \<open>Fields\<close>

fun data_members_visible :: "string option \<Rightarrow> account_member_access \<Rightarrow> bool" where
  "data_members_visible type_name LoadedAccess = (type_name = Some ACCOUNT_LOADER_TYPE)"
| "data_members_visible type_name DirectAccess =
     (type_name \<in> {Some ''Account'', Some ''InterfaceAccount'', Some ''LazyAccount''})"

definition account_data_members ::
  "anchor_symbols \<Rightarrow> member_syntax \<Rightarrow> workspace_index option \<Rightarrow> symbol_range \<Rightarrow> account_member_access \<Rightarrow>
     account_members option" where
  "account_data_members symbols syntax index field access =
     (if \<not> data_members_visible (sr_type_name field) access then None
      else
        Option.bind (last_opt (sr_generic_type_names field)) (\<lambda>account_data_type.
          if map_of (account_data_structs symbols) account_data_type \<noteq> None
          then struct_members symbols syntax index account_data_type
          else workspace_struct_members index account_data_type))"

definition composite_members ::
  "anchor_symbols \<Rightarrow> member_syntax \<Rightarrow> workspace_index option \<Rightarrow> symbol_range \<Rightarrow> account_member_access \<Rightarrow>
     account_members option" where
  "composite_members symbols syntax index field access =
     (if access \<noteq> DirectAccess then None
      else Option.bind (sr_type_name field) (struct_members symbols syntax index))"

definition builtin_members :: "resolved_account_type \<Rightarrow> account_members option" where
  "builtin_members account_type =
     nonempty_members (account_type_display_name account_type)
       (map (\<lambda>name. \<lparr>am_name = name, am_detail = account_type_display_name account_type @ '' field'',
           am_kind = FieldMember, am_type_name = None\<rparr>)
         (resolved_account_member_names account_type))"

definition resolved_field_members ::
  "anchor_symbols \<Rightarrow> member_syntax \<Rightarrow> workspace_index option \<Rightarrow> symbol_range \<Rightarrow> symbol_range \<Rightarrow>
     account_member_access \<Rightarrow> account_members option option" where
  "resolved_field_members symbols syntax index accounts field access =
     (if access = DirectAccess \<and> is_account_loader field then
        Some (Some (account_loader_members (account_loader_field_type_name field)))
      else
        map_option (\<lambda>account_type.
          or_else (builtin_members account_type)
            (or_else (account_data_members symbols syntax index field access)
              (composite_members symbols syntax index field access)))
          (resolve_field_account_type accounts field))"

subsection \<open>Accounts structs of the workspace\<close>

definition workspace_field_symbol :: "workspace_account_field \<Rightarrow> symbol_range" where
  "workspace_field_symbol field =
     SymbolRange (waf_name field) default_range default_range [] [] (waf_type_name field) None (waf_type_signature field)
       (waf_generic_type_names field) [] (waf_is_optional field) [] (waf_account_constraints field)
       (find_map ac_pda (waf_account_constraints field)) [] None None None False"

definition workspace_accounts_symbol :: "workspace_accounts_struct \<Rightarrow> symbol_range" where
  "workspace_accounts_symbol accounts =
     SymbolRange (was_name accounts) default_range default_range (map workspace_field_symbol (was_fields accounts)) []
       None None None [] [] False [] [] None (was_instruction_arguments accounts) None None None False"

definition field_symbol_named :: "symbol_range \<Rightarrow> string \<Rightarrow> symbol_range option" where
  "field_symbol_named accounts name = find (\<lambda>field. sr_name field = name) (sr_fields accounts)"

definition local_type_name :: "symbol_range \<Rightarrow> symbol_range \<Rightarrow> string option option" where
  "local_type_name accounts field =
     (if is_account_loader field then Some (Some (account_loader_field_type_name field))
      else declared_or_expected_account_inner_type accounts field)"

text \<open>The first two candidates, of the document and of the workspace, that gives an answer.\<close>

definition in_accounts ::
  "anchor_symbols \<Rightarrow> workspace_index option \<Rightarrow> string \<Rightarrow> string \<Rightarrow>
     (symbol_range \<Rightarrow> symbol_range \<Rightarrow> 'a option option) \<Rightarrow> 'a option option" where
  "in_accounts symbols index accounts_type name answer =
     (let ask = (\<lambda>accounts.
            case Option.bind accounts (\<lambda>accounts. map_option (Pair accounts) (field_symbol_named accounts name)) of
              None \<Rightarrow> Some None
            | Some (accounts, field) \<Rightarrow> answer accounts field) in
      Option.bind (ask (map_of (accounts_structs symbols) accounts_type)) (\<lambda>found.
        if found \<noteq> None then Some found
        else ask (Option.bind index (\<lambda>ix. map_option workspace_accounts_symbol (accounts_struct ix accounts_type)))))"

definition account_context_field_type_name ::
  "anchor_symbols \<Rightarrow> workspace_index option \<Rightarrow> string \<Rightarrow> string \<Rightarrow> string option option" where
  "account_context_field_type_name symbols index accounts_type name =
     in_accounts symbols index accounts_type name local_type_name"

definition account_context_field_members ::
  "anchor_symbols \<Rightarrow> member_syntax \<Rightarrow> workspace_index option \<Rightarrow> string \<Rightarrow> string \<Rightarrow> account_members option option" where
  "account_context_field_members symbols syntax index accounts_type name =
     in_accounts symbols index accounts_type name
       (\<lambda>accounts field. resolved_field_members symbols syntax index accounts field DirectAccess)"

subsection \<open>Chains of members\<close>

definition resolved_struct_member_type_name ::
  "anchor_symbols \<Rightarrow> member_syntax \<Rightarrow> workspace_index option \<Rightarrow> string \<Rightarrow> string \<Rightarrow> string option option" where
  "resolved_struct_member_type_name symbols syntax index owner_type name =
     map_option (\<lambda>found.
       or_else found
         (Option.bind (resolved_struct_members symbols syntax index owner_type) (\<lambda>members.
          Option.bind (member_named members name) am_type_name)))
       (account_context_field_type_name symbols index owner_type name)"

definition resolved_struct_member_members ::
  "anchor_symbols \<Rightarrow> member_syntax \<Rightarrow> workspace_index option \<Rightarrow> string \<Rightarrow> string \<Rightarrow> account_members option option" where
  "resolved_struct_member_members symbols syntax index owner_type name =
     map_option (\<lambda>found.
       or_else found
         (Option.bind (resolved_struct_members symbols syntax index owner_type) (\<lambda>members.
          Option.bind (member_named members name) (\<lambda>m.
          Option.bind (am_type_name m) (resolved_struct_members symbols syntax index)))))
       (account_context_field_members symbols syntax index owner_type name)"

fun field_chain :: "(string \<Rightarrow> account_members option) \<Rightarrow> account_members \<Rightarrow> string list \<Rightarrow> account_members option" where
  "field_chain resolve members [] = Some members"
| "field_chain resolve members (name # chain) =
     Option.bind (member_named members name) (\<lambda>m.
     Option.bind (am_type_name m) (\<lambda>next_type.
     Option.bind (resolve next_type) (\<lambda>members. field_chain resolve members chain)))"

definition resolved_field_chain_members ::
  "anchor_symbols \<Rightarrow> member_syntax \<Rightarrow> workspace_index option \<Rightarrow> symbol_range \<Rightarrow> symbol_range \<Rightarrow>
     account_member_access \<Rightarrow> string list \<Rightarrow> account_members option option" where
  "resolved_field_chain_members symbols syntax index accounts field access member_chain =
     map_option (\<lambda>found.
       Option.bind found (\<lambda>members. field_chain (resolved_struct_members symbols syntax index) members member_chain))
       (resolved_field_members symbols syntax index accounts field access)"

fun struct_chain ::
  "(string \<Rightarrow> string \<Rightarrow> account_members option option) \<Rightarrow> account_members \<Rightarrow> string list \<Rightarrow> account_members option option" where
  "struct_chain step members [] = Some (Some members)"
| "struct_chain step members (name # chain) =
     Option.bind (step (ams_owner members) name) (\<lambda>found.
       case found of None \<Rightarrow> Some None | Some members \<Rightarrow> struct_chain step members chain)"

definition resolved_struct_chain_members ::
  "anchor_symbols \<Rightarrow> member_syntax \<Rightarrow> workspace_index option \<Rightarrow> string \<Rightarrow> string list \<Rightarrow> account_members option option" where
  "resolved_struct_chain_members symbols syntax index receiver_type member_chain =
     (case resolved_struct_members symbols syntax index receiver_type of
        None \<Rightarrow> Some None
      | Some members \<Rightarrow> struct_chain (resolved_struct_member_members symbols syntax index) members member_chain)"

text \<open>The methods of an owner, sorted, once each, and not those that are listed already.\<close>

definition inherent_method_names ::
  "anchor_symbols \<Rightarrow> member_syntax \<Rightarrow> workspace_index option \<Rightarrow> string \<Rightarrow> string list" where
  "inherent_method_names symbols syntax index owner_type =
     remdups_adj (sort
       (map avr_name (filter (\<lambda>item. avr_kind item = AvMethod)
          (unwrap_or [] (map_of (associated_value_items symbols) owner_type))) @
        ms_inherent_methods syntax owner_type @
        (case index of
           None \<Rightarrow> []
         | Some ix \<Rightarrow> map wav_name (filter (\<lambda>v. wav_kind v = KIND_METHOD) (associated_values_in_container ix owner_type)))))"

definition push_method :: "account_members \<Rightarrow> string \<Rightarrow> account_members" where
  "push_method members method_name =
     (let completion_name = method_name @ ''()'' in
      if list_ex (\<lambda>m. am_name m = completion_name) (ams_members members) then members
      else members\<lparr>ams_members := ams_members members @
        [\<lparr>am_name = completion_name, am_detail = ''Account data method'', am_kind = MethodMember, am_type_name = None\<rparr>]\<rparr>)"

definition extend_with_inherent_methods ::
  "anchor_symbols \<Rightarrow> member_syntax \<Rightarrow> workspace_index option \<Rightarrow> account_members \<Rightarrow> account_members" where
  "extend_with_inherent_methods symbols syntax index members =
     foldl push_method members (inherent_method_names symbols syntax index (ams_owner members))"

definition resolved_struct_chain_completion_members ::
  "anchor_symbols \<Rightarrow> member_syntax \<Rightarrow> workspace_index option \<Rightarrow> string \<Rightarrow> string list \<Rightarrow> account_members option option" where
  "resolved_struct_chain_completion_members symbols syntax index receiver_type member_chain =
     map_option (map_option (extend_with_inherent_methods symbols syntax index))
       (resolved_struct_chain_members symbols syntax index receiver_type member_chain)"

subsection \<open>Missing members\<close>

fun missing_in_chain ::
  "(string \<Rightarrow> account_members option) \<Rightarrow> account_members \<Rightarrow> string list \<Rightarrow> string list \<Rightarrow> missing_member option" where
  "missing_in_chain resolve members receivers [] = None"
| "missing_in_chain resolve members receivers (name # chain) =
     (case member_named members name of
        None \<Rightarrow>
          Some \<lparr>mm_receiver_path = join ''.'' receivers, mm_member = name, mm_owner_type = ams_owner members,
                mm_candidates = map am_name (ams_members members)\<rparr>
      | Some m \<Rightarrow>
          Option.bind (am_type_name m) (\<lambda>next_type.
          Option.bind (resolve next_type) (\<lambda>members. missing_in_chain resolve members (receivers @ [name]) chain)))"

definition missing_member_in_chain ::
  "anchor_symbols \<Rightarrow> member_syntax \<Rightarrow> workspace_index option \<Rightarrow> symbol_range \<Rightarrow> symbol_range \<Rightarrow>
     account_member_access \<Rightarrow> string \<Rightarrow> string list \<Rightarrow> missing_member option option" where
  "missing_member_in_chain symbols syntax index accounts field access receiver member_chain =
     map_option (\<lambda>found.
       Option.bind found (\<lambda>members. missing_in_chain (struct_members symbols syntax index) members [receiver] member_chain))
       (resolved_field_members symbols syntax index accounts field access)"

definition missing_struct_member_in_chain ::
  "anchor_symbols \<Rightarrow> member_syntax \<Rightarrow> workspace_index option \<Rightarrow> string \<Rightarrow> string \<Rightarrow> string list \<Rightarrow> missing_member option" where
  "missing_struct_member_in_chain symbols syntax index receiver_type receiver member_chain =
     Option.bind (resolved_struct_members symbols syntax index receiver_type) (\<lambda>members.
       missing_in_chain (resolved_struct_members symbols syntax index) members [receiver] member_chain)"

subsection \<open>Instruction arguments\<close>

definition argument_type_name ::
  "anchor_symbols \<Rightarrow> workspace_index option \<Rightarrow> symbol_range \<Rightarrow> string \<Rightarrow> string option" where
  "argument_type_name symbols index accounts receiver =
     or_else
       (Option.bind
         (find (\<lambda>a. instruction_argument_names_match (iaa_name a) receiver) (sr_instruction_arguments accounts))
         iaa_type_name)
     (or_else
       (Option.bind
         (find (\<lambda>a. instruction_argument_names_match (ia_name a) receiver)
           (concat (map is_arguments
             (filter (\<lambda>i. map_option cr_name (is_context i) = Some (sr_name accounts)) (instructions symbols)))))
         ia_type_name)
       (Option.bind index (\<lambda>ix. instruction_argument_type_for_context ix (sr_name accounts) receiver)))"

end
