(* ===== verification/Account_Usage_Rules.thy ===== *)
theory Account_Usage_Rules
  imports Account_Members Shape_Support
begin

section \<open>The rule on uses of accounts\<close>

text \<open>
  Models \<open>src/lsp/diagnostics/account_usage/mod.rs\<close>: accounts that a handler uses and its accounts
  struct does not declare, accounts that it changes without a constraint that makes them mutable, and
  members that the data of an account does not have.  \<open>None\<close> is a panic below.
\<close>

definition mapM_option :: "('a \<Rightarrow> 'b option option) \<Rightarrow> 'a list \<Rightarrow> 'b list option" where
  "mapM_option f xs =
     (if list_ex (\<lambda>x. f x = None) xs then None else Some (List.map_filter (\<lambda>x. Option.bind (f x) id) xs))"

definition MUT_TYPES :: "string option set" where
  "MUT_TYPES = {Some ''Account'', Some ''AccountLoader'', Some ''InterfaceAccount'', Some ''UncheckedAccount''}"

subsection \<open>Accounts of the struct itself\<close>

definition has_effective_mut_constraint :: "field_evidence \<Rightarrow> bool" where
  "has_effective_mut_constraint field \<longleftrightarrow> has_any_constraint field MUTABILITY_IMPLYING_KEYS"

definition should_require_mut :: "field_evidence \<Rightarrow> bool" where
  "should_require_mut field \<longleftrightarrow> field_type_name field \<in> MUT_TYPES"

definition unknown_account_diagnostics ::
  "(string \<Rightarrow> string option) \<Rightarrow> account_set_evidence \<Rightarrow> diagnostic list" where
  "unknown_account_diagnostics parse accounts =
     map (\<lambda>u. diagnostic_from_range parse (uau_range u) AnchorMissingAccountReference
         (quoted (uau_account u) @ '' is used through '' @ quoted ''ctx.accounts'' @ '' in '' @ quoted (uau_instruction u) @
          '' but is not declared in '' @ quoted (sr_name (ase_accounts accounts)) @ ''.'')
         (Some (JObject
           [(''account'', JString (uau_account u)), (''accountsStruct'', JString (sr_name (ase_accounts accounts))),
            (''instruction'', JString (uau_instruction u)), (''reason'', JString ''unknown-ctx-account-field'')])))
       (unknown_account_usages accounts)"

definition mutability_diagnostic ::
  "(string \<Rightarrow> string option) \<Rightarrow> field_evidence \<Rightarrow> field_usage_evidence \<Rightarrow> diagnostic" where
  "mutability_diagnostic parse field u =
     diagnostic_from_range parse (fue_range u) AnchorAccountUsage
       (quoted (sr_name (fe_field field)) @ '' is mutated in '' @ quoted (fue_instruction u) @
        '' but its account field is missing '' @ quoted ''#[account(mut)]'' @ ''.'')
       (Some (JObject
         [(''account'', JString (sr_name (fe_field field))), (''instruction'', JString (fue_instruction u)),
          (''missing'', JString ''mut''), (''quickfix'', JString ''add-mut-constraint'')]))"

definition mutability_diagnostics ::
  "(string \<Rightarrow> string option) \<Rightarrow> field_evidence \<Rightarrow> diagnostic list" where
  "mutability_diagnostics parse field =
     map (mutability_diagnostic parse field)
       (filter (\<lambda>_. \<not> has_effective_mut_constraint field)
         (filter (\<lambda>_. should_require_mut field) (filter fue_mutable (used_by_instructions field))))"

subsection \<open>Paths through nested structs\<close>

record account_path_field =
  apf_name :: string
  apf_type_name :: "string option"
  apf_constraints :: "string list"

definition local_account_path_field :: "symbol_range \<Rightarrow> account_path_field" where
  "local_account_path_field field =
     \<lparr>apf_name = sr_name field, apf_type_name = sr_type_name field,
      apf_constraints = map ac_text (sr_account_constraints field)\<rparr>"

definition workspace_account_path_field :: "workspace_account_field \<Rightarrow> account_path_field" where
  "workspace_account_path_field field =
     \<lparr>apf_name = waf_name field, apf_type_name = waf_type_name field,
      apf_constraints = map ac_text (waf_account_constraints field)\<rparr>"

definition path_fields ::
  "anchor_symbols \<Rightarrow> workspace_index option \<Rightarrow> string \<Rightarrow> account_path_field list option" where
  "path_fields symbols index container =
     (case map_of (accounts_structs symbols) container of
        Some accounts \<Rightarrow> Some (map local_account_path_field (sr_fields accounts))
      | None \<Rightarrow>
          map_option (\<lambda>accounts. map workspace_account_path_field (was_fields accounts))
            (Option.bind index (\<lambda>ix. accounts_struct ix container)))"

text \<open>The tokens of a text: maximal runs of letters, digits and underscores.\<close>

fun tokens_of :: "string \<Rightarrow> string \<Rightarrow> string list" where
  "tokens_of token [] = (if token = [] then [] else [token])"
| "tokens_of token (c # cs) =
     (if is_ascii_alphanumeric c \<or> c = CHR ''_'' then tokens_of (token @ [c]) cs
      else (if token = [] then [] else [token]) @ tokens_of [] cs)"

definition constraint_has_any_key :: "string \<Rightarrow> string list \<Rightarrow> bool" where
  "constraint_has_any_key s keys \<longleftrightarrow> list_ex (\<lambda>token. token \<in> set keys) (tokens_of [] s)"

definition has_effective_mut_path_constraint :: "account_path_field \<Rightarrow> bool" where
  "has_effective_mut_path_constraint field \<longleftrightarrow>
     list_ex (\<lambda>c. constraint_has_any_key c [''init'', ''init_if_needed'', ''mut'', ''zero'']) (apf_constraints field)"

definition should_require_mut_path_field :: "account_path_field \<Rightarrow> bool" where
  "should_require_mut_path_field field \<longleftrightarrow> apf_type_name field \<in> MUT_TYPES"

definition has_accounts_struct :: "anchor_symbols \<Rightarrow> workspace_index option \<Rightarrow> string \<Rightarrow> bool" where
  "has_accounts_struct symbols index name \<longleftrightarrow>
     map_of (accounts_structs symbols) name \<noteq> None \<or> Option.bind index (\<lambda>ix. accounts_struct ix name) \<noteq> None"

definition unknown_path_diagnostic ::
  "(string \<Rightarrow> string option) \<Rightarrow> string \<Rightarrow> account_path_usage \<Rightarrow> string \<Rightarrow> account_path_field list \<Rightarrow> named_range \<Rightarrow>
     diagnostic" where
  "unknown_path_diagnostic parse instruction u container fs segment =
     diagnostic_from_range parse (nr_range segment) AnchorMissingAccountReference
       (quoted (nr_name segment) @ '' is used through '' @ quoted ''ctx.accounts'' @ '' in '' @ quoted instruction @
        '' but is not declared in '' @ quoted container @ ''.'')
       (Some (JObject
         [(''account'', JString (nr_name segment)), (''accountsStruct'', JString container),
          (''instruction'', JString instruction), (''reason'', JString ''unknown-ctx-account-field''),
          (''accountPath'', JArray (map (\<lambda>s. JString (nr_name s)) (apu_segments u))),
          (''candidates'', JArray (map (\<lambda>f. JString (apf_name f)) fs))]))"

definition path_mutability_diagnostic ::
  "(string \<Rightarrow> string option) \<Rightarrow> string \<Rightarrow> account_path_usage \<Rightarrow> string \<Rightarrow> account_path_field \<Rightarrow> named_range \<Rightarrow> diagnostic" where
  "path_mutability_diagnostic parse instruction u container field segment =
     diagnostic_from_range parse (nr_range segment) AnchorAccountUsage
       (quoted (apf_name field) @ '' is mutated in '' @ quoted instruction @ '' but its account field in '' @
        quoted container @ '' is missing '' @ quoted ''#[account(mut)]'' @ ''.'')
       (Some (JObject
         [(''account'', JString (apf_name field)), (''accountsStruct'', JString container),
          (''instruction'', JString instruction), (''missing'', JString ''mut''),
          (''quickfix'', JString ''add-mut-constraint''),
          (''accountPath'', JArray (map (\<lambda>s. JString (nr_name s)) (apu_segments u)))]))"

text \<open>The loop over the segments; \<open>first\<close> says that it is at the first one.\<close>

fun path_loop ::
  "(string \<Rightarrow> string option) \<Rightarrow> anchor_symbols \<Rightarrow> workspace_index option \<Rightarrow> string \<Rightarrow> account_path_usage \<Rightarrow> bool \<Rightarrow>
     string \<Rightarrow> named_range list \<Rightarrow> diagnostic option" where
  "path_loop parse symbols index instruction u first container [] = None"
| "path_loop parse symbols index instruction u first container (segment # segments) =
     (case path_fields symbols index container of
        None \<Rightarrow> None
      | Some fs \<Rightarrow>
          (case find (\<lambda>field. apf_name field = nr_name segment) fs of
             None \<Rightarrow> Some (unknown_path_diagnostic parse instruction u container fs segment)
           | Some field \<Rightarrow>
               if \<not> first \<and> apu_mutable u \<and> should_require_mut_path_field field \<and>
                  \<not> has_effective_mut_path_constraint field
               then Some (path_mutability_diagnostic parse instruction u container field segment)
               else if segments = [] then None
               else
                 case apf_type_name field of
                   None \<Rightarrow> None
                 | Some type_name \<Rightarrow>
                     if has_accounts_struct symbols index type_name
                     then path_loop parse symbols index instruction u False type_name segments
                     else None))"

definition nested_account_path_diagnostic ::
  "(string \<Rightarrow> string option) \<Rightarrow> anchor_symbols \<Rightarrow> workspace_index option \<Rightarrow> instruction_symbol \<Rightarrow> account_path_usage \<Rightarrow>
     diagnostic option" where
  "nested_account_path_diagnostic parse symbols index instruction u =
     Option.bind (is_context instruction) (\<lambda>context.
       path_loop parse symbols index (is_name instruction) u True (cr_name context) (apu_segments u))"

definition nested_account_path_diagnostics ::
  "(string \<Rightarrow> string option) \<Rightarrow> anchor_symbols \<Rightarrow> workspace_index option \<Rightarrow> diagnostic list" where
  "nested_account_path_diagnostics parse symbols index =
     concat (map (\<lambda>instruction.
       List.map_filter (nested_account_path_diagnostic parse symbols index instruction)
         (filter (\<lambda>u. length (apu_segments u) > 1) (is_account_path_usages instruction)))
       (callable_functions symbols))"

subsection \<open>Members of account data\<close>

definition accounts_symbol :: "anchor_symbols \<Rightarrow> workspace_index option \<Rightarrow> string \<Rightarrow> symbol_range option" where
  "accounts_symbol symbols index name =
     or_else (map_of (accounts_structs symbols) name)
       (Option.bind index (\<lambda>ix. map_option (\<lambda>accounts.
          let plain = (\<lambda>field. SymbolRange (waf_name field) default_range default_range [] [] (waf_type_name field) None
                (waf_type_signature field) (waf_generic_type_names field) [] False [] (waf_account_constraints field) None
                [] None None None False) in
          SymbolRange (was_name accounts) default_range default_range (map plain (was_fields accounts)) [] None None None
            [] [] False [] [] None (was_instruction_arguments accounts) None None None False)
          (accounts_struct ix name)))"

definition missing_member_diagnostic ::
  "(string \<Rightarrow> string option) \<Rightarrow> range \<Rightarrow> string \<Rightarrow> string \<Rightarrow> string \<Rightarrow> string \<Rightarrow> missing_member \<Rightarrow> diagnostic" where
  "missing_member_diagnostic parse r account name accounts_name instruction missing =
     diagnostic_from_range parse r AnchorMissingAccountReference
       (quoted (mm_receiver_path missing @ ''.'' @ mm_member missing) @ '' does not resolve; '' @
        quoted (mm_owner_type missing) @ '' has no field '' @ quoted (mm_member missing) @ ''.'')
       (Some (JObject
         [(''account'', JString account), (''field'', JString name), (''accountsStruct'', JString accounts_name),
          (''instruction'', JString instruction), (''reason'', JString ''unknown-account-data-field''),
          (''ownerType'', JString (mm_owner_type missing)),
          (''candidates'', JArray (map JString (mm_candidates missing)))]))"

definition account_data_field_diagnostic ::
  "(string \<Rightarrow> string option) \<Rightarrow> anchor_symbols \<Rightarrow> member_syntax \<Rightarrow> workspace_index option \<Rightarrow> instruction_symbol \<Rightarrow>
     account_data_field_usage \<Rightarrow> diagnostic option option" where
  "account_data_field_diagnostic parse symbols syntax index instruction u =
     (case Option.bind (is_context instruction) (\<lambda>context.
        Option.bind (accounts_symbol symbols index (cr_name context)) (\<lambda>accounts.
          map_option (Pair accounts) (field_symbol_named accounts (adfu_account u)))) of
        None \<Rightarrow> Some None
      | Some (accounts, field) \<Rightarrow>
          map_option (map_option
              (missing_member_diagnostic parse (adfu_range u) (adfu_account u) (adfu_field u) (sr_name accounts)
                (is_name instruction)))
            (missing_member_in_chain symbols syntax index accounts field DirectAccess (adfu_source_account u)
              [adfu_field u]))"

text \<open>What is said of the segments behind a field that is no nested accounts struct.\<close>

definition data_tail_diagnostic ::
  "(string \<Rightarrow> string option) \<Rightarrow> anchor_symbols \<Rightarrow> member_syntax \<Rightarrow> workspace_index option \<Rightarrow> string \<Rightarrow> symbol_range \<Rightarrow>
     symbol_range \<Rightarrow> string \<Rightarrow> named_range \<Rightarrow> named_range list \<Rightarrow> diagnostic option option" where
  "data_tail_diagnostic parse symbols syntax index instruction accounts field receiver segment segments =
     map_option (map_option (\<lambda>missing.
         missing_member_diagnostic parse
           (case find (\<lambda>s. nr_name s = mm_member missing) segments of Some s \<Rightarrow> nr_range s | None \<Rightarrow> nr_range segment)
           receiver (mm_member missing) (sr_name accounts) instruction missing))
       (missing_member_in_chain symbols syntax index accounts field DirectAccess receiver (map nr_name segments))"

text \<open>The loop of \<open>nested_account_data_path_diagnostic\<close>, with the names of the segments behind it.\<close>

fun data_path_loop ::
  "(string \<Rightarrow> string option) \<Rightarrow> anchor_symbols \<Rightarrow> member_syntax \<Rightarrow> workspace_index option \<Rightarrow> string \<Rightarrow> symbol_range \<Rightarrow>
     string list \<Rightarrow> named_range list \<Rightarrow> diagnostic option option" where
  "data_path_loop parse symbols syntax index instruction accounts receivers [] = Some None"
| "data_path_loop parse symbols syntax index instruction accounts receivers (segment # segments) =
     (case field_symbol_named accounts (nr_name segment) of
        None \<Rightarrow> Some None
      | Some field \<Rightarrow>
          let receivers = receivers @ [nr_name segment] in
          if segments = [] then Some None
          else
            case Option.bind (sr_type_name field) (\<lambda>t. if has_accounts_struct symbols index t then Some t else None) of
              Some type_name \<Rightarrow>
                (case accounts_symbol symbols index type_name of
                   None \<Rightarrow> Some None
                 | Some accounts \<Rightarrow> data_path_loop parse symbols syntax index instruction accounts receivers segments)
            | None \<Rightarrow>
                data_tail_diagnostic parse symbols syntax index instruction accounts field (join ''.'' receivers)
                  segment segments)"

definition nested_account_data_path_diagnostic ::
  "(string \<Rightarrow> string option) \<Rightarrow> anchor_symbols \<Rightarrow> member_syntax \<Rightarrow> workspace_index option \<Rightarrow> instruction_symbol \<Rightarrow>
     account_path_usage \<Rightarrow> diagnostic option option" where
  "nested_account_data_path_diagnostic parse symbols syntax index instruction u =
     (case Option.bind (is_context instruction) (\<lambda>context. accounts_symbol symbols index (cr_name context)) of
        None \<Rightarrow> Some None
      | Some accounts \<Rightarrow>
          data_path_loop parse symbols syntax index (is_name instruction) accounts [] (apu_segments u))"

definition over_callables ::
  "anchor_symbols \<Rightarrow> (instruction_symbol \<Rightarrow> 'a list) \<Rightarrow> (instruction_symbol \<Rightarrow> 'a \<Rightarrow> diagnostic option option) \<Rightarrow>
     diagnostic list option" where
  "over_callables symbols usages check =
     mapM_option (\<lambda>(instruction, u). check instruction u)
       (concat (map (\<lambda>i. map (Pair i) (usages i)) (callable_functions symbols)))"

definition account_usage_collect ::
  "(string \<Rightarrow> string option) \<Rightarrow> member_syntax \<Rightarrow> anchor_symbols \<Rightarrow> workspace_index option \<Rightarrow> diagnostic list option" where
  "account_usage_collect parse syntax symbols index =
     (let graph =
        (case index of
           Some ix \<Rightarrow> evidence_graph symbols (reachable_function_names_for_context ix)
         | None \<Rightarrow> evidence_from_document symbols) in
      Option.bind
        (over_callables symbols
          (\<lambda>i. filter (\<lambda>u. length (apu_segments u) > 2) (is_account_path_usages i))
          (nested_account_data_path_diagnostic parse symbols syntax index)) (\<lambda>data_paths.
      map_option (\<lambda>data_fields.
          concat (map (\<lambda>accounts.
            unknown_account_diagnostics parse accounts @
            concat (map (mutability_diagnostics parse) (ase_fields accounts))) graph) @
          nested_account_path_diagnostics parse symbols index @ data_paths @ data_fields)
        (over_callables symbols is_account_data_field_usages
          (account_data_field_diagnostic parse symbols syntax index))))"

subsection \<open>What is reported of a path\<close>

text \<open>\<open>leads_to\<close>: the segments name fields, each with a known accounts struct as its type, that lead from
  the one container to the other.\<close>

inductive leads_to :: "anchor_symbols \<Rightarrow> workspace_index option \<Rightarrow> string \<Rightarrow> named_range list \<Rightarrow> string \<Rightarrow> bool"
  for symbols index where
  here: "leads_to symbols index container [] container"
| below: "path_fields symbols index container = Some fs \<Longrightarrow>
    find (\<lambda>field. apf_name field = nr_name segment) fs = Some field \<Longrightarrow> apf_type_name field = Some type_name \<Longrightarrow>
    has_accounts_struct symbols index type_name \<Longrightarrow> leads_to symbols index type_name segments container' \<Longrightarrow>
    leads_to symbols index container (segment # segments) container'"

inductive_cases leads_to_Cons: "leads_to symbols index container (segment # segments) container'"
inductive_cases leads_to_Nil: "leads_to symbols index container [] container'"

text \<open>A path that is only read is reported exactly when its first segments lead to an accounts struct that
  does not declare the next one.\<close>

definition undeclared_segment ::
  "anchor_symbols \<Rightarrow> workspace_index option \<Rightarrow> string \<Rightarrow> named_range list \<Rightarrow> string \<Rightarrow> account_path_field list \<Rightarrow>
     named_range \<Rightarrow> bool" where
  "undeclared_segment symbols index container segments container' fs segment \<longleftrightarrow>
     (\<exists>us vs. segments = us @ segment # vs \<and> leads_to symbols index container us container' \<and>
        path_fields symbols index container' = Some fs \<and> nr_name segment \<notin> apf_name ` set fs)"

lemma find_name_None: "find (\<lambda>field. apf_name field = name) fs = None \<longleftrightarrow> name \<notin> apf_name ` set fs"
  by (auto simp: find_None_iff)

lemma undeclared_segment_Cons:
  "undeclared_segment symbols index container (s # segments) container' fs segment \<longleftrightarrow>
     (segment = s \<and> container' = container \<and> path_fields symbols index container = Some fs \<and>
        nr_name s \<notin> apf_name ` set fs) \<or>
     (\<exists>gs field type_name. path_fields symbols index container = Some gs \<and>
        find (\<lambda>field. apf_name field = nr_name s) gs = Some field \<and> apf_type_name field = Some type_name \<and>
        has_accounts_struct symbols index type_name \<and>
        undeclared_segment symbols index type_name segments container' fs segment)"
  (is "?u \<longleftrightarrow> ?now \<or> ?later")
proof
  assume ?u
  then obtain us vs where us: "s # segments = us @ segment # vs" "leads_to symbols index container us container'"
    "path_fields symbols index container' = Some fs" "nr_name segment \<notin> apf_name ` set fs"
    by (auto simp: undeclared_segment_def)
  show "?now \<or> ?later"
  proof (cases us)
    case Nil
    then show ?thesis using us by (auto elim: leads_to_Nil)
  next
    case (Cons u us')
    then have "u = s" "segments = us' @ segment # vs" using us(1) by auto
    obtain gs field type_name where below: "path_fields symbols index container = Some gs"
        "find (\<lambda>field. apf_name field = nr_name s) gs = Some field" "apf_type_name field = Some type_name"
        "has_accounts_struct symbols index type_name" "leads_to symbols index type_name us' container'"
      using us(2) unfolding Cons \<open>u = s\<close> by (elim leads_to_Cons)
    have "undeclared_segment symbols index type_name segments container' fs segment"
      unfolding undeclared_segment_def using \<open>segments = us' @ segment # vs\<close> below(5) us(3,4) by blast
    with below show ?thesis by blast
  qed
next
  assume "?now \<or> ?later"
  then show ?u
  proof
    assume ?now
    then have "s # segments = [] @ segment # segments" "leads_to symbols index container [] container'"
      by (auto intro: leads_to.here)
    with \<open>?now\<close> show ?u unfolding undeclared_segment_def by blast
  next
    assume ?later
    then obtain gs field type_name us vs where later: "path_fields symbols index container = Some gs"
        "find (\<lambda>field. apf_name field = nr_name s) gs = Some field" "apf_type_name field = Some type_name"
        "has_accounts_struct symbols index type_name" "segments = us @ segment # vs"
        "leads_to symbols index type_name us container'" "path_fields symbols index container' = Some fs"
        "nr_name segment \<notin> apf_name ` set fs"
      by (auto simp: undeclared_segment_def)
    then have "leads_to symbols index container (s # us) container'" by (intro leads_to.below)
    moreover have "s # segments = (s # us) @ segment # vs" using later by simp
    ultimately show ?u using later unfolding undeclared_segment_def by blast
  qed
qed

lemma no_undeclared_Nil: "\<not> undeclared_segment symbols index container [] container' fs segment"
  by (simp add: undeclared_segment_def)

lemma read_path_exact:
  assumes "\<not> apu_mutable u"
  shows "path_loop parse symbols index instruction u first container segments = Some d \<longleftrightarrow>
    (\<exists>container' fs segment. undeclared_segment symbols index container segments container' fs segment \<and>
       d = unknown_path_diagnostic parse instruction u container' fs segment)"
proof (induction segments arbitrary: first container)
  case (Cons s segments)
  show ?case
  proof (cases "path_fields symbols index container")
    case (Some gs)
    show ?thesis
    proof (cases "find (\<lambda>field. apf_name field = nr_name s) gs")
      case None
      then have "nr_name s \<notin> apf_name ` set gs" using find_name_None [of "nr_name s" gs] by simp
      then show ?thesis using Some None by (auto simp: undeclared_segment_Cons)
    next
      case found: (Some field)
      then have "nr_name s \<in> apf_name ` set gs" using find_name_None [of "nr_name s" gs] by simp
      then have rest: "undeclared_segment symbols index container (s # segments) container' fs segment \<longleftrightarrow>
          (\<exists>type_name. apf_type_name field = Some type_name \<and> has_accounts_struct symbols index type_name \<and>
            undeclared_segment symbols index type_name segments container' fs segment)" for container' fs segment
        using Some found by (auto simp: undeclared_segment_Cons)
      have unroll: "path_loop parse symbols index instruction u first container (s # segments) =
          (case apf_type_name field of
             None \<Rightarrow> None
           | Some type_name \<Rightarrow>
               if has_accounts_struct symbols index type_name
               then path_loop parse symbols index instruction u False type_name segments else None)"
        using Some found assms by (simp split: option.split)
      show ?thesis unfolding unroll rest by (cases "apf_type_name field") (auto simp: Cons.IH)
    qed
  qed (simp add: undeclared_segment_Cons)
qed (simp add: no_undeclared_Nil)

text \<open>The keys that make an account mutable are read from the catalog for a field of the struct itself,
  and are four fixed keys for a field of a nested one: an account with \<open>close\<close> alone is accepted when it
  is changed directly and reported when it is changed through a path.\<close>

lemma close_counts_only_directly:
  "let c = \<lparr>ac_text = ''account(close = receiver)'', ac_range = default_range, ac_pda = None\<rparr> in
   has_effective_mut_constraint
     \<lparr>fe_field = SymbolRange ''vault'' default_range default_range [] [] (Some ''Account'') None None [] [] False []
        [c] None [] None None None False, fe_constraints = [c], used_by_instructions = [], used_as_cpi_programs = []\<rparr> \<and>
   \<not> has_effective_mut_path_constraint
     \<lparr>apf_name = ''vault'', apf_type_name = Some ''Account'', apf_constraints = [''account(close = receiver)'']\<rparr>"
  by code_simp

end
