(* ===== verification/Account_Reference_Rules.thy ===== *)
theory Account_Reference_Rules
  imports Account_Usage_Rules Edit_Distance Spl_Semantics "HOL-Library.Product_Lexorder"
begin

section \<open>The rule on references to accounts\<close>

text \<open>
  Models \<open>src/lsp/diagnostics/account_references/mod.rs\<close>: constraints that name an account which the
  accounts struct does not have, with replacements ranked by role and edit distance, and constraints that
  name an argument which \<open>#[instruction(...)]\<close> does not list.  \<open>None\<close> is a panic of the search for
  the type of an account.
\<close>

subsection \<open>Replacements\<close>

definition constraint_key_has_segment :: "string \<Rightarrow> string \<Rightarrow> bool" where
  "constraint_key_has_segment key expected \<longleftrightarrow> list_ex (\<lambda>segment. segment = expected) (tokens_of [] key)"

definition is_signer_like_field :: "symbol_range \<Rightarrow> bool" where
  "is_signer_like_field field \<longleftrightarrow>
     sr_type_name field = Some ''Signer'' \<or>
     list_ex (\<lambda>c. has_flag_or_key (ac_text c) ''signer'') (sr_account_constraints field)"

definition is_mint_account_field :: "symbol_range \<Rightarrow> symbol_range \<Rightarrow> bool option" where
  "is_mint_account_field accounts field =
     (if sr_type_name field \<in> {Some ''Account'', Some ''InterfaceAccount''} then field_has_inner_type accounts field ''Mint''
      else Some False)"

definition is_program_field :: "symbol_range \<Rightarrow> bool" where
  "is_program_field field \<longleftrightarrow> sr_type_name field \<in> {Some ''Program'', Some ''Interface''}"

definition candidate_role_rank :: "symbol_range \<Rightarrow> symbol_range \<Rightarrow> string \<Rightarrow> nat option" where
  "candidate_role_rank accounts field ckey =
     (let key = to_ascii_lowercase ckey; rank = (\<lambda>fits. if fits then 0 else 1) in
      if constraint_key_has_segment key ''authority'' then Some (rank (is_signer_like_field field))
      else if constraint_key_has_segment key ''payer'' then Some (rank (is_signer_like_field field))
      else if constraint_key_has_segment key ''mint'' then map_option rank (is_mint_account_field accounts field)
      else if constraint_key_has_segment key ''program'' then Some (rank (is_program_field field))
      else Some 0)"

definition candidate_key :: "symbol_range \<Rightarrow> string \<Rightarrow> string \<Rightarrow> symbol_range \<Rightarrow> (nat \<times> nat \<times> string) option" where
  "candidate_key accounts ckey missing field =
     map_option (\<lambda>rank. (rank, edit_distance (sr_name field) missing, sr_name field))
       (candidate_role_rank accounts field ckey)"

definition replacement_candidates :: "account_set_evidence \<Rightarrow> string \<Rightarrow> string \<Rightarrow> string list option" where
  "replacement_candidates accounts ckey missing =
     map_option (\<lambda>keys. map (\<lambda>(_, _, name). name) (take 8 (sort keys)))
       (mapM (candidate_key (ase_accounts accounts) ckey missing)
         (filter (\<lambda>field. sr_name field \<noteq> missing) (map fe_field (ase_fields accounts))))"

subsection \<open>Missing accounts\<close>

definition semantic_model_has_account :: "semantic_model \<Rightarrow> string \<Rightarrow> string \<Rightarrow> bool" where
  "semantic_model_has_account model accounts_struct_name reference_name \<longleftrightarrow>
     list_ex (\<lambda>field. af_name field = reference_name \<or> af_name field = last (split_char CHR ''.'' reference_name))
       (all_fields_for_struct model accounts_struct_name)"

definition document_has_constant :: "anchor_symbols \<Rightarrow> string \<Rightarrow> bool" where
  "document_has_constant symbols name \<longleftrightarrow> list_ex (\<lambda>c. nr_name c = name) (constants symbols)"

definition workspace_argument_names :: "workspace_index option \<Rightarrow> string \<Rightarrow> string set" where
  "workspace_argument_names index name =
     (case index of None \<Rightarrow> {} | Some ix \<Rightarrow> instruction_argument_names_for_context ix name)"

definition reference_missing ::
  "anchor_symbols \<Rightarrow> workspace_index option \<Rightarrow> semantic_model \<Rightarrow> account_set_evidence \<Rightarrow> constraint_reference \<Rightarrow> bool" where
  "reference_missing symbols index model accounts reference \<longleftrightarrow>
     (let accounts_name = sr_name (ase_accounts accounts); name = cref_name reference in
      if semantic_model_has_account model accounts_name name then False
      else if cref_value_kind reference \<noteq> ProgramReference then True
      else \<not> has_instruction_argument accounts name \<and> name \<notin> workspace_argument_names index accounts_name \<and>
        \<not> document_has_constant symbols name)"

definition missing_account_related ::
  "(string \<Rightarrow> string option) \<Rightarrow> account_set_evidence \<Rightarrow> string list \<Rightarrow> related_information list" where
  "missing_account_related parse accounts candidates =
     placeholder_information parse (sr_selection_range (ase_accounts accounts))
       (quoted (sr_name (ase_accounts accounts)) @ '' is the Accounts struct being checked.'') #
     List.map_filter (\<lambda>candidate.
         map_option (\<lambda>field. placeholder_information parse (sr_selection_range (fe_field field))
             (''candidate account field '' @ quoted candidate @ '' is declared here.''))
           (field_called accounts candidate))
       (take 5 candidates)"

definition missing_account_diagnostic ::
  "(string \<Rightarrow> string option) \<Rightarrow> string \<Rightarrow> account_set_evidence \<Rightarrow> account_constraint \<Rightarrow> constraint_reference \<Rightarrow>
     diagnostic option" where
  "missing_account_diagnostic parse source accounts constraint reference =
     (let key = cref_key reference; name = cref_name reference; accounts_name = sr_name (ase_accounts accounts) in
      map_option (\<lambda>candidates.
          diagnostic_from_range_with_related parse (value_range_or_constraint source constraint key name)
            AnchorMissingAccountReference
            (quoted name @ '' is referenced by '' @ quoted key @ '' but is not declared in '' @ quoted accounts_name @ ''.'')
            (Some (JObject
              ([(''constraint'', JString key), (''account'', JString name), (''accountsStruct'', JString accounts_name)] @
               (if candidates = [] then [] else [(''candidates'', JArray (map JString candidates))]))))
            (Some (missing_account_related parse accounts candidates)))
        (replacement_candidates accounts key name))"

subsection \<open>Missing arguments\<close>

definition argument_undeclared :: "account_set_evidence \<Rightarrow> constraint_argument_reference \<Rightarrow> bool" where
  "argument_undeclared accounts reference \<longleftrightarrow>
     \<not> list_ex (\<lambda>a. instruction_argument_names_match (iaa_name a) (carg_name reference))
         (sr_instruction_arguments (ase_accounts accounts))"

definition missing_argument_type :: "workspace_index option \<Rightarrow> account_set_evidence \<Rightarrow> string \<Rightarrow> string option" where
  "missing_argument_type index accounts name =
     or_else (instruction_argument_type accounts name)
       (Option.bind index (\<lambda>ix. instruction_argument_type_for_context ix (sr_name (ase_accounts accounts)) name))"

definition missing_argument_related ::
  "(string \<Rightarrow> string option) \<Rightarrow> account_set_evidence \<Rightarrow> string \<Rightarrow> related_information list" where
  "missing_argument_related parse accounts argument =
     placeholder_information parse (sr_selection_range (ase_accounts accounts))
       (quoted (sr_name (ase_accounts accounts)) @
        '' is the Accounts struct whose #[instruction(...)] arguments are checked.'') #
     option_list (map_option (\<lambda>(instruction, r).
         placeholder_information parse r (''handler '' @ quoted instruction @ '' declares '' @ quoted argument @ '' here.''))
       (instruction_argument_location accounts argument))"

definition missing_argument_diagnostic ::
  "(string \<Rightarrow> string option) \<Rightarrow> string \<Rightarrow> workspace_index option \<Rightarrow> account_set_evidence \<Rightarrow> account_constraint \<Rightarrow>
     constraint_argument_reference \<Rightarrow> diagnostic" where
  "missing_argument_diagnostic parse source index accounts constraint reference =
     (let key = carg_key reference; name = carg_name reference; accounts_name = sr_name (ase_accounts accounts) in
      diagnostic_from_range_with_related parse (value_range_or_constraint source constraint key name)
        AnchorMissingInstructionArgument
        (quoted name @ '' is referenced by '' @ quoted key @ '' but is not an instruction argument for '' @
         quoted accounts_name @ ''.'')
        (Some (JObject
          ([(''constraint'', JString key), (''argument'', JString name), (''accountsStruct'', JString accounts_name),
            (''quickfix'', JString ''add-instruction-argument'')] @
           (case missing_argument_type index accounts name of
              None \<Rightarrow> [] | Some type_name \<Rightarrow> [(''argumentType'', JString type_name)]))))
        (Some (missing_argument_related parse accounts name)))"

definition arguments_known :: "workspace_index option \<Rightarrow> account_set_evidence \<Rightarrow> bool" where
  "arguments_known index accounts \<longleftrightarrow>
     has_instruction_mapping accounts \<or>
     (case index of None \<Rightarrow> False | Some ix \<Rightarrow> has_program_instruction_for_context ix (sr_name (ase_accounts accounts)))"

definition missing_argument_diagnostics ::
  "(string \<Rightarrow> string option) \<Rightarrow> string \<Rightarrow> workspace_index option \<Rightarrow> account_set_evidence \<Rightarrow> diagnostic list" where
  "missing_argument_diagnostics parse source index accounts =
     (if arguments_known index accounts then
        concat (map (\<lambda>field.
          concat (map (\<lambda>constraint.
            map (missing_argument_diagnostic parse source index accounts constraint)
              (filter (argument_undeclared accounts) (instruction_argument_references constraint)))
          (fe_constraints field)))
        (ase_fields accounts))
      else [])"

subsection \<open>The rule\<close>

definition all_references :: "account_set_evidence \<Rightarrow> (account_constraint \<times> constraint_reference) list" where
  "all_references accounts =
     concat (map (\<lambda>field.
       concat (map (\<lambda>constraint. map (Pair constraint) (account_references constraint)) (fe_constraints field)))
     (ase_fields accounts))"

definition missing_account_references ::
  "(string \<Rightarrow> string option) \<Rightarrow> parsed_document \<Rightarrow> workspace_index option \<Rightarrow> semantic_model \<Rightarrow> account_set_evidence \<Rightarrow>
     diagnostic list option" where
  "missing_account_references parse doc index model accounts =
     map_option (\<lambda>missing. missing @ missing_argument_diagnostics parse (pd_source doc) index accounts)
       (mapM (\<lambda>(constraint, reference). missing_account_diagnostic parse (pd_source doc) accounts constraint reference)
         (filter (\<lambda>(_, reference). reference_missing (pd_symbols doc) index model accounts reference)
           (all_references accounts)))"

definition account_references_collect ::
  "(string \<Rightarrow> string option) \<Rightarrow> parsed_document \<Rightarrow> workspace_index option \<Rightarrow> diagnostic list option" where
  "account_references_collect parse doc index =
     Option.bind (extract_model (pd_symbols doc)) (\<lambda>model.
       map_option concat
         (mapM (missing_account_references parse doc index model) (evidence_from_document (pd_symbols doc))))"

subsection \<open>What is reported\<close>

lemma mapM_set: "mapM f xs = Some ys \<Longrightarrow> set ys = {y. \<exists>x \<in> set xs. f x = Some y}"
  by (induction xs arbitrary: ys) (auto simp: bind_eq_Some_conv)

lemma mapM_Some_each: "mapM f xs = Some ys \<Longrightarrow> x \<in> set xs \<Longrightarrow> \<exists>y \<in> set ys. f x = Some y"
  by (induction xs arbitrary: ys) (auto simp: bind_eq_Some_conv)

text \<open>A name is declared when a struct that can be reached by composite references has a field of that
  name, or of its last segment.\<close>

definition declared_below :: "anchor_symbols \<Rightarrow> string \<Rightarrow> string \<Rightarrow> bool" where
  "declared_below symbols accounts_name name \<longleftrightarrow>
     (\<exists>struct_name s field. struct_name \<in> reachable_structs (accounts_structs symbols) accounts_name \<and>
        map_of (accounts_structs symbols) struct_name = Some s \<and> field \<in> set (sr_fields s) \<and>
        sr_name field \<in> {name, last (split_char CHR ''.'' name)})"

lemma struct_fields_named:
  "(\<exists>field \<in> set (struct_fields table struct_name). P (af_name field)) \<longleftrightarrow>
     (\<exists>s field. map_of table struct_name = Some s \<and> field \<in> set (sr_fields s) \<and> P (sr_name field))"
  by (cases "map_of table struct_name") (auto simp: struct_fields_def extract_account_field_def Let_def)

lemma semantic_model_has_account_exact:
  assumes "table_named (accounts_structs symbols)" "extract_model symbols = Some model"
  shows "semantic_model_has_account model accounts_name name \<longleftrightarrow> declared_below symbols accounts_name name"
proof -
  let ?table = "accounts_structs symbols" and ?P = "\<lambda>n. n \<in> {name, last (split_char CHR ''.'' name)}"
  from extracted_fields [OF assms(1)] assms(2) obtain ns where
      ns: "set ns = reachable_structs ?table accounts_name"
      "all_fields_for_struct model accounts_name = concat (map (struct_fields ?table) ns)"
    by (metis option.inject)
  have "semantic_model_has_account model accounts_name name \<longleftrightarrow>
      (\<exists>struct_name \<in> set ns. \<exists>field \<in> set (struct_fields ?table struct_name). ?P (af_name field))"
    by (auto simp: semantic_model_has_account_def ns(2) list_ex_iff)
  also have "\<dots> \<longleftrightarrow> declared_below symbols accounts_name name"
    unfolding struct_fields_named [of ?table _ ?P] ns(1) declared_below_def by blast
  finally show ?thesis .
qed

definition reference_undeclared ::
  "anchor_symbols \<Rightarrow> workspace_index option \<Rightarrow> account_set_evidence \<Rightarrow> constraint_reference \<Rightarrow> bool" where
  "reference_undeclared symbols index accounts reference \<longleftrightarrow>
     \<not> declared_below symbols (sr_name (ase_accounts accounts)) (cref_name reference) \<and>
     (if cref_value_kind reference = ProgramReference then
        \<not> has_instruction_argument accounts (cref_name reference) \<and>
        cref_name reference \<notin> workspace_argument_names index (sr_name (ase_accounts accounts)) \<and>
        \<not> document_has_constant symbols (cref_name reference)
      else True)"


text \<open>The two structs that refer to each other have no constraints: nothing is reported of them.\<close>

definition cyclic_document :: parsed_document where
  "cyclic_document =
     \<lparr>pd_source = [], pd_symbols = cyclic_symbols, pd_outline = [], pd_attribute_at = (\<lambda>_. None),
      pd_attributes = [], pd_program_module = False\<rparr>"

lemma no_constraints_quiet:
  assumes "\<And>field. field \<in> set (ase_fields accounts) \<Longrightarrow> fe_constraints field = []"
  shows "missing_account_references parse doc index model accounts = Some []"
proof -
  have "all_references accounts = []" using assms by (auto simp: all_references_def concat_eq_Nil_conv)
  moreover have "missing_argument_diagnostics parse (pd_source doc) index accounts = []"
    using assms by (auto simp: missing_argument_diagnostics_def concat_eq_Nil_conv)
  ultimately show ?thesis by (simp add: missing_account_references_def)
qed

lemma cyclic_collect: "account_references_collect Some cyclic_document None = Some []"
proof -
  have "table_named (accounts_structs cyclic_symbols)"
    by (simp add: cyclic_symbols_def table_named_def cyclic_table_def node_symbol_def Let_def)
  then obtain model where model: "extract_model cyclic_symbols = Some model" by (rule extracted_fields)
  have "fe_constraints field = []"
    if "accounts \<in> set (evidence_from_document cyclic_symbols)" "field \<in> set (ase_fields accounts)" for accounts field
    using that by (auto simp: evidence_from_document_def evidence_graph_def account_set_evidence_new_def
        field_evidence_new_def cyclic_symbols_def cyclic_table_def node_symbol_def Let_def)
  then have "missing_account_references Some cyclic_document None model accounts = Some []"
    if "accounts \<in> set (evidence_from_document cyclic_symbols)" for accounts
    using that by (intro no_constraints_quiet)
  then have "mapM (missing_account_references Some cyclic_document None model) xs = Some (map (\<lambda>_. []) xs)"
    if "set xs \<subseteq> set (evidence_from_document cyclic_symbols)" for xs
    using that by (induction xs) auto
  then show ?thesis using model by (simp add: account_references_collect_def cyclic_document_def concat_eq_Nil_conv)
qed


end
