(* ===== verification/Code_Actions.thy ===== *)
theory Code_Actions
  imports Constraint_Edits Snippet_Edits Module_Paths "HOL-Library.Product_Lexorder"
begin

section \<open>Code actions\<close>

text \<open>
  \<open>src/lsp/actions/mod.rs\<close>, the ranking of actions for a cursor, and the action families
  \<open>missing_init.rs\<close>, \<open>pda.rs\<close> and \<open>constraint_expressions.rs\<close>.  An action is built from a
  diagnostic; building its edit may put a template into the store of the process, which is threaded
  through in the order of the diagnostics.  The fields \<open>command\<close> and \<open>disabled\<close> are always empty and
  left out.  Reading a range out of JSON is the work of serde: a parameter.
\<close>

datatype action_kind = QUICKFIX | SOURCE_FIX_ALL

record code_action =
  act_title :: string
  act_kind :: action_kind
  act_diagnostics :: "diagnostic list option"
  act_edit :: "(url, text_edit list) hmap option"
  act_preferred :: "bool option"
  act_data :: "json option"

definition single_document_edit :: "url \<Rightarrow> text_edit \<Rightarrow> (url, text_edit list) hmap" where
  "single_document_edit uri edit = [(uri, [edit])]"

text \<open>The literal that every quick fix of one edit writes out.\<close>

definition quickfix_action :: "string \<Rightarrow> diagnostic \<Rightarrow> url \<Rightarrow> text_edit \<Rightarrow> bool \<Rightarrow> (string \<times> json) list \<Rightarrow> code_action" where
  "quickfix_action title d uri edit preferred data =
     \<lparr>act_title = title, act_kind = QUICKFIX, act_diagnostics = Some [d],
      act_edit = Some (single_document_edit uri edit), act_preferred = Some preferred, act_data = Some (JObject data)\<rparr>"

text \<open>All fields of the document, in the order in which the map of structs yields them.\<close>

definition document_fields :: "parsed_document \<Rightarrow> symbol_range list" where
  "document_fields doc = concat (map (sr_fields \<circ> snd) (accounts_structs (pd_symbols doc)))"

text \<open>\<open>filter_map\<close> with a function that may write to the store.\<close>

fun filter_map_store :: "('a \<Rightarrow> 's \<Rightarrow> 'b option \<times> 's) \<Rightarrow> 'a list \<Rightarrow> 's \<Rightarrow> 'b list \<times> 's" where
  "filter_map_store f [] s = ([], s)"
| "filter_map_store f (x # xs) s =
     (let (y, s) = f x s; (ys, s) = filter_map_store f xs s in (option_list y @ ys, s))"

subsection \<open>Ranking for a cursor\<close>

definition first_diagnostic :: "code_action \<Rightarrow> diagnostic option" where
  "first_diagnostic action = Option.bind (act_diagnostics action) (\<lambda>ds. case ds of [] \<Rightarrow> None | d # _ \<Rightarrow> Some d)"

definition proactive_assist_range :: "range_parser \<Rightarrow> code_action \<Rightarrow> range option" where
  "proactive_assist_range parse_range action =
     Option.bind (Option.bind (act_data action) (json_get ''seagrassAssistRange'')) parse_range"

definition action_distance_key :: "range_parser \<Rightarrow> range \<Rightarrow> code_action \<Rightarrow> u64 \<times> nat" where
  "action_distance_key parse_range cursor action =
     (case first_diagnostic action of
        Some d \<Rightarrow> (range_distance (d_range d) cursor, 0)
      | None \<Rightarrow>
          (case proactive_assist_range parse_range action of
             Some r \<Rightarrow> (range_distance r cursor, 1)
           | None \<Rightarrow> (- 1, 2)))"

definition touches_cursor :: "range \<Rightarrow> code_action \<Rightarrow> bool" where
  "touches_cursor cursor action \<longleftrightarrow>
     (case first_diagnostic action of Some d \<Rightarrow> diagnostic_touches_range d cursor | None \<Rightarrow> False)"

definition rank_and_filter_for_cursor :: "range_parser \<Rightarrow> code_action list \<Rightarrow> range \<Rightarrow> code_action list" where
  "rank_and_filter_for_cursor parse_range actions cursor =
     (let actions = sort_key (action_distance_key parse_range cursor) actions in
      if \<not> is_point_range cursor then actions
      else if \<not> list_ex (touches_cursor cursor) actions then actions
      else filter (\<lambda>action. case first_diagnostic action of
                     None \<Rightarrow> True | Some d \<Rightarrow> diagnostic_touches_range d cursor) actions)"

subsection \<open>Missing init constraints\<close>

definition line_indent :: "string \<Rightarrow> string" where
  "line_indent line = concat (takeWhile is_ws (utf8_chars line))"

definition missing_init_template :: "parsed_document \<Rightarrow> diagnostic \<Rightarrow> (u32 \<times> string) option" where
  "missing_init_template doc d =
     Option.bind (d_data d) (\<lambda>data.
     Option.bind (Option.bind (json_get ''account'' data) as_str) (\<lambda>account.
       let account_type = unwrap_or ''AccountType'' (Option.bind (json_get ''accountType'' data) as_str) in
     Option.bind (Option.bind (json_get ''accountsStruct'' data) as_str) (\<lambda>accounts_name.
     Option.bind (map_of (accounts_structs (pd_symbols doc)) accounts_name) (\<lambda>accounts.
     Option.bind (find (\<lambda>field. sr_name field = account) (sr_fields accounts)) (\<lambda>field.
       let line_number = (case sr_account_constraints field of
                            constraint # _ \<Rightarrow> pos_line (range_start (ac_range constraint))
                          | [] \<Rightarrow> pos_line (range_start (sr_selection_range field))) in
     Option.bind (line_at (pd_source doc) (unat line_number)) (\<lambda>line.
       let payer = unwrap_or ''payer'' (signer_candidate (sr_fields accounts)) in
       Some (line_number,
         line_indent line @ ''#[account(init, payer = '' @ payer @ '', space = 8 + '' @ account_type @
         ''::INIT_SPACE)]'' @ [NEWLINE])))))))"

definition missing_init_edit ::
  "parsed_document \<Rightarrow> diagnostic \<Rightarrow> snippet_store \<Rightarrow> text_edit option \<times> snippet_store" where
  "missing_init_edit doc d snippets =
     (case missing_init_template doc d of
        None \<Rightarrow> (None, snippets)
      | Some (line_number, template) \<Rightarrow>
          let (edit, snippets) = snippet_text_edit (point_range line_number 0) template snippets in
          (Some edit, snippets))"

definition is_missing_init :: "diagnostic \<Rightarrow> bool" where
  "is_missing_init d \<longleftrightarrow> seagrass_code d = Some ANCHOR_MISSING_INIT_CONSTRAINT_CODE"

definition missing_init_action ::
  "parsed_document \<Rightarrow> url \<Rightarrow> diagnostic \<Rightarrow> snippet_store \<Rightarrow> code_action option \<times> snippet_store" where
  "missing_init_action doc uri d snippets =
     (let (edit, snippets) = missing_init_edit doc d snippets in
      (map_option (\<lambda>edit.
         let account = unwrap_or ''account'' (data_str ''account'' (d_data d)) in
         quickfix_action (''Add Anchor init constraints to `'' @ account @ ''`'') d uri edit True
           [(''anchorAction'', JString ''add-missing-init-constraint''), (''account'', JString account)]) edit,
       snippets))"

definition missing_init_code_actions ::
  "parsed_document \<Rightarrow> url \<Rightarrow> diagnostic list \<Rightarrow> snippet_store \<Rightarrow> code_action list \<times> snippet_store" where
  "missing_init_code_actions doc uri ds snippets =
     filter_map_store (missing_init_action doc uri) (filter is_missing_init ds) snippets"

definition missing_init_edits ::
  "parsed_document \<Rightarrow> diagnostic list \<Rightarrow> snippet_store \<Rightarrow> text_edit list \<times> snippet_store" where
  "missing_init_edits doc ds snippets =
     filter_map_store (missing_init_edit doc) (filter is_missing_init ds) snippets"

definition FIX_ALL_MISSING_INIT :: string where
  "FIX_ALL_MISSING_INIT = ''fix-all-missing-init-constraints''"

definition fix_all_code_actions ::
  "parsed_document \<Rightarrow> url \<Rightarrow> range \<Rightarrow> diagnostic list \<Rightarrow> snippet_store \<Rightarrow> code_action list \<times> snippet_store" where
  "fix_all_code_actions doc uri r ds snippets =
     (if \<not> list_ex (\<lambda>d. is_missing_init d \<and> diagnostic_touches_range d r) ds then ([], snippets)
      else
        let (edits, snippets) = missing_init_edits doc ds snippets in
        if length edits < 2 then ([], snippets)
        else
          ([\<lparr>act_title = ''Fix all Anchor missing init constraints in file'', act_kind = SOURCE_FIX_ALL,
             act_diagnostics = Some (filter is_missing_init ds), act_edit = None, act_preferred = Some False,
             act_data = Some (JObject [(''anchorAction'', JString FIX_ALL_MISSING_INIT), (''uri'', JString uri)])\<rparr>],
           snippets))"

definition fix_all_missing_init_edit ::
  "parsed_document \<Rightarrow> url \<Rightarrow> diagnostic list \<Rightarrow> snippet_store \<Rightarrow> (url, text_edit list) hmap option \<times> snippet_store" where
  "fix_all_missing_init_edit doc uri ds snippets =
     (let (edits, snippets) = missing_init_edits doc ds snippets in
      (if length edits < 2 then None else Some [(uri, edits)], snippets))"

definition resolve_action ::
  "parsed_document \<Rightarrow> url \<Rightarrow> code_action \<Rightarrow> diagnostic list \<Rightarrow> snippet_store \<Rightarrow> code_action \<times> snippet_store" where
  "resolve_action doc uri action ds snippets =
     (if act_edit action \<noteq> None then (action, snippets)
      else
        case data_str ''anchorAction'' (act_data action) of
          None \<Rightarrow> (action, snippets)
        | Some anchor_action \<Rightarrow>
            if anchor_action = FIX_ALL_MISSING_INIT then
              let (edit, snippets) = fix_all_missing_init_edit doc uri ds snippets in
              (action\<lparr>act_edit := edit\<rparr>, snippets)
            else (action, snippets))"

subsection \<open>Seeds of program-derived addresses\<close>

definition IDL_NOTE_LOOKBACK_LINES :: nat where "IDL_NOTE_LOOKBACK_LINES = 6"

definition is_rust_comment_line :: "string \<Rightarrow> bool" where
  "is_rust_comment_line line \<longleftrightarrow>
     prefix ''///'' line \<or> prefix ''//!'' line \<or> prefix ''//'' line \<or> prefix ''#[doc'' line"

fun comment_lines :: "string list \<Rightarrow> string list" where
  "comment_lines [] = []"
| "comment_lines (line # ls) =
     (let trimmed = trim_start line in
      if trimmed = [] then comment_lines ls
      else if is_rust_comment_line trimmed then trimmed # comment_lines ls
      else [])"

definition preceding_comment_block :: "string \<Rightarrow> nat \<Rightarrow> string list" where
  "preceding_comment_block source line =
     (let lines = text_lines source;
          cursor = min line (length lines);
          lower_bound = cursor - IDL_NOTE_LOOKBACK_LINES in
      rev (comment_lines (rev (drop lower_bound (take cursor lines)))))"

definition has_existing_idl_limitation_note :: "string \<Rightarrow> nat \<Rightarrow> string \<Rightarrow> bool" where
  "has_existing_idl_limitation_note source line account \<longleftrightarrow>
     (let comment_block = preceding_comment_block source line in
      comment_block \<noteq> [] \<and>
      (let note = to_ascii_lowercase (join [NEWLINE] comment_block) in
       str_contains ''!no-warn'' note \<or>
       (str_contains (to_ascii_lowercase account) note \<or> str_contains ''seed'' note) \<and>
       str_contains ''idl'' note \<and>
       (str_contains ''not serializable'' note \<or> str_contains ''not representable'' note \<or>
        str_contains ''manually replicate'' note \<or> str_contains ''manual derivation'' note)))"

definition idl_limitation_note :: "string \<Rightarrow> string" where
  "idl_limitation_note seed =
     ''    /// NOTE: PDA seed `'' @ seed @ ''` is not serializable to the Anchor IDL.'' @ [NEWLINE] @
     ''    /// Clients must manually replicate this seed derivation.'' @ [NEWLINE]"

definition document_idl_limitation_action ::
  "parsed_document \<Rightarrow> url \<Rightarrow> diagnostic \<Rightarrow> snippet_store \<Rightarrow> code_action option \<times> snippet_store" where
  "document_idl_limitation_action doc uri d snippets =
     (case (data_str ''account'' (d_data d), data_str ''seed'' (d_data d)) of
        (Some account, Some seed) \<Rightarrow>
          let line = pos_line (range_start (d_range d)) in
          if has_existing_idl_limitation_note (pd_source doc) (unat line) account then (None, snippets)
          else
            let (edit, snippets) = snippet_text_edit (point_range line 0) (idl_limitation_note seed) snippets in
            (Some (quickfix_action (''Document IDL limitation for `'' @ account @ ''` seed'') d uri edit False
               [(''anchorAction'', JString ''document-idl-limitation''), (''account'', JString account),
                (''seed'', JString seed)]), snippets)
      | _ \<Rightarrow> (None, snippets))"

definition build_ts_comment :: "string \<Rightarrow> string list \<Rightarrow> string list \<Rightarrow> string" where
  "build_ts_comment account idl_visible idl_invisible =
     (if idl_invisible = [] then ''// PDA `'' @ account @ ''` derivation (all seeds IDL-visible)''
      else
        let visible_part = (if idl_visible = [] then []
                            else ''// IDL-visible seeds: '' @ join '', '' idl_visible @ [NEWLINE]);
            invisible_part = join [NEWLINE]
              (map (\<lambda>seed. ''// TODO: replicate `'' @ seed @ ''` in client'') idl_invisible) in
        ''// PDA `'' @ account @ ''` derivation:'' @ [NEWLINE] @ visible_part @ invisible_part)"

definition seed_names :: "string \<Rightarrow> json \<Rightarrow> string list" where
  "seed_names key data =
     (case Option.bind (json_get key data) as_array of
        None \<Rightarrow> [] | Some values \<Rightarrow> List.map_filter as_str values)"

definition copy_pda_derivation_action ::
  "url \<Rightarrow> diagnostic \<Rightarrow> snippet_store \<Rightarrow> code_action option \<times> snippet_store" where
  "copy_pda_derivation_action uri d snippets =
     (case d_data d of
        None \<Rightarrow> (None, snippets)
      | Some data \<Rightarrow>
          (case Option.bind (json_get ''account'' data) as_str of
             None \<Rightarrow> (None, snippets)
           | Some account \<Rightarrow>
               let ts_comment = build_ts_comment account (seed_names ''idlVisibleSeeds'' data)
                     (seed_names ''idlInvisibleSeeds'' data);
                   (edit, snippets) = snippet_text_edit (point_range (pos_line (range_end (d_range d)) + 1) 0)
                     (ts_comment @ [NEWLINE]) snippets in
               (Some (quickfix_action (''Copy `'' @ account @ ''` PDA derivation as TypeScript comment'') d uri edit
                  False [(''anchorAction'', JString ''copy-pda-derivation''), (''account'', JString account)]),
                snippets)))"

fun pda_code_actions ::
  "parsed_document \<Rightarrow> url \<Rightarrow> diagnostic list \<Rightarrow> snippet_store \<Rightarrow> code_action list \<times> snippet_store" where
  "pda_code_actions doc uri [] snippets = ([], snippets)"
| "pda_code_actions doc uri (d # ds) snippets =
     (if diagnostic_code d \<noteq> Some ANCHOR_PDA_SEED_RESOLUTION_CODE then pda_code_actions doc uri ds snippets
      else
        let (note, snippets) = document_idl_limitation_action doc uri d snippets;
            (copy, snippets) = copy_pda_derivation_action uri d snippets;
            (actions, snippets) = pda_code_actions doc uri ds snippets in
        (option_list note @ option_list copy @ actions, snippets))"

subsection \<open>Names in constraint expressions\<close>

definition MAX_REPLACEMENT_DISTANCE :: nat where "MAX_REPLACEMENT_DISTANCE = 3"

definition closest_candidate :: "json \<Rightarrow> string \<Rightarrow> string option" where
  "closest_candidate data missing =
     min_by_key (\<lambda>candidate. edit_distance candidate missing) (seed_names ''candidates'' data)"

definition replacement_action ::
  "string \<Rightarrow> string \<Rightarrow> url \<Rightarrow> diagnostic \<Rightarrow> snippet_store \<Rightarrow> code_action option \<times> snippet_store" where
  "replacement_action key quickfix uri d snippets =
     (case Option.bind (d_data d) (\<lambda>data.
             Option.bind (Option.bind (json_get key data) as_str) (\<lambda>missing.
             Option.bind (closest_candidate data missing) (\<lambda>replacement. Some (missing, replacement)))) of
        None \<Rightarrow> (None, snippets)
      | Some (missing, replacement) \<Rightarrow>
          let distance = edit_distance replacement missing in
          if distance > MAX_REPLACEMENT_DISTANCE then (None, snippets)
          else
            let (edit, snippets) = snippet_text_edit (d_range d) replacement snippets in
            (Some (quickfix_action (''Replace `'' @ missing @ ''` with `'' @ replacement @ ''`'') d uri edit
               (distance = 1)
               [(''anchorAction'', JString quickfix), (''quickfix'', JString quickfix),
                (''replacement'', JString replacement)]), snippets))"

definition identifier_replacement_action ::
  "url \<Rightarrow> diagnostic \<Rightarrow> snippet_store \<Rightarrow> code_action option \<times> snippet_store" where
  "identifier_replacement_action = replacement_action ''identifier'' ''replace-constraint-expression-identifier''"

definition member_replacement_action ::
  "url \<Rightarrow> diagnostic \<Rightarrow> snippet_store \<Rightarrow> code_action option \<times> snippet_store" where
  "member_replacement_action = replacement_action ''field'' ''replace-constraint-expression-member''"

fun expression_code_actions ::
  "url \<Rightarrow> diagnostic list \<Rightarrow> snippet_store \<Rightarrow> code_action list \<times> snippet_store" where
  "expression_code_actions uri [] snippets = ([], snippets)"
| "expression_code_actions uri (d # ds) snippets =
     (if seagrass_code d \<noteq> Some ANCHOR_CONSTRAINT_EXPRESSION_CODE then expression_code_actions uri ds snippets
      else
        let (identifier, snippets) = identifier_replacement_action uri d snippets;
            (member, snippets) = member_replacement_action uri d snippets;
            (actions, snippets) = expression_code_actions uri ds snippets in
        (option_list identifier @ option_list member @ actions, snippets))"

subsection \<open>What the cursor leaves\<close>

lemma sort_key_least_first:
  assumes "\<And>x. x \<in> set xs \<Longrightarrow> k \<le> f x"
  shows "sort_key f xs = filter (\<lambda>x. f x = k) xs @ sort_key f (filter (\<lambda>x. f x \<noteq> k) xs)"
proof (rule properties_for_sort_key)
  show "mset (filter (\<lambda>x. f x = k) xs @ sort_key f (filter (\<lambda>x. f x \<noteq> k) xs)) = mset xs" by simp
  have same: "sort_key f (filter (\<lambda>x. f y = f x) xs) = filter (\<lambda>x. f y = f x) xs" for y
    using sorted_map_same [of f "\<lambda>_. f y" xs] by (intro sort_key_id_if_sorted) (simp add: eq_commute)
  show "filter (\<lambda>x. f y = f x) (filter (\<lambda>x. f x = k) xs @ sort_key f (filter (\<lambda>x. f x \<noteq> k) xs)) =
      filter (\<lambda>x. f y = f x) xs" for y
  proof (cases "f y = k")
    case True
    then have "filter (\<lambda>x. f y = f x) (filter (\<lambda>x. f x \<noteq> k) xs) = []" by (auto simp: filter_empty_conv)
    with True show ?thesis by (simp add: filter_sort) (auto intro!: filter_cong)
  next
    case False
    then have "filter (\<lambda>x. f x \<noteq> k \<and> f y = f x) xs = filter (\<lambda>x. f y = f x) xs"
      and "filter (\<lambda>x. f x = k \<and> f y = f x) xs = []" by (auto intro!: filter_cong simp: filter_empty_conv)
    with same [of y] show ?thesis by (simp add: filter_sort conj_commute)
  qed
  have "sorted (map f (filter (\<lambda>x. f x = k) xs))" using sorted_map_same [of f "\<lambda>_. k" xs] by simp
  then show "sorted (map f (filter (\<lambda>x. f x = k) xs @ sort_key f (filter (\<lambda>x. f x \<noteq> k) xs)))"
    using assms by (auto simp: sorted_append)
qed

lemma touches_cursor_key:
  "touches_cursor cursor action \<longleftrightarrow> first_diagnostic action \<noteq> None \<and> action_distance_key parse_range cursor action = (0, 0)"
  if "columns_below_stride cursor" "\<And>d. first_diagnostic action = Some d \<Longrightarrow> columns_below_stride (d_range d)"
  using that range_distance_zero_iff [of _ cursor] keys_touch_iff [of _ cursor]
  by (auto simp: touches_cursor_def action_distance_key_def diagnostic_touches_range_def split: option.splits)

text \<open>When the cursor is a point inside the diagnostic of some action, exactly the actions whose
  diagnostic it is inside are offered first, in the order in which they were built, and after them
  the actions without a diagnostic, ranked by the distance of the range they name.\<close>

theorem cursor_actions_exact:
  assumes "is_point_range cursor" "list_ex (touches_cursor cursor) actions" "columns_below_stride cursor"
    and "list_all (\<lambda>a. case first_diagnostic a of None \<Rightarrow> True | Some d \<Rightarrow> columns_below_stride (d_range d)) actions"
  shows "rank_and_filter_for_cursor parse_range actions cursor =
    filter (touches_cursor cursor) actions @
    sort_key (action_distance_key parse_range cursor) (filter (\<lambda>a. first_diagnostic a = None) actions)"
proof -
  let ?f = "action_distance_key parse_range cursor"
  let ?keep = "\<lambda>a. case first_diagnostic a of None \<Rightarrow> True | Some d \<Rightarrow> diagnostic_touches_range d cursor"
  let ?kept = "filter ?keep actions"
  have key: "touches_cursor cursor a \<longleftrightarrow> first_diagnostic a \<noteq> None \<and> ?f a = (0, 0)" if "a \<in> set actions" for a
    using that assms(3,4) by (intro touches_cursor_key) (auto simp: list_all_iff split: option.splits)
  have none: "?f a \<noteq> (0, 0)" if "first_diagnostic a = None" for a
    using that by (auto simp: action_distance_key_def split: option.splits)
  have keep: "?keep a \<longleftrightarrow> touches_cursor cursor a \<or> first_diagnostic a = None" for a
    by (simp add: touches_cursor_def split: option.splits)
  have "rank_and_filter_for_cursor parse_range actions cursor = sort_key ?f ?kept"
    using assms(1,2) by (auto simp: rank_and_filter_for_cursor_def Let_def filter_sort list_ex_iff)
  also have "\<dots> = filter (\<lambda>a. ?f a = (0, 0)) ?kept @ sort_key ?f (filter (\<lambda>a. ?f a \<noteq> (0, 0)) ?kept)"
    by (rule sort_key_least_first) (auto simp: less_eq_prod_def word_gt_0 split: prod.splits)
  also have "filter (\<lambda>a. ?f a = (0, 0)) ?kept = filter (touches_cursor cursor) actions"
    using key none keep by (auto intro!: filter_cong)
  also have "filter (\<lambda>a. ?f a \<noteq> (0, 0)) ?kept = filter (\<lambda>a. first_diagnostic a = None) actions"
    using key none keep by (auto intro!: filter_cong)
  finally show ?thesis .
qed

subsection \<open>Fixing all of a kind\<close>

lemma filter_map_store_fst:
  assumes "\<And>x s. fst (f x s) = g x"
  shows "fst (filter_map_store f xs s) = List.map_filter g xs"
proof (induction xs arbitrary: s)
  case (Cons x xs)
  obtain y s' where y: "f x s = (y, s')" by fastforce
  obtain ys s'' where ys: "filter_map_store f xs s' = (ys, s'')" by fastforce
  from Cons [of s'] assms [of x s] y ys show ?case
    by (simp add: List.map_filter_simps option_list_def split: option.split)
qed (simp add: List.map_filter_simps)

definition missing_init_text_edit :: "u32 \<times> string \<Rightarrow> text_edit" where
  "missing_init_text_edit x =
     \<lparr>te_range = point_range (fst x) 0, te_new_text = materialize_snippet_template (snd x)\<rparr>"

lemma missing_init_edits_eq:
  "fst (missing_init_edits doc ds snippets) =
     List.map_filter (\<lambda>d. map_option missing_init_text_edit (missing_init_template doc d)) (filter is_missing_init ds)"
  unfolding missing_init_edits_def
  by (rule filter_map_store_fst)
     (auto simp: missing_init_edit_def missing_init_text_edit_def snippet_text_edit_def Let_def split: option.splits)

text \<open>The action that fixes all missing constraints is offered without an edit.  Asked to resolve it
  for the same diagnostics, the server has one for every constraint that can be added.\<close>

theorem fix_all_resolves:
  assumes "action \<in> set (fst (fix_all_code_actions doc uri r ds snippets))"
  shows "act_edit (fst (resolve_action doc uri action ds snippets')) =
      Some [(uri, fst (missing_init_edits doc ds snippets))] \<and>
    2 \<le> length (fst (missing_init_edits doc ds snippets))"
proof -
  obtain edits rest where edits: "missing_init_edits doc ds snippets = (edits, rest)" by fastforce
  then have eq: "fst (missing_init_edits doc ds s) = edits" for s
    using missing_init_edits_eq by (metis fst_conv)
  from assms have "2 \<le> length edits" "act_edit action = None"
      "data_str ''anchorAction'' (act_data action) = Some FIX_ALL_MISSING_INIT"
    by (auto simp: fix_all_code_actions_def edits data_str_def split: if_splits)
  with eq show ?thesis
    by (auto simp: resolve_action_def fix_all_missing_init_edit_def Let_def split: prod.splits dest: arg_cong [where f = fst])
qed

subsection \<open>A note is not offered twice\<close>

lemma str_contains_mid: "str_contains p (a @ p @ b)"
proof -
  have "prefix p (drop (length a) (a @ p @ b))" by simp
  moreover have "length a \<le> length (a @ p @ b)" by simp
  ultimately show ?thesis unfolding str_contains_def str_find_None by blast
qed

lemma to_ascii_lowercase_append: "to_ascii_lowercase (a @ b) = to_ascii_lowercase a @ to_ascii_lowercase b"
  by (simp add: to_ascii_lowercase_def)

lemma join_last2: "\<exists>u. join sep (xs @ [x, y]) = u @ x @ sep @ y"
proof (induction xs rule: induct_list012)
  case (2 z)
  then show ?case by (intro exI [of _ "z @ sep"]) simp
next
  case (3 z w zs)
  then obtain u where "join sep ((w # zs) @ [x, y]) = u @ x @ sep @ y" by blast
  then show ?case by (intro exI [of _ "z @ sep @ u"]) simp
qed simp

lemma split_inclusive_lines:
  "NEWLINE \<notin> set l \<Longrightarrow> l \<noteq> [] \<Longrightarrow> last l \<noteq> CARRIAGE_RETURN \<Longrightarrow>
     text_lines (l @ NEWLINE # s) = l # text_lines s"
  by (simp add: text_lines_def split_inclusive_line strip_line_end_def strip_suffix_def suffix_def unwrap_or_def)
     (metis last_snoc)

lemma text_lines_append:
  "a = [] \<or> last a = NEWLINE \<Longrightarrow> text_lines (a @ b) = text_lines a @ text_lines b"
  by (simp add: text_lines_def split_inclusive_append)

definition note_start :: string where "note_start = ''/// NOTE: PDA seed `''"
definition note_stop :: string where "note_stop = ''` is not serializable to the Anchor IDL.''"
definition note_client :: string where
  "note_client = ''/// Clients must manually replicate this seed derivation.''"

lemma note_texts:
  "to_ascii_lowercase note_start = ''/// note: pda '' @ ''seed'' @ '' `''"
  "to_ascii_lowercase note_stop = ''` is '' @ ''not serializable'' @ '' to the anchor idl.''"
  "to_ascii_lowercase note_stop = ''` is not serializable to the anchor '' @ ''idl'' @ ''.''"
  by code_simp+

lemma trim_start_slash: "trim_start (''    '' @ CHR ''/'' # s) = CHR ''/'' # s"
proof -
  have space: "trim_start (CHR '' '' # s) = trim_start s" for s by (rule trim_start_space)
  have "ws_front (CHR ''/'' # s) = 0"
    by (auto simp: ws_front_def is_ws_def whitespace_codes_def byte_def take_Cons' split: if_splits)
  then show ?thesis by (simp add: space trim_start_id)
qed

text \<open>Once the note stands above the line of a seed, the action that writes it is not offered again.\<close>

theorem idl_note_once:
  assumes "a = [] \<or> last a = NEWLINE" "NEWLINE \<notin> set seed"
  shows "has_existing_idl_limitation_note (a @ idl_limitation_note seed @ b) (length (text_lines a) + 2) account"
proof -
  let ?x = "note_start @ seed @ note_stop"
  let ?A = "text_lines a"
  let ?src = "a @ idl_limitation_note seed @ b"
  have x: "note_start = CHR ''/'' # tl note_start" "note_client = CHR ''/'' # tl note_client"
    by (simp_all add: note_start_def note_client_def)
  have written: "idl_limitation_note seed = (''    '' @ ?x) @ NEWLINE # (''    '' @ note_client) @ [NEWLINE]"
    by (simp add: idl_limitation_note_def note_start_def note_stop_def note_client_def)
  have "text_lines ?src = ?A @ (''    '' @ ?x) # (''    '' @ note_client) # text_lines b"
  proof -
    have one: "NEWLINE \<notin> set (''    '' @ ?x)" "last (''    '' @ ?x) \<noteq> CARRIAGE_RETURN"
      and two: "NEWLINE \<notin> set (''    '' @ note_client)" "last (''    '' @ note_client) \<noteq> CARRIAGE_RETURN"
      using assms(2) by (simp_all add: note_start_def note_stop_def note_client_def NEWLINE_def CARRIAGE_RETURN_def)
    have "text_lines ?src = ?A @ text_lines ((''    '' @ ?x) @ NEWLINE # ((''    '' @ note_client) @ NEWLINE # b))"
      using assms(1) by (simp add: written text_lines_append)
    also have "\<dots> = ?A @ (''    '' @ ?x) # (''    '' @ note_client) # text_lines b"
      by (subst split_inclusive_lines [OF one(1) _ one(2)], simp, subst split_inclusive_lines [OF two(1) _ two(2)], simp_all)
    finally show ?thesis .
  qed
  moreover have "drop (length ?A - 4) (?A @ [p, q]) = drop (length ?A - 4) ?A @ [p, q]" for p q :: string by simp
  ultimately have "preceding_comment_block ?src (length ?A + 2) =
      rev (comment_lines ((''    '' @ note_client) # (''    '' @ ?x) # rev (drop (length ?A - 4) ?A)))"
    by (simp add: preceding_comment_block_def Let_def IDL_NOTE_LOOKBACK_LINES_def)
  moreover have "trim_start (''    '' @ ?x) = ?x" "trim_start (''    '' @ note_client) = note_client"
    using trim_start_slash x by (metis append_Cons)+
  moreover have "is_rust_comment_line ?x" "is_rust_comment_line note_client" "?x \<noteq> []" "note_client \<noteq> []"
    by (simp_all add: is_rust_comment_line_def note_start_def note_client_def)
  ultimately have block: "preceding_comment_block ?src (length ?A + 2) =
      rev (comment_lines (rev (drop (length ?A - 4) ?A))) @ [?x, note_client]"
    by (simp add: Let_def)
  then obtain u where joined: "join [NEWLINE] (preceding_comment_block ?src (length ?A + 2)) =
      u @ ?x @ [NEWLINE] @ note_client" using join_last2 by metis
  let ?n = "to_ascii_lowercase (u @ ?x @ [NEWLINE] @ note_client)"
  have "str_contains ''seed'' ?n" "str_contains ''idl'' ?n" "str_contains ''not serializable'' ?n"
    using str_contains_mid [of "''seed''" "to_ascii_lowercase u @ ''/// note: pda ''"]
      str_contains_mid [of "''idl''" "to_ascii_lowercase (u @ note_start @ seed) @ ''` is not serializable to the anchor ''"]
      str_contains_mid [of "''not serializable''" "to_ascii_lowercase (u @ note_start @ seed) @ ''` is ''"]
    unfolding to_ascii_lowercase_append
    by (subst note_texts(1), simp, subst note_texts(3), simp, subst note_texts(2), simp)
  then show ?thesis
    unfolding has_existing_idl_limitation_note_def Let_def joined using block by simp
qed

end
