(* ===== verification/Constraint_Segments.thy ===== *)
theory Constraint_Segments
  imports Diagnostic_Build Constraint_Edits
begin

section \<open>The constraints of an attribute as segments of its text\<close>

text \<open>
  The text half of \<open>src/lsp/actions/constraints.rs\<close>: the attribute around a position, the split of
  its text at top-level commas, the key of a segment, and the text in which segments are put back.
  Every character the scans test for is ASCII, so they run over bytes.  \<open>None\<close> as the outer result
  of \<open>account_attribute_at_position\<close> is the panic of a slice between two bytes of a character.
\<close>

subsection \<open>The scan\<close>

record segment_scan =
  paren_depth :: nat
  bracket_depth :: nat
  brace_depth :: nat
  string_quote :: "char option"
  after_backslash :: bool

definition segment_scan_init :: segment_scan where
  "segment_scan_init =
     \<lparr>paren_depth = 0, bracket_depth = 0, brace_depth = 0, string_quote = None, after_backslash = False\<rparr>"

definition segment_step :: "char \<Rightarrow> segment_scan \<Rightarrow> segment_scan" where
  "segment_step c st =
     (case string_quote st of
        Some quote \<Rightarrow>
          if after_backslash st then st\<lparr>after_backslash := False\<rparr>
          else if c = BACKSLASH then st\<lparr>after_backslash := True\<rparr>
          else if c = quote then st\<lparr>string_quote := None\<rparr>
          else st
      | None \<Rightarrow>
          if c = CHR 0x22 \<or> c = CHR 0x27 then st\<lparr>string_quote := Some c\<rparr>
          else if c = CHR ''('' then st\<lparr>paren_depth := paren_depth st + 1\<rparr>
          else if c = CHR '')'' then st\<lparr>paren_depth := paren_depth st - 1\<rparr>
          else if c = CHR ''['' then st\<lparr>bracket_depth := bracket_depth st + 1\<rparr>
          else if c = CHR '']'' then st\<lparr>bracket_depth := bracket_depth st - 1\<rparr>
          else if c = CHR ''{'' then st\<lparr>brace_depth := brace_depth st + 1\<rparr>
          else if c = CHR ''}'' then st\<lparr>brace_depth := brace_depth st - 1\<rparr>
          else st)"

text \<open>The separators are a comma, \<open>@\<close> and \<open>=\<close>: none of them changes the state.\<close>

definition separates :: "char \<Rightarrow> segment_scan \<Rightarrow> char \<Rightarrow> bool" where
  "separates separator st c \<longleftrightarrow>
     string_quote st = None \<and> c = separator \<and> paren_depth st = 0 \<and> bracket_depth st = 0 \<and> brace_depth st = 0"

fun parts_loop :: "char \<Rightarrow> string \<Rightarrow> segment_scan \<Rightarrow> nat \<Rightarrow> nat \<Rightarrow> string list \<Rightarrow> string \<Rightarrow> string list" where
  "parts_loop separator whole st start idx parts [] = parts @ [drop start whole]"
| "parts_loop separator whole st start idx parts (c # s) =
     (if separates separator st c
      then parts_loop separator whole st (idx + 1) (idx + 1) (parts @ [drop start (take idx whole)]) s
      else parts_loop separator whole (segment_step c st) start (idx + 1) parts s)"

definition segment_parts :: "string \<Rightarrow> char \<Rightarrow> string list" where
  "segment_parts s separator = parts_loop separator s segment_scan_init 0 0 [] s"

definition segment_key :: "string \<Rightarrow> string" where
  "segment_key segment =
     (let segment = trim (hd (segment_parts segment CHR ''@''));
          key = trim (hd (segment_parts segment CHR ''='')) in
      join '' '' (split_whitespace key))"

record constraint_segment =
  cs_text :: string
  cs_key :: string
  cs_start :: nat
  cs_end :: nat

definition push_constraint_segment ::
  "string \<Rightarrow> nat \<Rightarrow> nat \<Rightarrow> constraint_segment list \<Rightarrow> constraint_segment list" where
  "push_constraint_segment inner start stop segments =
     (let raw = drop start (take stop inner);
          trimmed_start = length raw - length (trim_start raw);
          trimmed = trim raw in
      if trimmed = [] then segments
      else
        let absolute_start = start + trimmed_start; absolute_end = absolute_start + length trimmed in
        segments @ [\<lparr>cs_text = trimmed, cs_key = segment_key trimmed,
                     cs_start = absolute_start, cs_end = absolute_end\<rparr>])"

fun segment_loop ::
  "string \<Rightarrow> segment_scan \<Rightarrow> nat \<Rightarrow> nat \<Rightarrow> constraint_segment list \<Rightarrow> string \<Rightarrow> constraint_segment list" where
  "segment_loop inner st start idx segments [] = push_constraint_segment inner start (length inner) segments"
| "segment_loop inner st start idx segments (c # s) =
     (if separates CHR '','' st c
      then segment_loop inner st (idx + 1) (idx + 1) (push_constraint_segment inner start idx segments) s
      else segment_loop inner (segment_step c st) start (idx + 1) segments s)"

definition split_constraint_segments :: "string \<Rightarrow> constraint_segment list" where
  "split_constraint_segments inner = segment_loop inner segment_scan_init 0 0 [] inner"

subsection \<open>Putting segments back\<close>

definition first_constraint_indent :: "string \<Rightarrow> string option" where
  "first_constraint_indent inner =
     find_map (\<lambda>line. if trim line \<noteq> [] then Some (take (length line - length (trim_start line)) line) else None)
       (text_lines inner)"

definition trailing_comma :: "string \<Rightarrow> string" where
  "trailing_comma inner = (if suffix '','' (trim_end inner) then '','' else [])"

definition reordered_constraint_inner :: "string \<Rightarrow> constraint_segment list \<Rightarrow> string" where
  "reordered_constraint_inner inner segments =
     (let texts = map cs_text segments in
      if NEWLINE \<notin> set inner then join '', '' texts @ trailing_comma inner
      else
        let indent = unwrap_or ''    '' (first_constraint_indent inner);
            body = join ('','' @ [NEWLINE] @ indent) texts @ trailing_comma inner in
        (if prefix [NEWLINE] inner then [NEWLINE] else []) @ indent @ body @
        (if suffix [NEWLINE] inner then [NEWLINE] else []))"

subsection \<open>The attribute around a position\<close>

record account_attribute_text =
  aa_inner :: string
  aa_inner_start :: nat
  aa_inner_end :: nat

fun close_paren_loop :: "nat \<Rightarrow> char option \<Rightarrow> bool \<Rightarrow> nat \<Rightarrow> string \<Rightarrow> nat option" where
  "close_paren_loop nesting quote esc i [] = None"
| "close_paren_loop nesting (Some q) esc i (c # s) =
     (if esc then close_paren_loop nesting (Some q) False (i + 1) s
      else if c = BACKSLASH then close_paren_loop nesting (Some q) True (i + 1) s
      else if c = q then close_paren_loop nesting None esc (i + 1) s
      else close_paren_loop nesting (Some q) esc (i + 1) s)"
| "close_paren_loop nesting None esc i (c # s) =
     (if c = CHR 0x22 \<or> c = CHR 0x27 then close_paren_loop nesting (Some c) esc (i + 1) s
      else if c = CHR ''('' then close_paren_loop (nesting + 1) None esc (i + 1) s
      else if c = CHR '')'' then
        (if nesting = 0 then None
         else if nesting - 1 = 0 then Some i
         else close_paren_loop (nesting - 1) None esc (i + 1) s)
      else close_paren_loop nesting None esc (i + 1) s)"

definition matching_close_paren :: "string \<Rightarrow> nat \<Rightarrow> nat option" where
  "matching_close_paren source open_paren = close_paren_loop 0 None False open_paren (drop open_paren source)"

definition account_attribute_at_position :: "string \<Rightarrow> position \<Rightarrow> account_attribute_text option option" where
  "account_attribute_at_position source p =
     (case byte_offset_at source p of
        None \<Rightarrow> Some None
      | Some offset \<Rightarrow>
          let search_end = min (offset + length ''#[account'') (length source) in
          if \<not> is_char_boundary source search_end then None
          else Some (
            Option.bind (str_rfind ''#[account'' (take search_end source)) (\<lambda>attr_start.
            Option.bind (str_find ''('' (drop attr_start source)) (\<lambda>relative.
              let open_paren = attr_start + relative in
              Option.bind (matching_close_paren source open_paren) (\<lambda>close.
                if offset < attr_start \<or> offset > close then None
                else Some \<lparr>aa_inner = drop (open_paren + 1) (take close source),
                           aa_inner_start = open_paren + 1, aa_inner_end = close\<rparr>)))))"

text \<open>The loop over the characters is the one of theory \<open>Text_Sync\<close>; here a column that does not fit
  gives no position.\<close>

definition edit_position_at_byte_offset :: "string \<Rightarrow> nat \<Rightarrow> position option" where
  "edit_position_at_byte_offset source offset =
     (let offset = min offset (length source) in
      if \<not> is_char_boundary source offset then None
      else
        let (line, line_start) = position_loop (utf8_chars source) 0 offset 0 0 in
        map_option (\<lambda>character. \<lparr>pos_line = line, pos_character = character\<rparr>)
          (u32_try_from (char_count (drop line_start (take offset source)))))"

subsection \<open>Phrases\<close>

definition normalized_phrase :: "string \<Rightarrow> string" where
  "normalized_phrase s =
     to_ascii_lowercase
       (join '' '' (filter (\<lambda>part. part \<noteq> ''account'')
         (split_whitespace (str_replace ''_'' '' '' (str_replace ''::'' '' '' s)))))"

definition constraint_phrase_matches :: "string \<Rightarrow> string \<Rightarrow> bool" where
  "constraint_phrase_matches key phrase \<longleftrightarrow> normalized_phrase key = normalized_phrase phrase"

definition ordering_rule_parts :: "string \<Rightarrow> (string \<times> string) option" where
  "ordering_rule_parts message = split_once '' must be provided before '' message"

subsection \<open>White space does not concern the scan\<close>

definition plain_char :: "char \<Rightarrow> bool" where
  "plain_char c \<longleftrightarrow> byte c \<notin> {34, 36, 39, 40, 41, 44, 91, 92, 93, 123, 125}"

text \<open>Text that is made of white space.\<close>

definition blank_text :: "string \<Rightarrow> bool" where
  "blank_text w \<longleftrightarrow> (\<exists>ps. w = concat ps \<and> list_all is_ws ps)"

lemma blank_Nil [simp]: "blank_text []"
  unfolding blank_text_def by (intro exI [of _ "[]"]) simp

lemma blank_append: "blank_text v \<Longrightarrow> blank_text w \<Longrightarrow> blank_text (v @ w)"
  unfolding blank_text_def by (elim exE, rule_tac x = "ps @ psa" in exI) simp

lemma blank_ws: "is_ws p \<Longrightarrow> blank_text p"
  unfolding blank_text_def by (intro exI [of _ "[p]"]) simp

lemma blank_cases:
  assumes "blank_text w" "w \<noteq> []"
  obtains p w' where "w = p @ w'" "is_ws p" "blank_text w'" "p \<noteq> []"
proof -
  from assms(1) obtain ps where "w = concat ps" "list_all is_ws ps" by (auto simp: blank_text_def)
  with assms(2) obtain p qs where "w = p @ concat qs" "is_ws p" "list_all is_ws qs" by (cases ps) auto
  with that show ?thesis by (metis blank_text_def is_ws_Nil)
qed

lemma blank_newline: "blank_text [NEWLINE]"
  by (rule blank_ws) (simp add: is_ws_def NEWLINE_def whitespace_codes_def byte_def)

lemma blank_space: "blank_text '' ''"
  by (rule blank_ws) (simp add: is_ws_def whitespace_codes_def byte_def)

lemma ws_plain: "is_ws p \<Longrightarrow> list_all plain_char p"
proof -
  assume "is_ws p"
  then have "map byte p \<in> set whitespace_codes" by (simp add: is_ws_def)
  moreover have "list_all (\<lambda>code. list_all (\<lambda>b. b \<notin> {34, 36, 39, 40, 41, 44, 91, 92, 93, 123, 125}) code) whitespace_codes"
    by code_simp
  ultimately have "list_all (\<lambda>b. b \<notin> {34, 36, 39, 40, 41, 44, 91, 92, 93, 123, 125}) (map byte p)"
    by (simp only: list_all_iff [of _ whitespace_codes])
  then show ?thesis by (simp add: list_all_iff plain_char_def)
qed

lemma blank_plain: "blank_text w \<Longrightarrow> list_all plain_char w"
  using ws_plain by (fastforce simp: blank_text_def list_all_iff)

lemma whitespace_codes_shape:
  "list_all (\<lambda>code. (length code = 1 \<or> length code = 2 \<or> length code = 3) \<and>
     (1 < length code \<longrightarrow> take 1 code \<notin> set whitespace_codes) \<and>
     (2 < length code \<longrightarrow> take 2 code \<notin> set whitespace_codes)) whitespace_codes"
  by code_simp

lemma ws_front_piece:
  assumes "is_ws p"
  shows "ws_front (p @ s) = length p"
proof -
  have "map byte p \<in> set whitespace_codes" using assms by (simp add: is_ws_def)
  with whitespace_codes_shape have shape: "length p = 1 \<or> length p = 2 \<or> length p = 3"
    "1 < length p \<longrightarrow> \<not> is_ws (take 1 p)" "2 < length p \<longrightarrow> \<not> is_ws (take 2 p)"
    by (auto simp: list_all_iff is_ws_def simp flip: take_map)
  with assms show ?thesis by (auto simp: ws_front_def)
qed

lemma trim_start_blank: "blank_text w \<Longrightarrow> trim_start (w @ s) = trim_start s"
proof (induction "length w" arbitrary: w rule: less_induct)
  case less
  show ?case
  proof (cases "w = []")
    case False
    from blank_cases [OF less.prems False] obtain p w' where p: "w = p @ w'" "is_ws p" "blank_text w'" "p \<noteq> []" .
    have "trim_start (p @ w' @ s) = trim_start (w' @ s)"
      using ws_front_piece [OF p(2), of "w' @ s"] p(4) by (subst trim_start.simps) simp
    with less.hyps [of w'] p show ?thesis by simp
  qed simp
qed

lemma trim_start_split: "\<exists>w. blank_text w \<and> s = w @ trim_start s"
proof (induction s rule: trim_start.induct)
  case (1 s)
  show ?case
  proof (cases "ws_front s = 0")
    case True
    then show ?thesis by (intro exI [of _ "[]"]) (simp add: trim_start_id)
  next
    case False
    then have "is_ws (take (ws_front s) s)" by (auto simp: ws_front_def split: if_splits)
    moreover from 1 [OF False] obtain w where "blank_text w" "drop (ws_front s) s = w @ trim_start (drop (ws_front s) s)"
      by blast
    ultimately have "blank_text (take (ws_front s) s @ w)" "s = (take (ws_front s) s @ w) @ trim_start s"
      using False by (simp_all add: blank_append blank_ws trim_start.simps [of s] flip: append.assoc)
    then show ?thesis by blast
  qed
qed

lemma trim_end_split: "\<exists>w. blank_text w \<and> s = trim_end s @ w"
proof (induction s rule: trim_end.induct)
  case (1 s)
  let ?t = "take (length s - ws_back s) s"
  show ?case
  proof (cases "ws_back s = 0")
    case True
    then show ?thesis by (intro exI [of _ "[]"]) (simp add: trim_end_id)
  next
    case False
    then have "is_ws (drop (length s - ws_back s) s)" by (auto simp: ws_back_def split: if_splits)
    moreover from 1 [OF False] obtain w where "blank_text w" "?t = trim_end ?t @ w" by blast
    ultimately have "blank_text (w @ drop (length s - ws_back s) s)" "s = trim_end s @ w @ drop (length s - ws_back s) s"
      using False by (simp_all add: blank_append blank_ws trim_end.simps [of s]) (metis append.assoc append_take_drop_id)
    then show ?thesis by blast
  qed
qed

lemma trim_split: "\<exists>v w. blank_text v \<and> blank_text w \<and> s = v @ trim s @ w"
  using trim_start_split [of s] trim_end_split [of "trim_start s"] unfolding trim_def by metis

lemma trim_end_newline: "trim_end (s @ [NEWLINE]) = trim_end s"
proof -
  have "ws_back (s @ [NEWLINE]) = 1"
    by (simp add: ws_back_def is_ws_def NEWLINE_def whitespace_codes_def byte_def)
  then show ?thesis by (subst trim_end.simps) simp
qed

lemma trim_blank_front: "blank_text w \<Longrightarrow> trim (w @ s) = trim s"
  by (simp add: trim_def trim_start_blank)

lemma trim_blank: "blank_text w \<Longrightarrow> trim w = []"
  using trim_blank_front [of w "[]"] by simp

lemma ws_front_prefix: "prefix p s \<Longrightarrow> ws_front s = 0 \<Longrightarrow> ws_front p = 0"
proof -
  assume "prefix p s" "ws_front s = 0"
  then obtain r where s: "s = p @ r" by (auto simp: prefix_def)
  have "\<not> is_ws (take k p)" if k: "k \<le> 3" for k
  proof
    assume ws: "is_ws (take k p)"
    from ws_front_piece [OF ws, of "drop k p @ r"] have "length (take k p) = 0"
      using s \<open>ws_front s = 0\<close> by (simp flip: append.assoc)
    with ws show False by (metis is_ws_Nil length_0_conv)
  qed
  then show "ws_front p = 0" by (simp add: ws_front_def)
qed

lemma trim_trim: "trim (trim s) = trim s"
proof -
  have "ws_front (trim s) = 0"
    unfolding trim_def by (rule ws_front_prefix [OF trim_end_prefix trim_start_stop])
  moreover have "ws_back (trim s) = 0" unfolding trim_def by (rule trim_end_stop)
  ultimately show ?thesis unfolding trim_def [of "trim s"] by (simp add: trim_start_id trim_end_id)
qed

lemma plain_char_not:
  "plain_char c \<Longrightarrow> c \<noteq> CHR 0x22 \<and> c \<noteq> CHR 0x27 \<and> c \<noteq> CHR ''('' \<and> c \<noteq> CHR '')'' \<and> c \<noteq> CHR ''['' \<and>
     c \<noteq> CHR '']'' \<and> c \<noteq> CHR ''{'' \<and> c \<noteq> CHR ''}'' \<and> c \<noteq> CHR '','' \<and> c \<noteq> BACKSLASH \<and> c \<noteq> CHR ''$''"
  by (intro conjI notI; simp add: plain_char_def byte_def BACKSLASH_def)

lemma step_plain: "plain_char c \<Longrightarrow> string_quote st = None \<Longrightarrow> segment_step c st = st"
  by (drule plain_char_not) (simp add: segment_step_def)

lemma step_plain_quote:
  assumes "plain_char c" "string_quote st \<in> {None, Some CHR 0x22, Some CHR 0x27}"
  shows "string_quote (segment_step c st) = string_quote st"
proof (cases "string_quote st")
  case None
  with assms(1) show ?thesis by (simp add: step_plain)
next
  case (Some q)
  then have "c \<noteq> q" using assms(2) plain_char_not [OF assms(1)] by auto
  with Some show ?thesis by (simp add: segment_step_def)
qed

lemma plain_uncut: "plain_char c \<Longrightarrow> \<not> separates CHR '','' st c"
  by (drule plain_char_not) (simp add: separates_def)


subsection \<open>Pieces of a text\<close>

text \<open>The pieces between the cuts, and texts without a cut after which the scan is where it began.\<close>

fun pieces :: "segment_scan \<Rightarrow> string \<Rightarrow> string list" where
  "pieces st [] = [[]]"
| "pieces st (c # s) =
     (if separates CHR '','' st c then [] # pieces st s
      else (let ps = pieces (segment_step c st) s in (c # hd ps) # tl ps))"

fun uncut :: "segment_scan \<Rightarrow> string \<Rightarrow> bool" where
  "uncut st [] = True"
| "uncut st (c # s) = (\<not> separates CHR '','' st c \<and> uncut (segment_step c st) s)"

definition closed_text :: "string \<Rightarrow> bool" where
  "closed_text s \<longleftrightarrow> fold segment_step s segment_scan_init = segment_scan_init"

definition whole :: "string \<Rightarrow> bool" where
  "whole s \<longleftrightarrow> uncut segment_scan_init s \<and> closed_text s"

lemma pieces_not_Nil [simp]: "pieces st s \<noteq> []"
  by (cases s) (auto simp: Let_def)

lemma uncut_append: "uncut st (a @ b) \<longleftrightarrow> uncut st a \<and> uncut (fold segment_step a st) b"
  by (induction a arbitrary: st) auto

lemma pieces_append: "uncut st a \<Longrightarrow> pieces st (a @ b) =
    (let ps = pieces (fold segment_step a st) b in (a @ hd ps) # tl ps)"
  by (induction a arbitrary: st) (auto simp: Let_def)

lemma pieces_uncut: "uncut st a \<Longrightarrow> pieces st a = [a]"
  using pieces_append [of st a "[]"] by (simp add: Let_def)

definition scan_ok :: "segment_scan \<Rightarrow> bool" where
  "scan_ok st \<longleftrightarrow> string_quote st \<in> {None, Some CHR 0x22, Some CHR 0x27} \<and>
     (string_quote st = None \<longrightarrow> \<not> after_backslash st)"

lemma scan_ok_init [simp]: "scan_ok segment_scan_init"
  by (simp add: scan_ok_def segment_scan_init_def)

lemma scan_ok_step: "scan_ok st \<Longrightarrow> scan_ok (segment_step c st)"
  by (cases "string_quote st") (simp_all add: scan_ok_def segment_step_def)

lemma scan_ok_fold: "scan_ok st \<Longrightarrow> scan_ok (fold segment_step s st)"
  by (induction s arbitrary: st) (simp_all add: scan_ok_step)

lemma separates_init: "separates CHR '','' st c \<Longrightarrow> scan_ok st \<Longrightarrow> st = segment_scan_init"
  by (cases st) (simp add: separates_def scan_ok_def segment_scan_init_def)

lemma fold_plain: "list_all plain_char w \<Longrightarrow> string_quote st = None \<Longrightarrow> fold segment_step w st = st"
  by (induction w) (simp_all add: step_plain)

lemma fold_plain_quote:
  "list_all plain_char w \<Longrightarrow> scan_ok st \<Longrightarrow> string_quote (fold segment_step w st) = string_quote st"
proof (induction w arbitrary: st)
  case (Cons c w)
  then show ?case using step_plain_quote [of c st] by (simp add: scan_ok_step scan_ok_def [of st])
qed simp

lemma uncut_plain: "list_all plain_char w \<Longrightarrow> uncut st w"
  by (induction w arbitrary: st) (simp_all add: plain_uncut)

lemma whole_append: "whole a \<Longrightarrow> whole b \<Longrightarrow> whole (a @ b)"
  by (simp add: whole_def uncut_append closed_text_def)

lemma whole_blank: "blank_text w \<Longrightarrow> whole w"
  using blank_plain [of w] fold_plain [of w segment_scan_init]
  by (simp add: whole_def uncut_plain closed_text_def segment_scan_init_def)

lemma whole_trim: "whole s \<Longrightarrow> whole (trim s)"
proof -
  assume "whole s"
  from trim_split [of s] obtain v w where vw: "blank_text v" "blank_text w" "s = v @ trim s @ w" by blast
  let ?m = "fold segment_step (trim s) segment_scan_init"
  have v: "fold segment_step v segment_scan_init = segment_scan_init"
    using whole_blank [OF vw(1)] by (simp add: whole_def closed_text_def)
  have "closed_text s" "uncut segment_scan_init s" using \<open>whole s\<close> by (simp_all add: whole_def)
  then have closed: "fold segment_step w ?m = segment_scan_init" and uncut: "uncut segment_scan_init (trim s)"
    using vw(3) v by (metis closed_text_def comp_apply fold_append, metis uncut_append v)
  have ok: "scan_ok ?m" by (simp add: scan_ok_fold)
  from fold_plain_quote [OF blank_plain [OF vw(2)] ok] closed have "string_quote ?m = None"
    by (simp add: segment_scan_init_def)
  from fold_plain [OF blank_plain [OF vw(2)] this] closed have "?m = segment_scan_init" by simp
  with uncut show "whole (trim s)" by (simp add: whole_def closed_text_def)
qed

text \<open>Every piece of a closed text is whole; the first one continues the scan.\<close>

lemma pieces_whole:
  "scan_ok st \<Longrightarrow> fold segment_step s st = segment_scan_init \<Longrightarrow>
     uncut st (hd (pieces st s)) \<and> fold segment_step (hd (pieces st s)) st = segment_scan_init \<and>
     list_all whole (tl (pieces st s))"
proof (induction s arbitrary: st)
  case (Cons c s)
  show ?case
  proof (cases "separates CHR '','' st c")
    case True
    then have st: "st = segment_scan_init" using Cons.prems(1) by (rule separates_init)
    with True have "c = CHR '',''" by (simp add: separates_def)
    then have "segment_step c st = st" unfolding st by (simp add: segment_step_def segment_scan_init_def)
    with Cons.prems Cons.IH [of st] True st have "whole (hd (pieces st s)) \<and> list_all whole (tl (pieces st s))"
      unfolding whole_def closed_text_def by simp
    then have "list_all whole (pieces st s)" by (cases "pieces st s") simp_all
    with True st show ?thesis by simp
  next
    case False
    with Cons.prems Cons.IH [of "segment_step c st"] show ?thesis by (simp add: scan_ok_step Let_def)
  qed
qed simp

subsection \<open>The segments are the pieces that are not blank\<close>

definition texts_of :: "string list \<Rightarrow> string list" where
  "texts_of ps = filter (\<lambda>t. t \<noteq> []) (map trim ps)"

definition segment_texts :: "string \<Rightarrow> string list" where
  "segment_texts s = texts_of (pieces segment_scan_init s)"

lemma push_segment_texts:
  "map cs_text (push_constraint_segment inner start stop segments) =
     map cs_text segments @ texts_of [drop start (take stop inner)]"
  by (simp add: push_constraint_segment_def texts_of_def Let_def)

lemma texts_of_Cons: "texts_of (p # ps) = texts_of [p] @ texts_of ps"
  by (simp add: texts_of_def)

lemma segment_loop_texts:
  "drop idx inner = s \<Longrightarrow> start \<le> idx \<Longrightarrow> idx \<le> length inner \<Longrightarrow>
     map cs_text (segment_loop inner st start idx segments s) =
     map cs_text segments @
     texts_of ((drop start (take idx inner) @ hd (pieces st s)) # tl (pieces st s))"
proof (induction s arbitrary: st start idx segments)
  case Nil
  then have "idx = length inner" by simp
  then show ?case by (simp add: push_segment_texts)
next
  case (Cons c s)
  have s: "drop (idx + 1) inner = s" using Cons.prems(1) by (metis drop_Suc list.sel(3) tl_drop Suc_eq_plus1)
  have "idx < length inner" using Cons.prems(1) by (metis drop_all list.distinct(1) not_le)
  moreover have "take (idx + 1) inner = take idx inner @ [c]"
    using Cons.prems(1) calculation by (metis take_Suc_conv_app_nth nth_via_drop Suc_eq_plus1)
  ultimately have len: "idx + 1 \<le> length inner" and take: "take (idx + 1) inner = take idx inner @ [c]" by simp_all
  show ?case
  proof (cases "separates CHR '','' st c")
    case True
    then show ?thesis
      using Cons.IH [OF s order.refl len, of st "push_constraint_segment inner start idx segments"]
        texts_of_Cons [of "drop start (take idx inner)" "pieces st s"]
      by (simp add: push_segment_texts del: take_append)
  next
    case False
    have "drop start (take (idx + 1) inner) = drop start (take idx inner) @ [c]"
      using take Cons.prems(2,3) by simp
    with False show ?thesis
      using Cons.IH [OF s _ len, of start "segment_step c st" segments] Cons.prems(2) by (simp add: Let_def)
  qed
qed

lemma map_cs_text_split: "map cs_text (split_constraint_segments inner) = segment_texts inner"
  using segment_loop_texts [of 0 inner inner 0 segment_scan_init "[]"]
  by (simp add: split_constraint_segments_def segment_texts_def)

lemma push_segment_keys:
  assumes "list_all (\<lambda>x. cs_key x = segment_key (cs_text x)) segments"
  shows "list_all (\<lambda>x. cs_key x = segment_key (cs_text x)) (push_constraint_segment inner start stop segments)"
proof -
  have "push_constraint_segment inner start stop segments = segments \<or>
      (\<exists>t i j. push_constraint_segment inner start stop segments =
        segments @ [\<lparr>cs_text = t, cs_key = segment_key t, cs_start = i, cs_end = j\<rparr>])"
    unfolding push_constraint_segment_def Let_def
    by (cases "trim (drop start (take stop inner)) = []"; simp only: if_True if_False simp_thms; blast)
  with assms show ?thesis by (elim disjE exE) simp_all
qed

lemma segment_loop_keys:
  "list_all (\<lambda>x. cs_key x = segment_key (cs_text x)) segments \<Longrightarrow>
     list_all (\<lambda>x. cs_key x = segment_key (cs_text x)) (segment_loop inner st start idx segments s)"
proof (induction s arbitrary: st start idx segments)
  case Nil
  then show ?case by (simp add: push_segment_keys)
next
  case (Cons c s)
  then show ?case using push_segment_keys [OF Cons.prems] by simp
qed

lemma split_segment_keys: "x \<in> set (split_constraint_segments inner) \<Longrightarrow> cs_key x = segment_key (cs_text x)"
  using segment_loop_keys [of "[]" inner segment_scan_init 0 0 inner]
  by (simp add: split_constraint_segments_def list_all_iff)

text \<open>A text that a segment can have: whole, trimmed and not empty.\<close>

definition segment_text :: "string \<Rightarrow> bool" where
  "segment_text t \<longleftrightarrow> whole t \<and> trim t = t \<and> t \<noteq> []"

lemma closed_segment_texts: "closed_text s \<Longrightarrow> list_all segment_text (segment_texts s)"
proof -
  assume "closed_text s"
  then have "list_all whole (pieces segment_scan_init s)"
    using pieces_whole [of segment_scan_init s]
    by (cases "pieces segment_scan_init s") (auto simp: closed_text_def whole_def)
  then show ?thesis
    by (auto simp: segment_texts_def texts_of_def segment_text_def list_all_iff whole_trim trim_trim)
qed

subsection \<open>A text put together splits into its parts\<close>

lemma texts_cut: "whole a \<Longrightarrow> segment_texts (a @ CHR '','' # b) = texts_of [a] @ segment_texts b"
  by (simp add: segment_texts_def pieces_append Let_def whole_def closed_text_def texts_of_def
      separates_def segment_scan_init_def)

lemma texts_whole: "whole a \<Longrightarrow> segment_texts a = texts_of [a]"
  by (simp add: segment_texts_def pieces_uncut whole_def)

definition end_text :: "string \<Rightarrow> bool" where
  "end_text e \<longleftrightarrow> e \<in> {[], [NEWLINE], '','', '','' @ [NEWLINE]}"

lemma newline_codes: "list_all (\<lambda>code. 10 \<in> set code \<longrightarrow> code = [10]) whitespace_codes"
  by code_simp

lemma ws_front_newline: "t \<noteq> [] \<Longrightarrow> ws_front t = 0 \<Longrightarrow> ws_front (t @ [NEWLINE]) = 0"
proof -
  assume t: "t \<noteq> []" "ws_front t = 0"
  have "\<not> is_ws (take k (t @ [NEWLINE]))" for k
  proof
    assume ws: "is_ws (take k (t @ [NEWLINE]))"
    show False
    proof (cases "k \<le> length t")
      case True
      then have "is_ws (take k t)" using ws by simp
      from ws_front_piece [OF this, of "drop k t"] t(2) have "take k t = []" by (metis append_take_drop_id length_0_conv)
      with \<open>is_ws (take k t)\<close> show False by (metis is_ws_Nil)
    next
      case False
      then have "is_ws (t @ [NEWLINE])" using ws by simp
      then have code: "map byte (t @ [NEWLINE]) \<in> set whitespace_codes" by (simp only: is_ws_def)
      have "byte NEWLINE = 10" by (simp add: NEWLINE_def byte_def)
      then have "10 \<in> set (map byte (t @ [NEWLINE]))" by simp
      with code newline_codes have "map byte (t @ [NEWLINE]) = [10]" unfolding list_all_iff by blast
      with t(1) show False by (cases t) simp_all
    qed
  qed
  then show "ws_front (t @ [NEWLINE]) = 0" by (simp add: ws_front_def)
qed

lemma texts_of_padded:
  assumes "segment_text t" "blank_text v"
  shows "texts_of [v @ t] = [t]" "texts_of [v @ t @ [NEWLINE]] = [t]"
proof -
  have t: "trim t = t" "t \<noteq> []" using assms(1) by (simp_all add: segment_text_def)
  then have front: "ws_front t = 0" by (metis trim_def ws_front_prefix trim_end_prefix trim_start_stop)
  then have "trim (t @ [NEWLINE]) = trim t"
    using ws_front_newline [OF t(2) front] by (simp add: trim_def trim_start_id trim_end_newline)
  with t show "texts_of [v @ t] = [t]" "texts_of [v @ t @ [NEWLINE]] = [t]"
    by (simp_all add: texts_of_def trim_blank_front [OF assms(2)])
qed


lemma end_text_cases:
  assumes "end_text e" "\<And>n. n = [] \<or> n = [NEWLINE] \<Longrightarrow> e = n \<or> e = CHR '','' # n \<Longrightarrow> thesis"
  shows thesis
  using assms by (auto simp: end_text_def)

lemma texts_blank: "blank_text w \<Longrightarrow> segment_texts w = []"
  by (simp add: texts_whole whole_blank texts_of_def trim_blank)

lemma texts_end:
  assumes "blank_text v" "end_text e"
  shows "segment_texts (v @ e) = []"
  using assms(2)
proof (rule end_text_cases)
  fix n :: string
  assume n: "n = [] \<or> n = [NEWLINE]" "e = n \<or> e = CHR '','' # n"
  then have "blank_text n" by (auto simp: blank_newline)
  with n assms(1) show "segment_texts (v @ e) = []"
    by (auto simp: texts_cut whole_blank texts_blank blank_append texts_of_def trim_blank)
qed

lemma texts_last:
  assumes "segment_text t" "blank_text v" "end_text e"
  shows "segment_texts (v @ t @ e) = [t]"
  using assms(3)
proof (rule end_text_cases)
  fix n :: string
  assume n: "n = [] \<or> n = [NEWLINE]" "e = n \<or> e = CHR '','' # n"
  then have blank: "blank_text n" by (auto simp: blank_newline)
  have t: "whole (v @ t)" using assms(1,2) by (simp add: whole_append whole_blank segment_text_def)
  show "segment_texts (v @ t @ e) = [t]"
  proof (cases "e = n")
    case True
    have "whole ((v @ t) @ n)" by (intro whole_append t whole_blank blank)
    then show ?thesis using n(1) True texts_of_padded [OF assms(1,2)] by (auto simp: texts_whole)
  next
    case False
    with n(2) have "segment_texts (v @ t @ e) = texts_of [v @ t] @ segment_texts n"
      using texts_cut [OF t, of n] by simp
    then show ?thesis using texts_of_padded(1) [OF assms(1,2)] blank by (simp add: texts_blank)
  qed
qed

lemma texts_join:
  assumes "blank_text w" "end_text e"
  shows "list_all segment_text ts \<Longrightarrow> blank_text v \<Longrightarrow> segment_texts (v @ join (CHR '','' # w) ts @ e) = ts"
proof (induction ts arbitrary: v rule: induct_list012)
  case 1
  then show ?case using assms(2) by (simp add: texts_end)
next
  case (2 t)
  then show ?case using assms(2) by (simp add: texts_last)
next
  case (3 t u ts)
  then have t: "segment_text t" and rest: "list_all segment_text (u # ts)" by simp_all
  have "whole (v @ t)" using t 3(4) by (simp add: whole_append whole_blank segment_text_def)
  from texts_cut [OF this, of "w @ join (CHR '','' # w) (u # ts) @ e"]
  have "segment_texts (v @ join (CHR '','' # w) (t # u # ts) @ e) =
      texts_of [v @ t] @ segment_texts (w @ join (CHR '','' # w) (u # ts) @ e)" by simp
  with 3(2) [OF rest assms(1)] texts_of_padded(1) [OF t 3(4)] show ?case by simp
qed

lemma first_constraint_indent_blank: "first_constraint_indent inner = Some indent \<Longrightarrow> blank_text indent"
proof -
  assume "first_constraint_indent inner = Some indent"
  then obtain line where line: "indent = take (length line - length (trim_start line)) line"
    by (auto simp: first_constraint_indent_def split: if_splits dest!: find_map_Some)
  from trim_start_split [of line] obtain w where "blank_text w" "line = w @ trim_start line" by blast
  then show "blank_text indent" unfolding line by (metis append_eq_conv_conj diff_add_inverse2 length_append)
qed

lemma reordered_shape:
  obtains v w e where "blank_text v" "blank_text w" "end_text e"
    "\<And>segments. reordered_constraint_inner inner segments = v @ join (CHR '','' # w) (map cs_text segments) @ e"
proof (cases "NEWLINE \<in> set inner")
  case False
  then show ?thesis
    by (intro that [of "[]" "'' ''" "trailing_comma inner"])
       (simp_all add: blank_space end_text_def trailing_comma_def reordered_constraint_inner_def)
next
  case True
  define indent where "indent = unwrap_or ''    '' (first_constraint_indent inner)"
  have "blank_text ''    ''"
    unfolding blank_text_def
    by (intro exI [of _ "['' '', '' '', '' '', '' '']"]) (simp add: is_ws_def whitespace_codes_def byte_def)
  then have indent: "blank_text indent"
    using first_constraint_indent_blank by (cases "first_constraint_indent inner") (auto simp: indent_def unwrap_or_def)
  let ?n = "\<lambda>b. if b then [NEWLINE] else []"
  have n: "blank_text (?n b)" for b by (simp add: blank_newline)
  show ?thesis
  proof (rule that)
    show "blank_text (?n (prefix [NEWLINE] inner) @ indent)" by (intro blank_append n indent)
    show "blank_text ([NEWLINE] @ indent)" by (intro blank_append blank_newline indent)
    show "end_text (trailing_comma inner @ ?n (suffix [NEWLINE] inner))"
      by (simp add: end_text_def trailing_comma_def)
    show "reordered_constraint_inner inner segments =
        (?n (prefix [NEWLINE] inner) @ indent) @ join (CHR '','' # [NEWLINE] @ indent) (map cs_text segments) @
        trailing_comma inner @ ?n (suffix [NEWLINE] inner)" for segments
      using True unfolding indent_def by (simp add: reordered_constraint_inner_def Let_def)
  qed
qed

text \<open>Any selection of the segments of a closed text, in any order, is what the rewritten text splits into.\<close>

lemma reordered_segment_texts:
  assumes "closed_text inner" "set segments \<subseteq> set (split_constraint_segments inner)"
  shows "map cs_text (split_constraint_segments (reordered_constraint_inner inner segments)) = map cs_text segments"
    "map cs_key (split_constraint_segments (reordered_constraint_inner inner segments)) = map cs_key segments"
proof -
  let ?new = "split_constraint_segments (reordered_constraint_inner inner segments)"
  have "set (map cs_text segments) \<subseteq> set (map cs_text (split_constraint_segments inner))"
    using assms(2) by auto
  then have segs: "list_all segment_text (map cs_text segments)"
    using closed_segment_texts [OF assms(1)] unfolding map_cs_text_split list_all_iff by blast
  obtain v w e where "blank_text v" "blank_text w" "end_text e"
      "reordered_constraint_inner inner segments = v @ join (CHR '','' # w) (map cs_text segments) @ e"
    using reordered_shape by metis
  with segs show texts: "map cs_text ?new = map cs_text segments"
    unfolding map_cs_text_split by (simp add: texts_join)
  have "map cs_key ?new = map segment_key (map cs_text ?new)"
    by (simp add: split_segment_keys)
  also have "\<dots> = map cs_key segments"
    unfolding texts using assms(2) split_segment_keys [of _ inner] by auto
  finally show "map cs_key ?new = map cs_key segments" .
qed

subsection \<open>Words\<close>

lemma word_length_word: "list_all word_char s \<Longrightarrow> word_length s = length s"
  by (induction s) (simp_all add: word_char_visible visible_not_ws_front)

lemma split_whitespace_word: "list_all word_char s \<Longrightarrow> s \<noteq> [] \<Longrightarrow> split_whitespace s = [s]"
proof -
  assume s: "list_all word_char s" "s \<noteq> []"
  have "split_whitespace [] = []" by (simp add: split_whitespace.simps [of "[]"] trim_start_id)
  with s show "split_whitespace s = [s]"
    by (subst split_whitespace.simps) (simp add: trim_start_word word_length_word Let_def)
qed

lemma trim_word: "list_all word_char s \<Longrightarrow> trim s = s"
  by (cases "s = []") (simp_all add: trim_solid word_solid)

end
