(* ===== verification/Constraint_Actions.thy ===== *)
theory Constraint_Actions
  imports Code_Actions Constraint_Segments Account_Semantics
begin

section \<open>Actions that remove, move and add constraints\<close>

text \<open>
  The actions of \<open>src/lsp/actions/constraints.rs\<close>, over the segments of theory
  \<open>Constraint_Segments\<close>.  \<open>None\<close> as the outermost result is a panic; the store of snippet
  templates is threaded through.
\<close>

definition is_constraint_shape :: "diagnostic \<Rightarrow> bool" where
  "is_constraint_shape d \<longleftrightarrow> seagrass_code d = Some ''anchor-constraint-shape''"

text \<open>\<open>filter_map\<close> with a function that may panic.\<close>

fun filter_map_panic :: "('a \<Rightarrow> 's \<Rightarrow> ('b option \<times> 's) option) \<Rightarrow> 'a list \<Rightarrow> 's \<Rightarrow> ('b list \<times> 's) option" where
  "filter_map_panic f [] s = Some ([], s)"
| "filter_map_panic f (x # xs) s =
     Option.bind (f x s) (\<lambda>(y, s).
     Option.bind (filter_map_panic f xs s) (\<lambda>(ys, s). Some (option_list y @ ys, s)))"

subsection \<open>Duplicates\<close>

definition skip_ws_from :: "string list \<Rightarrow> nat \<Rightarrow> nat" where
  "skip_ws_from chars i = i + length (takeWhile is_ws (drop i chars))"

definition comma_at :: "string list \<Rightarrow> nat \<Rightarrow> bool" where
  "comma_at chars i \<longleftrightarrow> chars ! i = '',''"

text \<open>What is removed around the characters from \<open>start\<close> to \<open>stop\<close>: the comma before them with the
  white space behind them, or the comma behind them with the white space behind it.\<close>

definition duplicate_extent :: "string list \<Rightarrow> nat \<Rightarrow> nat \<Rightarrow> nat \<times> nat" where
  "duplicate_extent chars start stop =
     (case previous_non_ws chars start of
        Some previous \<Rightarrow>
          if comma_at chars previous then (previous, skip_ws_from chars stop)
          else (case next_non_ws chars stop of
                  Some following \<Rightarrow>
                    if comma_at chars following then (start, skip_ws_from chars (min (following + 1) (length chars)))
                    else (start, stop)
                | None \<Rightarrow> (start, stop))
      | None \<Rightarrow>
          (case next_non_ws chars stop of
             Some following \<Rightarrow>
               if comma_at chars following then (start, skip_ws_from chars (min (following + 1) (length chars)))
               else (start, stop)
           | None \<Rightarrow> (start, stop)))"

definition remove_duplicate_constraint_edit ::
  "parsed_document \<Rightarrow> diagnostic \<Rightarrow> snippet_store \<Rightarrow> text_edit option \<times> snippet_store" where
  "remove_duplicate_constraint_edit doc d snippets =
     (let start_position = range_start (d_range d); end_position = range_end (d_range d) in
      (case line_at (pd_source doc) (unat (pos_line start_position)) of
        None \<Rightarrow> (None, snippets)
      | Some line \<Rightarrow>
          if pos_line start_position \<noteq> pos_line end_position then
            let (edit, snippets) = snippet_text_edit (d_range d) [] snippets in (Some edit, snippets)
          else
            let chars = utf8_chars line;
                start = unat (pos_character start_position);
                stop = min (unat (pos_character end_position)) (length chars) in
            if start \<ge> stop \<or> start > length chars then (None, snippets)
            else
              let (remove_start, remove_end) = duplicate_extent chars start stop in
              (case (u32_try_from remove_start, u32_try_from remove_end) of
                (Some first_at, Some last_at) \<Rightarrow>
                  let (edit, snippets) = snippet_text_edit
                        \<lparr>range_start = \<lparr>pos_line = pos_line start_position, pos_character = first_at\<rparr>,
                         range_end = \<lparr>pos_line = pos_line start_position, pos_character = last_at\<rparr>\<rparr> [] snippets in
                  (Some edit, snippets)
              | _ \<Rightarrow> (None, snippets))))"

definition remove_duplicate_constraint_action ::
  "parsed_document \<Rightarrow> url \<Rightarrow> diagnostic \<Rightarrow> snippet_store \<Rightarrow> code_action option \<times> snippet_store" where
  "remove_duplicate_constraint_action doc uri d snippets =
     (let constraint = unwrap_or ''constraint'' (data_str ''constraint'' (d_data d));
          (edit, snippets) = remove_duplicate_constraint_edit doc d snippets in
      (map_option (\<lambda>edit.
         quickfix_action (''Remove duplicate Anchor `'' @ constraint @ ''` constraint'') d uri edit True
           [(''anchorAction'', JString ''remove-duplicate-constraint''), (''constraint'', JString constraint)]) edit,
       snippets))"

definition remove_duplicate_constraint_actions ::
  "parsed_document \<Rightarrow> url \<Rightarrow> diagnostic list \<Rightarrow> snippet_store \<Rightarrow> code_action list \<times> snippet_store" where
  "remove_duplicate_constraint_actions doc uri ds snippets =
     filter_map_store (remove_duplicate_constraint_action doc uri)
       (filter (\<lambda>d. is_constraint_shape d \<and> parser_rule_kind d = Some ''duplicate'') ds) snippets"

subsection \<open>Conflicts\<close>

text \<open>The edit that puts back \<open>segments\<close>: the same in both functions that rewrite an attribute.\<close>

definition rewrite_attribute ::
  "string \<Rightarrow> account_attribute_text \<Rightarrow> constraint_segment list \<Rightarrow> snippet_store \<Rightarrow> text_edit option \<times> snippet_store" where
  "rewrite_attribute source attribute segments snippets =
     (case (edit_position_at_byte_offset source (aa_inner_start attribute),
            edit_position_at_byte_offset source (aa_inner_end attribute)) of
        (Some first_at, Some last_at) \<Rightarrow>
          let (edit, snippets) = snippet_text_edit \<lparr>range_start = first_at, range_end = last_at\<rparr>
                (reordered_constraint_inner (aa_inner attribute) segments) snippets in
          (Some edit, snippets)
      | _ \<Rightarrow> (None, snippets))"

definition kept_segments :: "string \<Rightarrow> string list \<Rightarrow> constraint_segment list" where
  "kept_segments inner remove =
     filter (\<lambda>segment. \<not> list_ex (constraint_phrase_matches (cs_key segment)) remove)
       (split_constraint_segments inner)"

definition remove_constraint_keys_edit ::
  "parsed_document \<Rightarrow> position \<Rightarrow> string list \<Rightarrow> snippet_store \<Rightarrow> (text_edit option \<times> snippet_store) option" where
  "remove_constraint_keys_edit doc p remove snippets =
     map_option (\<lambda>attribute.
         case attribute of
           None \<Rightarrow> (None, snippets)
         | Some attribute \<Rightarrow>
             rewrite_attribute (pd_source doc) attribute (kept_segments (aa_inner attribute) remove) snippets)
       (account_attribute_at_position (pd_source doc) p)"

definition diagnostic_account_constraint_position :: "parsed_document \<Rightarrow> diagnostic \<Rightarrow> position option" where
  "diagnostic_account_constraint_position doc d =
     Option.bind (data_str ''account'' (d_data d)) (\<lambda>account.
     Option.bind (find (\<lambda>field. sr_name field = account) (document_fields doc)) (\<lambda>field.
       case sr_account_constraints field of [] \<Rightarrow> None | constraint # _ \<Rightarrow> Some (range_start (ac_range constraint))))"

definition remove_conflicting_constraint_action ::
  "parsed_document \<Rightarrow> url \<Rightarrow> diagnostic \<Rightarrow> snippet_store \<Rightarrow> (code_action option \<times> snippet_store) option" where
  "remove_conflicting_constraint_action doc uri d snippets =
     (case Option.bind (Option.bind (d_data d) (json_get ''remove'')) as_array of
        None \<Rightarrow> Some (None, snippets)
      | Some values \<Rightarrow>
          let remove = List.map_filter as_str values;
              title = ''Remove conflicting `'' @ join ''`, `'' remove @ ''` constraints'';
              act = map_option (\<lambda>edit. quickfix_action title d uri edit True
                [(''anchorAction'', JString ''remove-conflicting-constraints''),
                 (''remove'', JArray (map JString remove))]) in
          Option.bind (remove_constraint_keys_edit doc (range_start (d_range d)) remove snippets) (\<lambda>(edit, snippets).
            case edit of
              Some _ \<Rightarrow> Some (act edit, snippets)
            | None \<Rightarrow>
                (case diagnostic_account_constraint_position doc d of
                   None \<Rightarrow> Some (None, snippets)
                 | Some p \<Rightarrow>
                     map_option (\<lambda>(edit, snippets). (act edit, snippets))
                       (remove_constraint_keys_edit doc p remove snippets))))"

definition remove_conflicting_constraint_actions ::
  "parsed_document \<Rightarrow> url \<Rightarrow> diagnostic list \<Rightarrow> snippet_store \<Rightarrow> (code_action list \<times> snippet_store) option" where
  "remove_conflicting_constraint_actions doc uri ds snippets =
     filter_map_panic (remove_conflicting_constraint_action doc uri)
       (filter (\<lambda>d. is_constraint_shape d \<and> diagnostic_quickfix d = Some ''remove-conflicting-constraints'') ds)
       snippets"

subsection \<open>Order\<close>

definition move_segment :: "nat \<Rightarrow> nat \<Rightarrow> 'a list \<Rightarrow> 'a list" where
  "move_segment required_idx before_idx xs =
     (let rest = take required_idx xs @ drop (required_idx + 1) xs in
      take before_idx rest @ xs ! required_idx # drop before_idx rest)"

definition reordered_segments ::
  "string \<Rightarrow> account_attribute_text \<Rightarrow> position \<Rightarrow> string \<Rightarrow> string \<Rightarrow> constraint_segment list option" where
  "reordered_segments source attribute p required before =
     (let segments = split_constraint_segments (aa_inner attribute) in
      if length segments < 2 then None
      else
        Option.bind (index_of (\<lambda>segment. constraint_phrase_matches (cs_key segment) required) segments) (\<lambda>required_idx.
        Option.bind
          (or_else (index_of (\<lambda>segment. constraint_phrase_matches (cs_key segment) before) segments)
            (Option.bind (byte_offset_at source p) (\<lambda>diagnostic_start.
               index_of (\<lambda>segment. aa_inner_start attribute + cs_start segment \<le> diagnostic_start \<and>
                          diagnostic_start \<le> aa_inner_start attribute + cs_end segment) segments)))
          (\<lambda>before_idx.
             if required_idx \<le> before_idx then None else Some (move_segment required_idx before_idx segments))))"

definition reorder_constraint_edit ::
  "parsed_document \<Rightarrow> diagnostic \<Rightarrow> string \<Rightarrow> string \<Rightarrow> snippet_store \<Rightarrow> (text_edit option \<times> snippet_store) option" where
  "reorder_constraint_edit doc d required before snippets =
     map_option (\<lambda>attribute.
         case Option.bind attribute (\<lambda>attribute.
             map_option (Pair attribute)
               (reordered_segments (pd_source doc) attribute (range_start (d_range d)) required before)) of
           None \<Rightarrow> (None, snippets)
         | Some (attribute, segments) \<Rightarrow> rewrite_attribute (pd_source doc) attribute segments snippets)
       (account_attribute_at_position (pd_source doc) (range_start (d_range d)))"

definition parser_rule_message :: "diagnostic \<Rightarrow> string option" where
  "parser_rule_message d =
     Option.bind (Option.bind (d_data d) (json_get ''parserRule'')) (\<lambda>rule.
     Option.bind (json_get ''message'' rule) as_str)"

definition reorder_constraint_action ::
  "parsed_document \<Rightarrow> url \<Rightarrow> diagnostic \<Rightarrow> snippet_store \<Rightarrow> (code_action option \<times> snippet_store) option" where
  "reorder_constraint_action doc uri d snippets =
     (case Option.bind (parser_rule_message d) ordering_rule_parts of
        None \<Rightarrow> Some (None, snippets)
      | Some (required, before) \<Rightarrow>
          map_option (\<lambda>(edit, snippets).
              (map_option (\<lambda>edit.
                 quickfix_action (''Move Anchor `'' @ required @ ''` before `'' @ before @ ''`'') d uri edit True
                   [(''anchorAction'', JString ''reorder-anchor-constraint''), (''required'', JString required),
                    (''constraint'', JString (unwrap_or before (data_str ''constraint'' (d_data d)))),
                    (''before'', JString before)]) edit,
               snippets))
            (reorder_constraint_edit doc d required before snippets))"

definition reorder_constraint_actions ::
  "parsed_document \<Rightarrow> url \<Rightarrow> diagnostic list \<Rightarrow> snippet_store \<Rightarrow> (code_action list \<times> snippet_store) option" where
  "reorder_constraint_actions doc uri ds snippets =
     filter_map_panic (reorder_constraint_action doc uri)
       (filter (\<lambda>d. is_constraint_shape d \<and> parser_rule_kind d = Some ''ordering'') ds) snippets"

subsection \<open>Missing constraints\<close>

definition accounts_for_field :: "parsed_document \<Rightarrow> symbol_range \<Rightarrow> symbol_range option" where
  "accounts_for_field doc field =
     find (\<lambda>accounts. list_ex (\<lambda>candidate. sr_name candidate = sr_name field \<and> sr_range candidate = sr_range field)
                        (sr_fields accounts))
       (map snd (accounts_structs (pd_symbols doc)))"

definition signer_candidate_for_field :: "parsed_document \<Rightarrow> symbol_range \<Rightarrow> string option" where
  "signer_candidate_for_field doc field =
     Option.bind (accounts_for_field doc field) (\<lambda>accounts. signer_candidate (sr_fields accounts))"

definition instruction_argument_candidate :: "parsed_document \<Rightarrow> symbol_range \<Rightarrow> string \<Rightarrow> string option" where
  "instruction_argument_candidate doc field preferred_type =
     Option.bind (accounts_for_field doc field) (\<lambda>accounts.
       map_option ia_name
         (find (\<lambda>argument. ia_type_name argument = Some preferred_type)
           (concat (map is_arguments
             (filter (\<lambda>instruction. case is_context instruction of
                        None \<Rightarrow> False | Some context \<Rightarrow> cr_name context = sr_name accounts)
               (instructions (pd_symbols doc)))))))"

definition is_mint_account :: "symbol_range \<Rightarrow> symbol_range \<Rightarrow> bool option" where
  "is_mint_account accounts field =
     (if sr_type_name field \<in> {Some ''Account'', Some ''InterfaceAccount''}
      then field_has_inner_type accounts field ''Mint'' else Some False)"

fun find_panic :: "('a \<Rightarrow> bool option) \<Rightarrow> 'a list \<Rightarrow> 'a option option" where
  "find_panic p [] = Some None"
| "find_panic p (x # xs) = Option.bind (p x) (\<lambda>b. if b then Some (Some x) else find_panic p xs)"

definition account_candidate_for_field ::
  "parsed_document \<Rightarrow> symbol_range \<Rightarrow> (symbol_range \<Rightarrow> symbol_range \<Rightarrow> bool option) \<Rightarrow> string option option" where
  "account_candidate_for_field doc field predicate =
     (case accounts_for_field doc field of
        None \<Rightarrow> Some None
      | Some accounts \<Rightarrow>
          map_option (map_option sr_name)
            (find_panic (predicate accounts)
              (filter (\<lambda>candidate. sr_name candidate \<noteq> sr_name field) (sr_fields accounts))))"

definition assigned_text :: "string \<Rightarrow> string option \<Rightarrow> string option" where
  "assigned_text key = map_option (\<lambda>val. key @ '' = '' @ val)"

definition missing_constraint_text :: "parsed_document \<Rightarrow> symbol_range \<Rightarrow> string \<Rightarrow> string option option" where
  "missing_constraint_text doc field missing =
     (if missing = ''mut'' then Some (Some ''mut'')
      else if missing = ''dup'' then Some (Some ''dup'')
      else if missing = ''signer'' then Some (Some ''signer'')
      else if missing = ''executable'' then Some (Some ''executable'')
      else if missing = ''seeds'' then Some (Some (''seeds = [b'' @ [QUOTE] @ ''seed'' @ [QUOTE] @ '']''))
      else if missing = ''realloc::payer'' then
        Some (assigned_text ''realloc::payer'' (signer_candidate_for_field doc field))
      else if missing = ''realloc::zero'' then Some (Some ''realloc::zero = false'')
      else if missing = ''mint::decimals'' then
        Some (or_else (assigned_text ''mint::decimals'' (instruction_argument_candidate doc field ''u8''))
          (Some ''mint::decimals = 0''))
      else if missing = ''mint::authority'' then
        Some (assigned_text ''mint::authority'' (signer_candidate_for_field doc field))
      else if missing = ''token::mint'' then
        map_option (assigned_text ''token::mint'') (account_candidate_for_field doc field is_mint_account)
      else if missing = ''token::authority'' then
        Some (assigned_text ''token::authority'' (signer_candidate_for_field doc field))
      else if missing = ''associated_token::mint'' then
        map_option (assigned_text ''associated_token::mint'') (account_candidate_for_field doc field is_mint_account)
      else if missing = ''associated_token::authority'' then
        Some (assigned_text ''associated_token::authority'' (signer_candidate_for_field doc field))
      else Some None)"

definition may_miss_constraint :: "diagnostic \<Rightarrow> bool" where
  "may_miss_constraint d \<longleftrightarrow>
     seagrass_code d \<in> Some ` {''anchor-constraint-shape'', ''anchor-security-signer'',
       ''anchor-security-cpi-program'', ''anchor-security-unchecked-account''}"

definition add_missing_constraint_action ::
  "parsed_document \<Rightarrow> url \<Rightarrow> diagnostic \<Rightarrow> snippet_store \<Rightarrow> (code_action option \<times> snippet_store) option" where
  "add_missing_constraint_action doc uri d snippets =
     (case (data_str ''missing'' (d_data d), data_str ''account'' (d_data d)) of
        (Some missing, Some account) \<Rightarrow>
          (case find (\<lambda>field. sr_name field = account) (document_fields doc) of
             None \<Rightarrow> Some (None, snippets)
           | Some field \<Rightarrow>
               map_option (\<lambda>addition.
                   case addition of
                     None \<Rightarrow> (None, snippets)
                   | Some addition \<Rightarrow>
                       let (edit, snippets) = add_constraint_to_field_edit doc field addition snippets in
                       (map_option (\<lambda>edit.
                          quickfix_action (''Add `'' @ addition @ ''` to `'' @ account @ ''`'') d uri edit True
                            [(''anchorAction'', JString ''add-missing-constraint''), (''account'', JString account),
                             (''constraint'', JString missing), (''insertText'', JString addition)]) edit,
                        snippets))
                 (missing_constraint_text doc field missing))
      | _ \<Rightarrow> Some (None, snippets))"

definition add_missing_constraint_actions ::
  "parsed_document \<Rightarrow> url \<Rightarrow> diagnostic list \<Rightarrow> snippet_store \<Rightarrow> (code_action list \<times> snippet_store) option" where
  "add_missing_constraint_actions doc uri ds snippets =
     filter_map_panic (add_missing_constraint_action doc uri) (filter may_miss_constraint ds) snippets"

definition constraint_code_actions ::
  "parsed_document \<Rightarrow> url \<Rightarrow> diagnostic list \<Rightarrow> snippet_store \<Rightarrow> (code_action list \<times> snippet_store) option" where
  "constraint_code_actions doc uri ds snippets =
     (let (duplicates, snippets) = remove_duplicate_constraint_actions doc uri ds snippets in
      Option.bind (remove_conflicting_constraint_actions doc uri ds snippets) (\<lambda>(conflicting, snippets).
      Option.bind (reorder_constraint_actions doc uri ds snippets) (\<lambda>(reordered, snippets).
      Option.bind (add_missing_constraint_actions doc uri ds snippets) (\<lambda>(missing, snippets).
        Some (duplicates @ conflicting @ reordered @ missing, snippets)))))"

subsection \<open>Where an attribute stands\<close>

lemma close_paren_loop_Some:
  "close_paren_loop nesting quote esc i s = Some j \<Longrightarrow> \<exists>k < length s. j = i + k \<and> s ! k = CHR '')''"
proof (induction nesting quote esc i s rule: close_paren_loop.induct)
  case (2 nesting q esc i c s)
  have "\<exists>k < length s. j = (i + 1) + k \<and> s ! k = CHR '')''" using 2 by (auto split: if_splits)
  then show ?case by (metis Suc_eq_plus1 add.assoc add.commute length_Cons not_less_eq nth_Cons_Suc)
next
  case (3 nesting esc i c s)
  show ?case
  proof (cases "c = CHR '')'' \<and> nesting \<noteq> 0 \<and> nesting - 1 = 0")
    case True
    with 3 show ?thesis by (intro exI [of _ 0]) auto
  next
    case False
    with 3 have "\<exists>k < length s. j = (i + 1) + k \<and> s ! k = CHR '')''" by (auto split: if_splits)
    then show ?thesis by (metis Suc_eq_plus1 add.assoc add.commute length_Cons not_less_eq nth_Cons_Suc)
  qed
qed simp

lemma attribute_split:
  assumes "account_attribute_at_position source p = Some (Some attribute)"
  obtains pre post where "source = (pre @ [CHR ''('']) @ aa_inner attribute @ (CHR '')'' # post)"
    "aa_inner_start attribute = length (pre @ [CHR ''(''])"
    "aa_inner_end attribute = length (pre @ [CHR ''('']) + length (aa_inner attribute)"
proof -
  from assms obtain attr_start relative close where
      relative: "str_find ''('' (drop attr_start source) = Some relative"
    and close: "matching_close_paren source (attr_start + relative) = Some close"
    and attribute: "attribute = \<lparr>aa_inner = drop (attr_start + relative + 1) (take close source),
        aa_inner_start = attr_start + relative + 1, aa_inner_end = close\<rparr>"
    by (auto simp: account_attribute_at_position_def Let_def bind_eq_Some_conv split: option.splits if_splits)
  let ?o = "attr_start + relative"
  from str_find_Some_prefix [OF relative] have "prefix ''('' (drop ?o source)" by (simp add: add.commute)
  then obtain rest where rest: "drop ?o source = CHR ''('' # rest" by (auto simp: prefix_def)
  from close_paren_loop_Some [OF close [unfolded matching_close_paren_def]] rest obtain k where
      k: "k < length (CHR ''('' # rest)" "close = ?o + k" "(CHR ''('' # rest) ! k = CHR '')''" by metis
  then obtain n where n: "k = Suc n" "n < length rest" "rest ! n = CHR '')''" by (cases k) auto
  have len: "length (take ?o source) = ?o"
    using rest by (metis drop_all le_cases length_take list.distinct(1) min.absorb2)
  then obtain pre where pre: "source = pre @ CHR ''('' # rest" "length pre = ?o"
    using rest by (metis append_take_drop_id)
  have "rest = take n rest @ CHR '')'' # drop (Suc n) rest" using n by (metis id_take_nth_drop)
  then obtain inner post where inner: "rest = inner @ CHR '')'' # post" "length inner = n"
    using n(2) by (metis length_take less_imp_le min.absorb2)
  have "aa_inner attribute = inner" using pre inner by (simp add: attribute k(2) n(1))
  with pre inner show ?thesis
    by (intro that [of pre post]) (simp_all add: attribute k(2) n(1))
qed

lemma edit_position_eq:
  assumes "position_at_byte_offset s k = Some p" "length s < 2 ^ 32"
  shows "edit_position_at_byte_offset s k = Some p"
proof -
  obtain line start where loop: "position_loop (utf8_chars s) 0 (min k (length s)) 0 0 = (line, start)" by fastforce
  have "char_count (drop start (take k s)) \<le> length (drop start (take k s))" by (rule char_count_le)
  also have "\<dots> \<le> length s" by simp
  finally have "char_count (drop start (take k s)) < 2 ^ 32" using assms(2) by simp
  with assms(1) loop show ?thesis
    by (auto simp: position_at_byte_offset_def edit_position_at_byte_offset_def Let_def drop_take u32_or_default_def
        u32_try_from_def min_def split: if_splits)
qed

lemma materialize_plain: "CHR ''$'' \<notin> set s \<Longrightarrow> materialize_snippet_template s = s"
proof (induction s)
  case (Cons c s)
  then have "\<not> prefix ''$'' s" "c \<noteq> CHR ''$''" by (auto simp: prefix_def)
  with Cons show ?case by simp
qed simp

text \<open>The edit replaces exactly the text between the parentheses of the attribute.\<close>

lemma rewrite_attribute_exact:
  assumes "utf8 source" "length source < 2 ^ 32"
    and "account_attribute_at_position source p = Some (Some attribute)"
  obtains edit pre post where
    "rewrite_attribute source attribute segments snippets =
       (Some edit, snd (rewrite_attribute source attribute segments snippets))"
    "source = pre @ aa_inner attribute @ post"
    "te_new_text edit = materialize_snippet_template (reordered_constraint_inner (aa_inner attribute) segments)"
    "\<And>t. apply_content_change source \<lparr>change_range = Some (te_range edit), change_text = t\<rparr> = Inr (pre @ t @ post)"
proof -
  from attribute_split [OF assms(3)] obtain pre0 post0 where
      source: "source = (pre0 @ [CHR ''('']) @ aa_inner attribute @ (CHR '')'' # post0)"
    and at: "aa_inner_start attribute = length (pre0 @ [CHR ''(''])"
      "aa_inner_end attribute = length (pre0 @ [CHR ''('']) + length (aa_inner attribute)" by metis
  let ?pre = "pre0 @ [CHR ''('']" and ?inner = "aa_inner attribute" and ?post = "CHR '')'' # post0"
  have u: "utf8 (pre0 @ CHR ''('' # ?inner @ ?post)" using assms(1) source by simp
  have b1: "at_boundary (?inner @ ?post)" using utf8_after_ascii [OF u] by (simp add: byte_def)
  have b2: "at_boundary ?post" by (simp add: at_boundary_def is_continuation_def byte_def)
  have drops: "drop (length ?pre) source = ?inner @ ?post" "drop (length ?pre + length ?inner) source = ?post"
    "take (length ?pre) source = ?pre"
    by (simp_all add: source)
  have le: "length ?pre \<le> length source" "length ?pre + length ?inner \<le> length source"
    by (simp_all add: source)
  obtain first where first: "position_at_byte_offset source (length ?pre) = Some first"
      "byte_offset_at source first = Some (length ?pre)"
    using position_offset_inverse [OF assms(1) le(1) _ assms(2)] b1 drops by metis
  obtain last where last: "position_at_byte_offset source (length ?pre + length ?inner) = Some last"
      "byte_offset_at source last = Some (length ?pre + length ?inner)"
    using position_offset_inverse [OF assms(1) le(2) _ assms(2)] b2 drops by metis
  let ?new = "reordered_constraint_inner ?inner segments"
  let ?edit = "\<lparr>te_range = \<lparr>range_start = first, range_end = last\<rparr>, te_new_text = materialize_snippet_template ?new\<rparr>"
  show ?thesis
  proof (rule that)
    show "rewrite_attribute source attribute segments snippets =
        (Some ?edit, snd (rewrite_attribute source attribute segments snippets))"
      using edit_position_eq [OF first(1) assms(2)] edit_position_eq [OF last(1) assms(2)]
      by (simp add: rewrite_attribute_def at snippet_text_edit_def Let_def)
    show "source = ?pre @ ?inner @ ?post" by (rule source)
    show "te_new_text ?edit = materialize_snippet_template ?new" by simp
    show "apply_content_change source \<lparr>change_range = Some (te_range ?edit), change_text = t\<rparr> =
        Inr (?pre @ t @ ?post)" for t
      using first(2) last(2) byte_offset_at_split [OF assms(1) first(2)] byte_offset_at_split [OF assms(1) last(2)] drops
      by (simp add: apply_content_change_def replace_range_def)
  qed
qed

subsection \<open>What removing and moving leave\<close>

lemma join_chars: "set (join sep xs) \<subseteq> set sep \<union> \<Union> (set ` set xs)"
  by (induction sep xs rule: join.induct) auto

lemma segment_texts_chars: "t \<in> set (segment_texts s) \<Longrightarrow> set t \<subseteq> set s"
proof -
  have pieces: "p \<in> set (pieces st s) \<Longrightarrow> set p \<subseteq> set s" for p st s
  proof (induction s arbitrary: st p)
    case (Cons c s)
    show ?case
    proof (cases "separates CHR '','' st c")
      case True
      with Cons show ?thesis by fastforce
    next
      case False
      let ?ps = "pieces (segment_step c st) s"
      have "set (hd ?ps) \<subseteq> set s" by (rule Cons.IH) (rule hd_in_set, simp)
      moreover have "set q \<subseteq> set s" if "q \<in> set (tl ?ps)" for q
        using that by (intro Cons.IH) (rule list.set_sel(2), simp_all)
      ultimately show ?thesis using False Cons.prems by (auto simp: Let_def)
    qed
  qed simp
  assume "t \<in> set (segment_texts s)"
  then obtain p where p: "p \<in> set (pieces segment_scan_init s)" "t = trim p"
    by (auto simp: segment_texts_def texts_of_def)
  obtain v w where "p = v @ trim p @ w" using trim_split by blast
  then have "set (trim p) \<subseteq> set p" by (metis Un_subset_iff order_refl set_append)
  with pieces [OF p(1)] p(2) show "set t \<subseteq> set s" by blast
qed

lemma blank_no_dollar: "blank_text w \<Longrightarrow> CHR ''$'' \<notin> set w"
  using blank_plain [of w] plain_char_not [of "CHR ''$''"] by (auto simp: list_all_iff)

lemma reordered_no_dollar:
  assumes "set segments \<subseteq> set (split_constraint_segments inner)" "CHR ''$'' \<notin> set inner"
  shows "CHR ''$'' \<notin> set (reordered_constraint_inner inner segments)"
proof -
  obtain v w e where shape: "blank_text v" "blank_text w" "end_text e"
      "reordered_constraint_inner inner segments = v @ join (CHR '','' # w) (map cs_text segments) @ e"
    using reordered_shape by metis
  have "set (map cs_text segments) \<subseteq> set (segment_texts inner)"
    using assms(1) by (auto simp flip: map_cs_text_split)
  then have "CHR ''$'' \<notin> set t" if "t \<in> set (map cs_text segments)" for t
    using that assms(2) segment_texts_chars [of t inner] by blast
  then have "CHR ''$'' \<notin> set (join (CHR '','' # w) (map cs_text segments))"
    using join_chars [of "CHR '','' # w" "map cs_text segments"] blank_no_dollar [OF shape(2)] by auto
  then show ?thesis
    using blank_no_dollar [OF shape(1)] shape(3) by (auto simp: shape(4) end_text_def NEWLINE_def)
qed

lemma rewritten_segments:
  assumes "utf8 source" "length source < 2 ^ 32" "account_attribute_at_position source p = Some (Some attribute)"
    and "closed_text (aa_inner attribute)" "CHR ''$'' \<notin> set (aa_inner attribute)"
    and "set segments \<subseteq> set (split_constraint_segments (aa_inner attribute))"
    and "rewrite_attribute source attribute segments snippets = (edit, snippets')"
  shows "\<exists>e pre post. edit = Some e \<and> source = pre @ aa_inner attribute @ post \<and>
    apply_content_change source \<lparr>change_range = Some (te_range e), change_text = te_new_text e\<rparr> =
      Inr (pre @ te_new_text e @ post) \<and>
    segment_texts (te_new_text e) = map cs_text segments"
proof -
  from rewrite_attribute_exact [OF assms(1-3)] obtain e pre post where e:
      "rewrite_attribute source attribute segments snippets =
        (Some e, snd (rewrite_attribute source attribute segments snippets))"
      "source = pre @ aa_inner attribute @ post"
      "te_new_text e = materialize_snippet_template (reordered_constraint_inner (aa_inner attribute) segments)"
      "\<And>t. apply_content_change source \<lparr>change_range = Some (te_range e), change_text = t\<rparr> = Inr (pre @ t @ post)"
    by metis
  have "te_new_text e = reordered_constraint_inner (aa_inner attribute) segments"
    using e(3) materialize_plain [OF reordered_no_dollar [OF assms(6,5)]] by simp
  then have "segment_texts (te_new_text e) = map cs_text segments"
    using reordered_segment_texts(1) [OF assms(4,6)] by (simp flip: map_cs_text_split)
  moreover have "edit = Some e" using e(1) assms(7) by simp
  ultimately show ?thesis using e(2,4) by blast
qed

lemma set_move_segment: "i < length xs \<Longrightarrow> set (move_segment i j xs) = set xs"
proof -
  assume "i < length xs"
  let ?rest = "take i xs @ drop (i + 1) xs"
  have "set xs = insert (xs ! i) (set ?rest)"
    using arg_cong [OF id_take_nth_drop [OF \<open>i < length xs\<close>], of set] by simp
  moreover have "set (move_segment i j xs) = insert (xs ! i) (set (take j ?rest @ drop j ?rest))"
    by (simp add: move_segment_def Let_def del: append_take_drop_id take_append drop_append)
  ultimately show ?thesis by (simp only: append_take_drop_id)
qed

lemma map_move_segment: "i < length xs \<Longrightarrow> map f (move_segment i j xs) = move_segment i j (map f xs)"
  by (simp add: move_segment_def Let_def take_map drop_map)


text \<open>Removing constraints that conflict leaves exactly the others, in their order.\<close>

theorem remove_edit_exact:
  assumes "utf8 (pd_source doc)" "length (pd_source doc) < 2 ^ 32"
    and "account_attribute_at_position (pd_source doc) p = Some (Some attribute)"
    and "closed_text (aa_inner attribute)" "CHR ''$'' \<notin> set (aa_inner attribute)"
    and "remove_constraint_keys_edit doc p remove snippets = Some (edit, snippets')"
  shows "\<exists>e pre post. edit = Some e \<and> pd_source doc = pre @ aa_inner attribute @ post \<and>
    apply_content_change (pd_source doc) \<lparr>change_range = Some (te_range e), change_text = te_new_text e\<rparr> =
      Inr (pre @ te_new_text e @ post) \<and>
    segment_texts (te_new_text e) =
      filter (\<lambda>t. \<not> list_ex (constraint_phrase_matches (segment_key t)) remove) (segment_texts (aa_inner attribute))"
proof -
  let ?segs = "split_constraint_segments (aa_inner attribute)"
  have "map cs_text (kept_segments (aa_inner attribute) remove) =
      filter (\<lambda>t. \<not> list_ex (constraint_phrase_matches (segment_key t)) remove) (map cs_text ?segs)"
    unfolding kept_segments_def filter_map comp_def
    by (intro arg_cong [where f = "map cs_text"] filter_cong refl) (simp add: split_segment_keys)
  moreover have "set (kept_segments (aa_inner attribute) remove) \<subseteq> set ?segs" by (auto simp: kept_segments_def)
  moreover have "rewrite_attribute (pd_source doc) attribute (kept_segments (aa_inner attribute) remove) snippets =
      (edit, snippets')"
    using assms(3,6) by (simp add: remove_constraint_keys_edit_def)
  ultimately show ?thesis
    using rewritten_segments [OF assms(1-5), of "kept_segments (aa_inner attribute) remove" snippets edit snippets']
    by (simp add: map_cs_text_split)
qed

subsection \<open>Examples\<close>

definition unordered_source :: string where
  "unordered_source = ''#[account(payer = a, init)]''"

definition unordered_diagnostic :: diagnostic where
  "unordered_diagnostic =
     \<lparr>d_range = point_range 0 10, d_severity = None, d_code = None, d_code_description = None, d_source = None,
      d_message = [], d_related = None, d_tags = None, d_data = None\<rparr>"

definition unordered_attribute :: account_attribute_text where
  "unordered_attribute = \<lparr>aa_inner = ''payer = a, init'', aa_inner_start = 10, aa_inner_end = 25\<rparr>"

lemma unordered_offset: "byte_offset_at unordered_source (range_start (point_range 0 10)) = Some 10"
  by (simp add: point_range_def byte_offset_at_def offset_at_eq Let_def) code_simp

lemma unordered_attribute_found:
  "account_attribute_at_position unordered_source (range_start (point_range 0 10)) = Some (Some unordered_attribute)"
proof -
  have start: "str_rfind ''#[account'' ''#[account(payer = a'' = Some 0"
    and open_at: "str_find ''('' ''#[account(payer = a, init)]'' = Some 9"
    and closing: "matching_close_paren ''#[account(payer = a, init)]'' 9 = Some 25" by code_simp+
  show ?thesis
    unfolding account_attribute_at_position_def unordered_offset
    by (simp add: unordered_source_def is_char_boundary_def is_continuation_def byte_def start open_at closing
        unordered_attribute_def Let_def del: str_find.simps str_rfind.simps)
qed

lemma segment_key_word:
  "list_all word_char s \<Longrightarrow> s \<noteq> [] \<Longrightarrow> segment_parts s CHR ''@'' = [s] \<Longrightarrow> segment_parts s CHR ''='' = [s] \<Longrightarrow>
     segment_key s = s"
  by (simp add: segment_key_def Let_def trim_word split_whitespace_word)

lemma trim_examples: "trim ''payer = a'' = ''payer = a''" "trim '' init'' = ''init''" "trim_start '' init'' = ''init''"
  "trim_start ''payer = a'' = ''payer = a''" "trim ''payer '' = ''payer''"
proof -
  have "solid ''payer = a''" by (simp add: solid_def visible_def byte_def)
  then show "trim ''payer = a'' = ''payer = a''" by (rule trim_solid)
  have word: "list_all word_char ''init''" "list_all word_char ''payer''" by code_simp+
  then show init: "trim_start '' init'' = ''init''" by (simp add: trim_start_space trim_start_word)
  have "trim '' init'' = trim ''init''" using trim_blank_front [OF blank_space, of "''init''"] by simp
  then show "trim '' init'' = ''init''" using trim_word [OF word(1)] by simp
  have "visible CHR ''p''" by (simp add: visible_def byte_def)
  then show "trim_start ''payer = a'' = ''payer = a''" by (simp add: trim_start_id visible_not_ws_front)
  have "trim_start ''payer '' = ''payer ''"
    using \<open>visible CHR ''p''\<close> by (simp add: trim_start_id visible_not_ws_front)
  then show "trim ''payer '' = ''payer''"
    using trim_word [OF word(2)] trim_start_word [OF word(2)] trim_end_space [of "''payer''"] by (simp add: trim_def)
qed

lemma unordered_segments:
  "split_constraint_segments ''payer = a, init'' =
     [\<lparr>cs_text = ''payer = a'', cs_key = ''payer'', cs_start = 0, cs_end = 9\<rparr>,
      \<lparr>cs_text = ''init'', cs_key = ''init'', cs_start = 11, cs_end = 15\<rparr>]"
proof -
  have parts: "segment_parts ''payer = a'' CHR ''@'' = [''payer = a'']"
    "segment_parts ''payer = a'' CHR ''='' = [''payer '', '' a'']" by code_simp+
  have word: "list_all word_char ''payer''" by code_simp
  have payer: "segment_key ''payer = a'' = ''payer''"
    by (simp add: segment_key_def Let_def trim_examples parts split_whitespace_word [OF word])
  have init: "segment_key ''init'' = ''init''" by (rule segment_key_word) code_simp+
  show ?thesis
    by (simp add: split_constraint_segments_def push_constraint_segment_def Let_def trim_examples payer init
        separates_def segment_step_def segment_scan_init_def numeral_eq_Suc)
qed

lemma normalized_word:
  "list_all word_char s \<Longrightarrow> s \<noteq> [] \<Longrightarrow> s \<noteq> ''account'' \<Longrightarrow> str_replace ''_'' '' '' (str_replace ''::'' '' '' s) = s \<Longrightarrow>
     normalized_phrase s = to_ascii_lowercase s"
  by (simp add: normalized_phrase_def split_whitespace_word)

lemma unordered_edit:
  "reorder_constraint_edit (source_document unordered_source) unordered_diagnostic ''init'' ''payer'' [] =
     Some (Some \<lparr>te_range = \<lparr>range_start = \<lparr>pos_line = 0, pos_character = 10\<rparr>,
                             range_end = \<lparr>pos_line = 0, pos_character = 25\<rparr>\<rparr>,
                te_new_text = ''init, payer = a''\<rparr>, [])"
proof -
  have payer: "normalized_phrase ''payer'' = to_ascii_lowercase ''payer''"
    by (rule normalized_word) code_simp+
  have init: "normalized_phrase ''init'' = to_ascii_lowercase ''init''"
    by (rule normalized_word) code_simp+
  have "to_ascii_lowercase ''payer'' \<noteq> to_ascii_lowercase ''init''" by code_simp
  then have segments: "reordered_segments unordered_source unordered_attribute p ''init'' ''payer'' =
      Some [\<lparr>cs_text = ''init'', cs_key = ''init'', cs_start = 11, cs_end = 15\<rparr>,
            \<lparr>cs_text = ''payer = a'', cs_key = ''payer'', cs_start = 0, cs_end = 9\<rparr>]" for p
    by (simp add: reordered_segments_def unordered_attribute_def unordered_segments constraint_phrase_matches_def
        payer init or_else_def move_segment_def)
  have "solid ''payer = a, init''" by (simp add: solid_def visible_def byte_def)
  then have "trim_end ''payer = a, init'' = ''payer = a, init''"
    by (simp add: trim_end_id solid_def visible_not_ws_back)
  then have inner: "reordered_constraint_inner ''payer = a, init''
      [\<lparr>cs_text = ''init'', cs_key = ''init'', cs_start = 11, cs_end = 15\<rparr>,
       \<lparr>cs_text = ''payer = a'', cs_key = ''payer'', cs_start = 0, cs_end = 9\<rparr>] = ''init, payer = a''"
    by (simp add: reordered_constraint_inner_def trailing_comma_def NEWLINE_def suffix_def)
  have positions: "edit_position_at_byte_offset unordered_source 10 = Some \<lparr>pos_line = 0, pos_character = 10\<rparr>"
    "edit_position_at_byte_offset unordered_source 25 = Some \<lparr>pos_line = 0, pos_character = 25\<rparr>"
    by (simp_all add: edit_position_at_byte_offset_def unordered_source_def is_char_boundary_def is_continuation_def
        byte_def NEWLINE_def char_count_def u32_try_from_def)
  have plain: "materialize_snippet_template ''init, payer = a'' = ''init, payer = a''" by code_simp
  show ?thesis
    by (simp add: reorder_constraint_edit_def source_document_def unordered_diagnostic_def unordered_attribute_found
        segments [unfolded unordered_attribute_def] rewrite_attribute_def positions inner snippet_text_edit_def plain remember_snippet_template_def
        unordered_attribute_def)
qed


text \<open>
  The search for the attribute slices the text nine bytes behind the position, without looking at
  characters: an accented letter there is a panic.
\<close>

lemma attribute_search_panics:
  "account_attribute_at_position (''#[account(mut)]// '' @ [CHR 0xC3, CHR 0xA9]) \<lparr>pos_line = 0, pos_character = 10\<rparr> = None"
proof -
  have "byte_offset_at (''#[account(mut)]// '' @ [CHR 0xC3, CHR 0xA9]) \<lparr>pos_line = 0, pos_character = 10\<rparr> = Some 10"
    by (simp add: byte_offset_at_def offset_at_eq Let_def byte_offset_for_character_def char_offset_def char_count_def
        is_continuation_def byte_def NEWLINE_def strip_newline_def strip_suffix_def suffix_def or_else_def unwrap_or_def)
  then show ?thesis
    by (simp add: account_attribute_at_position_def is_char_boundary_def is_continuation_def byte_def)
qed

text \<open>The text that is put back is taken for a template: a dollar sign in a literal loses its digits.\<close>

lemma rewritten_dollar_lost:
  "materialize_snippet_template (''mut, seeds = [b'' @ [QUOTE] @ ''$1'' @ [QUOTE] @ '']'') =
     ''mut, seeds = [b'' @ [QUOTE, QUOTE] @ '']''"
  by code_simp

text \<open>A comment behind the last constraint moves with it, and the comma is written behind the comment.\<close>

lemma comment_swallows_comma:
  "reordered_constraint_inner (NEWLINE # ''init,'' @ NEWLINE # ''payer = a // fee'' @ [NEWLINE])
     [\<lparr>cs_text = ''payer = a // fee'', cs_key = ''payer'', cs_start = 7, cs_end = 23\<rparr>,
      \<lparr>cs_text = ''init'', cs_key = ''init'', cs_start = 1, cs_end = 5\<rparr>] =
   NEWLINE # ''payer = a // fee,'' @ NEWLINE # ''init'' @ [NEWLINE]"
  by code_simp

end
