(* ===== verification/Init_Actions.thy ===== *)
theory Init_Actions
  imports Code_Actions Constraint_Segments Account_Space Account_Semantics Workspace_Queries
begin

section \<open>Actions on \<open>init\<close> constraints and \<open>InitSpace\<close>\<close>

text \<open>
  \<open>src/lsp/actions/init_constraints.rs\<close>: the action that completes an \<open>init\<close> constraint with a
  payer and a space, and the one that derives \<open>InitSpace\<close> for the type whose space is used.  The
  searches are the loop \<open>first_occurrence\<close> of theory \<open>Constraint_Text\<close>.  Parsing a type is the work
  of the syn crate: a parameter.
\<close>

subsection \<open>Searches in the text of a constraint\<close>

definition constraint_key_boundary :: "string \<Rightarrow> nat \<Rightarrow> nat \<Rightarrow> bool" where
  "constraint_key_boundary text idx key_len \<longleftrightarrow>
     (idx = 0 \<or> \<not> word_char (text ! (idx - 1))) \<and>
     (idx + key_len \<ge> length text \<or> \<not> word_char (text ! (idx + key_len)))"

definition constraint_has_assignment :: "string \<Rightarrow> string \<Rightarrow> bool" where
  "constraint_has_assignment text key \<longleftrightarrow>
     first_occurrence (\<lambda>idx. constraint_key_boundary text idx (length key) \<and>
       prefix ''='' (trim_start (drop (idx + length key) text))) text key 0 \<noteq> None"

definition constraint_has_flag :: "string \<Rightarrow> string \<Rightarrow> bool" where
  "constraint_has_flag text key \<longleftrightarrow>
     first_occurrence (\<lambda>idx. constraint_key_boundary text idx (length key) \<and>
       (let after_key = trim_start (drop (idx + length key) text) in
        after_key = [] \<or> prefix '','' after_key \<or> prefix '')'' after_key)) text key 0 \<noteq> None"

definition constraint_has_flag_or_assignment :: "string \<Rightarrow> string \<Rightarrow> bool" where
  "constraint_has_flag_or_assignment text key \<longleftrightarrow> constraint_has_flag text key \<or> constraint_has_assignment text key"

text \<open>The first field with an attribute that covers the line, and the text of that attribute.\<close>

definition account_field_constraint_on_line :: "parsed_document \<Rightarrow> u32 \<Rightarrow> (symbol_range \<times> string) option" where
  "account_field_constraint_on_line doc line_number =
     find_map (\<lambda>field.
         map_option (\<lambda>constraint. (field, ac_text constraint))
           (find (\<lambda>constraint. pos_line (range_start (ac_range constraint)) \<le> line_number \<and>
                    line_number \<le> pos_line (range_end (ac_range constraint)))
             (sr_account_constraints field)))
       (document_fields doc)"

subsection \<open>The placeholders of \<open>init\<close>\<close>

record init_fix =
  iqf_account_type :: string
  iqf_needs_payer :: bool
  iqf_needs_space :: bool

text \<open>The two constructors differ in the type they name.\<close>

definition init_quick_fix :: "string \<Rightarrow> string \<Rightarrow> init_fix option" where
  "init_quick_fix account_type text =
     (if \<not> constraint_has_flag_or_assignment text ''init'' \<and>
         \<not> constraint_has_flag_or_assignment text ''init_if_needed'' then None
      else
        let needs_payer = \<not> constraint_has_assignment text ''payer'';
            needs_space = \<not> constraint_has_assignment text ''space'' in
        if \<not> needs_payer \<and> \<not> needs_space then None
        else Some \<lparr>iqf_account_type = account_type, iqf_needs_payer = needs_payer, iqf_needs_space = needs_space\<rparr>)"

definition from_constraint_text :: "symbol_range \<Rightarrow> string \<Rightarrow> init_fix option" where
  "from_constraint_text field text =
     init_quick_fix (unwrap_or ''AccountType'' (last_opt (sr_generic_type_names field))) text"

definition from_constraint_text_fallback :: "string \<Rightarrow> u32 \<Rightarrow> string \<Rightarrow> init_fix option" where
  "from_constraint_text_fallback source line_number line =
     init_quick_fix (unwrap_or ''AccountType'' (account_type_after_line source (unat line_number))) line"

definition from_attribute_line :: "string \<Rightarrow> u32 \<Rightarrow> string \<Rightarrow> init_fix option" where
  "from_attribute_line source line_number line =
     (if \<not> str_contains ''#[account('' line then None
      else from_constraint_text_fallback source line_number line)"

definition from_document_line :: "parsed_document \<Rightarrow> u32 \<Rightarrow> string \<Rightarrow> init_fix option" where
  "from_document_line doc line_number line =
     (case account_field_constraint_on_line doc line_number of
        Some (field, text) \<Rightarrow>
          or_else (from_constraint_text field text) (from_attribute_line (pd_source doc) line_number line)
      | None \<Rightarrow> from_attribute_line (pd_source doc) line_number line)"

definition init_additions :: "init_fix \<Rightarrow> string list" where
  "init_additions quickfix =
     (if iqf_needs_payer quickfix then [''payer = payer''] else []) @
     (if iqf_needs_space quickfix then [''space = 8 + '' @ iqf_account_type quickfix @ ''::INIT_SPACE''] else [])"

definition apply_to :: "init_fix \<Rightarrow> string \<Rightarrow> string option" where
  "apply_to quickfix line =
     map_option (\<lambda>insert_at.
         let before = trim_end (take insert_at line);
             needs_separator = \<not> suffix ''('' before \<and> \<not> suffix '','' before;
             separator = (if needs_separator then '', '' else []) in
         take insert_at line @ separator @ join '', '' (init_additions quickfix) @ drop insert_at line)
       (str_rfind '')]'' line)"

definition init_quickfix_diagnostics :: "diagnostic list \<Rightarrow> diagnostic list" where
  "init_quickfix_diagnostics ds =
     filter (\<lambda>d. d_source d = Some SOURCE \<and> string_code (d_code d) = Some ANCHOR_INIT_CONSTRAINTS_CODE \<and>
       data_str ''quickfix'' (d_data d) = Some ''init-placeholders'') ds"

subsection \<open>Deriving \<open>InitSpace\<close>\<close>

record space_target =
  ist_uri :: url
  ist_symbol :: symbol_range

definition init_space_target ::
  "parsed_document \<Rightarrow> url \<Rightarrow> workspace_index option \<Rightarrow> string \<Rightarrow> space_target option" where
  "init_space_target doc uri workspace account_type =
     or_else
       (map_option (\<lambda>s. \<lparr>ist_uri = uri, ist_symbol = s\<rparr>) (map_of (all_structs (pd_symbols doc)) account_type))
       (map_option (\<lambda>entry. \<lparr>ist_uri = wad_uri entry, ist_symbol = wad_symbol entry\<rparr>)
         (Option.bind workspace (\<lambda>ix. account_data_struct ix account_type)))"

definition init_space_type_from_constraint :: "string \<Rightarrow> string option" where
  "init_space_type_from_constraint text =
     (case values_after_key text ''space'' of
        [] \<Rightarrow> None
      | val # _ \<Rightarrow>
          let prefix_text = (case str_find ''::INIT_SPACE'' val of None \<Rightarrow> val | Some i \<Rightarrow> take i val) in
          find (\<lambda>part. part \<noteq> []) (rev (split_at (\<lambda>c. \<not> (is_ascii_alphanumeric c \<or> c = CHR ''_'')) prefix_text)))"

definition spaces :: "u32 \<Rightarrow> string" where
  "spaces n = replicate (unat n) CHR '' ''"

definition derive_init_space_edit ::
  "parsed_document \<Rightarrow> url \<Rightarrow> space_target \<Rightarrow> snippet_store \<Rightarrow> text_edit \<times> snippet_store" where
  "derive_init_space_edit doc current_uri target snippets =
     (let s = ist_symbol target in
      case sr_derive_attribute_range s of
        Some r \<Rightarrow>
          snippet_text_edit
            (point_range (pos_line (range_end r)) (word_saturating_sub (pos_character (range_end r)) 2))
            '', InitSpace'' snippets
      | None \<Rightarrow>
          let start = range_start (sr_range s);
              indent = (if ist_uri target = current_uri
                        then case line_at (pd_source doc) (unat (pos_line start)) of
                               Some line \<Rightarrow> line_indent line | None \<Rightarrow> spaces (pos_character start)
                        else spaces (pos_character start)) in
          snippet_text_edit (point_range (pos_line start) 0) (indent @ ''#[derive(InitSpace)]'' @ [NEWLINE]) snippets)"

fun type_needs_max_len :: "rust_type \<Rightarrow> bool" where
  "type_needs_max_len (TyPath name args) \<longleftrightarrow>
     name = ''String'' \<or> name = ''Vec'' \<or>
     (case args of None \<Rightarrow> False
      | Some args \<Rightarrow> list_ex (\<lambda>arg. case arg of GenericType inner \<Rightarrow> type_needs_max_len inner | GenericOther \<Rightarrow> False) args)"
| "type_needs_max_len (TyArray elem len len_text) \<longleftrightarrow> type_needs_max_len elem"
| "type_needs_max_len (TyTuple elems) \<longleftrightarrow> list_ex type_needs_max_len elems"
| "type_needs_max_len TyOther \<longleftrightarrow> False"

definition fields_needing_max_len :: "(string \<Rightarrow> rust_type option) \<Rightarrow> symbol_range \<Rightarrow> symbol_range list" where
  "fields_needing_max_len parse_type s =
     filter (\<lambda>field. sr_max_len_args field = [] \<and>
       (case sr_type_signature field of
          None \<Rightarrow> False
        | Some type_text \<Rightarrow> (case parse_type type_text of None \<Rightarrow> False | Some ty \<Rightarrow> type_needs_max_len ty)))
       (sr_fields s)"

definition max_len_stub_edit :: "symbol_range \<Rightarrow> snippet_store \<Rightarrow> text_edit option \<times> snippet_store" where
  "max_len_stub_edit field snippets =
     (let start = range_start (sr_range field);
          (edit, snippets) = snippet_text_edit (point_range (pos_line start) 0)
            (spaces (pos_character start) @ ''#[max_len(/* TODO */)]'' @ [NEWLINE]) snippets in
      (Some edit, snippets))"

definition derive_init_space_actions ::
  "(string \<Rightarrow> rust_type option) \<Rightarrow> parsed_document \<Rightarrow> url \<Rightarrow> range \<Rightarrow> workspace_index option \<Rightarrow> snippet_store \<Rightarrow>
     code_action list \<times> snippet_store" where
  "derive_init_space_actions parse_type doc uri r workspace snippets =
     (case Option.bind (account_field_constraint_on_line doc (pos_line (range_start r))) (\<lambda>(field, text).
           Option.bind (init_space_type_from_constraint text) (init_space_target doc uri workspace)) of
        None \<Rightarrow> ([], snippets)
      | Some target \<Rightarrow>
          if sr_derive_init_space_range (ist_symbol target) \<noteq> None then ([], snippets)
          else
            let (edit, snippets) = derive_init_space_edit doc uri target snippets;
                max_len_fields = fields_needing_max_len parse_type (ist_symbol target);
                (stubs, snippets) = filter_map_store max_len_stub_edit max_len_fields snippets;
                name = sr_name (ist_symbol target);
                title = ''Add `#[derive(InitSpace)]` to `'' @ name @ ''`'' @
                        (if max_len_fields = [] then [] else '' and add max_len stubs'') in
            ([\<lparr>act_title = title, act_kind = QUICKFIX, act_diagnostics = None,
               act_edit = Some [(ist_uri target, edit # stubs)], act_preferred = Some True,
               act_data = Some (JObject [(''anchorAction'', JString ''derive-init-space''),
                                         (''accountType'', JString name)])\<rparr>], snippets))"

subsection \<open>The actions of a line\<close>

definition init_replacement :: "parsed_document \<Rightarrow> u32 \<Rightarrow> string \<Rightarrow> string option" where
  "init_replacement doc line_number line =
     Option.bind (from_document_line doc line_number line) (\<lambda>quickfix.
     Option.bind (apply_to quickfix line) (\<lambda>replacement. if replacement = line then None else Some replacement))"

definition init_code_actions ::
  "(string \<Rightarrow> rust_type option) \<Rightarrow> parsed_document \<Rightarrow> url \<Rightarrow> range \<Rightarrow> diagnostic list \<Rightarrow> workspace_index option \<Rightarrow>
     snippet_store \<Rightarrow> code_action list \<times> snippet_store" where
  "init_code_actions parse_type doc uri r ds workspace snippets =
     (let line_number = pos_line (range_start r) in
      case line_at (pd_source doc) (unat line_number) of
        None \<Rightarrow> ([], snippets)
      | Some line \<Rightarrow>
          let (actions, snippets) = derive_init_space_actions parse_type doc uri r workspace snippets;
              matching = init_quickfix_diagnostics ds in
          if ds \<noteq> [] \<and> matching = [] then (actions, snippets)
          else
            case init_replacement doc line_number line of
              None \<Rightarrow> (actions, snippets)
            | Some replacement \<Rightarrow>
                let (edit, snippets) = snippet_text_edit (make_range line_number 0 (char_count line)) replacement snippets in
                (actions @ [\<lparr>act_title = ''Add Anchor init payer/space placeholders'', act_kind = QUICKFIX,
                   act_diagnostics = (if matching \<noteq> [] then Some matching else None),
                   act_edit = Some (single_document_edit uri edit), act_preferred = Some True, act_data = None\<rparr>],
                 snippets))"

subsection \<open>The completed line is not completed again\<close>

lemma constraint_has_assignment_iff:
  "constraint_has_assignment text key \<longleftrightarrow>
     (\<exists>p r. text = p @ key @ r \<and> (p = [] \<or> \<not> word_char (last p)) \<and> (r = [] \<or> \<not> word_char (hd r)) \<and>
       prefix ''='' (trim_start r))"
proof -
  have "(\<exists>i \<le> length text. prefix key (drop i text) \<and> constraint_key_boundary text i (length key) \<and>
      prefix ''='' (trim_start (drop (i + length key) text))) \<longleftrightarrow> (\<exists>p r. text = p @ key @ r \<and>
      constraint_key_boundary text (length p) (length key) \<and> prefix ''='' (trim_start r))"
  proof (intro iffI; elim exE conjE)
    fix i assume "i \<le> length text" "prefix key (drop i text)" "constraint_key_boundary text i (length key)"
      "prefix ''='' (trim_start (drop (i + length key) text))"
    moreover from this(2) obtain r where "drop i text = key @ r" by (auto simp: prefix_def)
    moreover from calculation have "text = take i text @ key @ r" by (metis append_take_drop_id)
    moreover from calculation have "drop (i + length key) text = r" by (metis add.commute append_eq_conv_conj drop_drop)
    ultimately show "\<exists>p r. text = p @ key @ r \<and> constraint_key_boundary text (length p) (length key) \<and>
        prefix ''='' (trim_start r)"
      by (intro exI [of _ "take i text"] exI [of _ r]) (simp add: min_def)
  next
    fix p r assume "text = p @ key @ r" "constraint_key_boundary text (length p) (length key)"
      "prefix ''='' (trim_start r)"
    then show "\<exists>i \<le> length text. prefix key (drop i text) \<and>
        constraint_key_boundary text i (length key) \<and> prefix ''='' (trim_start (drop (i + length key) text))"
      by (intro exI [of _ "length p"]) simp
  qed
  moreover have "constraint_key_boundary (p @ key @ r) (length p) (length key) \<longleftrightarrow>
      (p = [] \<or> \<not> word_char (last p)) \<and> (r = [] \<or> \<not> word_char (hd r))" for p r
    by (cases p rule: rev_cases; cases r) (auto simp: constraint_key_boundary_def nth_append)
  ultimately show ?thesis
    unfolding constraint_has_assignment_def first_occurrence_iff by auto
qed

lemma blank_no_paren: "blank_text w \<Longrightarrow> CHR '')'' \<notin> set w"
  using blank_plain [of w] plain_char_not [of "CHR '')''"] by (auto simp: list_all_iff)

lemma blank_last: "blank_text w \<Longrightarrow> w \<noteq> [] \<Longrightarrow> \<not> word_char (last w)"
proof (induction "length w" arbitrary: w rule: less_induct)
  case less
  from blank_cases [OF less.prems] obtain p w' where p: "w = p @ w'" "is_ws p" "blank_text w'" "p \<noteq> []" .
  show ?case
  proof (cases "w' = []")
    case True
    with p ws_last [OF p(2)] word_char_visible show ?thesis by auto
  next
    case False
    with less.hyps [OF _ p(3) False] p show ?thesis by simp
  qed
qed

lemma trim_start_equals:
  assumes "prefix ''='' (trim_start (u @ CHR '')'' # b))"
  obtains w v where "blank_text w" "u = w @ CHR ''='' # v"
proof -
  from trim_start_split [of "u @ CHR '')'' # b"] assms obtain w s where
    w: "blank_text w" "u @ CHR '')'' # b = w @ CHR ''='' # s" by (auto simp: prefix_def)
  then obtain us where "u = w @ us \<and> us @ CHR '')'' # b = CHR ''='' # s \<or> u @ us = w \<and> CHR '')'' # b = us @ CHR ''='' # s"
    by (auto simp: append_eq_append_conv2)
  then show ?thesis
  proof
    assume us: "u = w @ us \<and> us @ CHR '')'' # b = CHR ''='' # s"
    then obtain v where "us = CHR ''='' # v" by (cases us) auto
    with us that w(1) show ?thesis by simp
  next
    assume us: "u @ us = w \<and> CHR '')'' # b = us @ CHR ''='' # s"
    then have "CHR '')'' \<in> set w" by (cases us) auto
    with blank_no_paren [OF w(1)] show ?thesis by simp
  qed
qed

lemma assignment_kept:
  assumes "constraint_has_assignment (a @ CHR '')'' # b) key" "list_all word_char key" "key \<noteq> []"
  shows "constraint_has_assignment (a @ m @ CHR '')'' # b) key"
proof -
  have paren: "\<not> word_char CHR '')''" by code_simp
  from assms(1) obtain p r where pr: "a @ CHR '')'' # b = p @ key @ r" "p = [] \<or> \<not> word_char (last p)"
      "r = [] \<or> \<not> word_char (hd r)" "prefix ''='' (trim_start r)"
    by (auto simp: constraint_has_assignment_iff)
  from pr(1) consider (early) u where "a = (p @ key) @ u" "r = u @ CHR '')'' # b"
    | (late) q where "p = a @ q" "CHR '')'' # b = q @ key @ r"
    | (across) k k' where "a = p @ k" "key = k @ k'" "CHR '')'' # b = k' @ r" "k' \<noteq> []"
    by (auto simp: append_eq_append_conv2 append_eq_Cons_conv Cons_eq_append_conv) 
  then show ?thesis
  proof cases
    case early
    then obtain w v where w: "blank_text w" "u = w @ CHR ''='' # v" using pr(4) trim_start_equals by metis
    let ?r = "u @ m @ CHR '')'' # b"
    have "prefix ''='' (trim_start ?r)" using w by (simp add: trim_start_blank) (simp add: trim_start_id visible_not_ws_front visible_def byte_def)
    moreover have "hd ?r = hd r" "r \<noteq> []" using early w by (cases w; simp)+
    ultimately show ?thesis
      using early pr(2,3) unfolding constraint_has_assignment_iff by (intro exI [of _ p] exI [of _ ?r]) simp
  next
    case late
    have "q \<noteq> []"
    proof
      assume "q = []"
      with late(2) assms(3) have "hd key = CHR '')''" by (cases key) auto
      with assms(2,3) paren show False by (cases key) auto
    qed
    with late pr(2-4) show ?thesis
      unfolding constraint_has_assignment_iff by (intro exI [of _ "a @ m @ q"] exI [of _ r]) simp
  next
    case across
    then have "hd k' = CHR '')''" by (cases k') auto
    with across assms(2) paren show ?thesis by (cases k') auto
  qed
qed

lemma assignment_added:
  assumes "p = [] \<or> \<not> word_char (last p)"
  shows "constraint_has_assignment (p @ key @ '' = '' @ r) key"
proof -
  have "trim_start ('' = '' @ r) = ''= '' @ r"
    by (simp add: trim_start_space trim_start_id visible_not_ws_front visible_def byte_def)
  moreover have "\<not> word_char CHR '' ''" by code_simp
  ultimately show ?thesis
    unfolding constraint_has_assignment_iff using assms by (intro exI [of _ p] exI [of _ "'' = '' @ r"]) simp
qed



end
