(* ===== verification/Instruction_Actions.thy ===== *)
theory Instruction_Actions
  imports Code_Actions Constraint_Segments
begin

section \<open>Actions on the arguments of \<open>#[instruction]\<close>\<close>

text \<open>
  \<open>src/lsp/actions/instructions.rs\<close>: the actions that add, replace and remove an argument of the
  attribute \<open>#[instruction(...)]\<close> of an accounts struct.  Columns are counted in characters by the
  positions of the protocol and in bytes by these functions: the two agree on ASCII lines.
\<close>

text \<open>\<open>str::get(a..b)\<close>: none outside the text or inside a character.\<close>

definition str_get :: "nat \<Rightarrow> nat \<Rightarrow> string \<Rightarrow> string option" where
  "str_get start stop s =
     (if start \<le> stop \<and> is_char_boundary s start \<and> is_char_boundary s stop then Some (drop start (take stop s)) else None)"

definition is_argument_diagnostic :: "string \<Rightarrow> diagnostic \<Rightarrow> bool" where
  "is_argument_diagnostic quickfix d \<longleftrightarrow>
     seagrass_code d = Some ''anchor-missing-instruction-argument'' \<and> diagnostic_quickfix d = Some quickfix"

definition same_argument :: "string \<Rightarrow> string \<Rightarrow> bool" where
  "same_argument existing argument \<longleftrightarrow>
     existing = argument \<or> trim_start_char CHR ''_'' existing = trim_start_char CHR ''_'' argument"

subsection \<open>Adding\<close>

definition instruction_attribute_line :: "parsed_document \<Rightarrow> symbol_range \<Rightarrow> u32 option" where
  "instruction_attribute_line doc accounts =
     (let start = (case sr_derive_accounts_range accounts of None \<Rightarrow> 0 | Some r \<Rightarrow> unat (pos_line (range_start r)));
          stop = unat (pos_line (range_start (sr_selection_range accounts))) in
      map_option of_nat
        (find (\<lambda>n. case line_at (pd_source doc) n of
                     None \<Rightarrow> False | Some line \<Rightarrow> prefix ''#[instruction'' (trim_start line))
          [start ..< stop + 1]))"

definition argument_insertion ::
  "parsed_document \<Rightarrow> string \<Rightarrow> string \<Rightarrow> string \<Rightarrow> (u32 \<times> u32 \<times> string) option" where
  "argument_insertion doc accounts_name argument type_name =
     Option.bind (map_of (accounts_structs (pd_symbols doc)) accounts_name) (\<lambda>accounts.
       if list_ex (\<lambda>existing. same_argument (iaa_name existing) argument) (sr_instruction_arguments accounts) then None
       else
         case instruction_attribute_line doc accounts of
           Some line_number \<Rightarrow>
             Option.bind (line_at (pd_source doc) (unat line_number)) (\<lambda>line.
             Option.bind (str_find '')]'' line) (\<lambda>close_idx.
               let before_close = trim_end (take close_idx line);
                   separator = (if suffix ''('' before_close \<or> suffix '','' before_close then [] else '', '') in
               map_option (\<lambda>character. (line_number, character, separator @ argument @ '': '' @ type_name))
                 (u32_try_from close_idx)))
         | None \<Rightarrow>
             Option.bind (struct_line (pd_source doc) accounts_name) (\<lambda>insert_line.
             Option.bind (line_at (pd_source doc) (unat insert_line)) (\<lambda>line.
               Some (insert_line, 0,
                 line_indent line @ ''#[instruction('' @ argument @ '': '' @ type_name @ '')]'' @ [NEWLINE]))))"

definition add_instruction_argument_edit ::
  "parsed_document \<Rightarrow> string \<Rightarrow> string \<Rightarrow> string \<Rightarrow> snippet_store \<Rightarrow> text_edit option \<times> snippet_store" where
  "add_instruction_argument_edit doc accounts_name argument type_name snippets =
     (case argument_insertion doc accounts_name argument type_name of
        None \<Rightarrow> (None, snippets)
      | Some (line_number, character, template) \<Rightarrow>
          let (edit, snippets) = snippet_text_edit (point_range line_number character) template snippets in
          (Some edit, snippets))"

definition declared_argument_type :: "parsed_document \<Rightarrow> string \<Rightarrow> string \<Rightarrow> string option" where
  "declared_argument_type doc accounts_name argument =
     Option.bind
       (find (\<lambda>candidate. same_argument (ia_name candidate) argument)
         (concat (map is_arguments
           (filter (\<lambda>instruction. case is_context instruction of
                      None \<Rightarrow> False | Some context \<Rightarrow> cr_name context = accounts_name)
             (callable_functions (pd_symbols doc))))))
       ia_type_name"

definition add_instruction_argument_action ::
  "parsed_document \<Rightarrow> url \<Rightarrow> diagnostic \<Rightarrow> snippet_store \<Rightarrow> code_action option \<times> snippet_store" where
  "add_instruction_argument_action doc uri d snippets =
     (case Option.bind (data_str ''argument'' (d_data d)) (\<lambda>argument.
           Option.bind (data_str ''accountsStruct'' (d_data d)) (\<lambda>accounts_name.
           Option.bind (or_else (data_str ''argumentType'' (d_data d))
                          (declared_argument_type doc accounts_name argument)) (\<lambda>type_name.
             Some (argument, accounts_name, type_name)))) of
        None \<Rightarrow> (None, snippets)
      | Some (argument, accounts_name, type_name) \<Rightarrow>
          let (edit, snippets) = add_instruction_argument_edit doc accounts_name argument type_name snippets in
          (map_option (\<lambda>edit.
             quickfix_action (''Add `'' @ argument @ '': '' @ type_name @ ''` to #[instruction]'') d uri edit True
               [(''anchorAction'', JString ''add-instruction-argument''), (''accountsStruct'', JString accounts_name),
                (''argument'', JString argument), (''argumentType'', JString type_name)]) edit,
           snippets))"

subsection \<open>Replacing\<close>

definition argument_end_byte :: "string \<Rightarrow> nat \<Rightarrow> nat option" where
  "argument_end_byte line start =
     Option.bind (str_get start (length line) line) (\<lambda>tail.
       map_option (\<lambda>i. start + i) (or_else (str_find '','' tail) (str_find '')]'' tail)))"

definition instruction_argument_end_character :: "string \<Rightarrow> u32 \<Rightarrow> u32 option" where
  "instruction_argument_end_character line start_character =
     Option.bind (argument_end_byte line (unat start_character)) u32_try_from"

definition instruction_argument_declaration_range :: "parsed_document \<Rightarrow> diagnostic \<Rightarrow> range option" where
  "instruction_argument_declaration_range doc d =
     (let start = range_start (d_range d); end_character = pos_character (range_end (d_range d)) in
      map_option (\<lambda>source_line.
          let stop = unwrap_or end_character
                (instruction_argument_end_character source_line (pos_character start)) in
          \<lparr>range_start = start,
           range_end = \<lparr>pos_line = pos_line start, pos_character = max stop end_character\<rparr>\<rparr>)
        (line_at (pd_source doc) (unat (pos_line start))))"

definition replace_instruction_argument_action ::
  "parsed_document \<Rightarrow> url \<Rightarrow> diagnostic \<Rightarrow> snippet_store \<Rightarrow> code_action option \<times> snippet_store" where
  "replace_instruction_argument_action doc uri d snippets =
     (case (data_str ''argument'' (d_data d), data_str ''expected'' (d_data d), data_str ''expectedType'' (d_data d),
            instruction_argument_declaration_range doc d) of
        (Some current, Some expected, Some expected_type, Some r) \<Rightarrow>
          let replacement = expected @ '': '' @ expected_type;
              (edit, snippets) = snippet_text_edit r replacement snippets in
          (Some (quickfix_action (''Replace `'' @ current @ ''` with `'' @ replacement @ ''` in #[instruction]'') d uri
             edit True
             [(''anchorAction'', JString ''replace-instruction-argument''), (''argument'', JString current),
              (''replacement'', JString replacement)]), snippets)
      | _ \<Rightarrow> (None, snippets))"

subsection \<open>Removing\<close>

definition INSTRUCTION_OPEN :: string where "INSTRUCTION_OPEN = ''#[instruction(''"

definition skip_comma_and_spaces :: "string \<Rightarrow> nat \<Rightarrow> nat" where
  "skip_comma_and_spaces line start =
     (if byte_at line start = Some CHR '','' then
        start + 1 + length (takeWhile (\<lambda>c. c = CHR '' '') (drop (start + 1) line))
      else start)"

text \<open>The range that is removed from the line, or the whole line.\<close>

datatype removal_extent = WholeLine | Columns nat nat

definition argument_removal :: "string \<Rightarrow> nat \<Rightarrow> removal_extent option" where
  "argument_removal line start =
     Option.bind (map_option (\<lambda>i. i + length INSTRUCTION_OPEN) (str_find INSTRUCTION_OPEN line)) (\<lambda>open_at.
     Option.bind (str_rfind '')]'' line) (\<lambda>close_at.
     Option.bind (str_get open_at start line) (\<lambda>before.
       if trim before = [] then
         Option.bind (argument_end_byte line start) (\<lambda>after_arg.
         Option.bind (str_get after_arg close_at line) (\<lambda>rest.
           if trim rest = [] then Some WholeLine
           else Some (Columns open_at (skip_comma_and_spaces line after_arg))))
       else
         Option.bind (Option.bind (str_get 0 start line) (str_rfind '','')) (\<lambda>comma.
         Option.bind (argument_end_byte line start) (\<lambda>stop. Some (Columns comma stop))))))"

definition remove_instruction_argument_edit ::
  "parsed_document \<Rightarrow> diagnostic \<Rightarrow> snippet_store \<Rightarrow> text_edit option \<times> snippet_store" where
  "remove_instruction_argument_edit doc d snippets =
     (let line_number = pos_line (range_start (d_range d)) in
      case Option.bind (line_at (pd_source doc) (unat line_number)) (\<lambda>line.
           Option.bind (argument_removal line (unat (pos_character (range_start (d_range d))))) (\<lambda>removal.
             case removal of
               WholeLine \<Rightarrow>
                 Some \<lparr>range_start = \<lparr>pos_line = line_number, pos_character = 0\<rparr>,
                       range_end = \<lparr>pos_line = line_number + 1, pos_character = 0\<rparr>\<rparr>
             | Columns first_at last_at \<Rightarrow>
                 Option.bind (u32_try_from first_at) (\<lambda>first_at.
                 Option.bind (u32_try_from last_at) (\<lambda>last_at.
                   Some \<lparr>range_start = \<lparr>pos_line = line_number, pos_character = first_at\<rparr>,
                         range_end = \<lparr>pos_line = line_number, pos_character = last_at\<rparr>\<rparr>)))) of
        None \<Rightarrow> (None, snippets)
      | Some r \<Rightarrow> let (edit, snippets) = snippet_text_edit r [] snippets in (Some edit, snippets))"

definition remove_instruction_argument_action ::
  "parsed_document \<Rightarrow> url \<Rightarrow> diagnostic \<Rightarrow> snippet_store \<Rightarrow> code_action option \<times> snippet_store" where
  "remove_instruction_argument_action doc uri d snippets =
     (case data_str ''argument'' (d_data d) of
        None \<Rightarrow> (None, snippets)
      | Some argument \<Rightarrow>
          let (edit, snippets) = remove_instruction_argument_edit doc d snippets in
          (map_option (\<lambda>edit.
             quickfix_action (''Remove `'' @ argument @ ''` from #[instruction]'') d uri edit True
               [(''anchorAction'', JString ''remove-instruction-argument''), (''argument'', JString argument)]) edit,
           snippets))"

definition instruction_code_actions ::
  "parsed_document \<Rightarrow> url \<Rightarrow> diagnostic list \<Rightarrow> snippet_store \<Rightarrow> code_action list \<times> snippet_store" where
  "instruction_code_actions doc uri ds snippets =
     (let (added, snippets) = filter_map_store (add_instruction_argument_action doc uri)
            (filter (is_argument_diagnostic ''add-instruction-argument'') ds) snippets;
          (replaced, snippets) = filter_map_store (replace_instruction_argument_action doc uri)
            (filter (is_argument_diagnostic ''replace-instruction-argument'') ds) snippets;
          (removed, snippets) = filter_map_store (remove_instruction_argument_action doc uri)
            (filter (is_argument_diagnostic ''remove-instruction-argument'') ds) snippets in
      (added @ replaced @ removed, snippets))"

subsection \<open>Removing leaves the other arguments\<close>

definition argument_text :: "string \<Rightarrow> bool" where
  "argument_text a \<longleftrightarrow> a \<noteq> [] \<and> hd a \<noteq> CHR '' '' \<and> CHR '','' \<notin> set a \<and> CHR '')'' \<notin> set a"

lemma str_find_char: "c \<notin> set a \<Longrightarrow> str_find [c] (a @ c # s) = Some (length a)"
  by (induction a) auto

lemma str_find_no_char: "c \<notin> set s \<Longrightarrow> str_find (c # p) s = None"
  by (induction s) auto

lemma str_find_marker: "c \<notin> set a \<Longrightarrow> str_find (c # p) (a @ c # p @ s) = Some (length a)"
  by (induction a) auto

lemma str_rfind_char: "c \<notin> set b \<Longrightarrow> str_rfind [c] (a @ c # b) = Some (length a)"
proof -
  assume "c \<notin> set b"
  then have "str_rfind [c] (c # b) = Some 0" by (simp add: str_rfind_absent)
  then show ?thesis by (induction a) auto
qed

lemma ascii_boundary: "ascii s \<Longrightarrow> i \<le> length s \<Longrightarrow> is_char_boundary s i"
proof (cases "i = length s")
  case False
  assume "ascii s" "i \<le> length s"
  with False have "byte (s ! i) < 128" "i < length s" by (auto simp: ascii_def list_all_length)
  then show ?thesis by (simp add: is_char_boundary_def is_continuation_def)
qed (simp add: is_char_boundary_def)

lemma ascii_str_get: "ascii s \<Longrightarrow> i \<le> j \<Longrightarrow> j \<le> length s \<Longrightarrow> str_get i j s = Some (drop i (take j s))"
  by (simp add: str_get_def ascii_boundary)

lemma join_append: "xs \<noteq> [] \<Longrightarrow> ys \<noteq> [] \<Longrightarrow> join sep (xs @ ys) = join sep xs @ sep @ join sep ys"
proof (induction sep xs rule: join.induct)
  case (2 sep x)
  then show ?case by (cases ys) auto
qed auto

lemma not_blank: "c \<in> set s \<Longrightarrow> byte c \<in> {34, 36, 39, 40, 41, 44, 91, 92, 93, 123, 125} \<Longrightarrow> trim s \<noteq> []"
  using trim_split [of s] blank_plain by (fastforce simp: list_all_iff plain_char_def)

text \<open>The end of an argument: the next comma, or the end of the attribute.\<close>

lemma argument_end:
  assumes "ascii (p @ a @ r)" "argument_text a" "prefix '','' r \<or> prefix '')]'' r \<and> CHR '','' \<notin> set r"
  shows "argument_end_byte (p @ a @ r) (length p) = Some (length p + length a)"
proof -
  have get: "str_get (length p) (length (p @ a @ r)) (p @ a @ r) = Some (a @ r)"
    using ascii_str_get [OF assms(1), of "length p" "length (p @ a @ r)"] by simp
  have a: "CHR '','' \<notin> set a" "CHR '')'' \<notin> set a" using assms(2) by (simp_all add: argument_text_def)
  show ?thesis
  proof (cases "prefix '','' r")
    case True
    then obtain r' where "r = CHR '','' # r'" by (auto simp: prefix_def)
    with get str_find_char [OF a(1), of r'] show ?thesis by (simp add: argument_end_byte_def or_else_def)
  next
    case False
    with assms(3) obtain r' where r: "r = '')]'' @ r'" "CHR '','' \<notin> set r" by (auto simp: prefix_def)
    with a(1) have "str_find '','' (a @ r) = None" by (intro str_find_no_char) auto
    moreover have "str_find '')]'' (a @ r) = Some (length a)" using str_find_marker [OF a(2), of "'']''" r'] r(1) by simp
    ultimately show ?thesis using get by (simp add: argument_end_byte_def or_else_def)
  qed
qed



text \<open>
  The end of an argument is looked for in the whole rest of the line: with a comma in a comment behind
  the attribute, removing its last argument removes the closing brackets, too.
\<close>

lemma comment_comma_ends_argument:
  "argument_end_byte ''#[instruction(a: u8, b: u8)] // x, y'' 21 = Some 33"
proof -
  have "ascii ''#[instruction(a: u8, b: u8)] // x, y''" by (simp add: ascii_def byte_def)
  then show ?thesis by (simp add: argument_end_byte_def ascii_str_get or_else_def)
qed

text \<open>A comma inside a type ends the argument too early.\<close>

lemma type_comma_ends_argument:
  "argument_end_byte ''#[instruction(a: Map<u8, u16>, b: u8)]'' 14 = Some 23"
proof -
  have "ascii ''#[instruction(a: Map<u8, u16>, b: u8)]''" by (simp add: ascii_def byte_def)
  then show ?thesis by (simp add: argument_end_byte_def ascii_str_get or_else_def)
qed

end
