(* ===== verification/Security_Actions.thy ===== *)
theory Security_Actions
  imports Instruction_Actions Anchor_Types
begin

section \<open>Actions on security findings\<close>

text \<open>
  \<open>src/lsp/actions/security.rs\<close>: guards that are inserted before a flagged statement, seeds that are
  added to the derivation of an address, and types that are replaced.  Each function that builds an
  edit ends in one call of \<open>snippet_text_edit\<close>: the functions below give its range and template.
\<close>

definition ACCOUNT_DISCRIMINATOR_BYTES :: string where "ACCOUNT_DISCRIMINATOR_BYTES = ''8''"

definition DISCRIMINATOR_DESERIALIZER_MARKERS :: "string list" where
  "DISCRIMINATOR_DESERIALIZER_MARKERS = [''::try_from_slice'', ''::deserialize'', ''::try_deserialize_unchecked'']"

definition PINOCCHIO_LOAD_MARKER :: string where "PINOCCHIO_LOAD_MARKER = ''load::<''"

type_synonym edit_template = "range \<times> string"

definition emit_template :: "edit_template \<Rightarrow> snippet_store \<Rightarrow> text_edit \<times> snippet_store" where
  "emit_template t snippets = snippet_text_edit (fst t) (snd t) snippets"

definition emit_action ::
  "edit_template option \<Rightarrow> (text_edit \<Rightarrow> code_action) \<Rightarrow> snippet_store \<Rightarrow> code_action option \<times> snippet_store" where
  "emit_action t act snippets =
     (case t of
        None \<Rightarrow> (None, snippets)
      | Some t \<Rightarrow> let (edit, snippets) = emit_template t snippets in (Some (act edit), snippets))"

definition insert_line_edit :: "u32 \<Rightarrow> string \<Rightarrow> edit_template" where
  "insert_line_edit line new_text = (point_range line 0, new_text)"

definition indent_at :: "parsed_document \<Rightarrow> u32 \<Rightarrow> string" where
  "indent_at doc line_number =
     (case line_at (pd_source doc) (unat line_number) of None \<Rightarrow> [] | Some line \<Rightarrow> line_indent line)"

definition data_string :: "diagnostic \<Rightarrow> string \<Rightarrow> string option" where
  "data_string d key = data_str key (d_data d)"

definition is_pinocchio_diagnostic :: "diagnostic \<Rightarrow> bool" where
  "is_pinocchio_diagnostic d \<longleftrightarrow> data_string d ''programKind'' = Some ''pinocchio''"

subsection \<open>The call that decodes an account\<close>

record guard_evidence =
  ge_account_type :: string
  ge_data_expression :: string

text \<open>\<open>rsplit\<close> with a predicate and \<open>rsplit\<close> with a pattern, of which the last pieces are used.\<close>

definition terminal_rust_path_segment :: "string \<Rightarrow> string option" where
  "terminal_rust_path_segment raw_path =
     (let segment = trim (case rsplit_once ''::'' raw_path of None \<Rightarrow> raw_path | Some (_, rest) \<Rightarrow> rest) in
      if is_ascii_identifier segment then Some segment else None)"

definition account_type_before_marker :: "string \<Rightarrow> nat \<Rightarrow> string option" where
  "account_type_before_marker line marker_start =
     Option.bind (str_get 0 marker_start line) (\<lambda>before.
     Option.bind (find (\<lambda>segment. segment \<noteq> []) (rev (split_at (\<lambda>c. \<not> word_char c) (trim_end before))))
       terminal_rust_path_segment)"

definition discriminator_deserializer_call :: "string \<Rightarrow> (string \<times> nat) option" where
  "discriminator_deserializer_call line =
     find_map (\<lambda>marker.
         Option.bind (str_find marker line) (\<lambda>marker_start.
           map_option (\<lambda>account_type. (account_type, marker_start + length marker))
             (account_type_before_marker line marker_start)))
       DISCRIMINATOR_DESERIALIZER_MARKERS"

definition pinocchio_load_call :: "string \<Rightarrow> (string \<times> nat) option" where
  "pinocchio_load_call line =
     Option.bind (str_find PINOCCHIO_LOAD_MARKER line) (\<lambda>marker_start.
       let type_start = marker_start + length PINOCCHIO_LOAD_MARKER in
     Option.bind (str_get type_start (length line) line) (\<lambda>tail.
     Option.bind (map_option (\<lambda>i. i + type_start) (str_find ''>'' tail)) (\<lambda>type_end.
     Option.bind (str_get type_start type_end line) (\<lambda>type_text.
     Option.bind (terminal_rust_path_segment (trim type_text)) (\<lambda>account_type.
       Some (account_type, type_end + 1))))))"

fun closing_paren_loop :: "nat \<Rightarrow> nat \<Rightarrow> string \<Rightarrow> nat option" where
  "closing_paren_loop nesting i [] = None"
| "closing_paren_loop nesting i (c # s) =
     (if c = CHR ''('' then closing_paren_loop (nesting + 1) (i + 1) s
      else if c = CHR '')'' then
        (if nesting = 0 then None
         else if nesting - 1 = 0 then Some i
         else closing_paren_loop (nesting - 1) (i + 1) s)
      else closing_paren_loop nesting (i + 1) s)"

definition matching_closing_paren :: "string \<Rightarrow> nat \<Rightarrow> nat option" where
  "matching_closing_paren line open_at =
     Option.bind (str_get open_at (length line) line) (closing_paren_loop 0 open_at)"

definition call_arguments_after :: "string \<Rightarrow> nat \<Rightarrow> string option" where
  "call_arguments_after line search_start =
     Option.bind (str_get search_start (length line) line) (\<lambda>tail.
     Option.bind (map_option (\<lambda>i. i + search_start) (str_find ''('' tail)) (\<lambda>open_at.
     Option.bind (matching_closing_paren line open_at) (\<lambda>close_at. str_get (open_at + 1) close_at line)))"

definition non_empty_trimmed :: "string \<Rightarrow> string option" where
  "non_empty_trimmed s = (if trim s \<noteq> [] then Some (trim s) else None)"

text \<open>The loop over the arguments: \<open>read\<close> is the text before the current character.\<close>

fun first_argument_loop :: "nat \<Rightarrow> string \<Rightarrow> string \<Rightarrow> string option" where
  "first_argument_loop nesting read [] = non_empty_trimmed read"
| "first_argument_loop nesting read (c # s) =
     (if c \<in> {CHR ''('', CHR ''['', CHR ''{''} then first_argument_loop (nesting + 1) (read @ [c]) s
      else if c \<in> {CHR '')'', CHR '']'', CHR ''}''} then
        (if nesting = 0 then None else first_argument_loop (nesting - 1) (read @ [c]) s)
      else if c = CHR '','' \<and> nesting = 0 then non_empty_trimmed read
      else first_argument_loop nesting (read @ [c]) s)"

definition first_call_argument :: "string \<Rightarrow> string option" where
  "first_call_argument arguments = first_argument_loop 0 [] arguments"

function strip_references :: "string \<Rightarrow> string" where
  "strip_references candidate =
     (case candidate of
        c # rest \<Rightarrow> if c = CHR ''&'' then strip_references (trim_start rest) else candidate
      | [] \<Rightarrow> candidate)"
  by pat_completeness auto
termination
proof (relation "measure length", goal_cases)
  case (2 candidate c rest)
  then show ?case using suffix_length_le [OF trim_start_suffix [of rest]] by simp
qed simp

declare strip_references.simps [simp del]

definition safe_discriminator_data_expression :: "string \<Rightarrow> string option" where
  "safe_discriminator_data_expression argument =
     (let candidate = strip_references (trim argument);
          candidate = (case split_once ''['' candidate of None \<Rightarrow> candidate | Some (base, _) \<Rightarrow> trim_end base) in
      if is_ascii_identifier candidate then Some candidate else None)"

definition discriminator_guard_evidence :: "string \<Rightarrow> guard_evidence option" where
  "discriminator_guard_evidence line =
     Option.bind (or_else (discriminator_deserializer_call line) (pinocchio_load_call line)) (\<lambda>(account_type, arguments_start).
     Option.bind (call_arguments_after line arguments_start) (\<lambda>arguments.
     Option.bind (Option.bind (first_call_argument arguments) safe_discriminator_data_expression) (\<lambda>data_expression.
       Some \<lparr>ge_account_type = account_type, ge_data_expression = data_expression\<rparr>)))"

subsection \<open>Guards\<close>

definition guard_line :: "string \<Rightarrow> string \<Rightarrow> string \<Rightarrow> string" where
  "guard_line indent check error =
     indent @ ''if '' @ check @ '' { return Err(ProgramError::'' @ error @ ''); }'' @ [NEWLINE]"

definition start_line :: "diagnostic \<Rightarrow> u32" where
  "start_line d = pos_line (range_start (d_range d))"

definition reload_after_cpi_edit :: "parsed_document \<Rightarrow> diagnostic \<Rightarrow> edit_template option" where
  "reload_after_cpi_edit doc d =
     map_option (\<lambda>account.
         insert_line_edit (saturating_add (pos_line (range_end (d_range d))) 1)
           (indent_at doc (start_line d) @ ''ctx.accounts.'' @ account @ ''.reload()?;'' @ [NEWLINE]))
       (data_string d ''account'')"

definition signer_guard_edit :: "parsed_document \<Rightarrow> diagnostic \<Rightarrow> edit_template" where
  "signer_guard_edit doc d =
     (let account = unwrap_or ''accounts[0]'' (data_string d ''accountExpression'');
          signer_check = ''!'' @ account @ (if is_pinocchio_diagnostic d then ''.is_signer()'' else ''.is_signer'') in
      insert_line_edit (start_line d)
        (guard_line (indent_at doc (start_line d)) signer_check ''MissingRequiredSignature''))"

definition writable_guard_edit :: "parsed_document \<Rightarrow> diagnostic \<Rightarrow> edit_template" where
  "writable_guard_edit doc d =
     (let account = unwrap_or ''accounts[0]'' (data_string d ''accountExpression'');
          writable_check = ''!'' @ account @ (if is_pinocchio_diagnostic d then ''.is_writable()'' else ''.is_writable'') in
      insert_line_edit (start_line d)
        (guard_line (indent_at doc (start_line d)) writable_check ''InvalidAccountData''))"

definition program_id_guard_edit :: "parsed_document \<Rightarrow> diagnostic \<Rightarrow> edit_template" where
  "program_id_guard_edit doc d =
     (let program_id = unwrap_or ''*program_id'' (data_string d ''programIdExpression'') in
      insert_line_edit (start_line d)
        (guard_line (indent_at doc (start_line d)) (program_id @ '' != &crate::ID'') ''IncorrectProgramId''))"

definition bounds_guard_edit :: "parsed_document \<Rightarrow> diagnostic \<Rightarrow> edit_template" where
  "bounds_guard_edit doc d =
     (let data = unwrap_or ''instruction_data'' (data_string d ''dataExpression'') in
      insert_line_edit (start_line d)
        (guard_line (indent_at doc (start_line d)) (data @ ''.is_empty()'') ''InvalidInstructionData''))"

definition native_owner_guard_edit :: "parsed_document \<Rightarrow> diagnostic \<Rightarrow> edit_template" where
  "native_owner_guard_edit doc d =
     (let account = unwrap_or ''account'' (data_string d ''accountExpression'');
          check = (if is_pinocchio_diagnostic d then ''!'' @ account @ ''.is_owned_by(&crate::ID)''
                   else account @ ''.owner != &crate::ID'') in
      insert_line_edit (start_line d) (guard_line (indent_at doc (start_line d)) check ''IncorrectProgramId''))"

definition native_discriminator_guard_edit :: "parsed_document \<Rightarrow> diagnostic \<Rightarrow> edit_template option" where
  "native_discriminator_guard_edit doc d =
     Option.bind (line_at (pd_source doc) (unat (start_line d))) (\<lambda>source_line.
     Option.bind (discriminator_guard_evidence source_line) (\<lambda>evidence.
       let data = ge_data_expression evidence;
           check = data @ ''.len() < '' @ ACCOUNT_DISCRIMINATOR_BYTES @ '' || &'' @ data @ ''[..'' @
             ACCOUNT_DISCRIMINATOR_BYTES @ ''] != '' @ ge_account_type evidence @ ''::DISCRIMINATOR.as_ref()'' in
       Some (insert_line_edit (start_line d)
         (guard_line (indent_at doc (start_line d)) check ''InvalidAccountData''))))"

subsection \<open>Seeds\<close>

definition static_pda_domain_seed_edit :: "diagnostic \<Rightarrow> edit_template" where
  "static_pda_domain_seed_edit d =
     (\<lparr>range_start = range_end (d_range d), range_end = range_end (d_range d)\<rparr>,
      ''b'' @ [QUOTE] @ ''state'' @ [QUOTE] @ '', '')"

definition seed_list_insert_position :: "string \<Rightarrow> range \<Rightarrow> position option" where
  "seed_list_insert_position source r =
     Option.bind (byte_offset_at source (range_start r)) (\<lambda>start.
     Option.bind (byte_offset_at source (range_end r)) (\<lambda>stop.
     Option.bind (str_get start stop source) (\<lambda>attribute.
     Option.bind (str_find ''seeds'' attribute) (\<lambda>seeds_offset.
     Option.bind (Option.bind (str_get seeds_offset (length attribute) attribute) (str_find ''['')) (\<lambda>bracket_offset.
       edit_position_at_byte_offset source (start + seeds_offset + bracket_offset + 1))))))"

definition scoped_pda_seed_edit :: "parsed_document \<Rightarrow> diagnostic \<Rightarrow> edit_template option" where
  "scoped_pda_seed_edit doc d =
     Option.bind (data_string d ''scopedSeed'') (\<lambda>seed.
       map_option (\<lambda>p. (\<lparr>range_start = p, range_end = p\<rparr>, seed @ '', ''))
         (seed_list_insert_position (pd_source doc) (d_range d)))"

subsection \<open>The actions\<close>

definition security_edit :: "parsed_document \<Rightarrow> diagnostic \<Rightarrow> string \<Rightarrow> (string \<times> edit_template) option" where
  "security_edit doc d quickfix =
     (if quickfix = ''insert-reload-after-cpi'' then
        map_option (Pair ''Insert reload after CPI'') (reload_after_cpi_edit doc d)
      else if quickfix = ''add-signer-check'' then Some (''Insert signer guard'', signer_guard_edit doc d)
      else if quickfix = ''add-writable-check'' then Some (''Insert writable guard'', writable_guard_edit doc d)
      else if quickfix = ''add-program-id-check'' then
        Some (''Insert CPI program-id guard'', program_id_guard_edit doc d)
      else if quickfix = ''use-checked-data-access'' then Some (''Insert data bounds guard'', bounds_guard_edit doc d)
      else if quickfix = ''add-static-pda-domain-seed'' then
        Some (''Insert static PDA seed'', static_pda_domain_seed_edit d)
      else if quickfix = ''add-scoped-pda-seed'' then
        map_option (Pair ''Insert scoped PDA seed'') (scoped_pda_seed_edit doc d)
      else if quickfix = ''add-owner-check'' then Some (''Insert owner guard'', native_owner_guard_edit doc d)
      else if quickfix = ''add-discriminator-check'' then
        map_option (Pair ''Insert discriminator guard'') (native_discriminator_guard_edit doc d)
      else None)"

definition security_edit_action ::
  "parsed_document \<Rightarrow> url \<Rightarrow> diagnostic \<Rightarrow> snippet_store \<Rightarrow> code_action option \<times> snippet_store" where
  "security_edit_action doc uri d snippets =
     (case diagnostic_quickfix d of
        None \<Rightarrow> (None, snippets)
      | Some quickfix \<Rightarrow>
          (case security_edit doc d quickfix of
             None \<Rightarrow> (None, snippets)
           | Some (title, t) \<Rightarrow>
               emit_action (Some t) (\<lambda>edit. quickfix_action title d uri edit True
                 [(''anchorAction'', JString ''security-edit''), (''quickfix'', JString quickfix)]) snippets))"

definition SECURITY_GUIDANCE :: "(string \<times> string) list" where
  "SECURITY_GUIDANCE =
     [(''typed-account-or-discriminator'', ''Use a typed account or add discriminator validation''),
      (''add-owner-check'', ''Add an owner check before raw account data access''),
      (''add-discriminator-check'', ''Add discriminator/type validation before decoding''),
      (''prefer-anchor-close'', ''Use Anchor close or write a closed discriminator''),
      (''reject-reinit'', ''Reject already-initialized accounts before unchecked init''),
      (''insert-reload-after-cpi'', ''Reload the account after CPI before reading fields''),
      (''add-signer-check'', ''Check `is_signer` before signer use''),
      (''add-writable-check'', ''Check account writability before writable CPI use''),
      (''add-program-id-check'', ''Check the CPI program id before invoke''),
      (''use-checked-data-access'', ''Use checked data access before indexing''),
      (''add-static-pda-domain-seed'', ''Add a static PDA namespace seed'')]"

definition security_guidance_action :: "diagnostic \<Rightarrow> code_action option" where
  "security_guidance_action d =
     Option.bind (diagnostic_quickfix d) (\<lambda>quickfix.
     Option.bind (data_string d ''attack'') (\<lambda>attack.
     Option.bind (map_of SECURITY_GUIDANCE quickfix) (\<lambda>title.
       Some \<lparr>act_title = title, act_kind = QUICKFIX, act_diagnostics = Some [d], act_edit = None,
             act_preferred = Some False,
             act_data = Some (JObject [(''anchorAction'', JString ''security-guidance''),
               (''quickfix'', JString quickfix), (''attack'', JString attack)])\<rparr>)))"

definition owner_constraint_action ::
  "parsed_document \<Rightarrow> url \<Rightarrow> diagnostic \<Rightarrow> snippet_store \<Rightarrow> code_action option \<times> snippet_store" where
  "owner_constraint_action doc uri d snippets =
     (case Option.bind (data_string d ''account'') (\<lambda>account.
           Option.bind (find (\<lambda>field. sr_name field = account) (document_fields doc)) (\<lambda>field.
             let line_number = (case sr_account_constraints field of
                                  constraint # _ \<Rightarrow> pos_line (range_start (ac_range constraint))
                                | [] \<Rightarrow> pos_line (range_start (sr_selection_range field))) in
             map_option (\<lambda>line. (account, insert_line_edit line_number
                 (line_indent line @ ''#[account(owner = crate::ID)]'' @ [NEWLINE])))
               (line_at (pd_source doc) (unat line_number)))) of
        None \<Rightarrow> (None, snippets)
      | Some (account, t) \<Rightarrow>
          emit_action (Some t) (\<lambda>edit.
            quickfix_action (''Constrain `'' @ account @ ''` owner to `crate::ID`'') d uri edit True
              [(''anchorAction'', JString ''add-owner-constraint''), (''account'', JString account)]) snippets)"

definition replace_account_type_action :: "url \<Rightarrow> diagnostic \<Rightarrow> snippet_store \<Rightarrow> code_action option \<times> snippet_store" where
  "replace_account_type_action uri d snippets =
     (case data_string d ''expected'' of
        None \<Rightarrow> (None, snippets)
      | Some expected \<Rightarrow>
          let account = unwrap_or ''account'' (data_string d ''account'') in
          emit_action (Some (d_range d, expected)) (\<lambda>edit.
            quickfix_action (''Replace `'' @ account @ ''` type with `'' @ expected @ ''`'') d uri edit True
              [(''anchorAction'', JString ''replace-account-type''), (''account'', JString account),
               (''expected'', JString expected)]) snippets)"

definition invalid_sysvar_replacement :: "parsed_document \<Rightarrow> diagnostic \<Rightarrow> (symbol_range \<times> string \<times> range) option" where
  "invalid_sysvar_replacement doc d =
     find_map (\<lambda>field.
         Option.bind (if sr_generic_type_ranges field = [] then None else Some (last (sr_generic_type_ranges field))) (\<lambda>generic.
         Option.bind (sysvar_generic_for_field (sr_name field)) (\<lambda>replacement.
           if sr_generic_type_names field \<noteq> [] \<and> last (sr_generic_type_names field) = replacement then None
           else Some (field, replacement, nr_range generic))))
       (filter (\<lambda>field. ranges_touch (sr_range field) (d_range d))
         (filter (\<lambda>field. sr_type_name field = Some ''Sysvar'') (document_fields doc)))"

definition replace_invalid_sysvar_action ::
  "parsed_document \<Rightarrow> url \<Rightarrow> diagnostic \<Rightarrow> snippet_store \<Rightarrow> code_action option \<times> snippet_store" where
  "replace_invalid_sysvar_action doc uri d snippets =
     (case invalid_sysvar_replacement doc d of
        None \<Rightarrow> (None, snippets)
      | Some (field, replacement, r) \<Rightarrow>
          let current = (if sr_generic_type_names field = [] then ''current type''
                         else last (sr_generic_type_names field)) in
          emit_action (Some (r, replacement)) (\<lambda>edit.
            quickfix_action (''Replace `'' @ current @ ''` with sysvar `'' @ replacement @ ''`'') d uri edit True
              [(''anchorAction'', JString ''replace-invalid-sysvar''), (''account'', JString (sr_name field)),
               (''replacement'', JString replacement), (''generatedFrom'', JString ''lang/src/lib.rs'')]) snippets)"

definition wants_type_replacement :: "diagnostic \<Rightarrow> bool" where
  "wants_type_replacement d \<longleftrightarrow>
     seagrass_code d \<in> Some ` {''anchor-security-signer'', ''anchor-security-sysvar'', ''anchor-security-cpi-program'',
       ''anchor-constraint-shape'', ''anchor-syn''} \<and>
     diagnostic_quickfix d = Some ''replace-account-type''"

definition wants_sysvar_replacement :: "diagnostic \<Rightarrow> bool" where
  "wants_sysvar_replacement d \<longleftrightarrow>
     seagrass_code d = Some ''anchor-syn'' \<and>
     (str_contains ''invalid sysvar provided'' (d_message d) \<or> diagnostic_quickfix d = Some ''replace-invalid-sysvar'')"

definition wants_owner_constraint :: "diagnostic \<Rightarrow> bool" where
  "wants_owner_constraint d \<longleftrightarrow>
     seagrass_code d = Some ''anchor-security-owner-check'' \<and> diagnostic_quickfix d = Some ''add-owner-constraint''"

definition security_code_actions ::
  "parsed_document \<Rightarrow> url \<Rightarrow> diagnostic list \<Rightarrow> snippet_store \<Rightarrow> code_action list \<times> snippet_store" where
  "security_code_actions doc uri ds snippets =
     (let (types, snippets) = filter_map_store (replace_account_type_action uri)
            (filter wants_type_replacement ds) snippets;
          (sysvars, snippets) = filter_map_store (replace_invalid_sysvar_action doc uri)
            (filter wants_sysvar_replacement ds) snippets;
          (owners, snippets) = filter_map_store (owner_constraint_action doc uri)
            (filter wants_owner_constraint ds) snippets;
          (edits, snippets) = filter_map_store (security_edit_action doc uri) ds snippets in
      (types @ sysvars @ owners @ edits @ List.map_filter security_guidance_action ds, snippets))"

subsection \<open>Guards stand before the statement\<close>

definition GUARDS :: "string list" where
  "GUARDS = [''add-signer-check'', ''add-writable-check'', ''add-program-id-check'', ''use-checked-data-access'',
     ''add-owner-check'', ''add-discriminator-check'']"

lemma guard_shape:
  assumes "quickfix \<in> set GUARDS" "security_edit doc d quickfix = Some (title, t)"
  obtains check error where "t = (point_range (start_line d) 0, guard_line (indent_at doc (start_line d)) check error)"
  using assms
  by (auto simp: GUARDS_def security_edit_def signer_guard_edit_def writable_guard_edit_def program_id_guard_edit_def
      bounds_guard_edit_def native_owner_guard_edit_def native_discriminator_guard_edit_def insert_line_edit_def Let_def
      bind_eq_Some_conv)

lemma line_start_offset:
  "unat l < length (split_inclusive source) \<Longrightarrow>
     byte_offset_at source \<lparr>pos_line = l, pos_character = 0\<rparr> =
       Some (length (concat (take (unat l) (split_inclusive source))))"
  by (simp add: byte_offset_at_def offset_at_eq Let_def byte_offset_for_character_def)

text \<open>A guard is put on a line of its own right before the line of the statement it guards, with the
  indentation of that line; no other text changes.\<close>

theorem guard_lands:
  assumes "utf8 (pd_source doc)" "line_at (pd_source doc) (unat (start_line d)) = Some line"
    and "quickfix \<in> set GUARDS" "security_edit doc d quickfix = Some (title, t)"
  shows "\<exists>pre post check error. pd_source doc = pre @ line @ post \<and> (pre = [] \<or> last pre = NEWLINE) \<and>
    snd t = guard_line (line_indent line) check error \<and>
    (let edit = fst (emit_template t snippets) in
     apply_content_change (pd_source doc) \<lparr>change_range = Some (te_range edit), change_text = te_new_text edit\<rparr> =
       Inr (pre @ te_new_text edit @ line @ post))"
proof -
  let ?s = "pd_source doc"
  from guard_shape [OF assms(3,4)] obtain check error where
    t: "t = (point_range (start_line d) 0, guard_line (indent_at doc (start_line d)) check error)" .
  from line_at_split [OF assms(2)] obtain pre terminator b where split: "?s = pre @ line @ terminator @ b"
      "pre = [] \<or> last pre = NEWLINE" "pre = concat (take (unat (start_line d)) (split_inclusive ?s))"
      "unat (start_line d) < length (split_inclusive ?s)" by metis
  have offset: "byte_offset_at ?s (range_start (point_range (start_line d) 0)) = Some (length pre)"
    using line_start_offset [OF split(4)] split(3) by (simp add: point_range_def)
  then have "is_char_boundary ?s (length pre)" using byte_offset_at_split [OF assms(1)] by blast
  then have "apply_content_change ?s \<lparr>change_range = Some (point_range (start_line d) 0), change_text = x\<rparr> =
      Inr (take (length pre) ?s @ x @ drop (length pre) ?s)" for x
    using point_change [OF offset] by (simp add: point_range_def)
  then have "apply_content_change ?s \<lparr>change_range = Some (point_range (start_line d) 0), change_text = x\<rparr> =
      Inr (pre @ x @ line @ terminator @ b)" for x
    by (simp add: split(1))
  moreover have "indent_at doc (start_line d) = line_indent line" by (simp add: indent_at_def assms(2))
  ultimately show ?thesis
    using split(1,2) t
    by (intro exI [of _ pre] exI [of _ "terminator @ b"] exI [of _ check] exI [of _ error])
      (simp add: emit_template_def snippet_text_edit_def Let_def)
qed

subsection \<open>The decoded account is recognised\<close>

lemma split_at_none: "\<forall>c \<in> set b. \<not> p c \<Longrightarrow> split_at p b = [b]"
  by (induction b) auto

lemma split_at_last:
  "a = [] \<or> p (last a) \<Longrightarrow> \<forall>c \<in> set b. \<not> p c \<Longrightarrow>
     \<exists>ps. split_at p (a @ b) = ps @ [b] \<and> (a \<noteq> [] \<longrightarrow> ps \<noteq> [])"
proof (induction a)
  case Nil
  then show ?case by (simp add: split_at_none)
next
  case (Cons c a)
  show ?case
  proof (cases "a = []")
    case True
    with Cons.prems show ?thesis by (intro exI [of _ "[[]]"]) (simp add: split_at_none)
  next
    case False
    with Cons obtain ps where "split_at p (a @ b) = ps @ [b]" "ps \<noteq> []" by auto
    then show ?thesis
      by (cases "p c"; cases ps) (auto intro: exI [of _ "[] # ps"])
  qed
qed

lemma ident_word: "list_all ident_char s \<Longrightarrow> list_all word_char s"
  by (auto simp: list_all_iff ident_char_def word_char_def)

lemma ident_none: "list_all ident_char s \<Longrightarrow> \<not> ident_char c \<Longrightarrow> c \<notin> set s"
  by (auto simp: list_all_iff)

lemma not_ident: "\<not> ident_char CHR '':''" "\<not> ident_char CHR ''(''" "\<not> ident_char CHR '')''" "\<not> ident_char CHR ''[''"
  "\<not> ident_char CHR '']''" "\<not> ident_char CHR ''{''" "\<not> ident_char CHR ''}''" "\<not> ident_char CHR '',''"
  "\<not> ident_char CHR ''&''"
  by code_simp+

lemma trim_ident: "list_all ident_char s \<Longrightarrow> trim s = s"
  by (intro trim_word ident_word)

lemma ident_path_segment: "is_ascii_identifier s \<Longrightarrow> terminal_rust_path_segment s = Some s"
proof -
  assume s: "is_ascii_identifier s"
  then have chars: "list_all ident_char s" using is_ascii_identifier_chars by blast
  then have "str_rfind ''::'' s = None" by (intro str_rfind_absent ident_none not_ident)
  with s trim_ident [OF chars] show ?thesis by (simp add: terminal_rust_path_segment_def rsplit_once_def)
qed

lemma first_argument_plain:
  "\<forall>c \<in> set s. c \<notin> {CHR ''('', CHR ''['', CHR ''{'', CHR '')'', CHR '']'', CHR ''}'', CHR '',''} \<Longrightarrow>
     first_argument_loop 0 read s = non_empty_trimmed (read @ s)"
  by (induction s arbitrary: read) simp_all

lemma closing_paren_plain:
  "\<forall>c \<in> set s. c \<noteq> CHR ''('' \<and> c \<noteq> CHR '')'' \<Longrightarrow>
     closing_paren_loop (Suc 0) i (s @ CHR '')'' # post) = Some (i + length s)"
  by (induction s arbitrary: i) auto

lemma call_arguments_plain:
  assumes "ascii (head @ CHR ''('' # a @ CHR '')'' # post)" "\<forall>c \<in> set a. c \<noteq> CHR ''('' \<and> c \<noteq> CHR '')''"
  shows "call_arguments_after (head @ CHR ''('' # a @ CHR '')'' # post) (length head) = Some a"
proof -
  let ?line = "head @ CHR ''('' # a @ CHR '')'' # post"
  have tail: "str_get (length head) (length ?line) ?line = Some (CHR ''('' # a @ CHR '')'' # post)"
    using ascii_str_get [OF assms(1), of "length head" "length ?line"] by simp
  have inner: "str_get (length head + 1) (length head + 1 + length a) ?line = Some a"
    using ascii_str_get [OF assms(1), of "length head + 1" "length head + 1 + length a"] by simp
  have "closing_paren_loop 0 (length head) (CHR ''('' # a @ CHR '')'' # post) = Some (length head + 1 + length a)"
    using closing_paren_plain [OF assms(2), of "length head + 1" post] by simp
  with tail have close: "matching_closing_paren ?line (length head) = Some (length head + 1 + length a)"
    unfolding matching_closing_paren_def by (simp only: bind.simps)
  have "str_find ''('' (CHR ''('' # a @ CHR '')'' # post) = Some 0" by simp
  with tail close inner show ?thesis
    unfolding call_arguments_after_def by (simp only: bind.simps option.map add_0)
qed

text \<open>In a line that decodes an account with \<open>T::try_from_slice(&x)\<close>, the guard is for the type \<open>T\<close>
  and the bytes \<open>x\<close>.\<close>

theorem guard_evidence_recognised:
  assumes "is_ascii_identifier T" "is_ascii_identifier x" "ascii pre" "ascii post"
    and "CHR '':'' \<notin> set pre" "pre = [] \<or> \<not> word_char (last pre)"
  shows "discriminator_guard_evidence (pre @ T @ ''::try_from_slice(&'' @ x @ '')'' @ post) =
    Some \<lparr>ge_account_type = T, ge_data_expression = x\<rparr>"
proof -
  let ?marker = "''::try_from_slice''"
  let ?line = "pre @ T @ ''::try_from_slice(&'' @ x @ '')'' @ post"
  have T: "T \<noteq> []" "list_all ident_char T" and x: "x \<noteq> []" "list_all ident_char x"
    using assms(1,2) is_ascii_identifier_chars by blast+
  have ident_ascii: "list_all ident_char s \<Longrightarrow> ascii s" for s
    using ident_word [of s] word_char_visible by (auto simp: list_all_iff ascii_def visible_def)
  have ascii: "ascii ?line" using assms(3,4) ident_ascii [OF T(2)] ident_ascii [OF x(2)] by (simp add: ascii_def byte_def)
  have "CHR '':'' \<notin> set (pre @ T)" using assms(5) ident_none [OF T(2) not_ident(1)] by simp
  from str_find_marker [OF this, of "'':try_from_slice''" "''(&'' @ x @ '')'' @ post"]
  have marker: "str_find ?marker ?line = Some (length (pre @ T))" by simp
  have "account_type_before_marker ?line (length (pre @ T)) = Some T"
  proof -
    have "trim_end (pre @ T) = pre @ T"
      using T ident_word [OF T(2)] word_char_visible by (intro trim_end_id visible_not_ws_back) (auto simp: list_all_iff)
    moreover obtain ps where "split_at (\<lambda>c. \<not> word_char c) (pre @ T) = ps @ [T]"
      using split_at_last [of pre "\<lambda>c. \<not> word_char c" T] assms(6) ident_word [OF T(2)] by (auto simp: list_all_iff)
    ultimately show ?thesis
      using ascii_str_get [OF ascii, of 0 "length (pre @ T)"] T(1) ident_path_segment [OF assms(1)]
      by (simp add: account_type_before_marker_def)
  qed
  then have call: "discriminator_deserializer_call ?line = Some (T, length (pre @ T @ ?marker))"
    using marker by (simp add: discriminator_deserializer_call_def DISCRIMINATOR_DESERIALIZER_MARKERS_def)
  let ?head = "pre @ T @ ?marker"
  have line: "?line = ?head @ ''(&'' @ x @ '')'' @ post" by simp
  have "\<forall>c \<in> set (CHR ''&'' # x). c \<noteq> CHR ''('' \<and> c \<noteq> CHR '')''"
    using ident_none [OF x(2)] not_ident by auto
  from call_arguments_plain [OF _ this, of ?head post]
  have arguments: "call_arguments_after ?line (length ?head) = Some (CHR ''&'' # x)"
    using ascii line by simp
  have amp: "visible CHR ''&''" by (simp add: visible_def byte_def)
  have visible_x: "visible (last x)" using x ident_word [OF x(2)] word_char_visible by (auto simp: list_all_iff)
  have solid: "trim (CHR ''&'' # x) = CHR ''&'' # x"
    using x(1) amp visible_x by (intro trim_solid) (simp add: solid_def)
  have "first_call_argument (CHR ''&'' # x) = Some (CHR ''&'' # x)"
  proof -
    have "\<forall>c \<in> set (CHR ''&'' # x). c \<notin> {CHR ''('', CHR ''['', CHR ''{'', CHR '')'', CHR '']'', CHR ''}'', CHR '',''}"
      using ident_none [OF x(2)] not_ident by auto
    from first_argument_plain [OF this, of "[]"] solid show ?thesis by (simp add: first_call_argument_def non_empty_trimmed_def)
  qed
  moreover have "safe_discriminator_data_expression (CHR ''&'' # x) = Some x"
  proof -
    have "strip_references x = x"
      using ident_none [OF x(2) not_ident(9)] by (subst strip_references.simps) (auto split: list.split)
    then have "strip_references (CHR ''&'' # x) = x"
      using trim_start_word [OF ident_word [OF x(2)]] by (subst strip_references.simps) simp
    moreover have "split_once ''['' x = None"
      using str_find_no_char [OF ident_none [OF x(2) not_ident(4)], of "[]"] by (simp add: split_once_def)
    ultimately show ?thesis using assms(2) solid by (simp add: safe_discriminator_data_expression_def)
  qed
  ultimately show ?thesis
    using call arguments by (simp add: discriminator_guard_evidence_def or_else_def)
qed

end
